(* ===== verification/Prelude.thy ===== *)
theory Prelude
  imports Main "HOL-Library.AList" "HOL-Library.Sublist" "HOL-Library.Char_ord"
    "HOL-Library.List_Lexorder"
begin

text \<open>
  Shared vocabulary of the development: Go's error values, its maps, its clock and the part of
  the \<open>strings\<close> and \<open>slices\<close> packages the broker uses, with the lemmas the component theories
  share.

  \<^item> A Go \<open>string\<close> is a sequence of bytes, here \<^typ>\<open>string\<close> (a list of 8-bit characters), so
    \<open>len\<close> is \<^const>\<open>length\<close> and \<open><\<close> is the bytewise lexicographic order of
    \<open>List_Lexorder\<close> and \<open>Char_ord\<close>.
  \<^item> A Go \<open>map\<close> is an association list whose keys are distinct (\<open>gomap\<close>). \<open>range\<close> visits it
    in the list's order. Go leaves that order open, so a theorem about every list is a theorem
    about every order.
  \<^item> An \<open>error\<close> is a value of \<open>error\<close> below; a fallible Go function returns a sum with the
    error on the left.
  \<^item> \<open>time.Time\<close> is an \<^typ>\<open>int\<close> of nanoseconds since the Unix epoch, \<open>time.Duration\<close> an
    \<^typ>\<open>int\<close> of nanoseconds; \<open>time_sub\<close> saturates the way \<open>Time.Sub\<close> does.
\<close>

section \<open>Named collections\<close>

named_theorems wf_intros \<open>introduction rules of well-formedness predicates\<close>
named_theorems go_simps \<open>defining equations of the Go library operations\<close>

section \<open>Errors\<close>

text \<open>
  \<open>Errorf f as\<close> is \<open>fmt.Errorf(f, as...)\<close> or \<open>errors.New(f)\<close>, \<open>Wrapf f as e\<close> the same with
  \<open>%w\<close> applied to \<open>e\<close>; \<open>Sentinel\<close> is a package-level error variable; \<open>Public\<close> is
  \<open>broker.PublicError\<close>; \<open>Joined\<close> is an error that wraps two (\<open>errors.Join\<close> or two \<open>%w\<close>). The
  formatted text is kept unevaluated.
\<close>

datatype error =
    Errorf string "string list"
  | Wrapf string "string list" error
  | Sentinel string
  | Canceled
  | DeadlineExceeded
  | Public int string string "error option"
  | Joined error error

type_synonym 'a result = "error + 'a"

fun errors_is :: "error \<Rightarrow> error \<Rightarrow> bool" where
  "errors_is (Wrapf f as e) t = (Wrapf f as e = t \<or> errors_is e t)"
| "errors_is (Public s m c (Some e)) t = (Public s m c (Some e) = t \<or> errors_is e t)"
| "errors_is (Joined d e) t = (Joined d e = t \<or> errors_is d t \<or> errors_is e t)"
| "errors_is e t = (e = t)"

text \<open>\<open>errors.As(err, &public)\<close>: the first \<open>PublicError\<close> of the unwrap chain.\<close>

fun as_public :: "error \<Rightarrow> (int \<times> string \<times> string) option" where
  "as_public (Public s m c e) = Some (s, m, c)"
| "as_public (Wrapf f as e) = as_public e"
| "as_public (Joined d e) = (case as_public d of Some p \<Rightarrow> Some p | None \<Rightarrow> as_public e)"
| "as_public _ = None"

definition is_ok :: "'e + 'a \<Rightarrow> bool" where
  "is_ok r \<longleftrightarrow> (case r of Inl _ \<Rightarrow> False | Inr _ \<Rightarrow> True)"

lemma is_ok_simps [simp]: "is_ok (Inr x)" "\<not> is_ok (Inl e)"
  by (simp_all add: is_ok_def)

lemma is_okE [elim]:
  assumes "is_ok r"
  obtains x where "r = Inr x"
  using assms by (cases r) auto

lemma is_ok_iff: "is_ok r \<longleftrightarrow> (\<exists>x. r = Inr x)"
  by (cases r) auto

lemma map_sum_Inr_iff [simp]: "map_sum f g r = Inr y \<longleftrightarrow> (\<exists>x. r = Inr x \<and> y = g x)"
  by (cases r) auto

lemma map_sum_Inl_iff [simp]: "map_sum f g r = Inl y \<longleftrightarrow> (\<exists>x. r = Inl x \<and> y = f x)"
  by (cases r) auto

section \<open>Maps\<close>

type_synonym ('k, 'v) gomap = "('k \<times> 'v) list"

abbreviation wf_map :: "('k, 'v) gomap \<Rightarrow> bool" where
  "wf_map m \<equiv> distinct (map fst m)"

text \<open>Lookups stay lookups: the library's rewriting of them to membership is switched off.\<close>

declare map_of_eq_Some_iff [simp del] Some_eq_map_of_iff [simp del]

lemma map_of_update [simp]: "map_of (AList.update k v m) = (map_of m)(k \<mapsto> v)"
  by (rule update_conv')

lemma map_of_delete [simp]: "map_of (AList.delete k m) = (map_of m)(k := None)"
  by (rule delete_conv')

lemma wf_map_update [simp, wf_intros]: "wf_map m \<Longrightarrow> wf_map (AList.update k v m)"
  by (rule distinct_update)

lemma wf_map_delete [simp, wf_intros]: "wf_map m \<Longrightarrow> wf_map (AList.delete k m)"
  by (rule distinct_delete)

lemma length_update_new:
  "map_of m k = None \<Longrightarrow> length (AList.update k v m) = Suc (length m)"
  by (induction m) (auto split: if_splits)

lemma length_update_old:
  "map_of m k \<noteq> None \<Longrightarrow> length (AList.update k v m) = length m"
  by (induction m) (auto split: if_splits)

lemma length_update_le: "length (AList.update k v m) \<le> Suc (length m)"
  by (cases "map_of m k = None") (simp_all add: length_update_new length_update_old)

lemma length_delete_le: "length (AList.delete k m) \<le> length m"
  by (simp add: AList.delete_eq)

lemma length_delete_present: "map_of m k \<noteq> None \<Longrightarrow> length (AList.delete k m) < length m"
proof (induction m)
  case (Cons x m)
  then show ?case
    using length_delete_le[of k m] by (cases x) (auto split: if_splits)
qed simp

lemma wf_map_filter [simp, wf_intros]: "wf_map m \<Longrightarrow> wf_map (filter P m)"
  by (induction m) auto

lemma map_of_filter_wf:
  "wf_map m \<Longrightarrow> map_of (filter P m) k = (case map_of m k of None \<Rightarrow> None
     | Some v \<Rightarrow> if P (k, v) then Some v else None)"
proof (induction m)
  case (Cons x m)
  then show ?case
    by (cases x) (auto split: option.splits dest: map_of_SomeD simp: image_iff rev_image_eqI
        map_of_eq_None_iff)
qed simp

lemma length_le_card_keys: "wf_map m \<Longrightarrow> length m = card (dom (map_of m))"
  by (metis dom_map_of_conv_image_fst distinct_card length_map list.set_map)

section \<open>Strings and slices\<close>

text \<open>\<open>strings.ContainsAny\<close> on ASCII sets, \<open>strings.Split\<close> on one byte, \<open>strings.Join\<close>.\<close>

definition contains_any :: "string \<Rightarrow> string \<Rightarrow> bool" where
  "contains_any s cs \<longleftrightarrow> list_ex (\<lambda>c. List.member cs c) s"

lemma contains_any_iff: "contains_any s cs \<longleftrightarrow> set s \<inter> set cs \<noteq> {}"
  by (auto simp: contains_any_def list_ex_iff)

definition line_breaks :: string where
  "line_breaks = [CHR 0x0D, CHR 0x0A, CHR 0x00]"

fun split_on :: "'a \<Rightarrow> 'a list \<Rightarrow> 'a list list" where
  "split_on sep [] = [[]]"
| "split_on sep (c # cs) =
     (if c = sep then [] # split_on sep cs
      else (case split_on sep cs of [] \<Rightarrow> [[c]] | w # ws \<Rightarrow> (c # w) # ws))"

fun join_with :: "'a list \<Rightarrow> 'a list list \<Rightarrow> 'a list" where
  "join_with sep [] = []"
| "join_with sep [w] = w"
| "join_with sep (w # v # ws) = w @ sep @ join_with sep (v # ws)"

lemma split_on_nonempty [simp]: "split_on sep s \<noteq> []"
  by (induction s) (auto split: list.splits)

lemma split_on_no_sep: "sep \<notin> set s \<Longrightarrow> split_on sep s = [s]"
  by (induction s) auto

lemma split_on_append:
  "sep \<notin> set w \<Longrightarrow> split_on sep (w @ sep # s) = w # split_on sep s"
  by (induction w) auto

lemma split_on_join:
  assumes "ws \<noteq> []" and "\<forall>w\<in>set ws. sep \<notin> set w"
  shows "split_on sep (join_with [sep] ws) = ws"
  using assms
proof (induction ws)
  case Nil
  then show ?case by simp
next
  case (Cons w ws)
  then show ?case by (cases ws) (auto simp: split_on_no_sep split_on_append)
qed

lemma join_split_on [simp]: "join_with [sep] (split_on sep s) = s"
proof (induction s)
  case (Cons c cs)
  then show ?case
    by (cases "split_on sep cs"; cases "tl (split_on sep cs)") auto
qed simp

lemma split_on_pieces: "w \<in> set (split_on sep s) \<Longrightarrow> sep \<notin> set w"
  by (induction s arbitrary: w) (auto split: list.splits if_splits)

text \<open>
  \<open>slices.Compact\<close> keeps the first of each run of equal elements. After \<open>slices.Sort\<close> its
  length tells duplicates apart.
\<close>

fun compact :: "'a list \<Rightarrow> 'a list" where
  "compact [] = []"
| "compact [x] = [x]"
| "compact (x # y # xs) = (if x = y then compact (y # xs) else x # compact (y # xs))"

lemma set_compact [simp]: "set (compact xs) = set xs"
  by (induction xs rule: compact.induct) auto

lemma compact_sorted_distinct: "sorted xs \<Longrightarrow> distinct (compact xs)"
  by (induction xs rule: compact.induct) (auto simp: order.antisym)

lemma length_compact_le: "length (compact xs) \<le> length xs"
  by (induction xs rule: compact.induct) auto

lemma compact_length_distinct:
  assumes "sorted xs" and "length (compact xs) = length xs"
  shows "distinct xs"
proof -
  have "card (set xs) = length xs"
    using distinct_card[OF compact_sorted_distinct[OF assms(1)]] assms(2) by simp
  then show ?thesis by (rule card_distinct)
qed

lemma compact_distinct [simp]: "distinct xs \<Longrightarrow> compact xs = xs"
  by (induction xs rule: compact.induct) auto

section \<open>The clock\<close>

definition int64_min :: int where "int64_min = - (2 ^ 63)"
definition int64_max :: int where "int64_max = 2 ^ 63 - 1"

text \<open>\<open>Time.Sub\<close> clamps the difference to the range of \<open>time.Duration\<close>.\<close>

definition time_sub :: "int \<Rightarrow> int \<Rightarrow> int" where
  "time_sub a b = max int64_min (min int64_max (a - b))"

text \<open>The zero \<open>time.Time\<close>, 1 January of year 1.\<close>

definition zero_time :: int where "zero_time = -62135596800000000000"

definition second :: int where "second = 1000000000"
definition minute :: int where "minute = 60 * second"

lemma time_sub_id: "int64_min \<le> a - b \<Longrightarrow> a - b \<le> int64_max \<Longrightarrow> time_sub a b = a - b"
  by (simp add: time_sub_def)

end
