(* ===== verification/Text.thy ===== *)
theory Text
  imports Prelude
begin

text \<open>
  The text functions of Go's standard library that the validators call: UTF-8 decoding
  (\<open>unicode/utf8\<close>, \<open>range\<close> over a string), \<open>unicode.IsControl\<close>, \<open>strconv.ParseUint\<close> and
  \<open>FormatUint\<close> in base 10, and \<open>path.Clean\<close> with \<open>path.IsAbs\<close> and \<open>filepath.Join\<close>. A string
  is its bytes; a rune is a \<^typ>\<open>nat\<close>.
\<close>

section \<open>UTF-8\<close>

abbreviation byte :: "char \<Rightarrow> nat" where
  "byte c \<equiv> of_char c"

definition between :: "nat \<Rightarrow> nat \<Rightarrow> char \<Rightarrow> bool" where
  "between lo hi c \<longleftrightarrow> lo \<le> byte c \<and> byte c \<le> hi"

definition rune_error :: nat where
  "rune_error = 0xFFFD"

text \<open>
  \<open>utf8.DecodeRune\<close>: the rune at the front and its width. A malformed or truncated sequence is
  \<open>(U+FFFD, 1)\<close>; the accepted second bytes depend on the first (no overlong forms, no
  surrogates, nothing above U+10FFFF).
\<close>

definition second_range :: "nat \<Rightarrow> nat \<times> nat" where
  "second_range b =
     (if b = 0xE0 then (0xA0, 0xBF) else if b = 0xED then (0x80, 0x9F)
      else if b = 0xF0 then (0x90, 0xBF) else if b = 0xF4 then (0x80, 0x8F)
      else (0x80, 0xBF))"

definition decode2 :: "nat \<Rightarrow> string \<Rightarrow> nat \<times> nat" where
  "decode2 b cs = (case cs of
     c1 # _ \<Rightarrow> if between 0x80 0xBF c1 then ((b mod 32) * 64 + byte c1 mod 64, 2) else (rune_error, 1)
   | [] \<Rightarrow> (rune_error, 1))"

definition decode3 :: "nat \<Rightarrow> string \<Rightarrow> nat \<times> nat" where
  "decode3 b cs = (case cs of
     c1 # c2 # _ \<Rightarrow>
       if (case second_range b of (lo, hi) \<Rightarrow> between lo hi c1) \<and> between 0x80 0xBF c2
       then ((b mod 16) * 4096 + (byte c1 mod 64) * 64 + byte c2 mod 64, 3) else (rune_error, 1)
   | _ \<Rightarrow> (rune_error, 1))"

definition decode4 :: "nat \<Rightarrow> string \<Rightarrow> nat \<times> nat" where
  "decode4 b cs = (case cs of
     c1 # c2 # c3 # _ \<Rightarrow>
       if (case second_range b of (lo, hi) \<Rightarrow> between lo hi c1) \<and> between 0x80 0xBF c2 \<and>
          between 0x80 0xBF c3
       then ((b mod 8) * 262144 + (byte c1 mod 64) * 4096 + (byte c2 mod 64) * 64 + byte c3 mod 64, 4)
       else (rune_error, 1)
   | _ \<Rightarrow> (rune_error, 1))"

definition decode_rune :: "char \<Rightarrow> string \<Rightarrow> nat \<times> nat" where
  "decode_rune c cs =
     (let b = byte c in
      if b < 0x80 then (b, 1)
      else if 0xC2 \<le> b \<and> b \<le> 0xDF then decode2 b cs
      else if 0xE0 \<le> b \<and> b \<le> 0xEF then decode3 b cs
      else if 0xF0 \<le> b \<and> b \<le> 0xF4 then decode4 b cs
      else (rune_error, 1))"

function decode_all :: "string \<Rightarrow> (nat \<times> nat) list" where
  "decode_all [] = []"
| "decode_all (c # cs) = decode_rune c cs # decode_all (drop (snd (decode_rune c cs) - 1) cs)"
  by pat_completeness auto
termination by (relation "measure length") auto

definition runes :: "string \<Rightarrow> nat list" where
  "runes s = map fst (decode_all s)"

definition valid_string :: "string \<Rightarrow> bool" where
  "valid_string s \<longleftrightarrow> \<not> list_ex (\<lambda>r. r = (rune_error, 1)) (decode_all s)"

definition is_control :: "nat \<Rightarrow> bool" where
  "is_control r \<longleftrightarrow> r < 0x20 \<or> (0x7F \<le> r \<and> r < 0xA0)"

text \<open>A byte below 0x80 is never part of a longer sequence: it is a rune of its own.\<close>

lemmas decode_defs = decode_rune_def decode2_def decode3_def decode4_def

lemma decode_rune_tail:
  assumes "x \<in> set (take (snd (decode_rune c cs) - 1) cs)"
  shows "128 \<le> byte x"
proof -
  have "128 \<le> fst (second_range (byte c))" by (simp add: second_range_def)
  then show ?thesis
    using assms by (auto simp: decode_defs between_def Let_def case_prod_beta
        split: list.splits if_splits)
qed

lemma ascii_is_rune: "x \<in> set s \<Longrightarrow> byte x < 128 \<Longrightarrow> byte x \<in> set (runes s)"
proof (induction s rule: decode_all.induct)
  case (2 c cs)
  let ?n = "snd (decode_rune c cs) - 1"
  show ?case
  proof (cases "x = c")
    case True
    then have "decode_rune c cs = (byte x, 1)" using 2 by (simp add: decode_rune_def Let_def)
    then show ?thesis by (simp add: runes_def)
  next
    case False
    then have "x \<in> set (take ?n cs) \<or> x \<in> set (drop ?n cs)"
      using 2 by (metis append_take_drop_id set_ConsD set_append UnE)
    then have "x \<in> set (drop ?n cs)" using decode_rune_tail[of x c cs] "2.prems"(2) by fastforce
    with 2 show ?thesis by (simp add: runes_def)
  qed
qed simp


text \<open>A string of bytes below 0x80 is valid and its runes are its bytes.\<close>

lemma decode_all_ascii:
  "\<forall>c\<in>set s. byte c < 128 \<Longrightarrow> decode_all s = map (\<lambda>c. (byte c, 1)) s"
  by (induction s rule: decode_all.induct) (auto simp: decode_rune_def Let_def)

lemma runes_ascii: "\<forall>c\<in>set s. byte c < 128 \<Longrightarrow> runes s = map byte s"
  by (simp add: runes_def decode_all_ascii comp_def)

lemma valid_string_ascii: "\<forall>c\<in>set s. byte c < 128 \<Longrightarrow> valid_string s"
  by (auto simp: valid_string_def decode_all_ascii list_ex_iff rune_error_def)

text \<open>Conversely a byte from 0x80 on never decodes to a rune below.\<close>

lemma second_byte_low: "128 + k \<le> x \<Longrightarrow> x \<le> 0xBF \<Longrightarrow> k \<le> x mod (64::nat)"
  using mod_if[of x 64] mod_if[of "x - 64" 64] mod_if[of "x - 128" 64] by (simp split: if_splits)

lemma decode_rune_high:
  assumes "128 \<le> byte c"
  shows "128 \<le> fst (decode_rune c cs)"
proof -
  let ?b = "byte c"
  have two: "128 \<le> fst (decode2 ?b cs)" if "0xC2 \<le> ?b" "?b \<le> 0xDF"
  proof -
    have "2 \<le> ?b mod 32" using that by presburger
    then show ?thesis by (auto simp: decode2_def rune_error_def split: list.splits)
  qed
  have three: "128 \<le> fst (decode3 ?b cs)" if "0xE0 \<le> ?b" "?b \<le> 0xEF"
  proof (cases "?b = 0xE0")
    case True
    have h: "128 \<le> (x mod 64) * 64 + y" if "0xA0 \<le> x" "x \<le> 0xBF" for x y :: nat
      using second_byte_low[of 2 x] that by simp
    show ?thesis using True h
      by (auto simp: decode3_def rune_error_def second_range_def between_def split: list.splits)
  next
    case False
    then have "1 \<le> ?b mod 16" using that by presburger
    then show ?thesis by (auto simp: decode3_def rune_error_def split: list.splits)
  qed
  have four: "128 \<le> fst (decode4 ?b cs)" if "0xF0 \<le> ?b" "?b \<le> 0xF4"
  proof (cases "?b = 0xF0")
    case True
    have h: "128 \<le> (x mod 64) * 4096 + y + z" if "0x90 \<le> x" "x \<le> 0xBF" for x y z :: nat
      using second_byte_low[of 1 x] that by simp
    show ?thesis using True h
      by (auto simp: decode4_def rune_error_def second_range_def between_def split: list.splits)
  next
    case False
    then have "1 \<le> ?b mod 8" using that by presburger
    then show ?thesis by (auto simp: decode4_def rune_error_def split: list.splits)
  qed
  show ?thesis using assms two three four by (auto simp: decode_rune_def Let_def rune_error_def)
qed

lemma low_runes_low: "(\<And>r. r \<in> set (runes s) \<Longrightarrow> r < 128) \<Longrightarrow> \<forall>c\<in>set s. byte c < 128"
proof (induction s rule: decode_all.induct)
  case (2 c cs)
  have "fst (decode_rune c cs) < 128" using "2.prems" by (simp add: runes_def)
  then have "byte c < 128" using decode_rune_high[of c cs] by linarith
  then have "snd (decode_rune c cs) = 1" by (simp add: decode_rune_def Let_def)
  with 2 \<open>byte c < 128\<close> show ?case by (simp add: runes_def)
qed simp

section \<open>White space and case\<close>

text \<open>\<open>strings.TrimSpace\<close> cuts Unicode white space at both ends.\<close>

definition is_space :: "nat \<Rightarrow> bool" where
  "is_space r \<longleftrightarrow> (0x09 \<le> r \<and> r \<le> 0x0D) \<or> r = 0x20 \<or> r = 0x85 \<or> r = 0xA0 \<or> r = 0x1680 \<or>
     (0x2000 \<le> r \<and> r \<le> 0x200A) \<or> r = 0x2028 \<or> r = 0x2029 \<or> r = 0x202F \<or> r = 0x205F \<or> r = 0x3000"

function chunks :: "string \<Rightarrow> (nat \<times> string) list" where
  "chunks [] = []"
| "chunks (c # cs) = (let (r, n) = decode_rune c cs in (r, c # take (n - 1) cs) # chunks (drop (n - 1) cs))"
  by pat_completeness auto
termination by (relation "measure length") auto

definition trim_space :: "string \<Rightarrow> string" where
  "trim_space s = concat (map snd (rev (dropWhile (\<lambda>c. is_space (fst c))
     (rev (dropWhile (\<lambda>c. is_space (fst c)) (chunks s))))))"

text \<open>\<open>strings.ToLower\<close>: on ASCII it is spelled out, on other strings \<open>lower\<close> is the Unicode mapping.\<close>

definition to_lower :: "(string \<Rightarrow> string) \<Rightarrow> string \<Rightarrow> string" where
  "to_lower lower s = (if list_all (\<lambda>c. byte c < 128) s
     then map (\<lambda>c. if between 0x41 0x5A c then char_of (byte c + 32) else c) s else lower s)"

section \<open>Searching\<close>

text \<open>\<open>strings.Cut\<close> at the first occurrence of one byte; \<open>None\<close> when there is none.\<close>

fun cut :: "char \<Rightarrow> string \<Rightarrow> (string \<times> string) option" where
  "cut sep [] = None"
| "cut sep (c # cs) = (if c = sep then Some ([], cs) else map_option (\<lambda>(a, b). (c # a, b)) (cut sep cs))"

text \<open>\<open>strings.Contains\<close>.\<close>

fun contains :: "string \<Rightarrow> string \<Rightarrow> bool" where
  "contains [] sub = (sub = [])"
| "contains (c # cs) sub = (prefix sub (c # cs) \<or> contains cs sub)"

section \<open>Decimal numbers\<close>

definition is_digit :: "char \<Rightarrow> bool" where
  "is_digit c \<longleftrightarrow> between 0x30 0x39 c"

definition digit_value :: "char \<Rightarrow> nat" where
  "digit_value c = byte c - 0x30"

definition digit_char :: "nat \<Rightarrow> char" where
  "digit_char n = char_of (0x30 + n)"

definition digits_value :: "string \<Rightarrow> nat" where
  "digits_value s = foldl (\<lambda>n c. 10 * n + digit_value c) 0 s"

text \<open>
  \<open>strconv.ParseUint(s, 10, bits)\<close>: digits only, at least one, value below \<open>2 ^ bits\<close>. Any
  other input is a syntax or range error, \<open>None\<close> here.
\<close>

definition parse_uint :: "nat \<Rightarrow> string \<Rightarrow> nat option" where
  "parse_uint bits s = (if s = [] \<or> \<not> list_all is_digit s then None
     else if digits_value s < 2 ^ bits then Some (digits_value s) else None)"

fun format_uint :: "nat \<Rightarrow> string" where
  "format_uint n = (if n < 10 then [digit_char n]
     else format_uint (n div 10) @ [digit_char (n mod 10)])"

declare format_uint.simps [simp del]

definition format_int :: "int \<Rightarrow> string" where
  "format_int i = (if i < 0 then CHR ''-'' # format_uint (nat (- i)) else format_uint (nat i))"

lemma is_digit_ascii: "is_digit c \<Longrightarrow> byte c < 128"
  by (simp add: is_digit_def between_def)

lemma digits_value_snoc [simp]: "digits_value (s @ [c]) = 10 * digits_value s + digit_value c"
  by (simp add: digits_value_def)

lemma byte_digit_char: "n < 10 \<Longrightarrow> byte (digit_char n) = 0x30 + n"
  by (simp add: digit_char_def)

lemma digit_char_digit [simp]: "n < 10 \<Longrightarrow> is_digit (digit_char n)"
  by (simp add: is_digit_def between_def byte_digit_char)

lemma digit_value_char [simp]: "n < 10 \<Longrightarrow> digit_value (digit_char n) = n"
  by (simp add: digit_value_def byte_digit_char)

lemma format_uint_digits: "list_all is_digit (format_uint n)"
proof (induction n rule: format_uint.induct)
  case (1 n)
  then show ?case by (cases "n < 10") (simp_all add: format_uint.simps[of n])
qed

lemma format_uint_nonempty [simp]: "format_uint n \<noteq> []"
  by (subst format_uint.simps) simp

lemma digits_value_format [simp]: "digits_value (format_uint n) = n"
proof (induction n rule: format_uint.induct)
  case (1 n)
  show ?case
  proof (cases "n < 10")
    case True
    then show ?thesis by (simp add: format_uint.simps[of n] digits_value_def)
  next
    case False
    then show ?thesis using 1 by (simp add: format_uint.simps[of n])
  qed
qed

lemma parse_format_uint [simp]: "n < 2 ^ bits \<Longrightarrow> parse_uint bits (format_uint n) = Some n"
  by (simp add: parse_uint_def format_uint_digits)

lemma parse_uint_Some:
  "parse_uint bits s = Some n \<Longrightarrow> n < 2 ^ bits \<and> s \<noteq> [] \<and> list_all is_digit s"
  by (auto simp: parse_uint_def split: if_splits)

section \<open>Slash-separated paths\<close>

definition slash :: char where "slash = CHR ''/''"

definition is_abs :: "string \<Rightarrow> bool" where
  "is_abs p \<longleftrightarrow> prefix ''/'' p"

text \<open>
  \<open>path.Clean\<close> on the components, with the components kept so far as a stack: empty components
  and \<open>.\<close> are dropped, \<open>..\<close> removes the last kept component, is dropped at the root, and is kept
  at the front of a relative path.
\<close>

definition clean_step :: "bool \<Rightarrow> string list \<Rightarrow> string \<Rightarrow> string list" where
  "clean_step rooted st w =
     (if w = [] \<or> w = ''.'' then st
      else if w = ''..'' then
        (case st of [] \<Rightarrow> if rooted then [] else [''..'']
         | v # vs \<Rightarrow> if v = ''..'' then ''..'' # st else vs)
      else w # st)"

definition path_clean :: "string \<Rightarrow> string" where
  "path_clean p = (if p = [] then ''.'' else
     (let rooted = is_abs p;
          body = join_with ''/'' (rev (foldl (clean_step rooted) [] (split_on slash p)))
      in if rooted then ''/'' @ body else if body = [] then ''.'' else body))"

definition path_join :: "string \<Rightarrow> string \<Rightarrow> string" where
  "path_join a b = (if a = [] \<and> b = [] then [] else if a = [] then path_clean b
     else if b = [] then path_clean a else path_clean (a @ ''/'' @ b))"

definition plain_component :: "string \<Rightarrow> bool" where
  "plain_component w \<longleftrightarrow> w \<noteq> [] \<and> w \<noteq> ''.'' \<and> w \<noteq> ''..''"

lemma clean_step_plain:
  "list_all plain_component st \<Longrightarrow> list_all plain_component (clean_step True st w)"
  by (auto simp: clean_step_def plain_component_def split: list.splits)

lemma clean_fold_plain:
  "list_all plain_component st \<Longrightarrow> list_all plain_component (foldl (clean_step True) st ws)"
  by (induction ws arbitrary: st) (simp_all add: clean_step_plain)

lemma clean_fold_pieces:
  "set (foldl (clean_step True) st ws) \<subseteq> set st \<union> set ws"
proof (induction ws arbitrary: st)
  case (Cons w ws)
  have "set (clean_step True st w) \<subseteq> set st \<union> {w}"
    by (auto simp: clean_step_def split: list.splits)
  with Cons[of "clean_step True st w"] show ?case by auto
qed simp

text \<open>
  A rooted path is either the root or a slash before plain components joined by slashes, once it
  is clean.
\<close>

lemma clean_abs_components:
  assumes "is_abs p" and "path_clean p = p"
  obtains ws where "p = ''/'' @ join_with ''/'' ws" and "list_all plain_component ws"
    and "list_all (\<lambda>w. slash \<notin> set w) ws"
proof -
  define ws where "ws = rev (foldl (clean_step True) [] (split_on slash p))"
  have "p \<noteq> []" using assms(1) by (auto simp: is_abs_def)
  then have "p = ''/'' @ join_with ''/'' ws"
    using assms by (simp add: path_clean_def Let_def ws_def)
  moreover have "list_all plain_component ws"
    using clean_fold_plain[of "[]"] by (simp add: ws_def)
  moreover have "list_all (\<lambda>w. slash \<notin> set w) ws"
    using clean_fold_pieces[of "[]" "split_on slash p"] split_on_pieces[of _ slash p]
    by (auto simp: ws_def list_all_iff)
  ultimately show ?thesis using that by blast
qed

end
