(* ===== verification/Remote_Definitions.thy ===== *)
theory Remote_Definitions
  imports Text
begin

text \<open>
  The data of managed remote mounts and the validators every field passes before it reaches a
  unit file or a path (\<open>internal/modules/storage/remote.go\<close>). A validator returns the error, or
  \<open>None\<close> for Go's \<open>nil\<close>. \<open>net.ParseIP\<close> is modelled up to acceptance, which is all the code
  asks of it.
\<close>

section \<open>Data\<close>

definition LegacyManifestFormatVersion :: int where "LegacyManifestFormatVersion = 1"
definition ManifestFormatVersion :: int where "ManifestFormatVersion = 2"

definition errInvalidDefinitionID :: error where
  "errInvalidDefinitionID = Sentinel ''invalid definition ID''"
definition errInvalidEntropy :: error where
  "errInvalidEntropy = Sentinel ''invalid definition ID entropy''"
definition errInvalidHost :: error where "errInvalidHost = Sentinel ''invalid host''"
definition errInvalidNFSExport :: error where "errInvalidNFSExport = Sentinel ''invalid NFS export''"
definition errInvalidNFSHost :: error where "errInvalidNFSHost = Sentinel ''invalid NFS host''"
definition errInvalidNFSVersion :: error where
  "errInvalidNFSVersion = Sentinel ''invalid NFS version''"
definition errInvalidPassword :: error where "errInvalidPassword = Sentinel ''invalid password''"
definition errInvalidProtocol :: error where "errInvalidProtocol = Sentinel ''invalid protocol''"
definition errInvalidReadOnly :: error where
  "errInvalidReadOnly = Sentinel ''invalid read-only value''"
definition errInvalidSMBShare :: error where "errInvalidSMBShare = Sentinel ''invalid SMB share''"
definition errInvalidSMBOwnership :: error where
  "errInvalidSMBOwnership = Sentinel ''invalid SMB ownership''"
definition errInvalidSMBVersion :: error where
  "errInvalidSMBVersion = Sentinel ''invalid SMB version''"
definition errInvalidTarget :: error where "errInvalidTarget = Sentinel ''invalid target''"
definition errInvalidUsername :: error where "errInvalidUsername = Sentinel ''invalid username''"

record smb_ownership =
  own_UID :: string
  own_GID :: string

definition no_ownership :: smb_ownership where
  "no_ownership = \<lparr>own_UID = [], own_GID = []\<rparr>"

record create_request =
  req_Export :: string
  req_Host :: string
  req_ID :: string
  req_Password :: string
  req_Protocol :: string
  req_ReadOnly :: bool
  req_Server :: string
  req_Share :: string
  req_Target :: string
  req_Username :: string
  req_Version :: string
  req_SMBOwnership :: smb_ownership

record remote_definition =
  def_CreatedTarget :: bool
  def_Credential :: string
  def_Export :: string
  def_FormatVersion :: int
  def_Host :: string
  def_ID :: string
  def_Protocol :: string
  def_ProtocolVersion :: string
  def_ReadOnly :: bool
  def_Server :: string
  def_Share :: string
  def_State :: string
  def_Target :: string
  def_UnitName :: string
  def_Username :: string
  def_SMBOwnership :: smb_ownership

section \<open>Identifiers\<close>

definition hex_digit :: "nat \<Rightarrow> char" where
  "hex_digit n = (if n < 10 then char_of (0x30 + n) else char_of (0x61 + (n - 10)))"

text \<open>\<open>hex.EncodeToString\<close> and \<open>NewDefinitionID\<close>; \<open>random\<close> is what \<open>io.ReadFull\<close> delivered.\<close>

definition hex_encode :: "string \<Rightarrow> string" where
  "hex_encode s = concat (map (\<lambda>c. [hex_digit (byte c div 16), hex_digit (byte c mod 16)]) s)"

definition NewDefinitionID :: "string result \<Rightarrow> string result" where
  "NewDefinitionID random = (case random of Inl _ \<Rightarrow> Inl errInvalidEntropy
     | Inr bytes \<Rightarrow> Inr (hex_encode bytes))"

definition validText :: "string \<Rightarrow> bool" where
  "validText value \<longleftrightarrow> valid_string value"

definition hasControl :: "string \<Rightarrow> bool" where
  "hasControl value \<longleftrightarrow> list_ex is_control (runes value)"

definition rune_between :: "nat \<Rightarrow> nat \<Rightarrow> nat \<Rightarrow> bool" where
  "rune_between lo hi r \<longleftrightarrow> lo \<le> r \<and> r \<le> hi"

definition ValidateDefinitionID :: "string \<Rightarrow> error option" where
  "ValidateDefinitionID value =
     (if \<not> validText value \<or> length value \<noteq> 32 then Some errInvalidDefinitionID
      else if list_ex (\<lambda>r. \<not> rune_between 0x30 0x39 r \<and> \<not> rune_between 0x61 0x66 r) (runes value)
      then Some errInvalidDefinitionID
      else None)"

section \<open>Hosts\<close>

definition is_hex :: "char \<Rightarrow> bool" where
  "is_hex c \<longleftrightarrow> between 0x30 0x39 c \<or> between 0x61 0x66 c \<or> between 0x41 0x46 c"

text \<open>\<open>netip.parseIPv4Fields\<close>: four decimal fields up to 255 without leading zeros.\<close>

definition ipv4_field :: "string \<Rightarrow> bool" where
  "ipv4_field w \<longleftrightarrow> w \<noteq> [] \<and> list_all is_digit w \<and> (length w > 1 \<longrightarrow> hd w \<noteq> CHR ''0'') \<and>
     digits_value w \<le> 255"

definition parse_ipv4 :: "string \<Rightarrow> bool" where
  "parse_ipv4 s \<longleftrightarrow> (let ws = split_on (CHR ''.'') s in length ws = 4 \<and> list_all ipv4_field ws)"

text \<open>
  The loop of \<open>netip.parseIPv6\<close>: \<open>i\<close> counts 16-bit groups, \<open>ell\<close> says whether \<open>::\<close> was seen.
  After the loop the text must be used up, and eight groups must have been read unless an
  ellipsis stands for at least one.
\<close>

definition ipv6_end :: "nat \<Rightarrow> bool \<Rightarrow> string \<Rightarrow> bool" where
  "ipv6_end i ell s \<longleftrightarrow> s = [] \<and> (if i < 8 then ell else \<not> ell)"

function ipv6_groups :: "nat \<Rightarrow> bool \<Rightarrow> string \<Rightarrow> bool" where
  "ipv6_groups i ell s =
     (if \<not> i < 8 then ipv6_end i ell s else
      (let digits = takeWhile is_hex s; rest = dropWhile is_hex s in
       if digits = [] \<or> length digits > 4 then False
       else (case rest of
         [] \<Rightarrow> ipv6_end (Suc i) ell []
       | c # rest' \<Rightarrow>
           if c = CHR ''.'' then
             (if (\<not> ell \<and> i \<noteq> 6) \<or> i + 2 > 8 then False
              else parse_ipv4 s \<and> ipv6_end (i + 2) ell [])
           else if c \<noteq> CHR '':'' then False
           else (case rest' of
             [] \<Rightarrow> False
           | d # rest'' \<Rightarrow>
               if d = CHR '':'' then
                 (if ell then False
                  else if rest'' = [] then ipv6_end (Suc i) True []
                  else ipv6_groups (Suc i) True rest'')
               else ipv6_groups (Suc i) ell rest'))))"
  by pat_completeness auto
termination by (relation "measure (\<lambda>(i, ell, s). 8 - i)") auto

declare ipv6_groups.simps [simp del]

definition parse_ipv6 :: "string \<Rightarrow> bool" where
  "parse_ipv6 s \<longleftrightarrow>
     (if CHR ''%'' \<in> set s then False
      else if prefix ''::'' s then (if drop 2 s = [] then True else ipv6_groups 0 True (drop 2 s))
      else ipv6_groups 0 False s)"

text \<open>\<open>net.ParseIP(s) != nil\<close>: the first \<open>.\<close>, \<open>:\<close> or \<open>%\<close> selects the family; no zones.\<close>

definition ip_family :: "string \<Rightarrow> char option" where
  "ip_family s = List.find (\<lambda>c. c = CHR ''.'' \<or> c = CHR '':'' \<or> c = CHR ''%'') s"

definition ParseIP :: "string \<Rightarrow> bool" where
  "ParseIP s \<longleftrightarrow> (case ip_family s of None \<Rightarrow> False
     | Some c \<Rightarrow> if c = CHR ''.'' then parse_ipv4 s else if c = CHR '':'' then parse_ipv6 s else False)"

definition dns_label :: "string \<Rightarrow> bool" where
  "dns_label label \<longleftrightarrow>
     \<not> (length label = 0 \<or> length label > 63 \<or> hd label = CHR ''-'' \<or> last label = CHR ''-'') \<and>
     list_all (\<lambda>r. rune_between 0x61 0x7A r \<or> rune_between 0x41 0x5A r \<or> rune_between 0x30 0x39 r \<or>
       r = 0x2D) (runes label)"

definition validDNSName :: "string \<Rightarrow> bool" where
  "validDNSName value \<longleftrightarrow> \<not> (length value = 0 \<or> length value > 253) \<and>
     list_all dns_label (split_on (CHR ''.'') value)"

definition ValidateHost :: "string \<Rightarrow> error option" where
  "ValidateHost value = (if \<not> validText value then Some errInvalidHost
     else if ParseIP value \<or> validDNSName value then None else Some errInvalidHost)"

definition ValidateNFSHost :: "string \<Rightarrow> error option" where
  "ValidateNFSHost value = (if ValidateHost value \<noteq> None then Some errInvalidNFSHost else None)"

definition ValidateSMBServer :: "string \<Rightarrow> error option" where
  "ValidateSMBServer value = ValidateHost value"

section \<open>The other fields\<close>

definition ValidateNFSExport :: "string \<Rightarrow> error option" where
  "ValidateNFSExport value =
     (if \<not> validText value \<or> \<not> is_abs value \<or> CHR '','' \<in> set value \<or> hasControl value
      then Some errInvalidNFSExport else None)"

definition ValidateNFSVersion :: "string \<Rightarrow> error option" where
  "ValidateNFSVersion value = (if \<not> validText value then Some errInvalidNFSVersion
     else if value = ''auto'' \<or> value = ''3'' \<or> value = ''4'' \<or> value = ''4.1'' \<or> value = ''4.2''
     then None else Some errInvalidNFSVersion)"

definition ValidatePassword :: "string \<Rightarrow> error option" where
  "ValidatePassword value =
     (if \<not> validText value \<or> length value = 0 \<or> length value > 512 \<or>
         contains_any value [CHR 0x00, CHR 0x0D, CHR 0x0A]
      then Some errInvalidPassword else None)"

definition ValidateProtocol :: "string \<Rightarrow> error option" where
  "ValidateProtocol value = (if \<not> validText value \<or> (value \<noteq> ''nfs'' \<and> value \<noteq> ''smb'')
     then Some errInvalidProtocol else None)"

definition ParseReadOnly :: "string \<Rightarrow> bool result" where
  "ParseReadOnly value = (if \<not> validText value then Inl errInvalidReadOnly
     else if value = ''true'' then Inr True
     else if value = ''false'' then Inr False
     else Inl errInvalidReadOnly)"

definition ValidateSMBShare :: "string \<Rightarrow> error option" where
  "ValidateSMBShare value =
     (if \<not> validText value \<or> value = [] \<or> contains_any value [CHR 0x2F, CHR 0x5C] \<or> hasControl value
      then Some errInvalidSMBShare else None)"

definition ValidateSMBVersion :: "string \<Rightarrow> error option" where
  "ValidateSMBVersion value = (if \<not> validText value then Some errInvalidSMBVersion
     else if value = ''auto'' \<or> value = ''2.1'' \<or> value = ''3.0'' \<or> value = ''3.1.1''
     then None else Some errInvalidSMBVersion)"

definition ValidateTarget :: "string \<Rightarrow> error option" where
  "ValidateTarget value =
     (if \<not> validText value \<or> \<not> is_abs value \<or> path_clean value \<noteq> value \<or> hasControl value
      then Some errInvalidTarget else None)"

definition ValidateUsername :: "string \<Rightarrow> error option" where
  "ValidateUsername value =
     (if \<not> validText value \<or> length value = 0 \<or> length value > 256 \<or> hasControl value
      then Some errInvalidUsername else None)"

definition nfsMountSource :: "string \<Rightarrow> string \<Rightarrow> string" where
  "nfsMountSource host export = (if CHR '':'' \<in> set host then ''['' @ host @ '']:'' @ export
     else host @ '':'' @ export)"

section \<open>Ownership\<close>

definition parse_owner :: "string \<Rightarrow> string result" where
  "parse_owner value =
     (if \<not> validText value \<or> list_ex (\<lambda>r. r < 0x30 \<or> r > 0x39) (runes value)
      then Inl errInvalidSMBOwnership
      else (case parse_uint 32 value of
        None \<Rightarrow> Inl errInvalidSMBOwnership
      | Some number \<Rightarrow> if number = 2 ^ 32 - 1 then Inl errInvalidSMBOwnership
          else Inr (format_uint number)))"

definition ParseSMBOwnership :: "string \<Rightarrow> string \<Rightarrow> smb_ownership result" where
  "ParseSMBOwnership uid gid =
     (if uid = [] \<and> gid = [] then Inr no_ownership
      else if uid = [] \<or> gid = [] then Inl errInvalidSMBOwnership
      else (case parse_owner uid of Inl e \<Rightarrow> Inl e | Inr canonicalUID \<Rightarrow>
        (case parse_owner gid of Inl e \<Rightarrow> Inl e | Inr canonicalGID \<Rightarrow>
          Inr \<lparr>own_UID = canonicalUID, own_GID = canonicalGID\<rparr>)))"

definition validateDefinitionOwnership :: "int \<Rightarrow> string \<Rightarrow> smb_ownership \<Rightarrow> error option" where
  "validateDefinitionOwnership formatVersion protocol ownership =
     (if formatVersion \<noteq> LegacyManifestFormatVersion \<and> formatVersion \<noteq> ManifestFormatVersion
      then Some errInvalidSMBOwnership
      else if formatVersion = LegacyManifestFormatVersion then
        (if ownership \<noteq> no_ownership then Some errInvalidSMBOwnership else None)
      else (case ParseSMBOwnership (own_UID ownership) (own_GID ownership) of
        Inl _ \<Rightarrow> Some errInvalidSMBOwnership
      | Inr canonical \<Rightarrow>
          if canonical \<noteq> ownership \<or> (protocol \<noteq> ''smb'' \<and> ownership \<noteq> no_ownership)
          then Some errInvalidSMBOwnership else None))"


section \<open>What the validators guarantee\<close>

text \<open>
  A quiet string has no ASCII control byte, so it stays on its line and in its field. The locale
  is the contract the unit renderer relies on.
\<close>

definition newline :: char where "newline = CHR 0x0A"

definition quiet :: "string \<Rightarrow> bool" where
  "quiet s \<longleftrightarrow> list_all (\<lambda>c. 0x20 \<le> byte c \<and> byte c \<noteq> 0x7F) s"

lemma quiet_simps [simp]: "quiet []" "quiet (c # s) \<longleftrightarrow> 0x20 \<le> byte c \<and> byte c \<noteq> 0x7F \<and> quiet s"
  "quiet (s @ t) \<longleftrightarrow> quiet s \<and> quiet t"
  by (auto simp: quiet_def)

lemma quiet_no_newline: "quiet s \<Longrightarrow> newline \<notin> set s"
  by (induction s) (auto simp: newline_def)

locale quiet_field =
  fixes validate :: "string \<Rightarrow> error option"
  assumes accepted_quiet: "validate s = None \<Longrightarrow> quiet s"
begin

lemma one_line: "validate s = None \<Longrightarrow> split_on newline s = [s]"
  by (simp add: split_on_no_sep quiet_no_newline accepted_quiet)

lemma keeps_line: "validate s = None \<Longrightarrow> newline \<notin> set s"
  by (simp add: quiet_no_newline accepted_quiet)

end

lemma no_control_quiet: "\<not> hasControl s \<Longrightarrow> quiet s"
proof -
  assume a: "\<not> hasControl s"
  have "0x20 \<le> byte c \<and> byte c \<noteq> 0x7F" if "c \<in> set s" for c
  proof (cases "byte c < 128")
    case True
    then have "\<not> is_control (byte c)"
      using a ascii_is_rune[OF that] by (auto simp: hasControl_def list_ex_iff)
    then show ?thesis by (auto simp: is_control_def)
  qed simp
  then show ?thesis by (simp add: quiet_def list_all_iff)
qed

lemma quiet_runes: "(\<And>r. r \<in> set (runes s) \<Longrightarrow> \<not> is_control r) \<Longrightarrow> quiet s"
  by (rule no_control_quiet) (auto simp: hasControl_def list_ex_iff)

lemma quiet_split_on:
  "0x20 \<le> byte sep \<Longrightarrow> byte sep \<noteq> 0x7F \<Longrightarrow> list_all quiet (split_on sep s) \<Longrightarrow> quiet s"
  by (induction s) (auto split: if_splits list.splits)

lemma digits_quiet: "list_all is_digit w \<Longrightarrow> quiet w"
  by (induction w) (auto simp: is_digit_def between_def)

lemma hex_quiet: "list_all is_hex w \<Longrightarrow> quiet w"
  by (induction w) (auto simp: is_hex_def between_def)

lemma parse_ipv4_quiet: "parse_ipv4 s \<Longrightarrow> quiet s"
  by (rule quiet_split_on[of "CHR ''.''"])
    (auto simp: parse_ipv4_def Let_def ipv4_field_def list_all_iff intro: digits_quiet[unfolded list_all_iff])

lemma ipv6_groups_quiet: "ipv6_groups i ell s \<Longrightarrow> quiet s"
proof (induction i ell s rule: ipv6_groups.induct)
  case (1 i ell s)
  let ?r = "dropWhile is_hex s"
  have s: "s = takeWhile is_hex s @ ?r" by simp
  have d: "quiet (takeWhile is_hex s)"
    by (rule hex_quiet) (auto simp: list_all_iff dest: set_takeWhileD)
  have "quiet s \<or> quiet ?r"
  proof (cases "i < 8")
    case False
    then show ?thesis using "1.prems" by (simp add: ipv6_groups.simps[of i] ipv6_end_def)
  next
    case True
    note u = "1.prems"[unfolded ipv6_groups.simps[of i] Let_def]
    show ?thesis
    proof (cases ?r)
      case Nil
      then have "quiet ?r" by (simp only: quiet_simps)
      then show ?thesis ..
    next
      case (Cons c rest)
      show ?thesis
      proof (cases "c = CHR ''.''")
        case True
        then show ?thesis using u \<open>i < 8\<close> Cons by (auto split: if_splits intro: parse_ipv4_quiet)
      next
        case False
        with u \<open>i < 8\<close> Cons obtain x rest' where c: "c = CHR '':''" and r: "rest = x # rest'"
          by (auto split: if_splits list.splits)
        from 1 u \<open>i < 8\<close> Cons False c r have "quiet rest"
          by (auto split: if_splits)
        with Cons c show ?thesis by simp
      qed
    qed
  qed
  then show ?case using d by (subst s) (metis quiet_simps(3) s)
qed

lemma parse_ipv6_quiet: "parse_ipv6 s \<Longrightarrow> quiet s"
proof -
  assume a: "parse_ipv6 s"
  show ?thesis
  proof (cases "prefix ''::'' s")
    case True
    then obtain t where "s = ''::'' @ t" by (auto elim: prefixE)
    with a show ?thesis by (auto simp: parse_ipv6_def split: if_splits dest: ipv6_groups_quiet)
  next
    case False
    with a show ?thesis by (auto simp: parse_ipv6_def split: if_splits dest: ipv6_groups_quiet)
  qed
qed

lemma ParseIP_quiet: "ParseIP s \<Longrightarrow> quiet s"
  by (auto simp: ParseIP_def split: option.splits if_splits dest: parse_ipv4_quiet parse_ipv6_quiet)

lemma dns_label_quiet: "dns_label w \<Longrightarrow> quiet w"
  by (rule quiet_runes)
    (fastforce simp: dns_label_def list_all_iff rune_between_def is_control_def)

lemma dns_quiet: "validDNSName s \<Longrightarrow> quiet s"
  by (rule quiet_split_on[of "CHR ''.''"])
    (auto simp: validDNSName_def list_all_iff intro: dns_label_quiet)

lemma ValidateHost_quiet: "ValidateHost s = None \<Longrightarrow> quiet s"
  by (auto simp: ValidateHost_def split: if_splits dest: ParseIP_quiet dns_quiet)

interpretation host: quiet_field ValidateHost
  by unfold_locales (rule ValidateHost_quiet)

interpretation nfs_host: quiet_field ValidateNFSHost
  by unfold_locales (auto simp: ValidateNFSHost_def split: if_splits intro: ValidateHost_quiet)

interpretation smb_server: quiet_field ValidateSMBServer
  by unfold_locales (auto simp: ValidateSMBServer_def intro: ValidateHost_quiet)

interpretation nfs_export: quiet_field ValidateNFSExport
  by unfold_locales (auto simp: ValidateNFSExport_def split: if_splits intro: no_control_quiet)

interpretation smb_share: quiet_field ValidateSMBShare
  by unfold_locales (auto simp: ValidateSMBShare_def split: if_splits intro: no_control_quiet)

interpretation target: quiet_field ValidateTarget
  by unfold_locales (auto simp: ValidateTarget_def split: if_splits intro: no_control_quiet)

interpretation username: quiet_field ValidateUsername
  by unfold_locales (auto simp: ValidateUsername_def split: if_splits intro: no_control_quiet)

interpretation nfs_version: quiet_field ValidateNFSVersion
  by unfold_locales (auto simp: ValidateNFSVersion_def split: if_splits)

interpretation smb_version: quiet_field ValidateSMBVersion
  by unfold_locales (auto simp: ValidateSMBVersion_def split: if_splits)

interpretation protocol: quiet_field ValidateProtocol
  by unfold_locales (auto simp: ValidateProtocol_def split: if_splits)

interpretation definition_id: quiet_field ValidateDefinitionID
  by unfold_locales (auto simp: ValidateDefinitionID_def list_ex_iff rune_between_def is_control_def
      split: if_splits intro!: quiet_runes)

text \<open>A definition ID is 32 lower-case hexadecimal bytes, which is what the generator returns.\<close>

definition lower_hex :: "char \<Rightarrow> bool" where
  "lower_hex c \<longleftrightarrow> between 0x30 0x39 c \<or> between 0x61 0x66 c"

lemma definition_id_hex:
  assumes "ValidateDefinitionID s = None"
  shows "length s = 32" and "list_all lower_hex s"
proof -
  show "length s = 32" using assms by (simp add: ValidateDefinitionID_def split: if_splits)
  have r: "rune_between 0x30 0x39 r \<or> rune_between 0x61 0x66 r" if "r \<in> set (runes s)" for r
    using assms that by (auto simp: ValidateDefinitionID_def list_ex_iff split: if_splits)
  then have "\<forall>c\<in>set s. byte c < 128" by (intro low_runes_low) (fastforce simp: rune_between_def)
  then show "list_all lower_hex s"
    using r by (auto simp: runes_ascii list_all_iff lower_hex_def between_def rune_between_def)
qed

lemma hex_digit_lower: "n < 16 \<Longrightarrow> lower_hex (hex_digit n)"
  by (auto simp: hex_digit_def lower_hex_def between_def)

lemma validate_lower_hex: "length s = 32 \<Longrightarrow> list_all lower_hex s \<Longrightarrow> ValidateDefinitionID s = None"
proof -
  assume l: "length s = 32" and h: "list_all lower_hex s"
  then have a: "\<forall>c\<in>set s. byte c < 128" by (auto simp: list_all_iff lower_hex_def between_def)
  then show ?thesis
    using l h by (auto simp: ValidateDefinitionID_def validText_def valid_string_ascii runes_ascii
        list_ex_iff list_all_iff lower_hex_def between_def rune_between_def)
qed

lemma byte_high: "byte c div 16 < 16"
  using nat_of_char_less_256[of c] by (simp add: less_mult_imp_div_less del: nat_of_char_less_256)

lemma NewDefinitionID_valid:
  "length bytes = 16 \<Longrightarrow> NewDefinitionID (Inr bytes) = Inr i \<Longrightarrow> ValidateDefinitionID i = None"
proof -
  have len: "length (hex_encode s) = 2 * length s" for s by (induction s) (auto simp: hex_encode_def)
  have hex: "list_all lower_hex (hex_encode s)" for s
    by (induction s) (auto simp: hex_encode_def intro!: hex_digit_lower byte_high)
  assume "length bytes = 16" "NewDefinitionID (Inr bytes) = Inr i"
  then show ?thesis using len[of bytes] hex[of bytes]
    by (auto simp: NewDefinitionID_def intro: validate_lower_hex)
qed

section \<open>Canonical ownership\<close>

lemma format_uint_runes:
  "validText (format_uint n)" "\<not> list_ex (\<lambda>r. r < 0x30 \<or> r > 0x39) (runes (format_uint n))"
proof -
  have d: "list_all is_digit (format_uint n)" by (rule format_uint_digits)
  then have a: "\<forall>c\<in>set (format_uint n). byte c < 128" by (auto simp: list_all_iff is_digit_ascii)
  show "validText (format_uint n)" by (simp add: validText_def valid_string_ascii[OF a])
  show "\<not> list_ex (\<lambda>r. r < 0x30 \<or> r > 0x39) (runes (format_uint n))"
    using d by (auto simp: runes_ascii[OF a] list_ex_iff list_all_iff is_digit_def between_def)
qed

lemma parse_owner_canonical:
  assumes "parse_owner v = Inr w"
  shows "parse_owner w = Inr w" and "\<exists>n. n < 2 ^ 32 - 1 \<and> w = format_uint n \<and> digits_value v = n"
proof -
  obtain n where n: "parse_uint 32 v = Some n" "n \<noteq> 2 ^ 32 - 1" "w = format_uint n"
    using assms by (auto simp: parse_owner_def split: if_splits option.splits)
  then have lt: "n < 2 ^ 32 - 1" using parse_uint_Some[OF n(1)] by simp
  then show "parse_owner w = Inr w"
    using n by (simp add: parse_owner_def format_uint_runes)
  have "digits_value v = n" using n(1) by (simp add: parse_uint_def split: if_splits)
  with lt n(3) show "\<exists>n. n < 2 ^ 32 - 1 \<and> w = format_uint n \<and> digits_value v = n" by blast
qed

text \<open>
  \<open>ParseSMBOwnership\<close> accepts either no ownership at all or two decimal numbers below
  \<open>2^32 - 1\<close> (the value \<open>chown\<close> treats as no change), and returns their canonical spelling:
  parsing the result again returns it unchanged, and a definition of the current format with that
  ownership passes \<open>validateDefinitionOwnership\<close> for SMB.
\<close>

theorem ownership_canonical:
  assumes "ParseSMBOwnership uid gid = Inr own"
  shows "ParseSMBOwnership (own_UID own) (own_GID own) = Inr own \<and>
    validateDefinitionOwnership ManifestFormatVersion ''smb'' own = None \<and>
    (own = no_ownership \<and> uid = [] \<and> gid = [] \<or>
      (\<exists>m n. m < 2 ^ 32 - 1 \<and> n < 2 ^ 32 - 1 \<and> digits_value uid = m \<and> digits_value gid = n \<and>
        own = \<lparr>own_UID = format_uint m, own_GID = format_uint n\<rparr>))"
proof (cases "uid = [] \<and> gid = []")
  case True
  then show ?thesis using assms
    by (auto simp: ParseSMBOwnership_def no_ownership_def validateDefinitionOwnership_def
        ManifestFormatVersion_def LegacyManifestFormatVersion_def)
next
  case False
  then obtain u g where u: "parse_owner uid = Inr u" and g: "parse_owner gid = Inr g"
    and own: "own = \<lparr>own_UID = u, own_GID = g\<rparr>"
    using assms by (auto simp: ParseSMBOwnership_def split: if_splits sum.splits)
  obtain m n where "m < 2 ^ 32 - 1" "u = format_uint m" "digits_value uid = m"
    "n < 2 ^ 32 - 1" "g = format_uint n" "digits_value gid = n"
    using parse_owner_canonical(2)[OF u] parse_owner_canonical(2)[OF g] by blast
  then show ?thesis using own parse_owner_canonical(1)[OF u] parse_owner_canonical(1)[OF g]
    by (simp add: ParseSMBOwnership_def validateDefinitionOwnership_def
        ManifestFormatVersion_def LegacyManifestFormatVersion_def)
qed

theorem ownership_canonical_witness:
  "validateDefinitionOwnership ManifestFormatVersion ''smb''
     \<lparr>own_UID = ''1000'', own_GID = ''0''\<rparr> = None \<and>
   ParseSMBOwnership ''01000'' ''0'' = Inr \<lparr>own_UID = ''1000'', own_GID = ''0''\<rparr>"
proof -
  have p: "ParseSMBOwnership ''01000'' ''0'' = Inr \<lparr>own_UID = ''1000'', own_GID = ''0''\<rparr>"
    by (simp add: ParseSMBOwnership_def parse_owner_def validText_def valid_string_ascii runes_ascii
        parse_uint_def digits_value_def is_digit_def between_def digit_value_def format_uint.simps
        digit_char_def char_of_def bit_Suc_0_iff)
  show ?thesis using ownership_canonical[OF p] p by simp
qed

end
