(* ===== verification/Remote_Units.thy ===== *)
theory Remote_Units
  imports Remote_Definitions
begin

text \<open>
  Rendering of the systemd units and the credentials file of a remote mount
  (\<open>internal/modules/storage/units.go\<close>, with the unit names of \<open>paths.go\<close> and the marker of
  \<open>manifest.go\<close>). \<open>unit.UnitNamePathEscape\<close> of go-systemd is the parameter \<open>esc\<close>.
\<close>

section \<open>Definitions\<close>

definition errInvalidManifest :: error where "errInvalidManifest = Sentinel ''invalid manifest''"

definition mountUnitName :: "(string \<Rightarrow> string) \<Rightarrow> string \<Rightarrow> string" where
  "mountUnitName esc target = esc target @ ''.mount''"

definition automountUnitName :: "(string \<Rightarrow> string) \<Rightarrow> string \<Rightarrow> string" where
  "automountUnitName esc target = esc target @ ''.automount''"

definition artifactMarker :: "remote_definition \<Rightarrow> string" where
  "artifactMarker d = ''# Managed by Pilothouse; definition='' @ def_ID d"

definition escape_byte :: "char \<Rightarrow> string" where
  "escape_byte c =
     (if c = CHR ''%'' then ''%%''
      else if c = CHR 0x5C \<or> c = CHR 0x20 \<or> c = CHR 0x09 \<or> c = CHR 0x0A \<or> c = CHR 0x0D
      then [CHR 0x5C, CHR ''x'', hex_digit (byte c div 16), hex_digit (byte c mod 16)]
      else [c])"

definition escapeSystemdValue :: "string \<Rightarrow> string" where
  "escapeSystemdValue value = concat (map escape_byte value)"

definition access_option :: "bool \<Rightarrow> string" where
  "access_option ro = (if ro then ''ro'' else ''rw'')"

definition mountSettings :: "remote_definition \<Rightarrow> (string \<times> string \<times> string list) result" where
  "mountSettings d =
     (let options = [''nodev'', ''nosuid'', access_option (def_ReadOnly d)] in
      if def_Protocol d = ''nfs'' then
        (if ValidateNFSHost (def_Host d) \<noteq> None \<or> ValidateNFSExport (def_Export d) \<noteq> None \<or>
            ValidateNFSVersion (def_ProtocolVersion d) \<noteq> None
         then Inl errInvalidManifest
         else
           (let options = options @
              (if def_ProtocolVersion d \<noteq> ''auto'' then [''nfsvers='' @ def_ProtocolVersion d] else [])
            in Inr (nfsMountSource (def_Host d) (def_Export d), ''nfs'', sort options)))
      else if def_Protocol d = ''smb'' then
        (if ValidateSMBServer (def_Server d) \<noteq> None \<or> ValidateSMBShare (def_Share d) \<noteq> None \<or>
            ValidateSMBVersion (def_ProtocolVersion d) \<noteq> None
         then Inl errInvalidManifest
         else if def_Username d \<noteq> [] \<and>
            (ValidateUsername (def_Username d) \<noteq> None \<or> def_Credential d = [])
         then Inl errInvalidManifest
         else
           (let options = options @
              (if def_Username d \<noteq> [] then [''credentials='' @ escapeSystemdValue (def_Credential d)]
               else [''guest'']) @
              (if def_ProtocolVersion d \<noteq> ''auto'' then [''vers='' @ def_ProtocolVersion d] else []) @
              (if own_UID (def_SMBOwnership d) \<noteq> []
               then [''uid='' @ own_UID (def_SMBOwnership d), ''gid='' @ own_GID (def_SMBOwnership d)]
               else [])
            in Inr (''//'' @ def_Server d @ ''/'' @ def_Share d, ''cifs'', sort options)))
      else Inl errInvalidManifest)"

definition validateRenderDefinition ::
    "(string \<Rightarrow> string) \<Rightarrow> remote_definition \<Rightarrow> error option" where
  "validateRenderDefinition esc d =
     (if validateDefinitionOwnership (def_FormatVersion d) (def_Protocol d) (def_SMBOwnership d) \<noteq> None \<or>
         ValidateDefinitionID (def_ID d) \<noteq> None \<or> ValidateProtocol (def_Protocol d) \<noteq> None \<or>
         ValidateTarget (def_Target d) \<noteq> None \<or> def_State d = [] \<or>
         def_UnitName d \<noteq> mountUnitName esc (def_Target d)
      then Some errInvalidManifest
      else if def_Protocol d = ''nfs'' then
        (if ValidateNFSHost (def_Host d) \<noteq> None \<or> ValidateNFSExport (def_Export d) \<noteq> None \<or>
            ValidateNFSVersion (def_ProtocolVersion d) \<noteq> None \<or> def_Server d \<noteq> [] \<or>
            def_Share d \<noteq> [] \<or> def_Username d \<noteq> [] \<or> def_Credential d \<noteq> []
         then Some errInvalidManifest else None)
      else if def_Protocol d = ''smb'' then
        (if ValidateSMBServer (def_Server d) \<noteq> None \<or> ValidateSMBShare (def_Share d) \<noteq> None \<or>
            ValidateSMBVersion (def_ProtocolVersion d) \<noteq> None \<or> def_Host d \<noteq> [] \<or> def_Export d \<noteq> []
         then Some errInvalidManifest
         else if def_Username d = [] \<and> def_Credential d \<noteq> [] then Some errInvalidManifest
         else if def_Username d \<noteq> [] \<and>
            (ValidateUsername (def_Username d) \<noteq> None \<or> def_Credential d = [])
         then Some errInvalidManifest
         else None)
      else None)"

definition mount_unit_lines :: "remote_definition \<Rightarrow> string \<times> string \<times> string list \<Rightarrow> string list" where
  "mount_unit_lines d = (\<lambda>(what, filesystem, options).
     [artifactMarker d,
      ''[Unit]'',
      ''Description=Pilothouse remote storage '' @ def_ID d,
      ''Wants=network-online.target'',
      ''After=network-online.target'',
      ''[Mount]'',
      ''What='' @ escapeSystemdValue what,
      ''Where='' @ escapeSystemdValue (def_Target d),
      ''Type='' @ filesystem,
      ''Options='' @ join_with '','' options,
      ''TimeoutSec=30'',
      []])"

definition RenderMountUnit :: "(string \<Rightarrow> string) \<Rightarrow> remote_definition \<Rightarrow> string result" where
  "RenderMountUnit esc d =
     (if validateRenderDefinition esc d \<noteq> None then Inl errInvalidManifest
      else (case mountSettings d of Inl e \<Rightarrow> Inl e
        | Inr settings \<Rightarrow> Inr (join_with [newline] (mount_unit_lines d settings))))"

definition automount_unit_lines :: "remote_definition \<Rightarrow> string list" where
  "automount_unit_lines d =
     [artifactMarker d,
      ''[Unit]'',
      ''Description=Pilothouse automount '' @ def_ID d,
      ''[Automount]'',
      ''Where='' @ escapeSystemdValue (def_Target d),
      ''TimeoutIdleSec=300'',
      ''[Install]'',
      ''WantedBy=multi-user.target'',
      []]"

definition RenderAutomountUnit :: "(string \<Rightarrow> string) \<Rightarrow> remote_definition \<Rightarrow> string result" where
  "RenderAutomountUnit esc d =
     (if validateRenderDefinition esc d \<noteq> None then Inl errInvalidManifest
      else Inr (join_with [newline] (automount_unit_lines d)))"

definition RenderCredentials :: "string \<Rightarrow> string \<Rightarrow> string result" where
  "RenderCredentials username password =
     (if ValidateUsername username \<noteq> None \<or> ValidatePassword password \<noteq> None
      then Inl errInvalidManifest
      else Inr (''username='' @ username @ [newline] @ ''password='' @ password @ [newline]))"

section \<open>Escaping\<close>

text \<open>
  The value a unit file's reader recovers: \<open>%%\<close> is a percent sign and \<open>\xHH\<close> the byte \<open>HH\<close>.
\<close>

definition hex_value :: "char \<Rightarrow> nat" where
  "hex_value c = (if byte c < 0x3A then byte c - 0x30 else byte c - 0x61 + 10)"

fun unescape :: "string \<Rightarrow> string" where
  "unescape (c # d # e # f # cs) =
     (if c = CHR ''%'' then CHR ''%'' # unescape (e # f # cs)
      else if c = CHR 0x5C then char_of (16 * hex_value e + hex_value f) # unescape cs
      else c # unescape (d # e # f # cs))"
| "unescape (c # d # cs) =
     (if c = CHR ''%'' then CHR ''%'' # unescape cs else c # unescape (d # cs))"
| "unescape cs = cs"

definition special :: "char \<Rightarrow> bool" where
  "special c \<longleftrightarrow> c = CHR 0x5C \<or> c = CHR 0x20 \<or> c = CHR 0x09 \<or> c = CHR 0x0A \<or> c = CHR 0x0D"

lemma escape_byte_cases:
  "escape_byte c = (if c = CHR ''%'' then ''%%'' else if special c
     then [CHR 0x5C, CHR ''x'', hex_digit (byte c div 16), hex_digit (byte c mod 16)] else [c])"
  by (auto simp: escape_byte_def special_def)

lemma unescape_percent [simp]: "unescape (CHR ''%'' # CHR ''%'' # cs) = CHR ''%'' # unescape cs"
  by (cases cs; cases "tl cs") auto

lemma unescape_plain: "c \<noteq> CHR ''%'' \<Longrightarrow> c \<noteq> CHR 0x5C \<Longrightarrow> unescape (c # cs) = c # unescape cs"
  by (cases cs; cases "tl cs"; cases "tl (tl cs)") auto

lemma hex_value_digit: "n < 16 \<Longrightarrow> hex_value (hex_digit n) = n"
  by (auto simp: hex_value_def hex_digit_def)

lemma unescape_hex [simp]:
  "unescape (CHR 0x5C # CHR ''x'' # hex_digit (byte c div 16) # hex_digit (byte c mod 16) # cs) =
     c # unescape cs"
  by (simp add: hex_value_digit byte_high)

lemma unescape_escape_byte: "unescape (escape_byte c @ cs) = c # unescape cs"
  by (auto simp: escape_byte_cases unescape_plain special_def simp del: unescape.simps)

lemma unescape_escape: "unescape (escapeSystemdValue s) = s"
  by (induction s) (simp_all add: escapeSystemdValue_def unescape_escape_byte)

lemma escape_byte_chars:
  "x \<in> set (escape_byte c) \<Longrightarrow> x = c \<and> \<not> special c \<or> x \<in> {CHR ''%'', CHR 0x5C, CHR ''x''} \<or> lower_hex x"
  using hex_digit_lower[of "byte c div 16"] hex_digit_lower[of "byte c mod 16"] byte_high[of c]
  by (auto simp: escape_byte_cases split: if_splits)

lemma lower_hex_not [simp]: "\<not> lower_hex (CHR 0x0A)" "\<not> lower_hex (CHR '','')"
  by (simp_all add: lower_hex_def between_def)

lemma lower_hex_special: "lower_hex x \<Longrightarrow> \<not> special x"
  by (auto simp: special_def lower_hex_def between_def)

lemma escape_chars: "x \<in> set (escapeSystemdValue s) \<Longrightarrow> special x \<Longrightarrow> x = CHR 0x5C"
proof -
  assume "x \<in> set (escapeSystemdValue s)" and sp: "special x"
  then obtain c where "x \<in> set (escape_byte c)" by (auto simp: escapeSystemdValue_def)
  from escape_byte_chars[OF this] lower_hex_special[of x] sp show ?thesis
    by (auto simp: special_def)
qed

lemma escape_no_newline [simp]: "newline \<notin> set (escapeSystemdValue s)"
  using escape_chars[of newline] by (auto simp: newline_def special_def)

lemma escape_no_comma: "CHR '','' \<notin> set s \<Longrightarrow> CHR '','' \<notin> set (escapeSystemdValue s)"
  using escape_byte_chars[of "CHR '',''"] by (fastforce simp: escapeSystemdValue_def special_def)

text \<open>
  Escaping a unit value loses nothing and cannot break out of its line or word: undoing \<open>%%\<close>
  and \<open>\xHH\<close> gives back the value, so different values render differently, and the rendered text
  has no line feed, carriage return, tab or space.
\<close>

theorem escape_roundtrip:
  "unescape (escapeSystemdValue s) = s \<and>
   (escapeSystemdValue s = escapeSystemdValue t \<longrightarrow> s = t) \<and>
   set (escapeSystemdValue s) \<inter> {CHR 0x0A, CHR 0x0D, CHR 0x09, CHR 0x20} = {}"
proof (intro conjI impI)
  show "unescape (escapeSystemdValue s) = s" by (rule unescape_escape)
  show "s = t" if "escapeSystemdValue s = escapeSystemdValue t"
    by (metis that unescape_escape)
  show "set (escapeSystemdValue s) \<inter> {CHR 0x0A, CHR 0x0D, CHR 0x09, CHR 0x20} = {}"
    using escape_chars[of "CHR 0x0A" s] escape_chars[of "CHR 0x0D" s] escape_chars[of "CHR 0x09" s]
      escape_chars[of "CHR 0x20" s] by (auto simp: special_def)
qed

theorem escape_roundtrip_witness:
  "unescape (escapeSystemdValue ''/mnt/my disk 5%'') = ''/mnt/my disk 5%'' \<and>
   CHR 0x20 \<notin> set (escapeSystemdValue ''/mnt/my disk 5%'')"
  using escape_roundtrip[of "''/mnt/my disk 5%''" "''/mnt/my disk 5%''"] by blast

section \<open>Rendered units\<close>

lemma owner_digits:
  assumes "validateDefinitionOwnership v p own = None"
  shows "list_all is_digit (own_UID own)" and "list_all is_digit (own_GID own)"
proof -
  have *: "own = no_ownership \<or> (\<exists>u g. parse_owner u = Inr (own_UID own) \<and> parse_owner g = Inr (own_GID own))"
    using assms by (auto simp: validateDefinitionOwnership_def ParseSMBOwnership_def
        split: if_splits sum.splits)
  have d: "list_all is_digit w" if "parse_owner v = Inr w" for v w
    using that format_uint_digits by (auto simp: parse_owner_def split: if_splits option.splits)
  from * show "list_all is_digit (own_UID own)" "list_all is_digit (own_GID own)"
    by (auto simp: no_ownership_def dest: d)
qed

lemma render_accepted:
  assumes "validateRenderDefinition esc d = None"
  shows "validateDefinitionOwnership (def_FormatVersion d) (def_Protocol d) (def_SMBOwnership d) = None"
    and "ValidateDefinitionID (def_ID d) = None" and "ValidateTarget (def_Target d) = None"
    and "def_UnitName d = mountUnitName esc (def_Target d)"
    and "def_Protocol d = ''nfs'' \<or> def_Protocol d = ''smb''"
  using assms
  by (auto simp: validateRenderDefinition_def ValidateProtocol_def split: if_splits)

text \<open>What an option of an accepted definition consists of.\<close>

lemma version_plain:
  "ValidateNFSVersion v = None \<Longrightarrow> CHR '','' \<notin> set v"
  "ValidateSMBVersion v = None \<Longrightarrow> CHR '','' \<notin> set v"
  by (auto simp: ValidateNFSVersion_def ValidateSMBVersion_def split: if_splits)

lemma digits_no_comma: "list_all is_digit w \<Longrightarrow> CHR '','' \<notin> set w"
  by (auto simp: list_all_iff is_digit_def between_def)

lemma digits_no_newline: "list_all is_digit w \<Longrightarrow> newline \<notin> set w"
  by (rule quiet_no_newline[OF digits_quiet])

definition extra_options :: "remote_definition \<Rightarrow> string list" where
  "extra_options d =
     (if def_Protocol d = ''nfs'' then
        (if def_ProtocolVersion d \<noteq> ''auto'' then [''nfsvers='' @ def_ProtocolVersion d] else [])
      else
        (if def_Username d \<noteq> [] then [''credentials='' @ escapeSystemdValue (def_Credential d)]
         else [''guest'']) @
        (if def_ProtocolVersion d \<noteq> ''auto'' then [''vers='' @ def_ProtocolVersion d] else []) @
        (if own_UID (def_SMBOwnership d) \<noteq> []
         then [''uid='' @ own_UID (def_SMBOwnership d), ''gid='' @ own_GID (def_SMBOwnership d)]
         else []))"

lemma mountSettings_accepted:
  assumes "mountSettings d = Inr (what, fs, opts)"
  shows "opts = sort ([''nodev'', ''nosuid'', access_option (def_ReadOnly d)] @ extra_options d) \<and>
    (fs = ''nfs'' \<and> ValidateNFSVersion (def_ProtocolVersion d) = None \<or>
     fs = ''cifs'' \<and> ValidateSMBVersion (def_ProtocolVersion d) = None)"
proof (cases "def_Protocol d = ''nfs''")
  case True
  then show ?thesis using assms
    by (simp only: mountSettings_def extra_options_def Let_def if_True) (simp del: sort_key_simps split: if_split_asm)
next
  case False
  then have "def_Protocol d = ''smb''"
    using assms by (simp add: mountSettings_def split: if_split_asm)
  with False show ?thesis using assms
    by (simp only: mountSettings_def extra_options_def Let_def if_True if_False append_assoc)
      (simp del: sort_key_simps split: if_split_asm)
qed

lemma mountSettings_options:
  assumes "mountSettings d = Inr (what, fs, opts)"
  shows "set opts = insert ''nodev'' (insert ''nosuid'' (insert (access_option (def_ReadOnly d))
      (set (extra_options d))))"
    and "fs = ''nfs'' \<or> fs = ''cifs''"
    and "newline \<notin> set (def_ProtocolVersion d)" and "CHR '','' \<notin> set (def_ProtocolVersion d)"
proof -
  note a = mountSettings_accepted[OF assms]
  then show "fs = ''nfs'' \<or> fs = ''cifs''" by blast
  have "opts = sort ([''nodev'', ''nosuid'', access_option (def_ReadOnly d)] @ extra_options d)"
    using a by (rule conjunct1)
  then show "set opts = insert ''nodev'' (insert ''nosuid'' (insert (access_option (def_ReadOnly d))
      (set (extra_options d))))" by (simp del: sort_key_simps)
  show "newline \<notin> set (def_ProtocolVersion d)"
    using a nfs_version.keeps_line smb_version.keeps_line by blast
  show "CHR '','' \<notin> set (def_ProtocolVersion d)" using a version_plain by blast
qed

lemma extra_options_head: "w \<in> set (extra_options d) \<Longrightarrow> hd w \<noteq> CHR ''r''"
  by (auto simp: extra_options_def split: if_splits)

lemma extra_options_free:
  assumes "w \<in> set (extra_options d)" and "c \<notin> set (def_ProtocolVersion d)"
    and "c \<notin> set (escapeSystemdValue (def_Credential d))"
    and "c \<notin> set (own_UID (def_SMBOwnership d))" and "c \<notin> set (own_GID (def_SMBOwnership d))"
    and "c = newline \<or> c = CHR '',''"
  shows "c \<notin> set w"
  using assms by (auto simp: extra_options_def newline_def split: if_splits)

lemma base_options_free:
  "w \<in> {''nodev'', ''nosuid'', access_option ro} \<Longrightarrow> newline \<notin> set w \<and> CHR '','' \<notin> set w"
  by (auto simp: newline_def access_option_def split: if_splits)

lemma mount_options:
  assumes v: "validateRenderDefinition esc d = None" and m: "mountSettings d = Inr (what, fs, opts)"
  shows "\<forall>w\<in>set opts. newline \<notin> set w"
    and "CHR '','' \<notin> set (def_Credential d) \<Longrightarrow> \<forall>w\<in>set opts. CHR '','' \<notin> set w"
    and "{''nodev'', ''nosuid''} \<subseteq> set opts"
    and "''ro'' \<in> set opts \<longleftrightarrow> def_ReadOnly d" and "''rw'' \<in> set opts \<longleftrightarrow> \<not> def_ReadOnly d"
proof -
  note own = owner_digits[OF render_accepted(1)[OF v]]
  note o = mountSettings_options[OF m]
  have split: "w \<in> {''nodev'', ''nosuid'', access_option (def_ReadOnly d)} \<or> w \<in> set (extra_options d)"
    if "w \<in> set opts" for w using that o(1) by auto
  have "newline \<notin> set w" if "w \<in> set (extra_options d)" for w
    using extra_options_free[OF that o(3) _ digits_no_newline[OF own(1)] digits_no_newline[OF own(2)]]
    by simp
  with split base_options_free show "\<forall>w\<in>set opts. newline \<notin> set w" by blast
  show "\<forall>w\<in>set opts. CHR '','' \<notin> set w" if c: "CHR '','' \<notin> set (def_Credential d)"
  proof -
    have "CHR '','' \<notin> set w" if "w \<in> set (extra_options d)" for w
      using extra_options_free[OF that o(4) escape_no_comma[OF c] digits_no_comma[OF own(1)]
          digits_no_comma[OF own(2)]] by simp
    with split base_options_free show ?thesis by blast
  qed
  show "{''nodev'', ''nosuid''} \<subseteq> set opts" using o(1) by simp
  have "''ro'' \<notin> set (extra_options d)" "''rw'' \<notin> set (extra_options d)"
    using extra_options_head[of "''ro''" d] extra_options_head[of "''rw''" d] by auto
  then show "''ro'' \<in> set opts \<longleftrightarrow> def_ReadOnly d" "''rw'' \<in> set opts \<longleftrightarrow> \<not> def_ReadOnly d"
    using o(1) by (simp_all add: access_option_def)
qed

lemma fixed_lines_free: "list_all (\<lambda>w. newline \<notin> set w) [''[Unit]'', ''Wants=network-online.target'',
    ''After=network-online.target'', ''[Mount]'', ''TimeoutSec=30'', ''[Automount]'', ''TimeoutIdleSec=300'',
    ''[Install]'', ''WantedBy=multi-user.target'', ''Type=nfs'', ''Type=cifs'',
    ''# Managed by Pilothouse; definition='', ''Description=Pilothouse remote storage '',
    ''Description=Pilothouse automount '', ''What='', ''Where='', ''Options='', ''Type='', ''nfs'', ''cifs'',
    '',''] = True"
  by (simp add: newline_def)

lemma join_free: "c \<notin> set sep \<Longrightarrow> \<forall>w\<in>set ws. c \<notin> set w \<Longrightarrow> c \<notin> set (join_with sep ws)"
  by (induction sep ws rule: join_with.induct) auto

text \<open>
  C12. No field of a definition can add a directive to its mount unit. When \<open>RenderMountUnit\<close>
  accepts, the text splits at line feeds into exactly the twelve lines written by the code, one per
  directive; the options always hold \<open>nodev\<close> and \<open>nosuid\<close> and the access mode of the definition; and
  unless the credential path itself holds a comma, the option list splits back into exactly the
  options chosen.
\<close>

theorem mount_unit_injection_free:
  assumes "RenderMountUnit esc d = Inr text"
  shows "\<exists>what fs opts. mountSettings d = Inr (what, fs, opts) \<and>
    split_on newline text = mount_unit_lines d (what, fs, opts) \<and>
    {''nodev'', ''nosuid''} \<subseteq> set opts \<and>
    (''ro'' \<in> set opts \<longleftrightarrow> def_ReadOnly d) \<and> (''rw'' \<in> set opts \<longleftrightarrow> \<not> def_ReadOnly d) \<and>
    (CHR '','' \<notin> set (def_Credential d) \<longrightarrow> split_on (CHR '','') (join_with '','' opts) = opts)"
proof -
  obtain what fs opts where v: "validateRenderDefinition esc d = None"
    and m: "mountSettings d = Inr (what, fs, opts)"
    and t: "text = join_with [newline] (mount_unit_lines d (what, fs, opts))"
    using assms by (auto simp: RenderMountUnit_def split: if_splits sum.splits)
  note opt = mount_options[OF v m]
  have i: "newline \<notin> set (def_ID d)"
    using definition_id.keeps_line render_accepted(2)[OF v] .
  have j: "newline \<notin> set (join_with '','' opts)"
    using opt(1) fixed_lines_free by (intro join_free) auto
  have f: "newline \<notin> set fs" using mountSettings_options(2)[OF m] fixed_lines_free by auto
  have "\<forall>w\<in>set (mount_unit_lines d (what, fs, opts)). newline \<notin> set w"
    using fixed_lines_free i j f by (simp add: mount_unit_lines_def artifactMarker_def)
  then have s: "split_on newline text = mount_unit_lines d (what, fs, opts)"
    unfolding t by (intro split_on_join) (simp_all add: mount_unit_lines_def)
  have "split_on (CHR '','') (join_with '','' opts) = opts" if "CHR '','' \<notin> set (def_Credential d)"
    using opt(2)[OF that] opt(3) by (intro split_on_join) auto
  with m s opt(3-5) show ?thesis by blast
qed

text \<open>An NFS definition, for examples: \<open>nas:/srv\<close> mounted read-only at \<open>/mnt/nas\<close>.\<close>

definition demo_escape :: "string \<Rightarrow> string" where
  "demo_escape p = map (\<lambda>c. if c = slash then CHR ''-'' else c) (drop 1 p)"

definition demo_id :: string where "demo_id = replicate 32 (CHR ''a'')"

definition demo_definition :: remote_definition where
  "demo_definition = \<lparr>def_CreatedTarget = False, def_Credential = [], def_Export = ''/srv'',
     def_FormatVersion = 2, def_Host = ''nas'', def_ID = demo_id, def_Protocol = ''nfs'',
     def_ProtocolVersion = ''4.2'', def_ReadOnly = True, def_Server = [], def_Share = [],
     def_State = ''active'', def_Target = ''/mnt/nas'', def_UnitName = ''mnt-nas.mount'',
     def_Username = [], def_SMBOwnership = no_ownership\<rparr>"

lemma demo_id_valid: "ValidateDefinitionID demo_id = None"
  by (rule validate_lower_hex) (auto simp: demo_id_def lower_hex_def between_def list_all_iff)

lemma demo_fields_valid:
  "ValidateTarget ''/mnt/nas'' = None" "ValidateNFSHost ''nas'' = None"
  "ValidateNFSExport ''/srv'' = None" "ValidateNFSVersion ''4.2'' = None" "ValidateProtocol ''nfs'' = None"
  "validateDefinitionOwnership 2 ''nfs'' no_ownership = None" "mountUnitName demo_escape ''/mnt/nas'' = ''mnt-nas.mount''"
  by (simp_all add: ValidateTarget_def validText_def hasControl_def valid_string_ascii runes_ascii is_control_def
    is_abs_def path_clean_def slash_def clean_step_def ValidateNFSHost_def ValidateHost_def validDNSName_def
    dns_label_def rune_between_def ValidateNFSExport_def ValidateNFSVersion_def ValidateProtocol_def
    validateDefinitionOwnership_def ParseSMBOwnership_def no_ownership_def mountUnitName_def demo_escape_def
    LegacyManifestFormatVersion_def ManifestFormatVersion_def)

lemma demo_definition_valid: "validateRenderDefinition demo_escape demo_definition = None"
  by (simp add: validateRenderDefinition_def demo_definition_def demo_id_valid demo_fields_valid)

lemma demo_settings: "mountSettings demo_definition =
    Inr (''nas:/srv'', ''nfs'', [''nfsvers=4.2'', ''nodev'', ''nosuid'', ''ro''])"
  by (simp add: mountSettings_def demo_definition_def demo_fields_valid nfsMountSource_def access_option_def
    less_char_def)

theorem mount_unit_injection_free_witness:
  "\<exists>text. RenderMountUnit demo_escape demo_definition = Inr text \<and> length (split_on newline text) = 12"
proof -
  obtain out where r: "RenderMountUnit demo_escape demo_definition = Inr out"
    by (simp add: RenderMountUnit_def demo_definition_valid demo_settings)
  then show ?thesis using mount_unit_injection_free[OF r] by (auto simp: mount_unit_lines_def)
qed

end
