(* ===== verification/Target_Paths.thy ===== *)
theory Target_Paths
  imports Remote_Units
begin

text \<open>
  The policy on mount targets and the descriptor walk that checks, creates and removes a target
  directory (\<open>internal/modules/storage/paths.go\<close>). The \<open>pathFS\<close> interface is a record of
  operations on a world \<open>'w\<close>; \<open>linuxPathFS\<close>, its only implementation, passes each call on to the
  kernel, so it is an argument here. \<open>cerr\<close> is what \<open>ctx.Err()\<close> returns.
\<close>

unbundle bit_operations_syntax

section \<open>Definitions\<close>

definition errUnsafeTarget :: error where "errUnsafeTarget = Sentinel ''unsafe target path''"
definition errInvalidTargetInventory :: error where
  "errInvalidTargetInventory = Sentinel ''invalid target inventory''"

definition ENOENT :: error where "ENOENT = Sentinel ''no such file or directory''"
definition EEXIST :: error where "EEXIST = Sentinel ''file exists''"

definition O_PATH :: nat where "O_PATH = 0x200000"
definition O_DIRECTORY :: nat where "O_DIRECTORY = 0x10000"
definition O_RDONLY :: nat where "O_RDONLY = 0"
definition O_CLOEXEC :: nat where "O_CLOEXEC = 0x80000"
definition RESOLVE_BENEATH :: nat where "RESOLVE_BENEATH = 0x08"
definition RESOLVE_NO_SYMLINKS :: nat where "RESOLVE_NO_SYMLINKS = 0x04"
definition RESOLVE_NO_MAGICLINKS :: nat where "RESOLVE_NO_MAGICLINKS = 0x02"
definition AT_REMOVEDIR :: nat where "AT_REMOVEDIR = 0x200"
definition S_IFMT :: nat where "S_IFMT = 0xF000"
definition S_IFDIR :: nat where "S_IFDIR = 0x4000"

definition protectedTargetRoots :: "string list" where
  "protectedTargetRoots = [''/proc'', ''/sys'', ''/dev'', ''/run'', ''/boot'', ''/etc'', ''/usr'',
     ''/var/lib/pilothouse'']"

record target_inventory =
  inv_ManagedTargets :: "string list"
  inv_Mounts :: "string list"
  inv_UnitOwners :: "(string, string) gomap"

record open_how =
  how_Flags :: nat
  how_Resolve :: nat

record 'w pathFS =
  fs_close :: "int \<Rightarrow> 'w \<Rightarrow> error option \<times> 'w"
  fs_empty :: "int \<Rightarrow> 'w \<Rightarrow> bool result \<times> 'w"
  fs_fstat :: "int \<Rightarrow> 'w \<Rightarrow> nat result \<times> 'w"
  fs_mkdirat :: "int \<Rightarrow> string \<Rightarrow> nat \<Rightarrow> 'w \<Rightarrow> error option \<times> 'w"
  fs_openat2 :: "int \<Rightarrow> string \<Rightarrow> open_how \<Rightarrow> 'w \<Rightarrow> int result \<times> 'w"
  fs_openRoot :: "'w \<Rightarrow> int result \<times> 'w"
  fs_unlinkat :: "int \<Rightarrow> string \<Rightarrow> nat \<Rightarrow> 'w \<Rightarrow> error option \<times> 'w"

record 'w path_manager =
  pm_DefinitionID :: string
  pm_fs :: "'w pathFS"

definition NewPathManager :: "'w pathFS \<Rightarrow> string \<Rightarrow> 'w path_manager result" where
  "NewPathManager linux definitionID = (case ValidateDefinitionID definitionID of
     Some e \<Rightarrow> Inl e
   | None \<Rightarrow> Inr \<lparr>pm_DefinitionID = definitionID, pm_fs = linux\<rparr>)"

subsection \<open>Policy\<close>

definition protectedTarget :: "string \<Rightarrow> bool" where
  "protectedTarget target \<longleftrightarrow> target = ''/'' \<or>
     list_ex (\<lambda>root. target = root \<or> prefix (root @ ''/'') target) protectedTargetRoots"

definition hexByte :: "char \<Rightarrow> bool" where
  "hexByte value \<longleftrightarrow> between 0x30 0x39 value \<or> between 0x61 0x66 value"

definition unit_char :: "char \<Rightarrow> bool" where
  "unit_char c \<longleftrightarrow> between 0x61 0x7A c \<or> between 0x41 0x5A c \<or> between 0x30 0x39 c \<or>
     c = CHR '':'' \<or> c = CHR ''_'' \<or> c = CHR ''.'' \<or> c = CHR ''-''"

fun unit_bytes :: "string \<Rightarrow> bool" where
  "unit_bytes [] \<longleftrightarrow> True"
| "unit_bytes (c # cs) \<longleftrightarrow>
     (if unit_char c then unit_bytes cs
      else (case cs of
        x # h # l # rest \<Rightarrow>
          c = CHR 0x5C \<and> x = CHR ''x'' \<and> hexByte h \<and> hexByte l \<and> unit_bytes rest
      | _ \<Rightarrow> False))"

definition trim_suffix :: "string \<Rightarrow> string \<Rightarrow> string" where
  "trim_suffix suf s = (if suffix suf s then take (length s - length suf) s else s)"

definition validUnitName :: "string \<Rightarrow> bool" where
  "validUnitName name \<longleftrightarrow>
     \<not> (length name = 0 \<or> length name > 255 \<or>
        (\<not> suffix ''.mount'' name \<and> \<not> suffix ''.automount'' name)) \<and>
     trim_suffix ''.mount'' (trim_suffix ''.automount'' name) \<noteq> [] \<and>
     unit_bytes name"

definition validateTargetInventory :: "target_inventory option \<Rightarrow> error option" where
  "validateTargetInventory inventory = (case inventory of None \<Rightarrow> None
   | Some iv \<Rightarrow>
      if list_ex (\<lambda>mount. ValidateTarget mount \<noteq> None) (inv_Mounts iv) then Some errInvalidTargetInventory
      else if list_ex (\<lambda>target. ValidateTarget target \<noteq> None) (inv_ManagedTargets iv)
      then Some errInvalidTargetInventory
      else if list_ex (\<lambda>(name, owner). \<not> validUnitName name \<or> ValidateDefinitionID owner \<noteq> None)
          (inv_UnitOwners iv)
      then Some errInvalidTargetInventory
      else None)"

definition hasConflict ::
    "(string \<Rightarrow> string) \<Rightarrow> 'w path_manager \<Rightarrow> string \<Rightarrow> target_inventory option \<Rightarrow> bool" where
  "hasConflict esc manager target inventory = (case inventory of None \<Rightarrow> False
   | Some iv \<Rightarrow>
      list_ex (\<lambda>mount. mount = target \<or> prefix (target @ ''/'') mount) (inv_Mounts iv) \<or>
      list_ex (\<lambda>managed. managed = target \<or> prefix (target @ ''/'') managed \<or>
        prefix (managed @ ''/'') target) (inv_ManagedTargets iv) \<or>
      list_ex (\<lambda>name. case map_of (inv_UnitOwners iv) name of None \<Rightarrow> False
        | Some owner \<Rightarrow> owner \<noteq> pm_DefinitionID manager)
        [mountUnitName esc target, automountUnitName esc target])"

definition validatePolicy ::
    "(string \<Rightarrow> string) \<Rightarrow> 'w path_manager \<Rightarrow> string \<Rightarrow> target_inventory option \<Rightarrow> error option" where
  "validatePolicy esc manager target inventory =
     (if ValidateTarget target \<noteq> None \<or> protectedTarget target then Some errUnsafeTarget
      else (case validateTargetInventory inventory of Some e \<Rightarrow> Some e
        | None \<Rightarrow> if hasConflict esc manager target inventory then Some errUnsafeTarget else None))"

subsection \<open>The walk\<close>

definition pm_open :: "'w path_manager \<Rightarrow> int \<Rightarrow> string \<Rightarrow> nat \<Rightarrow> 'w \<Rightarrow> int result \<times> 'w" where
  "pm_open manager parent name flags w = fs_openat2 (pm_fs manager) parent name
     \<lparr>how_Flags = flags OR O_CLOEXEC,
      how_Resolve = RESOLVE_BENEATH OR RESOLVE_NO_SYMLINKS OR RESOLVE_NO_MAGICLINKS\<rparr> w"

text \<open>\<open>_ = manager.fs.close(fd)\<close>, and the same call deferred to the end.\<close>

definition pm_close :: "'w path_manager \<Rightarrow> int \<Rightarrow> 'w \<Rightarrow> 'w" where
  "pm_close manager fd w = snd (fs_close (pm_fs manager) fd w)"

definition closing :: "'w path_manager \<Rightarrow> int \<Rightarrow> 'a \<times> 'w \<Rightarrow> 'a \<times> 'w" where
  "closing manager fd r = (fst r, pm_close manager fd (snd r))"

fun walk_components ::
    "'w path_manager \<Rightarrow> int \<Rightarrow> string list \<Rightarrow> 'w \<Rightarrow> (int \<times> string \<times> bool) result \<times> 'w" where
  "walk_components manager parent [] w = (Inl errUnsafeTarget, pm_close manager parent w)"
| "walk_components manager parent [component] w =
     (case pm_open manager parent component O_PATH w of
        (Inl e, w1) \<Rightarrow>
          if errors_is e ENOENT then (Inr (parent, component, False), w1)
          else (Inl e, pm_close manager parent w1)
      | (Inr fd, w1) \<Rightarrow> (Inr (parent, component, True), pm_close manager fd w1))"
| "walk_components manager parent (component # c # cs) w =
     (case pm_open manager parent component (O_PATH OR O_DIRECTORY) w of
        (Inl e, w1) \<Rightarrow> (Inl e, pm_close manager parent w1)
      | (Inr nxt, w1) \<Rightarrow> walk_components manager nxt (c # cs) (pm_close manager parent w1))"

definition path_components :: "string \<Rightarrow> string list" where
  "path_components target = split_on slash (if prefix ''/'' target then drop 1 target else target)"

definition pm_walk :: "'w path_manager \<Rightarrow> string \<Rightarrow> 'w \<Rightarrow> (int \<times> string \<times> bool) result \<times> 'w" where
  "pm_walk manager target w = (case fs_openRoot (pm_fs manager) w of
     (Inl e, w1) \<Rightarrow> (Inl e, w1)
   | (Inr parent, w1) \<Rightarrow> walk_components manager parent (path_components target) w1)"

definition validateDirectory :: "'w path_manager \<Rightarrow> int \<Rightarrow> string \<Rightarrow> 'w \<Rightarrow> error option \<times> 'w" where
  "validateDirectory manager parent leaf w =
     (case pm_open manager parent leaf (O_RDONLY OR O_DIRECTORY) w of
        (Inl e, w1) \<Rightarrow> (Some (Wrapf ''open target: %w'' [] e), w1)
      | (Inr fd, w1) \<Rightarrow> closing manager fd
          (case fs_fstat (pm_fs manager) fd w1 of
             (Inl e, w2) \<Rightarrow> (Some (Wrapf ''stat target: %w'' [] e), w2)
           | (Inr mode, w2) \<Rightarrow>
               if mode AND S_IFMT \<noteq> S_IFDIR then (Some errUnsafeTarget, w2)
               else (case fs_empty (pm_fs manager) fd w2 of
                   (Inl e, w3) \<Rightarrow> (Some (Wrapf ''read target: %w'' [] e), w3)
                 | (Inr emp, w3) \<Rightarrow> (if \<not> emp then Some errUnsafeTarget else None, w3))))"

definition pm_ValidateTarget :: "(string \<Rightarrow> string) \<Rightarrow> 'w path_manager \<Rightarrow> error option \<Rightarrow> string \<Rightarrow>
    target_inventory option \<Rightarrow> 'w \<Rightarrow> error option \<times> 'w" where
  "pm_ValidateTarget esc manager cerr target inventory w = (case cerr of Some e \<Rightarrow> (Some e, w)
   | None \<Rightarrow> (case validatePolicy esc manager target inventory of Some e \<Rightarrow> (Some e, w)
     | None \<Rightarrow> (case pm_walk manager target w of
         (Inl e, w1) \<Rightarrow> (Some (Wrapf ''open target: %w'' [] e), w1)
       | (Inr (parent, leaf, ex), w1) \<Rightarrow> closing manager parent
           (if \<not> ex then (None, w1) else validateDirectory manager parent leaf w1))))"

definition CreateTarget :: "(string \<Rightarrow> string) \<Rightarrow> 'w path_manager \<Rightarrow> error option \<Rightarrow> string \<Rightarrow>
    target_inventory option \<Rightarrow> 'w \<Rightarrow> bool result \<times> 'w" where
  "CreateTarget esc manager cerr target inventory w =
     (case pm_ValidateTarget esc manager cerr target inventory w of
        (Some e, w0) \<Rightarrow> (Inl e, w0)
      | (None, w0) \<Rightarrow> (case pm_walk manager target w0 of
          (Inl e, w1) \<Rightarrow> (Inl (Wrapf ''open target parent: %w'' [] e), w1)
        | (Inr (parent, leaf, ex), w1) \<Rightarrow> closing manager parent
            (if ex then (case validateDirectory manager parent leaf w1 of
                (Some e, w2) \<Rightarrow> (Inl e, w2) | (None, w2) \<Rightarrow> (Inr False, w2))
             else (case fs_mkdirat (pm_fs manager) parent leaf 0x1ED w1 of
                (Some e, w2) \<Rightarrow> (Inl (Wrapf ''create target: %w'' [] e), w2)
              | (None, w2) \<Rightarrow> (case validateDirectory manager parent leaf w2 of
                  (Some e, w3) \<Rightarrow> (Inl e, w3) | (None, w3) \<Rightarrow> (Inr True, w3))))))"

definition RemoveTarget :: "(string \<Rightarrow> string) \<Rightarrow> 'w path_manager \<Rightarrow> error option \<Rightarrow> string \<Rightarrow> bool \<Rightarrow>
    target_inventory option \<Rightarrow> 'w \<Rightarrow> error option \<times> 'w" where
  "RemoveTarget esc manager cerr target created inventory w =
     (if \<not> created then (None, w)
      else (case pm_ValidateTarget esc manager cerr target inventory w of
        (Some e, w0) \<Rightarrow> (Some e, w0)
      | (None, w0) \<Rightarrow> (case pm_walk manager target w0 of
          (Inl e, w1) \<Rightarrow> (Some (Wrapf ''open target parent: %w'' [] e), w1)
        | (Inr (parent, leaf, ex), w1) \<Rightarrow> closing manager parent
            (if \<not> ex then (None, w1)
             else (case validateDirectory manager parent leaf w1 of
                (Some e, w2) \<Rightarrow> (Some e, w2)
              | (None, w2) \<Rightarrow> (case fs_unlinkat (pm_fs manager) parent leaf AT_REMOVEDIR w2 of
                  (Some e, w3) \<Rightarrow> (Some (Wrapf ''remove target: %w'' [] e), w3)
                | (None, w3) \<Rightarrow> (None, w3)))))))"


section \<open>The policy as a statement on components\<close>

text \<open>\<open>within a b\<close>: the path \<open>b\<close> is \<open>a\<close> or lies beneath it, component by component.\<close>

definition within :: "string \<Rightarrow> string \<Rightarrow> bool" where
  "within a b \<longleftrightarrow> prefix (split_on slash a) (split_on slash b)"

lemma split_on_join_append: "split_on sep (s @ sep # u) = split_on sep s @ split_on sep u"
  by (induction s) (auto split: list.splits)

lemma join_with_append:
  "us \<noteq> [] \<Longrightarrow> vs \<noteq> [] \<Longrightarrow> join_with sep (us @ vs) = join_with sep us @ sep @ join_with sep vs"
proof (induction us)
  case (Cons u us)
  then show ?case by (cases us; cases vs) auto
qed simp

lemma within_iff: "within a b \<longleftrightarrow> b = a \<or> prefix (a @ ''/'') b"
proof
  assume "within a b"
  then obtain ws where ws: "split_on slash b = split_on slash a @ ws"
    by (auto simp: within_def elim: prefixE)
  have b: "b = join_with [slash] (split_on slash a @ ws)" using ws join_split_on[of slash b] by simp
  show "b = a \<or> prefix (a @ ''/'') b"
  proof (cases ws)
    case Nil
    then show ?thesis using b by simp
  next
    case (Cons v vs)
    from join_with_append[of "split_on slash a" "v # vs" "[slash]"] b Cons show ?thesis
      by (simp add: slash_def prefix_def)
  qed
next
  assume "b = a \<or> prefix (a @ ''/'') b"
  then show "within a b"
    by (auto simp: within_def prefix_def slash_def split_on_join_append)
qed

definition reserved_units ::
    "(string \<Rightarrow> string) \<Rightarrow> string \<Rightarrow> string \<Rightarrow> (string, string) gomap \<Rightarrow> bool" where
  "reserved_units esc i t owners \<longleftrightarrow>
     (\<exists>owner. owner \<noteq> i \<and> (map_of owners (mountUnitName esc t) = Some owner \<or>
        map_of owners (automountUnitName esc t) = Some owner))"

lemma hasConflict_iff:
  "hasConflict esc m t (Some iv) \<longleftrightarrow>
     (\<exists>x\<in>set (inv_Mounts iv). within t x) \<or>
     (\<exists>x\<in>set (inv_ManagedTargets iv). within t x \<or> within x t) \<or>
     reserved_units esc (pm_DefinitionID m) t (inv_UnitOwners iv)"
  by (auto simp: hasConflict_def within_iff list_ex_iff reserved_units_def split: option.splits)

lemma protectedTarget_iff:
  "protectedTarget t \<longleftrightarrow> t = ''/'' \<or> (\<exists>root\<in>set protectedTargetRoots. within root t)"
  by (auto simp: protectedTarget_def within_iff list_ex_iff)

text \<open>
  C27. The string tests of the target policy decide containment of paths. \<open>validatePolicy\<close> accepts
  a target exactly when it is a clean absolute path, is not the root or inside a protected tree, the
  inventory is well formed, no mount is at or beneath it, no managed target is at, above or beneath
  it, and its unit names are free or its own. When it refuses, neither \<open>CreateTarget\<close> nor
  \<open>RemoveTarget\<close> of a created target touches the file system.
\<close>

theorem target_policy_exact:
  "(validatePolicy esc m t (Some iv) = None \<longleftrightarrow>
     ValidateTarget t = None \<and> t \<noteq> ''/'' \<and>
     \<not> (\<exists>root\<in>set protectedTargetRoots. within root t) \<and>
     validateTargetInventory (Some iv) = None \<and>
     \<not> (\<exists>x\<in>set (inv_Mounts iv). within t x) \<and>
     \<not> (\<exists>x\<in>set (inv_ManagedTargets iv). within t x \<or> within x t) \<and>
     \<not> reserved_units esc (pm_DefinitionID m) t (inv_UnitOwners iv)) \<and>
   (case validatePolicy esc m t (Some iv) of None \<Rightarrow> True | Some e \<Rightarrow>
     CreateTarget esc m None t (Some iv) w = (Inl e, w) \<and>
     RemoveTarget esc m None t True (Some iv) w = (Some e, w))"
proof
  show "validatePolicy esc m t (Some iv) = None \<longleftrightarrow>
     ValidateTarget t = None \<and> t \<noteq> ''/'' \<and>
     \<not> (\<exists>root\<in>set protectedTargetRoots. within root t) \<and>
     validateTargetInventory (Some iv) = None \<and>
     \<not> (\<exists>x\<in>set (inv_Mounts iv). within t x) \<and>
     \<not> (\<exists>x\<in>set (inv_ManagedTargets iv). within t x \<or> within x t) \<and>
     \<not> reserved_units esc (pm_DefinitionID m) t (inv_UnitOwners iv)"
    unfolding validatePolicy_def hasConflict_iff protectedTarget_iff
    by (simp split: option.split)
qed (simp add: CreateTarget_def RemoveTarget_def pm_ValidateTarget_def split: option.split)

section \<open>Descriptors\<close>

text \<open>
  What the kernel promises about descriptors, over the set \<open>fds\<close> of those the process holds: an
  open returns a new one or changes nothing, close gives it back even when it reports an error, and
  the other calls leave the set alone.
\<close>

definition opens_fresh :: "('w \<Rightarrow> int set) \<Rightarrow> ('w \<Rightarrow> int result \<times> 'w) \<Rightarrow> bool" where
  "opens_fresh fds f \<longleftrightarrow> (\<forall>w. case f w of
     (Inl _, w') \<Rightarrow> fds w' = fds w
   | (Inr fd, w') \<Rightarrow> fd \<notin> fds w \<and> fds w' = insert fd (fds w))"

definition keeps_fds :: "('w \<Rightarrow> int set) \<Rightarrow> ('w \<Rightarrow> 'a \<times> 'w) \<Rightarrow> bool" where
  "keeps_fds fds f \<longleftrightarrow> (\<forall>w. fds (snd (f w)) = fds w)"

definition descriptor_laws :: "('w \<Rightarrow> int set) \<Rightarrow> 'w pathFS \<Rightarrow> bool" where
  "descriptor_laws fds F \<longleftrightarrow>
     opens_fresh fds (fs_openRoot F) \<and>
     (\<forall>fd name how. opens_fresh fds (fs_openat2 F fd name how)) \<and>
     (\<forall>fd w. fds (snd (fs_close F fd w)) = fds w - {fd}) \<and>
     (\<forall>fd. keeps_fds fds (fs_empty F fd)) \<and> (\<forall>fd. keeps_fds fds (fs_fstat F fd)) \<and>
     (\<forall>fd name mode. keeps_fds fds (fs_mkdirat F fd name mode)) \<and>
     (\<forall>fd name flags. keeps_fds fds (fs_unlinkat F fd name flags))"

lemma opens_fresh_error: "opens_fresh fds f \<Longrightarrow> f w = (Inl e, w') \<Longrightarrow> fds w' = fds w"
  unfolding opens_fresh_def by (drule spec[of _ w]) simp

lemma opens_fresh_ok:
  "opens_fresh fds f \<Longrightarrow> f w = (Inr fd, w') \<Longrightarrow> fd \<notin> fds w \<and> fds w' = insert fd (fds w)"
  unfolding opens_fresh_def by (drule spec[of _ w]) simp

lemma keeps_fdsD: "keeps_fds fds f \<Longrightarrow> f w = (r, w') \<Longrightarrow> fds w' = fds w"
  unfolding keeps_fds_def by (drule spec[of _ w]) simp

lemma fds_open_laws:
  assumes "descriptor_laws fds (pm_fs m)"
  shows "opens_fresh fds (pm_open m p n f)" and "opens_fresh fds (fs_openRoot (pm_fs m))"
    and "fds (pm_close m fd w) = fds w - {fd}"
  using assms by (simp_all add: descriptor_laws_def opens_fresh_def pm_open_def pm_close_def)

lemma fds_keep_laws:
  assumes "descriptor_laws fds (pm_fs m)"
  shows "keeps_fds fds (fs_empty (pm_fs m) fd)" and "keeps_fds fds (fs_fstat (pm_fs m) fd)"
    and "keeps_fds fds (fs_mkdirat (pm_fs m) fd n k)" and "keeps_fds fds (fs_unlinkat (pm_fs m) fd n k)"
  using assms by (simp_all add: descriptor_laws_def)

text \<open>The walk hands its caller exactly one descriptor, or none when it fails.\<close>

lemma walk_components_fds:
  assumes L: "descriptor_laws fds (pm_fs m)"
  shows "parent \<in> fds w \<Longrightarrow> walk_components m parent cs w = (r, w') \<Longrightarrow>
    (case r of Inl _ \<Rightarrow> fds w' = fds w - {parent}
     | Inr (p, leaf, ex) \<Rightarrow> p \<in> fds w' \<and> fds w' - {p} = fds w - {parent})"
proof (induction cs arbitrary: parent w)
  case Nil
  then show ?case by (auto simp: fds_open_laws(3)[OF L])
next
  case (Cons c cs)
  note open_error = opens_fresh_error[OF fds_open_laws(1)[OF L]]
    and open_ok = opens_fresh_ok[OF fds_open_laws(1)[OF L]] and close = fds_open_laws(3)[OF L]
  show ?case
  proof (cases cs)
    case Nil
    obtain r1 w1 where o: "pm_open m parent c O_PATH w = (r1, w1)" by (cases "pm_open m parent c O_PATH w")
    show ?thesis
    proof (cases r1)
      case (Inl e)
      with o open_error have "fds w1 = fds w" by blast
      with Cons.prems Nil Inl o close show ?thesis by (auto split: if_splits)
    next
      case (Inr fd)
      with o open_ok have "fd \<notin> fds w \<and> fds w1 = insert fd (fds w)" by blast
      with Cons.prems Nil Inr o close show ?thesis by auto
    qed
  next
    case (Cons d ds)
    obtain r1 w1 where o: "pm_open m parent c (O_PATH OR O_DIRECTORY) w = (r1, w1)"
      by (cases "pm_open m parent c (O_PATH OR O_DIRECTORY) w")
    show ?thesis
    proof (cases r1)
      case (Inl e)
      with o open_error have "fds w1 = fds w" by blast
      with Cons.prems Cons Inl o close show ?thesis by auto
    next
      case (Inr fd)
      with o open_ok have n: "fd \<notin> fds w \<and> fds w1 = insert fd (fds w)" by blast
      have c: "fds (pm_close m parent w1) = insert fd (fds w) - {parent}" using n close by simp
      have "fd \<noteq> parent" using n Cons.prems by auto
      then have i: "fd \<in> fds (pm_close m parent w1)" and e: "fds (pm_close m parent w1) - {fd} = fds w - {parent}"
        using c n by auto
      have "walk_components m fd cs (pm_close m parent w1) = (r, w')"
        using Cons.prems Cons Inr o by simp
      from Cons.IH[OF i this] show ?thesis unfolding e .
    qed
  qed
qed

lemma walk_fds:
  assumes L: "descriptor_laws fds (pm_fs m)" and w: "pm_walk m t w = (r, w')"
  shows "case r of Inl _ \<Rightarrow> fds w' = fds w
    | Inr (p, leaf, ex) \<Rightarrow> p \<in> fds w' \<and> fds w' - {p} = fds w"
proof -
  obtain r1 w1 where o: "fs_openRoot (pm_fs m) w = (r1, w1)" by (cases "fs_openRoot (pm_fs m) w")
  show ?thesis
  proof (cases r1)
    case (Inl e)
    with o w opens_fresh_error[OF fds_open_laws(2)[OF L]] show ?thesis by (auto simp: pm_walk_def)
  next
    case (Inr fd)
    with o opens_fresh_ok[OF fds_open_laws(2)[OF L]] have n: "fd \<notin> fds w \<and> fds w1 = insert fd (fds w)"
      by blast
    have "walk_components m fd (path_components t) w1 = (r, w')" using w o Inr by (simp add: pm_walk_def)
    from walk_components_fds[OF L _ this] n show ?thesis
      by (auto split: sum.splits prod.splits)
  qed
qed

lemma validateDirectory_fds:
  assumes L: "descriptor_laws fds (pm_fs m)" and v: "validateDirectory m p leaf w = (r, w')"
  shows "fds w' = fds w"
proof -
  obtain r1 w1 where o: "pm_open m p leaf (O_RDONLY OR O_DIRECTORY) w = (r1, w1)"
    by (cases "pm_open m p leaf (O_RDONLY OR O_DIRECTORY) w")
  show ?thesis
  proof (cases r1)
    case (Inl e)
    with o v opens_fresh_error[OF fds_open_laws(1)[OF L]] show ?thesis by (auto simp: validateDirectory_def)
  next
    case (Inr fd)
    with o opens_fresh_ok[OF fds_open_laws(1)[OF L]] have n: "fd \<notin> fds w \<and> fds w1 = insert fd (fds w)"
      by blast
    have "\<exists>w2. fds w2 = fds w1 \<and> w' = pm_close m fd w2"
      using v o Inr keeps_fdsD[OF fds_keep_laws(1)[OF L]] keeps_fdsD[OF fds_keep_laws(2)[OF L]]
      by (auto simp: validateDirectory_def closing_def split: prod.splits sum.splits if_splits) metis+
    then show ?thesis using n fds_open_laws(3)[OF L] by auto
  qed
qed

text \<open>The body run with the parent open, followed by its deferred close.\<close>

lemma closing_fds:
  assumes "descriptor_laws fds (pm_fs m)" and "closing m p r = (x, w')"
  shows "fds w' = fds (snd r) - {p}"
  using assms fds_open_laws(3)[OF assms(1)] by (auto simp: closing_def)

lemma pm_ValidateTarget_fds:
  assumes L: "descriptor_laws fds (pm_fs m)" and v: "pm_ValidateTarget esc m c t iv w = (r, w')"
  shows "fds w' = fds w"
proof (cases "c = None \<and> validatePolicy esc m t iv = None")
  case False
  then show ?thesis using v by (auto simp: pm_ValidateTarget_def split: option.splits)
next
  case True
  obtain r1 w1 where k: "pm_walk m t w = (r1, w1)" by (cases "pm_walk m t w")
  note f = walk_fds[OF L k]
  show ?thesis
  proof (cases r1)
    case (Inl e)
    then show ?thesis using v True k f by (simp add: pm_ValidateTarget_def)
  next
    case (Inr q)
    obtain p leaf ex where q: "q = (p, leaf, ex)" by (cases q)
    have "closing m p (if \<not> ex then (None, w1) else validateDirectory m p leaf w1) = (r, w')"
      using v True k Inr q by (simp add: pm_ValidateTarget_def)
    from closing_fds[OF L this] validateDirectory_fds[OF L surjective_pairing] f Inr q
    show ?thesis by (simp split: if_splits)
  qed
qed

lemma CreateTarget_fds:
  assumes L: "descriptor_laws fds (pm_fs m)" and v: "CreateTarget esc m c t iv w = (r, w')"
  shows "fds w' = fds w"
proof -
  obtain r0 w0 where p: "pm_ValidateTarget esc m c t iv w = (r0, w0)"
    by (cases "pm_ValidateTarget esc m c t iv w")
  note f0 = pm_ValidateTarget_fds[OF L p]
  obtain r1 w1 where k: "pm_walk m t w0 = (r1, w1)" by (cases "pm_walk m t w0")
  note f = walk_fds[OF L k]
  consider e where "r0 = Some e" | e where "r0 = None" "r1 = Inl e"
    | pa leaf ex where "r0 = None" "r1 = Inr (pa, leaf, ex)"
    by (cases r0; cases r1) auto
  then show ?thesis
  proof cases
    case 1
    then show ?thesis using v p f0 by (simp add: CreateTarget_def)
  next
    case 2
    then show ?thesis using v p k f f0 by (simp add: CreateTarget_def)
  next
    case 3
    let ?b = "if ex then (case validateDirectory m pa leaf w1 of
                (Some e, w2) \<Rightarrow> (Inl e, w2) | (None, w2) \<Rightarrow> (Inr False, w2))
             else (case fs_mkdirat (pm_fs m) pa leaf 0x1ED w1 of
                (Some e, w2) \<Rightarrow> (Inl (Wrapf ''create target: %w'' [] e), w2)
              | (None, w2) \<Rightarrow> (case validateDirectory m pa leaf w2 of
                  (Some e, w3) \<Rightarrow> (Inl e, w3) | (None, w3) \<Rightarrow> (Inr True, w3)))"
    have b: "closing m pa ?b = (r, w')" using v p k 3 by (simp add: CreateTarget_def)
    have "fds (snd ?b) = fds w1"
      using validateDirectory_fds[OF L] keeps_fdsD[OF fds_keep_laws(3)[OF L]]
      by (auto split: prod.splits option.splits)
    with closing_fds[OF L b] f f0 3 show ?thesis by simp
  qed
qed

lemma RemoveTarget_fds:
  assumes L: "descriptor_laws fds (pm_fs m)" and v: "RemoveTarget esc m c t created iv w = (r, w')"
  shows "fds w' = fds w"
proof -
  obtain r0 w0 where p: "pm_ValidateTarget esc m c t iv w = (r0, w0)"
    by (cases "pm_ValidateTarget esc m c t iv w")
  note f0 = pm_ValidateTarget_fds[OF L p]
  obtain r1 w1 where k: "pm_walk m t w0 = (r1, w1)" by (cases "pm_walk m t w0")
  note f = walk_fds[OF L k]
  consider "\<not> created" | e where "created" "r0 = Some e" | e where "created" "r0 = None" "r1 = Inl e"
    | pa leaf ex where "created" "r0 = None" "r1 = Inr (pa, leaf, ex)"
    by (cases created; cases r0; cases r1) auto
  then show ?thesis
  proof cases
    case 1
    then show ?thesis using v by (simp add: RemoveTarget_def)
  next
    case 2
    then show ?thesis using v p f0 by (simp add: RemoveTarget_def)
  next
    case 3
    then show ?thesis using v p k f f0 by (simp add: RemoveTarget_def)
  next
    case 4
    let ?b = "if \<not> ex then (None, w1)
             else (case validateDirectory m pa leaf w1 of
                (Some e, w2) \<Rightarrow> (Some e, w2)
              | (None, w2) \<Rightarrow> (case fs_unlinkat (pm_fs m) pa leaf AT_REMOVEDIR w2 of
                  (Some e, w3) \<Rightarrow> (Some (Wrapf ''remove target: %w'' [] e), w3)
                | (None, w3) \<Rightarrow> (None, w3)))"
    have b: "closing m pa ?b = (r, w')" using v p k 4 by (simp add: RemoveTarget_def)
    have "fds (snd ?b) = fds w1"
      using validateDirectory_fds[OF L] keeps_fdsD[OF fds_keep_laws(4)[OF L]]
      by (auto split: prod.splits option.splits)
    with closing_fds[OF L b] f f0 4 show ?thesis by simp
  qed
qed

text \<open>
  No operation on targets leaks or closes a foreign descriptor: over any kernel that hands out
  fresh descriptors and takes back closed ones, \<open>ValidateTarget\<close>, \<open>CreateTarget\<close> and
  \<open>RemoveTarget\<close> end with exactly the descriptors they started with, on every error path too.
\<close>

theorem target_descriptors_balanced:
  assumes "descriptor_laws fds (pm_fs m)"
  shows "fds (snd (pm_ValidateTarget esc m c t iv w)) = fds w \<and>
    fds (snd (CreateTarget esc m c t iv w)) = fds w \<and>
    fds (snd (RemoveTarget esc m c t created iv w)) = fds w"
  using pm_ValidateTarget_fds[OF assms surjective_pairing] CreateTarget_fds[OF assms surjective_pairing]
    RemoveTarget_fds[OF assms surjective_pairing] by simp

text \<open>
  A file system for examples: directories by path, all empty, and a table of open descriptors.
\<close>

record demo_dirs =
  dd_dirs :: "string list list"
  dd_open :: "(int \<times> string list) list"

definition demo_fresh :: "demo_dirs \<Rightarrow> int" where
  "demo_fresh w = Max (insert 2 (set (map fst (dd_open w)))) + 1"

definition demo_fs :: "demo_dirs pathFS" where
  "demo_fs = \<lparr>
     fs_close = (\<lambda>fd w. (None, w\<lparr>dd_open := filter (\<lambda>p. fst p \<noteq> fd) (dd_open w)\<rparr>)),
     fs_empty = (\<lambda>fd w. (Inr True, w)),
     fs_fstat = (\<lambda>fd w. (Inr 0x41ED, w)),
     fs_mkdirat = (\<lambda>fd name mode w. case map_of (dd_open w) fd of None \<Rightarrow> (Some ENOENT, w)
       | Some d \<Rightarrow> (None, w\<lparr>dd_dirs := (d @ [name]) # dd_dirs w\<rparr>)),
     fs_openat2 = (\<lambda>fd name how w. case map_of (dd_open w) fd of None \<Rightarrow> (Inl ENOENT, w)
       | Some d \<Rightarrow> if List.member (dd_dirs w) (d @ [name])
           then (Inr (demo_fresh w), w\<lparr>dd_open := (demo_fresh w, d @ [name]) # dd_open w\<rparr>)
           else (Inl ENOENT, w)),
     fs_openRoot = (\<lambda>w. (Inr (demo_fresh w), w\<lparr>dd_open := (demo_fresh w, []) # dd_open w\<rparr>)),
     fs_unlinkat = (\<lambda>fd name flags w. case map_of (dd_open w) fd of None \<Rightarrow> (Some ENOENT, w)
       | Some d \<Rightarrow> (None, w\<lparr>dd_dirs := filter (\<lambda>x. x \<noteq> d @ [name]) (dd_dirs w)\<rparr>))\<rparr>"

definition demo_fds :: "demo_dirs \<Rightarrow> int set" where
  "demo_fds w = fst ` set (dd_open w)"

lemma demo_fresh_new: "demo_fresh w \<notin> demo_fds w"
proof
  assume "demo_fresh w \<in> demo_fds w"
  then have "demo_fresh w \<le> Max (insert 2 (set (map fst (dd_open w))))"
    by (intro Max_ge) (auto simp: demo_fds_def)
  then show False by (simp add: demo_fresh_def)
qed

lemma demo_fs_laws: "descriptor_laws demo_fds demo_fs"
  using demo_fresh_new
  by (auto simp: descriptor_laws_def opens_fresh_def keeps_fds_def demo_fs_def demo_fds_def
      split: option.splits if_splits)

definition demo_manager :: "demo_dirs path_manager" where
  "demo_manager = \<lparr>pm_DefinitionID = demo_id, pm_fs = demo_fs\<rparr>"

lemma demo_policy: "validatePolicy demo_escape demo_manager ''/mnt/nas'' None = None"
  by (simp add: validatePolicy_def demo_fields_valid protectedTarget_def protectedTargetRoots_def
      validateTargetInventory_def hasConflict_def)

definition at_root :: "string list list \<Rightarrow> demo_dirs" where
  "at_root ds = \<lparr>dd_dirs = ds, dd_open = []\<rparr>"

definition at_mnt :: "string list list \<Rightarrow> demo_dirs" where
  "at_mnt ds = \<lparr>dd_dirs = ds, dd_open = [(4, [''mnt''])]\<rparr>"

lemmas demo_step = pm_open_def pm_close_def demo_manager_def demo_fs_def demo_fresh_def at_root_def at_mnt_def

lemma demo_walk:
  assumes "[''mnt''] \<in> set ds"
  shows "pm_walk demo_manager ''/mnt/nas'' (at_root ds) =
    (Inr (4, ''nas'', [''mnt'', ''nas''] \<in> set ds), at_mnt ds)"
  using assms by (simp add: pm_walk_def path_components_def slash_def demo_step ENOENT_def)

lemma demo_validate:
  assumes "[''mnt'', ''nas''] \<in> set ds"
  shows "validateDirectory demo_manager 4 ''nas'' (at_mnt ds) = (None, at_mnt ds)"
proof -
  have b: "0x41ED AND S_IFMT = S_IFDIR" by (simp add: S_IFMT_def S_IFDIR_def)
  show ?thesis using assms by (simp add: validateDirectory_def closing_def demo_step b)
qed

lemma demo_create: "CreateTarget demo_escape demo_manager None ''/mnt/nas'' None (at_root [[''mnt'']]) =
    (Inr True, at_root [[''mnt'', ''nas''], [''mnt'']])"
proof -
  have mk: "fs_mkdirat (pm_fs demo_manager) 4 ''nas'' 0x1ED (at_mnt [[''mnt'']]) =
      (None, at_mnt [[''mnt'', ''nas''], [''mnt'']])" by (simp add: demo_step)
  have cl: "closing demo_manager 4 (x, at_mnt ds) = (x, at_root ds)" for x :: 'a and ds
    by (simp add: closing_def demo_step)
  show ?thesis
    by (simp add: CreateTarget_def pm_ValidateTarget_def demo_policy demo_walk demo_validate mk cl)
qed

theorem target_descriptors_balanced_witness:
  "fst (CreateTarget demo_escape demo_manager None ''/mnt/nas'' None (at_root [[''mnt'']])) = Inr True \<and>
   demo_fds (snd (CreateTarget demo_escape demo_manager None ''/mnt/nas'' None (at_root [[''mnt'']]))) =
     demo_fds (at_root [[''mnt'']])"
proof -
  have "descriptor_laws demo_fds (pm_fs demo_manager)" by (simp add: demo_manager_def demo_fs_laws)
  from target_descriptors_balanced[OF this, of demo_escape None "''/mnt/nas''" None "at_root [[''mnt'']]"]
  have "demo_fds (snd (CreateTarget demo_escape demo_manager None ''/mnt/nas'' None (at_root [[''mnt'']]))) =
     demo_fds (at_root [[''mnt'']])" by blast
  then show ?thesis by (simp add: demo_create)
qed

end
