(* ===== verification/Bolt.thy ===== *)
theory Bolt
  imports Text "HOL-Library.Word"
begin

text \<open>
  What the durable stores use of their database and codec. bbolt and its buckets are not part of
  the repository: a bucket is a value of an arbitrary type and its methods are the fields of a
  \<open>bolt\<close> record. \<open>bolt_laws\<close> names the documented behaviour the stores rely on, by way of the
  list of pairs that a cursor walks from \<open>First\<close> to the end: keys in byte order, \<open>Put\<close>
  replaces or inserts, \<open>Delete\<close> removes, \<open>NextSequence\<close> counts up. No law speaks about
  \<open>Stats().KeyN\<close>, which is documented for committed pages only.

  \<open>db.Update\<close> runs its function in a transaction: an error rolls back, a failed commit leaves the
  old state. The scan of \<open>Open\<close> overwrites values under its own cursor; the model walks the pairs
  that were there at \<open>First\<close>, which is what a cursor does when only values of existing keys change.

  JSON is a pair of functions. \<open>codec_laws\<close> states that decoding returns what was encoded, with
  every string coerced to valid UTF-8 (\<open>coerce\<close> below), as \<open>encoding/json\<close> documents.
\<close>

section \<open>Keys\<close>

text \<open>\<open>binary.BigEndian.PutUint64\<close>.\<close>

fun be_bytes :: "nat \<Rightarrow> nat \<Rightarrow> string" where
  "be_bytes 0 n = []"
| "be_bytes (Suc k) n = char_of (n div 256 ^ k mod 256) # be_bytes k n"

definition put_uint64 :: "64 word \<Rightarrow> string" where
  "put_uint64 w = be_bytes 8 (unat w)"

lemma be_bytes_split:
  "(n::nat) mod 256 ^ Suc k = (n div 256 ^ k mod 256) * 256 ^ k + n mod 256 ^ k"
  using mod_mult2_eq[of n "256 ^ k" 256] by (simp add: mult.commute)

lemma lex_digits_less:
  fixes a b c d m :: nat
  assumes "c < m" and "d < m"
  shows "a * m + c < b * m + d \<longleftrightarrow> a < b \<or> a = b \<and> c < d"
proof -
  have *: "x * m + y < z * m + w" if "x < z" "y < m" for x y z w :: nat
  proof -
    have "x * m + y < Suc x * m" using that by simp
    also have "\<dots> \<le> z * m" using that by (intro mult_le_mono1) simp
    finally show ?thesis by simp
  qed
  show ?thesis using *[of a b c d] *[of b a d c] assms by (cases a b rule: linorder_cases) auto
qed

lemma of_char_char_of_mod: "(of_char (char_of (n mod 256)) :: nat) = n mod 256"
  by simp

lemma be_bytes_less: "be_bytes k n < be_bytes k m \<longleftrightarrow> n mod 256 ^ k < m mod 256 ^ k"
proof (induction k)
  case (Suc k)
  have "char_of (n div 256 ^ k mod 256) < (char_of (m div 256 ^ k mod 256) :: char) \<longleftrightarrow>
      n div 256 ^ k mod 256 < m div 256 ^ k mod 256"
    by (simp add: less_char_def)
  moreover have "char_of (n div 256 ^ k mod 256) = (char_of (m div 256 ^ k mod 256) :: char) \<longleftrightarrow>
      n div 256 ^ k mod 256 = m div 256 ^ k mod 256"
    by (metis of_char_char_of_mod)
  ultimately show ?case
    unfolding be_bytes_split lex_digits_less[OF mod_less_divisor mod_less_divisor, simplified]
    by (simp add: Suc lex_digits_less)
qed simp

lemma put_uint64_less: "put_uint64 v < put_uint64 w \<longleftrightarrow> v < w"
proof -
  have "unat x mod 256 ^ 8 = unat x" for x :: "64 word"
    using unsigned_less[of x] by (intro mod_less) simp
  then show ?thesis by (simp add: put_uint64_def be_bytes_less word_less_nat_alt)
qed

lemma put_uint64_inject [simp]: "put_uint64 v = put_uint64 w \<longleftrightarrow> v = w"
  by (metis put_uint64_less linorder_less_linear less_irrefl)

section \<open>Coercion to valid UTF-8\<close>

function coerce :: "string \<Rightarrow> string" where
  "coerce [] = []"
| "coerce (c # cs) = (let n = snd (decode_rune c cs) in
     (if decode_rune c cs = (rune_error, 1) then [CHR 0xEF, CHR 0xBF, CHR 0xBD]
      else c # take (n - 1) cs) @ coerce (drop (n - 1) cs))"
  by pat_completeness auto
termination by (relation "measure length") auto

lemma coerce_ascii: "list_all (\<lambda>c. byte c < 128) s \<Longrightarrow> coerce s = s"
proof (induction s)
  case (Cons c cs)
  then have "decode_rune c cs = (byte c, 1)" by (simp add: decode_rune_def Let_def)
  with Cons show ?case by (simp add: rune_error_def Let_def)
qed simp

lemma decode_rune_prefix:
  assumes "decode_rune c cs = (r, n)" and "(r, n) \<noteq> (rune_error, 1)"
  shows "decode_rune c (take (n - 1) cs @ ys) = (r, n)" and "n - 1 \<le> length cs"
proof -
  consider "n = 1" | "decode2 (byte c) cs = (r, n)" "0xC2 \<le> byte c" "byte c \<le> 0xDF"
    | "decode3 (byte c) cs = (r, n)" "0xE0 \<le> byte c" "byte c \<le> 0xEF"
    | "decode4 (byte c) cs = (r, n)" "0xF0 \<le> byte c" "byte c \<le> 0xF4"
    using assms by (auto simp: decode_rune_def Let_def split: if_splits)
  then have "decode_rune c (take (n - 1) cs @ ys) = (r, n) \<and> n - 1 \<le> length cs"
  proof cases
    case 1
    then show ?thesis
      using assms by (auto simp: decode_defs Let_def split: if_splits list.splits)
  next
    case 2
    then obtain c1 cs' where "cs = c1 # cs'" using assms(2) by (cases cs) (auto simp: decode2_def)
    with 2 assms(2) show ?thesis by (auto simp: decode_rune_def decode2_def Let_def split: if_splits)
  next
    case 3
    then obtain c1 c2 cs' where "cs = c1 # c2 # cs'"
      using assms(2) by (cases cs; cases "tl cs") (auto simp: decode3_def)
    with 3 assms(2) show ?thesis
      by (auto simp: decode_rune_def decode3_def Let_def split: if_splits)
  next
    case 4
    then obtain c1 c2 c3 cs' where "cs = c1 # c2 # c3 # cs'"
      using assms(2) by (cases cs; cases "tl cs"; cases "tl (tl cs)") (auto simp: decode4_def)
    with 4 assms(2) show ?thesis
      by (auto simp: decode_rune_def decode4_def Let_def split: if_splits)
  qed
  then show "decode_rune c (take (n - 1) cs @ ys) = (r, n)" "n - 1 \<le> length cs" by simp_all
qed

lemma decode_replacement: "decode_rune (CHR 0xEF) (CHR 0xBF # CHR 0xBD # ys) = (rune_error, 3)"
  by (simp add: decode_rune_def decode3_def between_def second_range_def rune_error_def Let_def)

lemma coerce_idem [simp]: "coerce (coerce s) = coerce s"
proof (induction s rule: coerce.induct)
  case (2 c cs)
  obtain r n where d: "decode_rune c cs = (r, n)" by (cases "decode_rune c cs")
  have IH: "coerce (coerce (drop (n - 1) cs)) = coerce (drop (n - 1) cs)" using 2 d by simp
  show ?case
  proof (cases "(r, n) = (rune_error, 1)")
    case True
    have e: "coerce (CHR 0xEF # CHR 0xBF # CHR 0xBD # ys) =
        CHR 0xEF # CHR 0xBF # CHR 0xBD # coerce ys" for ys
      by (subst coerce.simps) (simp add: decode_replacement)
    have "coerce (c # cs) = CHR 0xEF # CHR 0xBF # CHR 0xBD # coerce (drop (n - 1) cs)"
      using d True by simp
    then show ?thesis using IH by (simp only: e)
  next
    case False
    note pre = decode_rune_prefix[OF d False]
    have e: "coerce (c # cs) = c # take (n - 1) cs @ coerce (drop (n - 1) cs)"
      using d False by simp
    have "coerce (c # take (n - 1) cs @ coerce (drop (n - 1) cs)) =
        c # take (n - 1) cs @ coerce (coerce (drop (n - 1) cs))"
      using False pre(1)[of "coerce (drop (n - 1) cs)"] pre(2)
      by (subst coerce.simps) (simp add: min_absorb2)
    then show ?thesis using IH by (simp only: e)
  qed
qed simp

declare coerce.simps(2) [simp del]

record 'r json =
  marshal :: "'r \<Rightarrow> string result"
  unmarshal :: "string \<Rightarrow> 'r result"

definition codec_laws :: "('r \<Rightarrow> 'r) \<Rightarrow> 'r json \<Rightarrow> bool" where
  "codec_laws norm J \<longleftrightarrow> (\<forall>r s. marshal J r = Inr s \<longrightarrow> unmarshal J s = Inr (norm r))"

lemma codec_round: "codec_laws norm J \<Longrightarrow> marshal J r = Inr s \<Longrightarrow> unmarshal J s = Inr (norm r)"
  by (simp add: codec_laws_def)

text \<open>\<open>Duration.Milliseconds\<close> divides toward zero.\<close>

definition milliseconds :: "int \<Rightarrow> int" where
  "milliseconds d = (if d < 0 then - ((- d) div 1000000) else d div 1000000)"

section \<open>Buckets\<close>

record 'b bolt =
  b_get :: "'b \<Rightarrow> string \<Rightarrow> string option"
  b_put :: "'b \<Rightarrow> string \<Rightarrow> string \<Rightarrow> 'b result"
  b_delete :: "'b \<Rightarrow> string \<Rightarrow> 'b result"
  b_next_sequence :: "'b \<Rightarrow> ('b \<times> 64 word) result"
  b_sequence :: "'b \<Rightarrow> 64 word"
  b_pairs :: "'b \<Rightarrow> (string \<times> string) list"
  b_keyN :: "'b \<Rightarrow> nat"
  b_begin :: "'b \<Rightarrow> error option"
  b_commit :: "'b \<Rightarrow> error option"
  b_close :: "'b \<Rightarrow> 'b \<times> error option"

text \<open>A bucket as an ordered list of pairs: insertion in key order, removal by key.\<close>

fun ordered_put :: "string \<Rightarrow> 'v \<Rightarrow> (string \<times> 'v) list \<Rightarrow> (string \<times> 'v) list" where
  "ordered_put k v [] = [(k, v)]"
| "ordered_put k v ((k', v') # ps) =
     (if k < k' then (k, v) # (k', v') # ps
      else if k = k' then (k, v) # ps
      else (k', v') # ordered_put k v ps)"

definition ordered_delete :: "string \<Rightarrow> (string \<times> 'v) list \<Rightarrow> (string \<times> 'v) list" where
  "ordered_delete k ps = filter (\<lambda>p. fst p \<noteq> k) ps"

abbreviation key_sorted :: "(string \<times> 'v) list \<Rightarrow> bool" where
  "key_sorted ps \<equiv> sorted_wrt (<) (map fst ps)"

definition bolt_laws :: "'b bolt \<Rightarrow> bool" where
  "bolt_laws B \<longleftrightarrow>
     (\<forall>b k. b_get B b k = map_of (b_pairs B b) k) \<and>
     (\<forall>b k v b'. b_put B b k v = Inr b' \<longrightarrow>
        b_pairs B b' = ordered_put k v (b_pairs B b) \<and> b_sequence B b' = b_sequence B b) \<and>
     (\<forall>b k b'. b_delete B b k = Inr b' \<longrightarrow>
        b_pairs B b' = ordered_delete k (b_pairs B b) \<and> b_sequence B b' = b_sequence B b) \<and>
     (\<forall>b b' i. b_next_sequence B b = Inr (b', i) \<longrightarrow>
        b_pairs B b' = b_pairs B b \<and> b_sequence B b' = i \<and> unat i = Suc (unat (b_sequence B b)))"

lemma bolt_get: "bolt_laws B \<Longrightarrow> b_get B b k = map_of (b_pairs B b) k"
  by (simp add: bolt_laws_def)

lemma bolt_put: "bolt_laws B \<Longrightarrow> b_put B b k v = Inr b' \<Longrightarrow>
    b_pairs B b' = ordered_put k v (b_pairs B b) \<and> b_sequence B b' = b_sequence B b"
  by (simp add: bolt_laws_def)

lemma bolt_delete: "bolt_laws B \<Longrightarrow> b_delete B b k = Inr b' \<Longrightarrow>
    b_pairs B b' = ordered_delete k (b_pairs B b) \<and> b_sequence B b' = b_sequence B b"
  by (simp add: bolt_laws_def)

lemma bolt_next: "bolt_laws B \<Longrightarrow> b_next_sequence B b = Inr (b', i) \<Longrightarrow>
    b_pairs B b' = b_pairs B b \<and> b_sequence B b' = i \<and> unat i = Suc (unat (b_sequence B b))"
  by (simp add: bolt_laws_def)

lemma key_sorted_distinct: "key_sorted ps \<Longrightarrow> wf_map ps"
  by (induction ps) auto

lemma map_of_ordered_put: "key_sorted ps \<Longrightarrow> map_of (ordered_put k v ps) = (map_of ps)(k \<mapsto> v)"
  by (induction ps rule: ordered_put.induct) (auto simp: fun_eq_iff)

lemma fst_set_ordered_put: "fst ` set (ordered_put k v ps) = insert k (fst ` set ps)"
  by (induction ps rule: ordered_put.induct) (auto simp: image_iff)

lemma key_sorted_put [intro]: "key_sorted ps \<Longrightarrow> key_sorted (ordered_put k v ps)"
  by (induction ps rule: ordered_put.induct) (auto simp: fst_set_ordered_put)

lemma ordered_put_last:
  "(\<And>k'. k' \<in> fst ` set ps \<Longrightarrow> k' < k) \<Longrightarrow> ordered_put k v ps = ps @ [(k, v)]"
proof (induction ps rule: ordered_put.induct)
  case (2 k v k' v' ps)
  then have "k' < k" by simp
  with 2 show ?case by (auto dest: less_not_sym)
qed simp

lemma ordered_put_same:
  "key_sorted ps \<Longrightarrow> k \<in> fst ` set ps \<Longrightarrow>
     ordered_put k v ps = map (\<lambda>p. if fst p = k then (k, v) else p) ps"
proof (induction ps rule: ordered_put.induct)
  case (2 k v k' v' ps)
  show ?case
  proof (cases "k = k'")
    case True
    have "map (\<lambda>p. if fst p = k then (k, v) else p) ps = ps"
      using "2.prems"(1) True by (intro map_idI) auto
    then show ?thesis using True by simp
  next
    case False
    with "2.prems" have "k' < k" by auto
    with 2 False show ?thesis by auto
  qed
qed simp

lemma key_sorted_filter [intro]: "key_sorted ps \<Longrightarrow> key_sorted (filter P ps)"
  by (induction ps) auto

lemma key_sorted_delete [intro]: "key_sorted ps \<Longrightarrow> key_sorted (ordered_delete k ps)"
  unfolding ordered_delete_def by (rule key_sorted_filter)

lemma map_of_ordered_delete: "map_of (ordered_delete k ps) = (map_of ps)(k := None)"
  by (induction ps) (auto simp: ordered_delete_def fun_eq_iff)

lemma set_ordered_put: "set (ordered_put k v ps) \<subseteq> insert (k, v) (set ps)"
  by (induction ps rule: ordered_put.induct) auto

text \<open>\<open>db.Update\<close>: begin, run, commit; \<open>db.View\<close> only begins.\<close>

definition db_update :: "'b bolt \<Rightarrow> 'b \<Rightarrow> ('b \<Rightarrow> ('b \<times> 'a) result) \<Rightarrow> 'b \<times> 'a result" where
  "db_update B b f = (case b_begin B b of Some e \<Rightarrow> (b, Inl e) | None \<Rightarrow>
     (case f b of Inl e \<Rightarrow> (b, Inl e) | Inr (b', x) \<Rightarrow>
       (case b_commit B b' of Some e \<Rightarrow> (b, Inl e) | None \<Rightarrow> (b', Inr x))))"

lemma db_update_ok:
  "db_update B b f = (b', Inr x) \<Longrightarrow> f b = Inr (b', x)"
  by (auto simp: db_update_def split: option.splits sum.splits)

lemma db_update_error: "db_update B b f = (b', Inl e) \<Longrightarrow> b' = b"
  by (auto simp: db_update_def split: option.splits sum.splits)

section \<open>Retention\<close>

text \<open>
  The loop both stores run after a write: while the count exceeds the limit, find the first
  removable key (\<open>scan\<close> walks the pairs and may fail to decode one), delete it and count down.
\<close>

function trim_loop :: "'b bolt \<Rightarrow> ((string \<times> string) list \<Rightarrow> string option result) \<Rightarrow>
    (error \<Rightarrow> error) \<Rightarrow> int \<Rightarrow> int \<Rightarrow> 'b \<Rightarrow> 'b result" where
  "trim_loop B scan wrap limit count b =
     (if count \<le> limit then Inr b else
      (case scan (b_pairs B b) of
         Inl e \<Rightarrow> Inl e
       | Inr None \<Rightarrow> Inr b
       | Inr (Some k) \<Rightarrow> (case b_delete B b k of
           Inl e \<Rightarrow> Inl (wrap e)
         | Inr b' \<Rightarrow> trim_loop B scan wrap limit (count - 1) b')))"
  by pat_completeness auto
termination by (relation "measure (\<lambda>(B, scan, wrap, limit, count, b). nat (count - limit))") auto

declare trim_loop.simps [simp del]

text \<open>The specification: drop the first \<open>n\<close> elements with the property.\<close>

fun drop_first :: "nat \<Rightarrow> ('a \<Rightarrow> bool) \<Rightarrow> 'a list \<Rightarrow> 'a list" where
  "drop_first 0 P xs = xs"
| "drop_first n P [] = []"
| "drop_first (Suc n) P (x # xs) = (if P x then drop_first n P xs else x # drop_first (Suc n) P xs)"

lemma drop_first_Nil [simp]: "drop_first n P [] = []"
  by (cases n) auto

lemma set_drop_first: "set (drop_first n P xs) \<subseteq> set xs"
  by (induction n P xs rule: drop_first.induct) auto

lemma drop_first_keeps: "x \<in> set xs \<Longrightarrow> \<not> P x \<Longrightarrow> x \<in> set (drop_first n P xs)"
  by (induction n P xs rule: drop_first.induct) auto

lemma drop_first_none: "\<not> list_ex P xs \<Longrightarrow> drop_first n P xs = xs"
  by (induction n P xs rule: drop_first.induct) auto

lemma drop_first_subseq: "subseq (drop_first n P xs) xs"
  by (induction n P xs rule: drop_first.induct) auto

lemma length_drop_first: "length (drop_first n P xs) = length xs - min n (length (filter P xs))"
proof (induction n P xs rule: drop_first.induct)
  case (3 n P x xs)
  have "min (Suc n) (length (filter P xs)) \<le> length xs"
    by (meson length_filter_le min.coboundedI2)
  with 3 show ?case by (auto simp: Suc_diff_le)
qed auto

text \<open>Removals are oldest first: what is dropped comes before every removable element kept.\<close>

lemma drop_first_oldest:
  assumes "i < j" "j < length xs" "P (xs ! i)" "P (xs ! j)" "distinct xs"
    and "xs ! i \<in> set (drop_first n P xs)"
  shows "xs ! j \<in> set (drop_first n P xs)"
  using assms
proof (induction n P xs arbitrary: i j rule: drop_first.induct)
  case (3 n P x xs)
  then obtain j' where j: "j = Suc j'" by (cases j) auto
  show ?case
  proof (cases i)
    case 0
    then have "P x" "x \<in> set (drop_first n P xs)" using 3 by (auto split: if_splits)
    then have "x \<in> set xs" using set_drop_first[of n P xs] by blast
    then show ?thesis using "3.prems"(5) by simp
  next
    case (Suc i')
    with 3 j have ne: "xs ! i' \<noteq> x" by (auto simp: nth_mem)
    show ?thesis
    proof (cases "P x")
      case True
      then show ?thesis using "3.IH"(1)[of i' j'] "3.prems" Suc j by simp
    next
      case False
      then show ?thesis using "3.IH"(2)[of i' j'] "3.prems" Suc j ne by simp
    qed
  qed
qed auto

definition finds_first :: "(string \<Rightarrow> bool) \<Rightarrow>
    ((string \<times> string) list \<Rightarrow> string option result) \<Rightarrow> bool" where
  "finds_first P scan \<longleftrightarrow> (\<forall>ps r. scan ps = Inr r \<longrightarrow>
     r = map_option fst (List.find (\<lambda>p. P (snd p)) ps))"

lemma drop_first_Suc_find:
  assumes "key_sorted ps" and "List.find (\<lambda>p. P (snd p)) ps = Some q"
  shows "drop_first n (\<lambda>p. P (snd p)) (ordered_delete (fst q) ps) =
    drop_first (Suc n) (\<lambda>p. P (snd p)) ps"
  using assms
proof (induction ps)
  case (Cons p ps)
  show ?case
  proof (cases "P (snd p)")
    case True
    then have "filter (\<lambda>r. fst r \<noteq> fst p) ps = ps"
      using Cons.prems by (intro filter_True) auto
    then show ?thesis using True Cons.prems by (simp add: ordered_delete_def)
  next
    case False
    then have q: "q \<in> set ps" using Cons.prems by (auto simp: find_Some_iff)
    then have ne: "fst p \<noteq> fst q" using Cons.prems by auto
    have "drop_first n (\<lambda>p. P (snd p)) (p # xs) = p # drop_first n (\<lambda>p. P (snd p)) xs" for xs
      using False by (cases n) auto
    then show ?thesis using Cons False ne by (simp add: ordered_delete_def)
  qed
qed simp

text \<open>The loop refines the specification.\<close>

lemma trim_loop_refines:
  assumes laws: "bolt_laws B" and ff: "finds_first P scan"
  shows "trim_loop B scan wrap limit count b = Inr b' \<Longrightarrow> key_sorted (b_pairs B b) \<Longrightarrow>
    b_pairs B b' = drop_first (nat (count - limit)) (\<lambda>p. P (snd p)) (b_pairs B b) \<and>
    b_sequence B b' = b_sequence B b"
proof (induction "nat (count - limit)" arbitrary: count b)
  case 0
  then show ?case by (simp add: trim_loop.simps[of B scan wrap limit count])
next
  case (Suc n)
  then have gt: "\<not> count \<le> limit" by simp
  note eq = trim_loop.simps[of B scan wrap limit count b]
  obtain r where r: "scan (b_pairs B b) = Inr r"
    using Suc.prems(1) gt by (simp add: eq split: sum.splits)
  have rf: "r = map_option fst (List.find (\<lambda>p. P (snd p)) (b_pairs B b))"
    using ff r by (simp add: finds_first_def)
  show ?case
  proof (cases r)
    case None
    then have none: "List.find (\<lambda>p. P (snd p)) (b_pairs B b) = None" using rf by simp
    then have "\<not> list_ex (\<lambda>p. P (snd p)) (b_pairs B b)"
      by (auto simp: find_None_iff list_ex_iff)
    then show ?thesis using Suc.prems(1) gt r None by (simp add: eq drop_first_none)
  next
    case (Some k)
    then obtain q where q: "List.find (\<lambda>p. P (snd p)) (b_pairs B b) = Some q" "k = fst q"
      using rf by auto
    obtain b1 where b1: "b_delete B b k = Inr b1"
      and rest: "trim_loop B scan wrap limit (count - 1) b1 = Inr b'"
      using Suc.prems(1) gt r Some by (auto simp: eq split: sum.splits)
    note del = bolt_delete[OF laws b1]
    have n: "n = nat (count - 1 - limit)" using Suc.hyps(2) by linarith
    have "key_sorted (b_pairs B b1)" using del Suc.prems(2) by auto
    from Suc.hyps(1)[OF n rest this] del drop_first_Suc_find[OF Suc.prems(2) q(1), of n]
    show ?thesis using n Suc.hyps(2) q(2) by simp
  qed
qed

lemma key_sorted_drop_first: "key_sorted ps \<Longrightarrow> key_sorted (drop_first n P ps)"
proof (induction n P ps rule: drop_first.induct)
  case (3 n P x xs)
  then show ?case using set_drop_first[of "Suc n" P xs] by auto
qed auto


text \<open>
  The contract of a retention pass: it drops some number of the oldest unprotected values and
  nothing else. Both stores provide it; what follows a write is proved here once.
\<close>

locale retention =
  fixes trim :: "'b bolt \<Rightarrow> int \<Rightarrow> 'b \<Rightarrow> 'b result"
    and guarded :: "string \<Rightarrow> bool"
  assumes trim_drops: "\<lbrakk>bolt_laws B; key_sorted (b_pairs B b); trim B m b = Inr b'\<rbrakk> \<Longrightarrow>
      (\<exists>n. b_pairs B b' = drop_first n (\<lambda>p. \<not> guarded (snd p)) (b_pairs B b)) \<and>
      b_sequence B b' = b_sequence B b"
begin

lemma trim_pairs:
  assumes "bolt_laws B" "key_sorted (b_pairs B b)" "trim B m b = Inr b'"
  shows "key_sorted (b_pairs B b')" and "set (b_pairs B b') \<subseteq> set (b_pairs B b)"
    and "b_sequence B b' = b_sequence B b"
proof -
  obtain n where "b_pairs B b' = drop_first n (\<lambda>p. \<not> guarded (snd p)) (b_pairs B b)"
    and "b_sequence B b' = b_sequence B b"
    using trim_drops[OF assms] by blast
  then show "key_sorted (b_pairs B b')" "set (b_pairs B b') \<subseteq> set (b_pairs B b)"
    "b_sequence B b' = b_sequence B b"
    using key_sorted_drop_first[OF assms(2)] set_drop_first[of n _ "b_pairs B b"] by simp_all
qed

lemma trim_lookup:
  assumes "bolt_laws B" "key_sorted (b_pairs B b)" "trim B m b = Inr b'"
    and "map_of (b_pairs B b) k = Some v"
  shows "map_of (b_pairs B b') k = Some v \<or> map_of (b_pairs B b') k = None \<and> \<not> guarded v"
proof -
  obtain n where n: "b_pairs B b' = drop_first n (\<lambda>p. \<not> guarded (snd p)) (b_pairs B b)"
    using trim_drops[OF assms(1-3)] by blast
  have sub: "set (b_pairs B b') \<subseteq> set (b_pairs B b)"
    and srt: "wf_map (b_pairs B b')"
    using trim_pairs[OF assms(1-3)] key_sorted_distinct by auto
  have mem: "(k, v) \<in> set (b_pairs B b)" using assms(4) by (rule map_of_SomeD)
  show ?thesis
  proof (cases "map_of (b_pairs B b') k")
    case None
    then have "(k, v) \<notin> set (b_pairs B b')" by (metis weak_map_of_SomeI option.distinct(1))
    then have "\<not> guarded v" using drop_first_keeps[OF mem, of "\<lambda>p. \<not> guarded (snd p)" n] n by auto
    then show ?thesis using None by simp
  next
    case (Some w)
    then have "(k, w) \<in> set (b_pairs B b)" using sub map_of_SomeD by fastforce
    then have "w = v"
      using mem key_sorted_distinct[OF assms(2)] by (metis map_of_is_SomeI option.inject)
    then show ?thesis using Some by simp
  qed
qed

lemma trim_lookup_None:
  assumes "bolt_laws B" "key_sorted (b_pairs B b)" "trim B m b = Inr b'"
    and "map_of (b_pairs B b) k = None"
  shows "map_of (b_pairs B b') k = None"
  using trim_pairs(2)[OF assms(1-3)] assms(4) by (auto simp: map_of_eq_None_iff)

lemma put_trim:
  assumes "bolt_laws B" "key_sorted (b_pairs B b)" "b_put B b k v = Inr b1" "trim B m b1 = Inr b2"
  shows "key_sorted (b_pairs B b2)" and "b_sequence B b2 = b_sequence B b"
    and "set (b_pairs B b2) \<subseteq> insert (k, v) (set (b_pairs B b))"
    and "map_of (b_pairs B b2) k = Some v \<or> map_of (b_pairs B b2) k = None \<and> \<not> guarded v"
    and "k' \<noteq> k \<Longrightarrow> map_of (b_pairs B b) k' = Some w \<Longrightarrow>
       map_of (b_pairs B b2) k' = Some w \<or> map_of (b_pairs B b2) k' = None \<and> \<not> guarded w"
    and "k' \<noteq> k \<Longrightarrow> map_of (b_pairs B b) k' = None \<Longrightarrow> map_of (b_pairs B b2) k' = None"
proof -
  note p = bolt_put[OF assms(1,3)]
  have srt: "key_sorted (b_pairs B b1)" using p assms(2) by auto
  note t = trim_pairs[OF assms(1) srt assms(4)]
  note look = trim_lookup[OF assms(1) srt assms(4)]
  have m: "map_of (b_pairs B b1) = (map_of (b_pairs B b))(k \<mapsto> v)"
    using p map_of_ordered_put[OF assms(2)] by simp
  show "key_sorted (b_pairs B b2)" "b_sequence B b2 = b_sequence B b" using t p by auto
  show "set (b_pairs B b2) \<subseteq> insert (k, v) (set (b_pairs B b))"
    using t(2) p set_ordered_put[of k v] by auto
  show "map_of (b_pairs B b2) k = Some v \<or> map_of (b_pairs B b2) k = None \<and> \<not> guarded v"
    using look[of k v] m by simp
  show "map_of (b_pairs B b2) k' = Some w \<or> map_of (b_pairs B b2) k' = None \<and> \<not> guarded w"
    if "k' \<noteq> k" "map_of (b_pairs B b) k' = Some w"
    using look[of k' w] m that by simp
  show "map_of (b_pairs B b2) k' = None" if "k' \<noteq> k" "map_of (b_pairs B b) k' = None"
    using trim_lookup_None[OF assms(1) srt assms(4), of k'] m that by simp
qed

end

section \<open>An instance of the laws\<close>

text \<open>
  A bucket in memory and a codec over a table of records satisfy the laws; the witnesses of the
  stores run on them.
\<close>

definition mem_bolt :: "((string \<times> string) list \<times> 64 word) bolt" where
  "mem_bolt = \<lparr>b_get = (\<lambda>b k. map_of (fst b) k),
     b_put = (\<lambda>b k v. Inr (ordered_put k v (fst b), snd b)),
     b_delete = (\<lambda>b k. Inr (ordered_delete k (fst b), snd b)),
     b_next_sequence = (\<lambda>b. if snd b = - 1 then Inl (Errorf ''sequence overflow'' [])
        else Inr ((fst b, snd b + 1), snd b + 1)),
     b_sequence = snd, b_pairs = fst, b_keyN = (\<lambda>b. length (fst b)),
     b_begin = (\<lambda>b. None), b_commit = (\<lambda>b. None), b_close = (\<lambda>b. (b, None))\<rparr>"

lemma mem_bolt_laws: "bolt_laws mem_bolt"
proof -
  have "unat (w + 1) = Suc (unat w)" if "w \<noteq> - 1" for w :: "64 word"
    using that by (metis add.inverse_inverse add_diff_cancel_right' diff_0 unatSuc add.commute
        add_eq_0_iff)
  then show ?thesis by (simp add: bolt_laws_def mem_bolt_def)
qed

lemma mem_bolt_simps [simp]:
  "b_get mem_bolt b k = map_of (fst b) k" "b_put mem_bolt b k v = Inr (ordered_put k v (fst b), snd b)"
  "b_delete mem_bolt b k = Inr (ordered_delete k (fst b), snd b)" "b_pairs mem_bolt = fst"
  "b_keyN mem_bolt b = length (fst b)" "b_begin mem_bolt b = None" "b_commit mem_bolt b = None"
  "b_sequence mem_bolt = snd"
  "b_next_sequence mem_bolt b = (if snd b = - 1 then Inl (Errorf ''sequence overflow'' [])
     else Inr ((fst b, snd b + 1), snd b + 1))"
  by (simp_all add: mem_bolt_def)

fun index_of :: "'a \<Rightarrow> 'a list \<Rightarrow> nat option" where
  "index_of x [] = None"
| "index_of x (y # ys) = (if x = y then Some 0 else map_option Suc (index_of x ys))"

lemma index_of_nth: "index_of x ys = Some i \<Longrightarrow> i < length ys \<and> ys ! i = x"
  by (induction ys arbitrary: i) (auto split: if_splits)

definition table_codec :: "('r \<Rightarrow> 'r) \<Rightarrow> 'r list \<Rightarrow> 'r json" where
  "table_codec norm rs = \<lparr>
     marshal = (\<lambda>r. case index_of (norm r) rs of None \<Rightarrow> Inl (Errorf ''unsupported value'' [])
       | Some i \<Rightarrow> Inr (replicate i (CHR ''x''))),
     unmarshal = (\<lambda>s. if length s < length rs then Inr (rs ! length s)
       else Inl (Errorf ''invalid character'' []))\<rparr>"

lemma table_codec_laws: "codec_laws norm (table_codec norm rs)"
  using index_of_nth by (fastforce simp: codec_laws_def table_codec_def split: option.splits)

end
