(* ===== verification/Artifact_Store.thy ===== *)
theory Artifact_Store
  imports Target_Paths Bolt
begin

text \<open>
  The store of manifests, credentials and unit files of managed remote mounts
  (\<open>internal/modules/storage/manifest.go\<close> and the writing half of \<open>units.go\<close>). Calls of packages
  \<open>os\<close> and \<open>unix\<close> are operations of the record \<open>'w os\<close> on a world \<open>'w\<close>, any of which may fail at any
  time; an open \<open>*os.File\<close> is named by its path. \<open>encoding/json\<close> is the codec of the environment:
  its \<open>unmarshal\<close> stands for the strict decoder of \<open>LoadDefinition\<close>, one value with known fields only
  and nothing after it.
\<close>

section \<open>The environment\<close>

definition ErrNotExist :: error where "ErrNotExist = Sentinel ''file does not exist''"
definition ErrExist :: error where "ErrExist = Sentinel ''file already exists''"

record file_info =
  fi_regular :: bool
  fi_perm :: nat
  fi_sys :: "(int \<times> int) option"

record dir_entry =
  de_name :: string
  de_dir :: bool

record 'w os =
  os_read_file :: "string \<Rightarrow> 'w \<Rightarrow> string result \<times> 'w"
  os_stat :: "string \<Rightarrow> 'w \<Rightarrow> file_info result \<times> 'w"
  os_lstat :: "string \<Rightarrow> 'w \<Rightarrow> file_info result \<times> 'w"
  os_read_dir :: "string \<Rightarrow> 'w \<Rightarrow> dir_entry list result \<times> 'w"
  os_mkdir_all :: "string \<Rightarrow> nat \<Rightarrow> 'w \<Rightarrow> error option \<times> 'w"
  os_create_temp :: "string \<Rightarrow> string \<Rightarrow> 'w \<Rightarrow> string result \<times> 'w"
  os_write :: "string \<Rightarrow> string \<Rightarrow> 'w \<Rightarrow> error option \<times> 'w"
  os_fdatasync :: "string \<Rightarrow> 'w \<Rightarrow> error option \<times> 'w"
  os_fsync :: "string \<Rightarrow> 'w \<Rightarrow> error option \<times> 'w"
  os_chmod :: "string \<Rightarrow> nat \<Rightarrow> 'w \<Rightarrow> error option \<times> 'w"
  os_chown :: "string \<Rightarrow> int \<Rightarrow> int \<Rightarrow> 'w \<Rightarrow> error option \<times> 'w"
  os_fclose :: "string \<Rightarrow> 'w \<Rightarrow> error option \<times> 'w"
  os_rename :: "string \<Rightarrow> string \<Rightarrow> 'w \<Rightarrow> error option \<times> 'w"
  os_renameat2 :: "string \<Rightarrow> string \<Rightarrow> 'w \<Rightarrow> error option \<times> 'w"
  os_remove :: "string \<Rightarrow> 'w \<Rightarrow> error option \<times> 'w"
  os_open_dir :: "string \<Rightarrow> 'w \<Rightarrow> error option \<times> 'w"
  os_dir_sync :: "string \<Rightarrow> 'w \<Rightarrow> error option \<times> 'w"
  os_dir_close :: "string \<Rightarrow> 'w \<Rightarrow> error option \<times> 'w"

record 'w env =
  env_os :: "'w os"
  env_json :: "remote_definition json"
  env_escape :: "string \<Rightarrow> string"

text \<open>\<open>filepath.Dir\<close>: the path up to its last slash, cleaned.\<close>

definition path_dir :: "string \<Rightarrow> string" where
  "path_dir p = path_clean (rev (dropWhile (\<lambda>c. c \<noteq> slash) (rev p)))"

section \<open>The store\<close>

definition errArtifactNotManaged :: error where
  "errArtifactNotManaged = Sentinel ''artifact is not managed by Pilothouse''"
definition errManifestNotFound :: error where
  "errManifestNotFound = Joined errInvalidManifest ErrNotExist"

record 'w artifact_store =
  as_ManifestRoot :: string
  as_CredentialRoot :: string
  as_UnitRoot :: string
  as_UID :: int
  as_GID :: int
  as_rename :: "(string \<Rightarrow> string \<Rightarrow> 'w \<Rightarrow> error option \<times> 'w) option"
  as_beforeLoad :: "('w \<Rightarrow> 'w) option"

definition NewArtifactStore :: "'w artifact_store" where
  "NewArtifactStore = \<lparr>as_ManifestRoot = ''/var/lib/pilothouse/storage/mounts'',
     as_CredentialRoot = ''/etc/pilothouse/storage/credentials'',
     as_UnitRoot = ''/etc/systemd/system'', as_UID = 0, as_GID = 0, as_rename = None,
     as_beforeLoad = None\<rparr>"

definition ManifestPath :: "'w artifact_store \<Rightarrow> string \<Rightarrow> string result" where
  "ManifestPath store i = (if ValidateDefinitionID i \<noteq> None then Inl errInvalidManifest
     else Inr (path_join (as_ManifestRoot store) (i @ ''.json'')))"

definition CredentialPath :: "'w artifact_store \<Rightarrow> string \<Rightarrow> string result" where
  "CredentialPath store i = (if ValidateDefinitionID i \<noteq> None then Inl errInvalidManifest
     else Inr (path_join (as_CredentialRoot store) i))"

definition validateArtifactDefinition ::
    "'w env \<Rightarrow> remote_definition \<Rightarrow> 'w artifact_store \<Rightarrow> error option" where
  "validateArtifactDefinition E d store =
     (if validateDefinitionOwnership (def_FormatVersion d) (def_Protocol d) (def_SMBOwnership d) \<noteq> None \<or>
         ValidateDefinitionID (def_ID d) \<noteq> None \<or> ValidateProtocol (def_Protocol d) \<noteq> None \<or>
         ValidateTarget (def_Target d) \<noteq> None \<or> def_State d = []
      then Some errInvalidManifest
      else if def_UnitName d \<noteq> mountUnitName (env_escape E) (def_Target d) then Some errInvalidManifest
      else if def_Protocol d = ''nfs'' then
        (if ValidateNFSHost (def_Host d) \<noteq> None \<or> ValidateNFSExport (def_Export d) \<noteq> None \<or>
            ValidateNFSVersion (def_ProtocolVersion d) \<noteq> None \<or> def_Server d \<noteq> [] \<or>
            def_Share d \<noteq> [] \<or> def_Username d \<noteq> [] \<or> def_Credential d \<noteq> []
         then Some errInvalidManifest else None)
      else if def_Protocol d = ''smb'' then
        (if ValidateSMBServer (def_Server d) \<noteq> None \<or> ValidateSMBShare (def_Share d) \<noteq> None \<or>
            ValidateSMBVersion (def_ProtocolVersion d) \<noteq> None \<or> def_Host d \<noteq> [] \<or> def_Export d \<noteq> []
         then Some errInvalidManifest
         else if def_Username d = [] then
           (if def_Credential d \<noteq> [] then Some errInvalidManifest else None)
         else (case CredentialPath store (def_ID d) of
             Inl _ \<Rightarrow> Some errInvalidManifest
           | Inr credential \<Rightarrow>
               if ValidateUsername (def_Username d) \<noteq> None \<or> def_Credential d \<noteq> credential
               then Some errInvalidManifest else None))
      else Some errInvalidManifest)"

definition MountUnitPath :: "'w env \<Rightarrow> 'w artifact_store \<Rightarrow> remote_definition \<Rightarrow> string result" where
  "MountUnitPath E store d = (case validateArtifactDefinition E d store of Some e \<Rightarrow> Inl e
     | None \<Rightarrow> Inr (path_join (as_UnitRoot store) (def_UnitName d)))"

definition AutomountUnitPath :: "'w env \<Rightarrow> 'w artifact_store \<Rightarrow> remote_definition \<Rightarrow> string result" where
  "AutomountUnitPath E store d = (case MountUnitPath E store d of Inl e \<Rightarrow> Inl e
     | Inr path \<Rightarrow> Inr (take (length path - length ''.mount'') path @ ''.automount''))"

definition marshalManifest :: "'w env \<Rightarrow> remote_definition \<Rightarrow> string result" where
  "marshalManifest E d = (case marshal (env_json E) d of Inl e \<Rightarrow> Inl e
     | Inr contents \<Rightarrow> Inr (contents @ [newline]))"

subsection \<open>Verification\<close>

definition verifyMetadata ::
    "'w env \<Rightarrow> 'w artifact_store \<Rightarrow> string \<Rightarrow> nat \<Rightarrow> 'w \<Rightarrow> error option \<times> 'w" where
  "verifyMetadata E store path mode w = (case os_stat (env_os E) path w of
     (Inl _, w1) \<Rightarrow> (Some errArtifactNotManaged, w1)
   | (Inr info, w1) \<Rightarrow>
       if \<not> fi_regular info \<or> fi_perm info \<noteq> mode then (Some errArtifactNotManaged, w1)
       else (case fi_sys info of
           None \<Rightarrow> (Some errArtifactNotManaged, w1)
         | Some (uid, gid) \<Rightarrow>
             (if uid \<noteq> as_UID store \<or> gid \<noteq> as_GID store then Some errArtifactNotManaged else None, w1)))"

definition verifyFile ::
    "'w env \<Rightarrow> 'w artifact_store \<Rightarrow> string \<Rightarrow> string \<Rightarrow> nat \<Rightarrow> 'w \<Rightarrow> error option \<times> 'w" where
  "verifyFile E store path expected mode w = (case verifyMetadata E store path mode w of
     (Some e, w1) \<Rightarrow> (Some e, w1)
   | (None, w1) \<Rightarrow> (case os_read_file (env_os E) path w1 of
       (Inl _, w2) \<Rightarrow> (Some errArtifactNotManaged, w2)
     | (Inr actual, w2) \<Rightarrow> (if actual \<noteq> expected then Some errArtifactNotManaged else None, w2)))"

subsection \<open>Writing\<close>

definition renameNoReplace ::
    "'w env \<Rightarrow> 'w artifact_store \<Rightarrow> string \<Rightarrow> string \<Rightarrow> 'w \<Rightarrow> error option \<times> 'w" where
  "renameNoReplace E store source destination w = (case as_rename store of
     Some f \<Rightarrow> f source destination w
   | None \<Rightarrow> os_renameat2 (env_os E) source destination w)"

text \<open>
  One step on the open temporary file: an error closes the file and ends the call; otherwise the
  rest runs. \<open>removing\<close> is the deferred removal of the temporary file.
\<close>

definition stage :: "'w env \<Rightarrow> string \<Rightarrow> ('w \<Rightarrow> error option \<times> 'w) \<Rightarrow> ('w \<Rightarrow> error option \<times> 'w) \<Rightarrow>
    'w \<Rightarrow> error option \<times> 'w" where
  "stage E temporary op rest w = (case op w of
     (Some _, w1) \<Rightarrow> (Some errInvalidManifest, snd (os_fclose (env_os E) temporary w1))
   | (None, w1) \<Rightarrow> rest w1)"

definition removing :: "'w env \<Rightarrow> string \<Rightarrow> 'a \<times> 'w \<Rightarrow> 'a \<times> 'w" where
  "removing E temporary r = (fst r, snd (os_remove (env_os E) temporary (snd r)))"

text \<open>Open the directory, flush it, close it.\<close>

definition sync_directory :: "'w env \<Rightarrow> string \<Rightarrow> 'w \<Rightarrow> error option \<times> 'w" where
  "sync_directory E dir w = (case os_open_dir (env_os E) dir w of
     (Some _, w1) \<Rightarrow> (Some errInvalidManifest, w1)
   | (None, w1) \<Rightarrow> (case os_dir_sync (env_os E) dir w1 of (r, w2) \<Rightarrow>
       (map_option (\<lambda>_. errInvalidManifest) r, snd (os_dir_close (env_os E) dir w2))))"

definition install_file ::
    "'w env \<Rightarrow> 'w artifact_store \<Rightarrow> string \<Rightarrow> string \<Rightarrow> 'w \<Rightarrow> error option \<times> 'w" where
  "install_file E store temporary path w = (case os_fclose (env_os E) temporary w of
     (Some _, w1) \<Rightarrow> (Some errInvalidManifest, w1)
   | (None, w1) \<Rightarrow> (case renameNoReplace E store temporary path w1 of
       (Some e, w2) \<Rightarrow>
         (if errors_is e ErrExist \<or> errors_is e EEXIST then Some errArtifactNotManaged
          else Some errInvalidManifest, w2)
     | (None, w2) \<Rightarrow> sync_directory E (path_dir path) w2))"

text \<open>The four steps both writers take on the open file: contents, flush, mode, owner.\<close>

definition fill_file :: "'w env \<Rightarrow> 'w artifact_store \<Rightarrow> string \<Rightarrow> string \<Rightarrow> nat \<Rightarrow>
    ('w \<Rightarrow> error option \<times> 'w) \<Rightarrow> 'w \<Rightarrow> error option \<times> 'w" where
  "fill_file E store temporary contents mode rest =
     stage E temporary (os_write (env_os E) temporary contents)
      (stage E temporary (os_fdatasync (env_os E) temporary)
       (stage E temporary (os_chmod (env_os E) temporary mode)
        (stage E temporary (os_chown (env_os E) temporary (as_UID store) (as_GID store)) rest)))"

definition write_temporary ::
    "'w env \<Rightarrow> 'w artifact_store \<Rightarrow> string \<Rightarrow> string \<Rightarrow> string \<Rightarrow> nat \<Rightarrow> 'w \<Rightarrow> error option \<times> 'w" where
  "write_temporary E store temporary path contents mode =
     fill_file E store temporary contents mode
      (stage E temporary (os_fsync (env_os E) temporary) (install_file E store temporary path))"

definition writeArtifact ::
    "'w env \<Rightarrow> 'w artifact_store \<Rightarrow> string \<Rightarrow> string \<Rightarrow> nat \<Rightarrow> 'w \<Rightarrow> error option \<times> 'w" where
  "writeArtifact E store path contents mode w =
     (case os_mkdir_all (env_os E) (path_dir path) 0x1C0 w of
        (Some _, w1) \<Rightarrow> (Some errInvalidManifest, w1)
      | (None, w1) \<Rightarrow> (case os_read_file (env_os E) path w1 of
          (Inr existing, w2) \<Rightarrow>
            if existing = contents then
              (case verifyFile E store path contents mode w2 of
                 (None, w3) \<Rightarrow> (None, w3)
               | (Some _, w3) \<Rightarrow> (Some errArtifactNotManaged, w3))
            else (Some errArtifactNotManaged, w2)
        | (Inl e, w2) \<Rightarrow>
            if \<not> errors_is e ErrNotExist then (Some errArtifactNotManaged, w2)
            else (case os_create_temp (env_os E) (path_dir path) ''.pilothouse-'' w2 of
                (Inl _, w3) \<Rightarrow> (Some errInvalidManifest, w3)
              | (Inr temporary, w3) \<Rightarrow> removing E temporary
                  (write_temporary E store temporary path contents mode w3))))"

definition WriteManifest ::
    "'w env \<Rightarrow> 'w artifact_store \<Rightarrow> remote_definition \<Rightarrow> 'w \<Rightarrow> error option \<times> 'w" where
  "WriteManifest E store d w = (case validateArtifactDefinition E d store of
     Some e \<Rightarrow> (Some e, w)
   | None \<Rightarrow> (case ManifestPath store (def_ID d) of
       Inl e \<Rightarrow> (Some e, w)
     | Inr path \<Rightarrow> (case marshalManifest E d of
         Inl _ \<Rightarrow> (Some errInvalidManifest, w)
       | Inr contents \<Rightarrow> writeArtifact E store path contents 0x180 w)))"

definition WriteMountUnit ::
    "'w env \<Rightarrow> 'w artifact_store \<Rightarrow> remote_definition \<Rightarrow> 'w \<Rightarrow> error option \<times> 'w" where
  "WriteMountUnit E store d w = (case MountUnitPath E store d of
     Inl e \<Rightarrow> (Some e, w)
   | Inr path \<Rightarrow> (case RenderMountUnit (env_escape E) d of
       Inl e \<Rightarrow> (Some e, w)
     | Inr contents \<Rightarrow> writeArtifact E store path contents 0x1A4 w))"

definition WriteAutomountUnit ::
    "'w env \<Rightarrow> 'w artifact_store \<Rightarrow> remote_definition \<Rightarrow> 'w \<Rightarrow> error option \<times> 'w" where
  "WriteAutomountUnit E store d w = (case AutomountUnitPath E store d of
     Inl e \<Rightarrow> (Some e, w)
   | Inr path \<Rightarrow> (case RenderAutomountUnit (env_escape E) d of
       Inl e \<Rightarrow> (Some e, w)
     | Inr contents \<Rightarrow> writeArtifact E store path contents 0x1A4 w))"

definition WriteCredentials ::
    "'w env \<Rightarrow> 'w artifact_store \<Rightarrow> string \<Rightarrow> string \<Rightarrow> string \<Rightarrow> 'w \<Rightarrow> error option \<times> 'w" where
  "WriteCredentials E store i username password w = (case CredentialPath store i of
     Inl e \<Rightarrow> (Some e, w)
   | Inr path \<Rightarrow> (case RenderCredentials username password of
       Inl e \<Rightarrow> (Some e, w)
     | Inr contents \<Rightarrow> writeArtifact E store path contents 0x180 w))"

subsection \<open>Reading back\<close>

definition LoadDefinition ::
    "'w env \<Rightarrow> 'w artifact_store \<Rightarrow> string \<Rightarrow> 'w \<Rightarrow> remote_definition result \<times> 'w" where
  "LoadDefinition E store i w = (case ManifestPath store i of
     Inl e \<Rightarrow> (Inl e, w)
   | Inr path \<Rightarrow>
      (let w0 = (case as_beforeLoad store of None \<Rightarrow> w | Some f \<Rightarrow> f w) in
       (case os_read_file (env_os E) path w0 of
          (Inl e, w1) \<Rightarrow>
            (if errors_is e ErrNotExist then Inl errManifestNotFound else Inl errInvalidManifest, w1)
        | (Inr contents, w1) \<Rightarrow> (case verifyFile E store path contents 0x180 w1 of
            (Some _, w2) \<Rightarrow> (Inl errInvalidManifest, w2)
          | (None, w2) \<Rightarrow> (case unmarshal (env_json E) contents of
              Inl _ \<Rightarrow> (Inl errInvalidManifest, w2)
            | Inr d \<Rightarrow>
                if def_ID d \<noteq> i \<or> validateArtifactDefinition E d store \<noteq> None
                then (Inl errInvalidManifest, w2)
                else (case marshalManifest E d of
                    Inl _ \<Rightarrow> (Inl errInvalidManifest, w2)
                  | Inr expected \<Rightarrow>
                      (if contents \<noteq> expected then Inl errInvalidManifest else Inr d, w2)))))))"

text \<open>A path or contents the code takes with its error ignored: the zero value.\<close>

definition or_empty :: "string result \<Rightarrow> string" where
  "or_empty r = (case r of Inl _ \<Rightarrow> [] | Inr s \<Rightarrow> s)"

definition replace_file :: "'w env \<Rightarrow> string \<Rightarrow> string \<Rightarrow> 'w \<Rightarrow> error option \<times> 'w" where
  "replace_file E temporary path w = (case os_rename (env_os E) temporary path w of
     (Some _, w1) \<Rightarrow> (Some errInvalidManifest, w1)
   | (None, w1) \<Rightarrow> sync_directory E (path_dir path) w1)"

definition UpdateManifest ::
    "'w env \<Rightarrow> 'w artifact_store \<Rightarrow> remote_definition \<Rightarrow> 'w \<Rightarrow> error option \<times> 'w" where
  "UpdateManifest E store d w = (case LoadDefinition E store (def_ID d) w of
     (Inl e, w1) \<Rightarrow> (Some e, w1)
   | (Inr existing, w1) \<Rightarrow>
      if existing\<lparr>def_State := def_State d\<rparr> \<noteq> d \<or> def_State existing = def_State d
      then (Some errArtifactNotManaged, w1)
      else
        (let path = or_empty (ManifestPath store (def_ID d)) in
         (case marshalManifest E d of
            Inl _ \<Rightarrow> (Some errInvalidManifest, w1)
          | Inr contents \<Rightarrow> (case os_create_temp (env_os E) (path_dir path) ''.pilothouse-'' w1 of
              (Inl _, w2) \<Rightarrow> (Some errInvalidManifest, w2)
            | (Inr temporary, w2) \<Rightarrow> removing E temporary
                (fill_file E store temporary contents 0x180
                  (stage E temporary (os_fclose (env_os E) temporary) (replace_file E temporary path)) w2)))))"

definition VerifyOwnedArtifacts ::
    "'w env \<Rightarrow> 'w artifact_store \<Rightarrow> remote_definition \<Rightarrow> 'w \<Rightarrow> error option \<times> 'w" where
  "VerifyOwnedArtifacts E store d w =
     (if validateArtifactDefinition E d store \<noteq> None then (Some errArtifactNotManaged, w)
      else (case verifyFile E store (or_empty (ManifestPath store (def_ID d)))
              (or_empty (marshalManifest E d)) 0x180 w of
          (Some e, w1) \<Rightarrow> (Some e, w1)
        | (None, w1) \<Rightarrow> (case RenderMountUnit (env_escape E) d of
            Inl _ \<Rightarrow> (Some errArtifactNotManaged, w1)
          | Inr mount \<Rightarrow>
             (case verifyFile E store (or_empty (MountUnitPath E store d)) mount 0x1A4 w1 of
                (Some _, w2) \<Rightarrow> (Some errArtifactNotManaged, w2)
              | (None, w2) \<Rightarrow> (case RenderAutomountUnit (env_escape E) d of
                  Inl _ \<Rightarrow> (Some errArtifactNotManaged, w2)
                | Inr automount \<Rightarrow>
                   (case verifyFile E store (or_empty (AutomountUnitPath E store d)) automount 0x1A4 w2 of
                      (Some _, w3) \<Rightarrow> (Some errArtifactNotManaged, w3)
                    | (None, w3) \<Rightarrow>
                        if def_Username d \<noteq> [] then
                          (case CredentialPath store (def_ID d) of
                             Inl _ \<Rightarrow> (Some errArtifactNotManaged, w3)
                           | Inr path \<Rightarrow> (case verifyMetadata E store path 0x180 w3 of
                               (Some _, w4) \<Rightarrow> (Some errArtifactNotManaged, w4)
                             | (None, w4) \<Rightarrow> (None, w4)))
                        else (None, w3)))))))"


section \<open>What the operating system promises\<close>

text \<open>
  The laws speak of two views of the world: \<open>files w p\<close> is the regular file at \<open>p\<close>, and
  \<open>special w p\<close> says that \<open>p\<close> is a symbolic link or a device. Reads change nothing, a call on the
  temporary file changes only that file, \<open>renameat2\<close> with \<open>RENAME_NOREPLACE\<close> moves a file only to a
  free name, and every call may fail.
\<close>

record disk_file =
  f_contents :: string
  f_perm :: nat
  f_uid :: int
  f_gid :: int

definition path_base :: "string \<Rightarrow> string" where
  "path_base p = rev (takeWhile (\<lambda>c. c \<noteq> slash) (rev p))"

definition temp_name :: "string \<Rightarrow> bool" where
  "temp_name p \<longleftrightarrow> prefix ''.pilothouse-'' (path_base p)"

record 'w views =
  v_files :: "'w \<Rightarrow> string \<Rightarrow> disk_file option"
  v_special :: "'w \<Rightarrow> string \<Rightarrow> bool"

definition keeps :: "'w views \<Rightarrow> ('w \<Rightarrow> 'a \<times> 'w) \<Rightarrow> bool" where
  "keeps V f \<longleftrightarrow> (\<forall>w. v_files V (snd (f w)) = v_files V w \<and> v_special V (snd (f w)) = v_special V w)"

definition read_laws :: "'w views \<Rightarrow> 'w os \<Rightarrow> bool" where
  "read_laws V O' \<longleftrightarrow>
     (\<forall>p w s w'. os_read_file O' p w = (Inr s, w') \<longrightarrow>
        v_special V w p \<or> map_option f_contents (v_files V w p) = Some s) \<and>
     (\<forall>p w e w'. os_read_file O' p w = (Inl e, w') \<longrightarrow> errors_is e ErrNotExist \<longrightarrow> v_files V w p = None) \<and>
     (\<forall>p w i w'. os_stat O' p w = (Inr i, w') \<longrightarrow> fi_regular i \<longrightarrow> v_special V w p \<or>
        map_option (\<lambda>f. (f_perm f, Some (f_uid f, f_gid f))) (v_files V w p) = Some (fi_perm i, fi_sys i)) \<and>
     (\<forall>p w e w'. os_lstat O' p w = (Inl e, w') \<longrightarrow> errors_is e ErrNotExist \<longrightarrow> v_files V w p = None) \<and>
     (\<forall>p w i w'. os_lstat O' p w = (Inr i, w') \<longrightarrow> fi_regular i \<longrightarrow>
        v_files V w p \<noteq> None \<and> \<not> v_special V w p)"

definition keep_laws :: "'w views \<Rightarrow> 'w os \<Rightarrow> bool" where
  "keep_laws V O' \<longleftrightarrow>
     (\<forall>p. keeps V (os_read_file O' p)) \<and> (\<forall>p. keeps V (os_stat O' p)) \<and> (\<forall>p. keeps V (os_lstat O' p)) \<and>
     (\<forall>p. keeps V (os_read_dir O' p)) \<and> (\<forall>p m. keeps V (os_mkdir_all O' p m)) \<and>
     (\<forall>p. keeps V (os_fdatasync O' p)) \<and> (\<forall>p. keeps V (os_fsync O' p)) \<and> (\<forall>p. keeps V (os_fclose O' p)) \<and>
     (\<forall>p. keeps V (os_open_dir O' p)) \<and> (\<forall>p. keeps V (os_dir_sync O' p)) \<and>
     (\<forall>p. keeps V (os_dir_close O' p))"

definition changes :: "'w views \<Rightarrow> string \<Rightarrow> (disk_file \<Rightarrow> disk_file) \<Rightarrow> ('w \<Rightarrow> error option \<times> 'w) \<Rightarrow> bool" where
  "changes V n g f \<longleftrightarrow> (\<forall>w r w'. f w = (r, w') \<longrightarrow>
     (\<forall>p. p \<noteq> n \<longrightarrow> v_files V w' p = v_files V w p) \<and>
     (r = None \<longrightarrow> v_files V w' n = map_option g (v_files V w n)))"

definition moves :: "'w views \<Rightarrow> bool \<Rightarrow> (string \<Rightarrow> string \<Rightarrow> 'w \<Rightarrow> error option \<times> 'w) \<Rightarrow> bool" where
  "moves V noreplace f \<longleftrightarrow> (\<forall>a b w r w'. f a b w = (r, w') \<longrightarrow>
     (r \<noteq> None \<longrightarrow> v_files V w' = v_files V w) \<and>
     (r = None \<longrightarrow> (noreplace \<longrightarrow> v_files V w b = None) \<and>
        v_files V w' = (v_files V w)(a := None, b := v_files V w a)))"

definition creates :: "'w views \<Rightarrow> string \<Rightarrow> ('w \<Rightarrow> string result \<times> 'w) \<Rightarrow> bool" where
  "creates V pat f \<longleftrightarrow> (\<forall>w. case f w of
     (Inl _, w') \<Rightarrow> v_files V w' = v_files V w
   | (Inr n, w') \<Rightarrow> v_files V w n = None \<and> prefix pat (path_base n) \<and>
       (\<exists>f0. f_contents f0 = [] \<and> v_files V w' = (v_files V w)(n \<mapsto> f0)))"

definition write_laws :: "'w views \<Rightarrow> 'w os \<Rightarrow> bool" where
  "write_laws V O' \<longleftrightarrow>
     (\<forall>d pat. CHR ''*'' \<notin> set pat \<longrightarrow> creates V pat (os_create_temp O' d pat)) \<and>
     (\<forall>n s. changes V n (\<lambda>f. f\<lparr>f_contents := f_contents f @ s\<rparr>) (os_write O' n s)) \<and>
     (\<forall>n k. changes V n (\<lambda>f. f\<lparr>f_perm := k\<rparr>) (os_chmod O' n k)) \<and>
     (\<forall>n u g. changes V n (\<lambda>f. f\<lparr>f_uid := u, f_gid := g\<rparr>) (os_chown O' n u g)) \<and>
     moves V True (os_renameat2 O') \<and> moves V False (os_rename O') \<and>
     (\<forall>p w r w'. os_remove O' p w = (r, w') \<longrightarrow>
        v_files V w' = (if r = None then (v_files V w)(p := None) else v_files V w))"

definition os_laws :: "'w views \<Rightarrow> 'w os \<Rightarrow> bool" where
  "os_laws V O' \<longleftrightarrow> read_laws V O' \<and> keep_laws V O' \<and> write_laws V O'"

definition managed_file :: "'w artifact_store \<Rightarrow> string \<Rightarrow> nat \<Rightarrow> disk_file" where
  "managed_file store contents mode =
     \<lparr>f_contents = contents, f_perm = mode, f_uid = as_UID store, f_gid = as_GID store\<rparr>"

lemma keepsD: "keeps V f \<Longrightarrow> f w = (r, w') \<Longrightarrow> v_files V w' = v_files V w \<and> v_special V w' = v_special V w"
  unfolding keeps_def by (drule spec[of _ w]) simp

lemma keep_law:
  assumes "os_laws V O'"
  shows "keeps V (os_read_file O' p)" "keeps V (os_stat O' p)" "keeps V (os_lstat O' p)"
    "keeps V (os_read_dir O' p)" "keeps V (os_mkdir_all O' p m)" "keeps V (os_fdatasync O' p)"
    "keeps V (os_fsync O' p)" "keeps V (os_fclose O' p)" "keeps V (os_open_dir O' p)"
    "keeps V (os_dir_sync O' p)" "keeps V (os_dir_close O' p)"
  using assms by (simp_all add: os_laws_def keep_laws_def)

lemma change_law:
  assumes "os_laws V O'"
  shows "changes V n (\<lambda>f. f\<lparr>f_contents := f_contents f @ s\<rparr>) (os_write O' n s)"
    and "changes V n (\<lambda>f. f\<lparr>f_perm := k\<rparr>) (os_chmod O' n k)"
    and "changes V n (\<lambda>f. f\<lparr>f_uid := u, f_gid := g\<rparr>) (os_chown O' n u g)"
  using assms by (simp_all add: os_laws_def write_laws_def)

lemma keeps_changes: "keeps V f \<Longrightarrow> changes V n (\<lambda>x. x) f"
  unfolding changes_def by (metis keepsD option.map_ident)

lemma creates_error: "creates V pat f \<Longrightarrow> f w = (Inl e, w') \<Longrightarrow> v_files V w' = v_files V w"
  unfolding creates_def by (drule spec[of _ w]) simp

lemma creates_ok:
  "creates V pat f \<Longrightarrow> f w = (Inr n, w') \<Longrightarrow> v_files V w n = None \<and> prefix pat (path_base n) \<and>
     (\<exists>f0. f_contents f0 = [] \<and> v_files V w' = (v_files V w)(n \<mapsto> f0))"
  unfolding creates_def by (drule spec[of _ w]) simp

lemma temp_law: "os_laws V O' \<Longrightarrow> creates V ''.pilothouse-'' (os_create_temp O' d ''.pilothouse-'')"
  by (simp add: os_laws_def write_laws_def)

lemma move_law:
  assumes "os_laws V O'"
  shows "moves V True (os_renameat2 O')" and "moves V False (os_rename O')"
  using assms by (simp_all add: os_laws_def write_laws_def)

lemma remove_law:
  "os_laws V O' \<Longrightarrow> os_remove O' p w = (r, w') \<Longrightarrow>
     v_files V w' = (if r = None then (v_files V w)(p := None) else v_files V w)"
  unfolding os_laws_def write_laws_def by blast

lemma read_law:
  assumes "os_laws V O'"
  shows "os_read_file O' p w = (Inr s, w') \<Longrightarrow>
      v_special V w p \<or> map_option f_contents (v_files V w p) = Some s"
    and "os_read_file O' p w = (Inl e, w') \<Longrightarrow> errors_is e ErrNotExist \<Longrightarrow> v_files V w p = None"
    and "os_stat O' p w = (Inr i, w') \<Longrightarrow> fi_regular i \<Longrightarrow> v_special V w p \<or>
        map_option (\<lambda>f. (f_perm f, Some (f_uid f, f_gid f))) (v_files V w p) = Some (fi_perm i, fi_sys i)"
    and "os_lstat O' p w = (Inl e, w') \<Longrightarrow> errors_is e ErrNotExist \<Longrightarrow> v_files V w p = None"
    and "os_lstat O' p w = (Inr i, w') \<Longrightarrow> fi_regular i \<Longrightarrow> v_files V w p \<noteq> None \<and> \<not> v_special V w p"
  using assms unfolding os_laws_def read_laws_def by - blast+

section \<open>Paths of artifacts\<close>

lemma path_base_append: "slash \<notin> set b \<Longrightarrow> pre = [] \<or> last pre = slash \<Longrightarrow> path_base (pre @ b) = b"
proof -
  assume b: "slash \<notin> set b" and pre: "pre = [] \<or> last pre = slash"
  have "takeWhile (\<lambda>c. c \<noteq> slash) (rev b @ rev pre) = rev b @ takeWhile (\<lambda>c. c \<noteq> slash) (rev pre)"
    using b by (intro takeWhile_append2) auto
  moreover have "takeWhile (\<lambda>c. c \<noteq> slash) (rev pre) = []"
    using pre by (cases "rev pre") auto
  ultimately show ?thesis by (simp add: path_base_def)
qed

lemma path_join_base:
  assumes b: "plain_component b" "slash \<notin> set b"
  shows "path_base (path_join a b) = b"
proof -
  have ne: "b \<noteq> []" using b by (simp add: plain_component_def)
  have step: "clean_step rooted st b = b # st" for rooted st
    using b by (simp add: clean_step_def plain_component_def)
  have join: "\<exists>pre. join_with ''/'' (rev (b # st)) = pre @ b \<and> (pre = [] \<or> last pre = slash)" for st
  proof (cases "st = []")
    case False
    then have "join_with ''/'' (rev st @ [b]) = (join_with ''/'' (rev st) @ ''/'') @ b"
      by (simp add: join_with_append)
    then show ?thesis by (metis last_snoc rev.simps(2) slash_def)
  qed simp
  have clean: "\<exists>pre. path_clean p = pre @ b \<and> (pre = [] \<or> last pre = slash)"
    if p: "p \<noteq> []" "split_on slash p = ws @ [b]" for p ws
  proof -
    obtain pre where pre: "join_with ''/'' (rev (foldl (clean_step (is_abs p)) [] (split_on slash p))) = pre @ b"
      "pre = [] \<or> last pre = slash" using join[of "foldl (clean_step (is_abs p)) [] ws"] p step by auto
    have "''/'' @ pre = [] \<or> last (''/'' @ pre) = slash" using pre(2) by (auto simp: slash_def)
    then show ?thesis using p(1) pre ne unfolding path_clean_def Let_def pre(1)
      by (metis append_assoc append_is_Nil_conv)
  qed
  have "\<exists>pre. path_join a b = pre @ b \<and> (pre = [] \<or> last pre = slash)"
  proof (cases "a = []")
    case True
    then show ?thesis using clean[of b "[]"] ne b(2) by (simp add: path_join_def split_on_no_sep)
  next
    case False
    then show ?thesis using clean[of "a @ ''/'' @ b" "split_on slash a"] ne b(2)
      split_on_join_append[of slash a b] by (simp add: path_join_def split_on_no_sep slash_def)
  qed
  then obtain pre where "path_join a b = pre @ b" "pre = [] \<or> last pre = slash" by blast
  with path_base_append[OF b(2), of pre] show ?thesis by simp
qed

lemma lower_hex_props: "lower_hex c \<Longrightarrow> c \<noteq> slash \<and> c \<noteq> CHR ''.''"
  by (auto simp: lower_hex_def between_def slash_def)

lemma definition_id_component:
  assumes "ValidateDefinitionID i = None" and "slash \<notin> set e"
  shows "plain_component (i @ e)" and "slash \<notin> set (i @ e)" and "\<not> prefix ''.pilothouse-'' (i @ e)"
proof -
  note h = definition_id_hex[OF assms(1)]
  obtain c cs where i: "i = c # cs" using h(1) by (cases i) auto
  have c: "c \<noteq> slash" "c \<noteq> CHR ''.''" using h(2) lower_hex_props[of c] by (simp_all add: i)
  show "plain_component (i @ e)" "\<not> prefix ''.pilothouse-'' (i @ e)" using c by (auto simp: i plain_component_def)
  show "slash \<notin> set (i @ e)" using h(2) assms(2) lower_hex_props by (auto simp: list_all_iff)
qed

lemma ManifestPath_base: "ManifestPath store i = Inr p \<Longrightarrow> path_base p = i @ ''.json'' \<and> \<not> temp_name p"
  using path_join_base[OF definition_id_component(1,2)[of i "''.json''"], of "as_ManifestRoot store"]
    definition_id_component(3)[of i "''.json''"]
  by (auto simp: ManifestPath_def temp_name_def slash_def split: if_splits)

lemma CredentialPath_base: "CredentialPath store i = Inr p \<Longrightarrow> path_base p = i \<and> \<not> temp_name p"
  using path_join_base[OF definition_id_component(1,2)[of i "[]"], of "as_CredentialRoot store"]
    definition_id_component(3)[of i "[]"]
  by (auto simp: CredentialPath_def temp_name_def slash_def split: if_splits)

section \<open>Verification tells the truth\<close>

lemma verifyMetadata_keeps:
  "os_laws V (env_os E) \<Longrightarrow> verifyMetadata E store p mode w = (r, w') \<Longrightarrow>
     v_files V w' = v_files V w \<and> v_special V w' = v_special V w"
  using keepsD[OF keep_law(2)[of V "env_os E" p]]
  by (auto simp: verifyMetadata_def split: prod.splits sum.splits if_splits option.splits)

lemma verifyMetadata_sound:
  assumes "os_laws V (env_os E)" and "verifyMetadata E store p mode w = (None, w')"
  shows "v_special V w p \<or> (\<exists>f. v_files V w p = Some f \<and> f = managed_file store (f_contents f) mode)"
proof -
  obtain i w1 where s: "os_stat (env_os E) p w = (Inr i, w1)" and i: "fi_regular i" "fi_perm i = mode"
    "fi_sys i = Some (as_UID store, as_GID store)"
    using assms(2)
    by (auto simp: verifyMetadata_def split: prod.splits sum.splits if_splits option.splits)
  from read_law(3)[OF assms(1) s i(1)] i(2,3) show ?thesis
    by (auto simp: managed_file_def)
qed

lemma verifyFile_keeps:
  "os_laws V (env_os E) \<Longrightarrow> verifyFile E store p c mode w = (r, w') \<Longrightarrow>
     v_files V w' = v_files V w \<and> v_special V w' = v_special V w"
  using verifyMetadata_keeps[of V E store p mode w] keepsD[OF keep_law(1)[of V "env_os E" p]]
  by (auto simp: verifyFile_def split: prod.splits sum.splits if_splits option.splits)

lemma verifyFile_sound:
  assumes L: "os_laws V (env_os E)" and v: "verifyFile E store p c mode w = (None, w')"
  shows "v_special V w p \<or> v_files V w p = Some (managed_file store c mode)"
proof -
  obtain w1 where m: "verifyMetadata E store p mode w = (None, w1)"
    and r: "os_read_file (env_os E) p w1 = (Inr c, w')"
    using v by (auto simp: verifyFile_def split: prod.splits sum.splits if_splits option.splits)
  from verifyMetadata_keeps[OF L m] read_law(1)[OF L r]
  have "v_special V w p \<or> map_option f_contents (v_files V w p) = Some c" by simp
  with verifyMetadata_sound[OF L m] show ?thesis by (auto simp: managed_file_def)
qed

section \<open>Writing never clobbers\<close>

text \<open>
  A run that went wrong on the temporary file \<open>t\<close>, starting from the files \<open>F\<close>: it reports an
  error and no other file differs.
\<close>

definition spoiled :: "'w views \<Rightarrow> string \<Rightarrow> (string \<Rightarrow> disk_file option) \<Rightarrow> error option \<Rightarrow> 'w \<Rightarrow> bool" where
  "spoiled V t F r w' \<longleftrightarrow> r \<noteq> None \<and> (\<forall>p. p \<noteq> t \<longrightarrow> v_files V w' p = F p)"

lemma stage_step:
  assumes L: "os_laws V (env_os E)" and op: "changes V t g op"
    and s: "stage E t op rest w = (r, w')" and w: "v_files V w = F(t \<mapsto> f)"
  shows "spoiled V t F r w' \<or> (\<exists>w1. v_files V w1 = F(t \<mapsto> g f) \<and> rest w1 = (r, w'))"
proof -
  obtain r1 w1 where o: "op w = (r1, w1)" by (cases "op w")
  have c: "\<And>p. p \<noteq> t \<Longrightarrow> v_files V w1 p = v_files V w p"
    "r1 = None \<Longrightarrow> v_files V w1 t = map_option g (v_files V w t)"
    using op o unfolding changes_def by blast+
  show ?thesis
  proof (cases r1)
    case None
    then have "v_files V w1 = F(t \<mapsto> g f)" using c w by (auto simp: fun_eq_iff)
    then show ?thesis using s o None by (auto simp: stage_def)
  next
    case (Some e)
    obtain r2 w2 where "os_fclose (env_os E) t w1 = (r2, w2)" by (cases "os_fclose (env_os E) t w1")
    with keepsD[OF keep_law(8)[OF L] this] s o Some c(1) w show ?thesis
      by (auto simp: stage_def spoiled_def)
  qed
qed

lemma sync_directory_keeps:
  assumes L: "os_laws V (env_os E)" and s: "sync_directory E d w = (r, w')"
  shows "v_files V w' = v_files V w"
proof -
  obtain r1 w1 where o: "os_open_dir (env_os E) d w = (r1, w1)" by (cases "os_open_dir (env_os E) d w")
  obtain r2 w2 where y: "os_dir_sync (env_os E) d w1 = (r2, w2)" by (cases "os_dir_sync (env_os E) d w1")
  obtain r3 w3 where z: "os_dir_close (env_os E) d w2 = (r3, w3)" by (cases "os_dir_close (env_os E) d w2")
  show ?thesis
    using keepsD[OF keep_law(9)[OF L] o] keepsD[OF keep_law(10)[OF L] y] keepsD[OF keep_law(11)[OF L] z] s o y z
    by (auto simp: sync_directory_def split: option.splits)
qed

text \<open>
  The finished file moved into place, whether or not the directory could be flushed. Only a failure of that
  flush makes the writer report an error for a file it has installed.
\<close>

definition sync_ok :: "'w os \<Rightarrow> bool" where
  "sync_ok O' \<longleftrightarrow> (\<forall>d w. fst (os_open_dir O' d w) = None \<and> fst (os_dir_sync O' d w) = None)"

lemma sync_directory_ok: "sync_ok (env_os E) \<Longrightarrow> sync_directory E d w = (r, w') \<Longrightarrow> r = None"
proof -
  assume k: "sync_ok (env_os E)" and s: "sync_directory E d w = (r, w')"
  obtain w1 where 1: "os_open_dir (env_os E) d w = (None, w1)"
    using k unfolding sync_ok_def by (metis prod.collapse)
  obtain w2 where 2: "os_dir_sync (env_os E) d w1 = (None, w2)"
    using k unfolding sync_ok_def by (metis prod.collapse)
  show ?thesis using s 1 2 by (simp add: sync_directory_def)
qed

definition installed :: "'w views \<Rightarrow> string \<Rightarrow> string \<Rightarrow> (string \<Rightarrow> disk_file option) \<Rightarrow> disk_file \<Rightarrow> 'w \<Rightarrow> bool" where
  "installed V t path F f w' \<longleftrightarrow> path \<noteq> t \<and> F path = None \<and> v_files V w' = F(t := None, path \<mapsto> f)"

lemma install_file_spec:
  assumes L: "os_laws V (env_os E)" and h: "as_rename store = None"
    and s: "install_file E store t path w = (r, w')" and w: "v_files V w = F(t \<mapsto> f)"
  shows "spoiled V t F r w' \<or> installed V t path F f w' \<and> (sync_ok (env_os E) \<longrightarrow> r = None)"
proof -
  obtain r1 w1 where c: "os_fclose (env_os E) t w = (r1, w1)" by (cases "os_fclose (env_os E) t w")
  have k: "v_files V w1 = F(t \<mapsto> f)" using keepsD[OF keep_law(8)[OF L] c] w by simp
  show ?thesis
  proof (cases r1)
    case (Some e)
    then show ?thesis using s c k by (auto simp: install_file_def spoiled_def)
  next
    case None
    obtain r2 w2 where m: "os_renameat2 (env_os E) t path w1 = (r2, w2)"
      by (cases "os_renameat2 (env_os E) t path w1")
    note mv = move_law(1)[OF L, unfolded moves_def, rule_format, OF m]
    show ?thesis
    proof (cases r2)
      case (Some e)
      then show ?thesis using s c None m k mv h
        by (auto simp: install_file_def renameNoReplace_def spoiled_def split: if_splits)
    next
      case n: None
      then have "v_files V w1 path = None" and f: "v_files V w2 = (v_files V w1)(t := None, path := v_files V w1 t)"
        using mv by simp_all
      then have "path \<noteq> t" "F path = None" using k by (auto split: if_splits)
      moreover have y: "sync_directory E (path_dir path) w2 = (r, w')"
        using s c None m n h by (simp add: install_file_def renameNoReplace_def)
      ultimately show ?thesis using sync_directory_keeps[OF L y] sync_directory_ok[OF _ y] f k
        by (auto simp: installed_def fun_eq_iff)
    qed
  qed
qed

lemma fill_file_spec:
  assumes L: "os_laws V (env_os E)"
    and s: "fill_file E store t contents mode rest w = (r, w')"
    and w: "v_files V w = F(t \<mapsto> f0)" and f0: "f_contents f0 = []"
  shows "spoiled V t F r w' \<or>
    (\<exists>w1. v_files V w1 = F(t \<mapsto> managed_file store contents mode) \<and> rest w1 = (r, w'))"
proof (cases "spoiled V t F r w'")
  case n: False
  have full: "f0\<lparr>f_contents := f_contents f0 @ contents, f_perm := mode, f_uid := as_UID store,
      f_gid := as_GID store\<rparr> = managed_file store contents mode"
    using f0 by (cases f0) (simp add: managed_file_def)
  note ch = change_law[OF L] and kc = keeps_changes[OF keep_law(6)[OF L]]
  from stage_step[OF L ch(1) s[unfolded fill_file_def] w] n obtain w1 where
    1: "v_files V w1 = F(t \<mapsto> f0\<lparr>f_contents := f_contents f0 @ contents\<rparr>)" and s1: "stage E t
      (os_fdatasync (env_os E) t) (stage E t (os_chmod (env_os E) t mode)
        (stage E t (os_chown (env_os E) t (as_UID store) (as_GID store)) rest)) w1 = (r, w')" by blast
  from stage_step[OF L kc s1 1] n obtain w2 where
    2: "v_files V w2 = F(t \<mapsto> f0\<lparr>f_contents := f_contents f0 @ contents\<rparr>)" and s2: "stage E t
      (os_chmod (env_os E) t mode) (stage E t (os_chown (env_os E) t (as_UID store) (as_GID store)) rest)
        w2 = (r, w')" by blast
  from stage_step[OF L ch(2) s2 2] n obtain w3 where
    3: "v_files V w3 = F(t \<mapsto> f0\<lparr>f_contents := f_contents f0 @ contents, f_perm := mode\<rparr>)"
    and s3: "stage E t (os_chown (env_os E) t (as_UID store) (as_GID store)) rest w3 = (r, w')" by auto
  from stage_step[OF L ch(3) s3 3] n show ?thesis unfolding full by blast
qed simp

lemma write_temporary_spec:
  assumes L: "os_laws V (env_os E)" and h: "as_rename store = None"
    and s: "write_temporary E store t path contents mode w = (r, w')"
    and w: "v_files V w = F(t \<mapsto> f0)" and f0: "f_contents f0 = []"
  shows "spoiled V t F r w' \<or>
    installed V t path F (managed_file store contents mode) w' \<and> (sync_ok (env_os E) \<longrightarrow> r = None)"
proof (cases "spoiled V t F r w'")
  case n: False
  from fill_file_spec[OF L s[unfolded write_temporary_def] w f0] n obtain w4 where
    4: "v_files V w4 = F(t \<mapsto> managed_file store contents mode)"
    and s4: "stage E t (os_fsync (env_os E) t) (install_file E store t path) w4 = (r, w')" by blast
  from stage_step[OF L keeps_changes[OF keep_law(7)[OF L]] s4 4] n obtain w5 where
    "v_files V w5 = F(t \<mapsto> managed_file store contents mode)" "install_file E store t path w5 = (r, w')" by blast
  from install_file_spec[OF L h this(2,1)] show ?thesis .
qed simp

lemma write_removing_spec:
  assumes L: "os_laws V (env_os E)" and h: "as_rename store = None"
    and s: "removing E t (write_temporary E store t path contents mode w) = (r, w')"
    and w: "v_files V w = F(t \<mapsto> f0)" and f0: "f_contents f0 = []" and t: "F t = None"
  shows "spoiled V t F r w' \<or> F path = None \<and>
    v_files V w' = F(path \<mapsto> managed_file store contents mode) \<and> (sync_ok (env_os E) \<longrightarrow> r = None)"
proof -
  obtain r1 w1 where k: "write_temporary E store t path contents mode w = (r1, w1)"
    by (cases "write_temporary E store t path contents mode w")
  obtain r2 w2 where m: "os_remove (env_os E) t w1 = (r2, w2)" by (cases "os_remove (env_os E) t w1")
  have e: "r = r1" "w' = w2" using s k m by (simp_all add: removing_def)
  from write_temporary_spec[OF L h k w f0] remove_law[OF L m] e t show ?thesis
    by (auto simp: spoiled_def installed_def fun_eq_iff)
qed

lemma writeArtifact_existing:
  assumes L: "os_laws V (env_os E)" and m: "os_mkdir_all (env_os E) (path_dir path) 0x1C0 w = (None, w1)"
    and rd: "os_read_file (env_os E) path w1 = (Inr c, w2)"
    and s: "writeArtifact E store path contents mode w = (r, w')"
  shows "v_files V w' = v_files V w \<and>
    (r = None \<longrightarrow> v_special V w path \<or> v_files V w path = Some (managed_file store contents mode))"
proof -
  note k1 = keepsD[OF keep_law(5)[OF L] m] and k2 = keepsD[OF keep_law(1)[OF L] rd]
  obtain r3 w3 where v: "verifyFile E store path contents mode w2 = (r3, w3)"
    by (cases "verifyFile E store path contents mode w2")
  note k3 = verifyFile_keeps[OF L v]
  have "v_special V w path \<or> v_files V w path = Some (managed_file store contents mode)" if "r3 = None"
    using verifyFile_sound[OF L v[unfolded that]] k1 k2 by simp
  then show ?thesis using s m rd v k1 k2 k3 by (auto simp: writeArtifact_def split: if_splits option.splits)
qed

text \<open>The full effect of \<open>writeArtifact\<close>, on success and on every failure.\<close>

lemma writeArtifact_spec:
  assumes L: "os_laws V (env_os E)" and h: "as_rename store = None"
    and s: "writeArtifact E store path contents mode w = (r, w')"
  shows "v_files V w' = v_files V w \<and>
      (r = None \<longrightarrow> v_special V w path \<or> v_files V w path = Some (managed_file store contents mode)) \<or>
    (\<exists>t. temp_name t \<and> v_files V w t = None \<and> spoiled V t (v_files V w) r w') \<or>
    v_files V w path = None \<and> v_files V w' = (v_files V w)(path \<mapsto> managed_file store contents mode) \<and>
      (sync_ok (env_os E) \<longrightarrow> r = None)"
proof -
  obtain r1 w1 where m: "os_mkdir_all (env_os E) (path_dir path) 0x1C0 w = (r1, w1)"
    by (cases "os_mkdir_all (env_os E) (path_dir path) 0x1C0 w")
  note k1 = keepsD[OF keep_law(5)[OF L] m]
  obtain r2 w2 where rd: "os_read_file (env_os E) path w1 = (r2, w2)" by (cases "os_read_file (env_os E) path w1")
  note k2 = keepsD[OF keep_law(1)[OF L] rd]
  consider e where "r1 = Some e" | c where "r1 = None" "r2 = Inr c"
    | e where "r1 = None" "r2 = Inl e" "\<not> errors_is e ErrNotExist"
    | e where "r1 = None" "r2 = Inl e" "errors_is e ErrNotExist"
    by (cases r1; cases r2) auto
  then show ?thesis
  proof cases
    case 1
    then show ?thesis using s m k1 by (auto simp: writeArtifact_def)
  next
    case 2
    then show ?thesis using writeArtifact_existing[OF L _ _ s] m rd by blast
  next
    case 3
    then show ?thesis using s m rd k1 k2 by (auto simp: writeArtifact_def)
  next
    case 4
    obtain r3 w3 where t: "os_create_temp (env_os E) (path_dir path) ''.pilothouse-'' w2 = (r3, w3)"
      by (cases "os_create_temp (env_os E) (path_dir path) ''.pilothouse-'' w2")
    show ?thesis
    proof (cases r3)
      case (Inl e')
      then show ?thesis using creates_error[OF temp_law[OF L]] t s m rd 4 k1 k2
        by (auto simp: writeArtifact_def)
    next
      case (Inr n)
      obtain f0 where n: "v_files V w n = None" "prefix ''.pilothouse-'' (path_base n)" "f_contents f0 = []"
        "v_files V w3 = (v_files V w)(n \<mapsto> f0)"
        using creates_ok[OF temp_law[OF L] t[unfolded Inr]] k1 k2 by auto
      have "removing E n (write_temporary E store n path contents mode w3) = (r, w')"
        using s m rd 4 t Inr by (simp add: writeArtifact_def)
      from write_removing_spec[OF L h this n(4,3,1)] n show ?thesis by (auto simp: temp_name_def)
    qed
  qed
qed

text \<open>
  C25. \<open>writeArtifact\<close> never overwrites or removes a file. Over any operating system that keeps the
  laws above, and whichever call fails, every regular file there was before is there after, with the
  same contents, mode and owner; the only new files are the artifact itself and a left-over
  temporary file. When it reports success, the artifact is in place with the given contents and mode and
  the store's owner (or the path is a link that already led to such a file).
\<close>

theorem artifact_no_clobber:
  assumes "os_laws V (env_os E)" and "as_rename store = None"
    and "writeArtifact E store path contents mode w = (r, w')"
  shows "(\<forall>p f. v_files V w p = Some f \<longrightarrow> v_files V w' p = Some f) \<and>
    (\<forall>p. p \<noteq> path \<and> \<not> temp_name p \<longrightarrow> v_files V w' p = v_files V w p) \<and>
    (r = None \<longrightarrow> v_special V w path \<or> v_files V w' path = Some (managed_file store contents mode))"
proof -
  consider "v_files V w' = v_files V w"
      "r = None \<longrightarrow> v_special V w path \<or> v_files V w path = Some (managed_file store contents mode)"
    | t where "temp_name t" "v_files V w t = None" "spoiled V t (v_files V w) r w'"
    | "v_files V w path = None" "v_files V w' = (v_files V w)(path \<mapsto> managed_file store contents mode)"
    using writeArtifact_spec[OF assms] by (elim disjE exE conjE) (erule that; assumption)+
  then show ?thesis
  proof cases
    case 2
    have "v_files V w' p = Some f" if "v_files V w p = Some f" for p f
      using 2 that by (cases "p = t") (auto simp: spoiled_def)
    moreover have "v_files V w' p = v_files V w p" if "\<not> temp_name p" for p
      using 2 that by (auto simp: spoiled_def)
    moreover have "r \<noteq> None" using 2 by (simp add: spoiled_def)
    ultimately show ?thesis by blast
  qed auto
qed

section \<open>Manifests read back\<close>

text \<open>
  \<open>encoding/json\<close> writes a string with each invalid byte replaced by U+FFFD, so what a decoder
  returns for a definition is the definition with its strings coerced. \<open>reads_ok\<close> says that reading a
  regular file does not fail.
\<close>

definition coerce_definition :: "remote_definition \<Rightarrow> remote_definition" where
  "coerce_definition d = d\<lparr>def_Credential := coerce (def_Credential d), def_Export := coerce (def_Export d),
     def_Host := coerce (def_Host d), def_ID := coerce (def_ID d), def_Protocol := coerce (def_Protocol d),
     def_ProtocolVersion := coerce (def_ProtocolVersion d), def_Server := coerce (def_Server d),
     def_Share := coerce (def_Share d), def_State := coerce (def_State d), def_Target := coerce (def_Target d),
     def_UnitName := coerce (def_UnitName d), def_Username := coerce (def_Username d),
     def_SMBOwnership := \<lparr>own_UID = coerce (own_UID (def_SMBOwnership d)),
       own_GID = coerce (own_GID (def_SMBOwnership d))\<rparr>\<rparr>"

definition manifest_codec_laws :: "remote_definition json \<Rightarrow> bool" where
  "manifest_codec_laws J \<longleftrightarrow>
     (\<forall>d s. marshal J d = Inr s \<longrightarrow> unmarshal J (s @ [newline]) = Inr (coerce_definition d))"

definition reads_ok :: "'w views \<Rightarrow> 'w os \<Rightarrow> bool" where
  "reads_ok V O' \<longleftrightarrow> (\<forall>w p f. v_files V w p = Some f \<longrightarrow>
     fst (os_read_file O' p w) = Inr (f_contents f) \<and>
     fst (os_stat O' p w) = Inr \<lparr>fi_regular = True, fi_perm = f_perm f, fi_sys = Some (f_uid f, f_gid f)\<rparr>)"

lemma LoadDefinition_sound:
  assumes L: "os_laws V (env_os E)" and b: "as_beforeLoad store = None"
    and s: "LoadDefinition E store i w = (r, w')"
  shows "v_files V w' = v_files V w \<and> v_special V w' = v_special V w"
    and "r = Inr d \<Longrightarrow> def_ID d = i \<and> validateArtifactDefinition E d store = None \<and>
      (\<exists>path c. ManifestPath store i = Inr path \<and> marshalManifest E d = Inr c \<and>
        (v_special V w path \<or> v_files V w path = Some (managed_file store c 0x180)))"
proof -
  have "(v_files V w' = v_files V w \<and> v_special V w' = v_special V w) \<and>
    (r = Inr d \<longrightarrow> def_ID d = i \<and> validateArtifactDefinition E d store = None \<and>
      (\<exists>path c. ManifestPath store i = Inr path \<and> marshalManifest E d = Inr c \<and>
        (v_special V w path \<or> v_files V w path = Some (managed_file store c 0x180))))"
  proof (cases "ManifestPath store i")
    case (Inl e)
    then show ?thesis using s by (auto simp: LoadDefinition_def)
  next
    case (Inr path)
    obtain r1 w1 where rd: "os_read_file (env_os E) path w = (r1, w1)" by (cases "os_read_file (env_os E) path w")
    note k1 = keepsD[OF keep_law(1)[OF L] rd]
    show ?thesis
    proof (cases r1)
      case e: (Inl e)
      then show ?thesis using s Inr rd b k1 by (auto simp: LoadDefinition_def split: if_splits)
    next
      case c: (Inr c)
      obtain r2 w2 where v: "verifyFile E store path c 0x180 w1 = (r2, w2)"
        by (cases "verifyFile E store path c 0x180 w1")
      note k2 = verifyFile_keeps[OF L v]
      show ?thesis
      proof (cases r2)
        case (Some e)
        then show ?thesis using s Inr rd b k1 k2 c v by (auto simp: LoadDefinition_def)
      next
        case None
        have "v_special V w path \<or> v_files V w path = Some (managed_file store c 0x180)"
          using verifyFile_sound[OF L v[unfolded None]] k1 by simp
        then show ?thesis using s Inr rd b k1 k2 c v None
          by (auto simp: LoadDefinition_def split: sum.splits if_splits)
      qed
    qed
  qed
  then show "v_files V w' = v_files V w \<and> v_special V w' = v_special V w"
    and "r = Inr d \<Longrightarrow> def_ID d = i \<and> validateArtifactDefinition E d store = None \<and>
      (\<exists>path c. ManifestPath store i = Inr path \<and> marshalManifest E d = Inr c \<and>
        (v_special V w path \<or> v_files V w path = Some (managed_file store c 0x180)))" by simp_all
qed

lemma verifyFile_complete:
  assumes L: "os_laws V (env_os E)" and ok: "reads_ok V (env_os E)"
    and f: "v_files V w p = Some (managed_file store c mode)"
  obtains w' where "verifyFile E store p c mode w = (None, w')" and "v_files V w' = v_files V w"
proof -
  obtain r1 w1 where s1: "os_stat (env_os E) p w = (r1, w1)" by (cases "os_stat (env_os E) p w")
  have r1: "r1 = Inr \<lparr>fi_regular = True, fi_perm = mode, fi_sys = Some (as_UID store, as_GID store)\<rparr>"
    using ok[unfolded reads_ok_def, rule_format, OF f] s1 by (simp add: managed_file_def)
  note k1 = keepsD[OF keep_law(2)[OF L] s1]
  obtain r2 w2 where s2: "os_read_file (env_os E) p w1 = (r2, w2)" by (cases "os_read_file (env_os E) p w1")
  have "fst (os_read_file (env_os E) p w1) = Inr c"
    using ok f k1 by (auto simp: reads_ok_def managed_file_def)
  with s2 have r2: "r2 = Inr c" by simp
  note k2 = keepsD[OF keep_law(1)[OF L] s2]
  show thesis
    by (rule that[of w2]) (use s1 s2 r1 r2 k1 k2 in \<open>simp_all add: verifyFile_def verifyMetadata_def\<close>)
qed

lemma LoadDefinition_complete:
  assumes L: "os_laws V (env_os E)" and ok: "reads_ok V (env_os E)" and b: "as_beforeLoad store = None"
    and J: "manifest_codec_laws (env_json E)" and n: "coerce_definition d = d"
    and v: "validateArtifactDefinition E d store = None"
    and p: "ManifestPath store (def_ID d) = Inr path" and c: "marshalManifest E d = Inr c"
    and f: "v_files V w path = Some (managed_file store c 0x180)"
  shows "fst (LoadDefinition E store (def_ID d) w) = Inr d"
proof -
  obtain r1 w1 where rd: "os_read_file (env_os E) path w = (r1, w1)" by (cases "os_read_file (env_os E) path w")
  have "fst (os_read_file (env_os E) path w) = Inr c" using ok f by (auto simp: reads_ok_def managed_file_def)
  with rd have r1: "r1 = Inr c" by simp
  have "v_files V w1 path = Some (managed_file store c 0x180)"
    using keepsD[OF keep_law(1)[OF L] rd] f by simp
  from verifyFile_complete[OF L ok this] obtain w2 where y: "verifyFile E store path c 0x180 w1 = (None, w2)"
    by blast
  have "unmarshal (env_json E) c = Inr d"
    using J c n by (auto simp: manifest_codec_laws_def marshalManifest_def split: sum.splits)
  then show ?thesis using p b rd r1 y v c by (simp add: LoadDefinition_def)
qed

text \<open>\<open>UpdateManifest\<close> replaces a verified manifest by one that differs in its state only.\<close>

lemma replace_spec:
  assumes L: "os_laws V (env_os E)" and s: "fill_file E store t contents mode
      (stage E t (os_fclose (env_os E) t) (replace_file E t path)) w = (r, w')"
    and w: "v_files V w = F(t \<mapsto> f0)" and f0: "f_contents f0 = []"
  shows "spoiled V t F r w' \<or> v_files V w' = F(t := None, path \<mapsto> managed_file store contents mode)"
proof (cases "spoiled V t F r w'")
  case n: False
  from fill_file_spec[OF L s w f0] n obtain w4 where
    4: "v_files V w4 = F(t \<mapsto> managed_file store contents mode)"
    and s4: "stage E t (os_fclose (env_os E) t) (replace_file E t path) w4 = (r, w')" by blast
  from stage_step[OF L keeps_changes[OF keep_law(8)[OF L]] s4 4] n obtain w5 where
    5: "v_files V w5 = F(t \<mapsto> managed_file store contents mode)" "replace_file E t path w5 = (r, w')" by blast
  obtain r2 w2 where m: "os_rename (env_os E) t path w5 = (r2, w2)" by (cases "os_rename (env_os E) t path w5")
  note mv = move_law(2)[OF L, unfolded moves_def, rule_format, OF m]
  show ?thesis
  proof (cases r2)
    case (Some e)
    then show ?thesis using 5 m mv by (auto simp: replace_file_def spoiled_def)
  next
    case None
    then have "sync_directory E (path_dir path) w2 = (r, w')" using 5 m by (simp add: replace_file_def)
    from sync_directory_keeps[OF L this] mv None 5(1) show ?thesis by (auto simp: fun_eq_iff)
  qed
qed simp

lemma UpdateManifest_spec:
  assumes L: "os_laws V (env_os E)" and b: "as_beforeLoad store = None"
    and s: "UpdateManifest E store d w = (r, w')"
  shows "v_files V w' = v_files V w \<and> r \<noteq> None \<or>
    (\<exists>t. temp_name t \<and> v_files V w t = None \<and> spoiled V t (v_files V w) r w') \<or>
    (\<exists>path c old. ManifestPath store (def_ID d) = Inr path \<and> marshalManifest E d = Inr c \<and>
      (v_special V w path \<or> v_files V w path = Some (managed_file store old 0x180)) \<and>
      v_files V w' = (v_files V w)(path \<mapsto> managed_file store c 0x180))"
proof -
  obtain r1 w1 where l: "LoadDefinition E store (def_ID d) w = (r1, w1)"
    by (cases "LoadDefinition E store (def_ID d) w")
  note k1 = LoadDefinition_sound(1)[OF L b l]
  show ?thesis
  proof (cases "\<exists>old c n w2. r1 = Inr old \<and> old\<lparr>def_State := def_State d\<rparr> = d \<and> def_State old \<noteq> def_State d \<and>
      marshalManifest E d = Inr c \<and>
      os_create_temp (env_os E) (path_dir (or_empty (ManifestPath store (def_ID d)))) ''.pilothouse-'' w1 = (Inr n, w2)")
    case False
    then have "r \<noteq> None \<and> v_files V w' = v_files V w"
      using s l k1 creates_error[OF temp_law[OF L]]
      by (auto simp: UpdateManifest_def Let_def split: sum.splits prod.splits if_splits)
    then show ?thesis by blast
  next
    case True
    then obtain old c t w2 where o: "r1 = Inr old" "old\<lparr>def_State := def_State d\<rparr> = d" "def_State old \<noteq> def_State d"
      and c: "marshalManifest E d = Inr c" and t: "os_create_temp (env_os E)
        (path_dir (or_empty (ManifestPath store (def_ID d)))) ''.pilothouse-'' w1 = (Inr t, w2)" by blast
    obtain path oc where p: "ManifestPath store (def_ID d) = Inr path"
      and old: "v_special V w path \<or> v_files V w path = Some (managed_file store oc 0x180)"
      using LoadDefinition_sound(2)[OF L b l o(1)] by blast
    obtain f0 where n: "v_files V w t = None" "temp_name t" "f_contents f0 = []"
      "v_files V w2 = (v_files V w)(t \<mapsto> f0)"
      using creates_ok[OF temp_law[OF L] t] k1 by (auto simp: temp_name_def)
    obtain r3 w3 where body: "fill_file E store t c 0x180
        (stage E t (os_fclose (env_os E) t) (replace_file E t path)) w2 = (r3, w3)"
      by (cases "fill_file E store t c 0x180 (stage E t (os_fclose (env_os E) t) (replace_file E t path)) w2")
    obtain r4 w4 where rm: "os_remove (env_os E) t w3 = (r4, w4)" by (cases "os_remove (env_os E) t w3")
    have e: "r = r3" "w' = w4"
      using s l o c t p body rm by (simp_all add: UpdateManifest_def Let_def removing_def or_empty_def)
    have "spoiled V t (v_files V w) r3 w3 \<or>
        v_files V w3 = (v_files V w)(t := None, path \<mapsto> managed_file store c 0x180)"
      using replace_spec[OF L body n(4,3)] .
    then show ?thesis
    proof
      assume "spoiled V t (v_files V w) r3 w3"
      then have "spoiled V t (v_files V w) r w'" using remove_law[OF L rm] e by (auto simp: spoiled_def)
      then show ?thesis using n by blast
    next
      assume f: "v_files V w3 = (v_files V w)(t := None, path \<mapsto> managed_file store c 0x180)"
      have "path \<noteq> t" using ManifestPath_base[OF p] n(2) by auto
      with f have "v_files V w' = (v_files V w)(path \<mapsto> managed_file store c 0x180)"
        using remove_law[OF L rm] e n(1) by (auto simp: fun_eq_iff)
      then show ?thesis using old p c by auto
    qed
  qed
qed

text \<open>
  C26. A manifest that \<open>WriteManifest\<close> reports written is read back unchanged: \<open>LoadDefinition\<close> on
  its ID returns the same definition, provided its strings are valid UTF-8, the path is not a link and
  the reads themselves do not fail. Conversely whatever \<open>LoadDefinition\<close> accepts passed the validators,
  bears the requested ID, and is stored in exactly the encoding the store writes, mode 0600 and with
  the store's owner.
\<close>

theorem manifest_roundtrip:
  assumes "os_laws V (env_os E)" and "reads_ok V (env_os E)" and "manifest_codec_laws (env_json E)"
    and "as_rename store = None" and "as_beforeLoad store = None" and "coerce_definition d = d"
    and "WriteManifest E store d w = (None, w')"
    and "\<not> v_special V w (or_empty (ManifestPath store (def_ID d)))"
  shows "fst (LoadDefinition E store (def_ID d) w') = Inr d \<and>
    (\<forall>i e. fst (LoadDefinition E store i w') = Inr e \<longrightarrow> def_ID e = i \<and>
      validateArtifactDefinition E e store = None \<and>
      (\<exists>path c. ManifestPath store i = Inr path \<and> marshalManifest E e = Inr c \<and>
        (v_special V w' path \<or> v_files V w' path = Some (managed_file store c 0x180))))"
proof
  obtain path c where v: "validateArtifactDefinition E d store = None"
    and p: "ManifestPath store (def_ID d) = Inr path" and c: "marshalManifest E d = Inr c"
    and a: "writeArtifact E store path c 0x180 w = (None, w')"
    using assms(7) by (auto simp: WriteManifest_def split: option.splits sum.splits)
  have "v_files V w' path = Some (managed_file store c 0x180)"
    using writeArtifact_spec[OF assms(1,4) a] assms(8) p
    by (auto simp: or_empty_def spoiled_def)
  from LoadDefinition_complete[OF assms(1,2,5,3,6) v p c this]
  show "fst (LoadDefinition E store (def_ID d) w') = Inr d" .
  show "\<forall>i e. fst (LoadDefinition E store i w') = Inr e \<longrightarrow> def_ID e = i \<and>
      validateArtifactDefinition E e store = None \<and>
      (\<exists>path c. ManifestPath store i = Inr path \<and> marshalManifest E e = Inr c \<and>
        (v_special V w' path \<or> v_files V w' path = Some (managed_file store c 0x180)))"
    using LoadDefinition_sound(2)[OF assms(1,5) surjective_pairing] by simp
qed

section \<open>A file system in memory\<close>

text \<open>
  An instance for examples: the world is the map of regular files, there are no links, and no call fails but
  for a missing file or a name that is taken. The codec knows the four states of one definition.
\<close>

type_synonym mem_fs = "string \<Rightarrow> disk_file option"

definition mem_views :: "mem_fs views" where
  "mem_views = \<lparr>v_files = (\<lambda>w. w), v_special = (\<lambda>w p. False)\<rparr>"

definition mem_stat :: "string \<Rightarrow> mem_fs \<Rightarrow> file_info result \<times> mem_fs" where
  "mem_stat p w = (case w p of None \<Rightarrow> Inl ErrNotExist
     | Some f \<Rightarrow> Inr \<lparr>fi_regular = True, fi_perm = f_perm f, fi_sys = Some (f_uid f, f_gid f)\<rparr>, w)"

definition mem_change :: "(disk_file \<Rightarrow> disk_file) \<Rightarrow> string \<Rightarrow> mem_fs \<Rightarrow> error option \<times> mem_fs" where
  "mem_change g n w = (None, w(n := map_option g (w n)))"

definition empty_file :: disk_file where
  "empty_file = \<lparr>f_contents = [], f_perm = 0x180, f_uid = 0, f_gid = 0\<rparr>"

definition mem_os :: "mem_fs os" where
  "mem_os = \<lparr>
     os_read_file = (\<lambda>p w. (case w p of None \<Rightarrow> Inl ErrNotExist | Some f \<Rightarrow> Inr (f_contents f), w)),
     os_stat = mem_stat, os_lstat = mem_stat,
     os_read_dir = (\<lambda>p w. (Inr [], w)),
     os_mkdir_all = (\<lambda>p m w. (None, w)),
     os_create_temp = (\<lambda>d pat w. let n = d @ ''/'' @ pat in
       if slash \<in> set pat \<or> w n \<noteq> None then (Inl ErrExist, w)
       else (Inr n, w(n \<mapsto> empty_file))),
     os_write = (\<lambda>n s. mem_change (\<lambda>f. f\<lparr>f_contents := f_contents f @ s\<rparr>) n),
     os_fdatasync = (\<lambda>n w. (None, w)), os_fsync = (\<lambda>n w. (None, w)),
     os_chmod = (\<lambda>n k. mem_change (\<lambda>f. f\<lparr>f_perm := k\<rparr>) n),
     os_chown = (\<lambda>n u g. mem_change (\<lambda>f. f\<lparr>f_uid := u, f_gid := g\<rparr>) n),
     os_fclose = (\<lambda>n w. (None, w)),
     os_rename = (\<lambda>a b w. (None, w(a := None, b := w a))),
     os_renameat2 = (\<lambda>a b w. if w b \<noteq> None then (Some EEXIST, w) else (None, w(a := None, b := w a))),
     os_remove = (\<lambda>p w. if w p = None then (Some ErrNotExist, w) else (None, w(p := None))),
     os_open_dir = (\<lambda>p w. (None, w)), os_dir_sync = (\<lambda>p w. (None, w)), os_dir_close = (\<lambda>p w. (None, w))\<rparr>"

lemma mem_os_laws: "os_laws mem_views mem_os"
proof -
  have "read_laws mem_views mem_os"
    by (auto simp: read_laws_def mem_views_def mem_os_def mem_stat_def split: option.splits)
  moreover have "keep_laws mem_views mem_os"
    by (simp add: keep_laws_def keeps_def mem_views_def mem_os_def mem_stat_def)
  moreover have "creates mem_views pat (os_create_temp mem_os d pat)" for d pat
  proof -
    have base: "path_base (d @ CHR ''/'' # pat) = pat" if "slash \<notin> set pat"
      using path_base_append[of pat "d @ ''/''"] that by (simp add: slash_def)
    show ?thesis
      by (auto simp: creates_def mem_views_def mem_os_def Let_def base empty_file_def
          intro!: exI[of _ empty_file])
  qed
  then have "write_laws mem_views mem_os"
    by (auto simp: write_laws_def changes_def moves_def mem_change_def mem_os_def mem_views_def split: if_splits)
  ultimately show ?thesis by (simp add: os_laws_def)
qed

lemma mem_reads_ok: "reads_ok mem_views mem_os"
  by (auto simp: reads_ok_def mem_views_def mem_os_def mem_stat_def)

definition demo_with :: "bool \<Rightarrow> bool \<Rightarrow> remote_definition" where
  "demo_with created attention = demo_definition\<lparr>def_CreatedTarget := created,
     def_State := (if attention then ''needs-attention'' else ''active'')\<rparr>"

definition demo_tag :: "bool \<Rightarrow> bool \<Rightarrow> string" where
  "demo_tag created attention = [if created then CHR ''c'' else CHR ''-'', if attention then CHR ''a'' else CHR ''-'']"

definition demo_json :: "remote_definition json" where
  "demo_json = \<lparr>
     marshal = (\<lambda>d. case List.find (\<lambda>(c, a). demo_with c a = d)
         [(False, False), (False, True), (True, False), (True, True)] of
       None \<Rightarrow> Inl errInvalidManifest | Some (c, a) \<Rightarrow> Inr (demo_tag c a)),
     unmarshal = (\<lambda>s. case List.find (\<lambda>(c, a). demo_tag c a @ [newline] = s)
         [(False, False), (False, True), (True, False), (True, True)] of
       None \<Rightarrow> Inl errInvalidManifest | Some (c, a) \<Rightarrow> Inr (demo_with c a))\<rparr>"

lemma demo_coerced: "coerce_definition (demo_with c a) = demo_with c a"
  by (simp add: coerce_definition_def demo_with_def demo_definition_def demo_id_def coerce_ascii no_ownership_def
      list_all_iff)

lemma demo_with_inject [simp]: "demo_with c a = demo_with c' a' \<longleftrightarrow> c = c' \<and> a = a'"
  by (auto simp: demo_with_def demo_definition_def dest: arg_cong[of _ _ def_State] arg_cong[of _ _ def_CreatedTarget])

lemma demo_marshal: "marshal demo_json (demo_with c a) = Inr (demo_tag c a)"
  by (cases c; cases a) (simp_all add: demo_json_def)

lemma demo_json_laws: "manifest_codec_laws demo_json"
proof -
  have u: "unmarshal demo_json (demo_tag c a @ [newline]) = Inr (demo_with c a)" for c a
    by (cases c; cases a) (simp_all add: demo_json_def demo_tag_def)
  have m: "\<exists>c a. d = demo_with c a \<and> s = demo_tag c a" if "marshal demo_json d = Inr s" for d s
    using that by (auto simp: demo_json_def split: if_splits)
  show ?thesis unfolding manifest_codec_laws_def using u m demo_coerced by metis
qed

definition demo_env :: "mem_fs env" where
  "demo_env = \<lparr>env_os = mem_os, env_json = demo_json, env_escape = demo_escape\<rparr>"

definition demo_store :: "mem_fs artifact_store" where
  "demo_store = NewArtifactStore"

lemma demo_artifact_valid: "validateArtifactDefinition demo_env (demo_with c a) demo_store = None"
  by (simp add: validateArtifactDefinition_def demo_with_def demo_definition_def demo_id_valid demo_fields_valid
      demo_env_def)

text \<open>The first write of the demonstration manifest.\<close>

definition demo_manifest_path :: string where
  "demo_manifest_path = or_empty (ManifestPath demo_store demo_id)"

lemma demo_write_manifest:
  "WriteManifest demo_env demo_store (demo_with False False) Map.empty =
     (None, [demo_manifest_path \<mapsto> managed_file demo_store (demo_tag False False @ [newline]) 0x180])"
proof -
  let ?d = "demo_with False False" and ?p = demo_manifest_path and ?c = "demo_tag False False @ [newline]"
  have p: "ManifestPath demo_store (def_ID ?d) = Inr ?p"
    by (simp add: demo_manifest_path_def ManifestPath_def demo_id_valid or_empty_def demo_with_def demo_definition_def)
  have ne: "?p \<noteq> path_dir ?p @ ''/.pilothouse-''"
    using ManifestPath_base[OF p] path_base_append[of "''.pilothouse-''" "path_dir ?p @ ''/''"]
    by (auto simp: temp_name_def slash_def)
  have c: "marshalManifest demo_env ?d = Inr ?c"
    by (simp add: marshalManifest_def demo_env_def demo_marshal)
  let ?n = "path_dir ?p @ ''/.pilothouse-''"
  have t: "os_create_temp mem_os (path_dir ?p) ''.pilothouse-'' Map.empty = (Inr ?n, [?n \<mapsto> empty_file])"
    by (simp add: mem_os_def slash_def Let_def)
  have f: "write_temporary demo_env demo_store ?n ?p ?c 0x180 [?n \<mapsto> empty_file] =
      (None, [?p \<mapsto> managed_file demo_store ?c 0x180])"
    using ne by (simp add: write_temporary_def fill_file_def stage_def demo_env_def mem_os_def mem_change_def
        install_file_def renameNoReplace_def sync_directory_def demo_store_def NewArtifactStore_def
        managed_file_def empty_file_def fun_eq_iff)
  have "writeArtifact demo_env demo_store ?p ?c 0x180 Map.empty = (None, [?p \<mapsto> managed_file demo_store ?c 0x180])"
  proof -
    have o: "env_os demo_env = mem_os" by (simp add: demo_env_def)
    have 1: "os_mkdir_all mem_os d m w = (None, w)" for d m w by (simp add: mem_os_def)
    have 2: "os_read_file mem_os ?p Map.empty = (Inl ErrNotExist, Map.empty)" by (simp add: mem_os_def)
    have 3: "snd (os_remove mem_os ?n [?p \<mapsto> g]) = [?p \<mapsto> g]" for g using ne by (simp add: mem_os_def)
    have 4: "errors_is ErrNotExist ErrNotExist" by (simp add: ErrNotExist_def)
    show ?thesis by (simp add: writeArtifact_def o 1 2 4 t f removing_def 3)
  qed
  then show ?thesis by (simp add: WriteManifest_def demo_artifact_valid p c)
qed

theorem artifact_no_clobber_witness:
  "\<exists>r w'. writeArtifact demo_env demo_store demo_manifest_path ''new'' 0x180 [demo_manifest_path \<mapsto> empty_file] =
     (r, w') \<and> w' demo_manifest_path = Some empty_file"
proof -
  obtain r w' where w: "writeArtifact demo_env demo_store demo_manifest_path ''new'' 0x180
      [demo_manifest_path \<mapsto> empty_file] = (r, w')"
    by (cases "writeArtifact demo_env demo_store demo_manifest_path ''new'' 0x180
      [demo_manifest_path \<mapsto> empty_file]")
  have "os_laws mem_views (env_os demo_env)" "as_rename demo_store = None"
    by (simp_all add: demo_env_def mem_os_laws demo_store_def NewArtifactStore_def)
  from artifact_no_clobber[OF this w] w show ?thesis by (auto simp: mem_views_def)
qed

theorem manifest_roundtrip_witness:
  "\<exists>w'. WriteManifest demo_env demo_store (demo_with False False) Map.empty = (None, w') \<and>
     fst (LoadDefinition demo_env demo_store demo_id w') = Inr (demo_with False False)"
proof -
  have i: "def_ID (demo_with False False) = demo_id" by (simp add: demo_with_def demo_definition_def)
  have "os_laws mem_views (env_os demo_env)" "reads_ok mem_views (env_os demo_env)"
    "manifest_codec_laws (env_json demo_env)" "as_rename demo_store = None" "as_beforeLoad demo_store = None"
    by (simp_all add: demo_env_def mem_os_laws mem_reads_ok demo_json_laws demo_store_def NewArtifactStore_def)
  moreover have "\<not> v_special mem_views Map.empty (or_empty (ManifestPath demo_store
      (def_ID (demo_with False False))))" by (simp add: mem_views_def)
  ultimately have "fst (LoadDefinition demo_env demo_store (def_ID (demo_with False False))
      [demo_manifest_path \<mapsto> managed_file demo_store (demo_tag False False @ [newline]) 0x180]) =
      Inr (demo_with False False)"
    using manifest_roundtrip[OF _ _ _ _ _ demo_coerced demo_write_manifest] by blast
  with demo_write_manifest i
  show ?thesis by auto
qed

end
