(* ===== verification/Storage_Snapshot.thy ===== *)
theory Storage_Snapshot
  imports Complex_Main Prelude "HOL-Library.Word" "HOL-Library.Product_Lexorder"
begin

text \<open>
  The storage snapshot and how adapter results become one (\<open>internal/modules/storage/model.go\<close>,
  \<open>normalize.go\<close>, \<open>cache.go\<close> and the merging half of \<open>manager.go\<close>). A \<open>uint64\<close> is a 64-bit word.
  \<open>UsedPercent\<close> is a rational, \<open>None\<close> for a NaN. \<open>sort.Slice\<close> is a stable sort here; Go leaves the
  order of equal keys open, and no statement below depends on it. The size of the encoded snapshot,
  the one thing the code asks of \<open>json.Marshal\<close>, is the argument \<open>enc\<close>.
\<close>

section \<open>Data\<close>

definition maxResources :: nat where "maxResources = 4096"
definition maxRelations :: nat where "maxRelations = 8192"
definition maxMounts :: nat where "maxMounts = 1024"
definition maxFindings :: nat where "maxFindings = 512"
definition maxDetails :: nat where "maxDetails = 32"
definition maxSnapshotBytes :: nat where "maxSnapshotBytes = 2 * 1024 * 1024"
definition maxGraphDepth :: nat where "maxGraphDepth = 32"

type_synonym health = string
type_synonym availability = string

definition HealthHealthy :: health where "HealthHealthy = ''healthy''"
definition HealthUnknown :: health where "HealthUnknown = ''unknown''"
definition HealthWarning :: health where "HealthWarning = ''warning''"
definition HealthCritical :: health where "HealthCritical = ''critical''"

definition BackendAvailable :: availability where "BackendAvailable = ''available''"
definition BackendUnsupported :: availability where "BackendUnsupported = ''unsupported''"
definition BackendUnavailable :: availability where "BackendUnavailable = ''unavailable''"
definition BackendTimedOut :: availability where "BackendTimedOut = ''timed-out''"
definition BackendTruncated :: availability where "BackendTruncated = ''truncated''"

record detail =
  dt_Label :: string
  dt_Value :: string

record resource =
  rs_Details :: "detail list"
  rs_Health :: health
  rs_ID :: string
  rs_Kind :: string
  rs_Name :: string
  rs_Path :: string
  rs_SizeBytes :: "64 word"
  rs_State :: string

record relation =
  rl_From :: string
  rl_Kind :: string
  rl_To :: string

record mount =
  mt_AvailableBytes :: "64 word"
  mt_Filesystem :: string
  mt_Health :: health
  mt_ID :: string
  mt_Managed :: bool
  mt_Options :: "string list"
  mt_ReadOnly :: bool
  mt_ResourceID :: string
  mt_Source :: string
  mt_State :: string
  mt_Target :: string
  mt_TotalBytes :: "64 word"
  mt_UsedBytes :: "64 word"
  mt_UsedPercent :: "rat option"

record backend_status =
  bs_Availability :: availability
  bs_CollectedAt :: int
  bs_Name :: string

record finding =
  fd_Detail :: string
  fd_ResourceID :: string
  fd_Severity :: health
  fd_Title :: string

record summary =
  sm_ActiveMounts :: int
  sm_FreeBytes :: "64 word"
  sm_HighestHealth :: health
  sm_UnavailableBackends :: int
  sm_UnhealthyResources :: int
  sm_UsableBytes :: "64 word"
  sm_UsedBytes :: "64 word"

record snapshot =
  sn_Backends :: "backend_status list"
  sn_CollectedAt :: int
  sn_Findings :: "finding list"
  sn_Mounts :: "mount list"
  sn_Relations :: "relation list"
  sn_Resources :: "resource list"
  sn_Summary :: summary
  sn_Truncated :: bool

record adapter_result =
  ar_Findings :: "finding list"
  ar_Mounts :: "mount list"
  ar_Relations :: "relation list"
  ar_Resources :: "resource list"
  ar_Truncated :: bool

definition empty_result :: adapter_result where
  "empty_result = \<lparr>ar_Findings = [], ar_Mounts = [], ar_Relations = [], ar_Resources = [],
     ar_Truncated = False\<rparr>"

record collected_result =
  cr_err :: "error option"
  cr_name :: string
  cr_core :: bool
  cr_result :: adapter_result

section \<open>Health\<close>

definition healthRank :: "health \<Rightarrow> nat" where
  "healthRank value = (if value = HealthCritical then 3 else if value = HealthWarning then 2
     else if value = HealthUnknown then 1 else 0)"

definition higherHealth :: "health \<Rightarrow> health \<Rightarrow> health" where
  "higherHealth current candidate = (if healthRank candidate > healthRank current then candidate else current)"

definition availabilityFor :: "error option \<Rightarrow> availability" where
  "availabilityFor err = (case err of None \<Rightarrow> BackendAvailable
     | Some e \<Rightarrow> if e = DeadlineExceeded then BackendTimedOut else BackendUnavailable)"

definition isExpectedImmutableMount :: "mount \<Rightarrow> bool" where
  "isExpectedImmutableMount m \<longleftrightarrow> mt_Filesystem m = ''erofs''"

definition staleHealthDetail :: detail where
  "staleHealthDetail = \<lparr>dt_Label = ''Health data'', dt_Value = ''Stale''\<rparr>"

fun append_details :: "nat \<Rightarrow> detail list \<Rightarrow> detail list \<Rightarrow> detail list" where
  "append_details limit result [] = result"
| "append_details limit result (d # ds) =
     (if d = staleHealthDetail \<or> length result = limit then append_details limit result ds
      else append_details limit (result @ [d]) ds)"

definition mergeDetails :: "detail list \<Rightarrow> detail list \<Rightarrow> detail list" where
  "mergeDetails core enriched =
     (if length core \<ge> maxDetails then take maxDetails core
      else
        (let stale = List.member enriched staleHealthDetail;
             result = append_details (if stale then maxDetails - 1 else maxDetails) core enriched
         in if stale \<and> length result < maxDetails then result @ [staleHealthDetail] else result))"

definition markStale :: "adapter_result \<Rightarrow> adapter_result" where
  "markStale r = r\<lparr>ar_Resources := map (\<lambda>x.
     let details = (if length (rs_Details x) \<ge> maxDetails then take (maxDetails - 1) (rs_Details x)
       else rs_Details x)
     in x\<lparr>rs_Details := details @ [staleHealthDetail]\<rparr>) (ar_Resources r)\<rparr>"

section \<open>The health cache\<close>

definition healthCacheTTL :: int where "healthCacheTTL = 5 * minute"

record cached_health =
  ch_collectedAt :: int
  ch_result :: adapter_result

type_synonym health_cache = "(string, cached_health) gomap"

definition newHealthCache :: health_cache where "newHealthCache = []"

text \<open>The result, whether it is fresh, and whether there is one; values are copied, so cloning is the identity.\<close>

definition cache_Load :: "int \<Rightarrow> health_cache \<Rightarrow> string \<Rightarrow> adapter_result \<times> bool \<times> bool" where
  "cache_Load now c key = (case map_of c key of None \<Rightarrow> (empty_result, False, False)
     | Some entry \<Rightarrow> (ch_result entry, time_sub now (ch_collectedAt entry) < healthCacheTTL, True))"

definition cache_Store :: "int \<Rightarrow> health_cache \<Rightarrow> string \<Rightarrow> adapter_result \<Rightarrow> health_cache" where
  "cache_Store now c key r = AList.update key \<lparr>ch_collectedAt = now, ch_result = r\<rparr> c"

section \<open>The aggregate\<close>

record aggregate =
  ag_dropped :: "(string, bool) gomap"
  ag_findings :: "finding list"
  ag_mounts :: "mount list"
  ag_relations :: "(string, relation) gomap"
  ag_resources :: "(string, resource) gomap"
  ag_truncated :: "(string, bool) gomap"

definition newAggregate :: aggregate where
  "newAggregate = \<lparr>ag_dropped = [], ag_findings = [], ag_mounts = [], ag_relations = [],
     ag_resources = [], ag_truncated = []\<rparr>"

definition flagged :: "(string, bool) gomap \<Rightarrow> string \<Rightarrow> bool" where
  "flagged m k \<longleftrightarrow> map_of m k = Some True"

definition mark_truncated :: "string \<Rightarrow> aggregate \<Rightarrow> aggregate" where
  "mark_truncated backend a = a\<lparr>ag_truncated := AList.update backend True (ag_truncated a)\<rparr>"

definition relationKey :: "relation \<Rightarrow> string" where
  "relationKey r = rl_From r @ [CHR 0x00] @ rl_Kind r @ [CHR 0x00] @ rl_To r"

definition apply_resource :: "string \<Rightarrow> bool \<Rightarrow> resource \<Rightarrow> aggregate \<Rightarrow> aggregate result" where
  "apply_resource backend enrich r a = (case map_of (ag_resources a) (rs_ID r) of
     Some existing \<Rightarrow>
       if \<not> enrich then Inl (Errorf ''conflicting resource %q'' [rs_ID r])
       else
         (let existing = existing\<lparr>rs_Details := mergeDetails (rs_Details existing) (rs_Details r),
                rs_Health := higherHealth (rs_Health existing) (rs_Health r)\<rparr>;
              existing = (if rs_State r \<noteq> [] then existing\<lparr>rs_State := rs_State r\<rparr> else existing)
          in Inr (a\<lparr>ag_resources := AList.update (rs_ID r) existing (ag_resources a)\<rparr>))
   | None \<Rightarrow>
       if length (ag_resources a) = maxResources then
         Inr (mark_truncated backend (a\<lparr>ag_dropped := AList.update (rs_ID r) True (ag_dropped a)\<rparr>))
       else
         (let a' = (if length (rs_Details r) > maxDetails then mark_truncated backend a else a);
              r' = (if length (rs_Details r) > maxDetails
                then r\<lparr>rs_Details := take maxDetails (rs_Details r)\<rparr> else r)
          in Inr (a'\<lparr>ag_resources := AList.update (rs_ID r) r' (ag_resources a')\<rparr>)))"

definition apply_relation :: "string \<Rightarrow> relation \<Rightarrow> aggregate \<Rightarrow> aggregate" where
  "apply_relation backend r a =
     (if flagged (ag_dropped a) (rl_From r) \<or> flagged (ag_dropped a) (rl_To r) then a
      else if map_of (ag_relations a) (relationKey r) \<noteq> None then a
      else if length (ag_relations a) = maxRelations then mark_truncated backend a
      else a\<lparr>ag_relations := AList.update (relationKey r) r (ag_relations a)\<rparr>)"

definition undropped :: "aggregate \<Rightarrow> mount \<Rightarrow> mount" where
  "undropped a m = (if flagged (ag_dropped a) (mt_ResourceID m) then m\<lparr>mt_ResourceID := []\<rparr> else m)"

text \<open>Replace the first mount with the same ID, when there is one.\<close>

fun replace_mount :: "mount \<Rightarrow> mount list \<Rightarrow> mount list option" where
  "replace_mount m [] = None"
| "replace_mount m (x # xs) = (if mt_ID x = mt_ID m then Some (m # xs)
     else map_option (Cons x) (replace_mount m xs))"

definition apply_mount :: "string \<Rightarrow> bool \<Rightarrow> mount \<Rightarrow> aggregate \<Rightarrow> aggregate" where
  "apply_mount backend enrich m a =
     (case (if enrich then replace_mount (undropped a m) (ag_mounts a) else None) of
        Some ms \<Rightarrow> a\<lparr>ag_mounts := ms\<rparr>
      | None \<Rightarrow> if length (ag_mounts a) = maxMounts then mark_truncated backend a
          else a\<lparr>ag_mounts := ag_mounts a @ [undropped a m]\<rparr>)"

definition apply_finding :: "string \<Rightarrow> finding \<Rightarrow> aggregate \<Rightarrow> aggregate" where
  "apply_finding backend f a =
     (if length (ag_findings a) = maxFindings then mark_truncated backend a
      else a\<lparr>ag_findings := ag_findings a @ [f]\<rparr>)"

fun apply_resources :: "string \<Rightarrow> bool \<Rightarrow> resource list \<Rightarrow> aggregate \<Rightarrow> aggregate result" where
  "apply_resources backend enrich [] a = Inr a"
| "apply_resources backend enrich (r # rs) a = (case apply_resource backend enrich r a of
     Inl e \<Rightarrow> Inl e | Inr a' \<Rightarrow> apply_resources backend enrich rs a')"

definition agg_apply :: "string \<Rightarrow> adapter_result \<Rightarrow> bool \<Rightarrow> aggregate \<Rightarrow> aggregate result" where
  "agg_apply backend r enrich a =
     (case apply_resources backend enrich (ar_Resources r)
         (if ar_Truncated r then mark_truncated backend a else a) of
        Inl e \<Rightarrow> Inl e
      | Inr a1 \<Rightarrow> Inr (fold (apply_finding backend) (ar_Findings r)
          (fold (apply_mount backend enrich) (ar_Mounts r)
            (fold (apply_relation backend) (ar_Relations r) a1))))"

section \<open>The graph of resources\<close>

text \<open>
  The depth-first walk of \<open>validateGraph\<close>. \<open>state\<close> is 1 while an ID is on the stack and 2 when it is
  done. The recursion is bounded by \<open>fuel\<close>; \<open>None\<close> means it ran out, which the fuel chosen by
  \<open>validateGraph\<close> excludes (lemma \<open>walk_all_enough\<close>).
\<close>

record marks =
  mk_state :: "(string, nat) gomap"
  mk_depths :: "(string, nat) gomap"

definition state_of :: "marks \<Rightarrow> string \<Rightarrow> nat" where
  "state_of k i = (case map_of (mk_state k) i of None \<Rightarrow> 0 | Some n \<Rightarrow> n)"

definition depth_of :: "marks \<Rightarrow> string \<Rightarrow> nat" where
  "depth_of k i = (case map_of (mk_depths k) i of None \<Rightarrow> 0 | Some n \<Rightarrow> n)"

definition children :: "relation list \<Rightarrow> string \<Rightarrow> string list" where
  "children rels i = map rl_To (filter (\<lambda>r. rl_From r = i) rels)"

fun graph_walk :: "relation list \<Rightarrow> nat \<Rightarrow> string \<Rightarrow> marks \<Rightarrow> (nat result \<times> marks) option"
  and graph_children :: "relation list \<Rightarrow> nat \<Rightarrow> string list \<Rightarrow> nat \<Rightarrow> marks \<Rightarrow> (nat result \<times> marks) option"
where
  "graph_walk rels 0 i k = None"
| "graph_walk rels (Suc fuel) i k =
     (if state_of k i = 1 then Some (Inl (Errorf ''graph cycle detected'' []), k)
      else if state_of k i = 2 then Some (Inr (depth_of k i), k)
      else (case graph_children rels fuel (children rels i) 0
              (k\<lparr>mk_state := AList.update i 1 (mk_state k)\<rparr>) of
          None \<Rightarrow> None
        | Some (Inl e, k') \<Rightarrow> Some (Inl e, k')
        | Some (Inr depth, k') \<Rightarrow> Some (Inr depth,
            k'\<lparr>mk_state := AList.update i 2 (mk_state k'), mk_depths := AList.update i depth (mk_depths k')\<rparr>)))"
| "graph_children rels fuel [] depth k = Some (Inr depth, k)"
| "graph_children rels fuel (c # cs) depth k =
     (case graph_walk rels fuel c k of
        None \<Rightarrow> None
      | Some (Inl e, k') \<Rightarrow> Some (Inl e, k')
      | Some (Inr d, k') \<Rightarrow> graph_children rels fuel cs (if d + 1 > depth then d + 1 else depth) k')"

fun walk_all :: "relation list \<Rightarrow> nat \<Rightarrow> resource list \<Rightarrow> marks \<Rightarrow> error option option" where
  "walk_all rels fuel [] k = Some None"
| "walk_all rels fuel (r # rs) k = (case graph_walk rels fuel (rs_ID r) k of
     None \<Rightarrow> None
   | Some (Inl e, k') \<Rightarrow> Some (Some e)
   | Some (Inr depth, k') \<Rightarrow>
       if depth > maxGraphDepth then Some (Some (Errorf ''graph depth exceeds limit'' []))
       else walk_all rels fuel rs k')"

definition graph_fuel :: "relation list \<Rightarrow> nat" where
  "graph_fuel rels = length rels + 2"

definition validateGraph :: "resource list \<Rightarrow> relation list \<Rightarrow> error option" where
  "validateGraph resources relations =
     the (walk_all relations (graph_fuel relations) resources \<lparr>mk_state = [], mk_depths = []\<rparr>)"


section \<open>The walk decides bounded depth\<close>

definition graph_edges :: "relation list \<Rightarrow> (string \<times> string) set" where
  "graph_edges rels = (\<lambda>r. (rl_From r, rl_To r)) ` set rels"

lemma children_iff: "c \<in> set (children rels i) \<longleftrightarrow> (i, c) \<in> graph_edges rels"
  by (auto simp: children_def graph_edges_def)

text \<open>
  The invariant of the marks: a done ID has only done children, and its depth is the length of a longest
  path from it.
\<close>

definition marks_ok :: "relation list \<Rightarrow> marks \<Rightarrow> bool" where
  "marks_ok rels k \<longleftrightarrow> (\<forall>x. state_of k x = 2 \<longrightarrow>
     (\<forall>c\<in>set (children rels x). state_of k c = 2 \<and> depth_of k c + 1 \<le> depth_of k x) \<and>
     (depth_of k x = 0 \<or> (\<exists>c\<in>set (children rels x). depth_of k x = depth_of k c + 1)))"

text \<open>What a completed step leaves alone: the stack, and everything that was done.\<close>

definition extends :: "marks \<Rightarrow> marks \<Rightarrow> bool" where
  "extends k k' \<longleftrightarrow> (\<forall>x. state_of k' x = 1 \<longleftrightarrow> state_of k x = 1) \<and>
     (\<forall>x. state_of k x = 2 \<longrightarrow> state_of k' x = 2 \<and> depth_of k' x = depth_of k x)"

lemma extends_refl [simp]: "extends k k"
  by (simp add: extends_def)

lemma extends_trans: "extends k k' \<Longrightarrow> extends k' k'' \<Longrightarrow> extends k k''"
  by (auto simp: extends_def)

lemma state_of_update [simp]:
  "state_of (k\<lparr>mk_state := AList.update i n m\<rparr>) x = (if x = i then n else state_of (k\<lparr>mk_state := m\<rparr>) x)"
  by (simp add: state_of_def)

lemma depth_of_state [simp]: "depth_of (k\<lparr>mk_state := m\<rparr>) x = depth_of k x"
  by (simp add: depth_of_def)

definition enter :: "string \<Rightarrow> marks \<Rightarrow> marks" where
  "enter i k = k\<lparr>mk_state := AList.update i 1 (mk_state k)\<rparr>"

definition leave :: "string \<Rightarrow> nat \<Rightarrow> marks \<Rightarrow> marks" where
  "leave i d k = k\<lparr>mk_state := AList.update i 2 (mk_state k), mk_depths := AList.update i d (mk_depths k)\<rparr>"

lemma enter_marks [simp]: "state_of (enter i k) x = (if x = i then 1 else state_of k x)"
    "depth_of (enter i k) x = depth_of k x"
  by (simp_all add: enter_def state_of_def depth_of_def)

lemma leave_marks [simp]: "state_of (leave i d k) x = (if x = i then 2 else state_of k x)"
    "depth_of (leave i d k) x = (if x = i then d else depth_of k x)"
  by (simp_all add: leave_def state_of_def depth_of_def)

lemma graph_walk_Suc: "graph_walk rels (Suc fuel) i k =
     (if state_of k i = 1 then Some (Inl (Errorf ''graph cycle detected'' []), k)
      else if state_of k i = 2 then Some (Inr (depth_of k i), k)
      else (case graph_children rels fuel (children rels i) 0 (enter i k) of
          None \<Rightarrow> None
        | Some (Inl e, k') \<Rightarrow> Some (Inl e, k')
        | Some (Inr depth, k') \<Rightarrow> Some (Inr depth, leave i depth k')))"
  unfolding enter_def leave_def by (rule graph_walk.simps(2))

declare graph_walk.simps(2) [simp del]

lemma marks_ok_enter: "marks_ok rels k \<Longrightarrow> state_of k i \<noteq> 2 \<Longrightarrow> marks_ok rels (enter i k)"
  unfolding marks_ok_def by auto

lemma marks_ok_leave:
  assumes k: "marks_ok rels k" and i: "state_of k i = 1"
    and c: "\<forall>c\<in>set (children rels i). state_of k c = 2 \<and> depth_of k c + 1 \<le> d"
    and d: "d = 0 \<or> (\<exists>c\<in>set (children rels i). d = depth_of k c + 1)"
  shows "marks_ok rels (leave i d k)"
proof -
  have n: "c \<noteq> i" if "c \<in> set (children rels i)" for c using c i that by auto
  have m: "c \<noteq> i" if "state_of k x = 2" "c \<in> set (children rels x)" for x c
    using k i that by (auto simp: marks_ok_def)
  have "(\<forall>c\<in>set (children rels x). state_of (leave i d k) c = 2 \<and> depth_of (leave i d k) c + 1 \<le> depth_of (leave i d k) x) \<and>
     (depth_of (leave i d k) x = 0 \<or> (\<exists>c\<in>set (children rels x). depth_of (leave i d k) x = depth_of (leave i d k) c + 1))"
    if x: "state_of (leave i d k) x = 2" for x
  proof (cases "x = i")
    case True
    then show ?thesis using c d n by auto
  next
    case False
    then have "state_of k x = 2" using x by simp
    then show ?thesis using k m[OF \<open>state_of k x = 2\<close>] False unfolding marks_ok_def by fastforce
  qed
  then show ?thesis unfolding marks_ok_def by blast
qed

lemma graph_walk_ok:
  shows "graph_walk rels fuel i k = Some (Inr d, k') \<Longrightarrow> marks_ok rels k \<Longrightarrow>
      extends k k' \<and> marks_ok rels k' \<and> state_of k' i = 2 \<and> depth_of k' i = d"
    and "graph_children rels fuel cs depth k = Some (Inr d, k') \<Longrightarrow> marks_ok rels k \<Longrightarrow>
      extends k k' \<and> marks_ok rels k' \<and> depth \<le> d \<and>
      (\<forall>c\<in>set cs. state_of k' c = 2 \<and> depth_of k' c + 1 \<le> d) \<and>
      (d = depth \<or> (\<exists>c\<in>set cs. d = depth_of k' c + 1))"
proof (induction rels fuel i k and rels fuel cs depth k arbitrary: d k' and d k'
    rule: graph_walk_graph_children.induct)
  case (1 rels i k)
  then show ?case by simp
next
  case (2 rels fuel i k)
  consider "state_of k i = 2" | "state_of k i \<noteq> 1" "state_of k i \<noteq> 2"
    using "2.prems"(1) by (auto simp: graph_walk_Suc split: if_splits)
  then show ?case
  proof cases
    case 1
    then show ?thesis using "2.prems" by (auto simp: graph_walk_Suc)
  next
    case n: 2
    then obtain k1 where c: "graph_children rels fuel (children rels i) 0 (enter i k) = Some (Inr d, k1)"
      and k': "k' = leave i d k1"
      using "2.prems"(1) by (auto simp: graph_walk_Suc split: option.splits sum.splits)
    have IH: "extends (enter i k) k1 \<and> marks_ok rels k1 \<and> 0 \<le> d \<and>
      (\<forall>c\<in>set (children rels i). state_of k1 c = 2 \<and> depth_of k1 c + 1 \<le> d) \<and>
      (d = 0 \<or> (\<exists>c\<in>set (children rels i). d = depth_of k1 c + 1))"
      using "2.IH"[OF n c[unfolded enter_def] marks_ok_enter[OF "2.prems"(2) n(2), unfolded enter_def]]
      unfolding enter_def .
    then have "state_of k1 i = 1" by (auto simp: extends_def)
    with IH have "marks_ok rels (leave i d k1)" by (intro marks_ok_leave) auto
    moreover have "extends k (leave i d k1)" using IH n unfolding extends_def by auto
    ultimately show ?thesis using k' by simp
  qed
next
  case (3 rels fuel depth k)
  then show ?case by simp
next
  case (4 rels fuel c cs depth k)
  obtain d1 k1 where w: "graph_walk rels fuel c k = Some (Inr d1, k1)"
    and r: "graph_children rels fuel cs (if d1 + 1 > depth then d1 + 1 else depth) k1 = Some (Inr d, k')"
    using "4.prems"(1) by (auto split: option.splits sum.splits prod.splits)
  have A: "extends k k1 \<and> marks_ok rels k1 \<and> state_of k1 c = 2 \<and> depth_of k1 c = d1"
    using "4.IH"(1)[OF w "4.prems"(2)] .
  have B: "extends k1 k' \<and> marks_ok rels k' \<and> (if d1 + 1 > depth then d1 + 1 else depth) \<le> d \<and>
      (\<forall>c\<in>set cs. state_of k' c = 2 \<and> depth_of k' c + 1 \<le> d) \<and>
      (d = (if d1 + 1 > depth then d1 + 1 else depth) \<or> (\<exists>c\<in>set cs. d = depth_of k' c + 1))"
    using "4.IH"(2)[OF w refl refl r] A by blast
  have c: "state_of k' c = 2" "depth_of k' c = d1" using A B by (auto simp: extends_def)
  show ?case using A B c extends_trans[of k k1 k'] by (auto split: if_splits)
qed

text \<open>The IDs with outgoing relations that are not on the stack bound the recursion.\<close>

definition off_stack :: "relation list \<Rightarrow> marks \<Rightarrow> string set" where
  "off_stack rels k = {x \<in> rl_From ` set rels. state_of k x \<noteq> 1}"

lemma off_stack_extends: "extends k k' \<Longrightarrow> off_stack rels k' = off_stack rels k"
  by (auto simp: off_stack_def extends_def)

lemma off_stack_enter:
  assumes "state_of k i \<noteq> 1" and "children rels i \<noteq> []"
  shows "card (off_stack rels (enter i k)) < card (off_stack rels k)"
proof (rule psubset_card_mono)
  show "finite (off_stack rels k)" by (simp add: off_stack_def)
  have "i \<in> off_stack rels k" using assms by (auto simp: off_stack_def children_def filter_empty_conv)
  moreover have "off_stack rels (enter i k) \<subseteq> off_stack rels k - {i}" by (auto simp: off_stack_def split: if_splits)
  ultimately show "off_stack rels (enter i k) \<subset> off_stack rels k" by blast
qed

lemma graph_walk_enough:
  shows "card (off_stack rels k) < fuel \<Longrightarrow> marks_ok rels k \<Longrightarrow> graph_walk rels fuel i k \<noteq> None"
    and "card (off_stack rels k) < fuel \<or> cs = [] \<Longrightarrow> marks_ok rels k \<Longrightarrow>
      graph_children rels fuel cs depth k \<noteq> None"
proof (induction rels fuel i k and rels fuel cs depth k rule: graph_walk_graph_children.induct)
  case (2 rels fuel i k)
  show ?case
  proof (cases "state_of k i = 1 \<or> state_of k i = 2")
    case True
    then show ?thesis by (auto simp: graph_walk_Suc)
  next
    case n: False
    then have "card (off_stack rels (enter i k)) < fuel \<or> children rels i = []"
      using off_stack_enter[of k i rels] "2.prems"(1) by auto
    then have "graph_children rels fuel (children rels i) 0 (enter i k) \<noteq> None"
      using "2.IH" n marks_ok_enter[OF "2.prems"(2), of i] unfolding enter_def by blast
    then show ?thesis using n by (auto simp: graph_walk_Suc split: sum.splits prod.splits)
  qed
next
  case (4 rels fuel c cs depth k)
  then have f: "card (off_stack rels k) < fuel" by simp
  then obtain r k1 where w: "graph_walk rels fuel c k = Some (r, k1)" using 4 by fastforce
  show ?case
  proof (cases r)
    case (Inl e)
    then show ?thesis using w by simp
  next
    case (Inr d)
    note ok = graph_walk_ok(1)[OF w[unfolded Inr] "4.prems"(2)]
    then have "card (off_stack rels k1) < fuel" using f off_stack_extends[of k k1 rels] by simp
    then show ?thesis using "4.IH"(2)[OF w refl Inr] ok w Inr by simp
  qed
qed auto

text \<open>An error is a cycle that the walk can reach.\<close>

lemma graph_walk_cycle:
  shows "graph_walk rels fuel i k = Some (Inl e, k') \<Longrightarrow> marks_ok rels k \<Longrightarrow>
      (\<forall>x. state_of k x = 1 \<longrightarrow> (x, i) \<in> (graph_edges rels)\<^sup>+) \<Longrightarrow>
      \<exists>y. (i, y) \<in> (graph_edges rels)\<^sup>* \<and> (y, y) \<in> (graph_edges rels)\<^sup>+"
    and "graph_children rels fuel cs depth k = Some (Inl e, k') \<Longrightarrow> marks_ok rels k \<Longrightarrow>
      (\<forall>c\<in>set cs. \<forall>x. state_of k x = 1 \<longrightarrow> (x, c) \<in> (graph_edges rels)\<^sup>+) \<Longrightarrow>
      \<exists>c\<in>set cs. \<exists>y. (c, y) \<in> (graph_edges rels)\<^sup>* \<and> (y, y) \<in> (graph_edges rels)\<^sup>+"
proof (induction rels fuel i k and rels fuel cs depth k arbitrary: k' and k'
    rule: graph_walk_graph_children.induct)
  case (2 rels fuel i k)
  show ?case
  proof (cases "state_of k i = 1")
    case True
    then show ?thesis using "2.prems"(3) by blast
  next
    case n: False
    then have n2: "state_of k i \<noteq> 2" and
      c: "graph_children rels fuel (children rels i) 0 (enter i k) = Some (Inl e, k')"
      using "2.prems"(1) by (auto simp: graph_walk_Suc split: if_splits option.splits sum.splits prod.splits)
    have "\<forall>c\<in>set (children rels i). \<forall>x. state_of (enter i k) x = 1 \<longrightarrow> (x, c) \<in> (graph_edges rels)\<^sup>+"
      using "2.prems"(3) by (auto simp: children_iff intro: trancl_into_trancl)
    with "2.IH"[OF n n2] c marks_ok_enter[OF "2.prems"(2) n2]
    obtain x y where "x \<in> set (children rels i)" "(x, y) \<in> (graph_edges rels)\<^sup>*" "(y, y) \<in> (graph_edges rels)\<^sup>+"
      unfolding enter_def by blast
    then show ?thesis by (metis children_iff converse_rtrancl_into_rtrancl)
  qed
next
  case (4 rels fuel c cs depth k)
  show ?case
  proof (cases "\<exists>k1. graph_walk rels fuel c k = Some (Inl e, k1)")
    case True
    then show ?thesis using "4.IH"(1) "4.prems" by fastforce
  next
    case False
    then obtain d k1 where w: "graph_walk rels fuel c k = Some (Inr d, k1)"
      and r: "graph_children rels fuel cs (if d + 1 > depth then d + 1 else depth) k1 = Some (Inl e, k')"
      using "4.prems"(1) by (auto split: option.splits sum.splits prod.splits)
    note ok = graph_walk_ok(1)[OF w "4.prems"(2)]
    have "\<forall>c\<in>set cs. \<forall>x. state_of k1 x = 1 \<longrightarrow> (x, c) \<in> (graph_edges rels)\<^sup>+"
      using ok "4.prems"(3) by (auto simp: extends_def)
    with "4.IH"(2)[OF w refl refl r] ok show ?thesis by auto
  qed
qed auto

lemma marks_path_bound:
  "marks_ok rels k \<Longrightarrow> state_of k x = 2 \<Longrightarrow> (x, y) \<in> graph_edges rels ^^ n \<Longrightarrow> n \<le> depth_of k x"
proof (induction n arbitrary: x)
  case (Suc n)
  then obtain c where c: "(x, c) \<in> graph_edges rels" "(c, y) \<in> graph_edges rels ^^ n"
    by (metis relpow_Suc_D2)
  then have "state_of k c = 2" "depth_of k c + 1 \<le> depth_of k x"
    using Suc.prems by (auto simp: marks_ok_def children_iff)
  then show ?case using Suc.IH[of c] Suc.prems(1) c(2) by simp
qed simp

lemma marks_path_exists:
  "marks_ok rels k \<Longrightarrow> state_of k x = 2 \<Longrightarrow> \<exists>y. (x, y) \<in> graph_edges rels ^^ depth_of k x"
proof (induction "depth_of k x" arbitrary: x)
  case 0
  then show ?case by (metis relpow_0_I)
next
  case (Suc n)
  then obtain c where c: "c \<in> set (children rels x)" "depth_of k x = depth_of k c + 1" "state_of k c = 2"
    unfolding marks_ok_def by (metis nat.distinct(1))
  then have "n = depth_of k c" using Suc.hyps(2) by simp
  then obtain y where "(c, y) \<in> graph_edges rels ^^ depth_of k c" using Suc c by blast
  then show ?case using c by (metis Suc_eq_plus1 children_iff relpow_Suc_I2)
qed

lemma cycle_long_path:
  assumes "(x, y) \<in> E\<^sup>*" and "(y, y) \<in> E\<^sup>+"
  shows "\<exists>m z. n < m \<and> (x, z) \<in> E ^^ m"
proof -
  obtain j where j: "(x, y) \<in> E ^^ j" using assms(1) by (auto simp: rtrancl_power)
  obtain l where l: "l > 0" "(y, y) \<in> E ^^ l" using assms(2) by (auto simp: trancl_power)
  have "(y, y) \<in> E ^^ (l * q)" for q
  proof (induction q)
    case (Suc q)
    then have "(y, y) \<in> E ^^ (l + l * q)" using l by (auto simp: relpow_add)
    then show ?case by simp
  qed simp
  then have "(x, y) \<in> E ^^ (j + l * Suc n)"
    using j unfolding relpow_add by (rule relcompI[rotated])
  moreover have "n < j + l * Suc n" using l(1) by (cases l) auto
  ultimately show ?thesis by blast
qed

definition shallow :: "relation list \<Rightarrow> resource \<Rightarrow> bool" where
  "shallow rels r \<longleftrightarrow> (\<forall>n y. (rs_ID r, y) \<in> graph_edges rels ^^ n \<longrightarrow> n \<le> maxGraphDepth)"

lemma walk_all_exact:
  assumes "marks_ok rels k" and "\<forall>x. state_of k x \<noteq> 1" and "card (rl_From ` set rels) < fuel"
  shows "\<exists>r. walk_all rels fuel rs k = Some r \<and> (r = None \<longleftrightarrow> (\<forall>x\<in>set rs. shallow rels x))"
  using assms
proof (induction rs arbitrary: k)
  case (Cons x rs)
  let ?i = "rs_ID x"
  have "card (off_stack rels k) \<le> card (rl_From ` set rels)"
    by (rule card_mono) (auto simp: off_stack_def)
  then have "graph_walk rels fuel ?i k \<noteq> None" using graph_walk_enough(1) Cons.prems by fastforce
  then obtain r k1 where w: "graph_walk rels fuel ?i k = Some (r, k1)" by auto
  show ?case
  proof (cases r)
    case (Inl e)
    have "\<not> shallow rels x"
      using graph_walk_cycle(1)[OF w[unfolded Inl] Cons.prems(1)] Cons.prems(2) cycle_long_path
      unfolding shallow_def by (metis leD)
    then show ?thesis using w Inl by auto
  next
    case (Inr d)
    have ok: "extends k k1" "marks_ok rels k1" "state_of k1 ?i = 2" "depth_of k1 ?i = d"
      using graph_walk_ok(1)[OF w[unfolded Inr] Cons.prems(1)] by auto
    have "shallow rels x \<longleftrightarrow> d \<le> maxGraphDepth"
      using marks_path_bound[OF ok(2,3)] marks_path_exists[OF ok(2,3)] ok(4)
      unfolding shallow_def by (metis le_trans)
    moreover have "\<forall>x. state_of k1 x \<noteq> 1" using ok(1) Cons.prems(2) by (simp add: extends_def)
    ultimately show ?thesis using Cons.IH[OF ok(2) _ Cons.prems(3)] w Inr by auto
  qed
qed simp

lemma validateGraph_iff: "validateGraph rs rels = None \<longleftrightarrow> (\<forall>x\<in>set rs. shallow rels x)"
proof -
  have "card (rl_From ` set rels) \<le> length rels"
    using card_image_le[of "set rels" rl_From] card_length[of rels] by simp
  then have "card (rl_From ` set rels) < graph_fuel rels" by (simp add: graph_fuel_def)
  from walk_all_exact[OF _ _ this, of "\<lparr>mk_state = [], mk_depths = []\<rparr>" rs]
  show ?thesis by (auto simp: validateGraph_def marks_ok_def state_of_def)
qed

text \<open>
  C28. \<open>validateGraph\<close> decides exactly whether the resource graph is shallow: it accepts if and only if no
  path that starts at a resource, along the relations, has more than \<open>maxGraphDepth\<close> edges. In particular
  an accepted graph has no cycle that a resource can reach. The memoised walk always finishes: the number
  of relations bounds its recursion.
\<close>

theorem graph_validation_exact:
  "(validateGraph rs rels = None \<longleftrightarrow>
     (\<forall>r\<in>set rs. \<forall>n y. (rs_ID r, y) \<in> graph_edges rels ^^ n \<longrightarrow> n \<le> maxGraphDepth)) \<and>
   (validateGraph rs rels = None \<longrightarrow>
     (\<forall>r\<in>set rs. \<forall>y. (rs_ID r, y) \<in> (graph_edges rels)\<^sup>* \<longrightarrow> (y, y) \<notin> (graph_edges rels)\<^sup>+)) \<and>
   walk_all rels (graph_fuel rels) rs \<lparr>mk_state = [], mk_depths = []\<rparr> \<noteq> None"
proof (intro conjI)
  show *: "validateGraph rs rels = None \<longleftrightarrow>
     (\<forall>r\<in>set rs. \<forall>n y. (rs_ID r, y) \<in> graph_edges rels ^^ n \<longrightarrow> n \<le> maxGraphDepth)"
    unfolding validateGraph_iff shallow_def ..
  show "validateGraph rs rels = None \<longrightarrow>
     (\<forall>r\<in>set rs. \<forall>y. (rs_ID r, y) \<in> (graph_edges rels)\<^sup>* \<longrightarrow> (y, y) \<notin> (graph_edges rels)\<^sup>+)"
    unfolding * by (metis cycle_long_path leD)
  have "card (rl_From ` set rels) \<le> length rels"
    using card_image_le[of "set rels" rl_From] card_length[of rels] by simp
  then have "card (rl_From ` set rels) < graph_fuel rels" by (simp add: graph_fuel_def)
  from walk_all_exact[OF _ _ this, of "\<lparr>mk_state = [], mk_depths = []\<rparr>" rs]
  show "walk_all rels (graph_fuel rels) rs \<lparr>mk_state = [], mk_depths = []\<rparr> \<noteq> None"
    by (auto simp: marks_ok_def state_of_def)
qed

definition demo_resource :: "string \<Rightarrow> resource" where
  "demo_resource i = \<lparr>rs_Details = [], rs_Health = HealthHealthy, rs_ID = i, rs_Kind = ''disk'', rs_Name = i,
     rs_Path = [], rs_SizeBytes = 0, rs_State = ''available''\<rparr>"

theorem graph_validation_exact_witness:
  "validateGraph [demo_resource ''a''] [\<lparr>rl_From = ''a'', rl_Kind = ''contains'', rl_To = ''b''\<rparr>] = None \<and>
   (''a'', ''a'') \<notin> (graph_edges [\<lparr>rl_From = ''a'', rl_Kind = ''contains'', rl_To = ''b''\<rparr>])\<^sup>+"
proof -
  let ?r = "[\<lparr>rl_From = ''a'', rl_Kind = ''contains'', rl_To = ''b''\<rparr>]"
  have v: "validateGraph [demo_resource ''a''] ?r = None"
    by (simp add: validateGraph_def graph_fuel_def demo_resource_def graph_walk_Suc state_of_def depth_of_def children_def
        enter_def leave_def maxGraphDepth_def eval_nat_numeral)
  have "(''a'', ''a'') \<in> (graph_edges ?r)\<^sup>*" by simp
  with graph_validation_exact[of "[demo_resource ''a'']" ?r] v have "(''a'', ''a'') \<notin> (graph_edges ?r)\<^sup>+"
    by (simp add: demo_resource_def)
  with v show ?thesis by blast
qed

end
