(* ===== verification/Storage_Normalize.thy ===== *)
theory Storage_Normalize
  imports Storage_Snapshot Text
begin

text \<open>
  From adapter results to a bounded, closed and sorted snapshot (\<open>normalize.go\<close>), and the collection
  round of \<open>SystemManager\<close> (\<open>manager.go\<close>) with the results in the order in which they arrived.
\<close>

section \<open>Validation and order\<close>

definition agg_validate :: "aggregate \<Rightarrow> error option" where
  "agg_validate a =
     (let has = (\<lambda>i. map_of (ag_resources a) i \<noteq> None) in
      case List.find (\<lambda>f. fd_ResourceID f \<noteq> [] \<and> \<not> has (fd_ResourceID f)) (ag_findings a) of
        Some f \<Rightarrow> Some (Errorf ''finding has missing resource %q'' [fd_ResourceID f])
      | None \<Rightarrow>
        (case List.find (\<lambda>r. \<not> has (rl_From r) \<or> \<not> has (rl_To r)) (map snd (ag_relations a)) of
           Some r \<Rightarrow> Some (Errorf ''relation has missing endpoint %q''
             [if \<not> has (rl_From r) then rl_From r else rl_To r])
         | None \<Rightarrow> validateGraph (map snd (ag_resources a)) (map snd (ag_relations a))))"

definition sortSnapshot :: "snapshot \<Rightarrow> snapshot" where
  "sortSnapshot s = s\<lparr>
     sn_Resources := sort_key (\<lambda>r. (rs_Kind r, rs_Name r, rs_ID r)) (sn_Resources s),
     sn_Relations := sort_key (\<lambda>r. (rl_From r, rl_Kind r, rl_To r)) (sn_Relations s),
     sn_Mounts := sort_key (\<lambda>m. (mt_Target m, mt_Source m, mt_ID m)) (sn_Mounts s),
     sn_Findings := sort_key (\<lambda>f. (3 - healthRank (fd_Severity f), fd_ResourceID f, fd_Title f)) (sn_Findings s),
     sn_Backends := sort_key bs_Name (sn_Backends s)\<rparr>"

section \<open>Summary\<close>

definition empty_summary :: summary where
  "empty_summary = \<lparr>sm_ActiveMounts = 0, sm_FreeBytes = 0, sm_HighestHealth = HealthHealthy,
     sm_UnavailableBackends = 0, sm_UnhealthyResources = 0, sm_UsableBytes = 0, sm_UsedBytes = 0\<rparr>"

definition summarize_resource :: "resource \<Rightarrow> summary \<Rightarrow> summary" where
  "summarize_resource r s =
     s\<lparr>sm_UnhealthyResources := sm_UnhealthyResources s +
         (if healthRank (rs_Health r) \<ge> healthRank HealthWarning then 1 else 0),
       sm_HighestHealth := higherHealth (sm_HighestHealth s) (rs_Health r)\<rparr>"

definition summarize_mount :: "mount \<Rightarrow> string list \<times> summary \<Rightarrow> string list \<times> summary" where
  "summarize_mount m = (\<lambda>(capacity, s).
     let s = (if mt_State m = ''mounted'' then s\<lparr>sm_ActiveMounts := sm_ActiveMounts s + 1\<rparr> else s);
         counted = (mt_Filesystem m \<noteq> ''overlay'' \<and> mt_ResourceID m \<noteq> [] \<and>
           \<not> List.member capacity (mt_ResourceID m));
         s = (if counted then s\<lparr>sm_UsableBytes := sm_UsableBytes s + mt_TotalBytes m,
                sm_UsedBytes := sm_UsedBytes s + mt_UsedBytes m,
                sm_FreeBytes := sm_FreeBytes s + mt_AvailableBytes m\<rparr> else s)
     in (if counted then mt_ResourceID m # capacity else capacity,
         s\<lparr>sm_HighestHealth := higherHealth (sm_HighestHealth s) (mt_Health m)\<rparr>))"

definition summarize_finding :: "finding \<Rightarrow> summary \<Rightarrow> summary" where
  "summarize_finding f s = s\<lparr>sm_HighestHealth := higherHealth (sm_HighestHealth s) (fd_Severity f)\<rparr>"

definition summarize_backend :: "backend_status \<Rightarrow> summary \<Rightarrow> summary" where
  "summarize_backend b s = (if bs_Availability b \<noteq> BackendAvailable
     then s\<lparr>sm_UnavailableBackends := sm_UnavailableBackends s + 1\<rparr> else s)"

definition summary_of :: "snapshot \<Rightarrow> summary" where
  "summary_of s =
     (let s1 = fold summarize_resource (sn_Resources s) empty_summary;
          s2 = snd (fold summarize_mount (sn_Mounts s) ([], s1));
          s3 = fold summarize_finding (sn_Findings s) s2
      in fold summarize_backend (sn_Backends s) s3)"

definition recalculateSummary :: "snapshot \<Rightarrow> snapshot" where
  "recalculateSummary s = s\<lparr>sn_Summary := summary_of s\<rparr>"

section \<open>The size limit\<close>

definition sanitizeSnapshotReferences :: "snapshot \<Rightarrow> resource list \<Rightarrow> snapshot result" where
  "sanitizeSnapshotReferences s removed =
     (let removedIDs = map rs_ID removed;
          gone = List.member removedIDs;
          s' = s\<lparr>sn_Relations := filter (\<lambda>r. \<not> gone (rl_From r) \<and> \<not> gone (rl_To r)) (sn_Relations s),
                sn_Mounts := map (\<lambda>m. if gone (mt_ResourceID m) then m\<lparr>mt_ResourceID := []\<rparr> else m) (sn_Mounts s),
                sn_Findings := filter (\<lambda>f. \<not> gone (fd_ResourceID f)) (sn_Findings s)\<rparr>
      in case List.find (\<lambda>f. gone (fd_ResourceID f)) (sn_Findings s') of
           Some f \<Rightarrow> Inl (Errorf ''finding has removed resource %q'' [fd_ResourceID f])
         | None \<Rightarrow> Inr s')"

text \<open>One round of halving: the first list that is not empty loses its second half.\<close>

definition halve :: "snapshot \<Rightarrow> snapshot result" where
  "halve s0 =
     (let s = s0\<lparr>sn_Truncated := True\<rparr> in
      map_sum id (\<lambda>s'. s'\<lparr>sn_Backends := map (\<lambda>b. b\<lparr>bs_Availability := BackendTruncated\<rparr>) (sn_Backends s')\<rparr>)
       (if sn_Resources s \<noteq> [] then
          (let n = length (sn_Resources s) div 2 in
           sanitizeSnapshotReferences (s\<lparr>sn_Resources := take n (sn_Resources s)\<rparr>) (drop n (sn_Resources s)))
        else if sn_Findings s \<noteq> [] then
          Inr (s\<lparr>sn_Findings := take (length (sn_Findings s) div 2) (sn_Findings s)\<rparr>)
        else if sn_Mounts s \<noteq> [] then
          Inr (s\<lparr>sn_Mounts := take (length (sn_Mounts s) div 2) (sn_Mounts s)\<rparr>)
        else if sn_Relations s \<noteq> [] then
          Inr (s\<lparr>sn_Relations := take (length (sn_Relations s) div 2) (sn_Relations s)\<rparr>)
        else Inl (Errorf ''snapshot metadata exceeds limit'' [])))"

definition snapshot_size :: "snapshot \<Rightarrow> nat" where
  "snapshot_size s = length (sn_Resources s) + length (sn_Findings s) + length (sn_Mounts s) + length (sn_Relations s)"

lemma sanitize_ok:
  "sanitizeSnapshotReferences s removed = Inr s' \<Longrightarrow>
     sn_Resources s' = sn_Resources s \<and> sn_Backends s' = sn_Backends s \<and>
     sn_Relations s' = filter (\<lambda>r. rl_From r \<notin> rs_ID ` set removed \<and> rl_To r \<notin> rs_ID ` set removed) (sn_Relations s) \<and>
     length (sn_Mounts s') = length (sn_Mounts s) \<and> length (sn_Findings s') \<le> length (sn_Findings s)"
  by (auto simp: sanitizeSnapshotReferences_def Let_def split: option.splits)

lemma half_less: "xs \<noteq> [] \<Longrightarrow> length xs div 2 < length xs"
  by (cases xs) auto

lemma halve_smaller: "halve s = Inr s' \<Longrightarrow> snapshot_size s' < snapshot_size s"
proof -
  assume h: "halve s = Inr s'"
  consider "sn_Resources s \<noteq> []" | "sn_Resources s = []" "sn_Findings s \<noteq> []"
    | "sn_Resources s = []" "sn_Findings s = []" "sn_Mounts s \<noteq> []"
    | "sn_Resources s = []" "sn_Findings s = []" "sn_Mounts s = []" "sn_Relations s \<noteq> []"
    using h by (auto simp: halve_def Let_def split: if_splits)
  then show ?thesis
  proof cases
    case 1
    let ?n = "length (sn_Resources s) div 2"
    obtain t where t: "sanitizeSnapshotReferences (s\<lparr>sn_Truncated := True, sn_Resources := take ?n (sn_Resources s)\<rparr>)
        (drop ?n (sn_Resources s)) = Inr t"
      and s': "s' = t\<lparr>sn_Backends := map (\<lambda>b. b\<lparr>bs_Availability := BackendTruncated\<rparr>) (sn_Backends t)\<rparr>"
      using h 1 by (auto simp: halve_def Let_def)
    have "length (sn_Resources t) < length (sn_Resources s)"
      using sanitize_ok[OF t] half_less[OF 1] by simp
    moreover have "length (sn_Relations t) \<le> length (sn_Relations s)" using sanitize_ok[OF t] by simp
    moreover have "length (sn_Mounts t) = length (sn_Mounts s)" "length (sn_Findings t) \<le> length (sn_Findings s)"
      using sanitize_ok[OF t] by simp_all
    ultimately show ?thesis by (simp add: snapshot_size_def s')
  qed (use h in \<open>auto simp: halve_def Let_def snapshot_size_def min_def dest!: half_less\<close>)
qed

function enforce_loop :: "(snapshot \<Rightarrow> nat result) \<Rightarrow> snapshot \<Rightarrow> snapshot result" where
  "enforce_loop enc s = (case enc s of
     Inl e \<Rightarrow> Inl (Wrapf ''serialize snapshot: %w'' [] e)
   | Inr n \<Rightarrow> if n \<le> maxSnapshotBytes then Inr s
       else (case halve s of Inl e \<Rightarrow> Inl e | Inr s' \<Rightarrow> enforce_loop enc s'))"
  by pat_completeness auto
termination by (relation "measure (\<lambda>(enc, s). snapshot_size s)") (auto dest: halve_smaller)

declare enforce_loop.simps [simp del]

definition enforceSnapshotLimit :: "(snapshot \<Rightarrow> nat result) \<Rightarrow> snapshot \<Rightarrow> snapshot result" where
  "enforceSnapshotLimit enc s = (case enforce_loop enc s of Inl e \<Rightarrow> Inl e
     | Inr s' \<Rightarrow> (case validateGraph (sn_Resources s') (sn_Relations s') of
         Some e \<Rightarrow> Inl e | None \<Rightarrow> Inr s'))"

section \<open>Normalization\<close>

definition backend_for :: "int \<Rightarrow> collected_result \<Rightarrow> backend_status" where
  "backend_for collectedAt c = \<lparr>bs_Availability = availabilityFor (cr_err c), bs_CollectedAt = collectedAt,
     bs_Name = cr_name c\<rparr>"

fun apply_core :: "collected_result list \<Rightarrow> aggregate \<Rightarrow> aggregate result" where
  "apply_core [] a = Inr a"
| "apply_core (c # cs) a =
     (if cr_core c \<and> cr_err c = None then
        (case agg_apply (cr_name c) (cr_result c) False a of Inl e \<Rightarrow> Inl e | Inr a' \<Rightarrow> apply_core cs a')
      else apply_core cs a)"

fun apply_enriched :: "(collected_result \<times> backend_status) list \<Rightarrow> aggregate \<Rightarrow> backend_status list \<times> aggregate" where
  "apply_enriched [] a = ([], a)"
| "apply_enriched ((c, b) # cs) a =
     (if cr_core c then (let (bs, a') = apply_enriched cs a in (b # bs, a'))
      else (case agg_apply (cr_name c) (cr_result c) True a of
          Inl _ \<Rightarrow> (let (bs, a') = apply_enriched cs a in (b\<lparr>bs_Availability := BackendUnavailable\<rparr> # bs, a'))
        | Inr candidate \<Rightarrow>
            if agg_validate candidate \<noteq> None
            then (let (bs, a') = apply_enriched cs a in (b\<lparr>bs_Availability := BackendUnavailable\<rparr> # bs, a'))
            else (let (bs, a') = apply_enriched cs candidate in (b # bs, a'))))"

definition appendFinding :: "string \<Rightarrow> finding \<Rightarrow> finding list \<times> (string, bool) gomap \<Rightarrow> finding list \<times> (string, bool) gomap" where
  "appendFinding backend f = (\<lambda>(findings, truncated).
     if length findings = maxFindings then (findings, AList.update backend True truncated)
     else (findings @ [f], truncated))"

definition at_least :: "rat option \<Rightarrow> rat \<Rightarrow> bool" where
  "at_least p x \<longleftrightarrow> (case p of None \<Rightarrow> False | Some v \<Rightarrow> v \<ge> x)"

definition mount_finding :: "mount \<Rightarrow> health \<Rightarrow> string \<Rightarrow> finding" where
  "mount_finding m severity title = \<lparr>fd_Detail = mt_Target m, fd_ResourceID = mt_ResourceID m,
     fd_Severity = severity, fd_Title = title\<rparr>"

definition assess_mount ::
    "mount \<Rightarrow> finding list \<times> (string, bool) gomap \<Rightarrow> mount \<times> finding list \<times> (string, bool) gomap" where
  "assess_mount m ft =
     (if isExpectedImmutableMount m then (m, ft)
      else
        (let (m1, ft1) =
           (if at_least (mt_UsedPercent m) 90
            then (m\<lparr>mt_Health := HealthCritical\<rparr>,
              appendFinding [] (mount_finding m HealthCritical ''Mount capacity is critical'') ft)
            else if at_least (mt_UsedPercent m) 80
            then (m\<lparr>mt_Health := HealthWarning\<rparr>,
              appendFinding [] (mount_finding m HealthWarning ''Mount capacity is high'') ft)
            else (m, ft))
         in if mt_ReadOnly m1 \<and> \<not> mt_Managed m1 then
              (if healthRank (mt_Health m1) < healthRank HealthWarning then m1\<lparr>mt_Health := HealthWarning\<rparr> else m1,
               appendFinding [] (mount_finding m1 HealthWarning ''Mount is read-only'') ft1)
            else (m1, ft1)))"

fun assess_mounts ::
    "mount list \<Rightarrow> finding list \<times> (string, bool) gomap \<Rightarrow> mount list \<times> finding list \<times> (string, bool) gomap" where
  "assess_mounts [] ft = ([], ft)"
| "assess_mounts (m # ms) ft =
     (let (m', ft') = assess_mount m ft; (ms', ft'') = assess_mounts ms ft' in (m' # ms', ft''))"

definition build_snapshot :: "int \<Rightarrow> backend_status list \<Rightarrow> aggregate \<Rightarrow> snapshot" where
  "build_snapshot collectedAt statuses a =
     (let (mounts, findings, truncated) = assess_mounts (ag_mounts a) (ag_findings a, ag_truncated a) in
      \<lparr>sn_Backends = map (\<lambda>b. if flagged truncated (bs_Name b) then b\<lparr>bs_Availability := BackendTruncated\<rparr> else b) statuses,
       sn_CollectedAt = collectedAt,
       sn_Findings = findings,
       sn_Mounts = mounts,
       sn_Relations = map snd (ag_relations a),
       sn_Resources = map snd (ag_resources a),
       sn_Summary = empty_summary\<lparr>sm_HighestHealth := []\<rparr>,
       sn_Truncated = (ag_truncated a \<noteq> [] \<or> list_ex (\<lambda>b. flagged truncated (bs_Name b)) statuses)\<rparr>)"

definition normalize :: "(snapshot \<Rightarrow> nat result) \<Rightarrow> int \<Rightarrow> collected_result list \<Rightarrow> snapshot result" where
  "normalize enc collectedAt results =
     (case apply_core results newAggregate of
        Inl e \<Rightarrow> Inl e
      | Inr state \<Rightarrow> (case agg_validate state of
          Some e \<Rightarrow> Inl e
        | None \<Rightarrow>
            (let (statuses, state') =
               apply_enriched (zip results (map (backend_for collectedAt) results)) state
             in case enforceSnapshotLimit enc (sortSnapshot (build_snapshot collectedAt statuses state')) of
                  Inl e \<Rightarrow> Inl e
                | Inr s \<Rightarrow> Inr (recalculateSummary s))))"


section \<open>The collection round\<close>

definition ErrBackendUnsupported :: error where
  "ErrBackendUnsupported = Sentinel ''storage backend unsupported''"

record inventory =
  iv_DevicePaths :: "string list"
  iv_Mounts :: "mount list"
  iv_Resources :: "resource list"

text \<open>\<open>lstat p\<close> is \<open>None\<close> on an error and otherwise says whether \<open>p\<close> is a symbolic link.\<close>

fun symlink_in :: "(string \<Rightarrow> bool option) \<Rightarrow> string \<Rightarrow> string list \<Rightarrow> bool" where
  "symlink_in lstat current [] = False"
| "symlink_in lstat current (c # cs) =
     (let next_path = path_join current c in
      if lstat next_path = Some False then symlink_in lstat next_path cs else True)"

definition hasSymlinkComponent :: "string \<Rightarrow> (string \<Rightarrow> bool option) \<Rightarrow> bool" where
  "hasSymlinkComponent path lstat =
     (if lstat ''/'' = Some False
      then symlink_in lstat ''/'' (split_on slash (if prefix ''/'' path then drop 1 path else path))
      else True)"

definition device_path :: "(string \<Rightarrow> bool option) \<Rightarrow> resource \<Rightarrow> bool" where
  "device_path lstat r \<longleftrightarrow>
     (rs_Kind r = ''disk'' \<or> rs_Kind r = ''partition'' \<or> rs_Kind r = ''raid'' \<or> rs_Kind r = ''mapping'') \<and>
     (let path = path_clean (rs_Path r) in
      rs_Path r = path \<and> is_abs path \<and> prefix ''/dev/'' path \<and> \<not> hasSymlinkComponent path lstat)"

definition inventoryFromSnapshot :: "snapshot \<Rightarrow> (string \<Rightarrow> bool option) \<Rightarrow> inventory" where
  "inventoryFromSnapshot s lstat = \<lparr>
     iv_DevicePaths = map (\<lambda>r. path_clean (rs_Path r)) (filter (device_path lstat) (sn_Resources s)),
     iv_Mounts = sn_Mounts s, iv_Resources = sn_Resources s\<rparr>"

text \<open>
  The receive loop: the results that arrived before the overall deadline, in that order, and then a timeout for
  every adapter whose name has not been seen.
\<close>

definition collect_adapters :: "(string \<times> bool) list \<Rightarrow> collected_result list \<Rightarrow> collected_result list" where
  "collect_adapters adapters arrived =
     (if length arrived < length adapters then
        arrived @ map (\<lambda>(name, core). \<lparr>cr_err = Some DeadlineExceeded, cr_name = name, cr_core = core,
            cr_result = empty_result\<rparr>)
          (filter (\<lambda>(name, core). \<not> List.member (map cr_name arrived) name) adapters)
      else arrived)"

definition enricherAvailability :: "string \<Rightarrow> collected_result list \<Rightarrow> availability" where
  "enricherAvailability name collected =
     (case List.find (\<lambda>c. cr_name c = name) collected of
        None \<Rightarrow> BackendUnavailable
      | Some c \<Rightarrow> (case cr_err c of
          None \<Rightarrow> BackendAvailable
        | Some e \<Rightarrow> if errors_is e ErrBackendUnsupported then BackendUnsupported
            else if errors_is e DeadlineExceeded then BackendTimedOut
            else BackendUnavailable))"

text \<open>
  \<open>collectEnricher\<close>: \<open>answer\<close> is what \<open>Collect\<close> returned, with the error replaced by the timeout when its own
  deadline passed; \<open>loaded\<close> and \<open>stored\<close> are the clock at the two uses of the cache.
\<close>

definition collectEnricher :: "bool \<Rightarrow> string \<Rightarrow> adapter_result \<times> error option \<Rightarrow> bool \<Rightarrow> int \<Rightarrow> int \<Rightarrow>
    health_cache \<Rightarrow> (adapter_result \<times> error option) \<times> health_cache" where
  "collectEnricher cacheable name answer timed_out loaded stored cache =
     (let answer = (if timed_out then (fst answer, Some DeadlineExceeded) else answer) in
      if \<not> cacheable then (answer, cache)
      else (case cache_Load loaded cache name of (cached, fresh, found) \<Rightarrow>
        if found \<and> fresh then ((cached, None), cache)
        else (case answer of
            (r, None) \<Rightarrow> ((r, None), cache_Store stored cache name r)
          | (r, Some e) \<Rightarrow> if found then ((markStale cached, Some e), cache) else ((empty_result, Some e), cache))))"

text \<open>
  \<open>State\<close>: \<open>answers i inv\<close> is what enricher \<open>i\<close> delivered for the inventory before the overall deadline, \<open>None\<close>
  when it was too late.
\<close>

definition enriched_result ::
    "(nat \<Rightarrow> inventory \<Rightarrow> (adapter_result \<times> error option) option) \<Rightarrow> inventory \<Rightarrow> nat \<times> string \<Rightarrow> collected_result" where
  "enriched_result answers iv = (\<lambda>(i, name). case answers i iv of
     None \<Rightarrow> \<lparr>cr_err = Some DeadlineExceeded, cr_name = name, cr_core = False, cr_result = empty_result\<rparr>
   | Some (r, err) \<Rightarrow> \<lparr>cr_err = err, cr_name = name, cr_core = False, cr_result = r\<rparr>)"

definition mark_backend :: "collected_result list \<Rightarrow> collected_result \<Rightarrow> snapshot \<Rightarrow> snapshot" where
  "mark_backend collected c s = (if cr_err c = None then s
     else s\<lparr>sn_Backends := map (\<lambda>b. if bs_Name b = cr_name c
       then b\<lparr>bs_Availability := enricherAvailability (cr_name c) collected\<rparr> else b) (sn_Backends s)\<rparr>)"

definition system_State :: "(snapshot \<Rightarrow> nat result) \<Rightarrow> int \<Rightarrow> int \<Rightarrow> (string \<Rightarrow> bool option) \<Rightarrow>
    (string \<times> bool) list \<Rightarrow> collected_result list \<Rightarrow> string list \<Rightarrow>
    (nat \<Rightarrow> inventory \<Rightarrow> (adapter_result \<times> error option) option) \<Rightarrow> snapshot result" where
  "system_State enc now1 now2 lstat adapters arrived enrichers answers =
     (let collected = collect_adapters adapters arrived in
      case List.find (\<lambda>c. cr_core c \<and> cr_err c \<noteq> None) collected of
        Some c \<Rightarrow> Inl (Wrapf ''core adapter %s: %w'' [cr_name c] (the (cr_err c)))
      | None \<Rightarrow> (case normalize enc now1 (filter cr_core collected) of
          Inl e \<Rightarrow> Inl e
        | Inr coreSnapshot \<Rightarrow>
            (let iv = inventoryFromSnapshot coreSnapshot lstat;
                 enriched = map (enriched_result answers iv) (enumerate 0 enrichers);
                 all_collected = collected @ enriched
             in case normalize enc now2 all_collected of
                  Inl e \<Rightarrow> Inl e
                | Inr s \<Rightarrow> Inr (fold (mark_backend all_collected) enriched s))))"

text \<open>A map of pointers by ID: of resources with the same ID the last one is updated.\<close>

definition merge_resource :: "resource \<Rightarrow> resource list \<Rightarrow> resource list" where
  "merge_resource enriched rs = (case List.find (\<lambda>i. rs_ID (rs ! i) = rs_ID enriched) (rev [0..<length rs]) of
     None \<Rightarrow> rs
   | Some i \<Rightarrow> rs[i := (rs ! i)\<lparr>rs_Details := mergeDetails (rs_Details (rs ! i)) (rs_Details enriched),
       rs_Health := higherHealth (rs_Health (rs ! i)) (rs_Health enriched)\<rparr>])"

definition mergeEnrichedResources :: "snapshot \<Rightarrow> adapter_result list \<Rightarrow> snapshot" where
  "mergeEnrichedResources s results = recalculateSummary (sortSnapshot
     (s\<lparr>sn_Resources := fold merge_resource (concat (map ar_Resources results)) (sn_Resources s)\<rparr>))"

text \<open>Only absolute, clean paths below \<open>/dev\<close> are handed to the enrichers.\<close>

lemma device_paths_safe:
  "p \<in> set (iv_DevicePaths (inventoryFromSnapshot s lstat)) \<Longrightarrow>
     prefix ''/dev/'' p \<and> path_clean p = p \<and> \<not> hasSymlinkComponent p lstat"
  by (auto simp: inventoryFromSnapshot_def device_path_def Let_def)

section \<open>Bounds and closure\<close>

text \<open>The aggregate's invariant: bounded tables keyed by the IDs of their values, bounded details.\<close>

definition agg_ok :: "aggregate \<Rightarrow> bool" where
  "agg_ok a \<longleftrightarrow> wf_map (ag_resources a) \<and> length (ag_resources a) \<le> maxResources \<and>
     length (ag_relations a) \<le> maxRelations \<and> length (ag_mounts a) \<le> maxMounts \<and>
     length (ag_findings a) \<le> maxFindings \<and>
     (\<forall>(i, r)\<in>set (ag_resources a). rs_ID r = i \<and> length (rs_Details r) \<le> maxDetails)"

lemma append_details_length:
  "length result \<le> limit \<Longrightarrow> length (append_details limit result ds) \<le> limit"
  by (induction limit result ds rule: append_details.induct) auto

lemma mergeDetails_length: "length (mergeDetails core enriched) \<le> maxDetails"
proof (cases "length core \<ge> maxDetails")
  case False
  let ?l = "if List.member enriched staleHealthDetail then maxDetails - 1 else maxDetails"
  have "length core \<le> ?l" using False by auto
  then have "length (append_details ?l core enriched) \<le> ?l" by (rule append_details_length)
  moreover have "?l \<le> maxDetails" by simp
  ultimately show ?thesis using False by (auto simp: mergeDetails_def Let_def)
qed (simp add: mergeDetails_def)

lemma mark_truncated_fields [simp]:
  "ag_resources (mark_truncated b a) = ag_resources a" "ag_relations (mark_truncated b a) = ag_relations a"
  "ag_mounts (mark_truncated b a) = ag_mounts a" "ag_findings (mark_truncated b a) = ag_findings a"
  "ag_dropped (mark_truncated b a) = ag_dropped a"
  by (simp_all add: mark_truncated_def)

lemma agg_ok_truncated [simp]: "agg_ok (mark_truncated b a) = agg_ok a"
  by (simp add: agg_ok_def)

lemma agg_ok_resource_update:
  assumes a: "agg_ok a" and l: "length (AList.update i r (ag_resources a)) \<le> maxResources"
    and r: "rs_ID r = i" "length (rs_Details r) \<le> maxDetails"
  shows "agg_ok (a\<lparr>ag_resources := AList.update i r (ag_resources a)\<rparr>)"
proof -
  have "rs_ID y = x \<and> length (rs_Details y) \<le> maxDetails" if "(x, y) \<in> set (AList.update i r (ag_resources a))" for x y
  proof -
    have "distinct (map fst (AList.update i r (ag_resources a)))" using a by (simp add: agg_ok_def)
    then have "map_of (AList.update i r (ag_resources a)) x = Some y" using that by (rule map_of_is_SomeI)
    then have "x = i \<and> y = r \<or> map_of (ag_resources a) x = Some y" by (auto split: if_splits)
    then show ?thesis using a r map_of_SomeD[of "ag_resources a" x y] by (auto simp: agg_ok_def)
  qed
  then show ?thesis using a l by (auto simp: agg_ok_def)
qed

lemma apply_resource_ok:
  assumes "agg_ok a" and "apply_resource b e r a = Inr a'"
  shows "agg_ok a'"
proof (cases "map_of (ag_resources a) (rs_ID r)")
  case None
  then have n: "length (AList.update (rs_ID r) x (ag_resources a)) = Suc (length (ag_resources a))" for x
    by (rule length_update_new)
  show ?thesis
  proof (cases "length (ag_resources a) = maxResources")
    case True
    then show ?thesis using assms None by (auto simp: apply_resource_def agg_ok_def)
  next
    case False
    then have "Suc (length (ag_resources a)) \<le> maxResources" using assms(1) by (simp add: agg_ok_def)
    then show ?thesis using assms None False n agg_ok_resource_update[of a "rs_ID r"]
        agg_ok_resource_update[of "mark_truncated b a" "rs_ID r"]
      by (auto simp: apply_resource_def Let_def)
  qed
next
  case (Some x)
  then have x: "rs_ID x = rs_ID r" using assms(1) map_of_SomeD[OF Some] by (auto simp: agg_ok_def)
  have "length (AList.update (rs_ID r) y (ag_resources a)) = length (ag_resources a)" for y
    using Some by (intro length_update_old) simp
  then show ?thesis using assms Some x agg_ok_resource_update[of a "rs_ID r"] mergeDetails_length
    by (auto simp: apply_resource_def Let_def agg_ok_def[of a] split: if_splits)
qed

lemma apply_resources_ok:
  "agg_ok a \<Longrightarrow> apply_resources b e rs a = Inr a' \<Longrightarrow> agg_ok a'"
proof (induction b e rs a rule: apply_resources.induct)
  case (2 b e r rs a)
  then obtain a1 where "apply_resource b e r a = Inr a1" "apply_resources b e rs a1 = Inr a'"
    by (auto split: sum.splits)
  with 2 apply_resource_ok show ?case by blast
qed simp

lemma apply_relation_ok: "agg_ok a \<Longrightarrow> agg_ok (apply_relation b r a)"
  using length_update_new[of "ag_relations a" "relationKey r" r]
  by (auto simp: apply_relation_def agg_ok_def)

lemma replace_mount_length: "replace_mount m xs = Some ys \<Longrightarrow> length ys = length xs"
  by (induction xs arbitrary: ys) (auto split: if_splits)

lemma apply_mount_ok: "agg_ok a \<Longrightarrow> agg_ok (apply_mount b e m a)"
  using replace_mount_length[of "undropped a m" "ag_mounts a"]
  by (auto simp: apply_mount_def agg_ok_def split: option.splits if_splits)

lemma apply_finding_ok: "agg_ok a \<Longrightarrow> agg_ok (apply_finding b f a)"
  by (auto simp: apply_finding_def agg_ok_def)

lemma fold_ok: "(\<And>x a. agg_ok a \<Longrightarrow> agg_ok (f x a)) \<Longrightarrow> agg_ok a \<Longrightarrow> agg_ok (fold f xs a)"
  by (induction xs arbitrary: a) auto

lemma agg_apply_ok:
  assumes "agg_ok a" and "agg_apply b r e a = Inr a'"
  shows "agg_ok a'"
proof -
  obtain a1 where a1: "apply_resources b e (ar_Resources r) (if ar_Truncated r then mark_truncated b a else a) = Inr a1"
    and a': "a' = fold (apply_finding b) (ar_Findings r) (fold (apply_mount b e) (ar_Mounts r)
      (fold (apply_relation b) (ar_Relations r) a1))"
    using assms(2) by (auto simp: agg_apply_def split: sum.splits)
  have "agg_ok a1" using apply_resources_ok[OF _ a1] assms(1) by simp
  then show ?thesis unfolding a' by (intro fold_ok apply_finding_ok apply_mount_ok apply_relation_ok)
qed

lemma apply_core_ok: "agg_ok a \<Longrightarrow> apply_core cs a = Inr a' \<Longrightarrow> agg_ok a'"
proof (induction cs a rule: apply_core.induct)
  case (2 c cs a)
  then show ?case by (auto split: if_splits sum.splits dest: agg_apply_ok)
qed simp

lemma apply_enriched_ok:
  "agg_ok a \<and> agg_validate a = None \<Longrightarrow> apply_enriched cs a = (bs, a') \<Longrightarrow> agg_ok a' \<and> agg_validate a' = None"
proof (induction cs a arbitrary: bs a' rule: apply_enriched.induct)
  case (2 c b cs a)
  obtain bs1 a1 where r: "apply_enriched cs a = (bs1, a1)" by (cases "apply_enriched cs a")
  show ?case
  proof (cases "cr_core c")
    case True
    then show ?thesis using "2.IH"(1)[OF True "2.prems"(1) r] "2.prems"(2) r by simp
  next
    case n: False
    show ?thesis
    proof (cases "agg_apply (cr_name c) (cr_result c) True a")
      case (Inl e)
      then show ?thesis using "2.IH"(2)[OF n Inl "2.prems"(1) r] "2.prems"(2) r n by simp
    next
      case (Inr x)
      show ?thesis
      proof (cases "agg_validate x = None")
        case False
        then show ?thesis using "2.IH"(3)[OF n Inr False "2.prems"(1) r] "2.prems"(2) r n Inr by simp
      next
        case True
        obtain bs2 a2 where r2: "apply_enriched cs x = (bs2, a2)" by (cases "apply_enriched cs x")
        have "agg_ok x \<and> agg_validate x = None" using agg_apply_ok[OF _ Inr] "2.prems"(1) True by simp
        then show ?thesis using "2.IH"(4)[OF n Inr _ _ r2] "2.prems"(2) r2 n Inr True by simp
      qed
    qed
  qed
qed simp

definition snapshot_ok :: "snapshot \<Rightarrow> bool" where
  "snapshot_ok s \<longleftrightarrow> length (sn_Resources s) \<le> maxResources \<and> length (sn_Relations s) \<le> maxRelations \<and>
     length (sn_Mounts s) \<le> maxMounts \<and> length (sn_Findings s) \<le> maxFindings \<and>
     (\<forall>r\<in>set (sn_Resources s). length (rs_Details r) \<le> maxDetails) \<and>
     (\<forall>r\<in>set (sn_Relations s). rl_From r \<in> rs_ID ` set (sn_Resources s) \<and> rl_To r \<in> rs_ID ` set (sn_Resources s))"

lemma agg_validate_endpoints:
  assumes a: "agg_ok a" and v: "agg_validate a = None" and r: "r \<in> set (map snd (ag_relations a))"
  shows "rl_From r \<in> rs_ID ` set (map snd (ag_resources a)) \<and> rl_To r \<in> rs_ID ` set (map snd (ag_resources a))"
proof -
  have "map_of (ag_resources a) (rl_From r) \<noteq> None \<and> map_of (ag_resources a) (rl_To r) \<noteq> None"
    using v r by (auto simp: agg_validate_def Let_def find_None_iff split: option.splits)
  moreover have "i \<in> rs_ID ` set (map snd (ag_resources a))" if i: "map_of (ag_resources a) i \<noteq> None" for i
  proof -
    obtain x where "map_of (ag_resources a) i = Some x" using i by blast
    then have x: "(i, x) \<in> set (ag_resources a)" by (rule map_of_SomeD)
    then have "rs_ID x = i" using a by (auto simp: agg_ok_def)
    then show ?thesis using x by force
  qed
  ultimately show ?thesis by blast
qed

lemma appendFinding_length:
  "length (fst ft) \<le> maxFindings \<Longrightarrow> length (fst (appendFinding b f ft)) \<le> maxFindings"
  by (cases ft) (auto simp: appendFinding_def)

lemma assess_mount_length:
  "length (fst ft) \<le> maxFindings \<Longrightarrow> length (fst (snd (assess_mount m ft))) \<le> maxFindings"
  by (auto simp: assess_mount_def Let_def appendFinding_length)

lemma assess_mounts_length:
  "assess_mounts ms ft = (ms', ft') \<Longrightarrow> length ms' = length ms \<and>
     (length (fst ft) \<le> maxFindings \<longrightarrow> length (fst ft') \<le> maxFindings)"
proof (induction ms ft arbitrary: ms' ft' rule: assess_mounts.induct)
  case (2 m ms ft)
  obtain m1 ft1 where m: "assess_mount m ft = (m1, ft1)" by (cases "assess_mount m ft")
  obtain ms2 ft2 where r: "assess_mounts ms ft1 = (ms2, ft2)" by (cases "assess_mounts ms ft1")
  show ?case using "2.IH"[OF m[symmetric] refl r] "2.prems" m r assess_mount_length[of ft m] by auto
qed simp

lemma build_snapshot_ok:
  assumes a: "agg_ok a" "agg_validate a = None"
  shows "snapshot_ok (build_snapshot t bs a)"
proof -
  obtain ms fs tr where m: "assess_mounts (ag_mounts a) (ag_findings a, ag_truncated a) = (ms, fs, tr)"
    by (cases "assess_mounts (ag_mounts a) (ag_findings a, ag_truncated a)") auto
  show ?thesis
    using a(1) assess_mounts_length[OF m] agg_validate_endpoints[OF a]
    by (auto simp: build_snapshot_def m snapshot_ok_def agg_ok_def)
qed

lemma sortSnapshot_ok: "snapshot_ok s \<Longrightarrow> snapshot_ok (sortSnapshot s)"
  by (simp add: snapshot_ok_def sortSnapshot_def)

lemma halve_ok:
  assumes ok: "snapshot_ok s" and h: "halve s = Inr s'"
  shows "snapshot_ok s'"
proof (cases "sn_Resources s = []")
  case False
  let ?n = "length (sn_Resources s) div 2"
  let ?rm = "drop ?n (sn_Resources s)"
  obtain u where u: "sanitizeSnapshotReferences (s\<lparr>sn_Truncated := True, sn_Resources := take ?n (sn_Resources s)\<rparr>) ?rm = Inr u"
    and s': "s' = u\<lparr>sn_Backends := map (\<lambda>b. b\<lparr>bs_Availability := BackendTruncated\<rparr>) (sn_Backends u)\<rparr>"
    using h False by (auto simp: halve_def Let_def)
  note z = sanitize_ok[OF u]
  have split: "set (sn_Resources s) = set (take ?n (sn_Resources s)) \<union> set ?rm"
    by (metis append_take_drop_id set_append)
  have "rl_From r \<in> rs_ID ` set (sn_Resources u) \<and> rl_To r \<in> rs_ID ` set (sn_Resources u)"
    if r: "r \<in> set (sn_Relations u)" for r
  proof -
    have "r \<in> set (sn_Relations s)" "rl_From r \<notin> rs_ID ` set ?rm" "rl_To r \<notin> rs_ID ` set ?rm"
      using r z by auto
    then show ?thesis using ok z split by (auto simp: snapshot_ok_def image_Un)
  qed
  moreover have "length (rs_Details r) \<le> maxDetails" if "r \<in> set (sn_Resources u)" for r
    using that ok z by (auto simp: snapshot_ok_def dest: in_set_takeD)
  moreover have "length (sn_Relations u) \<le> length (sn_Relations s)" using z by simp
  moreover have "length (sn_Mounts u) = length (sn_Mounts s)" "length (sn_Findings u) \<le> length (sn_Findings s)"
    "length (sn_Resources u) \<le> length (sn_Resources s)" using z by simp_all
  ultimately show ?thesis using ok unfolding snapshot_ok_def s' by auto
next
  case True
  then show ?thesis using ok h
    by (auto simp: halve_def Let_def snapshot_ok_def split: if_splits dest: in_set_takeD)
qed

lemma enforce_loop_ok:
  "snapshot_ok s \<Longrightarrow> enforce_loop enc s = Inr s' \<Longrightarrow>
     snapshot_ok s' \<and> (\<exists>n. enc s' = Inr n \<and> n \<le> maxSnapshotBytes)"
proof (induction enc s rule: enforce_loop.induct)
  case (1 enc s)
  show ?case
  proof (cases "\<exists>n. enc s = Inr n \<and> n \<le> maxSnapshotBytes")
    case True
    then show ?thesis using "1.prems" by (auto simp: enforce_loop.simps[of enc s])
  next
    case False
    then obtain n s1 where n: "enc s = Inr n" "\<not> n \<le> maxSnapshotBytes" and h: "halve s = Inr s1"
      and r: "enforce_loop enc s1 = Inr s'"
      using "1.prems"(2) by (auto simp: enforce_loop.simps[of enc s] split: sum.splits if_splits)
    show ?thesis using "1.IH"[OF n h halve_ok[OF "1.prems"(1) h] r] .
  qed
qed

text \<open>A stale answer of a failed enricher is never presented as fresh, and a success refreshes the cache.\<close>

lemma collectEnricher_cache:
  assumes "collectEnricher True name answer late t1 t2 cache = ((r, err), cache')"
  shows "err = None \<longrightarrow> (r, True, True) = cache_Load t1 cache name \<or>
      map_of cache' name = Some \<lparr>ch_collectedAt = t2, ch_result = r\<rparr>"
    and "err \<noteq> None \<longrightarrow> cache' = cache \<and> (r = empty_result \<or> (\<exists>c f. cache_Load t1 cache name = (c, f, True) \<and> r = markStale c))"
  using assms
  by (auto simp: collectEnricher_def Let_def cache_Store_def split: prod.splits if_splits option.splits)

section \<open>The summary hides no problem\<close>

lemma higherHealth_rank [simp]: "healthRank (higherHealth a b) = max (healthRank a) (healthRank b)"
  by (auto simp: higherHealth_def)

lemma fold_highest:
  assumes "\<And>x s. healthRank (sm_HighestHealth (f x s)) = max (healthRank (sm_HighestHealth s)) (g x)"
  shows "healthRank (sm_HighestHealth (fold f xs s)) = fold (\<lambda>x n. max n (g x)) xs (healthRank (sm_HighestHealth s))"
  by (induction xs arbitrary: s) (simp_all add: assms)

lemma fold_max_ge: "(n::nat) \<le> fold (\<lambda>x n. max n (g x)) xs n"
  by (induction xs arbitrary: n) (simp_all, meson max.cobounded1 order_trans)

lemma fold_max_elem: "x \<in> set xs \<Longrightarrow> g x \<le> fold (\<lambda>x n. max n (g x)) xs (n::nat)"
proof (induction xs arbitrary: n)
  case (Cons y ys)
  then show ?case using fold_max_ge[of "max n (g y)" g ys] by (cases "x = y") auto
qed simp

lemma fold_mounts_highest:
  "healthRank (sm_HighestHealth (snd (fold summarize_mount ms cs))) =
     fold (\<lambda>m n. max n (healthRank (mt_Health m))) ms (healthRank (sm_HighestHealth (snd cs)))"
  by (induction ms arbitrary: cs) (simp_all add: summarize_mount_def Let_def case_prod_beta)

lemma summary_highest:
  defines "top_rank s \<equiv> healthRank (sm_HighestHealth (summary_of s))"
  shows "r \<in> set (sn_Resources s) \<Longrightarrow> healthRank (rs_Health r) \<le> top_rank s"
    and "m \<in> set (sn_Mounts s) \<Longrightarrow> healthRank (mt_Health m) \<le> top_rank s"
    and "f \<in> set (sn_Findings s) \<Longrightarrow> healthRank (fd_Severity f) \<le> top_rank s"
proof -
  define a where "a = fold (\<lambda>r n. max n (healthRank (rs_Health r))) (sn_Resources s) (healthRank HealthHealthy)"
  define b where "b = fold (\<lambda>m n. max n (healthRank (mt_Health m))) (sn_Mounts s) a"
  define c where "c = fold (\<lambda>f n. max n (healthRank (fd_Severity f))) (sn_Findings s) b"
  have bk: "sm_HighestHealth (fold summarize_backend bs x) = sm_HighestHealth x" for bs x
    by (induction bs arbitrary: x) (simp_all add: summarize_backend_def)
  have "top_rank s = c"
    unfolding top_rank_def summary_of_def Let_def bk a_def b_def c_def
    by (subst fold_highest[where g = "\<lambda>f. healthRank (fd_Severity f)"], simp add: summarize_finding_def)
      (subst fold_mounts_highest, simp,
       subst fold_highest[where g = "\<lambda>r. healthRank (rs_Health r)"], simp add: summarize_resource_def,
       simp add: empty_summary_def)
  moreover have "a \<le> b" "b \<le> c" unfolding b_def c_def by (rule fold_max_ge)+
  ultimately show "r \<in> set (sn_Resources s) \<Longrightarrow> healthRank (rs_Health r) \<le> top_rank s"
    "m \<in> set (sn_Mounts s) \<Longrightarrow> healthRank (mt_Health m) \<le> top_rank s"
    "f \<in> set (sn_Findings s) \<Longrightarrow> healthRank (fd_Severity f) \<le> top_rank s"
    using fold_max_elem[of r "sn_Resources s" "\<lambda>r. healthRank (rs_Health r)" "healthRank HealthHealthy"]
      fold_max_elem[of m "sn_Mounts s" "\<lambda>m. healthRank (mt_Health m)" a]
      fold_max_elem[of f "sn_Findings s" "\<lambda>f. healthRank (fd_Severity f)" b]
    by (simp_all add: a_def[symmetric] b_def[symmetric] c_def[symmetric])
qed

text \<open>
  C29. Whatever the adapters report, a snapshot that \<open>normalize\<close> returns is bounded and closed: at most 4096
  resources with at most 32 details each, 8192 relations, 1024 mounts and 512 findings; both ends of every
  relation are resources of the snapshot; no path from a resource is longer than 32; its summary is the one of
  the snapshot returned, and the summary's health is at least as bad as that of any resource, mount or finding. The resource that a
  mount or a finding names is not checked: it may be one that no adapter reported.
\<close>

theorem normalize_bounded_closed:
  assumes "normalize enc t results = Inr s"
  shows "snapshot_ok s \<and> (\<forall>r\<in>set (sn_Resources s). shallow (sn_Relations s) r) \<and> sn_Summary s = summary_of s \<and>
    (\<forall>r\<in>set (sn_Resources s). healthRank (rs_Health r) \<le> healthRank (sm_HighestHealth (sn_Summary s))) \<and>
    (\<forall>m\<in>set (sn_Mounts s). healthRank (mt_Health m) \<le> healthRank (sm_HighestHealth (sn_Summary s))) \<and>
    (\<forall>f\<in>set (sn_Findings s). healthRank (fd_Severity f) \<le> healthRank (sm_HighestHealth (sn_Summary s)))"
proof -
  obtain a where a: "apply_core results newAggregate = Inr a" "agg_validate a = None"
    using assms by (auto simp: normalize_def split: sum.splits option.splits)
  obtain bs a' where b: "apply_enriched (zip results (map (backend_for t) results)) a = (bs, a')"
    by (cases "apply_enriched (zip results (map (backend_for t) results)) a")
  obtain u where e: "enforceSnapshotLimit enc (sortSnapshot (build_snapshot t bs a')) = Inr u"
    and s: "s = recalculateSummary u"
    using assms a b by (auto simp: normalize_def split: sum.splits)
  have "agg_ok newAggregate" by (simp add: agg_ok_def newAggregate_def)
  then have "agg_ok a' \<and> agg_validate a' = None" using apply_enriched_ok[OF _ b] apply_core_ok a by blast
  then have "snapshot_ok (sortSnapshot (build_snapshot t bs a'))"
    by (intro sortSnapshot_ok build_snapshot_ok) auto
  moreover have "enforce_loop enc (sortSnapshot (build_snapshot t bs a')) = Inr u"
    and g: "validateGraph (sn_Resources u) (sn_Relations u) = None"
    using e by (auto simp: enforceSnapshotLimit_def split: sum.splits option.splits)
  ultimately have "snapshot_ok u" using enforce_loop_ok by blast
  then have ok: "snapshot_ok s" by (simp add: s recalculateSummary_def snapshot_ok_def)
  have sh: "\<forall>r\<in>set (sn_Resources s). shallow (sn_Relations s) r"
    using g by (simp add: validateGraph_iff s recalculateSummary_def)
  have sm: "sn_Summary s = summary_of s" by (simp add: s recalculateSummary_def summary_of_def Let_def)
  then show ?thesis using ok sh summary_highest[of _ s] by simp
qed

text \<open>One disk reported by a core adapter, with a mount at 95 percent.\<close>

definition demo_mount :: mount where
  "demo_mount = \<lparr>mt_AvailableBytes = 5, mt_Filesystem = ''ext4'', mt_Health = HealthHealthy, mt_ID = ''mount:1'',
     mt_Managed = False, mt_Options = [], mt_ReadOnly = False, mt_ResourceID = ''a'', mt_Source = ''/dev/sda1'',
     mt_State = ''mounted'', mt_Target = ''/'', mt_TotalBytes = 100, mt_UsedBytes = 95, mt_UsedPercent = Some 95\<rparr>"

definition demo_collected :: collected_result where
  "demo_collected = \<lparr>cr_err = None, cr_name = ''block'', cr_core = True,
     cr_result = empty_result\<lparr>ar_Resources := [demo_resource ''a''], ar_Mounts := [demo_mount]\<rparr>\<rparr>"

lemma demo_normalize: "\<exists>s. normalize (\<lambda>s. Inr 0) 0 [demo_collected] = Inr s \<and>
    sm_HighestHealth (sn_Summary s) = HealthCritical"
proof -
  let ?m = "demo_mount\<lparr>mt_Health := HealthCritical\<rparr>"
  let ?a = "\<lparr>ag_dropped = [], ag_findings = [], ag_mounts = [demo_mount], ag_relations = [],
     ag_resources = [(''a'', demo_resource ''a'')], ag_truncated = []\<rparr>"
  have g: "validateGraph [demo_resource ''a''] [] = None"
  proof -
    have "n \<le> 32" if "(x, y) \<in> ({} :: (string \<times> string) set) ^^ n" for x y n using that by (cases n) auto
    then show ?thesis by (auto simp: validateGraph_iff shallow_def graph_edges_def maxGraphDepth_def)
  qed
  have 1: "apply_core [demo_collected] newAggregate = Inr ?a"
    by (simp add: demo_collected_def agg_apply_def newAggregate_def empty_result_def apply_resource_def
        demo_resource_def maxResources_def maxDetails_def apply_mount_def maxMounts_def undropped_def flagged_def)
  have 2: "agg_validate ?a = None" by (simp add: agg_validate_def g)
  have 3: "apply_enriched (zip [demo_collected] (map (backend_for 0) [demo_collected])) ?a =
      ([backend_for 0 demo_collected], ?a)" by (simp add: demo_collected_def)
  have 4: "assess_mount demo_mount ([], []) =
      (?m, [mount_finding demo_mount HealthCritical ''Mount capacity is critical''], [])"
    by (simp add: assess_mount_def isExpectedImmutableMount_def demo_mount_def at_least_def appendFinding_def
        maxFindings_def)
  let ?s = "sortSnapshot (build_snapshot 0 [backend_for 0 demo_collected] ?a)"
  have 5: "enforceSnapshotLimit (\<lambda>s. Inr 0) ?s = Inr ?s"
    by (simp add: enforceSnapshotLimit_def enforce_loop.simps build_snapshot_def 4 sortSnapshot_def g)
  have 6: "sm_HighestHealth (summary_of ?s) = HealthCritical"
    by (simp add: summary_of_def Let_def build_snapshot_def 4 sortSnapshot_def summarize_resource_def demo_resource_def
        summarize_mount_def summarize_finding_def summarize_backend_def mount_finding_def empty_summary_def
        higherHealth_def healthRank_def HealthHealthy_def HealthCritical_def HealthWarning_def HealthUnknown_def)
  have "normalize (\<lambda>s. Inr 0) 0 [demo_collected] = Inr (recalculateSummary ?s)"
    using 1 2 3 5 by (simp add: normalize_def)
  moreover have "sm_HighestHealth (sn_Summary (recalculateSummary ?s)) = HealthCritical"
    using 6 by (simp add: recalculateSummary_def)
  ultimately show ?thesis by blast
qed

theorem normalize_bounded_closed_witness:
  "\<exists>s. normalize (\<lambda>s. Inr 0) 0 [demo_collected] = Inr s \<and> snapshot_ok s \<and>
     sm_HighestHealth (summary_of s) = HealthCritical"
proof -
  obtain s where s: "normalize (\<lambda>s. Inr 0) 0 [demo_collected] = Inr s" "sm_HighestHealth (sn_Summary s) = HealthCritical"
    using demo_normalize by blast
  then show ?thesis using normalize_bounded_closed[OF s(1)] by auto
qed

end
