(* ===== verification/Remote_Manager.thy ===== *)
theory Remote_Manager
  imports Artifact_Store Storage_Normalize
begin

text \<open>
  The lifecycle of managed remote mounts (\<open>internal/modules/storage/remote_manager.go\<close>). The interfaces the
  manager is built from are records of operations on the world \<open>'w\<close>: systemd (\<open>UnitController\<close>), the artifact
  writer, the read-only storage manager, the kernel's path calls and the context. \<open>createMu\<close> and the
  per-definition locks serialise the operations, so each is one function; the lock table itself is modelled
  at the end.
\<close>

section \<open>The manager\<close>

record 'w unit_controller =
  uc_DaemonReload :: "'w \<Rightarrow> error option \<times> 'w"
  uc_Disable :: "string \<Rightarrow> 'w \<Rightarrow> error option \<times> 'w"
  uc_Enable :: "string \<Rightarrow> 'w \<Rightarrow> error option \<times> 'w"
  uc_Start :: "string \<Rightarrow> 'w \<Rightarrow> error option \<times> 'w"
  uc_Stop :: "string \<Rightarrow> 'w \<Rightarrow> error option \<times> 'w"

record 'w artifact_writer =
  aw_WriteCredentials :: "string \<Rightarrow> string \<Rightarrow> string \<Rightarrow> 'w \<Rightarrow> error option \<times> 'w"
  aw_WriteMountUnit :: "remote_definition \<Rightarrow> 'w \<Rightarrow> error option \<times> 'w"
  aw_WriteAutomountUnit :: "remote_definition \<Rightarrow> 'w \<Rightarrow> error option \<times> 'w"
  aw_WriteManifest :: "remote_definition \<Rightarrow> 'w \<Rightarrow> error option \<times> 'w"

record 'w remote_manager =
  rm_artifacts :: "'w artifact_store"
  rm_writer :: "'w artifact_writer"
  rm_manager :: "'w \<Rightarrow> snapshot result \<times> 'w"
  rm_units :: "'w unit_controller"
  rm_env :: "'w env"
  rm_linux :: "'w pathFS"
  rm_ctx :: "'w \<Rightarrow> error option"

definition NewSystemRemoteManagerWithWriter :: "'w env \<Rightarrow> 'w pathFS \<Rightarrow> ('w \<Rightarrow> error option) \<Rightarrow>
    ('w \<Rightarrow> snapshot result \<times> 'w) \<Rightarrow> 'w artifact_store \<Rightarrow> 'w artifact_writer \<Rightarrow> 'w unit_controller \<Rightarrow>
    'w remote_manager" where
  "NewSystemRemoteManagerWithWriter E linux ctx manager artifacts writer units =
     \<lparr>rm_artifacts = artifacts, rm_writer = writer, rm_manager = manager, rm_units = units,
      rm_env = E, rm_linux = linux, rm_ctx = ctx\<rparr>"

definition store_writer :: "'w env \<Rightarrow> 'w artifact_store \<Rightarrow> 'w artifact_writer" where
  "store_writer E store = \<lparr>aw_WriteCredentials = WriteCredentials E store,
     aw_WriteMountUnit = WriteMountUnit E store, aw_WriteAutomountUnit = WriteAutomountUnit E store,
     aw_WriteManifest = WriteManifest E store\<rparr>"

definition NewSystemRemoteManager :: "'w env \<Rightarrow> 'w pathFS \<Rightarrow> ('w \<Rightarrow> error option) \<Rightarrow>
    ('w \<Rightarrow> snapshot result \<times> 'w) \<Rightarrow> 'w artifact_store \<Rightarrow> 'w unit_controller \<Rightarrow> 'w remote_manager" where
  "NewSystemRemoteManager E linux ctx manager artifacts units =
     NewSystemRemoteManagerWithWriter E linux ctx manager artifacts (store_writer E artifacts) units"

definition needs_attention :: string where "needs_attention = ''needs-attention''"

definition rm_escape :: "'w remote_manager \<Rightarrow> string \<Rightarrow> string" where
  "rm_escape m = env_escape (rm_env m)"

definition rm_os :: "'w remote_manager \<Rightarrow> 'w os" where
  "rm_os m = env_os (rm_env m)"

section \<open>Definitions and the inventory\<close>

definition rm_definition :: "'w remote_manager \<Rightarrow> create_request \<Rightarrow> remote_definition result" where
  "rm_definition m request =
     (case ParseSMBOwnership (own_UID (req_SMBOwnership request)) (own_GID (req_SMBOwnership request)) of
        Inl _ \<Rightarrow> Inl errInvalidManifest
      | Inr ownership \<Rightarrow>
          if req_Protocol request \<noteq> ''smb'' \<and> ownership \<noteq> no_ownership then Inl errInvalidManifest
          else if ValidateDefinitionID (req_ID request) \<noteq> None \<or> ValidateProtocol (req_Protocol request) \<noteq> None \<or>
            ValidateTarget (req_Target request) \<noteq> None
          then Inl errInvalidManifest
          else
            (let d = \<lparr>def_CreatedTarget = False, def_Credential = [], def_Export = [],
                   def_FormatVersion = ManifestFormatVersion, def_Host = [], def_ID = req_ID request,
                   def_Protocol = req_Protocol request, def_ProtocolVersion = req_Version request,
                   def_ReadOnly = req_ReadOnly request, def_Server = [], def_Share = [], def_State = ''active'',
                   def_Target = req_Target request, def_UnitName = mountUnitName (rm_escape m) (req_Target request),
                   def_Username = [], def_SMBOwnership = ownership\<rparr>
             in if req_Protocol request = ''nfs'' then
                  (if ValidateNFSHost (req_Host request) \<noteq> None \<or> ValidateNFSExport (req_Export request) \<noteq> None \<or>
                      ValidateNFSVersion (req_Version request) \<noteq> None \<or> req_Password request \<noteq> [] \<or>
                      req_Username request \<noteq> []
                   then Inl errInvalidManifest
                   else Inr (d\<lparr>def_Host := req_Host request, def_Export := req_Export request\<rparr>))
                else if req_Protocol request = ''smb'' then
                  (if ValidateSMBServer (req_Server request) \<noteq> None \<or> ValidateSMBShare (req_Share request) \<noteq> None \<or>
                      ValidateSMBVersion (req_Version request) \<noteq> None \<or>
                      (req_Password request = []) \<noteq> (req_Username request = []) \<or>
                      (req_Username request \<noteq> [] \<and> ValidateUsername (req_Username request) \<noteq> None) \<or>
                      (req_Password request \<noteq> [] \<and> ValidatePassword (req_Password request) \<noteq> None)
                   then Inl errInvalidManifest
                   else
                     (let d = d\<lparr>def_Server := req_Server request, def_Share := req_Share request,
                            def_Username := req_Username request\<rparr>
                      in Inr (if req_Username request \<noteq> []
                           then d\<lparr>def_Credential := or_empty (CredentialPath (rm_artifacts m) (req_ID request))\<rparr>
                           else d)))
                else Inl errInvalidManifest))"

fun load_entries ::
    "'w remote_manager \<Rightarrow> dir_entry list \<Rightarrow> 'w \<Rightarrow> (remote_definition list \<times> string list) result \<times> 'w" where
  "load_entries m [] w = (Inr ([], []), w)"
| "load_entries m (e # es) w =
     (if de_dir e \<or> \<not> suffix ''.json'' (de_name e) then load_entries m es w
      else
        (let i = take (length (de_name e) - length ''.json'') (de_name e) in
         case LoadDefinition (rm_env m) (rm_artifacts m) i w of
           (Inr d, w1) \<Rightarrow> (case load_entries m es w1 of
               (Inl err, w2) \<Rightarrow> (Inl err, w2) | (Inr (ds, bad), w2) \<Rightarrow> (Inr (d # ds, bad), w2))
         | (Inl err, w1) \<Rightarrow>
             if errors_is err ErrNotExist then load_entries m es w1
             else if errors_is err errInvalidManifest then
               (case load_entries m es w1 of
                  (Inl err', w2) \<Rightarrow> (Inl err', w2) | (Inr (ds, bad), w2) \<Rightarrow> (Inr (ds, i # bad), w2))
             else (Inl err, w1)))"

definition rm_definitions ::
    "'w remote_manager \<Rightarrow> 'w \<Rightarrow> (remote_definition list \<times> string list) result \<times> 'w" where
  "rm_definitions m w = (case os_read_dir (rm_os m) (as_ManifestRoot (rm_artifacts m)) w of
     (Inl e, w1) \<Rightarrow> (if errors_is e ErrNotExist then Inr ([], []) else Inl e, w1)
   | (Inr entries, w1) \<Rightarrow> load_entries m entries w1)"

definition reserve :: "'w remote_manager \<Rightarrow> remote_definition \<Rightarrow> target_inventory \<Rightarrow> target_inventory" where
  "reserve m d iv = iv\<lparr>inv_ManagedTargets := inv_ManagedTargets iv @ [def_Target d],
     inv_UnitOwners := AList.update (automountUnitName (rm_escape m) (def_Target d)) (def_ID d)
       (AList.update (def_UnitName d) (def_ID d) (inv_UnitOwners iv))\<rparr>"

fun reserve_all :: "'w remote_manager \<Rightarrow> string option \<Rightarrow> remote_definition list \<Rightarrow> target_inventory \<Rightarrow> 'w \<Rightarrow>
    target_inventory result \<times> 'w" where
  "reserve_all m exclude [] iv w = (Inr iv, w)"
| "reserve_all m exclude (d # ds) iv w =
     (if exclude = Some (def_ID d) then reserve_all m exclude ds iv w
      else if def_State d \<noteq> needs_attention then
        (case VerifyOwnedArtifacts (rm_env m) (rm_artifacts m) d w of
           (Some e, w1) \<Rightarrow> (Inl e, w1)
         | (None, w1) \<Rightarrow> reserve_all m exclude ds (reserve m d iv) w1)
      else reserve_all m exclude ds (reserve m d iv) w)"

definition rm_inventory :: "'w remote_manager \<Rightarrow> string option \<Rightarrow> 'w \<Rightarrow> target_inventory result \<times> 'w" where
  "rm_inventory m exclude w = (case rm_manager m w of
     (Inl e, w1) \<Rightarrow> (Inl e, w1)
   | (Inr snapshot, w1) \<Rightarrow> (case rm_definitions m w1 of
       (Inl e, w2) \<Rightarrow> (Inl e, w2)
     | (Inr (ds, bad), w2) \<Rightarrow>
         if bad \<noteq> [] then (Inl errInvalidManifest, w2)
         else reserve_all m exclude ds
           \<lparr>inv_ManagedTargets = [], inv_Mounts = map mt_Target (sn_Mounts snapshot), inv_UnitOwners = []\<rparr> w2))"

definition loadVerified :: "'w remote_manager \<Rightarrow> string \<Rightarrow> 'w \<Rightarrow> remote_definition result \<times> 'w" where
  "loadVerified m i w = (case ValidateDefinitionID i of
     Some e \<Rightarrow> (Inl e, w)
   | None \<Rightarrow> (case LoadDefinition (rm_env m) (rm_artifacts m) i w of
       (Inl e, w1) \<Rightarrow> (Inl e, w1)
     | (Inr d, w1) \<Rightarrow>
         if def_State d \<noteq> needs_attention then
           (case VerifyOwnedArtifacts (rm_env m) (rm_artifacts m) d w1 of
              (Some e, w2) \<Rightarrow> (Inl e, w2) | (None, w2) \<Rightarrow> (Inr d, w2))
         else (Inr d, w1)))"

section \<open>Creation\<close>

type_synonym 'w undo = "string \<times> ('w \<Rightarrow> error option \<times> 'w)"

fun run_undos :: "'w undo list \<Rightarrow> 'w \<Rightarrow> string list \<times> 'w" where
  "run_undos [] w = ([], w)"
| "run_undos ((operation, run) # us) w = (case run w of
     (None, w1) \<Rightarrow> run_undos us w1
   | (Some _, w1) \<Rightarrow> (let (failures, w2) = run_undos us w1 in (operation # failures, w2)))"

definition attention :: "remote_definition \<Rightarrow> remote_definition" where
  "attention d = d\<lparr>def_State := needs_attention\<rparr>"

definition rollback :: "'w remote_manager \<Rightarrow> remote_definition \<Rightarrow> 'w undo list \<Rightarrow> bool \<Rightarrow> error \<Rightarrow> 'w \<Rightarrow>
    error option \<times> 'w" where
  "rollback m d undos unitArtifactsWritten cause w =
     (let (failures, w1) = run_undos (rev undos) w;
          (failures, w2) =
            (if unitArtifactsWritten then
               (case uc_DaemonReload (rm_units m) w1 of
                  (Some _, w2) \<Rightarrow> (failures @ [''reload systemd''], w2) | (None, w2) \<Rightarrow> (failures, w2))
             else (failures, w1))
      in if failures \<noteq> [] then
           (let w3 = (case UpdateManifest (rm_env m) (rm_artifacts m) (attention d) w2 of
                (None, w3) \<Rightarrow> w3
              | (Some _, w3) \<Rightarrow> snd (WriteManifest (rm_env m) (rm_artifacts m) (attention d) w3))
            in (Some (Errorf ''remote mount needs attention: cleanup failed: %s'' [join_with '', '' failures]), w3))
         else (Some cause, w2))"

text \<open>A step of \<open>Create\<close>: an error rolls back what was done so far, otherwise the next step runs.\<close>

definition guarded :: "'w remote_manager \<Rightarrow> remote_definition \<Rightarrow> 'w undo list \<Rightarrow> bool \<Rightarrow>
    ('w \<Rightarrow> error option \<times> 'w) \<Rightarrow> ('w \<Rightarrow> error option \<times> 'w) \<Rightarrow> 'w \<Rightarrow> error option \<times> 'w" where
  "guarded m d undos written op rest w = (case op w of
     (Some e, w1) \<Rightarrow> rollback m d undos written e w1
   | (None, w1) \<Rightarrow> rest w1)"

definition remove_undo :: "'w remote_manager \<Rightarrow> string \<Rightarrow> string result \<Rightarrow> 'w undo" where
  "remove_undo m operation path = (operation, os_remove (rm_os m) (or_empty path))"

definition activate :: "'w remote_manager \<Rightarrow> remote_definition \<Rightarrow> 'w undo list \<Rightarrow> 'w \<Rightarrow> error option \<times> 'w" where
  "activate m d undos =
     (let unit = automountUnitName (rm_escape m) (def_Target d);
          undos1 = undos @ [(''reload systemd'', uc_DaemonReload (rm_units m))];
          undos2 = undos1 @ [(''disable automount'', uc_Disable (rm_units m) unit)]
      in guarded m d undos True (uc_DaemonReload (rm_units m))
          (guarded m d undos1 True (uc_Enable (rm_units m) unit)
            (guarded m d undos2 True (uc_Start (rm_units m) unit) (\<lambda>w. (None, w)))))"

definition write_units :: "'w remote_manager \<Rightarrow> remote_definition \<Rightarrow> 'w undo list \<Rightarrow> 'w \<Rightarrow> error option \<times> 'w" where
  "write_units m d undos =
     (let E = rm_env m; store = rm_artifacts m;
          undos1 = undos @ [remove_undo m ''remove mount unit'' (MountUnitPath E store d)];
          undos2 = undos1 @ [remove_undo m ''remove automount unit'' (AutomountUnitPath E store d)];
          undos3 = undos2 @ [remove_undo m ''remove manifest'' (ManifestPath store (def_ID d))]
      in guarded m d undos False (aw_WriteMountUnit (rm_writer m) d)
          (guarded m d undos1 True (aw_WriteAutomountUnit (rm_writer m) d)
            (guarded m d undos2 True (aw_WriteManifest (rm_writer m) d) (activate m d undos3))))"

definition write_all :: "'w remote_manager \<Rightarrow> create_request \<Rightarrow> remote_definition \<Rightarrow> 'w undo list \<Rightarrow> 'w \<Rightarrow>
    error option \<times> 'w" where
  "write_all m request d undos =
     (if req_Password request \<noteq> [] then
        guarded m d undos False
          (aw_WriteCredentials (rm_writer m) (def_ID d) (req_Username request) (req_Password request))
          (write_units m d (undos @ [remove_undo m ''remove credentials'' (CredentialPath (rm_artifacts m) (def_ID d))]))
      else write_units m d undos)"

definition render_checks :: "'w remote_manager \<Rightarrow> create_request \<Rightarrow> remote_definition \<Rightarrow> error option" where
  "render_checks m request d =
     (case RenderMountUnit (rm_escape m) d of Inl e \<Rightarrow> Some e
      | Inr _ \<Rightarrow> (case RenderAutomountUnit (rm_escape m) d of Inl e \<Rightarrow> Some e
        | Inr _ \<Rightarrow> if req_Password request \<noteq> [] then
              (case RenderCredentials (req_Username request) (req_Password request) of Inl e \<Rightarrow> Some e | Inr _ \<Rightarrow> None)
            else None))"

definition rm_Create :: "'w remote_manager \<Rightarrow> create_request \<Rightarrow> 'w \<Rightarrow> error option \<times> 'w" where
  "rm_Create m request w = (case rm_definition m request of
     Inl e \<Rightarrow> (Some e, w)
   | Inr d \<Rightarrow> (case rm_inventory m None w of
       (Inl e, w1) \<Rightarrow> (Some e, w1)
     | (Inr iv, w1) \<Rightarrow>
         if list_ex (\<lambda>(name, owner). owner = def_ID d) (inv_UnitOwners iv) then (Some errArtifactNotManaged, w1)
         else (case NewPathManager (rm_linux m) (def_ID d) of
           Inl e \<Rightarrow> (Some e, w1)
         | Inr paths \<Rightarrow>
            (case pm_ValidateTarget (rm_escape m) paths (rm_ctx m w1) (def_Target d) (Some iv) w1 of
               (Some e, w2) \<Rightarrow> (Some e, w2)
             | (None, w2) \<Rightarrow> (case render_checks m request d of
                 Some e \<Rightarrow> (Some e, w2)
               | None \<Rightarrow>
                  (case CreateTarget (rm_escape m) paths (rm_ctx m w2) (def_Target d) (Some iv) w2 of
                     (Inl e, w3) \<Rightarrow> (Some e, w3)
                   | (Inr created, w3) \<Rightarrow>
                       (let d' = d\<lparr>def_CreatedTarget := created\<rparr>;
                            undos = (if created then [(''remove target'', \<lambda>w.
                              RemoveTarget (rm_escape m) paths (rm_ctx m w) (def_Target d') True (Some iv) w)] else [])
                        in write_all m request d' undos w3)))))))"

section \<open>Mounting, unmounting and deletion\<close>

definition rm_Mount :: "'w remote_manager \<Rightarrow> string \<Rightarrow> 'w \<Rightarrow> error option \<times> 'w" where
  "rm_Mount m i w = (case loadVerified m i w of
     (Inl e, w1) \<Rightarrow> (Some e, w1)
   | (Inr d, w1) \<Rightarrow> if def_State d = needs_attention then (Some errArtifactNotManaged, w1)
       else uc_Start (rm_units m) (automountUnitName (rm_escape m) (def_Target d)) w1)"

definition rm_Unmount :: "'w remote_manager \<Rightarrow> string \<Rightarrow> 'w \<Rightarrow> error option \<times> 'w" where
  "rm_Unmount m i w = (case loadVerified m i w of
     (Inl e, w1) \<Rightarrow> (Some e, w1)
   | (Inr d, w1) \<Rightarrow> if def_State d = needs_attention then (Some errArtifactNotManaged, w1)
       else (case uc_Stop (rm_units m) (automountUnitName (rm_escape m) (def_Target d)) w1 of
           (Some e, w2) \<Rightarrow> (Some e, w2)
         | (None, w2) \<Rightarrow> uc_Stop (rm_units m) (def_UnitName d) w2))"

definition persistAttention :: "'w remote_manager \<Rightarrow> remote_definition \<Rightarrow> 'w \<Rightarrow> error option \<times> 'w" where
  "persistAttention m d w = (case UpdateManifest (rm_env m) (rm_artifacts m) (attention d) w of
     (None, w1) \<Rightarrow> (None, w1)
   | (Some _, w1) \<Rightarrow> WriteManifest (rm_env m) (rm_artifacts m) (attention d) w1)"

definition retainAttention :: "'w remote_manager \<Rightarrow> remote_definition \<Rightarrow> error \<Rightarrow> 'w \<Rightarrow> error option \<times> 'w" where
  "retainAttention m d cause w =
     (Some (Wrapf ''remote mount needs attention: %w'' [] cause), snd (persistAttention m d w))"

definition removeVerifiedArtifact ::
    "'w remote_manager \<Rightarrow> string \<Rightarrow> string option \<Rightarrow> nat \<Rightarrow> 'w \<Rightarrow> error option \<times> 'w" where
  "removeVerifiedArtifact m path contents mode w = (case os_lstat (rm_os m) path w of
     (Inl e, w1) \<Rightarrow> (if errors_is e ErrNotExist then None else Some errArtifactNotManaged, w1)
   | (Inr info, w1) \<Rightarrow>
       if \<not> fi_regular info then (Some errArtifactNotManaged, w1)
       else (case (case contents of
             None \<Rightarrow> verifyMetadata (rm_env m) (rm_artifacts m) path mode w1
           | Some c \<Rightarrow> verifyFile (rm_env m) (rm_artifacts m) path c mode w1) of
           (Some e, w2) \<Rightarrow> (Some e, w2)
         | (None, w2) \<Rightarrow> (case os_remove (rm_os m) path w2 of
             (Some e, w3) \<Rightarrow> (if errors_is e ErrNotExist then None else Some e, w3)
           | (None, w3) \<Rightarrow> (None, w3))))"

text \<open>A step of \<open>Delete\<close>: an error keeps the manifest, marked as needing attention.\<close>

definition retained :: "'w remote_manager \<Rightarrow> remote_definition \<Rightarrow> ('w \<Rightarrow> error option \<times> 'w) \<Rightarrow>
    ('w \<Rightarrow> error option \<times> 'w) \<Rightarrow> 'w \<Rightarrow> error option \<times> 'w" where
  "retained m d op rest w = (case op w of
     (Some e, w1) \<Rightarrow> retainAttention m d e w1
   | (None, w1) \<Rightarrow> rest w1)"

definition rendered_removal ::
    "'w remote_manager \<Rightarrow> string result \<Rightarrow> string result \<Rightarrow> 'w \<Rightarrow> error option \<times> 'w" where
  "rendered_removal m path rendered w = (case rendered of Inl e \<Rightarrow> (Some e, w)
     | Inr c \<Rightarrow> removeVerifiedArtifact m (or_empty path) (Some c) 0x1A4 w)"

definition delete_target :: "'w remote_manager \<Rightarrow> string \<Rightarrow> remote_definition \<Rightarrow> 'w \<Rightarrow> error option \<times> 'w" where
  "delete_target m i d w = (case rm_inventory m (Some i) w of
     (Inl e, w1) \<Rightarrow> (Some e, w1)
   | (Inr iv, w1) \<Rightarrow> (case NewPathManager (rm_linux m) i of
       Inl e \<Rightarrow> (Some e, w1)
     | Inr paths \<Rightarrow> RemoveTarget (rm_escape m) paths (rm_ctx m w1) (def_Target d) (def_CreatedTarget d) (Some iv) w1))"

definition delete_artifacts :: "'w remote_manager \<Rightarrow> string \<Rightarrow> remote_definition \<Rightarrow> 'w \<Rightarrow> error option \<times> 'w" where
  "delete_artifacts m i d =
     (let E = rm_env m; store = rm_artifacts m in
      retained m d (rendered_removal m (MountUnitPath E store d) (RenderMountUnit (rm_escape m) d))
       (retained m d (rendered_removal m (AutomountUnitPath E store d) (RenderAutomountUnit (rm_escape m) d))
        (retained m d (if def_Username d \<noteq> []
            then removeVerifiedArtifact m (or_empty (CredentialPath store (def_ID d))) None 0x180
            else (\<lambda>w. (None, w)))
         (retained m d (uc_DaemonReload (rm_units m))
          (retained m d (delete_target m i d)
           (os_remove (rm_os m) (or_empty (ManifestPath store i))))))))"

definition rm_Delete :: "'w remote_manager \<Rightarrow> string \<Rightarrow> 'w \<Rightarrow> error option \<times> 'w" where
  "rm_Delete m i w = (case ValidateDefinitionID i of
     Some e \<Rightarrow> (Some e, w)
   | None \<Rightarrow> (case LoadDefinition (rm_env m) (rm_artifacts m) i w of
       (Inl e, w1) \<Rightarrow> (Some e, w1)
     | (Inr d0, w1) \<Rightarrow> (case persistAttention m d0 w1 of
         (Some e, w2) \<Rightarrow> (Some (Wrapf ''remote mount needs attention: %w'' [] e), w2)
       | (None, w2) \<Rightarrow>
           (let d = attention d0; unit = automountUnitName (rm_escape m) (def_Target d) in
            retained m d (uc_Stop (rm_units m) unit)
             (retained m d (uc_Stop (rm_units m) (def_UnitName d))
              (retained m d (uc_Disable (rm_units m) unit) (delete_artifacts m i d))) w2))))"


section \<open>State\<close>

definition invalid_finding :: "string \<Rightarrow> finding" where
  "invalid_finding i = \<lparr>
     fd_Detail = ''A managed remote mount manifest failed verification and was excluded from the inventory.'',
     fd_ResourceID = (if ValidateDefinitionID i = None then ''remote:'' @ i else []),
     fd_Severity = HealthWarning, fd_Title = ''Managed mount manifest is invalid''\<rparr>"

definition attention_finding :: "string \<Rightarrow> finding" where
  "attention_finding i = \<lparr>fd_Detail = ''Review the managed remote mount lifecycle.'', fd_ResourceID = i,
     fd_Severity = HealthWarning, fd_Title = ''Managed remote mount needs attention''\<rparr>"

definition managed_mount :: "remote_definition \<Rightarrow> mount" where
  "managed_mount d = \<lparr>mt_AvailableBytes = 0,
     mt_Filesystem = (if def_Protocol d = ''nfs'' then ''nfs'' else if def_Protocol d = ''smb'' then ''cifs'' else []),
     mt_Health = (if def_State d = needs_attention then HealthWarning else HealthHealthy),
     mt_ID = ''remote:'' @ def_ID d, mt_Managed = True, mt_Options = [], mt_ReadOnly = def_ReadOnly d,
     mt_ResourceID = [],
     mt_Source = (if def_Protocol d = ''nfs'' then nfsMountSource (def_Host d) (def_Export d)
       else if def_Protocol d = ''smb'' then ''//'' @ def_Server d @ ''/'' @ def_Share d else []),
     mt_State = def_State d, mt_Target = def_Target d, mt_TotalBytes = 0, mt_UsedBytes = 0,
     mt_UsedPercent = Some 0\<rparr>"

text \<open>The first mount with the same target and source becomes the managed one.\<close>

fun merge_mount :: "remote_definition \<Rightarrow> mount \<Rightarrow> mount list \<Rightarrow> mount list option" where
  "merge_mount d x [] = None"
| "merge_mount d x (y # ys) =
     (if mt_Target y = mt_Target x \<and> mt_Source y = mt_Source x then
        Some (y\<lparr>mt_Managed := True, mt_ID := mt_ID x, mt_ReadOnly := mt_ReadOnly x,
          mt_State := (if def_State d \<noteq> ''active'' then def_State d else mt_State y)\<rparr> # ys)
      else map_option (Cons y) (merge_mount d x ys))"

definition merge_definition :: "remote_definition \<Rightarrow> snapshot \<Rightarrow> snapshot" where
  "merge_definition d s =
     (let x = managed_mount d;
          s = (if def_State d = needs_attention
            then s\<lparr>sn_Findings := sn_Findings s @ [attention_finding (mt_ID x)]\<rparr> else s)
      in s\<lparr>sn_Mounts := (case merge_mount d x (sn_Mounts s) of Some ms \<Rightarrow> ms | None \<Rightarrow> sn_Mounts s @ [x])\<rparr>)"

definition rm_State :: "'w remote_manager \<Rightarrow> 'w \<Rightarrow> snapshot result \<times> 'w" where
  "rm_State m w = (case rm_manager m w of
     (Inl e, w1) \<Rightarrow> (Inl e, w1)
   | (Inr s, w1) \<Rightarrow> (case rm_definitions m w1 of
       (Inl e, w2) \<Rightarrow> (Inl e, w2)
     | (Inr (ds, bad), w2) \<Rightarrow>
         (Inr (recalculateSummary (sortSnapshot (fold merge_definition ds
            (s\<lparr>sn_Findings := sn_Findings s @ map invalid_finding bad\<rparr>)))), w2)))"

section \<open>The lock table\<close>

text \<open>
  \<open>lockDefinition\<close> counts the users of a lock under \<open>locksMu\<close> and drops the entry with the last of them.
\<close>

definition definition_lock_enter :: "string \<Rightarrow> (string, nat) gomap \<Rightarrow> (string, nat) gomap" where
  "definition_lock_enter i t = AList.update i (case map_of t i of None \<Rightarrow> 1 | Some n \<Rightarrow> n + 1) t"

definition definition_lock_leave :: "string \<Rightarrow> (string, nat) gomap \<Rightarrow> (string, nat) gomap" where
  "definition_lock_leave i t = (case map_of t i of None \<Rightarrow> t
     | Some n \<Rightarrow> if n - 1 = 0 then AList.delete i t else AList.update i (n - 1) t)"

definition definition_lock_users :: "(string, nat) gomap \<Rightarrow> string \<Rightarrow> nat" where
  "definition_lock_users t i = (case map_of t i of None \<Rightarrow> 0 | Some n \<Rightarrow> n)"

definition locks_ok :: "(string, nat) gomap \<Rightarrow> bool" where
  "locks_ok t \<longleftrightarrow> (\<forall>i. map_of t i \<noteq> Some 0)"

lemma definition_lock_enter_users: "definition_lock_users (definition_lock_enter i t) j = definition_lock_users t j + (if j = i then 1 else 0)"
  by (auto simp: definition_lock_users_def definition_lock_enter_def split: option.splits)

lemma definition_lock_leave_users: "locks_ok t \<Longrightarrow> definition_lock_users (definition_lock_leave i t) j = definition_lock_users t j - (if j = i then 1 else 0)"
  by (auto simp: definition_lock_users_def definition_lock_leave_def locks_ok_def split: option.splits)

lemma locks_ok_steps: "locks_ok t \<Longrightarrow> locks_ok (definition_lock_enter i t)" "locks_ok t \<Longrightarrow> locks_ok (definition_lock_leave i t)"
  by (auto simp: locks_ok_def definition_lock_enter_def definition_lock_leave_def split: option.splits)

lemma definition_lock_enter_leave: "locks_ok t \<Longrightarrow> map_of (definition_lock_leave i (definition_lock_enter i t)) = map_of t"
  unfolding locks_ok_def definition_lock_enter_def definition_lock_leave_def
  by (auto simp: fun_eq_iff split: option.splits) (metis gr0I)+

section \<open>What an operation may do to the files\<close>

text \<open>
  The laws of the other collaborators: systemd, the storage manager and the path calls on target
  directories leave regular files as they are, an open without the flags that create or truncate and the removal of a
  directory among them.
\<close>

definition O_CREAT_or_TRUNC :: nat where "O_CREAT_or_TRUNC = 0x240"

definition files_kept :: "'w views \<Rightarrow> ('w \<Rightarrow> 'a \<times> 'w) \<Rightarrow> bool" where
  "files_kept V f \<longleftrightarrow> (\<forall>w. v_files V (snd (f w)) = v_files V w)"

definition path_laws :: "'w views \<Rightarrow> 'w pathFS \<Rightarrow> bool" where
  "path_laws V F \<longleftrightarrow> (\<forall>fd. files_kept V (fs_close F fd)) \<and> (\<forall>fd. files_kept V (fs_empty F fd)) \<and>
     (\<forall>fd. files_kept V (fs_fstat F fd)) \<and> (\<forall>fd n k. files_kept V (fs_mkdirat F fd n k)) \<and>
     (\<forall>fd n h. how_Flags h AND O_CREAT_or_TRUNC = 0 \<longrightarrow> files_kept V (fs_openat2 F fd n h)) \<and> files_kept V (fs_openRoot F) \<and>
     (\<forall>fd n. files_kept V (fs_unlinkat F fd n AT_REMOVEDIR))"

definition host_laws :: "'w views \<Rightarrow> 'w remote_manager \<Rightarrow> bool" where
  "host_laws V m \<longleftrightarrow> os_laws V (rm_os m) \<and> path_laws V (rm_linux m) \<and> files_kept V (rm_manager m) \<and>
     files_kept V (uc_DaemonReload (rm_units m)) \<and> (\<forall>u. files_kept V (uc_Disable (rm_units m) u)) \<and>
     (\<forall>u. files_kept V (uc_Enable (rm_units m) u)) \<and> (\<forall>u. files_kept V (uc_Start (rm_units m) u)) \<and>
     (\<forall>u. files_kept V (uc_Stop (rm_units m) u))"

definition production :: "'w remote_manager \<Rightarrow> bool" where
  "production m \<longleftrightarrow> rm_writer m = store_writer (rm_env m) (rm_artifacts m) \<and>
     as_rename (rm_artifacts m) = None \<and> as_beforeLoad (rm_artifacts m) = None"

lemma files_keptD: "files_kept V f \<Longrightarrow> f w = (r, w') \<Longrightarrow> v_files V w' = v_files V w"
  unfolding files_kept_def by (metis snd_conv)

lemma keeps_kept: "keeps V f \<Longrightarrow> files_kept V f"
  by (simp add: keeps_def files_kept_def)

lemma files_kept_close: "path_laws V (pm_fs p) \<Longrightarrow> v_files V (pm_close p fd w) = v_files V w"
  by (simp add: pm_close_def path_laws_def files_kept_def)

lemma files_kept_closing: "path_laws V (pm_fs p) \<Longrightarrow> v_files V (snd (closing p fd r)) = v_files V (snd r)"
  by (simp add: closing_def files_kept_close)

lemma closing_files: "path_laws V (pm_fs p) \<Longrightarrow> closing p fd r = (x, w') \<Longrightarrow> v_files V w' = v_files V (snd r)"
  using files_kept_closing[of V p fd r] by simp

text \<open>The flags with which the manager opens neither create nor truncate.\<close>

lemma walk_flags:
  "(O_PATH OR O_CLOEXEC) AND O_CREAT_or_TRUNC = 0" "((O_PATH OR O_DIRECTORY) OR O_CLOEXEC) AND O_CREAT_or_TRUNC = 0"
  "((O_RDONLY OR O_DIRECTORY) OR O_CLOEXEC) AND O_CREAT_or_TRUNC = 0"
  by (simp_all add: O_PATH_def O_CLOEXEC_def O_DIRECTORY_def O_RDONLY_def O_CREAT_or_TRUNC_def)

lemma pm_open_files_kept:
  "path_laws V (pm_fs p) \<Longrightarrow> (k OR O_CLOEXEC) AND O_CREAT_or_TRUNC = 0 \<Longrightarrow> files_kept V (pm_open p fd c k)"
  by (simp add: path_laws_def files_kept_def pm_open_def)

lemma walk_components_kept:
  "path_laws V (pm_fs p) \<Longrightarrow> v_files V (snd (walk_components p fd cs w)) = v_files V w"
proof (induction p fd cs w rule: walk_components.induct)
  case (1 p fd w)
  then show ?case by (simp add: files_kept_close)
next
  case (2 p fd c w)
  have "files_kept V (pm_open p fd c O_PATH)"
    using 2 walk_flags(1) by (intro pm_open_files_kept) simp_all
  then show ?case using 2 files_keptD[of V "pm_open p fd c O_PATH" w]
    by (auto simp: files_kept_close split: prod.splits sum.splits)
next
  case (3 p fd c d cs w)
  have "files_kept V (pm_open p fd c (O_PATH OR O_DIRECTORY))"
    using 3 walk_flags(2) by (intro pm_open_files_kept) simp_all
  then show ?case using 3 files_keptD[of V "pm_open p fd c (O_PATH OR O_DIRECTORY)" w]
    by (auto simp: files_kept_close split: prod.splits sum.splits)
qed

lemma pm_open_kept:
  "path_laws V (pm_fs p) \<Longrightarrow> pm_open p fd c (O_RDONLY OR O_DIRECTORY) w = (r, w') \<Longrightarrow> v_files V w' = v_files V w"
  by (rule files_keptD[OF pm_open_files_kept]) (simp_all add: walk_flags)

lemma pm_walk_kept: "path_laws V (pm_fs p) \<Longrightarrow> pm_walk p t w = (r, w') \<Longrightarrow> v_files V w' = v_files V w"
proof -
  assume L: "path_laws V (pm_fs p)" and k: "pm_walk p t w = (r, w')"
  obtain r1 w1 where o: "fs_openRoot (pm_fs p) w = (r1, w1)" by (cases "fs_openRoot (pm_fs p) w")
  have "v_files V w1 = v_files V w" using L o by (auto simp: path_laws_def dest: files_keptD)
  with walk_components_kept[OF L, of _ _ w1] k o show ?thesis
    by (auto simp: pm_walk_def split: sum.splits) (metis snd_conv)
qed

lemma validateDirectory_kept:
  assumes L: "path_laws V (pm_fs p)" and v: "validateDirectory p fd leaf w = (r, w')"
  shows "v_files V w' = v_files V w"
proof -
  obtain r1 w1 where o: "pm_open p fd leaf (O_RDONLY OR O_DIRECTORY) w = (r1, w1)"
    by (cases "pm_open p fd leaf (O_RDONLY OR O_DIRECTORY) w")
  note 1 = pm_open_kept[OF L o]
  show ?thesis
  proof (cases r1)
    case (Inl e)
    then show ?thesis using v o 1 by (simp add: validateDirectory_def)
  next
    case (Inr f)
    have k: "files_kept V (fs_fstat (pm_fs p) f)" "files_kept V (fs_empty (pm_fs p) f)"
      using L by (simp_all add: path_laws_def)
    have "\<exists>w2. v_files V w2 = v_files V w1 \<and> w' = pm_close p f w2"
      using v o Inr files_keptD[OF k(1)] files_keptD[OF k(2)]
      by (auto simp: validateDirectory_def closing_def split: prod.splits sum.splits if_splits) metis+
    then show ?thesis using 1 files_kept_close[OF L] by auto
  qed
qed

lemma pm_ValidateTarget_kept:
  assumes L: "path_laws V (pm_fs p)" and v: "pm_ValidateTarget esc p c t iv w = (r, w')"
  shows "v_files V w' = v_files V w"
proof -
  obtain r1 w1 where k: "pm_walk p t w = (r1, w1)" by (cases "pm_walk p t w")
  note 1 = pm_walk_kept[OF L k]
  consider "c \<noteq> None \<or> validatePolicy esc p t iv \<noteq> None"
    | e where "c = None" "validatePolicy esc p t iv = None" "r1 = Inl e"
    | fd leaf ex where "c = None" "validatePolicy esc p t iv = None" "r1 = Inr (fd, leaf, ex)"
    by (cases c; cases "validatePolicy esc p t iv"; cases r1) auto
  then show ?thesis
  proof cases
    case 1
    then show ?thesis using v by (auto simp: pm_ValidateTarget_def split: option.splits)
  next
    case 2
    then show ?thesis using v k 1 by (simp add: pm_ValidateTarget_def)
  next
    case 3
    then have "closing p fd (if \<not> ex then (None, w1) else validateDirectory p fd leaf w1) = (r, w')"
      using v k by (simp add: pm_ValidateTarget_def)
    from closing_files[OF L this] validateDirectory_kept[OF L surjective_pairing] 1 show ?thesis by (simp split: if_splits)
  qed
qed

lemma CreateTarget_kept:
  assumes L: "path_laws V (pm_fs p)" and v: "CreateTarget esc p c t iv w = (r, w')"
  shows "v_files V w' = v_files V w"
proof -
  obtain r0 w0 where a: "pm_ValidateTarget esc p c t iv w = (r0, w0)" by (cases "pm_ValidateTarget esc p c t iv w")
  obtain r1 w1 where k: "pm_walk p t w0 = (r1, w1)" by (cases "pm_walk p t w0")
  note 0 = pm_ValidateTarget_kept[OF L a] pm_walk_kept[OF L k]
  have mk: "files_kept V (fs_mkdirat (pm_fs p) fd n k)" for fd n k using L by (simp add: path_laws_def)
  consider e where "r0 = Some e" | e where "r0 = None" "r1 = Inl e"
    | fd leaf ex where "r0 = None" "r1 = Inr (fd, leaf, ex)" by (cases r0; cases r1) auto
  then show ?thesis
  proof cases
    case 3
    let ?b = "if ex then (case validateDirectory p fd leaf w1 of
                (Some e, w2) \<Rightarrow> (Inl e, w2) | (None, w2) \<Rightarrow> (Inr False, w2))
             else (case fs_mkdirat (pm_fs p) fd leaf 0x1ED w1 of
                (Some e, w2) \<Rightarrow> (Inl (Wrapf ''create target: %w'' [] e), w2)
              | (None, w2) \<Rightarrow> (case validateDirectory p fd leaf w2 of
                  (Some e, w3) \<Rightarrow> (Inl e, w3) | (None, w3) \<Rightarrow> (Inr True, w3)))"
    have cl: "closing p fd ?b = (r, w')" using v a k 3 by (simp add: CreateTarget_def)
    have e: "v_files V (snd ?b) = v_files V w1"
      using validateDirectory_kept[OF L] files_keptD[OF mk] by (auto split: prod.splits option.splits)
    from closing_files[OF L cl] show ?thesis unfolding e using 0 by simp
  qed (use v a k 0 in \<open>simp_all add: CreateTarget_def\<close>)
qed

lemma RemoveTarget_kept:
  assumes L: "path_laws V (pm_fs p)" and v: "RemoveTarget esc p c t created iv w = (r, w')"
  shows "v_files V w' = v_files V w"
proof -
  obtain r0 w0 where a: "pm_ValidateTarget esc p c t iv w = (r0, w0)" by (cases "pm_ValidateTarget esc p c t iv w")
  obtain r1 w1 where k: "pm_walk p t w0 = (r1, w1)" by (cases "pm_walk p t w0")
  note 0 = pm_ValidateTarget_kept[OF L a] pm_walk_kept[OF L k]
  have un: "files_kept V (fs_unlinkat (pm_fs p) fd n AT_REMOVEDIR)" for fd n using L by (simp add: path_laws_def)
  consider "\<not> created" | e where "created" "r0 = Some e" | e where "created" "r0 = None" "r1 = Inl e"
    | fd leaf ex where "created" "r0 = None" "r1 = Inr (fd, leaf, ex)" by (cases created; cases r0; cases r1) auto
  then show ?thesis
  proof cases
    case 4
    let ?b = "if \<not> ex then (None, w1)
             else (case validateDirectory p fd leaf w1 of
                (Some e, w2) \<Rightarrow> (Some e, w2)
              | (None, w2) \<Rightarrow> (case fs_unlinkat (pm_fs p) fd leaf AT_REMOVEDIR w2 of
                  (Some e, w3) \<Rightarrow> (Some (Wrapf ''remove target: %w'' [] e), w3)
                | (None, w3) \<Rightarrow> (None, w3)))"
    have cl: "closing p fd ?b = (r, w')" using v a k 4 by (simp add: RemoveTarget_def)
    have e: "v_files V (snd ?b) = v_files V w1"
      using validateDirectory_kept[OF L] files_keptD[OF un] by (auto split: prod.splits option.splits)
    from closing_files[OF L cl] show ?thesis unfolding e using 0 by simp
  qed (use v a k 0 in \<open>simp_all add: RemoveTarget_def\<close>)
qed

lemma VerifyOwnedArtifacts_kept:
  "os_laws V (env_os E) \<Longrightarrow> VerifyOwnedArtifacts E store d w = (r, w') \<Longrightarrow> v_files V w' = v_files V w"
  using verifyFile_keeps[of V E store] verifyMetadata_keeps[of V E store]
  by (auto simp: VerifyOwnedArtifacts_def split: prod.splits sum.splits option.splits if_splits)

lemma load_entries_kept:
  assumes L: "os_laws V (rm_os m)" and b: "as_beforeLoad (rm_artifacts m) = None"
  shows "load_entries m es w = (r, w') \<Longrightarrow> v_files V w' = v_files V w"
proof (induction es arbitrary: w r w')
  case (Cons e es)
  let ?i = "take (length (de_name e) - length ''.json'') (de_name e)"
  obtain r1 w1 where l: "LoadDefinition (rm_env m) (rm_artifacts m) ?i w = (r1, w1)"
    by (cases "LoadDefinition (rm_env m) (rm_artifacts m) ?i w")
  have k: "v_files V w1 = v_files V w" using LoadDefinition_sound(1)[OF L[unfolded rm_os_def] b l] by blast
  obtain r2 w2 where t: "load_entries m es w1 = (r2, w2)" by (cases "load_entries m es w1")
  obtain r3 w3 where u: "load_entries m es w = (r3, w3)" by (cases "load_entries m es w")
  show ?case using Cons.prems Cons.IH[OF t] Cons.IH[OF u] k l t u
    by (auto simp: Let_def split: sum.splits if_splits)
qed simp

lemma reserve_all_kept:
  "os_laws V (rm_os m) \<Longrightarrow> reserve_all m x ds iv w = (r, w') \<Longrightarrow> v_files V w' = v_files V w"
proof (induction m x ds iv w arbitrary: r w' rule: reserve_all.induct)
  case (2 m x d ds iv w)
  obtain r1 w1 where o: "VerifyOwnedArtifacts (rm_env m) (rm_artifacts m) d w = (r1, w1)"
    by (cases "VerifyOwnedArtifacts (rm_env m) (rm_artifacts m) d w")
  have "os_laws V (env_os (rm_env m)) \<Longrightarrow> v_files V w1 = v_files V w"
    by (rule VerifyOwnedArtifacts_kept[OF _ o])
  with 2 o show ?case by (auto simp: rm_os_def split: if_splits option.splits)
qed simp

lemma rm_inventory_kept:
  assumes H: "host_laws V m" and P: "production m" and i: "rm_inventory m x w = (r, w')"
  shows "v_files V w' = v_files V w"
proof -
  have L: "os_laws V (rm_os m)" and b: "as_beforeLoad (rm_artifacts m) = None"
    using H P by (simp_all add: host_laws_def production_def)
  obtain r1 w1 where s1: "rm_manager m w = (r1, w1)" by (cases "rm_manager m w")
  have 1: "v_files V w1 = v_files V w" using H files_keptD[of V "rm_manager m", OF _ s1] by (simp add: host_laws_def)
  obtain r2 w2 where s2: "rm_definitions m w1 = (r2, w2)" by (cases "rm_definitions m w1")
  obtain r3 w3 where d: "os_read_dir (rm_os m) (as_ManifestRoot (rm_artifacts m)) w1 = (r3, w3)"
    by (cases "os_read_dir (rm_os m) (as_ManifestRoot (rm_artifacts m)) w1")
  have 3: "v_files V w3 = v_files V w1" using keepsD[OF keep_law(4)[OF L] d] by simp
  have 2: "v_files V w2 = v_files V w1"
    using s2 d 3 load_entries_kept[OF L b, of _ w3] by (auto simp: rm_definitions_def split: sum.splits)
  show ?thesis using i s1 s2 1 2 reserve_all_kept[OF L, of x _ _ w2]
    by (auto simp: rm_inventory_def split: sum.splits if_splits)
qed

end
