(* ===== verification/Remote_Lifecycle.thy ===== *)
theory Remote_Lifecycle
  imports Remote_Manager
begin

text \<open>
  What \<open>Create\<close> and \<open>Delete\<close> of the remote mount manager guarantee about the files on disk, over every
  operating system, systemd and storage manager that keep the laws of the previous theories.
\<close>

section \<open>Creation is all or nothing\<close>

text \<open>
  \<open>outside S F w\<close>: the files of \<open>w\<close> are those of \<open>F\<close> except at the paths in \<open>S\<close> and at temporary names.
\<close>

definition outside :: "'w views \<Rightarrow> string set \<Rightarrow> (string \<Rightarrow> disk_file option) \<Rightarrow> 'w \<Rightarrow> bool" where
  "outside V S F w \<longleftrightarrow> (\<forall>p. \<not> temp_name p \<longrightarrow> p \<notin> S \<longrightarrow> v_files V w p = F p)"

definition grows :: "'w views \<Rightarrow> (string \<Rightarrow> disk_file option) \<Rightarrow> 'w \<Rightarrow> bool" where
  "grows V F w \<longleftrightarrow> (\<forall>p f. F p = Some f \<longrightarrow> v_files V w p = Some f)"

text \<open>The undo list \<open>us\<close> removes exactly the files at \<open>S\<close> when none of its entries fails.\<close>

definition undos_remove :: "'w views \<Rightarrow> 'w undo list \<Rightarrow> string set \<Rightarrow> bool" where
  "undos_remove V us S \<longleftrightarrow> (\<forall>w fs w'. run_undos (rev us) w = (fs, w') \<longrightarrow>
     (\<forall>p. p \<notin> S \<longrightarrow> v_files V w' p = v_files V w p) \<and> (fs = [] \<longrightarrow> (\<forall>p\<in>S. v_files V w' p = None)))"

lemma undos_remove_Nil: "undos_remove V [] {}"
  by (simp add: undos_remove_def)

lemma undos_remove_kept:
  assumes us: "undos_remove V us S" and f: "files_kept V f"
  shows "undos_remove V (us @ [(n, f)]) S"
proof -
  have "(\<forall>p. p \<notin> S \<longrightarrow> v_files V w' p = v_files V w p) \<and> (fs = [] \<longrightarrow> (\<forall>p\<in>S. v_files V w' p = None))"
    if r: "run_undos (rev (us @ [(n, f)])) w = (fs, w')" for w fs w'
  proof -
    obtain r1 w1 where o: "f w = (r1, w1)" by (cases "f w")
    obtain fs1 w2 where u: "run_undos (rev us) w1 = (fs1, w2)" by (cases "run_undos (rev us) w1")
    have "w' = w2" "fs = [] \<longrightarrow> fs1 = []" using r o u by (auto split: option.splits)
    then show ?thesis using us[unfolded undos_remove_def, rule_format, OF u] files_keptD[OF f o] by simp
  qed
  then show ?thesis unfolding undos_remove_def by blast
qed

lemma undos_remove_path:
  assumes L: "os_laws V (rm_os m)" and us: "undos_remove V us S"
  shows "undos_remove V (us @ [remove_undo m n path]) (insert (or_empty path) S)"
proof -
  let ?p = "or_empty path"
  have "(\<forall>p. p \<notin> insert ?p S \<longrightarrow> v_files V w' p = v_files V w p) \<and>
      (fs = [] \<longrightarrow> (\<forall>p\<in>insert ?p S. v_files V w' p = None))"
    if r: "run_undos (rev (us @ [remove_undo m n path])) w = (fs, w')" for w fs w'
  proof -
    obtain r1 w1 where o: "os_remove (rm_os m) ?p w = (r1, w1)" by (cases "os_remove (rm_os m) ?p w")
    obtain fs1 w2 where u: "run_undos (rev us) w1 = (fs1, w2)" by (cases "run_undos (rev us) w1")
    have e: "w' = w2" "fs = [] \<longrightarrow> fs1 = [] \<and> r1 = None" using r o u by (auto simp: remove_undo_def split: option.splits)
    note i = us[unfolded undos_remove_def, rule_format, OF u] and x = remove_law[OF L o]
    have "v_files V w2 p = v_files V w p" if "p \<noteq> ?p" "p \<notin> S" for p using i x that by simp
    moreover have "v_files V w2 ?p = None" if "r1 = None" "fs1 = []" using i x that by (cases "?p \<in> S") auto
    ultimately show ?thesis using e i by auto
  qed
  then show ?thesis unfolding undos_remove_def by blast
qed

definition cleanup_error :: "error \<Rightarrow> bool" where
  "cleanup_error e \<longleftrightarrow> (\<exists>x. e = Errorf ''remote mount needs attention: cleanup failed: %s'' [x])"

text \<open>What a failed creation guarantees: nothing outside the artifacts, and nothing left behind.\<close>

definition create_failed :: "'w views \<Rightarrow> string set \<Rightarrow> (string \<Rightarrow> disk_file option) \<Rightarrow> error option \<Rightarrow> 'w \<Rightarrow> bool" where
  "create_failed V A F r w' \<longleftrightarrow> (\<exists>e. r = Some e \<and> outside V A F w' \<and>
     (\<not> cleanup_error e \<longrightarrow> (\<forall>p. \<not> temp_name p \<and> F p = None \<longrightarrow> v_files V w' p = None)))"

definition artifact_paths :: "'w remote_manager \<Rightarrow> remote_definition \<Rightarrow> string set" where
  "artifact_paths m d = {or_empty (MountUnitPath (rm_env m) (rm_artifacts m) d),
     or_empty (AutomountUnitPath (rm_env m) (rm_artifacts m) d), or_empty (ManifestPath (rm_artifacts m) (def_ID d)),
     or_empty (CredentialPath (rm_artifacts m) (def_ID d))}"

lemma outside_mono: "outside V S F w \<Longrightarrow> S \<subseteq> S' \<Longrightarrow> outside V S' F w"
  by (auto simp: outside_def)

lemma outside_trans: "outside V S F w \<Longrightarrow> outside V S (v_files V w) w' \<Longrightarrow> outside V S F w'"
  by (auto simp: outside_def)

lemma writeArtifact_outside:
  assumes L: "os_laws V (env_os E)" and h: "as_rename store = None"
    and s: "writeArtifact E store path contents mode w = (r, w')"
  shows "outside V {path} (v_files V w) w'" and "grows V (v_files V w) w'"
    and "sync_ok (env_os E) \<Longrightarrow> r \<noteq> None \<Longrightarrow> outside V {} (v_files V w) w'"
    and "r = None \<Longrightarrow> \<not> v_special V w path \<Longrightarrow> v_files V w' path = Some (managed_file store contents mode)"
proof -
  consider "v_files V w' = v_files V w" "r = None \<longrightarrow> v_special V w path \<or>
        v_files V w path = Some (managed_file store contents mode)"
    | t where "temp_name t" "v_files V w t = None" "spoiled V t (v_files V w) r w'"
    | "v_files V w path = None" "v_files V w' = (v_files V w)(path \<mapsto> managed_file store contents mode)"
      "sync_ok (env_os E) \<longrightarrow> r = None"
    using writeArtifact_spec[OF L h s] by (elim disjE exE conjE) (erule that; assumption)+
  then have "outside V {path} (v_files V w) w' \<and> grows V (v_files V w) w' \<and>
    (sync_ok (env_os E) \<longrightarrow> r \<noteq> None \<longrightarrow> outside V {} (v_files V w) w') \<and>
    (r = None \<longrightarrow> \<not> v_special V w path \<longrightarrow> v_files V w' path = Some (managed_file store contents mode))"
  proof cases
    case 1
    then show ?thesis by (auto simp: outside_def grows_def)
  next
    case 2
    have g: "v_files V w' p = Some f" if "v_files V w p = Some f" for p f
      using 2 that by (cases "p = t") (auto simp: spoiled_def)
    have "v_files V w' p = v_files V w p" if "\<not> temp_name p" for p using 2 that by (auto simp: spoiled_def)
    moreover have "r \<noteq> None" using 2 by (simp add: spoiled_def)
    ultimately show ?thesis using g by (auto simp: outside_def grows_def)
  next
    case 3
    then show ?thesis by (auto simp: outside_def grows_def)
  qed
  then show "outside V {path} (v_files V w) w'" "grows V (v_files V w) w'"
    "sync_ok (env_os E) \<Longrightarrow> r \<noteq> None \<Longrightarrow> outside V {} (v_files V w) w'"
    "r = None \<Longrightarrow> \<not> v_special V w path \<Longrightarrow> v_files V w' path = Some (managed_file store contents mode)"
    by blast+
qed

text \<open>The writers of the store, seen as one: a path and contents that may fail, then \<open>writeArtifact\<close>.\<close>

definition write_op :: "'w env \<Rightarrow> 'w artifact_store \<Rightarrow> string result \<Rightarrow> string result \<Rightarrow> nat \<Rightarrow> 'w \<Rightarrow>
    error option \<times> 'w" where
  "write_op E store path contents mode w = (case path of Inl e \<Rightarrow> (Some e, w)
     | Inr p \<Rightarrow> (case contents of Inl e \<Rightarrow> (Some e, w) | Inr c \<Rightarrow> writeArtifact E store p c mode w))"

lemma write_ops:
  "WriteMountUnit E store d = write_op E store (MountUnitPath E store d) (RenderMountUnit (env_escape E) d) 0x1A4"
  "WriteAutomountUnit E store d =
     write_op E store (AutomountUnitPath E store d) (RenderAutomountUnit (env_escape E) d) 0x1A4"
  "WriteCredentials E store i u q = write_op E store (CredentialPath store i) (RenderCredentials u q) 0x180"
  "WriteManifest E store d = write_op E store (ManifestPath store (def_ID d))
     (case validateArtifactDefinition E d store of Some e \<Rightarrow> Inl e
      | None \<Rightarrow> map_sum (\<lambda>_. errInvalidManifest) id (marshalManifest E d)) 0x180"
proof -
  have "ManifestPath store (def_ID d) = Inl e \<Longrightarrow> validateArtifactDefinition E d store = Some errInvalidManifest" for e
    by (auto simp: ManifestPath_def validateArtifactDefinition_def split: if_splits)
  moreover have "ManifestPath store (def_ID d) = Inl e \<Longrightarrow> e = errInvalidManifest" for e
    by (auto simp: ManifestPath_def split: if_splits)
  ultimately show "WriteManifest E store d = write_op E store (ManifestPath store (def_ID d))
     (case validateArtifactDefinition E d store of Some e \<Rightarrow> Inl e
      | None \<Rightarrow> map_sum (\<lambda>_. errInvalidManifest) id (marshalManifest E d)) 0x180"
    by (auto simp: fun_eq_iff WriteManifest_def write_op_def split: option.splits sum.splits)
qed (simp_all add: fun_eq_iff write_op_def WriteMountUnit_def WriteAutomountUnit_def WriteCredentials_def)

text \<open>None of the paths is ever a symbolic link or a device.\<close>

definition no_links :: "'w views \<Rightarrow> string set \<Rightarrow> bool" where
  "no_links V A \<longleftrightarrow> (\<forall>w. \<forall>p\<in>A. \<not> v_special V w p)"

lemma write_op_spec:
  assumes L: "os_laws V (env_os E)" and h: "as_rename store = None"
    and s: "write_op E store path contents mode w = (r, w')"
  shows "outside V {or_empty path} (v_files V w) w'" and "grows V (v_files V w) w'"
    and "sync_ok (env_os E) \<Longrightarrow> r \<noteq> None \<Longrightarrow> outside V {} (v_files V w) w'"
    and "r = None \<Longrightarrow> no_links V {or_empty path} \<Longrightarrow> \<exists>c. contents = Inr c \<and> v_files V w' (or_empty path) = Some (managed_file store c mode)"
proof -
  consider e where "r = Some e" "w' = w" | p c where "path = Inr p" "contents = Inr c"
      "writeArtifact E store p c mode w = (r, w')"
    using s by (auto simp: write_op_def split: sum.splits)
  then have "outside V {or_empty path} (v_files V w) w' \<and> grows V (v_files V w) w' \<and>
    (sync_ok (env_os E) \<longrightarrow> r \<noteq> None \<longrightarrow> outside V {} (v_files V w) w') \<and>
    (r = None \<longrightarrow> no_links V {or_empty path} \<longrightarrow> (\<exists>c. contents = Inr c \<and> v_files V w' (or_empty path) = Some (managed_file store c mode)))"
  proof cases
    case 1
    then show ?thesis by (simp add: outside_def grows_def)
  next
    case 2
    show ?thesis using writeArtifact_outside[OF L h 2(3)] 2(1,2) by (auto simp: or_empty_def no_links_def)
  qed
  then show "outside V {or_empty path} (v_files V w) w'" "grows V (v_files V w) w'"
    "sync_ok (env_os E) \<Longrightarrow> r \<noteq> None \<Longrightarrow> outside V {} (v_files V w) w'"
    "r = None \<Longrightarrow> no_links V {or_empty path} \<Longrightarrow> \<exists>c. contents = Inr c \<and> v_files V w' (or_empty path) = Some (managed_file store c mode)"
    by blast+
qed

lemma UpdateManifest_outside:
  assumes L: "os_laws V (env_os E)" and b: "as_beforeLoad store = None" and s: "UpdateManifest E store d w = (r, w')"
  shows "outside V {or_empty (ManifestPath store (def_ID d))} (v_files V w) w'"
  using UpdateManifest_spec[OF L b s]
proof (elim disjE exE conjE)
  fix t assume "temp_name t" "spoiled V t (v_files V w) r w'"
  then show ?thesis by (auto simp: outside_def spoiled_def)
qed (auto simp: outside_def or_empty_def)

lemma rollback_spec:
  assumes H: "host_laws V m" and P: "production m" and us: "undos_remove V us S" "S \<subseteq> A"
    and A: "or_empty (ManifestPath (rm_artifacts m) (def_ID d)) \<in> A" and w: "outside V S F w"
    and s: "rollback m d us written cause w = (r, w')"
  shows "create_failed V A F r w'"
proof -
  have L: "os_laws V (rm_os m)" and h: "as_rename (rm_artifacts m) = None" and b: "as_beforeLoad (rm_artifacts m) = None"
    using H P by (simp_all add: host_laws_def production_def)
  obtain fs1 w1 where u: "run_undos (rev us) w = (fs1, w1)" by (cases "run_undos (rev us) w")
  note 1 = us(1)[unfolded undos_remove_def, rule_format, OF u]
  obtain r2 w2 where dr: "uc_DaemonReload (rm_units m) w1 = (r2, w2)" by (cases "uc_DaemonReload (rm_units m) w1")
  have 2: "v_files V w2 = v_files V w1"
    using H files_keptD[of V "uc_DaemonReload (rm_units m)", OF _ dr] by (simp add: host_laws_def)
  define fs where "fs = fs1 @ (if written \<and> r2 \<noteq> None then [''reload systemd''] else [])"
  define w3 where "w3 = (if written then w2 else w1)"
  have 3: "v_files V w3 = v_files V w1" using 2 by (simp add: w3_def)
  have "outside V S F w3" using 1 3 w by (simp add: outside_def)
  then have oA: "outside V A F w3" using us(2) by (rule outside_mono)
  define w4 where "w4 = (case UpdateManifest (rm_env m) (rm_artifacts m) (attention d) w3 of
                (None, w3) \<Rightarrow> w3
              | (Some _, w3) \<Rightarrow> snd (WriteManifest (rm_env m) (rm_artifacts m) (attention d) w3))"
  have res: "(r, w') = (if fs \<noteq> [] then (Some (Errorf ''remote mount needs attention: cleanup failed: %s''
      [join_with '', '' fs]), w4) else (Some cause, w3))"
    using s u dr by (auto simp: rollback_def fs_def w3_def w4_def split: option.splits)
  show ?thesis
  proof (cases "fs = []")
    case True
    then have "fs1 = []" by (simp add: fs_def)
    have "v_files V w3 p = None" if "\<not> temp_name p" "F p = None" for p
      using 1 3 \<open>fs1 = []\<close> w that by (cases "p \<in> S") (auto simp: outside_def)
    then show ?thesis using res True oA by (auto simp: create_failed_def)
  next
    case False
    let ?mp = "or_empty (ManifestPath (rm_artifacts m) (def_ID d))"
    have i: "def_ID (attention d) = def_ID d" by (simp add: attention_def)
    have "outside V {?mp} (v_files V w3) w4"
    proof -
      obtain r5 w5 where um: "UpdateManifest (rm_env m) (rm_artifacts m) (attention d) w3 = (r5, w5)"
        by (cases "UpdateManifest (rm_env m) (rm_artifacts m) (attention d) w3")
      note 5 = UpdateManifest_outside[OF L[unfolded rm_os_def] b um, unfolded i]
      obtain r6 w6 where wm: "WriteManifest (rm_env m) (rm_artifacts m) (attention d) w5 = (r6, w6)"
        by (cases "WriteManifest (rm_env m) (rm_artifacts m) (attention d) w5")
      note 6 = write_op_spec(1)[OF L[unfolded rm_os_def] h wm[unfolded write_ops], unfolded i]
      have "w4 = (if r5 = None then w5 else w6)" using um wm by (auto simp: w4_def split: option.splits)
      then show ?thesis using 5 outside_trans[OF 5 6] by simp
    qed
    then have "outside V A (v_files V w3) w4" by (rule outside_mono) (simp add: A)
    with oA have "outside V A F w4" by (rule outside_trans)
    then show ?thesis using res False by (auto simp: create_failed_def cleanup_error_def)
  qed
qed

lemma guarded_spec:
  assumes H: "host_laws V m" and P: "production m" and us: "undos_remove V us S" "S \<subseteq> A"
    and A: "or_empty (ManifestPath (rm_artifacts m) (def_ID d)) \<in> A"
    and fail: "\<forall>e w1. op w = (Some e, w1) \<longrightarrow> outside V S F w1"
    and s: "guarded m d us written op rest w = (r, w')"
  shows "create_failed V A F r w' \<or> (\<exists>w1. op w = (None, w1) \<and> rest w1 = (r, w'))"
proof -
  obtain r1 w1 where o: "op w = (r1, w1)" by (cases "op w")
  show ?thesis
  proof (cases r1)
    case None
    then show ?thesis using s o by (simp add: guarded_def)
  next
    case (Some e)
    then show ?thesis using s o rollback_spec[OF H P us A fail[rule_format, OF o[unfolded Some]]] by (simp add: guarded_def)
  qed
qed

text \<open>The steps of \<open>Create\<close> after the target exists, from the last to the first.\<close>

lemma activate_spec:
  assumes H: "host_laws V m" and P: "production m" and us: "undos_remove V us S" "S \<subseteq> A"
    and A: "or_empty (ManifestPath (rm_artifacts m) (def_ID d)) \<in> A" and w: "outside V S F w"
    and s: "activate m d us w = (r, w')"
  shows "create_failed V A F r w' \<or> r = None \<and> v_files V w' = v_files V w"
proof (cases "create_failed V A F r w'")
  case n: False
  let ?u = "automountUnitName (rm_escape m) (def_Target d)"
  let ?us1 = "us @ [(''reload systemd'', uc_DaemonReload (rm_units m))]"
  let ?us2 = "?us1 @ [(''disable automount'', uc_Disable (rm_units m) ?u)]"
  have k: "files_kept V (uc_DaemonReload (rm_units m))" "files_kept V (uc_Disable (rm_units m) ?u)"
    "files_kept V (uc_Enable (rm_units m) ?u)" "files_kept V (uc_Start (rm_units m) ?u)"
    using H by (simp_all add: host_laws_def)
  have keep: "outside V S F y" if "files_kept V f" "f x = (q, y)" "outside V S F x" for f x q y
    using files_keptD[OF that(1,2)] that(3) by (simp add: outside_def)
  have fails: "\<forall>e y. f x = (Some e, y) \<longrightarrow> outside V S F y" if a: "files_kept V f" "outside V S F x" for f x
    by (intro allI impI) (rule keep[OF a(1) _ a(2)])
  note u1 = undos_remove_kept[OF us(1) k(1), of "''reload systemd''"]
  note u2 = undos_remove_kept[OF u1 k(2), of "''disable automount''"]
  from s have s0: "guarded m d us True (uc_DaemonReload (rm_units m))
      (guarded m d ?us1 True (uc_Enable (rm_units m) ?u)
        (guarded m d ?us2 True (uc_Start (rm_units m) ?u) (\<lambda>w. (None, w)))) w = (r, w')"
    by (simp add: activate_def Let_def)
  from guarded_spec[OF H P us A fails[OF k(1) w] s0] n obtain w1 where
    1: "uc_DaemonReload (rm_units m) w = (None, w1)" and s1: "guarded m d ?us1 True (uc_Enable (rm_units m) ?u)
        (guarded m d ?us2 True (uc_Start (rm_units m) ?u) (\<lambda>w. (None, w))) w1 = (r, w')" by blast
  note w1 = keep[OF k(1) 1 w]
  from guarded_spec[OF H P u1 us(2) A fails[OF k(3) w1] s1] n obtain w2 where
    2: "uc_Enable (rm_units m) ?u w1 = (None, w2)"
    and s2: "guarded m d ?us2 True (uc_Start (rm_units m) ?u) (\<lambda>w. (None, w)) w2 = (r, w')" by blast
  note w2 = keep[OF k(3) 2 w1]
  from guarded_spec[OF H P u2 us(2) A fails[OF k(4) w2] s2] n obtain w3 where
    3: "uc_Start (rm_units m) ?u w2 = (None, w3)" "(None, w3) = (r, w')" by blast
  then show ?thesis using files_keptD[OF k(1) 1] files_keptD[OF k(3) 2] files_keptD[OF k(4) 3(1)] by auto
qed simp

text \<open>One write of \<open>Create\<close>: it fails cleanly, or its path joins the paths the undo list removes.\<close>

lemma guarded_write:
  assumes H: "host_laws V m" and P: "production m" and sy: "sync_ok (rm_os m)" and nl: "no_links V A"
    and us: "undos_remove V us S" "S \<subseteq> A"
    and A: "or_empty (ManifestPath (rm_artifacts m) (def_ID d)) \<in> A" "or_empty path \<in> A" and w: "outside V S F w"
    and op: "op = write_op (rm_env m) (rm_artifacts m) path contents mode"
    and s: "guarded m d us written op rest w = (r, w')"
  shows "create_failed V A F r w' \<or> (\<exists>w1 c. rest w1 = (r, w') \<and> outside V (insert (or_empty path) S) F w1 \<and>
    grows V (v_files V w) w1 \<and> contents = Inr c \<and>
    v_files V w1 (or_empty path) = Some (managed_file (rm_artifacts m) c mode) \<and>
    undos_remove V (us @ [remove_undo m name path]) (insert (or_empty path) S) \<and> insert (or_empty path) S \<subseteq> A)"
proof -
  have L: "os_laws V (rm_os m)" and h: "as_rename (rm_artifacts m) = None"
    using H P by (simp_all add: host_laws_def production_def)
  note sp = write_op_spec[OF L[unfolded rm_os_def] h]
  have "outside V S F w1" if "op w = (Some e, w1)" for e w1
    using sp(3)[OF that[unfolded op] sy[unfolded rm_os_def]] w outside_mono[of V "{}" "v_files V w" w1 S]
    by (intro outside_trans[OF w]) simp
  then have f: "\<forall>e w1. op w = (Some e, w1) \<longrightarrow> outside V S F w1" by blast
  from guarded_spec[OF H P us A(1) f s]
  show ?thesis
  proof
    assume "\<exists>w1. op w = (None, w1) \<and> rest w1 = (r, w')"
    then obtain w1 where o: "write_op (rm_env m) (rm_artifacts m) path contents mode w = (None, w1)"
      and rest: "rest w1 = (r, w')" using op by blast
    have "outside V (insert (or_empty path) S) F w1"
      using sp(1)[OF o] w by (auto simp: outside_def)
    moreover note sp(2)[OF o]
    moreover obtain c where "contents = Inr c" "v_files V w1 (or_empty path) = Some (managed_file (rm_artifacts m) c mode)"
      using sp(4)[OF o refl] nl A(2) by (auto simp: no_links_def)
    moreover note undos_remove_path[OF L us(1), of name path]
    ultimately show ?thesis using rest us(2) A(2) by blast
  qed (rule disjI1)
qed

text \<open>The files a successful creation leaves: the two units and the manifest, rendered from the definition.\<close>

definition units_installed :: "'w views \<Rightarrow> 'w remote_manager \<Rightarrow> remote_definition \<Rightarrow> 'w \<Rightarrow> bool" where
  "units_installed V m d w \<longleftrightarrow> (let E = rm_env m; store = rm_artifacts m in
     \<exists>mu au mf. RenderMountUnit (rm_escape m) d = Inr mu \<and> RenderAutomountUnit (rm_escape m) d = Inr au \<and>
       marshalManifest E d = Inr mf \<and>
       v_files V w (or_empty (MountUnitPath E store d)) = Some (managed_file store mu 0x1A4) \<and>
       v_files V w (or_empty (AutomountUnitPath E store d)) = Some (managed_file store au 0x1A4) \<and>
       v_files V w (or_empty (ManifestPath store (def_ID d))) = Some (managed_file store mf 0x180))"

lemma grows_trans: "grows V F w \<Longrightarrow> grows V (v_files V w) w' \<Longrightarrow> grows V F w'"
  by (simp add: grows_def)

lemma write_units_spec:
  assumes H: "host_laws V m" and P: "production m" and sy: "sync_ok (rm_os m)" and nl: "no_links V (artifact_paths m d)"
    and us: "undos_remove V us S" "S \<subseteq> artifact_paths m d" and w: "outside V S F w"
    and s: "write_units m d us w = (r, w')"
  shows "create_failed V (artifact_paths m d) F r w' \<or>
    r = None \<and> grows V (v_files V w) w' \<and> outside V (artifact_paths m d) F w' \<and> units_installed V m d w'"
proof (cases "create_failed V (artifact_paths m d) F r w'")
  case n: False
  let ?E = "rm_env m" and ?st = "rm_artifacts m" and ?A = "artifact_paths m d"
  let ?mp = "MountUnitPath ?E ?st d" and ?ap = "AutomountUnitPath ?E ?st d" and ?fp = "ManifestPath ?st (def_ID d)"
  have A: "or_empty ?fp \<in> ?A" "or_empty ?mp \<in> ?A" "or_empty ?ap \<in> ?A" by (simp_all add: artifact_paths_def)
  have wr: "rm_writer m = store_writer ?E ?st" using P by (simp add: production_def)
  note op = write_ops(1)[of ?E ?st d] write_ops(2)[of ?E ?st d] write_ops(4)[of ?E ?st d]
  note gw = guarded_write[OF H P sy nl]
  have s0: "guarded m d us False (WriteMountUnit ?E ?st d) (guarded m d (us @ [remove_undo m ''remove mount unit'' ?mp]) True
      (WriteAutomountUnit ?E ?st d) (guarded m d ((us @ [remove_undo m ''remove mount unit'' ?mp]) @
        [remove_undo m ''remove automount unit'' ?ap]) True (WriteManifest ?E ?st d) (activate m d
          (((us @ [remove_undo m ''remove mount unit'' ?mp]) @ [remove_undo m ''remove automount unit'' ?ap]) @
            [remove_undo m ''remove manifest'' ?fp])))) w = (r, w')"
    using s by (simp add: write_units_def Let_def wr store_writer_def)
  from gw[OF us A(1,2) w op(1) s0, where name = "''remove mount unit''"] n obtain w1 mu where
    s1: "guarded m d (us @ [remove_undo m ''remove mount unit'' ?mp]) True
      (WriteAutomountUnit ?E ?st d) (guarded m d ((us @ [remove_undo m ''remove mount unit'' ?mp]) @
        [remove_undo m ''remove automount unit'' ?ap]) True (WriteManifest ?E ?st d) (activate m d
          (((us @ [remove_undo m ''remove mount unit'' ?mp]) @ [remove_undo m ''remove automount unit'' ?ap]) @
            [remove_undo m ''remove manifest'' ?fp]))) w1 = (r, w')"
    and o1: "outside V (insert (or_empty ?mp) S) F w1" and g1: "grows V (v_files V w) w1"
    and c1: "RenderMountUnit (env_escape ?E) d = Inr mu" "v_files V w1 (or_empty ?mp) = Some (managed_file ?st mu 0x1A4)"
    and u1: "undos_remove V (us @ [remove_undo m ''remove mount unit'' ?mp]) (insert (or_empty ?mp) S)"
      "insert (or_empty ?mp) S \<subseteq> ?A" by blast
  from gw[OF u1 A(1,3) o1 op(2) s1, where name = "''remove automount unit''"] n obtain w2 au where
    s2: "guarded m d ((us @ [remove_undo m ''remove mount unit'' ?mp]) @
        [remove_undo m ''remove automount unit'' ?ap]) True (WriteManifest ?E ?st d) (activate m d
          (((us @ [remove_undo m ''remove mount unit'' ?mp]) @ [remove_undo m ''remove automount unit'' ?ap]) @
            [remove_undo m ''remove manifest'' ?fp])) w2 = (r, w')"
    and o2: "outside V (insert (or_empty ?ap) (insert (or_empty ?mp) S)) F w2" and g2: "grows V (v_files V w1) w2"
    and c2: "RenderAutomountUnit (env_escape ?E) d = Inr au" "v_files V w2 (or_empty ?ap) = Some (managed_file ?st au 0x1A4)"
    and u2: "undos_remove V ((us @ [remove_undo m ''remove mount unit'' ?mp]) @ [remove_undo m ''remove automount unit'' ?ap])
        (insert (or_empty ?ap) (insert (or_empty ?mp) S))" "insert (or_empty ?ap) (insert (or_empty ?mp) S) \<subseteq> ?A" by blast
  from gw[OF u2 A(1,1) o2 op(3) s2, where name = "''remove manifest''"] n obtain w3 mf where
    s3: "activate m d (((us @ [remove_undo m ''remove mount unit'' ?mp]) @ [remove_undo m ''remove automount unit'' ?ap]) @
            [remove_undo m ''remove manifest'' ?fp]) w3 = (r, w')"
    and o3: "outside V (insert (or_empty ?fp) (insert (or_empty ?ap) (insert (or_empty ?mp) S))) F w3"
    and g3: "grows V (v_files V w2) w3"
    and c3: "(case validateArtifactDefinition ?E d ?st of Some e \<Rightarrow> Inl e
      | None \<Rightarrow> map_sum (\<lambda>_. errInvalidManifest) id (marshalManifest ?E d)) = Inr mf"
      "v_files V w3 (or_empty ?fp) = Some (managed_file ?st mf 0x180)"
    and u3: "undos_remove V (((us @ [remove_undo m ''remove mount unit'' ?mp]) @ [remove_undo m ''remove automount unit'' ?ap]) @
            [remove_undo m ''remove manifest'' ?fp]) (insert (or_empty ?fp) (insert (or_empty ?ap) (insert (or_empty ?mp) S)))"
      "insert (or_empty ?fp) (insert (or_empty ?ap) (insert (or_empty ?mp) S)) \<subseteq> ?A" by blast
  from activate_spec[OF H P u3 A(1) o3 s3] n have f: "r = None" "v_files V w' = v_files V w3" by blast+
  have "marshalManifest ?E d = Inr mf" using c3(1) by (auto split: option.splits)
  then have "units_installed V m d w3"
    using c1 c2 c3(2) g2 g3 by (auto simp: units_installed_def Let_def grows_def rm_escape_def)
  moreover note grows_trans[OF grows_trans[OF g1 g2] g3]
  moreover have "outside V ?A F w3" using o3 u3(2) by (rule outside_mono)
  ultimately show ?thesis using f by (auto simp: units_installed_def Let_def grows_def outside_def)
qed simp

text \<open>With a password the credential file is written before the units.\<close>

definition credentials_installed :: "'w views \<Rightarrow> 'w remote_manager \<Rightarrow> create_request \<Rightarrow> remote_definition \<Rightarrow> 'w \<Rightarrow> bool" where
  "credentials_installed V m request d w \<longleftrightarrow> (req_Password request \<noteq> [] \<longrightarrow>
     (\<exists>c. RenderCredentials (req_Username request) (req_Password request) = Inr c \<and>
       v_files V w (or_empty (CredentialPath (rm_artifacts m) (def_ID d))) = Some (managed_file (rm_artifacts m) c 0x180)))"

lemma write_all_spec:
  assumes H: "host_laws V m" and P: "production m" and sy: "sync_ok (rm_os m)" and nl: "no_links V (artifact_paths m d)"
    and us: "undos_remove V us {}" and s: "write_all m request d us w = (r, w')"
  shows "create_failed V (artifact_paths m d) (v_files V w) r w' \<or>
    r = None \<and> grows V (v_files V w) w' \<and> outside V (artifact_paths m d) (v_files V w) w' \<and>
    units_installed V m d w' \<and> credentials_installed V m request d w'"
proof -
  let ?A = "artifact_paths m d" and ?cp = "CredentialPath (rm_artifacts m) (def_ID d)"
  have o: "outside V {} (v_files V w) w" by (simp add: outside_def)
  show ?thesis
  proof (cases "req_Password request = []")
    case True
    then have "write_units m d us w = (r, w')" using s by (simp add: write_all_def)
    from write_units_spec[OF H P sy nl us empty_subsetI o this] True show ?thesis
      by (auto simp: credentials_installed_def)
  next
    case False
    let ?us = "us @ [remove_undo m ''remove credentials'' ?cp]"
    have A: "or_empty (ManifestPath (rm_artifacts m) (def_ID d)) \<in> ?A" "or_empty ?cp \<in> ?A"
      by (simp_all add: artifact_paths_def)
    have s0: "guarded m d us False (WriteCredentials (rm_env m) (rm_artifacts m) (def_ID d) (req_Username request)
        (req_Password request)) (write_units m d ?us) w = (r, w')"
      using s False P by (simp add: write_all_def production_def store_writer_def)
    show ?thesis
    proof (rule disjE[OF guarded_write[OF H P sy nl us empty_subsetI A o write_ops(3) s0,
            where name = "''remove credentials''"]], rule disjI1, assumption, elim exE conjE)
      fix w1 c
      assume s1: "write_units m d ?us w1 = (r, w')" and o1: "outside V {or_empty ?cp} (v_files V w) w1"
        and g1: "grows V (v_files V w) w1"
        and c: "RenderCredentials (req_Username request) (req_Password request) = Inr c"
          "v_files V w1 (or_empty ?cp) = Some (managed_file (rm_artifacts m) c 0x180)"
        and u1: "undos_remove V ?us {or_empty ?cp}" "{or_empty ?cp} \<subseteq> ?A"
      from write_units_spec[OF H P sy nl u1 o1 s1] show ?thesis
      proof (elim disjE conjE)
        assume g2: "grows V (v_files V w1) w'" and k: "r = None" "outside V ?A (v_files V w) w'" "units_installed V m d w'"
        have "credentials_installed V m request d w'"
          using c g2 by (simp add: credentials_installed_def grows_def)
        then show ?thesis using k grows_trans[OF g1 g2] by blast
      qed blast
    qed
  qed
qed

lemma artifact_paths_created [simp]: "artifact_paths m (d\<lparr>def_CreatedTarget := c\<rparr>) = artifact_paths m d"
proof -
  have "validateArtifactDefinition E (d\<lparr>def_CreatedTarget := c\<rparr>) store = validateArtifactDefinition E d store"
    for E :: "'a env" and store by (simp add: validateArtifactDefinition_def split: sum.split)
  then show ?thesis by (simp add: artifact_paths_def MountUnitPath_def AutomountUnitPath_def split: option.split)
qed

lemma create_unchanged:
  assumes "v_files V w' = F"
  shows "create_failed V A F (Some e) w'"
  using assms by (simp add: create_failed_def outside_def)

text \<open>The checks of \<open>Create\<close> before the first write leave the files as they were.\<close>

lemma rm_Create_steps:
  assumes H: "host_laws V m" and P: "production m" and d: "rm_definition m request = Inr d"
    and s: "rm_Create m request w = (r, w')"
  shows "create_failed V A (v_files V w) r w' \<or> (\<exists>created us w1. v_files V w1 = v_files V w \<and>
    undos_remove V us {} \<and> write_all m request (d\<lparr>def_CreatedTarget := created\<rparr>) us w1 = (r, w'))"
proof -
  have pl: "path_laws V (rm_linux m)" using H by (simp add: host_laws_def)
  obtain r1 w1 where i: "rm_inventory m None w = (r1, w1)" by (cases "rm_inventory m None w")
  note k1 = rm_inventory_kept[OF H P i]
  show ?thesis
  proof (cases "\<exists>iv paths. r1 = Inr iv \<and> \<not> list_ex (\<lambda>(name, owner). owner = def_ID d) (inv_UnitOwners iv) \<and>
      NewPathManager (rm_linux m) (def_ID d) = Inr paths")
    case False
    then have "\<exists>e. r = Some e \<and> w' = w1" using s d i
      by (auto simp: rm_Create_def split: sum.splits if_splits)
    then show ?thesis using create_unchanged[OF k1] by blast
  next
    case True
    then obtain iv paths where iv: "r1 = Inr iv" "\<not> list_ex (\<lambda>(name, owner). owner = def_ID d) (inv_UnitOwners iv)"
      and p: "NewPathManager (rm_linux m) (def_ID d) = Inr paths" by blast
    have fs: "path_laws V (pm_fs paths)" using p pl by (auto simp: NewPathManager_def split: option.splits)
    obtain r2 w2 where v: "pm_ValidateTarget (rm_escape m) paths (rm_ctx m w1) (def_Target d) (Some iv) w1 = (r2, w2)"
      by (cases "pm_ValidateTarget (rm_escape m) paths (rm_ctx m w1) (def_Target d) (Some iv) w1")
    note k2 = pm_ValidateTarget_kept[OF fs v]
    obtain r3 w3 where c: "CreateTarget (rm_escape m) paths (rm_ctx m w2) (def_Target d) (Some iv) w2 = (r3, w3)"
      by (cases "CreateTarget (rm_escape m) paths (rm_ctx m w2) (def_Target d) (Some iv) w2")
    note k3 = CreateTarget_kept[OF fs c]
    show ?thesis
    proof (cases "\<exists>created. r2 = None \<and> render_checks m request d = None \<and> r3 = Inr created")
      case False
      then consider e where "r2 = Some e" | e where "r2 = None" "render_checks m request d = Some e"
        | e where "r2 = None" "render_checks m request d = None" "r3 = Inl e"
        by (cases r2; cases "render_checks m request d"; cases r3) auto
      then have "\<exists>e. r = Some e \<and> (w' = w2 \<or> w' = w3)"
      proof cases
        case (2 e)
        then have "(Some e, w2) = (r, w')" using s d i iv p v c by (simp add: rm_Create_def)
        then show ?thesis by blast
      qed (use s d i iv p v c in \<open>auto simp: rm_Create_def\<close>)
      then show ?thesis using create_unchanged k1 k2 k3 by (metis (no_types))
    next
      case True
      then obtain created where t: "r2 = None" "render_checks m request d = None" "r3 = Inr created" by blast
      let ?us = "if created then [(''remove target'', \<lambda>w. RemoveTarget (rm_escape m) paths (rm_ctx m w)
          (def_Target d) True (Some iv) w)] else []"
      have a: "write_all m request (d\<lparr>def_CreatedTarget := created\<rparr>) ?us w3 = (r, w')"
        using s d i iv p v c t by (simp add: rm_Create_def Let_def split: if_splits)
      have u: "undos_remove V ?us {}"
      proof (cases created)
        case True
        have "files_kept V (\<lambda>w. RemoveTarget (rm_escape m) paths (rm_ctx m w) (def_Target d) True (Some iv) w)"
          unfolding files_kept_def using RemoveTarget_kept[OF fs] by (metis prod.collapse)
        from undos_remove_kept[OF undos_remove_Nil this] True show ?thesis by simp
      qed (simp add: undos_remove_Nil)
      have "v_files V w3 = v_files V w" using k1 k2 k3 by simp
      then show ?thesis by (intro disjI2 exI conjI) (assumption | rule u a)+
    qed
  qed
qed

text \<open>
  C5. \<open>Create\<close> is all or nothing on disk. A successful creation leaves every earlier file as it was and
  installs the mount unit, the automount unit and the manifest rendered from the definition (and the
  credential file when the request has a password), with the store's owner and the modes 0644 and 0600. A
  failed creation changes nothing outside the artifact paths of the definition, and, unless its own error says
  that the cleanup failed, no file remains that was not there before: every write that succeeded was undone,
  whichever later step failed (temporary names aside). No artifact path is a symbolic link, and opening and flushing
  a directory are assumed not to fail, since a writer that cannot flush reports an error for a file it has installed.
\<close>

theorem create_atomic:
  assumes H: "host_laws V m" and P: "production m" and sy: "sync_ok (rm_os m)"
    and d: "rm_definition m request = Inr d" and nl: "no_links V (artifact_paths m d)"
    and s: "rm_Create m request w = (r, w')"
  shows "case r of
      None \<Rightarrow> grows V (v_files V w) w' \<and> outside V (artifact_paths m d) (v_files V w) w' \<and>
        credentials_installed V m request d w' \<and>
        (\<exists>created. units_installed V m (d\<lparr>def_CreatedTarget := created\<rparr>) w')
    | Some e \<Rightarrow> outside V (artifact_paths m d) (v_files V w) w' \<and>
        (cleanup_error e \<or> (\<forall>p. temp_name p \<or> v_files V w p \<noteq> None \<or> v_files V w' p = None))"
proof -
  have fin: ?thesis if f: "create_failed V (artifact_paths m d) (v_files V w) r w'"
  proof -
    from f obtain e where e: "r = Some e" "outside V (artifact_paths m d) (v_files V w) w'"
      and n: "\<not> cleanup_error e \<longrightarrow> (\<forall>p. \<not> temp_name p \<and> v_files V w p = None \<longrightarrow> v_files V w' p = None)"
      by (auto simp: create_failed_def)
    from n have "cleanup_error e \<or> (\<forall>p. temp_name p \<or> v_files V w p \<noteq> None \<or> v_files V w' p = None)" by metis
    with e show ?thesis by simp
  qed
  from rm_Create_steps[OF H P d s, where A = "artifact_paths m d"] show ?thesis
  proof (elim disjE exE conjE)
    fix created us w1 assume k: "v_files V w1 = v_files V w" and us: "undos_remove V us {}"
      and a: "write_all m request (d\<lparr>def_CreatedTarget := created\<rparr>) us w1 = (r, w')"
    have "no_links V (artifact_paths m (d\<lparr>def_CreatedTarget := created\<rparr>))" using nl by simp
    from write_all_spec[OF H P sy this us a] show ?thesis
    proof (elim disjE)
      assume "r = None \<and> grows V (v_files V w1) w' \<and>
        outside V (artifact_paths m (d\<lparr>def_CreatedTarget := created\<rparr>)) (v_files V w1) w' \<and>
        units_installed V m (d\<lparr>def_CreatedTarget := created\<rparr>) w' \<and>
        credentials_installed V m request (d\<lparr>def_CreatedTarget := created\<rparr>) w'"
      then show ?thesis using k by (auto simp: credentials_installed_def)
    qed (use k fin in simp)
  qed (rule fin)
qed

section \<open>Deletion removes only what is managed\<close>

text \<open>Documented behaviour of \<open>os.Remove\<close>: it reports a missing file only when there is none.\<close>

definition remove_absent :: "'w views \<Rightarrow> 'w os \<Rightarrow> bool" where
  "remove_absent V O' \<longleftrightarrow> (\<forall>p w e w'. os_remove O' p w = (Some e, w') \<longrightarrow> errors_is e ErrNotExist \<longrightarrow> v_files V w p = None)"

text \<open>The files a deletion may remove besides the manifest, and the manifest that records its failure.\<close>

definition removable :: "'w remote_manager \<Rightarrow> remote_definition \<Rightarrow> string \<Rightarrow> disk_file \<Rightarrow> bool" where
  "removable m d p f \<longleftrightarrow> (let E = rm_env m; store = rm_artifacts m in
     (\<exists>c. f = managed_file store c 0x1A4 \<and>
       (p = or_empty (MountUnitPath E store d) \<and> RenderMountUnit (rm_escape m) d = Inr c \<or>
        p = or_empty (AutomountUnitPath E store d) \<and> RenderAutomountUnit (rm_escape m) d = Inr c)) \<or>
     p = or_empty (CredentialPath store (def_ID d)) \<and> def_Username d \<noteq> [] \<and> (\<exists>c. f = managed_file store c 0x180))"

definition marked :: "'w remote_manager \<Rightarrow> remote_definition \<Rightarrow> disk_file option \<Rightarrow> bool" where
  "marked m d f \<longleftrightarrow> (\<exists>c. marshalManifest (rm_env m) (attention d) = Inr c \<and> f = Some (managed_file (rm_artifacts m) c 0x180))"

abbreviation manifest_of :: "'w remote_manager \<Rightarrow> remote_definition \<Rightarrow> string" where
  "manifest_of m d \<equiv> or_empty (ManifestPath (rm_artifacts m) (def_ID d))"

lemma attention_simps [simp]: "attention (attention d) = attention d" "def_ID (attention d) = def_ID d"
  "def_Username (attention d) = def_Username d" "marked m (attention d) = marked m d"
  by (simp_all add: attention_def marked_def fun_eq_iff)

lemma persistAttention_spec:
  assumes H: "host_laws V m" and P: "production m" and nl: "no_links V {manifest_of m d}"
    and s: "persistAttention m d w = (r, w')"
  shows "outside V {manifest_of m d} (v_files V w) w'"
    and "v_files V w (manifest_of m d) \<noteq> None \<Longrightarrow>
      v_files V w' (manifest_of m d) = v_files V w (manifest_of m d) \<or> marked m d (v_files V w' (manifest_of m d))"
    and "r = None \<Longrightarrow> marked m d (v_files V w' (manifest_of m d))"
proof -
  let ?mp = "manifest_of m d"
  have L: "os_laws V (env_os (rm_env m))" and h: "as_rename (rm_artifacts m) = None" and b: "as_beforeLoad (rm_artifacts m) = None"
    using H P by (simp_all add: host_laws_def production_def rm_os_def)
  obtain r1 w1 where u: "UpdateManifest (rm_env m) (rm_artifacts m) (attention d) w = (r1, w1)"
    by (cases "UpdateManifest (rm_env m) (rm_artifacts m) (attention d) w")
  note o1 = UpdateManifest_outside[OF L b u, simplified]
  have m1: "v_files V w1 ?mp = v_files V w ?mp \<and> r1 \<noteq> None \<or> marked m d (v_files V w1 ?mp)"
    using UpdateManifest_spec[OF L b u]
  proof (elim disjE exE conjE)
    fix t assume t: "temp_name t" "v_files V w t = None" "spoiled V t (v_files V w) r1 w1"
    have "?mp \<noteq> t"
    proof (cases "ManifestPath (rm_artifacts m) (def_ID d)")
      case (Inl e)
      then show ?thesis using t(1) by (auto simp: or_empty_def temp_name_def path_base_def)
    next
      case (Inr p)
      then show ?thesis using t(1) ManifestPath_base[OF Inr] by (auto simp: or_empty_def)
    qed
    then show ?thesis using t(3) by (simp add: spoiled_def)
  qed (auto simp: marked_def or_empty_def)
  obtain r2 w2 where x: "WriteManifest (rm_env m) (rm_artifacts m) (attention d) w1 = (r2, w2)"
    by (cases "WriteManifest (rm_env m) (rm_artifacts m) (attention d) w1")
  note x' = write_op_spec[OF L h x[unfolded write_ops], simplified]
  have m2: "marked m d (v_files V w2 ?mp)" if r2: "r2 = None"
  proof -
    from x'(4)[OF r2 nl] obtain c where "(case validateArtifactDefinition (rm_env m) (attention d) (rm_artifacts m) of Some e \<Rightarrow> Inl e
      | None \<Rightarrow> map_sum (\<lambda>_. errInvalidManifest) id (marshalManifest (rm_env m) (attention d))) = Inr c"
      and c: "v_files V w2 ?mp = Some (managed_file (rm_artifacts m) c 0x180)" by auto
    then have "marshalManifest (rm_env m) (attention d) = Inr c" by (auto split: option.splits)
    then show ?thesis using c by (simp add: marked_def)
  qed
  have e: "w' = (if r1 = None then w1 else w2)" "r = (if r1 = None then None else r2)"
    using s u x by (auto simp: persistAttention_def split: option.splits)
  show "outside V {?mp} (v_files V w) w'" using e(1) o1 outside_trans[OF o1 x'(1)] by simp
  have g: "v_files V w2 ?mp = v_files V w1 ?mp" if "v_files V w1 ?mp \<noteq> None"
    using x'(2) that by (auto simp: grows_def)
  show "v_files V w' ?mp = v_files V w ?mp \<or> marked m d (v_files V w' ?mp)" if "v_files V w ?mp \<noteq> None"
    using e(1) m1 g that by (auto simp: marked_def)
  show "marked m d (v_files V w' ?mp)" if "r = None"
    using e m1 m2 that by (auto split: if_splits)
qed

text \<open>
  The invariant of a deletion that has marked its manifest: the manifest is on disk with the mark, and any
  other file is as before or was one of the removable ones.
\<close>

definition deleting :: "'w views \<Rightarrow> 'w remote_manager \<Rightarrow> remote_definition \<Rightarrow> (string \<Rightarrow> disk_file option) \<Rightarrow> 'w \<Rightarrow> bool" where
  "deleting V m d F w \<longleftrightarrow> marked m d (v_files V w (manifest_of m d)) \<and>
     (\<forall>p. temp_name p \<or> p = manifest_of m d \<or> v_files V w p = F p \<or>
        v_files V w p = None \<and> (\<exists>f. F p = Some f \<and> removable m d p f))"

definition drops :: "'w views \<Rightarrow> (string \<Rightarrow> disk_file \<Rightarrow> bool) \<Rightarrow> 'w \<Rightarrow> 'w \<Rightarrow> bool" where
  "drops V Q w w' \<longleftrightarrow> v_files V w' = v_files V w \<or>
     (\<exists>p f. v_files V w p = Some f \<and> Q p f \<and> v_files V w' = (v_files V w)(p := None))"

definition manifest_apart :: "'w remote_manager \<Rightarrow> remote_definition \<Rightarrow> bool" where
  "manifest_apart m d \<longleftrightarrow> (let E = rm_env m; store = rm_artifacts m in manifest_of m d \<notin>
     {or_empty (MountUnitPath E store d), or_empty (AutomountUnitPath E store d), or_empty (CredentialPath store (def_ID d))})"

lemma deleting_drops:
  assumes a: "manifest_apart m d" and J: "deleting V m d F w" and d: "drops V (removable m d) w w'"
  shows "deleting V m d F w'"
  using d unfolding drops_def
proof (elim disjE exE conjE)
  fix p f assume p: "v_files V w p = Some f" "removable m d p f" and e: "v_files V w' = (v_files V w)(p := None)"
  have "p \<noteq> manifest_of m d" using a p(2) by (auto simp: manifest_apart_def removable_def Let_def)
  moreover have "temp_name p \<or> F p = Some f" using J p(1) \<open>p \<noteq> manifest_of m d\<close> by (auto simp: deleting_def)
  ultimately show ?thesis using J p(2) by (auto simp: deleting_def e)
qed (use J in \<open>simp add: deleting_def\<close>)

lemma removeVerifiedArtifact_spec:
  assumes L: "os_laws V (rm_os m)" and ab: "remove_absent V (rm_os m)"
    and s: "removeVerifiedArtifact m path contents mode w = (r, w')"
  shows "v_files V w' = v_files V w \<and> (r = None \<longrightarrow> v_files V w path = None) \<or>
    r = None \<and> v_files V w' = (v_files V w)(path := None) \<and>
    (\<exists>c. v_files V w path = Some (managed_file (rm_artifacts m) c mode) \<and> contents \<in> {None, Some c})"
proof -
  obtain r1 w1 where l: "os_lstat (rm_os m) path w = (r1, w1)" by (cases "os_lstat (rm_os m) path w")
  note k1 = keepsD[OF keep_law(3)[OF L] l]
  let ?v = "case contents of None \<Rightarrow> verifyMetadata (rm_env m) (rm_artifacts m) path mode w1
           | Some c \<Rightarrow> verifyFile (rm_env m) (rm_artifacts m) path c mode w1"
  obtain r2 w2 where v: "?v = (r2, w2)" by (cases ?v)
  have k2: "v_files V w2 = v_files V w1"
    using v verifyMetadata_keeps[OF L[unfolded rm_os_def]] verifyFile_keeps[OF L[unfolded rm_os_def]]
    by (auto split: option.splits)
  obtain r3 w3 where x: "os_remove (rm_os m) path w2 = (r3, w3)" by (cases "os_remove (rm_os m) path w2")
  note k3 = remove_law[OF L x]
  consider e where "r1 = Inl e" | info where "r1 = Inr info" "\<not> fi_regular info"
    | info e where "r1 = Inr info" "fi_regular info" "r2 = Some e"
    | info where "r1 = Inr info" "fi_regular info" "r2 = None" by (cases r1; cases r2) auto
  then show ?thesis
  proof cases
    case 1
    then show ?thesis using s l k1 read_law(4)[OF L l[unfolded 1]]
      by (auto simp: removeVerifiedArtifact_def split: if_splits)
  next
    case 2
    then show ?thesis using s l k1 by (auto simp: removeVerifiedArtifact_def)
  next
    case 3
    then show ?thesis using s l v k1 k2 by (auto simp: removeVerifiedArtifact_def)
  next
    case 4
    have "\<not> v_special V w1 path" using read_law(5)[OF L l[unfolded 4] 4(2)] k1 by simp
    then obtain c where c: "v_files V w1 path = Some (managed_file (rm_artifacts m) c mode)" "contents \<in> {None, Some c}"
      using v verifyMetadata_sound[OF L[unfolded rm_os_def], of _ path mode w1 w2]
        verifyFile_sound[OF L[unfolded rm_os_def], of _ path _ mode w1 w2] 4(3)
      by (auto split: option.splits) metis
    have e: "(r, w') = (if \<exists>e. r3 = Some e \<and> errors_is e ErrNotExist then None else r3, w3)"
      using s l v x 4 by (auto simp: removeVerifiedArtifact_def split: option.splits)
    show ?thesis
    proof (cases r3)
      case None
      then show ?thesis using e k1 k2 k3 c by (auto intro!: exI[of _ c])
    next
      case (Some e')
      have "v_files V w2 path = None" if "errors_is e' ErrNotExist"
        using ab[unfolded remove_absent_def, rule_format, OF x[unfolded Some] that] .
      then show ?thesis using e k1 k2 k3 Some c by (auto split: if_splits)
    qed
  qed
qed

text \<open>The removals of \<open>Delete\<close> drop removable files only, and a successful one leaves none.\<close>

definition removal :: "'w views \<Rightarrow> (string \<Rightarrow> disk_file \<Rightarrow> bool) \<Rightarrow> string \<Rightarrow> ('w \<Rightarrow> error option \<times> 'w) \<Rightarrow> bool" where
  "removal V Q path op \<longleftrightarrow> (\<forall>w r w'. op w = (r, w') \<longrightarrow> drops V Q w w' \<and> (r = None \<longrightarrow> v_files V w' path = None))"

lemma removal_units:
  assumes L: "os_laws V (rm_os m)" and ab: "remove_absent V (rm_os m)"
  shows "removal V (removable m d) (or_empty (MountUnitPath (rm_env m) (rm_artifacts m) d))
      (rendered_removal m (MountUnitPath (rm_env m) (rm_artifacts m) d) (RenderMountUnit (rm_escape m) d))"
    and "removal V (removable m d) (or_empty (AutomountUnitPath (rm_env m) (rm_artifacts m) d))
      (rendered_removal m (AutomountUnitPath (rm_env m) (rm_artifacts m) d) (RenderAutomountUnit (rm_escape m) d))"
    and "def_Username d \<noteq> [] \<Longrightarrow> removal V (removable m d) (or_empty (CredentialPath (rm_artifacts m) (def_ID d)))
      (removeVerifiedArtifact m (or_empty (CredentialPath (rm_artifacts m) (def_ID d))) None 0x180)"
proof -
  note sp = removeVerifiedArtifact_spec[OF L ab]
  have one: "drops V Q w w' \<and> (r = None \<longrightarrow> v_files V w' p = None)"
    if x: "removeVerifiedArtifact m p contents mode w = (r, w')"
      and q: "\<forall>c. contents \<in> {None, Some c} \<longrightarrow> Q p (managed_file (rm_artifacts m) c mode)" for p contents mode w r w' Q
    using sp[OF x]
  proof (elim disjE exE conjE)
    fix c assume "v_files V w' = (v_files V w)(p := None)" "v_files V w p = Some (managed_file (rm_artifacts m) c mode)"
      "contents \<in> {None, Some c}"
    then show ?thesis using q by (auto simp: drops_def)
  qed (simp add: drops_def)
  have ren: "removal V (removable m d) (or_empty path) (rendered_removal m path rendered)"
    if q: "\<forall>c. rendered = Inr c \<longrightarrow> removable m d (or_empty path) (managed_file (rm_artifacts m) c 0x1A4)" for path rendered
  proof (cases rendered)
    case (Inl e)
    then show ?thesis by (auto simp: removal_def rendered_removal_def drops_def)
  next
    case (Inr c)
    show ?thesis unfolding removal_def rendered_removal_def Inr sum.case
      by (intro allI impI) (erule one, use q Inr in simp)
  qed
  show "removal V (removable m d) (or_empty (MountUnitPath (rm_env m) (rm_artifacts m) d))
      (rendered_removal m (MountUnitPath (rm_env m) (rm_artifacts m) d) (RenderMountUnit (rm_escape m) d))"
    "removal V (removable m d) (or_empty (AutomountUnitPath (rm_env m) (rm_artifacts m) d))
      (rendered_removal m (AutomountUnitPath (rm_env m) (rm_artifacts m) d) (RenderAutomountUnit (rm_escape m) d))"
    by (rule ren; auto simp: removable_def Let_def)+
  show "removal V (removable m d) (or_empty (CredentialPath (rm_artifacts m) (def_ID d)))
      (removeVerifiedArtifact m (or_empty (CredentialPath (rm_artifacts m) (def_ID d))) None 0x180)"
    if "def_Username d \<noteq> []"
    unfolding removal_def
    by (intro allI impI) (erule one, use that in \<open>auto simp: removable_def Let_def\<close>)
qed

lemma removal_kept: "files_kept V op \<Longrightarrow> op w = (r, w') \<Longrightarrow> drops V Q w w'"
  by (simp add: drops_def files_keptD)

lemma retained_drops:
  assumes H: "host_laws V m" and P: "production m" and nl: "no_links V {manifest_of m d}" and a: "manifest_apart m (attention d)"
    and J: "deleting V m (attention d) F w" and op: "\<forall>r1 w1. op w = (r1, w1) \<longrightarrow> drops V (removable m (attention d)) w w1"
    and s: "retained m (attention d) op rest w = (r, w')"
  shows "r \<noteq> None \<and> deleting V m (attention d) F w' \<or>
    (\<exists>w1. op w = (None, w1) \<and> deleting V m (attention d) F w1 \<and> rest w1 = (r, w'))"
proof -
  obtain r1 w1 where o: "op w = (r1, w1)" by (cases "op w")
  have J1: "deleting V m (attention d) F w1" using deleting_drops[OF a J] op o by blast
  show ?thesis
  proof (cases r1)
    case None
    then show ?thesis using s o J1 by (simp add: retained_def)
  next
    case (Some e)
    obtain r2 w2 where p: "persistAttention m (attention d) w1 = (r2, w2)" by (cases "persistAttention m (attention d) w1")
    have nl': "no_links V {manifest_of m (attention d)}" using nl by simp
    note k = persistAttention_spec[OF H P nl' p, simplified]
    have "deleting V m (attention d) F w2" unfolding deleting_def
    proof (intro conjI allI)
      show "marked m (attention d) (v_files V w2 (manifest_of m (attention d)))"
        using k(2) J1 by (auto simp: deleting_def marked_def)
      fix q show "temp_name q \<or> q = manifest_of m (attention d) \<or> v_files V w2 q = F q \<or>
          v_files V w2 q = None \<and> (\<exists>f. F q = Some f \<and> removable m (attention d) q f)"
        using k(1) J1 by (simp add: deleting_def outside_def) metis
    qed
    then show ?thesis using s o Some p by (auto simp: retained_def retainAttention_def)
  qed
qed

lemma delete_target_kept:
  assumes H: "host_laws V m" and P: "production m"
  shows "files_kept V (delete_target m i d)"
proof -
  have "v_files V w' = v_files V w" if s: "delete_target m i d w = (r, w')" for w r w'
  proof -
    obtain r1 w1 where iv: "rm_inventory m (Some i) w = (r1, w1)" by (cases "rm_inventory m (Some i) w")
    note k1 = rm_inventory_kept[OF H P iv]
    have "path_laws V (rm_linux m)" using H by (simp add: host_laws_def)
    then have "path_laws V (pm_fs p)" if "NewPathManager (rm_linux m) i = Inr p" for p
      using that by (auto simp: NewPathManager_def split: option.splits)
    then show ?thesis using s iv k1
      by (auto simp: delete_target_def split: sum.splits dest: RemoveTarget_kept)
  qed
  then show ?thesis unfolding files_kept_def by (metis prod.collapse)
qed

lemma delete_artifacts_spec:
  assumes H: "host_laws V m" and P: "production m" and ab: "remove_absent V (rm_os m)"
    and nl: "no_links V {manifest_of m d}" and a: "manifest_apart m (attention d)" and i: "i = def_ID d"
    and J: "deleting V m (attention d) F w" and s: "delete_artifacts m i (attention d) w = (r, w')"
  shows "r \<noteq> None \<and> deleting V m (attention d) F w' \<or>
    r = None \<and> (\<exists>w1. deleting V m (attention d) F w1 \<and> v_files V w' = (v_files V w1)(manifest_of m d := None) \<and>
      v_files V w1 (or_empty (MountUnitPath (rm_env m) (rm_artifacts m) (attention d))) = None \<and>
      v_files V w1 (or_empty (AutomountUnitPath (rm_env m) (rm_artifacts m) (attention d))) = None \<and>
      (def_Username d = [] \<or> v_files V w1 (or_empty (CredentialPath (rm_artifacts m) (def_ID d))) = None))"
proof (cases "r \<noteq> None \<and> deleting V m (attention d) F w'")
  case n: False
  let ?d = "attention d" and ?mp = "or_empty (MountUnitPath (rm_env m) (rm_artifacts m) (attention d))"
    and ?ap = "or_empty (AutomountUnitPath (rm_env m) (rm_artifacts m) (attention d))"
    and ?cp = "or_empty (CredentialPath (rm_artifacts m) (def_ID d))"
  have L: "os_laws V (rm_os m)" and k: "files_kept V (uc_DaemonReload (rm_units m))"
    using H by (simp_all add: host_laws_def)
  note rd = retained_drops[OF H P nl a]
  let ?last = "os_remove (rm_os m) (manifest_of m d)"
  let ?s5 = "retained m ?d (delete_target m i ?d) ?last"
  let ?s4 = "retained m ?d (uc_DaemonReload (rm_units m)) ?s5"
  let ?cred = "if def_Username d \<noteq> [] then removeVerifiedArtifact m ?cp None 0x180 else (\<lambda>w. (None, w))"
  let ?s3 = "retained m ?d ?cred ?s4"
  let ?auto = "rendered_removal m (AutomountUnitPath (rm_env m) (rm_artifacts m) ?d) (RenderAutomountUnit (rm_escape m) ?d)"
  let ?s2 = "retained m ?d ?auto ?s3"
  let ?mount = "rendered_removal m (MountUnitPath (rm_env m) (rm_artifacts m) ?d) (RenderMountUnit (rm_escape m) ?d)"
  have s1: "retained m ?d ?mount ?s2 w = (r, w')"
    using s unfolding delete_artifacts_def Let_def i attention_simps .
  note ru = removal_units[OF L ab, of ?d, unfolded removal_def]
  have gone: "v_files V y p = None" if "drops V Q x y" "v_files V x p = None" for Q x y p
    using that by (auto simp: drops_def)
  from rd[OF J _ s1] ru(1) n obtain w1 where
    1: "?mount w = (None, w1)" "deleting V m ?d F w1" "?s2 w1 = (r, w')" by blast
  have m1: "v_files V w1 ?mp = None" using ru(1) 1(1) by blast
  from rd[OF 1(2) _ 1(3)] ru(2) n obtain w2 where
    2: "?auto w1 = (None, w2)" "deleting V m ?d F w2" "?s3 w2 = (r, w')" by blast
  have d2: "drops V (removable m ?d) w1 w2" "v_files V w2 ?ap = None" using ru(2) 2(1) by blast+
  have c3: "drops V (removable m ?d) w2 y \<and> (q = None \<longrightarrow> def_Username d = [] \<or> v_files V y ?cp = None)"
    if "?cred w2 = (q, y)" for q y
    using that ru(3) by (auto simp: drops_def split: if_splits)
  from rd[OF 2(2) _ 2(3)] c3 n obtain w3 where
    3: "?cred w2 = (None, w3)" "deleting V m ?d F w3" "?s4 w3 = (r, w')" by blast
  from rd[OF 3(2) _ 3(3)] removal_kept[OF k] n obtain w4 where
    4: "uc_DaemonReload (rm_units m) w3 = (None, w4)" "deleting V m ?d F w4" "?s5 w4 = (r, w')" by blast
  note kt = delete_target_kept[OF H P, of i ?d]
  from rd[OF 4(2) _ 4(3)] removal_kept[OF kt] n obtain w5 where
    5: "delete_target m i ?d w4 = (None, w5)" "deleting V m ?d F w5" "?last w5 = (r, w')" by blast
  have e: "v_files V w5 = v_files V w3" using files_keptD[OF kt 5(1)] files_keptD[OF k 4(1)] by simp
  have u: "v_files V w' = v_files V w5" if "r \<noteq> None" using that remove_law[OF L 5(3)] by auto
  have "deleting V m ?d F w'" if n0: "r \<noteq> None" using 5(2) unfolding deleting_def u[OF n0] .
  then have "r = None" using n by blast
  moreover have "v_files V w5 ?mp = None" "v_files V w5 ?ap = None" "def_Username d = [] \<or> v_files V w5 ?cp = None"
    using gone[OF d2(1) m1] gone[OF conjunct1[OF c3[OF 3(1)]]] d2(2) c3[OF 3(1)] e by auto
  ultimately show ?thesis using 5(2) remove_law[OF L 5(3)] by auto
qed simp

text \<open>
  C11. \<open>Delete\<close> of a definition that loads removes only managed files: besides the manifest, every file is
  as before, or it is gone and was the mount or automount unit with exactly the rendered contents, mode 0644
  and the store's owner, or the credential file of a definition with a user name, mode 0600 and the
  store's owner. When it succeeds the manifest, both units and the credential file are gone. When it fails, at
  whatever step, the manifest is on disk marked as needing attention, unless the mark itself could not be
  written, and then no file has changed (temporary names aside).
\<close>

theorem delete_only_managed:
  assumes H: "host_laws V m" and P: "production m" and ab: "remove_absent V (rm_os m)"
    and l: "LoadDefinition (rm_env m) (rm_artifacts m) i w = (Inr d, w0)"
    and nl: "no_links V {manifest_of m d}" and a: "manifest_apart m (attention d)"
    and s: "rm_Delete m i w = (r, w')"
  shows "(\<forall>p. temp_name p \<or> p = manifest_of m d \<or> v_files V w' p = v_files V w p \<or>
      v_files V w' p = None \<and> (\<exists>f. v_files V w p = Some f \<and> removable m (attention d) p f)) \<and>
    (case r of
       None \<Rightarrow> v_files V w' (manifest_of m d) = None \<and>
         v_files V w' (or_empty (MountUnitPath (rm_env m) (rm_artifacts m) (attention d))) = None \<and>
         v_files V w' (or_empty (AutomountUnitPath (rm_env m) (rm_artifacts m) (attention d))) = None \<and>
         (def_Username d = [] \<or> v_files V w' (or_empty (CredentialPath (rm_artifacts m) (def_ID d))) = None)
     | Some e \<Rightarrow> marked m d (v_files V w' (manifest_of m d)) \<or>
         fst (persistAttention m d w0) \<noteq> None \<and> (\<forall>p. temp_name p \<or> v_files V w' p = v_files V w p))"
proof -
  have L: "os_laws V (env_os (rm_env m))" and b: "as_beforeLoad (rm_artifacts m) = None"
    and k: "files_kept V (uc_Stop (rm_units m) u)" "files_kept V (uc_Disable (rm_units m) u)" for u
    using H P by (simp_all add: host_laws_def production_def rm_os_def)
  note ld = LoadDefinition_sound[OF L b l]
  have i: "i = def_ID d" and iv: "ValidateDefinitionID i = None" and mf: "v_files V w (manifest_of m d) \<noteq> None"
    using ld(2)[OF refl] nl by (auto simp: ManifestPath_def no_links_def or_empty_def split: if_splits)
  let ?d = "attention d" and ?u = "automountUnitName (rm_escape m) (def_Target (attention d))"
  obtain r1 w1 where p: "persistAttention m d w0 = (r1, w1)" by (cases "persistAttention m d w0")
  note ps = persistAttention_spec[OF H P nl p, unfolded ld(1)[THEN conjunct1]]
  show ?thesis
  proof (cases r1)
    case (Some e)
    then have "w' = w1" "r \<noteq> None" using s iv l p by (auto simp: rm_Delete_def)
    then show ?thesis using ps(1) ps(2)[OF mf] Some p by (auto simp: outside_def)
  next
    case None
    let ?s3 = "retained m ?d (uc_Disable (rm_units m) ?u) (delete_artifacts m i ?d)"
    let ?s2 = "retained m ?d (uc_Stop (rm_units m) (def_UnitName ?d)) ?s3"
    have s1: "retained m ?d (uc_Stop (rm_units m) ?u) ?s2 w1 = (r, w')"
      using s iv l p None by (simp add: rm_Delete_def Let_def)
    have J1: "deleting V m ?d (v_files V w) w1" using ps(1) ps(3)[OF None] by (auto simp: deleting_def outside_def)
    note rd = retained_drops[OF H P nl a]
    have fin: ?thesis if "r \<noteq> None \<and> deleting V m ?d (v_files V w) w'"
      using that by (auto simp: deleting_def)
    show ?thesis
    proof (cases "r \<noteq> None \<and> deleting V m ?d (v_files V w) w'")
      case n: False
      from rd[OF J1 _ s1] removal_kept[OF k(1)] n obtain w2 where
        2: "deleting V m ?d (v_files V w) w2" "?s2 w2 = (r, w')" by blast
      from rd[OF 2(1) _ 2(2)] removal_kept[OF k(1)] n obtain w3 where
        3: "deleting V m ?d (v_files V w) w3" "?s3 w3 = (r, w')" by blast
      from rd[OF 3(1) _ 3(2)] removal_kept[OF k(2)] n obtain w4 where
        4: "deleting V m ?d (v_files V w) w4" "delete_artifacts m i ?d w4 = (r, w')" by blast
      from delete_artifacts_spec[OF H P ab nl a i 4] n show ?thesis
        by (auto simp: deleting_def)
    qed (rule fin)
  qed
qed

section \<open>A run in memory\<close>

text \<open>
  The demonstration host: the files of \<open>mem_fs\<close>, a kernel whose directories all exist and are empty, a
  systemd that accepts every command and a storage manager that reports no mounts.
\<close>

definition demo_kernel :: "mem_fs pathFS" where
  "demo_kernel = \<lparr>fs_close = (\<lambda>fd w. (None, w)), fs_empty = (\<lambda>fd w. (Inr True, w)),
     fs_fstat = (\<lambda>fd w. (Inr 0x41ED, w)), fs_mkdirat = (\<lambda>fd n k w. (None, w)),
     fs_openat2 = (\<lambda>fd n h w. (Inr 4, w)), fs_openRoot = (\<lambda>w. (Inr 3, w)), fs_unlinkat = (\<lambda>fd n k w. (None, w))\<rparr>"

definition demo_systemd :: "mem_fs unit_controller" where
  "demo_systemd = \<lparr>uc_DaemonReload = (\<lambda>w. (None, w)), uc_Disable = (\<lambda>u w. (None, w)), uc_Enable = (\<lambda>u w. (None, w)),
     uc_Start = (\<lambda>u w. (None, w)), uc_Stop = (\<lambda>u w. (None, w))\<rparr>"

definition demo_snapshot :: snapshot where
  "demo_snapshot = \<lparr>sn_Backends = [], sn_CollectedAt = 0, sn_Findings = [], sn_Mounts = [], sn_Relations = [],
     sn_Resources = [], sn_Summary = empty_summary, sn_Truncated = False\<rparr>"

definition demo_host :: "mem_fs remote_manager" where
  "demo_host = NewSystemRemoteManager demo_env demo_kernel (\<lambda>w. None) (\<lambda>w. (Inr demo_snapshot, w)) demo_store demo_systemd"

definition demo_mount_request :: create_request where
  "demo_mount_request = \<lparr>req_Export = ''/srv'', req_Host = ''nas'', req_ID = demo_id, req_Password = [], req_Protocol = ''nfs'',
     req_ReadOnly = True, req_Server = [], req_Share = [], req_Target = ''/mnt/nas'', req_Username = [], req_Version = ''4.2'',
     req_SMBOwnership = no_ownership\<rparr>"

lemma demo_host_simps [simp]:
  "rm_env demo_host = demo_env" "rm_artifacts demo_host = demo_store" "rm_units demo_host = demo_systemd"
  "rm_linux demo_host = demo_kernel" "rm_os demo_host = mem_os" "rm_escape demo_host = demo_escape"
  "rm_writer demo_host = store_writer demo_env demo_store" "rm_manager demo_host = (\<lambda>w. (Inr demo_snapshot, w))"
  "rm_ctx demo_host = (\<lambda>w. None)"
  by (simp_all add: demo_host_def NewSystemRemoteManager_def NewSystemRemoteManagerWithWriter_def rm_os_def rm_escape_def
      demo_env_def)

lemma demo_host_laws: "host_laws mem_views demo_host" "production demo_host" "sync_ok (rm_os demo_host)"
  "remove_absent mem_views (rm_os demo_host)" "no_links mem_views A"
proof -
  show "host_laws mem_views demo_host"
    by (simp add: host_laws_def mem_os_laws path_laws_def files_kept_def demo_kernel_def demo_systemd_def)
  show "remove_absent mem_views (rm_os demo_host)"
    by (auto simp: remove_absent_def mem_os_def mem_views_def split: if_splits)
qed (simp_all add: production_def demo_store_def NewArtifactStore_def sync_ok_def mem_os_def no_links_def mem_views_def)

lemma demo_mount_request_definition: "rm_definition demo_host demo_mount_request = Inr (demo_with False False)"
  by (simp add: rm_definition_def demo_mount_request_def ParseSMBOwnership_def no_ownership_def demo_id_valid demo_fields_valid
      demo_with_def demo_definition_def ManifestFormatVersion_def)

lemma mem_write:
  assumes p: "\<not> temp_name p" "w p = None" and t: "w (path_dir p @ ''/.pilothouse-'') = None"
  shows "writeArtifact demo_env demo_store p c mode w = (None, w(p \<mapsto> managed_file demo_store c mode))"
proof -
  let ?n = "path_dir p @ ''/.pilothouse-''"
  have ne: "p \<noteq> ?n" using p(1) path_base_append[of "''.pilothouse-''" "path_dir p @ ''/''"]
    by (auto simp: temp_name_def slash_def)
  have c: "os_create_temp mem_os (path_dir p) ''.pilothouse-'' w = (Inr ?n, w(?n \<mapsto> empty_file))"
    using t by (simp add: mem_os_def slash_def Let_def)
  have f: "write_temporary demo_env demo_store ?n p c mode (w(?n \<mapsto> empty_file)) =
      (None, w(?n := None, p \<mapsto> managed_file demo_store c mode))"
    using ne p(2) by (simp add: write_temporary_def fill_file_def stage_def demo_env_def mem_os_def mem_change_def
        install_file_def renameNoReplace_def sync_directory_def demo_store_def NewArtifactStore_def
        managed_file_def empty_file_def fun_eq_iff)
  have o: "env_os demo_env = mem_os" by (simp add: demo_env_def)
  have 1: "os_mkdir_all mem_os d k w = (None, w)" for d k w by (simp add: mem_os_def)
  have 2: "os_read_file mem_os p w = (Inl ErrNotExist, w)" using p(2) by (simp add: mem_os_def)
  have 3: "snd (os_remove mem_os ?n (w(?n := None, p \<mapsto> g))) = w(?n := None, p \<mapsto> g)" for g
    using ne by (simp add: mem_os_def)
  have 4: "errors_is ErrNotExist ErrNotExist" by (simp add: ErrNotExist_def)
  have 5: "w(?n := None, p \<mapsto> g) = w(p \<mapsto> g)" for g using t by (auto simp: fun_eq_iff)
  show ?thesis by (simp add: writeArtifact_def o 1 2 4 c f removing_def 3) (simp add: 5)
qed

text \<open>The paths of the demonstration definition.\<close>

definition demo_mount_path :: string where "demo_mount_path = ''/etc/systemd/system/mnt-nas.mount''"
definition demo_automount_path :: string where "demo_automount_path = ''/etc/systemd/system/mnt-nas.automount''"

lemma demo_paths:
  "MountUnitPath demo_env demo_store (demo_with c a) = Inr demo_mount_path"
  "AutomountUnitPath demo_env demo_store (demo_with c a) = Inr demo_automount_path"
  "ManifestPath demo_store (def_ID (demo_with c a)) = Inr demo_manifest_path"
proof -
  have u: "def_UnitName (demo_with c a) = ''mnt-nas.mount''" by (simp add: demo_with_def demo_definition_def)
  have j: "path_join ''/etc/systemd/system'' ''mnt-nas.mount'' = demo_mount_path"
    by (simp add: path_join_def path_clean_def slash_def clean_step_def demo_mount_path_def is_abs_def)
  show m: "MountUnitPath demo_env demo_store (demo_with c a) = Inr demo_mount_path"
    using j by (simp add: MountUnitPath_def demo_artifact_valid u) (simp add: demo_store_def NewArtifactStore_def)
  show "AutomountUnitPath demo_env demo_store (demo_with c a) = Inr demo_automount_path"
    by (simp add: AutomountUnitPath_def m) (simp add: demo_mount_path_def demo_automount_path_def)
  show "ManifestPath demo_store (def_ID (demo_with c a)) = Inr demo_manifest_path"
    by (simp add: demo_manifest_path_def ManifestPath_def demo_id_valid or_empty_def demo_with_def demo_definition_def)
qed

lemma demo_paths_apart:
  "\<not> temp_name demo_mount_path" "\<not> temp_name demo_automount_path" "\<not> temp_name demo_manifest_path"
  "demo_mount_path \<noteq> demo_automount_path" "demo_manifest_path \<notin> {demo_mount_path, demo_automount_path}"
  "path_dir demo_mount_path = ''/etc/systemd/system''" "path_dir demo_automount_path = ''/etc/systemd/system''"
  "path_base demo_manifest_path = demo_id @ ''.json''"
proof -
  have b: "path_base demo_mount_path = ''mnt-nas.mount''" "path_base demo_automount_path = ''mnt-nas.automount''"
    by (simp_all add: path_base_def demo_mount_path_def demo_automount_path_def slash_def)
  note mb = ManifestPath_base[OF demo_paths(3)]
  show m: "path_base demo_manifest_path = demo_id @ ''.json''" using mb by (simp add: demo_with_def demo_definition_def)
  show "\<not> temp_name demo_mount_path" "\<not> temp_name demo_automount_path" by (simp_all add: temp_name_def b)
  show "\<not> temp_name demo_manifest_path" using mb by blast
  show "demo_mount_path \<noteq> demo_automount_path" by (simp add: demo_mount_path_def demo_automount_path_def)
  have "path_base demo_manifest_path \<noteq> path_base demo_mount_path" "path_base demo_manifest_path \<noteq> path_base demo_automount_path"
    unfolding m b by (simp_all add: demo_id_def numeral_nat)
  then show "demo_manifest_path \<notin> {demo_mount_path, demo_automount_path}" by auto
  show "path_dir demo_mount_path = ''/etc/systemd/system''" "path_dir demo_automount_path = ''/etc/systemd/system''"
    by (simp_all add: path_dir_def demo_mount_path_def demo_automount_path_def slash_def path_clean_def clean_step_def is_abs_def)
qed

lemma demo_target:
  "pm_ValidateTarget demo_escape \<lparr>pm_DefinitionID = i, pm_fs = demo_kernel\<rparr> None ''/mnt/nas''
     (Some \<lparr>inv_ManagedTargets = [], inv_Mounts = [], inv_UnitOwners = []\<rparr>) w = (None, w)"
  "CreateTarget demo_escape \<lparr>pm_DefinitionID = i, pm_fs = demo_kernel\<rparr> None ''/mnt/nas''
     (Some \<lparr>inv_ManagedTargets = [], inv_Mounts = [], inv_UnitOwners = []\<rparr>) w = (Inr False, w)"
proof -
  have p: "validatePolicy demo_escape \<lparr>pm_DefinitionID = i, pm_fs = demo_kernel\<rparr> ''/mnt/nas''
     (Some \<lparr>inv_ManagedTargets = [], inv_Mounts = [], inv_UnitOwners = []\<rparr>) = None"
    by (simp add: validatePolicy_def demo_fields_valid protectedTarget_def protectedTargetRoots_def
      validateTargetInventory_def hasConflict_def)
  have k: "pm_walk \<lparr>pm_DefinitionID = i, pm_fs = demo_kernel\<rparr> ''/mnt/nas'' w = (Inr (4, ''nas'', True), w)"
    by (simp add: pm_walk_def path_components_def slash_def demo_kernel_def pm_open_def pm_close_def)
  have b: "0x41ED AND S_IFMT = S_IFDIR" by (simp add: S_IFMT_def S_IFDIR_def)
  have v: "validateDirectory \<lparr>pm_DefinitionID = i, pm_fs = demo_kernel\<rparr> 4 ''nas'' w = (None, w)"
    by (simp add: validateDirectory_def closing_def demo_kernel_def pm_open_def pm_close_def b)
  have c: "closing \<lparr>pm_DefinitionID = i, pm_fs = demo_kernel\<rparr> 4 (x, w) = (x, w)" for x :: 'a
    by (simp add: closing_def demo_kernel_def pm_close_def)
  show "pm_ValidateTarget demo_escape \<lparr>pm_DefinitionID = i, pm_fs = demo_kernel\<rparr> None ''/mnt/nas''
     (Some \<lparr>inv_ManagedTargets = [], inv_Mounts = [], inv_UnitOwners = []\<rparr>) w = (None, w)"
    by (simp add: pm_ValidateTarget_def p k v c)
  then show "CreateTarget demo_escape \<lparr>pm_DefinitionID = i, pm_fs = demo_kernel\<rparr> None ''/mnt/nas''
     (Some \<lparr>inv_ManagedTargets = [], inv_Mounts = [], inv_UnitOwners = []\<rparr>) w = (Inr False, w)"
    by (simp add: CreateTarget_def k v c)
qed

lemma demo_create_run: "\<exists>w'. rm_Create demo_host demo_mount_request Map.empty = (None, w')"
proof -
  let ?d = "demo_with False False"
  have f: "def_ID ?d = demo_id" "def_Target ?d = ''/mnt/nas''" "?d\<lparr>def_CreatedTarget := False\<rparr> = ?d"
    by (simp_all add: demo_with_def demo_definition_def)
  have e: "env_escape demo_env = demo_escape" by (simp add: demo_env_def)
  have dd: "?d = demo_definition" by (simp add: demo_with_def demo_definition_def)
  obtain mu where mu: "RenderMountUnit demo_escape ?d = Inr mu"
    by (simp add: dd RenderMountUnit_def demo_definition_valid demo_settings)
  obtain au where au: "RenderAutomountUnit demo_escape ?d = Inr au"
    by (simp add: dd RenderAutomountUnit_def demo_definition_valid)
  have c: "marshalManifest demo_env ?d = Inr (demo_tag False False @ [newline])"
    by (simp add: marshalManifest_def demo_env_def demo_marshal)
  have i: "rm_inventory demo_host None w = (Inr \<lparr>inv_ManagedTargets = [], inv_Mounts = [], inv_UnitOwners = []\<rparr>, w)" for w
    by (simp add: rm_inventory_def rm_definitions_def mem_os_def demo_snapshot_def)
  note ap = demo_paths_apart
  define w1 where "w1 = [demo_mount_path \<mapsto> managed_file demo_store mu 0x1A4]"
  define w2 where "w2 = w1(demo_automount_path \<mapsto> managed_file demo_store au 0x1A4)"
  define w3 where "w3 = w2(demo_manifest_path \<mapsto> managed_file demo_store (demo_tag False False @ [newline]) 0x180)"
  have tn: "temp_name (q @ ''/.pilothouse-'')" for q
    using path_base_append[of "''.pilothouse-''" "q @ ''/''"] by (simp add: temp_name_def slash_def)
  have t: "w1 (q @ ''/.pilothouse-'') = None" "w2 (q @ ''/.pilothouse-'') = None" for q
    using tn[of q] ap(1,2) by (auto simp: w1_def w2_def)
  have x1: "WriteMountUnit demo_env demo_store ?d Map.empty = (None, w1)"
    unfolding write_ops write_op_def e mu demo_paths sum.case w1_def by (rule mem_write) (simp_all add: ap)
  have x2: "WriteAutomountUnit demo_env demo_store ?d w1 = (None, w2)"
    unfolding write_ops write_op_def e au demo_paths sum.case w2_def
    by (rule mem_write) (rule ap, use ap in \<open>simp add: w1_def\<close>, rule t)
  have x3: "WriteManifest demo_env demo_store ?d w2 = (None, w3)"
    unfolding write_ops write_op_def demo_paths demo_artifact_valid c sum.case option.case map_sum.simps id_apply w3_def
    by (rule mem_write) (rule ap, use ap in \<open>simp add: w1_def w2_def\<close>, rule t)
  have w: "write_all demo_host demo_mount_request ?d [] Map.empty = (None, w3)"
    by (simp add: write_all_def demo_mount_request_def write_units_def Let_def guarded_def store_writer_def x1 x2 x3
        activate_def demo_systemd_def)
  have r: "render_checks demo_host demo_mount_request ?d = None"
    by (simp add: render_checks_def mu au demo_mount_request_def)
  have n: "NewPathManager demo_kernel demo_id = Inr \<lparr>pm_DefinitionID = demo_id, pm_fs = demo_kernel\<rparr>"
    by (simp add: NewPathManager_def demo_id_valid)
  show ?thesis
    by (simp add: rm_Create_def demo_mount_request_definition i f n demo_target r w)
qed

theorem create_atomic_witness:
  "\<exists>w'. rm_Create demo_host demo_mount_request Map.empty = (None, w') \<and> w' demo_mount_path \<noteq> None \<and>
     w' demo_automount_path \<noteq> None \<and> w' demo_manifest_path \<noteq> None"
proof -
  obtain w' where w: "rm_Create demo_host demo_mount_request Map.empty = (None, w')" using demo_create_run by blast
  from create_atomic[OF demo_host_laws(1-3) demo_mount_request_definition demo_host_laws(5) w]
  obtain created where u: "units_installed mem_views demo_host ((demo_with False False)\<lparr>def_CreatedTarget := created\<rparr>) w'"
    by auto
  have "(demo_with False False)\<lparr>def_CreatedTarget := created\<rparr> = demo_with created False"
    by (simp add: demo_with_def)
  with u w show ?thesis
    by (auto simp: units_installed_def Let_def demo_paths or_empty_def mem_views_def)
qed

theorem delete_only_managed_witness:
  "\<exists>r w'. rm_Delete demo_host demo_id [demo_manifest_path \<mapsto> managed_file demo_store (demo_tag False False @ [newline]) 0x180,
      ''/etc/passwd'' \<mapsto> empty_file] = (r, w') \<and> w' ''/etc/passwd'' = Some empty_file"
proof -
  let ?w = "[demo_manifest_path \<mapsto> managed_file demo_store (demo_tag False False @ [newline]) 0x180, ''/etc/passwd'' \<mapsto> empty_file]"
  let ?d = "demo_with False False"
  have i: "def_ID ?d = demo_id" by (simp add: demo_with_def demo_definition_def)
  have c: "marshalManifest demo_env ?d = Inr (demo_tag False False @ [newline])"
    by (simp add: marshalManifest_def demo_env_def demo_marshal)
  have ne: "demo_manifest_path \<noteq> ''/etc/passwd''"
  proof
    assume "demo_manifest_path = ''/etc/passwd''"
    with demo_paths_apart(8) have "path_base ''/etc/passwd'' = demo_id @ ''.json''" by simp
    then show False by (simp add: path_base_def slash_def demo_id_def numeral_nat)
  qed
  have L: "os_laws mem_views (env_os demo_env)" "reads_ok mem_views (env_os demo_env)" "as_beforeLoad demo_store = None"
    "manifest_codec_laws (env_json demo_env)"
    by (simp_all add: demo_env_def mem_os_laws mem_reads_ok demo_json_laws demo_store_def NewArtifactStore_def)
  have "fst (LoadDefinition demo_env demo_store (def_ID ?d) ?w) = Inr ?d"
    by (rule LoadDefinition_complete[OF L demo_coerced demo_artifact_valid demo_paths(3) c]) (simp add: mem_views_def ne)
  then obtain w0 where l: "LoadDefinition (rm_env demo_host) (rm_artifacts demo_host) demo_id ?w = (Inr ?d, w0)"
    by (cases "LoadDefinition demo_env demo_store demo_id ?w") (auto simp: i)
  have at: "attention ?d = demo_with False True" by (simp add: attention_def needs_attention_def demo_with_def)
  have "or_empty (CredentialPath demo_store demo_id) \<noteq> demo_manifest_path"
    using CredentialPath_base[of demo_store demo_id] demo_paths_apart(8)
    by (auto simp: CredentialPath_def demo_id_valid or_empty_def)
  then have ap: "manifest_apart demo_host (attention ?d)"
    using demo_paths_apart(5) i unfolding at manifest_apart_def Let_def demo_host_simps demo_paths
    by (auto simp: or_empty_def demo_with_def demo_definition_def)
  obtain r w' where s: "rm_Delete demo_host demo_id ?w = (r, w')" by (cases "rm_Delete demo_host demo_id ?w")
  note x = delete_only_managed[OF demo_host_laws(1,2,4) l demo_host_laws(5) ap s, THEN conjunct1, rule_format, of "''/etc/passwd''"]
  have "\<not> temp_name ''/etc/passwd''" by (simp add: temp_name_def path_base_def slash_def)
  moreover have "\<not> removable demo_host (attention ?d) ''/etc/passwd'' empty_file"
  proof -
    have "''/etc/passwd'' \<noteq> demo_mount_path" "''/etc/passwd'' \<noteq> demo_automount_path"
      by (simp_all add: demo_mount_path_def demo_automount_path_def)
    moreover have "def_Username (demo_with False True) = []" by (simp add: demo_with_def demo_definition_def)
    ultimately show ?thesis unfolding at by (simp add: removable_def Let_def demo_paths or_empty_def)
  qed
  ultimately have "w' ''/etc/passwd'' = Some empty_file"
    using x ne by (auto simp: mem_views_def i demo_manifest_path_def)
  with s show ?thesis by blast
qed

end
