(* ===== verification/Files_Config.thy ===== *)
theory Files_Config
  imports Target_Paths
begin

text \<open>
  The configuration and the requests of the file browser (\<open>internal/modules/files\<close>: \<open>model.go\<close>, \<open>config.go\<close>
  and the request parsing of \<open>manager_linux.go\<close>): the bounded table of roots, the relative paths a request may
  name and the parameters of a listing.
\<close>

section \<open>Constants and data\<close>

definition MaxRoots :: nat where "MaxRoots = 64"
definition MaxEntries :: nat where "MaxEntries = 2000"
definition MaxScannedEntries :: nat where "MaxScannedEntries = 10000"
definition MaxPathBytes :: nat where "MaxPathBytes = 768"
definition MaxTransferBytes :: int where "MaxTransferBytes = 268435456"
definition maxRootPathBytes :: nat where "maxRootPathBytes = 4096"
definition maxEntryJSONBytes :: nat where "maxEntryJSONBytes = 1572864"
definition NAME_MAX :: nat where "NAME_MAX = 255"

definition ErrInvalid :: error where "ErrInvalid = Sentinel ''invalid files request''"
definition ErrNotFound :: error where "ErrNotFound = Sentinel ''files resource not found''"
definition ErrReadOnly :: error where "ErrReadOnly = Sentinel ''files root is read-only''"
definition ErrConflict :: error where "ErrConflict = Sentinel ''files conflict''"
definition ErrTooLarge :: error where "ErrTooLarge = Sentinel ''files transfer is too large''"
definition ErrUnavailable :: error where "ErrUnavailable = Sentinel ''files service is unavailable''"

lemmas files_errors = ErrInvalid_def ErrNotFound_def ErrReadOnly_def ErrConflict_def ErrTooLarge_def ErrUnavailable_def

datatype entry_type = EntryRegular | EntryDirectory | EntrySymlink | EntryOther

record root_spec =
  rsp_ID :: string
  rsp_Path :: string
  rsp_Writable :: bool

record root =
  rt_ID :: string
  rt_Path :: string
  rt_Writable :: bool

record files_entry =
  fe_Name :: string
  fe_Type :: entry_type
  fe_Size :: int
  fe_Modified :: int
  fe_UID :: nat
  fe_GID :: nat
  fe_Owner :: string
  fe_Group :: string
  fe_Mode :: nat
  fe_LinkTarget :: string

record list_request =
  lr_Root :: string
  lr_Path :: string
  lr_Filter :: string
  lr_Sort :: string
  lr_Direction :: string
  lr_Hidden :: bool

record files_state =
  fst_Roots :: "root list"
  fst_Active :: root
  fst_Path :: string
  fst_Entries :: "files_entry list"
  fst_Truncated :: bool
  fst_Filters :: list_request

definition no_root :: root where "no_root = \<lparr>rt_ID = [], rt_Path = [], rt_Writable = False\<rparr>"

section \<open>The table of roots\<close>

text \<open>The pattern \<open>^[a-z0-9][a-z0-9-]{0,31}$\<close>.\<close>

definition root_id_char :: "char \<Rightarrow> bool" where
  "root_id_char c \<longleftrightarrow> between 0x61 0x7A c \<or> is_digit c"

definition rootIDPattern :: "string \<Rightarrow> bool" where
  "rootIDPattern s \<longleftrightarrow> (case s of [] \<Rightarrow> False
     | c # cs \<Rightarrow> root_id_char c \<and> list_all (\<lambda>d. root_id_char d \<or> d = CHR ''-'') cs \<and> length cs \<le> 31)"

type_synonym root_flags = "(string, root_spec) gomap"

record lstat_info =
  ls_symlink :: bool
  ls_dir :: bool

definition Add :: "(string \<Rightarrow> lstat_info result) \<Rightarrow> root_flags \<Rightarrow> string \<Rightarrow> bool \<Rightarrow> error option \<times> root_flags" where
  "Add lstat specs value writable = (case cut (CHR ''='') value of
     None \<Rightarrow> (Some (Errorf ''invalid root id'' []), specs)
   | Some (i, path) \<Rightarrow>
       if \<not> rootIDPattern i then (Some (Errorf ''invalid root id'' []), specs)
       else if length specs \<ge> MaxRoots then (Some (Errorf ''maximum number of roots exceeded'' []), specs)
       else if map_of specs i \<noteq> None then (Some (Errorf ''duplicate root id %q'' [i]), specs)
       else
         (let path = path_clean path in
          if \<not> is_abs path \<or> length path > maxRootPathBytes then (Some (Errorf ''invalid root path'' []), specs)
          else if path = ''/'' then (Some (Errorf ''filesystem root cannot be a files root'' []), specs)
          else (case lstat path of
              Inl e \<Rightarrow> (Some (Wrapf ''stat root path: %w'' [] e), specs)
            | Inr info \<Rightarrow>
                if ls_symlink info \<or> \<not> ls_dir info then (Some (Errorf ''root path is not a directory'' []), specs)
                else (None, AList.update i \<lparr>rsp_ID = i, rsp_Path = path, rsp_Writable = writable\<rparr> specs))))"

definition Specs :: "root_flags \<Rightarrow> root_spec list" where
  "Specs specs = sort_key rsp_ID (map snd specs)"

text \<open>A sequence of flags, as the command line applies them; an error leaves the table as it was.\<close>

fun add_flags :: "(string \<Rightarrow> lstat_info result) \<Rightarrow> root_flags \<Rightarrow> (string \<times> bool) list \<Rightarrow> root_flags" where
  "add_flags lstat specs [] = specs"
| "add_flags lstat specs ((v, b) # fs) = add_flags lstat (snd (Add lstat specs v b)) fs"

definition root_spec_ok :: "root_spec \<Rightarrow> bool" where
  "root_spec_ok s \<longleftrightarrow> rootIDPattern (rsp_ID s) \<and> is_abs (rsp_Path s) \<and> path_clean (rsp_Path s) = rsp_Path s \<and>
     rsp_Path s \<noteq> ''/'' \<and> length (rsp_Path s) \<le> maxRootPathBytes"

section \<open>Requests\<close>

definition ErrInvalidf :: "string \<Rightarrow> error" where
  "ErrInvalidf f = Wrapf f [] ErrInvalid"

definition segment_ok :: "string \<Rightarrow> bool" where
  "segment_ok seg \<longleftrightarrow> \<not> (seg = [] \<or> seg = ''.'' \<or> seg = ''..'' \<or> length seg > NAME_MAX) \<and>
     \<not> list_ex (\<lambda>r. r = 0 \<or> r < 0x20 \<or> r = 0x7F) (runes seg)"

definition validateRelativePath :: "string \<Rightarrow> error option" where
  "validateRelativePath path =
     (if length path > MaxPathBytes \<or> prefix ''/'' path then Some (ErrInvalidf ''%w: invalid relative path'')
      else if path = [] then None
      else if list_all segment_ok (split_on slash path) then None
      else Some (ErrInvalidf ''%w: invalid relative path''))"

definition validBaseName :: "string \<Rightarrow> bool" where
  "validBaseName name \<longleftrightarrow> name \<noteq> [] \<and> \<not> List.member name slash \<and> validateRelativePath name = None"

definition validateListRequest :: "list_request \<Rightarrow> error option" where
  "validateListRequest request = (case validateRelativePath (lr_Path request) of
     Some e \<Rightarrow> Some e
   | None \<Rightarrow>
       if length (lr_Filter request) > 1024 \<or> length (runes (lr_Filter request)) > 200
       then Some (ErrInvalidf ''%w: filter too long'')
       else if \<not> List.member [''name'', ''size'', ''modified'', ''owner'', ''permissions''] (lr_Sort request)
       then Some (ErrInvalidf ''%w: invalid sort'')
       else if lr_Direction request \<noteq> ''asc'' \<and> lr_Direction request \<noteq> ''desc''
       then Some (ErrInvalidf ''%w: invalid direction'')
       else None)"

definition list_keys :: "string list" where
  "list_keys = [''root'', ''path'', ''filter'', ''sort'', ''direction'', ''hidden'']"

definition ParseListParameters :: "(string, string) gomap \<Rightarrow> list_request result" where
  "ParseListParameters parameters =
     (if length parameters \<noteq> 6 then Inl (ErrInvalidf ''%w: unexpected list parameters'')
      else (case List.find (\<lambda>key. map_of parameters key = None) list_keys of
        Some key \<Rightarrow> Inl (Wrapf ''%w: missing list parameter %q'' [key] ErrInvalid)
      | None \<Rightarrow>
         (let get = (\<lambda>key. case map_of parameters key of None \<Rightarrow> [] | Some v \<Rightarrow> v);
              request = \<lparr>lr_Root = get ''root'', lr_Path = get ''path'', lr_Filter = trim_space (get ''filter''),
                lr_Sort = (if get ''sort'' = [] then ''name'' else get ''sort''),
                lr_Direction = (if get ''direction'' = [] then ''asc'' else get ''direction''), lr_Hidden = False\<rparr>
          in if get ''hidden'' \<noteq> [] \<and> get ''hidden'' \<noteq> ''false'' \<and> get ''hidden'' \<noteq> ''true''
             then Inl (ErrInvalidf ''%w: invalid hidden value'')
             else
               (let request = request\<lparr>lr_Hidden := (get ''hidden'' = ''true'')\<rparr> in
                if lr_Root request = [] \<and> lr_Path request \<noteq> [] then Inl (ErrInvalidf ''%w: root summary has a path'')
                else (case validateListRequest request of Some e \<Rightarrow> Inl e | None \<Rightarrow> Inr request)))))"

section \<open>What a table of roots keeps\<close>

lemma clean_fold_words:
  "\<forall>w\<in>set st. w \<noteq> [] \<and> slash \<notin> set w \<Longrightarrow> \<forall>w\<in>set ws. slash \<notin> set w \<Longrightarrow>
    \<forall>w\<in>set (foldl (clean_step rooted) st ws). w \<noteq> [] \<and> slash \<notin> set w"
proof (induction ws arbitrary: st)
  case (Cons x ws)
  have "w \<noteq> [] \<and> slash \<notin> set w" if w: "w \<in> set (clean_step rooted st x)" for w
  proof -
    have "w \<in> set st \<or> w = x \<and> x \<noteq> [] \<or> w = ''..''"
      using w by (auto simp: clean_step_def split: list.splits if_splits)
    moreover have "slash \<notin> set ''..''" by (simp add: slash_def)
    ultimately show ?thesis using Cons.prems(1) bspec[OF Cons.prems(2), of x] by (elim disjE) (fast, simp, simp only: list.distinct simp_thms)
  qed
  then have st: "\<forall>w\<in>set (clean_step rooted st x). w \<noteq> [] \<and> slash \<notin> set w" by (intro ballI)
  have ws: "\<forall>w\<in>set ws. slash \<notin> set w" by (rule ballI) (rule bspec[OF Cons.prems(2)], simp)
  show ?case unfolding foldl_Cons by (rule Cons.IH[OF st ws])
qed simp

lemma clean_fold_kept: "list_all plain_component ws \<Longrightarrow> foldl (clean_step True) st ws = rev ws @ st"
  by (induction ws arbitrary: st) (auto simp: clean_step_def plain_component_def)

lemma path_clean_abs: assumes "is_abs (path_clean p)" shows "is_abs p"
proof (rule ccontr)
  assume n: "\<not> is_abs p"
  define ws where "ws = rev (foldl (clean_step False) [] (split_on slash p))"
  have ws: "\<forall>w\<in>set ws. w \<noteq> [] \<and> slash \<notin> set w"
    using clean_fold_words[of "[]" "split_on slash p" False] split_on_pieces[of _ slash p] by (auto simp: ws_def)
  have "\<not> is_abs (join_with ''/'' ws)"
  proof (cases ws)
    case (Cons w us)
    then obtain c cs where "w = c # cs" "c \<noteq> slash" using ws by (cases w) auto
    then show ?thesis using Cons by (cases us) (auto simp: is_abs_def slash_def)
  qed (simp add: is_abs_def)
  then show False using assms n by (auto simp: path_clean_def Let_def ws_def is_abs_def split: if_splits)
qed

lemma path_clean_idem: assumes "is_abs p" shows "path_clean (path_clean p) = path_clean p"
proof -
  define ws where "ws = rev (foldl (clean_step True) [] (split_on slash p))"
  have pc: "path_clean p = slash # join_with ''/'' ws" using assms by (auto simp: path_clean_def Let_def ws_def is_abs_def slash_def)
  have ws: "list_all plain_component ws" using clean_fold_plain[of "[]"] by (simp add: ws_def)
  have sl: "\<forall>w\<in>set ws. slash \<notin> set w"
    using clean_fold_words[of "[]" "split_on slash p" True] split_on_pieces[of _ slash p] by (auto simp: ws_def)
  have "foldl (clean_step True) [] (split_on slash (slash # join_with ''/'' ws)) = rev ws"
  proof (cases "ws = []")
    case True
    then show ?thesis by (simp add: clean_step_def)
  next
    case False
    then have "split_on slash (join_with ''/'' ws) = ws" using sl split_on_join[of ws slash] by (simp add: slash_def)
    then show ?thesis using ws clean_fold_kept[of ws "[]"] by (simp add: clean_step_def)
  qed
  then show ?thesis unfolding pc by (simp add: path_clean_def Let_def is_abs_def) (simp add: slash_def)
qed

text \<open>What every table keeps, and what the manager's own checks then find.\<close>

definition root_table :: "root_flags \<Rightarrow> bool" where
  "root_table t \<longleftrightarrow> distinct (map fst t) \<and> length t \<le> MaxRoots \<and>
     list_all (\<lambda>(i, s). rsp_ID s = i \<and> root_spec_ok s) t"

lemma update_new: "k \<notin> fst ` set al \<Longrightarrow> AList.update k v al = al @ [(k, v)]"
  by (induction al) auto

lemma Add_keeps: assumes "root_table t" shows "root_table (snd (Add lstat t v writable))"
proof (cases "\<exists>e. fst (Add lstat t v writable) = Some e")
  case True
  then have "snd (Add lstat t v writable) = t"
    by (auto simp: Add_def Let_def split: option.splits prod.splits if_splits sum.splits)
  then show ?thesis using assms by simp
next
  case False
  then obtain i path where a: "rootIDPattern i" "length t < MaxRoots" "map_of t i = None" "is_abs (path_clean path)"
    "length (path_clean path) \<le> maxRootPathBytes" "path_clean path \<noteq> ''/''"
    "snd (Add lstat t v writable) = AList.update i \<lparr>rsp_ID = i, rsp_Path = path_clean path, rsp_Writable = writable\<rparr> t"
    by (auto simp: Add_def Let_def split: option.splits prod.splits if_splits sum.splits)
  have "i \<notin> fst ` set t" using a(3) by (simp add: map_of_eq_None_iff)
  then have "AList.update i s t = t @ [(i, s)]" for s by (rule update_new)
  moreover have "path_clean (path_clean path) = path_clean path" using path_clean_idem path_clean_abs a(4) by blast
  ultimately show ?thesis using assms a \<open>i \<notin> fst ` set t\<close> by (simp add: root_table_def root_spec_ok_def)
qed

lemma add_flags_keeps: "root_table t \<Longrightarrow> root_table (add_flags lstat t fs)"
  by (induction lstat t fs rule: add_flags.induct) (simp_all add: Add_keeps)

end
