(* ===== verification/Auth.thy ===== *)
theory Auth
  imports Text
begin

text \<open>
  Account resolution (\<open>internal/auth/identity.go\<close>): \<open>SystemResolver.Resolve\<close> turns a user name
  into the identity the broker authorizes. The account database is behind the resolver's
  function fields \<open>lookupAccount\<close> and \<open>lookupGroup\<close>, which stay functions of the record.
\<close>

record identity =
  Admin :: bool
  Groups :: "string list"
  UID :: int
  Username :: string

record account_record =
  acct_uid :: string
  acct_username :: string
  acct_groupIDs :: "string list result"

record system_resolver =
  adminGroup :: string
  loginGroup :: string
  lookupAccount :: "string \<Rightarrow> account_record result"
  lookupGroup :: "string \<Rightarrow> string result"

text \<open>The loop over the group identifiers keeps the names that resolve.\<close>

fun group_names :: "(string \<Rightarrow> string result) \<Rightarrow> string list \<Rightarrow> string list" where
  "group_names look [] = []"
| "group_names look (g # gs) = (case look g of
     Inl _ \<Rightarrow> group_names look gs
   | Inr name \<Rightarrow> name # group_names look gs)"

definition Resolve :: "system_resolver \<Rightarrow> string \<Rightarrow> identity result" where
  "Resolve r username = (case lookupAccount r username of
     Inl e \<Rightarrow> Inl (Wrapf ''resolve account: %w'' [] e)
   | Inr account \<Rightarrow> (case parse_uint 63 (acct_uid account) of
       None \<Rightarrow> Inl (Wrapf ''parse account uid: %w'' [] (Sentinel ''strconv.NumError''))
     | Some uidValue \<Rightarrow>
         (let uid = int uidValue in
          if uid = 0 then Inl (Errorf ''direct root login is disabled'' [])
          else (case acct_groupIDs account of
            Inl e \<Rightarrow> Inl (Wrapf ''resolve account groups: %w'' [] e)
          | Inr groupIDs \<Rightarrow>
              (let groups = sort (group_names (lookupGroup r) groupIDs) in
               if loginGroup r \<noteq> [] \<and> \<not> List.member groups (loginGroup r)
               then Inl (Errorf ''account is not in the %s group'' [loginGroup r])
               else Inr \<lparr>Admin = (adminGroup r \<noteq> [] \<and> List.member groups (adminGroup r)),
                         Groups = groups, UID = uid, Username = acct_username account\<rparr>)))))"

lemma set_group_names: "set (group_names look gs) = {n. \<exists>g\<in>set gs. look g = Inr n}"
  by (induction gs) (auto split: sum.splits)

text \<open>The account's group names, as the database answers.\<close>

definition in_group :: "system_resolver \<Rightarrow> account_record \<Rightarrow> string \<Rightarrow> bool" where
  "in_group r account name \<longleftrightarrow>
     (\<exists>ids g. acct_groupIDs account = Inr ids \<and> g \<in> set ids \<and> lookupGroup r g = Inr name)"

section \<open>Properties\<close>

text \<open>
  Resolution enforces the account policy: an identity is returned exactly when the account
  exists, its uid is a number in 1 .. 2^63-1 (never root), its groups resolve, and it is in the
  login group when one is configured; the identity is an administrator exactly when an admin
  group is configured and the account is in it.
\<close>

theorem resolve_policy:
  "Resolve r username = Inr i \<longleftrightarrow>
     (\<exists>account uid ids. lookupAccount r username = Inr account \<and>
        parse_uint 63 (acct_uid account) = Some uid \<and> 0 < uid \<and> uid < 2 ^ 63 \<and>
        acct_groupIDs account = Inr ids \<and>
        (loginGroup r = [] \<or> in_group r account (loginGroup r)) \<and>
        UID i = int uid \<and> Username i = acct_username account \<and>
        Groups i = sort (group_names (lookupGroup r) ids) \<and>
        (Admin i \<longleftrightarrow> adminGroup r \<noteq> [] \<and> in_group r account (adminGroup r)))"
proof -
  have lt: "uid < 2 ^ 63" if "parse_uint 63 s = Some uid" for s uid
    using parse_uint_Some[OF that] by simp
  have grp: "in_group r account n \<longleftrightarrow> n \<in> set (group_names (lookupGroup r) ids)"
    if "acct_groupIDs account = Inr ids" for account ids n
    using that by (auto simp: in_group_def set_group_names)
  show ?thesis
  proof (cases "lookupAccount r username")
    case (Inr account)
    show ?thesis
    proof (cases "parse_uint 63 (acct_uid account)")
      case (Some uid)
      note lt = lt[OF Some]
      show ?thesis
      proof (cases "acct_groupIDs account")
        case ids: (Inr ids)
        show ?thesis
          using Inr Some lt grp[OF ids] ids
          by (cases i) (auto simp: Resolve_def Let_def)
      qed (simp add: Resolve_def Inr Some Let_def)
    qed (simp add: Resolve_def Inr)
  qed (simp add: Resolve_def)
qed

end
