(* ===== verification/Audit_Records.thy ===== *)
theory Audit_Records
  imports Bolt
begin

text \<open>
  The durable audit records of privileged actions (\<open>internal/audit/audit.go\<close>). The conventions
  are those of the job store: \<open>c1\<close> and \<open>c2\<close> are the context's answers at entry and inside the
  transaction, \<open>now\<close> is the clock. \<open>trimOldest\<close> counts the pairs with a cursor here.
\<close>

section \<open>Data\<close>

record audit_attempt =
  aa_Action :: string
  aa_Resource :: string
  aa_Username :: string
  aa_UID :: int

record audit_record =
  rec_ID :: "64 word"
  rec_Action :: string
  rec_Resource :: string
  rec_Username :: string
  rec_UID :: int
  rec_StartedAt :: int
  rec_FinishedAt :: "int option"
  rec_Outcome :: string
  rec_ErrorCategory :: string
  rec_DurationMS :: int

record audit_filter =
  af_Limit :: int
  af_Action :: string
  af_Outcome :: string

record 'b audit_store =
  audit_db :: 'b
  audit_maxRecords :: int

definition OutcomeStarted :: string where "OutcomeStarted = ''started''"
definition OutcomeSucceeded :: string where "OutcomeSucceeded = ''succeeded''"
definition OutcomeFailed :: string where "OutcomeFailed = ''failed''"
definition OutcomeUnknown :: string where "OutcomeUnknown = ''unknown''"

lemmas outcome_defs = OutcomeStarted_def OutcomeSucceeded_def OutcomeFailed_def OutcomeUnknown_def

definition audit_maxListLimit :: int where "audit_maxListLimit = 100"

definition audit_ErrNotFound :: error where
  "audit_ErrNotFound = Sentinel ''audit record not found''"

section \<open>Operations\<close>

definition validOutcome :: "string \<Rightarrow> bool" where
  "validOutcome outcome \<longleftrightarrow> outcome = OutcomeStarted \<or> outcome = OutcomeSucceeded \<or>
     outcome = OutcomeFailed \<or> outcome = OutcomeUnknown"

definition recordKey :: "64 word \<Rightarrow> string" where
  "recordKey i = put_uint64 i"

definition finishRecord :: "audit_record \<Rightarrow> int \<Rightarrow> string \<Rightarrow> string \<Rightarrow> audit_record" where
  "finishRecord r finishedAt outcome category =
     r\<lparr>rec_FinishedAt := Some finishedAt, rec_Outcome := outcome, rec_ErrorCategory := category,
       rec_DurationMS := (let d = milliseconds (time_sub finishedAt (rec_StartedAt r)) in
         if d < 0 then 0 else d)\<rparr>"

fun audit_removable :: "audit_record json \<Rightarrow> (string \<times> string) list \<Rightarrow> string option result" where
  "audit_removable J [] = Inr None"
| "audit_removable J ((k, v) # ps) = (case unmarshal J v of
     Inl e \<Rightarrow> Inl (Wrapf ''decode audit record for retention: %w'' [] e)
   | Inr r \<Rightarrow> if rec_Outcome r \<noteq> OutcomeStarted then Inr (Some k) else audit_removable J ps)"

definition audit_trimOldest :: "audit_record json \<Rightarrow> 'b bolt \<Rightarrow> int \<Rightarrow> 'b \<Rightarrow> 'b result" where
  "audit_trimOldest J B maxRecords b =
     trim_loop B (audit_removable J) (Wrapf ''delete old audit record: %w'' []) maxRecords
       (int (length (b_pairs B b))) b"

fun audit_recover :: "audit_record json \<Rightarrow> 'b bolt \<Rightarrow> int \<Rightarrow> (string \<times> string) list \<Rightarrow> 'b \<Rightarrow> 'b result" where
  "audit_recover J B now [] b = Inr b"
| "audit_recover J B now ((k, v) # ps) b = (case unmarshal J v of
     Inl e \<Rightarrow> Inl (Wrapf ''decode audit record: %w'' [] e)
   | Inr r \<Rightarrow> if rec_Outcome r \<noteq> OutcomeStarted then audit_recover J B now ps b
       else (case marshal J (finishRecord r now OutcomeUnknown []) of
         Inl e \<Rightarrow> Inl (Wrapf ''encode recovered audit record: %w'' [] e)
       | Inr encoded \<Rightarrow> (case b_put B b k encoded of
           Inl e \<Rightarrow> Inl (Wrapf ''recover audit record: %w'' [] e)
         | Inr b' \<Rightarrow> audit_recover J B now ps b')))"

definition audit_init :: "audit_record json \<Rightarrow> 'b bolt \<Rightarrow> ('b \<Rightarrow> 'b result) \<Rightarrow> int \<Rightarrow> int \<Rightarrow> 'b \<Rightarrow>
    ('b \<times> unit) result" where
  "audit_init J B created now maxRecords b = (case created b of
     Inl e \<Rightarrow> Inl (Wrapf ''create records bucket: %w'' [] e)
   | Inr bucket \<Rightarrow> (case audit_recover J B now (b_pairs B bucket) bucket of
       Inl e \<Rightarrow> Inl e
     | Inr b' \<Rightarrow> map_sum id (\<lambda>b''. (b'', ())) (audit_trimOldest J B maxRecords b')))"

definition audit_Open :: "audit_record json \<Rightarrow> 'b bolt \<Rightarrow> 'b result \<Rightarrow> error option \<Rightarrow>
    ('b \<Rightarrow> 'b result) \<Rightarrow> int \<Rightarrow> int \<Rightarrow> 'b audit_store result" where
  "audit_Open J B opened chmod created now maxRecords =
     (if maxRecords \<le> 0 then Inl (Errorf ''maxRecords must be positive'' []) else
      (case opened of Inl e \<Rightarrow> Inl (Wrapf ''open audit database: %w'' [] e) | Inr db \<Rightarrow>
      (case chmod of Some e \<Rightarrow> Inl (Wrapf ''secure audit database: %w'' [] e) | None \<Rightarrow>
      (case db_update B db (audit_init J B created now maxRecords) of
         (db', Inl e) \<Rightarrow> Inl (Wrapf ''initialize audit database: %w'' [] e)
       | (db', Inr _) \<Rightarrow> Inr \<lparr>audit_db = db', audit_maxRecords = maxRecords\<rparr>))))"

definition audit_Close :: "'b bolt \<Rightarrow> 'b audit_store \<Rightarrow> 'b audit_store \<times> error option" where
  "audit_Close B s = (let (db, e) = b_close B (audit_db s) in (s\<lparr>audit_db := db\<rparr>, e))"

definition Begin :: "audit_record json \<Rightarrow> 'b bolt \<Rightarrow> 'b audit_store \<Rightarrow> error option \<Rightarrow> error option \<Rightarrow>
    int \<Rightarrow> audit_attempt \<Rightarrow> 'b audit_store \<times> audit_record result" where
  "Begin J B s c1 c2 now a = (case c1 of Some e \<Rightarrow> (s, Inl e) | None \<Rightarrow>
     (let r = \<lparr>rec_ID = 0, rec_Action = aa_Action a, rec_Resource = aa_Resource a,
               rec_Username = aa_Username a, rec_UID = aa_UID a, rec_StartedAt = now,
               rec_FinishedAt = None, rec_Outcome = OutcomeStarted, rec_ErrorCategory = [],
               rec_DurationMS = 0\<rparr>;
          (db', res) = db_update B (audit_db s) (\<lambda>b. case c2 of Some e \<Rightarrow> Inl e | None \<Rightarrow>
            (case b_next_sequence B b of Inl e \<Rightarrow> Inl (Wrapf ''allocate audit record ID: %w'' [] e)
             | Inr (b1, i) \<Rightarrow> (case marshal J (r\<lparr>rec_ID := i\<rparr>) of
                 Inl e \<Rightarrow> Inl (Wrapf ''encode audit record: %w'' [] e)
               | Inr encoded \<Rightarrow> (case b_put B b1 (recordKey i) encoded of
                   Inl e \<Rightarrow> Inl (Wrapf ''store audit record: %w'' [] e)
                 | Inr b2 \<Rightarrow> map_sum id (\<lambda>b3. (b3, r\<lparr>rec_ID := i\<rparr>))
                     (audit_trimOldest J B (audit_maxRecords s) b2)))))
      in (s\<lparr>audit_db := db'\<rparr>, res)))"

definition audit_Complete :: "audit_record json \<Rightarrow> 'b bolt \<Rightarrow> 'b audit_store \<Rightarrow> error option \<Rightarrow>
    error option \<Rightarrow> int \<Rightarrow> 64 word \<Rightarrow> string \<Rightarrow> string \<Rightarrow> 'b audit_store \<times> unit result" where
  "audit_Complete J B s c1 c2 now i outcome category = (case c1 of Some e \<Rightarrow> (s, Inl e) | None \<Rightarrow>
     if outcome \<noteq> OutcomeSucceeded \<and> outcome \<noteq> OutcomeFailed \<and> outcome \<noteq> OutcomeUnknown
     then (s, Inl (Errorf ''invalid final outcome %q'' [outcome]))
     else (let (db', res) = db_update B (audit_db s) (\<lambda>b. case c2 of Some e \<Rightarrow> Inl e | None \<Rightarrow>
        (case b_get B b (recordKey i) of None \<Rightarrow> Inl audit_ErrNotFound | Some v \<Rightarrow>
        (case unmarshal J v of Inl e \<Rightarrow> Inl (Wrapf ''decode audit record: %w'' [] e) | Inr r \<Rightarrow>
        (case marshal J (finishRecord r now outcome category) of
           Inl e \<Rightarrow> Inl (Wrapf ''encode audit record: %w'' [] e) | Inr encoded \<Rightarrow>
        (case b_put B b (recordKey i) encoded of
           Inl e \<Rightarrow> Inl (Wrapf ''store completed audit record: %w'' [] e) | Inr b1 \<Rightarrow>
          map_sum id (\<lambda>b2. (b2, ())) (audit_trimOldest J B (audit_maxRecords s) b1))))))
      in (s\<lparr>audit_db := db'\<rparr>, res)))"

fun audit_collect :: "audit_record json \<Rightarrow> (nat \<Rightarrow> error option) \<Rightarrow> audit_filter \<Rightarrow> nat \<Rightarrow> nat \<Rightarrow>
    audit_record list \<Rightarrow> string list \<Rightarrow> audit_record list result" where
  "audit_collect J ctx f limit i acc [] = Inr acc"
| "audit_collect J ctx f limit i acc (v # vs) = (if length acc < limit then
     (case ctx i of Some e \<Rightarrow> Inl e | None \<Rightarrow>
     (case unmarshal J v of Inl e \<Rightarrow> Inl (Wrapf ''decode audit record: %w'' [] e) | Inr r \<Rightarrow>
       if af_Action f \<noteq> [] \<and> rec_Action r \<noteq> af_Action f
       then audit_collect J ctx f limit (Suc i) acc vs
       else if af_Outcome f \<noteq> [] \<and> rec_Outcome r \<noteq> af_Outcome f
       then audit_collect J ctx f limit (Suc i) acc vs
       else audit_collect J ctx f limit (Suc i) (acc @ [r]) vs))
     else Inr acc)"

definition audit_List :: "audit_record json \<Rightarrow> 'b bolt \<Rightarrow> 'b audit_store \<Rightarrow> error option \<Rightarrow>
    (nat \<Rightarrow> error option) \<Rightarrow> audit_filter \<Rightarrow> audit_record list result" where
  "audit_List J B s c1 ctx f = (case c1 of Some e \<Rightarrow> Inl e | None \<Rightarrow>
     if af_Limit f < 0 then Inl (Errorf ''limit must not be negative'' [])
     else if af_Outcome f \<noteq> [] \<and> \<not> validOutcome (af_Outcome f)
     then Inl (Errorf ''invalid outcome filter %q'' [af_Outcome f])
     else (let limit = (if af_Limit f = 0 \<or> af_Limit f > audit_maxListLimit
                        then audit_maxListLimit else af_Limit f)
       in (case b_begin B (audit_db s) of Some e \<Rightarrow> Inl e | None \<Rightarrow>
            audit_collect J ctx f (nat limit) 0 [] (rev (map snd (b_pairs B (audit_db s)))))))"

section \<open>The store's contract\<close>

definition coerce_record :: "audit_record \<Rightarrow> audit_record" where
  "coerce_record r = r\<lparr>rec_Action := coerce (rec_Action r), rec_Resource := coerce (rec_Resource r),
     rec_Username := coerce (rec_Username r), rec_Outcome := coerce (rec_Outcome r),
     rec_ErrorCategory := coerce (rec_ErrorCategory r)\<rparr>"

lemma coerce_outcome [simp]: "validOutcome st \<Longrightarrow> coerce st = st"
  by (rule coerce_ascii) (auto simp: validOutcome_def outcome_defs)

lemma rec_ID_simps [simp]:
  "rec_ID (coerce_record r) = rec_ID r" "rec_ID (finishRecord r now st cat) = rec_ID r"
  by (simp_all add: coerce_record_def finishRecord_def)

definition record_started :: "audit_record json \<Rightarrow> string \<Rightarrow> bool" where
  "record_started J v \<longleftrightarrow>
     (case unmarshal J v of Inl _ \<Rightarrow> False | Inr r \<Rightarrow> rec_Outcome r = OutcomeStarted)"

lemma audit_removable_first: "finds_first (\<lambda>v. \<not> record_started J v) (audit_removable J)"
proof -
  have "audit_removable J ps = Inr r \<Longrightarrow>
      r = map_option fst (List.find (\<lambda>p. \<not> record_started J (snd p)) ps)" for ps r
    by (induction J ps rule: audit_removable.induct)
      (auto simp: record_started_def split: sum.splits if_splits)
  then show ?thesis by (simp add: finds_first_def)
qed

lemma audit_trim_exact:
  assumes "bolt_laws B" "key_sorted (b_pairs B b)" "audit_trimOldest J B m b = Inr b'"
  shows "b_pairs B b' =
      drop_first (nat (int (length (b_pairs B b)) - m)) (\<lambda>p. \<not> record_started J (snd p)) (b_pairs B b)"
    and "b_sequence B b' = b_sequence B b"
  using trim_loop_refines[OF assms(1) audit_removable_first assms(3)[unfolded audit_trimOldest_def] assms(2)]
  by auto

interpretation audit_ret: retention "audit_trimOldest J" "record_started J" for J
proof
  fix B :: "'a bolt" and b m b'
  assume "bolt_laws B" "key_sorted (b_pairs B b)" "audit_trimOldest J B m b = Inr b'"
  from audit_trim_exact[OF this]
  show "(\<exists>n. b_pairs B b' = drop_first n (\<lambda>p. \<not> record_started J (snd p)) (b_pairs B b)) \<and>
      b_sequence B b' = b_sequence B b" by blast
qed

text \<open>The record under an identifier; well-formed stores.\<close>

definition stored_record :: "audit_record json \<Rightarrow> 'b bolt \<Rightarrow> 'b \<Rightarrow> 64 word \<Rightarrow> audit_record option" where
  "stored_record J B b i = (case map_of (b_pairs B b) (recordKey i) of None \<Rightarrow> None
     | Some v \<Rightarrow> (case unmarshal J v of Inl _ \<Rightarrow> None | Inr r \<Rightarrow> Some r))"

definition record_ok :: "audit_record \<Rightarrow> bool" where
  "record_ok r \<longleftrightarrow> validOutcome (rec_Outcome r) \<and>
     (rec_FinishedAt r = None \<longleftrightarrow> rec_Outcome r = OutcomeStarted) \<and> 0 \<le> rec_DurationMS r \<and>
     coerce_record r = r"

definition record_entry :: "audit_record json \<Rightarrow> 64 word \<Rightarrow> string \<times> string \<Rightarrow> bool" where
  "record_entry J last_id p \<longleftrightarrow> (\<exists>r. unmarshal J (snd p) = Inr r \<and> fst p = recordKey (rec_ID r) \<and>
     rec_ID r \<le> last_id \<and> record_ok r)"

definition wf_audit :: "audit_record json \<Rightarrow> 'b bolt \<Rightarrow> 'b \<Rightarrow> bool" where
  "wf_audit J B b \<longleftrightarrow> key_sorted (b_pairs B b) \<and>
     (\<forall>p\<in>set (b_pairs B b). record_entry J (b_sequence B b) p)"

lemma recordKey_inject [simp]: "recordKey i = recordKey k \<longleftrightarrow> i = k"
  by (simp add: recordKey_def)

lemma finishRecord_ok:
  assumes "record_ok r" and "validOutcome st" and "st \<noteq> OutcomeStarted"
  shows "record_ok (coerce_record (finishRecord r now st cat))"
  using assms by (simp add: record_ok_def finishRecord_def coerce_record_def Let_def)

lemma wf_audit_lookup:
  assumes "wf_audit J B b" and "map_of (b_pairs B b) (recordKey i) = Some v"
  shows "\<exists>r. unmarshal J v = Inr r \<and> rec_ID r = i \<and> i \<le> b_sequence B b \<and> record_ok r \<and>
    stored_record J B b i = Some r"
  using assms map_of_SomeD[OF assms(2)] by (auto simp: wf_audit_def record_entry_def stored_record_def)

lemma stored_record_value:
  "stored_record J B b i = Some r \<Longrightarrow>
     \<exists>v. map_of (b_pairs B b) (recordKey i) = Some v \<and> unmarshal J v = Inr r"
  by (auto simp: stored_record_def split: option.splits sum.splits)

text \<open>A record written under its own key, followed by the retention pass.\<close>

lemma audit_put_trim:
  assumes laws: "bolt_laws B" "codec_laws coerce_record J" and wf: "wf_audit J B b"
    and enc: "marshal J r = Inr v" and ok: "record_ok (coerce_record r)"
    and put: "b_put B b (recordKey (rec_ID r)) v = Inr b1"
    and trim: "audit_trimOldest J B m b1 = Inr b2" and le: "rec_ID r \<le> b_sequence B b"
  shows "wf_audit J B b2"
    and "stored_record J B b2 (rec_ID r) = Some (coerce_record r) \<or>
         stored_record J B b2 (rec_ID r) = None \<and> rec_Outcome (coerce_record r) \<noteq> OutcomeStarted"
    and "i \<noteq> rec_ID r \<Longrightarrow> stored_record J B b i = Some r0 \<Longrightarrow>
         stored_record J B b2 i = Some r0 \<or>
         stored_record J B b2 i = None \<and> rec_Outcome r0 \<noteq> OutcomeStarted"
    and "i \<noteq> rec_ID r \<Longrightarrow> stored_record J B b i = None \<Longrightarrow> stored_record J B b2 i = None"
proof -
  have srt: "key_sorted (b_pairs B b)" using wf by (simp add: wf_audit_def)
  note pt = audit_ret.put_trim[OF laws(1) srt put trim]
  have dec: "unmarshal J v = Inr (coerce_record r)" by (rule codec_round[OF laws(2) enc])
  have "record_entry J (b_sequence B b) (recordKey (rec_ID r), v)"
    using dec ok le by (simp add: record_entry_def)
  then show "wf_audit J B b2" using pt(1,2,3) wf by (auto simp: wf_audit_def)
  have fin: "rec_Outcome r1 \<noteq> OutcomeStarted" if "unmarshal J w = Inr r1" "\<not> record_started J w"
    for w r1 using that by (simp add: record_started_def)
  show "stored_record J B b2 (rec_ID r) = Some (coerce_record r) \<or>
      stored_record J B b2 (rec_ID r) = None \<and> rec_Outcome (coerce_record r) \<noteq> OutcomeStarted"
    using pt(4) dec fin[OF dec] by (auto simp: stored_record_def)
  show "stored_record J B b2 i = Some r0 \<or>
      stored_record J B b2 i = None \<and> rec_Outcome r0 \<noteq> OutcomeStarted"
    if ne: "i \<noteq> rec_ID r" and st: "stored_record J B b i = Some r0"
  proof -
    obtain w where w: "map_of (b_pairs B b) (recordKey i) = Some w" "unmarshal J w = Inr r0"
      using stored_record_value[OF st] by blast
    then show ?thesis using pt(5)[of "recordKey i" w] ne fin[OF w(2)] by (auto simp: stored_record_def)
  qed
  show "stored_record J B b2 i = None" if "i \<noteq> rec_ID r" "stored_record J B b i = None"
  proof (cases "map_of (b_pairs B b) (recordKey i)")
    case None
    then show ?thesis using pt(6)[of "recordKey i"] that by (simp add: stored_record_def)
  next
    case (Some w)
    then show ?thesis using wf_audit_lookup[OF wf Some] that by auto
  qed
qed

lemma Begin_ok:
  assumes laws: "bolt_laws B" "codec_laws coerce_record J" and wf: "wf_audit J B (audit_db s)"
    and run: "Begin J B s c1 c2 now a = (s', Inr r)"
  shows "wf_audit J B (audit_db s')"
    and "stored_record J B (audit_db s') (rec_ID r) = Some (coerce_record r)"
    and "rec_Outcome r = OutcomeStarted" "rec_Action r = aa_Action a" "rec_Resource r = aa_Resource a"
      "rec_UID r = aa_UID a" "rec_Username r = aa_Username a" "rec_StartedAt r = now"
    and "stored_record J B (audit_db s) i = Some r0 \<Longrightarrow> i < rec_ID r \<and>
      (stored_record J B (audit_db s') i = Some r0 \<or>
       stored_record J B (audit_db s') i = None \<and> rec_Outcome r0 \<noteq> OutcomeStarted)"
proof -
  obtain b1 i' v b2 where nxt: "b_next_sequence B (audit_db s) = Inr (b1, i')"
    and enc: "marshal J r = Inr v" and put: "b_put B b1 (recordKey i') v = Inr b2"
    and trim: "audit_trimOldest J B (audit_maxRecords s) b2 = Inr (audit_db s')"
    and r: "r = \<lparr>rec_ID = i', rec_Action = aa_Action a, rec_Resource = aa_Resource a,
               rec_Username = aa_Username a, rec_UID = aa_UID a, rec_StartedAt = now,
               rec_FinishedAt = None, rec_Outcome = OutcomeStarted, rec_ErrorCategory = [],
               rec_DurationMS = 0\<rparr>"
    using run by (auto simp: Begin_def Let_def split: option.splits sum.splits prod.splits
        dest!: db_update_ok)
  note n = bolt_next[OF laws(1) nxt]
  have i': "b_sequence B (audit_db s) < i'" using n by (simp add: word_less_nat_alt)
  have wf1: "wf_audit J B b1" using wf n i' by (force simp: wf_audit_def record_entry_def)
  have ID: "rec_ID r = i'" by (simp add: r)
  have ok: "record_ok (coerce_record r)"
    by (simp add: r record_ok_def coerce_record_def validOutcome_def)
  have le: "rec_ID r \<le> b_sequence B b1" using n ID by simp
  note w = audit_put_trim[OF laws wf1 enc ok put[folded ID] trim le]
  have same: "stored_record J B b1 = stored_record J B (audit_db s)"
    using n by (simp add: stored_record_def fun_eq_iff)
  show "wf_audit J B (audit_db s')" by (rule w(1))
  show "rec_Outcome r = OutcomeStarted" "rec_Action r = aa_Action a" "rec_Resource r = aa_Resource a"
      "rec_UID r = aa_UID a" "rec_Username r = aa_Username a" "rec_StartedAt r = now"
    by (simp_all add: r)
  have "rec_Outcome (coerce_record r) = OutcomeStarted"
    by (simp add: r coerce_record_def validOutcome_def)
  then show "stored_record J B (audit_db s') (rec_ID r) = Some (coerce_record r)" using w(2) by blast
  show "i < rec_ID r \<and> (stored_record J B (audit_db s') i = Some r0 \<or>
       stored_record J B (audit_db s') i = None \<and> rec_Outcome r0 \<noteq> OutcomeStarted)"
    if st: "stored_record J B (audit_db s) i = Some r0"
  proof -
    obtain x where "map_of (b_pairs B (audit_db s)) (recordKey i) = Some x"
      using stored_record_value[OF st] by blast
    then have "i < rec_ID r" using wf_audit_lookup[OF wf] i' ID by fastforce
    then show ?thesis using w(3)[of i r0] st same by auto
  qed
qed

lemma audit_Complete_ok:
  assumes laws: "bolt_laws B" "codec_laws coerce_record J" and wf: "wf_audit J B (audit_db s)"
    and run: "audit_Complete J B s c1 c2 now i outcome cat = (s', Inr ())"
  shows "\<exists>r. stored_record J B (audit_db s) i = Some r \<and> record_ok r \<and> wf_audit J B (audit_db s') \<and>
      validOutcome outcome \<and> outcome \<noteq> OutcomeStarted \<and>
      (stored_record J B (audit_db s') i = Some (coerce_record (finishRecord r now outcome cat)) \<or>
       stored_record J B (audit_db s') i = None) \<and>
      (\<forall>k r0. k \<noteq> i \<longrightarrow> stored_record J B (audit_db s) k = Some r0 \<longrightarrow>
         stored_record J B (audit_db s') k = Some r0 \<or>
         stored_record J B (audit_db s') k = None \<and> rec_Outcome r0 \<noteq> OutcomeStarted)"
proof -
  let ?b = "audit_db s"
  have out: "validOutcome outcome" "outcome \<noteq> OutcomeStarted" and c1: "c1 = None"
    using run by (auto simp: audit_Complete_def validOutcome_def split: option.splits if_splits)
      (auto simp: outcome_defs)
  obtain v r e b1 where get: "map_of (b_pairs B ?b) (recordKey i) = Some v"
    and dec: "unmarshal J v = Inr r" and enc: "marshal J (finishRecord r now outcome cat) = Inr e"
    and put: "b_put B ?b (recordKey i) e = Inr b1"
    and trim: "audit_trimOldest J B (audit_maxRecords s) b1 = Inr (audit_db s')"
    using run c1 by (auto simp: audit_Complete_def bolt_get[OF laws(1)] split: option.splits sum.splits
        prod.splits if_splits dest!: db_update_ok)
  have r: "rec_ID r = i" "i \<le> b_sequence B ?b" "record_ok r" "stored_record J B ?b i = Some r"
    using wf_audit_lookup[OF wf get] dec by auto
  note w = audit_put_trim[OF laws wf enc finishRecord_ok[OF r(3) out], simplified, unfolded r(1),
      OF put trim r(2)]
  show ?thesis using r out w by auto
qed

section \<open>Recovery\<close>

definition recovered_record :: "int \<Rightarrow> audit_record \<Rightarrow> audit_record" where
  "recovered_record now r = (if rec_Outcome r = OutcomeStarted
     then coerce_record (finishRecord r now OutcomeUnknown []) else r)"

lemma unknown_outcome: "validOutcome OutcomeUnknown" "OutcomeUnknown \<noteq> OutcomeStarted"
  by (simp add: validOutcome_def) (simp add: outcome_defs)

lemma recovered_outcome: "rec_Outcome (recovered_record now r) \<noteq> OutcomeStarted"
  using unknown_outcome by (simp add: recovered_record_def finishRecord_def coerce_record_def)

lemma audit_recover_ok:
  assumes laws: "bolt_laws B" "codec_laws coerce_record J"
  shows "audit_recover J B now ps b = Inr b' \<Longrightarrow> wf_audit J B b \<Longrightarrow> wf_map ps \<Longrightarrow>
    (\<forall>(k, v)\<in>set ps. map_of (b_pairs B b) k = Some v) \<Longrightarrow>
    wf_audit J B b' \<and> (\<forall>i. stored_record J B b' i =
      (if recordKey i \<in> fst ` set ps then map_option (recovered_record now) (stored_record J B b i)
       else stored_record J B b i))"
proof (induction ps arbitrary: b)
  case Nil
  then show ?case by simp
next
  case (Cons x ps)
  obtain k v where x: "x = (k, v)" by (cases x)
  note prems = Cons.prems[unfolded x]
  have kv: "map_of (b_pairs B b) k = Some v" using prems by simp
  obtain r where r: "unmarshal J v = Inr r" "k = recordKey (rec_ID r)" "record_ok r"
      "rec_ID r \<le> b_sequence B b"
    using prems(2) map_of_SomeD[OF kv] by (auto simp: wf_audit_def record_entry_def)
  have st: "stored_record J B b (rec_ID r) = Some r" using kv r by (simp add: stored_record_def)
  have nk: "k \<notin> fst ` set ps" using prems(3) by simp
  show ?case
  proof (cases "rec_Outcome r = OutcomeStarted")
    case False
    then have "recovered_record now r = r" by (simp add: recovered_record_def)
    then show ?thesis using Cons.IH[of b] prems False r st nk x by auto
  next
    case True
    obtain e b1 where enc: "marshal J (finishRecord r now OutcomeUnknown []) = Inr e"
      and put: "b_put B b k e = Inr b1" and rest: "audit_recover J B now ps b1 = Inr b'"
      using prems(1) r True by (auto split: sum.splits)
    let ?r = "coerce_record (finishRecord r now OutcomeUnknown [])"
    note p = bolt_put[OF laws(1) put]
    have srt: "key_sorted (b_pairs B b)" using prems(2) by (simp add: wf_audit_def)
    have m: "map_of (b_pairs B b1) = (map_of (b_pairs B b))(k \<mapsto> e)"
      using p map_of_ordered_put[OF srt] by simp
    have dec: "unmarshal J e = Inr ?r" by (rule codec_round[OF laws(2) enc])
    have "record_entry J (b_sequence B b) (k, e)"
      using dec r finishRecord_ok[OF r(3) unknown_outcome, of now "[]"] by (simp add: record_entry_def)
    then have wf1: "wf_audit J B b1"
      using prems(2) p set_ordered_put[of k e "b_pairs B b"] srt by (auto simp: wf_audit_def)
    have vals: "\<forall>(k', v')\<in>set ps. map_of (b_pairs B b1) k' = Some v'"
      using prems(3,4) m by (auto simp: rev_image_eqI)
    have st1: "stored_record J B b1 i = (if i = rec_ID r then Some ?r else stored_record J B b i)" for i
      using m dec r(2) by (simp add: stored_record_def)
    have "recovered_record now r = ?r" using True by (simp add: recovered_record_def)
    with Cons.IH[OF rest wf1 _ vals] prems(3) show ?thesis using st1 st nk r(2) x by auto
  qed
qed

section \<open>A concrete store\<close>

definition demo_record :: audit_record where
  "demo_record = \<lparr>rec_ID = 1, rec_Action = ''unit.start'', rec_Resource = ''ssh.service'',
     rec_Username = ''ann'', rec_UID = 1000, rec_StartedAt = 5, rec_FinishedAt = None,
     rec_Outcome = OutcomeStarted, rec_ErrorCategory = [], rec_DurationMS = 0\<rparr>"

definition demo_failed :: audit_record where
  "demo_failed = finishRecord demo_record 4000005 OutcomeFailed ''timeout''"

definition demo_lost :: audit_record where
  "demo_lost = finishRecord demo_record 9 OutcomeUnknown []"

definition demo_audit_codec :: "audit_record json" where
  "demo_audit_codec = table_codec coerce_record [demo_record, demo_failed, demo_lost]"

lemma demo_audit_laws: "codec_laws coerce_record demo_audit_codec"
  unfolding demo_audit_codec_def by (rule table_codec_laws)

lemma demo_record_coerce: "coerce_record demo_record = demo_record"
  "coerce_record demo_failed = demo_failed" "coerce_record demo_lost = demo_lost"
  by (simp_all add: coerce_record_def demo_record_def demo_failed_def demo_lost_def finishRecord_def
      outcome_defs coerce_ascii)

lemma demo_audit_codes:
  "marshal demo_audit_codec demo_record = Inr []" "marshal demo_audit_codec demo_failed = Inr ''x''"
  "marshal demo_audit_codec demo_lost = Inr ''xx''"
  "unmarshal demo_audit_codec [] = Inr demo_record"
  by (simp_all add: demo_audit_codec_def table_codec_def demo_record_coerce)
    (simp_all add: demo_record_def demo_failed_def demo_lost_def finishRecord_def outcome_defs
      numeral_2_eq_2)

lemma demo_audit_wf:
  "wf_audit demo_audit_codec mem_bolt ([], 0)"
  "wf_audit demo_audit_codec mem_bolt ([(recordKey 1, [])], 1)"
proof -
  have "record_ok demo_record"
    by (simp add: record_ok_def demo_record_coerce) (simp add: demo_record_def validOutcome_def)
  moreover have "rec_ID demo_record = 1" by (simp add: demo_record_def)
  ultimately show "wf_audit demo_audit_codec mem_bolt ([], 0)"
    "wf_audit demo_audit_codec mem_bolt ([(recordKey 1, [])], 1)"
    by (simp_all add: wf_audit_def record_entry_def demo_audit_codes)
qed

abbreviation demo_audit :: "(string \<times> string) list \<Rightarrow> ((string \<times> string) list \<times> 64 word) audit_store" where
  "demo_audit ps \<equiv> \<lparr>audit_db = (ps, of_nat (length ps)), audit_maxRecords = 2\<rparr>"

section \<open>Properties\<close>

text \<open>
  Audit before action. A successful \<open>Begin\<close> has stored the attempt durably, outcome started,
  with the caller's fields, under an identifier above every stored one; no started record is
  lost by it.
\<close>

theorem begin_durable:
  assumes "bolt_laws B" and "codec_laws coerce_record J" and "wf_audit J B (audit_db s)"
    and "Begin J B s c1 c2 now a = (s', Inr r)"
  shows "wf_audit J B (audit_db s') \<and>
    stored_record J B (audit_db s') (rec_ID r) = Some (coerce_record r) \<and>
    rec_Outcome r = OutcomeStarted \<and> rec_Action r = aa_Action a \<and> rec_Resource r = aa_Resource a \<and>
    rec_UID r = aa_UID a \<and> rec_Username r = aa_Username a \<and> rec_StartedAt r = now \<and>
    (\<forall>i r0. stored_record J B (audit_db s) i = Some r0 \<longrightarrow> i < rec_ID r \<and>
      (rec_Outcome r0 = OutcomeStarted \<longrightarrow> stored_record J B (audit_db s') i = Some r0))"
  using Begin_ok(1-8)[OF assms] Begin_ok(9)[OF assms] by blast

theorem begin_durable_witness:
  "stored_record demo_audit_codec mem_bolt (audit_db (fst (Begin demo_audit_codec mem_bolt
     (demo_audit []) None None 5 \<lparr>aa_Action = ''unit.start'', aa_Resource = ''ssh.service'',
       aa_Username = ''ann'', aa_UID = 1000\<rparr>))) 1 = Some demo_record"
proof -
  have run: "Begin demo_audit_codec mem_bolt (demo_audit []) None None 5
      \<lparr>aa_Action = ''unit.start'', aa_Resource = ''ssh.service'', aa_Username = ''ann'',
       aa_UID = 1000\<rparr> =
      (\<lparr>audit_db = ([(recordKey 1, [])], 1), audit_maxRecords = 2\<rparr>, Inr demo_record)"
    using demo_audit_codes(1) by (simp add: Begin_def db_update_def audit_trimOldest_def
        trim_loop.simps demo_record_def)
  have "wf_audit demo_audit_codec mem_bolt (audit_db (demo_audit []))" using demo_audit_wf(1) by simp
  from begin_durable[OF mem_bolt_laws demo_audit_laws this run] run demo_record_coerce(1)
  show ?thesis by (simp add: demo_record_def)
qed

text \<open>
  Completion. A successful \<open>Complete\<close> found the record and gave it the final outcome, its
  category and a non-negative duration (or the retention pass dropped it as finished); every
  other record is unchanged, and no started record is dropped.
\<close>

theorem complete_records_outcome:
  assumes "bolt_laws B" and "codec_laws coerce_record J" and "wf_audit J B (audit_db s)"
    and "audit_Complete J B s c1 c2 now i outcome cat = (s', Inr ())"
  shows "\<exists>r. stored_record J B (audit_db s) i = Some r \<and>
    outcome \<in> {OutcomeSucceeded, OutcomeFailed, OutcomeUnknown} \<and> wf_audit J B (audit_db s') \<and>
    (stored_record J B (audit_db s') i = None \<or>
     stored_record J B (audit_db s') i = Some (coerce_record (finishRecord r now outcome cat))) \<and>
    (\<forall>k r0. k \<noteq> i \<longrightarrow> stored_record J B (audit_db s) k = Some r0 \<longrightarrow>
      stored_record J B (audit_db s') k = Some r0 \<or>
      stored_record J B (audit_db s') k = None \<and> rec_Outcome r0 \<noteq> OutcomeStarted)"
  using audit_Complete_ok[OF assms] unfolding validOutcome_def by blast

theorem complete_records_outcome_witness:
  "\<exists>s' r. audit_Complete demo_audit_codec mem_bolt (demo_audit [(recordKey 1, [])]) None None 4000005 1
       OutcomeFailed ''timeout'' = (s', Inr ()) \<and>
     stored_record demo_audit_codec mem_bolt ([(recordKey 1, [])], 1) 1 = Some r \<and>
     wf_audit demo_audit_codec mem_bolt (audit_db s')"
proof -
  have run: "audit_Complete demo_audit_codec mem_bolt (demo_audit [(recordKey 1, [])]) None None
      4000005 1 OutcomeFailed ''timeout'' =
      (\<lparr>audit_db = ([(recordKey 1, ''x'')], 1), audit_maxRecords = 2\<rparr>, Inr ())"
    using demo_audit_codes(2)
    by (simp add: audit_Complete_def db_update_def audit_trimOldest_def trim_loop.simps
        demo_audit_codes demo_failed_def)
  have "wf_audit demo_audit_codec mem_bolt (audit_db (demo_audit [(recordKey 1, [])]))"
    using demo_audit_wf(2) by simp
  from complete_records_outcome[OF mem_bolt_laws demo_audit_laws this run] run
  show ?thesis by auto
qed

text \<open>
  C20. Retention. A pass of \<open>trimOldest\<close> drops exactly the oldest finished records, as many as
  exceed the limit and no more: afterwards the store holds at most the limit or only started
  records beyond it, and every started record is still there.
\<close>

theorem audit_retention:
  assumes "bolt_laws B" and "key_sorted (b_pairs B b)" and "audit_trimOldest J B m b = Inr b'"
  shows "b_pairs B b' = drop_first (nat (int (length (b_pairs B b)) - m))
      (\<lambda>p. \<not> record_started J (snd p)) (b_pairs B b) \<and>
    int (length (b_pairs B b')) \<le> max m (int (length (filter (\<lambda>p. record_started J (snd p)) (b_pairs B b)))) \<and>
    filter (\<lambda>p. record_started J (snd p)) (b_pairs B b') =
      filter (\<lambda>p. record_started J (snd p)) (b_pairs B b)"
proof -
  let ?P = "\<lambda>p. \<not> record_started J (snd p)" and ?ps = "b_pairs B b"
  note eq = audit_trim_exact(1)[OF assms]
  have keep: "filter (\<lambda>p. \<not> P p) (drop_first n P xs) = filter (\<lambda>p. \<not> P p) xs"
    for n and P :: "string \<times> string \<Rightarrow> bool" and xs
    by (induction n P xs rule: drop_first.induct) auto
  have "length (filter ?P ?ps) + length (filter (\<lambda>p. record_started J (snd p)) ?ps) = length ?ps"
    using sum_length_filter_compl[of ?P ?ps] by simp
  then have "int (length (b_pairs B b')) \<le>
      max m (int (length (filter (\<lambda>p. record_started J (snd p)) ?ps)))"
    unfolding eq length_drop_first by linarith
  then show ?thesis using eq keep[of ?P] by simp
qed

theorem audit_retention_witness:
  "b_pairs mem_bolt ([(recordKey 2, [])], 2) =
     drop_first 1 (\<lambda>p. \<not> record_started demo_audit_codec (snd p))
       [(recordKey 1, ''xx''), (recordKey 2, [])]"
proof -
  have lost: "unmarshal demo_audit_codec ''xx'' = Inr demo_lost"
    using codec_round[OF demo_audit_laws demo_audit_codes(3)] by (simp add: demo_record_coerce)
  have "rec_Outcome demo_lost \<noteq> OutcomeStarted"
    using unknown_outcome by (simp add: demo_lost_def finishRecord_def)
  moreover have "recordKey 2 \<noteq> recordKey 1" by simp
  ultimately have run: "audit_trimOldest demo_audit_codec mem_bolt 1
      ([(recordKey 1, ''xx''), (recordKey 2, [])], 2) = Inr ([(recordKey 2, [])], 2)"
    using lost by (simp add: audit_trimOldest_def trim_loop.simps ordered_delete_def)
  have srt: "key_sorted (b_pairs mem_bolt ([(recordKey 1, ''xx''), (recordKey 2, [])], 2))"
    by (simp add: recordKey_def put_uint64_less)
  show ?thesis using audit_retention[OF mem_bolt_laws srt run] by simp
qed

text \<open>
  Recovery. When \<open>Open\<close> succeeds on a well-formed bucket, no stored record is still
  started: each interrupted one is finished as unknown, every other one is unchanged.
\<close>

theorem audit_open_recovers:
  assumes "bolt_laws B" and "codec_laws coerce_record J"
    and "created db = Inr bucket" and "wf_audit J B bucket"
    and "audit_Open J B (Inr db) chmod created now m = Inr s"
  shows "wf_audit J B (audit_db s) \<and> audit_maxRecords s = m \<and> 0 < m \<and>
    (\<forall>i r'. stored_record J B (audit_db s) i = Some r' \<longrightarrow> rec_Outcome r' \<noteq> OutcomeStarted \<and>
       (\<exists>r. stored_record J B bucket i = Some r \<and> r' = recovered_record now r))"
proof -
  obtain b1 where rec: "audit_recover J B now (b_pairs B bucket) bucket = Inr b1"
    and trim: "audit_trimOldest J B m b1 = Inr (audit_db s)" and m: "audit_maxRecords s = m" "0 < m"
  proof -
    obtain db' r where u: "db_update B db (audit_init J B created now m) = (db', r)"
      by (cases "db_update B db (audit_init J B created now m)")
    have "0 < m" "chmod = None" "r = Inr ()"
      using assms(5) u by (cases r; cases chmod; cases "m \<le> 0"; simp add: audit_Open_def)+
    moreover from this have s: "s = \<lparr>audit_db = db', audit_maxRecords = m\<rparr>"
      using assms(5) u by (simp add: audit_Open_def)
    ultimately show ?thesis using db_update_ok[of B db "audit_init J B created now m" db' "()"] u
      using that s assms(3) by (auto simp: audit_init_def split: sum.splits)
  qed
  have srt: "key_sorted (b_pairs B bucket)" using assms(4) by (simp add: wf_audit_def)
  then have all: "\<forall>(k, v)\<in>set (b_pairs B bucket). map_of (b_pairs B bucket) k = Some v"
    using key_sorted_distinct by (auto intro: map_of_is_SomeI)
  note r = audit_recover_ok[OF assms(1,2) rec assms(4) key_sorted_distinct[OF srt] all]
  have wf1: "wf_audit J B b1" using r by blast
  have srt1: "key_sorted (b_pairs B b1)" using wf1 by (simp add: wf_audit_def)
  note t = audit_ret.trim_pairs[OF assms(1) srt1 trim]
  have wf2: "wf_audit J B (audit_db s)" using wf1 t by (auto simp: wf_audit_def)
  have "rec_Outcome r' \<noteq> OutcomeStarted \<and>
      (\<exists>r. stored_record J B bucket i = Some r \<and> r' = recovered_record now r)"
    if st: "stored_record J B (audit_db s) i = Some r'" for i r'
  proof -
    obtain v where v: "map_of (b_pairs B (audit_db s)) (recordKey i) = Some v" "unmarshal J v = Inr r'"
      using stored_record_value[OF st] by blast
    have "map_of (b_pairs B b1) (recordKey i) = Some v"
      using v(1) t(2) key_sorted_distinct[OF srt1] map_of_SomeD[OF v(1)]
      by (auto intro: map_of_is_SomeI)
    then have "stored_record J B b1 i = Some r'" using v(2) by (simp add: stored_record_def)
    moreover have "recordKey i \<in> fst ` set (b_pairs B bucket)" if "stored_record J B bucket i = Some r0" for r0
      using stored_record_value[OF that] by (metis fst_conv image_eqI map_of_SomeD)
    ultimately obtain r0 where "stored_record J B bucket i = Some r0" "r' = recovered_record now r0"
      using r by (cases "stored_record J B bucket i") (auto split: if_splits)
    then show ?thesis using recovered_outcome by blast
  qed
  then show ?thesis using wf2 m by blast
qed

theorem audit_open_recovers_witness:
  "\<exists>s. audit_Open demo_audit_codec mem_bolt (Inr ([(recordKey 1, [])], 1)) None Inr 9 2 = Inr s \<and>
     wf_audit demo_audit_codec mem_bolt (audit_db s) \<and> 0 < audit_maxRecords s"
proof -
  have "finishRecord demo_record 9 OutcomeUnknown [] = demo_lost" by (simp add: demo_lost_def)
  moreover have "rec_Outcome demo_record = OutcomeStarted" by (simp add: demo_record_def)
  ultimately have run: "audit_Open demo_audit_codec mem_bolt (Inr ([(recordKey 1, [])], 1)) None Inr 9 2 =
      Inr \<lparr>audit_db = ([(recordKey 1, ''xx'')], 1), audit_maxRecords = 2\<rparr>"
    using demo_audit_codes(3,4) by (simp add: audit_Open_def audit_init_def db_update_def
        audit_trimOldest_def trim_loop.simps)
  show ?thesis
    using audit_open_recovers[OF mem_bolt_laws demo_audit_laws refl demo_audit_wf(2) run] run by simp
qed

end
