(* ===== verification/Jobs.thy ===== *)
theory Jobs
  imports Bolt
begin

text \<open>
  The durable maintenance jobs (\<open>internal/jobs/jobs.go\<close>). The store is a bucket and the
  retention limit. Each call of \<open>ctx.Err()\<close> and \<open>time.Now()\<close> inside an operation is an argument:
  \<open>c1\<close> at entry, \<open>c2\<close> inside the transaction, \<open>now\<close> the clock; a walk that asks the context per
  record takes the answers as a function of the iteration.
\<close>

section \<open>Data\<close>

record job_attempt =
  ja_Action :: string
  ja_AuditID :: "64 word"
  ja_Resource :: string
  ja_Username :: string
  ja_UID :: int

record job =
  job_ID :: "64 word"
  job_AuditID :: "64 word"
  job_Action :: string
  job_Resource :: string
  job_Username :: string
  job_UID :: int
  job_Status :: string
  job_ErrorCategory :: string
  job_RebootRequired :: bool
  job_CreatedAt :: int
  job_StartedAt :: "int option"
  job_FinishedAt :: "int option"
  job_DurationMS :: int

record job_filter =
  jf_Limit :: int
  jf_Action :: string
  jf_Status :: string

record 'b job_store =
  jobs_db :: 'b
  jobs_maxRecords :: int

definition StatusQueued :: string where "StatusQueued = ''queued''"
definition StatusRunning :: string where "StatusRunning = ''running''"
definition StatusSucceeded :: string where "StatusSucceeded = ''succeeded''"
definition StatusFailed :: string where "StatusFailed = ''failed''"
definition StatusUnknown :: string where "StatusUnknown = ''unknown''"

lemmas status_defs = StatusQueued_def StatusRunning_def StatusSucceeded_def StatusFailed_def
  StatusUnknown_def

definition maxListLimit :: int where "maxListLimit = 100"

definition jobs_ErrNotFound :: error where
  "jobs_ErrNotFound = Sentinel ''job not found''"
definition ErrInvalidTransition :: error where
  "ErrInvalidTransition = Sentinel ''invalid job status transition''"

section \<open>Operations\<close>

definition activeStatus :: "string \<Rightarrow> bool" where
  "activeStatus status \<longleftrightarrow> status = StatusQueued \<or> status = StatusRunning"

definition finalStatus :: "string \<Rightarrow> bool" where
  "finalStatus status \<longleftrightarrow> status = StatusSucceeded \<or> status = StatusFailed \<or> status = StatusUnknown"

definition validStatus :: "string \<Rightarrow> bool" where
  "validStatus status \<longleftrightarrow> activeStatus status \<or> finalStatus status"

definition jobKey :: "64 word \<Rightarrow> string" where
  "jobKey i = put_uint64 i"

definition finishJob :: "job \<Rightarrow> int \<Rightarrow> string \<Rightarrow> string \<Rightarrow> bool \<Rightarrow> job" where
  "finishJob j finishedAt status category reboot =
     j\<lparr>job_Status := status, job_ErrorCategory := category, job_RebootRequired := reboot,
       job_FinishedAt := Some finishedAt,
       job_DurationMS := (case job_StartedAt j of None \<Rightarrow> 0
         | Some started \<Rightarrow> (let d = milliseconds (time_sub finishedAt started) in
             if d < 0 then 0 else d))\<rparr>"

fun jobs_removable :: "job json \<Rightarrow> (string \<times> string) list \<Rightarrow> string option result" where
  "jobs_removable J [] = Inr None"
| "jobs_removable J ((k, v) # ps) = (case unmarshal J v of
     Inl e \<Rightarrow> Inl (Wrapf ''decode job for retention: %w'' [] e)
   | Inr j \<Rightarrow> if \<not> activeStatus (job_Status j) then Inr (Some k) else jobs_removable J ps)"

definition jobs_trimOldest :: "job json \<Rightarrow> 'b bolt \<Rightarrow> int \<Rightarrow> 'b \<Rightarrow> 'b result" where
  "jobs_trimOldest J B maxRecords b =
     trim_loop B (jobs_removable J) (Wrapf ''delete old job: %w'' []) maxRecords (int (b_keyN B b)) b"

text \<open>The recovery walk of \<open>Open\<close>: every active job is finished as unknown.\<close>

fun jobs_recover :: "job json \<Rightarrow> 'b bolt \<Rightarrow> int \<Rightarrow> (string \<times> string) list \<Rightarrow> 'b \<Rightarrow> 'b result" where
  "jobs_recover J B now [] b = Inr b"
| "jobs_recover J B now ((k, v) # ps) b = (case unmarshal J v of
     Inl e \<Rightarrow> Inl (Wrapf ''decode job: %w'' [] e)
   | Inr j \<Rightarrow> if \<not> activeStatus (job_Status j) then jobs_recover J B now ps b
       else (case marshal J (finishJob j now StatusUnknown [] False) of
         Inl e \<Rightarrow> Inl (Wrapf ''encode recovered job: %w'' [] e)
       | Inr encoded \<Rightarrow> (case b_put B b k encoded of
           Inl e \<Rightarrow> Inl (Wrapf ''recover job: %w'' [] e)
         | Inr b' \<Rightarrow> jobs_recover J B now ps b')))"

text \<open>The transaction of \<open>Open\<close>.\<close>

definition jobs_init :: "job json \<Rightarrow> 'b bolt \<Rightarrow> ('b \<Rightarrow> 'b result) \<Rightarrow> int \<Rightarrow> int \<Rightarrow> 'b \<Rightarrow>
    ('b \<times> unit) result" where
  "jobs_init J B created now maxRecords b = (case created b of
     Inl e \<Rightarrow> Inl (Wrapf ''create jobs bucket: %w'' [] e)
   | Inr bucket \<Rightarrow> (case jobs_recover J B now (b_pairs B bucket) bucket of
       Inl e \<Rightarrow> Inl e
     | Inr b' \<Rightarrow> map_sum id (\<lambda>b''. (b'', ())) (jobs_trimOldest J B maxRecords b')))"

text \<open>
  \<open>Open\<close>: \<open>opened\<close> and \<open>chmod\<close> are the answers of \<open>bolt.Open\<close> and \<open>os.Chmod\<close>, \<open>created\<close> the
  bucket \<open>CreateBucketIfNotExists\<close> returns.
\<close>

definition jobs_Open :: "job json \<Rightarrow> 'b bolt \<Rightarrow> 'b result \<Rightarrow> error option \<Rightarrow> ('b \<Rightarrow> 'b result) \<Rightarrow>
    int \<Rightarrow> int \<Rightarrow> 'b job_store result" where
  "jobs_Open J B opened chmod created now maxRecords =
     (if maxRecords \<le> 0 then Inl (Errorf ''maxRecords must be positive'' []) else
      (case opened of Inl e \<Rightarrow> Inl (Wrapf ''open jobs database: %w'' [] e) | Inr db \<Rightarrow>
      (case chmod of Some e \<Rightarrow> Inl (Wrapf ''secure jobs database: %w'' [] e) | None \<Rightarrow>
      (case db_update B db (jobs_init J B created now maxRecords) of
         (db', Inl e) \<Rightarrow> Inl (Wrapf ''initialize jobs database: %w'' [] e)
       | (db', Inr _) \<Rightarrow> Inr \<lparr>jobs_db = db', jobs_maxRecords = maxRecords\<rparr>))))"

definition jobs_Close :: "'b bolt \<Rightarrow> 'b job_store \<Rightarrow> 'b job_store \<times> error option" where
  "jobs_Close B s = (let (db, e) = b_close B (jobs_db s) in (s\<lparr>jobs_db := db\<rparr>, e))"

definition Enqueue :: "job json \<Rightarrow> 'b bolt \<Rightarrow> 'b job_store \<Rightarrow> error option \<Rightarrow> error option \<Rightarrow> int \<Rightarrow>
    job_attempt \<Rightarrow> 'b job_store \<times> job result" where
  "Enqueue J B s c1 c2 now a = (case c1 of Some e \<Rightarrow> (s, Inl e) | None \<Rightarrow>
     (let j = \<lparr>job_ID = 0, job_AuditID = ja_AuditID a, job_Action = ja_Action a,
               job_Resource = ja_Resource a, job_Username = ja_Username a, job_UID = ja_UID a,
               job_Status = StatusQueued, job_ErrorCategory = [], job_RebootRequired = False,
               job_CreatedAt = now, job_StartedAt = None, job_FinishedAt = None,
               job_DurationMS = 0\<rparr>;
          (db', r) = db_update B (jobs_db s) (\<lambda>b. case c2 of Some e \<Rightarrow> Inl e | None \<Rightarrow>
            (case b_next_sequence B b of Inl e \<Rightarrow> Inl (Wrapf ''allocate job ID: %w'' [] e)
             | Inr (b1, i) \<Rightarrow> (case marshal J (j\<lparr>job_ID := i\<rparr>) of
                 Inl e \<Rightarrow> Inl (Wrapf ''encode job: %w'' [] e)
               | Inr encoded \<Rightarrow> (case b_put B b1 (jobKey i) encoded of
                   Inl e \<Rightarrow> Inl (Wrapf ''store job: %w'' [] e)
                 | Inr b2 \<Rightarrow> map_sum id (\<lambda>b3. (b3, j\<lparr>job_ID := i\<rparr>))
                     (jobs_trimOldest J B (jobs_maxRecords s) b2)))))
      in (s\<lparr>jobs_db := db'\<rparr>, r)))"

definition jobs_update :: "job json \<Rightarrow> 'b bolt \<Rightarrow> 'b job_store \<Rightarrow> error option \<Rightarrow> 64 word \<Rightarrow>
    (job \<Rightarrow> job result) \<Rightarrow> 'b job_store \<times> unit result" where
  "jobs_update J B s c2 i change =
     (let (db', r) = db_update B (jobs_db s) (\<lambda>b. case c2 of Some e \<Rightarrow> Inl e | None \<Rightarrow>
        (case b_get B b (jobKey i) of None \<Rightarrow> Inl jobs_ErrNotFound | Some v \<Rightarrow>
        (case unmarshal J v of Inl e \<Rightarrow> Inl (Wrapf ''decode job: %w'' [] e) | Inr j \<Rightarrow>
        (case change j of Inl e \<Rightarrow> Inl e | Inr j' \<Rightarrow>
        (case marshal J j' of Inl e \<Rightarrow> Inl (Wrapf ''encode job: %w'' [] e) | Inr encoded \<Rightarrow>
        (case b_put B b (jobKey i) encoded of Inl e \<Rightarrow> Inl (Wrapf ''store job: %w'' [] e) | Inr b1 \<Rightarrow>
          map_sum id (\<lambda>b2. (b2, ())) (jobs_trimOldest J B (jobs_maxRecords s) b1)))))))
      in (s\<lparr>jobs_db := db'\<rparr>, r))"

definition start_change :: "int \<Rightarrow> job \<Rightarrow> job result" where
  "start_change now j = (if job_Status j \<noteq> StatusQueued
     then Inl (Wrapf ''%w: cannot start job in status %q'' [job_Status j] ErrInvalidTransition)
     else Inr (j\<lparr>job_Status := StatusRunning, job_StartedAt := Some now\<rparr>))"

definition jobs_Start :: "job json \<Rightarrow> 'b bolt \<Rightarrow> 'b job_store \<Rightarrow> error option \<Rightarrow> error option \<Rightarrow> int \<Rightarrow>
    64 word \<Rightarrow> 'b job_store \<times> unit result" where
  "jobs_Start J B s c1 c2 now i = (case c1 of Some e \<Rightarrow> (s, Inl e) | None \<Rightarrow>
     jobs_update J B s c2 i (start_change now))"

definition complete_change :: "int \<Rightarrow> string \<Rightarrow> string \<Rightarrow> bool \<Rightarrow> job \<Rightarrow> job result" where
  "complete_change now status category reboot j = (if job_Status j \<noteq> StatusRunning
     then Inl (Wrapf ''%w: cannot complete job in status %q'' [job_Status j] ErrInvalidTransition)
     else Inr (finishJob j now status category reboot))"

definition jobs_Complete :: "job json \<Rightarrow> 'b bolt \<Rightarrow> 'b job_store \<Rightarrow> error option \<Rightarrow> error option \<Rightarrow>
    int \<Rightarrow> 64 word \<Rightarrow> string \<Rightarrow> string \<Rightarrow> bool \<Rightarrow> 'b job_store \<times> unit result" where
  "jobs_Complete J B s c1 c2 now i status category reboot = (case c1 of Some e \<Rightarrow> (s, Inl e) | None \<Rightarrow>
     if \<not> finalStatus status then (s, Inl (Errorf ''invalid final status %q'' [status]))
     else jobs_update J B s c2 i (complete_change now status category reboot))"

fun jobs_collect :: "job json \<Rightarrow> (nat \<Rightarrow> error option) \<Rightarrow> job_filter \<Rightarrow> nat \<Rightarrow> nat \<Rightarrow> job list \<Rightarrow>
    string list \<Rightarrow> job list result" where
  "jobs_collect J ctx f limit i acc [] = Inr acc"
| "jobs_collect J ctx f limit i acc (v # vs) = (if length acc < limit then
     (case ctx i of Some e \<Rightarrow> Inl e | None \<Rightarrow>
     (case unmarshal J v of Inl e \<Rightarrow> Inl (Wrapf ''decode job: %w'' [] e) | Inr j \<Rightarrow>
       if jf_Action f \<noteq> [] \<and> job_Action j \<noteq> jf_Action f
       then jobs_collect J ctx f limit (Suc i) acc vs
       else if jf_Status f \<noteq> [] \<and> job_Status j \<noteq> jf_Status f
       then jobs_collect J ctx f limit (Suc i) acc vs
       else jobs_collect J ctx f limit (Suc i) (acc @ [j]) vs))
     else Inr acc)"

definition jobs_List :: "job json \<Rightarrow> 'b bolt \<Rightarrow> 'b job_store \<Rightarrow> error option \<Rightarrow> (nat \<Rightarrow> error option) \<Rightarrow>
    job_filter \<Rightarrow> job list result" where
  "jobs_List J B s c1 ctx f = (case c1 of Some e \<Rightarrow> Inl e | None \<Rightarrow>
     if jf_Limit f < 0 then Inl (Errorf ''limit must not be negative'' [])
     else if jf_Status f \<noteq> [] \<and> \<not> validStatus (jf_Status f)
     then Inl (Errorf ''invalid status filter %q'' [jf_Status f])
     else (let limit = (if jf_Limit f = 0 \<or> jf_Limit f > maxListLimit then maxListLimit
                        else jf_Limit f)
       in (case b_begin B (jobs_db s) of Some e \<Rightarrow> Inl e | None \<Rightarrow>
            jobs_collect J ctx f (nat limit) 0 [] (rev (map snd (b_pairs B (jobs_db s)))))))"

fun reboot_walk :: "job json \<Rightarrow> (nat \<Rightarrow> error option) \<Rightarrow> int \<Rightarrow> nat \<Rightarrow> string list \<Rightarrow> bool result" where
  "reboot_walk J ctx since i [] = Inr False"
| "reboot_walk J ctx since i (v # vs) = (case ctx i of Some e \<Rightarrow> Inl e | None \<Rightarrow>
     (case unmarshal J v of Inl e \<Rightarrow> Inl (Wrapf ''decode job: %w'' [] e) | Inr j \<Rightarrow>
       if job_Status j = StatusSucceeded \<and> job_RebootRequired j \<and>
          (case job_FinishedAt j of None \<Rightarrow> False | Some t \<Rightarrow> since < t)
       then Inr True else reboot_walk J ctx since (Suc i) vs))"

definition RebootRequiredSince :: "job json \<Rightarrow> 'b bolt \<Rightarrow> 'b job_store \<Rightarrow> error option \<Rightarrow>
    (nat \<Rightarrow> error option) \<Rightarrow> int \<Rightarrow> bool result" where
  "RebootRequiredSince J B s c1 ctx since = (case c1 of Some e \<Rightarrow> Inl e | None \<Rightarrow>
     (case b_begin B (jobs_db s) of Some e \<Rightarrow> Inl e | None \<Rightarrow>
       reboot_walk J ctx since 0 (rev (map snd (b_pairs B (jobs_db s))))))"

section \<open>The store's contract\<close>

text \<open>Encoding a job coerces its strings; a stored status is one of five ASCII words.\<close>

definition coerce_job :: "job \<Rightarrow> job" where
  "coerce_job j = j\<lparr>job_Action := coerce (job_Action j), job_Resource := coerce (job_Resource j),
     job_Username := coerce (job_Username j), job_Status := coerce (job_Status j),
     job_ErrorCategory := coerce (job_ErrorCategory j)\<rparr>"

lemma job_ID_simps [simp]:
  "job_ID (coerce_job j) = job_ID j" "job_ID (finishJob j now st cat rb) = job_ID j"
  by (simp_all add: coerce_job_def finishJob_def)

lemma coerce_status [simp]: "validStatus st \<Longrightarrow> coerce st = st"
  by (rule coerce_ascii)
    (auto simp: validStatus_def activeStatus_def finalStatus_def status_defs)

lemma active_not_final: "activeStatus st \<Longrightarrow> \<not> finalStatus st"
  by (auto simp: activeStatus_def finalStatus_def status_defs)

lemma validStatus_cases: "validStatus st \<Longrightarrow> \<not> activeStatus st \<Longrightarrow> finalStatus st"
  by (simp add: validStatus_def)

text \<open>The job under an identifier, as the bucket holds it.\<close>

definition stored_job :: "job json \<Rightarrow> 'b bolt \<Rightarrow> 'b \<Rightarrow> 64 word \<Rightarrow> job option" where
  "stored_job J B b i = (case map_of (b_pairs B b) (jobKey i) of None \<Rightarrow> None
     | Some v \<Rightarrow> (case unmarshal J v of Inl _ \<Rightarrow> None | Inr j \<Rightarrow> Some j))"

text \<open>Timestamps follow the status, durations are never negative, strings are valid UTF-8.\<close>

definition job_ok :: "job \<Rightarrow> bool" where
  "job_ok j \<longleftrightarrow> validStatus (job_Status j) \<and>
     (job_Status j = StatusQueued \<longrightarrow> job_StartedAt j = None) \<and>
     (job_Status j = StatusRunning \<longrightarrow> job_StartedAt j \<noteq> None) \<and>
     (job_FinishedAt j = None \<longleftrightarrow> activeStatus (job_Status j)) \<and>
     0 \<le> job_DurationMS j \<and> coerce_job j = j"

definition entry_ok :: "job json \<Rightarrow> 64 word \<Rightarrow> string \<times> string \<Rightarrow> bool" where
  "entry_ok J last_id p \<longleftrightarrow> (\<exists>j. unmarshal J (snd p) = Inr j \<and> fst p = jobKey (job_ID j) \<and>
     job_ID j \<le> last_id \<and> job_ok j)"

definition wf_jobs :: "job json \<Rightarrow> 'b bolt \<Rightarrow> 'b \<Rightarrow> bool" where
  "wf_jobs J B b \<longleftrightarrow> key_sorted (b_pairs B b) \<and>
     (\<forall>p\<in>set (b_pairs B b). entry_ok J (b_sequence B b) p)"

definition job_active :: "job json \<Rightarrow> string \<Rightarrow> bool" where
  "job_active J v \<longleftrightarrow> (case unmarshal J v of Inl _ \<Rightarrow> False | Inr j \<Rightarrow> activeStatus (job_Status j))"

lemma jobs_removable_first: "finds_first (\<lambda>v. \<not> job_active J v) (jobs_removable J)"
proof -
  have "jobs_removable J ps = Inr r \<Longrightarrow>
      r = map_option fst (List.find (\<lambda>p. \<not> job_active J (snd p)) ps)" for ps r
    by (induction J ps rule: jobs_removable.induct)
      (auto simp: job_active_def split: sum.splits if_splits)
  then show ?thesis by (simp add: finds_first_def)
qed

lemma jobs_trim_exact:
  assumes "bolt_laws B" "key_sorted (b_pairs B b)" "jobs_trimOldest J B m b = Inr b'"
  shows "b_pairs B b' =
      drop_first (nat (int (b_keyN B b) - m)) (\<lambda>p. \<not> job_active J (snd p)) (b_pairs B b)"
    and "b_sequence B b' = b_sequence B b"
  using trim_loop_refines[OF assms(1) jobs_removable_first assms(3)[unfolded jobs_trimOldest_def] assms(2)]
  by auto

interpretation jobs_ret: retention "jobs_trimOldest J" "job_active J" for J
proof
  fix B :: "'a bolt" and b m b'
  assume "bolt_laws B" "key_sorted (b_pairs B b)" "jobs_trimOldest J B m b = Inr b'"
  from jobs_trim_exact[OF this]
  show "(\<exists>n. b_pairs B b' = drop_first n (\<lambda>p. \<not> job_active J (snd p)) (b_pairs B b)) \<and>
      b_sequence B b' = b_sequence B b" by blast
qed

section \<open>Writes\<close>

lemma jobKey_inject [simp]: "jobKey i = jobKey k \<longleftrightarrow> i = k"
  by (simp add: jobKey_def)

lemma jobKey_less: "jobKey i < jobKey k \<longleftrightarrow> i < k"
  by (simp add: jobKey_def put_uint64_less)

text \<open>A job that is put under its own key and survives the trim keeps the store well formed.\<close>

lemma wf_put_trim:
  assumes laws: "bolt_laws B" "codec_laws coerce_job J" and wf: "wf_jobs J B b"
    and enc: "marshal J j = Inr v" and ok: "job_ok (coerce_job j)"
    and put: "b_put B b (jobKey (job_ID j)) v = Inr b1"
    and trim: "jobs_trimOldest J B m b1 = Inr b2" and le: "job_ID j \<le> b_sequence B b"
  shows "wf_jobs J B b2"
    and "stored_job J B b2 (job_ID j) = Some (coerce_job j) \<or>
         stored_job J B b2 (job_ID j) = None \<and> finalStatus (job_Status (coerce_job j))"
    and "i \<noteq> job_ID j \<Longrightarrow> stored_job J B b i = Some j0 \<Longrightarrow>
         stored_job J B b2 i = Some j0 \<or> stored_job J B b2 i = None \<and> finalStatus (job_Status j0)"
    and "i \<noteq> job_ID j \<Longrightarrow> stored_job J B b i = None \<Longrightarrow> stored_job J B b2 i = None"
proof -
  have srt: "key_sorted (b_pairs B b)" using wf by (simp add: wf_jobs_def)
  note pt = jobs_ret.put_trim[OF laws(1) srt put trim]
  have dec: "unmarshal J v = Inr (coerce_job j)" by (rule codec_round[OF laws(2) enc])
  have new: "entry_ok J (b_sequence B b) (jobKey (job_ID j), v)"
    using dec ok le by (simp add: entry_ok_def coerce_job_def)
  show "wf_jobs J B b2"
    using pt(1,2,3) new wf by (auto simp: wf_jobs_def)
  have fin: "finalStatus (job_Status j1)" if "unmarshal J w = Inr j1" "job_ok j1" "\<not> job_active J w"
    for w j1 using that by (auto simp: job_active_def job_ok_def intro: validStatus_cases)
  show "stored_job J B b2 (job_ID j) = Some (coerce_job j) \<or>
      stored_job J B b2 (job_ID j) = None \<and> finalStatus (job_Status (coerce_job j))"
    using pt(4) dec ok fin[OF dec ok] by (auto simp: stored_job_def)
  show "stored_job J B b2 i = Some j0 \<or> stored_job J B b2 i = None \<and> finalStatus (job_Status j0)"
    if ne: "i \<noteq> job_ID j" and st: "stored_job J B b i = Some j0"
  proof -
    obtain w where w: "map_of (b_pairs B b) (jobKey i) = Some w" "unmarshal J w = Inr j0"
      using st by (auto simp: stored_job_def split: option.splits sum.splits)
    have "job_ok j0" using wf w map_of_SomeD[OF w(1)] by (auto simp: wf_jobs_def entry_ok_def)
    then show ?thesis using pt(5)[of "jobKey i" w] ne w fin[OF w(2)] by (auto simp: stored_job_def)
  qed
  show "stored_job J B b2 i = None" if "i \<noteq> job_ID j" "stored_job J B b i = None"
  proof (cases "map_of (b_pairs B b) (jobKey i)")
    case None
    then show ?thesis using pt(6)[of "jobKey i"] that by (simp add: stored_job_def)
  next
    case (Some w)
    then obtain j1 where "unmarshal J w = Inr j1"
      using wf map_of_SomeD[OF Some] by (auto simp: wf_jobs_def entry_ok_def)
    then show ?thesis using that Some by (simp add: stored_job_def)
  qed
qed

text \<open>\<open>finishJob\<close> and \<open>Start\<close> keep a job consistent.\<close>

lemma milliseconds_clamped: "0 \<le> (let d = milliseconds x in if d < 0 then 0 else d)"
  by (simp add: Let_def)

lemma finishJob_ok:
  assumes "job_ok j" and "finalStatus status"
  shows "job_ok (coerce_job (finishJob j now status cat reboot))"
proof -
  have v: "validStatus status" "\<not> activeStatus status"
    using assms(2) active_not_final by (auto simp: validStatus_def)
  then have "status \<noteq> StatusQueued" "status \<noteq> StatusRunning"
    by (auto simp: activeStatus_def)
  with v assms(1) show ?thesis
    by (auto simp: job_ok_def finishJob_def coerce_job_def milliseconds_clamped split: option.splits)
qed

lemma start_ok:
  assumes "job_ok j" and "start_change now j = Inr j'"
  shows "job_ok (coerce_job j')" and "job_ID j' = job_ID j" and "job_Status j = StatusQueued"
    and "coerce_job j' = j\<lparr>job_Status := StatusRunning, job_StartedAt := Some now\<rparr>"
proof -
  have j': "j' = j\<lparr>job_Status := StatusRunning, job_StartedAt := Some now\<rparr>"
    and q: "job_Status j = StatusQueued"
    using assms(2) by (auto simp: start_change_def split: if_splits)
  have c: "coerce StatusRunning = StatusRunning" by (simp add: validStatus_def activeStatus_def)
  show eq: "coerce_job j' = j\<lparr>job_Status := StatusRunning, job_StartedAt := Some now\<rparr>"
    using assms(1) c unfolding j' job_ok_def coerce_job_def by (cases j) auto
  show "job_ID j' = job_ID j" "job_Status j = StatusQueued" using j' q by auto
  have "StatusRunning \<noteq> StatusQueued" by (simp add: status_defs)
  moreover have "coerce_job (coerce_job j') = coerce_job j'" by (simp add: coerce_job_def)
  ultimately show "job_ok (coerce_job j')"
    using assms(1) q unfolding eq job_ok_def
    by (auto simp: validStatus_def activeStatus_def)
qed

text \<open>What a successful \<open>Enqueue\<close> did.\<close>

lemma Enqueue_ok:
  assumes laws: "bolt_laws B" "codec_laws coerce_job J" and wf: "wf_jobs J B (jobs_db s)"
    and run: "Enqueue J B s c1 c2 now a = (s', Inr j)"
  shows "wf_jobs J B (jobs_db s')" and "job_Status j = StatusQueued"
    and "stored_job J B (jobs_db s') (job_ID j) = Some (coerce_job j)"
    and "stored_job J B (jobs_db s) i = Some j0 \<Longrightarrow> i < job_ID j \<and>
      (stored_job J B (jobs_db s') i = Some j0 \<or>
       stored_job J B (jobs_db s') i = None \<and> finalStatus (job_Status j0))"
    and "stored_job J B (jobs_db s) i = None \<Longrightarrow> i \<noteq> job_ID j \<Longrightarrow> stored_job J B (jobs_db s') i = None"
    and "job_Action j = ja_Action a" "job_Resource j = ja_Resource a" "job_UID j = ja_UID a"
      "job_CreatedAt j = now"
proof -
  obtain b1 i' v b2 where nxt: "b_next_sequence B (jobs_db s) = Inr (b1, i')"
    and enc: "marshal J j = Inr v" and put: "b_put B b1 (jobKey i') v = Inr b2"
    and trim: "jobs_trimOldest J B (jobs_maxRecords s) b2 = Inr (jobs_db s')"
    and j: "j = \<lparr>job_ID = i', job_AuditID = ja_AuditID a, job_Action = ja_Action a,
               job_Resource = ja_Resource a, job_Username = ja_Username a, job_UID = ja_UID a,
               job_Status = StatusQueued, job_ErrorCategory = [], job_RebootRequired = False,
               job_CreatedAt = now, job_StartedAt = None, job_FinishedAt = None,
               job_DurationMS = 0\<rparr>"
    using run by (auto simp: Enqueue_def Let_def split: option.splits sum.splits prod.splits
        dest!: db_update_ok)
  note n = bolt_next[OF laws(1) nxt]
  have i': "b_sequence B (jobs_db s) < i'" using n by (simp add: word_less_nat_alt)
  have wf1: "wf_jobs J B b1"
    using wf n i' by (force simp: wf_jobs_def entry_ok_def)
  have ID: "job_ID j = i'" by (simp add: j)
  have ok: "job_ok (coerce_job j)"
    by (simp add: j job_ok_def coerce_job_def validStatus_def activeStatus_def)
      (simp add: status_defs)
  note w = wf_put_trim[OF laws wf1 enc ok put[folded ID] trim]
  have le: "job_ID j \<le> b_sequence B b1" using n ID by simp
  have same: "stored_job J B b1 = stored_job J B (jobs_db s)"
    using n by (simp add: stored_job_def fun_eq_iff)
  show "wf_jobs J B (jobs_db s')" by (rule w(1)[OF le])
  show q: "job_Status j = StatusQueued" by (simp add: j)
  have "\<not> finalStatus (job_Status (coerce_job j))"
    using active_not_final[of StatusQueued] by (simp add: j coerce_job_def validStatus_def activeStatus_def)
  then show "stored_job J B (jobs_db s') (job_ID j) = Some (coerce_job j)" using w(2)[OF le] by blast
  show "i < job_ID j \<and> (stored_job J B (jobs_db s') i = Some j0 \<or>
       stored_job J B (jobs_db s') i = None \<and> finalStatus (job_Status j0))"
    if st: "stored_job J B (jobs_db s) i = Some j0"
  proof -
    obtain x where x: "map_of (b_pairs B (jobs_db s)) (jobKey i) = Some x"
      using st by (auto simp: stored_job_def split: option.splits)
    then have "i \<le> b_sequence B (jobs_db s)"
      using wf map_of_SomeD[OF x] by (auto simp: wf_jobs_def entry_ok_def)
    then have "i < job_ID j" using i' ID by simp
    then show ?thesis using w(3)[OF le, of i j0] st same by auto
  qed
  show "stored_job J B (jobs_db s') i = None"
    if "stored_job J B (jobs_db s) i = None" "i \<noteq> job_ID j"
    using w(4)[OF le that(2)] that(1) same by simp
  show "job_Action j = ja_Action a" "job_Resource j = ja_Resource a" "job_UID j = ja_UID a"
      "job_CreatedAt j = now"
    by (simp_all add: j)
qed

text \<open>What a successful \<open>update\<close> did.\<close>

lemma jobs_update_ok:
  assumes laws: "bolt_laws B" "codec_laws coerce_job J" and wf: "wf_jobs J B (jobs_db s)"
    and run: "jobs_update J B s c2 i change = (s', Inr ())"
    and ch: "\<And>j j'. job_ok j \<Longrightarrow> change j = Inr j' \<Longrightarrow> job_ok (coerce_job j') \<and> job_ID j' = job_ID j"
  shows "\<exists>j j'. stored_job J B (jobs_db s) i = Some j \<and> job_ok j \<and> change j = Inr j' \<and>
      wf_jobs J B (jobs_db s') \<and>
      (stored_job J B (jobs_db s') i = Some (coerce_job j') \<or>
       stored_job J B (jobs_db s') i = None \<and> finalStatus (job_Status (coerce_job j'))) \<and>
      (\<forall>k j0. k \<noteq> i \<longrightarrow> stored_job J B (jobs_db s) k = Some j0 \<longrightarrow>
         stored_job J B (jobs_db s') k = Some j0 \<or>
         stored_job J B (jobs_db s') k = None \<and> finalStatus (job_Status j0)) \<and>
      (\<forall>k. stored_job J B (jobs_db s) k = None \<longrightarrow> stored_job J B (jobs_db s') k = None)"
proof -
  let ?b = "jobs_db s"
  obtain v j j' e b1 where get: "map_of (b_pairs B ?b) (jobKey i) = Some v"
    and dec: "unmarshal J v = Inr j" and c: "change j = Inr j'" and enc: "marshal J j' = Inr e"
    and put: "b_put B ?b (jobKey i) e = Inr b1"
    and trim: "jobs_trimOldest J B (jobs_maxRecords s) b1 = Inr (jobs_db s')"
    using run by (auto simp: jobs_update_def bolt_get[OF laws(1)] split: option.splits sum.splits prod.splits
        dest!: db_update_ok)
  have st: "stored_job J B ?b i = Some j" using get dec by (simp add: stored_job_def)
  have en: "job_ok j \<and> job_ID j = i \<and> i \<le> b_sequence B ?b"
    using wf map_of_SomeD[OF get] dec by (auto simp: wf_jobs_def entry_ok_def)
  have ok: "job_ok (coerce_job j')" and ID: "job_ID j' = i" using ch[OF _ c] en by auto
  note w = wf_put_trim[OF laws wf enc ok put[folded ID] trim, unfolded ID]
  show ?thesis using st en c w by (metis option.distinct(1))
qed

section \<open>Histories\<close>

datatype jobs_op =
    EnqueueOp "error option" "error option" int job_attempt
  | StartOp "error option" "error option" int "64 word"
  | CompleteOp "error option" "error option" int "64 word" string string bool

fun jobs_apply :: "job json \<Rightarrow> 'b bolt \<Rightarrow> 'b job_store \<Rightarrow> jobs_op \<Rightarrow> 'b job_store" where
  "jobs_apply J B s (EnqueueOp c1 c2 now a) = fst (Enqueue J B s c1 c2 now a)"
| "jobs_apply J B s (StartOp c1 c2 now i) = fst (jobs_Start J B s c1 c2 now i)"
| "jobs_apply J B s (CompleteOp c1 c2 now i st cat rb) =
     fst (jobs_Complete J B s c1 c2 now i st cat rb)"

text \<open>The transitions of one job that an operation may cause; \<open>None\<close> is a job that is not stored.\<close>

fun job_transition :: "jobs_op \<Rightarrow> 64 word \<Rightarrow> job option \<Rightarrow> job option \<Rightarrow> bool" where
  "job_transition op i None None = True"
| "job_transition op i None (Some j') = (case op of
     EnqueueOp _ _ now a \<Rightarrow> job_Status j' = StatusQueued \<and> job_CreatedAt j' = now \<and>
       job_Action j' = coerce (ja_Action a) \<and> job_UID j' = ja_UID a
   | _ \<Rightarrow> False)"
| "job_transition op i (Some j) (Some j') = (j' = j \<or> (case op of
     StartOp _ _ now k \<Rightarrow> k = i \<and> job_Status j = StatusQueued \<and>
       j' = j\<lparr>job_Status := StatusRunning, job_StartedAt := Some now\<rparr>
   | CompleteOp _ _ now k st cat rb \<Rightarrow> k = i \<and> job_Status j = StatusRunning \<and> finalStatus st \<and>
       j' = coerce_job (finishJob j now st cat rb)
   | _ \<Rightarrow> False))"
| "job_transition op i (Some j) None = (finalStatus (job_Status j) \<or> (case op of
     CompleteOp _ _ _ k st _ _ \<Rightarrow> k = i \<and> job_Status j = StatusRunning \<and> finalStatus st
   | _ \<Rightarrow> False))"

lemma job_transition_refl [simp]: "job_transition op i x x"
  by (cases x) auto

lemma jobs_ops_error:
  "snd (Enqueue J B s c1 c2 now a) = Inl e \<Longrightarrow> fst (Enqueue J B s c1 c2 now a) = s"
  "snd (jobs_update J B s c2 i change) = Inl e \<Longrightarrow> fst (jobs_update J B s c2 i change) = s"
  by (auto simp: Enqueue_def jobs_update_def Let_def split: option.splits prod.splits
      dest: db_update_error)

lemma complete_ok:
  assumes "finalStatus st" "job_ok j" "complete_change now st cat rb j = Inr j'"
  shows "job_ok (coerce_job j')" "job_ID j' = job_ID j" "job_Status j = StatusRunning"
    "j' = finishJob j now st cat rb" "job_Status (coerce_job j') = st"
proof -
  show j': "j' = finishJob j now st cat rb" and r: "job_Status j = StatusRunning"
    using assms(3) by (auto simp: complete_change_def split: if_splits)
  show "job_ok (coerce_job j')" using finishJob_ok assms j' by blast
  show "job_ID j' = job_ID j" by (simp add: j' finishJob_def)
  show "job_Status (coerce_job j') = st"
    using assms(1) by (simp add: j' finishJob_def coerce_job_def validStatus_def)
qed

text \<open>An \<open>update\<close> whose change is a transition of its job moves every job by a transition.\<close>

lemma jobs_update_step:
  assumes laws: "bolt_laws B" "codec_laws coerce_job J" and wf: "wf_jobs J B (jobs_db s)"
    and ch: "\<And>j j'. job_ok j \<Longrightarrow> change j = Inr j' \<Longrightarrow> job_ok (coerce_job j') \<and> job_ID j' = job_ID j"
    and tr: "\<And>j j'. job_ok j \<Longrightarrow> change j = Inr j' \<Longrightarrow>
      job_transition op i (Some j) (Some (coerce_job j')) \<and>
      (finalStatus (job_Status (coerce_job j')) \<longrightarrow> job_transition op i (Some j) None)"
    and s': "s' = fst (jobs_update J B s c2 i change)"
  shows "wf_jobs J B (jobs_db s') \<and>
    job_transition op k (stored_job J B (jobs_db s) k) (stored_job J B (jobs_db s') k)"
proof (cases "snd (jobs_update J B s c2 i change)")
  case (Inl e)
  then show ?thesis using jobs_ops_error(2) s' wf by (metis job_transition_refl)
next
  case (Inr u)
  then have run: "jobs_update J B s c2 i change = (s', Inr ())" using s' by (simp add: prod_eq_iff)
  obtain j j' where j: "stored_job J B (jobs_db s) i = Some j" "job_ok j" "change j = Inr j'"
    and wf': "wf_jobs J B (jobs_db s')"
    and here: "stored_job J B (jobs_db s') i = Some (coerce_job j') \<or>
       stored_job J B (jobs_db s') i = None \<and> finalStatus (job_Status (coerce_job j'))"
    and oth: "\<forall>k j0. k \<noteq> i \<longrightarrow> stored_job J B (jobs_db s) k = Some j0 \<longrightarrow>
         stored_job J B (jobs_db s') k = Some j0 \<or>
         stored_job J B (jobs_db s') k = None \<and> finalStatus (job_Status j0)"
    and non: "\<forall>k. stored_job J B (jobs_db s) k = None \<longrightarrow> stored_job J B (jobs_db s') k = None"
    using jobs_update_ok[OF laws wf run ch] by blast
  show ?thesis
  proof (cases "k = i")
    case True
    then show ?thesis using wf' j here tr[OF j(2,3)] by metis
  next
    case False
    then show ?thesis using wf' oth non by (cases "stored_job J B (jobs_db s) k") fastforce+
  qed
qed

lemma Enqueue_step:
  assumes laws: "bolt_laws B" "codec_laws coerce_job J" and wf: "wf_jobs J B (jobs_db s)"
    and run: "Enqueue J B s c1 c2 now a = (s', r)"
  shows "wf_jobs J B (jobs_db s') \<and> job_transition (EnqueueOp c1 c2 now a) i
      (stored_job J B (jobs_db s) i) (stored_job J B (jobs_db s') i)"
proof (cases r)
  case (Inl e)
  then show ?thesis using run wf jobs_ops_error(1)[of J B s c1 c2 now a e] by simp
next
  case (Inr j)
  note en = Enqueue_ok[OF laws wf run[unfolded Inr]]
  have queued: "job_Status (coerce_job j) = StatusQueued"
    using en(2) by (simp add: coerce_job_def validStatus_def activeStatus_def)
  show ?thesis
  proof (cases "stored_job J B (jobs_db s) i")
    case None
    then show ?thesis using queued en(1,3,6,8,9) en(5)[OF None]
      by (cases "i = job_ID j") (simp_all add: coerce_job_def)
  next
    case (Some j0)
    then show ?thesis using en(1) en(4)[OF Some] by auto
  qed
qed

lemma jobs_apply_step:
  assumes laws: "bolt_laws B" "codec_laws coerce_job J" and wf: "wf_jobs J B (jobs_db s)"
  shows "wf_jobs J B (jobs_db (jobs_apply J B s op)) \<and>
    job_transition op i (stored_job J B (jobs_db s) i)
      (stored_job J B (jobs_db (jobs_apply J B s op)) i)"
proof (cases op)
  case (EnqueueOp c1 c2 now a)
  then show ?thesis
    using Enqueue_step[OF laws wf, of c1 c2 now a] by (cases "Enqueue J B s c1 c2 now a") simp
next
  case op: (StartOp c1 c2 now k)
  have tr: "job_transition op k (Some j) (Some (coerce_job j')) \<and>
      (finalStatus (job_Status (coerce_job j')) \<longrightarrow> job_transition op k (Some j) None)"
    if "job_ok j" "start_change now j = Inr j'" for j j'
    using start_ok[OF that] active_not_final[of StatusRunning] op by (simp add: activeStatus_def)
  show ?thesis
  proof (cases c1)
    case None
    then show ?thesis
      using jobs_update_step[OF laws wf _ tr, where s' = "jobs_apply J B s op" and ?c2.0 = c2] start_ok(1,2) op
      by (simp add: jobs_Start_def)
  next
    case (Some e)
    then show ?thesis using wf op by (simp add: jobs_Start_def)
  qed
next
  case op: (CompleteOp c1 c2 now k st cat rb)
  show ?thesis
  proof (cases "c1 = None \<and> finalStatus st")
    case True
    then have fin: "finalStatus st" by simp
    have tr: "job_transition op k (Some j) (Some (coerce_job j')) \<and>
        (finalStatus (job_Status (coerce_job j')) \<longrightarrow> job_transition op k (Some j) None)"
      if "job_ok j" "complete_change now st cat rb j = Inr j'" for j j'
      using complete_ok[OF fin that] op fin by simp
    show ?thesis
      using jobs_update_step[OF laws wf _ tr, where s' = "jobs_apply J B s op" and ?c2.0 = c2]
        complete_ok(1,2)[OF fin] op True
      by (simp add: jobs_Complete_def)
  next
    case False
    then have "jobs_apply J B s op = s" using op by (auto simp: jobs_Complete_def split: option.splits)
    then show ?thesis using wf by simp
  qed
qed

section \<open>Recovery\<close>

lemma unknown_final: "finalStatus StatusUnknown"
  by (simp add: finalStatus_def)

definition recovered :: "int \<Rightarrow> job \<Rightarrow> job" where
  "recovered now j = (if activeStatus (job_Status j)
     then coerce_job (finishJob j now StatusUnknown [] False) else j)"

lemma recovered_status: "job_ok j \<Longrightarrow> finalStatus (job_Status (recovered now j))"
  using unknown_final
  by (auto simp: recovered_def job_ok_def finishJob_def coerce_job_def validStatus_def)

lemma jobs_recover_ok:
  assumes laws: "bolt_laws B" "codec_laws coerce_job J"
  shows "jobs_recover J B now ps b = Inr b' \<Longrightarrow> wf_jobs J B b \<Longrightarrow> wf_map ps \<Longrightarrow>
    (\<forall>(k, v)\<in>set ps. map_of (b_pairs B b) k = Some v) \<Longrightarrow>
    wf_jobs J B b' \<and> (\<forall>i. stored_job J B b' i =
      (if jobKey i \<in> fst ` set ps then map_option (recovered now) (stored_job J B b i)
       else stored_job J B b i))"
proof (induction ps arbitrary: b)
  case Nil
  then show ?case by simp
next
  case (Cons x ps)
  obtain k v where x: "x = (k, v)" by (cases x)
  note prems = Cons.prems[unfolded x]
  have kv: "map_of (b_pairs B b) k = Some v" using prems by simp
  obtain j where j: "unmarshal J v = Inr j" "k = jobKey (job_ID j)" "job_ok j"
      "job_ID j \<le> b_sequence B b"
    using prems(2) map_of_SomeD[OF kv] by (auto simp: wf_jobs_def entry_ok_def)
  have st: "stored_job J B b (job_ID j) = Some j" using kv j by (simp add: stored_job_def)
  have nk: "k \<notin> fst ` set ps" using prems(3) by simp
  show ?case
  proof (cases "activeStatus (job_Status j)")
    case False
    then have "recovered now j = j" by (simp add: recovered_def)
    then show ?thesis using Cons.IH[of b] prems False j st nk x by auto
  next
    case True
    obtain e b1 where enc: "marshal J (finishJob j now StatusUnknown [] False) = Inr e"
      and put: "b_put B b k e = Inr b1" and rest: "jobs_recover J B now ps b1 = Inr b'"
      using prems(1) j True by (auto split: sum.splits)
    let ?j = "coerce_job (finishJob j now StatusUnknown [] False)"
    note p = bolt_put[OF laws(1) put]
    have srt: "key_sorted (b_pairs B b)" using prems(2) by (simp add: wf_jobs_def)
    have m: "map_of (b_pairs B b1) = (map_of (b_pairs B b))(k \<mapsto> e)"
      using p map_of_ordered_put[OF srt] by simp
    have dec: "unmarshal J e = Inr ?j" by (rule codec_round[OF laws(2) enc])
    have en: "entry_ok J (b_sequence B b) (k, e)"
      using dec j finishJob_ok[OF j(3) unknown_final, of now "[]" False]
      by (simp add: entry_ok_def)
    have wf1: "wf_jobs J B b1"
      using prems(2) p en set_ordered_put[of k e "b_pairs B b"] srt by (auto simp: wf_jobs_def)
    have vals: "\<forall>(k', v')\<in>set ps. map_of (b_pairs B b1) k' = Some v'"
      using prems(3,4) m by (auto simp: rev_image_eqI)
    have st1: "stored_job J B b1 i = (if i = job_ID j then Some ?j else stored_job J B b i)" for i
      using m dec j(2) by (simp add: stored_job_def)
    have rec: "recovered now j = ?j" using True by (simp add: recovered_def)
    from Cons.IH[OF rest wf1 _ vals] prems(3)
    show ?thesis using st1 st rec nk j(2) x by auto
  qed
qed

section \<open>Listing\<close>

definition job_matches :: "job_filter \<Rightarrow> job \<Rightarrow> bool" where
  "job_matches f j \<longleftrightarrow> (jf_Action f = [] \<or> job_Action j = jf_Action f) \<and>
     (jf_Status f = [] \<or> job_Status j = jf_Status f)"

lemma take_append_more:
  "length acc \<le> n \<Longrightarrow> take n (acc @ ys) = acc @ take (n - length acc) ys"
  by simp

lemma jobs_collect_ok:
  assumes "list_all2 (\<lambda>v j. unmarshal J v = Inr j) vs js"
    and "jobs_collect J ctx f n i acc vs = Inr r" and "length acc \<le> n"
  shows "r = take n (acc @ filter (job_matches f) js)"
  using assms
proof (induction vs js arbitrary: i acc rule: list_all2_induct)
  case Nil
  then show ?case by simp
next
  case (Cons v vs j js)
  show ?case
  proof (cases "length acc < n")
    case True
    then show ?thesis
      using Cons.prems Cons.hyps(1) Cons.IH[of "Suc i" acc] Cons.IH[of "Suc i" "acc @ [j]"]
      by (auto simp: job_matches_def split: option.splits if_splits)
  next
    case False
    then show ?thesis using Cons.prems by simp
  qed
qed

definition decoded_jobs :: "job json \<Rightarrow> 'b bolt \<Rightarrow> 'b \<Rightarrow> job list" where
  "decoded_jobs J B b = map (\<lambda>p. projr (unmarshal J (snd p))) (b_pairs B b)"

lemma decoded_jobs_values:
  assumes "wf_jobs J B b"
  shows "list_all2 (\<lambda>v j. unmarshal J v = Inr j) (map snd (b_pairs B b)) (decoded_jobs J B b)"
proof -
  have "unmarshal J (snd p) = Inr (projr (unmarshal J (snd p)))" if "p \<in> set (b_pairs B b)" for p
    using assms that by (fastforce simp: wf_jobs_def entry_ok_def)
  then show ?thesis
    by (auto simp: decoded_jobs_def list_all2_conv_all_nth)
qed

lemma decoded_jobs_sorted:
  assumes "wf_jobs J B b"
  shows "sorted_wrt (\<lambda>j k. job_ID j < job_ID k) (decoded_jobs J B b)"
proof -
  have "fst p = jobKey (job_ID (projr (unmarshal J (snd p))))" if "p \<in> set (b_pairs B b)" for p
    using assms that by (fastforce simp: wf_jobs_def entry_ok_def)
  then have "map fst (b_pairs B b) = map (jobKey \<circ> job_ID) (decoded_jobs J B b)"
    by (simp add: decoded_jobs_def)
  then have "sorted_wrt (<) (map (jobKey \<circ> job_ID) (decoded_jobs J B b))"
    using assms by (simp add: wf_jobs_def)
  then show ?thesis by (simp add: sorted_wrt_map jobKey_less)
qed

lemma stored_in_decoded:
  assumes "wf_jobs J B b"
  shows "j \<in> set (decoded_jobs J B b) \<longleftrightarrow> stored_job J B b (job_ID j) = Some j"
proof
  assume "j \<in> set (decoded_jobs J B b)"
  then obtain k v where kv: "(k, v) \<in> set (b_pairs B b)" "j = projr (unmarshal J v)"
    by (auto simp: decoded_jobs_def)
  then have "unmarshal J v = Inr j" "k = jobKey (job_ID j)"
    using assms by (fastforce simp: wf_jobs_def entry_ok_def)+
  moreover have "map_of (b_pairs B b) k = Some v"
    using kv assms key_sorted_distinct by (auto simp: wf_jobs_def intro: map_of_is_SomeI)
  ultimately show "stored_job J B b (job_ID j) = Some j" by (simp add: stored_job_def)
next
  assume "stored_job J B b (job_ID j) = Some j"
  then obtain v where "map_of (b_pairs B b) (jobKey (job_ID j)) = Some v" "unmarshal J v = Inr j"
    by (auto simp: stored_job_def split: option.splits sum.splits)
  then show "j \<in> set (decoded_jobs J B b)"
    using map_of_SomeD[of "b_pairs B b"] by (force simp: decoded_jobs_def)
qed

lemma reboot_walk_ok:
  assumes "list_all2 (\<lambda>v j. unmarshal J v = Inr j) vs js" and "reboot_walk J ctx since i vs = Inr r"
  shows "r \<longleftrightarrow> (\<exists>j\<in>set js. job_Status j = StatusSucceeded \<and> job_RebootRequired j \<and>
    (\<exists>t. job_FinishedAt j = Some t \<and> since < t))"
  using assms
proof (induction vs js arbitrary: i rule: list_all2_induct)
  case (Cons v vs j js)
  then show ?case
    using Cons.IH[of "Suc i"] by (fastforce split: option.splits if_splits)
qed simp

lemma rev_decoded_values:
  assumes "wf_jobs J B b"
  shows "list_all2 (\<lambda>v j. unmarshal J v = Inr j) (rev (map snd (b_pairs B b)))
    (rev (decoded_jobs J B b))"
  using decoded_jobs_values[OF assms] by simp

section \<open>A concrete store\<close>

definition demo_attempt :: job_attempt where
  "demo_attempt = \<lparr>ja_Action = ''update'', ja_AuditID = 3, ja_Resource = ''host'',
     ja_Username = ''ann'', ja_UID = 1000\<rparr>"

definition demo_job :: job where
  "demo_job = \<lparr>job_ID = 1, job_AuditID = 3, job_Action = ''update'', job_Resource = ''host'',
     job_Username = ''ann'', job_UID = 1000, job_Status = StatusQueued, job_ErrorCategory = [],
     job_RebootRequired = False, job_CreatedAt = 5, job_StartedAt = None, job_FinishedAt = None,
     job_DurationMS = 0\<rparr>"

definition demo_done :: job where
  "demo_done = finishJob (demo_job\<lparr>job_StartedAt := Some 7\<rparr>) 2000007 StatusSucceeded [] True"

definition demo_unknown :: job where
  "demo_unknown = finishJob demo_job 9 StatusUnknown [] False"

definition demo_codec :: "job json" where
  "demo_codec = table_codec coerce_job [demo_job, demo_done, demo_unknown]"

abbreviation demo_store :: "(string \<times> string) list \<Rightarrow> ((string \<times> string) list \<times> 64 word) job_store" where
  "demo_store ps \<equiv> \<lparr>jobs_db = (ps, of_nat (length ps)), jobs_maxRecords = 2\<rparr>"

lemma demo_laws: "codec_laws coerce_job demo_codec"
  unfolding demo_codec_def by (rule table_codec_laws)

lemma demo_coerce: "coerce_job demo_job = demo_job" "coerce_job demo_done = demo_done"
  "coerce_job demo_unknown = demo_unknown"
  by (simp_all add: coerce_job_def demo_job_def demo_done_def demo_unknown_def finishJob_def
      status_defs coerce_ascii)

lemma demo_distinct: "demo_done \<noteq> demo_job" "demo_unknown \<noteq> demo_job" "demo_unknown \<noteq> demo_done"
  by (simp_all add: demo_job_def demo_done_def demo_unknown_def finishJob_def status_defs)

lemma demo_codes:
  "marshal demo_codec demo_job = Inr []" "marshal demo_codec demo_done = Inr ''x''"
  "marshal demo_codec demo_unknown = Inr ''xx''"
  "unmarshal demo_codec [] = Inr demo_job" "unmarshal demo_codec ''x'' = Inr demo_done"
  "unmarshal demo_codec ''xx'' = Inr demo_unknown"
  using demo_distinct by (simp_all add: demo_codec_def table_codec_def demo_coerce numeral_2_eq_2)

lemma demo_wf:
  "wf_jobs demo_codec mem_bolt ([], 0)"
  "wf_jobs demo_codec mem_bolt ([(jobKey 1, [])], 1)"
  "wf_jobs demo_codec mem_bolt ([(jobKey 1, ''x'')], 1)"
proof -
  have "job_ok demo_job" "job_ok demo_done"
    by (simp_all add: job_ok_def demo_coerce) (simp_all add: demo_job_def demo_done_def finishJob_def
        validStatus_def activeStatus_def finalStatus_def status_defs milliseconds_def time_sub_def
        int64_min_def int64_max_def)
  moreover have "job_ID demo_job = 1" "job_ID demo_done = 1"
    by (simp_all add: demo_job_def demo_done_def)
  ultimately show "wf_jobs demo_codec mem_bolt ([], 0)"
    "wf_jobs demo_codec mem_bolt ([(jobKey 1, [])], 1)"
    "wf_jobs demo_codec mem_bolt ([(jobKey 1, ''x'')], 1)"
    by (simp_all add: wf_jobs_def entry_ok_def demo_codes)
qed

section \<open>Properties\<close>

definition jobs_run :: "job json \<Rightarrow> 'b bolt \<Rightarrow> 'b job_store \<Rightarrow> jobs_op list \<Rightarrow> 'b job_store" where
  "jobs_run J B s ops = foldl (jobs_apply J B) s ops"

lemma wf_jobs_run:
  assumes "bolt_laws B" "codec_laws coerce_job J"
  shows "wf_jobs J B (jobs_db s) \<Longrightarrow> wf_jobs J B (jobs_db (jobs_run J B s ops))"
  unfolding jobs_run_def
proof (induction ops arbitrary: s)
  case (Cons op ops)
  then show ?case using jobs_apply_step[OF assms Cons.prems, of op] by simp
qed simp

text \<open>
  C7. Life cycle of jobs. After any history of \<open>Enqueue\<close>, \<open>Start\<close> and \<open>Complete\<close> calls, failed
  and cancelled ones included, the store is well formed (timestamps agree with the status, keys
  with identifiers), and the next operation changes a stored job only from queued to running (by
  a \<open>Start\<close> of it) or from running to a final status (by a \<open>Complete\<close> of it). A job disappears
  only when its status is final; a job appears only queued, by \<open>Enqueue\<close>.
\<close>

theorem job_lifecycle:
  assumes "bolt_laws B" and "codec_laws coerce_job J" and "wf_jobs J B (jobs_db s)"
  shows "wf_jobs J B (jobs_db (jobs_run J B s ops)) \<and>
    job_transition op i (stored_job J B (jobs_db (jobs_run J B s ops)) i)
      (stored_job J B (jobs_db (jobs_apply J B (jobs_run J B s ops) op)) i)"
  using wf_jobs_run[OF assms] jobs_apply_step[OF assms(1,2)] by blast

theorem job_lifecycle_witness:
  "wf_jobs demo_codec mem_bolt (jobs_db (jobs_run demo_codec mem_bolt (demo_store [])
       [EnqueueOp None None 5 demo_attempt])) \<and>
   job_transition (StartOp None None 7 1) 1
     (stored_job demo_codec mem_bolt (jobs_db (jobs_run demo_codec mem_bolt (demo_store [])
       [EnqueueOp None None 5 demo_attempt])) 1)
     (stored_job demo_codec mem_bolt (jobs_db (jobs_apply demo_codec mem_bolt
       (jobs_run demo_codec mem_bolt (demo_store []) [EnqueueOp None None 5 demo_attempt])
       (StartOp None None 7 1))) 1)"
proof -
  have "wf_jobs demo_codec mem_bolt (jobs_db (demo_store []))" using demo_wf(1) by simp
  from job_lifecycle[OF mem_bolt_laws demo_laws this] show ?thesis by blast
qed

text \<open>
  A successful \<open>Enqueue\<close> is durable: the returned job is stored, queued, under an identifier
  larger than every stored one, and no active job is lost by the retention pass that follows.
\<close>

theorem enqueue_durable:
  assumes "bolt_laws B" and "codec_laws coerce_job J" and "wf_jobs J B (jobs_db s)"
    and "Enqueue J B s c1 c2 now a = (s', Inr j)"
  shows "stored_job J B (jobs_db s') (job_ID j) = Some (coerce_job j) \<and>
    job_Status j = StatusQueued \<and> job_UID j = ja_UID a \<and>
    (\<forall>i j0. stored_job J B (jobs_db s) i = Some j0 \<longrightarrow> i < job_ID j \<and>
      (activeStatus (job_Status j0) \<longrightarrow> stored_job J B (jobs_db s') i = Some j0))"
  using Enqueue_ok(2,3,8)[OF assms] Enqueue_ok(4)[OF assms] active_not_final by blast

theorem enqueue_durable_witness:
  "stored_job demo_codec mem_bolt (jobs_db (fst (Enqueue demo_codec mem_bolt (demo_store [])
     None None 5 demo_attempt))) 1 = Some demo_job \<and> job_Status demo_job = StatusQueued"
proof -
  have run: "Enqueue demo_codec mem_bolt (demo_store []) None None 5 demo_attempt =
      (\<lparr>jobs_db = ([(jobKey 1, [])], 1), jobs_maxRecords = 2\<rparr>, Inr demo_job)"
    using demo_codes(1) by (simp add: Enqueue_def db_update_def jobs_trimOldest_def trim_loop.simps
        demo_job_def demo_attempt_def)
  show ?thesis
    using enqueue_durable[OF mem_bolt_laws demo_laws _ run] demo_wf(1) run demo_coerce(1)
    by (simp add: demo_job_def)
qed

text \<open>
  Recovery. When \<open>Open\<close> succeeds on a well-formed bucket, no stored job is active any more:
  each job that was queued or running is finished as unknown at the time of the opening, every
  other job is unchanged, and a job is dropped only by the retention pass.
\<close>

theorem open_recovers:
  assumes "bolt_laws B" and "codec_laws coerce_job J"
    and "created db = Inr bucket" and "wf_jobs J B bucket"
    and "jobs_Open J B (Inr db) chmod created now m = Inr s"
  shows "wf_jobs J B (jobs_db s) \<and> jobs_maxRecords s = m \<and> 0 < m \<and>
    (\<forall>i j'. stored_job J B (jobs_db s) i = Some j' \<longrightarrow> finalStatus (job_Status j') \<and>
       (\<exists>j. stored_job J B bucket i = Some j \<and> j' = recovered now j))"
proof -
  obtain b1 where rec: "jobs_recover J B now (b_pairs B bucket) bucket = Inr b1"
    and trim: "jobs_trimOldest J B m b1 = Inr (jobs_db s)" and m: "jobs_maxRecords s = m" "0 < m"
  proof -
    obtain db' r where u: "db_update B db (jobs_init J B created now m) = (db', r)"
      by (cases "db_update B db (jobs_init J B created now m)")
    have "0 < m" "chmod = None" "r = Inr ()"
      using assms(5) u by (cases r; cases chmod; cases "m \<le> 0"; simp add: jobs_Open_def)+
    moreover from this have s: "s = \<lparr>jobs_db = db', jobs_maxRecords = m\<rparr>"
      using assms(5) u by (simp add: jobs_Open_def)
    ultimately show ?thesis using db_update_ok[of B db "jobs_init J B created now m" db' "()"] u
      using that s assms(3) by (auto simp: jobs_init_def split: sum.splits)
  qed
  have srt: "key_sorted (b_pairs B bucket)" using assms(4) by (simp add: wf_jobs_def)
  then have all: "\<forall>(k, v)\<in>set (b_pairs B bucket). map_of (b_pairs B bucket) k = Some v"
    using key_sorted_distinct by (auto intro: map_of_is_SomeI)
  note r = jobs_recover_ok[OF assms(1,2) rec assms(4) key_sorted_distinct[OF srt] all]
  have wf1: "wf_jobs J B b1" using r by blast
  have srt1: "key_sorted (b_pairs B b1)" using wf1 by (simp add: wf_jobs_def)
  note t = jobs_ret.trim_pairs[OF assms(1) srt1 trim]
  have wf2: "wf_jobs J B (jobs_db s)" using wf1 t by (auto simp: wf_jobs_def)
  have "finalStatus (job_Status j') \<and> (\<exists>j. stored_job J B bucket i = Some j \<and> j' = recovered now j)"
    if st: "stored_job J B (jobs_db s) i = Some j'" for i j'
  proof -
    have st1: "stored_job J B b1 i = Some j'"
    proof (cases "map_of (b_pairs B b1) (jobKey i)")
      case None
      then show ?thesis
        using st jobs_ret.trim_lookup_None[OF assms(1) srt1 trim None] by (simp add: stored_job_def)
    next
      case (Some v)
      then show ?thesis
        using st jobs_ret.trim_lookup[OF assms(1) srt1 trim Some] by (auto simp: stored_job_def)
    qed
    have key: "jobKey i \<in> fst ` set (b_pairs B bucket)" if "stored_job J B bucket i = Some j" for j
      using that by (auto simp: stored_job_def map_of_eq_None_iff split: option.splits dest: map_of_SomeD)
        (metis fst_conv image_eqI map_of_SomeD)
    obtain j where j: "stored_job J B bucket i = Some j" "j' = recovered now j"
      using st1 r key by (cases "stored_job J B bucket i") (auto split: if_splits)
    obtain v where "(jobKey i, v) \<in> set (b_pairs B bucket)" "unmarshal J v = Inr j"
      using j(1) by (auto simp: stored_job_def split: option.splits sum.splits dest: map_of_SomeD)
    then have "job_ok j" using assms(4) by (auto simp: wf_jobs_def entry_ok_def)
    then show ?thesis using j recovered_status by blast
  qed
  then show ?thesis using wf2 m by blast
qed

theorem open_recovers_witness:
  "\<exists>s. jobs_Open demo_codec mem_bolt (Inr ([(jobKey 1, [])], 1)) None Inr 9 2 = Inr s \<and>
     wf_jobs demo_codec mem_bolt (jobs_db s) \<and> 0 < jobs_maxRecords s"
proof -
  have "finishJob demo_job 9 StatusUnknown [] False = demo_unknown" by (simp add: demo_unknown_def)
  moreover have "job_Status demo_job = StatusQueued" by (simp add: demo_job_def)
  ultimately have run: "jobs_Open demo_codec mem_bolt (Inr ([(jobKey 1, [])], 1)) None Inr 9 2 =
      Inr \<lparr>jobs_db = ([(jobKey 1, ''xx'')], 1), jobs_maxRecords = 2\<rparr>"
    using demo_codes(3,4) by (simp add: jobs_Open_def jobs_init_def db_update_def jobs_trimOldest_def
        trim_loop.simps activeStatus_def)
  show ?thesis
    using open_recovers[OF mem_bolt_laws demo_laws refl demo_wf(2) run] run by simp
qed

text \<open>
  Listing. A successful \<open>List\<close> returns the newest matching jobs, in descending identifier
  order, every one of them stored, at most the requested number and never more than 100.
\<close>

theorem jobs_list_newest_first:
  assumes "wf_jobs J B (jobs_db s)" and "jobs_List J B s c1 ctx f = Inr js"
  shows "js = take (if jf_Limit f = 0 \<or> 100 < jf_Limit f then 100 else nat (jf_Limit f))
      (filter (job_matches f) (rev (decoded_jobs J B (jobs_db s)))) \<and>
    sorted_wrt (\<lambda>j k. job_ID k < job_ID j) js \<and> length js \<le> 100 \<and>
    (\<forall>j\<in>set js. stored_job J B (jobs_db s) (job_ID j) = Some j)"
proof -
  let ?n = "if jf_Limit f = 0 \<or> 100 < jf_Limit f then 100 else nat (jf_Limit f)"
  have run: "jobs_collect J ctx f ?n 0 [] (rev (map snd (b_pairs B (jobs_db s)))) = Inr js"
    and n: "?n \<le> 100"
    using assms(2) by (auto simp: jobs_List_def maxListLimit_def Let_def split: option.splits if_splits)
  have js: "js = take ?n (filter (job_matches f) (rev (decoded_jobs J B (jobs_db s))))"
    using jobs_collect_ok[OF rev_decoded_values[OF assms(1)] run] by simp
  have "sorted_wrt (\<lambda>j k. job_ID k < job_ID j) (rev (decoded_jobs J B (jobs_db s)))"
    using decoded_jobs_sorted[OF assms(1)] by (simp add: sorted_wrt_rev)
  then have "sorted_wrt (\<lambda>j k. job_ID k < job_ID j) js"
    unfolding js by (intro sorted_wrt_take sorted_wrt_filter)
  moreover have "set js \<subseteq> set (decoded_jobs J B (jobs_db s))"
    unfolding js using set_take_subset by fastforce
  ultimately show ?thesis
    using js n stored_in_decoded[OF assms(1)] by (auto simp: min.coboundedI2)
qed

theorem jobs_list_newest_first_witness:
  "\<exists>js. jobs_List demo_codec mem_bolt (demo_store [(jobKey 1, [])]) None (\<lambda>_. None)
       \<lparr>jf_Limit = 0, jf_Action = ''update'', jf_Status = []\<rparr> = Inr js \<and> length js \<le> 100 \<and>
     sorted_wrt (\<lambda>j k. job_ID k < job_ID j) js \<and> js = [demo_job]"
proof -
  have run: "jobs_List demo_codec mem_bolt (demo_store [(jobKey 1, [])]) None (\<lambda>_. None)
      \<lparr>jf_Limit = 0, jf_Action = ''update'', jf_Status = []\<rparr> = Inr [demo_job]"
    by (simp add: jobs_List_def maxListLimit_def demo_codes) (simp add: demo_job_def)
  have "wf_jobs demo_codec mem_bolt (jobs_db (demo_store [(jobKey 1, [])]))"
    using demo_wf(2) by simp
  from jobs_list_newest_first[OF this run] run show ?thesis by blast
qed

text \<open>
  \<open>RebootRequiredSince\<close> answers whether some stored job succeeded, requires a reboot and
  finished after the given time.
\<close>

theorem reboot_required_since:
  assumes "wf_jobs J B (jobs_db s)" and "RebootRequiredSince J B s c1 ctx since = Inr r"
  shows "r \<longleftrightarrow> (\<exists>i j t. stored_job J B (jobs_db s) i = Some j \<and> job_Status j = StatusSucceeded \<and>
    job_RebootRequired j \<and> job_FinishedAt j = Some t \<and> since < t)"
proof -
  have run: "reboot_walk J ctx since 0 (rev (map snd (b_pairs B (jobs_db s)))) = Inr r"
    using assms(2) by (auto simp: RebootRequiredSince_def split: option.splits)
  have "i = job_ID j" if st: "stored_job J B (jobs_db s) i = Some j" for i j
  proof -
    obtain v where v: "(jobKey i, v) \<in> set (b_pairs B (jobs_db s))" "unmarshal J v = Inr j"
      using st by (auto simp: stored_job_def split: option.splits sum.splits dest: map_of_SomeD)
    then show ?thesis using assms(1) by (auto simp: wf_jobs_def entry_ok_def)
  qed
  then show ?thesis
    unfolding reboot_walk_ok[OF rev_decoded_values[OF assms(1)] run] set_rev
    using stored_in_decoded[OF assms(1)] by metis
qed

theorem reboot_required_since_witness:
  "\<exists>i j t. stored_job demo_codec mem_bolt ([(jobKey 1, ''x'')], 1) i = Some j \<and>
     job_Status j = StatusSucceeded \<and> job_RebootRequired j \<and> job_FinishedAt j = Some t \<and> 100 < t"
proof -
  have run: "RebootRequiredSince demo_codec mem_bolt (demo_store [(jobKey 1, ''x'')]) None
      (\<lambda>_. None) 100 = Inr True"
    by (simp add: RebootRequiredSince_def demo_codes) (simp add: demo_done_def finishJob_def)
  show ?thesis
    using reboot_required_since[OF _ run] demo_wf(3) by simp
qed

end
