(* ===== verification/Registry.thy ===== *)
theory Registry
  imports Auth Audit_Records Jobs
begin

text \<open>
  The broker's four registries (\<open>internal/broker/actions.go\<close>, \<open>streams.go\<close>): what a definition
  holds, what \<open>Register\<close> refuses, and the validation of the parameters a client sends. Handlers
  and resolvers are function fields, as in the code; a field that Go tests against \<open>nil\<close> is an
  option. Handlers run on an arbitrary world \<open>'w\<close>.
\<close>

section \<open>Contexts and interfaces\<close>

text \<open>A context is the term that built it: the request's, the registry's job context, or derived.\<close>

datatype ctx =
    RequestCtx
  | JobCtx
  | BackgroundCtx
  | WithTimeout ctx int
  | WithoutCancel ctx

type_synonym params = "(string, string) gomap"

type_synonym ('w, 'a) call = "'w \<Rightarrow> 'w \<times> 'a"

type_synonym 'w action_handler = "ctx \<Rightarrow> identity \<Rightarrow> params \<Rightarrow> ('w, error option) call"
type_synonym 'w action_prepare = "ctx \<Rightarrow> identity \<Rightarrow> params \<Rightarrow> ('w, params result) call"
type_synonym ('w, 'q) query_handler = "ctx \<Rightarrow> identity \<Rightarrow> params \<Rightarrow> ('w, 'q result) call"

record 'w action_definition =
  ad_Admin :: bool
  ad_Background :: bool
  ad_ConfirmationRequired :: bool
  ad_Handler :: "'w action_handler option"
  ad_ID :: string
  ad_LockResource :: "(params \<Rightarrow> string result) option"
  ad_NonBlocking :: bool
  ad_Parameters :: "string list"
  ad_Prepare :: "'w action_prepare option"
  ad_RebootRequired :: bool
  ad_Resource :: "(params \<Rightarrow> string result) option"
  ad_Timeout :: int

record 'w audit_iface =
  ai_Begin :: "ctx \<Rightarrow> audit_attempt \<Rightarrow> ('w, audit_record result) call"
  ai_Complete :: "ctx \<Rightarrow> 64 word \<Rightarrow> string \<Rightarrow> string \<Rightarrow> ('w, error option) call"

record 'w job_iface =
  ji_Complete :: "ctx \<Rightarrow> 64 word \<Rightarrow> string \<Rightarrow> string \<Rightarrow> bool \<Rightarrow> ('w, error option) call"
  ji_Enqueue :: "ctx \<Rightarrow> job_attempt \<Rightarrow> ('w, job result) call"
  ji_Start :: "ctx \<Rightarrow> 64 word \<Rightarrow> ('w, error option) call"

type_synonym 'w problem_recorder = "string \<Rightarrow> error \<Rightarrow> 'w \<Rightarrow> 'w"

definition ErrConfirmationRequired :: error where
  "ErrConfirmationRequired = Sentinel ''action confirmation required''"

definition ErrStreamTooLarge :: error where
  "ErrStreamTooLarge = Sentinel ''stream exceeds registered limit''"

record 'w action_registry =
  ar_actions :: "(string, 'w action_definition) gomap"
  ar_audit :: "'w audit_iface option"
  ar_jobs :: "'w job_iface option"
  ar_problems :: "'w problem_recorder option"

record ('w, 'q) registered_query =
  rq_admin :: bool
  rq_handler :: "('w, 'q) query_handler"

record ('w, 'q) query_registry =
  qr_queries :: "(string, ('w, 'q) registered_query) gomap"

record stream_result =
  sr_Body :: "string option"
  sr_Filename :: string
  sr_MediaType :: string
  sr_Size :: int

type_synonym 'w stream_query_handler = "ctx \<Rightarrow> identity \<Rightarrow> params \<Rightarrow> ('w, stream_result result) call"

record 'w stream_query_definition =
  sq_ID :: string
  sq_Admin :: bool
  sq_Parameters :: "string list"
  sq_Limit :: int
  sq_Timeout :: int
  sq_Handler :: "'w stream_query_handler option"

record 'w stream_query_registry =
  sqr_queries :: "(string, 'w stream_query_definition) gomap"

text \<open>
  \<open>io.LimitReader\<close> around a body and \<open>streamLimitReader\<close> around that; the body itself is a value
  \<open>'r\<close>.
\<close>

record 'r limited_reader =
  lim_reader :: 'r
  lim_N :: int

record 'r stream_limit_reader =
  slr_reader :: "'r limited_reader"
  slr_remaining :: int

type_synonym ('w, 'r) stream_action_handler =
  "ctx \<Rightarrow> identity \<Rightarrow> params \<Rightarrow> 'r stream_limit_reader \<Rightarrow> ('w, error option) call"

record ('w, 'r) stream_action_definition =
  sa_ID :: string
  sa_Admin :: bool
  sa_Parameters :: "string list"
  sa_Limit :: int
  sa_Timeout :: int
  sa_Resource :: "(params \<Rightarrow> string result) option"
  sa_LockResource :: "(params \<Rightarrow> string result) option"
  sa_Handler :: "('w, 'r) stream_action_handler option"

record ('w, 'r) stream_action_registry =
  sar_actions :: "(string, ('w, 'r) stream_action_definition) gomap"
  sar_audit :: "'w audit_iface option"
  sar_problems :: "'w problem_recorder option"

section \<open>Construction\<close>

definition NewActionRegistry :: "'w audit_iface list \<Rightarrow> 'w action_registry" where
  "NewActionRegistry stores = \<lparr>ar_actions = [], ar_audit = (case stores of [] \<Rightarrow> None | a # _ \<Rightarrow> Some a),
     ar_jobs = None, ar_problems = None\<rparr>"

definition NewQueryRegistry :: "('w, 'q) query_registry" where
  "NewQueryRegistry = \<lparr>qr_queries = []\<rparr>"

definition NewStreamQueryRegistry :: "'w stream_query_registry" where
  "NewStreamQueryRegistry = \<lparr>sqr_queries = []\<rparr>"

definition NewStreamActionRegistry :: "'w audit_iface list \<Rightarrow> ('w, 'r) stream_action_registry" where
  "NewStreamActionRegistry stores =
     \<lparr>sar_actions = [], sar_audit = (case stores of [] \<Rightarrow> None | a # _ \<Rightarrow> Some a), sar_problems = None\<rparr>"

definition UseJobs :: "'w action_registry \<Rightarrow> 'w job_iface \<Rightarrow> 'w action_registry" where
  "UseJobs r store = r\<lparr>ar_jobs := Some store\<rparr>"

definition UseProblems :: "'w action_registry \<Rightarrow> 'w problem_recorder \<Rightarrow> 'w action_registry" where
  "UseProblems r rec = r\<lparr>ar_problems := Some rec\<rparr>"

definition stream_UseProblems :: "('w, 'r) stream_action_registry \<Rightarrow> 'w problem_recorder \<Rightarrow>
    ('w, 'r) stream_action_registry" where
  "stream_UseProblems r rec = r\<lparr>sar_problems := Some rec\<rparr>"

section \<open>Parameters\<close>

definition cloneParameters :: "params \<Rightarrow> params" where
  "cloneParameters ps = foldl (\<lambda>m (k, v). AList.update k v m) [] ps"

definition valid_value :: "nat \<Rightarrow> string \<Rightarrow> bool" where
  "valid_value n v \<longleftrightarrow> \<not> (v = [] \<or> n < length v \<or> contains_any v line_breaks)"

fun check_expected :: "string list \<Rightarrow> params \<Rightarrow> error option" where
  "check_expected [] ps = None"
| "check_expected (name # names) ps = (case map_of ps name of
     None \<Rightarrow> Some (Errorf ''parameter %q is missing or invalid'' [name])
   | Some v \<Rightarrow> if \<not> valid_value 512 v
       then Some (Errorf ''parameter %q is missing or invalid'' [name])
       else check_expected names ps)"

definition validateParameters :: "string list \<Rightarrow> params \<Rightarrow> error option" where
  "validateParameters expected ps = (if length ps \<noteq> length expected
     then Some (Errorf ''expected parameters %v'' expected) else check_expected expected ps)"

text \<open>A missing key reads as the empty string.\<close>

definition param :: "params \<Rightarrow> string \<Rightarrow> string" where
  "param ps name = (case map_of ps name of None \<Rightarrow> [] | Some v \<Rightarrow> v)"

fun check_unchanged :: "params \<Rightarrow> params \<Rightarrow> error option" where
  "check_unchanged [] prepared = None"
| "check_unchanged ((name, v) # ps) prepared = (if param prepared name \<noteq> v
     then Some (Errorf ''parameter %q was changed'' [name]) else check_unchanged ps prepared)"

fun check_external :: "params \<Rightarrow> params \<Rightarrow> error option" where
  "check_external external [] = None"
| "check_external external ((name, v) # ps) =
     (if name = ''_id'' then
        (if \<not> valid_value 512 v then Some (Errorf ''parameter %q is missing or invalid'' [name])
         else check_external external ps)
      else if param external name \<noteq> v then Some (Errorf ''parameter %q is not external'' [name])
      else check_external external ps)"

definition validatePreparedParameters :: "params \<Rightarrow> params \<Rightarrow> error option" where
  "validatePreparedParameters external prepared =
     (if length prepared \<noteq> length external \<and> length prepared \<noteq> length external + 1
      then Some (Errorf ''prepared parameters differ from external parameters'' [])
      else (case check_unchanged external prepared of
          Some e \<Rightarrow> Some e
        | None \<Rightarrow> check_external external prepared))"

definition containsStreamControl :: "string \<Rightarrow> bool" where
  "containsStreamControl v \<longleftrightarrow> list_ex (\<lambda>r. r < 0x20 \<or> r = 0x7F) (runes v)"

definition validStreamResource :: "string \<Rightarrow> bool" where
  "validStreamResource res \<longleftrightarrow> res \<noteq> [] \<and> length res \<le> 1024 \<and> \<not> contains_any res line_breaks"

fun check_stream :: "string list \<Rightarrow> params \<Rightarrow> nat \<Rightarrow> nat result" where
  "check_stream [] ps n = Inr n"
| "check_stream (name # names) ps n = (case map_of ps name of
     None \<Rightarrow> Inl (Errorf ''parameter %q is missing or invalid'' [name])
   | Some v \<Rightarrow> if 4096 < length v \<or> containsStreamControl v
       then Inl (Errorf ''parameter %q is missing or invalid'' [name])
       else check_stream names ps (n + (length name + length v)))"

definition validateStreamParameters :: "string list \<Rightarrow> params \<Rightarrow> error option" where
  "validateStreamParameters expected ps = (if length ps \<noteq> length expected
     then Some (Errorf ''expected parameters %v'' expected)
     else (case check_stream expected ps 0 of
         Inl e \<Rightarrow> Some e
       | Inr n \<Rightarrow> if 8192 < n then Some (Errorf ''encoded metadata is too large'' []) else None))"

definition registeredStreamParameters :: "string \<Rightarrow> string list \<Rightarrow> string list result" where
  "registeredStreamParameters i ps =
     (if List.member ps [] then Inl (Errorf ''stream %q has an empty parameter name'' [i])
      else (let sorted_ps = sort ps; compacted = compact sorted_ps in
        if length compacted \<noteq> length sorted_ps
        then Inl (Errorf ''stream %q has duplicate parameters'' [i]) else Inr compacted))"

section \<open>Registration\<close>

definition RegisterDefinition :: "'w action_registry \<Rightarrow> 'w action_definition \<Rightarrow>
    'w action_registry \<times> error option" where
  "RegisterDefinition r d =
     (if ad_ID d = [] \<or> ad_Handler d = None \<or> ad_Resource d = None
      then (r, Some (Errorf ''action requires id, handler, and resource resolver'' []))
      else if List.member (ad_Parameters d) []
      then (r, Some (Errorf ''action %q has an empty parameter name'' [ad_ID d]))
      else (let compacted = compact (sort (ad_Parameters d)) in
        if length compacted \<noteq> length (ad_Parameters d)
        then (r, Some (Errorf ''action %q has duplicate parameters'' [ad_ID d]))
        else (let d' = d\<lparr>ad_Parameters := compacted\<rparr> in
          case map_of (ar_actions r) (ad_ID d) of
            Some _ \<Rightarrow> (r, Some (Errorf ''action %q already registered'' [ad_ID d]))
          | None \<Rightarrow> (r\<lparr>ar_actions := AList.update (ad_ID d) d' (ar_actions r)\<rparr>, None))))"

definition action_Register :: "'w action_registry \<Rightarrow> string \<Rightarrow> bool \<Rightarrow> 'w action_handler option \<Rightarrow>
    'w action_registry \<times> error option" where
  "action_Register r i admin handler = RegisterDefinition r
     \<lparr>ad_Admin = admin, ad_Background = False, ad_ConfirmationRequired = False, ad_Handler = handler,
      ad_ID = i, ad_LockResource = None, ad_NonBlocking = False, ad_Parameters = [],
      ad_Prepare = None, ad_RebootRequired = False, ad_Resource = Some (\<lambda>_. Inr i), ad_Timeout = 0\<rparr>"

definition action_Registered :: "'w action_registry \<Rightarrow> string \<Rightarrow> bool" where
  "action_Registered r i \<longleftrightarrow> map_of (ar_actions r) i \<noteq> None"

definition query_Register :: "('w, 'q) query_registry \<Rightarrow>
    string \<times> bool \<times> ('w, 'q) query_handler option \<Rightarrow> ('w, 'q) query_registry \<times> error option" where
  "query_Register r = (\<lambda>(i, admin, handler). case handler of
     None \<Rightarrow> (r, Some (Errorf ''query requires id and handler'' []))
   | Some h \<Rightarrow> if i = [] then (r, Some (Errorf ''query requires id and handler'' []))
       else (case map_of (qr_queries r) i of
           Some _ \<Rightarrow> (r, Some (Errorf ''query %q already registered'' [i]))
         | None \<Rightarrow> (r\<lparr>qr_queries := AList.update i \<lparr>rq_admin = admin, rq_handler = h\<rparr> (qr_queries r)\<rparr>,
                    None)))"

definition query_Registered :: "('w, 'q) query_registry \<Rightarrow> string \<Rightarrow> bool" where
  "query_Registered r i \<longleftrightarrow> map_of (qr_queries r) i \<noteq> None"

definition stream_query_Register :: "'w stream_query_registry \<Rightarrow> 'w stream_query_definition \<Rightarrow>
    'w stream_query_registry \<times> error option" where
  "stream_query_Register r d =
     (if sq_ID d = [] \<or> sq_Handler d = None \<or> sq_Limit d < 0
      then (r, Some (Errorf ''stream query requires id, handler, and non-negative limit'' []))
      else (case registeredStreamParameters (sq_ID d) (sq_Parameters d) of
          Inl e \<Rightarrow> (r, Some e)
        | Inr ps \<Rightarrow> (case map_of (sqr_queries r) (sq_ID d) of
            Some _ \<Rightarrow> (r, Some (Errorf ''stream query %q already registered'' [sq_ID d]))
          | None \<Rightarrow> (r\<lparr>sqr_queries :=
              AList.update (sq_ID d) (d\<lparr>sq_Parameters := ps\<rparr>) (sqr_queries r)\<rparr>, None))))"

definition stream_query_Registered :: "'w stream_query_registry \<Rightarrow> string \<Rightarrow> bool" where
  "stream_query_Registered r i \<longleftrightarrow> map_of (sqr_queries r) i \<noteq> None"

definition stream_action_Register :: "('w, 'r) stream_action_registry \<Rightarrow>
    ('w, 'r) stream_action_definition \<Rightarrow> ('w, 'r) stream_action_registry \<times> error option" where
  "stream_action_Register r d =
     (if sa_ID d = [] \<or> sa_Handler d = None \<or> sa_Resource d = None \<or> sa_Limit d < 0
      then (r, Some (Errorf ''stream action requires id, handler, resource resolver, and non-negative limit'' []))
      else (case registeredStreamParameters (sa_ID d) (sa_Parameters d) of
          Inl e \<Rightarrow> (r, Some e)
        | Inr ps \<Rightarrow> (case map_of (sar_actions r) (sa_ID d) of
            Some _ \<Rightarrow> (r, Some (Errorf ''stream action %q already registered'' [sa_ID d]))
          | None \<Rightarrow> (r\<lparr>sar_actions :=
              AList.update (sa_ID d) (d\<lparr>sa_Parameters := ps\<rparr>) (sar_actions r)\<rparr>, None))))"

definition stream_action_Registered :: "('w, 'r) stream_action_registry \<Rightarrow> string \<Rightarrow> bool" where
  "stream_action_Registered r i \<longleftrightarrow> map_of (sar_actions r) i \<noteq> None"

section \<open>Errors shown to clients\<close>

definition NewPublicError :: "int \<Rightarrow> string \<Rightarrow> string \<Rightarrow> error option \<Rightarrow> error" where
  "NewPublicError status message category e = Public status message category e"

definition PublicErrorDetails :: "error \<Rightarrow> int \<times> string \<times> string" where
  "PublicErrorDetails e = (case as_public e of
     Some p \<Rightarrow> p | None \<Rightarrow> (503, ''service unavailable'', ''unavailable''))"

definition StatusCode :: "error \<Rightarrow> int" where
  "StatusCode e = fst (PublicErrorDetails e)"

definition errorCategory :: "error \<Rightarrow> string" where
  "errorCategory e = (if errors_is e DeadlineExceeded then ''timeout''
     else if errors_is e Canceled then ''cancelled'' else ''operation_failed'')"

definition ProblemAuditWriteFailed :: string where "ProblemAuditWriteFailed = ''audit.write_failed''"
definition ProblemJobsWriteFailed :: string where "ProblemJobsWriteFailed = ''jobs.write_failed''"

section \<open>The registry contract\<close>

definition register_all :: "('r \<Rightarrow> 'd \<Rightarrow> 'r \<times> error option) \<Rightarrow> 'r \<Rightarrow> 'd list \<Rightarrow> 'r" where
  "register_all register r ds = foldl (\<lambda>r d. fst (register r d)) r ds"

text \<open>
  What the four registries promise: a registration either fails and changes nothing, or binds a
  non-empty identifier that was free; \<open>Registered\<close> tells which identifiers are bound.
\<close>

locale registry =
  fixes register :: "'r \<Rightarrow> 'd \<Rightarrow> 'r \<times> error option"
    and registered :: "'r \<Rightarrow> string \<Rightarrow> bool"
    and entry :: "'r \<Rightarrow> string \<Rightarrow> 'e option"
    and ident :: "'d \<Rightarrow> string"
    and stored :: "'d \<Rightarrow> 'e"
    and admissible :: "'d \<Rightarrow> bool"
  assumes register_ok: "register r d = (r', None) \<Longrightarrow> admissible d \<and> ident d \<noteq> [] \<and>
      entry r (ident d) = None \<and> entry r' = (entry r)(ident d \<mapsto> stored d)"
    and register_error: "register r d = (r', Some e) \<Longrightarrow> r' = r"
    and register_total: "admissible d \<Longrightarrow> ident d \<noteq> [] \<Longrightarrow> entry r (ident d) = None \<Longrightarrow>
      \<exists>r'. register r d = (r', None)"
    and registered_entry: "registered r i \<longleftrightarrow> entry r i \<noteq> None"
begin

lemma register_cases:
  "fst (register r d) = r \<or> admissible d \<and> entry r (ident d) = None \<and> ident d \<noteq> [] \<and>
     entry (fst (register r d)) = (entry r)(ident d \<mapsto> stored d)"
proof (cases "snd (register r d)")
  case None
  then show ?thesis using register_ok[of r d "fst (register r d)"] by (simp add: prod_eq_iff)
next
  case (Some e)
  then show ?thesis using register_error[of r d "fst (register r d)" e] by (simp add: prod_eq_iff)
qed

lemma register_keeps:
  assumes "entry r i = Some x"
  shows "entry (fst (register r d)) i = Some x"
  using register_cases[of r d] assms by (metis fun_upd_other option.distinct(1))

lemma register_all_keeps: "entry r i = Some x \<Longrightarrow> entry (register_all register r ds) i = Some x"
  unfolding register_all_def by (induction ds arbitrary: r) (simp_all add: register_keeps)

lemma register_all_origin:
  "entry (register_all register r ds) i = Some x \<Longrightarrow>
     entry r i = Some x \<or> i \<noteq> [] \<and> (\<exists>d\<in>set ds. admissible d \<and> ident d = i \<and> stored d = x)"
  unfolding register_all_def
proof (induction ds arbitrary: r)
  case (Cons d ds)
  then consider "entry (fst (register r d)) i = Some x"
    | "i \<noteq> []" "\<exists>d'\<in>set ds. admissible d' \<and> ident d' = i \<and> stored d' = x" by fastforce
  then show ?case
  proof cases
    case 1
    then show ?thesis using register_cases[of r d] by (auto split: if_splits)
  qed auto
qed simp

lemma register_twice:
  assumes "register r d = (r', None)" and "ident d' = ident d"
  shows "\<exists>e. register (register_all register r' ds) d' = (register_all register r' ds, Some e)"
proof -
  have "entry r' (ident d) = Some (stored d)" using register_ok[OF assms(1)] by simp
  then have "entry (register_all register r' ds) (ident d') \<noteq> None"
    using register_all_keeps assms(2) by simp
  then show ?thesis
    using register_ok register_error
    by (metis option.exhaust prod.exhaust)
qed

end

text \<open>What an action definition must satisfy, and what is stored for it.\<close>

definition action_admissible :: "'w action_definition \<Rightarrow> bool" where
  "action_admissible d \<longleftrightarrow> ad_Handler d \<noteq> None \<and> ad_Resource d \<noteq> None \<and>
     [] \<notin> set (ad_Parameters d) \<and> distinct (ad_Parameters d)"

definition action_stored :: "'w action_definition \<Rightarrow> 'w action_definition" where
  "action_stored d = d\<lparr>ad_Parameters := sort (ad_Parameters d)\<rparr>"

lemma compact_sort_length: "length (compact (sort ps)) = length ps \<longleftrightarrow> distinct (ps :: string list)"
proof
  assume "length (compact (sort ps)) = length ps"
  then have "distinct (sort ps)" using compact_length_distinct[of "sort ps"] by simp
  then show "distinct ps" by simp
next
  assume "distinct ps"
  then have "compact (sort ps) = sort ps" by (intro compact_distinct) simp
  then show "length (compact (sort ps)) = length ps" by simp
qed

lemma compact_sort: "distinct (ps :: string list) \<Longrightarrow> compact (sort ps) = sort ps"
  by (intro compact_distinct) simp

interpretation actions: registry RegisterDefinition action_Registered "\<lambda>r. map_of (ar_actions r)"
  ad_ID action_stored action_admissible
  by unfold_locales
    (auto simp: RegisterDefinition_def action_Registered_def action_admissible_def action_stored_def
      compact_sort_length compact_sort Let_def split: if_splits option.splits)

interpretation queries: registry query_Register query_Registered "\<lambda>r. map_of (qr_queries r)"
  fst "\<lambda>(i, admin, h). \<lparr>rq_admin = admin, rq_handler = the h\<rparr>" "\<lambda>(i, admin, h). h \<noteq> None"
  by unfold_locales
    (auto simp: query_Register_def query_Registered_def split: if_splits option.splits)

lemma registered_stream_parameters:
  "registeredStreamParameters i ps = Inr qs \<longleftrightarrow> [] \<notin> set ps \<and> distinct ps \<and> qs = sort ps"
  by (auto simp: registeredStreamParameters_def compact_sort_length compact_sort Let_def)

lemma registered_stream_parameters_error:
  "registeredStreamParameters i ps = Inl e \<Longrightarrow> [] \<in> set ps \<or> \<not> distinct ps"
  by (auto simp: registeredStreamParameters_def compact_sort_length Let_def split: if_splits)

interpretation stream_queries: registry stream_query_Register stream_query_Registered
  "\<lambda>r. map_of (sqr_queries r)" sq_ID "\<lambda>d. d\<lparr>sq_Parameters := sort (sq_Parameters d)\<rparr>"
  "\<lambda>d. sq_Handler d \<noteq> None \<and> 0 \<le> sq_Limit d \<and> [] \<notin> set (sq_Parameters d) \<and>
     distinct (sq_Parameters d)"
  by unfold_locales
    (auto simp: registered_stream_parameters stream_query_Register_def stream_query_Registered_def
      split: if_splits option.splits sum.splits dest: registered_stream_parameters_error)

interpretation stream_actions: registry stream_action_Register stream_action_Registered
  "\<lambda>r. map_of (sar_actions r)" sa_ID "\<lambda>d. d\<lparr>sa_Parameters := sort (sa_Parameters d)\<rparr>"
  "\<lambda>d. sa_Handler d \<noteq> None \<and> sa_Resource d \<noteq> None \<and> 0 \<le> sa_Limit d \<and>
     [] \<notin> set (sa_Parameters d) \<and> distinct (sa_Parameters d)"
  by unfold_locales
    (auto simp: registered_stream_parameters stream_action_Register_def stream_action_Registered_def
      split: if_splits option.splits sum.splits dest: registered_stream_parameters_error)

section \<open>What validation admits\<close>

lemma cloneParameters_step:
  "map_of (foldl (\<lambda>m (k, v). AList.update k v m) acc ps) = map_of acc ++ map_of (rev ps)"
proof (induction ps arbitrary: acc)
  case (Cons p ps)
  then show ?case by (cases p) (simp add: map_add_def fun_eq_iff split: option.splits)
qed simp

lemma cloneParameters_map: "wf_map ps \<Longrightarrow> map_of (cloneParameters ps) = map_of ps"
  by (simp add: cloneParameters_def cloneParameters_step map_of_inject_set rev_map[symmetric])

lemma wf_cloneParameters: "wf_map (cloneParameters ps)"
proof -
  have "wf_map acc \<Longrightarrow> wf_map (foldl (\<lambda>m (k, v). AList.update k v m) acc ps)" for acc :: params
    by (induction ps arbitrary: acc) auto
  then show ?thesis by (simp add: cloneParameters_def)
qed

lemma check_expected_None:
  "check_expected names ps = None \<longleftrightarrow>
     (\<forall>name\<in>set names. \<exists>v. map_of ps name = Some v \<and> valid_value 512 v)"
  by (induction names) (auto split: option.splits)

lemma keys_by_length:
  assumes "wf_map ps" "distinct names" "length ps = length names" "set names \<subseteq> fst ` set ps"
  shows "fst ` set ps = set names"
proof (rule card_subset_eq[symmetric])
  show "card (set names) = card (fst ` set ps)"
    using assms(1-3) by (metis distinct_card length_map list.set_map)
qed (use assms(4) in auto)

lemma validateParameters_None:
  assumes "wf_map ps" and "distinct names"
  shows "validateParameters names ps = None \<longleftrightarrow>
    dom (map_of ps) = set names \<and> (\<forall>v\<in>ran (map_of ps). valid_value 512 v)"
proof
  assume ok: "validateParameters names ps = None"
  then have len: "length ps = length names"
    and all: "\<forall>name\<in>set names. \<exists>v. map_of ps name = Some v \<and> valid_value 512 v"
    by (auto simp: validateParameters_def check_expected_None split: if_splits)
  have "set names \<subseteq> fst ` set ps" using all by (auto dest!: map_of_SomeD simp: rev_image_eqI)
  then have keys: "dom (map_of ps) = set names"
    using keys_by_length[OF assms len] by (simp add: dom_map_of_conv_image_fst)
  moreover have "valid_value 512 v" if vr: "v \<in> ran (map_of ps)" for v
  proof -
    obtain name where "map_of ps name = Some v" using vr unfolding ran_def by blast
    moreover from this have "name \<in> set names" using keys by blast
    ultimately show ?thesis using all by fastforce
  qed
  ultimately show "dom (map_of ps) = set names \<and> (\<forall>v\<in>ran (map_of ps). valid_value 512 v)" by blast
next
  assume ok: "dom (map_of ps) = set names \<and> (\<forall>v\<in>ran (map_of ps). valid_value 512 v)"
  have "length ps = length names"
    using ok length_le_card_keys[OF assms(1)] distinct_card[OF assms(2)] by simp
  moreover have "\<exists>v. map_of ps name = Some v \<and> valid_value 512 v" if "name \<in> set names" for name
    using ok that by (auto simp: ran_def)
  ultimately show "validateParameters names ps = None"
    by (simp add: validateParameters_def check_expected_None)
qed

lemma check_unchanged_None:
  "check_unchanged ps prepared = None \<longleftrightarrow> (\<forall>(name, v)\<in>set ps. param prepared name = v)"
  by (induction ps prepared rule: check_unchanged.induct) auto

lemma check_external_None:
  "check_external external ps = None \<longleftrightarrow> (\<forall>(name, v)\<in>set ps.
     if name = ''_id'' then valid_value 512 v else param external name = v)"
  by (induction external ps rule: check_external.induct) auto

lemma check_stream_Inr:
  "check_stream names ps n = Inr m \<longleftrightarrow>
     (\<forall>name\<in>set names. \<exists>v. map_of ps name = Some v \<and> length v \<le> 4096 \<and> \<not> containsStreamControl v) \<and>
     m = n + sum_list (map (\<lambda>name. length name + length (param ps name)) names)"
  by (induction names arbitrary: n) (auto simp: param_def split: option.splits)

lemma no_stream_control:
  assumes "\<not> containsStreamControl v" and "c \<in> set v"
  shows "0x20 \<le> byte c \<and> byte c \<noteq> 0x7F"
proof (rule ccontr)
  assume bad: "\<not> (0x20 \<le> byte c \<and> byte c \<noteq> 0x7F)"
  then have "byte c \<in> set (runes v)" using ascii_is_rune[OF assms(2)] by fastforce
  then show False using assms(1) bad by (force simp: containsStreamControl_def list_ex_iff)
qed

section \<open>Properties\<close>

text \<open>
  Registration is sound and write-once: after any sequence of registrations on a new
  registry, every bound action has a non-empty identifier equal to its key, a handler, a
  resource resolver and sorted, distinct, non-empty parameter names; it is the definition of one
  of the registrations, and no later registration changes or removes it.
\<close>

theorem action_registry_sound:
  assumes "map_of (ar_actions (register_all RegisterDefinition (NewActionRegistry stores) ds)) i = Some d"
  shows "i \<noteq> [] \<and> ad_ID d = i \<and> ad_Handler d \<noteq> None \<and> ad_Resource d \<noteq> None \<and>
    sorted (ad_Parameters d) \<and> distinct (ad_Parameters d) \<and> [] \<notin> set (ad_Parameters d) \<and>
    (\<exists>d0\<in>set ds. ad_ID d0 = i \<and> d = action_stored d0) \<and>
    map_of (ar_actions (register_all RegisterDefinition
      (register_all RegisterDefinition (NewActionRegistry stores) ds) ds')) i = Some d"
proof -
  have "i \<noteq> []" and ex: "\<exists>d0\<in>set ds. action_admissible d0 \<and> ad_ID d0 = i \<and> action_stored d0 = d"
    using actions.register_all_origin[OF assms] by (auto simp: NewActionRegistry_def)
  obtain d0 where d0: "d0 \<in> set ds" "action_admissible d0" "ad_ID d0 = i" "d = action_stored d0"
    using ex by blast
  show ?thesis
    using \<open>i \<noteq> []\<close> d0 actions.register_all_keeps[OF assms]
    by (auto simp: action_admissible_def action_stored_def)
qed

definition demo_action :: "unit action_definition" where
  "demo_action = \<lparr>ad_Admin = True, ad_Background = False, ad_ConfirmationRequired = True,
     ad_Handler = Some (\<lambda>_ _ _ w. (w, None)), ad_ID = ''unit.stop'', ad_LockResource = None,
     ad_NonBlocking = False, ad_Parameters = [''name''], ad_Prepare = None,
     ad_RebootRequired = False, ad_Resource = Some (\<lambda>ps. Inr (param ps ''name'')), ad_Timeout = 0\<rparr>"

theorem action_registry_sound_witness:
  "ad_Handler (action_stored demo_action) \<noteq> None \<and>
   map_of (ar_actions (register_all RegisterDefinition
     (register_all RegisterDefinition (NewActionRegistry []) [demo_action]) [demo_action]))
     ''unit.stop'' = Some (action_stored demo_action)"
proof -
  have "map_of (ar_actions (register_all RegisterDefinition (NewActionRegistry []) [demo_action]))
      ''unit.stop'' = Some (action_stored demo_action)"
    by (simp add: register_all_def RegisterDefinition_def NewActionRegistry_def demo_action_def
        action_stored_def)
  from action_registry_sound[OF this, of "[demo_action]"] show ?thesis by blast
qed

text \<open>
  Client parameters. \<open>validateParameters\<close> accepts exactly the maps whose keys are the
  declared names and whose values are non-empty, at most 512 bytes and free of CR, LF and NUL.
\<close>

theorem validate_parameters_exact:
  assumes "wf_map ps" and "distinct expected"
  shows "validateParameters expected ps = None \<longleftrightarrow> dom (map_of ps) = set expected \<and>
    (\<forall>k v. map_of ps k = Some v \<longrightarrow> v \<noteq> [] \<and> length v \<le> 512 \<and>
       CHR 0x0D \<notin> set v \<and> CHR 0x0A \<notin> set v \<and> CHR 0x00 \<notin> set v)"
  unfolding validateParameters_None[OF assms]
  by (fastforce simp: ran_def valid_value_def contains_any_iff line_breaks_def not_less)

theorem validate_parameters_exact_witness:
  "validateParameters [''name''] [(''name'', ''ssh'')] = None \<longleftrightarrow>
     dom (map_of [(''name'', ''ssh'')]) = set [''name''] \<and>
     (\<forall>k v. map_of [(''name'', ''ssh'')] k = Some v \<longrightarrow> v \<noteq> [] \<and> length v \<le> 512 \<and>
       CHR 0x0D \<notin> set v \<and> CHR 0x0A \<notin> set v \<and> CHR 0x00 \<notin> set v)"
  by (rule validate_parameters_exact) simp_all

text \<open>
  Prepared parameters. What \<open>Prepare\<close> returns is used only when it keeps every validated
  client parameter and adds at most one: the internal \<open>_id\<close>, itself validated, or an empty value.
\<close>

theorem prepared_parameters_extend:
  assumes "wf_map external" and "wf_map prepared" and "\<forall>v\<in>ran (map_of external). v \<noteq> []"
    and "validatePreparedParameters external prepared = None"
  shows "map_of external \<subseteq>\<^sub>m map_of prepared \<and>
    card (dom (map_of prepared) - dom (map_of external)) \<le> 1 \<and>
    (\<forall>k v. map_of prepared k = Some v \<longrightarrow>
       map_of external k = Some v \<or> k = ''_id'' \<and> valid_value 512 v \<or> v = [])"
proof -
  have len: "length prepared \<le> length external + 1"
    and unch: "\<forall>(name, v)\<in>set external. param prepared name = v"
    and ext: "\<forall>(name, v)\<in>set prepared.
      if name = ''_id'' then valid_value 512 v else param external name = v"
    using assms(4) by (auto simp: validatePreparedParameters_def check_unchanged_None
        check_external_None split: if_splits option.splits)
  have le: "map_of external \<subseteq>\<^sub>m map_of prepared"
    unfolding map_le_def
  proof
    fix k
    assume "k \<in> dom (map_of external)"
    then obtain v where v: "map_of external k = Some v" by blast
    then have "param prepared k = v" "v \<noteq> []" using unch map_of_SomeD[OF v] assms(3)
      by (auto simp: ran_def)
    then show "map_of external k = map_of prepared k"
      using v by (auto simp: param_def split: option.splits)
  qed
  then have sub: "dom (map_of external) \<subseteq> dom (map_of prepared)" by (rule map_le_implies_dom_le)
  have "card (dom (map_of prepared) - dom (map_of external)) \<le> 1"
    using card_Diff_subset[OF finite_dom_map_of sub] len length_le_card_keys[OF assms(1)]
      length_le_card_keys[OF assms(2)] by simp
  moreover have "map_of external k = Some v \<or> k = ''_id'' \<and> valid_value 512 v \<or> v = []"
    if kv: "map_of prepared k = Some v" for k v
    using ext map_of_SomeD[OF kv] by (auto simp: param_def split: if_splits option.splits)
  ultimately show ?thesis using le by blast
qed

theorem prepared_parameters_extend_witness:
  "map_of [(''name'', ''web'')] \<subseteq>\<^sub>m map_of [(''name'', ''web''), (''_id'', ''4f'')] \<and>
   card (dom (map_of [(''name'', ''web''), (''_id'', ''4f'')]) - dom (map_of [(''name'', ''web'')])) \<le> 1"
proof -
  have ok: "validatePreparedParameters [(''name'', ''web'')] [(''name'', ''web''), (''_id'', ''4f'')] = None"
    by (simp add: validatePreparedParameters_def param_def valid_value_def contains_any_def
        line_breaks_def)
  have ne: "\<forall>v\<in>ran (map_of [(''name'', ''web'')]). v \<noteq> []" by (auto simp: ran_def)
  show ?thesis using prepared_parameters_extend[OF _ _ ne ok] by simp
qed

text \<open>
  Stream metadata. Accepted stream parameters have exactly the declared names, no ASCII
  control byte in any value, at most 4096 bytes per value and 8192 bytes in all.
\<close>

theorem stream_parameters_bounded:
  assumes "wf_map ps" and "distinct expected" and "validateStreamParameters expected ps = None"
  shows "dom (map_of ps) = set expected \<and>
    (\<forall>k v. map_of ps k = Some v \<longrightarrow> length v \<le> 4096 \<and>
       (\<forall>c\<in>set v. 0x20 \<le> byte c \<and> byte c \<noteq> 0x7F)) \<and>
    sum_list (map (\<lambda>k. length k + length (param ps k)) expected) \<le> 8192"
proof -
  obtain n where len: "length ps = length expected" and n: "check_stream expected ps 0 = Inr n" "n \<le> 8192"
    using assms(3) by (auto simp: validateStreamParameters_def split: if_splits sum.splits)
  have all: "\<forall>name\<in>set expected. \<exists>v. map_of ps name = Some v \<and> length v \<le> 4096 \<and>
      \<not> containsStreamControl v"
    and tot: "sum_list (map (\<lambda>k. length k + length (param ps k)) expected) \<le> 8192"
    using n check_stream_Inr[of expected ps 0 n] by simp_all
  have "set expected \<subseteq> fst ` set ps" using all by (auto dest!: map_of_SomeD simp: rev_image_eqI)
  then have keys: "dom (map_of ps) = set expected"
    using keys_by_length[OF assms(1,2) len] by (simp add: dom_map_of_conv_image_fst)
  have "length v \<le> 4096 \<and> (\<forall>c\<in>set v. 0x20 \<le> byte c \<and> byte c \<noteq> 0x7F)"
    if kv: "map_of ps k = Some v" for k v
  proof -
    have "k \<in> set expected" using keys kv by blast
    then have "length v \<le> 4096" "\<not> containsStreamControl v" using all kv by fastforce+
    then show ?thesis using no_stream_control by blast
  qed
  then show ?thesis using keys tot by blast
qed

theorem stream_parameters_bounded_witness:
  "dom (map_of [(''root'', ''data''), (''path'', ''a'')]) = set [''path'', ''root''] \<and>
   sum_list (map (\<lambda>k. length k + length (param [(''root'', ''data''), (''path'', ''a'')] k))
     [''path'', ''root'']) \<le> 8192"
proof -
  have "validateStreamParameters [''path'', ''root''] [(''root'', ''data''), (''path'', ''a'')] = None"
    by (simp add: validateStreamParameters_def containsStreamControl_def runes_def decode_rune_def)
  from stream_parameters_bounded[OF _ _ this] show ?thesis by simp
qed

end
