(* ===== verification/Resource_Locks.thy ===== *)
theory Resource_Locks
  imports Prelude
begin

text \<open>
  The per-resource locks of the broker (\<open>internal/broker/serialize.go\<close>): a table from resource
  names to reference-counted entries, each with a one-slot channel that holds the token of the
  lock. The atomic sections of \<open>tryLock\<close>, \<open>lock\<close>, \<open>releaseReference\<close> and of the returned
  unlock closures are functions; \<open>lock_step\<close> interleaves them over any number of goroutines.
  Mutual exclusion, absence of leaked entries and absence of lost wake-ups are invariants of the
  reachable states.
\<close>

section \<open>State and atomic sections\<close>

text \<open>
  \<open>ready\<close> says whether the token is in the channel (\<open>chan struct\<^bold>{\<^bold>}\<close> of capacity 1), \<open>refs\<close> is
  the reference count. Entries are heap objects: the table maps a resource to an address, and
  the closures keep the address, as the Go closures keep the pointer.
\<close>

record resource_lock =
  ready :: bool
  refs :: int

record resource_locks =
  locks :: "string \<rightharpoonup> nat"
  entries :: "nat \<Rightarrow> resource_lock"
  next_entry :: nat

definition newResourceLocks :: resource_locks where
  "newResourceLocks =
     \<lparr>locks = Map.empty, entries = (\<lambda>_. \<lparr>ready = False, refs = 0\<rparr>), next_entry = 0\<rparr>"

text \<open>\<open>tryLock\<close>: refuse when the table has an entry, else insert a fresh entry without token.\<close>

definition tryLock :: "resource_locks \<Rightarrow> string \<Rightarrow> resource_locks \<times> nat option" where
  "tryLock l res = (case locks l res of
       Some _ \<Rightarrow> (l, None)
     | None \<Rightarrow> (let a = next_entry l in
         (l\<lparr>locks := (locks l)(res \<mapsto> a),
            entries := (entries l)(a := \<lparr>ready = False, refs = 1\<rparr>),
            next_entry := Suc a\<rparr>, Some a)))"

text \<open>\<open>lock\<close> up to \<open>l.mu.Unlock()\<close>: find or create the entry and take a reference.\<close>

definition lock_enter :: "resource_locks \<Rightarrow> string \<Rightarrow> resource_locks \<times> nat" where
  "lock_enter l res = (case locks l res of
       Some a \<Rightarrow> (l\<lparr>entries := (entries l)(a := (entries l a)\<lparr>refs := refs (entries l a) + 1\<rparr>)\<rparr>, a)
     | None \<Rightarrow> (let a = next_entry l in
         (l\<lparr>locks := (locks l)(res \<mapsto> a),
            entries := (entries l)(a := \<lparr>ready = True, refs = 1\<rparr>),
            next_entry := Suc a\<rparr>, a)))"

text \<open>\<open>case <-entry.ready\<close>: receive the token. \<open>None\<close> means the receive blocks.\<close>

definition lock_receive :: "resource_locks \<Rightarrow> nat \<Rightarrow> resource_locks option" where
  "lock_receive l a = (if ready (entries l a)
     then Some (l\<lparr>entries := (entries l)(a := (entries l a)\<lparr>ready := False\<rparr>)\<rparr>) else None)"

text \<open>\<open>entry.ready <- struct\<^bold>{\<^bold>}\<^bold>{\<^bold>}\<close>: send the token. \<open>None\<close> means the send blocks, the slot being full.\<close>

definition unlock_send :: "resource_locks \<Rightarrow> nat \<Rightarrow> resource_locks option" where
  "unlock_send l a = (if ready (entries l a) then None
     else Some (l\<lparr>entries := (entries l)(a := (entries l a)\<lparr>ready := True\<rparr>)\<rparr>))"

definition releaseReference :: "resource_locks \<Rightarrow> string \<Rightarrow> nat \<Rightarrow> resource_locks" where
  "releaseReference l res a =
     (let n = refs (entries l a) - 1;
          l' = l\<lparr>entries := (entries l)(a := (entries l a)\<lparr>refs := n\<rparr>)\<rparr>
      in if n = 0 then l'\<lparr>locks := (locks l')(res := None)\<rparr> else l')"

section \<open>Goroutines\<close>

text \<open>
  Where a goroutine stands: outside, blocked in the \<open>select\<close> of \<open>lock\<close>, holding the lock, or
  inside the unlock closure between the send and \<open>releaseReference\<close>.
\<close>

datatype pc = Outside | Waiting string nat | Holding string nat | Leaving string nat

record lock_system =
  table :: resource_locks
  pcs :: "nat \<Rightarrow> pc"

definition init_locks :: lock_system where
  "init_locks = \<lparr>table = newResourceLocks, pcs = (\<lambda>_. Outside)\<rparr>"

inductive lock_step :: "lock_system \<Rightarrow> lock_system \<Rightarrow> bool" where
  try_acquired: "pcs s g = Outside \<Longrightarrow> tryLock (table s) res = (l, Some a) \<Longrightarrow>
     lock_step s \<lparr>table = l, pcs = (pcs s)(g := Holding res a)\<rparr>"
| try_refused: "pcs s g = Outside \<Longrightarrow> tryLock (table s) res = (l, None) \<Longrightarrow>
     lock_step s \<lparr>table = l, pcs = pcs s\<rparr>"
| enter: "pcs s g = Outside \<Longrightarrow> lock_enter (table s) res = (l, a) \<Longrightarrow>
     lock_step s \<lparr>table = l, pcs = (pcs s)(g := Waiting res a)\<rparr>"
| receive: "pcs s g = Waiting res a \<Longrightarrow> lock_receive (table s) a = Some l \<Longrightarrow>
     lock_step s \<lparr>table = l, pcs = (pcs s)(g := Holding res a)\<rparr>"
| cancel: "pcs s g = Waiting res a \<Longrightarrow>
     lock_step s \<lparr>table = releaseReference (table s) res a, pcs = (pcs s)(g := Outside)\<rparr>"
| send: "pcs s g = Holding res a \<Longrightarrow> unlock_send (table s) a = Some l \<Longrightarrow>
     lock_step s \<lparr>table = l, pcs = (pcs s)(g := Leaving res a)\<rparr>"
| drop_ref: "pcs s g = Leaving res a \<Longrightarrow>
     lock_step s \<lparr>table = releaseReference (table s) res a, pcs = (pcs s)(g := Outside)\<rparr>"

inductive lock_reachable :: "lock_system \<Rightarrow> bool" where
  init: "lock_reachable init_locks"
| step: "lock_reachable s \<Longrightarrow> lock_step s t \<Longrightarrow> lock_reachable t"

section \<open>The invariant\<close>

text \<open>The resource and the entry a goroutine refers to.\<close>

fun pc_ref :: "pc \<Rightarrow> (string \<times> nat) option" where
  "pc_ref Outside = None"
| "pc_ref (Waiting r a) = Some (r, a)"
| "pc_ref (Holding r a) = Some (r, a)"
| "pc_ref (Leaving r a) = Some (r, a)"

definition users :: "(nat \<Rightarrow> pc) \<Rightarrow> nat \<Rightarrow> nat set" where
  "users p a = {g. \<exists>r. pc_ref (p g) = Some (r, a)}"

definition holders :: "(nat \<Rightarrow> pc) \<Rightarrow> nat \<Rightarrow> nat set" where
  "holders p a = {g. \<exists>r. p g = Holding r a}"

text \<open>
  What every interleaving keeps: references and table agree (an entry in use is the table's
  entry of its resource), the count is the number of users, an entry of the table has a user,
  and the token is in the channel exactly when nobody holds the lock.
\<close>

definition locks_inv :: "lock_system \<Rightarrow> bool" where
  "locks_inv s \<longleftrightarrow>
     (\<forall>g r a. pc_ref (pcs s g) = Some (r, a) \<longrightarrow> locks (table s) r = Some a) \<and>
     (\<forall>r a. locks (table s) r = Some a \<longrightarrow>
        a < next_entry (table s) \<and> finite (users (pcs s) a) \<and> users (pcs s) a \<noteq> {} \<and>
        refs (entries (table s) a) = int (card (users (pcs s) a)) \<and>
        (if ready (entries (table s) a) then holders (pcs s) a = {}
         else \<exists>g. holders (pcs s) a = {g})) \<and>
     (\<forall>r r' a. locks (table s) r = Some a \<longrightarrow> locks (table s) r' = Some a \<longrightarrow> r = r')"

lemma locks_invI:
  assumes "\<And>g r a. pc_ref (pcs s g) = Some (r, a) \<Longrightarrow> locks (table s) r = Some a"
    and "\<And>r a. locks (table s) r = Some a \<Longrightarrow> a < next_entry (table s)"
    and "\<And>r a. locks (table s) r = Some a \<Longrightarrow> finite (users (pcs s) a) \<and> users (pcs s) a \<noteq> {}"
    and "\<And>r a. locks (table s) r = Some a \<Longrightarrow>
           refs (entries (table s) a) = int (card (users (pcs s) a))"
    and "\<And>r a. locks (table s) r = Some a \<Longrightarrow>
           (if ready (entries (table s) a) then holders (pcs s) a = {}
            else \<exists>g. holders (pcs s) a = {g})"
    and "\<And>r r' a. locks (table s) r = Some a \<Longrightarrow> locks (table s) r' = Some a \<Longrightarrow> r = r'"
  shows "locks_inv s"
  using assms unfolding locks_inv_def by blast

lemma locks_invD:
  assumes "locks_inv s"
  shows locks_inv_ref: "pc_ref (pcs s g) = Some (r, a) \<Longrightarrow> locks (table s) r = Some a"
    and locks_inv_fresh: "locks (table s) r = Some a \<Longrightarrow> a < next_entry (table s)"
    and locks_inv_fin: "locks (table s) r = Some a \<Longrightarrow> finite (users (pcs s) a)"
    and locks_inv_used: "locks (table s) r = Some a \<Longrightarrow> users (pcs s) a \<noteq> {}"
    and locks_inv_refs: "locks (table s) r = Some a \<Longrightarrow>
          refs (entries (table s) a) = int (card (users (pcs s) a))"
    and locks_inv_ready: "locks (table s) r = Some a \<Longrightarrow> ready (entries (table s) a) \<Longrightarrow>
          holders (pcs s) a = {}"
    and locks_inv_held: "locks (table s) r = Some a \<Longrightarrow> \<not> ready (entries (table s) a) \<Longrightarrow>
          \<exists>g. holders (pcs s) a = {g}"
    and locks_inv_inj: "locks (table s) r = Some a \<Longrightarrow> locks (table s) r' = Some a \<Longrightarrow> r = r'"
  using assms unfolding locks_inv_def by (auto split: if_splits)

lemma locks_inv_init: "locks_inv init_locks"
  by (rule locks_invI) (simp_all add: init_locks_def newResourceLocks_def)

text \<open>How the user and holder sets change when one goroutine moves.\<close>

lemma users_upd:
  "users (p(g := c)) a =
     (if \<exists>r. pc_ref c = Some (r, a) then insert g (users p a) else users p a - {g})"
  by (auto simp: users_def)

lemma holders_upd:
  "holders (p(g := c)) a =
     (if \<exists>r. c = Holding r a then insert g (holders p a) else holders p a - {g})"
  by (auto simp: holders_def)

lemma Outside_not_user [simp]: "p g = Outside \<Longrightarrow> g \<notin> users p a"
  by (simp add: users_def)

lemma not_Holding_not_holder: "(\<And>r. p g \<noteq> Holding r a) \<Longrightarrow> g \<notin> holders p a"
  by (simp add: holders_def)

lemma holders_users: "holders p a \<subseteq> users p a"
  by (auto simp: holders_def users_def)


lemma fresh_no_users:
  assumes "locks_inv s"
  shows "users (pcs s) (next_entry (table s)) = {}"
  using locks_inv_ref[OF assms] locks_inv_fresh[OF assms] by (force simp: users_def)

lemma fresh_no_holders: "locks_inv s \<Longrightarrow> holders (pcs s) (next_entry (table s)) = {}"
  using fresh_no_users holders_users by blast

section \<open>Every step keeps the invariant\<close>

text \<open>
  Inserting a fresh entry, for \<open>tryLock\<close> (no token, the caller holds) and for \<open>lock\<close> on a new
  resource (token in the slot, the caller waits).
\<close>

lemma locks_inv_insert:
  assumes inv: "locks_inv s" and out: "pcs s g = Outside"
    and free: "locks (table s) res = None" and a: "a = next_entry (table s)"
    and c: "c = (if tok then Waiting res a else Holding res a)"
  shows "locks_inv \<lparr>table = (table s)\<lparr>locks := (locks (table s))(res \<mapsto> a),
            entries := (entries (table s))(a := \<lparr>ready = tok, refs = 1\<rparr>),
            next_entry := Suc a\<rparr>, pcs = (pcs s)(g := c)\<rparr>"
    (is "locks_inv ?t")
proof (rule locks_invI)
  have ref: "pc_ref c = Some (res, a)" using c by simp
  have nou: "users (pcs s) a = {}" and noh: "holders (pcs s) a = {}"
    using fresh_no_users[OF inv] fresh_no_holders[OF inv] a by simp_all
  show "pc_ref (pcs ?t h) = Some (r, b) \<Longrightarrow> locks (table ?t) r = Some b" for h r b
    using locks_inv_ref[OF inv, of h r b] free ref by (auto split: if_splits)
  show "locks (table ?t) r = Some b \<Longrightarrow> b < next_entry (table ?t)" for r b
    using locks_inv_fresh[OF inv, of r b] a by (auto split: if_splits)
  show "locks (table ?t) r = Some b \<Longrightarrow> locks (table ?t) r' = Some b \<Longrightarrow> r = r'" for r r' b
    using locks_inv_fresh[OF inv, of r b] locks_inv_fresh[OF inv, of r' b]
      locks_inv_inj[OF inv, of r b r'] a by (auto split: if_splits)
  show "finite (users (pcs ?t) b) \<and> users (pcs ?t) b \<noteq> {}"
    if "locks (table ?t) r = Some b" for r b
    using that locks_inv_fin[OF inv, of r b] locks_inv_used[OF inv, of r b] ref nou out
    by (auto simp: users_upd split: if_splits)
  show "refs (entries (table ?t) b) = int (card (users (pcs ?t) b))"
    if "locks (table ?t) r = Some b" for r b
    using that locks_inv_refs[OF inv, of r b] locks_inv_fresh[OF inv, of r b] ref nou out a
    by (auto simp: users_upd split: if_splits)
  show "if ready (entries (table ?t) b) then holders (pcs ?t) b = {}
        else \<exists>g. holders (pcs ?t) b = {g}"
    if "locks (table ?t) r = Some b" for r b
    using that locks_inv_ready[OF inv, of r b] locks_inv_held[OF inv, of r b]
      locks_inv_fresh[OF inv, of r b] noh out a c not_Holding_not_holder[of "pcs s" g b]
    by (auto simp: holders_upd split: if_splits)
qed

text \<open>Entering an existing entry adds one user.\<close>

lemma locks_inv_join:
  assumes inv: "locks_inv s" and out: "pcs s g = Outside" and ex: "locks (table s) res = Some a"
  shows "locks_inv \<lparr>table = (table s)\<lparr>entries := (entries (table s))
            (a := (entries (table s) a)\<lparr>refs := refs (entries (table s) a) + 1\<rparr>)\<rparr>,
          pcs = (pcs s)(g := Waiting res a)\<rparr>"
    (is "locks_inv ?t")
proof (rule locks_invI)
  show "pc_ref (pcs ?t h) = Some (r, b) \<Longrightarrow> locks (table ?t) r = Some b" for h r b
    using locks_inv_ref[OF inv, of h r b] ex by (auto split: if_splits)
  show "locks (table ?t) r = Some b \<Longrightarrow> b < next_entry (table ?t)" for r b
    using locks_inv_fresh[OF inv, of r b] by simp
  show "locks (table ?t) r = Some b \<Longrightarrow> locks (table ?t) r' = Some b \<Longrightarrow> r = r'" for r r' b
    using locks_inv_inj[OF inv, of r b r'] by simp
  show "finite (users (pcs ?t) b) \<and> users (pcs ?t) b \<noteq> {}"
    if "locks (table ?t) r = Some b" for r b
    using that locks_inv_fin[OF inv, of r b] locks_inv_used[OF inv, of r b] out
    by (auto simp: users_upd split: if_splits)
  show "refs (entries (table ?t) b) = int (card (users (pcs ?t) b))"
    if "locks (table ?t) r = Some b" for r b
    using that locks_inv_refs[OF inv, of r b] locks_inv_fin[OF inv, of r b] out
    by (auto simp: users_upd split: if_splits)
  show "if ready (entries (table ?t) b) then holders (pcs ?t) b = {}
        else \<exists>g. holders (pcs ?t) b = {g}"
    if "locks (table ?t) r = Some b" for r b
    using that locks_inv_ready[OF inv, of r b] locks_inv_held[OF inv, of r b] out
      not_Holding_not_holder[of "pcs s" g b]
    by (auto simp: holders_upd split: if_splits)
qed

lemma lock_entry_holder:
  assumes inv: "locks_inv s" and hold: "pcs s g = Holding r a"
  shows "holders (pcs s) a = {g}" and "\<not> ready (entries (table s) a)"
proof -
  have tab: "locks (table s) r = Some a" using locks_inv_ref[OF inv, of g r a] hold by simp
  have g: "g \<in> holders (pcs s) a" using hold by (simp add: holders_def)
  then show nr: "\<not> ready (entries (table s) a)" using locks_inv_ready[OF inv tab] by blast
  show "holders (pcs s) a = {g}" using locks_inv_held[OF inv tab nr] g by (metis singletonD)
qed

text \<open>Moving the token: the receive of a waiting goroutine, the send of the holder.\<close>

lemma locks_inv_token:
  assumes inv: "locks_inv s" and ref: "pc_ref (pcs s g) = Some (res, a)"
    and c: "c = (if tok then Leaving res a else Holding res a)"
    and tok: "if tok then pcs s g = Holding res a else ready (entries (table s) a)"
  shows "locks_inv \<lparr>table = (table s)\<lparr>entries := (entries (table s))
            (a := (entries (table s) a)\<lparr>ready := tok\<rparr>)\<rparr>, pcs = (pcs s)(g := c)\<rparr>"
    (is "locks_inv ?t")
proof (rule locks_invI)
  have tab: "locks (table s) res = Some a" using locks_inv_ref[OF inv ref] .
  have cref: "pc_ref c = Some (res, a)" using c by simp
  have us: "users (pcs ?t) b = users (pcs s) b" for b
    using cref ref by (auto simp: users_upd users_def)
  show "pc_ref (pcs ?t h) = Some (r, b) \<Longrightarrow> locks (table ?t) r = Some b" for h r b
    using locks_inv_ref[OF inv, of h r b] tab cref by (auto split: if_splits)
  show "locks (table ?t) r = Some b \<Longrightarrow> b < next_entry (table ?t)" for r b
    using locks_inv_fresh[OF inv, of r b] by simp
  show "locks (table ?t) r = Some b \<Longrightarrow> locks (table ?t) r' = Some b \<Longrightarrow> r = r'" for r r' b
    using locks_inv_inj[OF inv, of r b r'] by simp
  show "finite (users (pcs ?t) b) \<and> users (pcs ?t) b \<noteq> {}"
    if "locks (table ?t) r = Some b" for r b
    using that locks_inv_fin[OF inv, of r b] locks_inv_used[OF inv, of r b] us by simp
  show "refs (entries (table ?t) b) = int (card (users (pcs ?t) b))"
    if "locks (table ?t) r = Some b" for r b
    using that locks_inv_refs[OF inv, of r b] us by auto
  have other: "g \<notin> holders (pcs s) b" if "b \<noteq> a" for b
    using that ref by (auto simp: holders_def)
  have mine: "holders (pcs s) a = {g}" if tok
    using lock_entry_holder(1)[OF inv] that tok by simp
  show "if ready (entries (table ?t) b) then holders (pcs ?t) b = {}
        else \<exists>g. holders (pcs ?t) b = {g}"
    if "locks (table ?t) r = Some b" for r b
    using that locks_inv_ready[OF inv, of r b] locks_inv_held[OF inv, of r b] other[of b] mine
      locks_inv_ready[OF inv tab] tok c
    by (cases "b = a"; cases tok) (auto simp: holders_upd split: if_splits)
qed

text \<open>\<open>releaseReference\<close> by a goroutine that refers to the entry without holding the lock.\<close>

lemma locks_inv_release:
  assumes inv: "locks_inv s" and ref: "pc_ref (pcs s g) = Some (res, a)"
    and nh: "\<And>r. pcs s g \<noteq> Holding r a"
  shows "locks_inv \<lparr>table = releaseReference (table s) res a, pcs = (pcs s)(g := Outside)\<rparr>"
    (is "locks_inv ?t")
proof (rule locks_invI)
  let ?l = "releaseReference (table s) res a"
  have tab: "locks (table s) res = Some a" using locks_inv_ref[OF inv ref] .
  have gu: "g \<in> users (pcs s) a" using ref by (simp add: users_def)
  have us: "users (pcs ?t) b = users (pcs s) b - {g}" for b by (simp add: users_upd)
  have us': "users (pcs ?t) b = users (pcs s) b" if "b \<noteq> a" for b
    using that ref us[of b] by (auto simp: users_def)
  have hs: "holders ((pcs s)(g := Outside)) b = holders (pcs s) b" for b
    using nh ref by (auto simp: holders_upd holders_def)
  have cnt: "refs (entries (table s) a) - 1 = int (card (users (pcs s) a - {g}))"
    using locks_inv_refs[OF inv tab] card_Suc_Diff1[OF locks_inv_fin[OF inv tab] gu] by simp
  have fin: "finite (users (pcs s) a - {g})" using locks_inv_fin[OF inv tab] by simp
  have lk: "locks ?l r = Some b \<longleftrightarrow> locks (table s) r = Some b \<and>
      (b = a \<longrightarrow> users (pcs s) a - {g} \<noteq> {})" for r b
  proof (cases "users (pcs s) a - {g} = {}")
    case True
    then have "card (users (pcs s) a - {g}) = 0" by (simp only: True card.empty)
    then have "locks ?l = (locks (table s))(res := None)"
      using cnt by (simp add: releaseReference_def Let_def)
    moreover have "locks (table s) r = Some a \<longleftrightarrow> r = res"
      using tab locks_inv_inj[OF inv, of r a res] by blast
    ultimately show ?thesis using True by auto
  next
    case False
    then have "card (users (pcs s) a - {g}) \<noteq> 0" using fin by simp
    then have "locks ?l = locks (table s)"
      using cnt by (simp add: releaseReference_def Let_def)
    then show ?thesis using False by simp
  qed
  have nx: "next_entry ?l = next_entry (table s)"
    by (simp add: releaseReference_def Let_def)
  have en: "entries ?l b = (if b = a then (entries (table s) a)
      \<lparr>refs := int (card (users (pcs s) a - {g}))\<rparr> else entries (table s) b)" for b
    using cnt by (simp add: releaseReference_def Let_def)
  show "pc_ref (pcs ?t h) = Some (r, b) \<Longrightarrow> locks (table ?t) r = Some b" for h r b
    using locks_inv_ref[OF inv, of h r b] by (auto simp: lk users_def split: if_splits)
  show "locks (table ?t) r = Some b \<Longrightarrow> b < next_entry (table ?t)" for r b
    using locks_inv_fresh[OF inv, of r b] by (simp add: lk nx)
  show "locks (table ?t) r = Some b \<Longrightarrow> locks (table ?t) r' = Some b \<Longrightarrow> r = r'" for r r' b
    using locks_inv_inj[OF inv, of r b r'] by (simp add: lk)
  show "finite (users (pcs ?t) b) \<and> users (pcs ?t) b \<noteq> {}"
    if "locks (table ?t) r = Some b" for r b
    using that locks_inv_fin[OF inv, of r b] locks_inv_used[OF inv, of r b] us us'
    by (cases "b = a") (auto simp: lk)
  show "refs (entries (table ?t) b) = int (card (users (pcs ?t) b))"
    if "locks (table ?t) r = Some b" for r b
    using that locks_inv_refs[OF inv, of r b] us us' by (cases "b = a") (simp_all add: lk en)
  show "if ready (entries (table ?t) b) then holders (pcs ?t) b = {}
        else \<exists>g. holders (pcs ?t) b = {g}"
    if "locks (table ?t) r = Some b" for r b
    using that locks_inv_ready[OF inv, of r b] locks_inv_held[OF inv, of r b]
    by (auto simp: lk hs en)
qed

lemma lock_step_inv: "lock_step s t \<Longrightarrow> locks_inv s \<Longrightarrow> locks_inv t"
proof (induction rule: lock_step.induct)
  case (try_acquired s g res l a)
  then show ?case using locks_inv_insert[of s g res "next_entry (table s)" "Holding res a" False]
    by (auto simp: tryLock_def Let_def split: option.splits)
next
  case (try_refused s g res l)
  then show ?case by (auto simp: tryLock_def Let_def locks_inv_def split: option.splits)
next
  case (enter s g res l a)
  then show ?case
    using locks_inv_insert[of s g res "next_entry (table s)" "Waiting res a" True]
      locks_inv_join[of s g res a]
    by (auto simp: lock_enter_def Let_def split: option.splits)
next
  case (receive s g res a l)
  then show ?case using locks_inv_token[of s g res a "Holding res a" False]
    by (auto simp: lock_receive_def split: if_splits)
next
  case (send s g res a l)
  then show ?case using locks_inv_token[of s g res a "Leaving res a" True]
    by (auto simp: unlock_send_def split: if_splits)
next
  case (cancel s g res a)
  then show ?case using locks_inv_release[of s g res a] by simp
next
  case (drop_ref s g res a)
  then show ?case using locks_inv_release[of s g res a] by simp
qed

lemma lock_reachable_inv: "lock_reachable s \<Longrightarrow> locks_inv s"
  by (induction rule: lock_reachable.induct) (auto intro: locks_inv_init lock_step_inv)


section \<open>Consequences\<close>

text \<open>
  A locale for the contract a client of the locks relies on: \<open>holds s g r\<close> says goroutine \<open>g\<close>
  runs under the lock of \<open>r\<close>; \<open>busy s r\<close> that the table has an entry for \<open>r\<close>.
\<close>

locale exclusive_lock =
  fixes reach :: "'s \<Rightarrow> bool"
    and holds :: "'s \<Rightarrow> nat \<Rightarrow> string \<Rightarrow> bool"
    and refers :: "'s \<Rightarrow> nat \<Rightarrow> string \<Rightarrow> bool"
    and busy :: "'s \<Rightarrow> string \<Rightarrow> bool"
  assumes exclusive: "reach s \<Longrightarrow> holds s g r \<Longrightarrow> holds s h r \<Longrightarrow> g = h"
    and holds_refers: "holds s g r \<Longrightarrow> refers s g r"
    and busy_iff: "reach s \<Longrightarrow> busy s r \<longleftrightarrow> (\<exists>g. refers s g r)"
begin

lemma holder_makes_busy: "reach s \<Longrightarrow> holds s g r \<Longrightarrow> busy s r"
  using busy_iff holds_refers by blast

lemma two_holders_differ: "reach s \<Longrightarrow> holds s g r \<Longrightarrow> holds s h r' \<Longrightarrow> g \<noteq> h \<Longrightarrow> r \<noteq> r'"
  using exclusive by blast

lemma idle_table_empty: "reach s \<Longrightarrow> (\<And>g. \<not> refers s g r) \<Longrightarrow> \<not> busy s r"
  using busy_iff by blast

end

definition holds_lock :: "lock_system \<Rightarrow> nat \<Rightarrow> string \<Rightarrow> bool" where
  "holds_lock s g r \<longleftrightarrow> (\<exists>a. pcs s g = Holding r a)"

definition refers_lock :: "lock_system \<Rightarrow> nat \<Rightarrow> string \<Rightarrow> bool" where
  "refers_lock s g r \<longleftrightarrow> (\<exists>a. pc_ref (pcs s g) = Some (r, a))"

definition lock_busy :: "lock_system \<Rightarrow> string \<Rightarrow> bool" where
  "lock_busy s r \<longleftrightarrow> locks (table s) r \<noteq> None"

lemma lock_busy_iff:
  assumes "locks_inv s"
  shows "lock_busy s r \<longleftrightarrow> (\<exists>g. refers_lock s g r)"
proof
  assume "lock_busy s r"
  then obtain a where a: "locks (table s) r = Some a" by (auto simp: lock_busy_def)
  then obtain g r' where g: "pc_ref (pcs s g) = Some (r', a)"
    using locks_inv_used[OF assms] by (force simp: users_def)
  then have "r' = r" using locks_inv_ref[OF assms g] locks_inv_inj[OF assms a] by simp
  with g show "\<exists>g. refers_lock s g r" by (auto simp: refers_lock_def)
qed (auto simp: lock_busy_def refers_lock_def dest: locks_inv_ref[OF assms])

interpretation rlock: exclusive_lock lock_reachable holds_lock refers_lock lock_busy
proof unfold_locales
  show "g = h" if s: "lock_reachable s" and "holds_lock s g r" "holds_lock s h r" for s g h r
  proof -
    have inv: "locks_inv s" using lock_reachable_inv s .
    obtain a b where gh: "pcs s g = Holding r a" "pcs s h = Holding r b"
      using \<open>holds_lock s g r\<close> \<open>holds_lock s h r\<close> by (auto simp: holds_lock_def)
    then have "a = b"
      using locks_inv_ref[OF inv, of g r a] locks_inv_ref[OF inv, of h r b] by simp
    then show ?thesis using gh lock_entry_holder(1)[OF inv] by (metis the_elem_eq)
  qed
  show "lock_busy s r \<longleftrightarrow> (\<exists>g. refers_lock s g r)" if "lock_reachable s" for s r
    using lock_busy_iff lock_reachable_inv that by blast
qed (auto simp: holds_lock_def refers_lock_def)


section \<open>Properties\<close>

definition lock_taken_once :: lock_system where
  "lock_taken_once = \<lparr>table = fst (tryLock newResourceLocks ''r''),
     pcs = (\<lambda>_. Outside)(7 := Holding ''r'' 0)\<rparr>"

definition lock_contended :: lock_system where
  "lock_contended = \<lparr>table = fst (lock_enter (fst (tryLock newResourceLocks ''r'')) ''r''),
     pcs = (\<lambda>_. Outside)(7 := Holding ''r'' 0, 8 := Waiting ''r'' 0)\<rparr>"

lemma lock_taken_once_reachable: "lock_reachable lock_taken_once"
proof -
  have "lock_step init_locks lock_taken_once"
    using try_acquired[of init_locks 7 "''r''" "fst (tryLock newResourceLocks ''r'')" 0]
    by (simp add: init_locks_def lock_taken_once_def tryLock_def newResourceLocks_def Let_def)
  then show ?thesis using lock_reachable.step[OF lock_reachable.init] by blast
qed

lemma lock_contended_reachable: "lock_reachable lock_contended"
proof -
  have "lock_step lock_taken_once lock_contended"
    using enter[of lock_taken_once 8 "''r''" "table lock_contended" 0]
    by (simp add: lock_contended_def lock_taken_once_def lock_enter_def tryLock_def
        newResourceLocks_def Let_def)
  then show ?thesis using lock_reachable.step[OF lock_taken_once_reachable] by blast
qed

text \<open>
  C4. Mutual exclusion: in every reachable interleaving of \<open>tryLock\<close>, \<open>lock\<close>, cancellation and
  unlock, at most one goroutine holds the lock of a resource.
\<close>

theorem lock_mutual_exclusion:
  assumes "lock_reachable s" and "holds_lock s g r" and "holds_lock s h r"
  shows "g = h"
  using assms by (rule rlock.exclusive)

theorem lock_mutual_exclusion_witness:
  "lock_reachable lock_contended \<and> holds_lock lock_contended 7 ''r'' \<and>
   (\<forall>h. holds_lock lock_contended h ''r'' \<longleftrightarrow> h = 7)"
proof -
  have h: "holds_lock lock_contended 7 ''r''"
    by (simp add: holds_lock_def lock_contended_def)
  then show ?thesis
    using lock_mutual_exclusion[OF lock_contended_reachable _ h] lock_contended_reachable by blast
qed

text \<open>
  C19. No goroutine is stuck in the lock code and no entry leaks: the send of an unlock never
  blocks, a waiting goroutine can receive the token or another goroutine holds the lock, and the
  table has an entry for a resource exactly while some goroutine refers to it.
\<close>

theorem lock_progress:
  assumes "lock_reachable s"
  shows "(\<forall>g r a. pcs s g = Holding r a \<longrightarrow> (\<exists>l. unlock_send (table s) a = Some l)) \<and>
    (\<forall>g r a. pcs s g = Waiting r a \<longrightarrow>
       (\<exists>l. lock_receive (table s) a = Some l) \<or> (\<exists>h. h \<noteq> g \<and> holds_lock s h r)) \<and>
    (\<forall>r. locks (table s) r \<noteq> None \<longleftrightarrow> (\<exists>g a. pc_ref (pcs s g) = Some (r, a)))"
proof (intro conjI allI impI)
  have inv: "locks_inv s" using assms by (rule lock_reachable_inv)
  show "\<exists>l. unlock_send (table s) a = Some l" if "pcs s g = Holding r a" for g r a
    using lock_entry_holder(2)[OF inv that] by (simp add: unlock_send_def)
  show "(\<exists>l. lock_receive (table s) a = Some l) \<or> (\<exists>h. h \<noteq> g \<and> holds_lock s h r)"
    if w: "pcs s g = Waiting r a" for g r a
  proof (cases "ready (entries (table s) a)")
    case False
    have tab: "locks (table s) r = Some a" using locks_inv_ref[OF inv, of g r a] w by simp
    obtain h r' where h: "pcs s h = Holding r' a"
      using locks_inv_held[OF inv tab False] by (force simp: holders_def)
    then have "r' = r" using locks_inv_ref[OF inv, of h r' a] locks_inv_inj[OF inv tab] by simp
    with h w show ?thesis by (metis holds_lock_def pc.distinct(7))
  qed (simp add: lock_receive_def)
  show "locks (table s) r \<noteq> None \<longleftrightarrow> (\<exists>g a. pc_ref (pcs s g) = Some (r, a))" for r
    using rlock.busy_iff[OF assms, of r] by (simp add: lock_busy_def refers_lock_def)
qed

theorem lock_progress_witness:
  "lock_reachable lock_contended \<and> (\<exists>h. h \<noteq> 8 \<and> holds_lock lock_contended h ''r'')"
proof -
  have w: "pcs lock_contended 8 = Waiting ''r'' 0" by (simp add: lock_contended_def)
  have "lock_receive (table lock_contended) 0 = None"
    by (simp add: lock_contended_def lock_receive_def lock_enter_def tryLock_def
        newResourceLocks_def Let_def)
  then show ?thesis
    using lock_progress[OF lock_contended_reachable] w lock_contended_reachable by fastforce
qed

end
