(* ===== verification/Execution.thy ===== *)
theory Execution
  imports Registry Resource_Locks
begin

text \<open>
  \<open>ActionRegistry.Execute\<close> and \<open>runBackground\<close> (\<open>internal/broker/actions.go\<close>) and the query and
  stream \<open>Execute\<close> methods (\<open>streams.go\<close>), as one goroutine runs them: the lock table is the one
  of \<open>Resource_Locks\<close>, the stores, the recorder and the handlers act on a world \<open>'w\<close>. Every call
  that matters to the protocol is logged as an event, a handler's event with the world it found.

  While \<open>lock\<close> waits, other goroutines run: \<open>others\<close> is what they do to the table and the world
  and whether the context ends first. A \<open>go\<close> statement puts a task on \<open>ex_tasks\<close>;
  \<open>runBackground\<close> runs one. \<open>ex_locks\<close> is the table of the registry at work: the action registry's own, while the registry of
  stream actions keeps another, \<open>ex_stream_locks\<close>. An outcome is a return, a panic (call of a nil function) or a block.
\<close>

section \<open>State\<close>

datatype 'w event =
    Locked string nat
  | Began audit_attempt "64 word"
  | Handled string params ctx 'w
  | Completed "64 word" string string ctx
  | Enqueued job_attempt "64 word"
  | JobStarted "64 word"
  | JobCompleted "64 word" string string bool
  | Unlocked string
  | Problem string error

record 'w task =
  tk_definition :: "'w action_definition"
  tk_identity :: identity
  tk_params :: params
  tk_record :: audit_record
  tk_job :: job
  tk_resource :: string
  tk_entry :: nat

record 'w exec_state =
  ex_locks :: resource_locks
  ex_world :: 'w
  ex_trace :: "'w event list"
  ex_wg :: nat
  ex_tasks :: "'w task list"
  ex_stopped :: bool
  ex_stream_locks :: resource_locks

datatype 'a outcome = Returns 'a | Panics | Blocks

type_synonym 'w interference = "resource_locks \<Rightarrow> 'w \<Rightarrow> (resource_locks \<times> 'w) \<times> error option"

definition emit :: "'w event \<Rightarrow> 'w exec_state \<Rightarrow> 'w exec_state" where
  "emit ev st = st\<lparr>ex_trace := ex_trace st @ [ev]\<rparr>"

definition recordProblem :: "'w problem_recorder option \<Rightarrow> string \<Rightarrow> error option \<Rightarrow>
    'w exec_state \<Rightarrow> 'w exec_state" where
  "recordProblem rec code err st = (case (rec, err) of
     (Some f, Some e) \<Rightarrow> if errors_is e Canceled then st
       else emit (Problem code e) (st\<lparr>ex_world := f code e (ex_world st)\<rparr>)
   | _ \<Rightarrow> st)"

text \<open>The unlock closure: send the token, drop the reference. \<open>None\<close> means the send blocks.\<close>

definition unlock :: "string \<Rightarrow> nat \<Rightarrow> 'w exec_state \<Rightarrow> 'w exec_state option" where
  "unlock res a st = (case unlock_send (ex_locks st) a of
     None \<Rightarrow> None
   | Some l \<Rightarrow> Some (emit (Unlocked res) (st\<lparr>ex_locks := releaseReference l res a\<rparr>)))"

definition after_unlock :: "string \<Rightarrow> nat \<Rightarrow> 'w exec_state \<Rightarrow> 'a \<Rightarrow> 'w exec_state \<times> 'a outcome" where
  "after_unlock res a st r = (case unlock res a st of None \<Rightarrow> (st, Blocks) | Some st' \<Rightarrow> (st', Returns r))"

definition try_acquire :: "string \<Rightarrow> 'w exec_state \<Rightarrow> 'w exec_state \<times> nat option" where
  "try_acquire res st = (case tryLock (ex_locks st) res of
     (l, None) \<Rightarrow> (st\<lparr>ex_locks := l\<rparr>, None)
   | (l, Some a) \<Rightarrow> (emit (Locked res a) (st\<lparr>ex_locks := l\<rparr>), Some a))"

definition acquire :: "'w interference \<Rightarrow> string \<Rightarrow> 'w exec_state \<Rightarrow> 'w exec_state \<times> nat result outcome" where
  "acquire others res st = (case lock_enter (ex_locks st) res of (l, a) \<Rightarrow>
     (case others l (ex_world st) of
        ((l', w), Some e) \<Rightarrow> (st\<lparr>ex_locks := releaseReference l' res a, ex_world := w\<rparr>, Returns (Inl e))
      | ((l', w), None) \<Rightarrow> (case lock_receive l' a of
          None \<Rightarrow> (st\<lparr>ex_locks := l', ex_world := w\<rparr>, Blocks)
        | Some l'' \<Rightarrow> (emit (Locked res a) (st\<lparr>ex_locks := l'', ex_world := w\<rparr>), Returns (Inr a)))))"

definition zero_record :: audit_record where
  "zero_record = \<lparr>rec_ID = 0, rec_Action = [], rec_Resource = [], rec_Username = [], rec_UID = 0,
     rec_StartedAt = zero_time, rec_FinishedAt = None, rec_Outcome = [], rec_ErrorCategory = [],
     rec_DurationMS = 0\<rparr>"

definition begin_audit :: "'w audit_iface option \<Rightarrow> ctx \<Rightarrow> audit_attempt \<Rightarrow> 'w exec_state \<Rightarrow>
    'w exec_state \<times> audit_record result" where
  "begin_audit audit ctx att st = (case audit of
     None \<Rightarrow> (st, Inr zero_record)
   | Some A \<Rightarrow> (case ai_Begin A ctx att (ex_world st) of
       (w, Inl e) \<Rightarrow> (st\<lparr>ex_world := w\<rparr>, Inl e)
     | (w, Inr rc) \<Rightarrow> (emit (Began att (rec_ID rc)) (st\<lparr>ex_world := w\<rparr>), Inr rc)))"

definition complete_audit :: "'w audit_iface \<Rightarrow> ctx \<Rightarrow> 64 word \<Rightarrow> string \<Rightarrow> string \<Rightarrow> 'w exec_state \<Rightarrow>
    'w exec_state \<times> error option" where
  "complete_audit A ctx i oc cat st = (case ai_Complete A ctx i oc cat (ex_world st) of
     (w, err) \<Rightarrow> (emit (Completed i oc cat ctx) (st\<lparr>ex_world := w\<rparr>), err))"

definition run_handler :: "'w action_handler option \<Rightarrow> string \<Rightarrow> ctx \<Rightarrow> identity \<Rightarrow> params \<Rightarrow>
    'w exec_state \<Rightarrow> 'w exec_state \<times> error option outcome" where
  "run_handler handler i ctx ident ps st = (case handler of
     None \<Rightarrow> (st, Panics)
   | Some h \<Rightarrow> (case h ctx ident ps (ex_world st) of
       (w, err) \<Rightarrow> (emit (Handled i ps ctx (ex_world st)) (st\<lparr>ex_world := w\<rparr>), Returns err)))"

definition detached :: "ctx \<Rightarrow> ctx" where
  "detached ctx = WithTimeout (WithoutCancel ctx) (3 * second)"

definition outcome_of :: "error option \<Rightarrow> string" where
  "outcome_of err = (case err of None \<Rightarrow> OutcomeSucceeded | Some _ \<Rightarrow> OutcomeFailed)"

definition category_of :: "error option \<Rightarrow> string" where
  "category_of err = (case err of None \<Rightarrow> [] | Some e \<Rightarrow> errorCategory e)"

section \<open>Admission\<close>

text \<open>
  The checks of \<open>Execute\<close> before it takes a lock: registration, authorization, parameters,
  \<open>Prepare\<close>, resource, confirmation, lock resource. \<open>Panics\<close> is a nil resource resolver.
\<close>

definition valid_resource :: "string \<Rightarrow> bool" where
  "valid_resource res \<longleftrightarrow> \<not> (res = [] \<or> 1024 < length res \<or> contains_any res line_breaks)"

definition prepare_params :: "'w action_definition \<Rightarrow> identity \<Rightarrow> params \<Rightarrow> 'w \<Rightarrow> 'w \<times> params result" where
  "prepare_params d ident ps w = (case ad_Prepare d of
     None \<Rightarrow> (w, Inr ps)
   | Some prepare \<Rightarrow> (case prepare RequestCtx ident (cloneParameters ps) w of
       (w', Inl e) \<Rightarrow> (w', Inl (Wrapf ''prepare action: %w'' [] e))
     | (w', Inr prepared) \<Rightarrow> (case validatePreparedParameters ps prepared of
         Some e \<Rightarrow> (w', Inl (Wrapf ''prepared action parameters: %w'' [] e))
       | None \<Rightarrow> (w', Inr (cloneParameters prepared)))))"

definition lock_resource :: "'w action_definition \<Rightarrow> params \<Rightarrow> string \<Rightarrow> string result" where
  "lock_resource d ps resource = (case ad_LockResource d of
     None \<Rightarrow> Inr resource
   | Some f \<Rightarrow> (case f ps of
       Inl e \<Rightarrow> Inl (Errorf ''action lock resource is invalid'' [])
     | Inr lr \<Rightarrow> if \<not> valid_resource lr then Inl (Errorf ''action lock resource is invalid'' [])
         else Inr lr))"

definition admit :: "'w action_registry \<Rightarrow> identity \<Rightarrow> string \<Rightarrow> params \<Rightarrow> string \<Rightarrow> 'w \<Rightarrow>
    'w \<times> ('w action_definition \<times> params \<times> string \<times> string) result outcome" where
  "admit r ident i ps confirmation w = (case map_of (ar_actions r) i of
     None \<Rightarrow> (w, Returns (Inl (Errorf ''unknown action %q'' [i])))
   | Some d \<Rightarrow>
     if ad_Admin d \<and> \<not> Admin ident
     then (w, Returns (Inl (Errorf ''%s is not authorized for %s'' [Username ident, i])))
     else (case validateParameters (ad_Parameters d) ps of
       Some e \<Rightarrow> (w, Returns (Inl (Wrapf ''action parameters: %w'' [] e)))
     | None \<Rightarrow> (case prepare_params d ident ps w of
         (w', Inl e) \<Rightarrow> (w', Returns (Inl e))
       | (w', Inr ps') \<Rightarrow> (case ad_Resource d of
           None \<Rightarrow> (w', Panics)
         | Some resolve \<Rightarrow> (case resolve ps' of
             Inl e \<Rightarrow> (w', Returns (Inl (Wrapf ''action resource: %w'' [] e)))
           | Inr resource \<Rightarrow>
               if \<not> valid_resource resource
               then (w', Returns (Inl (Errorf ''action resource is invalid'' [])))
               else if ad_ConfirmationRequired d \<and> confirmation \<noteq> resource
               then (w', Returns (Inl ErrConfirmationRequired))
               else (case lock_resource d ps' resource of
                   Inl e \<Rightarrow> (w', Returns (Inl e))
                 | Inr lr \<Rightarrow> (w', Returns (Inr (d, ps', resource, lr)))))))))"

section \<open>Execution\<close>

definition execute_foreground :: "'w action_registry \<Rightarrow> identity \<Rightarrow> string \<Rightarrow> 'w action_definition \<Rightarrow>
    params \<Rightarrow> string \<Rightarrow> nat \<Rightarrow> audit_record \<Rightarrow> 'w exec_state \<Rightarrow> 'w exec_state \<times> error option outcome" where
  "execute_foreground r ident i d ps lr a rc st =
     (case run_handler (ad_Handler d) i RequestCtx ident ps st of
        (st1, Returns actionErr) \<Rightarrow> (case ar_audit r of
          None \<Rightarrow> after_unlock lr a st1 actionErr
        | Some A \<Rightarrow> (case complete_audit A (detached RequestCtx) (rec_ID rc) (outcome_of actionErr)
              (category_of actionErr) st1 of
            (st2, None) \<Rightarrow> after_unlock lr a st2 actionErr
          | (st2, Some e) \<Rightarrow>
              after_unlock lr a (recordProblem (ar_problems r) ProblemAuditWriteFailed (Some e) st2)
                (Some (Wrapf ''action result is uncertain: record completion: %w'' [] e))))
      | (st1, x) \<Rightarrow> (st1, x))"

definition execute_background :: "'w action_registry \<Rightarrow> identity \<Rightarrow> string \<Rightarrow> 'w action_definition \<Rightarrow>
    params \<Rightarrow> string \<Rightarrow> string \<Rightarrow> nat \<Rightarrow> audit_record \<Rightarrow> 'w exec_state \<Rightarrow>
    'w exec_state \<times> error option outcome" where
  "execute_background r ident i d ps resource lr a rc st = (case (ar_jobs r, ar_audit r) of
     (Some jobs, Some A) \<Rightarrow>
       (let att = \<lparr>ja_Action = i, ja_AuditID = rec_ID rc, ja_Resource = resource,
                   ja_Username = Username ident, ja_UID = UID ident\<rparr> in
        case ji_Enqueue jobs RequestCtx att (ex_world st) of
          (w, Inl e) \<Rightarrow>
            (let st1 = recordProblem (ar_problems r) ProblemJobsWriteFailed (Some e) (st\<lparr>ex_world := w\<rparr>) in
             case unlock lr a st1 of
               None \<Rightarrow> (st1, Blocks)
             | Some st2 \<Rightarrow> (case complete_audit A (detached RequestCtx) (rec_ID rc) OutcomeFailed
                   ''enqueue_failed'' st2 of
                 (st3, err) \<Rightarrow> (recordProblem (ar_problems r) ProblemAuditWriteFailed err st3,
                   Returns (Some (Wrapf ''queue background action: %w'' [] e)))))
        | (w, Inr job) \<Rightarrow>
            (let st1 = emit (Enqueued att (job_ID job)) (st\<lparr>ex_world := w\<rparr>) in
             (st1\<lparr>ex_wg := Suc (ex_wg st1),
                  ex_tasks := ex_tasks st1 @ [\<lparr>tk_definition = d, tk_identity = ident,
                    tk_params = cloneParameters ps, tk_record = rc, tk_job = job,
                    tk_resource = lr, tk_entry = a\<rparr>]\<rparr>, Returns None)))
   | _ \<Rightarrow> after_unlock lr a st (Some (Errorf ''background action storage is unavailable'' [])))"

definition execute_locked :: "'w action_registry \<Rightarrow> identity \<Rightarrow> string \<Rightarrow> 'w action_definition \<Rightarrow>
    params \<Rightarrow> string \<Rightarrow> string \<Rightarrow> nat \<Rightarrow> 'w exec_state \<Rightarrow> 'w exec_state \<times> error option outcome" where
  "execute_locked r ident i d ps resource lr a st =
     (case begin_audit (ar_audit r) RequestCtx \<lparr>aa_Action = i, aa_Resource = resource,
         aa_Username = Username ident, aa_UID = UID ident\<rparr> st of
        (st1, Inl e) \<Rightarrow> after_unlock lr a
          (recordProblem (ar_problems r) ProblemAuditWriteFailed (Some e) st1)
          (Some (Wrapf ''record action intent: %w'' [] e))
      | (st1, Inr rc) \<Rightarrow> if ad_Background d
          then execute_background r ident i d ps resource lr a rc st1
          else execute_foreground r ident i d ps lr a rc st1)"

definition action_Execute :: "'w action_registry \<Rightarrow> 'w interference \<Rightarrow> identity \<Rightarrow> string \<Rightarrow> params \<Rightarrow>
    string \<Rightarrow> 'w exec_state \<Rightarrow> 'w exec_state \<times> error option outcome" where
  "action_Execute r others ident i ps confirmation st =
     (case admit r ident i ps confirmation (ex_world st) of
        (w, Returns (Inr (d, ps', resource, lr))) \<Rightarrow>
          (let st0 = st\<lparr>ex_world := w\<rparr> in
           if ad_Background d \<or> ad_NonBlocking d
           then (case try_acquire lr st0 of
               (st1, None) \<Rightarrow> (st1, Returns (Some (Errorf ''resource already has a maintenance job'' [])))
             | (st1, Some a) \<Rightarrow> execute_locked r ident i d ps' resource lr a st1)
           else (case acquire others lr st0 of
               (st1, Returns (Inl e)) \<Rightarrow> (st1, Returns (Some (Wrapf ''wait for resource action: %w'' [] e)))
             | (st1, Returns (Inr a)) \<Rightarrow> execute_locked r ident i d ps' resource lr a st1
             | (st1, _) \<Rightarrow> (st1, Blocks)))
      | (w, Returns (Inl e)) \<Rightarrow> (st\<lparr>ex_world := w\<rparr>, Returns (Some e))
      | (w, _) \<Rightarrow> (st\<lparr>ex_world := w\<rparr>, Panics))"

section \<open>Background tasks\<close>

definition job_timeout :: "int \<Rightarrow> int" where
  "job_timeout t = (if t \<le> 0 then 20 * minute else t)"

text \<open>The deferred calls of \<open>runBackground\<close>: unlock, then \<open>wg.Done\<close>.\<close>

definition task_exit :: "'w task \<Rightarrow> 'w exec_state \<Rightarrow> 'w exec_state \<times> unit outcome" where
  "task_exit t st = (case unlock (tk_resource t) (tk_entry t) st of
     None \<Rightarrow> (st, Blocks)
   | Some st' \<Rightarrow> (st'\<lparr>ex_wg := ex_wg st' - 1\<rparr>, Returns ()))"

definition runBackground :: "'w action_registry \<Rightarrow> 'w job_iface \<Rightarrow> 'w audit_iface \<Rightarrow> 'w task \<Rightarrow>
    'w exec_state \<Rightarrow> 'w exec_state \<times> unit outcome" where
  "runBackground r jobs A t st =
     (let d = tk_definition t; ctx = WithTimeout JobCtx (job_timeout (ad_Timeout d));
          done_ctx = WithTimeout BackgroundCtx (3 * second);
          rid = rec_ID (tk_record t); jid = job_ID (tk_job t) in
      case ji_Start jobs ctx jid (ex_world st) of
        (w, Some e) \<Rightarrow>
          (let st1 = recordProblem (ar_problems r) ProblemJobsWriteFailed (Some e) (st\<lparr>ex_world := w\<rparr>) in
           case complete_audit A done_ctx rid OutcomeUnknown ''job_start_failed'' st1 of
             (st2, err) \<Rightarrow> task_exit t (recordProblem (ar_problems r) ProblemAuditWriteFailed err st2))
      | (w, None) \<Rightarrow>
          (case run_handler (ad_Handler d) (ad_ID d) ctx (tk_identity t) (tk_params t)
              (emit (JobStarted jid) (st\<lparr>ex_world := w\<rparr>)) of
             (st1, Returns actionErr) \<Rightarrow>
               (let status = (case actionErr of None \<Rightarrow> StatusSucceeded | Some _ \<Rightarrow> StatusFailed);
                    reboot = (actionErr = None \<and> ad_RebootRequired d) in
                case ji_Complete jobs done_ctx jid status (category_of actionErr) reboot (ex_world st1) of
                  (w', jerr) \<Rightarrow>
                    (let st2 = recordProblem (ar_problems r) ProblemJobsWriteFailed jerr
                           (emit (JobCompleted jid status (category_of actionErr) reboot)
                             (st1\<lparr>ex_world := w'\<rparr>));
                         oc = (if jerr \<noteq> None then OutcomeUnknown else outcome_of actionErr);
                         cat = (if jerr \<noteq> None then ''job_completion_failed'' else category_of actionErr) in
                     case complete_audit A done_ctx rid oc cat st2 of
                       (st3, err) \<Rightarrow>
                         task_exit t (recordProblem (ar_problems r) ProblemAuditWriteFailed err st3)))
           | (st1, _) \<Rightarrow> (st1, Panics)))"

text \<open>\<open>Wait\<close> returns nil once the wait group is at zero, the context's error if that ends first.\<close>

definition Wait :: "'w exec_state \<Rightarrow> error option \<Rightarrow> error option outcome" where
  "Wait st ended = (case ended of
     Some e \<Rightarrow> Returns (Some e) | None \<Rightarrow> if ex_wg st = 0 then Returns None else Blocks)"

definition Shutdown :: "'w exec_state \<Rightarrow> error option \<Rightarrow> 'w exec_state \<times> error option outcome" where
  "Shutdown st ended = (let st' = st\<lparr>ex_stopped := True\<rparr> in (st', Wait st' ended))"

section \<open>What the steps do\<close>

fun is_problem :: "'w event \<Rightarrow> bool" where
  "is_problem (Problem c e) = True"
| "is_problem _ = False"

definition core :: "'w event list \<Rightarrow> 'w event list" where
  "core evs = filter (\<lambda>e. \<not> is_problem e) evs"

lemma core_simps [simp]: "core [] = []" "core (x @ y) = core x @ core y"
  "core (e # x) = (if is_problem e then core x else e # core x)"
  by (simp_all add: core_def)

text \<open>
  A step that logs the core events \<open>evs\<close> and leaves the lock table, the wait group and the tasks
  alone.
\<close>

definition logs :: "'w exec_state \<Rightarrow> 'w event list \<Rightarrow> 'w exec_state \<Rightarrow> bool" where
  "logs st evs st' \<longleftrightarrow> (\<exists>new. ex_trace st' = ex_trace st @ new \<and> core new = evs) \<and>
     ex_tasks st' = ex_tasks st \<and> ex_wg st' = ex_wg st \<and> ex_stopped st' = ex_stopped st"

lemma logs_refl [simp]: "logs st [] st"
  by (simp add: logs_def)

lemma logs_trans [trans]: "logs st x st1 \<Longrightarrow> logs st1 y st2 \<Longrightarrow> logs st (x @ y) st2"
  by (auto simp: logs_def)

lemma logs_world [simp]: "logs st [] (st\<lparr>ex_world := w\<rparr>)"
  by (simp add: logs_def)

lemma logs_locks [simp]: "logs st [] (st\<lparr>ex_locks := l\<rparr>)"
  by (simp add: logs_def)

lemma logs_emit [simp]: "\<not> is_problem e \<Longrightarrow> logs st [e] (emit e st)"
  by (simp add: logs_def emit_def)

lemma logs_emit_world: "\<not> is_problem e \<Longrightarrow> logs st [e] (emit e (st\<lparr>ex_world := w\<rparr>))"
  by (simp add: logs_def emit_def)

lemma logs_recordProblem [simp]: "logs st [] (recordProblem p c e st)"
  by (simp add: logs_def recordProblem_def emit_def split: option.splits)

lemma ex_locks_emit [simp]: "ex_locks (emit e st) = ex_locks st"
  by (simp add: emit_def)

lemma ex_locks_recordProblem [simp]: "ex_locks (recordProblem p c e st) = ex_locks st"
  by (simp add: recordProblem_def split: option.splits)

definition owned :: "'w exec_state \<Rightarrow> nat \<Rightarrow> bool" where
  "owned st a \<longleftrightarrow> \<not> ready (entries (ex_locks st) a)"

lemma unlock_owned:
  assumes "owned st a"
  shows "\<exists>st'. unlock res a st = Some st' \<and> logs st [Unlocked res] st' \<and>
    ex_locks st' = releaseReference
      ((ex_locks st)\<lparr>entries := (entries (ex_locks st))(a := (entries (ex_locks st) a)\<lparr>ready := True\<rparr>)\<rparr>) res a"
  using assms by (auto simp: unlock_def owned_def unlock_send_def logs_def emit_def)

definition freed :: "resource_locks \<Rightarrow> string \<Rightarrow> nat \<Rightarrow> resource_locks" where
  "freed l res a = releaseReference
     (l\<lparr>entries := (entries l)(a := (entries l a)\<lparr>ready := True\<rparr>)\<rparr>) res a"

lemma after_unlock_owned:
  assumes "owned st a"
  obtains st' where "after_unlock res a st r = (st', Returns r)" and "logs st [Unlocked res] st'"
    and "ex_locks st' = freed (ex_locks st) res a"
  using unlock_owned[OF assms, of res] by (auto simp: after_unlock_def freed_def)

lemma complete_audit_logs:
  "complete_audit A ctx i oc cat st = (st', err) \<Longrightarrow>
     logs st [Completed i oc cat ctx] st' \<and> ex_locks st' = ex_locks st"
  by (auto simp: complete_audit_def logs_emit_world split: prod.splits)

lemma begin_audit_logs:
  assumes "begin_audit A ctx att st = (st', res)"
  shows "ex_locks st' = ex_locks st \<and> (case res of
     Inl e \<Rightarrow> A \<noteq> None \<and> logs st [] st'
   | Inr rc \<Rightarrow> logs st (if A = None then [] else [Began att (rec_ID rc)]) st')"
  using assms by (auto simp: begin_audit_def logs_emit_world split: option.splits prod.splits sum.splits)

lemma run_handler_logs:
  assumes "h \<noteq> None" and "run_handler h i ctx ident ps st = (st', out)"
  shows "\<exists>err. out = Returns err \<and> logs st [Handled i ps ctx (ex_world st)] st' \<and>
    ex_locks st' = ex_locks st"
  using assms by (auto simp: run_handler_def logs_emit_world split: prod.splits)

lemma try_acquire_ok:
  assumes "try_acquire res st = (st', Some a)"
  shows "logs st [Locked res a] st'" and "owned st' a" and "locks (ex_locks st) res = None"
    and "ex_locks st' = (ex_locks st)\<lparr>locks := (locks (ex_locks st))(res \<mapsto> a),
      entries := (entries (ex_locks st))(a := \<lparr>ready = False, refs = 1\<rparr>), next_entry := Suc a\<rparr>"
  using assms by (auto simp: try_acquire_def tryLock_def owned_def Let_def logs_def emit_def
      split: prod.splits option.splits)

lemma try_acquire_refused:
  "try_acquire res st = (st', None) \<Longrightarrow> st' = st"
  by (auto simp: try_acquire_def tryLock_def Let_def split: prod.splits option.splits)

lemma acquire_ok:
  assumes "acquire others res st = (st', Returns (Inr a))"
  shows "logs st [Locked res a] st'" and "owned st' a"
    and "\<exists>l1 l2 w. lock_enter (ex_locks st) res = (l1, a) \<and> others l1 (ex_world st) = ((l2, w), None) \<and> ready (entries l2 a) \<and>
      ex_locks st' = l2\<lparr>entries := (entries l2)(a := (entries l2 a)\<lparr>ready := False\<rparr>)\<rparr>"
  using assms by (auto simp: acquire_def lock_receive_def owned_def logs_def emit_def
      split: prod.splits option.splits if_splits)

lemma acquire_other:
  assumes "acquire others res st = (st', x)" and "\<And>a. x \<noteq> Returns (Inr a)"
  shows "logs st [] st'"
  using assms by (auto simp: acquire_def logs_def split: prod.splits option.splits)

text \<open>
  A reference to the entry \<open>a\<close> of \<open>res\<close> is given back: its count falls by one and the last one takes the entry
  out of the table. \<open>tried\<close> is what a call that does not wait leaves of the table, \<open>waited\<close> what one leaves
  that waited while the other goroutines turned the table it had entered into another.
\<close>

definition dropped :: "resource_locks \<Rightarrow> string \<Rightarrow> nat \<Rightarrow> resource_locks \<Rightarrow> bool" where
  "dropped l res a l' \<longleftrightarrow> refs (entries l' a) = refs (entries l a) - 1 \<and> (\<forall>b. b \<noteq> a \<longrightarrow> entries l' b = entries l b) \<and>
     next_entry l' = next_entry l \<and> locks l' = (if refs (entries l a) = 1 then (locks l)(res := None) else locks l)"

definition tried :: "string \<Rightarrow> nat \<Rightarrow> resource_locks \<Rightarrow> resource_locks \<Rightarrow> bool" where
  "tried lr n l l' \<longleftrightarrow> locks l' = (if n = 0 then locks l else (locks l)(lr \<mapsto> next_entry l)) \<and>
     (\<forall>b. b \<noteq> next_entry l \<longrightarrow> entries l' b = entries l b)"

definition waited :: "'w interference \<Rightarrow> string \<Rightarrow> resource_locks \<Rightarrow> resource_locks \<Rightarrow> bool" where
  "waited others lr l l' \<longleftrightarrow> (\<exists>l1 a w l2 w2 e. lock_enter l lr = (l1, a) \<and> others l1 w = ((l2, w2), e) \<and> dropped l2 lr a l' \<and>
     ready (entries l' a) = ready (entries l2 a))"

text \<open>Every entry of the table has a reference and was allocated.\<close>

definition table_wf :: "resource_locks \<Rightarrow> bool" where
  "table_wf l \<longleftrightarrow> (\<forall>res b. locks l res = Some b \<longrightarrow> b < next_entry l \<and> 0 < refs (entries l b))"

definition table_kept :: "resource_locks \<Rightarrow> resource_locks \<Rightarrow> bool" where
  "table_kept l l' \<longleftrightarrow> locks l' = locks l \<and> (\<forall>res b. locks l res = Some b \<longrightarrow> entries l' b = entries l b)"

lemma dropped_freed: "ready (entries l a) \<Longrightarrow>
    dropped l res a (freed (l\<lparr>entries := (entries l)(a := (entries l a)\<lparr>ready := False\<rparr>)\<rparr>) res a)"
  "ready (entries (freed l res a) a)"
  by (auto simp: dropped_def freed_def releaseReference_def Let_def)

lemma dropped_release: "dropped l res a (releaseReference l res a)"
  "ready (entries (releaseReference l res a) a) = ready (entries l a)"
  by (auto simp: dropped_def releaseReference_def Let_def)

lemma table_wf_fresh: "table_wf l \<Longrightarrow> locks l res = Some b \<Longrightarrow> b \<noteq> next_entry l"
  by (auto simp: table_wf_def)

lemma tried_kept: "tried lr 0 l l' \<Longrightarrow> table_wf l \<Longrightarrow> table_kept l l'"
  using table_wf_fresh by (simp add: tried_def table_kept_def)

lemma waited_kept:
  assumes "waited others lr l l'" "table_wf l" and idle: "\<And>l w. fst (fst (others l w)) = l"
  shows "table_kept l l'"
proof -
  obtain l1 a where e: "lock_enter l lr = (l1, a)" and d: "dropped l1 lr a l'" and t: "ready (entries l' a) = ready (entries l1 a)"
    using assms(1) idle unfolding waited_def by (metis fst_conv)
  show ?thesis
  proof (cases "locks l lr")
    case None
    then have "l1 = l\<lparr>locks := (locks l)(lr \<mapsto> a), entries := (entries l)(a := \<lparr>ready = True, refs = 1\<rparr>), next_entry := Suc a\<rparr>" "a = next_entry l"
      using e by (auto simp: lock_enter_def Let_def)
    then have "locks l' = locks l" "b \<noteq> next_entry l \<Longrightarrow> entries l' b = entries l b" for b
      using None d by (auto simp: dropped_def)
    then show ?thesis using table_wf_fresh[OF assms(2)] by (simp add: table_kept_def)
  next
    case (Some b)
    then have l1: "l1 = l\<lparr>entries := (entries l)(a := (entries l a)\<lparr>refs := refs (entries l a) + 1\<rparr>)\<rparr>" "a = b"
      using e by (auto simp: lock_enter_def)
    have "refs (entries l a) > 0" using assms(2) Some l1(2) by (simp add: table_wf_def)
    then have k: "locks l' = locks l" "refs (entries l' a) = refs (entries l a)" "c \<noteq> a \<Longrightarrow> entries l' c = entries l c" for c
      using d l1(1) by (auto simp: dropped_def)
    moreover have "entries l' a = entries l a" using k(2) t l1(1) by (intro resource_lock.equality) simp_all
    ultimately show ?thesis unfolding table_kept_def by metis
  qed
qed

lemma foreground_logs:
  assumes own: "owned st a" and h: "ad_Handler d \<noteq> None"
  shows "\<exists>st' err oc cat. execute_foreground r ident i d ps lr a rc st = (st', Returns err) \<and>
    logs st (Handled i ps RequestCtx (ex_world st) #
      (if ar_audit r = None then [] else [Completed (rec_ID rc) oc cat (detached RequestCtx)]) @
      [Unlocked lr]) st' \<and>
    ex_locks st' = freed (ex_locks st) lr a \<and> oc \<in> {OutcomeSucceeded, OutcomeFailed} \<and>
    (err = None \<longrightarrow> oc = OutcomeSucceeded)"
proof -
  obtain st1 out where run: "run_handler (ad_Handler d) i RequestCtx ident ps st = (st1, out)"
    by (cases "run_handler (ad_Handler d) i RequestCtx ident ps st")
  obtain err where out: "out = Returns err"
    and l1: "logs st [Handled i ps RequestCtx (ex_world st)] st1" "ex_locks st1 = ex_locks st"
    using run_handler_logs[OF h run] by blast
  let ?oc = "outcome_of err" and ?cat = "category_of err"
  have oc: "?oc \<in> {OutcomeSucceeded, OutcomeFailed}" "err = None \<longrightarrow> ?oc = OutcomeSucceeded"
    by (simp_all add: outcome_of_def split: option.splits)
  show ?thesis
  proof (cases "ar_audit r")
    case None
    have "owned st1 a" using own l1 by (simp add: owned_def)
    then obtain st' where u: "after_unlock lr a st1 err = (st', Returns err)"
      "logs st1 [Unlocked lr] st'" "ex_locks st' = freed (ex_locks st1) lr a" by (rule after_unlock_owned)
    have eq: "execute_foreground r ident i d ps lr a rc st = (st', Returns err)"
      using run out None u(1) by (simp add: execute_foreground_def)
    have "logs st [Handled i ps RequestCtx (ex_world st), Unlocked lr] st'"
      using logs_trans[OF l1(1) u(2)] by simp
    then show ?thesis using eq u(3) l1(2) oc None
      by (intro exI[of _ st'] exI[of _ err] exI[of _ ?oc] exI[of _ ?cat]) simp
  next
    case (Some A)
    obtain st2 e where c: "complete_audit A (detached RequestCtx) (rec_ID rc) ?oc ?cat st1 = (st2, e)"
      by (cases "complete_audit A (detached RequestCtx) (rec_ID rc) ?oc ?cat st1")
    note cl = complete_audit_logs[OF c]
    let ?ret = "case e of None \<Rightarrow> err
      | Some e \<Rightarrow> Some (Wrapf ''action result is uncertain: record completion: %w'' [] e)"
    let ?st2 = "case e of None \<Rightarrow> st2
      | Some _ \<Rightarrow> recordProblem (ar_problems r) ProblemAuditWriteFailed e st2"
    have l2: "logs st2 [] ?st2" "ex_locks ?st2 = ex_locks st" using cl l1 by (auto split: option.splits)
    have "owned ?st2 a" using own l2(2) by (simp add: owned_def)
    then obtain st' where u: "after_unlock lr a ?st2 ?ret = (st', Returns ?ret)"
      "logs ?st2 [Unlocked lr] st'" "ex_locks st' = freed (ex_locks ?st2) lr a" by (rule after_unlock_owned)
    have eq: "execute_foreground r ident i d ps lr a rc st = (st', Returns ?ret)"
      using run out c Some u(1) by (cases e) (simp_all add: execute_foreground_def)
    have lg: "logs st (([Handled i ps RequestCtx (ex_world st)] @
        [Completed (rec_ID rc) ?oc ?cat (detached RequestCtx)]) @ [] @ [Unlocked lr]) st'"
      using logs_trans[OF logs_trans[OF l1(1) conjunct1[OF cl]] logs_trans[OF l2(1) u(2)]] .
    have ok: "?ret = None \<longrightarrow> ?oc = OutcomeSucceeded" using oc(2) by (simp split: option.splits)
    show ?thesis
      by (rule exI[of _ st'], rule exI[of _ ?ret], rule exI[of _ ?oc], rule exI[of _ ?cat])
        (use eq lg ok u(3) l2(2) oc(1) Some in simp)
  qed
qed

text \<open>
  The protocol of one execution after admission, as the sequences of events it allows, problem
  records apart. \<open>audited\<close> and \<open>jobs\<close> say which stores are configured; the last argument counts
  the tasks that were started.
\<close>

inductive protocol :: "bool \<Rightarrow> bool \<Rightarrow> bool \<Rightarrow> string \<Rightarrow> params \<Rightarrow> audit_attempt \<Rightarrow> string \<Rightarrow>
    'w event list \<Rightarrow> nat \<Rightarrow> bool" for audited jobs background i ps att lr where
  begin_failed: "audited \<Longrightarrow>
     protocol audited jobs background i ps att lr [Locked lr a, Unlocked lr] 0"
| no_storage: "background \<Longrightarrow> \<not> (audited \<and> jobs) \<Longrightarrow>
     protocol audited jobs background i ps att lr
       (Locked lr a # (if audited then [Began att rid] else []) @ [Unlocked lr]) 0"
| enqueue_failed: "background \<Longrightarrow> audited \<Longrightarrow> jobs \<Longrightarrow>
     protocol audited jobs background i ps att lr
       [Locked lr a, Began att rid, Unlocked lr,
        Completed rid OutcomeFailed ''enqueue_failed'' (detached RequestCtx)] 0"
| queued: "background \<Longrightarrow> audited \<Longrightarrow> jobs \<Longrightarrow>
     protocol audited jobs background i ps att lr
       [Locked lr a, Began att rid,
        Enqueued \<lparr>ja_Action = aa_Action att, ja_AuditID = rid, ja_Resource = aa_Resource att,
          ja_Username = aa_Username att, ja_UID = aa_UID att\<rparr> jid] 1"
| ran: "\<not> background \<Longrightarrow> oc \<in> {OutcomeSucceeded, OutcomeFailed} \<Longrightarrow>
     protocol audited jobs background i ps att lr
       (Locked lr a # (if audited then [Began att rid] else []) @ Handled i ps RequestCtx w #
        (if audited then [Completed rid oc cat (detached RequestCtx)] else []) @ [Unlocked lr]) 0"

text \<open>The state after a protocol run: the logged events, the tasks started, the wait group.\<close>

definition task_for :: "'w action_definition \<Rightarrow> identity \<Rightarrow> params \<Rightarrow> string \<Rightarrow> 'w task \<Rightarrow> bool" where
  "task_for d ident ps lr t \<longleftrightarrow> tk_definition t = d \<and> tk_identity t = ident \<and>
     tk_params t = cloneParameters ps \<and> tk_resource t = lr"

definition ran_protocol :: "('w task \<Rightarrow> bool) \<Rightarrow> 'w exec_state \<Rightarrow> 'w event list \<Rightarrow> nat \<Rightarrow>
    'w exec_state \<Rightarrow> bool" where
  "ran_protocol Q st evs n st' \<longleftrightarrow> (\<exists>new tasks. ex_trace st' = ex_trace st @ new \<and> core new = evs \<and>
     ex_tasks st' = ex_tasks st @ tasks \<and> length tasks = n \<and> ex_wg st' = ex_wg st + n \<and>
     (\<forall>t\<in>set tasks. Q t))"

lemma ran_protocol_logs: "logs st evs st' \<Longrightarrow> ran_protocol Q st evs 0 st'"
  by (auto simp: ran_protocol_def logs_def)

lemma ran_protocol_prefix: "logs st x st1 \<Longrightarrow> ran_protocol Q st1 y n st' \<Longrightarrow> ran_protocol Q st (x @ y) n st'"
  by (auto simp: ran_protocol_def logs_def)

lemma background_logs:
  assumes own: "owned st a"
  shows "\<exists>st' err evs n. execute_background r ident i d ps resource lr a rc st = (st', Returns err) \<and>
    ran_protocol (task_for d ident ps lr) st evs n st' \<and>
    (if ar_jobs r \<noteq> None \<and> ar_audit r \<noteq> None
     then evs = [Unlocked lr, Completed (rec_ID rc) OutcomeFailed ''enqueue_failed'' (detached RequestCtx)]
         \<and> n = 0 \<and> ex_locks st' = freed (ex_locks st) lr a \<or>
       (\<exists>jid. evs = [Enqueued \<lparr>ja_Action = i, ja_AuditID = rec_ID rc, ja_Resource = resource,
          ja_Username = Username ident, ja_UID = UID ident\<rparr> jid]) \<and> n = 1 \<and> err = None \<and>
         ex_locks st' = ex_locks st
     else evs = [Unlocked lr] \<and> n = 0 \<and> ex_locks st' = freed (ex_locks st) lr a)"
proof (cases "ar_jobs r \<noteq> None \<and> ar_audit r \<noteq> None")
  case False
  obtain st' where "after_unlock lr a st (Some (Errorf ''background action storage is unavailable'' [])) =
      (st', Returns (Some (Errorf ''background action storage is unavailable'' [])))"
    "logs st [Unlocked lr] st'" "ex_locks st' = freed (ex_locks st) lr a"
    using own by (rule after_unlock_owned)
  then show ?thesis using False
    by (auto simp: execute_background_def split: option.splits intro: ran_protocol_logs)
next
  case True
  then obtain jobs A where jA: "ar_jobs r = Some jobs" "ar_audit r = Some A" by blast
  let ?att = "\<lparr>ja_Action = i, ja_AuditID = rec_ID rc, ja_Resource = resource,
    ja_Username = Username ident, ja_UID = UID ident\<rparr>"
  obtain w res where enq: "ji_Enqueue jobs RequestCtx ?att (ex_world st) = (w, res)"
    by (cases "ji_Enqueue jobs RequestCtx ?att (ex_world st)")
  show ?thesis
  proof (cases res)
    case (Inr job)
    then show ?thesis using jA enq
      by (auto simp: execute_background_def Let_def ran_protocol_def task_for_def emit_def)
  next
    case (Inl e)
    let ?st1 = "recordProblem (ar_problems r) ProblemJobsWriteFailed (Some e) (st\<lparr>ex_world := w\<rparr>)"
    have l1: "logs st [] ?st1" using logs_trans[OF logs_world logs_recordProblem] by simp
    have "owned ?st1 a" using own by (simp add: owned_def)
    then obtain st2 where u: "unlock lr a ?st1 = Some st2" "logs ?st1 [Unlocked lr] st2"
        "ex_locks st2 = freed (ex_locks st) lr a"
      using unlock_owned[of ?st1 a lr] by (auto simp: freed_def)
    obtain st3 err where c: "complete_audit A (detached RequestCtx) (rec_ID rc) OutcomeFailed
        ''enqueue_failed'' st2 = (st3, err)"
      by (cases "complete_audit A (detached RequestCtx) (rec_ID rc) OutcomeFailed ''enqueue_failed'' st2")
    note cl = complete_audit_logs[OF c]
    let ?st' = "recordProblem (ar_problems r) ProblemAuditWriteFailed err st3"
    have "logs st (([] @ [Unlocked lr]) @ [Completed (rec_ID rc) OutcomeFailed ''enqueue_failed''
        (detached RequestCtx)] @ []) ?st'"
      using logs_trans[OF logs_trans[OF l1 u(2)] logs_trans[OF conjunct1[OF cl] logs_recordProblem]] .
    moreover have "execute_background r ident i d ps resource lr a rc st =
        (?st', Returns (Some (Wrapf ''queue background action: %w'' [] e)))"
      using jA enq Inl u(1) c by (simp add: execute_background_def Let_def)
    ultimately show ?thesis using True cl u(3) by (auto intro: ran_protocol_logs)
  qed
qed

lemma locked_logs:
  assumes lk: "logs st0 [Locked lr a] st" and own: "owned st a" and h: "ad_Handler d \<noteq> None"
  shows "\<exists>st' err evs n. execute_locked r ident i d ps resource lr a st = (st', Returns err) \<and>
    ran_protocol (task_for d ident ps lr) st0 evs n st' \<and>
    protocol (ar_audit r \<noteq> None) (ar_jobs r \<noteq> None) (ad_Background d) i ps
      \<lparr>aa_Action = i, aa_Resource = resource, aa_Username = Username ident, aa_UID = UID ident\<rparr> lr evs n \<and>
    ex_locks st' = (if n = 0 then freed (ex_locks st) lr a else ex_locks st)"
proof -
  let ?att = "\<lparr>aa_Action = i, aa_Resource = resource, aa_Username = Username ident,
    aa_UID = UID ident\<rparr>"
  let ?P = "protocol (ar_audit r \<noteq> None) (ar_jobs r \<noteq> None) (ad_Background d) i ps ?att lr"
  obtain st1 res where bg: "begin_audit (ar_audit r) RequestCtx ?att st = (st1, res)"
    by (cases "begin_audit (ar_audit r) RequestCtx ?att st")
  note b = begin_audit_logs[OF bg]
  have own1: "owned st1 a" using own b by (simp add: owned_def)
  show ?thesis
  proof (cases res)
    case (Inl e)
    let ?st2 = "recordProblem (ar_problems r) ProblemAuditWriteFailed (Some e) st1"
    let ?err = "Some (Wrapf ''record action intent: %w'' [] e)"
    have "owned ?st2 a" using own1 by (simp add: owned_def)
    then obtain st' where u: "after_unlock lr a ?st2 ?err = (st', Returns ?err)"
      "logs ?st2 [Unlocked lr] st'" "ex_locks st' = freed (ex_locks ?st2) lr a"
      by (rule after_unlock_owned)
    have "logs st0 ([Locked lr a] @ [] @ [] @ [Unlocked lr]) st'"
      using lk b Inl by (intro logs_trans[OF lk] logs_trans[OF _ logs_trans[OF logs_recordProblem u(2)]]) simp
    moreover have "?P [Locked lr a, Unlocked lr] 0" using b Inl by (intro begin_failed) simp
    moreover have "execute_locked r ident i d ps resource lr a st = (st', Returns ?err)"
      using bg Inl u(1) by (simp add: execute_locked_def)
    ultimately show ?thesis using u(3) b
      by (intro exI[of _ st'] exI[of _ ?err] exI[of _ "[Locked lr a, Unlocked lr]"] exI[of _ "0::nat"])
        (auto intro: ran_protocol_logs)
  next
    case (Inr rc)
    let ?began = "if ar_audit r = None then [] else [Began ?att (rec_ID rc)]"
    have l1: "logs st0 ([Locked lr a] @ ?began) st1" using logs_trans[OF lk] b Inr by simp
    have lk1: "ex_locks st1 = ex_locks st" using b by simp
    show ?thesis
    proof (cases "ad_Background d")
      case False
      obtain st' err oc cat where f: "execute_foreground r ident i d ps lr a rc st1 = (st', Returns err)"
        and lf: "logs st1 (Handled i ps RequestCtx (ex_world st1) #
          (if ar_audit r = None then [] else [Completed (rec_ID rc) oc cat (detached RequestCtx)]) @
          [Unlocked lr]) st'"
        and fr: "ex_locks st' = freed (ex_locks st1) lr a" "oc \<in> {OutcomeSucceeded, OutcomeFailed}"
        using foreground_logs[OF own1 h, of r ident i ps lr rc] by blast
      have p: "?P (Locked lr a # (if ar_audit r \<noteq> None then [Began ?att (rec_ID rc)] else []) @
          Handled i ps RequestCtx (ex_world st1) #
          (if ar_audit r \<noteq> None then [Completed (rec_ID rc) oc cat (detached RequestCtx)] else []) @
          [Unlocked lr]) 0"
        using False fr(2) by (rule ran)
      have "execute_locked r ident i d ps resource lr a st = (st', Returns err)"
        using bg Inr False f by (simp add: execute_locked_def)
      moreover note p ran_protocol_logs[OF logs_trans[OF l1 lf]]
      ultimately show ?thesis using fr(1) lk1
        by (cases "ar_audit r = None") (simp, blast)+
    next
      case True
      obtain st' err evs n where x: "execute_background r ident i d ps resource lr a rc st1 = (st', Returns err)"
        and rp: "ran_protocol (task_for d ident ps lr) st1 evs n st'"
        and cs: "if ar_jobs r \<noteq> None \<and> ar_audit r \<noteq> None
          then evs = [Unlocked lr, Completed (rec_ID rc) OutcomeFailed ''enqueue_failed'' (detached RequestCtx)]
              \<and> n = 0 \<and> ex_locks st' = freed (ex_locks st1) lr a \<or>
            (\<exists>jid. evs = [Enqueued \<lparr>ja_Action = i, ja_AuditID = rec_ID rc, ja_Resource = resource,
               ja_Username = Username ident, ja_UID = UID ident\<rparr> jid]) \<and> n = 1 \<and> err = None \<and>
              ex_locks st' = ex_locks st1
          else evs = [Unlocked lr] \<and> n = 0 \<and> ex_locks st' = freed (ex_locks st1) lr a"
        using background_logs[OF own1, of r ident i d ps resource lr rc] by blast
      have eq: "execute_locked r ident i d ps resource lr a st = (st', Returns err)"
        using bg Inr True x by (simp add: execute_locked_def)
      have full: "ran_protocol (task_for d ident ps lr) st0 (([Locked lr a] @ ?began) @ evs) n st'"
        using ran_protocol_prefix[OF l1 rp] .
      have "?P (([Locked lr a] @ ?began) @ evs) n \<and>
          ex_locks st' = (if n = 0 then freed (ex_locks st1) lr a else ex_locks st1)"
      proof (cases "ar_jobs r \<noteq> None \<and> ar_audit r \<noteq> None")
        case stores: True
        then have both: "ar_audit r \<noteq> None" "ar_jobs r \<noteq> None" by simp_all
        note q = queued[of "ad_Background d" "ar_audit r \<noteq> None" "ar_jobs r \<noteq> None" i ps ?att lr a
            "rec_ID rc", OF True both, simplified]
        note ef = enqueue_failed[of "ad_Background d" "ar_audit r \<noteq> None" "ar_jobs r \<noteq> None" i ps ?att lr a
            "rec_ID rc", OF True both]
        show ?thesis using cs both q ef True by auto
      next
        case False
        then have "?P (Locked lr a # (if ar_audit r \<noteq> None then [Began ?att (rec_ID rc)] else []) @ [Unlocked lr]) 0"
          using True by (intro no_storage) auto
        then show ?thesis using cs False by (cases "ar_audit r") simp_all
      qed
      then show ?thesis using eq full unfolding lk1 by blast
    qed
  qed
qed

lemma acquire_canceled:
  assumes "acquire others res st = (st', Returns (Inl e))"
  shows "waited others res (ex_locks st) (ex_locks st')"
proof -
  obtain l1 a where e: "lock_enter (ex_locks st) res = (l1, a)" by fastforce
  obtain l2 w2 x where o: "others l1 (ex_world st) = ((l2, w2), x)" by (metis surj_pair)
  have "ex_locks st' = releaseReference l2 res a" using assms e o by (auto simp: acquire_def split: option.splits)
  then show ?thesis unfolding waited_def using e o dropped_release by metis
qed

text \<open>What admission established.\<close>

definition admitted :: "'w action_registry \<Rightarrow> identity \<Rightarrow> string \<Rightarrow> params \<Rightarrow> string \<Rightarrow>
    'w action_definition \<Rightarrow> params \<Rightarrow> string \<Rightarrow> string \<Rightarrow> bool" where
  "admitted r ident i ps confirmation d ps' resource lr \<longleftrightarrow>
     map_of (ar_actions r) i = Some d \<and> (ad_Admin d \<longrightarrow> Admin ident) \<and>
     validateParameters (ad_Parameters d) ps = None \<and>
     (if ad_Prepare d = None then ps' = ps
      else \<exists>prepared. validatePreparedParameters ps prepared = None \<and> ps' = cloneParameters prepared) \<and>
     (\<exists>resolve. ad_Resource d = Some resolve \<and> resolve ps' = Inr resource) \<and> valid_resource resource \<and>
     (ad_ConfirmationRequired d \<longrightarrow> confirmation = resource) \<and> valid_resource lr \<and>
     (ad_LockResource d = None \<longrightarrow> lr = resource)"

lemma prepare_params_ok:
  assumes "prepare_params d ident ps w = (w', Inr ps')"
  shows "if ad_Prepare d = None then ps' = ps
    else \<exists>prepared. validatePreparedParameters ps prepared = None \<and> ps' = cloneParameters prepared"
  using assms by (auto simp: prepare_params_def split: option.splits prod.splits sum.splits)

lemma lock_resource_ok:
  "lock_resource d ps res = Inr lr \<Longrightarrow> valid_resource res \<Longrightarrow>
     valid_resource lr \<and> (ad_LockResource d = None \<longrightarrow> lr = res)"
  by (auto simp: lock_resource_def split: option.splits sum.splits if_splits)

lemma admit_ok:
  assumes "admit r ident i ps confirmation w = (w', Returns (Inr (d, ps', resource, lr)))"
  shows "admitted r ident i ps confirmation d ps' resource lr"
proof -
  obtain d0 where d0: "map_of (ar_actions r) i = Some d0" "ad_Admin d0 \<longrightarrow> Admin ident"
      "validateParameters (ad_Parameters d0) ps = None"
    using assms by (auto simp: admit_def split: option.splits if_splits)
  obtain w1 ps1 where pr: "prepare_params d0 ident ps w = (w1, Inr ps1)"
    using assms d0 by (auto simp: admit_def split: prod.splits sum.splits if_splits)
  obtain resolve res where rs: "ad_Resource d0 = Some resolve" "resolve ps1 = Inr res"
      "valid_resource res" "ad_ConfirmationRequired d0 \<longrightarrow> confirmation = res"
    using assms d0 pr by (auto simp: admit_def split: option.splits sum.splits if_splits)
  obtain lr1 where lr: "lock_resource d0 ps1 res = Inr lr1"
    using assms d0 pr rs by (auto simp: admit_def split: sum.splits if_splits)
  have "d = d0 \<and> ps' = ps1 \<and> resource = res \<and> lr = lr1"
    using assms d0 pr rs lr by (auto simp: admit_def split: if_splits)
  then show ?thesis
    using d0 rs lock_resource_ok[OF lr rs(3)] prepare_params_ok[OF pr] by (auto simp: admitted_def)
qed

definition registry_ok :: "'w action_registry \<Rightarrow> bool" where
  "registry_ok r \<longleftrightarrow> (\<forall>i d. map_of (ar_actions r) i = Some d \<longrightarrow>
     ad_Handler d \<noteq> None \<and> ad_Resource d \<noteq> None)"

lemma registry_ok_register: "registry_ok r \<Longrightarrow> registry_ok (fst (RegisterDefinition r d))"
  using actions.register_cases[of r d]
  by (auto simp: registry_ok_def action_admissible_def action_stored_def split: if_splits)

lemma registry_ok_register_all: "registry_ok r \<Longrightarrow> registry_ok (register_all RegisterDefinition r ds)"
  unfolding register_all_def by (induction ds arbitrary: r) (simp_all add: registry_ok_register)

lemma registry_ok_new: "registry_ok (NewActionRegistry stores)"
  by (simp add: registry_ok_def NewActionRegistry_def)

lemma admit_no_panic:
  "registry_ok r \<Longrightarrow> admit r ident i ps confirmation w \<noteq> (w', Panics)"
proof
  assume ok: "registry_ok r" and p: "admit r ident i ps confirmation w = (w', Panics)"
  obtain d where d: "map_of (ar_actions r) i = Some d"
    using p by (auto simp: admit_def split: option.splits)
  moreover have "ad_Resource d = None"
    using p d by (auto simp: admit_def split: option.splits prod.splits sum.splits if_splits)
  ultimately show False using ok unfolding registry_ok_def by blast
qed

text \<open>Every way an execution can end.\<close>

lemma execute_cases:
  assumes ok: "registry_ok r" and run: "action_Execute r others ident i ps conf st = (st', out)"
  shows "((\<exists>e. out = Returns (Some e)) \<and> logs st [] st' \<and> (ex_locks st' = ex_locks st \<or>
      (\<exists>d ps' resource lr. admitted r ident i ps conf d ps' resource lr \<and> \<not> ad_Background d \<and> \<not> ad_NonBlocking d \<and>
         waited others lr (ex_locks st) (ex_locks st')))) \<or>
    (\<exists>d ps' resource lr. admitted r ident i ps conf d ps' resource lr \<and>
      ((out = Blocks \<and> logs st [] st' \<and> \<not> ad_Background d \<and> \<not> ad_NonBlocking d) \<or>
       (\<exists>err evs n. out = Returns err \<and>
          ran_protocol (task_for d ident ps' lr) st evs n st' \<and>
          protocol (ar_audit r \<noteq> None) (ar_jobs r \<noteq> None) (ad_Background d) i ps'
            \<lparr>aa_Action = i, aa_Resource = resource, aa_Username = Username ident, aa_UID = UID ident\<rparr>
            lr evs n \<and>
          (if ad_Background d \<or> ad_NonBlocking d then tried lr n (ex_locks st) (ex_locks st')
           else waited others lr (ex_locks st) (ex_locks st')))))"
proof -
  obtain w a where adm: "admit r ident i ps conf (ex_world st) = (w, a)"
    by (cases "admit r ident i ps conf (ex_world st)")
  have np: "a \<noteq> Panics" using admit_no_panic[OF ok] adm by metis
  let ?st0 = "st\<lparr>ex_world := w\<rparr>"
  have l0: "logs st [] ?st0" by simp
  have refused: ?thesis if "out = Returns (Some e)" "logs st [] st'" "ex_locks st' = ex_locks st" for e
    using that by blast
  show ?thesis
  proof (cases a)
    case Panics
    then show ?thesis using np by simp
  next
    case Blocks
    then have False using adm
      by (auto simp: admit_def split: option.splits prod.splits sum.splits if_splits)
    then show ?thesis ..
  next
    case (Returns res)
    show ?thesis
    proof (cases res)
      case (Inl e)
      then show ?thesis using run adm Returns l0 by (auto simp: action_Execute_def)
    next
      case (Inr plan)
      obtain d ps' resource lr where plan: "plan = (d, ps', resource, lr)" by (cases plan)
      have ad: "admitted r ident i ps conf d ps' resource lr"
        using admit_ok[OF adm[unfolded Returns Inr plan]] .
      have h: "ad_Handler d \<noteq> None" using ok ad by (auto simp: registry_ok_def admitted_def)
      let ?P = "protocol (ar_audit r \<noteq> None) (ar_jobs r \<noteq> None) (ad_Background d) i ps'
        \<lparr>aa_Action = i, aa_Resource = resource, aa_Username = Username ident, aa_UID = UID ident\<rparr> lr"
      show ?thesis
      proof (cases "ad_Background d \<or> ad_NonBlocking d")
        case True
        obtain st1 got where tried: "try_acquire lr ?st0 = (st1, got)" by (cases "try_acquire lr ?st0")
        show ?thesis
        proof (cases got)
          case None
          then have "st1 = ?st0" using tried try_acquire_refused by blast
          moreover have "out = Returns (Some (Errorf ''resource already has a maintenance job'' []))"
            "st' = st1" using run adm Returns Inr plan True tried None by (auto simp: action_Execute_def)
          ultimately show ?thesis using refused l0 by simp
        next
          case (Some b)
          note t = try_acquire_ok[OF tried[unfolded Some]]
          have lk: "logs st [Locked lr b] st1" using logs_trans[OF l0 t(1)] by simp
          obtain st2 err evs n where x: "execute_locked r ident i d ps' resource lr b st1 = (st2, Returns err)"
            "ran_protocol (task_for d ident ps' lr) st evs n st2" "?P evs n"
            "ex_locks st2 = (if n = 0 then freed (ex_locks st1) lr b else ex_locks st1)"
            using locked_logs[OF lk t(2) h] by blast
          have eq: "st' = st2" "out = Returns err"
            using run adm Returns Inr plan True tried Some x(1) by (auto simp: action_Execute_def)
          have b: "b = next_entry (ex_locks st)"
            using tried Some by (auto simp: try_acquire_def tryLock_def Let_def split: option.splits prod.splits)
          have "tried lr n (ex_locks st) (ex_locks st')"
            using x(4) eq t(3,4) b by (auto simp: tried_def freed_def releaseReference_def Let_def)
          then have "if ad_Background d \<or> ad_NonBlocking d then tried lr n (ex_locks st) (ex_locks st') else waited others lr (ex_locks st) (ex_locks st')"
            using True by simp
          then show ?thesis using ad x(2,3) eq by blast
        qed
      next
        case False
        obtain st1 got where acq: "acquire others lr ?st0 = (st1, got)" by (cases "acquire others lr ?st0")
        show ?thesis
        proof (cases "\<exists>b. got = Returns (Inr b)")
          case True
          then obtain b where b: "got = Returns (Inr b)" by blast
          note t = acquire_ok[OF acq[unfolded b]]
          have lk: "logs st [Locked lr b] st1" using logs_trans[OF l0 t(1)] by simp
          obtain st2 err evs n where x: "execute_locked r ident i d ps' resource lr b st1 = (st2, Returns err)"
            "ran_protocol (task_for d ident ps' lr) st evs n st2" "?P evs n"
            "ex_locks st2 = (if n = 0 then freed (ex_locks st1) lr b else ex_locks st1)"
            using locked_logs[OF lk t(2) h] by blast
          have eq: "st' = st2" "out = Returns err"
            using run adm Returns Inr plan False acq b x(1) by (auto simp: action_Execute_def)
          have "n = 0" using x(3) False by cases simp_all
          then have "waited others lr (ex_locks st) (ex_locks st')"
            using t(3) dropped_freed(1)[of _ b lr] dropped_freed(2)[of _ lr b] x(4) eq(1) unfolding waited_def by fastforce
          then have "if ad_Background d \<or> ad_NonBlocking d then tried lr n (ex_locks st) (ex_locks st') else waited others lr (ex_locks st) (ex_locks st')"
            using False by simp
          then show ?thesis using ad x(2,3) eq by blast
        next
          case nb: False
          have l1: "logs st [] st1"
            using logs_trans[OF l0 acquire_other[OF acq]] nb by auto
          show ?thesis
          proof (cases "\<exists>e. got = Returns (Inl e)")
            case True
            then have "(\<exists>e. out = Returns (Some e)) \<and> st' = st1"
              using run adm Returns Inr plan False acq by (auto simp: action_Execute_def)
            moreover have "waited others lr (ex_locks st) (ex_locks st1)" using True acq acquire_canceled by fastforce
            ultimately show ?thesis using l1 False ad by blast
          next
            case nr: False
            have "st' = st1" "out = Blocks"
              using run adm Returns Inr plan False acq nb nr
              by (auto simp: action_Execute_def split: outcome.splits sum.splits)
            then show ?thesis using ad l1 False by blast
          qed
        qed
      qed
    qed
  qed
qed

section \<open>Background runs\<close>

lemma task_exit_owned:
  assumes "owned st (tk_entry t)"
  obtains st' where "task_exit t st = (st', Returns ())" and "ex_wg st' = ex_wg st - 1"
    and "ex_tasks st' = ex_tasks st"
    and "\<exists>new. ex_trace st' = ex_trace st @ new \<and> core new = [Unlocked (tk_resource t)]"
    and "dropped (ex_locks st) (tk_resource t) (tk_entry t) (ex_locks st')" "ready (entries (ex_locks st') (tk_entry t))"
proof -
  obtain st1 where u: "unlock (tk_resource t) (tk_entry t) st = Some st1"
    "logs st [Unlocked (tk_resource t)] st1" "ex_locks st1 = freed (ex_locks st) (tk_resource t) (tk_entry t)"
    using unlock_owned[OF assms] unfolding freed_def by blast
  have "dropped (ex_locks st) (tk_resource t) (tk_entry t) (ex_locks st1)" "ready (entries (ex_locks st1) (tk_entry t))"
    using u(3) by (auto simp: dropped_def freed_def releaseReference_def Let_def)
  then show ?thesis using u(1,2) that[of "st1\<lparr>ex_wg := ex_wg st1 - 1\<rparr>"]
    by (auto simp: task_exit_def logs_def)
qed

text \<open>The job context ends after the action's timeout, 20 minutes when it sets none; the outcome has three seconds to be recorded.\<close>

abbreviation job_ctx :: "'w task \<Rightarrow> ctx" where
  "job_ctx t \<equiv> WithTimeout JobCtx (if 0 < ad_Timeout (tk_definition t) then ad_Timeout (tk_definition t) else 1200000000000)"

abbreviation done_ctx :: ctx where
  "done_ctx \<equiv> WithTimeout BackgroundCtx 3000000000"

lemma task_contexts: "WithTimeout JobCtx (job_timeout (ad_Timeout (tk_definition t))) = job_ctx t"
  "WithTimeout BackgroundCtx (3 * second) = done_ctx"
  by (simp_all add: job_timeout_def minute_def second_def)

text \<open>
  The events of a background run, problem records apart, as the calls decide them. When the job store refuses to start the
  job, the record is closed as unknown and the handler is not called. Otherwise the handler runs
  once, under the job context, in the state the start left, and what it returns is the verdict
  that the job store gets; the audit record gets it too, or is closed as unknown when the job store fails to
  take it.
\<close>

inductive background_run :: "'w job_iface \<Rightarrow> 'w task \<Rightarrow> 'w \<Rightarrow> 'w event list \<Rightarrow> bool" for jobs t w where
  not_started: "ji_Start jobs (job_ctx t) (job_ID (tk_job t)) w = (w1, Some e) \<Longrightarrow> background_run jobs t w
     [Completed (rec_ID (tk_record t)) OutcomeUnknown ''job_start_failed'' done_ctx,
      Unlocked (tk_resource t)]"
| finished: "ji_Start jobs (job_ctx t) (job_ID (tk_job t)) w = (w1, None) \<Longrightarrow> ad_Handler (tk_definition t) = Some h \<Longrightarrow>
     h (job_ctx t) (tk_identity t) (tk_params t) w1 = (w2, err) \<Longrightarrow>
     status = (if err = None then StatusSucceeded else StatusFailed) \<Longrightarrow> reboot = (err = None \<and> ad_RebootRequired (tk_definition t)) \<Longrightarrow>
     ji_Complete jobs done_ctx (job_ID (tk_job t)) status (category_of err) reboot w2 = (w3, jerr) \<Longrightarrow>
     background_run jobs t w
     [JobStarted (job_ID (tk_job t)), Handled (ad_ID (tk_definition t)) (tk_params t) (job_ctx t) w1,
      JobCompleted (job_ID (tk_job t)) status (category_of err) reboot,
      Completed (rec_ID (tk_record t))
        (if jerr \<noteq> None then OutcomeUnknown else if err = None then OutcomeSucceeded else OutcomeFailed)
        (if jerr \<noteq> None then ''job_completion_failed'' else category_of err) done_ctx,
      Unlocked (tk_resource t)]"

lemma runBackground_logs:
  assumes own: "owned st (tk_entry t)" and h: "ad_Handler (tk_definition t) \<noteq> None"
  shows "\<exists>st' new. runBackground r jobs A t st = (st', Returns ()) \<and>
    ex_trace st' = ex_trace st @ new \<and> background_run jobs t (ex_world st) (core new) \<and>
    ex_wg st' = ex_wg st - 1 \<and> ex_tasks st' = ex_tasks st \<and>
    dropped (ex_locks st) (tk_resource t) (tk_entry t) (ex_locks st') \<and> ready (entries (ex_locks st') (tk_entry t))"
proof -
  let ?rid = "rec_ID (tk_record t)" and ?jid = "job_ID (tk_job t)"
  have fin: "\<exists>st' new. task_exit t st2 = (st', Returns ()) \<and> ex_trace st' = ex_trace st @ new \<and>
      core new = evs @ [Unlocked (tk_resource t)] \<and> ex_wg st' = ex_wg st - 1 \<and> ex_tasks st' = ex_tasks st \<and>
      dropped (ex_locks st) (tk_resource t) (tk_entry t) (ex_locks st') \<and> ready (entries (ex_locks st') (tk_entry t))"
    if l: "logs st evs st2" and lk: "ex_locks st2 = ex_locks st" for evs st2
  proof -
    have "owned st2 (tk_entry t)" using own lk by (simp add: owned_def)
    then obtain st' where "task_exit t st2 = (st', Returns ())" "ex_wg st' = ex_wg st2 - 1"
      "ex_tasks st' = ex_tasks st2"
      "\<exists>new. ex_trace st' = ex_trace st2 @ new \<and> core new = [Unlocked (tk_resource t)]"
      "dropped (ex_locks st2) (tk_resource t) (tk_entry t) (ex_locks st')" "ready (entries (ex_locks st') (tk_entry t))"
      by (rule task_exit_owned)
    then show ?thesis using l lk by (fastforce simp: logs_def)
  qed
  obtain w serr where start: "ji_Start jobs (job_ctx t) ?jid (ex_world st) = (w, serr)"
    by (cases "ji_Start jobs (job_ctx t) ?jid (ex_world st)")
  show ?thesis
  proof (cases serr)
    case (Some e)
    let ?st1 = "recordProblem (ar_problems r) ProblemJobsWriteFailed (Some e) (st\<lparr>ex_world := w\<rparr>)"
    obtain st2 err where c: "complete_audit A done_ctx ?rid OutcomeUnknown ''job_start_failed'' ?st1 = (st2, err)"
      by (cases "complete_audit A done_ctx ?rid OutcomeUnknown ''job_start_failed'' ?st1")
    note cl = complete_audit_logs[OF c]
    let ?st3 = "recordProblem (ar_problems r) ProblemAuditWriteFailed err st2"
    have "logs st (([] @ []) @ [Completed ?rid OutcomeUnknown ''job_start_failed'' done_ctx] @ []) ?st3"
      using logs_trans[OF logs_trans[OF logs_world logs_recordProblem]
          logs_trans[OF conjunct1[OF cl] logs_recordProblem]] .
    moreover have "ex_locks ?st3 = ex_locks st" using cl by simp
    ultimately obtain st' new where x: "task_exit t ?st3 = (st', Returns ())"
      "ex_trace st' = ex_trace st @ new" "core new =
         (([] @ []) @ [Completed ?rid OutcomeUnknown ''job_start_failed'' done_ctx] @ []) @ [Unlocked (tk_resource t)]"
      "ex_wg st' = ex_wg st - 1" "ex_tasks st' = ex_tasks st"
      "dropped (ex_locks st) (tk_resource t) (tk_entry t) (ex_locks st')" "ready (entries (ex_locks st') (tk_entry t))"
      using fin by blast
    have "runBackground r jobs A t st = (st', Returns ())"
      using start Some c x(1) by (simp only: runBackground_def task_contexts Let_def) simp
    then show ?thesis using x not_started[OF start[unfolded Some]] by auto
  next
    case None
    let ?st0 = "emit (JobStarted ?jid) (st\<lparr>ex_world := w\<rparr>)"
    let ?id = "ad_ID (tk_definition t)"
    obtain st1 out where run: "run_handler (ad_Handler (tk_definition t)) ?id (job_ctx t)
        (tk_identity t) (tk_params t) ?st0 = (st1, out)"
      by (cases "run_handler (ad_Handler (tk_definition t)) ?id (job_ctx t) (tk_identity t) (tk_params t) ?st0")
    obtain err where out: "out = Returns err"
      and l1: "logs ?st0 [Handled ?id (tk_params t) (job_ctx t) (ex_world ?st0)] st1"
        "ex_locks st1 = ex_locks ?st0"
      using run_handler_logs[OF h run] by blast
    let ?status = "case err of None \<Rightarrow> StatusSucceeded | Some _ \<Rightarrow> StatusFailed"
    let ?reboot = "err = None \<and> ad_RebootRequired (tk_definition t)"
    obtain w' jerr where jc: "ji_Complete jobs done_ctx ?jid ?status (category_of err) ?reboot (ex_world st1) = (w', jerr)"
      by (cases "ji_Complete jobs done_ctx ?jid ?status (category_of err) ?reboot (ex_world st1)")
    let ?st1' = "emit (JobCompleted ?jid ?status (category_of err) ?reboot) (st1\<lparr>ex_world := w'\<rparr>)"
    let ?st2 = "recordProblem (ar_problems r) ProblemJobsWriteFailed jerr ?st1'"
    let ?oc = "if jerr \<noteq> None then OutcomeUnknown else outcome_of err"
    let ?cat = "if jerr \<noteq> None then ''job_completion_failed'' else category_of err"
    obtain st3 cerr where c: "complete_audit A done_ctx ?rid ?oc ?cat ?st2 = (st3, cerr)"
      by (cases "complete_audit A done_ctx ?rid ?oc ?cat ?st2")
    note cl = complete_audit_logs[OF c]
    let ?st4 = "recordProblem (ar_problems r) ProblemAuditWriteFailed cerr st3"
    let ?evs = "[JobStarted ?jid] @ [Handled ?id (tk_params t) (job_ctx t) (ex_world ?st0)] @
      [JobCompleted ?jid ?status (category_of err) ?reboot] @ [] @ [Completed ?rid ?oc ?cat done_ctx] @ []"
    have l0: "logs st [JobStarted ?jid] ?st0" by (rule logs_emit_world) simp
    have l2: "logs st1 [JobCompleted ?jid ?status (category_of err) ?reboot] ?st1'"
      by (rule logs_emit_world) simp
    have "logs st ?evs ?st4"
      using logs_trans[OF l0 logs_trans[OF l1(1) logs_trans[OF l2 logs_trans[OF logs_recordProblem
            logs_trans[OF conjunct1[OF cl] logs_recordProblem]]]]] .
    moreover have "ex_locks ?st4 = ex_locks st" using cl l1(2) by simp
    ultimately obtain st' new where x: "task_exit t ?st4 = (st', Returns ())"
      "ex_trace st' = ex_trace st @ new" "core new = ?evs @ [Unlocked (tk_resource t)]"
      "ex_wg st' = ex_wg st - 1" "ex_tasks st' = ex_tasks st"
      "dropped (ex_locks st) (tk_resource t) (tk_entry t) (ex_locks st')" "ready (entries (ex_locks st') (tk_entry t))"
      using fin[of ?evs ?st4] by blast
    have "runBackground r jobs A t st = task_exit t ?st4"
      using start None run out jc c by (simp only: runBackground_def task_contexts Let_def) simp
    moreover have "background_run jobs t (ex_world st) (core new)"
    proof -
      obtain hd where hd: "ad_Handler (tk_definition t) = Some hd" using h by blast
      have ran: "hd (job_ctx t) (tk_identity t) (tk_params t) w = (ex_world st1, err)"
        using run out hd by (auto simp: run_handler_def emit_def split: prod.splits)
      have "?status = (if err = None then StatusSucceeded else StatusFailed)" by (cases err) simp_all
      from finished[OF start[unfolded None] hd ran this refl jc]
      show ?thesis unfolding x(3) by (cases err; cases jerr) (simp_all add: emit_def outcome_of_def)
    qed
    ultimately show ?thesis using x by auto
  qed
qed

section \<open>A concrete registry\<close>

definition demo_audit_iface :: "unit audit_iface" where
  "demo_audit_iface = \<lparr>ai_Begin = (\<lambda>_ _ w. (w, Inr (zero_record\<lparr>rec_ID := 7\<rparr>))),
     ai_Complete = (\<lambda>_ _ _ _ w. (w, None))\<rparr>"

definition demo_jobs_iface :: "unit job_iface" where
  "demo_jobs_iface = \<lparr>ji_Complete = (\<lambda>_ _ _ _ _ w. (w, None)),
     ji_Enqueue = (\<lambda>_ _ w. (w, Inr demo_job)), ji_Start = (\<lambda>_ _ w. (w, None))\<rparr>"

definition demo_registry :: "unit action_registry" where
  "demo_registry = UseJobs (register_all RegisterDefinition (NewActionRegistry [demo_audit_iface])
     [demo_action, demo_action\<lparr>ad_ID := ''update'', ad_Background := True\<rparr>]) demo_jobs_iface"

definition demo_admin :: identity where
  "demo_admin = \<lparr>Admin = True, Groups = [], UID = 1000, Username = ''ann''\<rparr>"

definition demo_state :: "unit exec_state" where
  "demo_state = \<lparr>ex_locks = newResourceLocks, ex_world = (), ex_trace = [], ex_wg = 0, ex_tasks = [],
     ex_stopped = False, ex_stream_locks = newResourceLocks\<rparr>"

abbreviation alone :: "'w interference" where
  "alone l w \<equiv> ((l, w), None)"

abbreviation demo_run :: "string \<Rightarrow> unit exec_state \<times> error option outcome" where
  "demo_run i \<equiv> action_Execute demo_registry alone demo_admin i [(''name'', ''ssh'')] ''ssh'' demo_state"

lemmas demo_defs = demo_registry_def demo_admin_def demo_state_def demo_audit_iface_def
  demo_jobs_iface_def demo_action_def

lemma demo_registry_ok: "registry_ok demo_registry"
  using registry_ok_register_all[OF registry_ok_new]
  by (simp add: demo_registry_def UseJobs_def registry_ok_def)

lemma demo_admit:
  "admit demo_registry demo_admin ''unit.stop'' [(''name'', ''ssh'')] ''ssh'' () =
     ((), Returns (Inr (action_stored demo_action, [(''name'', ''ssh'')], ''ssh'', ''ssh'')))"
  "admit demo_registry demo_admin ''update'' [(''name'', ''ssh'')] ''ssh'' () =
     ((), Returns (Inr (action_stored (demo_action\<lparr>ad_ID := ''update'', ad_Background := True\<rparr>),
        [(''name'', ''ssh'')], ''ssh'', ''ssh'')))"
  by (simp_all add: admit_def demo_defs UseJobs_def register_all_def RegisterDefinition_def
      NewActionRegistry_def action_stored_def validateParameters_def valid_value_def contains_any_def
      line_breaks_def prepare_params_def param_def valid_resource_def lock_resource_def Let_def)

lemma demo_audited: "ar_audit demo_registry = Some demo_audit_iface"
  "ar_jobs demo_registry = Some demo_jobs_iface"
  by (simp_all add: demo_registry_def UseJobs_def register_all_def RegisterDefinition_def
      NewActionRegistry_def demo_action_def Let_def)

lemma demo_admin_simps: "Username demo_admin = ''ann''" "UID demo_admin = 1000"
  by (simp_all add: demo_admin_def)

lemmas step_defs = action_Execute_def try_acquire_def acquire_def lock_enter_def lock_receive_def
  tryLock_def newResourceLocks_def execute_locked_def execute_foreground_def execute_background_def
  begin_audit_def run_handler_def complete_audit_def after_unlock_def unlock_def unlock_send_def
  emit_def

lemma demo_foreground:
  "ex_trace (fst (demo_run ''unit.stop'')) = [Locked ''ssh'' 0,
     Began \<lparr>aa_Action = ''unit.stop'', aa_Resource = ''ssh'', aa_Username = ''ann'', aa_UID = 1000\<rparr> 7,
     Handled ''unit.stop'' [(''name'', ''ssh'')] RequestCtx (),
     Completed 7 OutcomeSucceeded [] (detached RequestCtx), Unlocked ''ssh'']"
  "snd (demo_run ''unit.stop'') = Returns None"
  by (simp_all add: step_defs demo_state_def demo_admit demo_audited action_stored_def demo_action_def
      demo_audit_iface_def demo_admin_simps outcome_of_def category_of_def Let_def)

lemma demo_background:
  "length (ex_tasks (fst (demo_run ''update''))) = 1" "snd (demo_run ''update'') = Returns None"
  by (simp_all add: step_defs demo_state_def demo_admit demo_audited action_stored_def demo_action_def
      demo_audit_iface_def demo_jobs_iface_def demo_admin_simps Let_def)

section \<open>Properties\<close>

lemma logs_core: "logs st evs st' \<Longrightarrow> ex_trace st' = ex_trace st @ new \<Longrightarrow> core new = evs"
  by (auto simp: logs_def)

lemma ran_core: "ran_protocol Q st evs n st' \<Longrightarrow> ex_trace st' = ex_trace st @ new \<Longrightarrow> evs = core new"
  by (auto simp: ran_protocol_def)

lemma execute_trace:
  assumes "registry_ok r" and "action_Execute r others ident i ps conf st = (st', out)"
    and "ex_trace st' = ex_trace st @ new" and "core new \<noteq> []"
  shows "\<exists>d ps' resource lr n. admitted r ident i ps conf d ps' resource lr \<and>
    protocol (ar_audit r \<noteq> None) (ar_jobs r \<noteq> None) (ad_Background d) i ps'
      \<lparr>aa_Action = i, aa_Resource = resource, aa_Username = Username ident, aa_UID = UID ident\<rparr>
      lr (core new) n \<and> ran_protocol (task_for d ident ps' lr) st (core new) n st'"
proof -
  have nl: "\<not> logs st [] st'" using logs_core[of st "[]" st'] assms(3,4) by blast
  obtain d ps' resource lr evs n where x: "admitted r ident i ps conf d ps' resource lr"
    "ran_protocol (task_for d ident ps' lr) st evs n st'"
    "protocol (ar_audit r \<noteq> None) (ar_jobs r \<noteq> None) (ad_Background d) i ps'
      \<lparr>aa_Action = i, aa_Resource = resource, aa_Username = Username ident, aa_UID = UID ident\<rparr> lr evs n"
    using execute_cases[OF assms(1,2)] nl by blast
  have "evs = core new" by (rule ran_core[OF x(2) assms(3)])
  then show ?thesis using x by blast
qed

lemma core_handled: "Handled i ps ctx w \<in> set new \<Longrightarrow> Handled i ps ctx w \<in> set (core new)"
  by (simp add: core_def)

text \<open>
  C1. No handler without its guards. If an execution calls a handler, the action is registered,
  the identity is an administrator when the action asks for one, the parameters are valid (the
  prepared ones extending them), the resource is valid and confirmed when the action requires
  it; and around the call the lock was taken and the intent audited before, the outcome audited
  and the lock released after, each exactly once and in this order.
\<close>

theorem execute_guarded:
  assumes "registry_ok r" and "action_Execute r others ident i ps conf st = (st', out)"
    and "ex_trace st' = ex_trace st @ new" and "Handled i' ps' ctx w \<in> set new"
  shows "\<exists>d resource lr a rid oc cat. admitted r ident i ps conf d ps' resource lr \<and>
    \<not> ad_Background d \<and>
    core new = Locked lr a #
      (if ar_audit r \<noteq> None then [Began \<lparr>aa_Action = i, aa_Resource = resource,
         aa_Username = Username ident, aa_UID = UID ident\<rparr> rid] else []) @
      Handled i ps' RequestCtx w #
      (if ar_audit r \<noteq> None then [Completed rid oc cat (detached RequestCtx)] else []) @ [Unlocked lr]"
proof -
  have h: "Handled i' ps' ctx w \<in> set (core new)" using core_handled[OF assms(4)] .
  then have "core new \<noteq> []" by auto
  from execute_trace[OF assms(1-3) this] obtain d ps1 resource lr n
    where ad: "admitted r ident i ps conf d ps1 resource lr"
      and p: "protocol (ar_audit r \<noteq> None) (ar_jobs r \<noteq> None) (ad_Background d) i ps1
        \<lparr>aa_Action = i, aa_Resource = resource, aa_Username = Username ident, aa_UID = UID ident\<rparr>
        lr (core new) n" by blast
  from p show ?thesis
  proof cases
    case (ran oc a rid w1 cat)
    have "ps' = ps1 \<and> w = w1" using h ran(1) by (auto split: if_splits)
    then show ?thesis using ad ran by blast
  qed (use h in \<open>auto split: if_splits\<close>)
qed

theorem execute_guarded_witness:
  "\<exists>d resource lr. admitted demo_registry demo_admin ''unit.stop'' [(''name'', ''ssh'')] ''ssh'' d
     [(''name'', ''ssh'')] resource lr \<and> \<not> ad_Background d"
proof -
  obtain st' out where run: "demo_run ''unit.stop'' = (st', out)" by (cases "demo_run ''unit.stop''")
  then have tr: "ex_trace st' = ex_trace demo_state @ ex_trace st'" by (simp add: demo_state_def)
  have "Handled ''unit.stop'' [(''name'', ''ssh'')] RequestCtx () \<in> set (ex_trace st')"
    using demo_foreground(1) run by simp
  from execute_guarded[OF demo_registry_ok run tr this] show ?thesis by blast
qed

text \<open>
  Background work is guarded the same way: a task appears only for an admitted background
  action, after its intent was audited and its job stored, with the prepared parameters and the
  lock of its resource.
\<close>

theorem background_guarded:
  assumes "registry_ok r" and "action_Execute r others ident i ps conf st = (st', out)"
    and "ex_tasks st' = ex_tasks st @ t # ts"
  shows "ts = [] \<and> ex_wg st' = Suc (ex_wg st) \<and>
    (\<exists>d ps' resource lr a rid jid new. admitted r ident i ps conf d ps' resource lr \<and> ad_Background d \<and>
      tk_definition t = d \<and> tk_identity t = ident \<and> tk_params t = cloneParameters ps' \<and>
      tk_resource t = lr \<and> ex_trace st' = ex_trace st @ new \<and>
      core new = [Locked lr a, Began \<lparr>aa_Action = i, aa_Resource = resource,
          aa_Username = Username ident, aa_UID = UID ident\<rparr> rid,
        Enqueued \<lparr>ja_Action = i, ja_AuditID = rid, ja_Resource = resource,
          ja_Username = Username ident, ja_UID = UID ident\<rparr> jid])"
proof -
  obtain d ps' resource lr evs n where ad: "admitted r ident i ps conf d ps' resource lr"
    and rp: "ran_protocol (task_for d ident ps' lr) st evs n st'"
    and p: "protocol (ar_audit r \<noteq> None) (ar_jobs r \<noteq> None) (ad_Background d) i ps'
      \<lparr>aa_Action = i, aa_Resource = resource, aa_Username = Username ident, aa_UID = UID ident\<rparr> lr evs n"
  proof -
    have "\<not> logs st [] st'" using assms(3) by (simp add: logs_def)
    then show ?thesis using that execute_cases[OF assms(1,2)] by blast
  qed
  obtain new where new: "ex_trace st' = ex_trace st @ new" "core new = evs" "Suc (length ts) = n"
      "ex_wg st' = ex_wg st + n" "task_for d ident ps' lr t"
    using rp assms(3) by (auto simp: ran_protocol_def)
  from p new(3) show ?thesis
  proof cases
    case (queued a rid jid)
    then show ?thesis using ad new by (auto simp: task_for_def)
  qed auto
qed

theorem background_guarded_witness:
  "\<exists>t. ex_tasks (fst (demo_run ''update'')) = [t] \<and> tk_identity t = demo_admin \<and>
     ex_wg (fst (demo_run ''update'')) = Suc 0"
proof -
  obtain st' out where run: "demo_run ''update'' = (st', out)" by (cases "demo_run ''update''")
  obtain t where t: "ex_tasks st' = [t]"
    using demo_background(1) run by (cases "ex_tasks st'") auto
  then have "ex_tasks st' = ex_tasks demo_state @ t # []" by (simp add: demo_state_def)
  from background_guarded[OF demo_registry_ok run this] show ?thesis
    using t run by (auto simp: demo_state_def)
qed

definition lock_count :: "'w event list \<Rightarrow> nat" where
  "lock_count evs = length (filter (\<lambda>e. case e of Locked _ _ \<Rightarrow> True | _ \<Rightarrow> False) evs)"

definition unlock_count :: "'w event list \<Rightarrow> nat" where
  "unlock_count evs = length (filter (\<lambda>e. case e of Unlocked _ \<Rightarrow> True | _ \<Rightarrow> False) evs)"

lemma protocol_counts:
  assumes "protocol audited jobs background i ps att lr evs n"
  shows "lock_count evs = unlock_count evs + n \<and> lock_count evs = 1"
  using assms by cases (auto simp: lock_count_def unlock_count_def)

lemma count_core: "lock_count (core evs) = lock_count evs" "unlock_count (core evs) = unlock_count evs"
proof -
  have "filter (\<lambda>e. case e of Locked _ _ \<Rightarrow> True | _ \<Rightarrow> False) (core evs) =
      filter (\<lambda>e. case e of Locked _ _ \<Rightarrow> True | _ \<Rightarrow> False) evs"
    "filter (\<lambda>e. case e of Unlocked _ \<Rightarrow> True | _ \<Rightarrow> False) (core evs) =
      filter (\<lambda>e. case e of Unlocked _ \<Rightarrow> True | _ \<Rightarrow> False) evs"
    by (induction evs) (auto split: event.splits)
  then show "lock_count (core evs) = lock_count evs" "unlock_count (core evs) = unlock_count evs"
    by (simp_all add: lock_count_def unlock_count_def)
qed

lemma started_entry:
  assumes "tried lr n (ex_locks st) (ex_locks st')" "ex_tasks st' = ex_tasks st @ tasks" "length tasks = n"
    and "\<forall>t\<in>set tasks. task_for d ident ps' lr t" "n \<le> 1"
  shows "locks (ex_locks st') = locks (ex_locks st) \<or> (\<exists>t. ex_tasks st' = ex_tasks st @ [t] \<and>
    locks (ex_locks st') = (locks (ex_locks st))(tk_resource t \<mapsto> next_entry (ex_locks st)))"
proof (cases tasks)
  case Nil
  then show ?thesis using assms by (simp add: tried_def)
next
  case (Cons t ts)
  then have "ts = []" using assms(3,5) by (cases ts) simp_all
  then show ?thesis using assms Cons by (auto simp: task_for_def tried_def)
qed

text \<open>
  C21. Locks are neither leaked nor released twice, and nothing panics. An execution on a registry
  whose actions were registered never panics, blocks only while it waits for the lock of an
  action that is neither background nor non-blocking, and takes as many locks as it releases or
  hands to a started task. For a background or non-blocking action the lock table ends with the
  entries it had, plus the resource of a started task. An action that waits for its lock drops, when it
  returns, exactly the one reference it took on entering, and the token is where the others left it, whether the
  action ran or its context ended while it waited. So when no other goroutine moves meanwhile, an execution that
  starts no task leaves every entry of the table as it was.
\<close>

theorem execute_lock_balance:
  assumes "registry_ok r" and "action_Execute r others ident i ps conf st = (st', out)"
    and "map_of (ar_actions r) i = Some d"
  shows "out \<noteq> Panics \<and> (out = Blocks \<longrightarrow> \<not> ad_Background d \<and> \<not> ad_NonBlocking d) \<and>
    (\<exists>new tasks. ex_trace st' = ex_trace st @ new \<and> ex_tasks st' = ex_tasks st @ tasks \<and>
       lock_count new = unlock_count new + length tasks) \<and>
    (ad_Background d \<or> ad_NonBlocking d \<longrightarrow> locks (ex_locks st') = locks (ex_locks st) \<or>
       (\<exists>t. ex_tasks st' = ex_tasks st @ [t] \<and>
          locks (ex_locks st') = (locks (ex_locks st))(tk_resource t \<mapsto> next_entry (ex_locks st)))) \<and>
    (\<not> ad_Background d \<and> \<not> ad_NonBlocking d \<and> out \<noteq> Blocks \<longrightarrow> ex_locks st' = ex_locks st \<or>
       (\<exists>ps' resource lr l1 a w l2 w2 e. admitted r ident i ps conf d ps' resource lr \<and> lock_enter (ex_locks st) lr = (l1, a) \<and>
          others l1 w = ((l2, w2), e) \<and> dropped l2 lr a (ex_locks st') \<and>
          ready (entries (ex_locks st') a) = ready (entries l2 a))) \<and>
    (table_wf (ex_locks st) \<and> (\<forall>l w. fst (fst (others l w)) = l) \<and> out \<noteq> Blocks \<and> ex_tasks st' = ex_tasks st \<longrightarrow>
       table_kept (ex_locks st) (ex_locks st'))"
proof -
  have quiet: "\<exists>new tasks. ex_trace st' = ex_trace st @ new \<and> ex_tasks st' = ex_tasks st @ tasks \<and>
      lock_count new = unlock_count new + length tasks" if "logs st [] st'"
  proof -
    obtain new where "ex_trace st' = ex_trace st @ new" "core new = []" "ex_tasks st' = ex_tasks st"
      using \<open>logs st [] st'\<close> by (auto simp: logs_def)
    then show ?thesis using count_core[of new] by (auto simp: lock_count_def unlock_count_def)
  qed
  have same: "d1 = d" if "admitted r ident i ps conf d1 ps' resource lr" for d1 ps' resource lr
    using that assms(3) by (simp add: admitted_def)
  have refl: "table_kept (ex_locks st) (ex_locks st)" by (simp add: table_kept_def)
  consider (refused) e where "out = Returns (Some e)" "logs st [] st'" "ex_locks st' = ex_locks st"
    | (canceled) e ps' resource lr where "out = Returns (Some e)" "logs st [] st'" "admitted r ident i ps conf d ps' resource lr"
      "\<not> ad_Background d" "\<not> ad_NonBlocking d" "waited others lr (ex_locks st) (ex_locks st')"
    | (blocked) "out = Blocks" "logs st [] st'" "\<not> ad_Background d" "\<not> ad_NonBlocking d"
    | (ran) ps' resource lr err evs n where "admitted r ident i ps conf d ps' resource lr" "out = Returns err"
      "ran_protocol (task_for d ident ps' lr) st evs n st'"
      "protocol (ar_audit r \<noteq> None) (ar_jobs r \<noteq> None) (ad_Background d) i ps'
        \<lparr>aa_Action = i, aa_Resource = resource, aa_Username = Username ident, aa_UID = UID ident\<rparr> lr evs n"
      "if ad_Background d \<or> ad_NonBlocking d then tried lr n (ex_locks st) (ex_locks st') else waited others lr (ex_locks st) (ex_locks st')"
    using execute_cases[OF assms(1,2)] by - (elim disjE exE conjE; (frule same, hypsubst)?; blast)
  then show ?thesis
  proof cases
    case refused
    then show ?thesis using quiet refl by auto
  next
    case canceled
    then show ?thesis using quiet waited_kept[OF canceled(6)] unfolding waited_def by blast
  next
    case blocked
    then show ?thesis using quiet by auto
  next
    case ran
    obtain new tasks where nt: "ex_trace st' = ex_trace st @ new" "core new = evs"
        "ex_tasks st' = ex_tasks st @ tasks" "length tasks = n"
        "\<forall>t\<in>set tasks. task_for d ident ps' lr t"
      using ran(3) by (auto simp: ran_protocol_def)
    have cnt: "lock_count new = unlock_count new + n" "n \<le> 1"
      using protocol_counts[OF ran(4)] count_core[of new] nt(2) by simp_all
    show ?thesis
    proof (cases "ad_Background d \<or> ad_NonBlocking d")
      case True
      then have tr: "tried lr n (ex_locks st) (ex_locks st')" using ran(5) by simp
      have "locks (ex_locks st') = locks (ex_locks st) \<or> (\<exists>t. ex_tasks st' = ex_tasks st @ [t] \<and>
          locks (ex_locks st') = (locks (ex_locks st))(tk_resource t \<mapsto> next_entry (ex_locks st)))"
        using started_entry[OF tr nt(3-5) cnt(2)] .
      moreover have "table_kept (ex_locks st) (ex_locks st')" if "table_wf (ex_locks st)" "ex_tasks st' = ex_tasks st"
        using tried_kept tr nt(3,4) that by auto
      ultimately show ?thesis using ran(2) cnt(1) nt(1,3,4) True by blast
    next
      case False
      then have wt: "waited others lr (ex_locks st) (ex_locks st')" using ran(5) by simp
      note kept = waited_kept[OF wt]
      obtain l1 a w l2 w2 e where "lock_enter (ex_locks st) lr = (l1, a)" "others l1 w = ((l2, w2), e)" "dropped l2 lr a (ex_locks st')"
          "ready (entries (ex_locks st') a) = ready (entries l2 a)"
        using wt unfolding waited_def by blast
      then show ?thesis using ran(1,2) cnt(1) nt(1,3,4) False kept by blast
    qed
  qed
qed

theorem execute_lock_balance_witness:
  "snd (demo_run ''update'') \<noteq> Panics \<and> snd (demo_run ''update'') \<noteq> Blocks \<and>
   (\<exists>new tasks. ex_trace (fst (demo_run ''update'')) = ex_trace demo_state @ new \<and>
      ex_tasks (fst (demo_run ''update'')) = ex_tasks demo_state @ tasks \<and>
      lock_count new = unlock_count new + length tasks)"
proof -
  obtain d where d: "map_of (ar_actions demo_registry) ''update'' = Some d" "ad_Background d"
    by (simp add: demo_registry_def UseJobs_def register_all_def RegisterDefinition_def
        NewActionRegistry_def demo_action_def Let_def)
  obtain st' out where run: "demo_run ''update'' = (st', out)" by (cases "demo_run ''update''")
  show ?thesis unfolding run fst_conv snd_conv
    using execute_lock_balance[OF demo_registry_ok run d(1)] d(2) by blast
qed

text \<open>
  Audit trail. Every attempt whose intent an execution recorded gets its outcome recorded in
  the same execution or is handed to a background task, except when a background action finds
  no job store: then the lock is released and the record stays open.
\<close>

theorem execute_audit_closed:
  assumes "registry_ok r" and "action_Execute r others ident i ps conf st = (st', out)"
    and "ex_trace st' = ex_trace st @ new" and "Began att rid \<in> set new"
  shows "aa_Action att = i \<and> aa_UID att = UID ident \<and> aa_Username att = Username ident \<and>
    ((\<exists>oc cat. Completed rid oc cat (detached RequestCtx) \<in> set new) \<or>
     length (ex_tasks st') = Suc (length (ex_tasks st)) \<or>
     ar_jobs r = None \<and> (\<exists>d. map_of (ar_actions r) i = Some d \<and> ad_Background d))"
proof -
  have sub: "set (core new) \<subseteq> set new" by (simp add: core_def)
  have b: "Began att rid \<in> set (core new)" using assms(4) by (simp add: core_def)
  then have "core new \<noteq> []" by auto
  from execute_trace[OF assms(1-3) this] obtain d ps' resource lr n
    where ad: "map_of (ar_actions r) i = Some d"
      and p: "protocol (ar_audit r \<noteq> None) (ar_jobs r \<noteq> None) (ad_Background d) i ps'
        \<lparr>aa_Action = i, aa_Resource = resource, aa_Username = Username ident, aa_UID = UID ident\<rparr>
        lr (core new) n"
      and rp: "ran_protocol (task_for d ident ps' lr) st (core new) n st'"
    unfolding admitted_def by blast
  have len: "length (ex_tasks st') = length (ex_tasks st) + n"
    using rp by (auto simp: ran_protocol_def)
  from p b show ?thesis
  proof cases
    case (no_storage a rid')
    then show ?thesis using b ad by (auto split: if_splits)
  next
    case (enqueue_failed a rid')
    then show ?thesis using b sub by auto
  next
    case (queued a rid' jid)
    then show ?thesis using b len by auto
  next
    case (ran oc a rid' w cat)
    then show ?thesis using b sub by (auto split: if_splits)
  qed auto
qed

theorem execute_audit_closed_witness:
  "\<exists>new oc cat. ex_trace (fst (demo_run ''unit.stop'')) = new \<and>
     Completed 7 oc cat (detached RequestCtx) \<in> set new"
proof -
  obtain st' out where run: "demo_run ''unit.stop'' = (st', out)" by (cases "demo_run ''unit.stop''")
  have tr: "ex_trace st' = ex_trace demo_state @ ex_trace st'" by (simp add: demo_state_def)
  have b: "Began \<lparr>aa_Action = ''unit.stop'', aa_Resource = ''ssh'', aa_Username = ''ann'', aa_UID = 1000\<rparr> 7
      \<in> set (ex_trace st')"
    using demo_foreground(1) run by simp
  have "ex_tasks st' = []"
    using run by (auto simp: step_defs demo_state_def demo_admit demo_audited action_stored_def
        demo_action_def demo_audit_iface_def demo_admin_simps outcome_of_def category_of_def Let_def)
  then show ?thesis
    using execute_audit_closed[OF demo_registry_ok run tr b] run demo_audited(2)
    by (auto simp: demo_state_def)
qed

text \<open>
  C22. A background task always finishes: it puts the token back, drops its reference and leaves the wait group. When the
  job store does not start the job, the handler is not called and the record is closed as
  unknown. Otherwise the handler runs exactly once, after the job was marked running, under the job context with the action's
  timeout (20 minutes when none is set); the job is completed as failed exactly when the handler returned an error, with
  that error's category, and asks for a reboot only if it succeeded; and the audit record is closed with the
  same verdict, or as unknown exactly when the job store could not take it.
\<close>

theorem background_task_protocol:
  assumes "owned st (tk_entry t)" and "ad_Handler (tk_definition t) \<noteq> None"
  shows "\<exists>st' new. runBackground r jobs A t st = (st', Returns ()) \<and>
    ex_trace st' = ex_trace st @ new \<and> background_run jobs t (ex_world st) (core new) \<and>
    ex_wg st' = ex_wg st - 1 \<and> ex_tasks st' = ex_tasks st \<and>
    dropped (ex_locks st) (tk_resource t) (tk_entry t) (ex_locks st') \<and> ready (entries (ex_locks st') (tk_entry t))"
  by (rule runBackground_logs[OF assms])

theorem background_task_protocol_witness:
  "\<exists>t st' new. ex_tasks (fst (demo_run ''update'')) = [t] \<and>
     runBackground demo_registry demo_jobs_iface demo_audit_iface t (fst (demo_run ''update'')) =
       (st', Returns ()) \<and> background_run demo_jobs_iface t () (core new) \<and> ex_wg st' = 0"
proof -
  obtain t where t: "ex_tasks (fst (demo_run ''update'')) = [t]"
    using demo_background(1) by (cases "ex_tasks (fst (demo_run ''update''))") auto
  have w: "ex_wg (fst (demo_run ''update'')) = 1" "owned (fst (demo_run ''update'')) (tk_entry t)"
    "ad_Handler (tk_definition t) \<noteq> None"
    using t by (auto simp: step_defs demo_state_def demo_admit demo_audited action_stored_def
        demo_action_def demo_audit_iface_def demo_jobs_iface_def demo_admin_simps owned_def Let_def)
  from background_task_protocol[OF w(2,3), of demo_registry demo_jobs_iface demo_audit_iface] t w(1)
  show ?thesis by auto
qed

end
