(* ===== verification/Streams.thy ===== *)
theory Streams
  imports Execution
begin

text \<open>
  \<open>QueryRegistry.Execute\<close>, \<open>StreamQueryRegistry.Execute\<close>, \<open>StreamActionRegistry.Execute\<close> and the
  limiting reader (\<open>internal/broker/actions.go\<close>, \<open>streams.go\<close>). An upload runs under the same
  lock and audit protocol as a foreground action. A body is read through \<open>io.Reader\<close>: \<open>read r n\<close>
  is the call with a buffer of \<open>n\<close> bytes and returns the reader after it, the bytes and the error.
\<close>

section \<open>Queries\<close>

definition query_Execute :: "('w, 'q) query_registry \<Rightarrow> identity \<Rightarrow> string \<Rightarrow> params \<Rightarrow>
    ('w, 'q result) call" where
  "query_Execute r ident i ps w = (case map_of (qr_queries r) i of
     None \<Rightarrow> (w, Inl (Errorf ''unknown query %q'' [i]))
   | Some q \<Rightarrow> if rq_admin q \<and> \<not> Admin ident
       then (w, Inl (Errorf ''%s is not authorized for %s'' [Username ident, i]))
       else rq_handler q RequestCtx ident ps w)"

text \<open>
  The second component counts the calls of \<open>Body.Close\<close> the registry itself makes.
\<close>

definition stream_query_Execute :: "'w stream_query_registry \<Rightarrow> identity \<Rightarrow> string \<Rightarrow> params \<Rightarrow> 'w \<Rightarrow>
    'w \<times> nat \<times> stream_result result outcome" where
  "stream_query_Execute r ident i ps w = (case map_of (sqr_queries r) i of
     None \<Rightarrow> (w, 0, Returns (Inl (Errorf ''unknown stream query %q'' [i])))
   | Some d \<Rightarrow> if sq_Admin d \<and> \<not> Admin ident
       then (w, 0, Returns (Inl (Errorf ''%s is not authorized for %s'' [Username ident, i])))
       else (case validateStreamParameters (sq_Parameters d) ps of
         Some e \<Rightarrow> (w, 0, Returns (Inl (Wrapf ''stream query parameters: %w'' [] e)))
       | None \<Rightarrow> (case sq_Handler d of
           None \<Rightarrow> (w, 0, Panics)
         | Some h \<Rightarrow>
             (let timeout = (if sq_Timeout d \<le> 0 then 30 * second else sq_Timeout d) in
              case h (WithTimeout RequestCtx timeout) ident ps w of
                (w', Inl e) \<Rightarrow> (w', 0, Returns (Inl e))
              | (w', Inr res) \<Rightarrow>
                  if sr_Body res = None \<or> sr_Size res < 0 \<or> sq_Limit d < sr_Size res
                  then (w', if sr_Body res \<noteq> None then 1 else 0, Returns (Inl ErrStreamTooLarge))
                  else (w', 0, Returns (Inr res))))))"

section \<open>The limiting reader\<close>

type_synonym 'r reader = "'r \<Rightarrow> nat \<Rightarrow> 'r \<times> string \<times> error option"

definition io_EOF :: error where "io_EOF = Sentinel ''EOF''"

text \<open>\<open>int64\<close> addition wraps; \<open>io.LimitReader\<close> answers \<open>EOF\<close> once its budget is not positive.\<close>

definition wrap64 :: "int \<Rightarrow> int" where
  "wrap64 x = (x + 2 ^ 63) mod 2 ^ 64 - 2 ^ 63"

definition limited_Read :: "'r reader \<Rightarrow> 'r limited_reader \<Rightarrow> nat \<Rightarrow> 'r limited_reader \<times> string \<times> error option" where
  "limited_Read read l n = (if lim_N l \<le> 0 then (l, [], Some io_EOF)
     else (let n' = (if lim_N l < int n then nat (lim_N l) else n) in
       case read (lim_reader l) n' of (r', bs, err) \<Rightarrow>
         (\<lparr>lim_reader = r', lim_N = lim_N l - int (length bs)\<rparr>, bs, err)))"

definition newStreamLimitReader :: "'r \<Rightarrow> int \<Rightarrow> 'r stream_limit_reader" where
  "newStreamLimitReader body limit =
     \<lparr>slr_reader = \<lparr>lim_reader = body, lim_N = wrap64 (limit + 1)\<rparr>, slr_remaining = limit\<rparr>"

definition stream_Read :: "'r reader \<Rightarrow> 'r stream_limit_reader \<Rightarrow> nat \<Rightarrow>
    'r stream_limit_reader \<times> string \<times> error option" where
  "stream_Read read s n = (if slr_remaining s = 0
     then (case limited_Read read (slr_reader s) 1 of (l, bs, err) \<Rightarrow>
       (s\<lparr>slr_reader := l\<rparr>, [], if bs \<noteq> [] then Some ErrStreamTooLarge else err))
     else (let n' = (if slr_remaining s < int n then nat (slr_remaining s) else n) in
       case limited_Read read (slr_reader s) n' of (l, bs, err) \<Rightarrow>
         (\<lparr>slr_reader = l, slr_remaining = slr_remaining s - int (length bs)\<rparr>, bs, err)))"

text \<open>A handler's sequence of reads: the bytes it got and the errors it saw.\<close>

fun stream_reads :: "'r reader \<Rightarrow> 'r stream_limit_reader \<Rightarrow> nat list \<Rightarrow>
    'r stream_limit_reader \<times> string \<times> error option list" where
  "stream_reads read s [] = (s, [], [])"
| "stream_reads read s (n # ns) = (case stream_Read read s n of (s1, bs, err) \<Rightarrow>
     (case stream_reads read s1 ns of (s2, bs', errs) \<Rightarrow> (s2, bs @ bs', err # errs)))"

section \<open>Uploads\<close>

definition stream_resource_error :: "error \<Rightarrow> string \<Rightarrow> error" where
  "stream_resource_error e message = (if as_public e \<noteq> None then e else Errorf message [])"

definition stream_lock_resource :: "('w, 'r) stream_action_definition \<Rightarrow> params \<Rightarrow> string \<Rightarrow> string result" where
  "stream_lock_resource d ps resource = (case sa_LockResource d of
     None \<Rightarrow> Inr resource
   | Some f \<Rightarrow> (case f ps of
       Inl e \<Rightarrow> Inl (stream_resource_error e ''stream action lock resource is invalid'')
     | Inr lr \<Rightarrow> if \<not> validStreamResource lr
         then Inl (Errorf ''stream action lock resource is invalid'' []) else Inr lr))"

definition stream_admit :: "('w, 'r) stream_action_registry \<Rightarrow> identity \<Rightarrow> string \<Rightarrow> params \<Rightarrow>
    (('w, 'r) stream_action_definition \<times> string \<times> string) result outcome" where
  "stream_admit r ident i ps = (case map_of (sar_actions r) i of
     None \<Rightarrow> Returns (Inl (Errorf ''unknown stream action %q'' [i]))
   | Some d \<Rightarrow> if sa_Admin d \<and> \<not> Admin ident
       then Returns (Inl (Errorf ''%s is not authorized for %s'' [Username ident, i]))
       else (case validateStreamParameters (sa_Parameters d) ps of
         Some e \<Rightarrow> Returns (Inl (Wrapf ''stream action parameters: %w'' [] e))
       | None \<Rightarrow> (case sa_Resource d of
           None \<Rightarrow> Panics
         | Some resolve \<Rightarrow> (case resolve ps of
             Inl e \<Rightarrow> Returns (Inl (stream_resource_error e ''stream action resource is invalid''))
           | Inr resource \<Rightarrow> if \<not> validStreamResource resource
               then Returns (Inl (Errorf ''stream action resource is invalid'' []))
               else (case stream_lock_resource d ps resource of
                   Inl e \<Rightarrow> Returns (Inl e)
                 | Inr lr \<Rightarrow> Returns (Inr (d, resource, lr)))))))"

definition stream_ctx :: "('w, 'r) stream_action_definition \<Rightarrow> ctx" where
  "stream_ctx d = WithTimeout RequestCtx (if sa_Timeout d \<le> 0 then 15 * minute else sa_Timeout d)"

text \<open>The handler with the limited body, as a handler of the action protocol.\<close>

definition limited_handler :: "('w, 'r) stream_action_definition \<Rightarrow> 'r \<Rightarrow> 'w action_handler option" where
  "limited_handler d body = map_option (\<lambda>h ctx ident ps.
     h ctx ident ps (newStreamLimitReader body (sa_Limit d))) (sa_Handler d)"

definition stream_locked :: "('w, 'r) stream_action_registry \<Rightarrow> identity \<Rightarrow> string \<Rightarrow>
    ('w, 'r) stream_action_definition \<Rightarrow> params \<Rightarrow> 'r \<Rightarrow> string \<Rightarrow> string \<Rightarrow> nat \<Rightarrow> 'w exec_state \<Rightarrow>
    'w exec_state \<times> error option outcome" where
  "stream_locked r ident i d ps body resource lr a st =
     (case begin_audit (sar_audit r) RequestCtx \<lparr>aa_Action = i, aa_Resource = resource,
         aa_Username = Username ident, aa_UID = UID ident\<rparr> st of
        (st1, Inl e) \<Rightarrow> after_unlock lr a
          (recordProblem (sar_problems r) ProblemAuditWriteFailed (Some e) st1)
          (Some (Wrapf ''record stream action intent: %w'' [] e))
      | (st1, Inr rc) \<Rightarrow> (case run_handler (limited_handler d body) i (stream_ctx d) ident ps st1 of
          (st2, Returns actionErr) \<Rightarrow> (case sar_audit r of
            None \<Rightarrow> after_unlock lr a st2 actionErr
          | Some A \<Rightarrow> (case complete_audit A (detached (stream_ctx d)) (rec_ID rc) (outcome_of actionErr)
                (category_of actionErr) st2 of
              (st3, None) \<Rightarrow> after_unlock lr a st3 actionErr
            | (st3, Some e) \<Rightarrow>
                after_unlock lr a (recordProblem (sar_problems r) ProblemAuditWriteFailed (Some e) st3)
                  (Some (Wrapf ''stream action result is uncertain: record completion: %w'' [] e))))
        | (st2, x) \<Rightarrow> (st2, x)))"

definition stream_action_Execute :: "('w, 'r) stream_action_registry \<Rightarrow> 'w interference \<Rightarrow> identity \<Rightarrow>
    string \<Rightarrow> params \<Rightarrow> 'r \<Rightarrow> 'w exec_state \<Rightarrow> 'w exec_state \<times> error option outcome" where
  "stream_action_Execute r others ident i ps body st = (case stream_admit r ident i ps of
     Returns (Inr (d, resource, lr)) \<Rightarrow> (case acquire others lr st of
         (st1, Returns (Inl e)) \<Rightarrow> (st1, Returns (Some (Wrapf ''wait for stream action resource: %w'' [] e)))
       | (st1, Returns (Inr a)) \<Rightarrow> stream_locked r ident i d ps body resource lr a st1
       | (st1, _) \<Rightarrow> (st1, Blocks))
   | Returns (Inl e) \<Rightarrow> (st, Returns (Some e))
   | _ \<Rightarrow> (st, Panics))"

section \<open>The reader's bound\<close>

text \<open>
  What \<open>io.Reader\<close> promises, with the content that is left as a ghost: at most the buffer's
  length, taken off the front; the body's own errors are not \<open>ErrStreamTooLarge\<close>.
\<close>

definition reader_ok :: "'r reader \<Rightarrow> ('r \<Rightarrow> string) \<Rightarrow> bool" where
  "reader_ok read content \<longleftrightarrow> (\<forall>r n. case read r n of (r', bs, err) \<Rightarrow>
     length bs \<le> n \<and> content r = bs @ content r' \<and> err \<noteq> Some ErrStreamTooLarge)"

lemma reader_okD:
  "reader_ok read content \<Longrightarrow> read r n = (r', bs, err) \<Longrightarrow>
     length bs \<le> n \<and> content r = bs @ content r' \<and> err \<noteq> Some ErrStreamTooLarge"
  unfolding reader_ok_def by (metis (mono_tags, lifting) case_prod_conv)

text \<open>
  The invariant of the reader while its limit is not exhausted by an extra byte: the inner budget
  is one more than what remains, or the extra byte is gone.
\<close>

definition slr_ok :: "'r stream_limit_reader \<Rightarrow> bool" where
  "slr_ok s \<longleftrightarrow> 0 \<le> slr_remaining s \<and> (lim_N (slr_reader s) = slr_remaining s + 1 \<or>
     slr_remaining s = 0 \<and> lim_N (slr_reader s) = 0)"

abbreviation slr_content :: "('r \<Rightarrow> string) \<Rightarrow> 'r stream_limit_reader \<Rightarrow> string" where
  "slr_content content s \<equiv> content (lim_reader (slr_reader s))"

definition slr_gap :: "'r stream_limit_reader \<Rightarrow> int" where
  "slr_gap s = lim_N (slr_reader s) - slr_remaining s"

lemma stream_Read_step:
  assumes rd: "reader_ok read content" and ok: "slr_ok s" and run: "stream_Read read s n = (s', bs, err)"
  shows "slr_ok s' \<and> slr_remaining s' = slr_remaining s - int (length bs) \<and>
    (\<exists>extra. slr_content content s = bs @ extra @ slr_content content s' \<and>
       int (length extra) = slr_gap s - slr_gap s' \<and>
       (extra \<noteq> [] \<longrightarrow> slr_remaining s = 0) \<and> (err = Some ErrStreamTooLarge \<longrightarrow> extra \<noteq> []))"
proof (cases "slr_remaining s = 0")
  case True
  obtain l bs1 err1 where lr: "limited_Read read (slr_reader s) 1 = (l, bs1, err1)"
    by (cases "limited_Read read (slr_reader s) 1")
  have out: "s' = s\<lparr>slr_reader := l\<rparr>" "bs = []" "err = (if bs1 \<noteq> [] then Some ErrStreamTooLarge else err1)"
    using run True lr by (auto simp: stream_Read_def)
  show ?thesis
  proof (cases "lim_N (slr_reader s) \<le> 0")
    case True
    then show ?thesis using lr out ok \<open>slr_remaining s = 0\<close>
      by (auto simp: slr_gap_def limited_Read_def io_EOF_def ErrStreamTooLarge_def)
  next
    case False
    then have n1: "lim_N (slr_reader s) = 1" using ok True by (auto simp: slr_ok_def)
    obtain r' where r: "read (lim_reader (slr_reader s)) 1 = (r', bs1, err1)"
      and l: "l = \<lparr>lim_reader = r', lim_N = 1 - int (length bs1)\<rparr>"
      using lr n1 by (auto simp: limited_Read_def split: prod.splits)
    note R = reader_okD[OF rd r]
    then have "length bs1 = 0 \<or> length bs1 = 1" by linarith
    then show ?thesis using out l R True n1 ok by (auto simp: slr_ok_def slr_gap_def)
  qed
next
  case False
  have pos: "0 < slr_remaining s" "lim_N (slr_reader s) = slr_remaining s + 1"
    using ok False by (auto simp: slr_ok_def)
  let ?n = "if slr_remaining s < int n then nat (slr_remaining s) else n"
  have n: "\<not> lim_N (slr_reader s) < int ?n" using pos by auto
  obtain r' where r: "read (lim_reader (slr_reader s)) ?n = (r', bs, err)"
    and s': "s' = \<lparr>slr_reader = \<lparr>lim_reader = r', lim_N = lim_N (slr_reader s) - int (length bs)\<rparr>,
      slr_remaining = slr_remaining s - int (length bs)\<rparr>"
    using run False pos n by (auto simp: stream_Read_def limited_Read_def Let_def split: prod.splits)
  note R = reader_okD[OF rd r]
  have "int (length bs) \<le> slr_remaining s" using R pos by (auto split: if_splits)
  then show ?thesis using R s' pos by (auto simp: slr_ok_def slr_gap_def)
qed

lemma stream_reads_ok:
  assumes rd: "reader_ok read content"
  shows "slr_ok s \<Longrightarrow> stream_reads read s ns = (s', out, errs) \<Longrightarrow>
    slr_ok s' \<and> slr_remaining s' = slr_remaining s - int (length out) \<and>
    (\<exists>extra. slr_content content s = out @ extra @ slr_content content s' \<and>
       int (length extra) = slr_gap s - slr_gap s' \<and>
       (extra \<noteq> [] \<longrightarrow> slr_remaining s' = 0) \<and> (Some ErrStreamTooLarge \<in> set errs \<longrightarrow> extra \<noteq> []))"
proof (induction ns arbitrary: s out errs)
  case (Cons n ns)
  obtain s1 bs err where r1: "stream_Read read s n = (s1, bs, err)" by (cases "stream_Read read s n")
  obtain out1 errs1 where r2: "stream_reads read s1 ns = (s', out1, errs1)"
    and o: "out = bs @ out1" "errs = err # errs1"
    using Cons.prems(2) r1 by (auto split: prod.splits)
  obtain extra1 where s1: "slr_ok s1" "slr_remaining s1 = slr_remaining s - int (length bs)"
      "slr_content content s = bs @ extra1 @ slr_content content s1"
      "int (length extra1) = slr_gap s - slr_gap s1" "extra1 \<noteq> [] \<longrightarrow> slr_remaining s = 0"
      "err = Some ErrStreamTooLarge \<longrightarrow> extra1 \<noteq> []"
    using stream_Read_step[OF rd Cons.prems(1) r1] by blast
  obtain extra2 where s2: "slr_ok s'" "slr_remaining s' = slr_remaining s1 - int (length out1)"
      "slr_content content s1 = out1 @ extra2 @ slr_content content s'"
      "int (length extra2) = slr_gap s1 - slr_gap s'" "extra2 \<noteq> [] \<longrightarrow> slr_remaining s' = 0"
      "Some ErrStreamTooLarge \<in> set errs1 \<longrightarrow> extra2 \<noteq> []"
    using Cons.IH[OF s1(1) r2] by blast
  have ge: "0 \<le> slr_remaining s1" "0 \<le> slr_remaining s'" using s1(1) s2(1) by (simp_all add: slr_ok_def)
  have none: "out1 = [] \<and> bs = [] \<and> slr_remaining s' = 0" if "extra1 \<noteq> []"
  proof -
    have "slr_remaining s = 0" using that s1(5) by blast
    then have "length bs = 0" "length out1 = 0" "slr_remaining s' = 0"
      using s1(2) s2(2) ge by linarith+
    then show ?thesis by simp
  qed
  have app: "slr_content content s = out @ (extra1 @ extra2) @ slr_content content s'"
    using s1(3) s2(3) o(1) none by (cases "extra1 = []") simp_all
  have len: "int (length (extra1 @ extra2)) = slr_gap s - slr_gap s'" using s1(4) s2(4) by simp
  have rem: "slr_remaining s' = slr_remaining s - int (length out)" using s1(2) s2(2) o(1) by simp
  have ex: "extra1 @ extra2 \<noteq> [] \<longrightarrow> slr_remaining s' = 0" using none s2(5) by auto
  have big: "Some ErrStreamTooLarge \<in> set errs \<longrightarrow> extra1 @ extra2 \<noteq> []" using o(2) s1(6) s2(6) by auto
  show ?case using s2(1) rem app len ex big by blast
qed (auto simp: slr_gap_def)

lemma wrap64_id: "- (2 ^ 63) \<le> x \<Longrightarrow> x < 2 ^ 63 \<Longrightarrow> wrap64 x = x"
  by (simp add: wrap64_def)

section \<open>Uploads follow the action protocol\<close>

definition stream_admitted :: "('w, 'r) stream_action_registry \<Rightarrow> identity \<Rightarrow> string \<Rightarrow> params \<Rightarrow>
    ('w, 'r) stream_action_definition \<Rightarrow> string \<Rightarrow> string \<Rightarrow> bool" where
  "stream_admitted r ident i ps d resource lr \<longleftrightarrow> map_of (sar_actions r) i = Some d \<and>
     (sa_Admin d \<longrightarrow> Admin ident) \<and> validateStreamParameters (sa_Parameters d) ps = None \<and>
     (\<exists>resolve. sa_Resource d = Some resolve \<and> resolve ps = Inr resource) \<and>
     validStreamResource resource \<and> validStreamResource lr \<and> (sa_LockResource d = None \<longrightarrow> lr = resource)"

lemma stream_admit_ok:
  "stream_admit r ident i ps = Returns (Inr (d, resource, lr)) \<Longrightarrow>
     stream_admitted r ident i ps d resource lr"
  by (auto simp: stream_admit_def stream_admitted_def stream_lock_resource_def
      split: option.splits if_splits sum.splits)

definition stream_registry_ok :: "('w, 'r) stream_action_registry \<Rightarrow> bool" where
  "stream_registry_ok r \<longleftrightarrow> (\<forall>i d. map_of (sar_actions r) i = Some d \<longrightarrow>
     sa_Handler d \<noteq> None \<and> sa_Resource d \<noteq> None)"

lemma stream_registry_ok_all:
  "stream_registry_ok (register_all stream_action_Register (NewStreamActionRegistry stores) ds)"
proof -
  have "sa_Handler d \<noteq> None \<and> sa_Resource d \<noteq> None"
    if "map_of (sar_actions (register_all stream_action_Register (NewStreamActionRegistry stores) ds)) i = Some d"
    for i d
    using stream_actions.register_all_origin[OF that] by (auto simp: NewStreamActionRegistry_def)
  then show ?thesis by (simp add: stream_registry_ok_def)
qed

lemma stream_locked_logs:
  assumes lk: "logs st0 [Locked lr a] st" and own: "owned st a" and h: "sa_Handler d \<noteq> None"
  shows "\<exists>st' err evs. stream_locked r ident i d ps body resource lr a st = (st', Returns err) \<and>
    logs st0 evs st' \<and>
    (evs = [Locked lr a, Unlocked lr] \<and> sar_audit r \<noteq> None \<and> err \<noteq> None \<or>
     (\<exists>rid oc cat w. evs = Locked lr a #
        (if sar_audit r \<noteq> None then [Began \<lparr>aa_Action = i, aa_Resource = resource,
           aa_Username = Username ident, aa_UID = UID ident\<rparr> rid] else []) @
        Handled i ps (stream_ctx d) w #
        (if sar_audit r \<noteq> None then [Completed rid oc cat (detached (stream_ctx d))] else []) @
        [Unlocked lr]))"
proof -
  let ?att = "\<lparr>aa_Action = i, aa_Resource = resource, aa_Username = Username ident, aa_UID = UID ident\<rparr>"
  obtain st1 res where bg: "begin_audit (sar_audit r) RequestCtx ?att st = (st1, res)"
    by (cases "begin_audit (sar_audit r) RequestCtx ?att st")
  note b = begin_audit_logs[OF bg]
  have own1: "owned st1 a" using own b by (simp add: owned_def)
  show ?thesis
  proof (cases res)
    case (Inl e)
    let ?st2 = "recordProblem (sar_problems r) ProblemAuditWriteFailed (Some e) st1"
    let ?err = "Some (Wrapf ''record stream action intent: %w'' [] e)"
    have "owned ?st2 a" using own1 by (simp add: owned_def)
    then obtain st' where u: "after_unlock lr a ?st2 ?err = (st', Returns ?err)"
      "logs ?st2 [Unlocked lr] st'" by (rule after_unlock_owned)
    have bl: "logs st [] st1" "sar_audit r \<noteq> None" using b Inl by simp_all
    have "logs st0 ([Locked lr a] @ [] @ [] @ [Unlocked lr]) st'"
      using logs_trans[OF lk logs_trans[OF bl(1) logs_trans[OF logs_recordProblem u(2)]]] .
    moreover have "stream_locked r ident i d ps body resource lr a st = (st', Returns ?err)"
      using bg Inl u(1) by (simp add: stream_locked_def)
    ultimately show ?thesis using bl(2) by auto
  next
    case (Inr rc)
    have h': "limited_handler d body \<noteq> None" using h by (simp add: limited_handler_def)
    obtain st2 out where run: "run_handler (limited_handler d body) i (stream_ctx d) ident ps st1 = (st2, out)"
      by (cases "run_handler (limited_handler d body) i (stream_ctx d) ident ps st1")
    obtain err where out: "out = Returns err"
      and l2: "logs st1 [Handled i ps (stream_ctx d) (ex_world st1)] st2" "ex_locks st2 = ex_locks st1"
      using run_handler_logs[OF h' run] by blast
    have own2: "owned st2 a" using own1 l2 by (simp add: owned_def)
    show ?thesis
    proof (cases "sar_audit r")
      case None
      obtain st' where u: "after_unlock lr a st2 err = (st', Returns err)" "logs st2 [Unlocked lr] st'"
        using own2 by (rule after_unlock_owned)
      have "logs st [] st1" using b Inr None by simp
      from logs_trans[OF lk logs_trans[OF this logs_trans[OF l2(1) u(2)]]]
      show ?thesis using bg Inr run out None u(1) by (auto simp: stream_locked_def)
    next
      case (Some A)
      let ?oc = "outcome_of err" and ?cat = "category_of err" and ?ctx = "detached (stream_ctx d)"
      obtain st3 e where c: "complete_audit A ?ctx (rec_ID rc) ?oc ?cat st2 = (st3, e)"
        by (cases "complete_audit A ?ctx (rec_ID rc) ?oc ?cat st2")
      note cl = complete_audit_logs[OF c]
      let ?st4 = "case e of None \<Rightarrow> st3
        | Some _ \<Rightarrow> recordProblem (sar_problems r) ProblemAuditWriteFailed e st3"
      let ?ret = "case e of None \<Rightarrow> err
        | Some e \<Rightarrow> Some (Wrapf ''stream action result is uncertain: record completion: %w'' [] e)"
      have l4: "logs st3 [] ?st4" "ex_locks ?st4 = ex_locks st2" using cl by (auto split: option.splits)
      have "owned ?st4 a" using own2 l4(2) by (simp add: owned_def)
      then obtain st' where u: "after_unlock lr a ?st4 ?ret = (st', Returns ?ret)" "logs ?st4 [Unlocked lr] st'"
        by (rule after_unlock_owned)
      have bl: "logs st [Began ?att (rec_ID rc)] st1" using b Inr Some by simp
      note lg = logs_trans[OF lk logs_trans[OF bl logs_trans[OF l2(1) logs_trans[OF conjunct1[OF cl]
            logs_trans[OF l4(1) u(2)]]]]]
      have "stream_locked r ident i d ps body resource lr a st = (st', Returns ?ret)"
        using bg Inr run out Some c u(1) by (cases e) (simp_all add: stream_locked_def)
      then show ?thesis using lg Some by (intro exI[of _ st'] exI[of _ ?ret] exI conjI) auto
    qed
  qed
qed

section \<open>Properties\<close>

text \<open>
  Upload limit. Whatever buffers a handler reads with, the limiting reader gives it at most
  the registered number of bytes, in order from the body, takes at most one byte more from the
  body, and reports \<open>ErrStreamTooLarge\<close> only when the body really is longer than the limit.
\<close>

theorem upload_limit:
  assumes "reader_ok read content" and "0 \<le> limit" and "limit < 2 ^ 63 - 1"
    and "stream_reads read (newStreamLimitReader body limit) ns = (s', out, errs)"
  shows "int (length out) \<le> limit \<and>
    (\<exists>extra. content body = out @ extra @ slr_content content s' \<and> length extra \<le> 1) \<and>
    (Some ErrStreamTooLarge \<in> set errs \<longrightarrow> limit < int (length (content body)))"
proof -
  let ?s = "newStreamLimitReader body limit"
  have w: "wrap64 (limit + 1) = limit + 1" using assms(2,3) by (intro wrap64_id) simp_all
  have ok: "slr_ok ?s" using assms(2) w by (simp add: slr_ok_def newStreamLimitReader_def)
  have init: "slr_remaining ?s = limit" "slr_gap ?s = 1" "slr_content content ?s = content body"
    using w by (simp_all add: newStreamLimitReader_def slr_gap_def)
  obtain extra where s': "slr_ok s'" "slr_remaining s' = limit - int (length out)"
      "content body = out @ extra @ slr_content content s'"
      "int (length extra) = 1 - slr_gap s'" "extra \<noteq> [] \<longrightarrow> slr_remaining s' = 0"
      "Some ErrStreamTooLarge \<in> set errs \<longrightarrow> extra \<noteq> []"
    using stream_reads_ok[OF assms(1) ok assms(4)] unfolding init by blast
  have gap: "0 \<le> slr_gap s'" "0 \<le> slr_remaining s'" using s'(1) by (auto simp: slr_ok_def slr_gap_def)
  have "length extra \<le> 1" using s'(4) gap(1) by linarith
  moreover have "int (length out) \<le> limit" using s'(2) gap(2) by linarith
  moreover have "limit < int (length (content body))" if "Some ErrStreamTooLarge \<in> set errs"
  proof -
    have "extra \<noteq> []" "slr_remaining s' = 0" using that s'(5,6) by blast+
    then show ?thesis using s'(2,3) by (cases extra) auto
  qed
  ultimately show ?thesis using s'(3) by blast
qed

definition string_reader :: "string reader" where
  "string_reader s n = (drop n s, take n s, if s = [] then Some io_EOF else None)"

theorem upload_limit_witness:
  "\<exists>s' out errs. stream_reads string_reader (newStreamLimitReader ''hello'' 3) [2, 4, 4] = (s', out, errs) \<and>
     int (length out) \<le> 3 \<and> (3::int) < int (length ''hello'')"
proof -
  have rd: "reader_ok string_reader id"
    by (auto simp: reader_ok_def string_reader_def io_EOF_def ErrStreamTooLarge_def)
  obtain s' out errs where run:
    "stream_reads string_reader (newStreamLimitReader ''hello'' 3) [2, 4, 4] = (s', out, errs)"
    by (cases "stream_reads string_reader (newStreamLimitReader ''hello'' 3) [2, 4, 4]") auto
  have "Some ErrStreamTooLarge \<in> set errs"
    using run by (auto simp: newStreamLimitReader_def wrap64_def stream_Read_def limited_Read_def
        string_reader_def numeral_nat)
  then show ?thesis using upload_limit[OF rd _ _ run] run by auto
qed

text \<open>
  C23. Uploads are guarded. If a stream action calls its handler, the action is registered, the
  identity is authorized, metadata and resource are valid, and the call happened under the
  resource lock, after the intent and before the outcome was audited; on every return the lock
  has been released, and nothing panics.
\<close>

theorem upload_guarded:
  assumes "stream_registry_ok r" and "stream_action_Execute r others ident i ps body st = (st', out)"
  shows "out \<noteq> Panics \<and> (\<exists>evs. logs st evs st' \<and> (evs = [] \<or>
    (\<exists>d resource lr a. stream_admitted r ident i ps d resource lr \<and>
      (evs = [Locked lr a, Unlocked lr] \<or>
       (\<exists>rid oc cat w. evs = Locked lr a #
         (if sar_audit r \<noteq> None then [Began \<lparr>aa_Action = i, aa_Resource = resource,
            aa_Username = Username ident, aa_UID = UID ident\<rparr> rid] else []) @
         Handled i ps (stream_ctx d) w #
         (if sar_audit r \<noteq> None then [Completed rid oc cat (detached (stream_ctx d))] else []) @
         [Unlocked lr])))))"
proof -
  consider (refused) e where "stream_admit r ident i ps = Returns (Inl e)"
    | (ok) d resource lr where "stream_admit r ident i ps = Returns (Inr (d, resource, lr))"
  proof -
    have "stream_admit r ident i ps \<noteq> Panics"
    proof
      assume p: "stream_admit r ident i ps = Panics"
      then obtain d where d: "map_of (sar_actions r) i = Some d"
        by (auto simp: stream_admit_def split: option.splits)
      moreover have "sa_Resource d = None"
        using p d by (auto simp: stream_admit_def split: option.splits sum.splits if_splits)
      ultimately show False using assms(1) unfolding stream_registry_ok_def by blast
    qed
    moreover have "stream_admit r ident i ps \<noteq> Blocks"
      by (auto simp: stream_admit_def split: option.splits sum.splits)
    ultimately show ?thesis using that
      by (cases "stream_admit r ident i ps") (metis sum.exhaust prod.exhaust)+
  qed
  then show ?thesis
  proof cases
    case refused
    then show ?thesis using assms(2) by (auto simp: stream_action_Execute_def intro: exI[of _ "[]"])
  next
    case ok
    note ad = stream_admit_ok[OF ok]
    have h: "sa_Handler d \<noteq> None"
      using assms(1) ad unfolding stream_registry_ok_def stream_admitted_def by blast
    obtain st1 got where acq: "acquire others lr st = (st1, got)" by (cases "acquire others lr st")
    show ?thesis
    proof (cases "\<exists>a. got = Returns (Inr a)")
      case True
      then obtain a where a: "got = Returns (Inr a)" by blast
      note t = acquire_ok[OF acq[unfolded a]]
      have "stream_action_Execute r others ident i ps body st =
          stream_locked r ident i d ps body resource lr a st1"
        using ok acq a by (simp add: stream_action_Execute_def)
      then show ?thesis
        using stream_locked_logs[OF t(1,2) h, of r ident i ps body resource] assms(2) ad
        by (metis outcome.distinct(1) prod.inject)
    next
      case False
      then have "logs st [] st1" using acquire_other[OF acq] by blast
      moreover have "st' = st1 \<and> out \<noteq> Panics"
        using assms(2) ok acq False
        by (auto simp: stream_action_Execute_def split: outcome.splits sum.splits)
      ultimately show ?thesis by blast
    qed
  qed
qed

definition demo_upload :: "(unit, string) stream_action_definition" where
  "demo_upload = \<lparr>sa_ID = ''files.upload'', sa_Admin = True, sa_Parameters = [''root''],
     sa_Limit = 10, sa_Timeout = 0, sa_Resource = Some (\<lambda>ps. Inr (param ps ''root'')),
     sa_LockResource = None, sa_Handler = Some (\<lambda>_ _ _ _ w. (w, None))\<rparr>"

theorem upload_guarded_witness:
  "\<exists>st' out. stream_action_Execute (register_all stream_action_Register
       (NewStreamActionRegistry [demo_audit_iface]) [demo_upload]) alone demo_admin ''files.upload''
       [(''root'', ''data'')] ''hello'' demo_state = (st', out) \<and> out \<noteq> Panics \<and>
     (\<exists>evs. logs demo_state evs st')"
proof -
  obtain st' out where run: "stream_action_Execute (register_all stream_action_Register
       (NewStreamActionRegistry [demo_audit_iface]) [demo_upload]) alone demo_admin ''files.upload''
       [(''root'', ''data'')] ''hello'' demo_state = (st', out)"
    by (metis prod.exhaust)
  then show ?thesis using upload_guarded[OF stream_registry_ok_all run] by blast
qed

text \<open>
  Downloads and queries are authorized and bounded. A query that needs an administrator and
  does not have one runs nothing; a stream query returns a body only for an authorized identity
  and valid metadata, with a size between 0 and the registered limit, and closes a body it
  refuses.
\<close>

theorem queries_authorized:
  "(\<forall>q. map_of (qr_queries r) i = Some q \<longrightarrow> rq_admin q \<longrightarrow> \<not> Admin ident \<longrightarrow>
      fst (query_Execute r ident i ps w) = w \<and> \<not> is_ok (snd (query_Execute r ident i ps w))) \<and>
   (\<forall>w' n res. stream_query_Execute sr ident i ps v = (w', n, Returns (Inr res)) \<longrightarrow>
      n = 0 \<and> (\<exists>d. map_of (sqr_queries sr) i = Some d \<and> (sq_Admin d \<longrightarrow> Admin ident) \<and>
        validateStreamParameters (sq_Parameters d) ps = None \<and> sr_Body res \<noteq> None \<and>
        0 \<le> sr_Size res \<and> sr_Size res \<le> sq_Limit d))"
  by (auto simp: query_Execute_def stream_query_Execute_def Let_def not_less
      split: option.splits if_splits prod.splits sum.splits)

definition demo_download :: "unit stream_query_definition" where
  "demo_download = \<lparr>sq_ID = ''files.download'', sq_Admin = False, sq_Parameters = [], sq_Limit = 10,
     sq_Timeout = 0, sq_Handler = Some (\<lambda>_ _ _ w. (w, Inr \<lparr>sr_Body = Some ''hi'', sr_Filename = ''f'',
       sr_MediaType = ''text/plain'', sr_Size = 2\<rparr>))\<rparr>"

theorem queries_authorized_witness:
  "\<exists>res. stream_query_Execute (register_all stream_query_Register NewStreamQueryRegistry [demo_download])
       demo_admin ''files.download'' [] () = ((), 0, Returns (Inr res)) \<and>
     sr_Body res \<noteq> None \<and> 0 \<le> sr_Size res"
proof -
  let ?r = "register_all stream_query_Register NewStreamQueryRegistry [demo_download]"
  obtain res where run: "stream_query_Execute ?r demo_admin ''files.download'' [] () = ((), 0, Returns (Inr res))"
    by (simp add: register_all_def stream_query_Register_def NewStreamQueryRegistry_def demo_download_def
        registeredStreamParameters_def stream_query_Execute_def validateStreamParameters_def Let_def)
  show ?thesis
    using queries_authorized[of "NewQueryRegistry :: (unit, unit) query_registry" "''files.download''"
        demo_admin "[]" "()" ?r "()"] run by blast
qed

end
