(* ===== verification/Comparison_Sort.thy ===== *)
theory Comparison_Sort
  imports Prelude "HOL-Library.Multiset"
begin

text \<open>
  Sorting by a comparison that returns a signed number, as \<open>slices.SortFunc\<close> and \<open>slices.SortStableFunc\<close> do, and
  what the result is for every comparison that is total and transitive.
\<close>

text \<open>\<open>slices.SortStableFunc\<close>, as insertion into a sorted list.\<close>

fun insert_by :: "('a \<Rightarrow> 'a \<Rightarrow> int) \<Rightarrow> 'a \<Rightarrow> 'a list \<Rightarrow> 'a list" where
  "insert_by cmp x [] = [x]"
| "insert_by cmp x (y # ys) = (if cmp x y \<le> 0 then x # y # ys else y # insert_by cmp x ys)"

definition sort_by :: "('a \<Rightarrow> 'a \<Rightarrow> int) \<Rightarrow> 'a list \<Rightarrow> 'a list" where
  "sort_by cmp xs = foldr (insert_by cmp) xs []"

text \<open>What \<open>slices.SortFunc\<close> asks of a comparison, and what it then delivers.\<close>

locale int_comparison =
  fixes cmp :: "'a \<Rightarrow> 'a \<Rightarrow> int"
  assumes total_cmp: "cmp a b \<le> 0 \<or> cmp b a \<le> 0"
    and trans_cmp: "cmp a b \<le> 0 \<Longrightarrow> cmp b c \<le> 0 \<Longrightarrow> cmp a c \<le> 0"
begin

abbreviation in_order :: "'a list \<Rightarrow> bool" where
  "in_order \<equiv> sorted_wrt (\<lambda>a b. cmp a b \<le> 0)"

lemma mset_insert_by [simp]: "mset (insert_by cmp x xs) = add_mset x (mset xs)"
  by (induction xs) auto

lemma set_insert_by: "set (insert_by cmp x xs) = insert x (set xs)"
  by (metis mset_insert_by set_mset_add_mset_insert set_mset_mset)

lemma insert_by_in_order: "in_order xs \<Longrightarrow> in_order (insert_by cmp x xs)"
proof (induction xs)
  case (Cons y ys)
  then show ?case using total_cmp[of x y] trans_cmp[of x y] by (auto simp: set_insert_by)
qed simp

lemma mset_sort_by: "mset (sort_by cmp xs) = mset xs"
  by (induction xs) (simp_all add: sort_by_def)

lemma sort_by_in_order: "in_order (sort_by cmp xs)"
  by (induction xs) (simp_all add: sort_by_def insert_by_in_order)

end

text \<open>\<open>strings.Compare\<close>, and sorting records by one of their strings.\<close>

definition string_Compare :: "string \<Rightarrow> string \<Rightarrow> int" where
  "string_Compare a b = (if a < b then -1 else if a = b then 0 else 1)"

definition by_string :: "('a \<Rightarrow> string) \<Rightarrow> 'a \<Rightarrow> 'a \<Rightarrow> int" where
  "by_string f a b = string_Compare (f a) (f b)"

interpretation string_order: int_comparison "by_string f" for f
  by unfold_locales (auto simp: by_string_def string_Compare_def split: if_splits)

lemma set_sort_by_string [simp]: "set (sort_by (by_string f) xs) = set xs"
  by (metis string_order.mset_sort_by set_mset_mset)

end
