(* ===== verification/Files_Manager.thy ===== *)
theory Files_Manager
  imports Files_Config Streams Comparison_Sort
begin

text \<open>
  The privileged half of the file browser (\<open>internal/modules/files/manager_linux.go\<close> and the manager of
  \<open>config.go\<close>): listings, downloads and uploads below the configured roots. The kernel is a record of system
  calls on the world \<open>'w\<close>; the manager keeps the calls it lets tests replace as fields, as the code does. The
  two loops whose end depends on the kernel or on the body of a request run with fuel and answer \<open>None\<close> when it
  runs out; section \<open>Both transfers end\<close> shows that the fuel chosen is enough.
\<close>

section \<open>The kernel and the manager\<close>

definition ENOSYS :: error where "ENOSYS = Sentinel ''function not implemented''"
definition ENOTDIR :: error where "ENOTDIR = Sentinel ''not a directory''"
definition ELOOP :: error where "ELOOP = Sentinel ''too many levels of symbolic links''"
definition EXDEV :: error where "EXDEV = Sentinel ''invalid cross-device link''"
definition EOPNOTSUPP :: error where "EOPNOTSUPP = Sentinel ''operation not supported''"
definition EINVAL :: error where "EINVAL = Sentinel ''invalid argument''"

definition O_NOFOLLOW :: nat where "O_NOFOLLOW = 0x20000"
definition O_NONBLOCK :: nat where "O_NONBLOCK = 0x800"
definition S_IFREG :: nat where "S_IFREG = 0x8000"
definition S_IFLNK :: nat where "S_IFLNK = 0xA000"

definition directoryBatchSize :: nat where "directoryBatchSize = 128"

record stat_t =
  st_Size :: int
  st_Mtim :: int
  st_Uid :: nat
  st_Gid :: nat
  st_Mode :: nat

record 'w files_kernel =
  fk_open :: "string \<Rightarrow> nat \<Rightarrow> 'w \<Rightarrow> int result \<times> 'w"
  fk_close :: "int \<Rightarrow> 'w \<Rightarrow> error option \<times> 'w"
  fk_dup :: "int \<Rightarrow> 'w \<Rightarrow> int result \<times> 'w"
  fk_openat2 :: "int \<Rightarrow> string \<Rightarrow> open_how \<Rightarrow> 'w \<Rightarrow> int result \<times> 'w"
  fk_tmpfile :: "int \<Rightarrow> 'w \<Rightarrow> int result \<times> 'w"
  fk_readdir :: "int \<Rightarrow> nat \<Rightarrow> 'w \<Rightarrow> (string list \<times> error option) \<times> 'w"
  fk_fstat :: "int \<Rightarrow> 'w \<Rightarrow> stat_t result \<times> 'w"
  fk_fstatat :: "int \<Rightarrow> string \<Rightarrow> 'w \<Rightarrow> stat_t result \<times> 'w"
  fk_readlinkat :: "int \<Rightarrow> string \<Rightarrow> 'w \<Rightarrow> string result \<times> 'w"
  fk_write :: "int \<Rightarrow> string \<Rightarrow> 'w \<Rightarrow> int result \<times> 'w"
  fk_fchown :: "int \<Rightarrow> int \<Rightarrow> int \<Rightarrow> 'w \<Rightarrow> error option \<times> 'w"
  fk_fchmod :: "int \<Rightarrow> nat \<Rightarrow> 'w \<Rightarrow> error option \<times> 'w"
  fk_fsync :: "int \<Rightarrow> 'w \<Rightarrow> error option \<times> 'w"
  fk_linkat :: "int \<Rightarrow> int \<Rightarrow> string \<Rightarrow> 'w \<Rightarrow> error option \<times> 'w"
  fk_user :: "nat \<Rightarrow> string option"
  fk_group :: "nat \<Rightarrow> string option"

record root_descriptor =
  rd_Root :: root
  rd_fd :: int

record 'w files_manager =
  fm_roots :: "(string, root_descriptor) gomap"
  fm_maxTransfer :: int
  fm_maxEntries :: nat
  fm_maxScanned :: nat
  fm_maxJSONBytes :: nat
  fm_closeFD :: "int \<Rightarrow> 'w \<Rightarrow> error option \<times> 'w"
  fm_openTmpfile :: "int \<Rightarrow> 'w \<Rightarrow> int result \<times> 'w"
  fm_writeFD :: "int \<Rightarrow> string \<Rightarrow> 'w \<Rightarrow> int result \<times> 'w"
  fm_chownFD :: "int \<Rightarrow> int \<Rightarrow> int \<Rightarrow> 'w \<Rightarrow> error option \<times> 'w"
  fm_syncFD :: "int \<Rightarrow> 'w \<Rightarrow> error option \<times> 'w"
  fm_syncDirFD :: "int \<Rightarrow> 'w \<Rightarrow> error option \<times> 'w"
  fm_linkat :: "int \<Rightarrow> int \<Rightarrow> string \<Rightarrow> 'w \<Rightarrow> error option \<times> 'w"
  fm_closed :: bool
  fm_closeErr :: "error option"

fun check_specs :: "string list \<Rightarrow> root_spec list \<Rightarrow> error option" where
  "check_specs ids [] = None"
| "check_specs ids (s # ss) =
     (if \<not> rootIDPattern (rsp_ID s) then Some (Errorf ''invalid root id'' [])
      else if List.member ids (rsp_ID s) then Some (Errorf ''duplicate root id %q'' [rsp_ID s])
      else check_specs (rsp_ID s # ids) ss)"

fun close_roots :: "'w files_kernel \<Rightarrow> root_descriptor list \<Rightarrow> error option \<Rightarrow> 'w \<Rightarrow> error option \<times> 'w" where
  "close_roots K [] err w = (err, w)"
| "close_roots K (r # rs) err w = (case fk_close K (rd_fd r) w of
     (None, w1) \<Rightarrow> close_roots K rs err w1
   | (Some e, w1) \<Rightarrow> close_roots K rs (Some (case err of None \<Rightarrow> e | Some e0 \<Rightarrow> Joined e0 e)) w1)"

definition files_Close :: "'w files_kernel \<Rightarrow> 'w files_manager \<Rightarrow> 'w \<Rightarrow> error option \<times> 'w files_manager \<times> 'w" where
  "files_Close K m w = (if fm_closed m then (fm_closeErr m, m, w)
     else (let (err, w1) = close_roots K (map snd (fm_roots m)) (fm_closeErr m) w
           in (err, m\<lparr>fm_closed := True, fm_closeErr := err\<rparr>, w1)))"

definition root_of :: "root_spec \<Rightarrow> root" where
  "root_of s = \<lparr>rt_ID = rsp_ID s, rt_Path = rsp_Path s, rt_Writable = rsp_Writable s\<rparr>"

fun open_roots :: "'w files_kernel \<Rightarrow> root_spec list \<Rightarrow> 'w files_manager \<Rightarrow> 'w \<Rightarrow> 'w files_manager result \<times> 'w" where
  "open_roots K [] m w = (Inr m, w)"
| "open_roots K (s # ss) m w =
     (case fk_open K (rsp_Path s) (O_PATH OR O_DIRECTORY OR O_CLOEXEC OR O_NOFOLLOW) w of
        (Inl e, w1) \<Rightarrow> (Inl (Wrapf ''open root %q: %w'' [rsp_ID s] e), snd (snd (files_Close K m w1)))
      | (Inr fd, w1) \<Rightarrow>
          open_roots K ss (m\<lparr>fm_roots := AList.update (rsp_ID s) \<lparr>rd_Root = root_of s, rd_fd = fd\<rparr> (fm_roots m)\<rparr>) w1)"

definition NewFilesManager :: "'w files_kernel \<Rightarrow> root_spec list \<Rightarrow> 'w \<Rightarrow> 'w files_manager result \<times> 'w" where
  "NewFilesManager K specs w =
     (if length specs > MaxRoots then (Inl (Errorf ''maximum number of roots exceeded'' []), w)
      else (case check_specs [] specs of Some e \<Rightarrow> (Inl e, w)
      | None \<Rightarrow> open_roots K specs
          \<lparr>fm_roots = [], fm_maxTransfer = MaxTransferBytes, fm_maxEntries = MaxEntries,
           fm_maxScanned = MaxScannedEntries, fm_maxJSONBytes = maxEntryJSONBytes, fm_closeFD = fk_close K,
           fm_openTmpfile = fk_tmpfile K, fm_writeFD = fk_write K, fm_chownFD = fk_fchown K,
           fm_syncFD = fk_fsync K, fm_syncDirFD = fk_fsync K, fm_linkat = fk_linkat K,
           fm_closed = False, fm_closeErr = None\<rparr> w))"

section \<open>Opening below a root\<close>

definition beneath_how :: "nat \<Rightarrow> open_how" where
  "beneath_how flags = \<lparr>how_Flags = flags OR O_CLOEXEC,
     how_Resolve = RESOLVE_BENEATH OR RESOLVE_NO_MAGICLINKS OR RESOLVE_NO_SYMLINKS\<rparr>"

definition beneath_error :: "error \<Rightarrow> error" where
  "beneath_error e = (if errors_is e ENOSYS then Wrapf ''%w: openat2 unsupported'' [] ErrUnavailable
     else if errors_is e ENOENT \<or> errors_is e ENOTDIR \<or> errors_is e ELOOP \<or> errors_is e EXDEV then ErrNotFound
     else Wrapf ''open beneath root: %w'' [] e)"

definition open_at :: "'w files_kernel \<Rightarrow> int \<Rightarrow> string \<Rightarrow> nat \<Rightarrow> 'w \<Rightarrow> int result \<times> 'w" where
  "open_at K fd path flags w = (case fk_openat2 K fd path (beneath_how flags) w of
     (Inl e, w1) \<Rightarrow> (Inl (beneath_error e), w1) | (Inr fd', w1) \<Rightarrow> (Inr fd', w1))"

definition openBeneath :: "'w files_kernel \<Rightarrow> int \<Rightarrow> string \<Rightarrow> nat \<Rightarrow> 'w \<Rightarrow> int result \<times> 'w" where
  "openBeneath K rootFD path flags w =
     (if path = [] then
        (case fk_dup K rootFD w of
           (Inl e, w1) \<Rightarrow> (Inl (Wrapf ''duplicate root descriptor: %w'' [] e), w1)
         | (Inr fd, w1) \<Rightarrow> (case open_at K fd ''.'' flags w1 of (r, w2) \<Rightarrow> (r, snd (fk_close K fd w2))))
      else open_at K rootFD path flags w)"

section \<open>Listing\<close>

definition lookupUser :: "'w files_kernel \<Rightarrow> nat \<Rightarrow> string" where
  "lookupUser K uid = (case fk_user K uid of None \<Rightarrow> format_uint uid
     | Some name \<Rightarrow> if name = [] then format_uint uid else name)"

definition lookupGroup :: "'w files_kernel \<Rightarrow> nat \<Rightarrow> string" where
  "lookupGroup K gid = (case fk_group K gid of None \<Rightarrow> format_uint gid
     | Some name \<Rightarrow> if name = [] then format_uint gid else name)"

definition entryType :: "nat \<Rightarrow> entry_type" where
  "entryType mode = (if mode AND S_IFMT = S_IFREG then EntryRegular
     else if mode AND S_IFMT = S_IFDIR then EntryDirectory
     else if mode AND S_IFMT = S_IFLNK then EntrySymlink else EntryOther)"

definition entryAt :: "'w files_kernel \<Rightarrow> int \<Rightarrow> string \<Rightarrow> 'w \<Rightarrow> files_entry result \<times> 'w" where
  "entryAt K fd name w = (case fk_fstatat K fd name w of
     (Inl e, w1) \<Rightarrow> (Inl e, w1)
   | (Inr stat, w1) \<Rightarrow>
       (let entry = \<lparr>fe_Name = name, fe_Type = entryType (st_Mode stat), fe_Size = st_Size stat,
              fe_Modified = st_Mtim stat, fe_UID = st_Uid stat, fe_GID = st_Gid stat,
              fe_Owner = lookupUser K (st_Uid stat), fe_Group = lookupGroup K (st_Gid stat),
              fe_Mode = st_Mode stat, fe_LinkTarget = []\<rparr>
        in if fe_Type entry = EntrySymlink then
             (case fk_readlinkat K fd name w1 of
                (Inl e, w2) \<Rightarrow> (Inl e, w2) | (Inr target, w2) \<Rightarrow> (Inr (entry\<lparr>fe_LinkTarget := target\<rparr>), w2))
           else (Inr entry, w1)))"

definition listed :: "(string \<Rightarrow> string) \<Rightarrow> list_request \<Rightarrow> string \<Rightarrow> bool" where
  "listed lower request name \<longleftrightarrow> \<not> (\<not> lr_Hidden request \<and> prefix ''.'' name) \<and>
     contains (to_lower lower name) (to_lower lower (lr_Filter request))"

text \<open>One batch of names: the number scanned, the found so far and whether the limit was hit.\<close>

fun scan_batch :: "'w files_kernel \<Rightarrow> (string \<Rightarrow> string) \<Rightarrow> nat \<Rightarrow> int \<Rightarrow> list_request \<Rightarrow> string list \<Rightarrow> nat \<Rightarrow>
    files_entry list \<Rightarrow> 'w \<Rightarrow> (nat \<times> files_entry list \<times> bool) result \<times> 'w" where
  "scan_batch K lower limit fd request [] scanned found w = (Inr (scanned, found, False), w)"
| "scan_batch K lower limit fd request (name # names) scanned found w =
     (if scanned + 1 > limit then (Inr (scanned + 1, found, True), w)
      else if \<not> listed lower request name then scan_batch K lower limit fd request names (scanned + 1) found w
      else (case entryAt K fd name w of
          (Inl e, w1) \<Rightarrow>
            if errors_is e ENOENT then scan_batch K lower limit fd request names (scanned + 1) found w1
            else (Inl (Wrapf ''read directory entry: %w'' [] e), w1)
        | (Inr entry, w1) \<Rightarrow>
            scan_batch K lower limit fd request names (scanned + 1) (found @ [entry]) w1))"

fun scan_directory :: "nat \<Rightarrow> 'w files_kernel \<Rightarrow> ('w \<Rightarrow> error option) \<Rightarrow> (string \<Rightarrow> string) \<Rightarrow> nat \<Rightarrow> int \<Rightarrow> int \<Rightarrow>
    list_request \<Rightarrow> nat \<Rightarrow> files_entry list \<Rightarrow> 'w \<Rightarrow> ((files_entry list \<times> bool) result \<times> 'w) option" where
  "scan_directory 0 K ctx lower limit fd directory request scanned found w = None"
| "scan_directory (Suc fuel) K ctx lower limit fd directory request scanned found w =
     (case ctx w of Some e \<Rightarrow> Some (Inl e, w)
      | None \<Rightarrow> (case fk_readdir K directory directoryBatchSize w of
          ((batch, err), w1) \<Rightarrow> (case scan_batch K lower limit fd request batch scanned found w1 of
            (Inl e, w2) \<Rightarrow> Some (Inl e, w2)
          | (Inr (scanned', found', truncated), w2) \<Rightarrow>
              if truncated \<or> (case err of None \<Rightarrow> False | Some e \<Rightarrow> errors_is e io_EOF)
              then Some (Inr (found', truncated), w2)
              else (case err of
                  Some e \<Rightarrow> Some (Inl (Wrapf ''read directory: %w'' [] e), w2)
                | None \<Rightarrow> scan_directory fuel K ctx lower limit fd directory request scanned' found' w2))))"

definition compareInt64 :: "int \<Rightarrow> int \<Rightarrow> int" where
  "compareInt64 a b = (if a < b then -1 else if a > b then 1 else 0)"

definition compareUint32 :: "nat \<Rightarrow> nat \<Rightarrow> int" where
  "compareUint32 a b = (if a < b then -1 else if a > b then 1 else 0)"

definition compareEntries :: "files_entry \<Rightarrow> files_entry \<Rightarrow> string \<Rightarrow> int" where
  "compareEntries a b field =
     (if field = ''size'' then compareInt64 (fe_Size a) (fe_Size b)
      else if field = ''modified'' then compareInt64 (fe_Modified a) (fe_Modified b)
      else if field = ''owner'' then string_Compare (fe_Owner a) (fe_Owner b)
      else if field = ''permissions'' then compareUint32 (fe_Mode a AND 0xFFF) (fe_Mode b AND 0xFFF)
      else string_Compare (fe_Name a) (fe_Name b))"

definition entry_order :: "string \<Rightarrow> string \<Rightarrow> files_entry \<Rightarrow> files_entry \<Rightarrow> int" where
  "entry_order field direction a b =
     (if (fe_Type a = EntryDirectory) \<noteq> (fe_Type b = EntryDirectory)
      then (if fe_Type a = EntryDirectory then -1 else 1)
      else (let comparison = compareEntries a b field in
        if comparison \<noteq> 0 then (if direction = ''desc'' then - comparison else comparison)
        else string_Compare (fe_Name a) (fe_Name b)))"

definition sortEntries :: "files_entry list \<Rightarrow> string \<Rightarrow> string \<Rightarrow> files_entry list" where
  "sortEntries found field direction = sort_by (entry_order field direction) found"

text \<open>\<open>enc\<close> is the length of the JSON encoding of an entry.\<close>

fun bound_entries :: "(files_entry \<Rightarrow> nat result) \<Rightarrow> nat \<Rightarrow> nat \<Rightarrow> files_entry list \<Rightarrow> files_entry list \<Rightarrow> nat \<Rightarrow>
    (files_entry list \<times> bool) result" where
  "bound_entries enc limit bytes [] returned encoded = Inr (returned, False)"
| "bound_entries enc limit bytes (e # es) returned encoded =
     (if length returned = limit then Inr (returned, True)
      else (case enc e of
          Inl err \<Rightarrow> Inl (Wrapf ''encode directory entry: %w'' [] err)
        | Inr n \<Rightarrow> if encoded + n > bytes then Inr (returned, True)
            else bound_entries enc limit bytes es (returned @ [e]) (encoded + n)))"

definition readDirectory :: "'w files_kernel \<Rightarrow> ('w \<Rightarrow> error option) \<Rightarrow> (string \<Rightarrow> string) \<Rightarrow>
    (files_entry \<Rightarrow> nat result) \<Rightarrow> 'w files_manager \<Rightarrow> int \<Rightarrow> list_request \<Rightarrow> 'w \<Rightarrow>
    ((files_entry list \<times> bool) result \<times> 'w) option" where
  "readDirectory K ctx lower enc m fd request w = (case fk_dup K fd w of
     (Inl e, w1) \<Rightarrow> Some (Inl (Wrapf ''duplicate directory descriptor: %w'' [] e), w1)
   | (Inr directory, w1) \<Rightarrow>
       (case scan_directory (fm_maxScanned m + 2) K ctx lower (fm_maxScanned m) fd directory request 0 [] w1 of
          None \<Rightarrow> None
        | Some (Inl e, w2) \<Rightarrow> Some (Inl e, snd (fk_close K directory w2))
        | Some (Inr (found, truncated), w2) \<Rightarrow>
            (case bound_entries enc (fm_maxEntries m) (fm_maxJSONBytes m)
                (sortEntries found (lr_Sort request) (lr_Direction request)) [] 0 of
               Inl e \<Rightarrow> Some (Inl e, snd (fk_close K directory w2))
             | Inr (returned, cutoff) \<Rightarrow> Some (Inr (returned, truncated \<or> cutoff), snd (fk_close K directory w2)))))"

definition listRoots :: "'w files_manager \<Rightarrow> root list" where
  "listRoots m = sort_key rt_ID (map (rd_Root \<circ> snd) (fm_roots m))"

definition list_defaults :: "list_request \<Rightarrow> list_request" where
  "list_defaults request = request\<lparr>lr_Sort := (if lr_Sort request = [] then ''name'' else lr_Sort request),
     lr_Direction := (if lr_Direction request = [] then ''asc'' else lr_Direction request)\<rparr>"

definition files_List :: "'w files_kernel \<Rightarrow> ('w \<Rightarrow> error option) \<Rightarrow> (string \<Rightarrow> string) \<Rightarrow>
    (files_entry \<Rightarrow> nat result) \<Rightarrow> 'w files_manager \<Rightarrow> list_request \<Rightarrow> 'w \<Rightarrow> (files_state result \<times> 'w) option" where
  "files_List K ctx lower enc m request0 w =
     (let request = list_defaults request0 in
      case validateListRequest request of Some e \<Rightarrow> Some (Inl e, w)
      | None \<Rightarrow>
          if lr_Root request = [] then
            (if lr_Path request \<noteq> [] then Some (Inl (ErrInvalidf ''%w: root summary has a path''), w)
             else Some (Inr \<lparr>fst_Roots = listRoots m, fst_Active = no_root, fst_Path = [], fst_Entries = [],
               fst_Truncated = False, fst_Filters = request\<rparr>, w))
          else (case map_of (fm_roots m) (lr_Root request) of
              None \<Rightarrow> Some (Inl ErrNotFound, w)
            | Some root \<Rightarrow> (case openBeneath K (rd_fd root) (lr_Path request) (O_RDONLY OR O_DIRECTORY) w of
                (Inl e, w1) \<Rightarrow> Some (Inl e, w1)
              | (Inr fd, w1) \<Rightarrow> (case readDirectory K ctx lower enc m fd request w1 of
                  None \<Rightarrow> None
                | Some (Inl e, w2) \<Rightarrow> Some (Inl e, snd (fm_closeFD m fd w2))
                | Some (Inr (found, truncated), w2) \<Rightarrow>
                    Some (Inr \<lparr>fst_Roots = listRoots m, fst_Active = rd_Root root, fst_Path = lr_Path request,
                      fst_Entries = found, fst_Truncated = truncated, fst_Filters = request\<rparr>,
                      snd (fm_closeFD m fd w2))))))"

section \<open>Transfers\<close>

record files_download =
  dl_fd :: int
  dl_Name :: string
  dl_Size :: int

definition files_Download :: "'w files_kernel \<Rightarrow> ('w \<Rightarrow> error option) \<Rightarrow> 'w files_manager \<Rightarrow> string \<Rightarrow> string \<Rightarrow> 'w \<Rightarrow>
    files_download result \<times> 'w" where
  "files_Download K ctx m rootID path w =
     (if validateRelativePath path \<noteq> None \<or> path = [] then (Inl (ErrInvalidf ''%w: invalid download path''), w)
      else (case map_of (fm_roots m) rootID of
          None \<Rightarrow> (Inl ErrNotFound, w)
        | Some root \<Rightarrow> (case openBeneath K (rd_fd root) path (O_RDONLY OR O_NOFOLLOW OR O_NONBLOCK) w of
            (Inl e, w1) \<Rightarrow> (Inl e, w1)
          | (Inr fd, w1) \<Rightarrow> (case fk_fstat K fd w1 of
              (Inl e, w2) \<Rightarrow> (Inl (Wrapf ''%w: stat download: %v'' [] ErrUnavailable), snd (fk_close K fd w2))
            | (Inr stat, w2) \<Rightarrow>
                if st_Mode stat AND S_IFMT \<noteq> S_IFREG then (Inl ErrNotFound, snd (fk_close K fd w2))
                else if st_Size stat > fm_maxTransfer m then (Inl ErrTooLarge, snd (fk_close K fd w2))
                else (case ctx w2 of
                    Some e \<Rightarrow> (Inl e, snd (fk_close K fd w2))
                  | None \<Rightarrow> (Inr \<lparr>dl_fd = fd, dl_Name = path, dl_Size = st_Size stat\<rparr>, w2))))))"

text \<open>
  The inner loop of \<open>copyUpload\<close> on the bytes of one read. A n beyond the data would make the slice
  expression panic; the law of \<open>write\<close> excludes it.
\<close>

function write_data :: "'w files_manager \<Rightarrow> ('w \<Rightarrow> error option) \<Rightarrow> int \<Rightarrow> string \<Rightarrow> int \<Rightarrow> 'w \<Rightarrow> int result \<times> 'w" where
  "write_data m ctx fd data written w =
     (if data = [] then (Inr written, w)
      else (case ctx w of Some e \<Rightarrow> (Inl e, w)
      | None \<Rightarrow> (case fm_writeFD m fd data w of
          (Inl e, w1) \<Rightarrow> (Inl (Wrapf ''%w: write upload: %v'' [] ErrUnavailable), w1)
        | (Inr n, w1) \<Rightarrow>
            if n \<le> 0 then (Inl (Wrapf ''%w: write upload: %v'' [] ErrUnavailable), w1)
            else write_data m ctx fd (drop (nat n) data) (written + n) w1)))"
  by pat_completeness auto
termination by (relation "measure (\<lambda>(m, ctx, fd, data, written, w). length data)") auto

declare write_data.simps [simp del]

fun copy_loop :: "nat \<Rightarrow> 'r reader \<Rightarrow> ('w \<Rightarrow> error option) \<Rightarrow> 'w files_manager \<Rightarrow> int \<Rightarrow> 'r limited_reader \<Rightarrow> int \<Rightarrow> 'w \<Rightarrow>
    (error option \<times> 'w) option" where
  "copy_loop 0 read ctx m fd l written w = None"
| "copy_loop (Suc fuel) read ctx m fd l written w = (case ctx w of Some e \<Rightarrow> Some (Some e, w)
   | None \<Rightarrow> (case limited_Read read l 32768 of (l', data, readErr) \<Rightarrow>
       if data \<noteq> [] \<and> written + int (length data) > fm_maxTransfer m then Some (Some ErrTooLarge, w)
       else (case write_data m ctx fd data written w of
           (Inl e, w1) \<Rightarrow> Some (Some e, w1)
         | (Inr written', w1) \<Rightarrow>
             if readErr = Some io_EOF then Some (None, w1)
             else (case readErr of
                 Some e \<Rightarrow> Some (Some (if errors_is e Canceled \<or> errors_is e DeadlineExceeded then e
                     else Wrapf ''%w: read upload: %v'' [] ErrUnavailable), w1)
               | None \<Rightarrow> if data = [] then Some (Some (Wrapf ''%w: read upload: %v'' [] ErrUnavailable), w1)
                   else copy_loop fuel read ctx m fd l' written' w1))))"

definition copyUpload :: "'r reader \<Rightarrow> ('w \<Rightarrow> error option) \<Rightarrow> 'w files_manager \<Rightarrow> int \<Rightarrow> 'r \<Rightarrow> 'w \<Rightarrow>
    (error option \<times> 'w) option" where
  "copyUpload read ctx m fd body w = copy_loop (nat (fm_maxTransfer m) + 2) read ctx m fd
     \<lparr>lim_reader = body, lim_N = wrap64 (fm_maxTransfer m + 1)\<rparr> 0 w"

definition sync_dir_error :: error where
  "sync_dir_error = Wrapf ''%w: sync upload directory: %v'' [] ErrUnavailable"

definition publish :: "'w files_kernel \<Rightarrow> ('w \<Rightarrow> error option) \<Rightarrow> 'w files_manager \<Rightarrow> int \<Rightarrow> int \<Rightarrow> string \<Rightarrow> 'w \<Rightarrow>
    error option \<times> 'w" where
  "publish K ctx m fd dirFD name w = (case ctx w of Some e \<Rightarrow> (Some e, w)
   | None \<Rightarrow> (case fm_chownFD m fd 0 0 w of
       (Some e, w1) \<Rightarrow> (Some (Wrapf ''%w: set upload ownership: %v'' [] ErrUnavailable), w1)
     | (None, w1) \<Rightarrow> (case fk_fchmod K fd 0x1A0 w1 of
         (Some e, w2) \<Rightarrow> (Some (Wrapf ''%w: set upload permissions: %v'' [] ErrUnavailable), w2)
       | (None, w2) \<Rightarrow> (case fm_syncFD m fd w2 of
           (Some e, w3) \<Rightarrow> (Some (Wrapf ''%w: sync upload: %v'' [] ErrUnavailable), w3)
         | (None, w3) \<Rightarrow> (case ctx w3 of Some e \<Rightarrow> (Some e, w3)
           | None \<Rightarrow> (case fm_linkat m fd dirFD name w3 of
               (Some e, w4) \<Rightarrow> (Some (if errors_is e EEXIST then ErrConflict
                  else Wrapf ''%w: publish upload: %v'' [] ErrUnavailable), w4)
             | (None, w4) \<Rightarrow> (case fm_syncDirFD m dirFD w4 of
                 (Some e, w5) \<Rightarrow> (Some sync_dir_error, w5)
               | (None, w5) \<Rightarrow> (None, w5))))))))"

definition upload_into :: "'r reader \<Rightarrow> 'w files_kernel \<Rightarrow> ('w \<Rightarrow> error option) \<Rightarrow> 'w files_manager \<Rightarrow> int \<Rightarrow> string \<Rightarrow>
    'r \<Rightarrow> 'w \<Rightarrow> (error option \<times> 'w) option" where
  "upload_into read K ctx m dirFD name body w = (case fm_openTmpfile m dirFD w of
     (Inl e, w1) \<Rightarrow> Some (Some (if errors_is e EOPNOTSUPP \<or> errors_is e EINVAL
         then Wrapf ''%w: anonymous temporary files unsupported'' [] ErrUnavailable
         else Wrapf ''%w: create anonymous temporary file: %v'' [] ErrUnavailable), w1)
   | (Inr fd, w1) \<Rightarrow> (case copyUpload read ctx m fd body w1 of
       None \<Rightarrow> None
     | Some (Some e, w2) \<Rightarrow> Some (Some e, snd (fm_closeFD m fd w2))
     | Some (None, w2) \<Rightarrow> (case publish K ctx m fd dirFD name w2 of
         (r, w3) \<Rightarrow> Some (r, snd (fm_closeFD m fd w3)))))"

definition files_Upload :: "'r reader \<Rightarrow> 'w files_kernel \<Rightarrow> ('w \<Rightarrow> error option) \<Rightarrow> 'w files_manager \<Rightarrow> string \<Rightarrow>
    string \<Rightarrow> string \<Rightarrow> 'r \<Rightarrow> 'w \<Rightarrow> (error option \<times> 'w) option" where
  "files_Upload read K ctx m rootID path name body w =
     (if validateRelativePath path \<noteq> None \<or> \<not> validBaseName name
      then Some (Some (ErrInvalidf ''%w: invalid upload path''), w)
      else (case map_of (fm_roots m) rootID of
          None \<Rightarrow> Some (Some ErrNotFound, w)
        | Some root \<Rightarrow>
            if \<not> rt_Writable (rd_Root root) then Some (Some ErrReadOnly, w)
            else (case ctx w of Some e \<Rightarrow> Some (Some e, w)
              | None \<Rightarrow> (case openBeneath K (rd_fd root) path (O_RDONLY OR O_DIRECTORY) w of
                  (Inl e, w1) \<Rightarrow> Some (Some e, w1)
                | (Inr dirFD, w1) \<Rightarrow> (case upload_into read K ctx m dirFD name body w1 of
                    None \<Rightarrow> None
                  | Some (r, w2) \<Rightarrow> Some (r, snd (fm_closeFD m dirFD w2)))))))"

end
