(* ===== verification/Files_Transfers.thy ===== *)
theory Files_Transfers
  imports Files_Manager
begin

text \<open>
  The laws of the kernel the file browser relies on, and what each operation of the manager does over every
  kernel that keeps them: opening below a root, copying and publishing an upload, scanning, sorting and bounding
  a listing.
\<close>

section \<open>What the kernel promises\<close>

text \<open>
  The views of the world: the open descriptors, the directory (of type \<open>'d\<close>) or the anonymous file a descriptor
  refers to, the names a directory stream has still to deliver, the entries of a directory, its listing, and the
  directory that a relative path denotes below another when neither \<open>..\<close> nor links may lead out.
\<close>

record upload_file =
  uf_contents :: string
  uf_uid :: int
  uf_gid :: int
  uf_mode :: nat

record ('w, 'd) files_views =
  fv_fds :: "'w \<Rightarrow> int set"
  fv_dir :: "'w \<Rightarrow> int \<Rightarrow> 'd option"
  fv_obj :: "'w \<Rightarrow> int \<Rightarrow> upload_file option"
  fv_names :: "'w \<Rightarrow> int \<Rightarrow> string list"
  fv_entry :: "'w \<Rightarrow> 'd \<Rightarrow> string \<Rightarrow> upload_file option"
  fv_listing :: "'w \<Rightarrow> 'd \<Rightarrow> string list"
  fv_beneath :: "'w \<Rightarrow> 'd \<Rightarrow> string \<Rightarrow> 'd option"

definition frame :: "('w, 'd) files_views \<Rightarrow> int set \<Rightarrow> 'w \<Rightarrow> 'w \<Rightarrow> bool" where
  "frame V X w w' \<longleftrightarrow> fv_entry V w' = fv_entry V w \<and> fv_listing V w' = fv_listing V w \<and>
     fv_beneath V w' = fv_beneath V w \<and>
     (\<forall>fd\<in>fv_fds V w - X. fv_dir V w' fd = fv_dir V w fd \<and> fv_obj V w' fd = fv_obj V w fd \<and>
        fv_names V w' fd = fv_names V w fd)"

definition touches :: "('w, 'd) files_views \<Rightarrow> int set \<Rightarrow> ('w \<Rightarrow> 'a \<times> 'w) \<Rightarrow> bool" where
  "touches V X f \<longleftrightarrow> (\<forall>w. frame V X w (snd (f w)) \<and> fv_fds V (snd (f w)) = fv_fds V w)"

definition opens :: "('w, 'd) files_views \<Rightarrow> ('w \<Rightarrow> int result \<times> 'w) \<Rightarrow> bool" where
  "opens V f \<longleftrightarrow> (\<forall>w. case f w of
     (Inl _, w') \<Rightarrow> frame V {} w w' \<and> fv_fds V w' = fv_fds V w
   | (Inr fd, w') \<Rightarrow> fd \<notin> fv_fds V w \<and> fv_fds V w' = insert fd (fv_fds V w) \<and> frame V {} w w')"

definition closes :: "('w, 'd) files_views \<Rightarrow> (int \<Rightarrow> 'w \<Rightarrow> error option \<times> 'w) \<Rightarrow> bool" where
  "closes V f \<longleftrightarrow> (\<forall>fd w. frame V {fd} w (snd (f fd w)) \<and> fv_fds V (snd (f fd w)) = fv_fds V w - {fd})"

definition descriptor_rules :: "('w, 'd) files_views \<Rightarrow> 'w files_kernel \<Rightarrow> bool" where
  "descriptor_rules V K \<longleftrightarrow> (\<forall>p fl. opens V (fk_open K p fl)) \<and> (\<forall>fd. opens V (fk_dup K fd)) \<and>
     (\<forall>fd p h. opens V (fk_openat2 K fd p h)) \<and> (\<forall>fd. opens V (fk_tmpfile K fd)) \<and> closes V (fk_close K) \<and>
     (\<forall>fd n. touches V UNIV (fk_readdir K fd n)) \<and> (\<forall>fd. touches V {} (fk_fstat K fd)) \<and>
     (\<forall>fd p. touches V {} (fk_fstatat K fd p)) \<and> (\<forall>fd p. touches V {} (fk_readlinkat K fd p)) \<and>
     (\<forall>fd s. touches V {fd} (fk_write K fd s)) \<and> (\<forall>fd u g. touches V {fd} (fk_fchown K fd u g)) \<and>
     (\<forall>fd k. touches V {fd} (fk_fchmod K fd k)) \<and> (\<forall>fd. touches V {} (fk_fsync K fd)) \<and>
     (\<forall>fd dir name w. fv_fds V (snd (fk_linkat K fd dir name w)) = fv_fds V w)"

definition lookup_rules :: "('w, 'd) files_views \<Rightarrow> 'w files_kernel \<Rightarrow> bool" where
  "lookup_rules V K \<longleftrightarrow>
     (\<forall>fd w fd' w'. fk_dup K fd w = (Inr fd', w') \<longrightarrow>
        fv_dir V w' fd' = fv_dir V w fd \<and> fv_names V w' fd' = fv_names V w fd) \<and>
     (\<forall>fd p w fd' w'. fk_openat2 K fd p (beneath_how (O_RDONLY OR O_DIRECTORY)) w = (Inr fd', w') \<longrightarrow>
        (\<exists>D D'. fv_dir V w fd = Some D \<and> fv_beneath V w D p = Some D' \<and> fv_dir V w' fd' = Some D' \<and>
           fv_names V w' fd' = fv_listing V w D'))"

definition object_rules :: "('w, 'd) files_views \<Rightarrow> 'w files_kernel \<Rightarrow> bool" where
  "object_rules V K \<longleftrightarrow>
     (\<forall>fd w fd' w'. fk_tmpfile K fd w = (Inr fd', w') \<longrightarrow>
        (\<exists>f. fv_obj V w' fd' = Some f \<and> uf_contents f = [])) \<and>
     (\<forall>fd s w n w'. fk_write K fd s w = (Inr n, w') \<longrightarrow> n \<le> int (length s) \<and>
        fv_obj V w' fd = map_option (\<lambda>f. f\<lparr>uf_contents := uf_contents f @ take (nat n) s\<rparr>) (fv_obj V w fd)) \<and>
     (\<forall>fd u g w w'. fk_fchown K fd u g w = (None, w') \<longrightarrow>
        fv_obj V w' fd = map_option (\<lambda>f. f\<lparr>uf_uid := u, uf_gid := g\<rparr>) (fv_obj V w fd)) \<and>
     (\<forall>fd k w w'. fk_fchmod K fd k w = (None, w') \<longrightarrow>
        fv_obj V w' fd = map_option (\<lambda>f. f\<lparr>uf_mode := k\<rparr>) (fv_obj V w fd))"

definition link_rules :: "('w, 'd) files_views \<Rightarrow> 'w files_kernel \<Rightarrow> bool" where
  "link_rules V K \<longleftrightarrow> (\<forall>fd dir name w. case fk_linkat K fd dir name w of
     (Some e, w') \<Rightarrow> fv_entry V w' = fv_entry V w
   | (None, w') \<Rightarrow> (\<exists>D f. fv_dir V w dir = Some D \<and> fv_obj V w fd = Some f \<and> fv_entry V w D name = None \<and>
       fv_entry V w' = (fv_entry V w)(D := (fv_entry V w D)(name \<mapsto> f))))"

definition readdir_rules :: "('w, 'd) files_views \<Rightarrow> 'w files_kernel \<Rightarrow> bool" where
  "readdir_rules V K \<longleftrightarrow> (\<forall>fd n w batch err w'. fk_readdir K fd n w = ((batch, err), w') \<longrightarrow>
     fv_names V w fd = batch @ fv_names V w' fd \<and> (err = None \<longrightarrow> batch \<noteq> []) \<and>
     (\<forall>e. err = Some e \<longrightarrow> errors_is e io_EOF \<longrightarrow> fv_names V w' fd = []))"

text \<open>The manager that \<open>NewFilesManager\<close> builds: every replaceable call is the kernel's.\<close>

definition on_kernel :: "'w files_kernel \<Rightarrow> 'w files_manager \<Rightarrow> bool" where
  "on_kernel K m \<longleftrightarrow> fm_closeFD m = fk_close K \<and> fm_openTmpfile m = fk_tmpfile K \<and> fm_writeFD m = fk_write K \<and>
     fm_chownFD m = fk_fchown K \<and> fm_syncFD m = fk_fsync K \<and> fm_syncDirFD m = fk_fsync K \<and> fm_linkat m = fk_linkat K"

lemma frame_refl: "frame V X w w"
  by (simp add: frame_def)

lemma frame_trans:
  "frame V X w w1 \<Longrightarrow> fv_fds V w \<subseteq> fv_fds V w1 \<union> X \<Longrightarrow> frame V Y w1 w2 \<Longrightarrow> frame V (X \<union> Y) w w2"
  unfolding frame_def by auto

lemma frame_mono: "frame V X w w' \<Longrightarrow> fv_fds V w \<inter> X \<subseteq> Y \<Longrightarrow> frame V Y w w'"
  unfolding frame_def by auto

lemma frameD:
  "frame V X w w' \<Longrightarrow> fv_entry V w' = fv_entry V w"
  "frame V X w w' \<Longrightarrow> fv_listing V w' = fv_listing V w"
  "frame V X w w' \<Longrightarrow> fv_beneath V w' = fv_beneath V w"
  "frame V X w w' \<Longrightarrow> fd \<in> fv_fds V w \<Longrightarrow> fd \<notin> X \<Longrightarrow> fv_dir V w' fd = fv_dir V w fd"
  "frame V X w w' \<Longrightarrow> fd \<in> fv_fds V w \<Longrightarrow> fd \<notin> X \<Longrightarrow> fv_obj V w' fd = fv_obj V w fd"
  "frame V X w w' \<Longrightarrow> fd \<in> fv_fds V w \<Longrightarrow> fd \<notin> X \<Longrightarrow> fv_names V w' fd = fv_names V w fd"
  by (simp_all add: frame_def)

lemma touchesD:
  assumes "touches V X f" and "f w = (r, w')"
  shows "frame V X w w'" and "fv_fds V w' = fv_fds V w"
  using assms unfolding touches_def by (metis snd_conv)+

lemma opensD:
  assumes "opens V f" and "f w = (r, w')"
  shows "frame V {} w w'" and "\<And>e. r = Inl e \<Longrightarrow> fv_fds V w' = fv_fds V w"
    and "\<And>fd. r = Inr fd \<Longrightarrow> fd \<notin> fv_fds V w \<and> fv_fds V w' = insert fd (fv_fds V w)"
  using assms(1)[unfolded opens_def, rule_format, of w] assms(2) by (auto split: sum.splits)

lemma closesD:
  assumes "closes V f" and "f fd w = (r, w')"
  shows "frame V {fd} w w'" and "fv_fds V w' = fv_fds V w - {fd}"
  using assms unfolding closes_def by (metis snd_conv)+

lemma dupD:
  "lookup_rules V K \<Longrightarrow> fk_dup K fd w = (Inr fd', w') \<Longrightarrow>
     fv_dir V w' fd' = fv_dir V w fd \<and> fv_names V w' fd' = fv_names V w fd"
  unfolding lookup_rules_def by blast

lemma openat2D:
  "lookup_rules V K \<Longrightarrow> fk_openat2 K fd p (beneath_how (O_RDONLY OR O_DIRECTORY)) w = (Inr fd', w') \<Longrightarrow>
     \<exists>D D'. fv_dir V w fd = Some D \<and> fv_beneath V w D p = Some D' \<and> fv_dir V w' fd' = Some D' \<and>
       fv_names V w' fd' = fv_listing V w D'"
  unfolding lookup_rules_def by blast

lemma objectD:
  assumes "object_rules V K"
  shows "fk_tmpfile K fd w = (Inr fd', w') \<Longrightarrow> \<exists>f. fv_obj V w' fd' = Some f \<and> uf_contents f = []"
    and "fk_write K fd s w = (Inr n, w') \<Longrightarrow> n \<le> int (length s) \<and>
        fv_obj V w' fd = map_option (\<lambda>f. f\<lparr>uf_contents := uf_contents f @ take (nat n) s\<rparr>) (fv_obj V w fd)"
    and "fk_fchown K fd u g w = (None, w') \<Longrightarrow>
        fv_obj V w' fd = map_option (\<lambda>f. f\<lparr>uf_uid := u, uf_gid := g\<rparr>) (fv_obj V w fd)"
    and "fk_fchmod K fd k w = (None, w') \<Longrightarrow>
        fv_obj V w' fd = map_option (\<lambda>f. f\<lparr>uf_mode := k\<rparr>) (fv_obj V w fd)"
  using assms unfolding object_rules_def by - blast+

section \<open>Opening below a root\<close>

lemma open_at_spec:
  assumes R: "descriptor_rules V K" and s: "open_at K fd path flags w = (r, w')"
  shows "frame V {} w w'" and "\<And>e. r = Inl e \<Longrightarrow> fv_fds V w' = fv_fds V w"
    and "\<And>fd'. r = Inr fd' \<Longrightarrow> fk_openat2 K fd path (beneath_how flags) w = (Inr fd', w') \<and>
      fd' \<notin> fv_fds V w \<and> fv_fds V w' = insert fd' (fv_fds V w)"
proof -
  obtain r1 w1 where o: "fk_openat2 K fd path (beneath_how flags) w = (r1, w1)"
    by (cases "fk_openat2 K fd path (beneath_how flags) w")
  have op: "opens V (fk_openat2 K fd path (beneath_how flags))" using R by (simp add: descriptor_rules_def)
  note d = opensD[OF op o]
  have e: "w' = w1" "r = (case r1 of Inl e \<Rightarrow> Inl (beneath_error e) | Inr x \<Rightarrow> Inr x)"
    using s o by (auto simp: open_at_def split: sum.splits)
  show "frame V {} w w'" using d(1) e by simp
  show "fv_fds V w' = fv_fds V w" if "r = Inl x" for x using that d(2) e by (cases r1) auto
  show "fk_openat2 K fd path (beneath_how flags) w = (Inr fd', w') \<and> fd' \<notin> fv_fds V w \<and>
      fv_fds V w' = insert fd' (fv_fds V w)" if "r = Inr fd'" for fd'
    using that d(3) e o by (cases r1) auto
qed

abbreviation dot_path :: "string \<Rightarrow> string" where
  "dot_path path \<equiv> (if path = [] then ''.'' else path)"

lemma openBeneath_spec:
  assumes R: "descriptor_rules V K" and s: "openBeneath K root path flags w = (r, w')" and root: "root \<in> fv_fds V w"
  shows "frame V {} w w'" and "\<And>e. r = Inl e \<Longrightarrow> fv_fds V w' = fv_fds V w"
    and "\<And>fd. r = Inr fd \<Longrightarrow> fd \<notin> fv_fds V w \<and> fv_fds V w' = insert fd (fv_fds V w)"
    and "\<And>fd. lookup_rules V K \<Longrightarrow> flags = O_RDONLY OR O_DIRECTORY \<Longrightarrow> r = Inr fd \<Longrightarrow>
      \<exists>D D'. fv_dir V w root = Some D \<and> fv_beneath V w D (dot_path path) = Some D' \<and> fv_dir V w' fd = Some D' \<and>
        fv_names V w' fd = fv_listing V w D'"
proof -
  have "frame V {} w w' \<and> (\<forall>e. r = Inl e \<longrightarrow> fv_fds V w' = fv_fds V w) \<and>
    (\<forall>fd. r = Inr fd \<longrightarrow> fd \<notin> fv_fds V w \<and> fv_fds V w' = insert fd (fv_fds V w)) \<and>
    (\<forall>fd. lookup_rules V K \<longrightarrow> flags = O_RDONLY OR O_DIRECTORY \<longrightarrow> r = Inr fd \<longrightarrow>
      (\<exists>D D'. fv_dir V w root = Some D \<and> fv_beneath V w D (dot_path path) = Some D' \<and> fv_dir V w' fd = Some D' \<and>
        fv_names V w' fd = fv_listing V w D'))"
  proof (cases "path = []")
    case False
    then have o: "open_at K root path flags w = (r, w')" using s by (simp add: openBeneath_def)
    note a = open_at_spec[OF R o]
    have "\<exists>D D'. fv_dir V w root = Some D \<and> fv_beneath V w D (dot_path path) = Some D' \<and> fv_dir V w' fd = Some D' \<and>
        fv_names V w' fd = fv_listing V w D'"
      if "lookup_rules V K" "flags = O_RDONLY OR O_DIRECTORY" "r = Inr fd" for fd
      using openat2D[OF that(1), of root path w fd w'] a(3)[OF that(3)] that(2) False by simp
    then show ?thesis using a by blast
  next
    case True
    obtain r1 w1 where dp: "fk_dup K root w = (r1, w1)" by (cases "fk_dup K root w")
    have op: "opens V (fk_dup K root)" and cl: "closes V (fk_close K)" using R by (simp_all add: descriptor_rules_def)
    note d = opensD[OF op dp]
    show ?thesis
    proof (cases r1)
      case (Inl e)
      then show ?thesis using s dp d True by (auto simp: openBeneath_def)
    next
      case (Inr fd1)
      obtain r2 w2 where o: "open_at K fd1 ''.'' flags w1 = (r2, w2)" by (cases "open_at K fd1 ''.'' flags w1")
      note a = open_at_spec[OF R o]
      obtain r3 w3 where c: "fk_close K fd1 w2 = (r3, w3)" by (cases "fk_close K fd1 w2")
      note k = closesD[OF cl c]
      have e: "r = r2" "w' = w3" using s dp Inr o c True by (auto simp: openBeneath_def)
      have f1: "fd1 \<notin> fv_fds V w" "fv_fds V w1 = insert fd1 (fv_fds V w)" using d(3)[OF Inr] by simp_all
      have "frame V {} w1 w2" by (rule a(1))
      have "frame V {} w w2" using frame_trans[OF d(1) _ a(1)] f1 by auto
      moreover have "fv_fds V w \<subseteq> fv_fds V w2" using a(2,3) f1 by (cases r2) auto
      ultimately have "frame V ({} \<union> {fd1}) w w3" using frame_trans[OF _ _ k(1)] by auto
      then have fr: "frame V {} w w3" by (rule frame_mono) (use f1 in auto)
      have err: "fv_fds V w3 = fv_fds V w" if "r2 = Inl e" for e
        using that a(2) k(2) f1 by auto
      have new: "fd \<notin> fv_fds V w \<and> fv_fds V w3 = insert fd (fv_fds V w)" if "r2 = Inr fd" for fd
        using that a(3)[OF that] k(2) f1 by auto
      have "\<exists>D D'. fv_dir V w root = Some D \<and> fv_beneath V w D ''.'' = Some D' \<and> fv_dir V w3 fd = Some D' \<and>
        fv_names V w3 fd = fv_listing V w D'"
        if O: "lookup_rules V K" and fl: "flags = O_RDONLY OR O_DIRECTORY" and r2: "r2 = Inr fd" for fd
      proof -
        have oa: "fk_openat2 K fd1 ''.'' (beneath_how (O_RDONLY OR O_DIRECTORY)) w1 = (Inr fd, w2)"
          and fd: "fd \<notin> fv_fds V w1" "fv_fds V w2 = insert fd (fv_fds V w1)"
          using a(3)[OF r2] fl by auto
        obtain D D' where D: "fv_dir V w1 fd1 = Some D" "fv_beneath V w1 D ''.'' = Some D'" "fv_dir V w2 fd = Some D'"
          "fv_names V w2 fd = fv_listing V w1 D'"
          using openat2D[OF O oa] by blast
        have "fv_dir V w1 fd1 = fv_dir V w root" using dupD[OF O dp[unfolded Inr]] by blast
        moreover have "fd \<noteq> fd1" using fd(1) f1 by auto
        then have "fv_dir V w3 fd = fv_dir V w2 fd" "fv_names V w3 fd = fv_names V w2 fd"
          using frameD(4,6)[OF k(1)] fd(2) by auto
        ultimately show ?thesis using D frameD(2,3)[OF d(1)] by (intro exI[of _ D] exI[of _ D']) simp
      qed
      then show ?thesis using e fr err new True by simp
    qed
  qed
  then show "frame V {} w w'" "\<And>e. r = Inl e \<Longrightarrow> fv_fds V w' = fv_fds V w"
    "\<And>fd. r = Inr fd \<Longrightarrow> fd \<notin> fv_fds V w \<and> fv_fds V w' = insert fd (fv_fds V w)"
    "\<And>fd. lookup_rules V K \<Longrightarrow> flags = O_RDONLY OR O_DIRECTORY \<Longrightarrow> r = Inr fd \<Longrightarrow>
      \<exists>D D'. fv_dir V w root = Some D \<and> fv_beneath V w D (dot_path path) = Some D' \<and> fv_dir V w' fd = Some D' \<and>
        fv_names V w' fd = fv_listing V w D'"
    by blast+
qed

section \<open>Uploads\<close>

text \<open>The body of an upload as \<open>io.Reader\<close> promises it: \<open>content\<close> is what is left, \<open>EOF\<close> means nothing is.\<close>

definition body_ok :: "'r reader \<Rightarrow> ('r \<Rightarrow> string) \<Rightarrow> bool" where
  "body_ok read content \<longleftrightarrow> (\<forall>r n. case read r n of (r', bs, err) \<Rightarrow>
     length bs \<le> n \<and> content r = bs @ content r' \<and> (err = Some io_EOF \<longrightarrow> content r' = []))"

lemma body_okD:
  "body_ok read content \<Longrightarrow> read r n = (r', bs, err) \<Longrightarrow>
     length bs \<le> n \<and> content r = bs @ content r' \<and> (err = Some io_EOF \<longrightarrow> content r' = [])"
  unfolding body_ok_def by (metis (mono_tags, lifting) case_prod_conv)

definition appended :: "('w, 'd) files_views \<Rightarrow> int \<Rightarrow> string \<Rightarrow> 'w \<Rightarrow> 'w \<Rightarrow> bool" where
  "appended V fd s w w' \<longleftrightarrow> fv_obj V w' fd = map_option (\<lambda>f. f\<lparr>uf_contents := uf_contents f @ s\<rparr>) (fv_obj V w fd)"

lemma appended_trans: "appended V fd s w w1 \<Longrightarrow> appended V fd t w1 w2 \<Longrightarrow> appended V fd (s @ t) w w2"
  by (auto simp: appended_def option.map_comp comp_def)

text \<open>A step on one descriptor: everything else stays, and the open descriptors stay the same.\<close>

definition confined :: "('w, 'd) files_views \<Rightarrow> int set \<Rightarrow> 'w \<Rightarrow> 'w \<Rightarrow> bool" where
  "confined V X w w' \<longleftrightarrow> frame V X w w' \<and> fv_fds V w' = fv_fds V w"

lemma confined_refl [simp]: "confined V X w w"
  by (simp add: confined_def frame_refl)

lemma confined_trans: "confined V X w w1 \<Longrightarrow> confined V X w1 w2 \<Longrightarrow> confined V X w w2"
  unfolding confined_def using frame_trans[of V X w w1 X w2] by auto

lemma confined_mono: "confined V X w w' \<Longrightarrow> X \<subseteq> Y \<Longrightarrow> confined V Y w w'"
  unfolding confined_def using frame_mono[of V X w w' Y] by auto

lemma touches_confined: "touches V X f \<Longrightarrow> f w = (r, w') \<Longrightarrow> confined V X w w'"
  using touchesD[of V X f w r w'] by (simp add: confined_def)

lemma write_data_steps:
  assumes R: "descriptor_rules V K" and m: "on_kernel K m"
  shows "write_data m ctx fd data written w = (r, w') \<Longrightarrow> confined V {fd} w w' \<and>
    (object_rules V K \<longrightarrow> (\<forall>n. r = Inr n \<longrightarrow> n = written + int (length data) \<and> appended V fd data w w'))"
proof (induction data arbitrary: written w r w' rule: length_induct)
  case (1 data)
  have tw: "touches V {fd} (fk_write K fd data)" and mw: "fm_writeFD m = fk_write K"
    using R m by (simp_all add: descriptor_rules_def on_kernel_def)
  note eq = "1.prems"[unfolded write_data.simps[of m ctx fd data written w] mw]
  show ?case
  proof (cases "data = [] \<or> ctx w \<noteq> None")
    case True
    have "appended V fd [] w w" by (simp add: appended_def option.map_ident)
    with True eq show ?thesis by (cases "data = []") auto
  next
    case False
    obtain r1 w1 where k: "fk_write K fd data w = (r1, w1)" by (cases "fk_write K fd data w")
    note c1 = touches_confined[OF tw k]
    show ?thesis
    proof (cases "\<exists>n. r1 = Inr n \<and> 0 < n")
      case bad: False
      then have "w' = w1" "\<exists>e. r = Inl e" using eq False k by (auto split: sum.splits if_splits)
      then show ?thesis using c1 by auto
    next
      case True
      then obtain n where n: "r1 = Inr n" "0 < n" by blast
      have rec: "write_data m ctx fd (drop (nat n) data) (written + n) w1 = (r, w')"
        using eq False k n by auto
      have "length (drop (nat n) data) < length data" using n False by (cases data) auto
      with "1.IH" rec have IH: "confined V {fd} w1 w' \<and> (object_rules V K \<longrightarrow> (\<forall>i. r = Inr i \<longrightarrow>
        i = written + n + int (length (drop (nat n) data)) \<and> appended V fd (drop (nat n) data) w1 w'))"
        by blast
      have "i = written + int (length data) \<and> appended V fd data w w'" if O: "object_rules V K" and r: "r = Inr i" for i
      proof -
        note wr = objectD(2)[OF O k[unfolded n(1)]]
        have "appended V fd (take (nat n) data) w w1" using wr by (simp add: appended_def)
        from appended_trans[OF this] IH O r have "appended V fd data w w'" by fastforce
        moreover have "i = written + int (length data)" using IH O r wr n(2) by (auto simp: of_nat_diff)
        ultimately show ?thesis by blast
      qed
      then show ?thesis using confined_trans[OF c1] IH by blast
    qed
  qed
qed

lemmas write_data_confined = write_data_steps[THEN conjunct1]
lemmas write_data_appends = write_data_steps[THEN conjunct2, rule_format]

text \<open>
  The copy keeps \<open>written\<close> within the limit and the budget of the limiting reader one above what is left, so the
  end it sees is the end of the body.
\<close>

lemma copy_loop_confined:
  assumes R: "descriptor_rules V K" and m: "on_kernel K m"
  shows "copy_loop fuel read ctx m fd l written w = Some (r, w') \<Longrightarrow> confined V {fd} w w'"
proof (induction fuel arbitrary: l written w)
  case (Suc fuel)
  obtain l' data readErr where rd: "limited_Read read l 32768 = (l', data, readErr)"
    by (cases "limited_Read read l 32768")
  obtain r1 w1 where wd: "write_data m ctx fd data written w = (r1, w1)"
    by (cases "write_data m ctx fd data written w")
  note c = write_data_confined[OF R m wd]
  from Suc.prems rd wd c show ?case
    by (auto split: option.splits if_splits sum.splits intro: confined_trans Suc.IH)
qed simp

lemma copy_loop_copies:
  assumes R: "descriptor_rules V K" and m: "on_kernel K m" and O: "object_rules V K" and B: "body_ok read content"
  shows "copy_loop fuel read ctx m fd l written w = Some (None, w') \<Longrightarrow> written \<le> fm_maxTransfer m \<Longrightarrow>
    lim_N l = fm_maxTransfer m + 1 - written \<Longrightarrow>
    appended V fd (content (lim_reader l)) w w' \<and> written + int (length (content (lim_reader l))) \<le> fm_maxTransfer m"
proof (induction fuel arbitrary: l written w)
  case (Suc fuel)
  have pos: "\<not> lim_N l \<le> 0" using Suc.prems by simp
  define n where "n = (if lim_N l < 32768 then nat (lim_N l) else 32768)"
  obtain r' data readErr where rd: "read (lim_reader l) n = (r', data, readErr)" by (cases "read (lim_reader l) n")
  define l' where "l' = \<lparr>lim_reader = r', lim_N = lim_N l - int (length data)\<rparr>"
  have lr: "limited_Read read l 32768 = (l', data, readErr)"
    using pos rd by (simp add: limited_Read_def n_def l'_def Let_def)
  note b = body_okD[OF B rd]
  have fits: "written + int (length data) \<le> fm_maxTransfer m"
    using Suc.prems lr by (cases "data = []") (auto split: option.splits if_splits)
  obtain i w1 where wd: "write_data m ctx fd data written w = (Inr i, w1)"
    using Suc.prems(1) lr by (cases "write_data m ctx fd data written w") (auto split: option.splits if_splits sum.splits)
  note a = write_data_appends[OF R m wd O refl]
  show ?case
  proof (cases "readErr = Some io_EOF")
    case True
    then have "w' = w1" using Suc.prems(1) lr wd by (auto split: option.splits if_splits)
    then show ?thesis using a b True fits by simp
  next
    case False
    then have rec: "copy_loop fuel read ctx m fd l' i w1 = Some (None, w')"
      using Suc.prems(1) lr wd by (auto split: option.splits if_splits)
    have "i \<le> fm_maxTransfer m" "lim_N l' = fm_maxTransfer m + 1 - i"
      using a fits Suc.prems(3) by (simp_all add: l'_def)
    from Suc.IH[OF rec this] a b show ?thesis
      using appended_trans[of V fd data w w1 "content r'" w'] by (simp add: l'_def)
  qed
qed simp

text \<open>The file \<open>f\<close> has appeared in directory \<open>D\<close> under a name that was free, and no other entry changed.\<close>

definition published :: "('w, 'd) files_views \<Rightarrow> 'd \<Rightarrow> string \<Rightarrow> upload_file \<Rightarrow> 'w \<Rightarrow> 'w \<Rightarrow> bool" where
  "published V D name f w w' \<longleftrightarrow> fv_entry V w D name = None \<and>
     fv_entry V w' = (fv_entry V w)(D := (fv_entry V w D)(name \<mapsto> f))"

lemma link_rulesD:
  assumes "link_rules V K" and "fk_linkat K fd dir name w = (r, w')"
  shows "r \<noteq> None \<and> fv_entry V w' = fv_entry V w \<or> r = None \<and>
    (\<exists>D f. fv_dir V w dir = Some D \<and> fv_obj V w fd = Some f \<and> published V D name f w w')"
  using assms(1)[unfolded link_rules_def, rule_format, where fd = fd and dir = dir and name = name and w = w] assms(2)
  by (auto simp: published_def split: option.splits)

lemma publish_spec:
  assumes R: "descriptor_rules V K" and O: "object_rules V K" and L: "link_rules V K" and m: "on_kernel K m"
    and s: "publish K ctx m fd dirFD name w = (r, w')"
    and fd: "fd \<in> fv_fds V w" "dirFD \<in> fv_fds V w" "fd \<noteq> dirFD" and f: "fv_obj V w fd = Some f"
  shows "fv_fds V w' = fv_fds V w" and "fv_entry V w' = fv_entry V w \<and> r \<noteq> None \<or>
    r \<in> {None, Some sync_dir_error} \<and> (\<exists>D. fv_dir V w dirFD = Some D \<and>
      published V D name (f\<lparr>uf_uid := 0, uf_gid := 0, uf_mode := 0x1A0\<rparr>) w w')"
proof -
  have t: "touches V {fd} (fk_fchown K fd 0 0)" "touches V {fd} (fk_fchmod K fd 0x1A0)" "touches V {} (fk_fsync K x)"
    "fv_fds V (snd (fk_linkat K x y z v)) = fv_fds V v" for x y z v
    using R by (simp_all add: descriptor_rules_def)
  have km: "fm_chownFD m = fk_fchown K" "fm_syncFD m = fk_fsync K" "fm_syncDirFD m = fk_fsync K" "fm_linkat m = fk_linkat K"
    using m by (simp_all add: on_kernel_def)
  note eq = s[unfolded publish_def km]
  obtain r1 w1 where 1: "fk_fchown K fd 0 0 w = (r1, w1)" by (cases "fk_fchown K fd 0 0 w")
  obtain r2 w2 where 2: "fk_fchmod K fd 0x1A0 w1 = (r2, w2)" by (cases "fk_fchmod K fd 0x1A0 w1")
  obtain r3 w3 where 3: "fk_fsync K fd w2 = (r3, w3)" by (cases "fk_fsync K fd w2")
  obtain r4 w4 where 4: "fk_linkat K fd dirFD name w3 = (r4, w4)" by (cases "fk_linkat K fd dirFD name w3")
  obtain r5 w5 where 5: "fk_fsync K dirFD w4 = (r5, w5)" by (cases "fk_fsync K dirFD w4")
  note c1 = touches_confined[OF t(1) 1]
  note c2 = confined_trans[OF c1 touches_confined[OF t(2) 2]]
  note c3 = confined_trans[OF c2 confined_mono[OF touches_confined[OF t(3) 3]], simplified]
  have f4: "fv_fds V w4 = fv_fds V w3" using t(4)[of fd dirFD name w3] 4 by simp
  note c5 = touches_confined[OF t(3) 5]
  have early: "fv_fds V x = fv_fds V w \<and> fv_entry V x = fv_entry V w" if "confined V {fd} w x" for x
    using that by (simp add: confined_def frame_def)
  obtain q0 where q0: "ctx w = q0" by blast
  obtain q3 where q3: "ctx w3 = q3" by blast
  consider "q0 \<noteq> None" "w' = w" "r \<noteq> None" | "r1 \<noteq> None" "w' = w1" "r \<noteq> None"
    | "r2 \<noteq> None" "w' = w2" "r \<noteq> None" | "r3 \<noteq> None \<or> q3 \<noteq> None" "w' = w3" "r \<noteq> None"
    | "r1 = None" "r2 = None" "r3 = None" "r4 \<noteq> None" "w' = w4" "r \<noteq> None"
    | "r1 = None" "r2 = None" "r3 = None" "r4 = None" "w' = w5" "r \<in> {None, Some sync_dir_error}"
    using eq[unfolded q0 1 prod.case 2 3 q3 4 5] by (auto split: option.splits)
  then have "fv_fds V w' = fv_fds V w \<and> (fv_entry V w' = fv_entry V w \<and> r \<noteq> None \<or>
    r \<in> {None, Some sync_dir_error} \<and> (\<exists>D. fv_dir V w dirFD = Some D \<and>
      published V D name (f\<lparr>uf_uid := 0, uf_gid := 0, uf_mode := 0x1A0\<rparr>) w w'))"
  proof cases
    case 5
    then show ?thesis using early[OF c3] f4 link_rulesD[OF L 4] by auto
  next
    case 6
    obtain D f' where D: "fv_dir V w3 dirFD = Some D" "fv_obj V w3 fd = Some f'" "published V D name f' w3 w4"
      using link_rulesD[OF L 4] 6(4) by auto
    have "fv_obj V w1 fd = Some (f\<lparr>uf_uid := 0, uf_gid := 0\<rparr>)" using objectD(3)[OF O 1[unfolded 6(1)]] f by simp
    moreover have "fv_obj V w3 fd = fv_obj V w2 fd"
      using touchesD(1)[OF t(3) 3] c2 fd(1) by (simp add: confined_def frame_def)
    ultimately have "f' = f\<lparr>uf_uid := 0, uf_gid := 0, uf_mode := 0x1A0\<rparr>"
      using objectD(4)[OF O 2[unfolded 6(2)]] D(2) by simp
    moreover have "fv_dir V w3 dirFD = fv_dir V w dirFD" using c3 fd by (simp add: confined_def frame_def)
    moreover have "published V D name f' w w5"
      using D(3) c5 early[OF c3] by (auto simp: published_def confined_def frame_def)
    ultimately show ?thesis using D(1) 6(5,6) c5 f4 early[OF c3] by (auto simp: confined_def)
  qed (use early[OF confined_refl] early[OF c1] early[OF c2] early[OF c3] in \<open>simp_all\<close>)
  then show "fv_fds V w' = fv_fds V w" and "fv_entry V w' = fv_entry V w \<and> r \<noteq> None \<or>
    r \<in> {None, Some sync_dir_error} \<and> (\<exists>D. fv_dir V w dirFD = Some D \<and>
      published V D name (f\<lparr>uf_uid := 0, uf_gid := 0, uf_mode := 0x1A0\<rparr>) w w')" by blast+
qed

lemma upload_into_spec:
  assumes R: "descriptor_rules V K" and O: "object_rules V K" and L: "link_rules V K" and m: "on_kernel K m"
    and B: "body_ok read content" and lim: "0 \<le> fm_maxTransfer m" "fm_maxTransfer m < 2 ^ 63 - 1"
    and dir: "dirFD \<in> fv_fds V w" and s: "upload_into read K ctx m dirFD name body w = Some (r, w')"
  shows "fv_fds V w' = fv_fds V w" and "fv_entry V w' = fv_entry V w \<and> r \<noteq> None \<or>
    r \<in> {None, Some sync_dir_error} \<and> (\<exists>D. fv_dir V w dirFD = Some D \<and>
      published V D name \<lparr>uf_contents = content body, uf_uid = 0, uf_gid = 0, uf_mode = 0x1A0\<rparr> w w') \<and>
      int (length (content body)) \<le> fm_maxTransfer m"
proof -
  have op: "opens V (fk_tmpfile K dirFD)" and cl: "closes V (fk_close K)"
    and km: "fm_closeFD m = fk_close K" "fm_openTmpfile m = fk_tmpfile K"
    using R m by (simp_all add: descriptor_rules_def on_kernel_def)
  obtain r1 w1 where 1: "fk_tmpfile K dirFD w = (r1, w1)" by (cases "fk_tmpfile K dirFD w")
  note d = opensD[OF op 1]
  note eq = s[unfolded upload_into_def km 1 prod.case]
  have "fv_fds V w' = fv_fds V w \<and> (fv_entry V w' = fv_entry V w \<and> r \<noteq> None \<or>
    r \<in> {None, Some sync_dir_error} \<and> (\<exists>D. fv_dir V w dirFD = Some D \<and>
      published V D name \<lparr>uf_contents = content body, uf_uid = 0, uf_gid = 0, uf_mode = 0x1A0\<rparr> w w') \<and>
      int (length (content body)) \<le> fm_maxTransfer m)"
  proof (cases r1)
    case (Inl e)
    then show ?thesis using eq d(1,2) frameD(1) by fastforce
  next
    case (Inr fd)
    have fd: "fd \<notin> fv_fds V w" "fv_fds V w1 = insert fd (fv_fds V w)" "fd \<noteq> dirFD" using d(3)[OF Inr] dir by auto
    obtain q w2 where 2: "copyUpload read ctx m fd body w1 = Some (q, w2)"
      using eq Inr by (cases "copyUpload read ctx m fd body w1") auto
    have c2: "confined V {fd} w1 w2" using copy_loop_confined[OF R m 2[unfolded copyUpload_def]] .
    obtain q3 w3 where 3: "publish K ctx m fd dirFD name w2 = (q3, w3)" by (cases "publish K ctx m fd dirFD name w2")
    define wz where "wz = (if q = None then w3 else w2)"
    obtain q4 w4 where 4: "fk_close K fd wz = (q4, w4)" by (cases "fk_close K fd wz")
    note k = closesD[OF cl 4]
    have res: "w' = w4" "r = (if q = None then q3 else q)"
      using eq Inr 2 3 4 by (auto simp: wz_def split: option.splits)
    have base: "fv_fds V w2 = insert fd (fv_fds V w)" "fv_entry V w2 = fv_entry V w" "fv_dir V w2 dirFD = fv_dir V w dirFD"
      using c2 fd d(1) dir by (auto simp: confined_def frame_def)
    show ?thesis
    proof (cases q)
      case (Some e)
      then have "fv_fds V w4 = fv_fds V w" "fv_entry V w4 = fv_entry V w"
        using k base fd frameD(1)[OF k(1)] by (auto simp: wz_def)
      then show ?thesis using res Some by simp
    next
      case None
      have w0: "wrap64 (fm_maxTransfer m + 1) = fm_maxTransfer m + 1" using lim by (intro wrap64_id) auto
      have "appended V fd (content body) w1 w2 \<and> int (length (content body)) \<le> fm_maxTransfer m"
        using copy_loop_copies[OF R m O B 2[unfolded copyUpload_def None]] lim w0 by simp
      then obtain f where f: "fv_obj V w2 fd = Some f" "uf_contents f = content body"
        and len: "int (length (content body)) \<le> fm_maxTransfer m"
        using objectD(1)[OF O 1[unfolded Inr]] by (auto simp: appended_def)
      have in2: "fd \<in> fv_fds V w2" "dirFD \<in> fv_fds V w2" using base dir by auto
      note p = publish_spec[OF R O L m 3 in2 fd(3) f(1)]
      have ent: "fv_entry V w4 = fv_entry V w3" using frameD(1)[OF k(1)] None by (simp add: wz_def)
      have f': "f\<lparr>uf_uid := 0, uf_gid := 0, uf_mode := 0x1A0\<rparr> =
          \<lparr>uf_contents = content body, uf_uid = 0, uf_gid = 0, uf_mode = 0x1A0\<rparr>" using f(2) by (cases f) simp
      have "fv_fds V w4 = fv_fds V w" using k(2) p(1) base fd None by (auto simp: wz_def)
      moreover have "published V D name g w2 w3 \<longleftrightarrow> published V D name g w w4" for D g
        using base(2) ent by (simp add: published_def)
      ultimately show ?thesis using p(2) res None base len unfolding f' by (auto simp: ent)
    qed
  qed
  then show "fv_fds V w' = fv_fds V w" and "fv_entry V w' = fv_entry V w \<and> r \<noteq> None \<or>
    r \<in> {None, Some sync_dir_error} \<and> (\<exists>D. fv_dir V w dirFD = Some D \<and>
      published V D name \<lparr>uf_contents = content body, uf_uid = 0, uf_gid = 0, uf_mode = 0x1A0\<rparr> w w') \<and>
      int (length (content body)) \<le> fm_maxTransfer m" by blast+
qed

definition roots_open :: "('w, 'd) files_views \<Rightarrow> 'w files_manager \<Rightarrow> 'w \<Rightarrow> bool" where
  "roots_open V m w \<longleftrightarrow> (\<forall>i root. map_of (fm_roots m) i = Some root \<longrightarrow> rd_fd root \<in> fv_fds V w)"

definition kernel_rules :: "('w, 'd) files_views \<Rightarrow> 'w files_kernel \<Rightarrow> bool" where
  "kernel_rules V K \<longleftrightarrow> descriptor_rules V K \<and> lookup_rules V K \<and> object_rules V K \<and> link_rules V K \<and> readdir_rules V K"

text \<open>What a published upload is: the whole body, owned by root with mode 0640, in the directory the request names.\<close>

definition uploaded :: "('w, 'd) files_views \<Rightarrow> 'w files_manager \<Rightarrow> string \<Rightarrow> string \<Rightarrow> string \<Rightarrow> string \<Rightarrow> 'w \<Rightarrow> 'w \<Rightarrow> bool" where
  "uploaded V m rootID path name contents w w' \<longleftrightarrow> validateRelativePath path = None \<and> validBaseName name \<and>
     int (length contents) \<le> fm_maxTransfer m \<and>
     (\<exists>root D0 D. map_of (fm_roots m) rootID = Some root \<and> rt_Writable (rd_Root root) \<and>
       fv_dir V w (rd_fd root) = Some D0 \<and> fv_beneath V w D0 (dot_path path) = Some D \<and>
       published V D name \<lparr>uf_contents = contents, uf_uid = 0, uf_gid = 0, uf_mode = 0x1A0\<rparr> w w')"

lemma Upload_spec:
  assumes K: "kernel_rules V K" and m: "on_kernel K m" and B: "body_ok read content"
    and lim: "0 \<le> fm_maxTransfer m" "fm_maxTransfer m < 2 ^ 63 - 1" and ro: "roots_open V m w"
    and s: "files_Upload read K ctx m rootID path name body w = Some (r, w')"
  shows "fv_fds V w' = fv_fds V w \<and> (fv_entry V w' = fv_entry V w \<and> r \<noteq> None \<or>
    r \<in> {None, Some sync_dir_error} \<and> uploaded V m rootID path name (content body) w w')"
proof -
  have R: "descriptor_rules V K" and Lk: "lookup_rules V K" and O: "object_rules V K" and L: "link_rules V K"
    using K by (simp_all add: kernel_rules_def)
  have cl: "closes V (fk_close K)" and km: "fm_closeFD m = fk_close K"
    using R m by (simp_all add: descriptor_rules_def on_kernel_def)
  obtain q0 where q0: "ctx w = q0" by blast
  show ?thesis
  proof (cases "validateRelativePath path = None \<and> validBaseName name \<and> q0 = None \<and>
      (\<exists>root. map_of (fm_roots m) rootID = Some root \<and> rt_Writable (rd_Root root))")
    case False
    then have "w' = w \<and> r \<noteq> None" using s[unfolded files_Upload_def q0] by (auto split: if_splits option.splits)
    then show ?thesis by simp
  next
    case True
    then obtain root where root: "map_of (fm_roots m) rootID = Some root" "rt_Writable (rd_Root root)" by blast
    have rf: "rd_fd root \<in> fv_fds V w" using ro root(1) by (simp add: roots_open_def)
    obtain r1 w1 where o: "openBeneath K (rd_fd root) path (O_RDONLY OR O_DIRECTORY) w = (r1, w1)"
      by (cases "openBeneath K (rd_fd root) path (O_RDONLY OR O_DIRECTORY) w")
    note b = openBeneath_spec[OF R o rf]
    have eq: "(case r1 of Inl e \<Rightarrow> Some (Some e, w1) | Inr dirFD \<Rightarrow>
        (case upload_into read K ctx m dirFD name body w1 of None \<Rightarrow> None
         | Some (r, w2) \<Rightarrow> Some (r, snd (fk_close K dirFD w2)))) = Some (r, w')"
      using s[unfolded files_Upload_def km q0] True root by (simp add: o)
    show ?thesis
    proof (cases r1)
      case (Inl e)
      then show ?thesis using eq b(1,2) frameD(1) by fastforce
    next
      case (Inr dirFD)
      have fd: "dirFD \<notin> fv_fds V w" "fv_fds V w1 = insert dirFD (fv_fds V w)" using b(3)[OF Inr] by auto
      obtain q w2 where u: "upload_into read K ctx m dirFD name body w1 = Some (q, w2)"
        using eq Inr by (cases "upload_into read K ctx m dirFD name body w1") auto
      have "dirFD \<in> fv_fds V w1" using fd by simp
      note ui = upload_into_spec[OF R O L m B lim this u]
      obtain q4 w4 where c: "fk_close K dirFD w2 = (q4, w4)" by (cases "fk_close K dirFD w2")
      note k = closesD[OF cl c]
      have res: "r = q" "w' = w4" using eq Inr u c by auto
      have fds: "fv_fds V w4 = fv_fds V w" using k(2) ui(1) fd by auto
      obtain D0 D where D: "fv_dir V w (rd_fd root) = Some D0" "fv_beneath V w D0 (dot_path path) = Some D"
        "fv_dir V w1 dirFD = Some D" using b(4)[OF Lk refl Inr] by blast
      have ent: "fv_entry V w1 = fv_entry V w" "fv_entry V w4 = fv_entry V w2"
        using frameD(1)[OF b(1)] frameD(1)[OF k(1)] by simp_all
      then have "published V D' name g w1 w2 \<longleftrightarrow> published V D' name g w w4" for D' g by (simp add: published_def)
      then show ?thesis using ui(2) res fds D root True ent by (auto simp: uploaded_def)
    qed
  qed
qed

section \<open>Sorting entries\<close>

text \<open>A comparison by key, reversed or not, ordered before another one, stays one.\<close>

lemma compare_keys:
  "compareInt64 a b \<le> 0 \<longleftrightarrow> a \<le> b" "compareUint32 n k \<le> 0 \<longleftrightarrow> n \<le> k" "string_Compare s t \<le> 0 \<longleftrightarrow> s \<le> t"
  "0 \<le> compareInt64 a b \<longleftrightarrow> b \<le> a" "0 \<le> compareUint32 n k \<longleftrightarrow> k \<le> n" "0 \<le> string_Compare s t \<longleftrightarrow> t \<le> s"
  by (auto simp: compareInt64_def compareUint32_def string_Compare_def)

lemma compareEntries_keys:
  "compareEntries a b field \<le> 0 \<longleftrightarrow>
     (if field = ''size'' then fe_Size a \<le> fe_Size b
      else if field = ''modified'' then fe_Modified a \<le> fe_Modified b
      else if field = ''owner'' then fe_Owner a \<le> fe_Owner b
      else if field = ''permissions'' then fe_Mode a AND 0xFFF \<le> fe_Mode b AND 0xFFF
      else fe_Name a \<le> fe_Name b)"
  "0 \<le> compareEntries a b field \<longleftrightarrow> compareEntries b a field \<le> 0"
  by (simp_all add: compareEntries_def compare_keys)

lemma compareEntries_linear: "compareEntries a b field \<le> 0 \<or> compareEntries b a field \<le> 0"
  unfolding compareEntries_keys by (simp split: if_splits) (metis linear)

lemma compareEntries_trans:
  "compareEntries a b field \<le> 0 \<Longrightarrow> compareEntries b c field \<le> 0 \<Longrightarrow> compareEntries a c field \<le> 0"
  unfolding compareEntries_keys by (simp split: if_splits)

lemma entry_order_iff: "entry_order field direction a b \<le> 0 \<longleftrightarrow>
   (fe_Type a = EntryDirectory \<and> fe_Type b \<noteq> EntryDirectory \<or>
    (fe_Type a = EntryDirectory \<longleftrightarrow> fe_Type b = EntryDirectory) \<and>
      (let le = (\<lambda>a b. if direction = ''desc'' then compareEntries b a field \<le> 0 else compareEntries a b field \<le> 0)
       in le a b \<and> (le b a \<longrightarrow> fe_Name a \<le> fe_Name b)))"
proof -
  have e: "compareEntries b a field \<le> 0 \<longleftrightarrow> 0 \<le> compareEntries a b field"
    by (rule compareEntries_keys(2)[symmetric])
  obtain c where c: "compareEntries a b field = c" by blast
  have "entry_order field direction a b \<le> 0 \<longleftrightarrow>
   (fe_Type a = EntryDirectory \<and> fe_Type b \<noteq> EntryDirectory \<or>
    (fe_Type a = EntryDirectory \<longleftrightarrow> fe_Type b = EntryDirectory) \<and>
      (if c = 0 then fe_Name a \<le> fe_Name b else if direction = ''desc'' then 0 \<le> c else c \<le> 0))"
    by (simp add: entry_order_def Let_def c compare_keys)
  then show ?thesis unfolding Let_def e c by (cases "c = 0"; cases "0 \<le> c") auto
qed

interpretation entry_sort: int_comparison "entry_order field direction" for field direction
proof unfold_locales
  fix a b c
  define le where "le = (\<lambda>a b. if direction = ''desc'' then compareEntries b a field \<le> 0 else compareEntries a b field \<le> 0)"
  have le: "le x y \<or> le y x" "le x y \<Longrightarrow> le y z \<Longrightarrow> le x z" for x y z
    using compareEntries_linear[of x y field] compareEntries_trans[of x y field z] compareEntries_trans[of z y field x]
    by (auto simp: le_def)
  note iff = entry_order_iff[where field = field and direction = direction, folded le_def, unfolded Let_def]
  show "entry_order field direction a b \<le> 0 \<or> entry_order field direction b a \<le> 0"
    using le(1)[of a b] unfolding iff by auto
  show "entry_order field direction a c \<le> 0"
    if "entry_order field direction a b \<le> 0" "entry_order field direction b c \<le> 0"
    using that le(2) order_trans unfolding iff by metis
qed

section \<open>Listings\<close>

text \<open>\<open>entries_stay\<close>: no entry vanishes between the directory stream and the look at it.\<close>

definition entries_stay :: "'w files_kernel \<Rightarrow> bool" where
  "entries_stay K \<longleftrightarrow> (\<forall>fd name w e w'. (fk_fstatat K fd name w = (Inl e, w') \<longrightarrow> \<not> errors_is e ENOENT) \<and>
     (fk_readlinkat K fd name w = (Inl e, w') \<longrightarrow> \<not> errors_is e ENOENT))"

definition enc_size :: "(files_entry \<Rightarrow> nat result) \<Rightarrow> files_entry \<Rightarrow> nat" where
  "enc_size enc e = (case enc e of Inl _ \<Rightarrow> 0 | Inr n \<Rightarrow> n)"

lemma entryAt_spec:
  assumes R: "descriptor_rules V K" and s: "entryAt K fd name w = (r, w')"
  shows "confined V {} w w'" and "\<And>e. r = Inr e \<Longrightarrow> fe_Name e = name"
    and "\<And>e. entries_stay K \<Longrightarrow> r = Inl e \<Longrightarrow> \<not> errors_is e ENOENT"
proof -
  obtain r1 w1 where 1: "fk_fstatat K fd name w = (r1, w1)" by (cases "fk_fstatat K fd name w")
  obtain r2 w2 where 2: "fk_readlinkat K fd name w1 = (r2, w2)" by (cases "fk_readlinkat K fd name w1")
  have t: "touches V {} (fk_fstatat K fd name)" "touches V {} (fk_readlinkat K fd name)"
    using R by (simp_all add: descriptor_rules_def)
  note c1 = touches_confined[OF t(1) 1] and c2 = touches_confined[OF t(2) 2]
  note eq = s[unfolded entryAt_def 1 prod.case 2]
  have "w' = w1 \<or> w' = w2" using eq by (auto simp: Let_def split: sum.splits if_splits)
  then show "confined V {} w w'" using c1 confined_trans[OF c1 c2] by auto
  show "fe_Name e = name" if "r = Inr e" for e using eq that by (auto simp: Let_def split: sum.splits if_splits)
  show "\<not> errors_is e ENOENT" if "entries_stay K" "r = Inl e" for e
    using eq that 1 2 unfolding entries_stay_def by (auto simp: Let_def split: sum.splits if_splits)
qed

lemma next_name: "scanned + 1 \<le> limit \<Longrightarrow> take (limit - scanned) (x # xs) = x # take (limit - (scanned + 1)) xs" for limit :: nat
  by (simp add: take_Cons' Suc_diff_Suc)

lemma scan_batch_spec:
  assumes R: "descriptor_rules V K"
  shows "scan_batch K lower limit fd request names scanned found w = (r, w') \<Longrightarrow> scanned \<le> limit \<Longrightarrow>
    confined V {} w w' \<and> (\<forall>scanned' found' tr. r = Inr (scanned', found', tr) \<longrightarrow>
      (\<exists>taken. map fe_Name found' = map fe_Name found @ taken \<and>
        subseq taken (filter (listed lower request) (take (limit - scanned) names)) \<and>
        (entries_stay K \<longrightarrow> taken = filter (listed lower request) (take (limit - scanned) names)) \<and>
        (if tr then limit < scanned + length names else scanned' = scanned + length names \<and> scanned' \<le> limit)))"
proof (induction names arbitrary: scanned found w)
  case (Cons name names)
  obtain r1 w1 where e: "entryAt K fd name w = (r1, w1)" by (cases "entryAt K fd name w")
  note sp = entryAt_spec[OF R e]
  consider "limit < scanned + 1" | "scanned + 1 \<le> limit" "\<not> listed lower request name"
    | err where "scanned + 1 \<le> limit" "listed lower request name" "r1 = Inl err" "errors_is err ENOENT"
    | err where "scanned + 1 \<le> limit" "listed lower request name" "r1 = Inl err" "\<not> errors_is err ENOENT"
    | ent where "scanned + 1 \<le> limit" "listed lower request name" "r1 = Inr ent"
    by (cases r1) force+
  then show ?case
  proof cases
    case 1
    then show ?thesis using Cons.prems by auto
  next
    case 2
    then have rec: "scan_batch K lower limit fd request names (scanned + 1) found w = (r, w')" using Cons.prems by simp
    show ?thesis using Cons.IH[OF rec 2(1)] 2(2) unfolding next_name[OF 2(1)] by fastforce
  next
    case 3
    have rec: "scan_batch K lower limit fd request names (scanned + 1) found w1 = (r, w')" using Cons.prems 3 e by simp
    have "\<not> entries_stay K" using sp(3)[OF _ 3(3)] 3(4) by blast
    then show ?thesis using Cons.IH[OF rec 3(1)] confined_trans[OF sp(1)] 3(2) unfolding next_name[OF 3(1)]
      by (fastforce intro: list_emb_Cons)
  next
    case 4
    then show ?thesis using Cons.prems e sp(1) by auto
  next
    case 5
    have rec: "scan_batch K lower limit fd request names (scanned + 1) (found @ [ent]) w1 = (r, w')"
      using Cons.prems 5 e by simp
    have "fe_Name ent = name" using sp(2) 5 by simp
    then show ?thesis using Cons.IH[OF rec 5(1)] confined_trans[OF sp(1)] 5(2) unfolding next_name[OF 5(1)]
      by (fastforce intro: subseq_Cons2)
  qed
qed auto

text \<open>One round of the directory loop: the batch is gone from the stream, and the scan of it is as above.\<close>

lemma scan_round:
  assumes R: "descriptor_rules V K" and Rd: "readdir_rules V K" and d: "directory \<in> fv_fds V w"
    and 1: "fk_readdir K directory n w = ((batch, err), w1)"
    and 2: "scan_batch K lower limit fd request batch scanned found w1 = (r2, w2)" "scanned \<le> limit"
  shows "confined V UNIV w w2" and "fv_names V w directory = batch @ fv_names V w2 directory"
    and "err = None \<Longrightarrow> batch \<noteq> []" and "\<And>e. err = Some e \<Longrightarrow> errors_is e io_EOF \<Longrightarrow> fv_names V w2 directory = []"
proof -
  have t: "touches V UNIV (fk_readdir K directory n)" using R by (simp add: descriptor_rules_def)
  note c1 = touches_confined[OF t 1]
  have c2: "confined V {} w1 w2" using scan_batch_spec[OF R 2] by blast
  have n2: "fv_names V w2 directory = fv_names V w1 directory"
    using c1 c2 d by (simp add: confined_def frame_def)
  note rules = Rd[unfolded readdir_rules_def, rule_format, OF 1]
  show "confined V UNIV w w2" using confined_trans[OF c1 confined_mono[OF c2]] by simp
  show "fv_names V w directory = batch @ fv_names V w2 directory" using rules n2 by simp
  show "batch \<noteq> []" if "err = None" using rules that by blast
  show "fv_names V w2 directory = []" if "err = Some e" "errors_is e io_EOF" for e
    using rules that n2 by simp
qed

lemma scan_directory_spec:
  assumes R: "descriptor_rules V K" and Rd: "readdir_rules V K"
  shows "scan_directory fuel K ctx lower limit fd directory request scanned found w = Some (r, w') \<Longrightarrow>
    directory \<in> fv_fds V w \<Longrightarrow> scanned \<le> limit \<Longrightarrow>
    confined V UNIV w w' \<and> (\<forall>found' tr. r = Inr (found', tr) \<longrightarrow>
      (\<exists>taken. map fe_Name found' = map fe_Name found @ taken \<and>
        subseq taken (filter (listed lower request) (take (limit - scanned) (fv_names V w directory))) \<and>
        (entries_stay K \<longrightarrow> taken = filter (listed lower request) (take (limit - scanned) (fv_names V w directory))) \<and>
        (tr \<longleftrightarrow> limit < scanned + length (fv_names V w directory))))"
proof (induction fuel arbitrary: scanned found w)
  case (Suc fuel)
  obtain batch err w1 where 1: "fk_readdir K directory directoryBatchSize w = ((batch, err), w1)"
    by (metis surj_pair)
  obtain r2 w2 where 2: "scan_batch K lower limit fd request batch scanned found w1 = (r2, w2)"
    by (cases "scan_batch K lower limit fd request batch scanned found w1")
  note rnd = scan_round[OF R Rd Suc.prems(2) 1 2 Suc.prems(3)]
  note sb = scan_batch_spec[OF R 2 Suc.prems(3), THEN conjunct2, rule_format]
  note eq = Suc.prems(1)[unfolded scan_directory.simps 1 prod.case 2]
  show ?case
  proof (cases "ctx w")
    case (Some e)
    then show ?thesis using eq by auto
  next
    case None
    show ?thesis
    proof (cases r2)
      case (Inl e)
      then show ?thesis using eq None rnd(1) by auto
    next
      case (Inr t)
      obtain scanned' found' tr where t: "r2 = Inr (scanned', found', tr)" using Inr by (cases t) auto
      obtain taken where tk: "map fe_Name found' = map fe_Name found @ taken"
        "subseq taken (filter (listed lower request) (take (limit - scanned) batch))"
        "entries_stay K \<longrightarrow> taken = filter (listed lower request) (take (limit - scanned) batch)"
        "if tr then limit < scanned + length batch else scanned' = scanned + length batch \<and> scanned' \<le> limit"
        using sb[OF t] by blast
      consider "tr \<or> (\<exists>e. err = Some e \<and> errors_is e io_EOF)" "r = Inr (found', tr)" "w' = w2"
        | e where "r = Inl e" "w' = w2"
        | "\<not> tr" "err = None" "scan_directory fuel K ctx lower limit fd directory request scanned' found' w2 = Some (r, w')"
        using eq None t by (auto split: if_splits option.splits)
      then show ?thesis
      proof cases
        case 1
        have "take (limit - scanned) (fv_names V w directory) = take (limit - scanned) batch" if tr
          unfolding rnd(2) using tk(4) that by simp
        moreover have "fv_names V w directory = batch" if "\<not> tr" using 1(1) that rnd(2,4) by auto
        ultimately have "take (limit - scanned) (fv_names V w directory) = take (limit - scanned) batch"
          "tr \<longleftrightarrow> limit < scanned + length (fv_names V w directory)"
          using tk(4) rnd(2) by (cases tr; simp)+
        then show ?thesis using tk(1-3) rnd(1) 1(2,3) by auto
      next
        case 2
        then show ?thesis using rnd(1) by simp
      next
        case 3
        have d2: "directory \<in> fv_fds V w2" using rnd(1) Suc.prems(2) by (simp add: confined_def)
        have all: "scanned' = scanned + length batch" "scanned' \<le> limit" using tk(4) 3(1) by simp_all
        note IH = Suc.IH[OF 3(3) d2 all(2)]
        have names: "take (limit - scanned) (fv_names V w directory) = take (limit - scanned) batch @ take (limit - scanned') (fv_names V w2 directory)"
          unfolding rnd(2) all(1) by simp
        have "\<exists>taken. map fe_Name f = map fe_Name found @ taken \<and>
          subseq taken (filter (listed lower request) (take (limit - scanned) (fv_names V w directory))) \<and>
          (entries_stay K \<longrightarrow> taken = filter (listed lower request) (take (limit - scanned) (fv_names V w directory))) \<and>
          (t2 \<longleftrightarrow> limit < scanned + length (fv_names V w directory))" if rf: "r = Inr (f, t2)" for f t2
        proof -
          obtain more where m: "map fe_Name f = map fe_Name found' @ more"
            "subseq more (filter (listed lower request) (take (limit - scanned') (fv_names V w2 directory)))"
            "entries_stay K \<longrightarrow> more = filter (listed lower request) (take (limit - scanned') (fv_names V w2 directory))"
            "t2 \<longleftrightarrow> limit < scanned' + length (fv_names V w2 directory)"
            using IH[THEN conjunct2, rule_format, OF rf] by blast
          have "t2 \<longleftrightarrow> limit < scanned + length (fv_names V w directory)" unfolding rnd(2) using m(4) all(1) by (simp add: add.assoc)
          then show ?thesis using m tk(1-3) unfolding names
            by (intro exI[of _ "taken @ more"]) (auto intro: list_emb_append_mono)
        qed
        then show ?thesis using confined_trans[OF rnd(1) IH[THEN conjunct1]] by simp
      qed
    qed
  qed
qed simp

lemma scan_directory_ends:
  assumes R: "descriptor_rules V K" and Rd: "readdir_rules V K"
  shows "scanned \<le> limit \<Longrightarrow> limit - scanned < fuel \<Longrightarrow> directory \<in> fv_fds V w \<Longrightarrow>
    scan_directory fuel K ctx lower limit fd directory request scanned found w \<noteq> None"
proof (induction fuel arbitrary: scanned found w)
  case (Suc fuel)
  obtain batch err w1 where 1: "fk_readdir K directory directoryBatchSize w = ((batch, err), w1)"
    by (metis surj_pair)
  obtain r2 w2 where 2: "scan_batch K lower limit fd request batch scanned found w1 = (r2, w2)"
    by (cases "scan_batch K lower limit fd request batch scanned found w1")
  note rnd = scan_round[OF R Rd Suc.prems(3) 1 2 Suc.prems(1)]
  have "scan_directory fuel K ctx lower limit fd directory request scanned' found' w2 \<noteq> None"
    if "r2 = Inr (scanned', found', False)" "err = None" for scanned' found'
  proof -
    have "scanned' = scanned + length batch" "scanned' \<le> limit"
      using scan_batch_spec[OF R 2 Suc.prems(1), THEN conjunct2, rule_format, OF that(1)] by auto
    moreover have "batch \<noteq> []" by (rule rnd(3)[OF that(2)])
    moreover have "directory \<in> fv_fds V w2" using rnd(1) Suc.prems(3) by (simp add: confined_def)
    ultimately show ?thesis using Suc.IH[of scanned' w2 found'] Suc.prems(2) by (cases batch) auto
  qed
  then show ?case unfolding scan_directory.simps 1 prod.case 2
    by (auto split: option.splits sum.splits)
qed simp

lemma bound_entries_spec:
  "bound_entries enc limit bytes es returned encoded = Inr (returned', cutoff) \<Longrightarrow> length returned \<le> limit \<Longrightarrow>
    encoded \<le> bytes \<Longrightarrow>
    \<exists>n \<le> length es. returned' = returned @ take n es \<and> length returned' \<le> limit \<and>
      encoded + sum_list (map (enc_size enc) (take n es)) \<le> bytes \<and>
      (if cutoff then n < length es \<and>
         (length returned' = limit \<or> bytes < encoded + sum_list (map (enc_size enc) (take (Suc n) es)))
       else n = length es)"
proof (induction es arbitrary: returned encoded)
  case (Cons e es)
  show ?case
  proof (cases "length returned = limit")
    case True
    then show ?thesis using Cons.prems by (intro exI[of _ 0]) auto
  next
    case False
    then obtain n where n: "enc e = Inr n" using Cons.prems(1) by (auto split: sum.splits)
    show ?thesis
    proof (cases "encoded + n > bytes")
      case True
      then show ?thesis using Cons.prems False n by (intro exI[of _ 0]) (auto simp: enc_size_def)
    next
      case ok: False
      have rec: "bound_entries enc limit bytes es (returned @ [e]) (encoded + n) = Inr (returned', cutoff)"
        using Cons.prems(1) False n ok by simp
      have "length (returned @ [e]) \<le> limit" "encoded + n \<le> bytes" using Cons.prems(2) False ok by auto
      from Cons.IH[OF rec this] obtain k where "k \<le> length es \<and> returned' = (returned @ [e]) @ take k es \<and>
        length returned' \<le> limit \<and> encoded + n + sum_list (map (enc_size enc) (take k es)) \<le> bytes \<and>
        (if cutoff then k < length es \<and>
          (length returned' = limit \<or> bytes < encoded + n + sum_list (map (enc_size enc) (take (Suc k) es)))
         else k = length es)" by blast
      moreover have "enc_size enc e = n" using n by (simp add: enc_size_def)
      ultimately show ?thesis by (intro exI[of _ "Suc k"]) (auto split: if_splits)
    qed
  qed
qed auto


lemma subseq_mset: "subseq xs ys \<Longrightarrow> mset xs \<subseteq># mset ys"
  by (induction rule: list_emb.induct) (auto intro: subset_mset.order_trans)

text \<open>
  What a listing of a directory promises of its names \<open>names\<close>, in the order the directory stream has them. At most \<open>maxScanned\<close> of
  them are looked at; the complete sorted list is that of the entries among those that the request asks for, and the
  answer is its first entries: as many as both bounds allow and no fewer. The answer says that it is cut exactly when names were not
  looked at or sorted entries were left out. Only an entry that vanishes between the stream and the look at
  it may be missing from the sorted list.
\<close>

definition listing_of :: "'w files_kernel \<Rightarrow> (string \<Rightarrow> string) \<Rightarrow> (files_entry \<Rightarrow> nat result) \<Rightarrow> 'w files_manager \<Rightarrow>
    list_request \<Rightarrow> string list \<Rightarrow> files_entry list \<Rightarrow> bool \<Rightarrow> bool" where
  "listing_of K lower enc m request names returned truncated \<longleftrightarrow>
     (\<exists>sorted n. sorted_wrt (\<lambda>a b. entry_order (lr_Sort request) (lr_Direction request) a b \<le> 0) sorted \<and>
        mset (map fe_Name sorted) \<subseteq># mset (filter (listed lower request) (take (fm_maxScanned m) names)) \<and>
        (entries_stay K \<longrightarrow> mset (map fe_Name sorted) = mset (filter (listed lower request) (take (fm_maxScanned m) names))) \<and>
        n \<le> length sorted \<and> returned = take n sorted \<and> n \<le> fm_maxEntries m \<and>
        sum_list (map (enc_size enc) returned) \<le> fm_maxJSONBytes m \<and>
        (n < length sorted \<longrightarrow> n = fm_maxEntries m \<or> fm_maxJSONBytes m < sum_list (map (enc_size enc) (take (Suc n) sorted))) \<and>
        (truncated \<longleftrightarrow> fm_maxScanned m < length names \<or> n < length sorted))"

lemma readDirectory_spec:
  assumes K: "kernel_rules V K" and fd: "fd \<in> fv_fds V w"
    and s: "readDirectory K ctx lower enc m fd request w = Some (r, w')"
  shows "fv_fds V w' = fv_fds V w" and "fv_entry V w' = fv_entry V w"
    and "\<And>returned tr. r = Inr (returned, tr) \<Longrightarrow> listing_of K lower enc m request (fv_names V w fd) returned tr"
proof -
  have R: "descriptor_rules V K" and Lk: "lookup_rules V K" and Rd: "readdir_rules V K"
    using K by (simp_all add: kernel_rules_def)
  have op: "opens V (fk_dup K fd)" and cl: "closes V (fk_close K)" using R by (simp_all add: descriptor_rules_def)
  obtain r1 w1 where 1: "fk_dup K fd w = (r1, w1)" by (cases "fk_dup K fd w")
  note d = opensD[OF op 1]
  note eq = s[unfolded readDirectory_def 1 prod.case]
  have "fv_fds V w' = fv_fds V w \<and> fv_entry V w' = fv_entry V w \<and> (\<forall>returned tr. r = Inr (returned, tr) \<longrightarrow>
    listing_of K lower enc m request (fv_names V w fd) returned tr)"
  proof (cases r1)
    case (Inl e)
    then show ?thesis using eq d(1,2) frameD(1) by fastforce
  next
    case (Inr directory)
    have dir: "directory \<notin> fv_fds V w" "fv_fds V w1 = insert directory (fv_fds V w)" using d(3)[OF Inr] by auto
    obtain r2 w2 where 2: "scan_directory (fm_maxScanned m + 2) K ctx lower (fm_maxScanned m) fd directory request 0 [] w1
        = Some (r2, w2)"
      using eq Inr by (cases "scan_directory (fm_maxScanned m + 2) K ctx lower (fm_maxScanned m) fd directory request 0 [] w1") auto
    have "directory \<in> fv_fds V w1" using dir by simp
    note sp = scan_directory_spec[OF R Rd 2 this le0, unfolded diff_zero add_0]
    obtain q3 w3 where 3: "fk_close K directory w2 = (q3, w3)" by (cases "fk_close K directory w2")
    note k = closesD[OF cl 3]
    have w': "w' = w3" using eq Inr 2 3 by (auto split: sum.splits)
    have c: "fv_fds V w2 = fv_fds V w1" "fv_entry V w2 = fv_entry V w1"
      using sp by (simp_all add: confined_def frame_def)
    have names: "fv_names V w1 directory = fv_names V w fd" using dupD[OF Lk 1[unfolded Inr]] by simp
    have "listing_of K lower enc m request (fv_names V w fd) returned tr" if rr: "r = Inr (returned, tr)" for returned tr
    proof -
      note eq2 = eq[unfolded Inr sum.case 2 option.case prod.case]
      obtain found t1 where f: "r2 = Inr (found, t1)" using eq2 rr by (cases r2) auto
      obtain t2 where b: "bound_entries enc (fm_maxEntries m) (fm_maxJSONBytes m)
          (sortEntries found (lr_Sort request) (lr_Direction request)) [] 0 = Inr (returned, t2)"
        and tr: "tr = (t1 \<or> t2)"
        using eq2 rr unfolding f by (auto split: sum.splits)
      define sorted where "sorted = sortEntries found (lr_Sort request) (lr_Direction request)"
      have so: "sorted_wrt (\<lambda>a b. entry_order (lr_Sort request) (lr_Direction request) a b \<le> 0) sorted"
        "mset sorted = mset found"
        unfolding sorted_def sortEntries_def by (rule entry_sort.sort_by_in_order entry_sort.mset_sort_by)+
      have nm: "mset (map fe_Name sorted) = mset (map fe_Name found)" using so(2) by simp
      have fn: "subseq (map fe_Name found) (filter (listed lower request) (take (fm_maxScanned m) (fv_names V w fd)))"
        "entries_stay K \<longrightarrow> map fe_Name found = filter (listed lower request) (take (fm_maxScanned m) (fv_names V w fd))"
        "t1 \<longleftrightarrow> fm_maxScanned m < length (fv_names V w fd)"
        using sp[THEN conjunct2, rule_format, OF f] unfolding names by auto
      obtain n where n: "n \<le> length sorted" "returned = take n sorted" "length returned \<le> fm_maxEntries m"
        "sum_list (map (enc_size enc) (take n sorted)) \<le> fm_maxJSONBytes m"
        "if t2 then n < length sorted \<and> (length returned = fm_maxEntries m \<or>
           fm_maxJSONBytes m < sum_list (map (enc_size enc) (take (Suc n) sorted))) else n = length sorted"
        using bound_entries_spec[OF b, folded sorted_def, unfolded add_0 append_Nil list.size(3), OF le0 le0] by blast
      have len: "length returned = n" using n(1,2) by simp
      have cut: "t2 \<longleftrightarrow> n < length sorted" "n < length sorted \<longrightarrow> n = fm_maxEntries m \<or>
          fm_maxJSONBytes m < sum_list (map (enc_size enc) (take (Suc n) sorted))"
        using n(1,5) len by (auto split: if_splits)
      have al: "entries_stay K \<longrightarrow> mset (map fe_Name found) = mset (filter (listed lower request) (take (fm_maxScanned m) (fv_names V w fd)))"
        using fn(2) by simp
      show ?thesis unfolding listing_of_def
        using so(1) n(1-4) len cut al fn(3) subseq_mset[OF fn(1)] nm tr
        by (intro exI[of _ sorted] exI[of _ n]) simp
    qed
    then show ?thesis using w' k c dir frameD(1)[OF k(1)] frameD(1)[OF d(1)] by auto
  qed
  then show "fv_fds V w' = fv_fds V w" and "fv_entry V w' = fv_entry V w"
    and "\<And>returned tr. r = Inr (returned, tr) \<Longrightarrow> listing_of K lower enc m request (fv_names V w fd) returned tr"
    by blast+
qed

text \<open>The directory a request names: the one its relative path leads to below the root.\<close>

definition denotes :: "('w, 'd) files_views \<Rightarrow> 'w \<Rightarrow> root_descriptor \<Rightarrow> string \<Rightarrow> 'd \<Rightarrow> bool" where
  "denotes V w root path D \<longleftrightarrow>
     (\<exists>D0. fv_dir V w (rd_fd root) = Some D0 \<and> fv_beneath V w D0 (dot_path path) = Some D)"

lemma List_spec:
  assumes K: "kernel_rules V K" and m: "on_kernel K m" and ro: "roots_open V m w"
    and s: "files_List K ctx lower enc m request w = Some (r, w')"
  shows "fv_fds V w' = fv_fds V w" and "fv_entry V w' = fv_entry V w"
    and "\<And>st. r = Inr st \<Longrightarrow> lr_Root request \<noteq> [] \<Longrightarrow>
      \<exists>root D. map_of (fm_roots m) (lr_Root request) = Some root \<and> fst_Active st = rd_Root root \<and>
        fst_Path st = lr_Path request \<and> validateRelativePath (lr_Path request) = None \<and>
        denotes V w root (lr_Path request) D \<and>
        listing_of K lower enc m (list_defaults request) (fv_listing V w D) (fst_Entries st) (fst_Truncated st)"
proof -
  have R: "descriptor_rules V K" and Lk: "lookup_rules V K" using K by (simp_all add: kernel_rules_def)
  have cl: "closes V (fk_close K)" and km: "fm_closeFD m = fk_close K"
    using R m by (simp_all add: descriptor_rules_def on_kernel_def)
  define req where "req = list_defaults request"
  have rq: "lr_Root req = lr_Root request" "lr_Path req = lr_Path request" by (simp_all add: req_def list_defaults_def)
  note eq = s[unfolded files_List_def Let_def km, folded req_def]
  have "fv_fds V w' = fv_fds V w \<and> fv_entry V w' = fv_entry V w \<and> (\<forall>st. r = Inr st \<longrightarrow> lr_Root request \<noteq> [] \<longrightarrow>
      (\<exists>root D. map_of (fm_roots m) (lr_Root request) = Some root \<and> fst_Active st = rd_Root root \<and>
        fst_Path st = lr_Path request \<and> validateRelativePath (lr_Path request) = None \<and>
        denotes V w root (lr_Path request) D \<and>
        listing_of K lower enc m req (fv_listing V w D) (fst_Entries st) (fst_Truncated st)))"
  proof (cases "validateListRequest req = None \<and> lr_Root req \<noteq> [] \<and> map_of (fm_roots m) (lr_Root req) \<noteq> None")
    case False
    then have "w' = w \<and> (\<forall>st. r = Inr st \<longrightarrow> lr_Root request = [])"
      using eq by (auto simp: rq split: if_splits option.splits)
    then show ?thesis by simp
  next
    case True
    then obtain root where root: "map_of (fm_roots m) (lr_Root req) = Some root" by blast
    have val: "validateRelativePath (lr_Path request) = None"
      using True by (auto simp: validateListRequest_def rq split: option.splits)
    have rf: "rd_fd root \<in> fv_fds V w" using ro root by (simp add: roots_open_def)
    obtain r1 w1 where o: "openBeneath K (rd_fd root) (lr_Path req) (O_RDONLY OR O_DIRECTORY) w = (r1, w1)"
      by (cases "openBeneath K (rd_fd root) (lr_Path req) (O_RDONLY OR O_DIRECTORY) w")
    note b = openBeneath_spec[OF R o rf]
    show ?thesis
    proof (cases r1)
      case (Inl e)
      then have "w' = w1" "r = Inl e" using eq True root o by auto
      then show ?thesis using b(1,2) Inl frameD(1) by fastforce
    next
      case (Inr fd)
      have fd: "fd \<notin> fv_fds V w" "fv_fds V w1 = insert fd (fv_fds V w)" using b(3)[OF Inr] by auto
      obtain r2 w2 where rd: "readDirectory K ctx lower enc m fd req w1 = Some (r2, w2)"
        using eq True root o Inr by (cases "readDirectory K ctx lower enc m fd req w1") auto
      have "fd \<in> fv_fds V w1" using fd by simp
      note sp = readDirectory_spec[OF K this rd]
      obtain q3 w3 where c: "fk_close K fd w2 = (q3, w3)" by (cases "fk_close K fd w2")
      note k = closesD[OF cl c]
      have res: "w' = w3" "\<forall>st. r = Inr st \<longrightarrow> r2 = Inr (fst_Entries st, fst_Truncated st) \<and>
          fst_Active st = rd_Root root \<and> fst_Path st = lr_Path request"
        using eq True root o Inr rd c by (auto simp: rq split: sum.splits)
      have st: "fv_fds V w3 = fv_fds V w" "fv_entry V w3 = fv_entry V w"
        using k sp fd frameD(1)[OF k(1)] frameD(1)[OF b(1)] by auto
      obtain D0 D where D: "fv_dir V w (rd_fd root) = Some D0" "fv_beneath V w D0 (dot_path (lr_Path req)) = Some D"
        "fv_names V w1 fd = fv_listing V w D" using b(4)[OF Lk refl Inr] by blast
      have "denotes V w root (lr_Path request) D" using D(1,2) by (auto simp: denotes_def rq)
      then show ?thesis using st res root val sp(3) D(3) unfolding rq by metis
    qed
  qed
  then show "fv_fds V w' = fv_fds V w" and "fv_entry V w' = fv_entry V w"
    and "\<And>st. r = Inr st \<Longrightarrow> lr_Root request \<noteq> [] \<Longrightarrow>
      \<exists>root D. map_of (fm_roots m) (lr_Root request) = Some root \<and> fst_Active st = rd_Root root \<and>
        fst_Path st = lr_Path request \<and> validateRelativePath (lr_Path request) = None \<and>
        denotes V w root (lr_Path request) D \<and>
        listing_of K lower enc m (list_defaults request) (fv_listing V w D) (fst_Entries st) (fst_Truncated st)"
    unfolding req_def by blast+
qed

end
