(* ===== verification/Files_Browser.thy ===== *)
theory Files_Browser
  imports Files_Transfers
begin

text \<open>
  The guarantees of the file browser: both loops end, every descriptor an operation opens it closes, an upload
  publishes the whole body under a free name or nothing, and a listing is sorted, bounded and complete. A small
  kernel that keeps the laws of \<open>Files_Transfers\<close> shows that they can be met.
\<close>

section \<open>Both transfers end\<close>

text \<open>Every round of the copy that goes on takes at least one byte off the budget of the limiting reader.\<close>

lemma copy_loop_ends: "nat (lim_N l) < fuel \<Longrightarrow> copy_loop fuel read ctx m fd l written w \<noteq> None"
proof (induction fuel arbitrary: l written w)
  case (Suc fuel)
  obtain l' data err where rd: "limited_Read read l 32768 = (l', data, err)" by (cases "limited_Read read l 32768")
  obtain r1 w1 where wd: "write_data m ctx fd data written w = (r1, w1)" by (cases "write_data m ctx fd data written w")
  have "copy_loop fuel read ctx m fd l' written' w1 \<noteq> None" if "data \<noteq> []" "err \<noteq> Some io_EOF" for written'
  proof -
    have "lim_N l > 0 \<and> lim_N l' = lim_N l - int (length data)"
      using rd that by (auto simp: limited_Read_def Let_def split: if_splits prod.splits)
    then have "nat (lim_N l') < nat (lim_N l)" using that(1) by (cases data) auto
    then show ?thesis using Suc.prems by (intro Suc.IH) linarith
  qed
  then show ?case unfolding copy_loop.simps rd prod.case wd
    by (auto simp del: not_None_eq split: option.splits sum.splits)
qed simp

lemma copyUpload_ends: "0 \<le> fm_maxTransfer m \<Longrightarrow> copyUpload read ctx m fd body w \<noteq> None"
  unfolding copyUpload_def
proof (rule copy_loop_ends)
  assume a: "0 \<le> fm_maxTransfer m"
  have "wrap64 x \<le> x" if "0 \<le> x" for x
  proof -
    have "(x + 2 ^ 63) mod 2 ^ 64 \<le> x + 2 ^ 63" using that by (intro zmod_le_nonneg_dividend) auto
    then show ?thesis by (simp add: wrap64_def)
  qed
  from this[of "fm_maxTransfer m + 1"] a
  show "nat (lim_N \<lparr>lim_reader = body, lim_N = wrap64 (fm_maxTransfer m + 1)\<rparr>) < nat (fm_maxTransfer m) + 2" by simp
qed

lemma upload_into_ends: "0 \<le> fm_maxTransfer m \<Longrightarrow> upload_into read K ctx m dirFD name body w \<noteq> None"
  unfolding upload_into_def using copyUpload_ends[of m read ctx _ body]
  by (auto simp del: not_None_eq split: prod.splits sum.splits option.splits)

lemma readDirectory_ends:
  assumes K: "kernel_rules V K" shows "readDirectory K ctx lower enc m fd request w \<noteq> None"
proof -
  have R: "descriptor_rules V K" and Rd: "readdir_rules V K" using K by (simp_all add: kernel_rules_def)
  have op: "opens V (fk_dup K fd)" using R by (simp add: descriptor_rules_def)
  obtain r1 w1 where 1: "fk_dup K fd w = (r1, w1)" by (cases "fk_dup K fd w")
  have "scan_directory (fm_maxScanned m + 2) K ctx lower (fm_maxScanned m) fd directory request 0 [] w1 \<noteq> None"
    if "r1 = Inr directory" for directory
    by (rule scan_directory_ends[OF R Rd]) (use opensD(3)[OF op 1 that] in auto)
  then show ?thesis unfolding readDirectory_def 1 prod.case by (auto simp del: not_None_eq split: sum.splits option.splits)
qed

lemma files_List_ends: "kernel_rules V K \<Longrightarrow> files_List K ctx lower enc m request w \<noteq> None"
  unfolding files_List_def Let_def using readDirectory_ends[of V K ctx lower enc m]
  by (auto simp del: not_None_eq split: prod.splits sum.splits option.splits)

lemma files_Upload_ends: "0 \<le> fm_maxTransfer m \<Longrightarrow> files_Upload read K ctx m rootID path name body w \<noteq> None"
  unfolding files_Upload_def using upload_into_ends[of m read K ctx _ name body]
  by (auto simp del: not_None_eq split: prod.splits sum.splits option.splits)

section \<open>Downloads and the life of the manager\<close>

lemma Download_spec:
  assumes K: "kernel_rules V K" and ro: "roots_open V m w" and s: "files_Download K ctx m rootID path w = (r, w')"
  shows "fv_entry V w' = fv_entry V w" and "\<And>e. r = Inl e \<Longrightarrow> fv_fds V w' = fv_fds V w"
    and "\<And>d. r = Inr d \<Longrightarrow> dl_fd d \<notin> fv_fds V w \<and> fv_fds V w' = insert (dl_fd d) (fv_fds V w) \<and>
      dl_Size d \<le> fm_maxTransfer m"
proof -
  have R: "descriptor_rules V K" using K by (simp add: kernel_rules_def)
  have cl: "closes V (fk_close K)" using R by (simp add: descriptor_rules_def)
  have "fv_entry V w' = fv_entry V w \<and> (\<forall>e. r = Inl e \<longrightarrow> fv_fds V w' = fv_fds V w) \<and>
    (\<forall>d. r = Inr d \<longrightarrow> dl_fd d \<notin> fv_fds V w \<and> fv_fds V w' = insert (dl_fd d) (fv_fds V w) \<and> dl_Size d \<le> fm_maxTransfer m)"
  proof (cases "validateRelativePath path = None \<and> path \<noteq> [] \<and> map_of (fm_roots m) rootID \<noteq> None")
    case False
    then have "w' = w \<and> (\<exists>e. r = Inl e)" using s by (auto simp: files_Download_def split: option.splits if_splits)
    then show ?thesis by auto
  next
    case True
    then obtain root where root: "map_of (fm_roots m) rootID = Some root" by blast
    have rf: "rd_fd root \<in> fv_fds V w" using ro root by (simp add: roots_open_def)
    define fl where "fl = (O_RDONLY OR O_NOFOLLOW OR O_NONBLOCK)"
    obtain r1 w1 where 1: "openBeneath K (rd_fd root) path fl w = (r1, w1)" by (cases "openBeneath K (rd_fd root) path fl w")
    note b = openBeneath_spec[OF R 1 rf]
    note eq = s[unfolded files_Download_def, folded fl_def, unfolded root option.case 1 prod.case]
    show ?thesis
    proof (cases r1)
      case (Inl e)
      then show ?thesis using eq True b(1,2) frameD(1)[of V "{}" w w1] by auto
    next
      case (Inr fd)
      have fd: "fd \<notin> fv_fds V w" "fv_fds V w1 = insert fd (fv_fds V w)" using b(3)[OF Inr] by auto
      obtain r2 w2 where 2: "fk_fstat K fd w1 = (r2, w2)" by (cases "fk_fstat K fd w1")
      have "touches V {} (fk_fstat K fd)" using R by (simp add: descriptor_rules_def)
      from touchesD[OF this 2] have t: "frame V {} w1 w2" "fv_fds V w2 = fv_fds V w1" .
      obtain q3 w3 where 3: "fk_close K fd w2 = (q3, w3)" by (cases "fk_close K fd w2")
      note k = closesD[OF cl 3]
      have st: "fv_fds V w3 = fv_fds V w" "fv_entry V w3 = fv_entry V w" "fv_entry V w2 = fv_entry V w"
        using k t fd frameD(1)[OF b(1)] frameD(1)[OF t(1)] frameD(1)[OF k(1)] by auto
      have "(w' = w3 \<and> (\<exists>e. r = Inl e)) \<or> (w' = w2 \<and> (\<exists>d. r = Inr d \<and> dl_fd d = fd \<and> dl_Size d \<le> fm_maxTransfer m))"
        using eq True 2 3 Inr by (auto split: sum.splits if_splits option.splits)
      then show ?thesis using st t fd by auto
    qed
  qed
  then show "fv_entry V w' = fv_entry V w" and "\<And>e. r = Inl e \<Longrightarrow> fv_fds V w' = fv_fds V w"
    and "\<And>d. r = Inr d \<Longrightarrow> dl_fd d \<notin> fv_fds V w \<and> fv_fds V w' = insert (dl_fd d) (fv_fds V w) \<and>
      dl_Size d \<le> fm_maxTransfer m" by blast+
qed

abbreviation root_fds :: "'w files_manager \<Rightarrow> int set" where
  "root_fds m \<equiv> rd_fd ` snd ` set (fm_roots m)"

lemma close_roots_spec:
  assumes "closes V (fk_close K)"
  shows "close_roots K rs err w = (r, w') \<Longrightarrow> fv_fds V w' = fv_fds V w - rd_fd ` set rs"
proof (induction rs arbitrary: err w)
  case (Cons x rs)
  obtain q w1 where k: "fk_close K (rd_fd x) w = (q, w1)" by (cases "fk_close K (rd_fd x) w")
  show ?case using Cons.prems Cons.IH[of _ w1] closesD(2)[OF assms k] k by (cases q) auto
qed simp

lemma files_Close_spec:
  assumes "closes V (fk_close K)" and "\<not> fm_closed m" and "files_Close K m w = (e, m', w')"
  shows "fv_fds V w' = fv_fds V w - root_fds m" and "files_Close K m' v = (e, m', v)"
  using assms(2,3) close_roots_spec[OF assms(1)] by (auto simp: files_Close_def split: prod.splits)

lemma open_roots_spec:
  assumes R: "descriptor_rules V K"
  shows "open_roots K specs m w = (r, w') \<Longrightarrow> \<not> fm_closed m \<Longrightarrow> distinct (map rsp_ID specs) \<Longrightarrow>
    set (map rsp_ID specs) \<inter> fst ` set (fm_roots m) = {} \<Longrightarrow>
    (\<forall>e. r = Inl e \<longrightarrow> fv_fds V w' = fv_fds V w - root_fds m) \<and>
    (\<forall>m'. r = Inr m' \<longrightarrow> (\<exists>new. m' = m\<lparr>fm_roots := fm_roots m @ new\<rparr> \<and>
       map fst new = map rsp_ID specs \<and> map (rd_Root \<circ> snd) new = map root_of specs \<and>
       fv_fds V w' = fv_fds V w \<union> rd_fd ` snd ` set new \<and> rd_fd ` snd ` set new \<inter> fv_fds V w = {}))"
proof (induction specs arbitrary: m w)
  case (Cons s ss)
  define fl where "fl = (O_PATH OR O_DIRECTORY OR O_CLOEXEC OR O_NOFOLLOW)"
  obtain r1 w1 where 1: "fk_open K (rsp_Path s) fl w = (r1, w1)" by (cases "fk_open K (rsp_Path s) fl w")
  have op: "opens V (fk_open K (rsp_Path s) fl)" and cl: "closes V (fk_close K)" using R by (simp_all add: descriptor_rules_def)
  note d = opensD[OF op 1]
  note eq = Cons.prems(1)[unfolded open_roots.simps, folded fl_def, unfolded 1 prod.case]
  show ?case
  proof (cases r1)
    case (Inl e)
    obtain e' m' w2 where c: "files_Close K m w1 = (e', m', w2)" by (cases "files_Close K m w1")
    show ?thesis using eq Inl c files_Close_spec(1)[OF cl Cons.prems(2) c] d(2) by auto
  next
    case (Inr fd)
    have fd: "fd \<notin> fv_fds V w" "fv_fds V w1 = insert fd (fv_fds V w)" using d(3)[OF Inr] by auto
    define entry where "entry = (rsp_ID s, \<lparr>rd_Root = root_of s, rd_fd = fd\<rparr>)"
    have "rsp_ID s \<notin> fst ` set (fm_roots m)" using Cons.prems(4) by auto
    then have up: "AList.update (rsp_ID s) \<lparr>rd_Root = root_of s, rd_fd = fd\<rparr> (fm_roots m) = fm_roots m @ [entry]"
      by (simp add: entry_def update_new)
    define m1 where "m1 = m\<lparr>fm_roots := fm_roots m @ [entry]\<rparr>"
    have rec: "open_roots K ss m1 w1 = (r, w')" using eq Inr up by (simp add: m1_def)
    have "\<not> fm_closed m1" "distinct (map rsp_ID ss)" "set (map rsp_ID ss) \<inter> fst ` set (fm_roots m1) = {}"
      using Cons.prems(2-4) by (auto simp: m1_def entry_def)
    note IH = Cons.IH[OF rec this]
    show ?thesis
    proof (intro conjI allI impI)
      show "fv_fds V w' = fv_fds V w - root_fds m" if "r = Inl e" for e
        using IH[THEN conjunct1, rule_format, OF that] fd by (auto simp: m1_def entry_def)
      show "\<exists>new. m' = m\<lparr>fm_roots := fm_roots m @ new\<rparr> \<and> map fst new = map rsp_ID (s # ss) \<and>
         map (rd_Root \<circ> snd) new = map root_of (s # ss) \<and>
         fv_fds V w' = fv_fds V w \<union> rd_fd ` snd ` set new \<and> rd_fd ` snd ` set new \<inter> fv_fds V w = {}" if r: "r = Inr m'" for m'
      proof -
        obtain new where "m' = m1\<lparr>fm_roots := fm_roots m1 @ new\<rparr>" "map fst new = map rsp_ID ss"
          "map (rd_Root \<circ> snd) new = map root_of ss" "fv_fds V w' = fv_fds V w1 \<union> rd_fd ` snd ` set new"
          "rd_fd ` snd ` set new \<inter> fv_fds V w1 = {}"
          using IH[THEN conjunct2, rule_format, OF r] by (elim exE conjE)
        then show ?thesis using fd by (intro exI[of _ "entry # new"]) (auto simp: m1_def entry_def)
      qed
    qed
  qed
qed auto


section \<open>A kernel that keeps the laws\<close>

text \<open>One directory of files; descriptors are positions in a list of handles and are never used again.\<close>

datatype handle = HDir "string list" | HFile upload_file

record flat =
  fl_handles :: "handle option list"
  fl_files :: "(string \<times> upload_file) list"

definition handle_of :: "flat \<Rightarrow> int \<Rightarrow> handle option" where
  "handle_of w fd = (if 0 \<le> fd \<and> nat fd < length (fl_handles w) then fl_handles w ! nat fd else None)"

definition add_handle :: "handle \<Rightarrow> flat \<Rightarrow> int result \<times> flat" where
  "add_handle h w = (Inr (int (length (fl_handles w))), w\<lparr>fl_handles := fl_handles w @ [Some h]\<rparr>)"

definition set_handle :: "int \<Rightarrow> handle option \<Rightarrow> flat \<Rightarrow> flat" where
  "set_handle fd h w = (if handle_of w fd = None then w else w\<lparr>fl_handles := (fl_handles w)[nat fd := h]\<rparr>)"

definition on_file :: "int \<Rightarrow> (upload_file \<Rightarrow> upload_file) \<Rightarrow> flat \<Rightarrow> error option \<times> flat" where
  "on_file fd g w = (case handle_of w fd of Some (HFile f) \<Rightarrow> (None, set_handle fd (Some (HFile (g f))) w)
     | _ \<Rightarrow> (Some EINVAL, w))"

definition flat_stat :: "flat \<Rightarrow> string \<Rightarrow> stat_t result" where
  "flat_stat w name = (case map_of (fl_files w) name of None \<Rightarrow> Inl EINVAL
     | Some f \<Rightarrow> Inr \<lparr>st_Size = int (length (uf_contents f)), st_Mtim = 0, st_Uid = 0, st_Gid = 0,
         st_Mode = S_IFREG OR uf_mode f\<rparr>)"

definition flat_kernel :: "flat files_kernel" where
  "flat_kernel = \<lparr>
     fk_open = (\<lambda>p fl w. add_handle (HDir (map fst (fl_files w))) w),
     fk_close = (\<lambda>fd w. (None, set_handle fd None w)),
     fk_dup = (\<lambda>fd w. case handle_of w fd of Some (HDir ns) \<Rightarrow> add_handle (HDir ns) w | _ \<Rightarrow> (Inl EINVAL, w)),
     fk_openat2 = (\<lambda>fd p how w. case handle_of w fd of
        Some (HDir _) \<Rightarrow> if p = ''.'' then add_handle (HDir (map fst (fl_files w))) w else (Inl ENOENT, w)
      | _ \<Rightarrow> (Inl ENOENT, w)),
     fk_tmpfile = (\<lambda>fd w. add_handle (HFile \<lparr>uf_contents = [], uf_uid = 0, uf_gid = 0, uf_mode = 0x180\<rparr>) w),
     fk_readdir = (\<lambda>fd n w. case handle_of w fd of
        Some (HDir (x # ns)) \<Rightarrow> ((x # ns, None), set_handle fd (Some (HDir [])) w)
      | Some (HDir []) \<Rightarrow> (([], Some io_EOF), w)
      | _ \<Rightarrow> (([], Some EINVAL), w)),
     fk_fstat = (\<lambda>fd w. (case handle_of w fd of Some (HFile f) \<Rightarrow>
         Inr \<lparr>st_Size = int (length (uf_contents f)), st_Mtim = 0, st_Uid = 0, st_Gid = 0, st_Mode = S_IFREG OR uf_mode f\<rparr>
       | _ \<Rightarrow> Inl EINVAL, w)),
     fk_fstatat = (\<lambda>fd name w. (flat_stat w name, w)),
     fk_readlinkat = (\<lambda>fd name w. (Inl EINVAL, w)),
     fk_write = (\<lambda>fd s w. case on_file fd (\<lambda>f. f\<lparr>uf_contents := uf_contents f @ s\<rparr>) w of
        (None, w') \<Rightarrow> (Inr (int (length s)), w') | (Some e, w') \<Rightarrow> (Inl e, w')),
     fk_fchown = (\<lambda>fd u g. on_file fd (\<lambda>f. f\<lparr>uf_uid := u, uf_gid := g\<rparr>)),
     fk_fchmod = (\<lambda>fd k. on_file fd (\<lambda>f. f\<lparr>uf_mode := k\<rparr>)),
     fk_fsync = (\<lambda>fd w. (None, w)),
     fk_linkat = (\<lambda>fd dir name w. case (handle_of w fd, handle_of w dir) of
        (Some (HFile f), Some (HDir _)) \<Rightarrow>
          if map_of (fl_files w) name = None then (None, w\<lparr>fl_files := (name, f) # fl_files w\<rparr>) else (Some EEXIST, w)
      | _ \<Rightarrow> (Some EINVAL, w)),
     fk_user = (\<lambda>_. None), fk_group = (\<lambda>_. None)\<rparr>"

definition flat_views :: "(flat, unit) files_views" where
  "flat_views = \<lparr>
     fv_fds = (\<lambda>w. {fd. handle_of w fd \<noteq> None}),
     fv_dir = (\<lambda>w fd. case handle_of w fd of Some (HDir _) \<Rightarrow> Some () | _ \<Rightarrow> None),
     fv_obj = (\<lambda>w fd. case handle_of w fd of Some (HFile f) \<Rightarrow> Some f | _ \<Rightarrow> None),
     fv_names = (\<lambda>w fd. case handle_of w fd of Some (HDir ns) \<Rightarrow> ns | _ \<Rightarrow> []),
     fv_entry = (\<lambda>w _. map_of (fl_files w)),
     fv_listing = (\<lambda>w _. map fst (fl_files w)),
     fv_beneath = (\<lambda>w _ p. if p = ''.'' then Some () else None)\<rparr>"

lemma handle_of_set: "handle_of (set_handle fd h w) fd' = (if fd' = fd \<and> handle_of w fd \<noteq> None then h else handle_of w fd')"
proof (cases "handle_of w fd")
  case (Some x)
  then have fd: "0 \<le> fd" "nat fd < length (fl_handles w)" by (auto simp: handle_of_def split: if_splits)
  show ?thesis
  proof (cases "fd' = fd")
    case True
    then show ?thesis using Some fd by (simp add: set_handle_def handle_of_def)
  next
    case False
    then have "\<not> (0 \<le> fd' \<and> nat fd' = nat fd)" using fd by arith
    then show ?thesis using Some False by (auto simp: set_handle_def handle_of_def)
  qed
qed (simp add: set_handle_def)

lemma handle_of_add:
  "handle_of (w\<lparr>fl_handles := fl_handles w @ [Some h]\<rparr>) fd = (if fd = int (length (fl_handles w)) then Some h else handle_of w fd)"
  by (auto simp: handle_of_def nth_append)

lemma fresh_handle: "handle_of w (int (length (fl_handles w))) = None"
  by (simp add: handle_of_def)

lemma files_of_set [simp]: "fl_files (set_handle fd h w) = fl_files w"
  by (simp add: set_handle_def)

lemma handle_of_files [simp]: "handle_of (w\<lparr>fl_files := fs\<rparr>) fd = handle_of w fd"
  by (simp add: handle_of_def)

lemma flat_fds: "fd \<in> fv_fds flat_views w \<longleftrightarrow> handle_of w fd \<noteq> None"
  by (simp add: flat_views_def)

lemma flat_frame:
  assumes "fl_files w' = fl_files w"
    and "\<And>fd. handle_of w fd \<noteq> None \<Longrightarrow> fd \<notin> X \<Longrightarrow> handle_of w' fd = handle_of w fd"
  shows "frame flat_views X w w'"
  unfolding frame_def using assms by (simp add: flat_views_def)

lemma flat_adds: "opens flat_views (add_handle h)"
  unfolding opens_def add_handle_def prod.case sum.case set_eq_iff insert_iff flat_fds handle_of_add
  by (intro allI conjI flat_frame) (auto simp: handle_of_add fresh_handle)

lemma flat_sets: "touches flat_views {fd} (on_file fd g)"
  unfolding touches_def set_eq_iff flat_fds
  by (intro allI conjI flat_frame)
    (auto simp: on_file_def handle_of_set split: option.splits handle.splits)

lemma opens_cases: "(\<And>w. f w = g w w \<and> opens V (g w) \<or> (\<exists>e. f w = (Inl e, w))) \<Longrightarrow> opens V f"
proof (unfold opens_def, intro allI)
  fix w
  assume "\<And>w. f w = g w w \<and> (\<forall>u. case g w u of
     (Inl _, w') \<Rightarrow> frame V {} u w' \<and> fv_fds V w' = fv_fds V u
   | (Inr fd, w') \<Rightarrow> fd \<notin> fv_fds V u \<and> fv_fds V w' = insert fd (fv_fds V u) \<and> frame V {} u w') \<or> (\<exists>e. f w = (Inl e, w))"
  from this[of w] show "case f w of (Inl _, w') \<Rightarrow> frame V {} w w' \<and> fv_fds V w' = fv_fds V w
   | (Inr fd, w') \<Rightarrow> fd \<notin> fv_fds V w \<and> fv_fds V w' = insert fd (fv_fds V w) \<and> frame V {} w w'"
    by (elim disjE conjE exE) (simp_all add: frame_refl)
qed

lemma touches_snd: "touches V X f \<Longrightarrow> (\<And>w. snd (g w) = snd (f w)) \<Longrightarrow> touches V X g"
  by (simp add: touches_def)

lemma touches_pure: "(\<And>w. snd (g w) = w) \<Longrightarrow> touches V X g"
  by (simp add: touches_def frame_refl)

lemma flat_descriptors: "descriptor_rules flat_views flat_kernel"
proof -
  have dup: "opens flat_views (fk_dup flat_kernel fd)" for fd
    by (rule opens_cases[where g = "\<lambda>w. case handle_of w fd of Some h \<Rightarrow> add_handle h | None \<Rightarrow> add_handle (HDir [])"])
      (simp add: flat_kernel_def flat_adds split: option.splits handle.splits)
  have oat: "opens flat_views (fk_openat2 flat_kernel fd p how)" for fd p how
    by (rule opens_cases[where g = "\<lambda>w. add_handle (HDir (map fst (fl_files w)))"])
      (simp add: flat_kernel_def flat_adds split: option.splits handle.splits)
  have op: "opens flat_views (fk_open flat_kernel p how)" for p how
    by (rule opens_cases[where g = "\<lambda>w. add_handle (HDir (map fst (fl_files w)))"]) (simp add: flat_kernel_def flat_adds)
  have tmp: "opens flat_views (fk_tmpfile flat_kernel fd)" for fd
    using flat_adds by (simp add: flat_kernel_def)
  have cl: "closes flat_views (fk_close flat_kernel)"
    unfolding closes_def set_eq_iff flat_fds Diff_iff
    by (intro allI conjI flat_frame) (auto simp: flat_kernel_def handle_of_set)
  have wr: "touches flat_views {fd} (fk_write flat_kernel fd s)" for fd s
    by (rule touches_snd[OF flat_sets[of fd "\<lambda>f. f\<lparr>uf_contents := uf_contents f @ s\<rparr>"]])
      (simp add: flat_kernel_def split: prod.splits option.splits)
  have rd: "touches flat_views UNIV (fk_readdir flat_kernel fd n)" for fd n
    unfolding touches_def set_eq_iff flat_fds
    by (intro allI conjI flat_frame)
      (auto simp: flat_kernel_def handle_of_set split: option.splits handle.splits list.splits)
  have own: "touches flat_views {fd} (fk_fchown flat_kernel fd u g)" "touches flat_views {fd} (fk_fchmod flat_kernel fd k)" for fd u g k
    using flat_sets by (simp_all add: flat_kernel_def)
  have pure: "touches flat_views {} (fk_fstat flat_kernel fd)" "touches flat_views {} (fk_fstatat flat_kernel fd p)"
    "touches flat_views {} (fk_readlinkat flat_kernel fd p)" "touches flat_views {} (fk_fsync flat_kernel fd)" for fd p
    by (rule touches_pure, simp add: flat_kernel_def)+
  have ln: "fv_fds flat_views (snd (fk_linkat flat_kernel fd dir name w)) = fv_fds flat_views w" for fd dir name w
    unfolding set_eq_iff flat_fds by (simp add: flat_kernel_def split: option.splits handle.splits)
  show ?thesis unfolding descriptor_rules_def using dup oat op tmp cl wr rd own pure ln by blast
qed

lemma flat_rules: "kernel_rules flat_views flat_kernel"
proof -
  have lk: "lookup_rules flat_views flat_kernel"
    by (auto simp: lookup_rules_def flat_kernel_def flat_views_def add_handle_def handle_of_add
        split: option.splits handle.splits if_splits)
  have ob: "object_rules flat_views flat_kernel"
    by (auto simp: object_rules_def flat_kernel_def flat_views_def add_handle_def handle_of_add on_file_def handle_of_set
        split: option.splits handle.splits if_splits)
  have li: "link_rules flat_views flat_kernel"
    by (auto simp: link_rules_def flat_kernel_def flat_views_def fun_eq_iff split: option.splits handle.splits if_splits)
  have rd: "readdir_rules flat_views flat_kernel"
    by (auto simp: readdir_rules_def flat_kernel_def flat_views_def handle_of_set io_EOF_def EINVAL_def
        split: option.splits handle.splits if_splits list.splits)
  show ?thesis using flat_descriptors lk ob li rd by (simp add: kernel_rules_def)
qed

lemma flat_stays: "entries_stay flat_kernel"
  by (auto simp: entries_stay_def flat_kernel_def flat_stat_def EINVAL_def ENOENT_def split: option.splits)


definition browse_root :: root where
  "browse_root = \<lparr>rt_ID = ''data'', rt_Path = ''/srv'', rt_Writable = True\<rparr>"

definition browse_manager :: "flat files_manager" where
  "browse_manager = \<lparr>fm_roots = [(''data'', \<lparr>rd_Root = browse_root, rd_fd = 0\<rparr>)], fm_maxTransfer = 10, fm_maxEntries = 3,
     fm_maxScanned = 4, fm_maxJSONBytes = 5, fm_closeFD = fk_close flat_kernel, fm_openTmpfile = fk_tmpfile flat_kernel,
     fm_writeFD = fk_write flat_kernel, fm_chownFD = fk_fchown flat_kernel, fm_syncFD = fk_fsync flat_kernel,
     fm_syncDirFD = fk_fsync flat_kernel, fm_linkat = fk_linkat flat_kernel, fm_closed = False, fm_closeErr = None\<rparr>"

definition browse_file :: upload_file where
  "browse_file = \<lparr>uf_contents = ''x'', uf_uid = 0, uf_gid = 0, uf_mode = 0x1A0\<rparr>"

definition browse_world :: flat where
  "browse_world = \<lparr>fl_handles = [Some (HDir [])], fl_files = [(''b'', browse_file), (''.c'', browse_file), (''a'', browse_file)]\<rparr>"


text \<open>A body that is a string, read whole.\<close>

definition whole_read :: "string reader" where
  "whole_read r n = (drop n r, take n r, if length r \<le> n then Some io_EOF else None)"

lemma browse_facts:
  "on_kernel flat_kernel browse_manager" "roots_open flat_views browse_manager browse_world" "body_ok whole_read id"
  by (auto simp: on_kernel_def browse_manager_def roots_open_def flat_views_def browse_world_def handle_of_def
      body_ok_def whole_read_def split: if_splits)

section \<open>Properties\<close>

text \<open>
  C6. An upload is published whole or not at all. Over every kernel that keeps the laws and every body, when
  \<open>Upload\<close> answers without an error, or with the error of the final directory sync, the directory that the
  relative path denotes below the writable root has exactly one new entry, under a valid name that was free: the
  whole body, of at most the transfer limit, owned by root with mode 0640. With any other error no entry of any
  directory has changed.
\<close>

theorem upload_publishes:
  assumes "kernel_rules V K" and "on_kernel K m" and "body_ok read content"
    and "0 \<le> fm_maxTransfer m" and "fm_maxTransfer m < 2 ^ 63 - 1" and "roots_open V m w"
    and "files_Upload read K ctx m rootID path name body w = Some (r, w')"
  shows "if r = None then uploaded V m rootID path name (content body) w w'
    else fv_entry V w' = fv_entry V w \<or>
      r = Some sync_dir_error \<and> uploaded V m rootID path name (content body) w w'"
  using Upload_spec[OF assms] by auto

lemma browse_path: "validateRelativePath [] = None" "validBaseName ''n''"
  by code_simp+

lemma browse_id: "rootIDPattern ''data''"
  by code_simp

lemma browse_fields:
  "fm_roots browse_manager = [(''data'', \<lparr>rd_Root = browse_root, rd_fd = 0\<rparr>)]"
  "fm_closeFD browse_manager = fk_close flat_kernel" "fm_openTmpfile browse_manager = fk_tmpfile flat_kernel"
  "fm_writeFD browse_manager = fk_write flat_kernel" "fm_chownFD browse_manager = fk_fchown flat_kernel"
  "fm_syncFD browse_manager = fk_fsync flat_kernel" "fm_syncDirFD browse_manager = fk_fsync flat_kernel"
  "fm_linkat browse_manager = fk_linkat flat_kernel"
  by (simp_all add: browse_manager_def)

lemma browse_copy: "copyUpload whole_read (\<lambda>_. None) browse_manager fd ''hi'' w =
  (case write_data browse_manager (\<lambda>_. None) fd ''hi'' 0 w of (Inl e, w1) \<Rightarrow> Some (Some e, w1) | (Inr _, w1) \<Rightarrow> Some (None, w1))"
proof -
  have mt: "fm_maxTransfer browse_manager = 10" by (simp add: browse_manager_def)
  have f: "nat 10 + 2 = Suc 11" by simp
  have l: "limited_Read whole_read \<lparr>lim_reader = ''hi'', lim_N = wrap64 (10 + 1)\<rparr> 32768 =
      (\<lparr>lim_reader = [], lim_N = 9\<rparr>, ''hi'', Some io_EOF)"
    by (simp add: limited_Read_def whole_read_def wrap64_def Let_def)
  show ?thesis unfolding copyUpload_def mt f copy_loop.simps l prod.case option.case
    by (simp add: mt split: prod.splits sum.splits)
qed

lemma browse_upload: "map_option fst (files_Upload whole_read flat_kernel (\<lambda>_. None) browse_manager ''data'' [] ''n'' ''hi''
    browse_world) = Some None"
  by (simp add: files_Upload_def openBeneath_def open_at_def upload_into_def browse_copy publish_def browse_path
      browse_fields browse_root_def browse_world_def flat_kernel_def handle_of_def add_handle_def set_handle_def on_file_def
      write_data.simps)

theorem upload_publishes_witness:
  "\<exists>w'. files_Upload whole_read flat_kernel (\<lambda>_. None) browse_manager ''data'' [] ''n'' ''hi'' browse_world = Some (None, w') \<and>
    uploaded flat_views browse_manager ''data'' [] ''n'' ''hi'' browse_world w'"
proof -
  obtain w' where s: "files_Upload whole_read flat_kernel (\<lambda>_. None) browse_manager ''data'' [] ''n'' ''hi'' browse_world
    = Some (None, w')" using browse_upload by auto
  have l: "0 \<le> fm_maxTransfer browse_manager" "fm_maxTransfer browse_manager < 2 ^ 63 - 1" by (simp_all add: browse_manager_def)
  show ?thesis using upload_publishes[OF flat_rules browse_facts(1,3) l browse_facts(2) s] s by auto
qed







text \<open>
  C31. Both loops end. Over every kernel that keeps the laws \<open>List\<close> returns, whatever the directory holds, within
  the bound on the entries scanned; \<open>Upload\<close> returns for every body, endless ones too, because each round of the
  copy takes at least one byte off the transfer limit.
\<close>

theorem transfers_end:
  assumes "kernel_rules V K" and "0 \<le> fm_maxTransfer m"
  shows "(\<exists>r w'. files_List K ctx lower enc m request w = Some (r, w')) \<and>
    (\<exists>r w'. files_Upload read K ctx m rootID path name body w = Some (r, w'))"
  using files_List_ends[OF assms(1)] files_Upload_ends[OF assms(2)] by auto

theorem transfers_end_witness:
  "\<exists>r w'. files_Upload (\<lambda>r n. (r, replicate n CHR ''x'', None)) flat_kernel (\<lambda>_. None) browse_manager ''data'' [] ''n''
    () browse_world = Some (r, w')"
proof -
  have "0 \<le> fm_maxTransfer browse_manager" by (simp add: browse_manager_def)
  from transfers_end[OF flat_rules this, THEN conjunct2] show ?thesis .
qed

text \<open>
  Every descriptor is accounted for. \<open>List\<close> and \<open>Upload\<close> leave the set of open descriptors as they found it
  on every path, and \<open>Download\<close> too, except that a successful one hands out exactly one new descriptor, of a
  regular file within the transfer limit.
\<close>

theorem files_descriptors_balanced:
  assumes "kernel_rules V K" and "on_kernel K m" and "roots_open V m w"
    and "0 \<le> fm_maxTransfer m" and "fm_maxTransfer m < 2 ^ 63 - 1" and "body_ok read content"
  shows "(\<forall>r w'. files_List K ctx lower enc m request w = Some (r, w') \<longrightarrow> fv_fds V w' = fv_fds V w) \<and>
    (\<forall>r w'. files_Upload read K ctx m rootID path name body w = Some (r, w') \<longrightarrow> fv_fds V w' = fv_fds V w) \<and>
    (\<forall>r w'. files_Download K ctx m rootID path w = (r, w') \<longrightarrow> (case r of
       Inl e \<Rightarrow> fv_fds V w' = fv_fds V w
     | Inr d \<Rightarrow> dl_fd d \<notin> fv_fds V w \<and> fv_fds V w' = insert (dl_fd d) (fv_fds V w) \<and> dl_Size d \<le> fm_maxTransfer m))"
  using List_spec(1)[OF assms(1-3)] Upload_spec[OF assms(1,2,6,4,5,3), THEN conjunct1] Download_spec(2,3)[OF assms(1,3)]
  by (simp split: sum.splits)

theorem files_descriptors_balanced_witness:
  "\<exists>w'. files_Upload whole_read flat_kernel (\<lambda>_. None) browse_manager ''data'' [] ''n'' ''hi'' browse_world = Some (None, w') \<and>
    fv_fds flat_views w' = fv_fds flat_views browse_world"
proof -
  obtain w' where s: "files_Upload whole_read flat_kernel (\<lambda>_. None) browse_manager ''data'' [] ''n'' ''hi'' browse_world
    = Some (None, w')" using browse_upload by auto
  have l: "0 \<le> fm_maxTransfer browse_manager" "fm_maxTransfer browse_manager < 2 ^ 63 - 1" by (simp_all add: browse_manager_def)
  show ?thesis using files_descriptors_balanced[OF flat_rules browse_facts(1,2) l browse_facts(3)] s by blast
qed

text \<open>
  The life of the manager. A manager that cannot open one of its roots leaves no descriptor open. One that
  can serves exactly the configured roots, each by its own new descriptor, with every call going to the kernel;
  closing it gives exactly those descriptors back, and closing it again does nothing and answers the same.
\<close>

theorem files_manager_life:
  assumes "kernel_rules V K" and "NewFilesManager K specs w = (r, w1)"
  shows "(\<forall>e. r = Inl e \<longrightarrow> fv_fds V w1 = fv_fds V w) \<and>
    (\<forall>m. r = Inr m \<longrightarrow> on_kernel K m \<and> roots_open V m w1 \<and> length (fm_roots m) \<le> MaxRoots \<and>
      map fst (fm_roots m) = map rsp_ID specs \<and> distinct (map fst (fm_roots m)) \<and>
      map (rd_Root \<circ> snd) (fm_roots m) = map root_of specs \<and>
      fv_fds V w1 = fv_fds V w \<union> root_fds m \<and> root_fds m \<inter> fv_fds V w = {} \<and>
      (\<forall>e m' w2. files_Close K m w1 = (e, m', w2) \<longrightarrow> fv_fds V w2 = fv_fds V w \<and> files_Close K m' w2 = (e, m', w2)))"
proof -
  have R: "descriptor_rules V K" using assms(1) by (simp add: kernel_rules_def)
  have cl: "closes V (fk_close K)" using R by (simp add: descriptor_rules_def)
  define m0 where "m0 = \<lparr>fm_roots = [], fm_maxTransfer = MaxTransferBytes, fm_maxEntries = MaxEntries,
           fm_maxScanned = MaxScannedEntries, fm_maxJSONBytes = maxEntryJSONBytes, fm_closeFD = fk_close K,
           fm_openTmpfile = fk_tmpfile K, fm_writeFD = fk_write K, fm_chownFD = fk_fchown K,
           fm_syncFD = fk_fsync K, fm_syncDirFD = fk_fsync K, fm_linkat = fk_linkat K,
           fm_closed = False, fm_closeErr = None\<rparr>"
  have distinct_ids: "check_specs ids ss = None \<Longrightarrow> distinct (map rsp_ID ss) \<and> set (map rsp_ID ss) \<inter> set ids = {}" for ids ss
    by (induction ids ss rule: check_specs.induct) (auto split: if_splits)
  note eq = assms(2)[unfolded NewFilesManager_def, folded m0_def]
  show ?thesis
  proof (cases "length specs \<le> MaxRoots \<and> check_specs [] specs = None")
    case False
    then have "w1 = w \<and> (\<exists>e. r = Inl e)" using eq by (auto split: if_splits option.splits)
    then show ?thesis by auto
  next
    case True
    then have o: "open_roots K specs m0 w = (r, w1)" using eq by simp
    have z: "\<not> fm_closed m0" "fm_roots m0 = []" by (simp_all add: m0_def)
    have d: "distinct (map rsp_ID specs)" using distinct_ids True by blast
    note sp = open_roots_spec[OF R o z(1) d, unfolded z(2), simplified]
    show ?thesis
    proof (intro conjI allI impI)
      fix m assume r: "r = Inr m"
      obtain new where new: "m = m0\<lparr>fm_roots := new\<rparr>" "map fst new = map rsp_ID specs"
        "map (rd_Root \<circ> snd) new = map root_of specs" "fv_fds V w1 = fv_fds V w \<union> rd_fd ` snd ` set new"
        "rd_fd ` snd ` set new \<inter> fv_fds V w = {}" using sp r by auto
      show "on_kernel K m" using new(1) by (simp add: on_kernel_def m0_def)
      show "roots_open V m w1" unfolding roots_open_def
      proof (intro allI impI)
        fix i root assume "map_of (fm_roots m) i = Some root"
        from map_of_SomeD[OF this] show "rd_fd root \<in> fv_fds V w1" unfolding new(4) using new(1) by force
      qed
      have "length new = length specs" using new(2) map_eq_imp_length_eq by blast
      then show "length (fm_roots m) \<le> MaxRoots" using True new(1) by simp
      show "fv_fds V w2 = fv_fds V w" and "files_Close K m' w2 = (e, m', w2)" if c: "files_Close K m w1 = (e, m', w2)" for e m' w2
      proof -
        have "\<not> fm_closed m" "root_fds m = rd_fd ` snd ` set new" using new(1) z by simp_all
        then show "fv_fds V w2 = fv_fds V w" and "files_Close K m' w2 = (e, m', w2)"
          using files_Close_spec[OF cl _ c] new(4) Diff_triv[of "fv_fds V w"] new(5)
          by (simp_all add: Un_Diff Int_commute)
      qed
      show "map fst (fm_roots m) = map rsp_ID specs" "distinct (map fst (fm_roots m))"
        "map (rd_Root \<circ> snd) (fm_roots m) = map root_of specs" "fv_fds V w1 = fv_fds V w \<union> root_fds m"
        "root_fds m \<inter> fv_fds V w = {}" using new d by simp_all
    qed (use sp in simp)
  qed
qed

theorem files_manager_life_witness:
  "\<exists>m w1. NewFilesManager flat_kernel [\<lparr>rsp_ID = ''data'', rsp_Path = ''/srv'', rsp_Writable = True\<rparr>] browse_world = (Inr m, w1) \<and>
    fv_fds flat_views w1 = fv_fds flat_views browse_world \<union> root_fds m"
proof -
  let ?s = "[\<lparr>rsp_ID = ''data'', rsp_Path = ''/srv'', rsp_Writable = True\<rparr>]"
  have "\<not> isl (fst (NewFilesManager flat_kernel ?s browse_world))"
    by (simp add: NewFilesManager_def MaxRoots_def browse_id flat_kernel_def add_handle_def)
  then obtain m w1 where s: "NewFilesManager flat_kernel ?s browse_world = (Inr m, w1)"
    by (cases "NewFilesManager flat_kernel ?s browse_world") (rename_tac q w1, case_tac q, auto)
  have "fv_fds flat_views w1 = fv_fds flat_views browse_world \<union> root_fds m"
    using files_manager_life[OF flat_rules s, THEN conjunct2, rule_format, OF refl] by (elim conjE)
  then show ?thesis using s by blast
qed


text \<open>
  C32. The command line builds a table the manager accepts. Whatever flags are given and whatever \<open>lstat\<close> answers,
  the table has at most 64 roots with distinct ids in the pattern, each a clean absolute path other than the
  filesystem root and of bounded length; \<open>Specs\<close> lists them in the order of their ids, and the checks that the
  manager repeats before it opens them all pass.
\<close>

theorem configured_roots_valid:
  "let t = add_flags lstat [] flags in root_table t \<and> sorted_wrt (<) (map rsp_ID (Specs t)) \<and>
     set (Specs t) = snd ` set t \<and> length (Specs t) \<le> MaxRoots \<and> check_specs [] (Specs t) = None"
proof -
  define t where "t = add_flags lstat [] flags"
  have t: "root_table t" unfolding t_def by (rule add_flags_keeps) (simp add: root_table_def)
  have ids: "map rsp_ID (map snd t) = map fst t" using t by (auto simp: root_table_def list_all_iff)
  have perm: "mset (Specs t) = mset (map snd t)" by (simp add: Specs_def)
  have st: "set (Specs t) = snd ` set t" using arg_cong[OF perm, of set_mset] by simp
  have len: "length (Specs t) \<le> MaxRoots" using t by (simp add: Specs_def root_table_def)
  have "mset (map rsp_ID (Specs t)) = mset (map fst t)" unfolding mset_map perm ids[symmetric] by simp
  from mset_eq_imp_distinct_iff[OF this] have d: "distinct (map rsp_ID (Specs t))" using t by (simp add: root_table_def)
  have s: "sorted (map rsp_ID (Specs t))" by (simp add: Specs_def)
  have pat: "\<forall>x\<in>set (Specs t). rootIDPattern (rsp_ID x)"
    unfolding st using t by (auto simp: root_table_def list_all_iff root_spec_ok_def)
  have "(\<forall>x\<in>set ss. rootIDPattern (rsp_ID x)) \<Longrightarrow> distinct (map rsp_ID ss) \<Longrightarrow> set (map rsp_ID ss) \<inter> set known = {} \<Longrightarrow>
      check_specs known ss = None" for known ss
    by (induction known ss rule: check_specs.induct) auto
  from this[OF pat d, of "[]"] show ?thesis
    unfolding t_def[symmetric] Let_def using t st len strict_sorted_iff s d by auto
qed

end
