(* ===== verification/Packaging_Contract.thy ===== *)
theory Packaging_Contract
  imports Target_Paths "HOL-Library.Multiset"
begin

text \<open>
  The contract of the built packages (\<open>packaging/model.go\<close>, \<open>finding.go\<close>, \<open>contract.go\<close> and \<open>verify.go\<close>): the
  model of an artifact, the tables of what each format must install and declare, and \<open>Verify\<close>, which reports
  every violation. The embedded repository files are the argument \<open>sources\<close>; a name that is not among them
  makes the code panic, which is \<open>None\<close> here. A nil slice of bytes is the empty string: \<open>bytes.Equal\<close> does not tell
  them apart.
\<close>

section \<open>The model of an artifact\<close>

definition FormatDeb :: string where "FormatDeb = ''deb''"
definition FormatRPM :: string where "FormatRPM = ''rpm''"

type_synonym file_mode = nat

definition ModeDir :: file_mode where "ModeDir = 0x80000000"

definition mode_Perm :: "file_mode \<Rightarrow> file_mode" where
  "mode_Perm mode = mode AND 0x1FF"

record pkg_entry =
  pe_Dest :: string
  pe_Mode :: file_mode
  pe_Config :: bool
  pe_Content :: string
  pe_Owner :: string
  pe_Group :: string

type_synonym scriptlet = string

record pkg_model =
  md_Format :: string
  md_Entries :: "pkg_entry list"
  md_Dependencies :: "string list"
  md_Postinstall :: "scriptlet option"

section \<open>Findings\<close>

text \<open>The arguments of a message are kept as values; the text is not rendered.\<close>

datatype arg = AStr string | ANum nat | AStrs "string list"
datatype message = Sprintf string "arg list"

record pkg_finding =
  pf_Code :: string
  pf_Path :: string
  pf_Message :: message

definition CodeMissingPath :: string where "CodeMissingPath = ''missing_path''"
definition CodeWrongMode :: string where "CodeWrongMode = ''wrong_mode''"
definition CodeWrongContent :: string where "CodeWrongContent = ''wrong_content''"
definition CodeMissingConfigFlag :: string where "CodeMissingConfigFlag = ''missing_config_flag''"
definition CodeDependencyMismatch :: string where "CodeDependencyMismatch = ''dependency_mismatch''"
definition CodeForbiddenPath :: string where "CodeForbiddenPath = ''forbidden_path''"
definition CodeDuplicateEntry :: string where "CodeDuplicateEntry = ''duplicate_entry''"
definition CodeMissingScriptlet :: string where "CodeMissingScriptlet = ''missing_scriptlet''"
definition CodeUnknownFormat :: string where "CodeUnknownFormat = ''unknown_format''"

lemmas code_defs = CodeMissingPath_def CodeWrongMode_def CodeWrongContent_def CodeMissingConfigFlag_def
  CodeDependencyMismatch_def CodeForbiddenPath_def CodeDuplicateEntry_def CodeMissingScriptlet_def CodeUnknownFormat_def

section \<open>The contract tables\<close>

type_synonym sources = "(string, string) gomap"

definition sourceNames :: "string list" where
  "sourceNames = [''pilothouse.service'', ''pilothouse.pam'', ''pilothouse.sysusers'', ''pilothouse.env'',
     ''pilothoused.env'', ''postinstall.sh'', ''deb/pilothoused.service'', ''rpm/pilothouse.pam'',
     ''rpm/pilothoused.service'']"

definition postinstallSource :: string where "postinstallSource = ''postinstall.sh''"

definition sourceBytes :: "sources \<Rightarrow> string \<Rightarrow> string option" where
  "sourceBytes sources name = map_of sources name"

definition contractDependencies :: "string \<Rightarrow> string list \<times> bool" where
  "contractDependencies f =
     (if f = FormatDeb then
        ([''libc6'', ''libpam0g'', ''libpam-modules'', ''libpam-runtime'', ''libsystemd0'', ''systemd''], True)
      else if f = FormatRPM then
        ([''glibc'', ''pam-libs'', ''pam'', ''authselect-libs'', ''systemd-libs'', ''systemd''], True)
      else ([], False))"

definition forbiddenRoots :: "string list" where
  "forbiddenRoots = [''/run/pilothouse'', ''/var/lib/pilothouse'']"

record requirement =
  rq_dest :: string
  rq_mode :: file_mode
  rq_config :: bool
  rq_source :: string

definition require :: "string \<Rightarrow> file_mode \<Rightarrow> bool \<Rightarrow> string \<Rightarrow> requirement" where
  "require dest mode config source = \<lparr>rq_dest = dest, rq_mode = mode, rq_config = config, rq_source = source\<rparr>"

definition requirement_table :: "string \<Rightarrow> string \<Rightarrow> requirement list" where
  "requirement_table brokerUnit pamPolicy =
     [require ''/usr/lib/systemd/system/pilothouse.service'' 0 False ''pilothouse.service'',
      require ''/usr/lib/systemd/system/pilothoused.service'' 0 False brokerUnit,
      require ''/etc/pam.d/pilothouse'' 0 True pamPolicy,
      require ''/usr/lib/sysusers.d/pilothouse.conf'' 0 False ''pilothouse.sysusers'',
      require ''/etc/pilothouse'' 0x1E8 False [],
      require ''/etc/pilothouse/storage/credentials'' 0x1C0 False [],
      require ''/etc/pilothouse/pilothouse.env'' 0x1A0 True ''pilothouse.env'',
      require ''/etc/pilothouse/pilothoused.env'' 0x1A0 True ''pilothoused.env'',
      require ''/usr/bin/pilothouse'' 0 False [],
      require ''/usr/bin/pilothoused'' 0 False []]"

definition requirements :: "string \<Rightarrow> requirement list \<times> bool" where
  "requirements f =
     (if f = FormatDeb then (requirement_table ''deb/pilothoused.service'' ''pilothouse.pam'', True)
      else if f = FormatRPM then (requirement_table ''rpm/pilothoused.service'' ''rpm/pilothouse.pam'', True)
      else ([], False))"

section \<open>Verification\<close>

text \<open>The two maps of \<open>Verify\<close>: the number of entries and the first entry per destination.\<close>

fun tally :: "pkg_entry list \<Rightarrow> (string \<Rightarrow> nat) \<Rightarrow> (string \<rightharpoonup> pkg_entry) \<Rightarrow> (string \<Rightarrow> nat) \<times> (string \<rightharpoonup> pkg_entry)" where
  "tally [] installs first = (installs, first)"
| "tally (e # es) installs first =
     (let installs' = installs(pe_Dest e := installs (pe_Dest e) + 1)
      in tally es installs' (if installs' (pe_Dest e) = 1 then first(pe_Dest e \<mapsto> e) else first))"

definition zero_entry :: pkg_entry where
  "zero_entry = \<lparr>pe_Dest = [], pe_Mode = 0, pe_Config = False, pe_Content = [], pe_Owner = [], pe_Group = []\<rparr>"

definition mode_finding :: "requirement \<Rightarrow> pkg_entry \<Rightarrow> pkg_finding list" where
  "mode_finding req entry = (if rq_mode req \<noteq> 0 \<and> mode_Perm (pe_Mode entry) \<noteq> rq_mode req
     then [\<lparr>pf_Code = CodeWrongMode, pf_Path = rq_dest req, pf_Message = Sprintf
       ''%s is installed with mode %#o; the contract requires %#o''
       [AStr (rq_dest req), ANum (mode_Perm (pe_Mode entry)), ANum (rq_mode req)]\<rparr>] else [])"

definition config_finding :: "requirement \<Rightarrow> pkg_entry \<Rightarrow> pkg_finding list" where
  "config_finding req entry = (if rq_config req \<and> \<not> pe_Config entry
     then [\<lparr>pf_Code = CodeMissingConfigFlag, pf_Path = rq_dest req, pf_Message = Sprintf
       ''%s is not designated a configuration file by the packaging metadata'' [AStr (rq_dest req)]\<rparr>] else [])"

definition content_finding :: "sources \<Rightarrow> requirement \<Rightarrow> pkg_entry \<Rightarrow> pkg_finding list option" where
  "content_finding sources req entry = (if rq_source req = [] then Some []
     else (case sourceBytes sources (rq_source req) of None \<Rightarrow> None
       | Some bytes \<Rightarrow> if pe_Content entry = bytes then Some []
           else Some [\<lparr>pf_Code = CodeWrongContent, pf_Path = rq_dest req, pf_Message = Sprintf
             ''%s does not carry the bytes of the repository source packaging/%s''
             [AStr (rq_dest req), AStr (rq_source req)]\<rparr>]))"

definition check_requirement :: "sources \<Rightarrow> (string \<Rightarrow> nat) \<Rightarrow> (string \<rightharpoonup> pkg_entry) \<Rightarrow> requirement \<Rightarrow>
    pkg_finding list option" where
  "check_requirement sources installs first req =
     (if installs (rq_dest req) = 0 then
        Some [\<lparr>pf_Code = CodeMissingPath, pf_Path = rq_dest req, pf_Message = Sprintf
          ''the package installs nothing to the required destination %s'' [AStr (rq_dest req)]\<rparr>]
      else
        (let duplicate = (if installs (rq_dest req) > 1
               then [\<lparr>pf_Code = CodeDuplicateEntry, pf_Path = rq_dest req, pf_Message = Sprintf
                 ''the package installs %d entries to %s; the contract requires exactly one''
                 [ANum (installs (rq_dest req)), AStr (rq_dest req)]\<rparr>] else []);
             entry = (case first (rq_dest req) of None \<Rightarrow> zero_entry | Some e \<Rightarrow> e)
         in case content_finding sources req entry of None \<Rightarrow> None
            | Some content \<Rightarrow> Some (duplicate @ mode_finding req entry @ config_finding req entry @ content)))"

fun check_requirements :: "sources \<Rightarrow> (string \<Rightarrow> nat) \<Rightarrow> (string \<rightharpoonup> pkg_entry) \<Rightarrow> requirement list \<Rightarrow>
    pkg_finding list option" where
  "check_requirements sources installs first [] = Some []"
| "check_requirements sources installs first (req # reqs) =
     (case check_requirement sources installs first req of None \<Rightarrow> None
      | Some fs \<Rightarrow> (case check_requirements sources installs first reqs of None \<Rightarrow> None
        | Some gs \<Rightarrow> Some (fs @ gs)))"

definition under_root :: "string \<Rightarrow> string \<Rightarrow> bool" where
  "under_root dest root \<longleftrightarrow> \<not> (dest \<noteq> root \<and> \<not> prefix (root @ ''/'') dest)"

definition forbidden_finding :: "string \<Rightarrow> string \<Rightarrow> pkg_finding" where
  "forbidden_finding dest root = \<lparr>pf_Code = CodeForbiddenPath, pf_Path = dest, pf_Message = Sprintf
     ''the package installs %s; %s is created and removed by systemd through the broker unit, and the package must own nothing there''
     [AStr dest, AStr root]\<rparr>"

fun forbidden_loop :: "pkg_entry list \<Rightarrow> string list \<Rightarrow> pkg_finding list" where
  "forbidden_loop [] reported = []"
| "forbidden_loop (entry # entries) reported =
     (if List.member reported (pe_Dest entry) then forbidden_loop entries reported
      else (case List.find (under_root (pe_Dest entry)) forbiddenRoots of
          None \<Rightarrow> forbidden_loop entries reported
        | Some root \<Rightarrow> forbidden_finding (pe_Dest entry) root #
            forbidden_loop entries (pe_Dest entry # reported)))"

definition forbiddenPathFindings :: "pkg_entry list \<Rightarrow> pkg_finding list" where
  "forbiddenPathFindings entries = forbidden_loop entries []"

text \<open>\<open>strings.TrimSuffix\<close> of one newline.\<close>

definition newline :: char where "newline = CHR 0x0A"

definition trimFinalNewline :: "string \<Rightarrow> string" where
  "trimFinalNewline b = (if b \<noteq> [] \<and> last b = newline then butlast b else b)"

definition postinstallFindings :: "sources \<Rightarrow> scriptlet option \<Rightarrow> pkg_finding list option" where
  "postinstallFindings sources scriptlet = (case scriptlet of
     None \<Rightarrow> Some [\<lparr>pf_Code = CodeMissingScriptlet, pf_Path = [], pf_Message = Sprintf
       ''the package ships no postinstall scriptlet; the contract requires the repository source packaging/%s''
       [AStr postinstallSource]\<rparr>]
   | Some content \<Rightarrow> (case sourceBytes sources postinstallSource of None \<Rightarrow> None
     | Some bytes \<Rightarrow> if trimFinalNewline content = trimFinalNewline bytes then Some []
         else Some [\<lparr>pf_Code = CodeWrongContent, pf_Path = [], pf_Message = Sprintf
           ''the postinstall scriptlet does not carry the bytes of the repository source packaging/%s''
           [AStr postinstallSource]\<rparr>]))"

definition dependencyFindings :: "string list \<Rightarrow> string list \<Rightarrow> pkg_finding list" where
  "dependencyFindings got want =
     (if sort got \<noteq> sort want then [\<lparr>pf_Code = CodeDependencyMismatch, pf_Path = [], pf_Message = Sprintf
        ''the package declares dependencies %q; the contract requires exactly %q'' [AStrs (sort got), AStrs (sort want)]\<rparr>]
      else []) @
     map (\<lambda>dep. \<lparr>pf_Code = CodeDependencyMismatch, pf_Path = [], pf_Message = Sprintf
        ''the dependency expression %q offers an alternative; the contract requires plain package names'' [AStr dep]\<rparr>)
       (filter (\<lambda>dep. contains dep ''|'') got)"

definition unknown_format :: "string \<Rightarrow> pkg_finding" where
  "unknown_format f = \<lparr>pf_Code = CodeUnknownFormat, pf_Path = [], pf_Message = Sprintf
     ''unknown package format %q: expected %q or %q'' [AStr f, AStr FormatDeb, AStr FormatRPM]\<rparr>"

definition Verify :: "sources \<Rightarrow> pkg_model \<Rightarrow> pkg_finding list option" where
  "Verify sources m =
     (let (reqs, known) = requirements (md_Format m);
          (installs, first) = tally (md_Entries m) (\<lambda>_. 0) Map.empty
      in case check_requirements sources installs first reqs of None \<Rightarrow> None
       | Some required \<Rightarrow>
          (let findings = (if known then [] else [unknown_format (md_Format m)]) @ required @
                 (if known then forbiddenPathFindings (md_Entries m) else []) @
                 (case contractDependencies (md_Format m) of (want, k) \<Rightarrow>
                    if k then dependencyFindings (md_Dependencies m) want else [])
           in if known then map_option (\<lambda>p. findings @ p) (postinstallFindings sources (md_Postinstall m))
              else Some findings))"


section \<open>What the loops compute\<close>

lemma tally_spec:
  "tally es installs first = (installs', first') \<Longrightarrow>
    installs' d = installs d + length (filter (\<lambda>e. pe_Dest e = d) es) \<and>
    first' d = (if installs d = 0 \<and> filter (\<lambda>e. pe_Dest e = d) es \<noteq> [] then Some (hd (filter (\<lambda>e. pe_Dest e = d) es)) else first d)"
proof (induction es arbitrary: installs first)
  case (Cons e es)
  define i where "i = installs(pe_Dest e := installs (pe_Dest e) + 1)"
  define f where "f = (if i (pe_Dest e) = 1 then first(pe_Dest e \<mapsto> e) else first)"
  have rec: "tally es i f = (installs', first')" using Cons.prems by (simp add: Let_def i_def f_def)
  show ?case using Cons.IH[OF rec] by (auto simp: i_def f_def)
qed auto

lemma tally_start:
  assumes "tally es (\<lambda>_. 0) Map.empty = (installs, first)"
  shows "installs d = length (filter (\<lambda>e. pe_Dest e = d) es)"
    and "filter (\<lambda>e. pe_Dest e = d) es \<noteq> [] \<Longrightarrow> first d = Some (hd (filter (\<lambda>e. pe_Dest e = d) es))"
  using tally_spec[OF assms, of d] by auto

text \<open>The faults of one requirement, by code, over the entries that install to its destination.\<close>

definition required_fault :: "sources \<Rightarrow> pkg_entry list \<Rightarrow> requirement \<Rightarrow> string \<Rightarrow> bool" where
  "required_fault sources es req code \<longleftrightarrow>
     (case filter (\<lambda>e. pe_Dest e = rq_dest req) es of
        [] \<Rightarrow> code = CodeMissingPath
      | e # rest \<Rightarrow> code = CodeDuplicateEntry \<and> rest \<noteq> [] \<or>
          code = CodeWrongMode \<and> rq_mode req \<noteq> 0 \<and> mode_Perm (pe_Mode e) \<noteq> rq_mode req \<or>
          code = CodeMissingConfigFlag \<and> rq_config req \<and> \<not> pe_Config e \<or>
          code = CodeWrongContent \<and> rq_source req \<noteq> [] \<and> map_of sources (rq_source req) \<noteq> Some (pe_Content e))"

definition embedded :: "sources \<Rightarrow> bool" where
  "embedded sources \<longleftrightarrow> list_all (\<lambda>name. map_of sources name \<noteq> None) sourceNames"

abbreviation reported :: "pkg_finding list \<Rightarrow> (string \<times> string) set" where
  "reported fs \<equiv> (\<lambda>f. (pf_Code f, pf_Path f)) ` set fs"

lemma check_requirement_spec:
  assumes t: "tally es (\<lambda>_. 0) Map.empty = (installs, first)"
    and src: "rq_source req \<noteq> [] \<longrightarrow> map_of sources (rq_source req) \<noteq> None"
  shows "\<exists>fs. check_requirement sources installs first req = Some fs \<and>
    reported fs = {(code, rq_dest req) |code. required_fault sources es req code}"
proof -
  define mine where "mine = filter (\<lambda>e. pe_Dest e = rq_dest req) es"
  have i: "installs (rq_dest req) = length mine" using tally_start(1)[OF t] by (simp add: mine_def)
  show ?thesis
  proof (cases mine)
    case Nil
    then show ?thesis using i unfolding required_fault_def check_requirement_def mine_def[symmetric] by auto
  next
    case (Cons e rest)
    have f: "first (rq_dest req) = Some e" using tally_start(2)[OF t, of "rq_dest req"] Cons by (simp add: mine_def)
    obtain content where c: "content_finding sources req e = Some content"
      "reported content = {(CodeWrongContent, rq_dest req) |u::unit. rq_source req \<noteq> [] \<and> map_of sources (rq_source req) \<noteq> Some (pe_Content e)}"
      using src by (cases "rq_source req = []"; cases "map_of sources (rq_source req) = Some (pe_Content e)")
        (auto simp: content_finding_def sourceBytes_def)
    have mo: "reported (mode_finding req e) = {(CodeWrongMode, rq_dest req) |u::unit. rq_mode req \<noteq> 0 \<and> mode_Perm (pe_Mode e) \<noteq> rq_mode req}"
      and co: "reported (config_finding req e) = {(CodeMissingConfigFlag, rq_dest req) |u::unit. rq_config req \<and> \<not> pe_Config e}"
      by (auto simp: mode_finding_def config_finding_def)
    obtain dup where d: "check_requirement sources installs first req =
        Some (dup @ mode_finding req e @ config_finding req e @ content)"
      "reported dup = {(CodeDuplicateEntry, rq_dest req) |u::unit. rest \<noteq> []}"
      using i f c(1) Cons by (cases "rest = []") (auto simp: check_requirement_def Let_def)
    have "reported (dup @ mode_finding req e @ config_finding req e @ content) =
        {(code, rq_dest req) |code. required_fault sources es req code}"
      unfolding set_append image_Un d(2) mo co c(2) required_fault_def mine_def[symmetric] Cons list.case by blast
    then show ?thesis using d(1) by blast
  qed
qed

lemma check_requirements_spec:
  assumes t: "tally es (\<lambda>_. 0) Map.empty = (installs, first)"
  shows "\<forall>req\<in>set reqs. rq_source req \<noteq> [] \<longrightarrow> map_of sources (rq_source req) \<noteq> None \<Longrightarrow>
    \<exists>fs. check_requirements sources installs first reqs = Some fs \<and>
      reported fs = {(code, rq_dest req) |code req. req \<in> set reqs \<and> required_fault sources es req code}"
proof (induction reqs)
  case (Cons req reqs)
  obtain fs gs where "check_requirement sources installs first req = Some fs"
    "reported fs = {(code, rq_dest req) |code. required_fault sources es req code}"
    "check_requirements sources installs first reqs = Some gs"
    "reported gs = {(code, rq_dest req) |code req. req \<in> set reqs \<and> required_fault sources es req code}"
    using check_requirement_spec[OF t, of req sources] Cons by auto
  then show ?case by (auto simp: image_Un)
qed auto

lemma under_root_within: "under_root dest root \<longleftrightarrow> within root dest"
  by (auto simp: under_root_def within_iff)

lemma forbidden_loop_spec:
  "reported (forbidden_loop es seen) =
    {(CodeForbiddenPath, d) |d. d \<notin> set seen \<and> d \<in> pe_Dest ` set es \<and> (\<exists>root\<in>set forbiddenRoots. within root d)}"
proof (induction es seen rule: forbidden_loop.induct)
  case (2 e es seen)
  show ?case
  proof (cases "pe_Dest e \<in> set seen")
    case True
    then show ?thesis using 2(1) by auto
  next
    case False
    show ?thesis
    proof (cases "List.find (under_root (pe_Dest e)) forbiddenRoots")
      case None
      then have "\<not> (\<exists>root\<in>set forbiddenRoots. within root (pe_Dest e))"
        by (auto simp: find_None_iff under_root_within)
      then show ?thesis using 2(2)[OF _ None] False None by auto
    next
      case (Some root)
      then have "root \<in> set forbiddenRoots \<and> within root (pe_Dest e)"
        by (auto simp: find_Some_iff under_root_within)
      then show ?thesis using 2(3)[OF _ Some] False Some by (auto simp: forbidden_finding_def)
    qed
  qed
qed simp

lemma contains_one: "contains s [c] \<longleftrightarrow> c \<in> set s"
  by (induction s) auto

lemma dependencyFindings_spec:
  "reported (dependencyFindings got want) =
    {(CodeDependencyMismatch, []) |u::unit. mset got \<noteq> mset want \<or> (\<exists>dep\<in>set got. CHR ''|'' \<in> set dep)}"
proof -
  have "sort got = sort want \<longleftrightarrow> mset got = mset want"
    by (metis mset_sort properties_for_sort sorted_sort)
  then show ?thesis
    by (cases "sort got = sort want"; cases "\<exists>dep\<in>set got. CHR ''|'' \<in> set dep")
      (force simp: dependencyFindings_def image_Un contains_one)+
qed

lemma postinstallFindings_spec:
  assumes "map_of sources postinstallSource = Some bytes"
  shows "\<exists>fs. postinstallFindings sources p = Some fs \<and> reported fs =
    (case p of None \<Rightarrow> {(CodeMissingScriptlet, [])}
     | Some content \<Rightarrow> {(CodeWrongContent, []) |u::unit. trimFinalNewline content \<noteq> trimFinalNewline bytes})"
  using assms by (auto simp: postinstallFindings_def sourceBytes_def split: option.splits)

lemma embedded_table:
  assumes "embedded sources" and "b \<in> set sourceNames" and "p \<in> set sourceNames"
  shows "list_all (\<lambda>req. rq_source req \<noteq> [] \<longrightarrow> map_of sources (rq_source req) \<noteq> None) (requirement_table b p)"
proof -
  have emb: "map_of sources name \<noteq> None" if "name \<in> set sourceNames" for name
    using assms(1) that by (simp add: embedded_def list_all_iff)
  have "map_of sources b \<noteq> None" "map_of sources p \<noteq> None" "map_of sources ''pilothouse.service'' \<noteq> None"
    "map_of sources ''pilothouse.sysusers'' \<noteq> None" "map_of sources ''pilothouse.env'' \<noteq> None"
    "map_of sources ''pilothoused.env'' \<noteq> None"
    by (rule emb, use assms(2,3) in \<open>simp add: sourceNames_def\<close>)+
  then show ?thesis by (simp add: requirement_table_def require_def)
qed

lemma embedded_sources:
  assumes "embedded sources" and "requirements f = (reqs, True)"
  shows "\<forall>req\<in>set reqs. rq_source req \<noteq> [] \<longrightarrow> map_of sources (rq_source req) \<noteq> None"
    and "\<exists>bytes. map_of sources postinstallSource = Some bytes"
proof -
  have "reqs = requirement_table ''deb/pilothoused.service'' ''pilothouse.pam'' \<or>
      reqs = requirement_table ''rpm/pilothoused.service'' ''rpm/pilothouse.pam''"
    using assms(2) by (auto simp: requirements_def split: if_splits)
  then have "list_all (\<lambda>req. rq_source req \<noteq> [] \<longrightarrow> map_of sources (rq_source req) \<noteq> None) reqs"
    using embedded_table[OF assms(1)] by (auto simp: sourceNames_def)
  then show "\<forall>req\<in>set reqs. rq_source req \<noteq> [] \<longrightarrow> map_of sources (rq_source req) \<noteq> None" by (simp only: list_all_iff)
  show "\<exists>bytes. map_of sources postinstallSource = Some bytes"
    using assms(1) by (simp add: embedded_def sourceNames_def postinstallSource_def)
qed

text \<open>
  The faults of a model, each by the code and the path of the finding that reports it.
\<close>

definition faults :: "sources \<Rightarrow> pkg_model \<Rightarrow> (string \<times> string) set" where
  "faults sources m =
     {(code, rq_dest req) |code req. req \<in> set (fst (requirements (md_Format m))) \<and>
        required_fault sources (md_Entries m) req code} \<union>
     {(CodeForbiddenPath, d) |d. d \<in> pe_Dest ` set (md_Entries m) \<and> (\<exists>root\<in>set forbiddenRoots. within root d)} \<union>
     {(CodeDependencyMismatch, []) |u::unit. mset (md_Dependencies m) \<noteq> mset (fst (contractDependencies (md_Format m))) \<or>
        (\<exists>dep\<in>set (md_Dependencies m). CHR ''|'' \<in> set dep)} \<union>
     (case md_Postinstall m of None \<Rightarrow> {(CodeMissingScriptlet, [])}
      | Some content \<Rightarrow> {(CodeWrongContent, []) |bytes. map_of sources postinstallSource = Some bytes \<and>
          trimFinalNewline content \<noteq> trimFinalNewline bytes})"

abbreviation known_format :: "string \<Rightarrow> bool" where
  "known_format f \<equiv> f = FormatDeb \<or> f = FormatRPM"

lemma Verify_known:
  assumes src: "embedded sources" and known: "known_format (md_Format m)"
  shows "\<exists>fs. Verify sources m = Some fs \<and> reported fs = faults sources m"
proof -
  obtain reqs where r: "requirements (md_Format m) = (reqs, True)"
    using known by (cases "md_Format m = FormatDeb") (auto simp: requirements_def)
  obtain want where w: "contractDependencies (md_Format m) = (want, True)"
    using known by (cases "md_Format m = FormatDeb") (auto simp: contractDependencies_def)
  obtain installs first where t: "tally (md_Entries m) (\<lambda>_. 0) Map.empty = (installs, first)"
    by (cases "tally (md_Entries m) (\<lambda>_. 0) Map.empty")
  note emb = embedded_sources[OF src r]
  obtain bytes where b: "map_of sources postinstallSource = Some bytes" using emb(2) by blast
  obtain fs where fs: "check_requirements sources installs first reqs = Some fs"
    "reported fs = {(code, rq_dest req) |code req. req \<in> set reqs \<and> required_fault sources (md_Entries m) req code}"
    using check_requirements_spec[OF t emb(1)] by blast
  obtain ps where ps: "postinstallFindings sources (md_Postinstall m) = Some ps"
    "reported ps = (case md_Postinstall m of None \<Rightarrow> {(CodeMissingScriptlet, [])}
     | Some content \<Rightarrow> {(CodeWrongContent, []) |u::unit. trimFinalNewline content \<noteq> trimFinalNewline bytes})"
    using postinstallFindings_spec[OF b] by blast
  have v: "Verify sources m = Some (fs @ forbiddenPathFindings (md_Entries m) @ dependencyFindings (md_Dependencies m) want @ ps)"
    by (simp add: Verify_def r w t fs(1) ps(1))
  have "reported (forbiddenPathFindings (md_Entries m)) =
    {(CodeForbiddenPath, d) |d. d \<in> pe_Dest ` set (md_Entries m) \<and> (\<exists>root\<in>set forbiddenRoots. within root d)}"
    unfolding forbiddenPathFindings_def forbidden_loop_spec by simp
  then have "reported (fs @ forbiddenPathFindings (md_Entries m) @ dependencyFindings (md_Dependencies m) want @ ps) = faults sources m"
    unfolding faults_def set_append image_Un fs(2) ps(2) dependencyFindings_spec r w fst_conv b
    by (simp add: Un_assoc split: option.splits)
  then show ?thesis using v by blast
qed


lemma Verify_unknown: "\<not> known_format (md_Format m) \<Longrightarrow> Verify sources m = Some [unknown_format (md_Format m)]"
  by (auto simp: Verify_def requirements_def contractDependencies_def split: prod.splits)

section \<open>Conforming packages\<close>

text \<open>
  The contract as a statement about the package: exactly one entry at every required destination, with the
  pinned permissions, designation and bytes, nothing at or below a root that systemd manages, exactly the
  dependencies of the format and the repository's postinstall script up to one final newline.
\<close>

definition satisfies :: "sources \<Rightarrow> pkg_entry list \<Rightarrow> requirement \<Rightarrow> bool" where
  "satisfies sources es req \<longleftrightarrow> (\<exists>e. filter (\<lambda>e. pe_Dest e = rq_dest req) es = [e] \<and>
     (rq_mode req \<noteq> 0 \<longrightarrow> mode_Perm (pe_Mode e) = rq_mode req) \<and> (rq_config req \<longrightarrow> pe_Config e) \<and>
     (rq_source req \<noteq> [] \<longrightarrow> map_of sources (rq_source req) = Some (pe_Content e)))"

definition conforms :: "sources \<Rightarrow> pkg_model \<Rightarrow> bool" where
  "conforms sources m \<longleftrightarrow> known_format (md_Format m) \<and>
     list_all (satisfies sources (md_Entries m)) (fst (requirements (md_Format m))) \<and>
     list_all (\<lambda>e. list_all (\<lambda>root. \<not> within root (pe_Dest e)) forbiddenRoots) (md_Entries m) \<and>
     mset (md_Dependencies m) = mset (fst (contractDependencies (md_Format m))) \<and>
     (\<exists>content bytes. md_Postinstall m = Some content \<and> map_of sources postinstallSource = Some bytes \<and>
        trimFinalNewline content = trimFinalNewline bytes)"

lemma satisfies_iff: "satisfies sources es req \<longleftrightarrow> (\<forall>code. \<not> required_fault sources es req code)"
proof -
  consider "filter (\<lambda>e. pe_Dest e = rq_dest req) es = []"
    | e rest where "filter (\<lambda>e. pe_Dest e = rq_dest req) es = e # rest" by (cases "filter (\<lambda>e. pe_Dest e = rq_dest req) es")
  then show ?thesis
  proof cases
    case 2
    then show ?thesis unfolding satisfies_def required_fault_def by (simp only: list.case list.inject) blast
  qed (simp add: satisfies_def required_fault_def)
qed

lemma contract_plain: "dep \<in> set (fst (contractDependencies f)) \<Longrightarrow> CHR ''|'' \<notin> set dep"
  by (auto simp: contractDependencies_def split: if_splits)

lemma conforms_iff:
  assumes "embedded sources" and known: "known_format (md_Format m)"
  shows "conforms sources m \<longleftrightarrow> faults sources m = {}"
proof -
  obtain reqs where r: "requirements (md_Format m) = (reqs, True)"
    using known by (cases "md_Format m = FormatDeb") (auto simp: requirements_def)
  obtain bytes where b: "map_of sources postinstallSource = Some bytes" using embedded_sources(2)[OF assms(1) r] by blast
  have plain: "mset (md_Dependencies m) = mset (fst (contractDependencies (md_Format m))) \<Longrightarrow>
      \<forall>dep\<in>set (md_Dependencies m). CHR ''|'' \<notin> set dep"
    using contract_plain by (metis set_mset_mset)
  have A: "{(code, rq_dest req) |code req. req \<in> set (fst (requirements (md_Format m))) \<and>
        required_fault sources (md_Entries m) req code} = {} \<longleftrightarrow>
      list_all (satisfies sources (md_Entries m)) (fst (requirements (md_Format m)))"
    by (auto simp: list_all_iff satisfies_iff)
  have B: "{(CodeForbiddenPath, d) |d. d \<in> pe_Dest ` set (md_Entries m) \<and> (\<exists>root\<in>set forbiddenRoots. within root d)} = {} \<longleftrightarrow>
      list_all (\<lambda>e. list_all (\<lambda>root. \<not> within root (pe_Dest e)) forbiddenRoots) (md_Entries m)"
    by (auto simp: list_all_iff)
  have C: "{(CodeDependencyMismatch, [] :: string) |u::unit. mset (md_Dependencies m) \<noteq> mset (fst (contractDependencies (md_Format m))) \<or>
        (\<exists>dep\<in>set (md_Dependencies m). CHR ''|'' \<in> set dep)} = {} \<longleftrightarrow>
      mset (md_Dependencies m) = mset (fst (contractDependencies (md_Format m)))"
    using plain by auto
  have D: "(case md_Postinstall m of None \<Rightarrow> {(CodeMissingScriptlet, [] :: string)}
      | Some content \<Rightarrow> {(CodeWrongContent, []) |bytes. map_of sources postinstallSource = Some bytes \<and>
          trimFinalNewline content \<noteq> trimFinalNewline bytes}) = {} \<longleftrightarrow>
      (\<exists>content bytes. md_Postinstall m = Some content \<and> map_of sources postinstallSource = Some bytes \<and>
        trimFinalNewline content = trimFinalNewline bytes)"
    using b by (auto split: option.splits)
  show ?thesis unfolding faults_def conforms_def Un_empty A B C D using known by blast
qed

lemma Verify_conforms: assumes "embedded sources" shows "Verify sources m = Some [] \<longleftrightarrow> conforms sources m"
proof (cases "known_format (md_Format m)")
  case True
  then show ?thesis using Verify_known[OF assms True] conforms_iff[OF assms True] by auto
next
  case False
  then show ?thesis using Verify_unknown[OF False, of sources] by (auto simp: conforms_def)
qed

lemma Verify_returns: "embedded sources \<Longrightarrow> \<exists>fs. Verify sources m = Some fs"
  using Verify_known[of sources m] Verify_unknown[of m sources] by blast

section \<open>Properties\<close>

text \<open>
  C13. The verifier reports every fault and nothing else. With the repository files embedded \<open>Verify\<close> never panics;
  for a known format the pairs of code and path it reports are exactly the faults of the package, found
  independently of one another: a missing, duplicated, wrongly moded, undesignated or altered required entry, an
  entry at or below a managed root by whole path components, a dependency list that differs as a multiset or
  offers an alternative, and a missing or altered postinstall script. For any other format it reports just that.
\<close>

theorem verify_reports_exactly:
  assumes "embedded sources"
  shows "\<exists>fs. Verify sources m = Some fs \<and>
    reported fs = (if known_format (md_Format m) then faults sources m else {(CodeUnknownFormat, [])})"
  using Verify_known[OF assms, of m] Verify_unknown[of m sources] by (auto simp: unknown_format_def)

definition demo_sources :: sources where
  "demo_sources = map (\<lambda>name. (name, name)) sourceNames"

definition demo_package :: pkg_model where
  "demo_package = \<lparr>md_Format = FormatDeb, md_Entries = [\<lparr>pe_Dest = ''/run/pilothouse/x'', pe_Mode = 0x1A4,
     pe_Config = False, pe_Content = [], pe_Owner = [], pe_Group = []\<rparr>],
     md_Dependencies = [], md_Postinstall = None\<rparr>"

lemma demo_embedded: "embedded demo_sources"
  by (simp add: embedded_def demo_sources_def sourceNames_def)

theorem verify_reports_exactly_witness:
  "\<exists>fs. Verify demo_sources demo_package = Some fs \<and> (CodeForbiddenPath, ''/run/pilothouse/x'') \<in> reported fs \<and>
    (CodeMissingPath, ''/usr/bin/pilothouse'') \<in> reported fs"
proof -
  have "require ''/usr/bin/pilothouse'' 0 False [] \<in> set (fst (requirements FormatDeb))"
    by (simp add: requirements_def requirement_table_def)
  moreover have "required_fault demo_sources (md_Entries demo_package) (require ''/usr/bin/pilothouse'' 0 False []) CodeMissingPath"
    "rq_dest (require ''/usr/bin/pilothouse'' 0 False []) = ''/usr/bin/pilothouse''"
    by (simp_all add: required_fault_def demo_package_def require_def)
  ultimately have "(CodeMissingPath, ''/usr/bin/pilothouse'') \<in> faults demo_sources demo_package"
    unfolding faults_def by (force simp: demo_package_def)
  moreover have "(CodeForbiddenPath, ''/run/pilothouse/x'') \<in> faults demo_sources demo_package"
    by (simp add: faults_def demo_package_def forbiddenRoots_def within_iff)
  ultimately show ?thesis using verify_reports_exactly[OF demo_embedded, of demo_package] by (auto simp: demo_package_def)
qed

text \<open>
  A clean verdict is the contract: \<open>Verify\<close> returns no finding exactly for the packages that conform.
\<close>

theorem verify_clean_conforms:
  assumes "embedded sources" shows "Verify sources m = Some [] \<longleftrightarrow> conforms sources m"
  by (rule Verify_conforms[OF assms])

definition good_package :: pkg_model where
  "good_package = \<lparr>md_Format = FormatDeb, md_Entries = map (\<lambda>r. \<lparr>pe_Dest = rq_dest r, pe_Mode = rq_mode r,
       pe_Config = rq_config r, pe_Content = rq_source r, pe_Owner = [], pe_Group = []\<rparr>) (fst (requirements FormatDeb)),
     md_Dependencies = rev (fst (contractDependencies FormatDeb)), md_Postinstall = Some (postinstallSource @ [newline])\<rparr>"

theorem verify_clean_conforms_witness: "Verify demo_sources good_package = Some []"
proof -
  have "list_all (satisfies demo_sources (md_Entries good_package)) (fst (requirements (md_Format good_package)))"
    by (simp add: good_package_def requirements_def requirement_table_def require_def satisfies_def demo_sources_def
        sourceNames_def mode_Perm_def)
  moreover have "list_all (\<lambda>e. list_all (\<lambda>root. \<not> within root (pe_Dest e)) forbiddenRoots) (md_Entries good_package)"
    by (simp add: good_package_def requirements_def requirement_table_def require_def forbiddenRoots_def within_iff)
  ultimately have "conforms demo_sources good_package"
    by (simp add: conforms_def good_package_def demo_sources_def sourceNames_def postinstallSource_def trimFinalNewline_def newline_def)
  then show ?thesis using verify_clean_conforms[OF demo_embedded] by simp
qed

end
