(* ===== verification/Packaging_Extract.thy ===== *)
theory Packaging_Extract
  imports Packaging_Contract
begin

text \<open>
  The two extractors (\<open>packaging/extract\<close>: \<open>extract.go\<close>, \<open>deb.go\<close> and \<open>rpm.go\<close>): they run the packaging tools and
  turn their output into the model of an artifact. The host with its processes and files is a record of calls on
  the world \<open>'w\<close>; the parsers of the output are plain functions.
\<close>

section \<open>The host\<close>

datatype walk_type = WDir | WRegular | WOther

text \<open>One call of the function given to \<open>filepath.WalkDir\<close>.\<close>

record walk_call =
  wc_name :: string
  wc_err :: "error option"
  wc_type :: walk_type
  wc_info :: "file_mode result"

record 'w pkg_host =
  ph_LookPath :: "string \<Rightarrow> string result"
  ph_Output :: "string \<Rightarrow> string list \<Rightarrow> 'w \<Rightarrow> (string \<times> string \<times> error option) \<times> 'w"
  ph_MkdirTemp :: "string \<Rightarrow> 'w \<Rightarrow> string result \<times> 'w"
  ph_Mkdir :: "string \<Rightarrow> file_mode \<Rightarrow> 'w \<Rightarrow> error option \<times> 'w"
  ph_RemoveAll :: "string \<Rightarrow> 'w \<Rightarrow> 'w"
  ph_ReadFile :: "string \<Rightarrow> 'w \<Rightarrow> string result \<times> 'w"
  ph_WalkDir :: "string \<Rightarrow> 'w \<Rightarrow> walk_call list \<times> 'w"
  ph_Open :: "string \<Rightarrow> 'w \<Rightarrow> int result \<times> 'w"
  ph_Close :: "int \<Rightarrow> 'w \<Rightarrow> 'w"
  ph_Pipe :: "'w \<Rightarrow> (int \<times> int) result \<times> 'w"
  ph_Start :: "string \<Rightarrow> string list \<Rightarrow> string \<Rightarrow> int option \<Rightarrow> int option \<Rightarrow> 'w \<Rightarrow> nat result \<times> 'w"
  ph_Kill :: "nat \<Rightarrow> 'w \<Rightarrow> 'w"
  ph_Wait :: "nat \<Rightarrow> 'w \<Rightarrow> (string \<times> error option) \<times> 'w"
  ph_Signal :: "error \<Rightarrow> string option"

definition and_then :: "'a result \<times> 'w \<Rightarrow> ('a \<Rightarrow> 'w \<Rightarrow> 'b result \<times> 'w) \<Rightarrow> 'b result \<times> 'w" where
  "and_then r k = (case r of (Inl e, w) \<Rightarrow> (Inl e, w) | (Inr x, w) \<Rightarrow> k x w)"

definition lift_result :: "'a result \<Rightarrow> 'w \<Rightarrow> 'a result \<times> 'w" where
  "lift_result r w = (r, w)"

definition ErrToolUnavailable :: error where "ErrToolUnavailable = Sentinel ''packaging tool unavailable''"
definition usrBinDir :: string where "usrBinDir = ''/usr/bin''"
definition scratchDirMode :: file_mode where "scratchDirMode = 0x1ED"
definition dpkgDeb :: string where "dpkgDeb = ''dpkg-deb''"
definition rpmTool :: string where "rpmTool = ''rpm''"
definition rpm2archiveTool :: string where "rpm2archiveTool = ''rpm2archive''"
definition tarTool :: string where "tarTool = ''tar''"

definition lookTool :: "'w pkg_host \<Rightarrow> string \<Rightarrow> string result" where
  "lookTool H name = (case ph_LookPath H name of
     Inl e \<Rightarrow> Inl (Wrapf ''packaging/extract: %s: %w: %v'' [name] ErrToolUnavailable) | Inr path \<Rightarrow> Inr path)"

definition pipeError :: "string \<Rightarrow> error \<Rightarrow> string \<Rightarrow> error" where
  "pipeError name err stderr = (let detail = trim_space stderr in
     if detail \<noteq> [] then Wrapf ''packaging/extract: %s: %w: %s'' [name, detail] err
     else Wrapf ''packaging/extract: %s: %w'' [name] err)"

definition runTool :: "'w pkg_host \<Rightarrow> string \<Rightarrow> string list \<Rightarrow> 'w \<Rightarrow> string result \<times> 'w" where
  "runTool H name args w = (case lookTool H name of Inl e \<Rightarrow> (Inl e, w)
   | Inr path \<Rightarrow> (case ph_Output H path args w of ((out, stderr, err), w1) \<Rightarrow>
       (case err of None \<Rightarrow> (Inr out, w1)
        | Some e \<Rightarrow> let detail = trim_space stderr in
            if detail \<noteq> [] then (Inl (Wrapf ''packaging/extract: %s: %w: %s'' [name, detail] e), w1)
            else (Inl (Wrapf ''packaging/extract: %s: %w'' [name] e), w1))))"

definition underUsrBin :: "string \<Rightarrow> bool" where
  "underUsrBin dest \<longleftrightarrow> dest = usrBinDir \<or> prefix (usrBinDir @ ''/'') dest"

section \<open>Debian packages\<close>

fun dep_parts :: "string \<Rightarrow> string list \<Rightarrow> string list result" where
  "dep_parts field [] = Inr []"
| "dep_parts field (part # parts) = (let dependency = trim_space part in
     if dependency = [] then Inl (Errorf ''packaging/extract: Depends field %q has an empty comma-separated component'' [field])
     else (case dep_parts field parts of Inl e \<Rightarrow> Inl e | Inr ds \<Rightarrow> Inr (dependency # ds)))"

definition debDependencies :: "string \<Rightarrow> string list result" where
  "debDependencies raw = (let field = trim_space raw in
     if field = [] then Inr [] else dep_parts field (split_on (CHR '','') field))"

fun conffile_lines :: "string list \<Rightarrow> string list \<Rightarrow> string list result" where
  "conffile_lines [] conffiles = Inr conffiles"
| "conffile_lines (l # ls) conffiles = (let line = trim_space l in
     if line = [] then conffile_lines ls conffiles
     else if \<not> prefix ''/'' line then Inl (Errorf ''packaging/extract: conffiles entry %q is not an absolute path'' [line])
     else conffile_lines ls (line # conffiles))"

definition debConffiles :: "'w pkg_host \<Rightarrow> string \<Rightarrow> 'w \<Rightarrow> string list result \<times> 'w" where
  "debConffiles H controlDir w = (case ph_ReadFile H (path_join controlDir ''conffiles'') w of
     (Inl e, w1) \<Rightarrow> if errors_is e ENOENT then (Inr [], w1) else (Inl (Wrapf ''packaging/extract: read conffiles: %w'' [] e), w1)
   | (Inr raw, w1) \<Rightarrow> (conffile_lines (split_on newline raw) [], w1))"

definition debPostinstall :: "'w pkg_host \<Rightarrow> string \<Rightarrow> 'w \<Rightarrow> scriptlet option result \<times> 'w" where
  "debPostinstall H controlDir w = (case ph_ReadFile H (path_join controlDir ''postinst'') w of
     (Inl e, w1) \<Rightarrow> if errors_is e ENOENT then (Inr None, w1) else (Inl (Wrapf ''packaging/extract: read postinst: %w'' [] e), w1)
   | (Inr raw, w1) \<Rightarrow> (Inr (Some raw), w1))"

text \<open>
  \<open>filepath.Rel\<close> of a name that the walk delivers, which is the payload directory followed by a slash and the rest.
\<close>

definition rel_path :: "string \<Rightarrow> string \<Rightarrow> string result" where
  "rel_path dir name = (if prefix (dir @ ''/'') name then Inr (drop (length dir + 1) name)
     else Inl (Errorf ''Rel: can not make %s relative to %s'' [name, dir]))"

definition walk_entry :: "'w pkg_host \<Rightarrow> string \<Rightarrow> string list \<Rightarrow> walk_call \<Rightarrow> 'w \<Rightarrow> pkg_entry option result \<times> 'w" where
  "walk_entry H payloadDir conffiles d w = (case wc_err d of Some e \<Rightarrow> (Inl e, w)
   | None \<Rightarrow> if wc_name d = payloadDir then (Inr None, w)
     else (case rel_path payloadDir (wc_name d) of Inl e \<Rightarrow> (Inl e, w)
       | Inr rel \<Rightarrow> (let dest = ''/'' @ rel in
           case wc_info d of Inl e \<Rightarrow> (Inl e, w)
           | Inr mode \<Rightarrow>
              (let entry = \<lparr>pe_Dest = dest, pe_Mode = mode, pe_Config = List.member conffiles dest, pe_Content = [],
                     pe_Owner = [], pe_Group = []\<rparr>
               in case wc_type d of
                    WDir \<Rightarrow> (Inr (Some entry), w)
                  | WRegular \<Rightarrow> if underUsrBin dest then (Inr (Some entry), w)
                      else (case ph_ReadFile H (wc_name d) w of
                          (Inl e, w1) \<Rightarrow> (Inl e, w1)
                        | (Inr content, w1) \<Rightarrow> (Inr (Some (entry\<lparr>pe_Content := content\<rparr>)), w1))
                  | WOther \<Rightarrow> (Inr None, w)))))"

fun walk_entries :: "'w pkg_host \<Rightarrow> string \<Rightarrow> string list \<Rightarrow> walk_call list \<Rightarrow> pkg_entry list \<Rightarrow> 'w \<Rightarrow>
    pkg_entry list result \<times> 'w" where
  "walk_entries H payloadDir conffiles [] entries w = (Inr entries, w)"
| "walk_entries H payloadDir conffiles (d # ds) entries w = (case walk_entry H payloadDir conffiles d w of
     (Inl e, w1) \<Rightarrow> (Inl (Wrapf ''packaging/extract: walk extracted payload: %w'' [] e), w1)
   | (Inr None, w1) \<Rightarrow> walk_entries H payloadDir conffiles ds entries w1
   | (Inr (Some entry), w1) \<Rightarrow> walk_entries H payloadDir conffiles ds (entries @ [entry]) w1)"

definition debEntries :: "'w pkg_host \<Rightarrow> string \<Rightarrow> string list \<Rightarrow> 'w \<Rightarrow> pkg_entry list result \<times> 'w" where
  "debEntries H payloadDir conffiles w = (case ph_WalkDir H payloadDir w of
     (calls, w1) \<Rightarrow> walk_entries H payloadDir conffiles calls [] w1)"

definition scratch_error :: "error \<Rightarrow> error" where
  "scratch_error e = Wrapf ''packaging/extract: create scratch directory: %w'' [] e"

definition mkdir_scratch :: "'w pkg_host \<Rightarrow> string \<Rightarrow> 'w \<Rightarrow> unit result \<times> 'w" where
  "mkdir_scratch H dir w = (case ph_Mkdir H dir scratchDirMode w of
     (Some e, w1) \<Rightarrow> (Inl (scratch_error e), w1) | (None, w1) \<Rightarrow> (Inr (), w1))"

definition deb_extract :: "'w pkg_host \<Rightarrow> string \<Rightarrow> string \<Rightarrow> 'w \<Rightarrow> pkg_model result \<times> 'w" where
  "deb_extract H path scratch w =
     (let payloadDir = path_join scratch ''payload''; controlDir = path_join scratch ''control'' in
      and_then (mkdir_scratch H payloadDir w) (\<lambda>_ w.
      and_then (mkdir_scratch H controlDir w) (\<lambda>_ w.
      and_then (runTool H dpkgDeb [''-x'', path, payloadDir] w) (\<lambda>_ w.
      and_then (runTool H dpkgDeb [''-e'', path, controlDir] w) (\<lambda>_ w.
      and_then (runTool H dpkgDeb [''-f'', path, ''Depends''] w) (\<lambda>dependsField w.
      and_then (lift_result (debDependencies dependsField) w) (\<lambda>dependencies w.
      and_then (debConffiles H controlDir w) (\<lambda>conffiles w.
      and_then (debEntries H payloadDir conffiles w) (\<lambda>entries w.
      and_then (debPostinstall H controlDir w) (\<lambda>postinstall w.
        (Inr \<lparr>md_Format = FormatDeb, md_Entries = entries, md_Dependencies = dependencies,
          md_Postinstall = postinstall\<rparr>, w)))))))))))"

text \<open>The scratch directory is removed on every path once it exists.\<close>

definition with_scratch :: "'w pkg_host \<Rightarrow> string \<Rightarrow> (string \<Rightarrow> 'w \<Rightarrow> pkg_model result \<times> 'w) \<Rightarrow> 'w \<Rightarrow> pkg_model result \<times> 'w" where
  "with_scratch H pattern body w = (case ph_MkdirTemp H pattern w of
     (Inl e, w1) \<Rightarrow> (Inl (scratch_error e), w1)
   | (Inr scratch, w1) \<Rightarrow> (case body scratch w1 of (r, w2) \<Rightarrow> (r, ph_RemoveAll H scratch w2)))"

definition Deb :: "'w pkg_host \<Rightarrow> string \<Rightarrow> 'w \<Rightarrow> pkg_model result \<times> 'w" where
  "Deb H path = with_scratch H ''pilothouse-extract-deb-'' (deb_extract H path)"

section \<open>RPM packages\<close>

definition tab :: char where "tab = CHR 0x09"
definition backslash :: string where "backslash = [CHR 0x5C]"

definition rpmFileTableQuery :: string where
  "rpmFileTableQuery = ''[%{FILENAMES}'' @ backslash @ ''t%{FILEMODES:octal}'' @ backslash @ ''t%{FILEFLAGS}'' @
     backslash @ ''t%{FILEUSERNAME}'' @ backslash @ ''t%{FILEGROUPNAME}'' @ backslash @ ''n]''"

definition rpmRequireFlagsQuery :: string where
  "rpmRequireFlagsQuery = ''[%{REQUIREFLAGS}'' @ backslash @ ''n]''"

definition rpmPostinstallQuery :: string where
  "rpmPostinstallQuery = ''%|POSTIN?{HAS'' @ backslash @ ''n%{POSTIN}}:{NONE'' @ backslash @ ''n}|''"

definition rpmFileTableFields :: nat where "rpmFileTableFields = 5"
definition rpmPostinstallPresent :: string where "rpmPostinstallPresent = ''HAS''"
definition rpmPostinstallAbsent :: string where "rpmPostinstallAbsent = ''NONE''"
definition rpmNoneOutput :: string where "rpmNoneOutput = ''(none)''"
definition rpmfileConfig :: int where "rpmfileConfig = 1"
definition rpmModeTypeMask :: nat where "rpmModeTypeMask = 0xF000"
definition rpmModeRegular :: nat where "rpmModeRegular = 0x8000"
definition rpmModeDir :: nat where "rpmModeDir = 0x4000"
definition rpmModePerm :: nat where "rpmModePerm = 0x1FF"
definition rpmsenseInterp :: int where "rpmsenseInterp = 0x100"
definition rpmsenseRPMLIB :: int where "rpmsenseRPMLIB = 0x1000000"

text \<open>\<open>strconv.ParseUint(s, 8, 32)\<close> and \<open>strconv.ParseInt(s, 10, 64)\<close>; \<open>num_error\<close> is their \<open>NumError\<close>.\<close>

definition num_error :: error where "num_error = Sentinel ''strconv.NumError''"

definition octal_value :: "string \<Rightarrow> nat" where
  "octal_value s = foldl (\<lambda>n c. 8 * n + digit_value c) 0 s"

definition parse_octal32 :: "string \<Rightarrow> nat option" where
  "parse_octal32 s = (if s = [] \<or> \<not> list_all (between 0x30 0x37) s then None
     else if octal_value s < 2 ^ 32 then Some (octal_value s) else None)"

definition parse_int64 :: "string \<Rightarrow> int option" where
  "parse_int64 s = (case s of [] \<Rightarrow> None
   | c # cs \<Rightarrow>
       (let digits = (if c = CHR ''+'' \<or> c = CHR ''-'' then cs else s) in
        if digits = [] \<or> \<not> list_all is_digit digits then None
        else if c = CHR ''-'' then (if digits_value digits \<le> 2 ^ 63 then Some (- int (digits_value digits)) else None)
        else if digits_value digits < 2 ^ 63 then Some (int (digits_value digits)) else None))"

definition rpmLines :: "string \<Rightarrow> string list" where
  "rpmLines raw = (let text = trimFinalNewline raw in
     if text = [] \<or> text = rpmNoneOutput then [] else split_on newline text)"

definition rpmFileTableEntry :: "string \<Rightarrow> (pkg_entry \<times> bool) result" where
  "rpmFileTableEntry line = (case split_on tab line of
     [dest, modeField, flagsField, owner, groupName] \<Rightarrow>
       (case parse_octal32 modeField of
          None \<Rightarrow> Inl (Wrapf ''packaging/extract: rpm file table line %q has a mode field that is not octal: %w'' [line] num_error)
        | Some mode \<Rightarrow> (case parse_int64 flagsField of
            None \<Rightarrow> Inl (Wrapf ''packaging/extract: rpm file table line %q has a flags field that is not decimal: %w'' [line] num_error)
          | Some flags \<Rightarrow>
              (let entry = \<lparr>pe_Dest = dest, pe_Mode = mode AND rpmModePerm, pe_Config = (flags AND rpmfileConfig \<noteq> 0),
                     pe_Content = [], pe_Owner = owner, pe_Group = groupName\<rparr>
               in if mode AND rpmModeTypeMask = rpmModeRegular then Inr (entry, True)
                  else if mode AND rpmModeTypeMask = rpmModeDir then Inr (entry\<lparr>pe_Mode := pe_Mode entry OR ModeDir\<rparr>, True)
                  else Inr (zero_entry, False))))
   | columns \<Rightarrow> Inl (Errorf ''packaging/extract: rpm file table line %q has %d tab-separated fields, want %d''
       [line, format_uint (length columns), format_uint rpmFileTableFields]))"

fun entry_lines :: "string list \<Rightarrow> pkg_entry list result" where
  "entry_lines [] = Inr []"
| "entry_lines (line # lines) = (case rpmFileTableEntry line of Inl e \<Rightarrow> Inl e
   | Inr (entry, keep) \<Rightarrow> (case entry_lines lines of Inl e \<Rightarrow> Inl e
     | Inr entries \<Rightarrow> Inr (if keep then entry # entries else entries)))"

definition rpmEntries :: "string \<Rightarrow> pkg_entry list result" where
  "rpmEntries raw = entry_lines (rpmLines raw)"

fun declared :: "(string \<times> string) list \<Rightarrow> string list result" where
  "declared [] = Inr []"
| "declared ((name, word) # rest) = (case parse_int64 word of
     None \<Rightarrow> Inl (Wrapf ''packaging/extract: rpm requires flag word %q is not decimal: %w'' [word] num_error)
   | Some flags \<Rightarrow> (case declared rest of Inl e \<Rightarrow> Inl e
     | Inr dependencies \<Rightarrow> if flags AND (rpmsenseInterp OR rpmsenseRPMLIB) \<noteq> 0 then Inr dependencies
         else Inr (name # dependencies)))"

definition rpmDependencies :: "string \<Rightarrow> string \<Rightarrow> string list result" where
  "rpmDependencies requires requireFlags = (let names = rpmLines requires; flag_words = rpmLines requireFlags in
     if length names \<noteq> length flag_words
     then Inl (Errorf ''packaging/extract: rpm reported %d requires entries but %d requires flag words; they are read as index-parallel and cannot be paired''
       [format_uint (length names), format_uint (length flag_words)])
     else declared (zip names flag_words))"

definition rpmPostinstall :: "string \<Rightarrow> scriptlet option result" where
  "rpmPostinstall raw = (case cut newline raw of
     None \<Rightarrow> Inl (Errorf ''packaging/extract: rpm postinstall query returned %q, which carries no newline-terminated presence marker; want %q or %q''
       [raw, rpmPostinstallPresent, rpmPostinstallAbsent])
   | Some (marker, body) \<Rightarrow>
       if marker = rpmPostinstallAbsent then Inr None
       else if marker = rpmPostinstallPresent then Inr (Some body)
       else Inl (Errorf ''packaging/extract: rpm postinstall query returned presence marker %q; want %q or %q''
         [marker, rpmPostinstallPresent, rpmPostinstallAbsent]))"

definition isBrokenPipe :: "'w pkg_host \<Rightarrow> error \<Rightarrow> bool" where
  "isBrokenPipe H err \<longleftrightarrow> ph_Signal H err = Some ''SIGPIPE''"

record pipe_command =
  pc_name :: string
  pc_args :: "string list"
  pc_stdin :: "int option"

definition pipe_verdict :: "'w pkg_host \<Rightarrow> string \<Rightarrow> string \<Rightarrow> string \<times> error option \<Rightarrow> string \<times> error option \<Rightarrow> unit result" where
  "pipe_verdict H src dst s d = (case (s, d) of ((srcStderr, srcErr), (dstStderr, dstErr)) \<Rightarrow>
     (case srcErr of
        Some e \<Rightarrow> if \<not> isBrokenPipe H e then Inl (pipeError src e srcStderr)
          else (case dstErr of Some e' \<Rightarrow> Inl (pipeError dst e' dstStderr) | None \<Rightarrow> Inl (pipeError src e srcStderr))
      | None \<Rightarrow> (case dstErr of Some e' \<Rightarrow> Inl (pipeError dst e' dstStderr) | None \<Rightarrow> Inr ())))"

definition close_pipe :: "'w pkg_host \<Rightarrow> int \<times> int \<Rightarrow> 'w \<Rightarrow> 'w" where
  "close_pipe H p w = ph_Close H (snd p) (ph_Close H (fst p) w)"

definition runPipe :: "'w pkg_host \<Rightarrow> string \<Rightarrow> pipe_command \<Rightarrow> pipe_command \<Rightarrow> 'w \<Rightarrow> unit result \<times> 'w" where
  "runPipe H dir src dst w =
     and_then (lift_result (lookTool H (pc_name src)) w) (\<lambda>srcPath w.
     and_then (lift_result (lookTool H (pc_name dst)) w) (\<lambda>dstPath w.
     (case ph_Pipe H w of
        (Inl e, w) \<Rightarrow> (Inl (pipeError (pc_name src) e []), w)
      | (Inr (pipeRead, pipeWrite), w) \<Rightarrow>
         (case ph_Start H srcPath (pc_args src) [] (pc_stdin src) (Some pipeWrite) w of
            (Inl e, w) \<Rightarrow> (Inl (pipeError (pc_name src) e []), close_pipe H (pipeRead, pipeWrite) w)
          | (Inr srcCmd, w) \<Rightarrow>
             (case ph_Start H dstPath (pc_args dst) dir (Some pipeRead) None w of
                (Inl e, w) \<Rightarrow> (Inl (pipeError (pc_name dst) e []),
                  snd (ph_Wait H srcCmd (ph_Kill H srcCmd (close_pipe H (pipeRead, pipeWrite) w))))
              | (Inr dstCmd, w) \<Rightarrow>
                 (case ph_Wait H srcCmd (close_pipe H (pipeRead, pipeWrite) w) of (s, w) \<Rightarrow>
                   (case ph_Wait H dstCmd w of (d, w) \<Rightarrow> (pipe_verdict H (pc_name src) (pc_name dst) s d, w))))))))"

definition rpmExtractPayload :: "'w pkg_host \<Rightarrow> string \<Rightarrow> string \<Rightarrow> 'w \<Rightarrow> unit result \<times> 'w" where
  "rpmExtractPayload H artifact dir w = (case ph_Open H artifact w of
     (Inl e, w1) \<Rightarrow> (Inl (Wrapf ''packaging/extract: open %s: %w'' [artifact] e), w1)
   | (Inr fd, w1) \<Rightarrow>
       (case runPipe H dir \<lparr>pc_name = rpm2archiveTool, pc_args = [''-n'', ''-''], pc_stdin = Some fd\<rparr>
            \<lparr>pc_name = tarTool, pc_args = [''-x'', ''--no-same-owner''], pc_stdin = None\<rparr> w1 of
          (r, w2) \<Rightarrow> (r, ph_Close H fd w2)))"

fun rpmReadContent :: "'w pkg_host \<Rightarrow> pkg_entry list \<Rightarrow> string \<Rightarrow> 'w \<Rightarrow> pkg_entry list result \<times> 'w" where
  "rpmReadContent H [] payloadDir w = (Inr [], w)"
| "rpmReadContent H (entry # entries) payloadDir w =
     (if pe_Mode entry AND ModeDir \<noteq> 0 \<or> underUsrBin (pe_Dest entry) then
        and_then (rpmReadContent H entries payloadDir w) (\<lambda>rest w. (Inr (entry # rest), w))
      else (case ph_ReadFile H (path_join payloadDir (if prefix ''/'' (pe_Dest entry) then tl (pe_Dest entry) else pe_Dest entry)) w of
          (Inl e, w1) \<Rightarrow> (Inl (Wrapf ''packaging/extract: read %s from the extracted rpm payload: %w'' [pe_Dest entry] e), w1)
        | (Inr content, w1) \<Rightarrow>
            and_then (rpmReadContent H entries payloadDir w1) (\<lambda>rest w. (Inr (entry\<lparr>pe_Content := content\<rparr> # rest), w))))"

definition rpm_extract :: "'w pkg_host \<Rightarrow> string \<Rightarrow> string \<Rightarrow> 'w \<Rightarrow> pkg_model result \<times> 'w" where
  "rpm_extract H path scratch w =
     (let payloadDir = path_join scratch ''payload'' in
      and_then (mkdir_scratch H payloadDir w) (\<lambda>_ w.
      and_then (runTool H rpmTool [''-qp'', ''--qf'', rpmFileTableQuery, path] w) (\<lambda>table w.
      and_then (lift_result (rpmEntries table) w) (\<lambda>entries w.
      and_then (runTool H rpmTool [''-qp'', ''--requires'', path] w) (\<lambda>requires w.
      and_then (runTool H rpmTool [''-qp'', ''--qf'', rpmRequireFlagsQuery, path] w) (\<lambda>requireFlags w.
      and_then (lift_result (rpmDependencies requires requireFlags) w) (\<lambda>dependencies w.
      and_then (runTool H rpmTool [''-qp'', ''--qf'', rpmPostinstallQuery, path] w) (\<lambda>postinstallOutput w.
      and_then (lift_result (rpmPostinstall postinstallOutput) w) (\<lambda>postinstall w.
      and_then (rpmExtractPayload H path payloadDir w) (\<lambda>_ w.
      and_then (rpmReadContent H entries payloadDir w) (\<lambda>entries w.
        (Inr \<lparr>md_Format = FormatRPM, md_Entries = entries, md_Dependencies = dependencies,
          md_Postinstall = postinstall\<rparr>, w))))))))))))"

definition RPM :: "'w pkg_host \<Rightarrow> string \<Rightarrow> 'w \<Rightarrow> pkg_model result \<times> 'w" where
  "RPM H path = with_scratch H ''pilothouse-extract-rpm-'' (rpm_extract H path)"


section \<open>The queries answered by rpm\<close>

text \<open>
  The answers of rpm, a program of its own, as the comments of \<open>rpm.go\<close> document them: one line per row, each with its
  terminator, and for a tag that the package does not carry either nothing or the literal \<open>(none)\<close>. The columns of the file table are
  separated by tabs, modes are octal with or without leading zeros and flag words decimal. They are
  relations, since more than one answer stands for the same rows.
\<close>

fun format_octal :: "nat \<Rightarrow> string" where
  "format_octal n = (if n < 8 then [digit_char n] else format_octal (n div 8) @ [digit_char (n mod 8)])"

declare format_octal.simps [simp del]


definition rpm_prints :: "string list \<Rightarrow> string \<Rightarrow> bool" where
  "rpm_prints rows raw \<longleftrightarrow> (if rows = [] then raw \<in> {[], ''(none)'', ''(none)'' @ [newline]} else raw = concat (map (\<lambda>row. row @ [newline]) rows))"

type_synonym rpm_row = "string \<times> nat \<times> int \<times> string \<times> string"

definition prints_row :: "rpm_row \<Rightarrow> string \<Rightarrow> bool" where
  "prints_row r line \<longleftrightarrow> (case r of (dest, mode, flags, owner, grp) \<Rightarrow>
     \<exists>zeros. line = join_with [tab] [dest, replicate zeros (CHR ''0'') @ format_octal mode, format_int flags, owner, grp])"

definition row_ok :: "rpm_row \<Rightarrow> bool" where
  "row_ok r \<longleftrightarrow> (case r of (dest, mode, flags, owner, grp) \<Rightarrow>
     list_all (\<lambda>s. tab \<notin> set s \<and> newline \<notin> set s) [dest, owner, grp] \<and> mode < 2 ^ 32 \<and> - (2 ^ 63) \<le> flags \<and> flags < 2 ^ 63)"

text \<open>The entries a row stands for: one for a file or a directory, none for anything else.\<close>

definition row_entries :: "rpm_row \<Rightarrow> pkg_entry list" where
  "row_entries r = (case r of (dest, mode, flags, owner, grp) \<Rightarrow>
     let entry = \<lparr>pe_Dest = dest, pe_Mode = mode AND 0x1FF, pe_Config = odd flags, pe_Content = [], pe_Owner = owner,
           pe_Group = grp\<rparr>
     in if mode AND 0xF000 = 0x8000 then [entry]
        else if mode AND 0xF000 = 0x4000 then [entry\<lparr>pe_Mode := pe_Mode entry OR ModeDir\<rparr>] else [])"

lemma octal_value_snoc [simp]: "octal_value (s @ [c]) = 8 * octal_value s + digit_value c"
  by (simp add: octal_value_def)

lemma format_octal_spec: "octal_value (format_octal n) = n \<and> list_all (between 0x30 0x37) (format_octal n) \<and> format_octal n \<noteq> []"
proof (induction n rule: format_octal.induct)
  case (1 n)
  have d: "k < 8 \<Longrightarrow> between 0x30 0x37 (digit_char k)" for k by (simp add: between_def byte_digit_char)
  show ?case using 1 d
    by (cases "n < 8") (simp_all add: format_octal.simps[of n] octal_value_def)
qed

lemma octal_value_zero: "octal_value (CHR ''0'' # s) = octal_value s"
  by (simp add: octal_value_def digit_value_def)

lemma parse_format_octal: "n < 2 ^ 32 \<Longrightarrow> parse_octal32 (replicate zeros (CHR ''0'') @ format_octal n) = Some n"
proof -
  have "octal_value (replicate zeros (CHR ''0'') @ format_octal n) = n"
    using format_octal_spec[of n] by (induction zeros) (simp_all add: octal_value_zero)
  moreover have "list_all (between 0x30 0x37) (replicate zeros (CHR ''0''))" by (simp add: list_all_iff between_def)
  ultimately show "n < 2 ^ 32 \<Longrightarrow> ?thesis" using format_octal_spec[of n] by (simp add: parse_octal32_def)
qed

lemma digit_not: "is_digit c \<Longrightarrow> c \<noteq> CHR ''+'' \<and> c \<noteq> CHR ''-'' \<and> c \<noteq> tab \<and> c \<noteq> newline"
  by (auto simp: is_digit_def between_def tab_def newline_def)

lemma parse_format_int: assumes "- (2 ^ 63) \<le> i" and "i < 2 ^ 63" shows "parse_int64 (format_int i) = Some i"
proof -
  have p: "parse_int64 (format_uint n) = Some (int n)" if "n < 2 ^ 63" for n
  proof -
    obtain c cs where c: "format_uint n = c # cs" by (cases "format_uint n") auto
    have "list_all is_digit (c # cs)" "digits_value (c # cs) = n" using format_uint_digits[of n] digits_value_format[of n] c by simp_all
    then show ?thesis using that digit_not[of c] unfolding c by (simp add: parse_int64_def)
  qed
  show ?thesis
  proof (cases "i < 0")
    case True
    then have "digits_value (format_uint (nat (- i))) \<le> 2 ^ 63" using assms by (simp add: digits_value_format nat_le_iff)
    then show ?thesis using True by (simp add: format_int_def parse_int64_def format_uint_digits digits_value_format)
  next
    case False
    then have "nat i < 2 ^ 63" using assms by (simp add: nat_less_iff)
    then show ?thesis using False p[of "nat i"] by (simp add: format_int_def)
  qed
qed


lemma format_plain: "c \<in> set (format_octal n) \<Longrightarrow> c \<noteq> tab \<and> c \<noteq> newline" "c \<in> set (format_int i) \<Longrightarrow> c \<noteq> tab \<and> c \<noteq> newline"
proof -
  show "c \<in> set (format_octal n) \<Longrightarrow> c \<noteq> tab \<and> c \<noteq> newline"
    using format_octal_spec[of n] by (auto simp: list_all_iff between_def tab_def newline_def)
  have "d \<noteq> tab \<and> d \<noteq> newline" if "d \<in> set (format_uint k)" for d k
    using that format_uint_digits[of k] digit_not[of d] by (simp add: list_all_iff)
  then show "c \<in> set (format_int i) \<Longrightarrow> c \<noteq> tab \<and> c \<noteq> newline"
    by (auto simp: format_int_def tab_def newline_def split: if_splits)
qed

lemma rpmLines_render:
  assumes "\<forall>row\<in>set rows. newline \<notin> set row" and "rows \<noteq> [[]]" and "rows \<noteq> [rpmNoneOutput]" and raw: "rpm_prints rows raw"
  shows "rpmLines raw = rows"
proof (cases "rows = []")
  case True
  then show ?thesis using raw by (auto simp: rpm_prints_def rpmLines_def trimFinalNewline_def rpmNoneOutput_def newline_def)
next
  case False
  then have r: "raw = concat (map (\<lambda>row. row @ [newline]) rows)" using raw by (simp add: rpm_prints_def)
  have "raw = join_with [newline] rows @ [newline]"
    unfolding r using False
  proof (induction rows rule: list_nonempty_induct)
    case (cons x xs)
    then show ?case by (cases xs) auto
  qed simp
  then have t: "trimFinalNewline raw = join_with [newline] rows" by (simp add: trimFinalNewline_def)
  have sp: "split_on newline (join_with [newline] rows) = rows" using split_on_join[OF False assms(1)] .
  have "join_with [newline] rows \<noteq> []" using sp assms(2) by auto
  moreover have "join_with [newline] rows \<noteq> rpmNoneOutput"
  proof
    assume "join_with [newline] rows = rpmNoneOutput"
    moreover have "newline \<notin> set rpmNoneOutput" by (simp add: newline_def rpmNoneOutput_def)
    ultimately show False using sp split_on_no_sep[of newline rpmNoneOutput] assms(3) by simp
  qed
  ultimately show ?thesis using t sp by (simp add: rpmLines_def)
qed

lemma rpmFileTableEntry_render:
  assumes "row_ok r" and "prints_row r line"
  shows "\<exists>entry keep. rpmFileTableEntry line = Inr (entry, keep) \<and> (if keep then [entry] else []) = row_entries r"
proof -
  obtain dest mode flags owner grp where r: "r = (dest, mode, flags, owner, grp)" by (cases r) auto
  obtain zeros where line: "line = join_with [tab] [dest, replicate zeros (CHR ''0'') @ format_octal mode, format_int flags, owner, grp]"
    using assms(2) by (auto simp: prints_row_def r)
  have "split_on tab line = [dest, replicate zeros (CHR ''0'') @ format_octal mode, format_int flags, owner, grp]"
    unfolding line by (rule split_on_join) (use assms(1) format_plain[of tab] in \<open>auto simp: r row_ok_def tab_def\<close>)
  moreover have "parse_octal32 (replicate zeros (CHR ''0'') @ format_octal mode) = Some mode" "parse_int64 (format_int flags) = Some flags"
    using assms(1) parse_format_octal parse_format_int by (auto simp: r row_ok_def)
  moreover have "flags AND 1 \<noteq> 0 \<longleftrightarrow> odd flags" by (simp add: and_one_eq odd_iff_mod_2_eq_one)
  ultimately show ?thesis
    by (auto simp: rpmFileTableEntry_def r row_entries_def Let_def rpmModePerm_def rpmfileConfig_def
        rpmModeTypeMask_def rpmModeRegular_def rpmModeDir_def)
qed

lemma entry_lines_render:
  "list_all2 prints_row rows lines \<Longrightarrow> list_all row_ok rows \<Longrightarrow> entry_lines lines = Inr (concat (map row_entries rows))"
proof (induction rule: list_all2_induct)
  case (Cons r rows line lines)
  obtain entry keep where "rpmFileTableEntry line = Inr (entry, keep)" "(if keep then [entry] else []) = row_entries r"
    using rpmFileTableEntry_render[of r line] Cons by auto
  then show ?case using Cons by (cases keep) (auto split: if_splits)
qed simp

lemma prints_row_plain: "row_ok r \<Longrightarrow> prints_row r line \<Longrightarrow> newline \<notin> set line \<and> tab \<in> set line"
  using format_plain[of newline] by (auto simp: row_ok_def prints_row_def newline_def tab_def split: prod.splits)

lemma rpmEntries_render:
  assumes "list_all row_ok rows" and l: "list_all2 prints_row rows lines" and "rpm_prints lines raw"
  shows "rpmEntries raw = Inr (concat (map row_entries rows))"
proof -
  have a: "newline \<notin> set line \<and> tab \<in> set line" if m: "line \<in> set lines" for line
  proof -
    obtain i where "i < length lines" "line = lines ! i" using m by (auto simp: in_set_conv_nth)
    then have "rows ! i \<in> set rows" "prints_row (rows ! i) line" using list_all2_lengthD[OF l] list_all2_nthD2[OF l] by auto
    then show ?thesis using assms(1) prints_row_plain unfolding list_all_iff by blast
  qed
  have "rpmLines raw = lines"
  proof (rule rpmLines_render[OF _ _ _ assms(3)])
    show "\<forall>row\<in>set lines. newline \<notin> set row" using a by blast
    show "lines \<noteq> [[]]" "lines \<noteq> [rpmNoneOutput]" using a by (force simp: rpmNoneOutput_def tab_def)+
  qed
  then show ?thesis using entry_lines_render[OF l assms(1)] by (simp add: rpmEntries_def)
qed

text \<open>A dependency that the builder added: its flag word has the interpreter's bit or that of an rpmlib capability.\<close>

definition generated :: "int \<Rightarrow> bool" where
  "generated flags \<longleftrightarrow> bit flags 8 \<or> bit flags 24"

lemma generated_iff: "flags AND (rpmsenseInterp OR rpmsenseRPMLIB) \<noteq> 0 \<longleftrightarrow> generated flags"
proof -
  have "flags AND (rpmsenseInterp OR rpmsenseRPMLIB) = (flags AND 2 ^ 8) OR (flags AND 2 ^ 24)"
    unfolding rpmsenseInterp_def rpmsenseRPMLIB_def bit.conj_disj_distrib by simp
  then show ?thesis using and_exp_eq_0_iff_not_bit[of flags 8] and_exp_eq_0_iff_not_bit[of flags 24]
    by (simp add: generated_def or_eq_0_iff)
qed

lemma declared_spec:
  "list_all (\<lambda>(n, i). - (2 ^ 63) \<le> i \<and> i < 2 ^ 63) deps \<Longrightarrow>
    declared (map (\<lambda>(n, i). (n, format_int i)) deps) = Inr (map fst (filter (\<lambda>(n, i). \<not> generated i) deps))"
  by (induction deps) (auto simp: parse_format_int generated_iff)

definition dep_ok :: "string \<times> int \<Rightarrow> bool" where
  "dep_ok d \<longleftrightarrow> newline \<notin> set (fst d) \<and> fst d \<noteq> [] \<and> fst d \<noteq> rpmNoneOutput \<and> - (2 ^ 63) \<le> snd d \<and> snd d < 2 ^ 63"

lemma rpmDependencies_render:
  assumes "list_all dep_ok deps" and names: "rpm_prints (map fst deps) rawNames" and words: "rpm_prints (map (format_int \<circ> snd) deps) rawFlags"
  shows "rpmDependencies rawNames rawFlags = Inr (map fst (filter (\<lambda>(n, i). \<not> generated i) deps))"
proof -
  have n: "rpmLines rawNames = map fst deps"
    by (rule rpmLines_render[OF _ _ _ names]) (use assms(1) in \<open>auto simp: list_all_iff dep_ok_def\<close>)
  have pl: "newline \<notin> set (format_int i)" "format_int i \<noteq> []" "format_int i \<noteq> rpmNoneOutput" for i
  proof -
    show "newline \<notin> set (format_int i)" using format_plain(2) by blast
    show "format_int i \<noteq> []" by (simp add: format_int_def)
    have "CHR ''('' \<notin> set (format_uint k)" for k
      using format_uint_digits[of k] by (auto simp: list_all_iff is_digit_def between_def)
    then have "hd (format_uint k) \<noteq> CHR ''(''" for k by (metis format_uint_nonempty hd_in_set)
    then have "hd (format_int i) \<noteq> CHR ''(''" by (simp add: format_int_def)
    then show "format_int i \<noteq> rpmNoneOutput" by (auto simp: rpmNoneOutput_def)
  qed
  have f: "rpmLines rawFlags = map (format_int \<circ> snd) deps"
    by (rule rpmLines_render[OF _ _ _ words]) (use pl in auto)
  have "zip (map fst deps) (map (format_int \<circ> snd) deps) = map (\<lambda>(n, i). (n, format_int i)) deps"
    by (induction deps) auto
  moreover have "list_all (\<lambda>(n, i). - (2 ^ 63) \<le> i \<and> i < 2 ^ 63) deps" using assms(1) by (auto simp: list_all_iff dep_ok_def)
  ultimately show ?thesis using declared_spec by (simp add: rpmDependencies_def n f)
qed

lemma cut_iff: "cut sep s = Some (a, b) \<longleftrightarrow> s = a @ sep # b \<and> sep \<notin> set a"
proof (induction s arbitrary: a)
  case (Cons c s)
  show ?case using Cons by (cases a) (auto split: option.splits)
qed simp


section \<open>What an extraction holds\<close>

text \<open>
  The resources of the host: the open descriptors, the running children and the scratch directories. The laws
  say what each call does to them.
\<close>

record 'w host_views =
  hv_fds :: "'w \<Rightarrow> int set"
  hv_children :: "'w \<Rightarrow> nat set"
  hv_scratch :: "'w \<Rightarrow> string set"

definition holds_same :: "'w host_views \<Rightarrow> 'w \<Rightarrow> 'w \<Rightarrow> bool" where
  "holds_same V w w' \<longleftrightarrow> hv_fds V w' = hv_fds V w \<and> hv_children V w' = hv_children V w \<and> hv_scratch V w' = hv_scratch V w"

definition quiet :: "'w host_views \<Rightarrow> ('w \<Rightarrow> 'a \<times> 'w) \<Rightarrow> bool" where
  "quiet V f \<longleftrightarrow> (\<forall>w. holds_same V w (snd (f w)))"

definition process_rules :: "'w host_views \<Rightarrow> 'w pkg_host \<Rightarrow> bool" where
  "process_rules V H \<longleftrightarrow>
     (\<forall>w. case ph_Pipe H w of (Inl e, w') \<Rightarrow> holds_same V w w'
        | (Inr (r, p), w') \<Rightarrow> r \<noteq> p \<and> r \<notin> hv_fds V w \<and> p \<notin> hv_fds V w \<and> hv_fds V w' = insert r (insert p (hv_fds V w)) \<and>
            hv_children V w' = hv_children V w \<and> hv_scratch V w' = hv_scratch V w) \<and>
     (\<forall>name w. case ph_Open H name w of (Inl e, w') \<Rightarrow> holds_same V w w'
        | (Inr fd, w') \<Rightarrow> fd \<notin> hv_fds V w \<and> hv_fds V w' = insert fd (hv_fds V w) \<and>
            hv_children V w' = hv_children V w \<and> hv_scratch V w' = hv_scratch V w) \<and>
     (\<forall>fd w. hv_fds V (ph_Close H fd w) = hv_fds V w - {fd} \<and> hv_children V (ph_Close H fd w) = hv_children V w \<and>
        hv_scratch V (ph_Close H fd w) = hv_scratch V w) \<and>
     (\<forall>p a d i oo w. case ph_Start H p a d i oo w of (Inl e, w') \<Rightarrow> holds_same V w w'
        | (Inr pid, w') \<Rightarrow> pid \<notin> hv_children V w \<and> hv_children V w' = insert pid (hv_children V w) \<and>
            hv_fds V w' = hv_fds V w \<and> hv_scratch V w' = hv_scratch V w) \<and>
     (\<forall>pid w. holds_same V w (ph_Kill H pid w)) \<and>
     (\<forall>pid w. let w' = snd (ph_Wait H pid w) in hv_children V w' = hv_children V w - {pid} \<and>
        hv_fds V w' = hv_fds V w \<and> hv_scratch V w' = hv_scratch V w)"

definition scratch_rules :: "'w host_views \<Rightarrow> 'w pkg_host \<Rightarrow> bool" where
  "scratch_rules V H \<longleftrightarrow>
     (\<forall>pat w. case ph_MkdirTemp H pat w of (Inl e, w') \<Rightarrow> holds_same V w w'
        | (Inr dir, w') \<Rightarrow> dir \<notin> hv_scratch V w \<and> hv_scratch V w' = insert dir (hv_scratch V w) \<and>
            hv_fds V w' = hv_fds V w \<and> hv_children V w' = hv_children V w) \<and>
     (\<forall>dir w. hv_scratch V (ph_RemoveAll H dir w) = hv_scratch V w - {dir} \<and>
        hv_fds V (ph_RemoveAll H dir w) = hv_fds V w \<and> hv_children V (ph_RemoveAll H dir w) = hv_children V w) \<and>
     (\<forall>dir mode. quiet V (ph_Mkdir H dir mode)) \<and> (\<forall>p a. quiet V (ph_Output H p a)) \<and>
     (\<forall>name. quiet V (ph_ReadFile H name)) \<and> (\<forall>dir. quiet V (ph_WalkDir H dir))"

lemma holds_same_refl [simp]: "holds_same V w w"
  by (simp add: holds_same_def)

lemma holds_same_trans: "holds_same V w w1 \<Longrightarrow> holds_same V w1 w2 \<Longrightarrow> holds_same V w w2"
  by (simp add: holds_same_def)

lemma quietD: "quiet V f \<Longrightarrow> f w = (r, w') \<Longrightarrow> holds_same V w w'"
  unfolding quiet_def by (metis snd_conv)

lemma quiet_I: "(\<And>w r w'. f w = (r, w') \<Longrightarrow> holds_same V w w') \<Longrightarrow> quiet V f"
  unfolding quiet_def by (metis surjective_pairing)

lemma quiet_and_then: "quiet V f \<Longrightarrow> (\<And>x. quiet V (k x)) \<Longrightarrow> quiet V (\<lambda>w. and_then (f w) k)"
proof (rule quiet_I)
  fix w r w'
  assume f: "quiet V f" and k: "\<And>x. quiet V (k x)" and e: "and_then (f w) k = (r, w')"
  obtain q w1 where q: "f w = (q, w1)" by (cases "f w")
  show "holds_same V w w'"
    using quietD[OF f q] e q by (cases q) (auto simp: and_then_def intro: holds_same_trans quietD[OF k])
qed

lemma quiet_pure [simp]: "quiet V (\<lambda>w. (r, w))" "quiet V (lift_result q)"
  by (simp_all add: quiet_def lift_result_def)

lemma runTool_quiet: assumes "scratch_rules V H" shows "quiet V (runTool H name args)"
proof (rule quiet_I)
  fix w r w' assume s: "runTool H name args w = (r, w')"
  have q: "quiet V (ph_Output H p a)" for p a using assms by (simp add: scratch_rules_def)
  show "holds_same V w w'"
  proof (cases "lookTool H name")
    case (Inr path)
    obtain out stderr err w1 where o: "ph_Output H path args w = ((out, stderr, err), w1)" by (metis surj_pair)
    have "w' = w1" using s Inr o by (auto simp: runTool_def Let_def split: option.splits if_splits)
    then show ?thesis using quietD[OF q o] by simp
  qed (use s in \<open>auto simp: runTool_def\<close>)
qed

lemma mkdir_scratch_quiet: assumes "scratch_rules V H" shows "quiet V (mkdir_scratch H dir)"
proof (rule quiet_I)
  fix w r w' assume s: "mkdir_scratch H dir w = (r, w')"
  obtain q w1 where o: "ph_Mkdir H dir scratchDirMode w = (q, w1)" by (cases "ph_Mkdir H dir scratchDirMode w")
  have "quiet V (ph_Mkdir H dir scratchDirMode)" using assms by (simp add: scratch_rules_def)
  then show "holds_same V w w'" using s o quietD by (cases q) (auto simp: mkdir_scratch_def)
qed

lemma read_quiet:
  assumes "scratch_rules V H"
  shows "quiet V (debConffiles H dir)" and "quiet V (debPostinstall H dir)" and "quiet V (walk_entry H dir cs d)"
proof -
  have q: "quiet V (ph_ReadFile H name)" for name using assms by (simp add: scratch_rules_def)
  show "quiet V (debConffiles H dir)" "quiet V (debPostinstall H dir)" "quiet V (walk_entry H dir cs d)"
    by (rule quiet_I; use quietD[OF q] in \<open>force simp: debConffiles_def debPostinstall_def walk_entry_def Let_def
        split: prod.splits sum.splits if_splits option.splits walk_type.splits\<close>)+
qed

lemma debEntries_quiet: assumes S: "scratch_rules V H" shows "quiet V (debEntries H dir cs)"
proof (rule quiet_I)
  fix w r w' assume s: "debEntries H dir cs w = (r, w')"
  have walk: "walk_entries H dir cs ds es v = (q, v') \<Longrightarrow> holds_same V v v'" for ds es v q v'
  proof (induction ds arbitrary: es v)
    case (Cons d ds)
    obtain x u where e: "walk_entry H dir cs d v = (x, u)" by (cases "walk_entry H dir cs d v")
    show ?case using quietD[OF read_quiet(3)[OF S] e] Cons.prems e
      by (auto split: sum.splits option.splits intro: holds_same_trans Cons.IH)
  qed simp
  obtain calls w1 where c: "ph_WalkDir H dir w = (calls, w1)" by (cases "ph_WalkDir H dir w")
  have "quiet V (ph_WalkDir H dir)" using S by (simp add: scratch_rules_def)
  then show "holds_same V w w'" using s c quietD walk holds_same_trans by (fastforce simp: debEntries_def)
qed

lemma rpmReadContent_quiet: assumes S: "scratch_rules V H" shows "quiet V (rpmReadContent H es dir)"
proof (induction es)
  case (Cons e es)
  have q: "quiet V (ph_ReadFile H name)" for name using S by (simp add: scratch_rules_def)
  have sub: "quiet V (\<lambda>w. and_then (rpmReadContent H es dir w) (\<lambda>rest w. (Inr (x # rest), w)))" for x
    by (rule quiet_and_then[OF Cons.IH]) simp
  show ?case
  proof (rule quiet_I)
    fix w r w' assume s: "rpmReadContent H (e # es) dir w = (r, w')"
    show "holds_same V w w'"
    proof (cases "pe_Mode e AND ModeDir \<noteq> 0 \<or> underUsrBin (pe_Dest e)")
      case True
      then show ?thesis using quietD[OF sub] s by simp
    next
      case False
      define name where "name = path_join dir (if prefix ''/'' (pe_Dest e) then tl (pe_Dest e) else pe_Dest e)"
      obtain x w1 where x: "ph_ReadFile H name w = (x, w1)" by (cases "ph_ReadFile H name w")
      show ?thesis using quietD[OF q x] s[unfolded rpmReadContent.simps if_not_P[OF False], folded name_def, unfolded x prod.case]
        by (cases x) (auto intro: holds_same_trans quietD[OF sub])
    qed
  qed
qed simp


lemma process_rulesD:
  assumes "process_rules V H"
  shows "case ph_Pipe H w of (Inl e, w') \<Rightarrow> holds_same V w w'
        | (Inr (r, p), w') \<Rightarrow> r \<noteq> p \<and> r \<notin> hv_fds V w \<and> p \<notin> hv_fds V w \<and> hv_fds V w' = insert r (insert p (hv_fds V w)) \<and>
            hv_children V w' = hv_children V w \<and> hv_scratch V w' = hv_scratch V w"
    and "case ph_Open H name w of (Inl e, w') \<Rightarrow> holds_same V w w'
        | (Inr fd, w') \<Rightarrow> fd \<notin> hv_fds V w \<and> hv_fds V w' = insert fd (hv_fds V w) \<and>
            hv_children V w' = hv_children V w \<and> hv_scratch V w' = hv_scratch V w"
    and "hv_fds V (ph_Close H fd w) = hv_fds V w - {fd} \<and> hv_children V (ph_Close H fd w) = hv_children V w \<and>
        hv_scratch V (ph_Close H fd w) = hv_scratch V w"
    and "case ph_Start H q a d i oo w of (Inl e, w') \<Rightarrow> holds_same V w w'
        | (Inr pid, w') \<Rightarrow> pid \<notin> hv_children V w \<and> hv_children V w' = insert pid (hv_children V w) \<and>
            hv_fds V w' = hv_fds V w \<and> hv_scratch V w' = hv_scratch V w"
    and "holds_same V w (ph_Kill H pid w)"
    and "let w' = snd (ph_Wait H pid w) in hv_children V w' = hv_children V w - {pid} \<and>
        hv_fds V w' = hv_fds V w \<and> hv_scratch V w' = hv_scratch V w"
proof -
  note L = assms[unfolded process_rules_def]
  show "case ph_Pipe H w of (Inl e, w') \<Rightarrow> holds_same V w w'
        | (Inr (r, p), w') \<Rightarrow> r \<noteq> p \<and> r \<notin> hv_fds V w \<and> p \<notin> hv_fds V w \<and> hv_fds V w' = insert r (insert p (hv_fds V w)) \<and>
            hv_children V w' = hv_children V w \<and> hv_scratch V w' = hv_scratch V w"
    by (rule L[THEN conjunct1, THEN spec])
  note L2 = L[THEN conjunct2]
  show "case ph_Open H name w of (Inl e, w') \<Rightarrow> holds_same V w w'
        | (Inr fd, w') \<Rightarrow> fd \<notin> hv_fds V w \<and> hv_fds V w' = insert fd (hv_fds V w) \<and>
            hv_children V w' = hv_children V w \<and> hv_scratch V w' = hv_scratch V w"
    by (rule L2[THEN conjunct1, THEN spec, THEN spec])
  note L3 = L2[THEN conjunct2]
  show "hv_fds V (ph_Close H fd w) = hv_fds V w - {fd} \<and> hv_children V (ph_Close H fd w) = hv_children V w \<and>
        hv_scratch V (ph_Close H fd w) = hv_scratch V w" by (rule L3[THEN conjunct1, THEN spec, THEN spec])
  note L4 = L3[THEN conjunct2]
  show "case ph_Start H q a d i oo w of (Inl e, w') \<Rightarrow> holds_same V w w'
        | (Inr pid, w') \<Rightarrow> pid \<notin> hv_children V w \<and> hv_children V w' = insert pid (hv_children V w) \<and>
            hv_fds V w' = hv_fds V w \<and> hv_scratch V w' = hv_scratch V w"
    by (rule L4[THEN conjunct1, THEN spec, THEN spec, THEN spec, THEN spec, THEN spec, THEN spec])
  note L5 = L4[THEN conjunct2]
  show "holds_same V w (ph_Kill H pid w)" by (rule L5[THEN conjunct1, THEN spec, THEN spec])
  show "let w' = snd (ph_Wait H pid w) in hv_children V w' = hv_children V w - {pid} \<and>
        hv_fds V w' = hv_fds V w \<and> hv_scratch V w' = hv_scratch V w" by (rule L5[THEN conjunct2, THEN spec, THEN spec])
qed

lemma scratch_rulesD:
  assumes "scratch_rules V H"
  shows "case ph_MkdirTemp H pat w of (Inl e, w') \<Rightarrow> holds_same V w w'
        | (Inr dir, w') \<Rightarrow> dir \<notin> hv_scratch V w \<and> hv_scratch V w' = insert dir (hv_scratch V w) \<and>
            hv_fds V w' = hv_fds V w \<and> hv_children V w' = hv_children V w"
    and "hv_scratch V (ph_RemoveAll H dir w) = hv_scratch V w - {dir} \<and>
        hv_fds V (ph_RemoveAll H dir w) = hv_fds V w \<and> hv_children V (ph_RemoveAll H dir w) = hv_children V w"
proof -
  note L = assms[unfolded scratch_rules_def]
  show "case ph_MkdirTemp H pat w of (Inl e, w') \<Rightarrow> holds_same V w w'
        | (Inr dir, w') \<Rightarrow> dir \<notin> hv_scratch V w \<and> hv_scratch V w' = insert dir (hv_scratch V w) \<and>
            hv_fds V w' = hv_fds V w \<and> hv_children V w' = hv_children V w"
    by (rule L[THEN conjunct1, THEN spec, THEN spec])
  show "hv_scratch V (ph_RemoveAll H dir w) = hv_scratch V w - {dir} \<and>
        hv_fds V (ph_RemoveAll H dir w) = hv_fds V w \<and> hv_children V (ph_RemoveAll H dir w) = hv_children V w"
    by (rule L[THEN conjunct2, THEN conjunct1, THEN spec, THEN spec])
qed

lemma close_pipe_views:
  assumes "process_rules V H"
  shows "hv_fds V (close_pipe H (r, p) w) = hv_fds V w - {r, p}" "hv_children V (close_pipe H (r, p) w) = hv_children V w"
    "hv_scratch V (close_pipe H (r, p) w) = hv_scratch V w"
  using assms by (auto simp: process_rules_def close_pipe_def)

lemma runPipe_quiet: assumes P: "process_rules V H" shows "quiet V (runPipe H dir src dst)"
proof (rule quiet_I)
  fix w r w' assume s: "runPipe H dir src dst w = (r, w')"
  note pipe = process_rulesD(1)[OF P] and start = process_rulesD(4)[OF P] and kill = process_rulesD(5)[OF P] and wait = process_rulesD(6)[OF P]
  note cp = close_pipe_views[OF P]
  show "holds_same V w w'"
  proof (cases "lookTool H (pc_name src)")
    case (Inl e)
    then show ?thesis using s by (simp add: runPipe_def and_then_def lift_result_def)
  next
    case srcP: (Inr srcPath)
    show ?thesis
    proof (cases "lookTool H (pc_name dst)")
      case (Inl e)
      then show ?thesis using s srcP by (simp add: runPipe_def and_then_def lift_result_def)
    next
      case dstP: (Inr dstPath)
      note eq = s[unfolded runPipe_def srcP dstP and_then_def lift_result_def prod.case sum.case]
      obtain q1 w1 where 1: "ph_Pipe H w = (q1, w1)" by (cases "ph_Pipe H w")
      note eq1 = eq[unfolded 1 prod.case]
      show ?thesis
      proof (cases q1)
        case (Inl e)
        then show ?thesis using eq1 pipe[where w = w] 1 by simp
      next
        case (Inr fds)
        obtain i oo where fds: "fds = (i, oo)" by (cases fds)
        have p1: "i \<noteq> oo" "i \<notin> hv_fds V w" "oo \<notin> hv_fds V w" "hv_fds V w1 = insert i (insert oo (hv_fds V w))"
          "hv_children V w1 = hv_children V w" "hv_scratch V w1 = hv_scratch V w"
          using pipe[where w = w] 1 Inr fds by simp_all
        obtain q2 w2 where 2: "ph_Start H srcPath (pc_args src) [] (pc_stdin src) (Some oo) w1 = (q2, w2)"
          by (cases "ph_Start H srcPath (pc_args src) [] (pc_stdin src) (Some oo) w1")
        note st2 = start[where q = srcPath and a = "pc_args src" and d = "[]" and i = "pc_stdin src" and oo = "Some oo" and w = w1, unfolded 2 prod.case]
        note eq2 = eq1[unfolded Inr fds sum.case prod.case 2]
        show ?thesis
        proof (cases q2)
          case (Inl e)
          then show ?thesis using eq2 st2 p1 cp by (auto simp: holds_same_def)
        next
          case src: (Inr srcCmd)
          obtain q3 w3 where 3: "ph_Start H dstPath (pc_args dst) dir (Some i) None w2 = (q3, w3)"
            by (cases "ph_Start H dstPath (pc_args dst) dir (Some i) None w2")
          note st3 = start[where q = dstPath and a = "pc_args dst" and d = dir and i = "Some i" and oo = None and w = w2, unfolded 3 prod.case]
          note eq3 = eq2[unfolded src sum.case 3 prod.case]
          have k2: "srcCmd \<notin> hv_children V w1" "hv_children V w2 = insert srcCmd (hv_children V w1)"
            "hv_fds V w2 = hv_fds V w1" "hv_scratch V w2 = hv_scratch V w1" using st2 src by simp_all
          show ?thesis
          proof (cases q3)
            case (Inl e)
            have w': "w' = snd (ph_Wait H srcCmd (ph_Kill H srcCmd (close_pipe H (i, oo) w3)))" using eq3 Inl by simp
            have "holds_same V w2 w3" using st3 Inl by simp
            then show ?thesis
              using wait[where pid = srcCmd and w = "ph_Kill H srcCmd (close_pipe H (i, oo) w3)"]
                kill[where pid = srcCmd and w = "close_pipe H (i, oo) w3"]
                cp[of i oo w3] p1 k2 unfolding w' by (auto simp: holds_same_def Let_def)
          next
            case dst: (Inr dstCmd)
            obtain s1 w4 where 4: "ph_Wait H srcCmd (close_pipe H (i, oo) w3) = (s1, w4)"
              by (cases "ph_Wait H srcCmd (close_pipe H (i, oo) w3)")
            obtain d1 w5 where 5: "ph_Wait H dstCmd w4 = (d1, w5)" by (cases "ph_Wait H dstCmd w4")
            have w': "w' = w5" using eq3 dst 4 5 by simp
            have k3: "dstCmd \<notin> hv_children V w2" "hv_children V w3 = insert dstCmd (hv_children V w2)"
              "hv_fds V w3 = hv_fds V w2" "hv_scratch V w3 = hv_scratch V w2" using st3 dst by simp_all
            show ?thesis using wait[where pid = srcCmd and w = "close_pipe H (i, oo) w3"] wait[where pid = dstCmd and w = w4] cp[of i oo w3] p1 k2 k3
              unfolding 4 5 w' by (auto simp: holds_same_def Let_def)
          qed
        qed
      qed
    qed
  qed
qed

lemma rpmExtractPayload_quiet: assumes P: "process_rules V H" shows "quiet V (rpmExtractPayload H artifact dir)"
proof (rule quiet_I)
  fix w r w' assume s: "rpmExtractPayload H artifact dir w = (r, w')"
  note op = process_rulesD(2)[OF P] and cl = process_rulesD(3)[OF P]
  obtain q w1 where 1: "ph_Open H artifact w = (q, w1)" by (cases "ph_Open H artifact w")
  note eq = s[unfolded rpmExtractPayload_def 1 prod.case]
  show "holds_same V w w'"
  proof (cases q)
    case (Inl e)
    then show ?thesis using eq op[where name = artifact and w = w] 1 by simp
  next
    case (Inr fd)
    have "\<exists>w2. holds_same V w1 w2 \<and> w' = ph_Close H fd w2"
      using eq Inr quietD[OF runPipe_quiet[OF P]] by (fastforce split: prod.splits)
    then show ?thesis using op[where name = artifact and w = w] 1 Inr cl[where fd = fd] by (auto simp: holds_same_def)
  qed
qed

lemma with_scratch_quiet:
  assumes S: "scratch_rules V H" and body: "\<And>scratch. quiet V (body scratch)" shows "quiet V (with_scratch H pat body)"
proof (rule quiet_I)
  fix w r w' assume s: "with_scratch H pat body w = (r, w')"
  note mk = scratch_rulesD(1)[OF S, where pat = pat and w = w] and rm = scratch_rulesD(2)[OF S]
  obtain q w1 where 1: "ph_MkdirTemp H pat w = (q, w1)" by (cases "ph_MkdirTemp H pat w")
  show "holds_same V w w'"
  proof (cases q)
    case (Inl e)
    then show ?thesis using s mk 1 by (simp add: with_scratch_def)
  next
    case (Inr dir)
    obtain r2 w2 where 2: "body dir w1 = (r2, w2)" by (cases "body dir w1")
    then have "w' = ph_RemoveAll H dir w2" using s 1 Inr by (simp add: with_scratch_def)
    then show ?thesis using mk 1 Inr rm[where dir = dir and w = w2] quietD[OF body 2] by (auto simp: holds_same_def)
  qed
qed

lemma Deb_quiet: assumes S: "scratch_rules V H" shows "quiet V (Deb H path)"
  unfolding Deb_def deb_extract_def Let_def
  by (intro with_scratch_quiet[OF S] quiet_and_then)
    (simp_all add: runTool_quiet[OF S] mkdir_scratch_quiet[OF S] read_quiet[OF S] debEntries_quiet[OF S])

lemma RPM_quiet: assumes S: "scratch_rules V H" and P: "process_rules V H" shows "quiet V (RPM H path)"
  unfolding RPM_def rpm_extract_def Let_def
  by (intro with_scratch_quiet[OF S] quiet_and_then)
    (simp_all add: runTool_quiet[OF S] mkdir_scratch_quiet[OF S] rpmExtractPayload_quiet[OF P] rpmReadContent_quiet[OF S])

end
