(* ===== verification/Verify_Packages.thy ===== *)
theory Verify_Packages
  imports Packaging_Extract
begin

text \<open>
  The command that verifies built packages (\<open>cmd/verify-packages/main.go\<close>) and the properties of the packaging
  tools as a whole. The report is the list of printed lines without their terminator, each a format with its arguments; \<open>err_text\<close> and
  \<open>msg_text\<close> are the rendered texts of errors and messages. A panic of the verifier is \<open>None\<close>.
\<close>

section \<open>The command\<close>

definition toolName :: string where "toolName = ''verify-packages''"
definition defaultDir :: string where "defaultDir = ''dist''"
definition emptyPathPlaceholder :: string where "emptyPathPlaceholder = ''-''"

record 'w backend =
  be_ext :: string
  be_label :: string
  be_extract :: "string \<Rightarrow> 'w \<Rightarrow> pkg_model result \<times> 'w"

record 'w deps =
  dp_backends :: "'w backend list"
  dp_verify :: "pkg_model \<Rightarrow> pkg_finding list option"

definition defaultDeps :: "'w pkg_host \<Rightarrow> sources \<Rightarrow> 'w deps" where
  "defaultDeps H sources = \<lparr>dp_backends =
     [\<lparr>be_ext = ''.deb'', be_label = FormatDeb, be_extract = Deb H\<rparr>,
      \<lparr>be_ext = ''.rpm'', be_label = FormatRPM, be_extract = RPM H\<rparr>],
     dp_verify = Verify sources\<rparr>"

definition plural :: "nat \<Rightarrow> string \<Rightarrow> string" where
  "plural n noun = (if n = 1 then ''1 '' @ noun else format_uint n @ '' '' @ noun @ ''s'')"

text \<open>\<open>strings.ReplaceAll\<close> of \<open>"\r\n"\<close> by \<open>"\n"\<close> and of \<open>"\n"\<close> by \<open>"; "\<close>, and \<open>strings.TrimRight\<close> of newlines.\<close>

fun replace_crlf :: "string \<Rightarrow> string" where
  "replace_crlf (a # b # s) = (if a = CHR 0x0D \<and> b = newline then newline # replace_crlf s else a # replace_crlf (b # s))"
| "replace_crlf s = s"

definition oneLine :: "string \<Rightarrow> string" where
  "oneLine s = concat (map (\<lambda>c. if c = newline then ''; '' else [c]) (rev (dropWhile (\<lambda>c. c = newline) (rev (replace_crlf s)))))"

text \<open>\<open>filepath.Ext\<close>: from the last dot of the last component.\<close>

definition path_ext :: "string \<Rightarrow> string" where
  "path_ext p = (let base = takeWhile (\<lambda>c. c \<noteq> slash) (rev p) in
     if CHR ''.'' \<in> set base then ''.'' @ rev (takeWhile (\<lambda>c. c \<noteq> CHR ''.'') base) else [])"

text \<open>\<open>strings.EqualFold\<close>, for a first argument none of whose letters folds to a letter beyond ASCII.\<close>

definition equal_fold :: "string \<Rightarrow> string \<Rightarrow> bool" where
  "equal_fold s t \<longleftrightarrow> to_lower id s = to_lower id t"

fun backendFor :: "'w backend list \<Rightarrow> string \<Rightarrow> 'w backend option" where
  "backendFor [] path = None"
| "backendFor (b # bs) path = (if equal_fold (be_ext b) (path_ext path) then Some b else backendFor bs path)"

definition extensions :: "'w backend list \<Rightarrow> string list" where
  "extensions bs = map be_ext bs"

fun discover :: "(string \<Rightarrow> 'w \<Rightarrow> string list result \<times> 'w) \<Rightarrow> string \<Rightarrow> 'w backend list \<Rightarrow> 'w \<Rightarrow> string list result \<times> 'w" where
  "discover glob dir [] w = (Inr [], w)"
| "discover glob dir (b # bs) w = (let pattern = path_join dir (''*'' @ be_ext b) in
     case glob pattern w of
       (Inl e, w1) \<Rightarrow> (Inl (Wrapf ''search %s: %w'' [pattern] e), w1)
     | (Inr found, w1) \<Rightarrow> and_then (discover glob dir bs w1) (\<lambda>rest w. (Inr (sort found @ rest), w)))"

definition finding_line :: "(message \<Rightarrow> string) \<Rightarrow> pkg_finding \<Rightarrow> message" where
  "finding_line msg_text finding = Sprintf (tab # ''%s'' @ tab # ''%s'' @ tab # ''%s'')
     [AStr (pf_Code finding), AStr (if pf_Path finding = [] then emptyPathPlaceholder else pf_Path finding),
      AStr (oneLine (msg_text (pf_Message finding)))]"

definition report :: "(error \<Rightarrow> string) \<Rightarrow> (message \<Rightarrow> string) \<Rightarrow> 'w deps \<Rightarrow> string \<Rightarrow> 'w \<Rightarrow>
    (nat \<times> bool \<times> message list \<times> 'w) option" where
  "report err_text msg_text d path w = (case backendFor (dp_backends d) path of
     None \<Rightarrow> Some (0, True, [Sprintf ''%s: unsupported artifact extension %q: expected one of %s''
       [AStr path, AStr (path_ext path), AStr (join_with '', '' (extensions (dp_backends d)))]], w)
   | Some selected \<Rightarrow> (case be_extract selected path w of
       (Inl e, w1) \<Rightarrow> Some (0, True, [Sprintf ''%s (%s): extraction failed: %s''
         [AStr path, AStr (be_label selected), AStr (oneLine (err_text e))]], w1)
     | (Inr model, w1) \<Rightarrow> (case dp_verify d model of None \<Rightarrow> None
       | Some findings \<Rightarrow> Some (length findings, False,
           Sprintf ''%s (%s): %s'' [AStr path, AStr (be_label selected), AStr (plural (length findings) ''finding'')] #
             map (finding_line msg_text) findings, w1))))"

fun report_all :: "(error \<Rightarrow> string) \<Rightarrow> (message \<Rightarrow> string) \<Rightarrow> 'w deps \<Rightarrow> string list \<Rightarrow> nat \<Rightarrow> nat \<Rightarrow> message list \<Rightarrow> 'w \<Rightarrow>
    (nat \<times> nat \<times> message list \<times> 'w) option" where
  "report_all err_text msg_text d [] findings failures out w = Some (findings, failures, out, w)"
| "report_all err_text msg_text d (path # paths) findings failures out w =
     (case report err_text msg_text d path w of None \<Rightarrow> None
      | Some (found, failed, lines, w1) \<Rightarrow>
          report_all err_text msg_text d paths (findings + found) (if failed then failures + 1 else failures) (out @ lines) w1)"

text \<open>\<open>flag.FlagSet.Parse\<close> with the one flag \<open>-dir\<close>: the value and the arguments left, or an error.\<close>

function parse_flags :: "string \<Rightarrow> string list \<Rightarrow> (string \<times> string list) option" where
  "parse_flags dir args = (case args of [] \<Rightarrow> Some (dir, [])
   | s # rest \<Rightarrow>
      if length s < 2 \<or> hd s \<noteq> CHR ''-'' then Some (dir, args)
      else if s = ''--'' then Some (dir, rest)
      else
        (let name = drop (if s ! 1 = CHR ''-'' then 2 else 1) s in
         if name = [] \<or> hd name = CHR ''-'' \<or> hd name = CHR ''='' then None
         else (case cut (CHR ''='') name of
             Some (flag, val) \<Rightarrow> if flag = ''dir'' then parse_flags val rest else None
           | None \<Rightarrow> if name \<noteq> ''dir'' then None
               else (case rest of [] \<Rightarrow> None | val # rest' \<Rightarrow> parse_flags val rest'))))"
  by pat_completeness auto
termination by (relation "measure (\<lambda>(dir, args). length args)") auto

declare parse_flags.simps [simp del]

record 'w verdict =
  vd_status :: nat
  vd_stdout :: "message list"
  vd_stderr :: "message list"
  vd_world :: 'w

definition no_artifacts :: "string \<Rightarrow> 'w backend list \<Rightarrow> message list" where
  "no_artifacts dir bs =
     [Sprintf ''%s: no package artifacts found in %s: searched %s''
        [AStr toolName, AStr dir, AStr (join_with '' and '' (map (\<lambda>b. path_join dir (''*'' @ be_ext b)) bs))],
      Sprintf ''%s: GoReleaser Pro builds them in CI: .github/workflows/release.yml on a tag, .github/workflows/snapshot.yml on main, .github/workflows/packaging.yml on pushes and pull requests targeting main.'' [AStr toolName],
      Sprintf ''%s: locally, `make package` builds them into dist/, but it requires goreleaser Pro, which is not installed on a stock development host or in the development image, so it will not succeed there.'' [AStr toolName]]"

definition check_paths :: "(error \<Rightarrow> string) \<Rightarrow> (message \<Rightarrow> string) \<Rightarrow> 'w deps \<Rightarrow> string list \<Rightarrow> 'w \<Rightarrow> 'w verdict option" where
  "check_paths err_text msg_text d paths w = (case report_all err_text msg_text d paths 0 0 [] w of None \<Rightarrow> None
   | Some (findings, failures, out, w1) \<Rightarrow> Some
       \<lparr>vd_status = (if findings > 0 \<or> failures > 0 then 1 else 0),
        vd_stdout = out @ [Sprintf ''%s: %s checked, %s, %s'' [AStr toolName, AStr (plural (length paths) ''artifact''),
          AStr (plural findings ''finding''), AStr (plural failures ''extraction failure'')]],
        vd_stderr = [], vd_world = w1\<rparr>)"

definition run_verify :: "(error \<Rightarrow> string) \<Rightarrow> (message \<Rightarrow> string) \<Rightarrow> (string \<Rightarrow> 'w \<Rightarrow> string list result \<times> 'w) \<Rightarrow>
    'w deps \<Rightarrow> string list \<Rightarrow> 'w \<Rightarrow> 'w verdict option" where
  "run_verify err_text msg_text glob d args w = (case parse_flags defaultDir args of
     None \<Rightarrow> Some \<lparr>vd_status = 1, vd_stdout = [], vd_stderr = [Sprintf ''usage'' []], vd_world = w\<rparr>
   | Some (dir, paths) \<Rightarrow>
       if paths = [] then
         (case discover glob dir (dp_backends d) w of
            (Inl e, w1) \<Rightarrow> Some \<lparr>vd_status = 1, vd_stdout = [],
              vd_stderr = [Sprintf ''%s: %v'' [AStr toolName, AStr (err_text e)]], vd_world = w1\<rparr>
          | (Inr discovered, w1) \<Rightarrow>
              if discovered = [] then Some \<lparr>vd_status = 1, vd_stdout = [],
                vd_stderr = no_artifacts dir (dp_backends d), vd_world = w1\<rparr>
              else check_paths err_text msg_text d discovered w1)
       else check_paths err_text msg_text d paths w)"


section \<open>The exit status\<close>

lemma oneLine_single: "newline \<notin> set (oneLine s)"
  by (auto simp: oneLine_def newline_def split: if_splits)

lemma report_all_total:
  assumes "\<And>m. dp_verify d m \<noteq> None"
  shows "\<exists>f k out' w'. report_all err_text msg_text d paths findings failures out w = Some (f, k, out', w')"
proof (induction paths arbitrary: findings failures out w)
  case (Cons path paths)
  have "report err_text msg_text d path w \<noteq> None"
    using assms by (auto simp: report_def simp del: not_None_eq split: option.splits prod.splits sum.splits)
  then obtain found failed lines w1 where "report err_text msg_text d path w = Some (found, failed, lines, w1)" by auto
  then show ?case using Cons.IH[of "findings + found"] by simp
qed simp

text \<open>Every artifact has a backend, is read and conforms, one after the other.\<close>

fun all_conform :: "sources \<Rightarrow> 'w deps \<Rightarrow> string list \<Rightarrow> 'w \<Rightarrow> bool" where
  "all_conform sources d [] w = True"
| "all_conform sources d (path # paths) w = (case backendFor (dp_backends d) path of None \<Rightarrow> False
   | Some b \<Rightarrow> (case be_extract b path w of (Inl e, w1) \<Rightarrow> False
     | (Inr m, w1) \<Rightarrow> conforms sources m \<and> all_conform sources d paths w1))"

lemma report_all_mono:
  "report_all err_text msg_text d paths findings failures out w = Some (f, k, out', w') \<Longrightarrow> findings \<le> f \<and> failures \<le> k"
proof (induction paths arbitrary: findings failures out w)
  case (Cons path paths)
  obtain found failed lines w1 where r: "report err_text msg_text d path w = Some (found, failed, lines, w1)"
    using Cons.prems by (cases "report err_text msg_text d path w") auto
  show ?case using Cons.IH[of "findings + found" "if failed then failures + 1 else failures"] Cons.prems r
    by (fastforce split: if_splits)
qed simp

lemma report_all_clean:
  assumes "embedded sources" and "dp_verify d = Verify sources"
  shows "report_all err_text msg_text d paths 0 0 out w = Some (f, k, out', w') \<Longrightarrow>
    f = 0 \<and> k = 0 \<longleftrightarrow> all_conform sources d paths w"
proof (induction paths arbitrary: out w)
  case (Cons path paths)
  obtain found failed lines w1 where r: "report err_text msg_text d path w = Some (found, failed, lines, w1)"
    using Cons.prems by (cases "report err_text msg_text d path w") auto
  have rec: "report_all err_text msg_text d paths found (if failed then 1 else 0) (out @ lines) w1 = Some (f, k, out', w')"
    using Cons.prems r by (auto split: if_splits)
  have ok: "found = 0 \<and> \<not> failed \<longleftrightarrow> (\<exists>b m. backendFor (dp_backends d) path = Some b \<and> be_extract b path w = (Inr m, w1) \<and> conforms sources m)"
    using r by (auto simp: report_def assms(2) Verify_conforms[OF assms(1), symmetric] split: option.splits prod.splits sum.splits)
  show ?case
  proof (cases "found = 0 \<and> \<not> failed")
    case True
    then have "report_all err_text msg_text d paths 0 0 (out @ lines) w1 = Some (f, k, out', w')" using rec by simp
    from Cons.IH[OF this] show ?thesis using ok True by (auto split: option.splits)
  next
    case False
    then have "\<not> (f = 0 \<and> k = 0)" using report_all_mono[OF rec] by (auto split: if_splits)
    moreover have "\<not> all_conform sources d (path # paths) w"
      using False ok r by (auto simp: report_def split: option.splits prod.splits sum.splits)
    ultimately show ?thesis by simp
  qed
qed simp

text \<open>The artifacts of a run: those named on the command line or, without any, those discovered.\<close>

definition artifacts :: "(string \<Rightarrow> 'w \<Rightarrow> string list result \<times> 'w) \<Rightarrow> 'w deps \<Rightarrow> string list \<Rightarrow> 'w \<Rightarrow> (string list \<times> 'w) option" where
  "artifacts glob d args w = (case parse_flags defaultDir args of None \<Rightarrow> None
   | Some (dir, paths) \<Rightarrow> if paths \<noteq> [] then Some (paths, w)
       else (case discover glob dir (dp_backends d) w of (Inl e, w1) \<Rightarrow> None | (Inr found, w1) \<Rightarrow> Some (found, w1)))"

lemma check_paths_spec:
  assumes "embedded sources" and "dp_verify d = Verify sources"
  shows "\<exists>v. check_paths err_text msg_text d paths w = Some v \<and> (vd_status v = 0 \<longleftrightarrow> all_conform sources d paths w)"
proof -
  have "\<And>m. dp_verify d m \<noteq> None" using assms(2) Verify_returns[OF assms(1)] by (metis option.distinct(1))
  from report_all_total[OF this] obtain f k out' w'
    where r: "report_all err_text msg_text d paths 0 0 [] w = Some (f, k, out', w')" by blast
  show ?thesis using report_all_clean[OF assms r] r by (auto simp: check_paths_def)
qed

section \<open>A host that keeps the laws\<close>

record desk =
  dk_fds :: "int list"
  dk_children :: "nat list"
  dk_scratch :: "string list"

definition new_fd :: "int list \<Rightarrow> int" where "new_fd xs = sum_list (map abs xs) + 1"
definition new_child :: "nat list \<Rightarrow> nat" where "new_child xs = sum_list xs + 1"
definition new_dir :: "string list \<Rightarrow> string" where "new_dir xs = replicate (sum_list (map length xs) + 1) (CHR ''x'')"

definition desk_host :: "desk pkg_host" where
  "desk_host = \<lparr>
     ph_LookPath = Inr,
     ph_Output = (\<lambda>p args w. ((if rpmPostinstallQuery \<in> set args then ''NONE'' @ [newline] else [], [], None), w)),
     ph_MkdirTemp = (\<lambda>pat w. (Inr (new_dir (dk_scratch w)), w\<lparr>dk_scratch := new_dir (dk_scratch w) # dk_scratch w\<rparr>)),
     ph_Mkdir = (\<lambda>dir mode w. (None, w)),
     ph_RemoveAll = (\<lambda>dir w. w\<lparr>dk_scratch := filter (\<lambda>d. d \<noteq> dir) (dk_scratch w)\<rparr>),
     ph_ReadFile = (\<lambda>name w. (Inl ENOENT, w)),
     ph_WalkDir = (\<lambda>dir w. ([], w)),
     ph_Open = (\<lambda>name w. (Inr (new_fd (dk_fds w)), w\<lparr>dk_fds := new_fd (dk_fds w) # dk_fds w\<rparr>)),
     ph_Close = (\<lambda>fd w. w\<lparr>dk_fds := filter (\<lambda>x. x \<noteq> fd) (dk_fds w)\<rparr>),
     ph_Pipe = (\<lambda>w. let r = new_fd (dk_fds w) in (Inr (r, r + 1), w\<lparr>dk_fds := r # (r + 1) # dk_fds w\<rparr>)),
     ph_Start = (\<lambda>p a d i oo w. (Inr (new_child (dk_children w)), w\<lparr>dk_children := new_child (dk_children w) # dk_children w\<rparr>)),
     ph_Kill = (\<lambda>pid w. w),
     ph_Wait = (\<lambda>pid w. (([], None), w\<lparr>dk_children := filter (\<lambda>x. x \<noteq> pid) (dk_children w)\<rparr>)),
     ph_Signal = (\<lambda>_. None)\<rparr>"

definition desk_views :: "desk host_views" where
  "desk_views = \<lparr>hv_fds = (\<lambda>w. set (dk_fds w)), hv_children = (\<lambda>w. set (dk_children w)), hv_scratch = (\<lambda>w. set (dk_scratch w))\<rparr>"

lemma new_fd_above: "x \<in> set xs \<Longrightarrow> x < new_fd xs"
proof (induction xs)
  case (Cons y xs)
  have "0 \<le> sum_list (map abs xs)" by (rule sum_list_nonneg) auto
  then show ?case using Cons by (auto simp: new_fd_def)
qed simp

lemma new_child_above: "x \<in> set xs \<Longrightarrow> x < new_child xs"
  using member_le_sum_list[of x xs] by (simp add: new_child_def)

lemma new_dir_longer: "d \<in> set ds \<Longrightarrow> length d < length (new_dir ds)"
  using member_le_sum_list[of "length d" "map length ds"] by (simp add: new_dir_def)

lemma desk_rules: "process_rules desk_views desk_host" "scratch_rules desk_views desk_host"
proof -
  have "new_fd xs \<notin> set xs" "new_fd xs + 1 \<notin> set xs" "new_child ys \<notin> set ys" "new_dir ds \<notin> set ds" for xs ys ds
    using new_fd_above new_child_above new_dir_longer by fastforce+
  then show "process_rules desk_views desk_host" "scratch_rules desk_views desk_host"
    by (auto simp: process_rules_def scratch_rules_def quiet_def holds_same_def desk_views_def desk_host_def Let_def)
qed

section \<open>Properties\<close>

text \<open>
  C33. The exit status tells the truth. With the repository files embedded the command never panics, and it
  exits with 0 exactly when there is at least one artifact and every artifact, in order, has a known extension,
  could be extracted and conforms to the contract.
\<close>

theorem verify_packages_exit:
  assumes "embedded sources"
  shows "\<exists>v. run_verify err_text msg_text glob (defaultDeps H sources) args w = Some v \<and>
    (vd_status v = 0 \<longleftrightarrow> (\<exists>paths w1. artifacts glob (defaultDeps H sources) args w = Some (paths, w1) \<and> paths \<noteq> [] \<and>
      all_conform sources (defaultDeps H sources) paths w1))"
proof -
  have v: "dp_verify (defaultDeps H sources) = Verify sources" by (simp add: defaultDeps_def)
  note cp = check_paths_spec[OF assms v]
  show ?thesis
  proof (cases "parse_flags defaultDir args")
    case None
    then show ?thesis by (simp add: run_verify_def artifacts_def)
  next
    case (Some dp)
    obtain dir paths where dp: "dp = (dir, paths)" by (cases dp)
    show ?thesis
    proof (cases "paths = []")
      case False
      then show ?thesis using Some dp cp[of err_text msg_text paths w] by (simp add: run_verify_def artifacts_def)
    next
      case True
      obtain r w1 where d: "discover glob dir (dp_backends (defaultDeps H sources)) w = (r, w1)"
        by (cases "discover glob dir (dp_backends (defaultDeps H sources)) w")
      show ?thesis using Some dp True d cp[of err_text msg_text _ w1] by (cases r) (auto simp: run_verify_def artifacts_def)
    qed
  qed
qed

theorem verify_packages_exit_witness:
  "\<exists>v. run_verify (\<lambda>_. []) (\<lambda>_. []) (\<lambda>_ w. (Inr [], w)) (defaultDeps desk_host demo_sources) [''a.txt'']
    \<lparr>dk_fds = [], dk_children = [], dk_scratch = []\<rparr> = Some v \<and> vd_status v \<noteq> 0"
proof -
  have "artifacts (\<lambda>_ w. (Inr [], w)) (defaultDeps desk_host demo_sources) [''a.txt''] w = Some ([''a.txt''], w)" for w
    by (simp add: artifacts_def parse_flags.simps)
  moreover have "\<not> all_conform demo_sources (defaultDeps desk_host demo_sources) [''a.txt''] w" for w
  proof -
    have "\<not> equal_fold ''.deb'' (path_ext ''a.txt'')" "\<not> equal_fold ''.rpm'' (path_ext ''a.txt'')" by code_simp+
    then show ?thesis by (simp add: defaultDeps_def)
  qed
  ultimately show ?thesis
    using verify_packages_exit[OF demo_embedded, of "\<lambda>_. []" "\<lambda>_. []" "\<lambda>_ w. (Inr [], w)" desk_host "[''a.txt'']"
        "\<lparr>dk_fds = [], dk_children = [], dk_scratch = []\<rparr>"] by auto
qed

text \<open>
  Extraction leaves nothing behind. Over every host that keeps the laws, whichever call fails, \<open>Deb\<close> and \<open>RPM\<close>
  end with the same open descriptors, the same children and the same scratch directories as they began: both
  ends of the pipe are closed, every child that was started has been waited for, and the scratch directory is
  removed.
\<close>

theorem extractors_clean:
  assumes "process_rules V H" and "scratch_rules V H"
  shows "holds_same V w (snd (Deb H path w)) \<and> holds_same V w (snd (RPM H path w))"
  using Deb_quiet[OF assms(2)] RPM_quiet[OF assms(2,1)] by (simp add: quiet_def)

theorem extractors_clean_witness:
  "holds_same desk_views \<lparr>dk_fds = [0, 1, 2], dk_children = [], dk_scratch = []\<rparr>
    (snd (RPM desk_host ''a.rpm'' \<lparr>dk_fds = [0, 1, 2], dk_children = [], dk_scratch = []\<rparr>))"
  using extractors_clean[OF desk_rules] by blast

text \<open>
  C34. What rpm reports is what the model holds. Let rpm answer a query with one line per row, or, when the package does not carry the
  tag, with nothing or the literal \<open>(none)\<close>, and print modes in octal with or without leading zeros. Then the
  parsers recover exactly the rows: of a file table, whose names have no tab or newline, modes 32 bits and flag words 64, an entry per file
  or directory with its destination (spaces included), permissions, configuration bit, owner and group, empty names included; of the
  dependencies, whose texts are non-empty, without a newline and not the literal \<open>(none)\<close>, those whose flag words carry
  neither the interpreter's bit nor that of rpmlib, in order.
\<close>

theorem rpm_metadata_roundtrip:
  assumes "list_all row_ok rows" and "list_all2 prints_row rows lines" and "rpm_prints lines fileTable"
    and "list_all dep_ok requires" and "rpm_prints (map fst requires) names" and "rpm_prints (map (format_int \<circ> snd) requires) flagWords"
  shows "rpmEntries fileTable = Inr (concat (map row_entries rows)) \<and>
    rpmDependencies names flagWords = Inr (map fst (filter (\<lambda>(n, flags). \<not> generated flags) requires))"
  using rpmEntries_render[OF assms(1-3)] rpmDependencies_render[OF assms(4-6)] by simp

text \<open>One file with a leading zero in its mode, and a package without dependencies.\<close>

theorem rpm_metadata_roundtrip_witness:
  "rpmEntries (join_with [tab] [''/opt/with space'', ''0100644'', ''1'', ''root'', []] @ [newline]) =
     Inr [\<lparr>pe_Dest = ''/opt/with space'', pe_Mode = 0x1A4, pe_Config = True, pe_Content = [], pe_Owner = ''root'', pe_Group = []\<rparr>] \<and>
   rpmDependencies ''(none)'' [] = Inr []"
proof -
  have ok: "list_all row_ok [(''/opt/with space'', 0x81A4, 1, ''root'', [])]"
    by (simp add: row_ok_def tab_def newline_def)
  have "format_int 1 = ''1''" by code_simp
  moreover have "replicate 1 (CHR ''0'') @ format_octal 0x81A4 = ''0100644''" by (simp add: format_octal.simps digit_char_def char_of_def bit_Suc_0_iff)
  ultimately have row: "prints_row (''/opt/with space'', 0x81A4, 1, ''root'', []) (join_with [tab] [''/opt/with space'', ''0100644'', ''1'', ''root'', []])"
    unfolding prints_row_def prod.case by (intro exI[of _ 1]) presburger
  show ?thesis
    using rpm_metadata_roundtrip[OF ok, of "[join_with [tab] [''/opt/with space'', ''0100644'', ''1'', ''root'', []]]" _ "[]" "''(none)''" "[]"] row
    by (simp add: rpm_prints_def row_entries_def)
qed

text \<open>
  No scriptlet can forge the verdict. The answer of the postinstall query is read as a body exactly when it
  is the presence marker, one newline and that body, whatever the body contains, and as no scriptlet exactly
  when it begins with the absence marker on a line of its own; everything else is an error.
\<close>

theorem rpm_postinstall_exact:
  "(rpmPostinstall raw = Inr (Some body) \<longleftrightarrow> raw = ''HAS'' @ [newline] @ body) \<and>
   (rpmPostinstall raw = Inr None \<longleftrightarrow> (\<exists>rest. raw = ''NONE'' @ [newline] @ rest))"
proof -
  have n: "newline \<notin> set ''HAS''" "newline \<notin> set ''NONE''" by (simp_all add: newline_def)
  have h: "cut newline raw = Some (''HAS'', b) \<longleftrightarrow> raw = ''HAS'' @ [newline] @ b" for b
    unfolding cut_iff using n(1) by simp
  have a: "cut newline raw = Some (''NONE'', b) \<longleftrightarrow> raw = ''NONE'' @ [newline] @ b" for b
    unfolding cut_iff using n(2) by simp
  have "rpmPostinstall raw = Inr (Some body) \<longleftrightarrow> cut newline raw = Some (''HAS'', body)"
    "rpmPostinstall raw = Inr None \<longleftrightarrow> (\<exists>rest. cut newline raw = Some (''NONE'', rest))"
    by (auto simp: rpmPostinstall_def rpmPostinstallPresent_def rpmPostinstallAbsent_def split: option.splits)
  then show ?thesis unfolding h a by blast
qed

end
