(* ===== verification/Sessions.thy ===== *)
theory Sessions
  imports Auth
begin

text \<open>
  The broker's login sessions (\<open>internal/broker/sessions.go\<close>): a table keyed by the SHA-256 of
  the bearer token, with an absolute and an idle lifetime. The clock is an argument, as the
  store's \<open>now\<close> field is; \<open>tokenKey\<close> is the argument \<open>key\<close>, since no property needs more of
  the digest than that the tokens at hand have different keys. \<open>randomToken\<close> is the argument
  \<open>tok\<close> of \<open>Create\<close>: a fresh token, or the error of the random source.

  Time is in nanoseconds. \<open>Time.Add\<close> is addition; \<open>Time.Sub\<close> saturates (\<^const>\<open>time_sub\<close>).
\<close>

record session =
  absExpiresAt :: int
  csrf :: string
  sess_identity :: identity
  lastActiveAt :: int

record 'k session_store =
  absoluteTTL :: int
  idleTTL :: int
  sessions :: "('k, session) gomap"

record session_response =
  resp_CSRF :: string
  resp_ExpiresAt :: int
  resp_Identity :: identity

definition NewSessionStore :: "int \<Rightarrow> int \<Rightarrow> 'k session_store" where
  "NewSessionStore idle absolute = \<lparr>absoluteTTL = absolute, idleTTL = idle, sessions = []\<rparr>"

text \<open>The expiry test that \<open>Create\<close> and \<open>Get\<close> share: \<open>!now.Before(abs) || now.Sub(last) >= idle\<close>.\<close>

definition expired :: "int \<Rightarrow> int \<Rightarrow> session \<Rightarrow> bool" where
  "expired idle now e \<longleftrightarrow> \<not> now < absExpiresAt e \<or> idle \<le> time_sub now (lastActiveAt e)"

definition sessionResponse :: "session \<Rightarrow> int \<Rightarrow> int \<Rightarrow> session_response" where
  "sessionResponse e now idle =
     (let expiresAt = now + idle;
          expiresAt = (if absExpiresAt e < expiresAt then absExpiresAt e else expiresAt)
      in \<lparr>resp_CSRF = csrf e, resp_ExpiresAt = expiresAt, resp_Identity = sess_identity e\<rparr>)"

text \<open>\<open>Create\<close> draws the token and the CSRF value, drops every expired session, stores the new one.\<close>

definition Create :: "(string \<Rightarrow> 'k) \<Rightarrow> 'k session_store \<Rightarrow> int \<Rightarrow> string result \<Rightarrow>
    string result \<Rightarrow> identity \<Rightarrow> 'k session_store \<times> (string \<times> session_response) result" where
  "Create key s now tok csrftok ident = (case tok of Inl e \<Rightarrow> (s, Inl e) | Inr token \<Rightarrow>
     (case csrftok of Inl e \<Rightarrow> (s, Inl e) | Inr c \<Rightarrow>
       (let entry = \<lparr>absExpiresAt = now + absoluteTTL s, csrf = c, sess_identity = ident,
                     lastActiveAt = now\<rparr>;
            live = filter (\<lambda>(k, e). \<not> expired (idleTTL s) now e) (sessions s)
        in (s\<lparr>sessions := AList.update (key token) entry live\<rparr>,
            Inr (token, sessionResponse entry now (idleTTL s))))))"

definition Delete :: "(string \<Rightarrow> 'k) \<Rightarrow> 'k session_store \<Rightarrow> string \<Rightarrow> 'k session_store" where
  "Delete key s token = s\<lparr>sessions := AList.delete (key token) (sessions s)\<rparr>"

text \<open>\<open>Get\<close> refuses and deletes an expired session, and otherwise extends its idle lifetime.\<close>

definition Get :: "(string \<Rightarrow> 'k) \<Rightarrow> 'k session_store \<Rightarrow> int \<Rightarrow> string \<Rightarrow>
    'k session_store \<times> session_response option" where
  "Get key s now token = (if token = [] then (s, None) else
     (case map_of (sessions s) (key token) of
        None \<Rightarrow> (s\<lparr>sessions := AList.delete (key token) (sessions s)\<rparr>, None)
      | Some e \<Rightarrow> if expired (idleTTL s) now e
          then (s\<lparr>sessions := AList.delete (key token) (sessions s)\<rparr>, None)
          else (let e' = e\<lparr>lastActiveAt := now\<rparr>
                in (s\<lparr>sessions := AList.update (key token) e' (sessions s)\<rparr>,
                    Some (sessionResponse e' now (idleTTL s))))))"

section \<open>Operations as events\<close>

text \<open>A history of the store: each operation with the time its clock read.\<close>

datatype 'k session_op =
    OpCreate int "string result" "string result" identity
  | OpGet int string
  | OpDelete string

fun apply_op :: "(string \<Rightarrow> 'k) \<Rightarrow> 'k session_store \<Rightarrow> 'k session_op \<Rightarrow> 'k session_store" where
  "apply_op key s (OpCreate now tok c ident) = fst (Create key s now tok c ident)"
| "apply_op key s (OpGet now token) = fst (Get key s now token)"
| "apply_op key s (OpDelete token) = Delete key s token"

definition run_ops :: "(string \<Rightarrow> 'k) \<Rightarrow> 'k session_store \<Rightarrow> 'k session_op list \<Rightarrow> 'k session_store" where
  "run_ops key s ops = foldl (apply_op key) s ops"

text \<open>An operation that creates a session under a given key.\<close>

fun creates :: "(string \<Rightarrow> 'k) \<Rightarrow> 'k \<Rightarrow> 'k session_op \<Rightarrow> bool" where
  "creates key k (OpCreate now (Inr token) (Inr c) ident) = (key token = k)"
| "creates key k _ = False"

fun gets :: "(string \<Rightarrow> 'k) \<Rightarrow> 'k \<Rightarrow> 'k session_op \<Rightarrow> bool" where
  "gets key k (OpGet now token) = (key token = k)"
| "gets key k _ = False"

section \<open>Lemmas\<close>

definition wf_sessions :: "'k session_store \<Rightarrow> bool" where
  "wf_sessions s \<longleftrightarrow> wf_map (sessions s)"

lemma ttl_apply_op [simp]:
  "idleTTL (apply_op key s op) = idleTTL s" "absoluteTTL (apply_op key s op) = absoluteTTL s"
  by (cases op; simp add: Create_def Get_def Delete_def Let_def split: sum.splits option.splits)+

lemma ttl_run_ops [simp]:
  "idleTTL (run_ops key s ops) = idleTTL s" "absoluteTTL (run_ops key s ops) = absoluteTTL s"
  unfolding run_ops_def by (induction ops arbitrary: s) simp_all

lemma wf_apply_op: "wf_sessions s \<Longrightarrow> wf_sessions (apply_op key s op)"
  by (cases op) (auto simp: wf_sessions_def Create_def Get_def Delete_def Let_def
      split: sum.splits option.splits)

lemma wf_run_ops: "wf_sessions s \<Longrightarrow> wf_sessions (run_ops key s ops)"
  unfolding run_ops_def by (induction ops arbitrary: s) (simp_all add: wf_apply_op)

text \<open>What \<open>Get\<close> answers, read off the table.\<close>

lemma Get_answer:
  "snd (Get key s now token) = (if token = [] then None else
     (case map_of (sessions s) (key token) of None \<Rightarrow> None
      | Some e \<Rightarrow> if expired (idleTTL s) now e then None
          else Some (sessionResponse (e\<lparr>lastActiveAt := now\<rparr>) now (idleTTL s))))"
  by (simp add: Get_def Let_def split: option.splits)

text \<open>
  One operation on the entry of one key: unless it creates that session anew, the entry keeps
  its absolute expiry and identity, and its activity time moves only by a \<open>Get\<close> of that key.
\<close>

lemma apply_op_entry:
  assumes "wf_sessions s" and "\<not> creates key k op" and "map_of (sessions (apply_op key s op)) k = Some e'"
  obtains e where "map_of (sessions s) k = Some e" and "absExpiresAt e' = absExpiresAt e"
    and "sess_identity e' = sess_identity e" and "csrf e' = csrf e"
    and "\<not> gets key k op \<Longrightarrow> lastActiveAt e' = lastActiveAt e"
proof -
  have "\<exists>e. map_of (sessions s) k = Some e \<and> absExpiresAt e' = absExpiresAt e \<and>
      sess_identity e' = sess_identity e \<and> csrf e' = csrf e \<and>
      (\<not> gets key k op \<longrightarrow> lastActiveAt e' = lastActiveAt e)"
  proof (cases op)
    case (OpCreate now tok c ident)
    then show ?thesis using assms
      by (auto simp: Create_def Let_def wf_sessions_def map_of_filter_wf
          split: sum.splits option.splits if_splits)
  next
    case (OpGet now token)
    then show ?thesis using assms
      by (auto simp: Get_def Let_def split: option.splits if_splits)
  next
    case (OpDelete token)
    then show ?thesis using assms by (auto simp: Delete_def split: if_splits)
  qed
  then show ?thesis using that by blast
qed

lemma run_ops_Cons: "run_ops key s (op # ops) = run_ops key (apply_op key s op) ops"
  by (simp add: run_ops_def)

lemma run_ops_entry:
  assumes "wf_sessions s" and "list_all (\<lambda>op. \<not> creates key k op) ops"
    and "map_of (sessions (run_ops key s ops)) k = Some e'"
  shows "\<exists>e. map_of (sessions s) k = Some e \<and> absExpiresAt e' = absExpiresAt e \<and>
      sess_identity e' = sess_identity e \<and>
      (list_all (\<lambda>op. \<not> gets key k op) ops \<longrightarrow> lastActiveAt e' = lastActiveAt e)"
  using assms
proof (induction ops arbitrary: s)
  case Nil
  then show ?case by (simp add: run_ops_def)
next
  case (Cons op ops)
  have rest: "list_all (\<lambda>op. \<not> creates key k op) ops" and wf: "wf_sessions (apply_op key s op)"
    and last: "map_of (sessions (run_ops key (apply_op key s op) ops)) k = Some e'"
    using Cons.prems wf_apply_op[OF Cons.prems(1)] by (simp_all add: run_ops_Cons)
  from Cons.IH[OF wf rest last] obtain e1 where e1: "map_of (sessions (apply_op key s op)) k = Some e1"
    "absExpiresAt e' = absExpiresAt e1" "sess_identity e' = sess_identity e1"
    "list_all (\<lambda>op. \<not> gets key k op) ops \<longrightarrow> lastActiveAt e' = lastActiveAt e1"
    by blast
  moreover have "\<not> creates key k op" using Cons.prems(2) by simp
  ultimately show ?case using apply_op_entry[OF Cons.prems(1) _ e1(1)] by (metis list.pred_inject(2))
qed

lemma run_ops_absent:
  assumes "wf_sessions s" and "list_all (\<lambda>op. \<not> creates key k op) ops"
    and "map_of (sessions s) k = None"
  shows "map_of (sessions (run_ops key s ops)) k = None"
  using run_ops_entry[OF assms(1,2)] assms(3) by (metis not_Some_eq)

lemma Create_entry:
  assumes "Create key s now tok c ident = (s', Inr (token, resp))"
  shows "map_of (sessions s') (key token) = Some \<lparr>absExpiresAt = now + absoluteTTL s,
           csrf = resp_CSRF resp, sess_identity = ident, lastActiveAt = now\<rparr>"
    and "idleTTL s' = idleTTL s" and "wf_sessions s \<Longrightarrow> wf_sessions s'" and "tok = Inr token"
  using assms by (auto simp: Create_def Let_def sessionResponse_def wf_sessions_def split: sum.splits)


text \<open>The clock an operation reads; \<open>Delete\<close> reads none.\<close>

fun op_within :: "int \<Rightarrow> int \<Rightarrow> 'k session_op \<Rightarrow> bool" where
  "op_within lo hi (OpCreate now tok c ident) = (lo \<le> now \<and> now \<le> hi)"
| "op_within lo hi (OpGet now token) = (lo \<le> now \<and> now \<le> hi)"
| "op_within lo hi (OpDelete token) = True"

fun deletes :: "(string \<Rightarrow> 'k) \<Rightarrow> 'k \<Rightarrow> 'k session_op \<Rightarrow> bool" where
  "deletes key k (OpDelete token) = (key token = k)"
| "deletes key k _ = False"

text \<open>A session whose window covers the clock readings survives what other clients do.\<close>

lemma not_expired:
  assumes "t0 \<le> lastActiveAt e" and "now < absExpiresAt e" and "now - t0 < idle"
    and "0 < idle"
  shows "\<not> expired idle now e"
proof -
  have "now - lastActiveAt e < idle" using assms(1,3) by linarith
  then have "time_sub now (lastActiveAt e) < idle"
    using assms(4) by (auto simp: time_sub_def int64_min_def)
  then show ?thesis using assms(2) by (simp add: expired_def)
qed

lemma apply_op_survives:
  assumes wf: "wf_sessions s" and ent: "map_of (sessions s) k = Some e"
    and win: "op_within t0 t1 op" and nd: "\<not> deletes key k op" and nc: "\<not> creates key k op"
    and act: "t0 \<le> lastActiveAt e" and abs: "t1 < absExpiresAt e"
    and idle: "t1 - t0 < idleTTL s" "0 < idleTTL s"
  shows "\<exists>e'. map_of (sessions (apply_op key s op)) k = Some e' \<and> t0 \<le> lastActiveAt e' \<and>
     absExpiresAt e' = absExpiresAt e \<and> sess_identity e' = sess_identity e"
proof -
  have live: "\<not> expired (idleTTL s) now e" if "now \<le> t1" for now
    using not_expired[of t0 e now "idleTTL s"] act abs idle that by linarith
  show ?thesis
  proof (cases op)
    case (OpCreate now tok c ident)
    then show ?thesis using assms live[of now]
      by (auto simp: Create_def Let_def wf_sessions_def map_of_filter_wf split: sum.splits)
  next
    case (OpGet now token)
    then show ?thesis using assms live[of now]
      by (auto simp: Get_def Let_def split: option.splits)
  next
    case (OpDelete token)
    then show ?thesis using assms by (auto simp: Delete_def)
  qed
qed

lemma run_ops_survives:
  assumes "wf_sessions s" and "map_of (sessions s) k = Some e"
    and "list_all (\<lambda>op. op_within t0 t1 op \<and> \<not> deletes key k op \<and> \<not> creates key k op) ops"
    and "t0 \<le> lastActiveAt e" and "t1 < absExpiresAt e"
    and "t1 - t0 < idleTTL s" and "0 < idleTTL s"
  shows "\<exists>e'. map_of (sessions (run_ops key s ops)) k = Some e' \<and> t0 \<le> lastActiveAt e' \<and>
     absExpiresAt e' = absExpiresAt e \<and> sess_identity e' = sess_identity e"
  using assms
proof (induction ops arbitrary: s e)
  case Nil
  then show ?case by (simp add: run_ops_def)
next
  case (Cons op ops)
  from Cons.prems apply_op_survives[OF Cons.prems(1,2), of t0 t1 op key]
  obtain e1 where "map_of (sessions (apply_op key s op)) k = Some e1" "t0 \<le> lastActiveAt e1"
    "absExpiresAt e1 = absExpiresAt e" "sess_identity e1 = sess_identity e" by auto
  with Cons.prems Cons.IH[OF wf_apply_op[OF Cons.prems(1)], of key op e1]
  show ?case by (simp add: run_ops_Cons)
qed

section \<open>Properties\<close>

definition demo_identity :: identity where
  "demo_identity = \<lparr>Admin = True, Groups = [''wheel''], UID = 1000, Username = ''ann''\<rparr>"

definition demo_store :: "string session_store" where
  "demo_store = fst (Create id (NewSessionStore 60 600) 1000 (Inr ''tok'') (Inr ''csrf'') demo_identity)"

lemma demo_Create:
  "Create id (NewSessionStore 60 600) 1000 (Inr ''tok'') (Inr ''csrf'') demo_identity =
     (demo_store, Inr (''tok'', \<lparr>resp_CSRF = ''csrf'', resp_ExpiresAt = 1060,
        resp_Identity = demo_identity\<rparr>))"
  by (simp add: demo_store_def Create_def Let_def sessionResponse_def NewSessionStore_def)

text \<open>
  C8. A session never outlives its absolute lifetime and never changes hands: whatever operations
  run after \<open>Create\<close> (short of creating the same key again), a successful \<open>Get\<close> happens before
  creation time plus \<open>absoluteTTL\<close>, announces an expiry within it, and answers with the identity
  that logged in.
\<close>

theorem session_lifetime:
  assumes "wf_sessions s" and "Create key s t0 tok c ident = (s1, Inr (token, resp))"
    and "list_all (\<lambda>op. \<not> creates key (key token) op) ops"
    and "Get key (run_ops key s1 ops) now token = (s2, Some r)"
  shows "now < t0 + absoluteTTL s \<and> resp_ExpiresAt r \<le> t0 + absoluteTTL s \<and>
    resp_Identity r = ident"
proof -
  note ent = Create_entry[OF assms(2)]
  have "snd (Get key (run_ops key s1 ops) now token) = Some r" using assms(4) by simp
  then obtain e where e: "map_of (sessions (run_ops key s1 ops)) (key token) = Some e"
    "\<not> expired (idleTTL s1) now e"
    "r = sessionResponse (e\<lparr>lastActiveAt := now\<rparr>) now (idleTTL s1)"
    by (auto simp: Get_answer split: if_splits option.splits)
  from run_ops_entry[OF ent(3)[OF assms(1)] assms(3) e(1)] ent(1)
  have "absExpiresAt e = t0 + absoluteTTL s" "sess_identity e = ident" by auto
  with e show ?thesis by (auto simp: expired_def sessionResponse_def Let_def)
qed

theorem session_lifetime_witness:
  "snd (Get id (run_ops id demo_store [OpGet 1030 ''tok'']) 1080 ''tok'') \<noteq> None \<and>
   (\<exists>s2 r. Get id (run_ops id demo_store [OpGet 1030 ''tok'']) 1080 ''tok'' = (s2, Some r) \<and>
      (1080::int) < 1000 + 600 \<and> resp_ExpiresAt r \<le> 1600 \<and> resp_Identity r = demo_identity)"
proof -
  have some: "snd (Get id (run_ops id demo_store [OpGet 1030 ''tok'']) 1080 ''tok'') \<noteq> None"
    by (simp add: Get_answer run_ops_def demo_store_def Create_def Get_def Let_def
        NewSessionStore_def expired_def time_sub_def int64_min_def int64_max_def)
  then obtain s2 r where g: "Get id (run_ops id demo_store [OpGet 1030 ''tok'']) 1080 ''tok'' = (s2, Some r)"
    by (metis option.collapse prod.collapse)
  have "wf_sessions (NewSessionStore 60 600 :: string session_store)"
    by (simp add: wf_sessions_def NewSessionStore_def)
  from session_lifetime[OF this demo_Create _ g] g some show ?thesis
    by (simp add: NewSessionStore_def)
qed

text \<open>
  A session stays usable inside its window: whatever other operations run between \<open>t0\<close> and
  \<open>t1\<close> (other logins with their clean-up of expired sessions, other lookups, other logouts), a
  \<open>Get\<close> at \<open>t1\<close>, within the idle and the absolute lifetime, answers with the identity.
\<close>

theorem session_live:
  assumes "wf_sessions s" and "Create key s t0 tok c ident = (s1, Inr (token, resp))"
    and "list_all (\<lambda>op. op_within t0 t1 op \<and> \<not> deletes key (key token) op \<and>
           \<not> creates key (key token) op) ops"
    and "token \<noteq> []" and "t1 < t0 + absoluteTTL s" and "t1 - t0 < idleTTL s" and "t0 \<le> t1"
  shows "\<exists>s2 r. Get key (run_ops key s1 ops) t1 token = (s2, Some r) \<and> resp_Identity r = ident"
proof -
  note ent = Create_entry[OF assms(2)]
  have pos: "0 < idleTTL s" using assms(6,7) by linarith
  from run_ops_survives[OF ent(3)[OF assms(1)] ent(1) assms(3)] assms pos ent(2)
  obtain e where e: "map_of (sessions (run_ops key s1 ops)) (key token) = Some e"
    "t0 \<le> lastActiveAt e" "absExpiresAt e = t0 + absoluteTTL s" "sess_identity e = ident" by auto
  have "\<not> expired (idleTTL s) t1 e" using not_expired[OF e(2)] e(3) assms(5,6) pos by simp
  then show ?thesis using e assms(4) ent(2)
    by (simp add: Get_def Let_def sessionResponse_def)
qed

theorem session_live_witness:
  "\<exists>s2 r. Get id (run_ops id demo_store [OpCreate 1010 (Inr ''other'') (Inr ''x'') demo_identity,
       OpDelete ''other'', OpGet 1020 ''nobody'']) 1050 ''tok'' = (s2, Some r) \<and>
     resp_Identity r = demo_identity"
  by (rule session_live[OF _ demo_Create]) (simp_all add: wf_sessions_def NewSessionStore_def)

text \<open>
  Logout revokes: once \<open>Delete\<close> ran for a token, no later \<open>Get\<close> of it succeeds at any time,
  until a login stores that key again.
\<close>

theorem logout_revokes:
  assumes "wf_sessions s" and "list_all (\<lambda>op. \<not> creates key (key token) op) ops"
  shows "snd (Get key (run_ops key (Delete key s token) ops) now token) = None"
proof -
  have wf: "wf_sessions (Delete key s token)"
    using assms(1) by (simp add: wf_sessions_def Delete_def)
  have "map_of (sessions (Delete key s token)) (key token) = None" by (simp add: Delete_def)
  from run_ops_absent[OF wf assms(2) this] show ?thesis by (simp add: Get_answer)
qed

theorem logout_revokes_witness:
  "snd (Get id demo_store 1001 ''tok'') \<noteq> None \<and>
   snd (Get id (run_ops id (Delete id demo_store ''tok'') [OpGet 1002 ''tok'']) 1003 ''tok'') = None"
proof
  show "snd (Get id demo_store 1001 ''tok'') \<noteq> None"
    by (simp add: Get_answer demo_store_def Create_def Let_def
        NewSessionStore_def expired_def time_sub_def int64_min_def int64_max_def)
  show "snd (Get id (run_ops id (Delete id demo_store ''tok'') [OpGet 1002 ''tok'']) 1003 ''tok'') = None"
    by (rule logout_revokes) (simp_all add: wf_sessions_def demo_store_def Create_def Let_def
        NewSessionStore_def)
qed

end
