(* ===== verification/Login_Limiter.thy ===== *)
theory Login_Limiter
  imports Prelude
begin

text \<open>
  The login back-off of the broker (\<open>attemptLimiter\<close> in \<open>internal/broker/server.go\<close>): a bounded
  table of failed logins per user and remote address, with exponential delays. The clock reading
  is the argument \<open>now\<close>.
\<close>

record attempt =
  failures :: int
  next_try :: int
  updated :: int

type_synonym attempts = "(string, attempt) gomap"

definition maxTrackedAttempts :: nat where
  "maxTrackedAttempts = 4096"

text \<open>The zero \<open>attempt\<close> a missing key reads as.\<close>

definition zero_attempt :: attempt where
  "zero_attempt = \<lparr>failures = 0, next_try = zero_time, updated = zero_time\<rparr>"

definition attempt_of :: "attempts \<Rightarrow> string \<Rightarrow> attempt" where
  "attempt_of m key = (case map_of m key of None \<Rightarrow> zero_attempt | Some e \<Rightarrow> e)"

definition delay :: "attempts \<Rightarrow> int \<Rightarrow> string \<Rightarrow> int" where
  "delay m now key = max 0 (time_sub (next_try (attempt_of m key)) now)"

text \<open>
  The eviction loop of \<open>failure\<close> over the entries of the table: stale entries are deleted, and
  of the others the loop remembers one with the earliest update, the empty key standing for
  "none yet".
\<close>

fun evict_scan :: "int \<Rightarrow> (string \<times> attempt) list \<Rightarrow> attempts \<Rightarrow> string \<Rightarrow> int \<Rightarrow>
    attempts \<times> string" where
  "evict_scan cutoff [] m oldestKey oldest = (m, oldestKey)"
| "evict_scan cutoff ((k, e) # es) m oldestKey oldest =
     (if updated e < cutoff then evict_scan cutoff es (AList.delete k m) oldestKey oldest
      else if oldestKey = [] \<or> updated e < oldest then evict_scan cutoff es m k (updated e)
      else evict_scan cutoff es m oldestKey oldest)"

definition make_room :: "attempts \<Rightarrow> int \<Rightarrow> attempts" where
  "make_room m now =
     (let (m', oldestKey) = evict_scan (now - 10 * minute) m m [] zero_time
      in if maxTrackedAttempts \<le> length m' then AList.delete oldestKey m' else m')"

definition failure :: "attempts \<Rightarrow> int \<Rightarrow> string \<Rightarrow> attempts" where
  "failure m now key =
     (let entry = attempt_of m key;
          m' = (if map_of m key = None \<and> maxTrackedAttempts \<le> length m then make_room m now else m);
          n = failures entry + 1;
          wait = second * 2 ^ nat (min (n - 1) 5)
      in AList.update key (entry\<lparr>failures := n, next_try := now + wait, updated := now\<rparr>) m')"

definition success :: "attempts \<Rightarrow> string \<Rightarrow> attempts" where
  "success m key = AList.delete key m"

section \<open>The eviction loop\<close>

text \<open>
  The loop's result in closed form: the stale keys are gone, and the remembered key has the
  earliest update time of those left.
\<close>

lemma evict_scan_map:
  "fst (evict_scan cutoff es m ok o') =
     foldl (\<lambda>m (k, e). if updated e < cutoff then AList.delete k m else m) m es"
  by (induction cutoff es m ok o' rule: evict_scan.induct) auto

lemma evict_fold_filter:
  "wf_map es \<Longrightarrow> foldl (\<lambda>m (k, e). if updated e < cutoff then AList.delete k m else m) m es =
     filter (\<lambda>(k, e). \<not> (\<exists>e'. map_of es k = Some e' \<and> updated e' < cutoff)) m"
proof (induction es arbitrary: m)
  case (Cons x es)
  obtain k e where x: "x = (k, e)" by (cases x)
  have k: "map_of es k = None" using Cons.prems x by (simp add: map_of_eq_None_iff)
  show ?case using Cons x k
    by (auto simp: AList.delete_eq filter_filter intro!: filter_cong split: if_splits)
qed simp

lemma evict_scan_fst:
  assumes "wf_map m"
  shows "fst (evict_scan cutoff m m ok o') = filter (\<lambda>(k, e). \<not> updated e < cutoff) m"
proof -
  have "filter (\<lambda>(k, e). \<not> (\<exists>e'. map_of m k = Some e' \<and> updated e' < cutoff)) m =
      filter (\<lambda>(k, e). \<not> updated e < cutoff) m"
    using assms by (auto intro!: filter_cong simp: map_of_is_SomeI)
  then show ?thesis by (simp add: evict_scan_map evict_fold_filter[OF assms])
qed

text \<open>The remembered key does not depend on the table and skips the stale entries.\<close>

lemma evict_scan_snd:
  "snd (evict_scan cutoff es m ok o') =
     snd (evict_scan cutoff (filter (\<lambda>(k, e). \<not> updated e < cutoff) es) m' ok o')"
  by (induction cutoff es m ok o' arbitrary: m' rule: evict_scan.induct) auto

lemma evict_scan_oldest_from:
  assumes "\<And>k e. (k, e) \<in> set es \<Longrightarrow> k \<noteq> [] \<and> \<not> updated e < cutoff" and "ok \<noteq> []"
  shows "\<exists>u. (snd (evict_scan cutoff es m ok o'), u) \<in>
             insert (ok, o') ((\<lambda>(k, e). (k, updated e)) ` set es) \<and>
           u \<le> o' \<and> (\<forall>k e. (k, e) \<in> set es \<longrightarrow> u \<le> updated e)"
  using assms
proof (induction es arbitrary: ok o')
  case (Cons x es)
  obtain k e where x: "x = (k, e)" by (cases x)
  have k: "k \<noteq> []" "\<not> updated e < cutoff" using Cons.prems(1)[of k e] x by simp_all
  show ?case
  proof (cases "updated e < o'")
    case True
    from Cons.IH[of k "updated e"] k(1) Cons.prems(1)
    obtain u where "(snd (evict_scan cutoff es m k (updated e)), u) \<in>
        insert (k, updated e) ((\<lambda>(k, e). (k, updated e)) ` set es)" "u \<le> updated e"
      "\<forall>k e. (k, e) \<in> set es \<longrightarrow> u \<le> updated e" by (meson list.set_intros(2))
    with True k x show ?thesis by (intro exI[of _ u]) auto
  next
    case False
    from Cons.IH[of ok o'] Cons.prems
    obtain u where "(snd (evict_scan cutoff es m ok o'), u) \<in>
        insert (ok, o') ((\<lambda>(k, e). (k, updated e)) ` set es)" "u \<le> o'"
      "\<forall>k e. (k, e) \<in> set es \<longrightarrow> u \<le> updated e" by (meson list.set_intros(2))
    with False k Cons.prems(2) x show ?thesis by (intro exI[of _ u]) auto
  qed
qed simp

lemma evict_scan_oldest:
  assumes "\<And>k e. (k, e) \<in> set m \<Longrightarrow> k \<noteq> []" and "wf_map m"
    and "fst (evict_scan cutoff m m [] o') \<noteq> []"
  shows "\<exists>e. (snd (evict_scan cutoff m m [] o'), e) \<in> set (fst (evict_scan cutoff m m [] o')) \<and>
    (\<forall>k e'. (k, e') \<in> set (fst (evict_scan cutoff m m [] o')) \<longrightarrow> updated e \<le> updated e')"
proof -
  define live where "live = filter (\<lambda>(k, e). \<not> updated e < cutoff) m"
  have fstl: "fst (evict_scan cutoff m m [] o') = live"
    using evict_scan_fst[OF assms(2)] by (simp add: live_def)
  then obtain k e es where es: "live = (k, e) # es" using assms(3) by (cases live) auto
  have ok: "k' \<noteq> [] \<and> \<not> updated e' < cutoff" if "(k', e') \<in> set live" for k' e'
    using that assms(1) by (auto simp: live_def)
  have "snd (evict_scan cutoff m m [] o') = snd (evict_scan cutoff live [] [] o')"
    using evict_scan_snd[of cutoff m m] by (simp add: live_def)
  also have "\<dots> = snd (evict_scan cutoff es [] k (updated e))"
    using ok[of k e] es by simp
  finally have "\<exists>u. (snd (evict_scan cutoff m m [] o'), u) \<in>
      insert (k, updated e) ((\<lambda>(k, e). (k, updated e)) ` set es) \<and>
      u \<le> updated e \<and> (\<forall>k e. (k, e) \<in> set es \<longrightarrow> u \<le> updated e)"
    using evict_scan_oldest_from[of es cutoff k "[]" "updated e"] ok es by auto
  then show ?thesis by (auto simp: fstl es)
qed

section \<open>The table is bounded\<close>

definition wf_attempts :: "attempts \<Rightarrow> bool" where
  "wf_attempts m \<longleftrightarrow> wf_map m \<and> length m \<le> maxTrackedAttempts \<and> list_all (\<lambda>(k, e). k \<noteq> []) m"

lemma make_room_result:
  assumes "wf_map m" and "list_all (\<lambda>(k, e). k \<noteq> []) m" and "length m \<le> maxTrackedAttempts"
  shows "wf_map (make_room m now)" and "length (make_room m now) < maxTrackedAttempts"
    and "map_of (make_room m now) k = None \<Longrightarrow> map_of m k = Some e \<Longrightarrow>
      updated e < now - 10 * minute \<or>
      (\<forall>k' e'. map_of m k' = Some e' \<longrightarrow> \<not> updated e' < now - 10 * minute \<longrightarrow> updated e \<le> updated e')"
    and "map_of m k = None \<Longrightarrow> map_of (make_room m now) k = None"
proof -
  let ?c = "now - 10 * minute"
  define m' ok where "m' = fst (evict_scan ?c m m [] zero_time)"
    and "ok = snd (evict_scan ?c m m [] zero_time)"
  have mr: "make_room m now = (if maxTrackedAttempts \<le> length m' then AList.delete ok m' else m')"
    by (simp add: make_room_def m'_def ok_def case_prod_beta)
  have m': "m' = filter (\<lambda>(k, e). \<not> updated e < ?c) m"
    using evict_scan_fst[OF assms(1)] by (simp add: m'_def)
  have ne: "\<And>k e. (k, e) \<in> set m \<Longrightarrow> k \<noteq> []" using assms(2) by (auto simp: list_all_iff)
  show "wf_map (make_room m now)" using assms(1) by (simp add: mr m')
  have le: "length m' \<le> maxTrackedAttempts"
    using assms(3) by (simp add: m' le_trans[OF length_filter_le])
  have wf': "wf_map m'" using assms(1) by (simp add: m')
  have lk: "map_of m' k = (case map_of m k of None \<Rightarrow> None
      | Some e \<Rightarrow> if updated e < ?c then None else Some e)" for k
    using map_of_filter_wf[OF assms(1), of "\<lambda>(k, e). \<not> updated e < ?c" k]
    by (auto simp: m' split: option.splits)
  have old: "\<exists>e. map_of m' ok = Some e \<and> (\<forall>k' e'. map_of m' k' = Some e' \<longrightarrow> updated e \<le> updated e')"
    if "m' \<noteq> []"
  proof -
    have "fst (evict_scan ?c m m [] zero_time) \<noteq> []" using that by (simp add: m'_def)
    then have "\<exists>e. (ok, e) \<in> set m' \<and> (\<forall>k e'. (k, e') \<in> set m' \<longrightarrow> updated e \<le> updated e')"
      unfolding m'_def ok_def by (intro evict_scan_oldest assms(1) ne)
    then obtain e where e: "(ok, e) \<in> set m'"
      "\<forall>k e'. (k, e') \<in> set m' \<longrightarrow> updated e \<le> updated e'" by blast
    show ?thesis using map_of_is_SomeI[OF wf' e(1)] e(2) map_of_SomeD by fast
  qed
  show "length (make_room m now) < maxTrackedAttempts"
  proof (cases "maxTrackedAttempts \<le> length m'")
    case True
    then have "m' \<noteq> []" by (auto simp: maxTrackedAttempts_def)
    with old have "map_of m' ok \<noteq> None" by auto
    from length_delete_present[OF this] le True show ?thesis by (simp add: mr)
  qed (simp add: mr)
  show "updated e < ?c \<or> (\<forall>k' e'. map_of m k' = Some e' \<longrightarrow> \<not> updated e' < ?c \<longrightarrow> updated e \<le> updated e')"
    if gone: "map_of (make_room m now) k = None" and ent: "map_of m k = Some e" for k e
  proof (cases "updated e < ?c")
    case False
    then have in': "map_of m' k = Some e" using lk ent by simp
    then have "k = ok" "m' \<noteq> []" using gone by (auto simp: mr split: if_splits)
    with old in' show ?thesis using lk by (auto split: option.splits if_splits)
  qed simp
  show "map_of m k = None \<Longrightarrow> map_of (make_room m now) k = None" for k
    by (simp add: mr lk)
qed

lemma wf_failure: "wf_attempts m \<Longrightarrow> key \<noteq> [] \<Longrightarrow> wf_attempts (failure m now key)"
proof -
  assume wf: "wf_attempts m" and key: "key \<noteq> []"
  note room = make_room_result(1,2)[of m now]
  let ?m = "if map_of m key = None \<and> maxTrackedAttempts \<le> length m then make_room m now else m"
  have "wf_map ?m" using wf room by (auto simp: wf_attempts_def)
  moreover have "length (AList.update key v ?m) \<le> maxTrackedAttempts" for v
    using wf room length_update_le[of key v ?m]
    by (cases "map_of m key") (auto simp: wf_attempts_def length_update_old length_update_new)
  moreover have "list_all (\<lambda>(k, e). k \<noteq> []) (AList.update key v ?m)" for v
  proof -
    have "fst ` set ?m \<subseteq> fst ` set m"
      using wf make_room_result(4)[of m _ now]
      by (auto simp: wf_attempts_def) (metis image_eqI map_of_eq_None_iff fst_conv)
    moreover have "[] \<notin> fst ` set m" using wf by (auto simp: wf_attempts_def list_all_iff)
    ultimately have "[] \<notin> fst ` set (AList.update key v ?m)" 
      using key unfolding dom_update by blast
    then show ?thesis by (force simp: list_all_iff)
  qed
  ultimately show ?thesis by (simp add: failure_def wf_attempts_def Let_def)
qed


lemma wf_success: "wf_attempts m \<Longrightarrow> wf_attempts (success m key)"
  using le_trans[OF length_delete_le[of key m]]
  by (auto simp: wf_attempts_def success_def list_all_iff) (auto simp: AList.delete_eq)

section \<open>The delays\<close>

definition fails :: "attempts \<Rightarrow> string \<Rightarrow> int list \<Rightarrow> attempts" where
  "fails m key ts = foldl (\<lambda>m t. failure m t key) m ts"

lemma attempt_of_failure:
  "attempt_of (failure m now key) key = (attempt_of m key)\<lparr>failures := failures (attempt_of m key) + 1,
     next_try := now + second * 2 ^ nat (min (failures (attempt_of m key)) 5), updated := now\<rparr>"
  by (simp add: failure_def Let_def attempt_of_def[of "AList.update _ _ _"])

lemma failures_fails:
  "failures (attempt_of (fails m key ts) key) = failures (attempt_of m key) + int (length ts)"
  by (induction ts arbitrary: m) (simp_all add: fails_def attempt_of_failure)

lemma next_fails:
  assumes "map_of m key = None" and "ts \<noteq> []"
  shows "next_try (attempt_of (fails m key ts) key) =
     last ts + second * 2 ^ min (length ts - 1) 5"
proof -
  obtain us t where ts: "ts = us @ [t]" using assms(2) by (metis append_butlast_last_id)
  have z: "failures (attempt_of m key) = 0"
    using assms(1) by (simp add: attempt_of_def zero_attempt_def)
  have "nat (min (int (length us)) 5) = min (length us) 5" by (simp add: min_def)
  then show ?thesis
    using failures_fails[of m key us] z by (simp add: ts fails_def attempt_of_failure)
qed

section \<open>Properties\<close>

text \<open>
  The table of failed logins never outgrows its bound, and making room is fair: \<open>failure\<close>
  keeps at most 4096 entries and removes another key only when that entry is older than ten
  minutes or no fresher than every entry that is not.
\<close>

theorem failure_bounded_lru:
  assumes "wf_attempts m" and "key \<noteq> []"
  shows "wf_attempts (failure m now key) \<and>
    (\<forall>k e. k \<noteq> key \<longrightarrow> map_of m k = Some e \<longrightarrow> map_of (failure m now key) k = None \<longrightarrow>
       updated e < now - 10 * minute \<or>
       (\<forall>k' e'. map_of m k' = Some e' \<longrightarrow> \<not> updated e' < now - 10 * minute \<longrightarrow>
          updated e \<le> updated e'))"
proof (intro conjI allI impI)
  show "wf_attempts (failure m now key)" using assms by (rule wf_failure)
  fix k e
  assume "k \<noteq> key" and ent: "map_of m k = Some e" and "map_of (failure m now key) k = None"
  then have gone: "map_of (make_room m now) k = None"
    by (auto simp: failure_def Let_def split: if_splits)
  show "updated e < now - 10 * minute \<or>
       (\<forall>k' e'. map_of m k' = Some e' \<longrightarrow> \<not> updated e' < now - 10 * minute \<longrightarrow>
          updated e \<le> updated e')"
    using make_room_result(3)[OF _ _ _ gone ent] assms(1) by (simp add: wf_attempts_def)
qed

theorem failure_bounded_lru_witness:
  "wf_attempts (failure (failure [] 5 ''ann'') 6 ''bob'') \<and>
   length (failure (failure [] 5 ''ann'') 6 ''bob'') = 2"
proof -
  have "wf_attempts []" by (simp add: wf_attempts_def)
  then have "wf_attempts (failure [] 5 ''ann'')"
    using failure_bounded_lru[of "[]" "''ann''" 5] by blast
  then have "wf_attempts (failure (failure [] 5 ''ann'') 6 ''bob'')"
    using failure_bounded_lru[of "failure [] 5 ''ann''" "''bob''" 6] by blast
  moreover have "length (failure (failure [] 5 ''ann'') 6 ''bob'') = 2"
    by (simp add: failure_def Let_def maxTrackedAttempts_def)
  ultimately show ?thesis ..
qed

text \<open>
  Exponential back-off: after \<open>n\<close> failures of one key in a row, a login at time \<open>t\<close> not
  before the last failure must wait \<open>2^min(n-1,5)\<close> seconds counted from that failure (between 1
  and 32 seconds), whatever the rest of the table holds; a success removes the wait.
\<close>

theorem login_backoff:
  assumes "map_of m key = None" and "ts \<noteq> []" and "last ts \<le> t" and "zero_time \<le> t"
  shows "delay (fails m key ts) t key =
      max 0 (second * 2 ^ min (length ts - 1) 5 - (t - last ts)) \<and>
    second \<le> second * 2 ^ min (length ts - 1) 5 \<and> second * 2 ^ min (length ts - 1) 5 \<le> 32 * second \<and>
    delay (success (fails m key ts) key) t key = 0"
proof (intro conjI)
  let ?w = "second * 2 ^ min (length ts - 1) 5"
  have pow: "(1::int) \<le> 2 ^ min (length ts - 1) 5" "(2::int) ^ min (length ts - 1) 5 \<le> 2 ^ 5"
    by (simp, rule power_increasing) auto
  then show lo: "second \<le> ?w" and hi: "?w \<le> 32 * second" by (simp_all add: second_def)
  show "delay (fails m key ts) t key = max 0 (?w - (t - last ts))"
    using next_fails[OF assms(1,2)] assms(3) hi
    by (auto simp: delay_def time_sub_def int64_min_def int64_max_def second_def max_def min_def)
  show "delay (success (fails m key ts) key) t key = 0"
    using assms(4) by (simp add: delay_def success_def attempt_of_def zero_attempt_def time_sub_def
        int64_min_def)
qed

theorem login_backoff_witness:
  "delay (fails [] ''ann'' [10, 20, 30]) 1000000030 ''ann'' = 3000000000 \<and>
   delay (success (fails [] ''ann'' [10, 20, 30]) ''ann'') 1000000030 ''ann'' = 0"
  using login_backoff[of "[]" "''ann''" "[10, 20, 30]" 1000000030]
  by (simp add: zero_time_def second_def)

end
