(* ===== verification/Server.thy ===== *)
theory Server
  imports Sessions Login_Limiter Streams
begin

text \<open>
  The broker's HTTP handlers (\<open>internal/broker/server.go\<close>). A request holds the header values and
  what the JSON decoder made of the body; a response holds the status, the payload, the extra
  headers and the time slept. The clock, the tokens drawn for a new session and the decoders of
  the standard library are arguments. \<open>strings.ToLower\<close> outside ASCII is the argument \<open>lower\<close>: it
  only names the limiter's key. Access to the registries from concurrent requests goes through
  \<open>Execution\<close> and \<open>Sessions\<close>; a login is split where it holds a login slot, so that logins
  interleave.
\<close>

section \<open>Requests and responses\<close>

record action_request =
  areq_Confirmation :: string
  areq_Parameters :: params

record login_request =
  lreq_Password :: string
  lreq_Remote :: string
  lreq_Username :: string

record 'r request =
  req_Authorization :: string
  req_Login :: "login_request result"
  req_Action :: "action_request result"
  req_Query :: "params result"
  req_Metadata :: string
  req_ContentLength :: int
  req_Body :: 'r

datatype payload =
    NoBody
  | ErrorText string
  | ErrorOf error
  | StatusOk
  | SessionBody session_response
  | LoginBody session_response string
  | QueryBody string
  | StreamBody string string string int

record response =
  resp_status :: int
  resp_payload :: payload
  resp_headers :: "(string \<times> string) list"
  resp_slept :: int

definition writeJSON :: "int \<Rightarrow> payload \<Rightarrow> response" where
  "writeJSON status p = \<lparr>resp_status = status, resp_payload = p,
     resp_headers = [(''Content-Type'', ''application/json'')], resp_slept = 0\<rparr>"

text \<open>\<open>decodeJSON\<close> reads at most 8 KiB and refuses unknown fields; a failure is a 400.\<close>

definition decodeJSON :: "'a result \<Rightarrow> response + 'a" where
  "decodeJSON body = (case body of
     Inl _ \<Rightarrow> Inl (writeJSON 400 (ErrorText ''invalid request''))
   | Inr x \<Rightarrow> Inr x)"

definition bearerToken :: "'r request \<Rightarrow> string" where
  "bearerToken r = (if prefix ''Bearer '' (req_Authorization r)
     then drop (length ''Bearer '') (req_Authorization r) else [])"

section \<open>The server\<close>

record ('k, 'w) server =
  sv_sessions :: "'k session_store"
  sv_attempts :: attempts
  sv_slots :: nat
  sv_exec :: "'w exec_state"

record ('w, 'q, 'r) wiring =
  w_authenticate :: "string \<Rightarrow> string \<Rightarrow> error option"
  w_resolve :: "string \<Rightarrow> identity result"
  w_actions :: "'w action_registry"
  w_queries :: "('w, 'q) query_registry"
  w_streamActions :: "('w, 'r) stream_action_registry"
  w_streamQueries :: "'w stream_query_registry"
  w_marshal :: "'q \<Rightarrow> string result"
  w_base64 :: "string \<Rightarrow> string result"
  w_metadata :: "string \<Rightarrow> params result"

definition login_slots :: nat where "login_slots = 8"

definition NewServer :: "'k session_store \<Rightarrow> 'w \<Rightarrow> ('k, 'w) server" where
  "NewServer store w = \<lparr>sv_sessions = store, sv_attempts = [], sv_slots = 0,
     sv_exec = \<lparr>ex_locks = newResourceLocks, ex_world = w, ex_trace = [], ex_wg = 0, ex_tasks = [],
       ex_stopped = False, ex_stream_locks = newResourceLocks\<rparr>\<rparr>"

definition authorize :: "(string \<Rightarrow> 'k) \<Rightarrow> ('w, 'q, 'r) wiring \<Rightarrow> int \<Rightarrow> ('k, 'w) server \<Rightarrow> 'r request \<Rightarrow>
    ('k, 'w) server \<times> (response + session_response \<times> identity)" where
  "authorize key wi now s r = (case Get key (sv_sessions s) now (bearerToken r) of
     (store, None) \<Rightarrow> (s\<lparr>sv_sessions := store\<rparr>, Inl (writeJSON 401 (ErrorText ''authentication required'')))
   | (store, Some session) \<Rightarrow> (case w_resolve wi (Username (resp_Identity session)) of
       Inl _ \<Rightarrow> (s\<lparr>sv_sessions := store\<rparr>,
                 Inl (writeJSON 403 (ErrorText ''account is no longer authorized'')))
     | Inr ident \<Rightarrow> (s\<lparr>sv_sessions := store\<rparr>, Inr (session, ident))))"

definition currentSession :: "(string \<Rightarrow> 'k) \<Rightarrow> int \<Rightarrow> ('k, 'w) server \<Rightarrow> 'r request \<Rightarrow>
    ('k, 'w) server \<times> response" where
  "currentSession key now s r = (case Get key (sv_sessions s) now (bearerToken r) of
     (store, None) \<Rightarrow> (s\<lparr>sv_sessions := store\<rparr>, writeJSON 401 (ErrorText ''authentication required''))
   | (store, Some session) \<Rightarrow> (s\<lparr>sv_sessions := store\<rparr>, writeJSON 200 (SessionBody session)))"

definition logout :: "(string \<Rightarrow> 'k) \<Rightarrow> ('k, 'w) server \<Rightarrow> 'r request \<Rightarrow> ('k, 'w) server \<times> response" where
  "logout key s r = (s\<lparr>sv_sessions := Delete key (sv_sessions s) (bearerToken r)\<rparr>, writeJSON 200 StatusOk)"

section \<open>Actions and queries\<close>

definition streamError :: "error \<Rightarrow> response" where
  "streamError e = (case PublicErrorDetails e of (status, message, _) \<Rightarrow>
     if errors_is e ErrStreamTooLarge
     then writeJSON 413 (ErrorText ''stream exceeds registered limit'')
     else writeJSON status (ErrorText message))"

text \<open>A handler that blocks or panics sends no response.\<close>

definition execute :: "(string \<Rightarrow> 'k) \<Rightarrow> ('w, 'q, 'r) wiring \<Rightarrow> 'w interference \<Rightarrow> int \<Rightarrow> ('k, 'w) server \<Rightarrow>
    string \<Rightarrow> 'r request \<Rightarrow> ('k, 'w) server \<times> response outcome" where
  "execute key wi others now s i r = (case authorize key wi now s r of
     (s1, Inl resp) \<Rightarrow> (s1, Returns resp)
   | (s1, Inr (session, ident)) \<Rightarrow> (case decodeJSON (req_Action r) of
       Inl resp \<Rightarrow> (s1, Returns resp)
     | Inr request \<Rightarrow> (case action_Execute (w_actions wi) others ident i (areq_Parameters request)
           (areq_Confirmation request) (sv_exec s1) of
         (ex, Returns (Some e)) \<Rightarrow> (s1\<lparr>sv_exec := ex\<rparr>, Returns (writeJSON 403 (ErrorOf e)))
       | (ex, Returns None) \<Rightarrow> (s1\<lparr>sv_exec := ex\<rparr>, Returns (writeJSON 200 StatusOk))
       | (ex, Panics) \<Rightarrow> (s1\<lparr>sv_exec := ex\<rparr>, Panics)
       | (ex, Blocks) \<Rightarrow> (s1\<lparr>sv_exec := ex\<rparr>, Blocks))))"

definition query :: "(string \<Rightarrow> 'k) \<Rightarrow> ('w, 'q, 'r) wiring \<Rightarrow> int \<Rightarrow> ('k, 'w) server \<Rightarrow> string \<Rightarrow>
    'r request \<Rightarrow> ('k, 'w) server \<times> response" where
  "query key wi now s i r = (case authorize key wi now s r of
     (s1, Inl resp) \<Rightarrow> (s1, resp)
   | (s1, Inr (session, ident)) \<Rightarrow> (case decodeJSON (req_Query r) of
       Inl resp \<Rightarrow> (s1, resp)
     | Inr ps \<Rightarrow> (case query_Execute (w_queries wi) ident i ps (ex_world (sv_exec s1)) of
         (w, res) \<Rightarrow> (let s2 = s1\<lparr>sv_exec := (sv_exec s1)\<lparr>ex_world := w\<rparr>\<rparr> in
           case res of
             Inl e \<Rightarrow> (s2, if as_public e \<noteq> None
               then (case PublicErrorDetails e of (status, message, _) \<Rightarrow> writeJSON status (ErrorText message))
               else writeJSON 403 (ErrorText ''query denied''))
           | Inr x \<Rightarrow> (case w_marshal wi x of
               Inl _ \<Rightarrow> (s2, writeJSON 500 (ErrorText ''query result unavailable''))
             | Inr encoded \<Rightarrow> (s2, writeJSON 200 (QueryBody encoded)))))))"

definition streamActionLimit :: "('w, 'q, 'r) wiring \<Rightarrow> string \<Rightarrow> int option" where
  "streamActionLimit wi i = map_option sa_Limit (map_of (sar_actions (w_streamActions wi)) i)"

definition streamActionRequiresAdmin :: "('w, 'q, 'r) wiring \<Rightarrow> string \<Rightarrow> bool" where
  "streamActionRequiresAdmin wi i = (case map_of (sar_actions (w_streamActions wi)) i of
     None \<Rightarrow> False | Some d \<Rightarrow> sa_Admin d)"

definition streamQueryRequiresAdmin :: "('w, 'q, 'r) wiring \<Rightarrow> string \<Rightarrow> bool" where
  "streamQueryRequiresAdmin wi i = (case map_of (sqr_queries (w_streamQueries wi)) i of
     None \<Rightarrow> False | Some d \<Rightarrow> sq_Admin d)"

definition decode_metadata :: "('w, 'q, 'r) wiring \<Rightarrow> string \<Rightarrow> params option" where
  "decode_metadata wi metadata =
     (if length metadata = 0 \<or> 8192 < length metadata then None
      else (case w_base64 wi metadata of
          Inl _ \<Rightarrow> None
        | Inr decoded \<Rightarrow> if 8192 < length decoded then None
            else (case w_metadata wi decoded of Inl _ \<Rightarrow> None | Inr ps \<Rightarrow> Some ps)))"

text \<open>The registry of stream actions works on its own lock table.\<close>

definition on_stream_locks :: "('w exec_state \<Rightarrow> 'w exec_state \<times> 'a) \<Rightarrow> 'w exec_state \<Rightarrow> 'w exec_state \<times> 'a" where
  "on_stream_locks f ex = (case f (ex\<lparr>ex_locks := ex_stream_locks ex\<rparr>) of
     (ex', x) \<Rightarrow> (ex'\<lparr>ex_locks := ex_locks ex, ex_stream_locks := ex_locks ex'\<rparr>, x))"

definition streamAction :: "(string \<Rightarrow> 'k) \<Rightarrow> ('w, 'q, 'r) wiring \<Rightarrow> 'w interference \<Rightarrow> int \<Rightarrow>
    ('k, 'w) server \<Rightarrow> string \<Rightarrow> 'r request \<Rightarrow> ('k, 'w) server \<times> response outcome" where
  "streamAction key wi others now s i r = (case authorize key wi now s r of
     (s1, Inl resp) \<Rightarrow> (s1, Returns resp)
   | (s1, Inr (session, ident)) \<Rightarrow>
       if streamActionRequiresAdmin wi i \<and> \<not> Admin ident
       then (s1, Returns (writeJSON 403 (ErrorText ''not authorized'')))
       else (case decode_metadata wi (req_Metadata r) of
         None \<Rightarrow> (s1, Returns (writeJSON 400 (ErrorText ''invalid request'')))
       | Some ps \<Rightarrow>
           if (case streamActionLimit wi i of None \<Rightarrow> False | Some limit \<Rightarrow> limit < req_ContentLength r)
           then (s1, Returns (writeJSON 413 (ErrorText ''stream exceeds registered limit'')))
           else (case on_stream_locks (stream_action_Execute (w_streamActions wi) others ident i ps (req_Body r)) (sv_exec s1) of
             (ex, Returns (Some e)) \<Rightarrow> (s1\<lparr>sv_exec := ex\<rparr>, Returns (streamError e))
           | (ex, Returns None) \<Rightarrow> (s1\<lparr>sv_exec := ex\<rparr>, Returns
               \<lparr>resp_status = 200, resp_payload = NoBody, resp_headers = [], resp_slept = 0\<rparr>)
           | (ex, Panics) \<Rightarrow> (s1\<lparr>sv_exec := ex\<rparr>, Panics)
           | (ex, Blocks) \<Rightarrow> (s1\<lparr>sv_exec := ex\<rparr>, Blocks))))"

definition streamQuery :: "(string \<Rightarrow> 'k) \<Rightarrow> ('w, 'q, 'r) wiring \<Rightarrow> int \<Rightarrow> ('k, 'w) server \<Rightarrow> string \<Rightarrow>
    'r request \<Rightarrow> ('k, 'w) server \<times> response outcome" where
  "streamQuery key wi now s i r = (case authorize key wi now s r of
     (s1, Inl resp) \<Rightarrow> (s1, Returns resp)
   | (s1, Inr (session, ident)) \<Rightarrow> (case decodeJSON (req_Query r) of
       Inl resp \<Rightarrow> (s1, Returns resp)
     | Inr ps \<Rightarrow>
         if streamQueryRequiresAdmin wi i \<and> \<not> Admin ident
         then (s1, Returns (writeJSON 403 (ErrorText ''not authorized'')))
         else (case stream_query_Execute (w_streamQueries wi) ident i ps (ex_world (sv_exec s1)) of
           (w, _, out) \<Rightarrow> (let s2 = s1\<lparr>sv_exec := (sv_exec s1)\<lparr>ex_world := w\<rparr>\<rparr> in
             case out of
               Returns (Inl e) \<Rightarrow> (s2, Returns (streamError e))
             | Returns (Inr res) \<Rightarrow> (s2, Returns \<lparr>resp_status = 200,
                 resp_payload = StreamBody (case sr_Body res of None \<Rightarrow> [] | Some b \<Rightarrow> take (nat (sr_Size res)) b)
                   (sr_Filename res) (sr_MediaType res) (sr_Size res),
                 resp_headers = [], resp_slept = 0\<rparr>)
             | Panics \<Rightarrow> (s2, Panics)
             | Blocks \<Rightarrow> (s2, Blocks)))))"

section \<open>Login\<close>

definition login_key :: "(string \<Rightarrow> string) \<Rightarrow> string \<Rightarrow> string \<Rightarrow> string" where
  "login_key lower username remote = to_lower lower username @ [CHR 0x00] @ remote"

definition loginFailed :: "int \<Rightarrow> ('k, 'w) server \<Rightarrow> string \<Rightarrow> ('k, 'w) server \<times> response" where
  "loginFailed now s key = (s\<lparr>sv_attempts := failure (sv_attempts s) now key\<rparr>,
     (writeJSON 401 (ErrorText ''invalid username or password''))\<lparr>resp_slept := 250000000\<rparr>)"

record pending_login =
  pl_username :: string
  pl_password :: string
  pl_key :: string

text \<open>Up to the login slot: either a response, or a pending login that holds a slot.\<close>

definition login_begin :: "(string \<Rightarrow> string) \<Rightarrow> int \<Rightarrow> ('k, 'w) server \<Rightarrow> 'r request \<Rightarrow>
    ('k, 'w) server \<times> (response + pending_login)" where
  "login_begin lower now s r = (case decodeJSON (req_Login r) of
     Inl resp \<Rightarrow> (s, Inl resp)
   | Inr request \<Rightarrow>
       (let username = trim_space (lreq_Username request);
            key = login_key lower username (lreq_Remote request) in
        if username = [] \<or> lreq_Password request = [] \<or> 128 < length username \<or>
           1024 < length (lreq_Password request)
        then (case loginFailed now s key of (s', resp) \<Rightarrow> (s', Inl resp))
        else if 0 < delay (sv_attempts s) now key
        then (s, Inl ((writeJSON 429 (ErrorText ''authentication temporarily unavailable''))
          \<lparr>resp_headers := [(''Content-Type'', ''application/json''), (''Retry-After'',
            format_uint (nat (max 1 (delay (sv_attempts s) now key div second))))]\<rparr>))
        else if login_slots \<le> sv_slots s
        then (s, Inl (writeJSON 429 (ErrorText ''authentication temporarily unavailable'')))
        else (s\<lparr>sv_slots := Suc (sv_slots s)\<rparr>,
              Inr \<lparr>pl_username = username, pl_password = lreq_Password request, pl_key = key\<rparr>)))"

text \<open>The rest of \<open>login\<close>; the deferred receive gives the slot back.\<close>

definition login_finish :: "(string \<Rightarrow> 'k) \<Rightarrow> ('w, 'q, 'r) wiring \<Rightarrow> int \<Rightarrow> string result \<Rightarrow> string result \<Rightarrow>
    ('k, 'w) server \<Rightarrow> pending_login \<Rightarrow> ('k, 'w) server \<times> response" where
  "login_finish key wi now tok csrftok s p =
     (let (s', resp) =
        (if w_authenticate wi (pl_username p) (pl_password p) \<noteq> None then loginFailed now s (pl_key p)
         else (case w_resolve wi (pl_username p) of
             Inl _ \<Rightarrow> loginFailed now s (pl_key p)
           | Inr ident \<Rightarrow> (case Create key (sv_sessions s) now tok csrftok ident of
               (store, Inl _) \<Rightarrow> (s\<lparr>sv_sessions := store\<rparr>,
                  writeJSON 500 (ErrorText ''could not create session''))
             | (store, Inr (token, session)) \<Rightarrow>
                 (s\<lparr>sv_sessions := store, sv_attempts := success (sv_attempts s) (pl_key p)\<rparr>,
                  writeJSON 200 (LoginBody session token)))))
      in (s'\<lparr>sv_slots := sv_slots s' - 1\<rparr>, resp))"

definition login :: "(string \<Rightarrow> 'k) \<Rightarrow> (string \<Rightarrow> string) \<Rightarrow> ('w, 'q, 'r) wiring \<Rightarrow> int \<Rightarrow> int \<Rightarrow>
    string result \<Rightarrow> string result \<Rightarrow> ('k, 'w) server \<Rightarrow> 'r request \<Rightarrow> ('k, 'w) server \<times> response" where
  "login key lower wi now now' tok csrftok s r = (case login_begin lower now s r of
     (s1, Inl resp) \<Rightarrow> (s1, resp)
   | (s1, Inr p) \<Rightarrow> login_finish key wi now' tok csrftok s1 p)"

section \<open>What the handlers do\<close>

lemma authorize_ok:
  assumes "authorize key wi now s r = (s', Inr (session, ident))"
  shows "snd (Get key (sv_sessions s) now (bearerToken r)) = Some session"
    and "w_resolve wi (Username (resp_Identity session)) = Inr ident" and "sv_exec s' = sv_exec s"
    and "sv_attempts s' = sv_attempts s" "sv_slots s' = sv_slots s"
  using assms by (auto simp: authorize_def split: prod.splits option.splits sum.splits)

lemma authorize_refused:
  assumes "authorize key wi now s r = (s', Inl resp)"
  shows "sv_exec s' = sv_exec s" and "resp_status resp \<in> {401, 403}"
    and "resp_status resp = 401 \<longleftrightarrow> snd (Get key (sv_sessions s) now (bearerToken r)) = None"
  using assms by (auto simp: authorize_def writeJSON_def split: prod.splits option.splits sum.splits)

text \<open>The requests that reach a handler of a registry, and what each does to the execution state.\<close>

datatype operation = ActionOp string | QueryOp string | StreamActionOp string | StreamQueryOp string

definition serve :: "(string \<Rightarrow> 'k) \<Rightarrow> ('w, 'q, 'r) wiring \<Rightarrow> 'w interference \<Rightarrow> int \<Rightarrow> ('k, 'w) server \<Rightarrow>
    operation \<Rightarrow> 'r request \<Rightarrow> ('k, 'w) server \<times> response outcome" where
  "serve key wi others now s op r = (case op of
     ActionOp i \<Rightarrow> execute key wi others now s i r
   | QueryOp i \<Rightarrow> (case query key wi now s i r of (s', resp) \<Rightarrow> (s', Returns resp))
   | StreamActionOp i \<Rightarrow> streamAction key wi others now s i r
   | StreamQueryOp i \<Rightarrow> streamQuery key wi now s i r)"

definition operation_effect :: "('w, 'q, 'r) wiring \<Rightarrow> 'w interference \<Rightarrow> operation \<Rightarrow> 'r request \<Rightarrow>
    identity \<Rightarrow> 'w exec_state \<Rightarrow> 'w exec_state \<Rightarrow> bool" where
  "operation_effect wi others op r ident ex ex' \<longleftrightarrow> (case op of
     ActionOp i \<Rightarrow> (\<exists>request. req_Action r = Inr request \<and>
       ex' = fst (action_Execute (w_actions wi) others ident i (areq_Parameters request)
         (areq_Confirmation request) ex))
   | QueryOp i \<Rightarrow> (\<exists>ps. req_Query r = Inr ps \<and>
       ex' = ex\<lparr>ex_world := fst (query_Execute (w_queries wi) ident i ps (ex_world ex))\<rparr>)
   | StreamActionOp i \<Rightarrow> (\<exists>ps. decode_metadata wi (req_Metadata r) = Some ps \<and>
       ex' = fst (on_stream_locks (stream_action_Execute (w_streamActions wi) others ident i ps (req_Body r)) ex))
   | StreamQueryOp i \<Rightarrow> (\<exists>ps. req_Query r = Inr ps \<and>
       ex' = ex\<lparr>ex_world := fst (stream_query_Execute (w_streamQueries wi) ident i ps (ex_world ex))\<rparr>))"

lemma decodeJSON_Inr [simp]: "decodeJSON body = Inr x \<longleftrightarrow> body = Inr x"
  by (simp add: decodeJSON_def split: sum.splits)

lemma serve_refused:
  assumes "authorize key wi now s r = (s1, Inl resp)"
  shows "serve key wi others now s op r = (s1, Returns resp)"
  using assms by (cases op) (simp_all add: serve_def execute_def query_def streamAction_def streamQuery_def)

lemma serve_authorized:
  assumes a: "authorize key wi now s r = (s1, Inr (session, ident))"
    and run: "serve key wi others now s op r = (s', out)"
  shows "sv_exec s' = sv_exec s \<or> operation_effect wi others op r ident (sv_exec s) (sv_exec s')"
proof (cases op)
  case (ActionOp i)
  obtain res where d: "decodeJSON (req_Action r) = res" by blast
  show ?thesis
  proof (cases res)
    case (Inl resp)
    then show ?thesis using run a d authorize_ok(3)[OF a] ActionOp by (simp add: serve_def execute_def)
  next
    case (Inr request)
    obtain ex o' where x: "action_Execute (w_actions wi) others ident i (areq_Parameters request)
        (areq_Confirmation request) (sv_exec s1) = (ex, o')" by (metis prod.exhaust)
    have "sv_exec s' = ex"
      using run a d Inr x ActionOp
      by (auto simp: serve_def execute_def split: outcome.splits option.splits)
    then show ?thesis
      using ActionOp d Inr x authorize_ok(3)[OF a] by (simp add: operation_effect_def)
  qed
next
  case (QueryOp i)
  show ?thesis
  proof (cases "req_Query r")
    case (Inl e)
    then show ?thesis using run a authorize_ok(3)[OF a] QueryOp
      by (auto simp: serve_def query_def decodeJSON_def)
  next
    case (Inr ps)
    obtain w res where x: "query_Execute (w_queries wi) ident i ps (ex_world (sv_exec s1)) = (w, res)"
      by (metis prod.exhaust)
    have "sv_exec s' = (sv_exec s1)\<lparr>ex_world := w\<rparr>"
      using run a Inr x QueryOp
      by (auto simp: serve_def query_def decodeJSON_def Let_def split: sum.splits if_splits)
    then show ?thesis
      using QueryOp Inr x authorize_ok(3)[OF a] by (simp add: operation_effect_def)
  qed
next
  case (StreamActionOp i)
  have same: "sv_exec s1 = sv_exec s" by (rule authorize_ok(3)[OF a])
  show ?thesis
  proof (cases "streamActionRequiresAdmin wi i \<and> \<not> Admin ident \<or> decode_metadata wi (req_Metadata r) = None \<or>
      (case streamActionLimit wi i of None \<Rightarrow> False | Some limit \<Rightarrow> limit < req_ContentLength r)")
    case True
    then have "s' = s1" using run a StreamActionOp
      by (auto simp: serve_def streamAction_def split: option.splits if_splits)
    then show ?thesis using same by simp
  next
    case False
    then obtain ps where ps: "decode_metadata wi (req_Metadata r) = Some ps" by auto
    obtain ex o' where x: "on_stream_locks (stream_action_Execute (w_streamActions wi) others ident i ps (req_Body r))
        (sv_exec s1) = (ex, o')" by (metis prod.exhaust)
    have "sv_exec s' = ex"
      using run a False ps x StreamActionOp
      by (auto simp: serve_def streamAction_def split: outcome.splits option.splits if_splits)
    then show ?thesis using StreamActionOp ps x same by (simp add: operation_effect_def)
  qed
next
  case (StreamQueryOp i)
  have same: "sv_exec s1 = sv_exec s" by (rule authorize_ok(3)[OF a])
  show ?thesis
  proof (cases "streamQueryRequiresAdmin wi i \<and> \<not> Admin ident \<or> \<not> is_ok (req_Query r)")
    case True
    then have "s' = s1" using run a StreamQueryOp
      by (cases "req_Query r") (auto simp: serve_def streamQuery_def decodeJSON_def split: if_splits)
    then show ?thesis using same by simp
  next
    case False
    then obtain ps where ps: "req_Query r = Inr ps" by blast
    obtain w n o' where x: "stream_query_Execute (w_streamQueries wi) ident i ps (ex_world (sv_exec s1)) = (w, n, o')"
      by (metis prod.exhaust)
    have "sv_exec s' = (sv_exec s1)\<lparr>ex_world := w\<rparr>"
      using run a False ps x StreamQueryOp
      by (auto simp: serve_def streamQuery_def decodeJSON_def Let_def split: outcome.splits sum.splits if_splits)
    then show ?thesis using StreamQueryOp ps x same by (simp add: operation_effect_def)
  qed
qed

lemma Create_error: "Create key st now tok c ident = (st', Inl e) \<Longrightarrow> st' = st"
  by (auto simp: Create_def Let_def split: sum.splits)

lemma Create_ok:
  "Create key st now tok c ident = (st', Inr (token, session)) \<Longrightarrow>
     tok = Inr token \<and> is_ok c \<and> resp_Identity session = ident"
  by (auto simp: Create_def sessionResponse_def Let_def split: sum.splits)

lemma loginFailed_simps [simp]:
  "resp_status (snd (loginFailed now s k)) = 401" "sv_sessions (fst (loginFailed now s k)) = sv_sessions s"
  "sv_slots (fst (loginFailed now s k)) = sv_slots s" "sv_exec (fst (loginFailed now s k)) = sv_exec s"
  "sv_attempts (fst (loginFailed now s k)) = failure (sv_attempts s) now k"
  by (simp_all add: loginFailed_def writeJSON_def)

definition credentials_ok :: "login_request \<Rightarrow> bool" where
  "credentials_ok request \<longleftrightarrow> trim_space (lreq_Username request) \<noteq> [] \<and> lreq_Password request \<noteq> [] \<and>
     length (trim_space (lreq_Username request)) \<le> 128 \<and> length (lreq_Password request) \<le> 1024"

abbreviation request_key :: "(string \<Rightarrow> string) \<Rightarrow> login_request \<Rightarrow> string" where
  "request_key lower request \<equiv> login_key lower (trim_space (lreq_Username request)) (lreq_Remote request)"

lemma login_begin_pending:
  "login_begin lower now s r = (s1, Inr p) \<longleftrightarrow> (\<exists>request. req_Login r = Inr request \<and>
     credentials_ok request \<and> delay (sv_attempts s) now (request_key lower request) \<le> 0 \<and>
     sv_slots s < login_slots \<and> s1 = s\<lparr>sv_slots := Suc (sv_slots s)\<rparr> \<and>
     p = \<lparr>pl_username = trim_space (lreq_Username request), pl_password = lreq_Password request,
          pl_key = request_key lower request\<rparr>)"
proof (cases "req_Login r")
  case (Inl e)
  then show ?thesis by (simp add: login_begin_def decodeJSON_def)
next
  case (Inr request)
  show ?thesis
    by (auto simp: login_begin_def decodeJSON_def Inr Let_def credentials_ok_def not_le not_less
        split: prod.splits)
qed

lemma login_begin_response:
  assumes "login_begin lower now s r = (s1, Inl resp)"
  shows "resp_status resp \<in> {400, 401, 429}" and "sv_sessions s1 = sv_sessions s"
    and "sv_slots s1 = sv_slots s" and "sv_exec s1 = sv_exec s"
proof -
  have "(resp_status resp \<in> {400, 401, 429}) \<and> sv_sessions s1 = sv_sessions s \<and>
      sv_slots s1 = sv_slots s \<and> sv_exec s1 = sv_exec s"
    using assms by (auto simp: login_begin_def decodeJSON_def writeJSON_def loginFailed_def Let_def
        split: sum.splits if_splits prod.splits)
  then show "resp_status resp \<in> {400, 401, 429}" "sv_sessions s1 = sv_sessions s"
    "sv_slots s1 = sv_slots s" "sv_exec s1 = sv_exec s" by simp_all
qed

lemma login_finish_cases:
  assumes "login_finish key wi now tok c s p = (s', resp)"
  shows "sv_slots s' = sv_slots s - 1 \<and> sv_exec s' = sv_exec s \<and>
    ((\<exists>ident token session. w_authenticate wi (pl_username p) (pl_password p) = None \<and>
        w_resolve wi (pl_username p) = Inr ident \<and>
        Create key (sv_sessions s) now tok c ident = (sv_sessions s', Inr (token, session)) \<and>
        resp_payload resp = LoginBody session token \<and> resp_status resp = 200 \<and>
        sv_attempts s' = success (sv_attempts s) (pl_key p)) \<or>
     (\<exists>ident e. w_authenticate wi (pl_username p) (pl_password p) = None \<and>
        w_resolve wi (pl_username p) = Inr ident \<and>
        snd (Create key (sv_sessions s) now tok c ident) = Inl e \<and>
        resp_status resp = 500 \<and> sv_sessions s' = sv_sessions s \<and> sv_attempts s' = sv_attempts s) \<or>
     ((w_authenticate wi (pl_username p) (pl_password p) \<noteq> None \<or> \<not> is_ok (w_resolve wi (pl_username p))) \<and>
        resp_status resp = 401 \<and> sv_sessions s' = sv_sessions s \<and>
        sv_attempts s' = failure (sv_attempts s) now (pl_key p)))"
proof (cases "w_authenticate wi (pl_username p) (pl_password p) = None \<and> is_ok (w_resolve wi (pl_username p))")
  case False
  then have "login_finish key wi now tok c s p =
      ((fst (loginFailed now s (pl_key p)))\<lparr>sv_slots := sv_slots (fst (loginFailed now s (pl_key p))) - 1\<rparr>,
       snd (loginFailed now s (pl_key p)))"
    by (cases "w_resolve wi (pl_username p)") (auto simp: login_finish_def loginFailed_def)
  then show ?thesis using assms False by (auto simp: loginFailed_def writeJSON_def)
next
  case True
  then obtain ident where ident: "w_resolve wi (pl_username p) = Inr ident" by blast
  obtain store res where cr: "Create key (sv_sessions s) now tok c ident = (store, res)"
    by (cases "Create key (sv_sessions s) now tok c ident")
  show ?thesis
  proof (cases res)
    case (Inl e)
    then show ?thesis using assms True ident cr Create_error[OF cr[unfolded Inl]]
      by (auto simp: login_finish_def writeJSON_def)
  next
    case (Inr ts)
    obtain token session where "ts = (token, session)" by (cases ts)
    then show ?thesis using assms True ident cr Inr by (auto simp: login_finish_def writeJSON_def)
  qed
qed

section \<open>Interleaved logins\<close>

inductive login_runs :: "(string \<Rightarrow> 'k) \<Rightarrow> (string \<Rightarrow> string) \<Rightarrow> ('w, 'q, 'r) wiring \<Rightarrow>
    ('k, 'w) server \<Rightarrow> ('k, 'w) server \<Rightarrow> pending_login list \<Rightarrow> bool"
  for key lower wi s0 where
  start: "login_runs key lower wi s0 s0 []"
| begun: "login_runs key lower wi s0 s ps \<Longrightarrow> login_begin lower now s (r :: 'r request) = (s1, Inr p) \<Longrightarrow>
     login_runs key lower wi s0 s1 (p # ps)"
| refused: "login_runs key lower wi s0 s ps \<Longrightarrow> login_begin lower now s (r :: 'r request) = (s1, Inl resp) \<Longrightarrow>
     login_runs key lower wi s0 s1 ps"
| finished: "login_runs key lower wi s0 s (ps @ p # qs) \<Longrightarrow>
     login_finish key wi now tok c s p = (s1, resp) \<Longrightarrow> login_runs key lower wi s0 s1 (ps @ qs)"

lemma login_runs_slots:
  assumes "login_runs key lower wi s0 s ps" and "sv_slots s0 = 0"
  shows "sv_slots s = length ps \<and> sv_slots s \<le> login_slots"
  using assms
proof (induction rule: login_runs.induct)
  case (begun s ps now r s1 p)
  then show ?case using login_begin_pending[of lower now s r s1 p] by auto
next
  case (refused s ps now r s1 resp)
  then show ?case using login_begin_response(3)[OF refused.hyps(2)] by simp
next
  case (finished s ps p qs now tok c s1 resp)
  then show ?case using login_finish_cases[OF finished.hyps(2)] by auto
qed simp

section \<open>Properties\<close>

text \<open>
  C2. Nothing runs without a live session and a fresh identity. If a request of any of the four
  kinds changes the execution state, its bearer token belongs to a live session, the account of
  that session was resolved again for this request, and the change is the registry's execution
  under exactly that identity. A dead session is answered 401 and an account that no longer
  resolves 403, with nothing run.
\<close>

theorem operations_need_session:
  assumes "serve key wi others now s op r = (s', out)"
  shows "(sv_exec s' \<noteq> sv_exec s \<longrightarrow> (\<exists>session ident.
      snd (Get key (sv_sessions s) now (bearerToken r)) = Some session \<and>
      w_resolve wi (Username (resp_Identity session)) = Inr ident \<and>
      operation_effect wi others op r ident (sv_exec s) (sv_exec s'))) \<and>
    (snd (Get key (sv_sessions s) now (bearerToken r)) = None \<longrightarrow>
      sv_exec s' = sv_exec s \<and> (\<exists>resp. out = Returns resp \<and> resp_status resp = 401)) \<and>
    (\<forall>session e. snd (Get key (sv_sessions s) now (bearerToken r)) = Some session \<longrightarrow>
      w_resolve wi (Username (resp_Identity session)) = Inl e \<longrightarrow>
      sv_exec s' = sv_exec s \<and> (\<exists>resp. out = Returns resp \<and> resp_status resp = 403))"
proof -
  obtain s1 a where a: "authorize key wi now s r = (s1, a)" by (cases "authorize key wi now s r")
  show ?thesis
  proof (cases a)
    case (Inl resp)
    note ref = authorize_refused[OF a[unfolded Inl]]
    have "s' = s1" "out = Returns resp" using serve_refused[OF a[unfolded Inl]] assms by simp_all
    then show ?thesis using ref by auto
  next
    case (Inr x)
    obtain session ident where x: "x = (session, ident)" by (cases x)
    note ok = authorize_ok[OF a[unfolded Inr x]]
    show ?thesis using ok serve_authorized[OF a[unfolded Inr x] assms] by auto
  qed
qed

definition demo_wiring :: "(unit, unit, string) wiring" where
  "demo_wiring = \<lparr>w_authenticate = (\<lambda>u p. if p = ''secret'' then None else Some (Errorf ''denied'' [])),
     w_resolve = (\<lambda>u. if u = ''ann'' then Inr demo_admin else Inl (Errorf ''unknown'' [])),
     w_actions = demo_registry, w_queries = NewQueryRegistry,
     w_streamActions = NewStreamActionRegistry [], w_streamQueries = NewStreamQueryRegistry,
     w_marshal = (\<lambda>_. Inr ''null''), w_base64 = Inr, w_metadata = (\<lambda>_. Inr [])\<rparr>"

definition demo_request :: "string request" where
  "demo_request = \<lparr>req_Authorization = ''Bearer t'',
     req_Login = Inr \<lparr>lreq_Password = ''secret'', lreq_Remote = ''::1'', lreq_Username = ''ann''\<rparr>,
     req_Action = Inr \<lparr>areq_Confirmation = ''ssh'', areq_Parameters = [(''name'', ''ssh'')]\<rparr>,
     req_Query = Inr [], req_Metadata = [], req_ContentLength = 0, req_Body = []\<rparr>"

definition demo_server :: "(string, unit) server" where
  "demo_server = NewServer (NewSessionStore (10 * minute) (60 * minute)) ()"

theorem operations_need_session_witness:
  "\<exists>s' resp. serve id demo_wiring alone 5 demo_server (ActionOp ''unit.stop'') demo_request =
       (s', Returns resp) \<and> resp_status resp = 401 \<and> sv_exec s' = sv_exec demo_server"
proof -
  obtain s' out where run: "serve id demo_wiring alone 5 demo_server (ActionOp ''unit.stop'') demo_request = (s', out)"
    by (metis prod.exhaust)
  have "snd (Get id (sv_sessions demo_server) 5 (bearerToken demo_request)) = None"
    by (simp add: Get_def demo_server_def NewServer_def NewSessionStore_def)
  then show ?thesis using operations_need_session[OF run] run by auto
qed

text \<open>
  Login. A login answers 200 exactly when the request decodes, user name and password are
  present and short enough, no back-off is running, a login slot is free, the authenticator
  accepts, the account resolves and the tokens could be drawn; then the new session carries the
  resolved identity and the back-off is reset. Every other answer leaves the sessions as they
  were, a login slot is never lost, and no action runs.
\<close>

theorem login_policy:
  assumes "login key lower wi now now' tok c s r = (s', resp)"
  shows "(resp_status resp = 200 \<longleftrightarrow> (\<exists>request ident. req_Login r = Inr request \<and> credentials_ok request \<and>
      delay (sv_attempts s) now (request_key lower request) \<le> 0 \<and> sv_slots s < login_slots \<and>
      w_authenticate wi (trim_space (lreq_Username request)) (lreq_Password request) = None \<and>
      w_resolve wi (trim_space (lreq_Username request)) = Inr ident \<and> is_ok tok \<and> is_ok c)) \<and>
    (resp_status resp = 200 \<longrightarrow> (\<exists>request ident token session. req_Login r = Inr request \<and>
      w_resolve wi (trim_space (lreq_Username request)) = Inr ident \<and>
      resp_payload resp = LoginBody session token \<and> resp_Identity session = ident \<and>
      sv_sessions s' = fst (Create key (sv_sessions s) now' tok c ident) \<and>
      sv_attempts s' = success (sv_attempts s) (request_key lower request))) \<and>
    (resp_status resp \<noteq> 200 \<longrightarrow> sv_sessions s' = sv_sessions s) \<and>
    sv_slots s' = sv_slots s \<and> sv_exec s' = sv_exec s"
proof -
  obtain s1 x where b: "login_begin lower now s r = (s1, x)" by (cases "login_begin lower now s r")
  show ?thesis
  proof (cases x)
    case (Inl resp1)
    note br = login_begin_response[OF b[unfolded Inl]]
    have eq: "s' = s1" "resp = resp1" using assms b Inl by (simp_all add: login_def)
    have "\<not> (\<exists>request. req_Login r = Inr request \<and> credentials_ok request \<and>
        delay (sv_attempts s) now (request_key lower request) \<le> 0 \<and> sv_slots s < login_slots)"
      using login_begin_pending[of lower now s r] b Inl by (metis Inl_Inr_False prod.inject)
    moreover have "resp_status resp \<noteq> 200" using br(1) eq by auto
    ultimately show ?thesis using br eq by blast
  next
    case (Inr p)
    obtain request where rq: "req_Login r = Inr request" "credentials_ok request"
        "delay (sv_attempts s) now (request_key lower request) \<le> 0" "sv_slots s < login_slots"
        "s1 = s\<lparr>sv_slots := Suc (sv_slots s)\<rparr>"
        "p = \<lparr>pl_username = trim_space (lreq_Username request), pl_password = lreq_Password request,
          pl_key = request_key lower request\<rparr>"
      using b Inr login_begin_pending[of lower now s r s1 p] by blast
    have fin: "login_finish key wi now' tok c s1 p = (s', resp)" using assms b Inr by (simp add: login_def)
    have cr: "(\<exists>e. snd (Create key st now' tok c ident) = Inl e) \<longleftrightarrow> \<not> (is_ok tok \<and> is_ok c)"
      for st ident by (auto simp: Create_def Let_def split: sum.splits)
    from login_finish_cases[OF fin] show ?thesis
    proof (elim conjE disjE exE)
      fix ident token session
      assume *: "sv_slots s' = sv_slots s1 - 1" "sv_exec s' = sv_exec s1"
        "w_authenticate wi (pl_username p) (pl_password p) = None" "w_resolve wi (pl_username p) = Inr ident"
        "Create key (sv_sessions s1) now' tok c ident = (sv_sessions s', Inr (token, session))"
        "resp_payload resp = LoginBody session token" "resp_status resp = 200"
        "sv_attempts s' = success (sv_attempts s1) (pl_key p)"
      have tc: "is_ok tok" "is_ok c" "resp_Identity session = ident" using Create_ok[OF *(5)] by auto
      show ?thesis using * rq tc by auto
    next
      fix ident e
      assume *: "sv_slots s' = sv_slots s1 - 1" "sv_exec s' = sv_exec s1"
        "snd (Create key (sv_sessions s1) now' tok c ident) = Inl e" "resp_status resp = 500"
        "sv_sessions s' = sv_sessions s1"
      then have "\<not> (is_ok tok \<and> is_ok c)" using cr[of "sv_sessions s1" ident] by blast
      then show ?thesis using * rq by auto
    next
      assume *: "sv_slots s' = sv_slots s1 - 1" "sv_exec s' = sv_exec s1"
        "resp_status resp = 401" "sv_sessions s' = sv_sessions s1"
        "w_authenticate wi (pl_username p) (pl_password p) \<noteq> None"
      then show ?thesis using rq by auto
    next
      assume *: "sv_slots s' = sv_slots s1 - 1" "sv_exec s' = sv_exec s1"
        "resp_status resp = 401" "sv_sessions s' = sv_sessions s1"
        "\<not> is_ok (w_resolve wi (pl_username p))"
      then show ?thesis using rq by auto
    qed
  qed
qed

theorem login_policy_witness:
  "\<exists>s' resp. login id id demo_wiring 5 6 (Inr ''t'') (Inr ''c'') demo_server demo_request = (s', resp) \<and>
     sv_slots s' = sv_slots demo_server \<and> sv_exec s' = sv_exec demo_server"
proof -
  obtain s' resp where run: "login id id demo_wiring 5 6 (Inr ''t'') (Inr ''c'') demo_server demo_request = (s', resp)"
    by (metis prod.exhaust)
  show ?thesis using login_policy[OF run] run by blast
qed

text \<open>
  C24. At most eight password checks run at a time. In every interleaving of logins on a new
  server, the slots in use are exactly the logins that are being checked, and never more than
  eight.
\<close>

theorem login_slots_bound:
  assumes "login_runs key lower wi (NewServer store w) s ps"
  shows "sv_slots s = length ps \<and> length ps \<le> 8"
  using login_runs_slots[OF assms] by (simp add: NewServer_def login_slots_def)

theorem login_slots_bound_witness:
  "\<exists>s p. login_begin id 5 demo_server demo_request = (s, Inr p) \<and> sv_slots s = 1"
proof -
  have "trim_space ''ann'' = ''ann''"
    by (simp add: trim_space_def decode_rune_def is_space_def)
  then obtain s p where b: "login_begin id 5 demo_server demo_request = (s, Inr p)"
    using login_begin_pending[of id 5 demo_server demo_request]
    by (auto simp: demo_request_def demo_server_def NewServer_def credentials_ok_def delay_def
        attempt_of_def zero_attempt_def time_sub_def zero_time_def int64_min_def int64_max_def
        login_slots_def)
  have "login_runs id id demo_wiring demo_server s [p]"
    by (rule begun[OF start b])
  from login_slots_bound[OF this[unfolded demo_server_def]] show ?thesis using b by auto
qed

end
