(* ===== verification/Platform.thy ===== *)
theory Platform
  imports Comparison_Sort Streams
begin

text \<open>
  The vocabulary of host capabilities (\<open>internal/capability/capability.go\<close> and \<open>probe.go\<close>) and the registry of
  front-end modules with their capability gates (\<open>internal/platform\<close>: \<open>registry.go\<close>, \<open>capability.go\<close>,
  \<open>module.go\<close>).
\<close>

section \<open>Capabilities\<close>

type_synonym cap_id = string

definition Systemd :: cap_id where "Systemd = ''systemd''"
definition Journald :: cap_id where "Journald = ''journald''"
definition Updex :: cap_id where "Updex = ''updex''"
definition Sysext :: cap_id where "Sysext = ''sysext''"
definition Bootc :: cap_id where "Bootc = ''bootc''"
definition RPMOStree :: cap_id where "RPMOStree = ''rpm-ostree''"
definition AutoupdateRPMOStree :: cap_id where "AutoupdateRPMOStree = ''autoupdate-rpm-ostree''"
definition AutoupdateBootc :: cap_id where "AutoupdateBootc = ''autoupdate-bootc''"
definition Podman :: cap_id where "Podman = ''podman''"
definition Docker :: cap_id where "Docker = ''docker''"
definition Incus :: cap_id where "Incus = ''incus''"
definition K3s :: cap_id where "K3s = ''k3s''"

text \<open>The map of present identifiers; the zero value has none.\<close>

record cap_set =
  cs_ids :: "(cap_id, unit) gomap"

definition no_caps :: cap_set where "no_caps = \<lparr>cs_ids = []\<rparr>"

definition cap_New :: "cap_id list \<Rightarrow> cap_set" where
  "cap_New ids = \<lparr>cs_ids = foldl (\<lambda>m i. AList.update i () m) [] ids\<rparr>"

definition cap_Has :: "cap_set \<Rightarrow> cap_id \<Rightarrow> bool" where
  "cap_Has s i \<longleftrightarrow> map_of (cs_ids s) i \<noteq> None"

fun cap_HasAll :: "cap_set \<Rightarrow> cap_id list \<Rightarrow> bool" where
  "cap_HasAll s [] = True"
| "cap_HasAll s (i # ids) = (if \<not> cap_Has s i then False else cap_HasAll s ids)"

fun cap_HasAny :: "cap_set \<Rightarrow> cap_id list \<Rightarrow> bool" where
  "cap_HasAny s [] = False"
| "cap_HasAny s (i # ids) = (if cap_Has s i then True else cap_HasAny s ids)"

definition cap_List :: "cap_set \<Rightarrow> cap_id list" where
  "cap_List s = sort (map fst (cs_ids s))"

text \<open>The wire shape has one field, the list; \<open>enc\<close> and \<open>dec\<close> are the JSON codec on it.\<close>

definition cap_MarshalJSON :: "(cap_id list \<Rightarrow> string result) \<Rightarrow> cap_set \<Rightarrow> string result" where
  "cap_MarshalJSON enc s = enc (cap_List s)"

definition cap_UnmarshalJSON :: "(string \<Rightarrow> cap_id list result) \<Rightarrow> cap_set \<Rightarrow> string \<Rightarrow> error option \<times> cap_set" where
  "cap_UnmarshalJSON dec s data = (case dec data of Inl e \<Rightarrow> (Some e, s) | Inr ids \<Rightarrow> (None, cap_New ids))"

definition unionSets :: "cap_set list \<Rightarrow> cap_set" where
  "unionSets sets = cap_New (concat (map cap_List sets))"

record probe_config =
  cfg_DockerEndpoint :: string
  cfg_IncusEnabled :: bool
  cfg_K3s :: string
  cfg_PodmanSocket :: string
  cfg_Updex :: string

fun run_probes :: "(probe_config \<Rightarrow> 'w \<Rightarrow> cap_set \<times> 'w) list \<Rightarrow> probe_config \<Rightarrow> cap_set list \<Rightarrow> 'w \<Rightarrow> cap_set list \<times> 'w" where
  "run_probes [] config sets w = (sets, w)"
| "run_probes (p # ps) config sets w = (case p config w of (s, w1) \<Rightarrow> run_probes ps config (sets @ [s]) w1)"

definition Probe :: "(probe_config \<Rightarrow> 'w \<Rightarrow> cap_set \<times> 'w) list \<Rightarrow> probe_config \<Rightarrow> 'w \<Rightarrow> cap_set \<times> 'w" where
  "Probe probes config w = (case run_probes probes config [] w of (sets, w1) \<Rightarrow> (unionSets sets, w1))"

section \<open>Modules\<close>

record manifest =
  mf_Description :: string
  mf_Icon :: string
  mf_ID :: string
  mf_Name :: string
  mf_Order :: int
  mf_Path :: string

datatype span = SpanFull | SpanHalf | SpanThird

record dashboard_card =
  dc_Component :: string
  dc_Order :: int
  dc_Span :: span

definition QueryCapabilities :: string where "QueryCapabilities = ''org.frostyard.pilothouse.capabilities.list''"

text \<open>
  A module: its manifest, the gates it implements (\<open>None\<close> when it does not implement the interface) and its cards.
\<close>

record 'w pmodule =
  mo_Manifest :: manifest
  mo_Gate :: "cap_id list option"
  mo_GateAny :: "cap_id list option"
  mo_Dashboard :: "'w \<Rightarrow> dashboard_card list result \<times> 'w"

record 'w registry =
  rg_modules :: "'w pmodule list"

fun conflict :: "'w pmodule list \<Rightarrow> manifest \<Rightarrow> error option" where
  "conflict [] mf = None"
| "conflict (r # rs) mf =
     (if mf_ID (mo_Manifest r) = mf_ID mf then Some (Errorf ''module %q already registered'' [mf_ID mf])
      else if mf_Path (mo_Manifest r) = mf_Path mf then Some (Errorf ''module path %q already registered'' [mf_Path mf])
      else conflict rs mf)"

definition manifest_cmp :: "manifest \<Rightarrow> manifest \<Rightarrow> int" where
  "manifest_cmp a b = (if mf_Order a \<noteq> mf_Order b then wrap64 (mf_Order a - mf_Order b)
     else if mf_Name a < mf_Name b then -1 else if mf_Name a > mf_Name b then 1 else 0)"

definition reg_Register :: "'w registry \<Rightarrow> 'w pmodule \<Rightarrow> error option \<times> 'w registry" where
  "reg_Register r module = (let mf = mo_Manifest module in
     if mf_ID mf = [] \<or> mf_Name mf = [] \<or> mf_Path mf = []
     then (Some (Errorf ''module manifest requires id, name, and path'' []), r)
     else (case conflict (rg_modules r) mf of Some e \<Rightarrow> (Some e, r)
       | None \<Rightarrow> (None, r\<lparr>rg_modules := sort_by (\<lambda>a b. manifest_cmp (mo_Manifest a) (mo_Manifest b)) (rg_modules r @ [module])\<rparr>)))"

fun register_modules :: "'w registry \<Rightarrow> 'w pmodule list \<Rightarrow> 'w registry result" where
  "register_modules r [] = Inr r"
| "register_modules r (m # ms) = (case reg_Register r m of (Some e, _) \<Rightarrow> Inl e | (None, r') \<Rightarrow> register_modules r' ms)"

definition NewRegistry :: "'w pmodule list \<Rightarrow> 'w registry result" where
  "NewRegistry modules = register_modules \<lparr>rg_modules = []\<rparr> modules"

definition reg_Manifests :: "'w registry \<Rightarrow> manifest list" where
  "reg_Manifests r = map mo_Manifest (rg_modules r)"

definition reg_Modules :: "'w registry \<Rightarrow> 'w pmodule list" where
  "reg_Modules r = rg_modules r"

definition Available :: "'w pmodule \<Rightarrow> cap_set \<Rightarrow> bool" where
  "Available module caps = (case mo_Gate module of None \<Rightarrow> True | Some ids \<Rightarrow> cap_HasAll caps ids)"

definition AvailableAny :: "'w pmodule \<Rightarrow> cap_set \<Rightarrow> bool" where
  "AvailableAny module caps = (case mo_GateAny module of None \<Rightarrow> True | Some ids \<Rightarrow> cap_HasAny caps ids)"

text \<open>A route behind a gate: \<open>None\<close> stands for the answer 404.\<close>

definition Gate :: "cap_set \<Rightarrow> cap_id list \<Rightarrow> 'a \<Rightarrow> 'a option" where
  "Gate caps ids action = (if \<not> cap_HasAll caps ids then None else Some action)"

definition GateAny :: "cap_set \<Rightarrow> cap_id list \<Rightarrow> 'a \<Rightarrow> 'a option" where
  "GateAny caps ids action = (if \<not> cap_HasAny caps ids then None else Some action)"

section \<open>What they compute\<close>

abbreviation caps_of :: "cap_set \<Rightarrow> cap_id set" where
  "caps_of s \<equiv> fst ` set (cs_ids s)"

lemma cap_Has_iff: "cap_Has s i \<longleftrightarrow> i \<in> caps_of s"
  by (simp add: cap_Has_def map_of_eq_None_iff)

lemma cap_HasAll_iff: "cap_HasAll s ids \<longleftrightarrow> set ids \<subseteq> caps_of s"
  by (induction ids) (simp_all add: cap_Has_iff)

lemma cap_HasAny_iff: "cap_HasAny s ids \<longleftrightarrow> set ids \<inter> caps_of s \<noteq> {}"
  by (induction ids) (auto simp: cap_Has_iff)

lemma caps_of_New: "caps_of (cap_New ids) = set ids"
proof -
  have "fst ` set (foldl (\<lambda>m i. AList.update i () m) al ids) = fst ` set al \<union> set ids" for al :: "(cap_id, unit) gomap"
  proof (induction ids arbitrary: al)
    case (Cons i ids)
    then show ?case using dom_update[of i "()" al] by (simp add: update_conv' dom_map_of_conv_image_fst)
  qed simp
  from this[of "[]"] show ?thesis by (simp add: cap_New_def)
qed

lemma set_cap_List [simp]: "set (cap_List s) = caps_of s"
  by (simp add: cap_List_def)

lemma caps_of_union: "caps_of (unionSets sets) = (\<Union>s\<in>set sets. caps_of s)"
  by (simp add: unionSets_def caps_of_New)


text \<open>
  The order of the manifests as numbers without wrap-around; the code's subtraction agrees with it while the
  difference of two orders fits into 64 bits.
\<close>

definition manifest_order :: "manifest \<Rightarrow> manifest \<Rightarrow> int" where
  "manifest_order a b = (if mf_Order a \<noteq> mf_Order b then mf_Order a - mf_Order b
     else if mf_Name a < mf_Name b then -1 else if mf_Name a > mf_Name b then 1 else 0)"

lemma manifest_order_le: "manifest_order a b \<le> 0 \<longleftrightarrow>
    mf_Order a < mf_Order b \<or> mf_Order a = mf_Order b \<and> mf_Name a \<le> mf_Name b"
  by (auto simp: manifest_order_def)

interpretation by_manifest: int_comparison "\<lambda>a b. manifest_order (mo_Manifest a) (mo_Manifest b)"
  by unfold_locales (auto simp: manifest_order_le)

definition small_orders :: "'w pmodule list \<Rightarrow> bool" where
  "small_orders ms \<longleftrightarrow> list_all (\<lambda>m. \<bar>mf_Order (mo_Manifest m)\<bar> < 2 ^ 62) ms"

lemma manifest_cmp_small:
  "\<bar>mf_Order a\<bar> < 2 ^ 62 \<Longrightarrow> \<bar>mf_Order b\<bar> < 2 ^ 62 \<Longrightarrow> manifest_cmp a b = manifest_order a b"
  by (simp add: manifest_cmp_def manifest_order_def wrap64_id)

lemma insert_by_cong:
  "(\<And>y. y \<in> set ys \<Longrightarrow> f x y = g x y) \<Longrightarrow> insert_by f x ys = insert_by g x ys"
  by (induction ys) auto

lemma set_sort_by: "set (sort_by f xs) = set xs"
proof -
  have "set (insert_by f x ys) = insert x (set ys)" for x ys by (induction ys) auto
  then show ?thesis by (induction xs) (simp_all add: sort_by_def)
qed

lemma sort_by_cong: "(\<And>x y. x \<in> set xs \<Longrightarrow> y \<in> set xs \<Longrightarrow> f x y = g x y) \<Longrightarrow> sort_by f xs = sort_by g xs"
proof (induction xs)
  case (Cons x xs)
  have "sort_by f xs = sort_by g xs" by (rule Cons.IH) (simp add: Cons.prems)
  moreover have "insert_by f x (sort_by g xs) = insert_by g x (sort_by g xs)"
    by (rule insert_by_cong) (use Cons.prems set_sort_by[of g xs] in auto)
  ultimately show ?case by (simp add: sort_by_def)
qed (simp add: sort_by_def)

lemma mset_sort_any: "mset (sort_by f xs) = mset xs"
proof -
  have "mset (insert_by f x ys) = add_mset x (mset ys)" for x ys by (induction ys) auto
  then show ?thesis by (induction xs) (simp_all add: sort_by_def)
qed

text \<open>What registration asks of the modules.\<close>

definition registrable :: "'w pmodule list \<Rightarrow> bool" where
  "registrable ms \<longleftrightarrow>
     list_all (\<lambda>m. mf_ID (mo_Manifest m) \<noteq> [] \<and> mf_Name (mo_Manifest m) \<noteq> [] \<and> mf_Path (mo_Manifest m) \<noteq> []) ms \<and>
     distinct (map (mf_ID \<circ> mo_Manifest) ms) \<and> distinct (map (mf_Path \<circ> mo_Manifest) ms)"

lemma conflict_None: "conflict rs mf = None \<longleftrightarrow>
    mf_ID mf \<notin> (mf_ID \<circ> mo_Manifest) ` set rs \<and> mf_Path mf \<notin> (mf_Path \<circ> mo_Manifest) ` set rs"
  by (induction rs) auto

lemma registrable_mset: assumes "mset xs = mset ys" shows "registrable xs \<longleftrightarrow> registrable ys"
proof -
  have "set xs = set ys" by (metis assms set_mset_mset)
  moreover have "mset (map f xs) = mset (map f ys)" for f :: "'a pmodule \<Rightarrow> string" using assms by simp
  ultimately show ?thesis unfolding registrable_def list_all_iff using mset_eq_imp_distinct_iff by metis
qed

lemma registrable_snoc: "registrable (rs @ [m]) \<longleftrightarrow> registrable rs \<and> conflict rs (mo_Manifest m) = None \<and>
    \<not> (mf_ID (mo_Manifest m) = [] \<or> mf_Name (mo_Manifest m) = [] \<or> mf_Path (mo_Manifest m) = [])"
  by (auto simp: registrable_def conflict_None)

lemma register_modules_spec:
  fixes r :: "'a registry"
  assumes "registrable (rg_modules r)"
  shows "if registrable (rg_modules r @ ms)
    then \<exists>r'. register_modules r ms = Inr r' \<and> mset (rg_modules r') = mset (rg_modules r @ ms) \<and>
      (ms \<noteq> [] \<longrightarrow> small_orders (rg_modules r @ ms) \<longrightarrow> by_manifest.in_order (rg_modules r'))
    else \<exists>e. register_modules r ms = Inl e"
  using assms
proof (induction ms arbitrary: r)
  case (Cons m ms)
  define cmp where "cmp = (\<lambda>(a :: 'a pmodule) (b :: 'a pmodule). manifest_cmp (mo_Manifest a) (mo_Manifest b))"
  show ?case
  proof (cases "registrable (rg_modules r @ [m])")
    case False
    then have "\<exists>e. reg_Register r m = (Some e, r)"
      using Cons.prems by (auto simp: registrable_snoc reg_Register_def Let_def)
    moreover have "\<not> registrable (rg_modules r @ m # ms)" using False by (auto simp: registrable_def)
    ultimately show ?thesis by auto
  next
    case True
    define r1 where "r1 = r\<lparr>rg_modules := sort_by cmp (rg_modules r @ [m])\<rparr>"
    have reg: "reg_Register r m = (None, r1)"
      using True by (auto simp: registrable_snoc reg_Register_def Let_def r1_def cmp_def)
    have ms1: "mset (rg_modules r1) = mset (rg_modules r @ [m])" by (simp add: r1_def mset_sort_any)
    then have ok: "registrable (rg_modules r1)" using True registrable_mset by blast
    have eq: "mset (rg_modules r1 @ ms) = mset (rg_modules r @ m # ms)" using ms1 by simp
    have sets: "set (rg_modules r1 @ ms) = set (rg_modules r @ m # ms)" using arg_cong[OF eq, of set_mset] by simp
    have reg_eq: "registrable (rg_modules r1 @ ms) = registrable (rg_modules r @ m # ms)" by (rule registrable_mset[OF eq])
    have small_eq: "small_orders (rg_modules r1 @ ms) = small_orders (rg_modules r @ m # ms)"
      unfolding small_orders_def list_all_iff sets ..
    have sorted1: "by_manifest.in_order (rg_modules r1)" if "small_orders (rg_modules r @ [m])"
    proof -
      have "sort_by cmp (rg_modules r @ [m]) = sort_by (\<lambda>a b. manifest_order (mo_Manifest a) (mo_Manifest b)) (rg_modules r @ [m])"
        by (rule sort_by_cong) (use that in \<open>auto simp: cmp_def small_orders_def list_all_iff manifest_cmp_small\<close>)
      then show ?thesis using by_manifest.sort_by_in_order by (simp add: r1_def)
    qed
    show ?thesis
    proof (cases "ms = []")
      case True2: True
      then show ?thesis using reg ms1 sorted1 True by simp
    next
      case False
      then show ?thesis using Cons.IH[OF ok] reg unfolding reg_eq small_eq eq by (auto split: if_splits)
    qed
  qed
qed (auto simp: registrable_def)

section \<open>Properties\<close>

text \<open>
  The registry accepts exactly the consistent modules. \<open>NewRegistry\<close> succeeds exactly when every manifest has
  an id, a name and a path and no id and no path occurs twice; it then holds each module once, sorted by order
  and then by name as long as the orders are below 2^62 in magnitude, where the code's subtraction cannot wrap.
\<close>

theorem registry_accepts_exactly:
  "if registrable ms then \<exists>r. NewRegistry ms = Inr r \<and> mset (reg_Modules r) = mset ms \<and>
      (small_orders ms \<longrightarrow> sorted_wrt (\<lambda>a b. mf_Order (mo_Manifest a) < mf_Order (mo_Manifest b) \<or>
        mf_Order (mo_Manifest a) = mf_Order (mo_Manifest b) \<and> mf_Name (mo_Manifest a) \<le> mf_Name (mo_Manifest b)) (reg_Modules r))
   else \<exists>e. NewRegistry ms = Inl e"
proof -
  have "registrable (rg_modules \<lparr>rg_modules = []\<rparr>)" by (simp add: registrable_def)
  from register_modules_spec[OF this, of ms] show ?thesis
  proof (cases "ms = []")
    case True
    then show ?thesis by (simp add: NewRegistry_def reg_Modules_def registrable_def)
  qed (auto simp: NewRegistry_def reg_Modules_def manifest_order_le)
qed

theorem registry_accepts_exactly_witness:
  "\<exists>r. NewRegistry [\<lparr>mo_Manifest = \<lparr>mf_Description = [], mf_Icon = [], mf_ID = ''files'', mf_Name = ''Files'', mf_Order = 38,
      mf_Path = ''/files''\<rparr>, mo_Gate = None, mo_GateAny = None, mo_Dashboard = (\<lambda>w::unit. (Inr [], w))\<rparr>] = Inr r"
proof -
  have "registrable [\<lparr>mo_Manifest = \<lparr>mf_Description = [], mf_Icon = [], mf_ID = ''files'', mf_Name = ''Files'', mf_Order = 38,
      mf_Path = ''/files''\<rparr>, mo_Gate = None, mo_GateAny = None, mo_Dashboard = (\<lambda>w::unit. (Inr [], w))\<rparr>]"
    by (simp add: registrable_def)
  then show ?thesis using registry_accepts_exactly by (metis (no_types, lifting))
qed

end
