(* ===== verification/Broker_Client.thy ===== *)
theory Broker_Client
  imports Server Platform
begin

text \<open>
  The client of the broker (\<open>internal/broker/client.go\<close>): one HTTP exchange per call over the broker's socket. The
  exchange itself is the argument \<open>exchange\<close>, which answers a response or fails; the JSON and base64 codecs and the
  parsing of the request URL are a record. The goroutine that closes a stream when its context ends is not
  modelled.
\<close>

section \<open>Data\<close>

definition broker_ErrUnauthorized :: error where "broker_ErrUnauthorized = Sentinel ''authentication required''"
definition broker_ErrUnavailable :: error where "broker_ErrUnavailable = Sentinel ''privileged broker unavailable''"

record login_response =
  lrs_Session :: session_response
  lrs_Token :: string

datatype client_body = ActionBody action_request | LoginBody login_request | QueryBody params | EmptyBody

record client_request =
  cq_Method :: string
  cq_Path :: string
  cq_Authorization :: "string option"
  cq_Metadata :: "string option"
  cq_Body :: string

record client_response =
  cr_StatusCode :: int
  cr_Status :: string
  cr_Body :: string
  cr_ContentLength :: int
  cr_StreamName :: string
  cr_ContentType :: string

record client_codec =
  cc_marshal :: "client_body \<Rightarrow> string result"
  cc_url :: "string \<Rightarrow> error option"
  cc_error :: "string \<Rightarrow> string"
  cc_login :: "string \<Rightarrow> login_response result"
  cc_session :: "string \<Rightarrow> session_response result"
  cc_query :: "string \<Rightarrow> string result"
  cc_encode64 :: "string \<Rightarrow> string"
  cc_decode64 :: "string \<Rightarrow> string result"

type_synonym 'w exchange = "client_request \<Rightarrow> 'w \<Rightarrow> client_response result \<times> 'w"

record client =
  cl_baseURL :: string
  cl_socket :: string

definition NewClient :: "string \<Rightarrow> client" where
  "NewClient socket = \<lparr>cl_baseURL = ''http://unix'', cl_socket = socket\<rparr>"

section \<open>One exchange\<close>

definition streamResponseError :: "client_codec \<Rightarrow> client_response \<Rightarrow> error" where
  "streamResponseError C response =
     (let text = cc_error C (take 4096 (cr_Body response));
          err = NewPublicError (cr_StatusCode response) (if text = [] then cr_Status response else text) [] None
      in if cr_StatusCode response = 401 then Joined broker_ErrUnauthorized err else err)"

definition client_do :: "client_codec \<Rightarrow> client \<Rightarrow> 'w exchange \<Rightarrow> string \<Rightarrow> string \<Rightarrow> string \<Rightarrow> client_body option \<Rightarrow> 'w \<Rightarrow>
    string result \<times> 'w" where
  "client_do C c exchange verb path token requestBody w =
     (case (case requestBody of None \<Rightarrow> Inr [] | Some b \<Rightarrow> cc_marshal C b) of
        Inl e \<Rightarrow> (Inl (Wrapf ''encode broker request: %w'' [] e), w)
      | Inr body \<Rightarrow> (case cc_url C (cl_baseURL c @ path) of
          Some e \<Rightarrow> (Inl (Wrapf ''create broker request: %w'' [] e), w)
        | None \<Rightarrow>
            (case exchange \<lparr>cq_Method = verb, cq_Path = path, cq_Authorization = (if token \<noteq> [] then Some (''Bearer '' @ token) else None),
                cq_Metadata = None, cq_Body = body\<rparr> w of
               (Inl e, w1) \<Rightarrow> (Inl (Wrapf ''%w at %s: %v'' [cl_socket c] broker_ErrUnavailable), w1)
             | (Inr response, w1) \<Rightarrow>
                 if cr_StatusCode response < 200 \<or> cr_StatusCode response \<ge> 300 then (Inl (streamResponseError C response), w1)
                 else (Inr (take 2097152 (cr_Body response)), w1))))"

definition decode_response :: "(string \<Rightarrow> 'a result) \<Rightarrow> string result \<times> 'w \<Rightarrow> 'a result \<times> 'w" where
  "decode_response dec r = (case r of (Inl e, w) \<Rightarrow> (Inl e, w)
   | (Inr text, w) \<Rightarrow> (case dec text of Inl e \<Rightarrow> (Inl (Wrapf ''decode broker response: %w'' [] e), w) | Inr x \<Rightarrow> (Inr x, w)))"

definition no_response :: "string result \<times> 'w \<Rightarrow> error option \<times> 'w" where
  "no_response r = (case r of (Inl e, w) \<Rightarrow> (Some e, w) | (Inr _, w) \<Rightarrow> (None, w))"

section \<open>The calls\<close>

definition client_Action :: "client_codec \<Rightarrow> client \<Rightarrow> 'w exchange \<Rightarrow> string \<Rightarrow> string \<Rightarrow> params \<Rightarrow> string \<Rightarrow> 'w \<Rightarrow> error option \<times> 'w" where
  "client_Action C c exchange token i parameters confirmation w =
     no_response (client_do C c exchange ''POST'' (''/v1/actions/'' @ i) token
       (Some (ActionBody \<lparr>areq_Confirmation = confirmation, areq_Parameters = parameters\<rparr>)) w)"

definition client_Health :: "client_codec \<Rightarrow> client \<Rightarrow> 'w exchange \<Rightarrow> 'w \<Rightarrow> error option \<times> 'w" where
  "client_Health C c exchange w = no_response (client_do C c exchange ''GET'' ''/v1/health'' [] None w)"

definition client_Login :: "client_codec \<Rightarrow> client \<Rightarrow> 'w exchange \<Rightarrow> string \<Rightarrow> string \<Rightarrow> string \<Rightarrow> 'w \<Rightarrow> login_response result \<times> 'w" where
  "client_Login C c exchange username password remote w =
     decode_response (cc_login C) (client_do C c exchange ''POST'' ''/v1/login'' []
       (Some (LoginBody \<lparr>lreq_Password = password, lreq_Remote = remote, lreq_Username = username\<rparr>)) w)"

definition client_Logout :: "client_codec \<Rightarrow> client \<Rightarrow> 'w exchange \<Rightarrow> string \<Rightarrow> 'w \<Rightarrow> error option \<times> 'w" where
  "client_Logout C c exchange token w = no_response (client_do C c exchange ''POST'' ''/v1/logout'' token (Some EmptyBody) w)"

text \<open>\<open>target\<close> decodes the result that the caller asked for.\<close>

definition client_Query :: "client_codec \<Rightarrow> client \<Rightarrow> 'w exchange \<Rightarrow> (string \<Rightarrow> 'a result) \<Rightarrow> string \<Rightarrow> string \<Rightarrow> params \<Rightarrow> 'w \<Rightarrow> 'a result \<times> 'w" where
  "client_Query C c exchange target token i parameters w =
     (case decode_response (cc_query C) (client_do C c exchange ''POST'' (''/v1/queries/'' @ i) token (Some (QueryBody parameters)) w) of
        (Inl e, w1) \<Rightarrow> (Inl e, w1)
      | (Inr raw, w1) \<Rightarrow> (case target raw of Inl e \<Rightarrow> (Inl (Wrapf ''decode broker query result: %w'' [] e), w1) | Inr x \<Rightarrow> (Inr x, w1)))"

definition client_Session :: "client_codec \<Rightarrow> client \<Rightarrow> 'w exchange \<Rightarrow> string \<Rightarrow> 'w \<Rightarrow> session_response result \<times> 'w" where
  "client_Session C c exchange token w =
     decode_response (cc_session C) (client_do C c exchange ''GET'' ''/v1/session'' token None w)"

definition client_StreamQuery :: "client_codec \<Rightarrow> client \<Rightarrow> 'w exchange \<Rightarrow> string \<Rightarrow> string \<Rightarrow> params \<Rightarrow> 'w \<Rightarrow> stream_result result \<times> 'w" where
  "client_StreamQuery C c exchange token i parameters w = (case cc_marshal C (QueryBody parameters) of
     Inl e \<Rightarrow> (Inl (Wrapf ''encode broker stream query: %w'' [] e), w)
   | Inr encoded \<Rightarrow> (case cc_url C (cl_baseURL c @ ''/v1/stream-queries/'' @ i) of
       Some e \<Rightarrow> (Inl (Wrapf ''create broker stream query: %w'' [] e), w)
     | None \<Rightarrow>
         (case exchange \<lparr>cq_Method = ''POST'', cq_Path = ''/v1/stream-queries/'' @ i, cq_Authorization = Some (''Bearer '' @ token),
             cq_Metadata = None, cq_Body = encoded\<rparr> w of
            (Inl e, w1) \<Rightarrow> (Inl (Wrapf ''%w at %s: %v'' [cl_socket c] broker_ErrUnavailable), w1)
          | (Inr response, w1) \<Rightarrow>
              if cr_StatusCode response < 200 \<or> cr_StatusCode response \<ge> 300 then (Inl (streamResponseError C response), w1)
              else if cr_ContentLength response < 0 then (Inl (Errorf ''decode broker stream response: missing content length'' []), w1)
              else (case cc_decode64 C (cr_StreamName response) of
                  Inl e \<Rightarrow> (Inl (Wrapf ''decode broker stream filename: %w'' [] e), w1)
                | Inr filename \<Rightarrow> (Inr \<lparr>sr_Body = Some (cr_Body response), sr_Filename = filename,
                    sr_MediaType = cr_ContentType response, sr_Size = cr_ContentLength response\<rparr>, w1)))))"

definition client_StreamAction :: "client_codec \<Rightarrow> client \<Rightarrow> 'w exchange \<Rightarrow> string \<Rightarrow> string \<Rightarrow> params \<Rightarrow> string \<Rightarrow> 'w \<Rightarrow> error option \<times> 'w" where
  "client_StreamAction C c exchange token i parameters body w = (case cc_marshal C (QueryBody parameters) of
     Inl e \<Rightarrow> (Some (Wrapf ''encode broker stream action: %w'' [] e), w)
   | Inr encoded \<Rightarrow> (case cc_url C (cl_baseURL c @ ''/v1/stream-actions/'' @ i) of
       Some e \<Rightarrow> (Some (Wrapf ''create broker stream action: %w'' [] e), w)
     | None \<Rightarrow>
         (case exchange \<lparr>cq_Method = ''POST'', cq_Path = ''/v1/stream-actions/'' @ i, cq_Authorization = Some (''Bearer '' @ token),
             cq_Metadata = Some (cc_encode64 C encoded), cq_Body = body\<rparr> w of
            (Inl e, w1) \<Rightarrow> (Some (Wrapf ''%w at %s: %v'' [cl_socket c] broker_ErrUnavailable), w1)
          | (Inr response, w1) \<Rightarrow>
              if cr_StatusCode response < 200 \<or> cr_StatusCode response \<ge> 300 then (Some (streamResponseError C response), w1)
              else (None, w1))))"

section \<open>The interface the front end uses\<close>

record 'w broker_client =
  bc_Action :: "string \<Rightarrow> string \<Rightarrow> params \<Rightarrow> string \<Rightarrow> 'w \<Rightarrow> error option \<times> 'w"
  bc_Health :: "'w \<Rightarrow> error option \<times> 'w"
  bc_Login :: "string \<Rightarrow> string \<Rightarrow> string \<Rightarrow> 'w \<Rightarrow> login_response result \<times> 'w"
  bc_Logout :: "string \<Rightarrow> 'w \<Rightarrow> error option \<times> 'w"
  bc_Query :: "string \<Rightarrow> string \<Rightarrow> params \<Rightarrow> 'w \<Rightarrow> string result \<times> 'w"
  bc_Session :: "string \<Rightarrow> 'w \<Rightarrow> session_response result \<times> 'w"
  bc_StreamAction :: "string \<Rightarrow> string \<Rightarrow> params \<Rightarrow> string \<Rightarrow> 'w \<Rightarrow> error option \<times> 'w"
  bc_StreamQuery :: "string \<Rightarrow> string \<Rightarrow> params \<Rightarrow> 'w \<Rightarrow> stream_result result \<times> 'w"

definition client_interface :: "client_codec \<Rightarrow> client \<Rightarrow> 'w exchange \<Rightarrow> 'w broker_client" where
  "client_interface C c exchange = \<lparr>bc_Action = client_Action C c exchange, bc_Health = client_Health C c exchange,
     bc_Login = client_Login C c exchange, bc_Logout = client_Logout C c exchange,
     bc_Query = client_Query C c exchange Inr, bc_Session = client_Session C c exchange,
     bc_StreamAction = client_StreamAction C c exchange, bc_StreamQuery = client_StreamQuery C c exchange\<rparr>"

section \<open>Which error means what\<close>

text \<open>The codecs fail with errors of their own, never with one that stands for the state of the broker.\<close>

definition own_error :: "error \<Rightarrow> bool" where
  "own_error e \<longleftrightarrow> \<not> errors_is e broker_ErrUnauthorized \<and> \<not> errors_is e broker_ErrUnavailable"

definition codec_ok :: "client_codec \<Rightarrow> bool" where
  "codec_ok C \<longleftrightarrow> (\<forall>b e. cc_marshal C b = Inl e \<longrightarrow> own_error e) \<and> (\<forall>u e. cc_url C u = Some e \<longrightarrow> own_error e) \<and>
     (\<forall>s e. cc_login C s = Inl e \<longrightarrow> own_error e) \<and> (\<forall>s e. cc_session C s = Inl e \<longrightarrow> own_error e) \<and>
     (\<forall>s e. cc_query C s = Inl e \<longrightarrow> own_error e)"

lemma own_Wrapf [simp]: "own_error (Wrapf f as e) \<longleftrightarrow> own_error e"
  by (simp add: own_error_def broker_ErrUnauthorized_def broker_ErrUnavailable_def)

lemma response_error_classes:
  "errors_is (streamResponseError C response) broker_ErrUnauthorized \<longleftrightarrow> cr_StatusCode response = 401"
  "\<not> errors_is (streamResponseError C response) broker_ErrUnavailable"
  "StatusCode (streamResponseError C response) = cr_StatusCode response"
  by (simp_all add: streamResponseError_def Let_def NewPublicError_def broker_ErrUnauthorized_def broker_ErrUnavailable_def
      StatusCode_def PublicErrorDetails_def)

definition sent :: "string \<Rightarrow> string \<Rightarrow> string \<Rightarrow> string \<Rightarrow> client_request" where
  "sent verb path token body = \<lparr>cq_Method = verb, cq_Path = path,
     cq_Authorization = (if token \<noteq> [] then Some (''Bearer '' @ token) else None), cq_Metadata = None, cq_Body = body\<rparr>"

text \<open>What a caller may conclude from the error of a call whose request was answered with \<open>answer\<close>.\<close>

definition error_classes :: "client_response result \<Rightarrow> error \<Rightarrow> bool" where
  "error_classes answer e \<longleftrightarrow>
     (errors_is e broker_ErrUnavailable \<longleftrightarrow> \<not> (\<exists>response. answer = Inr response)) \<and>
     (errors_is e broker_ErrUnauthorized \<longleftrightarrow> (case answer of Inl _ \<Rightarrow> False | Inr response \<Rightarrow> cr_StatusCode response = 401)) \<and>
     (case answer of Inl _ \<Rightarrow> True | Inr response \<Rightarrow>
        \<not> (200 \<le> cr_StatusCode response \<and> cr_StatusCode response < 300) \<longrightarrow> StatusCode e = cr_StatusCode response)"

lemma client_do_unsent:
  assumes "codec_ok C" and "client_do C c exchange verb path token body w = (Inl e, w')"
    and "(\<exists>b e. body = Some b \<and> cc_marshal C b = Inl e) \<or> cc_url C (cl_baseURL c @ path) \<noteq> None"
  shows "w' = w \<and> own_error e"
  using assms unfolding client_do_def codec_ok_def
  by (cases body; cases "cc_url C (cl_baseURL c @ path)") (auto split: sum.splits)

lemma client_do_sent:
  assumes "(case body of None \<Rightarrow> Inr [] | Some b \<Rightarrow> cc_marshal C b) = Inr enc" and "cc_url C (cl_baseURL c @ path) = None"
    and "exchange (sent verb path token enc) w = (answer, w')"
  shows "client_do C c exchange verb path token body w = ((case answer of
      Inl _ \<Rightarrow> Inl (Wrapf ''%w at %s: %v'' [cl_socket c] broker_ErrUnavailable)
    | Inr response \<Rightarrow> if cr_StatusCode response < 200 \<or> cr_StatusCode response \<ge> 300 then Inl (streamResponseError C response)
        else Inr (take 2097152 (cr_Body response))), w')"
  using assms by (cases answer) (simp_all add: client_do_def sent_def)

lemma unavailable_classes: "error_classes (Inl x) (Wrapf f as broker_ErrUnavailable)"
  by (simp add: error_classes_def broker_ErrUnauthorized_def broker_ErrUnavailable_def)

lemma refused_classes:
  "cr_StatusCode response < 200 \<or> cr_StatusCode response \<ge> 300 \<Longrightarrow> error_classes (Inr response) (streamResponseError C response)"
  by (simp add: error_classes_def response_error_classes)

lemma undecoded_classes:
  "\<not> (cr_StatusCode response < 200 \<or> cr_StatusCode response \<ge> 300) \<Longrightarrow> own_error e \<Longrightarrow> error_classes (Inr response) e"
  by (auto simp: error_classes_def own_error_def)

lemma decode_response_classes:
  assumes "(case body of None \<Rightarrow> Inr [] | Some b \<Rightarrow> cc_marshal C b) = Inr enc" and "cc_url C (cl_baseURL c @ path) = None"
    and "exchange (sent verb path token enc) w = (answer, w1)"
    and "\<And>s e. dec s = Inl e \<Longrightarrow> own_error e"
    and "decode_response dec (client_do C c exchange verb path token body w) = (Inl e, w')"
  shows "w' = w1 \<and> error_classes answer e"
proof -
  note step = client_do_sent[where enc = enc and exchange = exchange and path = path and token = token and verb = verb and body = body and w = w and w' = w1 and
      answer = answer and C = C and c = c, OF assms(1-3)]
  show ?thesis
  proof (cases answer)
    case (Inl x)
    then show ?thesis using assms(5) unfolding step decode_response_def
      by (auto simp: unavailable_classes)
  next
    case (Inr response)
    then show ?thesis using assms(4,5) unfolding step decode_response_def
      by (auto simp: refused_classes undecoded_classes split: if_splits sum.splits)
  qed
qed

lemma client_Session_sent:
  assumes "codec_ok C" and "cc_url C (cl_baseURL c @ ''/v1/session'') = None"
    and "exchange (sent ''GET'' ''/v1/session'' token []) w = (answer, w1)"
    and "client_Session C c exchange token w = (Inl e, w')"
  shows "w' = w1 \<and> error_classes answer e"
  using decode_response_classes[where body = None and C = C and enc = "[]" and exchange = exchange and path = "''/v1/session''" and token = token and
      verb = "''GET''" and w = w and answer = answer and c = c and dec = "cc_session C" and e = e and w' = w', OF _ assms(2,3)]
    assms(1,4) by (simp add: client_Session_def codec_ok_def)

lemma client_Session_answered:
  assumes "cc_url C (cl_baseURL c @ ''/v1/session'') = None"
    and "exchange (sent ''GET'' ''/v1/session'' token []) w = (answer, w1)"
    and "client_Session C c exchange token w = (Inr session, w')"
  shows "w' = w1 \<and> (\<exists>response. answer = Inr response \<and> 200 \<le> cr_StatusCode response \<and> cr_StatusCode response < 300 \<and>
      cc_session C (take 2097152 (cr_Body response)) = Inr session)"
  using assms(3) client_do_sent[where body = None and C = C and enc = "[]" and exchange = exchange and path = "''/v1/session''" and
      token = token and verb = "''GET''" and w = w and answer = answer and c = c, OF _ assms(1,2)]
  by (cases answer) (auto simp: client_Session_def decode_response_def split: if_splits sum.splits)

end
