(* ===== verification/Web_Http.thy ===== *)
theory Web_Http
  imports Broker_Client Text
begin

text \<open>
  What the web front end (\<open>internal/web\<close>) uses of \<open>net/http\<close>, \<open>net\<close> and \<open>net/url\<close>: requests with their parsed form, the
  response writer, the splitting of host and port, and the cross-origin check of \<open>http.CrossOriginProtection\<close>. The
  parsers of URLs, media types and query strings, the Unicode lower-casing and the HTML of a card are a record.
\<close>

section \<open>Requests and responses\<close>

type_synonym form = "(string, string list) gomap"

record request_session =
  rs_data :: session_response
  rs_token :: string

definition no_session :: request_session where
  "no_session = \<lparr>rs_data = \<lparr>resp_CSRF = [], resp_ExpiresAt = 0, resp_Identity = \<lparr>Admin = False, Groups = [], UID = 0, Username = []\<rparr>\<rparr>, rs_token = []\<rparr>"

text \<open>
  A request. \<open>wr_Cookie\<close> is the session cookie, \<open>wr_Form\<close> the form once it has been parsed, \<open>wr_Session\<close> the session in
  the context of the request; a header that is not there is the empty string, as \<open>Header.Get\<close> returns it.
\<close>

record web_request =
  wr_Method :: string
  wr_Path :: string
  wr_RawQuery :: string
  wr_Host :: string
  wr_RemoteAddr :: string
  wr_TLS :: bool
  wr_Cookie :: "string option"
  wr_HX :: string
  wr_FetchSite :: string
  wr_Origin :: string
  wr_ContentType :: string
  wr_Body :: string
  wr_Form :: "form option"
  wr_Session :: "request_session option"

record cookie =
  ck_Name :: string
  ck_Value :: string
  ck_Path :: string
  ck_HttpOnly :: bool
  ck_MaxAge :: int
  ck_SameSiteStrict :: bool
  ck_Secure :: bool

record confirmation_field =
  cf_Name :: string
  cf_Value :: string

datatype page_body =
    Confirmation string string string string string "confirmation_field list"
  | Dashboard "dashboard_card list"
  | ModuleBody string

record layout_data =
  ld_Active :: string
  ld_CSRF :: string
  ld_Eyebrow :: string
  ld_Flash :: string
  ld_FlashKind :: string
  ld_Identity :: identity
  ld_Modules :: "manifest list"
  ld_Path :: string
  ld_Title :: string

datatype page = Plain string | Anchor string | Login string string string | Layout layout_data page_body | Asset string

text \<open>
  The response writer: once the status is written, later headers and a second status have no effect.
\<close>

record writer =
  wt_Status :: "int option"
  wt_Header :: "(string, string) gomap"
  wt_Cookies :: "cookie list"
  wt_Body :: "page list"

definition new_writer :: writer where
  "new_writer = \<lparr>wt_Status = None, wt_Header = [], wt_Cookies = [], wt_Body = []\<rparr>"

definition set_header :: "string \<Rightarrow> string \<Rightarrow> writer \<Rightarrow> writer" where
  "set_header k v w = (if wt_Status w = None then w\<lparr>wt_Header := AList.update k v (wt_Header w)\<rparr> else w)"

definition set_cookie :: "cookie \<Rightarrow> writer \<Rightarrow> writer" where
  "set_cookie c w = (if wt_Status w = None then w\<lparr>wt_Cookies := wt_Cookies w @ [c]\<rparr> else w)"

definition write_header :: "int \<Rightarrow> writer \<Rightarrow> writer" where
  "write_header s w = (if wt_Status w = None then w\<lparr>wt_Status := Some s\<rparr> else w)"

definition write_body :: "page \<Rightarrow> writer \<Rightarrow> writer" where
  "write_body p w = (let w1 = write_header 200 w in w1\<lparr>wt_Body := wt_Body w1 @ [p]\<rparr>)"

definition http_Error :: "string \<Rightarrow> int \<Rightarrow> writer \<Rightarrow> writer" where
  "http_Error msg code w = write_body (Plain (msg @ [char_of (10::nat)])) (write_header code
     (set_header ''X-Content-Type-Options'' ''nosniff'' (set_header ''Content-Type'' ''text/plain; charset=utf-8'' w)))"

definition http_Redirect :: "web_request \<Rightarrow> string \<Rightarrow> int \<Rightarrow> writer \<Rightarrow> writer" where
  "http_Redirect r url code w =
     (let hadCT = map_of (wt_Header w) ''Content-Type'' \<noteq> None;
          w1 = set_header ''Location'' url w;
          w2 = (if \<not> hadCT \<and> (wr_Method r = ''GET'' \<or> wr_Method r = ''HEAD'') then set_header ''Content-Type'' ''text/html; charset=utf-8'' w1 else w1);
          w3 = write_header code w2
      in if \<not> hadCT \<and> wr_Method r = ''GET'' then write_body (Anchor url) w3 else w3)"

section \<open>Parsers\<close>

record web_url =
  u_Scheme :: string
  u_Host :: string
  u_User :: bool
  u_Path :: string
  u_RawQuery :: string
  u_Fragment :: string

record web_lib =
  wl_url :: "string \<Rightarrow> web_url result"
  wl_media :: "string \<Rightarrow> string result"
  wl_query :: "string \<Rightarrow> form \<times> error option"
  wl_lower :: "string \<Rightarrow> string"
  wl_caps :: "string \<Rightarrow> cap_id list result"
  wl_error_card :: "string \<Rightarrow> error \<Rightarrow> string"

text \<open>\<open>Request.ParseForm\<close> under a \<open>MaxBytesReader\<close> with the given limit, and \<open>Request.FormValue\<close> after it.\<close>

definition copy_values :: "form \<Rightarrow> form \<Rightarrow> form" where
  "copy_values dst src = foldl (\<lambda>f (k, vs). AList.update k ((case map_of f k of None \<Rightarrow> [] | Some us \<Rightarrow> us) @ vs) f) dst src"

definition parse_post_form :: "web_lib \<Rightarrow> nat \<Rightarrow> web_request \<Rightarrow> form \<times> error option" where
  "parse_post_form L limit r =
     (case wl_media L (if wr_ContentType r = [] then ''application/octet-stream'' else wr_ContentType r) of
        Inl e \<Rightarrow> ([], Some e)
      | Inr ct \<Rightarrow> if ct = ''application/x-www-form-urlencoded''
          then (if length (wr_Body r) > limit then ([], Some (Sentinel ''http: request body too large'')) else wl_query L (wr_Body r))
          else ([], None))"

definition ParseForm :: "web_lib \<Rightarrow> nat \<Rightarrow> web_request \<Rightarrow> error option \<times> web_request" where
  "ParseForm L limit r = (if wr_Form r \<noteq> None then (None, r) else
     (let (posted, err) = (if wr_Method r \<in> {''POST'', ''PUT'', ''PATCH''} then parse_post_form L limit r else ([], None));
          (queried, err') = wl_query L (wr_RawQuery r)
      in (if err = None then err' else err, r\<lparr>wr_Form := Some (copy_values posted queried)\<rparr>)))"

definition first_value :: "form \<Rightarrow> string \<Rightarrow> string" where
  "first_value f k = (case map_of f k of Some (v # _) \<Rightarrow> v | _ \<Rightarrow> [])"

definition FormValue :: "web_request \<Rightarrow> string \<Rightarrow> string" where
  "FormValue r k = (case wr_Form r of None \<Rightarrow> [] | Some f \<Rightarrow> first_value f k)"

section \<open>Hosts and ports\<close>

text \<open>Cutting at the last occurrence of a byte.\<close>

definition cut_last :: "char \<Rightarrow> string \<Rightarrow> (string \<times> string) option" where
  "cut_last c s = map_option (\<lambda>(a, b). (rev b, rev a)) (cut c (rev s))"

text \<open>\<open>URL.Hostname\<close> and \<open>URL.Port\<close>.\<close>

definition url_host_port :: "string \<Rightarrow> string \<times> string" where
  "url_host_port h =
     (let (host, port) = (case cut_last (CHR '':'') h of Some (a, b) \<Rightarrow> if list_all is_digit b then (a, b) else (h, []) | None \<Rightarrow> (h, []))
      in (if prefix ''['' host \<and> suffix '']'' host then butlast (tl host) else host, port))"

text \<open>\<open>net.SplitHostPort\<close>, the host only, and \<open>net.JoinHostPort\<close>.\<close>

definition SplitHostPort :: "string \<Rightarrow> string option" where
  "SplitHostPort s = (case cut_last (CHR '':'') s of None \<Rightarrow> None
   | Some (before, _) \<Rightarrow>
       if prefix ''['' s
       then (case cut (CHR '']'') s of None \<Rightarrow> None
         | Some (inside, rest) \<Rightarrow>
             if length inside + 1 \<noteq> length before then None
             else if CHR ''['' \<in> set (tl s) \<or> CHR '']'' \<in> set rest then None
             else Some (tl inside))
       else if CHR '':'' \<in> set before \<or> CHR ''['' \<in> set s \<or> CHR '']'' \<in> set s then None
       else Some before)"

definition JoinHostPort :: "string \<Rightarrow> string \<Rightarrow> string" where
  "JoinHostPort host port = (if CHR '':'' \<in> set host then ''['' @ host @ '']:'' @ port else host @ '':'' @ port)"

section \<open>The cross-origin check\<close>

text \<open>\<open>AddTrustedOrigin\<close> and \<open>Check\<close>; no bypass pattern is registered.\<close>

definition AddTrustedOrigin :: "web_lib \<Rightarrow> string \<Rightarrow> string list \<Rightarrow> error option \<times> string list" where
  "AddTrustedOrigin L origin trusted = (case wl_url L origin of
     Inl e \<Rightarrow> (Some (Wrapf ''invalid origin %q: %w'' [origin] e), trusted)
   | Inr u \<Rightarrow> if u_Scheme u = [] then (Some (Errorf ''invalid origin %q: scheme is required'' [origin]), trusted)
       else if u_Host u = [] then (Some (Errorf ''invalid origin %q: host is required'' [origin]), trusted)
       else if u_Path u \<noteq> [] \<or> u_RawQuery u \<noteq> [] \<or> u_Fragment u \<noteq> []
       then (Some (Errorf ''invalid origin %q: path, query, and fragment are not allowed'' [origin]), trusted)
       else (None, List.insert origin trusted))"

definition cross_origin_ok :: "web_lib \<Rightarrow> string list \<Rightarrow> web_request \<Rightarrow> bool" where
  "cross_origin_ok L trusted r =
     (if wr_Method r \<in> {''GET'', ''HEAD'', ''OPTIONS''} then True
      else if wr_FetchSite r = ''same-origin'' \<or> wr_FetchSite r = ''none'' then True
      else if wr_FetchSite r \<noteq> [] then wr_Origin r \<in> set trusted
      else if wr_Origin r = [] then True
      else if (case wl_url L (wr_Origin r) of Inl _ \<Rightarrow> False | Inr u \<Rightarrow> u_Host u = wr_Host r) then True
      else wr_Origin r \<in> set trusted)"

lemma parsed_form: "ParseForm L limit r = (e, r') \<Longrightarrow> r' = r\<lparr>wr_Form := wr_Form r'\<rparr>"
  by (cases "wr_Form r") (auto simp: ParseForm_def Let_def split: prod.splits if_splits)

lemma writer_primitives [simp]:
  "wt_Status (set_header k v w) = wt_Status w" "wt_Status (set_cookie c w) = wt_Status w"
  "wt_Status (write_header s w) = (case wt_Status w of None \<Rightarrow> Some s | Some t \<Rightarrow> Some t)"
  "wt_Cookies (set_header k v w) = wt_Cookies w"
  "wt_Cookies (set_cookie c w) = (if wt_Status w = None then wt_Cookies w @ [c] else wt_Cookies w)"
  "wt_Cookies (write_header s w) = wt_Cookies w"
  by (auto simp: set_header_def set_cookie_def write_header_def split: option.splits)

lemma write_body_simps [simp]:
  "wt_Status (write_body p w) = (case wt_Status w of None \<Rightarrow> Some 200 | Some t \<Rightarrow> Some t)"
  "wt_Cookies (write_body p w) = wt_Cookies w"
  by (simp_all add: write_body_def Let_def)

lemma status_twice [simp]:
  "(case (case x of None \<Rightarrow> Some s | Some t \<Rightarrow> Some t) of None \<Rightarrow> Some u | Some t \<Rightarrow> Some t) = (case x of None \<Rightarrow> Some s | Some t \<Rightarrow> Some t)"
  by (simp split: option.split)

lemma http_Error_simps [simp]:
  "wt_Status (http_Error m s w) = (case wt_Status w of None \<Rightarrow> Some s | Some t \<Rightarrow> Some t)"
  "wt_Cookies (http_Error m s w) = wt_Cookies w"
  by (simp_all add: http_Error_def)

lemma http_Redirect_simps [simp]:
  "wt_Status (http_Redirect r u s w) = (case wt_Status w of None \<Rightarrow> Some s | Some t \<Rightarrow> Some t)"
  "wt_Cookies (http_Redirect r u s w) = wt_Cookies w"
  by (simp_all add: http_Redirect_def Let_def)

lemma new_writer_simps [simp]: "wt_Status new_writer = None" "wt_Cookies new_writer = []"
  by (simp_all add: new_writer_def)

end
