(* ===== verification/Web_Server.thy ===== *)
theory Web_Server
  imports Web_Http
begin

text \<open>
  The web front end (\<open>internal/web/server.go\<close> and \<open>capabilities.go\<close>): the capability cache, the host interface that
  the modules call, the chain of handlers around the routes, and the pages of its own. The broker is the record
  \<open>broker_client\<close>; the handlers that modules and the embedded assets mount are the argument \<open>mounted\<close>. Log
  records and the bounded contexts of the broker calls are not modelled.
\<close>

section \<open>The capability cache\<close>

record capability_cache =
  ca_caps :: cap_set
  ca_down :: bool

definition cache_get :: "capability_cache \<Rightarrow> cap_set" where
  "cache_get c = ca_caps c"

definition cache_set :: "cap_set \<Rightarrow> capability_cache \<Rightarrow> capability_cache" where
  "cache_set caps c = c\<lparr>ca_caps := caps, ca_down := False\<rparr>"

definition noteResult :: "error option \<Rightarrow> capability_cache \<Rightarrow> capability_cache" where
  "noteResult err c = (case err of None \<Rightarrow> c | Some e \<Rightarrow> if \<not> errors_is e broker_ErrUnavailable then c else c\<lparr>ca_down := True\<rparr>)"

definition staleAfterOutage :: "capability_cache \<Rightarrow> bool" where
  "staleAfterOutage c = ca_down c"

section \<open>The server\<close>

definition sessionCookie :: string where "sessionCookie = ''pilothouse_session''"

record 'w web_state =
  ws_cache :: capability_cache
  ws_world :: 'w

text \<open>The cards of a module run in the context of the request, which carries its session.\<close>

type_synonym 'w card_env = "request_session \<times> 'w web_state"

record 'w web_server =
  wb_broker :: "'w broker_client"
  wb_crossOrigin :: "string list"
  wb_loginCSRF :: string
  wb_registry :: "'w card_env registry"
  wb_secureCookie :: bool

type_synonym 'w handler = "web_request \<Rightarrow> writer \<Rightarrow> 'w web_state \<Rightarrow> writer \<times> 'w web_state"

definition normalizeOrigin :: "web_lib \<Rightarrow> string \<Rightarrow> string result" where
  "normalizeOrigin L value = (case wl_url L (trim_space value) of
     Inl e \<Rightarrow> Inl e
   | Inr u \<Rightarrow> (let scheme = to_lower (wl_lower L) (u_Scheme u) in
       if (scheme \<noteq> ''http'' \<and> scheme \<noteq> ''https'') \<or> u_Host u = [] \<or> u_User u \<or> u_RawQuery u \<noteq> [] \<or> u_Fragment u \<noteq> []
       then Inl (Errorf ''must be an absolute HTTP(S) origin'' [])
       else if u_Path u \<noteq> [] \<and> u_Path u \<noteq> ''/'' then Inl (Errorf ''must not contain a path'' [])
       else
         let hostname = to_lower (wl_lower L) (fst (url_host_port (u_Host u)));
             port = snd (url_host_port (u_Host u));
             port' = (if (scheme = ''http'' \<and> port = ''80'') \<or> (scheme = ''https'' \<and> port = ''443'') then [] else port);
             host = (if port' \<noteq> [] then JoinHostPort hostname port' else if contains hostname '':'' then ''['' @ hostname @ '']'' else hostname)
         in Inr (scheme @ ''://'' @ host)))"

fun trust_origins :: "web_lib \<Rightarrow> string list \<Rightarrow> string list \<Rightarrow> bool \<Rightarrow> (string list \<times> bool) result" where
  "trust_origins L [] trusted secure = Inr (trusted, secure)"
| "trust_origins L (origin # origins) trusted secure = (case normalizeOrigin L origin of
     Inl e \<Rightarrow> Inl (Wrapf ''allowed origin %q: %w'' [origin] e)
   | Inr key \<Rightarrow> (case AddTrustedOrigin L key trusted of
       (Some e, _) \<Rightarrow> Inl (Wrapf ''allowed origin %q: %w'' [origin] e)
     | (None, trusted') \<Rightarrow> trust_origins L origins trusted' (if prefix ''https://'' key then True else secure)))"

definition web_NewServer :: "web_lib \<Rightarrow> string result \<Rightarrow> 'w card_env registry \<Rightarrow> 'w broker_client \<Rightarrow> bool \<Rightarrow> string list \<Rightarrow>
    'w web_server result" where
  "web_NewServer L token r b secureCookie allowedOrigins = (case token of
     Inl e \<Rightarrow> Inl (Wrapf ''generate login csrf token: %w'' [] e)
   | Inr tok \<Rightarrow> (case trust_origins L allowedOrigins [] secureCookie of
       Inl e \<Rightarrow> Inl e
     | Inr (trusted, secure) \<Rightarrow> Inr \<lparr>wb_broker = b, wb_crossOrigin = trusted, wb_loginCSRF = tok, wb_registry = r,
         wb_secureCookie = secure\<rparr>))"

definition sessionFromContext :: "web_request \<Rightarrow> request_session" where
  "sessionFromContext r = (case wr_Session r of None \<Rightarrow> no_session | Some s \<Rightarrow> s)"

definition Capabilities :: "'w web_state \<Rightarrow> cap_set" where
  "Capabilities st = cache_get (ws_cache st)"

definition CSRFToken :: "web_request \<Rightarrow> string" where
  "CSRFToken r = resp_CSRF (rs_data (sessionFromContext r))"

definition Identity :: "web_request \<Rightarrow> identity" where
  "Identity r = resp_Identity (rs_data (sessionFromContext r))"

definition note_call :: "error option \<Rightarrow> 'w \<Rightarrow> 'w web_state \<Rightarrow> 'w web_state" where
  "note_call err w st = \<lparr>ws_cache = noteResult err (ws_cache st), ws_world = w\<rparr>"

definition web_Execute :: "'w web_server \<Rightarrow> web_request \<Rightarrow> string \<Rightarrow> params \<Rightarrow> 'w web_state \<Rightarrow> error option \<times> 'w web_state" where
  "web_Execute s r action parameters st =
     (let session = sessionFromContext r in
      if rs_token session = [] then (Some broker_ErrUnauthorized, st)
      else (case bc_Action (wb_broker s) (rs_token session) action parameters (FormValue r ''confirmation'') (ws_world st) of
        (err, w) \<Rightarrow> (err, note_call err w st)))"

definition result_error :: "'a result \<Rightarrow> error option" where
  "result_error x = (case x of Inl e \<Rightarrow> Some e | Inr _ \<Rightarrow> None)"

definition web_Query :: "'w web_server \<Rightarrow> web_request \<Rightarrow> string \<Rightarrow> params \<Rightarrow> 'w web_state \<Rightarrow> string result \<times> 'w web_state" where
  "web_Query s r i parameters st =
     (let session = sessionFromContext r in
      if rs_token session = [] then (Inl broker_ErrUnauthorized, st)
      else (case bc_Query (wb_broker s) (rs_token session) i parameters (ws_world st) of
        (res, w) \<Rightarrow> (res, note_call (result_error res) w st)))"

definition web_StreamAction :: "'w web_server \<Rightarrow> web_request \<Rightarrow> string \<Rightarrow> params \<Rightarrow> string \<Rightarrow> 'w web_state \<Rightarrow> error option \<times> 'w web_state" where
  "web_StreamAction s r i parameters body st =
     (let session = sessionFromContext r in
      if rs_token session = [] then (Some broker_ErrUnauthorized, st)
      else (case bc_StreamAction (wb_broker s) (rs_token session) i parameters body (ws_world st) of
        (err, w) \<Rightarrow> (err, note_call err w st)))"

definition web_StreamQuery :: "'w web_server \<Rightarrow> web_request \<Rightarrow> string \<Rightarrow> params \<Rightarrow> 'w web_state \<Rightarrow> stream_result result \<times> 'w web_state" where
  "web_StreamQuery s r i parameters st =
     (let session = sessionFromContext r in
      if rs_token session = [] then (Inl broker_ErrUnauthorized, st)
      else (case bc_StreamQuery (wb_broker s) (rs_token session) i parameters (ws_world st) of
        (res, w) \<Rightarrow> (res, note_call (result_error res) w st)))"

definition moduleAvailable :: "'w pmodule \<Rightarrow> cap_set \<Rightarrow> bool" where
  "moduleAvailable module caps = (Available module caps \<and> AvailableAny module caps)"

definition availableManifests :: "'w web_server \<Rightarrow> 'w web_state \<Rightarrow> manifest list" where
  "availableManifests s st = map mo_Manifest (filter (\<lambda>m. moduleAvailable m (Capabilities st)) (reg_Modules (wb_registry s)))"

definition Render :: "web_lib \<Rightarrow> 'w web_server \<Rightarrow> web_request \<Rightarrow> string \<Rightarrow> page_body \<Rightarrow> string \<Rightarrow> string \<Rightarrow> writer \<Rightarrow> 'w web_state \<Rightarrow> writer" where
  "Render L s r active body eyebrow title w st =
     (let query = fst (wl_query L (wr_RawQuery r)) in
      write_body (Layout \<lparr>ld_Active = active, ld_CSRF = CSRFToken r, ld_Eyebrow = eyebrow, ld_Flash = first_value query ''notice'',
          ld_FlashKind = first_value query ''kind'', ld_Identity = Identity r, ld_Modules = availableManifests s st,
          ld_Path = wr_Path r, ld_Title = title\<rparr> body)
        (set_header ''Content-Type'' ''text/html; charset=utf-8'' (set_header ''Cache-Control'' ''no-store'' w)))"

definition moduleRoot :: "string \<Rightarrow> string" where
  "moduleRoot path =
     (let trimmed = (if prefix ''/'' path then tl path else path);
          segment = (case cut slash trimmed of None \<Rightarrow> trimmed | Some (a, _) \<Rightarrow> a)
      in if segment = [] then ''/'' else ''/'' @ segment)"

definition field_cmp :: "confirmation_field \<Rightarrow> confirmation_field \<Rightarrow> int" where
  "field_cmp a b = (if cf_Name a < cf_Name b then -1 else if cf_Name a > cf_Name b then 1 else 0)"

definition confirmation_fields :: "form \<Rightarrow> confirmation_field list" where
  "confirmation_fields f = concat (map (\<lambda>(name, values). if name = ''csrf'' \<or> name = ''confirmation'' then []
     else map (\<lambda>v. \<lparr>cf_Name = name, cf_Value = v\<rparr>) values) f)"

definition ConfirmAction :: "web_lib \<Rightarrow> 'w web_server \<Rightarrow> web_request \<Rightarrow> string \<Rightarrow> string \<Rightarrow> writer \<Rightarrow> 'w web_state \<Rightarrow> bool \<times> writer" where
  "ConfirmAction L s r title resource w st =
     (if FormValue r ''confirmation'' = resource then (True, w)
      else (False, Render L s r [] (Confirmation (wr_Path r) (moduleRoot (wr_Path r)) title resource (CSRFToken r)
          (sort_by field_cmp (confirmation_fields (case wr_Form r of None \<Rightarrow> [] | Some f \<Rightarrow> f))))
        ''Action confirmation'' ''Confirm action'' w st))"

section \<open>Guards\<close>

definition validateOrigin :: "web_lib \<Rightarrow> 'w web_server \<Rightarrow> web_request \<Rightarrow> writer \<Rightarrow> bool \<times> writer" where
  "validateOrigin L s r w = (if cross_origin_ok L (wb_crossOrigin s) r then (True, w)
     else (False, http_Error ''cross-origin action rejected'' 403 w))"

text \<open>The request comes back with its form parsed.\<close>

definition ValidateAction :: "web_lib \<Rightarrow> 'w web_server \<Rightarrow> web_request \<Rightarrow> writer \<Rightarrow> bool \<times> web_request \<times> writer" where
  "ValidateAction L s r w =
     (if rs_token (sessionFromContext r) = [] then (False, r, http_Error ''authentication required'' 401 w)
      else (case ParseForm L 16384 r of
        (Some e, r') \<Rightarrow> (False, r', http_Error ''invalid form'' 400 w)
      | (None, r') \<Rightarrow> if FormValue r' ''csrf'' \<noteq> CSRFToken r' then (False, r', http_Error ''invalid csrf token'' 403 w)
          else (case validateOrigin L s r' w of (ok, w') \<Rightarrow> (ok, r', w'))))"

definition ValidateActionToken :: "web_lib \<Rightarrow> 'w web_server \<Rightarrow> web_request \<Rightarrow> string \<Rightarrow> writer \<Rightarrow> bool \<times> writer" where
  "ValidateActionToken L s r token w =
     (if rs_token (sessionFromContext r) = [] then (False, http_Error ''authentication required'' 401 w)
      else if token \<noteq> CSRFToken r then (False, http_Error ''invalid csrf token'' 403 w)
      else validateOrigin L s r w)"

definition publicPath :: "string \<Rightarrow> bool" where
  "publicPath path \<longleftrightarrow> path = ''/healthz'' \<or> path = ''/readyz'' \<or> path = ''/login'' \<or> prefix ''/static/'' path"

definition remoteHost :: "string \<Rightarrow> string" where
  "remoteHost address = (case SplitHostPort address of Some host \<Rightarrow> host | None \<Rightarrow> address)"

definition newSessionCookie :: "'w web_server \<Rightarrow> web_request \<Rightarrow> string \<Rightarrow> int \<Rightarrow> cookie" where
  "newSessionCookie s r value maxAge = \<lparr>ck_Name = sessionCookie, ck_Value = value, ck_Path = ''/'', ck_HttpOnly = True, ck_MaxAge = maxAge,
     ck_SameSiteStrict = True, ck_Secure = (wb_secureCookie s \<or> wr_TLS r)\<rparr>"

definition setSessionCookie :: "'w web_server \<Rightarrow> web_request \<Rightarrow> string \<Rightarrow> writer \<Rightarrow> writer" where
  "setSessionCookie s r token w = set_cookie (newSessionCookie s r token 0) w"

definition clearSessionCookie :: "'w web_server \<Rightarrow> web_request \<Rightarrow> writer \<Rightarrow> writer" where
  "clearSessionCookie s r w = set_cookie (newSessionCookie s r [] (-1)) w"

definition redirectToLogin :: "web_request \<Rightarrow> writer \<Rightarrow> writer" where
  "redirectToLogin r w = (if wr_HX r = ''true'' then write_header 401 (set_header ''HX-Redirect'' ''/login'' w)
     else http_Redirect r ''/login'' 303 w)"

definition security_headers :: "writer \<Rightarrow> writer" where
  "security_headers w = set_header ''X-Frame-Options'' ''DENY'' (set_header ''X-Content-Type-Options'' ''nosniff''
     (set_header ''Referrer-Policy'' ''no-referrer'' (set_header ''Content-Security-Policy''
       (''default-src 'self'; img-src 'self' data:; style-src 'self' 'unsafe-inline'; script-src 'self'; connect-src 'self'; frame-ancestors 'none'; form-action 'self'' @ [CHR 0x27]) w)))"

definition securityHeaders :: "'w handler \<Rightarrow> 'w handler" where
  "securityHeaders next_handler r w st = next_handler r (security_headers w) st"

section \<open>Handlers\<close>

definition refreshCapabilities :: "web_lib \<Rightarrow> 'w web_server \<Rightarrow> string \<Rightarrow> 'w web_state \<Rightarrow> 'w web_state" where
  "refreshCapabilities L s token st = (case bc_Query (wb_broker s) token QueryCapabilities [] (ws_world st) of
     (Inl e, w) \<Rightarrow> note_call (Some e) w st
   | (Inr raw, w) \<Rightarrow> (case cap_UnmarshalJSON (wl_caps L) no_caps raw of
       (Some e, _) \<Rightarrow> note_call (Some (Wrapf ''decode broker query result: %w'' [] e)) w st
     | (None, caps) \<Rightarrow> \<lparr>ws_cache = cache_set caps (ws_cache st), ws_world = w\<rparr>))"

definition authenticate :: "web_lib \<Rightarrow> 'w web_server \<Rightarrow> 'w handler \<Rightarrow> 'w handler" where
  "authenticate L s next_handler r w st =
     (if publicPath (wr_Path r) then next_handler r w st
      else (case wr_Cookie r of
        None \<Rightarrow> (redirectToLogin r w, st)
      | Some token \<Rightarrow> if token = [] then (redirectToLogin r w, st)
          else (case bc_Session (wb_broker s) token (ws_world st) of
            (Inl e, v) \<Rightarrow>
              if errors_is e broker_ErrUnauthorized
              then (redirectToLogin r (clearSessionCookie s r w), st\<lparr>ws_world := v\<rparr>)
              else (http_Error ''privileged broker unavailable'' 503 w, note_call (Some e) v st)
          | (Inr session, v) \<Rightarrow>
              let st1 = st\<lparr>ws_world := v\<rparr>;
                  st2 = (if staleAfterOutage (ws_cache st1) then refreshCapabilities L s token st1 else st1)
              in next_handler (r\<lparr>wr_Session := Some \<lparr>rs_data = session, rs_token = token\<rparr>\<rparr>) w st2)))"

fun collect_cards :: "web_lib \<Rightarrow> cap_set \<Rightarrow> 'w card_env pmodule list \<Rightarrow> 'w card_env \<Rightarrow> dashboard_card list \<times> 'w card_env" where
  "collect_cards L caps [] env = ([], env)"
| "collect_cards L caps (m # ms) env =
     (if \<not> moduleAvailable m caps then collect_cards L caps ms env
      else (case mo_Dashboard m env of
        (Inl e, env') \<Rightarrow> (case collect_cards L caps ms env' of (cards, env'') \<Rightarrow>
            (\<lparr>dc_Component = wl_error_card L (mf_Name (mo_Manifest m)) e, dc_Order = mf_Order (mo_Manifest m), dc_Span = SpanHalf\<rparr> # cards, env''))
      | (Inr moduleCards, env') \<Rightarrow> (case collect_cards L caps ms env' of (cards, env'') \<Rightarrow> (moduleCards @ cards, env''))))"

definition card_cmp :: "dashboard_card \<Rightarrow> dashboard_card \<Rightarrow> int" where
  "card_cmp a b = wrap64 (dc_Order a - dc_Order b)"

definition greeting :: "int \<Rightarrow> string" where
  "greeting hour = (if hour < 12 then ''Good morning'' else if hour < 18 then ''Good afternoon'' else ''Good evening'')"

definition web_dashboard :: "web_lib \<Rightarrow> int \<Rightarrow> 'w web_server \<Rightarrow> 'w handler" where
  "web_dashboard L hour s r w st =
     (case collect_cards L (Capabilities st) (reg_Modules (wb_registry s)) (sessionFromContext r, st) of
        (cards, (_, st')) \<Rightarrow> (Render L s r ''dashboard'' (Dashboard (sort_by card_cmp cards)) ''System overview'' (greeting hour) w st', st'))"

definition renderLoginStatus :: "'w web_server \<Rightarrow> string \<Rightarrow> string \<Rightarrow> int \<Rightarrow> writer \<Rightarrow> writer" where
  "renderLoginStatus s message username status w = write_body (Login message username (wb_loginCSRF s))
     (write_header status (set_header ''Content-Type'' ''text/html; charset=utf-8'' (set_header ''Cache-Control'' ''no-store'' w)))"

definition renderLogin :: "'w web_server \<Rightarrow> string \<Rightarrow> string \<Rightarrow> writer \<Rightarrow> writer" where
  "renderLogin s message username w = renderLoginStatus s message username (if message \<noteq> [] then 401 else 200) w"

definition loginPage :: "'w web_server \<Rightarrow> 'w handler" where
  "loginPage s r w st = (case wr_Cookie r of
     None \<Rightarrow> (renderLogin s [] [] w, st)
   | Some token \<Rightarrow> if token = [] then (renderLogin s [] [] w, st)
       else (case bc_Session (wb_broker s) token (ws_world st) of
         (Inr _, v) \<Rightarrow> (http_Redirect r ''/'' 303 w, st\<lparr>ws_world := v\<rparr>)
       | (Inl _, v) \<Rightarrow> (renderLogin s [] [] w, st\<lparr>ws_world := v\<rparr>)))"

definition web_ready :: "'w web_server \<Rightarrow> 'w handler" where
  "web_ready s r w st = (case bc_Health (wb_broker s) (ws_world st) of
     (Some _, v) \<Rightarrow> (http_Error ''privileged broker unavailable'' 503 w, st\<lparr>ws_world := v\<rparr>)
   | (None, v) \<Rightarrow> (write_body (Plain (''ready'' @ [char_of (10::nat)])) (set_header ''Content-Type'' ''text/plain; charset=utf-8'' w),
       st\<lparr>ws_world := v\<rparr>))"

definition healthz :: "'w handler" where
  "healthz r w st = (write_body (Plain (''ok'' @ [char_of (10::nat)])) (set_header ''Content-Type'' ''text/plain; charset=utf-8'' w), st)"

definition web_login :: "web_lib \<Rightarrow> 'w web_server \<Rightarrow> 'w handler" where
  "web_login L s r w st = (case ParseForm L 8192 r of
     (Some e, _) \<Rightarrow> (http_Error ''invalid form'' 400 w, st)
   | (None, r1) \<Rightarrow>
       if FormValue r1 ''csrf'' \<noteq> wb_loginCSRF s then (http_Error ''invalid csrf token'' 403 w, st)
       else (case validateOrigin L s r1 w of
         (False, w1) \<Rightarrow> (w1, st)
       | (True, w1) \<Rightarrow>
           let username = trim_space (FormValue r1 ''username'') in
           (case bc_Login (wb_broker s) username (FormValue r1 ''password'') (remoteHost (wr_RemoteAddr r1)) (ws_world st) of
              (Inl e, v) \<Rightarrow>
                (if errors_is e broker_ErrUnavailable
                 then renderLoginStatus s ''Sign-in service is temporarily unavailable.'' username 503 w1
                 else renderLogin s ''Invalid username or password.'' username w1, st\<lparr>ws_world := v\<rparr>)
            | (Inr response, v) \<Rightarrow>
                (http_Redirect r1 ''/'' 303 (setSessionCookie s r1 (lrs_Token response) w1),
                 refreshCapabilities L s (lrs_Token response) (st\<lparr>ws_world := v\<rparr>)))))"

definition web_logout :: "web_lib \<Rightarrow> 'w web_server \<Rightarrow> 'w handler" where
  "web_logout L s r w st = (case ValidateAction L s r w of
     (False, _, w1) \<Rightarrow> (w1, st)
   | (True, r1, w1) \<Rightarrow> (case bc_Logout (wb_broker s) (rs_token (sessionFromContext r1)) (ws_world st) of
       (_, v) \<Rightarrow> (http_Redirect r1 ''/login'' 303 (clearSessionCookie s r1 w1), st\<lparr>ws_world := v\<rparr>)))"

text \<open>
  The routes: the server's own ones, matched as \<open>http.ServeMux\<close> does (a \<open>GET\<close> pattern also takes \<open>HEAD\<close>); everything
  else, the modules' routes and the assets included, is \<open>mounted\<close>.
\<close>

definition is_get :: "web_request \<Rightarrow> bool" where
  "is_get r \<longleftrightarrow> wr_Method r = ''GET'' \<or> wr_Method r = ''HEAD''"

definition mux_serve :: "web_lib \<Rightarrow> int \<Rightarrow> 'w web_server \<Rightarrow> 'w handler \<Rightarrow> 'w handler" where
  "mux_serve L hour s mounted r w st =
     (if is_get r \<and> wr_Path r = ''/healthz'' then healthz r w st
      else if is_get r \<and> wr_Path r = ''/readyz'' then web_ready s r w st
      else if is_get r \<and> wr_Path r = ''/login'' then loginPage s r w st
      else if wr_Method r = ''POST'' \<and> wr_Path r = ''/login'' then web_login L s r w st
      else if wr_Method r = ''POST'' \<and> wr_Path r = ''/logout'' then web_logout L s r w st
      else if is_get r \<and> wr_Path r = ''/'' then web_dashboard L hour s r w st
      else mounted r w st)"

definition web_Handler :: "web_lib \<Rightarrow> int \<Rightarrow> 'w web_server \<Rightarrow> 'w handler \<Rightarrow> 'w handler" where
  "web_Handler L hour s mounted = securityHeaders (authenticate L s (mux_serve L hour s mounted))"

end
