(* ===== verification/Web_Guards.thy ===== *)
theory Web_Guards
  imports Web_Server
begin

text \<open>
  What the web front end guarantees: no handler runs for a protected path without a session that the broker has
  just confirmed, a cookie is dropped only on the broker's word, the capabilities are fetched again after an
  outage, and signing in and out are refused without the right token and origin.
\<close>

section \<open>The chain of handlers\<close>

definition confirmed :: "'w web_server \<Rightarrow> web_request \<Rightarrow> 'w web_state \<Rightarrow> (request_session \<times> 'w) option" where
  "confirmed s r st = (case wr_Cookie r of None \<Rightarrow> None
   | Some token \<Rightarrow> if token = [] then None else (case bc_Session (wb_broker s) token (ws_world st) of
       (Inl _, _) \<Rightarrow> None | (Inr session, v) \<Rightarrow> Some (\<lparr>rs_data = session, rs_token = token\<rparr>, v)))"

lemma security_headers_simps [simp]:
  "wt_Status (security_headers w) = wt_Status w" "wt_Cookies (security_headers w) = wt_Cookies w"
  by (simp_all add: security_headers_def)

lemma redirectToLogin_simps [simp]:
  "wt_Status (redirectToLogin r w) = (case wt_Status w of None \<Rightarrow> Some (if wr_HX r = ''true'' then 401 else 303) | Some t \<Rightarrow> Some t)"
  "wt_Cookies (redirectToLogin r w) = wt_Cookies w"
  by (simp_all add: redirectToLogin_def)

lemma refreshCapabilities_caps:
  "ws_cache (refreshCapabilities L s token st) = ws_cache st \<or> ca_down (ws_cache (refreshCapabilities L s token st)) \<or>
   (\<exists>raw v ids. bc_Query (wb_broker s) token QueryCapabilities [] (ws_world st) = (Inr raw, v) \<and> wl_caps L raw = Inr ids \<and>
      ws_cache (refreshCapabilities L s token st) = \<lparr>ca_caps = cap_New ids, ca_down = False\<rparr>)"
  by (auto simp: refreshCapabilities_def note_call_def noteResult_def cache_set_def cap_UnmarshalJSON_def
      split: prod.splits sum.splits)

lemma authenticate_confirmed:
  assumes "\<not> publicPath (wr_Path r)" and "confirmed s r st = Some (session, v)"
  shows "authenticate L s h r w st = h (r\<lparr>wr_Session := Some session\<rparr>) w
     (if ca_down (ws_cache st) then refreshCapabilities L s (rs_token session) (st\<lparr>ws_world := v\<rparr>) else st\<lparr>ws_world := v\<rparr>)"
  using assms by (auto simp: authenticate_def confirmed_def staleAfterOutage_def Let_def split: option.splits if_splits prod.splits sum.splits)

lemma authenticate_refused:
  assumes "\<not> publicPath (wr_Path r)" and "confirmed s r st = None"
  shows "authenticate L s h r w st = authenticate L s h' r w st"
  using assms by (auto simp: authenticate_def confirmed_def split: option.splits if_splits prod.splits sum.splits)

text \<open>What a refused request gets when the broker was asked for the session and answered with an error.\<close>

lemma authenticate_error:
  assumes "\<not> publicPath (wr_Path r)" and "wr_Cookie r = Some token" and "token \<noteq> []"
    and "bc_Session (wb_broker s) token (ws_world st) = (Inl e, v)"
  shows "authenticate L s h r w st = (if errors_is e broker_ErrUnauthorized
      then (redirectToLogin r (clearSessionCookie s r w), st\<lparr>ws_world := v\<rparr>)
      else (http_Error ''privileged broker unavailable'' 503 w, note_call (Some e) v st))"
  using assms by (simp add: authenticate_def)

lemma noteResult_simps [simp]:
  "ca_caps (noteResult err c) = ca_caps c"
  "ca_down (noteResult (Some e) c) \<longleftrightarrow> ca_down c \<or> errors_is e broker_ErrUnavailable"
  by (simp_all add: noteResult_def split: option.splits)

lemma validateOrigin_iff:
  "fst (validateOrigin L s r w) \<longleftrightarrow> cross_origin_ok L (wb_crossOrigin s) r"
  "wt_Cookies (snd (validateOrigin L s r w)) = wt_Cookies w"
  "\<not> fst (validateOrigin L s r w) \<Longrightarrow> wt_Status w = None \<Longrightarrow> wt_Status (snd (validateOrigin L s r w)) = Some 403"
  "fst (validateOrigin L s r w) \<Longrightarrow> snd (validateOrigin L s r w) = w"
  by (simp_all add: validateOrigin_def split: if_splits)

text \<open>The conditions under which a form may act.\<close>

definition form_guard :: "web_lib \<Rightarrow> 'w web_server \<Rightarrow> nat \<Rightarrow> string \<Rightarrow> web_request \<Rightarrow> bool" where
  "form_guard L s limit token r \<longleftrightarrow> fst (ParseForm L limit r) = None \<and>
     FormValue (snd (ParseForm L limit r)) ''csrf'' = token \<and> cross_origin_ok L (wb_crossOrigin s) r"

lemma parsed_same:
  assumes "ParseForm L limit r = (e, r')"
  shows "cross_origin_ok L trusted r' = cross_origin_ok L trusted r" "CSRFToken r' = CSRFToken r"
    "sessionFromContext r' = sessionFromContext r" "wr_TLS r' = wr_TLS r" "wr_RemoteAddr r' = wr_RemoteAddr r"
proof -
  obtain f where r': "r' = r\<lparr>wr_Form := f\<rparr>" using parsed_form[OF assms] by blast
  show "cross_origin_ok L trusted r' = cross_origin_ok L trusted r" "CSRFToken r' = CSRFToken r"
    "sessionFromContext r' = sessionFromContext r" "wr_TLS r' = wr_TLS r" "wr_RemoteAddr r' = wr_RemoteAddr r"
    unfolding r' by (simp_all add: cross_origin_ok_def CSRFToken_def sessionFromContext_def cong: sum.case_cong)
qed

lemma ValidateAction_iff:
  "fst (ValidateAction L s r w) \<longleftrightarrow> rs_token (sessionFromContext r) \<noteq> [] \<and> form_guard L s 16384 (CSRFToken r) r"
  by (cases "ParseForm L 16384 r")
    (auto simp: ValidateAction_def form_guard_def validateOrigin_def parsed_same split: option.splits if_splits)

lemma ValidateAction_refuses:
  "\<not> fst (ValidateAction L s r w) \<Longrightarrow> wt_Status w = None \<Longrightarrow>
   wt_Cookies (snd (snd (ValidateAction L s r w))) = wt_Cookies w \<and> wt_Status (snd (snd (ValidateAction L s r w))) \<in> {Some 400, Some 401, Some 403}"
  by (cases "ParseForm L 16384 r")
    (auto simp: ValidateAction_def validateOrigin_def split: option.splits if_splits)

lemma ValidateAction_passes:
  assumes "ValidateAction L s r w = (True, r', w')"
  shows "w' = w \<and> sessionFromContext r' = sessionFromContext r \<and> wr_TLS r' = wr_TLS r"
  using assms by (cases "ParseForm L 16384 r")
    (auto simp: ValidateAction_def validateOrigin_def parsed_same split: option.splits if_splits)

section \<open>Properties\<close>

text \<open>Concrete environments, at which the properties below are applied: a broker that counts its calls.\<close>

definition example_lib :: web_lib where
  "example_lib = \<lparr>wl_url = (\<lambda>_. Inl (Errorf ''parse'' [])), wl_media = Inr,
     wl_query = (\<lambda>q. (if q = [] then [] else [(''csrf'', [q]), (''username'', ['' ann '']), (''password'', [''pw''])], None)),
     wl_lower = id, wl_caps = (\<lambda>_. Inr [Systemd]), wl_error_card = (\<lambda>n e. n)\<rparr>"

definition example_session :: session_response where
  "example_session = \<lparr>resp_CSRF = ''tok'', resp_ExpiresAt = 0, resp_Identity = \<lparr>Admin = False, Groups = [], UID = 1000, Username = ''ann''\<rparr>\<rparr>"

definition example_broker :: "nat broker_client" where
  "example_broker = \<lparr>bc_Action = (\<lambda>t i ps cf w. (None, Suc w)), bc_Health = (\<lambda>w. (None, Suc w)),
     bc_Login = (\<lambda>u p h w. if u = ''ann'' then (Inr \<lparr>lrs_Session = example_session, lrs_Token = ''good''\<rparr>, Suc w) else (Inl broker_ErrUnauthorized, Suc w)),
     bc_Logout = (\<lambda>t w. (None, Suc w)), bc_Query = (\<lambda>t i ps w. (Inr [], Suc w)),
     bc_Session = (\<lambda>t w. if w = 0 then (Inl broker_ErrUnavailable, Suc w) else if t = ''good'' then (Inr example_session, Suc w) else (Inl broker_ErrUnauthorized, Suc w)),
     bc_StreamAction = (\<lambda>t i ps b w. (None, Suc w)), bc_StreamQuery = (\<lambda>t i ps w. (Inl broker_ErrUnavailable, Suc w))\<rparr>"

definition example_server :: "'w broker_client \<Rightarrow> 'w web_server" where
  "example_server b = \<lparr>wb_broker = b, wb_crossOrigin = [], wb_loginCSRF = ''tok'', wb_registry = \<lparr>rg_modules = []\<rparr>, wb_secureCookie = True\<rparr>"

definition example_request :: "string \<Rightarrow> string \<Rightarrow> string option \<Rightarrow> web_request" where
  "example_request method path cookie = \<lparr>wr_Method = method, wr_Path = path, wr_RawQuery = [], wr_Host = ''host'', wr_RemoteAddr = ''10.0.0.1:99'',
     wr_TLS = False, wr_Cookie = cookie, wr_HX = [], wr_FetchSite = ''same-origin'', wr_Origin = [],
     wr_ContentType = ''application/x-www-form-urlencoded'', wr_Body = ''tok'', wr_Form = None, wr_Session = None\<rparr>"

definition example_state :: "'w \<Rightarrow> 'w web_state" where
  "example_state w = \<lparr>ws_cache = \<lparr>ca_caps = no_caps, ca_down = False\<rparr>, ws_world = w\<rparr>"

definition example_codec :: client_codec where
  "example_codec = \<lparr>cc_marshal = (\<lambda>_. Inr []), cc_url = (\<lambda>_. None), cc_error = id, cc_login = (\<lambda>_. Inl Canceled),
     cc_session = (\<lambda>_. Inr example_session), cc_query = Inr, cc_encode64 = id, cc_decode64 = Inr\<rparr>"

definition example_401 :: client_response where
  "example_401 = \<lparr>cr_StatusCode = 401, cr_Status = ''401 Unauthorized'', cr_Body = [], cr_ContentLength = 0, cr_StreamName = [], cr_ContentType = []\<rparr>"

definition example_exchange :: "nat exchange" where
  "example_exchange q w = (Inr example_401, Suc w)"

lemmas example_simps = example_lib_def example_session_def example_broker_def example_server_def example_request_def
  example_state_def publicPath_def confirmed_def

text \<open>
  C9. A protected path needs a confirmed session. Outside the public paths the request reaches the routes only when
  its cookie carries a token for which the broker has just answered a session; the routes then see exactly that
  session and that token. Otherwise the answer is the same whatever the routes are, with status 303, 401 or 503,
  and the broker has been asked at most for the session.
\<close>

theorem web_session_required:
  fixes st :: "'w web_state"
  assumes "\<not> publicPath (wr_Path r)"
  shows "case confirmed s r st of
      Some (session, v) \<Rightarrow> \<exists>st'. web_Handler L hour s mounted r new_writer st =
          mux_serve L hour s mounted (r\<lparr>wr_Session := Some session\<rparr>) (security_headers new_writer) st' \<and>
        (\<not> ca_down (ws_cache st) \<longrightarrow> st' = st\<lparr>ws_world := v\<rparr>)
    | None \<Rightarrow> (\<forall>mounted'. web_Handler L hour s mounted' r new_writer st = web_Handler L hour s mounted r new_writer st) \<and>
        (\<forall>h. web_Handler L hour s mounted r new_writer st = securityHeaders (authenticate L s h) r new_writer st) \<and>
        wt_Status (fst (web_Handler L hour s mounted r new_writer st)) \<in> {Some 303, Some 401, Some 503} \<and>
        (let v = ws_world (snd (web_Handler L hour s mounted r new_writer st)) in v = ws_world st \<or>
           (\<exists>token. wr_Cookie r = Some token \<and> v = snd (bc_Session (wb_broker s) token (ws_world st))))"
proof (cases "confirmed s r st")
  case None
  have eq: "web_Handler L hour s m r new_writer st = authenticate L s h r (security_headers new_writer) st" for m h
    unfolding web_Handler_def securityHeaders_def by (rule authenticate_refused[OF assms None])
  have "wt_Status (fst (authenticate L s h r (security_headers new_writer) st)) \<in> {Some 303, Some 401, Some 503} \<and>
     (let v = ws_world (snd (authenticate L s h r (security_headers new_writer) st)) in v = ws_world st \<or>
        (\<exists>token. wr_Cookie r = Some token \<and> v = snd (bc_Session (wb_broker s) token (ws_world st))))" for h
    using assms None by (auto simp: authenticate_def confirmed_def note_call_def clearSessionCookie_def Let_def
        split: option.splits if_splits prod.splits sum.splits)
  then show ?thesis using None eq by (simp add: securityHeaders_def) metis
next
  case (Some a)
  obtain session v where a: "a = (session, v)" by (cases a)
  show ?thesis using Some authenticate_confirmed[OF assms Some[unfolded a]] unfolding a
    by (auto simp: web_Handler_def securityHeaders_def)
qed

theorem web_session_required_witness:
  "\<not> publicPath ''/files'' \<and> (\<forall>mounted mounted'. web_Handler example_lib 9 (example_server example_broker) mounted'
       (example_request ''POST'' ''/files'' (Some ''stolen'')) new_writer (example_state 1) =
     web_Handler example_lib 9 (example_server example_broker) mounted (example_request ''POST'' ''/files'' (Some ''stolen'')) new_writer (example_state 1))"
proof -
  have pub: "\<not> publicPath (wr_Path (example_request ''POST'' ''/files'' (Some ''stolen'')))"
    and none: "confirmed (example_server example_broker) (example_request ''POST'' ''/files'' (Some ''stolen'')) (example_state 1) = None"
    by (simp_all add: example_simps)
  show ?thesis using web_session_required[OF pub, where s = "example_server example_broker" and st = "example_state 1" and L = example_lib and hour = 9] pub
    unfolding none by (simp add: example_request_def)
qed

text \<open>
  C35. The cookie is dropped on the broker's word only. When the broker is reached through its client and the session
  of a protected request is not confirmed, the session cookie is cleared exactly when the broker answered 401;
  every other failure answers 503 and keeps it. The cached capabilities stay, and they are marked for a refetch
  exactly when the exchange itself failed.
\<close>

theorem session_cookie_dropped_on_401:
  assumes "\<not> publicPath (wr_Path r)" and "wr_Cookie r = Some token" and "token \<noteq> []"
    and "wb_broker s = client_interface C c exchange" and "codec_ok C" and "cc_url C (cl_baseURL c @ ''/v1/session'') = None"
    and "exchange (sent ''GET'' ''/v1/session'' token []) (ws_world st) = (answer, v)"
    and "client_Session C c exchange token (ws_world st) = (Inl e, v')"
    and "web_Handler L hour s mounted r new_writer st = (resp, st')"
  shows "(case answer of Inr response \<Rightarrow> if cr_StatusCode response = 401
        then wt_Cookies resp = [newSessionCookie s r [] (-1)] \<and> wt_Status resp = Some (if wr_HX r = ''true'' then 401 else 303)
        else wt_Cookies resp = [] \<and> wt_Status resp = Some 503
      | Inl _ \<Rightarrow> wt_Cookies resp = [] \<and> wt_Status resp = Some 503) \<and>
    ca_caps (ws_cache st') = ca_caps (ws_cache st) \<and>
    (ca_down (ws_cache st') \<longleftrightarrow> ca_down (ws_cache st) \<or> (\<exists>x. answer = Inl x)) \<and> ws_world st' = v"
proof -
  have cls: "v' = v" "error_classes answer e" using client_Session_sent[OF assms(5-8)] by auto
  have ses: "bc_Session (wb_broker s) token (ws_world st) = (Inl e, v)"
    using assms(4,8) cls(1) by (simp add: client_interface_def)
  have "(resp, st') = authenticate L s (mux_serve L hour s mounted) r (security_headers new_writer) st"
    using assms(9) by (simp add: web_Handler_def securityHeaders_def)
  then show ?thesis unfolding authenticate_error[OF assms(1-3) ses]
    using cls(2) by (auto simp: error_classes_def note_call_def clearSessionCookie_def split: if_splits sum.splits)
qed

theorem session_cookie_dropped_on_401_witness:
  "\<exists>resp st'. web_Handler example_lib 9 (example_server (client_interface example_codec (NewClient ''s'') example_exchange)) (\<lambda>r w st. (w, st))
      (example_request ''GET'' ''/files'' (Some ''old'')) new_writer (example_state 0) = (resp, st') \<and> length (wt_Cookies resp) = 1"
proof -
  define r where "r = example_request ''GET'' ''/files'' (Some ''old'')"
  define s where "s = example_server (client_interface example_codec (NewClient ''s'') example_exchange)"
  obtain resp st' where h: "web_Handler example_lib 9 s (\<lambda>r w st. (w, st)) r new_writer (example_state 0) = (resp, st')"
    by (cases "web_Handler example_lib 9 s (\<lambda>r w st. (w, st)) r new_writer (example_state 0)")
  have ses: "client_Session example_codec (NewClient ''s'') example_exchange ''old'' (ws_world (example_state 0)) =
      (Inl (streamResponseError example_codec example_401), 1)"
    by (simp add: client_Session_def client_do_def decode_response_def example_codec_def example_exchange_def example_401_def example_state_def)
  have exchange_ok: "example_exchange (sent ''GET'' ''/v1/session'' ''old'' []) (ws_world (example_state 0)) = (Inr example_401, 1)"
    by (simp add: example_exchange_def example_state_def)
  have pre: "\<not> publicPath (wr_Path r)" "wr_Cookie r = Some ''old''"
    "wb_broker s = client_interface example_codec (NewClient ''s'') example_exchange" "codec_ok example_codec"
    "cc_url example_codec (cl_baseURL (NewClient ''s'') @ ''/v1/session'') = None"
    by (simp_all add: r_def s_def example_request_def example_server_def publicPath_def codec_ok_def own_error_def example_codec_def
        broker_ErrUnauthorized_def broker_ErrUnavailable_def)
  have "wt_Cookies resp = [newSessionCookie s r [] (-1)]"
    using session_cookie_dropped_on_401[where r = r and s = s and token = "''old''", OF pre(1-2) _ pre(3-5) exchange_ok ses h]
    by (simp add: example_401_def)
  then show ?thesis using h by (auto simp: r_def s_def)
qed

text \<open>
  Signing in is guarded. A posted login form reaches the broker only when it parses within 8 KiB, carries the
  login token and comes from an allowed origin; otherwise the state is untouched, no cookie is set and the status
  is 400 or 403. When it does reach the broker, the user name is sent trimmed, and a cookie is set exactly when
  the broker accepts: then it is the broker's token, \<open>HttpOnly\<close>, \<open>SameSite=Strict\<close> and secure whenever the
  connection is encrypted or an https origin is configured.
\<close>

theorem login_guarded:
  assumes "wr_Method r = ''POST''" and "wr_Path r = ''/login''"
    and "web_Handler L hour s mounted r new_writer st = (resp, st')"
  shows "if form_guard L s 8192 (wb_loginCSRF s) r
    then (case bc_Login (wb_broker s) (trim_space (FormValue (snd (ParseForm L 8192 r)) ''username''))
            (FormValue (snd (ParseForm L 8192 r)) ''password'') (remoteHost (wr_RemoteAddr r)) (ws_world st) of
        (Inl e, v) \<Rightarrow> wt_Cookies resp = [] \<and> st' = st\<lparr>ws_world := v\<rparr> \<and>
          wt_Status resp = Some (if errors_is e broker_ErrUnavailable then 503 else 401)
      | (Inr response, v) \<Rightarrow> (\<exists>ck. wt_Cookies resp = [ck] \<and> ck_Value ck = lrs_Token response \<and> ck_HttpOnly ck \<and> ck_SameSiteStrict ck \<and>
            (ck_Secure ck \<longleftrightarrow> wb_secureCookie s \<or> wr_TLS r)) \<and> wt_Status resp = Some 303)
    else st' = st \<and> wt_Cookies resp = [] \<and> wt_Status resp \<in> {Some 400, Some 403}"
proof -
  obtain e r1 where pf: "ParseForm L 8192 r = (e, r1)" by (cases "ParseForm L 8192 r")
  have "(resp, st') = web_login L s r (security_headers new_writer) st"
    using assms by (simp add: web_Handler_def securityHeaders_def authenticate_def publicPath_def mux_serve_def is_get_def)
  then show ?thesis unfolding web_login_def pf form_guard_def
    by (cases "bc_Login (wb_broker s) (trim_space (FormValue r1 ''username'')) (FormValue r1 ''password'') (remoteHost (wr_RemoteAddr r)) (ws_world st)")
      (auto simp: validateOrigin_def parsed_same[OF pf] renderLogin_def renderLoginStatus_def setSessionCookie_def
        newSessionCookie_def Let_def split: option.splits if_splits sum.splits)
qed

theorem login_guarded_witness:
  "\<exists>resp st' ck. web_Handler example_lib 9 (example_server example_broker) (\<lambda>r w st. (w, st)) (example_request ''POST'' ''/login'' None)
      new_writer (example_state 1) = (resp, st') \<and> wt_Cookies resp = [ck] \<and> ck_Value ck = ''good'' \<and> ck_Secure ck"
proof -
  define r where "r = example_request ''POST'' ''/login'' None"
  define s where "s = example_server example_broker"
  obtain resp st' where h: "web_Handler example_lib 9 s (\<lambda>r w st. (w, st)) r new_writer (example_state 1) = (resp, st')"
    by (cases "web_Handler example_lib 9 s (\<lambda>r w st. (w, st)) r new_writer (example_state 1)")
  have m: "wr_Method r = ''POST''" "wr_Path r = ''/login''" by (simp_all add: r_def example_request_def)
  have user: "trim_space '' ann '' = ''ann''" by (simp add: trim_space_def decode_rune_def is_space_def Let_def)
  have parsed: "ParseForm example_lib 8192 r = (None, r\<lparr>wr_Form := Some [(''csrf'', [''tok'']), (''username'', ['' ann '']), (''password'', [''pw''])]\<rparr>)"
    by (simp add: ParseForm_def parse_post_form_def r_def example_lib_def example_request_def copy_values_def)
  have "form_guard example_lib s 8192 (wb_loginCSRF s) r"
    unfolding form_guard_def parsed
    by (simp add: FormValue_def first_value_def cross_origin_ok_def s_def example_server_def r_def example_request_def)
  then show ?thesis
    using login_guarded[OF m h] h unfolding parsed
    by (auto simp: FormValue_def first_value_def s_def example_server_def example_broker_def r_def user)
qed

text \<open>
  Signing out is guarded. With a confirmed session, posting to \<open>/logout\<close> ends that session at the broker and
  clears the cookie exactly when the form parses within 16 KiB, carries the token of the session and comes from
  an allowed origin; otherwise the broker is not called, no cookie is touched and the status is 400 or 403.
\<close>

theorem logout_guarded:
  assumes "wr_Method r = ''POST''" and "wr_Path r = ''/logout''" and "confirmed s r st = Some (session, v)" and "\<not> ca_down (ws_cache st)"
    and "web_Handler L hour s mounted r new_writer st = (resp, st')"
  shows "if form_guard L s 16384 (resp_CSRF (rs_data session)) (r\<lparr>wr_Session := Some session\<rparr>)
    then st' = st\<lparr>ws_world := snd (bc_Logout (wb_broker s) (rs_token session) v)\<rparr> \<and>
      wt_Cookies resp = [newSessionCookie s r [] (-1)] \<and> wt_Status resp = Some 303
    else st' = st\<lparr>ws_world := v\<rparr> \<and> wt_Cookies resp = [] \<and> wt_Status resp \<in> {Some 400, Some 403}"
proof -
  define r0 where "r0 = r\<lparr>wr_Session := Some session\<rparr>"
  have pub: "\<not> publicPath (wr_Path r)" using assms(2) by (simp add: publicPath_def)
  have tok: "rs_token session \<noteq> []" using assms(3) by (auto simp: confirmed_def split: option.splits if_splits prod.splits sum.splits)
  have r0: "sessionFromContext r0 = session" "CSRFToken r0 = resp_CSRF (rs_data session)" "wr_TLS r0 = wr_TLS r"
    by (simp_all add: r0_def sessionFromContext_def CSRFToken_def)
  have eq: "(resp, st') = web_logout L s r0 (security_headers new_writer) (st\<lparr>ws_world := v\<rparr>)"
    using assms(5) authenticate_confirmed[OF pub assms(3)] assms(1,2,4)
    by (simp add: web_Handler_def securityHeaders_def mux_serve_def is_get_def r0_def)
  obtain e r1 where pf: "ParseForm L 16384 r0 = (e, r1)" by (cases "ParseForm L 16384 r0")
  have cookie: "newSessionCookie s r1 [] (-1) = newSessionCookie s r [] (-1)"
    using parsed_same(4)[OF pf] r0(3) by (simp add: newSessionCookie_def)
  show ?thesis unfolding r0_def[symmetric] using eq tok r0
    by (cases "bc_Logout (wb_broker s) (rs_token session) v")
      (auto simp: web_logout_def ValidateAction_def pf form_guard_def validateOrigin_def parsed_same[OF pf] clearSessionCookie_def cookie
        split: option.splits if_splits)
qed

theorem logout_guarded_witness:
  "\<exists>resp st'. web_Handler example_lib 9 (example_server example_broker) (\<lambda>r w st. (w, st)) (example_request ''POST'' ''/logout'' (Some ''good''))
      new_writer (example_state 1) = (resp, st') \<and> ws_world st' = 3 \<and> length (wt_Cookies resp) = 1"
proof -
  define r where "r = example_request ''POST'' ''/logout'' (Some ''good'')"
  define s where "s = example_server example_broker"
  obtain resp st' where h: "web_Handler example_lib 9 s (\<lambda>r w st. (w, st)) r new_writer (example_state 1) = (resp, st')"
    by (cases "web_Handler example_lib 9 s (\<lambda>r w st. (w, st)) r new_writer (example_state 1)")
  define session where "session = \<lparr>rs_data = example_session, rs_token = ''good''\<rparr>"
  have m: "wr_Method r = ''POST''" "wr_Path r = ''/logout''" "\<not> ca_down (ws_cache (example_state 1))"
      "confirmed s r (example_state 1) = Some (session, 2)"
    by (simp_all add: r_def s_def example_simps session_def)
  have parsed: "ParseForm example_lib 16384 (r\<lparr>wr_Session := Some session\<rparr>) = (None, r\<lparr>wr_Session := Some session,
      wr_Form := Some [(''csrf'', [''tok'']), (''username'', ['' ann '']), (''password'', [''pw''])]\<rparr>)"
    by (simp add: ParseForm_def parse_post_form_def r_def example_lib_def example_request_def copy_values_def)
  have "form_guard example_lib s 16384 (resp_CSRF (rs_data session)) (r\<lparr>wr_Session := Some session\<rparr>)"
    unfolding form_guard_def parsed
    by (simp add: FormValue_def first_value_def cross_origin_ok_def s_def example_server_def r_def example_request_def session_def example_session_def)
  then show ?thesis
    using logout_guarded[OF m(1,2,4,3) h] h by (auto simp: s_def r_def example_server_def example_broker_def)
qed

text \<open>
  The capabilities are fetched again after an outage. When a protected request finds the broker out of reach, the
  first protected request with a confirmed session after it asks the broker for the capabilities before any route
  runs, and the routes see exactly the set it answers, with the mark cleared.
\<close>

theorem capabilities_refetched:
  assumes "\<not> publicPath (wr_Path r1)" and "wr_Cookie r1 = Some token" and "token \<noteq> []"
    and "bc_Session (wb_broker s) token (ws_world st) = (Inl e, v)"
    and "errors_is e broker_ErrUnavailable" and "\<not> errors_is e broker_ErrUnauthorized"
    and "web_Handler L hour s mounted r1 new_writer st = (resp, st1)"
    and "\<not> publicPath (wr_Path r2)" and "confirmed s r2 st1 = Some (session, v1)"
    and "bc_Query (wb_broker s) (rs_token session) QueryCapabilities [] v1 = (Inr raw, v2)" and "wl_caps L raw = Inr ids"
  shows "wt_Status resp = Some 503 \<and> web_Handler L hour s mounted r2 new_writer st1 =
      mux_serve L hour s mounted (r2\<lparr>wr_Session := Some session\<rparr>) (security_headers new_writer)
        \<lparr>ws_cache = \<lparr>ca_caps = cap_New ids, ca_down = False\<rparr>, ws_world = v2\<rparr>"
proof -
  have eq: "(resp, st1) = (http_Error ''privileged broker unavailable'' 503 (security_headers new_writer), note_call (Some e) v st)"
    using assms(7) authenticate_error[OF assms(1-4)] assms(6) by (simp add: web_Handler_def securityHeaders_def)
  then have down: "ca_down (ws_cache st1)" using assms(5) by (simp add: note_call_def)
  have "refreshCapabilities L s (rs_token session) (st1\<lparr>ws_world := v1\<rparr>) =
      \<lparr>ws_cache = \<lparr>ca_caps = cap_New ids, ca_down = False\<rparr>, ws_world = v2\<rparr>"
    using assms(10,11) by (simp add: refreshCapabilities_def cap_UnmarshalJSON_def cache_set_def)
  then show ?thesis using eq down authenticate_confirmed[OF assms(8,9)] by (simp add: web_Handler_def securityHeaders_def)
qed

theorem capabilities_refetched_witness:
  "\<exists>st1. snd (web_Handler example_lib 9 (example_server example_broker) (\<lambda>r w st. (w, st)) (example_request ''GET'' ''/files'' (Some ''good''))
      new_writer (example_state 0)) = st1 \<and>
    cap_Has (ca_caps (ws_cache (snd (web_Handler example_lib 9 (example_server example_broker) (\<lambda>r w st. (w, st))
      (example_request ''GET'' ''/files'' (Some ''good'')) new_writer st1)))) Systemd"
proof -
  define r where "r = example_request ''GET'' ''/files'' (Some ''good'')"
  define s where "s = example_server example_broker"
  obtain resp st1 where h: "web_Handler example_lib 9 s (\<lambda>r w st. (w, st)) r new_writer (example_state 0) = (resp, st1)"
    by (cases "web_Handler example_lib 9 s (\<lambda>r w st. (w, st)) r new_writer (example_state 0)")
  define session where "session = \<lparr>rs_data = example_session, rs_token = ''good''\<rparr>"
  have pub: "\<not> publicPath (wr_Path r)" "wr_Cookie r = Some ''good''" "''good'' \<noteq> []"
      "bc_Session (wb_broker s) ''good'' (ws_world (example_state 0)) = (Inl broker_ErrUnavailable, 1)"
    by (simp_all add: r_def s_def example_simps)
  have un: "errors_is broker_ErrUnavailable broker_ErrUnavailable" "\<not> errors_is broker_ErrUnavailable broker_ErrUnauthorized"
    by (simp_all add: broker_ErrUnavailable_def broker_ErrUnauthorized_def)
  have st1: "ws_world st1 = 1"
    using h authenticate_error[OF pub] un(2) by (auto simp: web_Handler_def securityHeaders_def note_call_def)
  have con: "confirmed s r st1 = Some (session, 2)"
    using st1 by (simp add: r_def s_def example_simps session_def)
  have q: "bc_Query (wb_broker s) (rs_token session) QueryCapabilities [] 2 = (Inr [], 3)" "wl_caps example_lib [] = Inr [Systemd]"
    by (simp_all add: s_def example_server_def example_broker_def example_lib_def)
  have "web_Handler example_lib 9 s (\<lambda>r w st. (w, st)) r new_writer st1 = mux_serve example_lib 9 s (\<lambda>r w st. (w, st))
      (r\<lparr>wr_Session := Some session\<rparr>) (security_headers new_writer) \<lparr>ws_cache = \<lparr>ca_caps = cap_New [Systemd], ca_down = False\<rparr>, ws_world = 3\<rparr>"
    using capabilities_refetched[OF pub un h pub(1) con q] by simp
  then show ?thesis using h by (simp add: r_def s_def example_request_def mux_serve_def cap_Has_iff caps_of_New)
qed

end
