(* ===== verification/Daemon_Actions.thy ===== *)
theory Daemon_Actions
  imports Streams Platform Remote_Definitions Files_Config
begin

text \<open>
  What the privileged daemon serves (\<open>cmd/pilothoused/main.go\<close>): every action, query and stream that it registers with
  the broker, each behind the capabilities it needs, over the managers of the modules. A manager is a record of
  the calls of its Go interface; \<open>None\<close> is the nil manager of a host without a systemd connection.
\<close>

section \<open>Identifiers\<close>

text \<open>The identifiers of \<open>internal/broker/api.go\<close>.\<close>

definition ActionFilesUpload :: string where "ActionFilesUpload = ''org.frostyard.pilothouse.files.upload''"
definition ActionDockerRemove :: string where "ActionDockerRemove = ''org.frostyard.pilothouse.docker.remove''"
definition ActionDockerRemoveImage :: string where "ActionDockerRemoveImage = ''org.frostyard.pilothouse.docker.remove_image''"
definition ActionDockerRestart :: string where "ActionDockerRestart = ''org.frostyard.pilothouse.docker.restart''"
definition ActionDockerStart :: string where "ActionDockerStart = ''org.frostyard.pilothouse.docker.start''"
definition ActionDockerStop :: string where "ActionDockerStop = ''org.frostyard.pilothouse.docker.stop''"
definition ActionIncusCreate :: string where "ActionIncusCreate = ''org.frostyard.pilothouse.incus.create''"
definition ActionIncusRemove :: string where "ActionIncusRemove = ''org.frostyard.pilothouse.incus.remove''"
definition ActionIncusRemoveImage :: string where "ActionIncusRemoveImage = ''org.frostyard.pilothouse.incus.remove_image''"
definition ActionIncusRestart :: string where "ActionIncusRestart = ''org.frostyard.pilothouse.incus.restart''"
definition ActionIncusSnapshotCreate :: string where "ActionIncusSnapshotCreate = ''org.frostyard.pilothouse.incus.snapshot_create''"
definition ActionIncusSnapshotDelete :: string where "ActionIncusSnapshotDelete = ''org.frostyard.pilothouse.incus.snapshot_delete''"
definition ActionIncusSnapshotRestore :: string where "ActionIncusSnapshotRestore = ''org.frostyard.pilothouse.incus.snapshot_restore''"
definition ActionIncusStart :: string where "ActionIncusStart = ''org.frostyard.pilothouse.incus.start''"
definition ActionIncusStop :: string where "ActionIncusStop = ''org.frostyard.pilothouse.incus.stop''"
definition ActionIncusStopForce :: string where "ActionIncusStopForce = ''org.frostyard.pilothouse.incus.stop_force''"
definition ActionMaintenanceReboot :: string where "ActionMaintenanceReboot = ''org.frostyard.pilothouse.maintenance.reboot''"
definition ActionPodmanRemove :: string where "ActionPodmanRemove = ''org.frostyard.pilothouse.podman.remove''"
definition ActionPodmanRemoveImage :: string where "ActionPodmanRemoveImage = ''org.frostyard.pilothouse.podman.remove_image''"
definition ActionPodmanRestart :: string where "ActionPodmanRestart = ''org.frostyard.pilothouse.podman.restart''"
definition ActionPodmanStart :: string where "ActionPodmanStart = ''org.frostyard.pilothouse.podman.start''"
definition ActionPodmanStop :: string where "ActionPodmanStop = ''org.frostyard.pilothouse.podman.stop''"
definition ActionSysextDisable :: string where "ActionSysextDisable = ''org.frostyard.pilothouse.sysext.disable''"
definition ActionSysextEnable :: string where "ActionSysextEnable = ''org.frostyard.pilothouse.sysext.enable''"
definition ActionSysextRefresh :: string where "ActionSysextRefresh = ''org.frostyard.pilothouse.sysext.refresh''"
definition ActionSysextUpdate :: string where "ActionSysextUpdate = ''org.frostyard.pilothouse.sysext.update''"
definition ActionServicesDisable :: string where "ActionServicesDisable = ''org.frostyard.pilothouse.services.disable''"
definition ActionServicesEnable :: string where "ActionServicesEnable = ''org.frostyard.pilothouse.services.enable''"
definition ActionServicesResetFailed :: string where "ActionServicesResetFailed = ''org.frostyard.pilothouse.services.reset_failed''"
definition ActionServicesRestart :: string where "ActionServicesRestart = ''org.frostyard.pilothouse.services.restart''"
definition ActionServicesStart :: string where "ActionServicesStart = ''org.frostyard.pilothouse.services.start''"
definition ActionServicesStop :: string where "ActionServicesStop = ''org.frostyard.pilothouse.services.stop''"
definition ActionStorageCreateNFS :: string where "ActionStorageCreateNFS = ''org.frostyard.pilothouse.storage.create-nfs''"
definition ActionStorageCreateSMBGuest :: string where "ActionStorageCreateSMBGuest = ''org.frostyard.pilothouse.storage.create-smb-guest''"
definition ActionStorageCreateSMBCredentials :: string where "ActionStorageCreateSMBCredentials = ''org.frostyard.pilothouse.storage.create-smb-credentials''"
definition ActionStorageCreateSMBGuestOwned :: string where "ActionStorageCreateSMBGuestOwned = ''org.frostyard.pilothouse.storage.create-smb-guest-owned''"
definition ActionStorageCreateSMBCredentialsOwned :: string where "ActionStorageCreateSMBCredentialsOwned = ''org.frostyard.pilothouse.storage.create-smb-credentials-owned''"
definition ActionStorageMount :: string where "ActionStorageMount = ''org.frostyard.pilothouse.storage.mount''"
definition ActionStorageUnmount :: string where "ActionStorageUnmount = ''org.frostyard.pilothouse.storage.unmount''"
definition ActionStorageDelete :: string where "ActionStorageDelete = ''org.frostyard.pilothouse.storage.delete''"
definition QueryActivity :: string where "QueryActivity = ''org.frostyard.pilothouse.activity.list''"
definition QueryAutoUpdateStatus :: string where "QueryAutoUpdateStatus = ''org.frostyard.pilothouse.maintenance.autoupdate_status''"
definition QueryBackupsState :: string where "QueryBackupsState = ''org.frostyard.pilothouse.backups.state''"
definition QueryDockerLogs :: string where "QueryDockerLogs = ''org.frostyard.pilothouse.docker.logs''"
definition QueryDockerState :: string where "QueryDockerState = ''org.frostyard.pilothouse.docker.state''"
definition QueryExtensionsState :: string where "QueryExtensionsState = ''org.frostyard.pilothouse.sysext.state''"
definition QueryHostImageStatus :: string where "QueryHostImageStatus = ''org.frostyard.pilothouse.maintenance.host_image_status''"
definition QueryIncusInstance :: string where "QueryIncusInstance = ''org.frostyard.pilothouse.incus.instance''"
definition QueryIncusLogs :: string where "QueryIncusLogs = ''org.frostyard.pilothouse.incus.logs''"
definition QueryIncusNetwork :: string where "QueryIncusNetwork = ''org.frostyard.pilothouse.incus.network''"
definition QueryIncusProfile :: string where "QueryIncusProfile = ''org.frostyard.pilothouse.incus.profile''"
definition QueryIncusState :: string where "QueryIncusState = ''org.frostyard.pilothouse.incus.state''"
definition QueryJobs :: string where "QueryJobs = ''org.frostyard.pilothouse.jobs.list''"
definition QueryK3sState :: string where "QueryK3sState = ''org.frostyard.pilothouse.k3s.state''"
definition QueryLogs :: string where "QueryLogs = ''org.frostyard.pilothouse.logs.list''"
definition QueryMaintenanceState :: string where "QueryMaintenanceState = ''org.frostyard.pilothouse.maintenance.state''"
definition QueryPodmanLogs :: string where "QueryPodmanLogs = ''org.frostyard.pilothouse.podman.logs''"
definition QueryPodmanState :: string where "QueryPodmanState = ''org.frostyard.pilothouse.podman.state''"
definition QueryServicesJournal :: string where "QueryServicesJournal = ''org.frostyard.pilothouse.services.journal''"
definition QueryServicesState :: string where "QueryServicesState = ''org.frostyard.pilothouse.services.state''"
definition QueryStorageState :: string where "QueryStorageState = ''org.frostyard.pilothouse.storage.state''"
definition QueryFilesDownload :: string where "QueryFilesDownload = ''org.frostyard.pilothouse.files.download''"
definition QueryFilesList :: string where "QueryFilesList = ''org.frostyard.pilothouse.files.list''"

lemmas action_id_defs = ActionFilesUpload_def ActionDockerRemove_def ActionDockerRemoveImage_def ActionDockerRestart_def
  ActionDockerStart_def ActionDockerStop_def ActionIncusCreate_def ActionIncusRemove_def ActionIncusRemoveImage_def
  ActionIncusRestart_def ActionIncusSnapshotCreate_def ActionIncusSnapshotDelete_def ActionIncusSnapshotRestore_def
  ActionIncusStart_def ActionIncusStop_def ActionIncusStopForce_def ActionMaintenanceReboot_def ActionPodmanRemove_def
  ActionPodmanRemoveImage_def ActionPodmanRestart_def ActionPodmanStart_def ActionPodmanStop_def ActionSysextDisable_def
  ActionSysextEnable_def ActionSysextRefresh_def ActionSysextUpdate_def ActionServicesDisable_def ActionServicesEnable_def
  ActionServicesResetFailed_def ActionServicesRestart_def ActionServicesStart_def ActionServicesStop_def
  ActionStorageCreateNFS_def ActionStorageCreateSMBGuest_def ActionStorageCreateSMBCredentials_def
  ActionStorageCreateSMBGuestOwned_def ActionStorageCreateSMBCredentialsOwned_def ActionStorageMount_def
  ActionStorageUnmount_def ActionStorageDelete_def

lemmas query_id_defs = QueryActivity_def QueryAutoUpdateStatus_def QueryBackupsState_def QueryDockerLogs_def
  QueryDockerState_def QueryExtensionsState_def QueryHostImageStatus_def QueryIncusInstance_def QueryIncusLogs_def
  QueryIncusNetwork_def QueryIncusProfile_def QueryIncusState_def QueryJobs_def QueryK3sState_def QueryLogs_def
  QueryMaintenanceState_def QueryPodmanLogs_def QueryPodmanState_def QueryServicesJournal_def QueryServicesState_def
  QueryStorageState_def QueryFilesDownload_def QueryFilesList_def

section \<open>Managers\<close>

record 'w remote_iface =
  ri_Create :: "ctx \<Rightarrow> create_request \<Rightarrow> ('w, error option) call"
  ri_Mount :: "ctx \<Rightarrow> string \<Rightarrow> ('w, error option) call"
  ri_Unmount :: "ctx \<Rightarrow> string \<Rightarrow> ('w, error option) call"
  ri_Delete :: "ctx \<Rightarrow> string \<Rightarrow> ('w, error option) call"

record ('w, 'q) services_iface =
  si_Disable :: "ctx \<Rightarrow> string \<Rightarrow> ('w, error option) call"
  si_Enable :: "ctx \<Rightarrow> string \<Rightarrow> ('w, error option) call"
  si_ResetFailed :: "ctx \<Rightarrow> string \<Rightarrow> ('w, error option) call"
  si_Restart :: "ctx \<Rightarrow> string \<Rightarrow> ('w, error option) call"
  si_Start :: "ctx \<Rightarrow> string \<Rightarrow> ('w, error option) call"
  si_Stop :: "ctx \<Rightarrow> string \<Rightarrow> ('w, error option) call"
  si_State :: "ctx \<Rightarrow> ('w, 'q result) call"
  si_Journal :: "ctx \<Rightarrow> string \<Rightarrow> ('w, 'q result) call"

text \<open>The managers of podman and docker have the same calls.\<close>

record ('w, 'q) engine_iface =
  ei_Logs :: "ctx \<Rightarrow> string \<Rightarrow> ('w, 'q result) call"
  ei_State :: "ctx \<Rightarrow> ('w, 'q result) call"
  ei_Remove :: "ctx \<Rightarrow> string \<Rightarrow> ('w, error option) call"
  ei_RemoveImage :: "ctx \<Rightarrow> string \<Rightarrow> ('w, error option) call"
  ei_Restart :: "ctx \<Rightarrow> string \<Rightarrow> ('w, error option) call"
  ei_Start :: "ctx \<Rightarrow> string \<Rightarrow> ('w, error option) call"
  ei_Stop :: "ctx \<Rightarrow> string \<Rightarrow> ('w, error option) call"

record ('w, 'q) incus_iface =
  ii_State :: "ctx \<Rightarrow> string \<Rightarrow> ('w, 'q result) call"
  ii_Detail :: "ctx \<Rightarrow> string \<Rightarrow> string \<Rightarrow> ('w, 'q result) call"
  ii_Logs :: "ctx \<Rightarrow> string \<Rightarrow> string \<Rightarrow> string \<Rightarrow> ('w, 'q result) call"
  ii_NetworkDetail :: "ctx \<Rightarrow> string \<Rightarrow> string \<Rightarrow> ('w, 'q result) call"
  ii_ProfileDetail :: "ctx \<Rightarrow> string \<Rightarrow> string \<Rightarrow> ('w, 'q result) call"
  ii_Remove :: "ctx \<Rightarrow> string \<Rightarrow> string \<Rightarrow> ('w, error option) call"
  ii_RemoveImage :: "ctx \<Rightarrow> string \<Rightarrow> string \<Rightarrow> ('w, error option) call"
  ii_Restart :: "ctx \<Rightarrow> string \<Rightarrow> string \<Rightarrow> ('w, error option) call"
  ii_Start :: "ctx \<Rightarrow> string \<Rightarrow> string \<Rightarrow> ('w, error option) call"
  ii_Stop :: "ctx \<Rightarrow> string \<Rightarrow> string \<Rightarrow> ('w, error option) call"
  ii_StopForce :: "ctx \<Rightarrow> string \<Rightarrow> string \<Rightarrow> ('w, error option) call"
  ii_CreateInstance :: "ctx \<Rightarrow> string \<Rightarrow> string \<Rightarrow> string \<Rightarrow> string \<Rightarrow> string \<Rightarrow> ('w, error option) call"
  ii_CreateSnapshot :: "ctx \<Rightarrow> string \<Rightarrow> string \<Rightarrow> string \<Rightarrow> ('w, error option) call"
  ii_DeleteSnapshot :: "ctx \<Rightarrow> string \<Rightarrow> string \<Rightarrow> string \<Rightarrow> ('w, error option) call"
  ii_RestoreSnapshot :: "ctx \<Rightarrow> string \<Rightarrow> string \<Rightarrow> string \<Rightarrow> ('w, error option) call"

record ('w, 'q) sysext_iface =
  xi_Disable :: "ctx \<Rightarrow> string \<Rightarrow> ('w, error option) call"
  xi_Enable :: "ctx \<Rightarrow> string \<Rightarrow> ('w, error option) call"
  xi_Refresh :: "ctx \<Rightarrow> ('w, error option) call"
  xi_Update :: "ctx \<Rightarrow> ('w, error option) call"
  xi_State :: "ctx \<Rightarrow> bool \<Rightarrow> bool \<Rightarrow> ('w, 'q result) call"

record ('w, 'q) maintenance_iface =
  mi_State :: "ctx \<Rightarrow> ('w, 'q result) call"
  mi_Reboot :: "ctx \<Rightarrow> ('w, error option) call"

record files_payload =
  fp_Body :: "string option"
  fp_Name :: string
  fp_Size :: int

record ('w, 'q, 'r) files_iface =
  fi_List :: "ctx \<Rightarrow> list_request \<Rightarrow> ('w, 'q result) call"
  fi_Download :: "ctx \<Rightarrow> string \<Rightarrow> string \<Rightarrow> ('w, files_payload result) call"
  fi_Upload :: "ctx \<Rightarrow> string \<Rightarrow> string \<Rightarrow> string \<Rightarrow> 'r stream_limit_reader \<Rightarrow> ('w, error option) call"

text \<open>
  The managers of a daemon, with the lists of the stores; \<open>ms_filters\<close> is \<open>logs.ParseBrokerFilters\<close> followed by
  \<open>Manager.Logs\<close>, \<open>ms_caps\<close> the encoding of the capability set as the answer of a query, \<open>ms_random\<close> the random source.
\<close>

record ('w, 'q, 'r) managers =
  ms_remote :: "'w remote_iface option"
  ms_backups :: "(ctx \<Rightarrow> ('w, 'q result) call) option"
  ms_services :: "('w, 'q) services_iface option"
  ms_filters :: "(ctx \<Rightarrow> params \<Rightarrow> ('w, 'q result) call) option"
  ms_docker :: "('w, 'q) engine_iface option"
  ms_podman :: "('w, 'q) engine_iface"
  ms_incus :: "('w, 'q) incus_iface"
  ms_sysext :: "('w, 'q) sysext_iface"
  ms_maintenance :: "('w, 'q) maintenance_iface"
  ms_files :: "('w, 'q, 'r) files_iface"
  ms_hostImage :: "ctx \<Rightarrow> ('w, 'q result) call"
  ms_autoUpdate :: "ctx \<Rightarrow> ('w, 'q result) call"
  ms_k3s :: "ctx \<Rightarrow> ('w, 'q result) call"
  ms_storage :: "ctx \<Rightarrow> ('w, 'q result) call"
  ms_jobs :: "ctx \<Rightarrow> job_filter \<Rightarrow> ('w, 'q result) call"
  ms_activity :: "ctx \<Rightarrow> audit_filter \<Rightarrow> ('w, 'q result) call"
  ms_caps :: "cap_set \<Rightarrow> 'q"
  ms_random :: "('w, string result) call"

section \<open>Registrations\<close>

text \<open>
  A registration function of the daemon is the list of the registrations it makes, in its order; \<open>perform\<close> makes them
  on the registries and ends with the first error, as the functions do.
\<close>

datatype ('w, 'q, 'r) registration =
    Action "'w action_definition"
  | Query string bool "('w, 'q) query_handler"
  | StreamQuery "'w stream_query_definition"
  | StreamAction "('w, 'r) stream_action_definition"

record ('w, 'q, 'r) registries =
  dr_actions :: "'w action_registry"
  dr_queries :: "('w, 'q) query_registry"
  dr_streamQueries :: "'w stream_query_registry"
  dr_streamActions :: "('w, 'r) stream_action_registry"

definition newActionRegistries :: "'w audit_iface \<Rightarrow> 'w job_iface \<Rightarrow> 'w problem_recorder \<Rightarrow> 'w action_registry \<times> ('w, 'r) stream_action_registry" where
  "newActionRegistries auditStore jobStore rec =
     (UseProblems (UseJobs (NewActionRegistry [auditStore]) jobStore) rec, stream_UseProblems (NewStreamActionRegistry [auditStore]) rec)"

definition new_registries :: "'w audit_iface \<Rightarrow> 'w job_iface \<Rightarrow> 'w problem_recorder \<Rightarrow> ('w, 'q, 'r) registries" where
  "new_registries auditStore jobStore rec = (case newActionRegistries auditStore jobStore rec of (actions, streamActions) \<Rightarrow>
     \<lparr>dr_actions = actions, dr_queries = NewQueryRegistry, dr_streamQueries = NewStreamQueryRegistry, dr_streamActions = streamActions\<rparr>)"

fun register_one :: "('w, 'q, 'r) registries \<Rightarrow> ('w, 'q, 'r) registration \<Rightarrow> ('w, 'q, 'r) registries \<times> error option" where
  "register_one D (Action d) = (case RegisterDefinition (dr_actions D) d of (r, e) \<Rightarrow> (D\<lparr>dr_actions := r\<rparr>, e))"
| "register_one D (Query i admin h) = (case query_Register (dr_queries D) (i, admin, Some h) of (r, e) \<Rightarrow> (D\<lparr>dr_queries := r\<rparr>, e))"
| "register_one D (StreamQuery d) = (case stream_query_Register (dr_streamQueries D) d of (r, e) \<Rightarrow> (D\<lparr>dr_streamQueries := r\<rparr>, e))"
| "register_one D (StreamAction d) = (case stream_action_Register (dr_streamActions D) d of (r, e) \<Rightarrow> (D\<lparr>dr_streamActions := r\<rparr>, e))"

fun perform :: "('w, 'q, 'r) registration list \<Rightarrow> ('w, 'q, 'r) registries \<Rightarrow> ('w, 'q, 'r) registries result" where
  "perform [] D = Inr D"
| "perform (x # xs) D = (case register_one D x of (_, Some e) \<Rightarrow> Inl e | (D', None) \<Rightarrow> perform xs D')"

text \<open>The zero value of \<open>broker.ActionDefinition\<close>.\<close>

definition zero_action :: "'w action_definition" where
  "zero_action = \<lparr>ad_Admin = False, ad_Background = False, ad_ConfirmationRequired = False, ad_Handler = None, ad_ID = [],
     ad_LockResource = None, ad_NonBlocking = False, ad_Parameters = [], ad_Prepare = None, ad_RebootRequired = False,
     ad_Resource = None, ad_Timeout = 0\<rparr>"

record 'w action_registration =
  reg_confirmation :: bool
  reg_global :: bool
  reg_handler :: "ctx \<Rightarrow> string \<Rightarrow> ('w, error option) call"
  reg_id :: string
  reg_resource :: string

definition named_action :: "string \<Rightarrow> 'w action_registration \<Rightarrow> 'w action_definition" where
  "named_action parameter g = zero_action\<lparr>ad_ID := reg_id g, ad_Admin := True, ad_Parameters := [parameter],
     ad_ConfirmationRequired := reg_confirmation g,
     ad_Resource := Some (\<lambda>ps. Inr (reg_resource g @ ''/'' @ param ps parameter)),
     ad_LockResource := (if reg_global g then Some (\<lambda>_. Inr ''sysext/global'') else None),
     ad_Handler := Some (\<lambda>ctx _ ps. reg_handler g ctx (param ps parameter))\<rparr>"

definition registerNamedActions :: "string \<Rightarrow> 'w action_registration list \<Rightarrow> ('w, 'q, 'r) registration list" where
  "registerNamedActions parameter regs = map (Action \<circ> named_action parameter) regs"

definition registerCapabilities :: "('w, 'q, 'r) managers \<Rightarrow> cap_set \<Rightarrow> ('w, 'q, 'r) registration list" where
  "registerCapabilities M caps = [Query QueryCapabilities False (\<lambda>_ _ _ w. (w, Inr (ms_caps M caps)))]"

definition registerBackups :: "(ctx \<Rightarrow> ('w, 'q result) call) option \<Rightarrow> cap_set \<Rightarrow> ('w, 'q, 'r) registration list" where
  "registerBackups manager caps = (case manager of None \<Rightarrow> [] | Some state \<Rightarrow>
     if \<not> cap_Has caps Systemd then [] else [Query QueryBackupsState False (\<lambda>ctx _ _. state ctx)])"

definition registerStorage :: "(ctx \<Rightarrow> ('w, 'q result) call) \<Rightarrow> ('w, 'q, 'r) registration list" where
  "registerStorage state = [Query QueryStorageState False (\<lambda>ctx _ ps w.
     if length ps \<noteq> 0 then (w, Inl (Errorf ''storage state query does not accept parameters'' [])) else state ctx w)]"

section \<open>Storage actions\<close>

definition storageActionTimeout :: int where "storageActionTimeout = 2 * minute"

definition storageMountResource :: "params \<Rightarrow> string result" where
  "storageMountResource ps = (let i = param ps ''_id''; j = (if i = [] then param ps ''id'' else i) in
     if ValidateDefinitionID j \<noteq> None then Inl (Errorf ''invalid remote mount ID'' []) else Inr (''storage/mount/'' @ j))"

definition prepareStorageCreate :: "('w, string result) call \<Rightarrow> 'w action_prepare" where
  "prepareStorageCreate random ctx ident ps w = (case random w of (w', bytes) \<Rightarrow> (case NewDefinitionID bytes of
     Inl _ \<Rightarrow> (w', Inl (Errorf ''allocate remote mount ID'' []))
   | Inr i \<Rightarrow> (w', Inr (AList.update ''_id'' i ps))))"

definition nfsCreateRequest :: "params \<Rightarrow> create_request result" where
  "nfsCreateRequest ps = (case ParseReadOnly (param ps ''read_only'') of
     Inl _ \<Rightarrow> Inl (Errorf ''invalid remote mount parameter'' [])
   | Inr readOnly \<Rightarrow> Inr \<lparr>req_Export = param ps ''export'', req_Host = param ps ''host'', req_ID = param ps ''_id'', req_Password = [],
       req_Protocol = ''nfs'', req_ReadOnly = readOnly, req_Server = [], req_Share = [], req_Target = param ps ''target'',
       req_Username = [], req_Version = param ps ''version'', req_SMBOwnership = no_ownership\<rparr>)"

definition smbCreateRequest :: "bool \<Rightarrow> bool \<Rightarrow> params \<Rightarrow> create_request result" where
  "smbCreateRequest credentials owns ps = (case ParseReadOnly (param ps ''read_only'') of
     Inl _ \<Rightarrow> Inl (Errorf ''invalid remote mount parameter'' [])
   | Inr readOnly \<Rightarrow>
       (case (if owns then (case ParseSMBOwnership (param ps ''uid'') (param ps ''gid'') of
            Inl _ \<Rightarrow> None | Inr ownership \<Rightarrow> if ownership = no_ownership then None else Some ownership) else Some no_ownership) of
          None \<Rightarrow> Inl (Errorf ''invalid remote mount parameter'' [])
        | Some ownership \<Rightarrow> Inr \<lparr>req_Export = [], req_Host = [], req_ID = param ps ''_id'',
            req_Password = (if credentials then param ps ''password'' else []), req_Protocol = ''smb'', req_ReadOnly = readOnly,
            req_Server = param ps ''server'', req_Share = param ps ''share'', req_Target = param ps ''target'',
            req_Username = (if credentials then param ps ''username'' else []), req_Version = param ps ''version'', req_SMBOwnership = ownership\<rparr>))"

definition storage_create :: "('w, string result) call \<Rightarrow> 'w remote_iface \<Rightarrow> string \<times> string list \<times> (params \<Rightarrow> create_request result) \<Rightarrow>
    'w action_definition" where
  "storage_create random manager = (\<lambda>(i, parameters, request). zero_action\<lparr>ad_ID := i, ad_Admin := True, ad_Parameters := parameters,
     ad_Prepare := Some (prepareStorageCreate random), ad_Resource := Some storageMountResource,
     ad_LockResource := Some (\<lambda>_. Inr ''storage/mounts''),
     ad_Handler := Some (\<lambda>ctx _ ps w. case request ps of Inl e \<Rightarrow> (w, Some e)
       | Inr q \<Rightarrow> ri_Create manager (WithTimeout ctx storageActionTimeout) q w)\<rparr>)"

definition storage_lifecycle :: "bool \<times> string \<times> (ctx \<Rightarrow> string \<Rightarrow> ('w, error option) call) \<Rightarrow> 'w action_definition" where
  "storage_lifecycle = (\<lambda>(confirmation, i, handler). zero_action\<lparr>ad_ID := i, ad_Admin := True, ad_Parameters := [''id''],
     ad_ConfirmationRequired := confirmation, ad_Resource := Some storageMountResource, ad_LockResource := Some storageMountResource,
     ad_Handler := Some (\<lambda>ctx _ ps w. if ValidateDefinitionID (param ps ''id'') \<noteq> None then (w, Some (Errorf ''invalid remote mount ID'' []))
       else handler (WithTimeout ctx storageActionTimeout) (param ps ''id'') w)\<rparr>)"

definition registerStorageActions :: "('w, string result) call \<Rightarrow> 'w remote_iface option \<Rightarrow> cap_set \<Rightarrow> ('w, 'q, 'r) registration list" where
  "registerStorageActions random manager caps = (case manager of None \<Rightarrow> [] | Some m \<Rightarrow>
     if \<not> cap_Has caps Systemd then []
     else map (Action \<circ> storage_create random m)
        [(ActionStorageCreateNFS, [''host'', ''export'', ''target'', ''version'', ''read_only''], nfsCreateRequest),
         (ActionStorageCreateSMBGuest, [''server'', ''share'', ''target'', ''version'', ''read_only''], smbCreateRequest False False),
         (ActionStorageCreateSMBCredentials, [''server'', ''share'', ''username'', ''password'', ''target'', ''version'', ''read_only''], smbCreateRequest True False),
         (ActionStorageCreateSMBGuestOwned, [''server'', ''share'', ''target'', ''version'', ''read_only'', ''uid'', ''gid''], smbCreateRequest False True),
         (ActionStorageCreateSMBCredentialsOwned, [''server'', ''share'', ''username'', ''password'', ''target'', ''version'', ''read_only'', ''uid'', ''gid''],
            smbCreateRequest True True)] @
       map (Action \<circ> storage_lifecycle)
        [(False, ActionStorageMount, ri_Mount m), (True, ActionStorageUnmount, ri_Unmount m), (True, ActionStorageDelete, ri_Delete m)])"

section \<open>Logs and files\<close>

definition registerLogs :: "(ctx \<Rightarrow> params \<Rightarrow> ('w, 'q result) call) option \<Rightarrow> cap_set \<Rightarrow> ('w, 'q, 'r) registration list" where
  "registerLogs manager caps = (case manager of None \<Rightarrow> [] | Some filtered \<Rightarrow>
     if \<not> cap_HasAll caps [Systemd, Journald] then [] else [Query QueryLogs True (\<lambda>ctx _ ps. filtered ctx ps)])"

definition public_errors :: "(error \<times> int \<times> string \<times> string) list" where
  "public_errors = [(ErrInvalid, 400, ''invalid files request'', ''invalid_request''), (ErrNotFound, 404, ''files resource not found'', ''not_found''),
     (ErrReadOnly, 403, ''files root is read-only'', ''read_only''), (ErrConflict, 409, ''files conflict'', ''conflict''),
     (ErrTooLarge, 413, ''file transfer is too large'', ''too_large''), (ErrUnavailable, 503, ''files service unavailable'', ''unavailable'')]"

definition filesPublicError :: "error \<Rightarrow> error" where
  "filesPublicError err = (case List.find (\<lambda>(e, _). errors_is err e) public_errors of
     Some (_, status, message, category) \<Rightarrow> NewPublicError status message category (Some err)
   | None \<Rightarrow> NewPublicError 503 ''files service unavailable'' ''unavailable'' (Some err))"

definition filesResource :: "params \<Rightarrow> string result" where
  "filesResource ps =
     (let directory = param ps ''directory'';
          destination = (if directory \<noteq> [] then directory @ ''/'' @ param ps ''name'' else param ps ''name'')
      in if length destination > MaxPathBytes then Inl (filesPublicError ErrInvalid)
         else Inr (''files/'' @ param ps ''root'' @ ''/'' @ destination))"

text \<open>\<open>path.Base\<close>.\<close>

definition path_Base :: "string \<Rightarrow> string" where
  "path_Base p = (if p = [] then ''.'' else
     let q = rev (dropWhile (\<lambda>c. c = slash) (rev p)) in if q = [] then ''/'' else rev (takeWhile (\<lambda>c. c \<noteq> slash) (rev q)))"

definition files_download_definition :: "('w, 'q, 'r) files_iface \<Rightarrow> 'w stream_query_definition" where
  "files_download_definition manager = \<lparr>sq_ID = QueryFilesDownload, sq_Admin = True, sq_Parameters = [''root'', ''path''], sq_Limit = MaxTransferBytes,
     sq_Timeout = 0, sq_Handler = Some (\<lambda>ctx _ ps w. case fi_Download manager ctx (param ps ''root'') (param ps ''path'') w of
       (w', Inl e) \<Rightarrow> (w', Inl (filesPublicError e))
     | (w', Inr d) \<Rightarrow> (w', Inr \<lparr>sr_Body = fp_Body d, sr_Filename = path_Base (fp_Name d), sr_MediaType = ''application/octet-stream'', sr_Size = fp_Size d\<rparr>))\<rparr>"

definition files_upload_definition :: "('w, 'q, 'r) files_iface \<Rightarrow> ('w, 'r) stream_action_definition" where
  "files_upload_definition manager = \<lparr>sa_ID = ActionFilesUpload, sa_Admin = True, sa_Parameters = [''root'', ''directory'', ''name''],
     sa_Limit = MaxTransferBytes, sa_Timeout = 15 * minute, sa_Resource = Some filesResource, sa_LockResource = Some filesResource,
     sa_Handler = Some (\<lambda>ctx _ ps body w. case fi_Upload manager ctx (param ps ''root'') (param ps ''directory'') (param ps ''name'') body w of
       (w', e) \<Rightarrow> (w', map_option filesPublicError e))\<rparr>"

definition registerFiles :: "('w, 'q, 'r) files_iface \<Rightarrow> ('w, 'q, 'r) registration list" where
  "registerFiles manager =
     [Query QueryFilesList True (\<lambda>ctx _ ps w. case ParseListParameters ps of
        Inl e \<Rightarrow> (w, Inl (filesPublicError e))
      | Inr request \<Rightarrow> (case fi_List manager ctx request w of
          (w', Inl e) \<Rightarrow> (w', Inl (filesPublicError e)) | (w', Inr state) \<Rightarrow> (w', Inr state))),
      StreamQuery (files_download_definition manager), StreamAction (files_upload_definition manager)]"

section \<open>Maintenance and stores\<close>

definition maintenanceLockResource :: string where "maintenanceLockResource = ''maintenance/global''"

definition registerMaintenance :: "('w, 'q) maintenance_iface \<Rightarrow> cap_set \<Rightarrow> ('w, 'q, 'r) registration list" where
  "registerMaintenance manager caps = (if \<not> cap_Has caps Systemd then []
     else [Query QueryMaintenanceState False (\<lambda>ctx _ _. mi_State manager ctx),
       Action (zero_action\<lparr>ad_ID := ActionMaintenanceReboot, ad_Admin := True, ad_ConfirmationRequired := True, ad_NonBlocking := True,
         ad_Resource := Some (\<lambda>_. Inr ''maintenance/reboot''), ad_LockResource := Some (\<lambda>_. Inr maintenanceLockResource),
         ad_Handler := Some (\<lambda>ctx _ _. mi_Reboot manager ctx)\<rparr>)])"

definition registerHostImage :: "(ctx \<Rightarrow> ('w, 'q result) call) \<Rightarrow> cap_set \<Rightarrow> ('w, 'q, 'r) registration list" where
  "registerHostImage status caps = (if \<not> cap_HasAny caps [Bootc, RPMOStree] then []
     else [Query QueryHostImageStatus False (\<lambda>ctx _ _. status ctx)])"

definition registerAutoUpdate :: "(ctx \<Rightarrow> ('w, 'q result) call) \<Rightarrow> cap_set \<Rightarrow> ('w, 'q, 'r) registration list" where
  "registerAutoUpdate status caps = (if \<not> cap_HasAny caps [Bootc, RPMOStree] then []
     else [Query QueryAutoUpdateStatus False (\<lambda>ctx _ _. status ctx)])"

text \<open>\<open>strconv.Atoi\<close> on a 64-bit host.\<close>

definition Atoi :: "string \<Rightarrow> int option" where
  "Atoi s =
     (let neg = (s \<noteq> [] \<and> hd s = CHR ''-'');
          ds = (if s \<noteq> [] \<and> (hd s = CHR ''-'' \<or> hd s = CHR ''+'') then tl s else s)
      in if ds = [] \<or> \<not> list_all is_digit ds then None
         else let v = (if neg then - int (digits_value ds) else int (digits_value ds)) in
           if - (2 ^ 63) \<le> v \<and> v < 2 ^ 63 then Some v else None)"

definition parse_limit :: "string \<Rightarrow> string \<Rightarrow> int result" where
  "parse_limit message value = (if value = [] then Inr 50 else (case Atoi value of
     None \<Rightarrow> Inl (Errorf message [])
   | Some parsed \<Rightarrow> if parsed < 1 \<or> parsed > 100 then Inl (Errorf message []) else Inr parsed))"

definition unsupported :: "string list \<Rightarrow> params \<Rightarrow> string option" where
  "unsupported names ps = map_option fst (List.find (\<lambda>(k, _). k \<notin> set names) ps)"

definition registerJobs :: "(ctx \<Rightarrow> job_filter \<Rightarrow> ('w, 'q result) call) \<Rightarrow> ('w, 'q, 'r) registration list" where
  "registerJobs list_jobs = [Query QueryJobs True (\<lambda>ctx _ ps w. case unsupported [''action'', ''status'', ''limit''] ps of
     Some k \<Rightarrow> (w, Inl (Errorf ''unsupported job filter %q'' [k]))
   | None \<Rightarrow> (case parse_limit ''job limit must be between 1 and 100'' (param ps ''limit'') of
       Inl e \<Rightarrow> (w, Inl e)
     | Inr limit \<Rightarrow> list_jobs ctx \<lparr>jf_Limit = limit, jf_Action = param ps ''action'', jf_Status = param ps ''status''\<rparr> w))]"

definition registerActivity :: "(ctx \<Rightarrow> audit_filter \<Rightarrow> ('w, 'q result) call) \<Rightarrow> ('w, 'q, 'r) registration list" where
  "registerActivity list_records = [Query QueryActivity True (\<lambda>ctx _ ps w. case unsupported [''action'', ''outcome'', ''limit''] ps of
     Some k \<Rightarrow> (w, Inl (Errorf ''unsupported activity filter %q'' [k]))
   | None \<Rightarrow> (case parse_limit ''activity limit must be between 1 and 100'' (param ps ''limit'') of
       Inl e \<Rightarrow> (w, Inl e)
     | Inr limit \<Rightarrow> list_records ctx \<lparr>af_Limit = limit, af_Action = param ps ''action'', af_Outcome = param ps ''outcome''\<rparr> w))]"

section \<open>Extensions, services and container engines\<close>

definition sysext_global :: "string \<Rightarrow> bool \<Rightarrow> (ctx \<Rightarrow> ('w, error option) call) \<Rightarrow> 'w action_definition" where
  "sysext_global i reboot handler = zero_action\<lparr>ad_ID := i, ad_Admin := True, ad_Background := True, ad_ConfirmationRequired := True,
     ad_RebootRequired := reboot, ad_Timeout := 20 * minute, ad_Resource := Some (\<lambda>_. Inr ''sysext/global''),
     ad_Handler := Some (\<lambda>ctx _ _. handler ctx)\<rparr>"

definition registerSysextActions :: "('w, 'q) sysext_iface \<Rightarrow> cap_set \<Rightarrow> ('w, 'q, 'r) registration list" where
  "registerSysextActions manager caps =
     (if cap_HasAll caps [Updex, Sysext]
      then registerNamedActions ''name''
        [\<lparr>reg_confirmation = True, reg_global = True, reg_handler = xi_Disable manager, reg_id = ActionSysextDisable, reg_resource = ''sysext/feature''\<rparr>,
         \<lparr>reg_confirmation = False, reg_global = True, reg_handler = xi_Enable manager, reg_id = ActionSysextEnable, reg_resource = ''sysext/feature''\<rparr>]
      else []) @
     (if cap_Has caps Sysext then [Action (sysext_global ActionSysextRefresh False (xi_Refresh manager))] else []) @
     (if cap_Has caps Updex then [Action (sysext_global ActionSysextUpdate True (xi_Update manager))] else [])"

definition registerExtensions :: "('w, 'q) sysext_iface \<Rightarrow> cap_set \<Rightarrow> ('w, 'q, 'r) registration list" where
  "registerExtensions source caps = (if \<not> cap_HasAny caps [Updex, Sysext] then []
     else [Query QueryExtensionsState False (\<lambda>ctx _ _. xi_State source ctx (cap_Has caps Updex) (cap_Has caps Sysext))])"

definition action_of :: "bool \<Rightarrow> string \<Rightarrow> string \<Rightarrow> (ctx \<Rightarrow> string \<Rightarrow> ('w, error option) call) \<Rightarrow> 'w action_registration" where
  "action_of confirmation i res handler = \<lparr>reg_confirmation = confirmation, reg_global = False, reg_handler = handler, reg_id = i, reg_resource = res\<rparr>"

definition registerServices :: "('w, 'q) services_iface option \<Rightarrow> cap_set \<Rightarrow> ('w, 'q, 'r) registration list" where
  "registerServices manager caps = (case manager of None \<Rightarrow> [] | Some m \<Rightarrow>
     (if cap_Has caps Systemd
      then Query QueryServicesState False (\<lambda>ctx _ _. si_State m ctx) # registerNamedActions ''unit''
        [action_of True ActionServicesDisable ''services/unit'' (si_Disable m), action_of False ActionServicesEnable ''services/unit'' (si_Enable m),
         action_of False ActionServicesResetFailed ''services/unit'' (si_ResetFailed m), action_of False ActionServicesRestart ''services/unit'' (si_Restart m),
         action_of False ActionServicesStart ''services/unit'' (si_Start m), action_of True ActionServicesStop ''services/unit'' (si_Stop m)]
      else []) @
     (if cap_HasAll caps [Systemd, Journald]
      then [Query QueryServicesJournal False (\<lambda>ctx _ ps. si_Journal m ctx (param ps ''unit''))] else []))"

definition registerPodman :: "('w, 'q) engine_iface \<Rightarrow> cap_set \<Rightarrow> ('w, 'q, 'r) registration list" where
  "registerPodman manager caps = (if \<not> cap_Has caps Podman then []
     else Query QueryPodmanLogs False (\<lambda>ctx _ ps. ei_Logs manager ctx (param ps ''id'')) #
       Query QueryPodmanState False (\<lambda>ctx _ _. ei_State manager ctx) # registerNamedActions ''id''
        [action_of True ActionPodmanRemove ''podman/container'' (ei_Remove manager), action_of True ActionPodmanRemoveImage ''podman/image'' (ei_RemoveImage manager),
         action_of False ActionPodmanRestart ''podman/container'' (ei_Restart manager), action_of False ActionPodmanStart ''podman/container'' (ei_Start manager),
         action_of True ActionPodmanStop ''podman/container'' (ei_Stop manager)])"

definition registerDocker :: "('w, 'q) engine_iface \<Rightarrow> cap_set \<Rightarrow> ('w, 'q, 'r) registration list" where
  "registerDocker manager caps = (if \<not> cap_Has caps Docker then []
     else Query QueryDockerLogs False (\<lambda>ctx _ ps. ei_Logs manager ctx (param ps ''id'')) #
       Query QueryDockerState False (\<lambda>ctx _ _. ei_State manager ctx) # registerNamedActions ''id''
        [action_of True ActionDockerRemove ''docker/container'' (ei_Remove manager), action_of True ActionDockerRemoveImage ''docker/image'' (ei_RemoveImage manager),
         action_of False ActionDockerRestart ''docker/container'' (ei_Restart manager), action_of False ActionDockerStart ''docker/container'' (ei_Start manager),
         action_of True ActionDockerStop ''docker/container'' (ei_Stop manager)])"

definition registerK3s :: "(ctx \<Rightarrow> ('w, 'q result) call) \<Rightarrow> cap_set \<Rightarrow> ('w, 'q, 'r) registration list" where
  "registerK3s state caps = (if \<not> cap_Has caps K3s then [] else [Query QueryK3sState False (\<lambda>ctx _ _. state ctx)])"

definition project_action :: "bool \<times> string \<times> (ctx \<Rightarrow> string \<Rightarrow> string \<Rightarrow> ('w, error option) call) \<times> string \<times> string \<Rightarrow> 'w action_definition" where
  "project_action = (\<lambda>(confirmation, i, handler, parameter, res). zero_action\<lparr>ad_ID := i, ad_Admin := True,
     ad_Parameters := [''project'', parameter], ad_ConfirmationRequired := confirmation,
     ad_Resource := Some (\<lambda>ps. Inr (res @ ''/'' @ param ps ''project'' @ ''/'' @ param ps parameter)),
     ad_Handler := Some (\<lambda>ctx _ ps. handler ctx (param ps ''project'') (param ps parameter))\<rparr>)"

definition snapshot_action :: "bool \<times> string \<times> (ctx \<Rightarrow> string \<Rightarrow> string \<Rightarrow> string \<Rightarrow> ('w, error option) call) \<Rightarrow> 'w action_definition" where
  "snapshot_action = (\<lambda>(confirmation, i, handler). zero_action\<lparr>ad_ID := i, ad_Admin := True,
     ad_Parameters := [''project'', ''instance'', ''snapshot''], ad_ConfirmationRequired := confirmation,
     ad_Resource := Some (\<lambda>ps. Inr (''incus/snapshot/'' @ param ps ''project'' @ ''/'' @ param ps ''instance'' @ ''/'' @ param ps ''snapshot'')),
     ad_Handler := Some (\<lambda>ctx _ ps. handler ctx (param ps ''project'') (param ps ''instance'') (param ps ''snapshot''))\<rparr>)"

definition incus_create :: "('w, 'q) incus_iface \<Rightarrow> 'w action_definition" where
  "incus_create manager = zero_action\<lparr>ad_ID := ActionIncusCreate, ad_Admin := True, ad_Background := True,
     ad_Parameters := [''project'', ''name'', ''image'', ''type'', ''profile''], ad_Timeout := 30 * minute,
     ad_Resource := Some (\<lambda>ps. Inr (''incus/instance/'' @ param ps ''project'' @ ''/'' @ param ps ''name'')),
     ad_Handler := Some (\<lambda>ctx _ ps. ii_CreateInstance manager ctx (param ps ''project'') (param ps ''name'') (param ps ''image'')
       (param ps ''type'') (param ps ''profile''))\<rparr>"

definition registerIncus :: "('w, 'q) incus_iface \<Rightarrow> cap_set \<Rightarrow> ('w, 'q, 'r) registration list" where
  "registerIncus manager caps = (if \<not> cap_Has caps Incus then []
     else [Query QueryIncusState False (\<lambda>ctx _ ps. ii_State manager ctx (param ps ''project'')),
       Query QueryIncusInstance False (\<lambda>ctx _ ps. ii_Detail manager ctx (param ps ''project'') (param ps ''name'')),
       Query QueryIncusLogs False (\<lambda>ctx _ ps. ii_Logs manager ctx (param ps ''project'') (param ps ''name'') (param ps ''source'')),
       Query QueryIncusNetwork False (\<lambda>ctx _ ps. ii_NetworkDetail manager ctx (param ps ''project'') (param ps ''name'')),
       Query QueryIncusProfile False (\<lambda>ctx _ ps. ii_ProfileDetail manager ctx (param ps ''project'') (param ps ''name''))] @
       map (Action \<circ> project_action)
        [(True, ActionIncusRemove, ii_Remove manager, ''name'', ''incus/instance''), (True, ActionIncusRemoveImage, ii_RemoveImage manager, ''fingerprint'', ''incus/image''),
         (False, ActionIncusRestart, ii_Restart manager, ''name'', ''incus/instance''), (False, ActionIncusStart, ii_Start manager, ''name'', ''incus/instance''),
         (True, ActionIncusStop, ii_Stop manager, ''name'', ''incus/instance''), (True, ActionIncusStopForce, ii_StopForce manager, ''name'', ''incus/instance'')] @
       [Action (incus_create manager)] @
       map (Action \<circ> snapshot_action)
        [(False, ActionIncusSnapshotCreate, ii_CreateSnapshot manager), (True, ActionIncusSnapshotDelete, ii_DeleteSnapshot manager),
         (True, ActionIncusSnapshotRestore, ii_RestoreSnapshot manager)])"

text \<open>The registrations of \<open>run\<close>, in its order.\<close>

definition daemon_registrations :: "('w, 'q, 'r) managers \<Rightarrow> cap_set \<Rightarrow> ('w, 'q, 'r) registration list" where
  "daemon_registrations M caps = registerCapabilities M caps @ registerFiles (ms_files M) @ registerActivity (ms_activity M) @
     registerJobs (ms_jobs M) @ registerStorage (ms_storage M) @ registerStorageActions (ms_random M) (ms_remote M) caps @
     registerBackups (ms_backups M) caps @ registerServices (ms_services M) caps @ registerLogs (ms_filters M) caps @
     registerSysextActions (ms_sysext M) caps @ registerExtensions (ms_sysext M) caps @ registerHostImage (ms_hostImage M) caps @
     registerAutoUpdate (ms_autoUpdate M) caps @ registerMaintenance (ms_maintenance M) caps @ registerPodman (ms_podman M) caps @
     (case ms_docker M of None \<Rightarrow> [] | Some d \<Rightarrow> registerDocker d caps) @ registerIncus (ms_incus M) caps @ registerK3s (ms_k3s M) caps"

end
