(* ===== verification/Daemon_Policy.thy ===== *)
theory Daemon_Policy
  imports Daemon_Actions
begin

text \<open>
  What the daemon exposes: its registrations never collide, whatever the host has, and which action and query is
  registered under which capability, with which confirmation and for whom.
\<close>

section \<open>Performing registrations\<close>

fun actions_of :: "('w, 'q, 'r) registration list \<Rightarrow> 'w action_definition list" where
  "actions_of [] = []"
| "actions_of (Action d # xs) = d # actions_of xs"
| "actions_of (_ # xs) = actions_of xs"

fun queries_of :: "('w, 'q, 'r) registration list \<Rightarrow> (string \<times> bool) list" where
  "queries_of [] = []"
| "queries_of (Query i admin _ # xs) = (i, admin) # queries_of xs"
| "queries_of (_ # xs) = queries_of xs"

fun streams_of :: "('w, 'q, 'r) registration list \<Rightarrow> string list" where
  "streams_of [] = []"
| "streams_of (StreamQuery d # xs) = sq_ID d # streams_of xs"
| "streams_of (StreamAction d # xs) = sa_ID d # streams_of xs"
| "streams_of (_ # xs) = streams_of xs"

lemma of_append [simp]:
  "actions_of (xs @ ys) = actions_of xs @ actions_of ys" "queries_of (xs @ ys) = queries_of xs @ queries_of ys"
  "streams_of (xs @ ys) = streams_of xs @ streams_of ys"
  by (induction xs rule: actions_of.induct; simp)+

lemma of_actions [simp]:
  "actions_of (map (Action \<circ> f) xs) = map f xs" "queries_of (map (Action \<circ> f) xs) = []" "streams_of (map (Action \<circ> f) xs) = []"
  by (induction xs) simp_all

context registry
begin

lemma register_fresh:
  assumes "admissible d" and "ident d \<noteq> []" and "entry r (ident d) = None"
  shows "\<exists>r'. register r d = (r', None) \<and> entry r' = (entry r)(ident d \<mapsto> stored d)"
  using register_total[OF assms] register_ok by blast

end

fun well_formed :: "('w, 'q, 'r) registration \<Rightarrow> bool" where
  "well_formed (Action d) \<longleftrightarrow> ad_ID d \<noteq> [] \<and> action_admissible d"
| "well_formed (Query i _ _) \<longleftrightarrow> i \<noteq> []"
| "well_formed (StreamQuery d) \<longleftrightarrow> sq_ID d \<noteq> [] \<and> sq_Handler d \<noteq> None \<and> 0 \<le> sq_Limit d \<and> [] \<notin> set (sq_Parameters d) \<and> distinct (sq_Parameters d)"
| "well_formed (StreamAction d) \<longleftrightarrow> sa_ID d \<noteq> [] \<and> sa_Handler d \<noteq> None \<and> sa_Resource d \<noteq> None \<and> 0 \<le> sa_Limit d \<and>
     [] \<notin> set (sa_Parameters d) \<and> distinct (sa_Parameters d)"

definition action_entry :: "'w action_definition \<Rightarrow> string \<times> 'w action_definition" where
  "action_entry d = (ad_ID d, action_stored d)"

lemma fst_action_entry [simp]: "fst (action_entry d) = ad_ID d" "fst \<circ> action_entry = ad_ID"
  by (auto simp: action_entry_def)

abbreviation action_map :: "('w, 'q, 'r) registries \<Rightarrow> string \<rightharpoonup> 'w action_definition" where
  "action_map D \<equiv> map_of (ar_actions (dr_actions D))"

abbreviation query_map :: "('w, 'q, 'r) registries \<Rightarrow> string \<rightharpoonup> bool" where
  "query_map D \<equiv> map_option rq_admin \<circ> map_of (qr_queries (dr_queries D))"

abbreviation stream_ids :: "('w, 'q, 'r) registries \<Rightarrow> string set" where
  "stream_ids D \<equiv> dom (map_of (sqr_queries (dr_streamQueries D))) \<union> dom (map_of (sar_actions (dr_streamActions D)))"

lemma register_one_fresh:
  assumes "well_formed x" and "ad_ID ` set (actions_of [x]) \<inter> dom (action_map D) = {}"
    and "fst ` set (queries_of [x]) \<inter> dom (query_map D) = {}" and "set (streams_of [x]) \<inter> stream_ids D = {}"
  shows "\<exists>D1. register_one D x = (D1, None) \<and> action_map D1 = action_map D ++ map_of (map action_entry (actions_of [x])) \<and>
    query_map D1 = query_map D ++ map_of (queries_of [x]) \<and> stream_ids D1 = stream_ids D \<union> set (streams_of [x])"
proof (cases x)
  case (Action d)
  obtain r where "RegisterDefinition (dr_actions D) d = (r, None)" "map_of (ar_actions r) = (action_map D)(ad_ID d \<mapsto> action_stored d)"
    using actions.register_fresh[of d "dr_actions D"] assms Action by auto
  then show ?thesis using Action by (simp add: action_entry_def)
next
  case (Query i admin h)
  obtain r where "query_Register (dr_queries D) (i, admin, Some h) = (r, None)"
      "map_of (qr_queries r) = (map_of (qr_queries (dr_queries D)))(i \<mapsto> \<lparr>rq_admin = admin, rq_handler = h\<rparr>)"
    using queries.register_fresh[of "(i, admin, Some h)" "dr_queries D"] assms Query by auto
  then show ?thesis using Query by auto
next
  case (StreamQuery d)
  obtain r where "stream_query_Register (dr_streamQueries D) d = (r, None)"
      "map_of (sqr_queries r) = (map_of (sqr_queries (dr_streamQueries D)))(sq_ID d \<mapsto> d\<lparr>sq_Parameters := sort (sq_Parameters d)\<rparr>)"
    using stream_queries.register_fresh[of d "dr_streamQueries D"] assms StreamQuery by auto
  then show ?thesis using StreamQuery by simp
next
  case (StreamAction d)
  obtain r where "stream_action_Register (dr_streamActions D) d = (r, None)"
      "map_of (sar_actions r) = (map_of (sar_actions (dr_streamActions D)))(sa_ID d \<mapsto> d\<lparr>sa_Parameters := sort (sa_Parameters d)\<rparr>)"
    using stream_actions.register_fresh[of d "dr_streamActions D"] assms StreamAction by auto
  then show ?thesis using StreamAction by simp
qed

lemma map_add_front: "fst ` set a \<inter> fst ` set b = {} \<Longrightarrow> m ++ map_of a ++ map_of b = m ++ map_of (a @ b)"
  using map_add_comm[of "map_of a" "map_of b"] by (simp add: dom_map_of_conv_image_fst flip: map_add_assoc)

lemma perform_fresh:
  assumes "list_all well_formed xs" and "distinct (map ad_ID (actions_of xs))" and "distinct (map fst (queries_of xs))" and "distinct (streams_of xs)"
    and "ad_ID ` set (actions_of xs) \<inter> dom (action_map D) = {}" and "fst ` set (queries_of xs) \<inter> dom (query_map D) = {}"
    and "set (streams_of xs) \<inter> stream_ids D = {}"
  shows "\<exists>D'. perform xs D = Inr D' \<and> action_map D' = action_map D ++ map_of (map action_entry (actions_of xs)) \<and>
    query_map D' = query_map D ++ map_of (queries_of xs)"
  using assms
proof (induction xs arbitrary: D)
  case (Cons x xs)
  have parts: "actions_of (x # xs) = actions_of [x] @ actions_of xs" "queries_of (x # xs) = queries_of [x] @ queries_of xs"
    "streams_of (x # xs) = streams_of [x] @ streams_of xs" by (cases x; simp)+
  note prems = Cons.prems[unfolded parts]
  have fresh: "ad_ID ` set (actions_of [x]) \<inter> dom (action_map D) = {}" "fst ` set (queries_of [x]) \<inter> dom (query_map D) = {}"
      "set (streams_of [x]) \<inter> stream_ids D = {}" using prems(5-7) unfolding set_append image_Un Int_Un_distrib2 by simp_all
  have "well_formed x" using prems(1) by simp
  from register_one_fresh[OF this fresh] obtain D1 where D1: "register_one D x = (D1, None)" "action_map D1 = action_map D ++ map_of (map action_entry (actions_of [x]))"
      "query_map D1 = query_map D ++ map_of (queries_of [x])" "stream_ids D1 = stream_ids D \<union> set (streams_of [x])"
    by blast
  have "ad_ID ` set (actions_of [x]) \<inter> ad_ID ` set (actions_of xs) = {}" "fst ` set (queries_of [x]) \<inter> fst ` set (queries_of xs) = {}"
    using prems(2,3) by auto
  note apart = this
  have "\<exists>D'. perform xs D1 = Inr D' \<and> action_map D' = action_map D1 ++ map_of (map action_entry (actions_of xs)) \<and>
      query_map D' = query_map D1 ++ map_of (queries_of xs)"
  proof (rule Cons.IH)
    show "ad_ID ` set (actions_of xs) \<inter> dom (action_map D1) = {}"
      using prems(5) apart(1) unfolding D1(2) by (auto simp: dom_map_of_conv_image_fst image_image)
    show "fst ` set (queries_of xs) \<inter> dom (query_map D1) = {}"
      using prems(6) apart(2) unfolding D1(3) dom_map_add dom_map_of_conv_image_fst[of "queries_of [x]"] set_append image_Un by blast
    show "set (streams_of xs) \<inter> stream_ids D1 = {}" using prems(4,7) unfolding D1(4) by auto
  qed (use prems in simp_all)
  then obtain D' where D': "perform xs D1 = Inr D'" "action_map D' = action_map D1 ++ map_of (map action_entry (actions_of xs))"
      "query_map D' = query_map D1 ++ map_of (queries_of xs)" by blast
  have "action_map D' = action_map D ++ map_of (map action_entry (actions_of (x # xs)))"
    unfolding D'(2) D1(2) parts map_append using apart(1) by (intro map_add_front) (simp add: image_image)
  moreover have "query_map D' = query_map D ++ map_of (queries_of (x # xs))"
    unfolding D'(3) D1(3) parts using apart(2) by (intro map_add_front) simp
  moreover have "perform (x # xs) D = Inr D'" using D1(1) D'(1) by simp
  ultimately show ?case by blast
qed simp

section \<open>The tables\<close>

text \<open>
  The policy as a table: a row is a condition on the host with the actions it allows, each with whether it needs
  confirmation, or with the queries, each with whether it is for administrators only.
\<close>

definition selected :: "(bool \<times> 'a list) list \<Rightarrow> 'a list" where
  "selected rows = concat (map (\<lambda>(c, xs). if c then xs else []) rows)"

definition action_table :: "('w, 'q, 'r) managers \<Rightarrow> cap_id set \<Rightarrow> (bool \<times> (string \<times> bool) list) list" where
  "action_table M C =
     [(ms_remote M \<noteq> None \<and> Systemd \<in> C, [(ActionStorageCreateNFS, False), (ActionStorageCreateSMBGuest, False),
        (ActionStorageCreateSMBCredentials, False), (ActionStorageCreateSMBGuestOwned, False), (ActionStorageCreateSMBCredentialsOwned, False),
        (ActionStorageMount, False), (ActionStorageUnmount, True), (ActionStorageDelete, True)]),
      (ms_services M \<noteq> None \<and> Systemd \<in> C, [(ActionServicesDisable, True), (ActionServicesEnable, False), (ActionServicesResetFailed, False),
        (ActionServicesRestart, False), (ActionServicesStart, False), (ActionServicesStop, True)]),
      (Updex \<in> C \<and> Sysext \<in> C, [(ActionSysextDisable, True), (ActionSysextEnable, False)]),
      (Sysext \<in> C, [(ActionSysextRefresh, True)]), (Updex \<in> C, [(ActionSysextUpdate, True)]),
      (Systemd \<in> C, [(ActionMaintenanceReboot, True)]),
      (Podman \<in> C, [(ActionPodmanRemove, True), (ActionPodmanRemoveImage, True), (ActionPodmanRestart, False), (ActionPodmanStart, False), (ActionPodmanStop, True)]),
      (ms_docker M \<noteq> None \<and> Docker \<in> C, [(ActionDockerRemove, True), (ActionDockerRemoveImage, True), (ActionDockerRestart, False),
        (ActionDockerStart, False), (ActionDockerStop, True)]),
      (Incus \<in> C, [(ActionIncusRemove, True), (ActionIncusRemoveImage, True), (ActionIncusRestart, False), (ActionIncusStart, False), (ActionIncusStop, True),
        (ActionIncusStopForce, True), (ActionIncusCreate, False), (ActionIncusSnapshotCreate, False), (ActionIncusSnapshotDelete, True), (ActionIncusSnapshotRestore, True)])]"

definition query_table :: "('w, 'q, 'r) managers \<Rightarrow> cap_id set \<Rightarrow> (bool \<times> (string \<times> bool) list) list" where
  "query_table M C =
     [(True, [(QueryCapabilities, False), (QueryFilesList, True), (QueryActivity, True), (QueryJobs, True), (QueryStorageState, False)]),
      (ms_backups M \<noteq> None \<and> Systemd \<in> C, [(QueryBackupsState, False)]),
      (ms_services M \<noteq> None \<and> Systemd \<in> C, [(QueryServicesState, False)]),
      (ms_services M \<noteq> None \<and> Systemd \<in> C \<and> Journald \<in> C, [(QueryServicesJournal, False)]),
      (ms_filters M \<noteq> None \<and> Systemd \<in> C \<and> Journald \<in> C, [(QueryLogs, True)]),
      (Updex \<in> C \<or> Sysext \<in> C, [(QueryExtensionsState, False)]),
      (Bootc \<in> C \<or> RPMOStree \<in> C, [(QueryHostImageStatus, False), (QueryAutoUpdateStatus, False)]),
      (Systemd \<in> C, [(QueryMaintenanceState, False)]), (Podman \<in> C, [(QueryPodmanLogs, False), (QueryPodmanState, False)]),
      (ms_docker M \<noteq> None \<and> Docker \<in> C, [(QueryDockerLogs, False), (QueryDockerState, False)]),
      (Incus \<in> C, [(QueryIncusState, False), (QueryIncusInstance, False), (QueryIncusLogs, False), (QueryIncusNetwork, False), (QueryIncusProfile, False)]),
      (K3s \<in> C, [(QueryK3sState, False)])]"

lemma distinct_selected:
  assumes "distinct (map f (concat (map snd rows)))"
  shows "distinct (map f (selected rows))"
  using assms
proof (induction rows)
  case (Cons r rows)
  have "set (selected rows) \<subseteq> set (concat (map snd rows))" by (auto simp: selected_def split: if_splits)
  then show ?case using Cons by (auto simp: selected_def split: prod.splits) blast+
qed (simp add: selected_def)

lemma action_ids_distinct: "distinct (map fst (concat (map snd (action_table M C))))"
  by (simp add: action_table_def action_id_defs)

lemma query_ids_distinct: "distinct (map fst (concat (map snd (query_table M C))))"
  by (simp add: query_table_def query_id_defs QueryCapabilities_def)

abbreviation policy :: "'w action_definition \<Rightarrow> string \<times> bool" where
  "policy d \<equiv> (ad_ID d, ad_ConfirmationRequired d)"

lemmas definition_simps = zero_action_def named_action_def storage_create_def storage_lifecycle_def sysext_global_def action_of_def
  project_action_def snapshot_action_def incus_create_def action_admissible_def

definition surface :: "('w, 'q, 'r) registration list \<Rightarrow> (string \<times> bool) list \<times> (string \<times> bool) list \<times> string list" where
  "surface xs = (map policy (actions_of xs), queries_of xs, streams_of xs)"

definition sound :: "('w, 'q, 'r) registration list \<Rightarrow> bool" where
  "sound xs \<longleftrightarrow> list_all well_formed xs \<and> list_all ad_Admin (actions_of xs)"

lemma sound_append [simp]: "sound (xs @ ys) \<longleftrightarrow> sound xs \<and> sound ys"
  by (auto simp: sound_def)

lemma surface_append: "surface (xs @ ys) = (let (a, q, s) = surface xs; (b, r, t) = surface ys in (a @ b, q @ r, s @ t))"
  by (simp add: surface_def)

lemmas surface_simps = surface_def sound_def registerNamedActions_def definition_simps cap_Has_iff cap_HasAll_iff cap_HasAny_iff

lemma plain_surface:
  "surface (registerCapabilities M caps) = ([], [(QueryCapabilities, False)], [])"
  "surface (registerFiles m) = ([], [(QueryFilesList, True)], [QueryFilesDownload, ActionFilesUpload])"
  "surface (registerActivity la) = ([], [(QueryActivity, True)], [])"
  "surface (registerJobs lj) = ([], [(QueryJobs, True)], [])"
  "surface (registerStorage st) = ([], [(QueryStorageState, False)], [])"
  by (simp_all add: surface_simps registerCapabilities_def registerFiles_def registerActivity_def registerJobs_def registerStorage_def
      files_download_definition_def files_upload_definition_def)

lemma plain_sound:
  "sound (registerCapabilities M caps)" "sound (registerFiles m)" "sound (registerActivity la)" "sound (registerJobs lj)" "sound (registerStorage st)"
  by (simp_all add: surface_simps registerCapabilities_def registerFiles_def registerActivity_def registerJobs_def registerStorage_def
      files_download_definition_def files_upload_definition_def MaxTransferBytes_def action_id_defs query_id_defs QueryCapabilities_def)

lemma guarded_surface:
  "surface (registerBackups ms caps) = ([], (if ms \<noteq> None \<and> Systemd \<in> caps_of caps then [(QueryBackupsState, False)] else []), [])"
  "surface (registerLogs lf caps) = ([], (if lf \<noteq> None \<and> Systemd \<in> caps_of caps \<and> Journald \<in> caps_of caps then [(QueryLogs, True)] else []), [])"
  "surface (registerExtensions x caps) = ([], (if Updex \<in> caps_of caps \<or> Sysext \<in> caps_of caps then [(QueryExtensionsState, False)] else []), [])"
  "surface (registerHostImage hi caps) = ([], (if Bootc \<in> caps_of caps \<or> RPMOStree \<in> caps_of caps then [(QueryHostImageStatus, False)] else []), [])"
  "surface (registerAutoUpdate au caps) = ([], (if Bootc \<in> caps_of caps \<or> RPMOStree \<in> caps_of caps then [(QueryAutoUpdateStatus, False)] else []), [])"
  "surface (registerK3s ks caps) = ([], (if K3s \<in> caps_of caps then [(QueryK3sState, False)] else []), [])"
  by (auto simp: surface_simps registerBackups_def registerLogs_def registerExtensions_def registerHostImage_def registerAutoUpdate_def
      registerK3s_def split: option.splits)

lemma guarded_sound:
  "sound (registerBackups ms caps)" "sound (registerLogs lf caps)" "sound (registerExtensions x caps)" "sound (registerHostImage hi caps)"
  "sound (registerAutoUpdate au caps)" "sound (registerK3s ks caps)"
  by (auto simp: surface_simps registerBackups_def registerLogs_def registerExtensions_def registerHostImage_def registerAutoUpdate_def
      registerK3s_def query_id_defs split: option.splits)

lemma maintenance_surface:
  "surface (registerMaintenance m caps) = (if Systemd \<in> caps_of caps then ([(ActionMaintenanceReboot, True)], [(QueryMaintenanceState, False)], []) else ([], [], []))"
  "sound (registerMaintenance m caps)"
  by (auto simp: surface_simps registerMaintenance_def action_id_defs query_id_defs)

lemma sysext_surface:
  "surface (registerSysextActions x caps) = ((if Updex \<in> caps_of caps \<and> Sysext \<in> caps_of caps then [(ActionSysextDisable, True), (ActionSysextEnable, False)] else []) @
     (if Sysext \<in> caps_of caps then [(ActionSysextRefresh, True)] else []) @ (if Updex \<in> caps_of caps then [(ActionSysextUpdate, True)] else []), [], [])"
  "sound (registerSysextActions x caps)"
  by (auto simp: surface_simps registerSysextActions_def action_id_defs)

lemma services_surface:
  "surface (registerServices sv caps) = ((if sv \<noteq> None \<and> Systemd \<in> caps_of caps then [(ActionServicesDisable, True), (ActionServicesEnable, False),
      (ActionServicesResetFailed, False), (ActionServicesRestart, False), (ActionServicesStart, False), (ActionServicesStop, True)] else []),
    (if sv \<noteq> None \<and> Systemd \<in> caps_of caps then [(QueryServicesState, False)] else []) @
    (if sv \<noteq> None \<and> Systemd \<in> caps_of caps \<and> Journald \<in> caps_of caps then [(QueryServicesJournal, False)] else []), [])"
  "sound (registerServices sv caps)"
  by (auto simp: surface_simps registerServices_def action_id_defs query_id_defs split: option.splits)

lemma engine_surface:
  "surface (registerPodman e caps) = (if Podman \<in> caps_of caps then ([(ActionPodmanRemove, True), (ActionPodmanRemoveImage, True),
      (ActionPodmanRestart, False), (ActionPodmanStart, False), (ActionPodmanStop, True)], [(QueryPodmanLogs, False), (QueryPodmanState, False)], []) else ([], [], []))"
  "surface (registerDocker e caps) = (if Docker \<in> caps_of caps then ([(ActionDockerRemove, True), (ActionDockerRemoveImage, True),
      (ActionDockerRestart, False), (ActionDockerStart, False), (ActionDockerStop, True)], [(QueryDockerLogs, False), (QueryDockerState, False)], []) else ([], [], []))"
  "sound (registerPodman e caps)" "sound (registerDocker e caps)"
  by (auto simp: surface_simps registerPodman_def registerDocker_def action_id_defs query_id_defs)

lemma storage_surface:
  "surface (registerStorageActions rnd rm caps) = ((if rm \<noteq> None \<and> Systemd \<in> caps_of caps then [(ActionStorageCreateNFS, False), (ActionStorageCreateSMBGuest, False),
      (ActionStorageCreateSMBCredentials, False), (ActionStorageCreateSMBGuestOwned, False), (ActionStorageCreateSMBCredentialsOwned, False),
      (ActionStorageMount, False), (ActionStorageUnmount, True), (ActionStorageDelete, True)] else []), [], [])"
  "sound (registerStorageActions rnd rm caps)"
  by (auto simp: surface_simps registerStorageActions_def action_id_defs split: option.splits)

lemma incus_surface:
  "surface (registerIncus m caps) = (if Incus \<in> caps_of caps then ([(ActionIncusRemove, True), (ActionIncusRemoveImage, True), (ActionIncusRestart, False),
      (ActionIncusStart, False), (ActionIncusStop, True), (ActionIncusStopForce, True), (ActionIncusCreate, False), (ActionIncusSnapshotCreate, False),
      (ActionIncusSnapshotDelete, True), (ActionIncusSnapshotRestore, True)],
    [(QueryIncusState, False), (QueryIncusInstance, False), (QueryIncusLogs, False), (QueryIncusNetwork, False), (QueryIncusProfile, False)], []) else ([], [], []))"
  "sound (registerIncus m caps)"
  by (auto simp: surface_simps registerIncus_def action_id_defs query_id_defs)

lemmas surfaces = plain_surface guarded_surface maintenance_surface(1) sysext_surface(1) services_surface(1) engine_surface(1,2) storage_surface(1) incus_surface(1)
lemmas sounds = plain_sound guarded_sound maintenance_surface(2) sysext_surface(2) services_surface(2) engine_surface(3,4) storage_surface(2) incus_surface(2)

lemma nothing_registered: "surface [] = ([], [], [])" "sound []"
  by (simp_all add: surface_def sound_def)

lemma docker_surface:
  "surface (case dk of None \<Rightarrow> [] | Some d \<Rightarrow> registerDocker d caps) = (if dk \<noteq> None \<and> Docker \<in> caps_of caps then ([(ActionDockerRemove, True), (ActionDockerRemoveImage, True),
      (ActionDockerRestart, False), (ActionDockerStart, False), (ActionDockerStop, True)], [(QueryDockerLogs, False), (QueryDockerState, False)], []) else ([], [], []))"
  "sound (case dk of None \<Rightarrow> [] | Some d \<Rightarrow> registerDocker d caps)"
  by (simp_all add: engine_surface nothing_registered split: option.split)

lemma daemon_sound: "sound (daemon_registrations M caps)"
  by (simp add: daemon_registrations_def sounds docker_surface(2))

lemma surface_parts:
  "map policy (actions_of xs) = fst (surface xs)" "queries_of xs = fst (snd (surface xs))" "streams_of xs = snd (snd (surface xs))"
  by (simp_all add: surface_def)

lemma sum_fst: "fst (surface (xs @ ys)) = fst (surface xs) @ fst (surface ys)"
  "fst (snd (surface (xs @ ys))) = fst (snd (surface xs)) @ fst (snd (surface ys))"
  "snd (snd (surface (xs @ ys))) = snd (snd (surface xs)) @ snd (snd (surface ys))"
  by (simp_all add: surface_def)

lemma if_pair: "fst (if c then a else b) = (if c then fst a else fst b)" "snd (if c then a else b) = (if c then snd a else snd b)"
  by simp_all

lemma registered_actions:
  "map policy (actions_of (daemon_registrations M caps)) = selected (action_table M (caps_of caps))"
  unfolding surface_parts daemon_registrations_def sum_fst surfaces docker_surface(1) if_pair fst_conv snd_conv selected_def action_table_def
  by (simp only: list.map concat.simps prod.case append_Nil append_Nil2 append_assoc if_cancel)

lemma registered_queries:
  "mset (queries_of (daemon_registrations M caps)) = mset (selected (query_table M (caps_of caps)))"
  unfolding surface_parts daemon_registrations_def sum_fst surfaces docker_surface(1) if_pair fst_conv snd_conv selected_def query_table_def
  by (simp only: list.map concat.simps prod.case append_Nil append_Nil2 append_assoc mset_append if_cancel if_distrib[of mset] mset.simps) simp

lemma registered_streams: "streams_of (daemon_registrations M caps) = [QueryFilesDownload, ActionFilesUpload]"
  unfolding surface_parts daemon_registrations_def sum_fst surfaces docker_surface(1) if_pair fst_conv snd_conv by simp

lemma daemon_registers:
  "\<exists>D. perform (daemon_registrations M caps) (new_registries auditStore jobStore rec) = Inr D \<and>
    action_map D = map_of (map action_entry (actions_of (daemon_registrations M caps))) \<and>
    query_map D = map_of (queries_of (daemon_registrations M caps))"
proof -
  define xs where "xs = daemon_registrations M caps"
  define D0 where "D0 = (new_registries auditStore jobStore rec :: ('a, 'b, 'c) registries)"
  have empty: "action_map D0 = Map.empty" "query_map D0 = Map.empty" "stream_ids D0 = {}"
    by (auto simp: D0_def new_registries_def newActionRegistries_def NewActionRegistry_def UseJobs_def UseProblems_def NewQueryRegistry_def
        NewStreamQueryRegistry_def NewStreamActionRegistry_def stream_UseProblems_def)
  have wf: "list_all well_formed xs" using daemon_sound[of M caps] by (simp add: xs_def sound_def)
  have "map ad_ID (actions_of xs) = map fst (selected (action_table M (caps_of caps)))"
    using arg_cong[OF registered_actions, of "map fst"] by (simp add: xs_def o_def)
  then have da: "distinct (map ad_ID (actions_of xs))" using distinct_selected[OF action_ids_distinct] by metis
  have "mset (map fst (queries_of xs)) = mset (map fst (selected (query_table M (caps_of caps))))"
    using registered_queries[of M caps] by (simp add: xs_def)
  then have dq: "distinct (map fst (queries_of xs))" using distinct_selected[OF query_ids_distinct] mset_eq_imp_distinct_iff by metis
  have ds: "distinct (streams_of xs)"
    by (simp add: xs_def registered_streams QueryFilesDownload_def ActionFilesUpload_def)
  have "\<exists>D. perform xs D0 = Inr D \<and> action_map D = action_map D0 ++ map_of (map action_entry (actions_of xs)) \<and>
      query_map D = query_map D0 ++ map_of (queries_of xs)"
    by (rule perform_fresh[OF wf da dq ds]) (simp_all only: empty dom_empty Int_empty_right)
  then show ?thesis unfolding xs_def[symmetric] D0_def[symmetric] empty map_add_empty empty_map_add .
qed

section \<open>Properties\<close>

text \<open>
  C3. The daemon's actions. On every host, whatever its capabilities and managers, the registrations of the daemon
  succeed; the registered actions are exactly those that the table allows for the host, every one of them is for
  administrators only, and it asks for confirmation exactly where the table says so. So no request of a user who is
  not an administrator changes anything, whichever action it names.
\<close>

theorem daemon_action_policy:
  fixes M :: "('w, 'q, 'r) managers"
  shows "\<exists>D. perform (daemon_registrations M caps) (new_registries auditStore jobStore rec) = Inr D \<and>
    (\<forall>i. case map_of (ar_actions (dr_actions D)) i of
        None \<Rightarrow> i \<notin> fst ` set (selected (action_table M (caps_of caps)))
      | Some d \<Rightarrow> ad_Admin d \<and> ad_ID d = i \<and> (i, ad_ConfirmationRequired d) \<in> set (selected (action_table M (caps_of caps)))) \<and>
    (\<forall>others ident i ps conf st. \<not> Admin ident \<longrightarrow>
      (\<exists>e. action_Execute (dr_actions D) others ident i ps conf st = (st, Returns (Some e))))"
proof -
  define xs where "xs = daemon_registrations M caps"
  obtain D where D: "perform xs (new_registries auditStore jobStore rec) = Inr D"
      "map_of (ar_actions (dr_actions D)) = map_of (map action_entry (actions_of xs))"
    using daemon_registers[of M caps auditStore jobStore rec] by (auto simp: xs_def)
  have pol: "(\<lambda>d. (ad_ID d, ad_ConfirmationRequired d)) ` set (actions_of xs) = set (selected (action_table M (caps_of caps)))"
    using arg_cong[OF registered_actions[of M caps], of set] by (simp add: xs_def)
  have adm: "\<forall>d\<in>set (actions_of xs). ad_Admin d" using daemon_sound[of M caps] by (simp add: sound_def xs_def list_all_iff)
  have some: "\<exists>d0\<in>set (actions_of xs). ad_ID d0 = i \<and> d = action_stored d0" if "map_of (ar_actions (dr_actions D)) i = Some d" for i d
    using map_of_SomeD[OF that[unfolded D(2)]] by (auto simp: action_entry_def)
  have none: "i \<notin> ad_ID ` set (actions_of xs)" if "map_of (ar_actions (dr_actions D)) i = None" for i
    using that unfolding D(2) map_of_eq_None_iff by (simp add: image_image)
  have ids: "fst ` set (selected (action_table M (caps_of caps))) = ad_ID ` set (actions_of xs)"
    unfolding pol[symmetric] by (simp add: image_image)
  have one: "case map_of (ar_actions (dr_actions D)) i of
        None \<Rightarrow> i \<notin> fst ` set (selected (action_table M (caps_of caps)))
      | Some d \<Rightarrow> ad_Admin d \<and> ad_ID d = i \<and> (i, ad_ConfirmationRequired d) \<in> set (selected (action_table M (caps_of caps)))" for i
    using some[of i] none[of i] adm unfolding ids
    by (auto simp: pol[symmetric] action_stored_def split: option.split)
  have two: "\<exists>e. action_Execute (dr_actions D) others ident i ps conf st = (st, Returns (Some e))" if "\<not> Admin ident" for others ident i ps conf st
    using one[of i] that by (auto simp: action_Execute_def admit_def split: option.splits)
  show ?thesis using D(1) one two unfolding xs_def by blast
qed

text \<open>A host where every manager is there and none does anything.\<close>

definition idle_engine :: "(unit, unit) engine_iface" where
  "idle_engine = \<lparr>ei_Logs = (\<lambda>_ _ w. (w, Inr ())), ei_State = (\<lambda>_ w. (w, Inr ())), ei_Remove = (\<lambda>_ _ w. (w, None)), ei_RemoveImage = (\<lambda>_ _ w. (w, None)),
     ei_Restart = (\<lambda>_ _ w. (w, None)), ei_Start = (\<lambda>_ _ w. (w, None)), ei_Stop = (\<lambda>_ _ w. (w, None))\<rparr>"

definition idle_incus :: "(unit, unit) incus_iface" where
  "idle_incus = \<lparr>ii_State = (\<lambda>_ _ w. (w, Inr ())), ii_Detail = (\<lambda>_ _ _ w. (w, Inr ())), ii_Logs = (\<lambda>_ _ _ _ w. (w, Inr ())),
     ii_NetworkDetail = (\<lambda>_ _ _ w. (w, Inr ())), ii_ProfileDetail = (\<lambda>_ _ _ w. (w, Inr ())), ii_Remove = (\<lambda>_ _ _ w. (w, None)),
     ii_RemoveImage = (\<lambda>_ _ _ w. (w, None)), ii_Restart = (\<lambda>_ _ _ w. (w, None)), ii_Start = (\<lambda>_ _ _ w. (w, None)), ii_Stop = (\<lambda>_ _ _ w. (w, None)),
     ii_StopForce = (\<lambda>_ _ _ w. (w, None)), ii_CreateInstance = (\<lambda>_ _ _ _ _ _ w. (w, None)), ii_CreateSnapshot = (\<lambda>_ _ _ _ w. (w, None)),
     ii_DeleteSnapshot = (\<lambda>_ _ _ _ w. (w, None)), ii_RestoreSnapshot = (\<lambda>_ _ _ _ w. (w, None))\<rparr>"

definition idle_managers :: "(unit, unit, unit) managers" where
  "idle_managers = \<lparr>ms_remote = None, ms_backups = None, ms_services = None, ms_filters = None, ms_docker = Some idle_engine, ms_podman = idle_engine,
     ms_incus = idle_incus,
     ms_sysext = \<lparr>xi_Disable = (\<lambda>_ _ w. (w, None)), xi_Enable = (\<lambda>_ _ w. (w, None)), xi_Refresh = (\<lambda>_ w. (w, None)), xi_Update = (\<lambda>_ w. (w, None)),
       xi_State = (\<lambda>_ _ _ w. (w, Inr ()))\<rparr>,
     ms_maintenance = \<lparr>mi_State = (\<lambda>_ w. (w, Inr ())), mi_Reboot = (\<lambda>_ w. (w, None))\<rparr>,
     ms_files = \<lparr>fi_List = (\<lambda>_ _ w. (w, Inr ())), fi_Download = (\<lambda>_ _ _ w. (w, Inl Canceled)), fi_Upload = (\<lambda>_ _ _ _ _ w. (w, None))\<rparr>,
     ms_hostImage = (\<lambda>_ w. (w, Inr ())), ms_autoUpdate = (\<lambda>_ w. (w, Inr ())), ms_k3s = (\<lambda>_ w. (w, Inr ())), ms_storage = (\<lambda>_ w. (w, Inr ())),
     ms_jobs = (\<lambda>_ _ w. (w, Inr ())), ms_activity = (\<lambda>_ _ w. (w, Inr ())), ms_caps = (\<lambda>_. ()), ms_random = (\<lambda>w. (w, Inl Canceled))\<rparr>"

definition idle_registries :: "(unit, unit, unit) registries" where
  "idle_registries = new_registries \<lparr>ai_Begin = (\<lambda>_ _ w. (w, Inl Canceled)), ai_Complete = (\<lambda>_ _ _ _ w. (w, None))\<rparr>
     \<lparr>ji_Complete = (\<lambda>_ _ _ _ _ w. (w, None)), ji_Enqueue = (\<lambda>_ _ w. (w, Inl Canceled)), ji_Start = (\<lambda>_ _ w. (w, None))\<rparr> (\<lambda>_ _ w. w)"

theorem daemon_action_policy_witness:
  "\<exists>D. perform (daemon_registrations idle_managers (cap_New [Podman])) idle_registries = Inr D \<and>
    (\<exists>d. map_of (ar_actions (dr_actions D)) ActionPodmanStop = Some d \<and> ad_Admin d \<and> ad_ConfirmationRequired d) \<and>
    map_of (ar_actions (dr_actions D)) ActionIncusStop = None \<and>
    (\<forall>others ps conf st. \<exists>e. action_Execute (dr_actions D) others \<lparr>Admin = False, Groups = [], UID = 1000, Username = ''ann''\<rparr>
      ActionPodmanStop ps conf st = (st, Returns (Some e)))"
proof -
  have sel: "selected (action_table idle_managers (caps_of (cap_New [Podman]))) = [(ActionPodmanRemove, True), (ActionPodmanRemoveImage, True),
      (ActionPodmanRestart, False), (ActionPodmanStart, False), (ActionPodmanStop, True)]"
    unfolding caps_of_New by (simp add: selected_def action_table_def idle_managers_def Systemd_def Podman_def Docker_def Incus_def Updex_def Sysext_def)
  obtain D where D: "perform (daemon_registrations idle_managers (cap_New [Podman])) idle_registries = Inr D"
    and p: "\<forall>i. case map_of (ar_actions (dr_actions D)) i of
        None \<Rightarrow> i \<notin> fst ` set (selected (action_table idle_managers (caps_of (cap_New [Podman]))))
      | Some d \<Rightarrow> ad_Admin d \<and> ad_ID d = i \<and> (i, ad_ConfirmationRequired d) \<in> set (selected (action_table idle_managers (caps_of (cap_New [Podman]))))"
    and e: "\<forall>others ident i ps conf st. \<not> Admin ident \<longrightarrow> (\<exists>e. action_Execute (dr_actions D) others ident i ps conf st = (st, Returns (Some e)))"
    using daemon_action_policy[of idle_managers "cap_New [Podman]"] unfolding idle_registries_def by blast
  have "\<exists>d. map_of (ar_actions (dr_actions D)) ActionPodmanStop = Some d \<and> ad_Admin d \<and> ad_ConfirmationRequired d"
    using spec[OF p, of ActionPodmanStop] unfolding sel by (auto simp: action_id_defs split: option.splits)
  moreover have "map_of (ar_actions (dr_actions D)) ActionIncusStop = None"
    using spec[OF p, of ActionIncusStop] unfolding sel by (auto simp: action_id_defs split: option.splits)
  ultimately show ?thesis using D e by auto
qed

text \<open>
  C36. The daemon's queries. On every host the registered queries are exactly those of the table for that host, each
  open to every signed-in user or to administrators only as the table says.
\<close>

theorem daemon_query_policy:
  fixes M :: "('w, 'q, 'r) managers"
  shows "\<exists>D. perform (daemon_registrations M caps) (new_registries auditStore jobStore rec) = Inr D \<and>
    (\<forall>i. map_option rq_admin (map_of (qr_queries (dr_queries D)) i) = map_of (selected (query_table M (caps_of caps))) i)"
proof -
  have "map_of (queries_of (daemon_registrations M caps)) = map_of (selected (query_table M (caps_of caps)))"
    using registered_queries[of M caps] distinct_selected[OF query_ids_distinct, of M "caps_of caps"]
    by (metis map_of_inject_set mset_eq_imp_distinct_iff mset_map set_mset_mset)
  then show ?thesis using daemon_registers[of M caps auditStore jobStore rec] by (metis comp_apply)
qed

end
