(* ===== verification/Engine_Logs.thy ===== *)
theory Engine_Logs
  imports Text
begin

text \<open>
  The log tail of a container (\<open>internal/modules/podman/manager.go\<close> and \<open>internal/modules/docker/manager.go\<close>, which
  share this code line by line): lines are read from a byte stream, plain or in frames with an 8-byte header, and
  only the last 200 of them and at most 256 KiB are kept. A stream is its bytes with whether it ends in \<open>EOF\<close> or in
  another error; \<open>rfc\<close> is whether \<open>time.Parse\<close> accepts a timestamp.
\<close>

definition logsTailLines :: nat where "logsTailLines = 200"
definition logsMaxBytes :: int where "logsMaxBytes = 262144"

record log_line =
  ll_Timestamp :: string
  ll_Stream :: string
  ll_Message :: string

text \<open>The tail of a log, for lines \<open>'l\<close> of any kind; the lines of incus have no stream and no timestamp.\<close>

record 'l bounded_lines =
  bl_lines :: "'l list"
  bl_bytes :: int

definition newLogLines :: "'l bounded_lines" where
  "newLogLines = \<lparr>bl_lines = [], bl_bytes = 0\<rparr>"

definition logLineSize :: "log_line \<Rightarrow> int" where
  "logLineSize l = int (length (ll_Timestamp l) + length (ll_Stream l) + length (ll_Message l))"

definition parseLogLine :: "(string \<Rightarrow> bool) \<Rightarrow> string \<Rightarrow> string \<Rightarrow> log_line" where
  "parseLogLine rfc raw stream = (case cut (CHR '' '') raw of
     Some (timestamp, message) \<Rightarrow> if rfc timestamp then \<lparr>ll_Timestamp = timestamp, ll_Stream = stream, ll_Message = message\<rparr>
       else \<lparr>ll_Timestamp = [], ll_Stream = stream, ll_Message = raw\<rparr>
   | None \<Rightarrow> \<lparr>ll_Timestamp = [], ll_Stream = stream, ll_Message = raw\<rparr>)"

text \<open>Dropping from the front; taking the first line of an empty list is a panic, \<open>None\<close>.\<close>

fun shrink_lines :: "('l \<Rightarrow> int) \<Rightarrow> 'l list \<Rightarrow> int \<Rightarrow> 'l bounded_lines option" where
  "shrink_lines size_of ls bytes = (if length ls > logsTailLines \<or> bytes > logsMaxBytes
     then (case ls of [] \<Rightarrow> None | l # ls' \<Rightarrow> shrink_lines size_of ls' (bytes - size_of l))
     else Some \<lparr>bl_lines = ls, bl_bytes = bytes\<rparr>)"

definition tail_add :: "('l \<Rightarrow> int) \<Rightarrow> 'l bounded_lines \<Rightarrow> 'l \<Rightarrow> 'l bounded_lines option" where
  "tail_add size_of b line =
     (if size_of line > logsMaxBytes then Some b else shrink_lines size_of (bl_lines b @ [line]) (bl_bytes b + size_of line))"

definition log_add :: "log_line bounded_lines \<Rightarrow> log_line \<Rightarrow> log_line bounded_lines option" where
  "log_add b line = tail_add logLineSize b line"

text \<open>\<open>bufio.Reader.ReadSlice\<close> with its buffer of 4096 bytes: a line, a full buffer, or what is left at the end.\<close>

datatype slice_end = SliceLine | SliceFull | SliceEnd

definition log_newline :: char where "log_newline = CHR 0x0A"

definition read_slice :: "string \<Rightarrow> string \<times> slice_end" where
  "read_slice s = (let buf = take 4096 s; line = takeWhile (\<lambda>c. c \<noteq> log_newline) buf in
     if log_newline \<in> set buf then (line @ [log_newline], SliceLine)
     else if length buf = 4096 then (buf, SliceFull) else (s, SliceEnd))"

definition trim_line :: "string \<Rightarrow> string" where
  "trim_line s = rev (dropWhile (\<lambda>c. c = CHR 0x0D \<or> c = CHR 0x0A) (rev s))"

lemma read_slice_shorter:
  assumes "(fragment, st) = read_slice s" "st \<noteq> SliceEnd"
  shows "length s - length fragment < length s"
proof -
  have "s \<noteq> []" "0 < length fragment" using assms by (auto simp: read_slice_def Let_def split: if_splits)
  then show ?thesis by (simp add: length_greater_0_conv)
qed

text \<open>The loop over the lines of a stream; \<open>add\<close> takes a whole line, and a line that is too long is discarded.\<close>

function read_tail :: "(string \<Rightarrow> 'b \<Rightarrow> 'b option) \<Rightarrow> bool \<Rightarrow> string \<Rightarrow> string \<Rightarrow> bool \<Rightarrow> 'b \<Rightarrow> 'b option" where
  "read_tail add eof s raw discard b =
     (let (fragment, ended) = read_slice s;
          (raw1, discard1) = (if discard then (raw, True)
            else if int (length raw + length fragment) \<le> logsMaxBytes then (raw @ fragment, False) else ([], True))
      in case ended of
           SliceLine \<Rightarrow> (case (if discard1 then Some b else add (trim_line raw1) b) of
             None \<Rightarrow> None | Some b1 \<Rightarrow> read_tail add eof (drop (length fragment) s) [] False b1)
         | SliceFull \<Rightarrow> read_tail add eof (drop (length fragment) s) raw1 discard1 b
         | SliceEnd \<Rightarrow> if eof \<and> \<not> discard1 \<and> raw1 \<noteq> [] then add (trim_line raw1) b else Some b)"
  by pat_completeness auto
termination
  by (relation "measure (\<lambda>(_, _, s, _). length s)") (auto dest: read_slice_shorter)

declare read_tail.simps [simp del]
declare shrink_lines.simps [simp del]

definition log_read :: "(string \<Rightarrow> bool) \<Rightarrow> string \<Rightarrow> bool \<Rightarrow> string \<Rightarrow> log_line bounded_lines \<Rightarrow> log_line bounded_lines option" where
  "log_read rfc stream eof s b = read_tail (\<lambda>raw b. log_add b (parseLogLine rfc raw stream)) eof s [] False b"

text \<open>Frames: a header with the stream and the length of the payload in network order.\<close>

definition frame_size :: "string \<Rightarrow> nat" where
  "frame_size header = foldl (\<lambda>n c. 256 * n + of_char c) 0 (take 4 (drop 4 header))"

fun add_all :: "log_line bounded_lines \<Rightarrow> log_line list \<Rightarrow> log_line bounded_lines option" where
  "add_all b [] = Some b"
| "add_all b (l # ls) = (case log_add b l of None \<Rightarrow> None | Some b1 \<Rightarrow> add_all b1 ls)"

function read_frames :: "(string \<Rightarrow> bool) \<Rightarrow> string \<Rightarrow> log_line bounded_lines \<Rightarrow> log_line bounded_lines option" where
  "read_frames rfc s b =
     (if length s < 8 then Some b
      else let header = take 8 s; kind = (of_char (hd header) :: nat); rest = drop 8 s; size = frame_size header in
        if kind \<noteq> 1 \<and> kind \<noteq> 2 then Some b
        else (case log_read rfc (if kind = 2 then ''stderr'' else ''stdout'') True (take size rest) newLogLines of
            None \<Rightarrow> None
          | Some frameLines \<Rightarrow> if length rest < size then Some b
              else (case add_all b (bl_lines frameLines) of None \<Rightarrow> None | Some b1 \<Rightarrow> read_frames rfc (drop size rest) b1)))"
  by pat_completeness auto
termination by (relation "measure (\<lambda>(_, s, _). length s)") auto

declare read_frames.simps [simp del]

definition readMultiplexedLogLines :: "(string \<Rightarrow> bool) \<Rightarrow> string \<Rightarrow> log_line list option" where
  "readMultiplexedLogLines rfc s = map_option bl_lines (read_frames rfc s newLogLines)"

definition readPlainLogLines :: "(string \<Rightarrow> bool) \<Rightarrow> string \<Rightarrow> bool \<Rightarrow> log_line list option" where
  "readPlainLogLines rfc s eof = map_option bl_lines (log_read rfc ''stdout'' eof s newLogLines)"

definition readLogLines :: "(string \<Rightarrow> bool) \<Rightarrow> string \<Rightarrow> bool \<Rightarrow> log_line list option" where
  "readLogLines rfc s eof = (let h = map of_char (take 8 s) :: nat list in
     if length h = 8 \<and> (h ! 0 = 1 \<or> h ! 0 = 2) \<and> h ! 1 = 0 \<and> h ! 2 = 0 \<and> h ! 3 = 0
     then readMultiplexedLogLines rfc s else readPlainLogLines rfc s eof)"

section \<open>The bound\<close>

definition within_bounds :: "('l \<Rightarrow> int) \<Rightarrow> 'l list \<Rightarrow> bool" where
  "within_bounds size_of ls \<longleftrightarrow> length ls \<le> logsTailLines \<and> sum_list (map size_of ls) \<le> logsMaxBytes"

definition tail_ok :: "('l \<Rightarrow> int) \<Rightarrow> 'l bounded_lines \<Rightarrow> bool" where
  "tail_ok size_of b \<longleftrightarrow> within_bounds size_of (bl_lines b) \<and> bl_bytes b = sum_list (map size_of (bl_lines b))"

lemma tail_ok_new: "tail_ok size_of newLogLines"
  by (simp add: tail_ok_def within_bounds_def newLogLines_def logsMaxBytes_def)

lemma shrink_lines_ok:
  "bytes = sum_list (map size_of ls) \<Longrightarrow> \<exists>b. shrink_lines size_of ls bytes = Some b \<and> tail_ok size_of b \<and> suffix (bl_lines b) ls"
proof (induction ls arbitrary: bytes)
  case Nil
  then show ?case by (simp add: shrink_lines.simps[of _ "[]"] tail_ok_def within_bounds_def logsMaxBytes_def)
next
  case (Cons l ls)
  show ?case
  proof (cases "length (l # ls) > logsTailLines \<or> bytes > logsMaxBytes")
    case True
    then have step: "shrink_lines size_of (l # ls) bytes = shrink_lines size_of ls (bytes - size_of l)"
      by (simp add: shrink_lines.simps[of _ "l # ls"])
    obtain b where "shrink_lines size_of ls (bytes - size_of l) = Some b" "tail_ok size_of b" "suffix (bl_lines b) ls"
      using Cons.IH[of "bytes - size_of l"] Cons.prems by auto
    then show ?thesis unfolding step by (auto simp: suffix_ConsI)
  next
    case False
    then show ?thesis using Cons.prems by (auto simp: shrink_lines.simps[of _ "l # ls"] tail_ok_def within_bounds_def)
  qed
qed

lemma tail_add_ok: "tail_ok size_of b \<Longrightarrow> \<exists>b'. tail_add size_of b l = Some b' \<and> tail_ok size_of b'"
  using shrink_lines_ok[of "bl_bytes b + size_of l" size_of "bl_lines b @ [l]"] by (auto simp: tail_add_def tail_ok_def)

lemma read_tail_ok:
  assumes "\<And>raw b. P b \<Longrightarrow> \<exists>b'. add raw b = Some b' \<and> P b'" and "P b"
  shows "\<exists>b'. read_tail add eof s raw discard b = Some b' \<and> P b'"
  using assms
proof (induction add eof s raw discard b rule: read_tail.induct)
  case (1 add eof s raw discard b)
  obtain fragment ended where f: "read_slice s = (fragment, ended)" by (cases "read_slice s")
  obtain raw1 discard1 where r: "(if discard then (raw, True)
      else if int (length raw + length fragment) \<le> logsMaxBytes then (raw @ fragment, False) else ([], True)) = (raw1, discard1)"
    by (cases "if discard then (raw, True) else if int (length raw + length fragment) \<le> logsMaxBytes then (raw @ fragment, False) else ([], True)")
  note IH = "1.IH"[OF f[symmetric] refl r[symmetric] refl]
  have new: "\<exists>b1. (if discard1 then Some b else add l b) = Some b1 \<and> P b1" for l using "1.prems" by simp
  show ?case
  proof (cases ended)
    case SliceLine
    then show ?thesis using IH(1)[OF SliceLine] "1.prems"(1) new[of "trim_line raw1"] f r by (subst read_tail.simps) (auto simp: Let_def)
  next
    case SliceFull
    then show ?thesis using IH(2)[OF SliceFull "1.prems"] f r by (subst read_tail.simps) (auto simp: Let_def)
  next
    case SliceEnd
    then show ?thesis using "1.prems" f r by (subst read_tail.simps) (auto simp: Let_def)
  qed
qed

lemma log_add_ok: "tail_ok logLineSize b \<Longrightarrow> \<exists>b'. log_add b l = Some b' \<and> tail_ok logLineSize b'"
  unfolding log_add_def by (rule tail_add_ok)

lemma log_read_ok: "tail_ok logLineSize b \<Longrightarrow> \<exists>b'. log_read rfc stream eof s b = Some b' \<and> tail_ok logLineSize b'"
  unfolding log_read_def by (rule read_tail_ok) (rule log_add_ok)

lemma add_all_ok: "tail_ok logLineSize b \<Longrightarrow> \<exists>b'. add_all b ls = Some b' \<and> tail_ok logLineSize b'"
proof (induction ls arbitrary: b)
  case (Cons l ls)
  obtain b1 where "log_add b l = Some b1" "tail_ok logLineSize b1" using log_add_ok[OF Cons.prems] by blast
  then show ?case using Cons.IH by simp
qed simp

lemma read_frames_ok: "tail_ok logLineSize b \<Longrightarrow> \<exists>b'. read_frames rfc s b = Some b' \<and> tail_ok logLineSize b'"
proof (induction rfc s b rule: read_frames.induct)
  case (1 rfc s b)
  show ?case
  proof (cases "length s < 8 \<or> of_char (hd s) \<noteq> (1::nat) \<and> of_char (hd s) \<noteq> (2::nat)")
    case True
    then show ?thesis using "1.prems" by (subst read_frames.simps) (auto simp: Let_def)
  next
    case False
    define size where "size = frame_size (take 8 s)"
    define st where "st = (if of_char (hd s) = (2::nat) then ''stderr'' else ''stdout'')"
    obtain fl where fl: "log_read rfc st True (take size (drop 8 s)) newLogLines = Some fl" using log_read_ok[OF tail_ok_new] by blast
    obtain b1 where b1: "add_all b (bl_lines fl) = Some b1" "tail_ok logLineSize b1" using add_all_ok[OF "1.prems"] by blast
    have hd8: "hd (take 8 s) = hd s" using False by (cases s) auto
    have "\<exists>b'. read_frames rfc (drop size (drop 8 s)) b1 = Some b' \<and> tail_ok logLineSize b'" if "\<not> length (drop 8 s) < size"
      using "1.IH"[of "take 8 s" "of_char (hd s)" "drop 8 s" size fl b1] False that fl b1 by (simp add: hd8 size_def st_def)
    then show ?thesis using False "1.prems" fl b1 by (subst read_frames.simps) (auto simp: Let_def hd8 size_def[symmetric] st_def[symmetric])
  qed
qed

lemma tail_ok_within: "tail_ok logLineSize b \<Longrightarrow> within_bounds logLineSize (bl_lines b)"
  by (simp add: tail_ok_def)

lemma plain_lines_bounded: "\<exists>ls. readPlainLogLines rfc s eof = Some ls \<and> within_bounds logLineSize ls"
proof -
  obtain b where "log_read rfc ''stdout'' eof s newLogLines = Some b" "tail_ok logLineSize b" using log_read_ok[OF tail_ok_new] by blast
  then show ?thesis by (simp add: readPlainLogLines_def tail_ok_within)
qed

lemma multiplexed_lines_bounded: "\<exists>ls. readMultiplexedLogLines rfc s = Some ls \<and> within_bounds logLineSize ls"
proof -
  obtain b where "read_frames rfc s newLogLines = Some b" "tail_ok logLineSize b" using read_frames_ok[OF tail_ok_new] by blast
  then show ?thesis by (simp add: readMultiplexedLogLines_def tail_ok_within)
qed

lemma read_tail_end: "read_tail add eof [] [] False b = Some b"
  by (subst read_tail.simps) (simp add: read_slice_def Let_def)

lemma read_slice_ok_line: "read_slice ''ok\<newline>'' = (''ok\<newline>'', SliceLine)"
  by (simp add: read_slice_def log_newline_def Let_def)

lemma add_ok_line:
  "log_add newLogLines (parseLogLine rfc ''ok'' st) =
     Some \<lparr>bl_lines = [parseLogLine rfc ''ok'' st], bl_bytes = logLineSize (parseLogLine rfc ''ok'' st)\<rparr>" if "length st \<le> 6"
  using that
  by (simp add: log_add_def tail_add_def shrink_lines.simps newLogLines_def parseLogLine_def logLineSize_def logsMaxBytes_def
      logsTailLines_def)

lemma read_ok_line:
  "log_read rfc ''stdout'' eof ''ok\<newline>'' newLogLines =
     Some \<lparr>bl_lines = [\<lparr>ll_Timestamp = [], ll_Stream = ''stdout'', ll_Message = ''ok''\<rparr>], bl_bytes = 8\<rparr>"
  unfolding log_read_def
  by (subst read_tail.simps)
    (simp add: read_slice_ok_line read_tail_end trim_line_def add_ok_line logsMaxBytes_def,
      simp add: parseLogLine_def logLineSize_def)

text \<open>Whatever bytes a container engine sends as a log, in frames or plain, ending cleanly or in an error, reading
  it terminates without indexing an empty list and yields at most 200 lines of at most 256 KiB together; a stream
  of one short line yields exactly that line, so the bound is not met by dropping everything.\<close>

theorem engine_logs_bounded:
  "(\<exists>ls. readLogLines rfc s eof = Some ls \<and> length ls \<le> 200 \<and> sum_list (map logLineSize ls) \<le> 262144) \<and>
   (\<exists>ls. readMultiplexedLogLines rfc s = Some ls \<and> length ls \<le> 200 \<and> sum_list (map logLineSize ls) \<le> 262144) \<and>
   readLogLines (\<lambda>_. False) ''ok\<newline>'' eof = Some [\<lparr>ll_Timestamp = [], ll_Stream = ''stdout'', ll_Message = ''ok''\<rparr>]"
proof (intro conjI)
  show "\<exists>ls. readLogLines rfc s eof = Some ls \<and> length ls \<le> 200 \<and> sum_list (map logLineSize ls) \<le> 262144"
    using plain_lines_bounded[of rfc s eof] multiplexed_lines_bounded[of rfc s]
    unfolding readLogLines_def Let_def within_bounds_def logsTailLines_def logsMaxBytes_def by presburger
  show "\<exists>ls. readMultiplexedLogLines rfc s = Some ls \<and> length ls \<le> 200 \<and> sum_list (map logLineSize ls) \<le> 262144"
    using multiplexed_lines_bounded[of rfc s] by (auto simp: within_bounds_def logsTailLines_def logsMaxBytes_def)
  show "readLogLines (\<lambda>_. False) ''ok\<newline>'' eof = Some [\<lparr>ll_Timestamp = [], ll_Stream = ''stdout'', ll_Message = ''ok''\<rparr>]"
    by (simp add: readLogLines_def readPlainLogLines_def read_ok_line)
qed

end
