(* ===== verification/Engines.thy ===== *)
theory Engines
  imports Engine_Logs Comparison_Sort Registry
begin

text \<open>
  The managers of podman and docker (\<open>internal/modules/podman/manager.go\<close>, \<open>internal/modules/docker/manager.go\<close>) and
  the HTTP client of the podman socket. A client is a record of its calls on a world \<open>'w\<close>; sorting by name keeps
  equal names in the order given. The docker client is a package the sources only call, so its calls are parameters.
\<close>

definition defaultTimeout :: int where "defaultTimeout = 10"

record engine_logs =
  el_ID :: string
  el_Name :: string
  el_Lines :: "log_line list"

record engine_image =
  im_Containers :: int
  im_ID :: string
  im_Name :: string
  im_Size :: nat

definition validContainerID :: "string \<Rightarrow> bool" where
  "validContainerID ident \<longleftrightarrow> length ident = 64 \<and>
     list_all (\<lambda>r. \<not> ((r < 0x30 \<or> r > 0x39) \<and> (r < 0x61 \<or> r > 0x66))) (runes ident)"

text \<open>A stream of log bytes: what can be read of it and whether it ends in \<open>EOF\<close>.\<close>

type_synonym log_stream = "string \<times> bool"

section \<open>The podman API\<close>

definition apiPrefix :: string where "apiPrefix = ''/v5.0.0/libpod''"

record api_container =
  ac_ID :: string
  ac_Image :: string
  ac_Names :: "string list"
  ac_PodName :: string
  ac_State :: string
  ac_Status :: string

record api_image =
  ai_Containers :: int
  ai_ID :: string
  ai_Names :: "string list"
  ai_RepoTags :: "string list"
  ai_Size :: int
  ai_VirtualSize :: int

record api_pod =
  ap_Containers :: "string list"
  ap_ID :: string
  ap_Name :: string
  ap_Status :: string

text \<open>A response is its code, its status line and its body; \<open>json\<close> decodes a body.\<close>

record http_response =
  hr_StatusCode :: int
  hr_Status :: string
  hr_Body :: string

type_synonym 'w http_do = "string \<Rightarrow> string \<Rightarrow> ('w, http_response result) call"

definition upper_hex :: "nat \<Rightarrow> char" where
  "upper_hex n = (if n < 10 then char_of (0x30 + n) else char_of (0x41 + n - 10))"

definition url_PathEscape :: "string \<Rightarrow> string" where
  "url_PathEscape s = concat (map (\<lambda>c. if between 0x41 0x5A c \<or> between 0x61 0x7A c \<or> between 0x30 0x39 c \<or> c \<in> set ''-_.~$&+=:@''
     then [c] else [CHR ''%'', upper_hex (byte c div 16), upper_hex (byte c mod 16)]) s)"

definition podman_status_error :: "http_response \<Rightarrow> error" where
  "podman_status_error r = (let detail = trim_space (take 4096 (hr_Body r)) in
     if detail \<noteq> [] then Errorf ''podman API %s: %s'' [hr_Status r, detail] else Errorf ''podman API %s'' [hr_Status r])"

definition api_do :: "'w http_do \<Rightarrow> (string \<Rightarrow> 'v result) option \<Rightarrow> 'v \<Rightarrow> string \<Rightarrow> string \<Rightarrow> ('w, 'v \<times> error option) call" where
  "api_do http json zero meth path w = (case http meth (''http://podman'' @ apiPrefix @ path) w of
     (w1, Inl e) \<Rightarrow> (w1, zero, Some e)
   | (w1, Inr r) \<Rightarrow>
       if hr_StatusCode r < 200 \<or> hr_StatusCode r \<ge> 300 then (w1, zero, Some (podman_status_error r))
       else (case json of
           None \<Rightarrow> (w1, zero, None)
         | Some decode \<Rightarrow> if hr_StatusCode r = 204 then (w1, zero, None)
             else (case decode (hr_Body r) of
                 Inl e \<Rightarrow> (w1, zero, Some (Wrapf ''decode podman API response: %w'' [] e))
               | Inr v \<Rightarrow> (w1, v, None))))"

definition as_result :: "'v \<times> error option \<Rightarrow> 'v result" where
  "as_result r = (case snd r of Some e \<Rightarrow> Inl e | None \<Rightarrow> Inr (fst r))"

record podman_json =
  pj_containers :: "string \<Rightarrow> api_container list result"
  pj_images :: "string \<Rightarrow> api_image list result"
  pj_pods :: "string \<Rightarrow> api_pod list result"
  pj_version :: "string \<Rightarrow> string result"

definition api_Containers :: "podman_json \<Rightarrow> 'w http_do \<Rightarrow> ('w, api_container list result) call" where
  "api_Containers J http w = apsnd as_result (api_do http (Some (pj_containers J)) [] ''GET'' ''/containers/json?all=true'' w)"

definition api_Images :: "podman_json \<Rightarrow> 'w http_do \<Rightarrow> ('w, api_image list result) call" where
  "api_Images J http w = apsnd as_result (api_do http (Some (pj_images J)) [] ''GET'' ''/images/json'' w)"

definition api_Logs :: "'w http_do \<Rightarrow> (string \<Rightarrow> bool) \<Rightarrow> string \<Rightarrow> ('w, log_stream result) call" where
  "api_Logs http clean ident w =
     (case http ''GET'' (''http://podman'' @ apiPrefix @ ''/containers/'' @ url_PathEscape ident @
         ''/logs?stdout=true&stderr=true&timestamps=true&tail=200&follow=false'') w of
        (w1, Inl e) \<Rightarrow> (w1, Inl e)
      | (w1, Inr r) \<Rightarrow> if hr_StatusCode r < 200 \<or> hr_StatusCode r \<ge> 300 then (w1, Inl (podman_status_error r))
          else (w1, Inr (hr_Body r, clean (hr_Body r))))"

definition api_Pods :: "podman_json \<Rightarrow> 'w http_do \<Rightarrow> ('w, api_pod list result) call" where
  "api_Pods J http w = apsnd as_result (api_do http (Some (pj_pods J)) [] ''GET'' ''/pods/json'' w)"

definition api_call :: "'w http_do \<Rightarrow> string \<Rightarrow> string \<Rightarrow> ('w, error option) call" where
  "api_call http meth path w = apsnd snd (api_do http None () meth path w)"

definition api_Remove :: "'w http_do \<Rightarrow> string \<Rightarrow> ('w, error option) call" where
  "api_Remove http ident = api_call http ''DELETE'' (''/containers/'' @ url_PathEscape ident)"

definition api_RemoveImage :: "'w http_do \<Rightarrow> string \<Rightarrow> ('w, error option) call" where
  "api_RemoveImage http ident = api_call http ''DELETE'' (''/images/'' @ url_PathEscape ident)"

definition api_Restart :: "'w http_do \<Rightarrow> string \<Rightarrow> int \<Rightarrow> ('w, error option) call" where
  "api_Restart http ident timeout = api_call http ''POST'' (''/containers/'' @ url_PathEscape ident @ ''/restart?t='' @ format_int timeout)"

definition api_Start :: "'w http_do \<Rightarrow> string \<Rightarrow> ('w, error option) call" where
  "api_Start http ident = api_call http ''POST'' (''/containers/'' @ url_PathEscape ident @ ''/start'')"

definition api_Stop :: "'w http_do \<Rightarrow> string \<Rightarrow> int \<Rightarrow> ('w, error option) call" where
  "api_Stop http ident timeout = api_call http ''POST'' (''/containers/'' @ url_PathEscape ident @ ''/stop?t='' @ format_int timeout)"

definition api_Version :: "podman_json \<Rightarrow> 'w http_do \<Rightarrow> ('w, string result) call" where
  "api_Version J http w = apsnd as_result (api_do http (Some (pj_version J)) [] ''GET'' ''/version'' w)"

section \<open>The podman manager\<close>

record 'w podman_client =
  pc_Containers :: "('w, api_container list result) call"
  pc_Logs :: "string \<Rightarrow> ('w, log_stream result) call"
  pc_Images :: "('w, api_image list result) call"
  pc_Pods :: "('w, api_pod list result) call"
  pc_Remove :: "string \<Rightarrow> ('w, error option) call"
  pc_RemoveImage :: "string \<Rightarrow> ('w, error option) call"
  pc_Restart :: "string \<Rightarrow> int \<Rightarrow> ('w, error option) call"
  pc_Start :: "string \<Rightarrow> ('w, error option) call"
  pc_Stop :: "string \<Rightarrow> int \<Rightarrow> ('w, error option) call"
  pc_Version :: "('w, string result) call"

definition NewAPIClient :: "podman_json \<Rightarrow> (string \<Rightarrow> bool) \<Rightarrow> 'w http_do \<Rightarrow> 'w podman_client" where
  "NewAPIClient J clean http = \<lparr>pc_Containers = api_Containers J http, pc_Logs = api_Logs http clean, pc_Images = api_Images J http,
     pc_Pods = api_Pods J http, pc_Remove = api_Remove http, pc_RemoveImage = api_RemoveImage http,
     pc_Restart = api_Restart http, pc_Start = api_Start http, pc_Stop = api_Stop http, pc_Version = api_Version J http\<rparr>"

record podman_container_info =
  po_ID :: string
  po_Image :: string
  po_Name :: string
  po_Pod :: string
  po_Running :: bool
  po_State :: string
  po_Status :: string

record podman_pod =
  pp_Containers :: nat
  pp_ID :: string
  pp_Name :: string
  pp_Status :: string

record podman_state =
  ps_Containers :: "podman_container_info list"
  ps_Images :: "engine_image list"
  ps_Pods :: "podman_pod list"
  ps_Version :: string

definition firstName :: "string list \<Rightarrow> string \<Rightarrow> string" where
  "firstName names ident = (case names of
     n # _ \<Rightarrow> if n \<noteq> [] then n else if length ident > 12 then take 12 ident else ident
   | [] \<Rightarrow> if length ident > 12 then take 12 ident else ident)"

definition podman_container_of :: "(string \<Rightarrow> string) \<Rightarrow> api_container \<Rightarrow> podman_container_info" where
  "podman_container_of lower item = (let state = to_lower lower (ac_State item) in
     \<lparr>po_ID = ac_ID item, po_Image = ac_Image item, po_Name = firstName (ac_Names item) (ac_ID item), po_Pod = ac_PodName item,
      po_Running = (state = ''running'' \<or> prefix ''up '' (to_lower lower (ac_Status item))), po_State = state,
      po_Status = ac_Status item\<rparr>)"

definition podman_containers :: "(string \<Rightarrow> string) \<Rightarrow> 'w podman_client \<Rightarrow> ('w, podman_container_info list result) call" where
  "podman_containers lower c w = (case pc_Containers c w of
     (w1, Inl e) \<Rightarrow> (w1, Inl e)
   | (w1, Inr raw) \<Rightarrow> (w1, Inr (sort_by (by_string po_Name) (map (podman_container_of lower) raw))))"

definition podman_container :: "(string \<Rightarrow> string) \<Rightarrow> 'w podman_client \<Rightarrow> string \<Rightarrow> ('w, podman_container_info result) call" where
  "podman_container lower c ident w =
     (if \<not> validContainerID ident then (w, Inl (Errorf ''invalid container identifier'' []))
      else case podman_containers lower c w of
          (w1, Inl e) \<Rightarrow> (w1, Inl e)
        | (w1, Inr containers) \<Rightarrow> (case List.find (\<lambda>x. po_ID x = ident) containers of
              Some x \<Rightarrow> (w1, Inr x) | None \<Rightarrow> (w1, Inl (Errorf ''container no longer exists'' []))))"

definition podman_image_of :: "api_image \<Rightarrow> engine_image" where
  "podman_image_of item =
     \<lparr>im_Containers = ai_Containers item, im_ID = ai_ID item,
      im_Name = firstName (if ai_Names item = [] then ai_RepoTags item else ai_Names item) (ai_ID item),
      im_Size = (if ai_Size item > 0 then nat (ai_Size item) else if ai_VirtualSize item > 0 then nat (ai_VirtualSize item) else 0)\<rparr>"

definition podman_images :: "api_image list \<Rightarrow> engine_image list" where
  "podman_images raw = sort_by (by_string im_Name) (map podman_image_of raw)"

definition podman_pods :: "api_pod list \<Rightarrow> podman_pod list" where
  "podman_pods raw = sort_by (by_string pp_Name) (map (\<lambda>item. \<lparr>pp_Containers = length (ap_Containers item), pp_ID = ap_ID item,
     pp_Name = ap_Name item, pp_Status = ap_Status item\<rparr>) raw)"

text \<open>The lines of a log are those of \<open>Engine_Logs\<close>, where reading never fails (\<open>None\<close> would be a panic).\<close>

definition podman_Logs ::
  "(string \<Rightarrow> string) \<Rightarrow> (string \<Rightarrow> bool) \<Rightarrow> 'w podman_client \<Rightarrow> string \<Rightarrow> ('w, engine_logs option result) call" where
  "podman_Logs lower rfc c ident w = (case podman_container lower c ident w of
     (w1, Inl e) \<Rightarrow> (w1, Inl e)
   | (w1, Inr x) \<Rightarrow> (case pc_Logs c ident w1 of
         (w2, Inl e) \<Rightarrow> (w2, Inl e)
       | (w2, Inr (bytes, eof)) \<Rightarrow> (w2, Inr (map_option (\<lambda>ls. \<lparr>el_ID = ident, el_Name = po_Name x, el_Lines = ls\<rparr>) (readLogLines rfc bytes eof)))))"

definition podman_State :: "(string \<Rightarrow> string) \<Rightarrow> 'w podman_client \<Rightarrow> ('w, podman_state result) call" where
  "podman_State lower c w = (case pc_Version c w of (w1, Inl e) \<Rightarrow> (w1, Inl e) | (w1, Inr version) \<Rightarrow>
     (case podman_containers lower c w1 of (w2, Inl e) \<Rightarrow> (w2, Inl e) | (w2, Inr containers) \<Rightarrow>
     (case pc_Pods c w2 of (w3, Inl e) \<Rightarrow> (w3, Inl e) | (w3, Inr rawPods) \<Rightarrow>
     (case pc_Images c w3 of (w4, Inl e) \<Rightarrow> (w4, Inl e) | (w4, Inr rawImages) \<Rightarrow>
        (w4, Inr \<lparr>ps_Containers = containers, ps_Images = podman_images rawImages, ps_Pods = podman_pods rawPods,
           ps_Version = (if version = [] then ''installed'' else version)\<rparr>)))))"

definition podman_Remove :: "(string \<Rightarrow> string) \<Rightarrow> 'w podman_client \<Rightarrow> string \<Rightarrow> ('w, error option) call" where
  "podman_Remove lower c ident w = (case podman_container lower c ident w of
     (w1, Inl e) \<Rightarrow> (w1, Some e)
   | (w1, Inr x) \<Rightarrow> if po_Running x then (w1, Some (Errorf ''stop the container before removing it'' []))
       else pc_Remove c ident w1)"

definition podman_RemoveImage :: "'w podman_client \<Rightarrow> string \<Rightarrow> ('w, error option) call" where
  "podman_RemoveImage c ident w =
     (if trim_space ident = [] then (w, Some (Errorf ''invalid image identifier'' []))
      else case pc_Images c w of
          (w1, Inl e) \<Rightarrow> (w1, Some e)
        | (w1, Inr raw) \<Rightarrow> (case List.find (\<lambda>img. ai_ID img = ident) raw of
              None \<Rightarrow> (w1, Some (Errorf ''image no longer exists'' []))
            | Some img \<Rightarrow> if ai_Containers img > 0
                then (w1, Some (Errorf ''remove containers using this image before deleting it'' []))
                else pc_RemoveImage c ident w1))"

definition podman_Restart :: "(string \<Rightarrow> string) \<Rightarrow> 'w podman_client \<Rightarrow> string \<Rightarrow> ('w, error option) call" where
  "podman_Restart lower c ident w = (case podman_container lower c ident w of
     (w1, Inl e) \<Rightarrow> (w1, Some e)
   | (w1, Inr x) \<Rightarrow> if \<not> po_Running x then (w1, Some (Errorf ''container is not running'' []))
       else pc_Restart c ident defaultTimeout w1)"

definition podman_Start :: "(string \<Rightarrow> string) \<Rightarrow> 'w podman_client \<Rightarrow> string \<Rightarrow> ('w, error option) call" where
  "podman_Start lower c ident w = (case podman_container lower c ident w of
     (w1, Inl e) \<Rightarrow> (w1, Some e)
   | (w1, Inr x) \<Rightarrow> if po_Running x then (w1, Some (Errorf ''container is already running'' []))
       else pc_Start c ident w1)"

definition podman_Stop :: "(string \<Rightarrow> string) \<Rightarrow> 'w podman_client \<Rightarrow> string \<Rightarrow> ('w, error option) call" where
  "podman_Stop lower c ident w = (case podman_container lower c ident w of
     (w1, Inl e) \<Rightarrow> (w1, Some e)
   | (w1, Inr x) \<Rightarrow> if \<not> po_Running x then (w1, Some (Errorf ''container is not running'' []))
       else pc_Stop c ident defaultTimeout w1)"

section \<open>The docker manager\<close>

text \<open>An inspected container: \<open>State\<close> and \<open>Config\<close> are pointers of the docker API and may be nil.\<close>

record docker_run_state =
  ds_Running :: bool
  ds_Status :: string
  ds_ExitCode :: int

record docker_config =
  dc_Image :: string
  dc_Tty :: bool

record docker_inspect =
  di_ID :: string
  di_Image :: string
  di_Name :: string
  di_State :: "docker_run_state option"
  di_Config :: "docker_config option"

record docker_image_summary =
  dm_ID :: string
  dm_RepoTags :: "string list"
  dm_RepoDigests :: "string list"
  dm_Size :: int

record 'w docker_client =
  dk_ContainerList :: "('w, string list result) call"
  dk_ContainerInspect :: "string \<Rightarrow> ('w, docker_inspect result) call"
  dk_ContainerLogs :: "string \<Rightarrow> ('w, log_stream result) call"
  dk_ContainerRemove :: "string \<Rightarrow> ('w, error option) call"
  dk_ContainerRestart :: "string \<Rightarrow> int \<Rightarrow> ('w, error option) call"
  dk_ContainerStart :: "string \<Rightarrow> ('w, error option) call"
  dk_ContainerStop :: "string \<Rightarrow> int \<Rightarrow> ('w, error option) call"
  dk_ImageList :: "('w, docker_image_summary list result) call"
  dk_ImageRemove :: "string \<Rightarrow> ('w, error option) call"
  dk_ServerVersion :: "('w, string result) call"

record docker_container_info =
  do_ID :: string
  do_Image :: string
  do_Name :: string
  do_Running :: bool
  do_State :: string
  do_Status :: string
  do_tty :: bool

record docker_state =
  dst_Containers :: "docker_container_info list"
  dst_Images :: "engine_image list"
  dst_Version :: string

definition trim_prefix :: "string \<Rightarrow> string \<Rightarrow> string" where
  "trim_prefix s p = (if prefix p s then drop (length p) s else s)"

definition docker_container_of :: "docker_inspect \<Rightarrow> docker_run_state \<Rightarrow> docker_config \<Rightarrow> docker_container_info" where
  "docker_container_of item state config =
     \<lparr>do_ID = di_ID item, do_Image = dc_Image config, do_Name = trim_prefix (di_Name item) ''/'', do_Running = ds_Running state,
      do_State = ds_Status state,
      do_Status = (if \<not> ds_Running state \<and> ds_Status state = ''exited'' then ''exited ('' @ format_int (ds_ExitCode state) @ '')''
        else ds_Status state),
      do_tty = dc_Tty config\<rparr>"

fun docker_inspect_all ::
  "'w docker_client \<Rightarrow> string list \<Rightarrow> docker_container_info list \<Rightarrow> docker_inspect list \<Rightarrow>
   ('w, (docker_container_info list \<times> docker_inspect list) result) call" where
  "docker_inspect_all c [] cs inspected w = (w, Inr (cs, inspected))"
| "docker_inspect_all c (summary # rest) cs inspected w = (case dk_ContainerInspect c summary w of
     (w1, Inl e) \<Rightarrow> (w1, Inl e)
   | (w1, Inr item) \<Rightarrow> (case (di_State item, di_Config item) of
         (Some state, Some config) \<Rightarrow>
           if di_ID item = [] then (w1, Inl (Errorf ''docker returned incomplete inspect data for container %s'' [summary]))
           else docker_inspect_all c rest (cs @ [docker_container_of item state config]) (inspected @ [item]) w1
       | _ \<Rightarrow> (w1, Inl (Errorf ''docker returned incomplete inspect data for container %s'' [summary]))))"

definition docker_containers :: "'w docker_client \<Rightarrow> ('w, (docker_container_info list \<times> docker_inspect list) result) call" where
  "docker_containers c w = (case dk_ContainerList c w of
     (w1, Inl e) \<Rightarrow> (w1, Inl e)
   | (w1, Inr items) \<Rightarrow> (case docker_inspect_all c items [] [] w1 of
         (w2, Inl e) \<Rightarrow> (w2, Inl e)
       | (w2, Inr (cs, inspected)) \<Rightarrow> (w2, Inr (sort_by (by_string do_Name) cs, inspected))))"

definition docker_container :: "'w docker_client \<Rightarrow> string \<Rightarrow> ('w, docker_container_info result) call" where
  "docker_container c ident w =
     (if \<not> validContainerID ident then (w, Inl (Errorf ''invalid container identifier'' []))
      else case docker_containers c w of
          (w1, Inl e) \<Rightarrow> (w1, Inl e)
        | (w1, Inr (containers, _)) \<Rightarrow> (case List.find (\<lambda>x. do_ID x = ident) containers of
              Some x \<Rightarrow> (w1, Inr x) | None \<Rightarrow> (w1, Inl (Errorf ''container no longer exists'' []))))"

definition docker_shortID :: "string \<Rightarrow> string" where
  "docker_shortID ident = (let s = trim_prefix ident ''sha256:'' in if length s > 12 then take 12 s else s)"

definition imageName :: "docker_image_summary \<Rightarrow> string" where
  "imageName img = (case dm_RepoTags img of
     t # _ \<Rightarrow> t
   | [] \<Rightarrow> (case dm_RepoDigests img of d # _ \<Rightarrow> d | [] \<Rightarrow> docker_shortID (dm_ID img)))"

definition docker_images :: "'w docker_client \<Rightarrow> docker_inspect list \<Rightarrow> ('w, engine_image list result) call" where
  "docker_images c containers w = (case dk_ImageList c w of
     (w1, Inl e) \<Rightarrow> (w1, Inl e)
   | (w1, Inr items) \<Rightarrow> (w1, Inr (sort_by (by_string im_Name) (map (\<lambda>item.
       \<lparr>im_Containers = int (length (filter (\<lambda>x. di_Image x = dm_ID item) containers)), im_ID = dm_ID item, im_Name = imageName item,
        im_Size = (if dm_Size item > 0 then nat (dm_Size item) else 0)\<rparr>) items))))"

definition docker_Logs :: "(string \<Rightarrow> bool) \<Rightarrow> 'w docker_client \<Rightarrow> string \<Rightarrow> ('w, engine_logs option result) call" where
  "docker_Logs rfc c ident w = (case docker_container c ident w of
     (w1, Inl e) \<Rightarrow> (w1, Inl e)
   | (w1, Inr x) \<Rightarrow> (case dk_ContainerLogs c ident w1 of
         (w2, Inl e) \<Rightarrow> (w2, Inl e)
       | (w2, Inr (bytes, eof)) \<Rightarrow> (w2, Inr (map_option (\<lambda>ls. \<lparr>el_ID = ident, el_Name = do_Name x, el_Lines = ls\<rparr>)
           (if do_tty x then readPlainLogLines rfc bytes eof else readMultiplexedLogLines rfc bytes)))))"

definition docker_State :: "'w docker_client \<Rightarrow> ('w, docker_state result) call" where
  "docker_State c w = (case dk_ServerVersion c w of (w1, Inl e) \<Rightarrow> (w1, Inl e) | (w1, Inr version) \<Rightarrow>
     (case docker_containers c w1 of (w2, Inl e) \<Rightarrow> (w2, Inl e) | (w2, Inr (containers, inspected)) \<Rightarrow>
     (case docker_images c inspected w2 of (w3, Inl e) \<Rightarrow> (w3, Inl e) | (w3, Inr imgs) \<Rightarrow>
        (w3, Inr \<lparr>dst_Containers = containers, dst_Images = imgs, dst_Version = (if version = [] then ''installed'' else version)\<rparr>))))"

definition docker_Remove :: "'w docker_client \<Rightarrow> string \<Rightarrow> ('w, error option) call" where
  "docker_Remove c ident w = (case docker_container c ident w of
     (w1, Inl e) \<Rightarrow> (w1, Some e)
   | (w1, Inr x) \<Rightarrow> if do_Running x then (w1, Some (Errorf ''stop the container before removing it'' []))
       else dk_ContainerRemove c ident w1)"

definition docker_RemoveImage :: "'w docker_client \<Rightarrow> string \<Rightarrow> ('w, error option) call" where
  "docker_RemoveImage c ident w =
     (if trim_space ident = [] then (w, Some (Errorf ''invalid image identifier'' []))
      else case docker_containers c w of
          (w1, Inl e) \<Rightarrow> (w1, Some e)
        | (w1, Inr (_, containers)) \<Rightarrow>
            if list_ex (\<lambda>x. di_Image x = ident) containers
            then (w1, Some (Errorf ''remove containers using this image before deleting it'' []))
            else (case docker_images c containers w1 of
                (w2, Inl e) \<Rightarrow> (w2, Some e)
              | (w2, Inr imgs) \<Rightarrow> if \<not> list_ex (\<lambda>img. im_ID img = ident) imgs then (w2, Some (Errorf ''image no longer exists'' []))
                  else dk_ImageRemove c ident w2))"

definition docker_Restart :: "'w docker_client \<Rightarrow> string \<Rightarrow> ('w, error option) call" where
  "docker_Restart c ident w = (case docker_container c ident w of
     (w1, Inl e) \<Rightarrow> (w1, Some e)
   | (w1, Inr x) \<Rightarrow> if \<not> do_Running x then (w1, Some (Errorf ''container is not running'' []))
       else dk_ContainerRestart c ident defaultTimeout w1)"

definition docker_Start :: "'w docker_client \<Rightarrow> string \<Rightarrow> ('w, error option) call" where
  "docker_Start c ident w = (case docker_container c ident w of
     (w1, Inl e) \<Rightarrow> (w1, Some e)
   | (w1, Inr x) \<Rightarrow> if do_Running x then (w1, Some (Errorf ''container is already running'' []))
       else dk_ContainerStart c ident w1)"

definition docker_Stop :: "'w docker_client \<Rightarrow> string \<Rightarrow> ('w, error option) call" where
  "docker_Stop c ident w = (case docker_container c ident w of
     (w1, Inl e) \<Rightarrow> (w1, Some e)
   | (w1, Inr x) \<Rightarrow> if \<not> do_Running x then (w1, Some (Errorf ''container is not running'' []))
       else dk_ContainerStop c ident defaultTimeout w1)"

section \<open>What a mutation rests on\<close>

text \<open>
  The contract the two managers share: looking a container up makes one listing and no other change, and what it
  finds was in that listing under the asked identifier.
\<close>

locale container_lookup =
  fixes listing :: "'w \<Rightarrow> 'w \<times> 'c list result"
    and lookup :: "string \<Rightarrow> 'w \<Rightarrow> 'w \<times> 'c result"
    and ident_of :: "'c \<Rightarrow> string"
  assumes lookup_found: "lookup i w = (w1, Inr x) \<Longrightarrow> \<exists>cs. validContainerID i \<and> listing w = (w1, Inr cs) \<and> x \<in> set cs \<and> ident_of x = i"
    and lookup_failed: "lookup i w = (w1, Inl e) \<Longrightarrow> w1 = (if validContainerID i then fst (listing w) else w)"
begin

definition acts_on :: "('c \<Rightarrow> bool) \<Rightarrow> ('w \<Rightarrow> 'w \<times> error option) \<Rightarrow> string \<Rightarrow> 'w \<Rightarrow> 'w \<times> error option \<Rightarrow> bool" where
  "acts_on allowed act i w r \<longleftrightarrow>
     (\<exists>cs x w1. validContainerID i \<and> listing w = (w1, Inr cs) \<and> x \<in> set cs \<and> ident_of x = i \<and> allowed x \<and> r = act w1) \<or>
     (fst r = (if validContainerID i then fst (listing w) else w) \<and> snd r \<noteq> None)"

lemma guarded_acts_on:
  assumes "r = (case lookup i w of (w1, Inl e) \<Rightarrow> (w1, Some e) | (w1, Inr x) \<Rightarrow> if refuse x then (w1, Some err) else act w1)"
  shows "acts_on (\<lambda>x. \<not> refuse x) act i w r"
proof (cases "lookup i w")
  case (Pair w1 res)
  show ?thesis
  proof (cases res)
    case (Inl e)
    then show ?thesis using assms Pair lookup_failed[of i w w1 e] by (simp add: acts_on_def)
  next
    case (Inr x)
    then show ?thesis using assms Pair lookup_found[of i w w1 x] by (auto simp: acts_on_def)
  qed
qed

end

interpretation podman: container_lookup "podman_containers lower c" "podman_container lower c" po_ID for lower c
proof
  show "podman_container lower c i w = (w1, Inr x) \<Longrightarrow>
      \<exists>cs. validContainerID i \<and> podman_containers lower c w = (w1, Inr cs) \<and> x \<in> set cs \<and> po_ID x = i" for i w w1 x
    by (auto simp: podman_container_def find_Some_iff in_set_conv_nth split: if_splits prod.splits sum.splits option.splits)
  show "podman_container lower c i w = (w1, Inl e) \<Longrightarrow> w1 = (if validContainerID i then fst (podman_containers lower c w) else w)" for i w w1 e
    by (auto simp: podman_container_def split: if_splits prod.splits sum.splits option.splits)
qed

definition docker_listing :: "'w docker_client \<Rightarrow> 'w \<Rightarrow> 'w \<times> docker_container_info list result" where
  "docker_listing c w = apsnd (map_sum id fst) (docker_containers c w)"

interpretation docker: container_lookup "docker_listing c" "docker_container c" do_ID for c
proof
  show "docker_container c i w = (w1, Inr x) \<Longrightarrow>
      \<exists>cs. validContainerID i \<and> docker_listing c w = (w1, Inr cs) \<and> x \<in> set cs \<and> do_ID x = i" for i w w1 x
    by (auto simp: docker_container_def docker_listing_def find_Some_iff in_set_conv_nth split: if_splits prod.splits sum.splits option.splits)
  show "docker_container c i w = (w1, Inl e) \<Longrightarrow> w1 = (if validContainerID i then fst (docker_listing c w) else w)" for i w w1 e
    by (auto simp: docker_container_def docker_listing_def split: if_splits prod.splits sum.splits option.splits)
qed

lemma podman_mutations:
  "podman.acts_on lower c (\<lambda>x. \<not> po_Running x) (pc_Remove c i) i w (podman_Remove lower c i w)"
  "podman.acts_on lower c (\<lambda>x. \<not> po_Running x) (pc_Start c i) i w (podman_Start lower c i w)"
  "podman.acts_on lower c po_Running (pc_Stop c i 10) i w (podman_Stop lower c i w)"
  "podman.acts_on lower c po_Running (pc_Restart c i 10) i w (podman_Restart lower c i w)"
  using podman.guarded_acts_on[where refuse = po_Running, OF podman_Remove_def]
    podman.guarded_acts_on[where refuse = po_Running, OF podman_Start_def]
    podman.guarded_acts_on[where refuse = "\<lambda>x. \<not> po_Running x", OF podman_Stop_def]
    podman.guarded_acts_on[where refuse = "\<lambda>x. \<not> po_Running x", OF podman_Restart_def]
  by (simp_all add: defaultTimeout_def)

lemma docker_mutations:
  "docker.acts_on c (\<lambda>x. \<not> do_Running x) (dk_ContainerRemove c i) i w (docker_Remove c i w)"
  "docker.acts_on c (\<lambda>x. \<not> do_Running x) (dk_ContainerStart c i) i w (docker_Start c i w)"
  "docker.acts_on c do_Running (dk_ContainerStop c i 10) i w (docker_Stop c i w)"
  "docker.acts_on c do_Running (dk_ContainerRestart c i 10) i w (docker_Restart c i w)"
  using docker.guarded_acts_on[where refuse = do_Running, OF docker_Remove_def]
    docker.guarded_acts_on[where refuse = do_Running, OF docker_Start_def]
    docker.guarded_acts_on[where refuse = "\<lambda>x. \<not> do_Running x", OF docker_Stop_def]
    docker.guarded_acts_on[where refuse = "\<lambda>x. \<not> do_Running x", OF docker_Restart_def]
  by (simp_all add: defaultTimeout_def)

text \<open>The images an operation may delete, and the worlds in which it may stop short.\<close>

lemma podman_removes_image:
  "(\<exists>raw img w1. trim_space i \<noteq> [] \<and> pc_Images c w = (w1, Inr raw) \<and> img \<in> set raw \<and> ai_ID img = i \<and> ai_Containers img \<le> 0 \<and>
      podman_RemoveImage c i w = pc_RemoveImage c i w1) \<or>
   (fst (podman_RemoveImage c i w) = (if trim_space i = [] then w else fst (pc_Images c w)) \<and> snd (podman_RemoveImage c i w) \<noteq> None)"
  by (auto simp: podman_RemoveImage_def find_Some_iff in_set_conv_nth split: prod.splits sum.splits option.splits)

lemma docker_images_ids: "docker_images c ins w = (w1, Inr imgs) \<Longrightarrow> \<exists>items. dk_ImageList c w = (w1, Inr items) \<and> im_ID ` set imgs = dm_ID ` set items"
  by (auto simp: docker_images_def image_image split: prod.splits sum.splits)

lemma docker_images_world: "docker_images c ins w = (w1, r) \<Longrightarrow> w1 = fst (dk_ImageList c w)"
  by (auto simp: docker_images_def split: prod.splits sum.splits)

lemma docker_removes_image:
  "(\<exists>cs ins items w1 w2. trim_space i \<noteq> [] \<and> docker_containers c w = (w1, Inr (cs, ins)) \<and> i \<notin> di_Image ` set ins \<and>
      dk_ImageList c w1 = (w2, Inr items) \<and> i \<in> dm_ID ` set items \<and> docker_RemoveImage c i w = dk_ImageRemove c i w2) \<or>
   (fst (docker_RemoveImage c i w) \<in>
      (if trim_space i = [] then {w} else {fst (docker_containers c w), fst (dk_ImageList c (fst (docker_containers c w)))}) \<and>
    snd (docker_RemoveImage c i w) \<noteq> None)"
  (is "?acts \<or> ?refused")
proof (cases "\<exists>w1 cs ins w2 imgs. trim_space i \<noteq> [] \<and> docker_containers c w = (w1, Inr (cs, ins)) \<and> i \<notin> di_Image ` set ins \<and>
    docker_images c ins w1 = (w2, Inr imgs) \<and> i \<in> im_ID ` set imgs")
  case True
  then obtain w1 cs ins w2 imgs where d: "trim_space i \<noteq> []" "docker_containers c w = (w1, Inr (cs, ins))" "i \<notin> di_Image ` set ins"
    "docker_images c ins w1 = (w2, Inr imgs)" "i \<in> im_ID ` set imgs" by blast
  have "\<not> list_ex (\<lambda>x. di_Image x = i) ins" "list_ex (\<lambda>img. im_ID img = i) imgs" using d(3,5) by (auto simp: list_ex_iff image_iff)
  then have "docker_RemoveImage c i w = dk_ImageRemove c i w2" using d by (simp add: docker_RemoveImage_def)
  then show ?thesis using d docker_images_ids[OF d(4)] by metis
next
  case False
  have ?refused
  proof (cases "docker_containers c w")
    case (Pair w1 r)
    show ?thesis
    proof (cases "\<exists>cs ins. trim_space i \<noteq> [] \<and> r = Inr (cs, ins) \<and> i \<notin> di_Image ` set ins")
      case True
      then obtain cs ins where r: "trim_space i \<noteq> []" "r = Inr (cs, ins)" "i \<notin> di_Image ` set ins" by blast
      obtain w2 r2 where d: "docker_images c ins w1 = (w2, r2)" by (cases "docker_images c ins w1")
      then have n: "r2 = Inr imgs \<Longrightarrow> \<not> list_ex (\<lambda>img. im_ID img = i) imgs" for imgs
        using False r Pair by (fastforce simp: list_ex_iff image_iff)
      have m: "\<not> list_ex (\<lambda>x. di_Image x = i) ins" using r(3) by (auto simp: list_ex_iff image_iff)
      show ?thesis using r(1,2) Pair d m n docker_images_world[OF d] by (cases r2) (simp_all add: docker_RemoveImage_def)
    next
      case False
      then show ?thesis using Pair by (auto simp: docker_RemoveImage_def list_ex_iff image_iff split: sum.splits)
    qed
  qed
  then show ?thesis ..
qed

lemma podman_listing:
  "podman_containers lower c w = (w1, Inr cs) \<Longrightarrow> \<exists>raw. pc_Containers c w = (w1, Inr raw) \<and> set cs = podman_container_of lower ` set raw"
  "fst (podman_containers lower c w) = fst (pc_Containers c w)"
  by (auto simp: podman_containers_def split: prod.splits sum.splits)

lemma docker_listing_facts:
  "docker_listing c w = (w1, Inr cs) \<Longrightarrow> \<exists>ins. docker_containers c w = (w1, Inr (cs, ins))"
  "fst (docker_listing c w) = fst (docker_containers c w)"
  by (cases "docker_containers c w"; cases "snd (docker_containers c w)"; auto simp: docker_listing_def)+

lemma podman_container_of_id [simp]: "po_ID (podman_container_of lower item) = ac_ID item"
  by (simp add: podman_container_of_def Let_def)

text \<open>What the documentation calls a container identifier: 64 lower-case hexadecimal digits.\<close>

definition container_digest :: "string \<Rightarrow> bool" where
  "container_digest i \<longleftrightarrow> length i = 64 \<and> set i \<subseteq> set ''0123456789abcdef''"

lemma hex_codes: "n \<in> {0x30..0x39} \<union> {0x61..0x66} \<Longrightarrow> n \<in> {48, 49, 50, 51, 52, 53, 54, 55, 56, 57, 97, 98, 99, 100, 101, 102}" for n :: nat
  by simp presburger

lemma hex_char: "byte c \<in> {0x30..0x39} \<union> {0x61..0x66} \<longleftrightarrow> c \<in> set ''0123456789abcdef''"
proof
  assume "byte c \<in> {0x30..0x39} \<union> {0x61..0x66}"
  then have "byte c \<in> {48, 49, 50, 51, 52, 53, 54, 55, 56, 57, 97, 98, 99, 100, 101, 102}" by (rule hex_codes)
  moreover have "c = char_of n" if "byte c = n" for n using that by (metis char_of_char)
  ultimately show "c \<in> set ''0123456789abcdef''" by (elim insertE) (simp_all add: char_of_def bit_0)
qed auto

lemma validContainerID_digest: "validContainerID = container_digest"
proof
  fix i
  have r: "\<not> ((r < 0x30 \<or> r > 0x39) \<and> (r < 0x61 \<or> r > 0x66)) \<longleftrightarrow> r \<in> {0x30..0x39} \<union> {0x61..0x66}" for r :: nat by auto
  have "list_all (\<lambda>r. r \<in> {0x30..0x39} \<union> {0x61..0x66}) (runes i) \<longleftrightarrow> (\<forall>c \<in> set i. byte c \<in> {0x30..0x39} \<union> {0x61..0x66})"
  proof
    assume a: "list_all (\<lambda>r. r \<in> {0x30..0x39} \<union> {0x61..0x66}) (runes i)"
    then have "\<forall>c \<in> set i. byte c < 128" by (intro low_runes_low) (auto simp: list_all_iff)
    then show "\<forall>c \<in> set i. byte c \<in> {0x30..0x39} \<union> {0x61..0x66}" using a by (simp add: runes_ascii list_all_iff)
  next
    assume a: "\<forall>c \<in> set i. byte c \<in> {0x30..0x39} \<union> {0x61..0x66}"
    then have "\<forall>c \<in> set i. byte c < 128" by auto
    then show "list_all (\<lambda>r. r \<in> {0x30..0x39} \<union> {0x61..0x66}) (runes i)" using a by (simp add: runes_ascii list_all_iff)
  qed
  then show "validContainerID i = container_digest i" unfolding validContainerID_def container_digest_def r hex_char by blast
qed

text \<open>C14. Deletion is guarded in both container engines. \<open>Remove\<close> reaches the engine only for an identifier of 64 lower-case
  hexadecimal digits that a listing just made reports, as a container that is not running; \<open>RemoveImage\<close> only for an
  identifier that is not blank, of an image that the engine just listed and that no container uses (podman by the count
  the engine gives, docker by the images of all inspected containers). Everything else is an error: for an
  identifier of the wrong form the engine was asked nothing at all, and otherwise nothing but the listings.\<close>

theorem engine_deletions_guarded:
  "((\<exists>raw item w1. container_digest i \<and> pc_Containers c w = (w1, Inr raw) \<and> item \<in> set raw \<and> ac_ID item = i \<and>
       po_Running (podman_container_of lower item) = False \<and> podman_Remove lower c i w = pc_Remove c i w1) \<or>
     (fst (podman_Remove lower c i w) = (if container_digest i then fst (pc_Containers c w) else w) \<and> snd (podman_Remove lower c i w) \<noteq> None)) \<and>
   ((\<exists>raw img w1. trim_space i \<noteq> [] \<and> pc_Images c w = (w1, Inr raw) \<and> img \<in> set raw \<and> ai_ID img = i \<and> ai_Containers img \<le> 0 \<and>
       podman_RemoveImage c i w = pc_RemoveImage c i w1) \<or>
     (fst (podman_RemoveImage c i w) = (if trim_space i = [] then w else fst (pc_Images c w)) \<and> snd (podman_RemoveImage c i w) \<noteq> None)) \<and>
   ((\<exists>cs ins x v1. container_digest i \<and> docker_containers d v = (v1, Inr (cs, ins)) \<and> x \<in> set cs \<and> do_ID x = i \<and>
       do_Running x = False \<and> docker_Remove d i v = dk_ContainerRemove d i v1) \<or>
     (fst (docker_Remove d i v) = (if container_digest i then fst (docker_containers d v) else v) \<and> snd (docker_Remove d i v) \<noteq> None)) \<and>
   ((\<exists>cs ins items v1 v2. trim_space i \<noteq> [] \<and> docker_containers d v = (v1, Inr (cs, ins)) \<and> i \<notin> di_Image ` set ins \<and>
       dk_ImageList d v1 = (v2, Inr items) \<and> i \<in> dm_ID ` set items \<and> docker_RemoveImage d i v = dk_ImageRemove d i v2) \<or>
     (fst (docker_RemoveImage d i v) \<in>
        (if trim_space i = [] then {v} else {fst (docker_containers d v), fst (dk_ImageList d (fst (docker_containers d v)))}) \<and>
      snd (docker_RemoveImage d i v) \<noteq> None))"
proof (intro conjI podman_removes_image docker_removes_image)
  show "(\<exists>raw item w1. container_digest i \<and> pc_Containers c w = (w1, Inr raw) \<and> item \<in> set raw \<and> ac_ID item = i \<and>
       po_Running (podman_container_of lower item) = False \<and> podman_Remove lower c i w = pc_Remove c i w1) \<or>
     (fst (podman_Remove lower c i w) = (if container_digest i then fst (pc_Containers c w) else w) \<and> snd (podman_Remove lower c i w) \<noteq> None)"
    using podman_mutations(1)[of lower c i w] unfolding podman.acts_on_def podman_listing(2) validContainerID_digest
    by (fastforce dest: podman_listing(1))
  show "(\<exists>cs ins x v1. container_digest i \<and> docker_containers d v = (v1, Inr (cs, ins)) \<and> x \<in> set cs \<and> do_ID x = i \<and>
       do_Running x = False \<and> docker_Remove d i v = dk_ContainerRemove d i v1) \<or>
     (fst (docker_Remove d i v) = (if container_digest i then fst (docker_containers d v) else v) \<and> snd (docker_Remove d i v) \<noteq> None)"
    using docker_mutations(1)[of d i v] unfolding docker.acts_on_def docker_listing_facts(2) validContainerID_digest
    by (fastforce dest: docker_listing_facts(1))
qed

end
