(* ===== verification/Incus_Data.thy ===== *)
theory Incus_Data
  imports Engines
begin

text \<open>
  What the incus module shows (\<open>internal/modules/incus\<close>: \<open>detail.go\<close>, \<open>network.go\<close>, \<open>profile.go\<close>, \<open>logs.go\<close> and the
  conversions of \<open>manager.go\<close>). The records of the incus API hold the fields that the code reads; a time is an integer,
  zero for the zero time, and \<open>rfc3339\<close> prints it.
\<close>

section \<open>The API's records\<close>

type_synonym config_map = "(string, string) gomap"

record incus_address =
  ia_Address :: string
  ia_Netmask :: string
  ia_Scope :: string

record incus_network_state =
  ns_Addresses :: "incus_address list"
  ns_Hwaddr :: string
  ns_Mtu :: int
  ns_State :: string
  ns_Counters :: "(int \<times> int \<times> int \<times> int) option"

record incus_instance_state =
  is_CPUUsage :: int
  is_MemoryTotal :: int
  is_MemoryUsage :: int
  is_Network :: "(string, incus_network_state) gomap"
  is_Processes :: int
  is_StartedAt :: int

record incus_api_snapshot =
  as_CreatedAt :: int
  as_ExpiresAt :: int
  as_Name :: string
  as_Stateful :: bool

text \<open>\<open>if_Running\<close> is whether the status code is \<open>api.Running\<close>.\<close>

record incus_full =
  if_Architecture :: string
  if_Config :: config_map
  if_CreatedAt :: int
  if_Description :: string
  if_Devices :: "(string, config_map) gomap"
  if_ExpandedConfig :: config_map
  if_ExpandedDevices :: "(string, config_map) gomap"
  if_LastUsedAt :: int
  if_Location :: string
  if_Name :: string
  if_Profiles :: "string list"
  if_Running :: bool
  if_Snapshots :: "incus_api_snapshot list"
  if_State :: "incus_instance_state option"
  if_Stateful :: bool
  if_Status :: string
  if_Type :: string

record incus_api_image =
  ii_Aliases :: "string list"
  ii_Fingerprint :: string
  ii_Properties :: config_map
  ii_Size :: int
  ii_Type :: string

record incus_api_network =
  in_Config :: config_map
  in_Description :: string
  in_Managed :: bool
  in_Name :: string
  in_Status :: string
  in_Type :: string
  in_UsedBy :: "string list"

record incus_api_profile =
  ip_Config :: config_map
  ip_Description :: string
  ip_Devices :: "(string, config_map) gomap"
  ip_Name :: string
  ip_UsedBy :: "string list"

definition config_value :: "config_map \<Rightarrow> string \<Rightarrow> string" where
  "config_value m key = (case map_of m key of Some v \<Rightarrow> v | None \<Rightarrow> [])"

section \<open>Instances\<close>

record incus_instance =
  it_Addresses :: "string list"
  it_CPUTime :: int
  it_Image :: string
  it_Memory :: nat
  it_Name :: string
  it_Processes :: int
  it_Running :: bool
  it_Snapshots :: nat
  it_StartedAt :: string
  it_Status :: string
  it_Type :: string

definition instanceType :: "string \<Rightarrow> string" where
  "instanceType value = (if value = ''virtual-machine'' then ''Virtual machine'' else ''Container'')"

fun firstValue :: "string list \<Rightarrow> string" where
  "firstValue [] = ''Unknown''"
| "firstValue (v # vs) = (if v \<noteq> [] then v else firstValue vs)"

definition incus_shortID :: "string \<Rightarrow> string" where
  "incus_shortID ident = (if length ident > 12 then take 12 ident else ident)"

definition baseImage :: "incus_full \<Rightarrow> string" where
  "baseImage item = (let fingerprint = config_value (if_ExpandedConfig item) ''volatile.base_image'' in
     if fingerprint \<noteq> [] then fingerprint else config_value (if_Config item) ''volatile.base_image'')"

definition instanceImage :: "incus_full \<Rightarrow> string" where
  "instanceImage item = firstValue [config_value (if_ExpandedConfig item) ''image.description'',
     config_value (if_Config item) ''image.description'', incus_shortID (baseImage item)]"

definition globalAddresses :: "incus_instance_state \<Rightarrow> string list" where
  "globalAddresses state = compact (sort (concat (map (\<lambda>(_, network). map ia_Address
     (filter (\<lambda>a. ia_Scope a = ''global'' \<and> ia_Address a \<noteq> []) (ns_Addresses network))) (is_Network state))))"

definition listInstance :: "(int \<Rightarrow> string) \<Rightarrow> incus_full \<Rightarrow> incus_instance" where
  "listInstance rfc3339 item =
     (let instance = \<lparr>it_Addresses = [], it_CPUTime = 0, it_Image = instanceImage item, it_Memory = 0, it_Name = if_Name item,
            it_Processes = 0, it_Running = if_Running item, it_Snapshots = length (if_Snapshots item), it_StartedAt = [],
            it_Status = if_Status item, it_Type = instanceType (if_Type item)\<rparr>
      in case if_State item of
           None \<Rightarrow> instance
         | Some state \<Rightarrow> instance\<lparr>it_Addresses := globalAddresses state,
             it_CPUTime := (if is_CPUUsage state > 0 then is_CPUUsage state else 0),
             it_Processes := (if is_Processes state > 0 then is_Processes state else 0),
             it_Memory := (if is_MemoryUsage state > 0 then nat (is_MemoryUsage state) else 0),
             it_StartedAt := (if is_StartedAt state \<noteq> zero_time then rfc3339 (is_StartedAt state) else [])\<rparr>)"

definition incus_imageName :: "incus_api_image \<Rightarrow> string" where
  "incus_imageName img = (case ii_Aliases img of
     a # _ \<Rightarrow> if a \<noteq> [] then a else firstValue [config_value (ii_Properties img) ''description'', incus_shortID (ii_Fingerprint img)]
   | [] \<Rightarrow> firstValue [config_value (ii_Properties img) ''description'', incus_shortID (ii_Fingerprint img)])"

section \<open>What of a configuration is shown\<close>

record config_entry =
  ce_Key :: string
  ce_Value :: string

record incus_device =
  dv_Name :: string
  dv_Properties :: "config_entry list"
  dv_Type :: string

record incus_interface =
  nf_Addresses :: "string list"
  nf_HWAddr :: string
  nf_MTU :: int
  nf_Name :: string
  nf_State :: string

record incus_snapshot =
  sn_CreatedAt :: string
  sn_ExpiresAt :: string
  sn_Name :: string
  sn_Stateful :: bool

record incus_detail =
  dt_Architecture :: string
  dt_Config :: "config_entry list"
  dt_CreatedAt :: string
  dt_Description :: string
  dt_Devices :: "incus_device list"
  dt_Instance :: incus_instance
  dt_LastUsedAt :: string
  dt_Location :: string
  dt_MemoryTotal :: nat
  dt_Networks :: "incus_interface list"
  dt_Profiles :: "string list"
  dt_Project :: string
  dt_Snapshots :: "incus_snapshot list"
  dt_Stateful :: bool

definition configKeys :: "string list" where
  "configKeys = [''boot.autostart'', ''boot.autostart.delay'', ''boot.autostart.priority'', ''limits.cpu'', ''limits.disk.priority'',
     ''limits.memory'', ''limits.memory.swap'', ''limits.processes'', ''security.nesting'', ''security.privileged'',
     ''security.protection.delete'', ''volatile.base_image'']"

definition configPrefixes :: "string list" where "configPrefixes = [''image.'']"

definition deviceProperties :: "(string, string list) gomap" where
  "deviceProperties = [(''disk'', [''path'', ''pool'', ''readonly'', ''size'', ''source'']), (''gpu'', [''gputype'', ''pci'']),
     (''nic'', [''hwaddr'', ''name'', ''network'', ''nictype'', ''parent'']), (''proxy'', [''connect'', ''listen'']),
     (''unix-block'', [''path'', ''source'']), (''unix-char'', [''path'', ''source''])]"

definition allowedConfigKey :: "string \<Rightarrow> bool" where
  "allowedConfigKey key \<longleftrightarrow> key \<in> set configKeys \<or> list_ex (\<lambda>p. prefix p key) configPrefixes"

definition config_entries :: "config_map \<Rightarrow> config_entry list" where
  "config_entries m = sort_by (by_string ce_Key) (map (\<lambda>(k, v). \<lparr>ce_Key = k, ce_Value = v\<rparr>) m)"

definition merge_allowed :: "config_map \<Rightarrow> config_map \<Rightarrow> config_map" where
  "merge_allowed m acc = fold (\<lambda>(k, v) acc. if allowedConfigKey k then AList.update k v acc else acc) m acc"

definition allowedConfig :: "config_map \<Rightarrow> config_map \<Rightarrow> config_entry list" where
  "allowedConfig expanded loc = config_entries (merge_allowed expanded (merge_allowed loc []))"

definition allowed_for :: "string \<Rightarrow> string list" where
  "allowed_for kind = (case map_of deviceProperties kind of Some ks \<Rightarrow> ks | None \<Rightarrow> [])"

definition allowedProperties :: "config_map \<Rightarrow> config_entry list" where
  "allowedProperties props = sort_by (by_string ce_Key) (map (\<lambda>key. \<lparr>ce_Key = key, ce_Value = config_value props key\<rparr>)
     (filter (\<lambda>key. config_value props key \<noteq> []) (allowed_for (config_value props ''type''))))"

definition allowedDevices :: "(string, config_map) gomap \<Rightarrow> (string, config_map) gomap \<Rightarrow> incus_device list" where
  "allowedDevices expanded loc = sort_by (by_string dv_Name)
     (map (\<lambda>(name, props). \<lparr>dv_Name = name, dv_Properties = allowedProperties props, dv_Type = config_value props ''type''\<rparr>)
       (fold (\<lambda>(name, props). AList.update name props) expanded (fold (\<lambda>(name, props). AList.update name props) loc [])))"

definition printed_addresses :: "incus_network_state \<Rightarrow> string list" where
  "printed_addresses network = sort (map (\<lambda>a. ia_Address a @ ''/'' @ ia_Netmask a) (filter (\<lambda>a. ia_Address a \<noteq> []) (ns_Addresses network)))"

definition incus_interfaces :: "incus_instance_state \<Rightarrow> incus_interface list" where
  "incus_interfaces state = sort_by (by_string nf_Name) (map (\<lambda>(name, network). \<lparr>nf_Addresses = printed_addresses network,
     nf_HWAddr = ns_Hwaddr network, nf_MTU = ns_Mtu network, nf_Name = name, nf_State = ns_State network\<rparr>) (is_Network state))"

definition snapshotName :: "string \<Rightarrow> string" where
  "snapshotName name = (case cut (CHR ''/'') name of Some (_, s) \<Rightarrow> s | None \<Rightarrow> name)"

definition incus_snapshots :: "(int \<Rightarrow> string) \<Rightarrow> incus_api_snapshot list \<Rightarrow> incus_snapshot list" where
  "incus_snapshots rfc3339 raw = sort_by (by_string sn_Name) (map (\<lambda>item.
     \<lparr>sn_CreatedAt = (if as_CreatedAt item \<noteq> zero_time then rfc3339 (as_CreatedAt item) else []),
      sn_ExpiresAt = (if as_ExpiresAt item \<noteq> zero_time then rfc3339 (as_ExpiresAt item) else []),
      sn_Name = snapshotName (as_Name item), sn_Stateful = as_Stateful item\<rparr>) raw)"

definition incus_detail_of :: "(int \<Rightarrow> string) \<Rightarrow> incus_full \<Rightarrow> string \<Rightarrow> incus_detail" where
  "incus_detail_of rfc3339 item project =
     \<lparr>dt_Architecture = if_Architecture item, dt_Config = allowedConfig (if_ExpandedConfig item) (if_Config item),
      dt_CreatedAt = (if if_CreatedAt item \<noteq> zero_time then rfc3339 (if_CreatedAt item) else []), dt_Description = if_Description item,
      dt_Devices = allowedDevices (if_ExpandedDevices item) (if_Devices item), dt_Instance = listInstance rfc3339 item,
      dt_LastUsedAt = (if if_LastUsedAt item \<noteq> zero_time then rfc3339 (if_LastUsedAt item) else []), dt_Location = if_Location item,
      dt_MemoryTotal = (case if_State item of None \<Rightarrow> 0 | Some st \<Rightarrow> if is_MemoryTotal st > 0 then nat (is_MemoryTotal st) else 0),
      dt_Networks = (case if_State item of None \<Rightarrow> [] | Some st \<Rightarrow> incus_interfaces st), dt_Profiles = if_Profiles item,
      dt_Project = project, dt_Snapshots = incus_snapshots rfc3339 (if_Snapshots item), dt_Stateful = if_Stateful item\<rparr>"

section \<open>Networks and profiles\<close>

record incus_network =
  nw_IPv4 :: string
  nw_IPv6 :: string
  nw_Managed :: bool
  nw_Name :: string
  nw_Status :: string
  nw_Type :: string
  nw_UsedBy :: nat

record incus_lease =
  nl_Address :: string
  nl_Hostname :: string
  nl_HWAddr :: string
  nl_Type :: string

record network_detail =
  nd_Addresses :: "string list"
  nd_Config :: "config_entry list"
  nd_Counters :: "(int \<times> int \<times> int \<times> int) option"
  nd_Description :: string
  nd_HWAddr :: string
  nd_Leases :: "incus_lease list"
  nd_LeasesAvailable :: bool
  nd_Managed :: bool
  nd_MTU :: int
  nd_Name :: string
  nd_Project :: string
  nd_State :: string
  nd_Status :: string
  nd_Type :: string
  nd_UsedBy :: "string list"

definition networkConfigKeys :: "string list" where
  "networkConfigKeys = [''bridge.driver'', ''bridge.external_interfaces'', ''bridge.mode'', ''bridge.mtu'', ''dns.domain'', ''dns.mode'',
     ''dns.search'', ''ipv4.address'', ''ipv4.dhcp'', ''ipv4.dhcp.ranges'', ''ipv4.firewall'', ''ipv4.nat'', ''ipv4.routes'',
     ''ipv6.address'', ''ipv6.dhcp'', ''ipv6.dhcp.stateful'', ''ipv6.firewall'', ''ipv6.nat'', ''ipv6.routes'', ''mtu'', ''parent'', ''vlan'']"

definition allowedNetworkKey :: "string \<Rightarrow> bool" where
  "allowedNetworkKey key \<longleftrightarrow> key \<in> set networkConfigKeys"

definition allowedNetworkValue :: "config_map \<Rightarrow> string \<Rightarrow> string" where
  "allowedNetworkValue config key = (if \<not> allowedNetworkKey key then [] else config_value config key)"

definition incus_networks :: "incus_api_network list \<Rightarrow> incus_network list" where
  "incus_networks raw = sort_by (by_string nw_Name) (map (\<lambda>item. \<lparr>nw_IPv4 = allowedNetworkValue (in_Config item) ''ipv4.address'',
     nw_IPv6 = allowedNetworkValue (in_Config item) ''ipv6.address'', nw_Managed = in_Managed item, nw_Name = in_Name item,
     nw_Status = in_Status item, nw_Type = in_Type item, nw_UsedBy = length (in_UsedBy item)\<rparr>) raw)"

definition allowedNetworkConfig :: "config_map \<Rightarrow> config_entry list" where
  "allowedNetworkConfig config = config_entries (filter (\<lambda>(k, _). allowedNetworkKey k) config)"

definition networkLeases :: "incus_lease list \<Rightarrow> incus_lease list" where
  "networkLeases raw = sort_by (by_string nl_Address) raw"

record incus_profile =
  pf_Description :: string
  pf_Devices :: nat
  pf_Name :: string
  pf_UsedBy :: nat

record profile_detail =
  pd_Config :: "config_entry list"
  pd_Description :: string
  pd_Devices :: "incus_device list"
  pd_Name :: string
  pd_Project :: string
  pd_UsedBy :: "string list"

definition incus_profiles :: "incus_api_profile list \<Rightarrow> incus_profile list" where
  "incus_profiles raw = sort_by (by_string pf_Name) (map (\<lambda>item. \<lparr>pf_Description = ip_Description item, pf_Devices = length (ip_Devices item),
     pf_Name = ip_Name item, pf_UsedBy = length (ip_UsedBy item)\<rparr>) raw)"

section \<open>Only what is allowed\<close>

lemma merge_allowed_keys: "\<forall>k \<in> fst ` set acc. allowedConfigKey k \<Longrightarrow> k \<in> fst ` set (merge_allowed m acc) \<Longrightarrow> allowedConfigKey k"
proof (induction m arbitrary: acc)
  case (Cons kv m)
  obtain k0 v0 where kv: "kv = (k0, v0)" by (cases kv)
  show ?case
  proof (cases "allowedConfigKey k0")
    case True
    have "\<forall>k \<in> fst ` set (AList.update k0 v0 acc). allowedConfigKey k" using True Cons.prems(1) by (auto simp: dom_update)
    then show ?thesis using Cons.IH[of "AList.update k0 v0 acc"] Cons.prems(2) True by (simp add: merge_allowed_def kv)
  next
    case False
    then show ?thesis using Cons.IH[OF Cons.prems(1)] Cons.prems(2) by (simp add: merge_allowed_def kv)
  qed
qed (auto simp: merge_allowed_def)

lemma allowedConfig_keys: "list_all (allowedConfigKey \<circ> ce_Key) (allowedConfig expanded loc)"
proof -
  have "allowedConfigKey k" if "k \<in> fst ` set (merge_allowed expanded (merge_allowed loc []))" for k
    using merge_allowed_keys[of "merge_allowed loc []" k expanded] merge_allowed_keys[of "[]" _ loc] that by auto
  then show ?thesis by (force simp: allowedConfig_def config_entries_def list_all_iff)
qed

definition device_allowed :: "incus_device \<Rightarrow> bool" where
  "device_allowed d \<longleftrightarrow> list_all (\<lambda>e. ce_Key e \<in> set (allowed_for (dv_Type d))) (dv_Properties d)"

lemma allowedDevices_properties: "list_all device_allowed (allowedDevices expanded loc)"
  by (auto simp: allowedDevices_def device_allowed_def allowedProperties_def list_all_iff)

lemma allowedNetworkConfig_keys: "list_all (allowedNetworkKey \<circ> ce_Key) (allowedNetworkConfig config)"
  by (auto simp: allowedNetworkConfig_def config_entries_def list_all_iff)

end
