(* ===== verification/Incus_Manager.thy ===== *)
theory Incus_Manager
  imports Incus_Data
begin

text \<open>
  The manager of incus (\<open>internal/modules/incus\<close>: \<open>manager.go\<close>, \<open>create.go\<close>, \<open>snapshot.go\<close>, \<open>logs.go\<close>) over the calls
  of its \<open>Client\<close> interface. \<open>LocalClient\<close>, which only forwards each of them to the incus client package, is the
  argument; \<open>message_of\<close> is \<open>error.Error\<close>.
\<close>

section \<open>Names\<close>

definition lower_or_digit :: "nat \<Rightarrow> bool" where
  "lower_or_digit r \<longleftrightarrow> (0x61 \<le> r \<and> r \<le> 0x7A) \<or> (0x30 \<le> r \<and> r \<le> 0x39)"

definition validInstanceName :: "string \<Rightarrow> bool" where
  "validInstanceName name \<longleftrightarrow> name \<noteq> [] \<and> length name \<le> 63 \<and> hd name \<noteq> CHR ''-'' \<and> last name \<noteq> CHR ''-'' \<and>
     list_all (\<lambda>r. lower_or_digit r \<or> r = 0x2D) (runes name)"

definition snapshotNameLimit :: nat where "snapshotNameLimit = 63"

definition validResourceName :: "string \<Rightarrow> bool" where
  "validResourceName name \<longleftrightarrow> name \<noteq> [] \<and> length name \<le> snapshotNameLimit \<and> hd name \<noteq> CHR ''-'' \<and> hd name \<noteq> CHR ''.'' \<and>
     last name \<noteq> CHR ''-'' \<and> last name \<noteq> CHR ''.'' \<and>
     list_all (\<lambda>r. lower_or_digit r \<or> (0x41 \<le> r \<and> r \<le> 0x5A) \<or> r = 0x2D \<or> r = 0x2E \<or> r = 0x5F) (runes name)"

definition validSnapshotName :: "string \<Rightarrow> bool" where
  "validSnapshotName name = validResourceName name"

definition imageAliasLimit :: nat where "imageAliasLimit = 128"

definition validImageAlias :: "string \<Rightarrow> bool" where
  "validImageAlias alias \<longleftrightarrow> alias \<noteq> [] \<and> length alias \<le> imageAliasLimit \<and> \<not> prefix ''/'' alias \<and> \<not> suffix ''/'' alias \<and>
     list_all (\<lambda>segment. segment \<noteq> [] \<and> segment \<noteq> ''.'' \<and> segment \<noteq> ''..'') (split_on slash alias) \<and>
     list_all (\<lambda>r. lower_or_digit r \<or> (0x41 \<le> r \<and> r \<le> 0x5A) \<or> r = 0x2F \<or> r = 0x2E \<or> r = 0x2D \<or> r = 0x5F) (runes alias)"

definition validInstanceType :: "string \<Rightarrow> bool" where
  "validInstanceType value \<longleftrightarrow> value = ''container'' \<or> value = ''virtual-machine''"

definition SourceConsole :: string where "SourceConsole = ''console''"
definition SourceLog :: string where "SourceLog = ''log''"

definition validSource :: "string \<Rightarrow> bool" where
  "validSource source \<longleftrightarrow> source = SourceConsole \<or> source = SourceLog"

definition logfileName :: "string \<Rightarrow> string" where
  "logfileName kind = (if kind = ''virtual-machine'' then ''qemu.log'' else ''lxc.log'')"

section \<open>Logs\<close>

definition message_size :: "string \<Rightarrow> int" where "message_size message = int (length message)"

definition incus_add :: "string bounded_lines \<Rightarrow> string \<Rightarrow> string bounded_lines option" where
  "incus_add b message = tail_add message_size b message"

definition readLines :: "string \<Rightarrow> bool \<Rightarrow> string list option" where
  "readLines s eof = map_option bl_lines (read_tail (\<lambda>raw b. incus_add b raw) eof s [] False newLogLines)"

record incus_logs =
  lo_Lines :: "string list option"
  lo_Name :: string
  lo_Project :: string
  lo_Source :: string

section \<open>The client\<close>

record incus_project =
  pr_Description :: string
  pr_Name :: string

record incus_pool =
  sp_Driver :: string
  sp_Name :: string
  sp_Status :: string
  sp_UsedBy :: nat

record incus_volume =
  sv_ContentType :: string
  sv_Name :: string
  sv_Pool :: string
  sv_Type :: string
  sv_UsedBy :: nat

record incus_bucket =
  sb_Name :: string
  sb_Pool :: string
  sb_S3URL :: string

record incus_image =
  xm_Fingerprint :: string
  xm_Instances :: nat
  xm_Name :: string
  xm_Size :: nat
  xm_Type :: string

record incus_state =
  xs_Buckets :: "incus_bucket list"
  xs_Images :: "incus_image list"
  xs_Instances :: "incus_instance list"
  xs_Networks :: "incus_network list"
  xs_Pools :: "incus_pool list"
  xs_Profiles :: "incus_profile list"
  xs_Project :: string
  xs_Projects :: "incus_project list"
  xs_Version :: string
  xs_Volumes :: "incus_volume list"
  xs_Warnings :: "string list"

text \<open>Pools, volumes and buckets as the API lists them: with the number of users, and for a volume or bucket no pool.\<close>

record 'w incus_client =
  ic_ConsoleLog :: "string \<Rightarrow> string \<Rightarrow> ('w, log_stream result) call"
  ic_CreateFromImage :: "string \<Rightarrow> string \<Rightarrow> string \<Rightarrow> string \<Rightarrow> string \<Rightarrow> ('w, error option) call"
  ic_CreateSnapshot :: "string \<Rightarrow> string \<Rightarrow> string \<Rightarrow> ('w, error option) call"
  ic_DeleteSnapshot :: "string \<Rightarrow> string \<Rightarrow> string \<Rightarrow> ('w, error option) call"
  ic_Images :: "string \<Rightarrow> ('w, incus_api_image list result) call"
  ic_Instance :: "string \<Rightarrow> string \<Rightarrow> ('w, incus_full option result) call"
  ic_Instances :: "string \<Rightarrow> ('w, incus_full list result) call"
  ic_Logfile :: "string \<Rightarrow> string \<Rightarrow> string \<Rightarrow> ('w, log_stream result) call"
  ic_Network :: "string \<Rightarrow> string \<Rightarrow> ('w, incus_api_network option result) call"
  ic_NetworkLeases :: "string \<Rightarrow> string \<Rightarrow> ('w, incus_lease list result) call"
  ic_NetworkState :: "string \<Rightarrow> string \<Rightarrow> ('w, incus_network_state option result) call"
  ic_Networks :: "string \<Rightarrow> ('w, incus_api_network list result) call"
  ic_Profile :: "string \<Rightarrow> string \<Rightarrow> ('w, incus_api_profile option result) call"
  ic_Profiles :: "string \<Rightarrow> ('w, incus_api_profile list result) call"
  ic_Projects :: "('w, incus_project list result) call"
  ic_Remove :: "string \<Rightarrow> string \<Rightarrow> ('w, error option) call"
  ic_RemoveImage :: "string \<Rightarrow> string \<Rightarrow> ('w, error option) call"
  ic_RestoreSnapshot :: "string \<Rightarrow> string \<Rightarrow> string \<Rightarrow> ('w, error option) call"
  ic_Restart :: "string \<Rightarrow> string \<Rightarrow> int \<Rightarrow> ('w, error option) call"
  ic_Server :: "('w, string result) call"
  ic_Start :: "string \<Rightarrow> string \<Rightarrow> ('w, error option) call"
  ic_StorageBuckets :: "string \<Rightarrow> string \<Rightarrow> ('w, (string \<times> string) list result) call"
  ic_StoragePools :: "('w, incus_pool list result) call"
  ic_StorageVolumes :: "string \<Rightarrow> string \<Rightarrow> ('w, incus_volume list result) call"
  ic_Stop :: "string \<Rightarrow> string \<Rightarrow> int \<Rightarrow> bool \<Rightarrow> ('w, error option) call"

text \<open>Early return: \<open>bind_r\<close> in a function that returns a value, \<open>bind_e\<close> in one that returns only an error.\<close>

definition bind_r :: "('w, 'a result) call \<Rightarrow> ('a \<Rightarrow> ('w, 'b result) call) \<Rightarrow> ('w, 'b result) call" where
  "bind_r c f w = (case c w of (w1, Inl e) \<Rightarrow> (w1, Inl e) | (w1, Inr x) \<Rightarrow> f x w1)"

definition bind_e :: "('w, 'a result) call \<Rightarrow> ('a \<Rightarrow> ('w, error option) call) \<Rightarrow> ('w, error option) call" where
  "bind_e c f w = (case c w of (w1, Inl e) \<Rightarrow> (w1, Some e) | (w1, Inr x) \<Rightarrow> f x w1)"

definition fail_e :: "string \<Rightarrow> ('w, error option) call" where
  "fail_e message w = (w, Some (Errorf message []))"

definition fail_r :: "string \<Rightarrow> ('w, 'a result) call" where
  "fail_r message w = (w, Inl (Errorf message []))"

definition ok_r :: "'a \<Rightarrow> ('w, 'a result) call" where
  "ok_r x w = (w, Inr x)"

definition requested :: "string \<Rightarrow> string" where
  "requested project = (if project = [] then ''default'' else project)"

definition incus_project_of :: "'w incus_client \<Rightarrow> string \<Rightarrow> ('w, (string \<times> incus_project list) result) call" where
  "incus_project_of c project = bind_r (ic_Projects c) (\<lambda>raw.
     if \<not> list_ex (\<lambda>item. pr_Name item = requested project) raw then fail_r ''project is not available''
     else ok_r (requested project, sort_by (by_string pr_Name) raw))"

definition incus_instances :: "(int \<Rightarrow> string) \<Rightarrow> 'w incus_client \<Rightarrow> string \<Rightarrow> ('w, (incus_instance list \<times> incus_full list) result) call" where
  "incus_instances rfc3339 c project = bind_r (ic_Instances c project) (\<lambda>raw.
     ok_r (sort_by (by_string it_Name) (map (listInstance rfc3339) raw), raw))"

definition incus_instance_of :: "(int \<Rightarrow> string) \<Rightarrow> 'w incus_client \<Rightarrow> string \<Rightarrow> string \<Rightarrow> ('w, (incus_instance \<times> string) result) call" where
  "incus_instance_of rfc3339 c project name =
     (if \<not> validInstanceName name then fail_r ''invalid instance name''
      else bind_r (incus_project_of c project) (\<lambda>(p, _). bind_r (incus_instances rfc3339 c p) (\<lambda>(instances, _).
        case List.find (\<lambda>x. it_Name x = name) instances of Some x \<Rightarrow> ok_r (x, p) | None \<Rightarrow> fail_r ''instance no longer exists'')))"

definition incus_fetch :: "'w incus_client \<Rightarrow> string \<Rightarrow> string \<Rightarrow> ('w, (incus_full \<times> string) result) call" where
  "incus_fetch c project name =
     (if \<not> validInstanceName name then fail_r ''invalid instance name''
      else bind_r (incus_project_of c project) (\<lambda>(p, _). bind_r (ic_Instance c p name) (\<lambda>found.
        case found of None \<Rightarrow> fail_r ''instance no longer exists'' | Some x \<Rightarrow> ok_r (x, p))))"

section \<open>Operations\<close>

definition incus_Remove :: "(int \<Rightarrow> string) \<Rightarrow> 'w incus_client \<Rightarrow> string \<Rightarrow> string \<Rightarrow> ('w, error option) call" where
  "incus_Remove rfc3339 c project name = bind_e (incus_instance_of rfc3339 c project name) (\<lambda>(x, p).
     if it_Running x then fail_e ''stop the instance before removing it'' else ic_Remove c p name)"

definition incus_Restart :: "(int \<Rightarrow> string) \<Rightarrow> 'w incus_client \<Rightarrow> string \<Rightarrow> string \<Rightarrow> ('w, error option) call" where
  "incus_Restart rfc3339 c project name = bind_e (incus_instance_of rfc3339 c project name) (\<lambda>(x, p).
     if \<not> it_Running x then fail_e ''instance is not running'' else ic_Restart c p name 30)"

definition incus_Start :: "(int \<Rightarrow> string) \<Rightarrow> 'w incus_client \<Rightarrow> string \<Rightarrow> string \<Rightarrow> ('w, error option) call" where
  "incus_Start rfc3339 c project name = bind_e (incus_instance_of rfc3339 c project name) (\<lambda>(x, p).
     if it_Running x then fail_e ''instance is already running'' else ic_Start c p name)"

definition incus_Stop :: "(int \<Rightarrow> string) \<Rightarrow> 'w incus_client \<Rightarrow> string \<Rightarrow> string \<Rightarrow> ('w, error option) call" where
  "incus_Stop rfc3339 c project name = bind_e (incus_instance_of rfc3339 c project name) (\<lambda>(x, p).
     if \<not> it_Running x then fail_e ''instance is not running'' else ic_Stop c p name 30 False)"

definition incus_StopForce :: "(int \<Rightarrow> string) \<Rightarrow> 'w incus_client \<Rightarrow> string \<Rightarrow> string \<Rightarrow> ('w, error option) call" where
  "incus_StopForce rfc3339 c project name = bind_e (incus_instance_of rfc3339 c project name) (\<lambda>(x, p).
     if \<not> it_Running x then fail_e ''instance is not running'' else ic_Stop c p name 30 True)"

definition incus_RemoveImage :: "(int \<Rightarrow> string) \<Rightarrow> 'w incus_client \<Rightarrow> string \<Rightarrow> string \<Rightarrow> ('w, error option) call" where
  "incus_RemoveImage rfc3339 c project fingerprint =
     (if trim_space project = [] \<or> trim_space fingerprint = [] then fail_e ''project and image fingerprint are required''
      else bind_e (incus_project_of c project) (\<lambda>(p, _). bind_e (incus_instances rfc3339 c p) (\<lambda>(_, raw).
        if list_ex (\<lambda>x. baseImage x = fingerprint) raw then fail_e ''remove instances using this image before deleting it''
        else bind_e (ic_Images c p) (\<lambda>imgs.
          if \<not> list_ex (\<lambda>x. ii_Fingerprint x = fingerprint) imgs then fail_e ''image no longer exists''
          else ic_RemoveImage c p fingerprint))))"

definition incus_CreateInstance ::
  "(int \<Rightarrow> string) \<Rightarrow> 'w incus_client \<Rightarrow> string \<Rightarrow> string \<Rightarrow> string \<Rightarrow> string \<Rightarrow> string \<Rightarrow> ('w, error option) call" where
  "incus_CreateInstance rfc3339 c project name alias kind profile =
     (if \<not> validInstanceName name then fail_e ''invalid instance name''
      else if \<not> validInstanceType kind then fail_e ''instance type must be a container or a virtual machine''
      else if \<not> validImageAlias alias then fail_e ''invalid image name''
      else bind_e (incus_project_of c project) (\<lambda>(p, _). bind_e (incus_instances rfc3339 c p) (\<lambda>(instances, _).
        if list_ex (\<lambda>x. it_Name x = name) instances then fail_e ''an instance with that name already exists''
        else if profile \<noteq> [] then
          (if \<not> validResourceName profile then fail_e ''invalid profile name''
           else bind_e (ic_Profiles c p) (\<lambda>available.
             if \<not> list_ex (\<lambda>x. ip_Name x = profile) available then fail_e ''profile is not available''
             else ic_CreateFromImage c p name alias kind profile))
        else ic_CreateFromImage c p name alias kind profile)))"

definition hasSnapshot :: "incus_full \<Rightarrow> string \<Rightarrow> bool" where
  "hasSnapshot item name \<longleftrightarrow> name \<noteq> [] \<and> list_ex (\<lambda>s. snapshotName (as_Name s) = name) (if_Snapshots item)"

definition incus_CreateSnapshot :: "'w incus_client \<Rightarrow> string \<Rightarrow> string \<Rightarrow> string \<Rightarrow> ('w, error option) call" where
  "incus_CreateSnapshot c project instance name =
     (if \<not> validSnapshotName name then fail_e ''invalid snapshot name''
      else bind_e (incus_fetch c project instance) (\<lambda>(item, p).
        if list_ex (\<lambda>s. snapshotName (as_Name s) = name) (if_Snapshots item) then fail_e ''a snapshot with that name already exists''
        else ic_CreateSnapshot c p instance name))"

definition resolveSnapshot :: "'w incus_client \<Rightarrow> string \<Rightarrow> string \<Rightarrow> string \<Rightarrow> ('w, string result) call" where
  "resolveSnapshot c project instance name = bind_r (incus_fetch c project instance) (\<lambda>(item, p).
     if \<not> hasSnapshot item name then fail_r ''snapshot no longer exists'' else ok_r p)"

definition incus_DeleteSnapshot :: "'w incus_client \<Rightarrow> string \<Rightarrow> string \<Rightarrow> string \<Rightarrow> ('w, error option) call" where
  "incus_DeleteSnapshot c project instance name = bind_e (resolveSnapshot c project instance name) (\<lambda>p. ic_DeleteSnapshot c p instance name)"

definition incus_RestoreSnapshot :: "'w incus_client \<Rightarrow> string \<Rightarrow> string \<Rightarrow> string \<Rightarrow> ('w, error option) call" where
  "incus_RestoreSnapshot c project instance name = bind_e (incus_fetch c project instance) (\<lambda>(item, p).
     if if_Running item then fail_e ''stop the instance before restoring a snapshot''
     else if \<not> hasSnapshot item name then fail_e ''snapshot no longer exists''
     else ic_RestoreSnapshot c p instance name)"

section \<open>Queries\<close>

definition incus_Detail :: "(int \<Rightarrow> string) \<Rightarrow> 'w incus_client \<Rightarrow> string \<Rightarrow> string \<Rightarrow> ('w, incus_detail result) call" where
  "incus_Detail rfc3339 c project name = bind_r (incus_fetch c project name) (\<lambda>(x, p). ok_r (incus_detail_of rfc3339 x p))"

definition readLog :: "'w incus_client \<Rightarrow> string \<Rightarrow> string \<Rightarrow> string \<Rightarrow> string \<Rightarrow> ('w, log_stream result) call" where
  "readLog c project name source kind =
     (if source = SourceConsole then ic_ConsoleLog c project name else ic_Logfile c project name (logfileName kind))"

definition incus_Logs :: "'w incus_client \<Rightarrow> string \<Rightarrow> string \<Rightarrow> string \<Rightarrow> ('w, incus_logs result) call" where
  "incus_Logs c project name source =
     (if \<not> validSource source then fail_r ''unsupported log source''
      else bind_r (incus_fetch c project name) (\<lambda>(x, p). bind_r (readLog c p name source (if_Type x)) (\<lambda>(bytes, eof).
        ok_r \<lparr>lo_Lines = readLines bytes eof, lo_Name = name, lo_Project = p, lo_Source = source\<rparr>)))"

definition network_base :: "incus_api_network \<Rightarrow> string \<Rightarrow> network_detail" where
  "network_base item project = \<lparr>nd_Addresses = [], nd_Config = allowedNetworkConfig (in_Config item), nd_Counters = None,
     nd_Description = in_Description item, nd_HWAddr = [], nd_Leases = [], nd_LeasesAvailable = False, nd_Managed = in_Managed item,
     nd_MTU = 0, nd_Name = in_Name item, nd_Project = project, nd_State = [], nd_Status = in_Status item, nd_Type = in_Type item,
     nd_UsedBy = in_UsedBy item\<rparr>"

definition with_state :: "incus_network_state option result \<Rightarrow> network_detail \<Rightarrow> network_detail" where
  "with_state r d = (case r of
     Inr (Some st) \<Rightarrow> d\<lparr>nd_HWAddr := ns_Hwaddr st, nd_MTU := ns_Mtu st, nd_State := ns_State st, nd_Addresses := printed_addresses st,
       nd_Counters := ns_Counters st\<rparr>
   | _ \<Rightarrow> d)"

definition with_leases :: "incus_lease list result \<Rightarrow> network_detail \<Rightarrow> network_detail" where
  "with_leases r d = (case r of Inr leases \<Rightarrow> d\<lparr>nd_LeasesAvailable := True, nd_Leases := networkLeases leases\<rparr> | Inl _ \<Rightarrow> d)"

definition incus_NetworkDetail :: "'w incus_client \<Rightarrow> string \<Rightarrow> string \<Rightarrow> ('w, network_detail result) call" where
  "incus_NetworkDetail c project name =
     (if \<not> validResourceName name then fail_r ''invalid network name''
      else bind_r (incus_project_of c project) (\<lambda>(p, _). bind_r (ic_Network c p name) (\<lambda>found. case found of
          None \<Rightarrow> fail_r ''network no longer exists''
        | Some item \<Rightarrow> (\<lambda>w. case ic_NetworkState c p name w of (w1, r) \<Rightarrow>
            let d = with_state r (network_base item p) in
            if in_Managed item then (case ic_NetworkLeases c p name w1 of (w2, l) \<Rightarrow> (w2, Inr (with_leases l d))) else (w1, Inr d)))))"

definition incus_ProfileDetail :: "'w incus_client \<Rightarrow> string \<Rightarrow> string \<Rightarrow> ('w, profile_detail result) call" where
  "incus_ProfileDetail c project name =
     (if \<not> validResourceName name then fail_r ''invalid profile name''
      else bind_r (incus_project_of c project) (\<lambda>(p, _). bind_r (ic_Profile c p name) (\<lambda>found. case found of
          None \<Rightarrow> fail_r ''profile no longer exists''
        | Some item \<Rightarrow> ok_r \<lparr>pd_Config = allowedConfig (ip_Config item) (ip_Config item), pd_Description = ip_Description item,
            pd_Devices = allowedDevices (ip_Devices item) (ip_Devices item), pd_Name = ip_Name item, pd_Project = p,
            pd_UsedBy = ip_UsedBy item\<rparr>)))"

section \<open>The state of a project\<close>

definition bucketsUnsupported :: "(string \<Rightarrow> string) \<Rightarrow> (error \<Rightarrow> string) \<Rightarrow> error \<Rightarrow> bool" where
  "bucketsUnsupported lower message_of err = (let message = to_lower lower (message_of err) in
     contains message ''not supported'' \<or> contains message ''does not support'' \<or> contains message ''storage_buckets'')"

record storage_rows =
  sr_pools :: "incus_pool list"
  sr_volumes :: "incus_volume list"
  sr_buckets :: "incus_bucket list"
  sr_warnings :: "string list"

definition add_volumes :: "incus_pool \<Rightarrow> incus_volume list result \<Rightarrow> storage_rows \<Rightarrow> storage_rows" where
  "add_volumes pool r rows = (case r of
     Inl _ \<Rightarrow> rows\<lparr>sr_warnings := sr_warnings rows @ [''Storage volumes for pool '' @ sp_Name pool @ '' are unavailable.'']\<rparr>
   | Inr raw \<Rightarrow> rows\<lparr>sr_volumes := sr_volumes rows @ map (\<lambda>v. v\<lparr>sv_Pool := sp_Name pool\<rparr>) (filter (\<lambda>v. sv_Type v = ''custom'') raw)\<rparr>)"

definition add_buckets ::
  "(string \<Rightarrow> string) \<Rightarrow> (error \<Rightarrow> string) \<Rightarrow> incus_pool \<Rightarrow> (string \<times> string) list result \<Rightarrow> storage_rows \<Rightarrow> storage_rows" where
  "add_buckets lower message_of pool r rows = (case r of
     Inl e \<Rightarrow> if bucketsUnsupported lower message_of e then rows
       else rows\<lparr>sr_warnings := sr_warnings rows @ [''Storage buckets for pool '' @ sp_Name pool @ '' are unavailable.'']\<rparr>
   | Inr raw \<Rightarrow> rows\<lparr>sr_buckets := sr_buckets rows @ map (\<lambda>(name, url). \<lparr>sb_Name = name, sb_Pool = sp_Name pool, sb_S3URL = url\<rparr>) raw\<rparr>)"

fun storage_loop ::
  "(string \<Rightarrow> string) \<Rightarrow> (error \<Rightarrow> string) \<Rightarrow> 'w incus_client \<Rightarrow> string \<Rightarrow> incus_pool list \<Rightarrow> storage_rows \<Rightarrow> ('w, storage_rows) call" where
  "storage_loop lower message_of c project [] rows w = (w, rows)"
| "storage_loop lower message_of c project (pool # pools) rows w =
     (let rows1 = rows\<lparr>sr_pools := sr_pools rows @ [pool\<lparr>sp_Status := (if sp_Status pool = [] then ''created'' else sp_Status pool)\<rparr>]\<rparr>;
          (w1, volumes) = ic_StorageVolumes c project (sp_Name pool) w;
          (w2, buckets) = ic_StorageBuckets c project (sp_Name pool) w1
      in storage_loop lower message_of c project pools (add_buckets lower message_of pool buckets (add_volumes pool volumes rows1)) w2)"

definition by_pool :: "('a \<Rightarrow> string) \<Rightarrow> ('a \<Rightarrow> string) \<Rightarrow> 'a \<Rightarrow> 'a \<Rightarrow> int" where
  "by_pool pool name a b = (if string_Compare (pool a) (pool b) \<noteq> 0 then string_Compare (pool a) (pool b) else string_Compare (name a) (name b))"

definition incus_storage ::
  "(string \<Rightarrow> string) \<Rightarrow> (error \<Rightarrow> string) \<Rightarrow> 'w incus_client \<Rightarrow> string \<Rightarrow> ('w, storage_rows result) call" where
  "incus_storage lower message_of c project = bind_r (ic_StoragePools c) (\<lambda>rawPools w.
     case storage_loop lower message_of c project rawPools \<lparr>sr_pools = [], sr_volumes = [], sr_buckets = [], sr_warnings = []\<rparr> w of
       (w1, rows) \<Rightarrow> (w1, Inr (rows\<lparr>sr_pools := sort_by (by_string sp_Name) (sr_pools rows),
         sr_volumes := sort_by (by_pool sv_Pool sv_Name) (sr_volumes rows), sr_buckets := sort_by (by_pool sb_Pool sb_Name) (sr_buckets rows)\<rparr>)))"

definition incus_images :: "incus_full list \<Rightarrow> incus_api_image list \<Rightarrow> incus_image list" where
  "incus_images rawInstances rawImages = sort_by (by_string xm_Name) (map (\<lambda>item. \<lparr>xm_Fingerprint = ii_Fingerprint item,
     xm_Instances = length (filter (\<lambda>x. baseImage x = ii_Fingerprint item) rawInstances), xm_Name = incus_imageName item,
     xm_Size = (if ii_Size item > 0 then nat (ii_Size item) else 0), xm_Type = instanceType (ii_Type item)\<rparr>) rawImages)"

definition incus_State ::
  "(string \<Rightarrow> string) \<Rightarrow> (error \<Rightarrow> string) \<Rightarrow> (int \<Rightarrow> string) \<Rightarrow> 'w incus_client \<Rightarrow> string \<Rightarrow> ('w, incus_state result) call" where
  "incus_State lower message_of rfc3339 c requestedProject =
     bind_r (incus_project_of c requestedProject) (\<lambda>(project, projects).
     bind_r (ic_Server c) (\<lambda>version.
     bind_r (incus_instances rfc3339 c project) (\<lambda>(instances, rawInstances).
     bind_r (ic_Images c project) (\<lambda>rawImages.
     bind_r (incus_storage lower message_of c project) (\<lambda>rows w.
       case ic_Networks c project w of (w1, networks) \<Rightarrow> (case ic_Profiles c project w1 of (w2, profiles) \<Rightarrow>
         (w2, Inr \<lparr>xs_Buckets = sr_buckets rows, xs_Images = incus_images rawInstances rawImages, xs_Instances = instances,
            xs_Networks = (case networks of Inl _ \<Rightarrow> [] | Inr raw \<Rightarrow> incus_networks raw), xs_Pools = sr_pools rows,
            xs_Profiles = (case profiles of Inl _ \<Rightarrow> [] | Inr raw \<Rightarrow> incus_profiles raw), xs_Project = project, xs_Projects = projects,
            xs_Version = (if version = [] then ''installed'' else version), xs_Volumes = sr_volumes rows,
            xs_Warnings = sr_warnings rows @ (case networks of Inl _ \<Rightarrow> [''Networks are unavailable.''] | Inr _ \<Rightarrow> []) @
              (case profiles of Inl _ \<Rightarrow> [''Profiles are unavailable.''] | Inr _ \<Rightarrow> [])\<rparr>)))))))"

section \<open>What a mutation rests on\<close>

text \<open>
  The listings an operation may have made when it is refused: none, the projects, and one call more in the requested
  project.
\<close>

definition only_listed :: "'w incus_client \<Rightarrow> string \<Rightarrow> (string \<Rightarrow> 'w \<Rightarrow> 'w) \<Rightarrow> 'w \<Rightarrow> 'w \<times> error option \<Rightarrow> bool" where
  "only_listed c project listed w r \<longleftrightarrow> snd r \<noteq> None \<and>
     fst r \<in> {w, fst (ic_Projects c w), listed (requested project) (fst (ic_Projects c w))}"

definition known_project :: "'w incus_client \<Rightarrow> string \<Rightarrow> 'w \<Rightarrow> 'w \<Rightarrow> bool" where
  "known_project c project w w1 \<longleftrightarrow> (\<exists>raw. ic_Projects c w = (w1, Inr raw) \<and> requested project \<in> pr_Name ` set raw)"

lemma incus_project_cases:
  obtains (known) projects w1 where "incus_project_of c project w = (w1, Inr (requested project, projects))" "known_project c project w w1"
  | (unknown) e where "incus_project_of c project w = (fst (ic_Projects c w), Inl e)"
proof (cases "ic_Projects c w")
  case (Pair w1 r)
  show ?thesis
  proof (cases r)
    case (Inl e)
    then show ?thesis using Pair by (intro unknown[of e]) (simp add: incus_project_of_def bind_r_def)
  next
    case (Inr raw)
    show ?thesis
    proof (cases "list_ex (\<lambda>item. pr_Name item = requested project) raw")
      case True
      show ?thesis
      proof (rule known)
        show "incus_project_of c project w = (w1, Inr (requested project, sort_by (by_string pr_Name) raw))"
          using Pair Inr True by (simp add: incus_project_of_def bind_r_def ok_r_def)
        show "known_project c project w w1" using Pair Inr True by (force simp: known_project_def list_ex_iff)
      qed
    next
      case False
      then show ?thesis using Pair Inr by (intro unknown) (simp add: incus_project_of_def bind_r_def fail_r_def)
    qed
  qed
qed

lemma known_project_world: "known_project c project w w1 \<Longrightarrow> fst (ic_Projects c w) = w1"
  by (auto simp: known_project_def)

lemma listInstance_facts [simp]: "it_Name (listInstance f item) = if_Name item" "it_Running (listInstance f item) = if_Running item"
  by (simp_all add: listInstance_def Let_def split: option.split)

lemma incus_instance_cases:
  obtains (found) item x w1 w2 raw where "incus_instance_of f c project name w = (w2, Inr (x, requested project))" "validInstanceName name"
      "known_project c project w w1" "ic_Instances c (requested project) w1 = (w2, Inr raw)" "item \<in> set raw" "if_Name item = name"
      "it_Running x = if_Running item"
  | (refused) e w' where "incus_instance_of f c project name w = (w', Inl e)"
      "w' \<in> {w, fst (ic_Projects c w), fst (ic_Instances c (requested project) (fst (ic_Projects c w)))}"
proof (cases "validInstanceName name")
  case False
  then show ?thesis by (intro refused[of w]) (auto simp: incus_instance_of_def fail_r_def)
next
  case valid: True
  show ?thesis
  proof (cases rule: incus_project_cases[of c project w])
    case (unknown e)
    then show ?thesis using valid by (intro refused[of "fst (ic_Projects c w)" e]) (auto simp: incus_instance_of_def bind_r_def)
  next
    case (known projects w1)
    obtain w2 r where l: "ic_Instances c (requested project) w1 = (w2, r)" by (cases "ic_Instances c (requested project) w1")
    have w2: "w2 = fst (ic_Instances c (requested project) (fst (ic_Projects c w)))" using l known_project_world[OF known(2)] by simp
    show ?thesis
    proof (cases r)
      case (Inl e)
      then show ?thesis using valid known(1) l w2 by (intro refused[of w2 e]) (simp_all add: incus_instance_of_def incus_instances_def bind_r_def)
    next
      case (Inr raw)
      define xs where "xs = sort_by (by_string it_Name) (map (listInstance f) raw)"
      have run: "incus_instance_of f c project name w = (case List.find (\<lambda>x. it_Name x = name) xs of
          Some x \<Rightarrow> ok_r (x, requested project) | None \<Rightarrow> fail_r ''instance no longer exists'') w2"
        using valid known(1) l Inr by (simp add: incus_instance_of_def incus_instances_def bind_r_def ok_r_def xs_def)
      show ?thesis
      proof (cases "List.find (\<lambda>x. it_Name x = name) xs")
        case None
        then show ?thesis using run w2 by (intro refused[of w2]) (auto simp: fail_r_def)
      next
        case (Some x)
        then have "x \<in> set xs" "it_Name x = name" by (auto simp: find_Some_iff in_set_conv_nth)
        then obtain item where item: "item \<in> set raw" "if_Name item = name" "it_Running x = if_Running item" by (auto simp: xs_def)
        have "incus_instance_of f c project name w = (w2, Inr (x, requested project))" using run Some by (simp add: ok_r_def)
        then show ?thesis using l Inr by (intro found[OF _ valid known(2) _ item]) simp_all
      qed
    qed
  qed
qed

text \<open>What it means that an operation on an instance is guarded: it acts on an instance that a listing of a known project
  just reported and that \<open>allowed\<close> holds for, or it is an error after listings only.\<close>

definition guarded_instance :: "'w incus_client \<Rightarrow> (bool \<Rightarrow> bool) \<Rightarrow> ('w, error option) call \<Rightarrow> string \<Rightarrow> string \<Rightarrow> 'w \<Rightarrow> 'w \<times> error option \<Rightarrow> bool" where
  "guarded_instance c allowed act project name w r \<longleftrightarrow>
     (\<exists>item raw w1 w2. validInstanceName name \<and> known_project c project w w1 \<and> ic_Instances c (requested project) w1 = (w2, Inr raw) \<and>
        item \<in> set raw \<and> if_Name item = name \<and> allowed (if_Running item) \<and> r = act w2) \<or>
     only_listed c project (\<lambda>p v. fst (ic_Instances c p v)) w r"

lemma bind_guarded:
  assumes "r = bind_e (incus_instance_of f c project name) (\<lambda>(x, p). if \<not> allowed (it_Running x) then fail_e msg else act p) w"
  shows "guarded_instance c allowed (act (requested project)) project name w r"
proof (cases rule: incus_instance_cases[of f c project name w])
  case (found item x w1 w2 raw)
  show ?thesis
  proof (cases "allowed (if_Running item)")
    case True
    then have "r = act (requested project) w2" using assms found(1,7) by (simp add: bind_e_def)
    then show ?thesis using True found unfolding guarded_instance_def by blast
  next
    case False
    then have "r = (w2, Some (Errorf msg []))" using assms found(1,7) by (simp add: bind_e_def fail_e_def)
    then show ?thesis using found(4) known_project_world[OF found(3)] by (simp add: guarded_instance_def only_listed_def)
  qed
next
  case (refused e w')
  then have "r = (w', Some e)" using assms by (simp add: bind_e_def)
  then show ?thesis using refused(2) by (auto simp: guarded_instance_def only_listed_def)
qed

lemma incus_guarded:
  "guarded_instance c Not (ic_Remove c (requested p) n) p n w (incus_Remove f c p n w)"
  "guarded_instance c Not (ic_Start c (requested p) n) p n w (incus_Start f c p n w)"
  "guarded_instance c id (ic_Restart c (requested p) n 30) p n w (incus_Restart f c p n w)"
  "guarded_instance c id (ic_Stop c (requested p) n 30 False) p n w (incus_Stop f c p n w)"
  "guarded_instance c id (ic_Stop c (requested p) n 30 True) p n w (incus_StopForce f c p n w)"
  by (rule bind_guarded, simp add: incus_Remove_def incus_Start_def incus_Restart_def incus_Stop_def incus_StopForce_def)+

text \<open>Every incus operation on an instance is guarded: removing and starting reach incus only for an instance that is not
  running, stopping and restarting only for one that is, each under a valid name that a listing of the requested and
  existing project has just reported. Anything else is an error, and incus was asked for listings only.\<close>

theorem incus_operations_guarded:
  "guarded_instance c Not (ic_Remove c (requested p) n) p n w (incus_Remove f c p n w) \<and>
   guarded_instance c Not (ic_Start c (requested p) n) p n w (incus_Start f c p n w) \<and>
   guarded_instance c id (ic_Restart c (requested p) n 30) p n w (incus_Restart f c p n w) \<and>
   guarded_instance c id (ic_Stop c (requested p) n 30 False) p n w (incus_Stop f c p n w) \<and>
   guarded_instance c id (ic_Stop c (requested p) n 30 True) p n w (incus_StopForce f c p n w)"
  by (intro conjI incus_guarded)

lemma with_network_config [simp]: "nd_Config (with_leases l d) = nd_Config d" "nd_Config (with_state r d) = nd_Config d"
  by (simp_all add: with_leases_def with_state_def split: sum.split option.split)

text \<open>The namespaces that may hold payload, as the comments of \<open>configKeys\<close> and \<open>networkConfigKeys\<close> name them, and the families
  that describe the shape of an instance or of a network.\<close>

definition in_family :: "string list \<Rightarrow> string \<Rightarrow> bool" where
  "in_family families k \<longleftrightarrow> list_ex (\<lambda>f. prefix f k) families"

definition secret_config :: "string \<Rightarrow> bool" where
  "secret_config k \<longleftrightarrow> in_family [''environment.'', ''cloud-init.'', ''user.'', ''raw.''] k \<or> prefix ''volatile.'' k \<and> k \<noteq> ''volatile.base_image''"

definition shape_config :: "string \<Rightarrow> bool" where
  "shape_config k \<longleftrightarrow> in_family [''boot.autostart'', ''limits.'', ''image.''] k \<or>
     k \<in> {''security.nesting'', ''security.privileged'', ''security.protection.delete'', ''volatile.base_image''}"

definition secret_network :: "string \<Rightarrow> bool" where
  "secret_network k \<longleftrightarrow> in_family [''bgp.'', ''ovn.'', ''tunnel.'', ''user.'', ''raw.''] k"

definition shape_network :: "string \<Rightarrow> bool" where
  "shape_network k \<longleftrightarrow> in_family [''bridge.'', ''dns.'', ''ipv4.'', ''ipv6.''] k \<or> k \<in> {''mtu'', ''parent'', ''vlan''}"

text \<open>A device shows properties only if its type is known, and none with a namespace.\<close>

definition plain_device :: "incus_device \<Rightarrow> bool" where
  "plain_device d \<longleftrightarrow> (dv_Properties d = [] \<or> dv_Type d \<in> {''disk'', ''gpu'', ''nic'', ''proxy'', ''unix-block'', ''unix-char''}) \<and>
     list_all (\<lambda>e. CHR ''.'' \<notin> set (ce_Key e)) (dv_Properties d)"

lemma config_keys_shape: "list_all (\<lambda>k. shape_config k \<and> \<not> secret_config k) configKeys"
  by code_simp

lemma network_keys_shape: "list_all (\<lambda>k. shape_network k \<and> \<not> secret_network k) networkConfigKeys"
  by code_simp

lemma image_keys_shape: "shape_config (''image.'' @ k) \<and> \<not> secret_config (''image.'' @ k)"
  by (simp add: shape_config_def secret_config_def in_family_def)

lemma allowed_not_secret:
  assumes "allowedConfigKey k"
  shows "shape_config k \<and> \<not> secret_config k"
proof (cases "k \<in> set configKeys")
  case True
  then show ?thesis using config_keys_shape unfolding list_all_iff by blast
next
  case False
  then obtain r where "k = ''image.'' @ r" using assms unfolding allowedConfigKey_def configPrefixes_def prefix_def by auto
  then show ?thesis using image_keys_shape by blast
qed

lemma allowed_network_not_secret: "allowedNetworkKey k \<Longrightarrow> shape_network k \<and> \<not> secret_network k"
  using network_keys_shape unfolding allowedNetworkKey_def list_all_iff by blast

lemma allowed_for_plain: "k \<in> set (allowed_for t) \<Longrightarrow> t \<in> {''disk'', ''gpu'', ''nic'', ''proxy'', ''unix-block'', ''unix-char''} \<and> CHR ''.'' \<notin> set k"
  by (auto simp: allowed_for_def deviceProperties_def split: if_splits)

lemma device_allowed_plain: "device_allowed d \<Longrightarrow> plain_device d"
  using allowed_for_plain by (cases "dv_Properties d") (auto simp: device_allowed_def plain_device_def list_all_iff)

lemma configurations_shown:
  "list_all (\<lambda>e. shape_config (ce_Key e) \<and> \<not> secret_config (ce_Key e)) (allowedConfig expanded loc)"
  "list_all plain_device (allowedDevices devs own)"
  "list_all (\<lambda>e. shape_network (ce_Key e) \<and> \<not> secret_network (ce_Key e)) (allowedNetworkConfig config)"
  using allowedConfig_keys[of expanded loc] allowedDevices_properties[of devs own] allowedNetworkConfig_keys[of config]
  by (auto simp: list_all_iff dest: allowed_not_secret allowed_network_not_secret device_allowed_plain)

text \<open>C17. No secret of a configuration reaches the console. Whatever incus reports for an instance or a profile, the answer has
  a configuration entry only under a key that describes its shape (\<open>boot.autostart\<close>, \<open>limits\<close>, \<open>image\<close>, three \<open>security\<close> switches and
  \<open>volatile.base_image\<close>), and none of the namespaces \<open>environment\<close>, \<open>cloud-init\<close>, \<open>user\<close>, \<open>raw\<close> and the rest of \<open>volatile\<close>; of its
  devices only those of known types show properties, and none with a namespace. Of a network only \<open>bridge\<close>, \<open>dns\<close>, \<open>ipv4\<close>, \<open>ipv6\<close>
  and three plain keys are shown, nothing of \<open>bgp\<close>, \<open>ovn\<close>, \<open>tunnel\<close>, \<open>user\<close> and \<open>raw\<close>.\<close>

theorem incus_configuration_allowlisted:
  "(case snd (incus_Detail f c p n w) of Inl _ \<Rightarrow> True
    | Inr d \<Rightarrow> list_all (\<lambda>e. shape_config (ce_Key e) \<and> \<not> secret_config (ce_Key e)) (dt_Config d) \<and> list_all plain_device (dt_Devices d)) \<and>
   (case snd (incus_ProfileDetail c p n w) of Inl _ \<Rightarrow> True
    | Inr d \<Rightarrow> list_all (\<lambda>e. shape_config (ce_Key e) \<and> \<not> secret_config (ce_Key e)) (pd_Config d) \<and> list_all plain_device (pd_Devices d)) \<and>
   (case snd (incus_NetworkDetail c p n w) of Inl _ \<Rightarrow> True
    | Inr d \<Rightarrow> list_all (\<lambda>e. shape_network (ce_Key e) \<and> \<not> secret_network (ce_Key e)) (nd_Config d))"
proof (intro conjI)
  show "case snd (incus_Detail f c p n w) of Inl _ \<Rightarrow> True
    | Inr d \<Rightarrow> list_all (\<lambda>e. shape_config (ce_Key e) \<and> \<not> secret_config (ce_Key e)) (dt_Config d) \<and> list_all plain_device (dt_Devices d)"
    by (auto simp: incus_Detail_def bind_r_def ok_r_def incus_detail_of_def configurations_shown split: prod.split sum.split)
  show "case snd (incus_ProfileDetail c p n w) of Inl _ \<Rightarrow> True
    | Inr d \<Rightarrow> list_all (\<lambda>e. shape_config (ce_Key e) \<and> \<not> secret_config (ce_Key e)) (pd_Config d) \<and> list_all plain_device (pd_Devices d)"
    by (auto simp: incus_ProfileDetail_def bind_r_def ok_r_def fail_r_def configurations_shown split: prod.split sum.split option.split)
  show "case snd (incus_NetworkDetail c p n w) of Inl _ \<Rightarrow> True
    | Inr d \<Rightarrow> list_all (\<lambda>e. shape_network (ce_Key e) \<and> \<not> secret_network (ce_Key e)) (nd_Config d)"
    by (auto simp: incus_NetworkDetail_def bind_r_def fail_r_def network_base_def configurations_shown Let_def
        split: prod.split sum.split option.split)
qed

end
