(* ===== verification/Unit_Managers.thy ===== *)
theory Unit_Managers
  imports Daemon_Actions
begin

text \<open>
  The managers of systemd units: starting, stopping and enabling services (\<open>internal/modules/services/manager.go\<close>)
  and the state of backup timers (\<open>internal/modules/backups/manager.go\<close>). The D-Bus client is a record of its calls.
\<close>

section \<open>Unit names\<close>

definition service_char :: "char \<Rightarrow> bool" where
  "service_char c \<longleftrightarrow> between 0x41 0x5A c \<or> between 0x61 0x7A c \<or> is_digit c \<or> c \<in> set '':_.@-''"

text \<open>\<open>^[A-Za-z0-9:_.@-]+\.(a|b|c)$\<close> for a list of alternatives.\<close>

definition unit_pattern :: "string list \<Rightarrow> string \<Rightarrow> bool" where
  "unit_pattern kinds name \<longleftrightarrow> list_ex (\<lambda>k. suffix (CHR ''.'' # k) name \<and>
     (let body = take (length name - length k - 1) name in body \<noteq> [] \<and> list_all service_char body)) kinds"

definition services_validUnitName :: "string \<Rightarrow> bool" where
  "services_validUnitName name \<longleftrightarrow> unit_pattern [''service'', ''socket'', ''timer''] name \<and> \<not> contains name ''..''"

definition protectedUnits :: "string list" where
  "protectedUnits = [''pilothouse.service'', ''pilothoused.service'']"

definition validateUnit :: "string \<Rightarrow> string \<Rightarrow> error option" where
  "validateUnit name action =
     (if \<not> services_validUnitName name then Some (Errorf ''invalid systemd unit name'' [])
      else if name \<in> set protectedUnits \<and> (action = ''stop'' \<or> action = ''disable'') then Some (Errorf ''%s cannot be %sd'' [name, action])
      else None)"

section \<open>Services\<close>

record service_unit =
  su_ActiveState :: string
  su_Description :: string
  su_LoadState :: string
  su_Name :: string
  su_SubState :: string
  su_UnitFileState :: string

definition zero_unit :: service_unit where
  "zero_unit = \<lparr>su_ActiveState = [], su_Description = [], su_LoadState = [], su_Name = [], su_SubState = [], su_UnitFileState = []\<rparr>"

record services_summary =
  sm_Active :: nat
  sm_Failed :: nat
  sm_Total :: nat

record services_state =
  ss_Summary :: services_summary
  ss_Units :: "service_unit list"

record unit_file =
  uf_Path :: string
  uf_Type :: string

record unit_status =
  us_Name :: string
  us_Description :: string
  us_LoadState :: string
  us_ActiveState :: string
  us_SubState :: string

record journal_record =
  jr_Timestamp :: int
  jr_Fields :: "(string, string) gomap"

record journal_entry =
  je_Timestamp :: int
  je_Priority :: int
  je_Severity :: string
  je_Message :: string
  je_Unit :: string

record unit_journal =
  uj_Unit :: string
  uj_Description :: string
  uj_Entries :: "journal_entry list"

record 'w systemd_client =
  sc_ListUnitFiles :: "('w, unit_file list result) call"
  sc_ListUnits :: "string list \<Rightarrow> ('w, unit_status list result) call"
  sc_ResetFailed :: "string \<Rightarrow> ('w, error option) call"
  sc_Restart :: "string \<Rightarrow> ('w, error option) call"
  sc_Start :: "string \<Rightarrow> ('w, error option) call"
  sc_Stop :: "string \<Rightarrow> ('w, error option) call"
  sc_Enable :: "string list \<Rightarrow> ('w, error option) call"
  sc_Disable :: "string list \<Rightarrow> ('w, error option) call"

record 'w services_manager =
  sv_client :: "'w systemd_client"
  sv_journal :: "string \<Rightarrow> int \<Rightarrow> int \<Rightarrow> ('w, journal_record list result) call"
  sv_now :: "'w \<Rightarrow> int"

definition NewServicesManager ::
  "'w systemd_client option \<Rightarrow> (string \<Rightarrow> int \<Rightarrow> int \<Rightarrow> ('w, journal_record list result) call) \<Rightarrow> ('w \<Rightarrow> int) \<Rightarrow>
   'w services_manager result" where
  "NewServicesManager client journal clock = (case client of
     None \<Rightarrow> Inl (Errorf ''systemd client is required'' [])
   | Some c \<Rightarrow> Inr \<lparr>sv_client = c, sv_journal = journal, sv_now = clock\<rparr>)"

definition resolveUnit :: "'w services_manager \<Rightarrow> string \<Rightarrow> ('w, service_unit result) call" where
  "resolveUnit m name w = (case sc_ListUnitFiles (sv_client m) w of
     (w1, Inl e) \<Rightarrow> (w1, Inl e)
   | (w1, Inr unit_files) \<Rightarrow> (case List.find (\<lambda>f. path_Base (uf_Path f) = name) unit_files of
         Some f \<Rightarrow> (w1, Inr (zero_unit\<lparr>su_Name := name, su_Description := name, su_UnitFileState := uf_Type f\<rparr>))
       | None \<Rightarrow> (case sc_ListUnits (sv_client m) [name] w1 of
             (w2, Inl e) \<Rightarrow> (w2, Inl e)
           | (w2, Inr statuses) \<Rightarrow> (case List.find (\<lambda>s. us_Name s = name) statuses of
                 Some s \<Rightarrow> (w2, Inr (zero_unit\<lparr>su_Name := name, su_Description := us_Description s, su_LoadState := us_LoadState s,
                   su_ActiveState := us_ActiveState s, su_SubState := us_SubState s\<rparr>))
               | None \<Rightarrow> (w2, Inl (Errorf ''systemd unit %s does not exist'' [name]))))))"

definition services_job :: "'w services_manager \<Rightarrow> string \<Rightarrow> string \<Rightarrow> ('w, error option) call" where
  "services_job m name action w = (case validateUnit name action of
     Some e \<Rightarrow> (w, Some e)
   | None \<Rightarrow> (case resolveUnit m name w of
         (w1, Inl e) \<Rightarrow> (w1, Some e)
       | (w1, Inr _) \<Rightarrow>
           if action = ''start'' then sc_Start (sv_client m) name w1
           else if action = ''stop'' then sc_Stop (sv_client m) name w1
           else if action = ''restart'' then sc_Restart (sv_client m) name w1
           else (w1, None)))"

definition services_Start :: "'w services_manager \<Rightarrow> string \<Rightarrow> ('w, error option) call" where
  "services_Start m name = services_job m name ''start''"

definition services_Stop :: "'w services_manager \<Rightarrow> string \<Rightarrow> ('w, error option) call" where
  "services_Stop m name = services_job m name ''stop''"

definition services_Restart :: "'w services_manager \<Rightarrow> string \<Rightarrow> ('w, error option) call" where
  "services_Restart m name = services_job m name ''restart''"

definition services_ResetFailed :: "'w services_manager \<Rightarrow> string \<Rightarrow> ('w, error option) call" where
  "services_ResetFailed m name w = (case validateUnit name ''reset-failed'' of
     Some e \<Rightarrow> (w, Some e)
   | None \<Rightarrow> (case resolveUnit m name w of
         (w1, Inl e) \<Rightarrow> (w1, Some e) | (w1, Inr _) \<Rightarrow> sc_ResetFailed (sv_client m) name w1))"

definition services_Enable :: "'w services_manager \<Rightarrow> string \<Rightarrow> ('w, error option) call" where
  "services_Enable m name w = (case validateUnit name ''enable'' of
     Some e \<Rightarrow> (w, Some e)
   | None \<Rightarrow> (case resolveUnit m name w of
         (w1, Inl e) \<Rightarrow> (w1, Some e) | (w1, Inr _) \<Rightarrow> sc_Enable (sv_client m) [name] w1))"

definition services_Disable :: "'w services_manager \<Rightarrow> string \<Rightarrow> ('w, error option) call" where
  "services_Disable m name w = (case validateUnit name ''disable'' of
     Some e \<Rightarrow> (w, Some e)
   | None \<Rightarrow> (case resolveUnit m name w of
         (w1, Inl e) \<Rightarrow> (w1, Some e) | (w1, Inr _) \<Rightarrow> sc_Disable (sv_client m) [name] w1))"

text \<open>The state: unit files first, then the loaded units over them, and the counts.\<close>

definition add_unit_file :: "unit_file \<Rightarrow> (string, service_unit) gomap \<Rightarrow> (string, service_unit) gomap" where
  "add_unit_file f units = (let name = path_Base (uf_Path f) in
     if services_validUnitName name then AList.update name \<lparr>su_ActiveState = ''inactive'', su_Description = name, su_LoadState = ''not-found'',
       su_Name = name, su_SubState = ''dead'', su_UnitFileState = uf_Type f\<rparr> units else units)"

definition add_unit_status :: "unit_status \<Rightarrow> (string, service_unit) gomap \<Rightarrow> (string, service_unit) gomap" where
  "add_unit_status s units = (if \<not> services_validUnitName (us_Name s) then units
     else let u = (case map_of units (us_Name s) of Some u \<Rightarrow> u | None \<Rightarrow> zero_unit) in
       AList.update (us_Name s) (u\<lparr>su_Name := us_Name s, su_Description := us_Description s, su_LoadState := us_LoadState s,
         su_ActiveState := us_ActiveState s, su_SubState := us_SubState s\<rparr>) units)"

definition services_State :: "'w services_manager \<Rightarrow> ('w, services_state result) call" where
  "services_State m w = (case sc_ListUnits (sv_client m) [''*.service'', ''*.socket'', ''*.timer''] w of
     (w1, Inl e) \<Rightarrow> (w1, Inl e)
   | (w1, Inr statuses) \<Rightarrow> (case sc_ListUnitFiles (sv_client m) w1 of
         (w2, Inl e) \<Rightarrow> (w2, Inl e)
       | (w2, Inr unit_files) \<Rightarrow>
           let units = sort_by (by_string su_Name) (map snd (fold add_unit_status statuses (fold add_unit_file unit_files []))) in
           (w2, Inr \<lparr>ss_Summary = \<lparr>sm_Active = length (filter (\<lambda>u. su_ActiveState u = ''active'') units),
              sm_Failed = length (filter (\<lambda>u. su_ActiveState u = ''failed'') units), sm_Total = length units\<rparr>, ss_Units = units\<rparr>)))"

text \<open>The journal of a unit: fails closed on any record that is not of the unit or is malformed.\<close>

definition errJournalUnavailable :: error where
  "errJournalUnavailable = Sentinel ''recent service diagnostics are unavailable''"

definition journalLimit :: int where "journalLimit = 200"
definition journalMaxBytes :: int where "journalMaxBytes = 262144"
definition journalWindow :: int where "journalWindow = 60 * minute"

definition journalSeverities :: "string list" where
  "journalSeverities = [''emerg'', ''alert'', ''crit'', ''err'', ''warning'', ''notice'', ''info'', ''debug'']"

definition parseJournalRecord :: "journal_record \<Rightarrow> string \<Rightarrow> journal_entry option" where
  "parseJournalRecord r name =
     (case (map_of (jr_Fields r) ''PRIORITY'', map_of (jr_Fields r) ''MESSAGE'', map_of (jr_Fields r) ''_SYSTEMD_UNIT'') of
        (Some priorityText, Some message, Some recordUnit) \<Rightarrow> (case Atoi priorityText of
            None \<Rightarrow> None
          | Some priority \<Rightarrow> if priority < 0 \<or> priority > 7 \<or> jr_Timestamp r = zero_time \<or> recordUnit \<noteq> name then None
              else Some \<lparr>je_Timestamp = jr_Timestamp r, je_Priority = priority, je_Severity = journalSeverities ! nat priority,
                je_Message = message, je_Unit = recordUnit\<rparr>)
      | _ \<Rightarrow> None)"

fun journal_entries :: "string \<Rightarrow> int \<Rightarrow> journal_record list \<Rightarrow> int \<Rightarrow> journal_entry list \<Rightarrow> journal_entry list result" where
  "journal_entries name since [] bytes acc = Inr acc"
| "journal_entries name since (r # rs) bytes acc =
     (if jr_Timestamp r < since then journal_entries name since rs bytes acc
      else case parseJournalRecord r name of
          None \<Rightarrow> Inl errJournalUnavailable
        | Some entry \<Rightarrow> let bytes' = bytes + int (length (je_Message entry) + length (je_Unit entry)) + 64 in
            if bytes' > journalMaxBytes then Inl errJournalUnavailable
            else journal_entries name since rs bytes' (acc @ [entry]))"

definition services_Journal :: "'w services_manager \<Rightarrow> string \<Rightarrow> ('w, unit_journal result) call" where
  "services_Journal m name w =
     (if \<not> services_validUnitName name then (w, Inl (Errorf ''invalid systemd unit name'' []))
      else case resolveUnit m name w of
          (w1, Inl e) \<Rightarrow> (w1, Inl e)
        | (w1, Inr u) \<Rightarrow> let since = sv_now m w1 - journalWindow in
            (case sv_journal m name since journalLimit w1 of
               (w2, Inl e) \<Rightarrow> (w2, Inl errJournalUnavailable)
             | (w2, Inr records) \<Rightarrow>
                 (w2, map_sum id (\<lambda>es. \<lparr>uj_Unit = name, uj_Description = su_Description u, uj_Entries = es\<rparr>)
                    (journal_entries name since (take (nat journalLimit) records) 0 []))))"

section \<open>Backup timers\<close>

datatype dbus_value = DString string | DStrings "string list" | DUint64 "64 word" | DOther

datatype backup_health = BackupCritical | BackupHealthy | BackupUnknown | BackupWarning

record backup_timer =
  bt_ActiveState :: string
  bt_Detail :: string
  bt_Health :: backup_health
  bt_LastRun :: int
  bt_Name :: string
  bt_NextRun :: int
  bt_Result :: string
  bt_Service :: string
  bt_UnitFileState :: string

record 'w timers_client =
  tm_GetUnitProperties :: "string \<Rightarrow> ('w, (string, dbus_value) gomap result) call"
  tm_GetUnitTypeProperties :: "string \<Rightarrow> string \<Rightarrow> ('w, (string, dbus_value) gomap result) call"

record 'w backups_manager =
  bm_client :: "'w timers_client"
  bm_maxAge :: int
  bm_names :: "string list"
  bm_now :: "'w \<Rightarrow> int"

fun check_timer_names :: "string list \<Rightarrow> string list \<Rightarrow> error option" where
  "check_timer_names seen [] = None"
| "check_timer_names seen (name # rest) =
     (if \<not> unit_pattern [''timer''] name \<or> contains name ''..'' then Some (Errorf ''invalid systemd timer name %q'' [name])
      else if name \<in> set seen then Some (Errorf ''duplicate systemd timer name %q'' [name])
      else check_timer_names (name # seen) rest)"

definition validateConfiguration :: "string list \<Rightarrow> int \<Rightarrow> error option" where
  "validateConfiguration names maxAge =
     (if maxAge \<le> 0 then Some (Errorf ''backup max age must be positive'' []) else check_timer_names [] names)"

definition NewBackupsManager :: "'w timers_client option \<Rightarrow> string list \<Rightarrow> int \<Rightarrow> ('w \<Rightarrow> int) \<Rightarrow> 'w backups_manager result" where
  "NewBackupsManager client names maxAge clock = (case client of
     None \<Rightarrow> Inl (Errorf ''systemd client is required'' [])
   | Some c \<Rightarrow> (case validateConfiguration names maxAge of
         Some e \<Rightarrow> Inl e | None \<Rightarrow> Inr \<lparr>bm_client = c, bm_maxAge = maxAge, bm_names = names, bm_now = clock\<rparr>))"

definition stringProperty :: "(string, dbus_value) gomap \<Rightarrow> string \<Rightarrow> string option" where
  "stringProperty props name = (case map_of props name of Some (DString s) \<Rightarrow> Some s | _ \<Rightarrow> None)"

definition usecProperty :: "(string, dbus_value) gomap \<Rightarrow> string \<Rightarrow> int option" where
  "usecProperty props name = (case map_of props name of
     Some (DUint64 v) \<Rightarrow> if uint v \<le> int64_max then Some (uint v) else None | _ \<Rightarrow> None)"

definition usecTime :: "int \<Rightarrow> int" where
  "usecTime v = (if v = 0 then zero_time else 1000 * v)"

text \<open>The verdict on a timer whose properties could be read; \<open>dur\<close> prints a duration.\<close>

definition timer_verdict :: "(int \<Rightarrow> string) \<Rightarrow> int \<Rightarrow> int \<Rightarrow> backup_timer \<Rightarrow> int \<Rightarrow> int \<Rightarrow> string \<Rightarrow> backup_timer" where
  "timer_verdict dur maxAge clock timer lastTrigger nextElapse resultError =
     (if bt_ActiveState timer \<noteq> ''active''
      then timer\<lparr>bt_Health := BackupCritical, bt_Detail := ''Timer is '' @ bt_ActiveState timer @ ''; future backups are not scheduled.''\<rparr>
      else if bt_UnitFileState timer = ''disabled'' \<or> bt_UnitFileState timer = ''masked''
      then timer\<lparr>bt_Health := BackupCritical, bt_Detail := ''Timer unit file is '' @ bt_UnitFileState timer @ ''.''\<rparr>
      else if lastTrigger = 0 then timer\<lparr>bt_Health := BackupWarning, bt_Detail := ''Backup has never run.''\<rparr>
      else if bt_Result timer \<noteq> [] \<and> bt_Result timer \<noteq> ''success''
      then timer\<lparr>bt_Health := BackupCritical, bt_Detail := ''Last backup finished with result '' @ bt_Result timer @ ''.''\<rparr>
      else if time_sub clock (bt_LastRun timer) > maxAge
      then timer\<lparr>bt_Health := BackupWarning, bt_Detail := ''Last successful backup is older than '' @ dur maxAge @ ''.''\<rparr>
      else if resultError \<noteq> [] then timer\<lparr>bt_Detail := resultError\<rparr>
      else if nextElapse = 0 then timer\<lparr>bt_Health := BackupWarning, bt_Detail := ''Timer has no next run scheduled.''\<rparr>
      else timer\<lparr>bt_Health := BackupHealthy, bt_Detail := ''Last backup completed successfully.''\<rparr>)"

definition last_result :: "'w timers_client \<Rightarrow> string \<Rightarrow> int \<Rightarrow> ('w, string \<times> string) call" where
  "last_result c service lastTrigger w =
     (if lastTrigger = 0 then (w, [], [])
      else case tm_GetUnitTypeProperties c service ''Service'' w of
          (w1, Inl e) \<Rightarrow> (w1, [], ''Last backup result is unavailable.'')
        | (w1, Inr props) \<Rightarrow> (case stringProperty props ''Result'' of
              Some r \<Rightarrow> (w1, r, if r = [] then ''Last backup result is unavailable.'' else [])
            | None \<Rightarrow> (w1, [], ''Last backup result is unavailable.'')))"

definition timerState :: "(int \<Rightarrow> string) \<Rightarrow> 'w backups_manager \<Rightarrow> string \<Rightarrow> ('w, backup_timer) call" where
  "timerState dur m name w =
     (let timer = \<lparr>bt_ActiveState = [], bt_Detail = [], bt_Health = BackupUnknown, bt_LastRun = zero_time, bt_Name = name,
            bt_NextRun = zero_time, bt_Result = [], bt_Service = [], bt_UnitFileState = []\<rparr>;
          c = bm_client m
      in case tm_GetUnitProperties c name w of
        (w1, Inl e) \<Rightarrow> (w1, timer\<lparr>bt_Detail := ''Timer status is unavailable.''\<rparr>)
      | (w1, Inr unitProperties) \<Rightarrow> (case stringProperty unitProperties ''ActiveState'' of
          None \<Rightarrow> (w1, timer\<lparr>bt_Detail := ''Timer status did not include ActiveState.''\<rparr>)
        | Some active \<Rightarrow>
            let timer1 = timer\<lparr>bt_ActiveState := active, bt_UnitFileState := (case stringProperty unitProperties ''UnitFileState'' of
                  Some v \<Rightarrow> v | None \<Rightarrow> [])\<rparr> in
            (case tm_GetUnitTypeProperties c name ''Timer'' w1 of
               (w2, Inl e) \<Rightarrow> (w2, timer1\<lparr>bt_Detail := ''Timer schedule is unavailable.''\<rparr>)
             | (w2, Inr timerProperties) \<Rightarrow>
                 let service = stringProperty timerProperties ''Unit'';
                     timer2 = timer1\<lparr>bt_Service := (case service of Some s \<Rightarrow> s | None \<Rightarrow> [])\<rparr> in
                 if service = None \<or> \<not> suffix ''.service'' (bt_Service timer2) \<or> contains (bt_Service timer2) ''..''
                 then (w2, timer2\<lparr>bt_Detail := ''Timer schedule did not identify its triggered unit.''\<rparr>)
                 else (case usecProperty timerProperties ''LastTriggerUSec'' of
                     None \<Rightarrow> (w2, timer2\<lparr>bt_Detail := ''Timer schedule did not include a valid LastTriggerUSec.''\<rparr>)
                   | Some lastTrigger \<Rightarrow> (case usecProperty timerProperties ''NextElapseUSecRealtime'' of
                       None \<Rightarrow> (w2, timer2\<lparr>bt_Detail := ''Timer schedule did not include a valid NextElapseUSecRealtime.''\<rparr>)
                     | Some nextElapse \<Rightarrow> (case last_result c (bt_Service timer2) lastTrigger w2 of
                         (w3, result, resultError) \<Rightarrow>
                           (w3, timer_verdict dur (bm_maxAge m) (bm_now m w3)
                              (timer2\<lparr>bt_LastRun := usecTime lastTrigger, bt_NextRun := usecTime nextElapse, bt_Result := result\<rparr>)
                              lastTrigger nextElapse resultError)))))))"

fun timer_states :: "(int \<Rightarrow> string) \<Rightarrow> 'w backups_manager \<Rightarrow> string list \<Rightarrow> ('w, backup_timer list) call" where
  "timer_states dur m [] w = (w, [])"
| "timer_states dur m (name # rest) w = (let (w1, t) = timerState dur m name w; (w2, ts) = timer_states dur m rest w1 in (w2, t # ts))"

record backups_state =
  bs_Configured :: bool
  bs_Timers :: "backup_timer list"

definition backups_State :: "(int \<Rightarrow> string) \<Rightarrow> 'w backups_manager \<Rightarrow> ('w, backups_state result) call" where
  "backups_State dur m w = (case timer_states dur m (bm_names m) w of
     (w1, ts) \<Rightarrow> (w1, Inr \<lparr>bs_Configured = (bm_names m \<noteq> []), bs_Timers = ts\<rparr>))"

section \<open>Which units can be touched\<close>

definition reaches_unit :: "'w services_manager \<Rightarrow> ('w, error option) call \<Rightarrow> string \<Rightarrow> 'w \<Rightarrow> 'w \<times> error option \<Rightarrow> bool" where
  "reaches_unit m act name w r \<longleftrightarrow>
     (\<exists>u w1. services_validUnitName name \<and> resolveUnit m name w = (w1, Inr u) \<and> su_Name u = name \<and> r = act w1) \<or>
     (snd r \<noteq> None \<and> (fst r = w \<or> fst r = fst (resolveUnit m name w)))"

lemma resolveUnit_name: "resolveUnit m name w = (w1, Inr u) \<Longrightarrow> su_Name u = name"
  by (auto simp: resolveUnit_def split: prod.splits sum.splits option.splits)

lemma protected_valid: "name \<in> set protectedUnits \<Longrightarrow> services_validUnitName name"
  by (auto simp: protectedUnits_def services_validUnitName_def unit_pattern_def suffix_to_prefix service_char_def between_def Let_def)

lemma validateUnit_cases:
  "validateUnit name action = None \<longleftrightarrow> services_validUnitName name \<and> (name \<notin> set protectedUnits \<or> action \<noteq> ''stop'' \<and> action \<noteq> ''disable'')"
  by (auto simp: validateUnit_def)

lemma guarded_reaches:
  assumes "r = (case validateUnit name action of Some e \<Rightarrow> (w, Some e) | None \<Rightarrow> (case resolveUnit m name w of
    (w1, Inl e) \<Rightarrow> (w1, Some e) | (w1, Inr _) \<Rightarrow> act w1))"
  shows "reaches_unit m act name w r"
proof (cases "validateUnit name action")
  case None
  then have v: "services_validUnitName name" by (simp add: validateUnit_cases)
  obtain w1 res where r: "resolveUnit m name w = (w1, res)" by (cases "resolveUnit m name w")
  show ?thesis using assms None v r resolveUnit_name[of m name w w1] by (cases res) (auto simp: reaches_unit_def)
next
  case (Some e)
  then show ?thesis using assms by (simp add: reaches_unit_def)
qed

lemma services_job_guarded:
  "services_job m name ''start'' w = (case validateUnit name ''start'' of Some e \<Rightarrow> (w, Some e) | None \<Rightarrow>
     (case resolveUnit m name w of (w1, Inl e) \<Rightarrow> (w1, Some e) | (w1, Inr _) \<Rightarrow> sc_Start (sv_client m) name w1))"
  "services_job m name ''stop'' w = (case validateUnit name ''stop'' of Some e \<Rightarrow> (w, Some e) | None \<Rightarrow>
     (case resolveUnit m name w of (w1, Inl e) \<Rightarrow> (w1, Some e) | (w1, Inr _) \<Rightarrow> sc_Stop (sv_client m) name w1))"
  "services_job m name ''restart'' w = (case validateUnit name ''restart'' of Some e \<Rightarrow> (w, Some e) | None \<Rightarrow>
     (case resolveUnit m name w of (w1, Inl e) \<Rightarrow> (w1, Some e) | (w1, Inr _) \<Rightarrow> sc_Restart (sv_client m) name w1))"
  by (auto simp: services_job_def split: option.split prod.split sum.split)

lemma services_reach:
  "reaches_unit m (sc_Start (sv_client m) name) name w (services_Start m name w)"
  "reaches_unit m (sc_Stop (sv_client m) name) name w (services_Stop m name w)"
  "reaches_unit m (sc_Restart (sv_client m) name) name w (services_Restart m name w)"
  "reaches_unit m (sc_ResetFailed (sv_client m) name) name w (services_ResetFailed m name w)"
  "reaches_unit m (sc_Enable (sv_client m) [name]) name w (services_Enable m name w)"
  "reaches_unit m (sc_Disable (sv_client m) [name]) name w (services_Disable m name w)"
  unfolding services_Start_def services_Stop_def services_Restart_def
  by (rule guarded_reaches, rule services_job_guarded)+
    (rule guarded_reaches, rule services_ResetFailed_def, rule guarded_reaches, rule services_Enable_def,
     rule guarded_reaches, rule services_Disable_def)

text \<open>The console cannot cut the branch it sits on, and touches no unit it cannot name. Stopping or disabling either of
  its own two services is refused before systemd is asked anything. Every other start, stop, restart, reset, enable
  or disable reaches systemd only for a syntactically valid service, socket or timer that systemd knows, under that
  very name; otherwise it is an error and systemd was asked for listings only.\<close>

theorem services_guarded:
  "reaches_unit m (sc_Start (sv_client m) name) name w (services_Start m name w) \<and>
   reaches_unit m (sc_Restart (sv_client m) name) name w (services_Restart m name w) \<and>
   reaches_unit m (sc_ResetFailed (sv_client m) name) name w (services_ResetFailed m name w) \<and>
   reaches_unit m (sc_Enable (sv_client m) [name]) name w (services_Enable m name w) \<and>
   (if name \<in> {''pilothouse.service'', ''pilothoused.service''}
    then services_Stop m name w = (w, Some (Errorf ''%s cannot be %sd'' [name, ''stop''])) \<and>
         services_Disable m name w = (w, Some (Errorf ''%s cannot be %sd'' [name, ''disable'']))
    else reaches_unit m (sc_Stop (sv_client m) name) name w (services_Stop m name w) \<and>
         reaches_unit m (sc_Disable (sv_client m) [name]) name w (services_Disable m name w))"
proof (cases "name \<in> set protectedUnits")
  case True
  then have "validateUnit name ''stop'' = Some (Errorf ''%s cannot be %sd'' [name, ''stop''])"
    "validateUnit name ''disable'' = Some (Errorf ''%s cannot be %sd'' [name, ''disable''])"
    using protected_valid by (simp_all add: validateUnit_def)
  then have "services_Stop m name w = (w, Some (Errorf ''%s cannot be %sd'' [name, ''stop'']))"
    "services_Disable m name w = (w, Some (Errorf ''%s cannot be %sd'' [name, ''disable'']))"
    by (simp_all add: services_Stop_def services_job_def services_Disable_def)
  then show ?thesis using True by (simp add: services_reach protectedUnits_def)
next
  case False
  then show ?thesis by (simp add: services_reach protectedUnits_def)
qed

section \<open>Listings\<close>

definition units_wf :: "(string, service_unit) gomap \<Rightarrow> bool" where
  "units_wf us \<longleftrightarrow> wf_map us \<and> (\<forall>(k, u) \<in> set us. su_Name u = k \<and> services_validUnitName k)"

lemma update_subset: "set (AList.update k v al) \<subseteq> insert (k, v) (set al)"
  by (induction al) auto

lemma units_wf_update: "units_wf us \<Longrightarrow> services_validUnitName k \<Longrightarrow> su_Name u = k \<Longrightarrow> units_wf (AList.update k u us)"
  using update_subset[of k u us] by (auto simp: units_wf_def distinct_update)

lemma units_wf_empty: "units_wf []"
  by (simp add: units_wf_def)

lemma units_wf_files: "units_wf us \<Longrightarrow> units_wf (fold add_unit_file fs us)"
  by (induction fs arbitrary: us) (auto simp: add_unit_file_def Let_def units_wf_update)

lemma units_wf_statuses: "units_wf us \<Longrightarrow> units_wf (fold add_unit_status ss us)"
  by (induction ss arbitrary: us) (auto simp: add_unit_status_def Let_def units_wf_update)

lemma services_State_wf:
  assumes "services_State m w = (w1, Inr st)"
  shows "sorted_wrt (\<lambda>a b. by_string su_Name a b \<le> 0) (ss_Units st) \<and> distinct (map su_Name (ss_Units st)) \<and>
    list_all (\<lambda>u. services_validUnitName (su_Name u)) (ss_Units st) \<and> sm_Total (ss_Summary st) = length (ss_Units st)"
proof -
  obtain us where wf: "units_wf us" and units: "ss_Units st = sort_by (by_string su_Name) (map snd us)"
      "sm_Total (ss_Summary st) = length (ss_Units st)"
    using assms that[OF units_wf_statuses[OF units_wf_files[OF units_wf_empty]]]
    by (auto simp: services_State_def Let_def split: prod.splits sum.splits)
  have "map su_Name (map snd us) = map fst us" using wf by (auto simp: units_wf_def)
  then have "distinct (map su_Name (map snd us))" using wf unfolding units_wf_def by metis
  then have "distinct (map su_Name (ss_Units st))" unfolding units
    by (metis mset_map string_order.mset_sort_by mset_eq_imp_distinct_iff)
  moreover have "list_all (\<lambda>u. services_validUnitName (su_Name u)) (ss_Units st)"
    using wf unfolding units by (auto simp: units_wf_def list_all_iff)
  ultimately show ?thesis using units string_order.sort_by_in_order by metis
qed

lemma journal_entries_ok:
  "journal_entries name since rs bytes acc = Inr es \<Longrightarrow> \<forall>e \<in> set acc. je_Unit e = name \<and> since \<le> je_Timestamp e \<Longrightarrow>
   (\<forall>e \<in> set es. je_Unit e = name \<and> since \<le> je_Timestamp e) \<and> length es \<le> length acc + length rs"
proof (induction rs arbitrary: bytes acc)
  case (Cons r rs)
  show ?case
  proof (cases "jr_Timestamp r < since")
    case True
    then show ?thesis using Cons.IH[of bytes acc] Cons.prems by simp
  next
    case False
    then obtain e bytes' where e: "parseJournalRecord r name = Some e" and rest: "journal_entries name since rs bytes' (acc @ [e]) = Inr es"
      using Cons.prems(1) by (auto simp: Let_def split: option.splits if_splits)
    have "je_Unit e = name \<and> je_Timestamp e = jr_Timestamp r"
      using e by (auto simp: parseJournalRecord_def split: option.splits if_splits)
    then have "\<forall>e \<in> set (acc @ [e]). je_Unit e = name \<and> since \<le> je_Timestamp e" using Cons.prems(2) False by simp
    note IH = Cons.IH[OF rest this]
    have "length es \<le> length acc + length (r # rs)" using conjunct2[OF IH] by simp
    then show ?thesis by (rule conjI[OF conjunct1[OF IH]])
  qed
qed simp

lemma timer_verdict_healthy:
  assumes "bt_Health timer = BackupUnknown"
  shows "bt_Health (timer_verdict dur age clock timer lastT nextT err) = BackupHealthy \<longleftrightarrow>
    bt_ActiveState timer = ''active'' \<and> bt_UnitFileState timer \<notin> {''disabled'', ''masked''} \<and> lastT \<noteq> 0 \<and> nextT \<noteq> 0 \<and>
    bt_Result timer \<in> {[], ''success''} \<and> err = [] \<and> time_sub clock (bt_LastRun timer) \<le> age"
  using assms by (auto simp: timer_verdict_def)

lemma last_result_success:
  "lastT \<noteq> 0 \<Longrightarrow> last_result c service lastT w = (w3, r, e) \<Longrightarrow> (r \<in> {[], ''success''} \<and> e = []) \<longleftrightarrow>
   (\<exists>sp. tm_GetUnitTypeProperties c service ''Service'' w = (w3, Inr sp) \<and> stringProperty sp ''Result'' = Some ''success'')"
  by (auto simp: last_result_def split: prod.splits sum.splits option.splits)

text \<open>A timer is reported healthy exactly when everything supports it: systemd answers, the timer is active and neither
  disabled nor masked, it names a service that it triggers, it has run and will run again, the last run ended in
  success, and it is not older than the configured age. No missing or malformed property, failed query or unknown result can
  make a backup look healthy.\<close>

theorem backup_healthy_exact:
  "bt_Health (snd (timerState dur m name w)) = BackupHealthy \<longleftrightarrow>
   (\<exists>w1 w2 w3 up tp sp service lastT nextT.
      tm_GetUnitProperties (bm_client m) name w = (w1, Inr up) \<and> stringProperty up ''ActiveState'' = Some ''active'' \<and>
      stringProperty up ''UnitFileState'' \<notin> {Some ''disabled'', Some ''masked''} \<and>
      tm_GetUnitTypeProperties (bm_client m) name ''Timer'' w1 = (w2, Inr tp) \<and>
      stringProperty tp ''Unit'' = Some service \<and> suffix ''.service'' service \<and> contains service ''..'' = False \<and>
      usecProperty tp ''LastTriggerUSec'' = Some lastT \<and> usecProperty tp ''NextElapseUSecRealtime'' = Some nextT \<and>
      lastT \<noteq> 0 \<and> nextT \<noteq> 0 \<and>
      tm_GetUnitTypeProperties (bm_client m) service ''Service'' w2 = (w3, Inr sp) \<and> stringProperty sp ''Result'' = Some ''success'' \<and>
      time_sub (bm_now m w3) (1000 * lastT) \<le> bm_maxAge m)"
  (is "_ \<longleftrightarrow> ?good")
proof
  assume "bt_Health (snd (timerState dur m name w)) = BackupHealthy"
  then obtain w1 up active w2 tp service lastT nextT w3 r e where steps:
      "tm_GetUnitProperties (bm_client m) name w = (w1, Inr up)" "stringProperty up ''ActiveState'' = Some active"
      "tm_GetUnitTypeProperties (bm_client m) name ''Timer'' w1 = (w2, Inr tp)" "stringProperty tp ''Unit'' = Some service"
      "suffix ''.service'' service" "contains service ''..'' = False"
      "usecProperty tp ''LastTriggerUSec'' = Some lastT" "usecProperty tp ''NextElapseUSecRealtime'' = Some nextT"
      "last_result (bm_client m) service lastT w2 = (w3, r, e)"
      and v: "active = ''active''" "(case stringProperty up ''UnitFileState'' of Some v \<Rightarrow> v | None \<Rightarrow> []) \<notin> {''disabled'', ''masked''}"
      "lastT \<noteq> 0" "nextT \<noteq> 0" "r \<in> {[], ''success''}" "e = []" "time_sub (bm_now m w3) (usecTime lastT) \<le> bm_maxAge m"
    by (simp add: timerState_def timer_verdict_healthy Let_def split: prod.splits sum.splits option.splits if_splits)
  then show ?good using last_result_success[OF v(3) steps(9)] by (auto simp: usecTime_def split: option.splits)
next
  assume ?good
  then show "bt_Health (snd (timerState dur m name w)) = BackupHealthy"
    by (auto simp: timerState_def timer_verdict_def last_result_def usecTime_def Let_def split: option.splits)
qed

end
