(* ===== verification/Journal_Logs.thy ===== *)
theory Journal_Logs
  imports Unit_Managers
begin

text \<open>
  The system journal page: its filters and manager (\<open>internal/modules/logs/manager.go\<close>) and the reader that walks the
  journal backwards (\<open>internal/modules/logs/journal\<close>). The journal of \<open>libsystemd\<close> is a record of its calls on a world
  \<open>'w\<close>; \<open>lower\<close> is \<open>strings.ToLower\<close> on strings that are not ASCII.
\<close>

section \<open>Filters\<close>

definition journalEntryLimit :: int where "journalEntryLimit = 200"
definition journalScanLimit :: int where "journalScanLimit = 10000"
definition logs_journalMaxBytes :: int where "logs_journalMaxBytes = 262144"
definition queryMaxBytes :: nat where "queryMaxBytes = 1024"
definition queryMaxRunes :: nat where "queryMaxRunes = 200"

definition errLogsUnavailable :: error where "errLogsUnavailable = Sentinel ''system journal is unavailable''"

definition priorityNumbers :: "(string, int) gomap" where
  "priorityNumbers = [(''emerg'', 0), (''alert'', 1), (''crit'', 2), (''err'', 3), (''warning'', 4), (''notice'', 5), (''info'', 6), (''debug'', 7)]"

definition windowDurations :: "(string, int) gomap" where
  "windowDurations = [(''15m'', 15 * minute), (''1h'', 60 * minute), (''6h'', 360 * minute), (''24h'', 1440 * minute)]"

record log_filters =
  lf_Query :: string
  lf_Priority :: string
  lf_Unit :: string
  lf_Window :: string

record log_entry =
  le_Timestamp :: int
  le_Priority :: int
  le_Severity :: string
  le_Source :: string
  le_Message :: string

record logs_state =
  lg_Entries :: "log_entry list"
  lg_Filters :: log_filters
  lg_Truncated :: bool
  lg_Units :: "string list"

record journal_limits =
  jl_EntryLimit :: int
  jl_ScanLimit :: int
  jl_MaxBytes :: int

record journal_result =
  jres_Entries :: "log_entry list"
  jres_Truncated :: bool

text \<open>The body of \<open>unitNamePattern\<close>: unit characters and escapes \<open>\xHH\<close>.\<close>

fun escaped_unit_body :: "string \<Rightarrow> bool" where
  "escaped_unit_body [] = True"
| "escaped_unit_body (c # cs) =
     (if service_char c then escaped_unit_body cs
      else case cs of
          x # h # l # rest \<Rightarrow> byte c = 0x5C \<and> x = CHR ''x'' \<and> is_hex h \<and> is_hex l \<and> escaped_unit_body rest
        | _ \<Rightarrow> False)"

definition unitKinds :: "string list" where
  "unitKinds = [''service'', ''socket'', ''target'', ''device'', ''mount'', ''automount'', ''swap'', ''timer'', ''path'', ''slice'', ''scope'']"

definition logs_unitNamePattern :: "string \<Rightarrow> bool" where
  "logs_unitNamePattern name \<longleftrightarrow> list_ex (\<lambda>k. suffix (CHR ''.'' # k) name \<and>
     (let body = take (length name - length k - 1) name in body \<noteq> [] \<and> escaped_unit_body body)) unitKinds"

definition logs_validUnitName :: "(string \<Rightarrow> string) \<Rightarrow> string \<Rightarrow> bool" where
  "logs_validUnitName lower name \<longleftrightarrow> (let lowerName = to_lower lower name in
     logs_unitNamePattern name \<and> \<not> contains name ''..'' \<and> \<not> contains name ''/'' \<and>
     \<not> contains lowerName (CHR 0x5C # ''x2f'') \<and> \<not> contains lowerName (CHR 0x5C # ''x00''))"

definition PriorityNumber :: "string \<Rightarrow> int option" where
  "PriorityNumber v = map_of priorityNumbers v"

definition WindowDuration :: "string \<Rightarrow> int" where
  "WindowDuration v = (case map_of windowDurations v of Some d \<Rightarrow> d | None \<Rightarrow> 0)"

definition filters_Active :: "log_filters \<Rightarrow> bool" where
  "filters_Active f \<longleftrightarrow> lf_Query f \<noteq> [] \<or> lf_Priority f \<noteq> [] \<or> lf_Unit f \<noteq> [] \<or> lf_Window f \<noteq> ''1h''"

definition validFilters :: "(string \<Rightarrow> string) \<Rightarrow> log_filters \<Rightarrow> error option" where
  "validFilters lower f =
     (if length (runes (lf_Query f)) > queryMaxRunes \<or> length (lf_Query f) > queryMaxBytes \<or> contains (lf_Query f) [CHR 0x00]
      then Some (Errorf ''invalid logs query'' [])
      else if lf_Priority f \<noteq> [] \<and> PriorityNumber (lf_Priority f) = None then Some (Errorf ''invalid logs priority'' [])
      else if lf_Unit f \<noteq> [] \<and> \<not> logs_validUnitName lower (lf_Unit f) then Some (Errorf ''invalid systemd unit name'' [])
      else if WindowDuration (lf_Window f) = 0 then Some (Errorf ''invalid logs window'' [])
      else None)"

definition ParseBrokerFilters :: "(string \<Rightarrow> string) \<Rightarrow> (string, string) gomap \<Rightarrow> log_filters result" where
  "ParseBrokerFilters lower parameters =
     (if list_ex (\<lambda>(key, _). key \<noteq> ''query'' \<and> key \<noteq> ''priority'' \<and> key \<noteq> ''unit'' \<and> key \<noteq> ''window'') parameters
      then Inl (Errorf ''invalid logs filter'' [])
      else let f = \<lparr>lf_Query = trim_space (param parameters ''query''), lf_Priority = param parameters ''priority'',
                 lf_Unit = param parameters ''unit'',
                 lf_Window = (if param parameters ''window'' = [] then ''1h'' else param parameters ''window'')\<rparr>
        in case validFilters lower f of Some e \<Rightarrow> Inl e | None \<Rightarrow> Inr f)"

section \<open>The manager\<close>

record 'w logs_manager =
  lm_ListUnits :: "('w, unit_status list result) call"
  lm_ListUnitFiles :: "('w, unit_file list result) call"
  lm_Read :: "log_filters \<Rightarrow> journal_limits \<Rightarrow> ('w, journal_result result) call"

definition logs_Logs :: "(string \<Rightarrow> string) \<Rightarrow> 'w logs_manager \<Rightarrow> log_filters \<Rightarrow> ('w, logs_state result) call" where
  "logs_Logs lower m filters w = (case validFilters lower filters of
     Some e \<Rightarrow> (w, Inl e)
   | None \<Rightarrow> (case lm_ListUnits m w of
       (w1, Inl e) \<Rightarrow> (w1, Inl errLogsUnavailable)
     | (w1, Inr statuses) \<Rightarrow> (case lm_ListUnitFiles m w1 of
         (w2, Inl e) \<Rightarrow> (w2, Inl errLogsUnavailable)
       | (w2, Inr unit_files) \<Rightarrow> (case lm_Read m filters \<lparr>jl_EntryLimit = journalEntryLimit, jl_ScanLimit = journalScanLimit,
             jl_MaxBytes = logs_journalMaxBytes\<rparr> w2 of
           (w3, Inl e) \<Rightarrow> (w3, Inl errLogsUnavailable)
         | (w3, Inr r) \<Rightarrow> (w3, Inr \<lparr>lg_Entries = jres_Entries r, lg_Filters = filters, lg_Truncated = jres_Truncated r,
             lg_Units = sort (remdups (filter (logs_validUnitName lower)
               (map us_Name statuses @ map (path_Base \<circ> uf_Path) unit_files)))\<rparr>)))))"

section \<open>The reader\<close>

definition messageMaxBytes :: nat where "messageMaxBytes = 65536"
definition sourceMaxBytes :: nat where "sourceMaxBytes = 4096"

definition errUnavailable :: error where "errUnavailable = Sentinel ''system journal reader unavailable''"

text \<open>An absent field of a record reads as the empty string.\<close>

definition record_field :: "journal_record \<Rightarrow> string \<Rightarrow> string" where
  "record_field r name = (case map_of (jr_Fields r) name of Some v \<Rightarrow> v | None \<Rightarrow> [])"

fun pick_source :: "journal_record \<Rightarrow> string list \<Rightarrow> string \<Rightarrow> string option" where
  "pick_source r [] source = Some source"
| "pick_source r (name # names) source =
     (if length (record_field r name) > sourceMaxBytes then None
      else pick_source r names (if source = ''unknown'' \<and> record_field r name \<noteq> [] then record_field r name else source))"

definition entry_threshold :: "log_filters \<Rightarrow> int option" where
  "entry_threshold f = (if lf_Priority f \<noteq> [] then PriorityNumber (lf_Priority f) else Some 7)"

definition journal_entry_of :: "(string \<Rightarrow> string) \<Rightarrow> journal_record \<Rightarrow> log_filters \<Rightarrow> log_entry option" where
  "journal_entry_of lower r f =
     (if jr_Timestamp r = zero_time then None
      else case Atoi (record_field r ''PRIORITY'') of
          None \<Rightarrow> None
        | Some priority \<Rightarrow> if priority < 0 \<or> priority > 7 then None
            else (case map_of (jr_Fields r) ''MESSAGE'' of
                None \<Rightarrow> None
              | Some message \<Rightarrow> if length message > messageMaxBytes then None
                  else if lf_Unit f \<noteq> [] \<and> record_field r ''_SYSTEMD_UNIT'' \<noteq> lf_Unit f then None
                  else (case pick_source r [''_SYSTEMD_UNIT'', ''SYSLOG_IDENTIFIER'', ''_COMM'', ''_TRANSPORT''] ''unknown'' of
                      None \<Rightarrow> None
                    | Some source \<Rightarrow>
                        if lf_Query f \<noteq> [] \<and> \<not> contains (to_lower lower message) (to_lower lower (lf_Query f)) then None
                        else (case entry_threshold f of
                            None \<Rightarrow> None
                          | Some threshold \<Rightarrow> if priority > threshold then None
                              else Some \<lparr>le_Timestamp = jr_Timestamp r, le_Priority = priority,
                                le_Severity = journalSeverities ! nat priority, le_Source = source, le_Message = message\<rparr>))))"

record 'w journal_source =
  js_AddMatch :: "string \<Rightarrow> ('w, error option) call"
  js_SeekTail :: "('w, error option) call"
  js_Previous :: "('w, nat result) call"
  js_Record :: "('w, journal_record result) call"
  js_Close :: "'w \<Rightarrow> 'w"

text \<open>The fields of a record, each fetched as \<open>NAME=value\<close>; an absent field (\<open>ENOENT\<close>) is left out.\<close>

fun record_fields ::
  "(string \<Rightarrow> ('w, string result) call) \<Rightarrow> string list \<Rightarrow> (string, string) gomap \<Rightarrow> ('w, (string, string) gomap result) call" where
  "record_fields getData [] acc w = (w, Inr acc)"
| "record_fields getData (name # names) acc w = (case getData name w of
     (w1, Inl e) \<Rightarrow> if errors_is e ENOENT then record_fields getData names acc w1 else (w1, Inl e)
   | (w1, Inr raw) \<Rightarrow> (case cut (CHR ''='') raw of
         None \<Rightarrow> (w1, Inl (Errorf ''journal record has malformed field'' []))
       | Some (field, v) \<Rightarrow> if field \<noteq> name then (w1, Inl (Errorf ''journal record has malformed field'' []))
           else record_fields getData names (AList.update name v acc) w1))"

definition journal_Record ::
  "('w, 64 word result) call \<Rightarrow> (string \<Rightarrow> ('w, string result) call) \<Rightarrow> ('w, journal_record result) call" where
  "journal_Record getUsec getData w = (case getUsec w of
     (w1, Inl e) \<Rightarrow> (w1, Inl e)
   | (w1, Inr usec) \<Rightarrow>
       (case record_fields getData [''PRIORITY'', ''MESSAGE'', ''_SYSTEMD_UNIT'', ''SYSLOG_IDENTIFIER'', ''_COMM'', ''_TRANSPORT''] [] w1 of
          (w2, Inl e) \<Rightarrow> (w2, Inl e)
        | (w2, Inr named) \<Rightarrow> (w2, Inr \<lparr>jr_Timestamp = 1000 * sint usec, jr_Fields = named\<rparr>)))"

definition entry_bytes :: "log_entry \<Rightarrow> int" where
  "entry_bytes e = int (length (le_Message e) + length (le_Source e)) + 64"

text \<open>The loop: every round looks at one more record, and the scan limit ends it.\<close>

function read_back ::
  "(string \<Rightarrow> string) \<Rightarrow> 'w journal_source \<Rightarrow> ('w \<Rightarrow> error option) \<Rightarrow> log_filters \<Rightarrow> journal_limits \<Rightarrow> int \<Rightarrow>
   int \<Rightarrow> int \<Rightarrow> log_entry list \<Rightarrow> 'w \<Rightarrow> 'w \<times> journal_result result" where
  "read_back lower src ctx f lim boundary inspected bytes acc w =
     (case ctx w of Some e \<Rightarrow> (w, Inl e) | None \<Rightarrow>
     (case js_Previous src w of (w1, Inl e) \<Rightarrow> (w1, Inl e) | (w1, Inr n) \<Rightarrow>
        if n = 0 then (w1, Inr \<lparr>jres_Entries = acc, jres_Truncated = False\<rparr>)
        else (case ctx w1 of Some e \<Rightarrow> (w1, Inl e) | None \<Rightarrow>
        (case js_Record src w1 of (w2, Inl e) \<Rightarrow> (w2, Inl e) | (w2, Inr r) \<Rightarrow>
          if jr_Timestamp r \<noteq> zero_time \<and> jr_Timestamp r < boundary then (w2, Inr \<lparr>jres_Entries = acc, jres_Truncated = False\<rparr>)
          else (case journal_entry_of lower r f of
              Some e \<Rightarrow>
                if entry_bytes e > jl_MaxBytes lim - bytes then (w2, Inr \<lparr>jres_Entries = acc, jres_Truncated = True\<rparr>)
                else if int (length acc) + 1 \<ge> jl_EntryLimit lim then (w2, Inr \<lparr>jres_Entries = acc @ [e], jres_Truncated = True\<rparr>)
                else if inspected + 1 \<ge> jl_ScanLimit lim then (w2, Inr \<lparr>jres_Entries = acc @ [e], jres_Truncated = True\<rparr>)
                else read_back lower src ctx f lim boundary (inspected + 1) (bytes + entry_bytes e) (acc @ [e]) w2
            | None \<Rightarrow>
                if inspected + 1 \<ge> jl_ScanLimit lim then (w2, Inr \<lparr>jres_Entries = acc, jres_Truncated = True\<rparr>)
                else read_back lower src ctx f lim boundary (inspected + 1) bytes acc w2)))))"
  by pat_completeness auto
termination
  by (relation "measure (\<lambda>(_, _, _, _, lim, _, inspected, _). nat (jl_ScanLimit lim - inspected))") auto

declare read_back.simps [simp del]

definition close_source :: "'w journal_source \<Rightarrow> 'w \<times> 'a \<Rightarrow> 'w \<times> 'a" where
  "close_source src r = (js_Close src (fst r), snd r)"

definition reader_Read ::
  "(string \<Rightarrow> string) \<Rightarrow> ('w \<Rightarrow> int) \<Rightarrow> ('w \<Rightarrow> 'w \<times> 'w journal_source result) \<Rightarrow> ('w \<Rightarrow> error option) \<Rightarrow>
   log_filters \<Rightarrow> journal_limits \<Rightarrow> ('w, journal_result result) call" where
  "reader_Read lower clock op ctx f lim w = (case op w of
     (w1, Inl e) \<Rightarrow> (w1, Inl errUnavailable)
   | (w1, Inr src) \<Rightarrow> close_source src
       (case (if lf_Unit f \<noteq> [] then js_AddMatch src (''_SYSTEMD_UNIT='' @ lf_Unit f) w1 else (w1, None)) of
          (w2, Some e) \<Rightarrow> (w2, Inl e)
        | (w2, None) \<Rightarrow> (case js_SeekTail src w2 of
              (w3, Some e) \<Rightarrow> (w3, Inl e)
            | (w3, None) \<Rightarrow> read_back lower src ctx f lim (clock w3 - WindowDuration (lf_Window f)) 0 0 [] w3)))"

section \<open>What is shown\<close>

definition shown :: "(string \<Rightarrow> string) \<Rightarrow> log_filters \<Rightarrow> int \<Rightarrow> log_entry \<Rightarrow> bool" where
  "shown lower f boundary e \<longleftrightarrow> boundary \<le> le_Timestamp e \<and> 0 \<le> le_Priority e \<and>
     (\<exists>threshold. entry_threshold f = Some threshold \<and> le_Priority e \<le> threshold) \<and>
     le_Severity e = journalSeverities ! nat (le_Priority e) \<and> length (le_Message e) \<le> messageMaxBytes \<and>
     lf_Unit f \<in> {[], ''unknown'', le_Source e} \<and>
     (lf_Query f = [] \<or> contains (to_lower lower (le_Message e)) (to_lower lower (lf_Query f)))"

definition within_limits :: "journal_limits \<Rightarrow> log_entry list \<Rightarrow> bool" where
  "within_limits lim es \<longleftrightarrow> int (length es) \<le> jl_EntryLimit lim \<and> sum_list (map entry_bytes es) \<le> jl_MaxBytes lim"

lemma pick_source_known: "source \<noteq> ''unknown'' \<Longrightarrow> pick_source r names source = Some s \<Longrightarrow> s = source"
  by (induction names) (auto split: if_splits)

lemma pick_source_first:
  "pick_source r (name # names) ''unknown'' = Some s \<Longrightarrow> record_field r name \<notin> {[], ''unknown''} \<Longrightarrow> s = record_field r name"
  using pick_source_known by (auto split: if_splits)

lemma journal_entry_of_shown:
  assumes "journal_entry_of lower r f = Some e" "jr_Timestamp r = zero_time \<or> boundary \<le> jr_Timestamp r"
  shows "shown lower f boundary e"
proof -
  obtain priority message source threshold where nz: "jr_Timestamp r \<noteq> zero_time" and p: "0 \<le> priority" "priority \<le> threshold"
      and m: "length message \<le> messageMaxBytes" and u: "lf_Unit f = [] \<or> record_field r ''_SYSTEMD_UNIT'' = lf_Unit f"
      and src: "pick_source r [''_SYSTEMD_UNIT'', ''SYSLOG_IDENTIFIER'', ''_COMM'', ''_TRANSPORT''] ''unknown'' = Some source"
      and q: "lf_Query f = [] \<or> contains (to_lower lower message) (to_lower lower (lf_Query f))"
      and t: "entry_threshold f = Some threshold"
      and e: "e = \<lparr>le_Timestamp = jr_Timestamp r, le_Priority = priority, le_Severity = journalSeverities ! nat priority,
          le_Source = source, le_Message = message\<rparr>"
    using assms(1) unfolding journal_entry_of_def
    by (simp del: pick_source.simps split: if_split_asm option.split_asm) (metis not_less)
  have "lf_Unit f \<in> {[], ''unknown'', source}" using pick_source_first[OF src] u by fastforce
  then show ?thesis using nz p m q t assms(2) by (simp add: e shown_def)
qed

definition journal_ok :: "(string \<Rightarrow> string) \<Rightarrow> log_filters \<Rightarrow> journal_limits \<Rightarrow> int \<Rightarrow> journal_result result \<Rightarrow> bool" where
  "journal_ok lower f lim boundary res = (case res of
     Inl _ \<Rightarrow> True
   | Inr r \<Rightarrow> list_all (shown lower f boundary) (jres_Entries r) \<and> within_limits lim (jres_Entries r))"

lemma journal_ok_simps [simp]:
  "journal_ok lower f lim boundary (Inl e)"
  "journal_ok lower f lim boundary (Inr \<lparr>jres_Entries = es, jres_Truncated = t\<rparr>) \<longleftrightarrow>
     list_all (shown lower f boundary) es \<and> within_limits lim es"
  by (simp_all add: journal_ok_def)

lemma read_back_ok:
  assumes "list_all (shown lower f boundary) acc" "bytes = sum_list (map entry_bytes acc)" "within_limits lim acc"
    "int (length acc) < jl_EntryLimit lim"
  shows "journal_ok lower f lim boundary (snd (read_back lower src ctx f lim boundary inspected bytes acc w))"
  using assms
proof (induction lower src ctx f lim boundary inspected bytes acc w rule: read_back.induct)
  case (1 lower src ctx f lim boundary inspected bytes acc w)
  show ?case
  proof (cases "\<exists>w1 n w2 r. ctx w = None \<and> js_Previous src w = (w1, Inr n) \<and> n \<noteq> 0 \<and> ctx w1 = None \<and> js_Record src w1 = (w2, Inr r) \<and>
      \<not> (jr_Timestamp r \<noteq> zero_time \<and> jr_Timestamp r < boundary)")
    case False
    then show ?thesis using "1.prems"
      by (subst read_back.simps) (auto split: option.split prod.split sum.split)
  next
    case True
    then obtain w1 n w2 r where d: "ctx w = None" "js_Previous src w = (w1, Inr n)" "n \<noteq> 0" "ctx w1 = None"
        "js_Record src w1 = (w2, Inr r)" "\<not> (jr_Timestamp r \<noteq> zero_time \<and> jr_Timestamp r < boundary)" by blast
    note IH = "1.IH"[OF d(1) d(2)[symmetric] refl d(3) d(4) d(5)[symmetric] refl d(6)]
    show ?thesis
    proof (cases "journal_entry_of lower r f")
      case None
      then show ?thesis using d "1.prems" IH(1)[OF None] by (subst read_back.simps) simp
    next
      case (Some e)
      have "shown lower f boundary e" using journal_entry_of_shown[OF Some] d(6) by auto
      then show ?thesis using d "1.prems" IH(2)[OF Some] Some
        by (subst read_back.simps) (simp add: within_limits_def[of lim "acc @ [e]"])
    qed
  qed
qed

text \<open>The start of the window, at the clock after the journal was positioned.\<close>

definition window_start :: "('w \<Rightarrow> int) \<Rightarrow> 'w journal_source \<Rightarrow> log_filters \<Rightarrow> 'w \<Rightarrow> int" where
  "window_start clock src f w1 =
     clock (fst (js_SeekTail src (if lf_Unit f \<noteq> [] then fst (js_AddMatch src (''_SYSTEMD_UNIT='' @ lf_Unit f) w1) else w1))) -
     WindowDuration (lf_Window f)"

lemma reader_Read_ok:
  assumes "op w = (w1, Inr src)" "0 < jl_EntryLimit lim" "0 \<le> jl_MaxBytes lim"
  shows "\<exists>w2 res. reader_Read lower clock op ctx f lim w = (js_Close src w2, res) \<and> journal_ok lower f lim (window_start clock src f w1) res"
proof -
  obtain w2 e where m: "(if lf_Unit f \<noteq> [] then js_AddMatch src (''_SYSTEMD_UNIT='' @ lf_Unit f) w1 else (w1, None)) = (w2, e)"
    by (cases "if lf_Unit f \<noteq> [] then js_AddMatch src (''_SYSTEMD_UNIT='' @ lf_Unit f) w1 else (w1, None)")
  then have w2: "(if lf_Unit f \<noteq> [] then fst (js_AddMatch src (''_SYSTEMD_UNIT='' @ lf_Unit f) w1) else w1) = w2"
    by (auto split: if_splits)
  obtain w3 e' where k: "js_SeekTail src w2 = (w3, e')" by (cases "js_SeekTail src w2")
  have b: "window_start clock src f w1 = clock w3 - WindowDuration (lf_Window f)" unfolding window_start_def w2 using k by simp
  have ok: "journal_ok lower f lim (window_start clock src f w1)
      (snd (read_back lower src ctx f lim (clock w3 - WindowDuration (lf_Window f)) 0 0 [] w3))"
    unfolding b by (rule read_back_ok) (use assms in \<open>simp_all add: within_limits_def\<close>)
  have run: "reader_Read lower clock op ctx f lim w = close_source src (case (w2, e) of (w2, Some e) \<Rightarrow> (w2, Inl e)
      | (w2, None) \<Rightarrow> (case js_SeekTail src w2 of (w3, Some e) \<Rightarrow> (w3, Inl e)
          | (w3, None) \<Rightarrow> read_back lower src ctx f lim (clock w3 - WindowDuration (lf_Window f)) 0 0 [] w3))"
    unfolding reader_Read_def assms(1) prod.case sum.case m ..
  show ?thesis using ok unfolding run close_source_def by (cases e; cases e') (auto simp: k)
qed

text \<open>C16. Reading the journal is bounded and shows only what was asked for. Whatever the journal holds, the walk ends, and
  what it returns has at most 200 entries of at most 256 KiB together, each inside the time window, at the wanted
  priority or more urgent, of the wanted unit, and containing the wanted text; and the journal is closed on every
  path on which it was opened.\<close>

theorem journal_read_bounded:
  "case op w of
     (w1, Inl e) \<Rightarrow> reader_Read lower clock op ctx f \<lparr>jl_EntryLimit = 200, jl_ScanLimit = 10000, jl_MaxBytes = 262144\<rparr> w = (w1, Inl errUnavailable)
   | (w1, Inr src) \<Rightarrow> (\<exists>w2 res.
       reader_Read lower clock op ctx f \<lparr>jl_EntryLimit = 200, jl_ScanLimit = 10000, jl_MaxBytes = 262144\<rparr> w = (js_Close src w2, res) \<and>
       (case res of Inl _ \<Rightarrow> True
        | Inr r \<Rightarrow> length (jres_Entries r) \<le> 200 \<and> sum_list (map entry_bytes (jres_Entries r)) \<le> 262144 \<and>
            list_all (shown lower f (window_start clock src f w1)) (jres_Entries r)))"
proof (cases "op w")
  case (Pair w1 r)
  show ?thesis
  proof (cases r)
    case (Inl e)
    then show ?thesis using Pair by (simp add: reader_Read_def)
  next
    case (Inr src)
    obtain w2 res where run: "reader_Read lower clock op ctx f \<lparr>jl_EntryLimit = 200, jl_ScanLimit = 10000, jl_MaxBytes = 262144\<rparr> w = (js_Close src w2, res)"
        and ok: "journal_ok lower f \<lparr>jl_EntryLimit = 200, jl_ScanLimit = 10000, jl_MaxBytes = 262144\<rparr> (window_start clock src f w1) res"
      using reader_Read_ok[where op = op and w = w and src = src and lim = "\<lparr>jl_EntryLimit = 200, jl_ScanLimit = 10000, jl_MaxBytes = 262144\<rparr>"]
        Pair Inr by (metis journal_limits.select_convs(1,3) zero_less_numeral zero_le_numeral)
    show ?thesis using Pair Inr run ok by (cases res) (auto simp: journal_ok_def within_limits_def)
  qed
qed

end
