(* ===== verification/Host_Image.thy ===== *)
theory Host_Image
  imports Text Registry
begin

text \<open>
  The picture of the host's image (\<open>internal/modules/maintenance\<close>: \<open>hostimage.go\<close>, \<open>hostimage_manager.go\<close>). The
  commands \<open>bootc status --json\<close> and \<open>rpm-ostree status --json\<close> are run by the argument \<open>run\<close>, whose output is only
  read when it has no error; the JSON decoders and \<open>error.Error\<close>, \<open>message_of\<close>, are arguments too. A pointer to a
  value that is copied and never shared is an option.
\<close>

section \<open>The documents\<close>

definition bootcAPIVersionPrefix :: string where "bootcAPIVersionPrefix = ''org.containers.bootc/''"
definition bootcKind :: string where "bootcKind = ''BootcHost''"

record deployment =
  dp_Checksum :: string
  dp_Digest :: string
  dp_Image :: string
  dp_Version :: string

definition zero_deployment :: deployment where
  "zero_deployment = \<lparr>dp_Checksum = [], dp_Digest = [], dp_Image = [], dp_Version = []\<rparr>"

record host_image_status =
  hi_BootcAvailable :: bool
  hi_BootcError :: string
  hi_Booted :: "deployment option"
  hi_RPMOStreeAvailable :: bool
  hi_RPMOStreeError :: string
  hi_Rollback :: "deployment option"
  hi_SoftRebootCapable :: "bool option"
  hi_Staged :: "deployment option"

definition zero_status :: host_image_status where
  "zero_status = \<lparr>hi_BootcAvailable = False, hi_BootcError = [], hi_Booted = None, hi_RPMOStreeAvailable = False,
     hi_RPMOStreeError = [], hi_Rollback = None, hi_SoftRebootCapable = None, hi_Staged = None\<rparr>"

text \<open>\<open>bi_Image\<close> is the text of the reference, where there is one.\<close>

record bootc_image_status =
  bi_Image :: "string option"
  bi_ImageDigest :: string

record bootc_boot_entry =
  be_Image :: "bootc_image_status option"
  be_SoftRebootCapable :: "bool option"

record bootc_host_status =
  bs_Booted :: "bootc_boot_entry option"
  bs_Rollback :: "bootc_boot_entry option"
  bs_Staged :: "bootc_boot_entry option"

record bootc_host =
  bh_APIVersion :: string
  bh_Kind :: string
  bh_Status :: "bootc_host_status option"

definition entry_deployment :: "bootc_boot_entry option \<Rightarrow> deployment option" where
  "entry_deployment e = (case e of None \<Rightarrow> None
     | Some x \<Rightarrow> Some (case be_Image x of None \<Rightarrow> zero_deployment
         | Some i \<Rightarrow> zero_deployment\<lparr>dp_Digest := bi_ImageDigest i, dp_Image := (case bi_Image i of None \<Rightarrow> [] | Some r \<Rightarrow> r)\<rparr>))"

definition entry_softRebootCapable :: "bootc_boot_entry option \<Rightarrow> bool option" where
  "entry_softRebootCapable e = (case e of None \<Rightarrow> None | Some x \<Rightarrow> be_SoftRebootCapable x)"

definition softRebootCapable :: "bootc_host_status \<Rightarrow> bool option" where
  "softRebootCapable s = (case entry_softRebootCapable (bs_Staged s) of Some c \<Rightarrow> Some c | None \<Rightarrow> entry_softRebootCapable (bs_Booted s))"

definition ParseBootcStatus :: "(string \<Rightarrow> bootc_host result) \<Rightarrow> string \<Rightarrow> host_image_status result" where
  "ParseBootcStatus decode data = (case decode data of
     Inl e \<Rightarrow> Inl (Wrapf ''parse bootc status: %w'' [] e)
   | Inr host \<Rightarrow>
       if bh_Kind host \<noteq> bootcKind then Inl (Errorf ''parse bootc status: unexpected kind %q, want %q'' [bh_Kind host, bootcKind])
       else if \<not> prefix bootcAPIVersionPrefix (bh_APIVersion host)
       then Inl (Errorf ''parse bootc status: unexpected apiVersion %q, want prefix %q'' [bh_APIVersion host, bootcAPIVersionPrefix])
       else (case bh_Status host of
         None \<Rightarrow> Inl (Errorf ''parse bootc status: document reports no status object'' [])
       | Some s \<Rightarrow> (case bs_Booted s of
           None \<Rightarrow> Inl (Errorf ''parse bootc status: status reports no booted deployment'' [])
         | Some _ \<Rightarrow> Inr (zero_status\<lparr>hi_BootcAvailable := True, hi_Booted := entry_deployment (bs_Booted s),
             hi_Rollback := entry_deployment (bs_Rollback s), hi_SoftRebootCapable := softRebootCapable s,
             hi_Staged := entry_deployment (bs_Staged s)\<rparr>))))"

record rpm_deployment =
  rd_Booted :: bool
  rd_Checksum :: string
  rd_Digest :: string
  rd_Image :: string
  rd_Staged :: bool
  rd_Version :: string

text \<open>The decoded document is its \<open>deployments\<close> array, if there is one.\<close>

definition ParseRPMOStreeStatus :: "(string \<Rightarrow> rpm_deployment list option result) \<Rightarrow> string \<Rightarrow> rpm_deployment list result" where
  "ParseRPMOStreeStatus decode data = (case decode data of
     Inl e \<Rightarrow> Inl (Wrapf ''parse rpm-ostree status: %w'' [] e)
   | Inr None \<Rightarrow> Inl (Errorf ''parse rpm-ostree status: document reports no deployments array'' [])
   | Inr (Some entries) \<Rightarrow> Inr entries)"

section \<open>Merging\<close>

text \<open>\<open>strings.Cut\<close> with a separator of any length.\<close>

fun cut_at :: "string \<Rightarrow> string \<Rightarrow> (string \<times> string) option" where
  "cut_at sep [] = (if sep = [] then Some ([], []) else None)"
| "cut_at sep (c # s) = (if prefix sep (c # s) then Some ([], drop (length sep) (c # s)) else map_option (apfst ((#) c)) (cut_at sep s))"

definition normalizeImageRef :: "string \<Rightarrow> string" where
  "normalizeImageRef reference =
     (let r = (if prefix ''ostree-'' reference then (case cut_at '':'' reference of Some (_, rest) \<Rightarrow> rest | None \<Rightarrow> reference) else reference)
      in case cut_at ''docker://'' r of Some (_, rest) \<Rightarrow> rest | None \<Rightarrow> r)"

datatype identity_verdict = IdentityUnknown | IdentityMatch | IdentityConflict

definition compareIdentity :: "deployment \<Rightarrow> rpm_deployment \<Rightarrow> identity_verdict" where
  "compareIdentity d e =
     (if dp_Digest d \<noteq> [] \<and> rd_Digest e \<noteq> [] then (if dp_Digest d = rd_Digest e then IdentityMatch else IdentityConflict)
      else if dp_Image d \<noteq> [] \<and> rd_Image e \<noteq> []
      then (if normalizeImageRef (dp_Image d) = normalizeImageRef (rd_Image e) then IdentityMatch else IdentityConflict)
      else IdentityUnknown)"

definition supplementDeployment :: "deployment \<Rightarrow> rpm_deployment option \<Rightarrow> deployment" where
  "supplementDeployment d entry = (case entry of None \<Rightarrow> d
     | Some e \<Rightarrow> if compareIdentity d e = IdentityConflict then d
         else let d1 = (if dp_Version d = [] then d\<lparr>dp_Version := rd_Version e\<rparr> else d)
              in if dp_Checksum d1 = [] then d1\<lparr>dp_Checksum := rd_Checksum e\<rparr> else d1)"

text \<open>The pool: \<open>claimed\<close> marks the entries that were handed out.\<close>

record rpm_pool =
  pool_claimed :: "bool list"
  pool_entries :: "rpm_deployment list"

fun take_from :: "(rpm_deployment \<Rightarrow> bool) \<Rightarrow> nat list \<Rightarrow> rpm_pool \<Rightarrow> rpm_deployment option \<times> rpm_pool" where
  "take_from ok [] p = (None, p)"
| "take_from ok (i # is) p = (if pool_claimed p ! i \<or> \<not> ok (pool_entries p ! i) then take_from ok is p
     else (Some (pool_entries p ! i), p\<lparr>pool_claimed := (pool_claimed p)[i := True]\<rparr>))"

definition pool_take :: "(rpm_deployment \<Rightarrow> bool) \<Rightarrow> rpm_pool \<Rightarrow> rpm_deployment option \<times> rpm_pool" where
  "pool_take ok p = take_from ok [0..<length (pool_entries p)] p"

text \<open>One slot of the merge: nothing is taken for a slot that bootc does not report.\<close>

definition supplement_slot ::
  "(deployment \<Rightarrow> rpm_deployment \<Rightarrow> bool) \<Rightarrow> deployment option \<Rightarrow> rpm_pool \<Rightarrow> deployment option \<times> rpm_pool" where
  "supplement_slot ok slot p = (case slot of None \<Rightarrow> (None, p)
     | Some d \<Rightarrow> (case pool_take (ok d) p of (entry, p1) \<Rightarrow> (Some (supplementDeployment d entry), p1)))"

definition is_booted :: "deployment \<Rightarrow> rpm_deployment \<Rightarrow> bool" where "is_booted d e = rd_Booted e"
definition is_staged :: "deployment \<Rightarrow> rpm_deployment \<Rightarrow> bool" where "is_staged d e = rd_Staged e"
definition is_rollback :: "deployment \<Rightarrow> rpm_deployment \<Rightarrow> bool" where
  "is_rollback d e \<longleftrightarrow> \<not> rd_Booted e \<and> \<not> rd_Staged e \<and> compareIdentity d e = IdentityMatch"

definition MergeHostImage :: "host_image_status \<Rightarrow> rpm_deployment list \<Rightarrow> host_image_status" where
  "MergeHostImage bootc entries =
     (let p0 = \<lparr>pool_claimed = replicate (length entries) False, pool_entries = entries\<rparr>;
          (booted, p1) = supplement_slot is_booted (hi_Booted bootc) p0;
          (staged, p2) = supplement_slot is_staged (hi_Staged bootc) p1;
          (rollback, _) = supplement_slot is_rollback (hi_Rollback bootc) p2
      in \<lparr>hi_BootcAvailable = hi_BootcAvailable bootc, hi_BootcError = hi_BootcError bootc, hi_Booted = booted,
          hi_RPMOStreeAvailable = False, hi_RPMOStreeError = [], hi_Rollback = rollback,
          hi_SoftRebootCapable = hi_SoftRebootCapable bootc, hi_Staged = staged\<rparr>)"

section \<open>The manager\<close>

type_synonym 'w runner = "string \<Rightarrow> string list \<Rightarrow> ('w, string result) call"

record 'w host_image_manager =
  hm_bootcAvailable :: bool
  hm_rpmOstreeAvailable :: bool
  hm_runner :: "'w runner"

definition NewHostImageManager :: "'w runner \<Rightarrow> bool \<Rightarrow> bool \<Rightarrow> 'w host_image_manager" where
  "NewHostImageManager run b r = \<lparr>hm_bootcAvailable = b, hm_rpmOstreeAvailable = r, hm_runner = run\<rparr>"

record image_codec =
  ic_bootc :: "string \<Rightarrow> bootc_host result"
  ic_rpm :: "string \<Rightarrow> rpm_deployment list option result"

definition bootcStatus :: "image_codec \<Rightarrow> 'w host_image_manager \<Rightarrow> ('w, host_image_status result) call" where
  "bootcStatus C m w = (case hm_runner m ''bootc'' [''status'', ''--json''] w of
     (w1, Inl e) \<Rightarrow> (w1, Inl e) | (w1, Inr output) \<Rightarrow> (w1, ParseBootcStatus (ic_bootc C) output))"

definition rpmOStreeStatus :: "image_codec \<Rightarrow> 'w host_image_manager \<Rightarrow> ('w, rpm_deployment list result) call" where
  "rpmOStreeStatus C m w = (case hm_runner m ''rpm-ostree'' [''status'', ''--json''] w of
     (w1, Inl e) \<Rightarrow> (w1, Inl e) | (w1, Inr output) \<Rightarrow> (w1, ParseRPMOStreeStatus (ic_rpm C) output))"

definition bootc_part :: "image_codec \<Rightarrow> (error \<Rightarrow> string) \<Rightarrow> 'w host_image_manager \<Rightarrow> ('w, host_image_status) call" where
  "bootc_part C message_of m w = (if \<not> hm_bootcAvailable m then (w, zero_status)
     else (case bootcStatus C m w of (w1, Inl e) \<Rightarrow> (w1, zero_status\<lparr>hi_BootcError := message_of e\<rparr>) | (w1, Inr s) \<Rightarrow> (w1, s)))"

definition rpm_part :: "image_codec \<Rightarrow> (error \<Rightarrow> string) \<Rightarrow> 'w host_image_manager \<Rightarrow> ('w, rpm_deployment list \<times> bool \<times> string) call" where
  "rpm_part C message_of m w = (if \<not> hm_rpmOstreeAvailable m then (w, [], False, [])
     else (case rpmOStreeStatus C m w of (w1, Inl e) \<Rightarrow> (w1, [], False, message_of e) | (w1, Inr es) \<Rightarrow> (w1, es, True, [])))"

definition hostImage_Status :: "image_codec \<Rightarrow> (error \<Rightarrow> string) \<Rightarrow> 'w host_image_manager \<Rightarrow> ('w, host_image_status result) call" where
  "hostImage_Status C message_of m w =
     (let (w1, bootc) = bootc_part C message_of m w; (w2, supplement, available, err) = rpm_part C message_of m w1
      in (w2, Inr ((MergeHostImage bootc supplement)\<lparr>hi_RPMOStreeAvailable := available, hi_RPMOStreeError := err\<rparr>)))"

section \<open>bootc is authoritative\<close>

definition filled :: "deployment \<Rightarrow> rpm_deployment \<Rightarrow> deployment" where
  "filled d e = d\<lparr>dp_Version := (if dp_Version d = [] then rd_Version e else dp_Version d),
     dp_Checksum := (if dp_Checksum d = [] then rd_Checksum e else dp_Checksum d)\<rparr>"

text \<open>A slot after merging: as it was, or with the details of the entry at \<open>i\<close>, which is one for this slot and does not
  contradict what bootc says it is.\<close>

definition slot_of ::
  "(deployment \<Rightarrow> rpm_deployment \<Rightarrow> bool) \<Rightarrow> rpm_deployment list \<Rightarrow> nat option \<Rightarrow> deployment option \<Rightarrow> deployment option \<Rightarrow> bool" where
  "slot_of ok es i d d' \<longleftrightarrow> (case i of None \<Rightarrow> d' = d
     | Some k \<Rightarrow> k < length es \<and> (\<exists>x. d = Some x \<and> d' = Some (filled x (es ! k)) \<and> ok x (es ! k) \<and> compareIdentity x (es ! k) \<noteq> IdentityConflict))"

definition pool_ok :: "rpm_deployment list \<Rightarrow> nat set \<Rightarrow> rpm_pool \<Rightarrow> bool" where
  "pool_ok es used p \<longleftrightarrow> pool_entries p = es \<and> length (pool_claimed p) = length es \<and> used \<subseteq> {k. k < length es \<and> pool_claimed p ! k}"

lemma supplement_filled:
  "supplementDeployment d (Some e) = (if compareIdentity d e = IdentityConflict then d else filled d e)"
  by (simp add: supplementDeployment_def filled_def Let_def)

lemma take_from_spec:
  assumes "pool_ok es used p" "set is \<subseteq> {k. k < length es}" "take_from ok is p = (r, p')"
  shows "(case r of None \<Rightarrow> pool_ok es used p'
    | Some e \<Rightarrow> \<exists>k < length es. e = es ! k \<and> ok e \<and> k \<notin> used \<and> pool_ok es (insert k used) p')"
  using assms
proof (induction ok "is" p rule: take_from.induct)
  case (2 ok i "is" p)
  show ?case
  proof (cases "pool_claimed p ! i \<or> \<not> ok (pool_entries p ! i)")
    case True
    then show ?thesis using 2 by simp
  next
    case False
    then have r: "r = Some (es ! i)" "p' = p\<lparr>pool_claimed := (pool_claimed p)[i := True]\<rparr>" "ok (es ! i)" "i < length es" "i \<notin> used"
      using 2 by (auto simp: pool_ok_def)
    have "pool_ok es (insert i used) p'" using 2(2) r by (auto simp: pool_ok_def nth_list_update)
    then show ?thesis using r by auto
  qed
qed simp

lemma supplement_slot_spec:
  assumes "pool_ok es used p" "supplement_slot ok slot p = (slot', p')"
  shows "\<exists>i. slot_of ok es i slot slot' \<and> pool_ok es (set_option i \<union> used) p' \<and> set_option i \<inter> used = {}"
proof (cases slot)
  case None
  then show ?thesis using assms by (intro exI[of _ None]) (auto simp: supplement_slot_def slot_of_def)
next
  case (Some d)
  obtain e where t: "take_from (ok d) [0..<length es] p = (e, p')" and s: "slot' = Some (supplementDeployment d e)"
    using assms Some by (auto simp: supplement_slot_def pool_take_def pool_ok_def split: prod.splits)
  have spec: "case e of None \<Rightarrow> pool_ok es used p' | Some x \<Rightarrow> \<exists>k < length es. x = es ! k \<and> ok d x \<and> k \<notin> used \<and> pool_ok es (insert k used) p'"
    by (rule take_from_spec[OF assms(1) _ t]) auto
  show ?thesis
  proof (cases e)
    case None
    then show ?thesis using spec s Some by (intro exI[of _ None]) (auto simp: slot_of_def supplementDeployment_def)
  next
    case e: (Some x)
    then obtain k where k: "k < length es" "x = es ! k" "ok d x" "k \<notin> used" "pool_ok es (insert k used) p'" using spec by auto
    show ?thesis
    proof (cases "compareIdentity d x = IdentityConflict")
      case True
      then have "slot' = slot" using s e Some by (simp add: supplement_filled)
      moreover have "pool_ok es used p'" using k(5) by (auto simp: pool_ok_def)
      ultimately show ?thesis by (intro exI[of _ None]) (auto simp: slot_of_def)
    next
      case False
      then show ?thesis using s e k Some by (intro exI[of _ "Some k"]) (auto simp: slot_of_def supplement_filled)
    qed
  qed
qed

text \<open>C37. bootc is authoritative. Whatever rpm-ostree reports, the merged report has exactly the slots that bootc reported,
  each with bootc's image and digest, and a slot is as bootc has it or has the missing version and checksum of one
  entry that has the role of the slot and does not contradict its identity; no entry serves two slots.\<close>

theorem merge_authoritative:
  "\<exists>b s r. set_option b \<inter> set_option s = {} \<and> (set_option b \<union> set_option s) \<inter> set_option r = {} \<and>
     slot_of is_booted es b (hi_Booted st) (hi_Booted (MergeHostImage st es)) \<and>
     slot_of is_staged es s (hi_Staged st) (hi_Staged (MergeHostImage st es)) \<and>
     slot_of is_rollback es r (hi_Rollback st) (hi_Rollback (MergeHostImage st es)) \<and>
     map_option (\<lambda>d. (dp_Image d, dp_Digest d)) (hi_Booted (MergeHostImage st es)) = map_option (\<lambda>d. (dp_Image d, dp_Digest d)) (hi_Booted st) \<and>
     map_option (\<lambda>d. (dp_Image d, dp_Digest d)) (hi_Staged (MergeHostImage st es)) = map_option (\<lambda>d. (dp_Image d, dp_Digest d)) (hi_Staged st) \<and>
     map_option (\<lambda>d. (dp_Image d, dp_Digest d)) (hi_Rollback (MergeHostImage st es)) = map_option (\<lambda>d. (dp_Image d, dp_Digest d)) (hi_Rollback st) \<and>
     hi_SoftRebootCapable (MergeHostImage st es) = hi_SoftRebootCapable st \<and> hi_BootcAvailable (MergeHostImage st es) = hi_BootcAvailable st"
proof -
  define p0 where "p0 = \<lparr>pool_claimed = replicate (length es) False, pool_entries = es\<rparr>"
  have ok0: "pool_ok es {} p0" by (simp add: pool_ok_def p0_def)
  obtain b' p1 where 1: "supplement_slot is_booted (hi_Booted st) p0 = (b', p1)" by (cases "supplement_slot is_booted (hi_Booted st) p0")
  obtain b where b: "slot_of is_booted es b (hi_Booted st) b'" "pool_ok es (set_option b) p1" using supplement_slot_spec[OF ok0 1] by auto
  obtain s' p2 where 2: "supplement_slot is_staged (hi_Staged st) p1 = (s', p2)" by (cases "supplement_slot is_staged (hi_Staged st) p1")
  obtain s where s: "slot_of is_staged es s (hi_Staged st) s'" "pool_ok es (set_option s \<union> set_option b) p2" "set_option s \<inter> set_option b = {}"
    using supplement_slot_spec[OF b(2) 2] by auto
  obtain r' p3 where 3: "supplement_slot is_rollback (hi_Rollback st) p2 = (r', p3)" by (cases "supplement_slot is_rollback (hi_Rollback st) p2")
  obtain r where r: "slot_of is_rollback es r (hi_Rollback st) r'" "set_option r \<inter> (set_option s \<union> set_option b) = {}"
    using supplement_slot_spec[OF s(2) 3] by auto
  have m: "hi_Booted (MergeHostImage st es) = b'" "hi_Staged (MergeHostImage st es) = s'" "hi_Rollback (MergeHostImage st es) = r'"
    "hi_SoftRebootCapable (MergeHostImage st es) = hi_SoftRebootCapable st" "hi_BootcAvailable (MergeHostImage st es) = hi_BootcAvailable st"
    using 1 2 3 by (simp_all add: MergeHostImage_def p0_def[symmetric])
  have idents: "map_option (\<lambda>d. (dp_Image d, dp_Digest d)) x' = map_option (\<lambda>d. (dp_Image d, dp_Digest d)) x"
    if "slot_of ok es i x x'" for ok i x x'
    using that by (auto simp: slot_of_def filled_def split: option.splits)
  show ?thesis using b(1) s(1,3) r idents[OF b(1)] idents[OF s(1)] idents[OF r(1)] m by (intro exI[of _ b] exI[of _ s] exI[of _ r]) auto
qed

lemma supplement_slot_presence: "supplement_slot ok slot p = (slot', p') \<Longrightarrow> slot' = None \<longleftrightarrow> slot = None"
  by (auto simp: supplement_slot_def split: option.splits prod.splits)

text \<open>The two sources fail apart: each is asked only where the host has it, and its failure shows in its own pair.\<close>

lemma hostImage_sources:
  assumes "hostImage_Status C message_of m w = (w', Inr st)" "bootc_part C message_of m w = (w1, bootc)" "rpm_part C message_of m w1 = (w2, es, available, err)"
  shows "hi_BootcAvailable st = hi_BootcAvailable bootc" "hi_BootcError st = hi_BootcError bootc" "hi_RPMOStreeAvailable st = available" "hi_RPMOStreeError st = err"
    "hi_Staged st = None \<longleftrightarrow> hi_Staged bootc = None" "hi_SoftRebootCapable st = hi_SoftRebootCapable bootc"
proof -
  have st: "st = (MergeHostImage bootc es)\<lparr>hi_RPMOStreeAvailable := available, hi_RPMOStreeError := err\<rparr>"
    using assms by (simp add: hostImage_Status_def)
  show "hi_BootcAvailable st = hi_BootcAvailable bootc" "hi_BootcError st = hi_BootcError bootc" "hi_RPMOStreeAvailable st = available" "hi_RPMOStreeError st = err"
    "hi_SoftRebootCapable st = hi_SoftRebootCapable bootc"
    by (simp_all add: st MergeHostImage_def split: prod.split)
  show "hi_Staged st = None \<longleftrightarrow> hi_Staged bootc = None"
    by (auto simp: st MergeHostImage_def split: prod.split dest!: supplement_slot_presence)
qed

end
