(* ===== verification/Extensions.thy ===== *)
theory Extensions
  imports Host_Image Comparison_Sort
begin

text \<open>
  System extensions (\<open>internal/modules/sysext/extctl\<close>: \<open>manager.go\<close>, \<open>state.go\<close>, with the types of
  \<open>internal/modules/sysext/state.go\<close>). \<open>updex\<close> and \<open>systemd-sysext\<close> are run by the runner, whose output is read only
  without an error; \<open>encoding/json\<close> is the record \<open>ext_codec\<close>, and \<open>filepath.Glob\<close> and \<open>filepath.EvalSymlinks\<close>, which read
  the file system, are functions of the manager's record.
\<close>

section \<open>Data\<close>

record available_update =
  av_Extension :: string
  av_Component :: string
  av_Current :: string
  av_Newest :: string

record extension =
  ext_Description :: string
  ext_Enabled :: bool
  ext_Installed :: bool
  ext_Managed :: bool
  ext_Merged :: bool
  ext_Name :: string
  ext_Path :: string
  ext_Updates :: "available_update list"
  ext_Version :: string

definition zero_extension :: extension where
  "zero_extension = \<lparr>ext_Description = [], ext_Enabled = False, ext_Installed = False, ext_Managed = False, ext_Merged = False,
     ext_Name = [], ext_Path = [], ext_Updates = [], ext_Version = []\<rparr>"

record extensions_state =
  es_Extensions :: "extension list"
  es_SysextAvailable :: bool
  es_SysextError :: string
  es_UpdexAvailable :: bool
  es_UpdexError :: string

record managed_extension =
  me_Definition :: string
  me_Description :: string
  me_Enabled :: bool
  me_Installed :: bool
  me_Merged :: bool
  me_Name :: string
  me_Path :: string
  me_Version :: string

record updex_feature =
  uf_Description :: string
  uf_Enabled :: bool
  uf_Name :: string
  uf_Source :: string

record updex_result =
  ur_Component :: string
  ur_CurrentVersion :: string
  ur_NewestVersion :: string
  ur_UpdateAvailable :: bool

record updex_check =
  uc_Feature :: string
  uc_Results :: "updex_result list"

record installed_extension =
  inst_Name :: string
  inst_Path :: string

record merge_status =
  ms_Extensions :: string
  ms_Hierarchy :: string

text \<open>The values that a \<open>json.Decoder\<close> delivers from a text one after the other, and how they end: with the text, before a
  closing bracket, or with an error.\<close>

datatype stream_end = StreamEOF | StreamClose error | StreamBad error

record ext_codec =
  ec_items :: "string \<Rightarrow> string list \<times> stream_end"
  ec_features :: "string \<Rightarrow> updex_feature list result"
  ec_checks :: "string \<Rightarrow> updex_check list result"
  ec_installed :: "string \<Rightarrow> installed_extension list result"
  ec_statuses :: "string \<Rightarrow> merge_status list result"
  ec_names :: "string \<Rightarrow> string list result"

record 'w ext_manager =
  xm_definitionsRoot :: string
  xm_runner :: "'w runner"
  xm_updex :: string
  xm_Glob :: "string \<Rightarrow> 'w \<Rightarrow> string list result"
  xm_EvalSymlinks :: "string \<Rightarrow> 'w \<Rightarrow> string result"

definition NewExtManager ::
  "(string \<Rightarrow> 'w \<Rightarrow> string list result) \<Rightarrow> (string \<Rightarrow> 'w \<Rightarrow> string result) \<Rightarrow> 'w runner \<Rightarrow> string \<Rightarrow> string \<Rightarrow> 'w ext_manager" where
  "NewExtManager glob links run root updex = \<lparr>xm_definitionsRoot = root, xm_runner = run,
     xm_updex = (if updex = [] then ''updex'' else updex), xm_Glob = glob, xm_EvalSymlinks = links\<rparr>"

text \<open>The runner of the daemon, over the combined output of a command.\<close>

definition file_base :: "string \<Rightarrow> string" where
  "file_base p = (if p = [] then ''.'' else
     let b = rev (takeWhile (\<lambda>c. c \<noteq> slash) (dropWhile (\<lambda>c. c = slash) (rev p))) in if b = [] then ''/'' else b)"

definition exec_Run :: "(error \<Rightarrow> string) \<Rightarrow> (string \<Rightarrow> string list \<Rightarrow> ('w, string \<times> error option) call) \<Rightarrow> 'w runner" where
  "exec_Run message_of combined name args w = (case combined name args w of
     (w1, output, None) \<Rightarrow> (w1, Inr output)
   | (w1, output, Some e) \<Rightarrow> (w1, Inl (Errorf ''%s: %s'' [file_base name,
       if trim_space output = [] then message_of e else trim_space output])))"

section \<open>Parsing\<close>

definition updates_of :: "updex_check list \<Rightarrow> available_update list" where
  "updates_of checks = concat (map (\<lambda>c. map (\<lambda>r. \<lparr>av_Extension = uc_Feature c, av_Component = ur_Component r,
     av_Current = ur_CurrentVersion r, av_Newest = ur_NewestVersion r\<rparr>) (filter ur_UpdateAvailable (uc_Results c))) checks)"

fun find_features :: "ext_codec \<Rightarrow> string list \<Rightarrow> stream_end \<Rightarrow> updex_feature list result" where
  "find_features J [] (StreamBad e) = Inl e"
| "find_features J [] _ = Inl (Errorf ''feature array missing from updex output'' [])"
| "find_features J (raw # rest) fin = (let trimmed = trim_space raw in
     if trimmed \<noteq> [] \<and> hd trimmed = CHR ''['' then ec_features J trimmed else find_features J rest fin)"

definition parseUpdexFeatures :: "ext_codec \<Rightarrow> string \<Rightarrow> updex_feature list result" where
  "parseUpdexFeatures J output = (case ec_items J output of (items, fin) \<Rightarrow> find_features J items fin)"

fun find_checks :: "ext_codec \<Rightarrow> string list \<Rightarrow> stream_end \<Rightarrow> available_update list result" where
  "find_checks J [] StreamEOF = Inl (Errorf ''update check array missing from updex output'' [])"
| "find_checks J [] (StreamClose e) = Inl e"
| "find_checks J [] (StreamBad e) = Inl e"
| "find_checks J (raw # rest) fin = (let trimmed = trim_space raw in
     if trimmed = ''null'' then Inr []
     else if trimmed = [] \<or> hd trimmed \<noteq> CHR ''['' then find_checks J rest fin
     else map_sum id updates_of (ec_checks J trimmed))"

definition parseUpdexCheck :: "ext_codec \<Rightarrow> string \<Rightarrow> available_update list result" where
  "parseUpdexCheck J output = (case ec_items J output of (items, fin) \<Rightarrow> find_checks J items fin)"

definition without_suffix :: "string \<Rightarrow> string \<Rightarrow> string" where
  "without_suffix suf s = (if suffix suf s then take (length s - length suf) s else s)"

definition extensionVersion :: "(string \<Rightarrow> string result) \<Rightarrow> string \<Rightarrow> string \<Rightarrow> string" where
  "extensionVersion links name path =
     (let base = file_base (case links path of Inl _ \<Rightarrow> path | Inr target \<Rightarrow> target) in
      if \<not> prefix (name @ ''_'') base then ''installed''
      else let v = fold without_suffix [''.raw.zst'', ''.raw.xz'', ''.raw.gz'', ''.raw''] (drop (length name + 1) base);
               parts = split_on (CHR ''_'') v;
               kept = join_with ''_'' (if length parts > 2 then take (length parts - 2) parts else parts)
           in if kept = [] then ''installed'' else kept)"

section \<open>Directories and commands\<close>

fun matching_dirs :: "(string \<Rightarrow> string list result) \<Rightarrow> string list \<Rightarrow> string list \<Rightarrow> string list result" where
  "matching_dirs glob [] dirs = Inr dirs"
| "matching_dirs glob (d # ds) dirs = (case glob (path_join d ''*.feature'') of
     Inl e \<Rightarrow> Inl (Wrapf ''discover feature definitions: %w'' [] e)
   | Inr files \<Rightarrow> matching_dirs glob ds (if files \<noteq> [] \<and> d \<notin> set dirs then dirs @ [d] else dirs))"

fun pattern_dirs :: "(string \<Rightarrow> string list result) \<Rightarrow> string list \<Rightarrow> string list \<Rightarrow> string list result" where
  "pattern_dirs glob [] dirs = Inr dirs"
| "pattern_dirs glob (p # ps) dirs = (case glob p of
     Inl e \<Rightarrow> Inl (Wrapf ''discover sysupdate definitions: %w'' [] e)
   | Inr ms \<Rightarrow> (case matching_dirs glob ms dirs of Inl e \<Rightarrow> Inl e | Inr dirs1 \<Rightarrow> pattern_dirs glob ps dirs1))"

definition definitionDirectories :: "'w ext_manager \<Rightarrow> 'w \<Rightarrow> string list result" where
  "definitionDirectories m w =
     (if xm_definitionsRoot m = [] then Inr [[]]
      else map_sum id sort (pattern_dirs (\<lambda>p. xm_Glob m p w)
        [path_join (xm_definitionsRoot m) ''sysupdate.d'', path_join (xm_definitionsRoot m) ''sysupdate.*.d''] []))"

definition updexArgs :: "string \<Rightarrow> string list \<Rightarrow> string list" where
  "updexArgs directory args = (if directory = [] then args else [''-C'', directory] @ args)"

definition definitionScope :: "string \<Rightarrow> string" where
  "definitionScope directory = (if directory = [] then ''standard search paths'' else directory)"

text \<open>Running updex once per directory, with an early end at the first failure; \<open>parse\<close> reads an output.\<close>

fun per_directory :: "'w ext_manager \<Rightarrow> string list \<Rightarrow> (string \<Rightarrow> string \<Rightarrow> 'a result) \<Rightarrow> ('a \<Rightarrow> string \<Rightarrow> 'b \<Rightarrow> 'b) \<Rightarrow> string list \<Rightarrow> 'b \<Rightarrow> ('w, 'b result) call" where
  "per_directory m args parse add [] acc w = (w, Inr acc)"
| "per_directory m args parse add (d # ds) acc w = (case xm_runner m (xm_updex m) (updexArgs d args) w of
     (w1, Inl e) \<Rightarrow> (w1, Inl e)
   | (w1, Inr output) \<Rightarrow> (case parse d output of
       Inl e \<Rightarrow> (w1, Inl e) | Inr x \<Rightarrow> per_directory m args parse add ds (add x d acc) w1))"

definition parse_list :: "ext_codec \<Rightarrow> string \<Rightarrow> string \<Rightarrow> updex_feature list result" where
  "parse_list J d output = (case parseUpdexFeatures J output of
     Inl e \<Rightarrow> Inl (Wrapf ''parse features in %s: %w'' [definitionScope d] e) | Inr fs \<Rightarrow> Inr fs)"

definition parse_check :: "ext_codec \<Rightarrow> string \<Rightarrow> string \<Rightarrow> available_update list result" where
  "parse_check J d output = (case parseUpdexCheck J output of
     Inl e \<Rightarrow> Inl (Wrapf ''parse update check in %s: %w'' [definitionScope d] e) | Inr us \<Rightarrow> Inr us)"

definition by_update :: "available_update \<Rightarrow> available_update \<Rightarrow> int" where
  "by_update a b = (if string_Compare (av_Extension a) (av_Extension b) \<noteq> 0 then string_Compare (av_Extension a) (av_Extension b)
     else string_Compare (av_Component a) (av_Component b))"

definition ext_Check :: "ext_codec \<Rightarrow> 'w ext_manager \<Rightarrow> ('w, available_update list result) call" where
  "ext_Check J m w = (case definitionDirectories m w of
     Inl e \<Rightarrow> (w, Inl e)
   | Inr dirs \<Rightarrow> apsnd (map_sum id (sort_by by_update))
       (per_directory m [''--json'', ''features'', ''check''] (parse_check J) (\<lambda>us d acc. acc @ us) dirs [] w))"

definition ext_installed :: "ext_codec \<Rightarrow> 'w ext_manager \<Rightarrow> ('w, (string, installed_extension) gomap result) call" where
  "ext_installed J m w = (case xm_runner m ''systemd-sysext'' [''list'', ''--json=short'', ''--no-pager''] w of
     (w1, Inl e) \<Rightarrow> (w1, Inl e)
   | (w1, Inr output) \<Rightarrow> (w1, case ec_installed J output of
       Inl e \<Rightarrow> Inl (Wrapf ''parse systemd-sysext list: %w'' [] e)
     | Inr xs \<Rightarrow> Inr (fold (\<lambda>x. AList.update (inst_Name x) x) xs [])))"

definition merged_names :: "ext_codec \<Rightarrow> merge_status \<Rightarrow> string list" where
  "merged_names J s = (case ec_names J (ms_Extensions s) of Inl _ \<Rightarrow> [] | Inr names \<Rightarrow> names)"

definition ext_merged :: "ext_codec \<Rightarrow> 'w ext_manager \<Rightarrow> ('w, (string, bool) gomap result) call" where
  "ext_merged J m w = (case xm_runner m ''systemd-sysext'' [''status'', ''--json=short'', ''--no-pager''] w of
     (w1, Inl e) \<Rightarrow> (w1, Inl e)
   | (w1, Inr output) \<Rightarrow> (w1, case ec_statuses J output of
       Inl e \<Rightarrow> Inl (Wrapf ''parse systemd-sysext status: %w'' [] e)
     | Inr statuses \<Rightarrow> Inr (fold (\<lambda>n. AList.update n True) (concat (map (merged_names J) statuses)) [])))"

section \<open>Operations\<close>

definition managed_of :: "updex_feature list \<Rightarrow> string \<Rightarrow> (string, managed_extension) gomap \<Rightarrow> (string, managed_extension) gomap" where
  "managed_of fs d acc = fold (\<lambda>f. AList.update (uf_Name f) \<lparr>me_Definition = d, me_Description = uf_Description f, me_Enabled = uf_Enabled f,
     me_Installed = False, me_Merged = False, me_Name = uf_Name f, me_Path = [], me_Version = []\<rparr>) fs acc"

definition enriched :: "(string \<Rightarrow> string result) \<Rightarrow> (string, installed_extension) gomap \<Rightarrow> (string, bool) gomap \<Rightarrow> string \<times> managed_extension \<Rightarrow> managed_extension" where
  "enriched links installed merged = (\<lambda>(name, x).
     (case map_of installed name of None \<Rightarrow> x
      | Some i \<Rightarrow> x\<lparr>me_Installed := True, me_Path := inst_Path i, me_Version := extensionVersion links name (inst_Path i)\<rparr>)
     \<lparr>me_Merged := (map_of merged name = Some True)\<rparr>)"

definition ext_list :: "ext_codec \<Rightarrow> 'w ext_manager \<Rightarrow> ('w, managed_extension list result) call" where
  "ext_list J m w = (case definitionDirectories m w of
     Inl e \<Rightarrow> (w, Inl e)
   | Inr dirs \<Rightarrow> (case per_directory m [''--json'', ''features'', ''list''] (parse_list J) managed_of dirs [] w of
       (w1, Inl e) \<Rightarrow> (w1, Inl e)
     | (w1, Inr byName) \<Rightarrow> (case ext_installed J m w1 of
         (w2, Inl e) \<Rightarrow> (w2, Inl e)
       | (w2, Inr installed) \<Rightarrow> (case ext_merged J m w2 of
           (w3, Inl e) \<Rightarrow> (w3, Inl e)
         | (w3, Inr merged) \<Rightarrow>
             (w3, Inr (sort_by (by_string me_Name) (map (enriched (\<lambda>p. xm_EvalSymlinks m p w3) installed merged) byName)))))))"

definition managedExtensionFor :: "ext_codec \<Rightarrow> 'w ext_manager \<Rightarrow> string \<Rightarrow> ('w, managed_extension result) call" where
  "managedExtensionFor J m name w = (case ext_list J m w of
     (w1, Inl e) \<Rightarrow> (w1, Inl e)
   | (w1, Inr xs) \<Rightarrow> (w1, case List.find (\<lambda>x. me_Name x = name) xs of
       Some x \<Rightarrow> Inr x | None \<Rightarrow> Inl (Errorf ''unknown extension %q'' [name])))"

definition run_updex :: "'w ext_manager \<Rightarrow> string list \<Rightarrow> ('w, error option) call" where
  "run_updex m args w = (case xm_runner m (xm_updex m) args w of (w1, Inl e) \<Rightarrow> (w1, Some e) | (w1, Inr _) \<Rightarrow> (w1, None))"

definition ext_Disable :: "ext_codec \<Rightarrow> 'w ext_manager \<Rightarrow> string \<Rightarrow> ('w, error option) call" where
  "ext_Disable J m name w = (case managedExtensionFor J m name w of
     (w1, Inl e) \<Rightarrow> (w1, Some e)
   | (w1, Inr x) \<Rightarrow> run_updex m (updexArgs (me_Definition x) [''--json'', ''features'', ''disable'', name, ''--now''] @
       (if me_Merged x then [''--force''] else [])) w1)"

definition ext_Enable :: "ext_codec \<Rightarrow> 'w ext_manager \<Rightarrow> string \<Rightarrow> ('w, error option) call" where
  "ext_Enable J m name w = (case managedExtensionFor J m name w of
     (w1, Inl e) \<Rightarrow> (w1, Some e)
   | (w1, Inr x) \<Rightarrow> run_updex m (updexArgs (me_Definition x) [''--json'', ''features'', ''enable'', name, ''--now'']) w1)"

definition ext_Refresh :: "'w ext_manager \<Rightarrow> ('w, error option) call" where
  "ext_Refresh m w = (case xm_runner m ''systemd-sysext'' [''refresh'', ''--no-pager''] w of (w1, Inl e) \<Rightarrow> (w1, Some e) | (w1, Inr _) \<Rightarrow> (w1, None))"

fun update_dirs :: "'w ext_manager \<Rightarrow> string list \<Rightarrow> ('w, error option) call" where
  "update_dirs m [] w = (w, None)"
| "update_dirs m (d # ds) w = (case run_updex m (updexArgs d [''--json'', ''features'', ''update'']) w of
     (w1, Some e) \<Rightarrow> (w1, Some e) | (w1, None) \<Rightarrow> update_dirs m ds w1)"

definition ext_Update :: "'w ext_manager \<Rightarrow> ('w, error option) call" where
  "ext_Update m w = (case definitionDirectories m w of Inl e \<Rightarrow> (w, Some e) | Inr dirs \<Rightarrow> update_dirs m dirs w)"

section \<open>The inventory\<close>

definition add_managed :: "updex_feature list \<Rightarrow> string \<Rightarrow> (string, extension) gomap \<Rightarrow> (string, extension) gomap" where
  "add_managed fs d acc = fold (\<lambda>f. AList.update (uf_Name f) (zero_extension\<lparr>ext_Description := uf_Description f,
     ext_Enabled := uf_Enabled f, ext_Managed := True, ext_Name := uf_Name f\<rparr>)) fs acc"

definition updates_for :: "(string, extension) gomap \<Rightarrow> available_update list \<Rightarrow> string \<Rightarrow> available_update list" where
  "updates_for managed available name = (if map_of managed name = None then [] else filter (\<lambda>u. av_Extension u = name) available)"

definition updexInventory :: "ext_codec \<Rightarrow> 'w ext_manager \<Rightarrow> ('w, ((string, extension) gomap \<times> (string \<Rightarrow> available_update list)) result) call" where
  "updexInventory J m w = (case definitionDirectories m w of
     Inl e \<Rightarrow> (w, Inl e)
   | Inr dirs \<Rightarrow> (case per_directory m [''--json'', ''features'', ''list''] (parse_list J) add_managed dirs [] w of
       (w1, Inl e) \<Rightarrow> (w1, Inl e)
     | (w1, Inr managed) \<Rightarrow> (case ext_Check J m w1 of
         (w2, Inl e) \<Rightarrow> (w2, Inl e)
       | (w2, Inr available) \<Rightarrow> (w2, Inr (managed, updates_for managed available)))))"

definition sysextInventory :: "ext_codec \<Rightarrow> 'w ext_manager \<Rightarrow> ('w, ((string, installed_extension) gomap \<times> (string, bool) gomap) result) call" where
  "sysextInventory J m w = (case ext_installed J m w of
     (w1, Inl e) \<Rightarrow> (w1, Inl e)
   | (w1, Inr installed) \<Rightarrow> (case ext_merged J m w1 of
       (w2, Inl e) \<Rightarrow> (w2, Inl e) | (w2, Inr merged) \<Rightarrow> (w2, Inr (installed, merged))))"

definition entry_at :: "(string, extension) gomap \<Rightarrow> string \<Rightarrow> extension" where
  "entry_at acc name = (case map_of acc name of Some x \<Rightarrow> x | None \<Rightarrow> zero_extension)"

definition put_managed :: "(string \<Rightarrow> available_update list) \<Rightarrow> string \<times> extension \<Rightarrow> (string, extension) gomap \<Rightarrow> (string, extension) gomap" where
  "put_managed updates = (\<lambda>(name, x) acc. AList.update name (x\<lparr>ext_Updates := updates name\<rparr>) acc)"

definition put_installed :: "(string \<Rightarrow> string result) \<Rightarrow> string \<times> installed_extension \<Rightarrow> (string, extension) gomap \<Rightarrow> (string, extension) gomap" where
  "put_installed links = (\<lambda>(name, i) acc. AList.update name ((entry_at acc name)\<lparr>ext_Name := name, ext_Installed := True,
     ext_Path := inst_Path i, ext_Version := extensionVersion links name (inst_Path i)\<rparr>) acc)"

definition put_merged :: "string \<times> bool \<Rightarrow> (string, extension) gomap \<Rightarrow> (string, extension) gomap" where
  "put_merged = (\<lambda>(name, isMerged) acc. if \<not> isMerged then acc
     else AList.update name ((entry_at acc name)\<lparr>ext_Name := name, ext_Merged := True\<rparr>) acc)"

text \<open>The two parts of the report: what a source contributes, whether it answered, and its error.\<close>

definition updex_part ::
  "ext_codec \<Rightarrow> (error \<Rightarrow> string) \<Rightarrow> 'w ext_manager \<Rightarrow> bool \<Rightarrow> ('w, (string, extension) gomap \<times> (string \<Rightarrow> available_update list) \<times> bool \<times> string) call" where
  "updex_part J message_of m attempted w = (if \<not> attempted then (w, [], \<lambda>_. [], False, [])
     else (case updexInventory J m w of
       (w1, Inl e) \<Rightarrow> (w1, [], \<lambda>_. [], False, message_of e) | (w1, Inr (managed, updates)) \<Rightarrow> (w1, managed, updates, True, [])))"

definition sysext_part ::
  "ext_codec \<Rightarrow> (error \<Rightarrow> string) \<Rightarrow> 'w ext_manager \<Rightarrow> bool \<Rightarrow> ('w, (string, installed_extension) gomap \<times> (string, bool) gomap \<times> bool \<times> string) call" where
  "sysext_part J message_of m attempted w = (if \<not> attempted then (w, [], [], False, [])
     else (case sysextInventory J m w of
       (w1, Inl e) \<Rightarrow> (w1, [], [], False, message_of e) | (w1, Inr (installed, merged)) \<Rightarrow> (w1, installed, merged, True, [])))"

definition ext_State :: "ext_codec \<Rightarrow> (error \<Rightarrow> string) \<Rightarrow> 'w ext_manager \<Rightarrow> bool \<Rightarrow> bool \<Rightarrow> ('w, extensions_state result) call" where
  "ext_State J message_of m updexAvailable sysextAvailable w =
     (let (w1, managed, updates, ua, ue) = updex_part J message_of m updexAvailable w;
          (w2, installed, merged, sa, se) = sysext_part J message_of m sysextAvailable w1;
          acc1 = fold (put_managed updates) managed [];
          acc2 = fold (put_installed (\<lambda>p. xm_EvalSymlinks m p w2)) installed acc1;
          acc3 = fold put_merged merged acc2
      in (w2, Inr \<lparr>es_Extensions = sort_by (by_string ext_Name) (map snd acc3), es_SysextAvailable = sa, es_SysextError = se,
            es_UpdexAvailable = ua, es_UpdexError = ue\<rparr>))"

section \<open>The inventory is a union\<close>

text \<open>Folding a step that changes a map only at its own key.\<close>

lemma map_of_fold_at:
  assumes "\<And>k v acc n. map_of (f (k, v) acc) n = (if n = k then g k v (map_of acc k) else map_of acc n)" "wf_map xs"
  shows "map_of (fold f xs acc) n = (case map_of xs n of None \<Rightarrow> map_of acc n | Some v \<Rightarrow> g n v (map_of acc n))"
  using assms(2)
proof (induction xs arbitrary: acc)
  case (Cons kv xs)
  obtain k v where kv: "kv = (k, v)" by (cases kv)
  have "map_of xs k = None" using Cons.prems kv by (simp add: map_of_eq_None_iff)
  then show ?case using Cons.IH[of "f kv acc"] Cons.prems kv assms(1) by (auto split: option.split)
qed simp

lemma wf_map_fold:
  assumes "\<And>x acc. wf_map acc \<Longrightarrow> wf_map (f x acc)" "wf_map acc"
  shows "wf_map (fold f xs acc)"
  using assms(2) by (induction xs arbitrary: acc) (simp_all add: assms(1))

lemma per_directory_keeps:
  assumes "per_directory m args parse add ds acc w = (w', Inr r)" "P acc" "\<And>x d acc. P acc \<Longrightarrow> P (add x d acc)"
  shows "P r"
  using assms
proof (induction m args parse add ds acc w rule: per_directory.induct)
  case (2 m args parse add d ds acc w)
  then show ?case by (auto split: prod.splits sum.splits)
qed simp

text \<open>What updex enumerates: under its own name, managed, and with nothing that only systemd-sysext knows.\<close>

definition from_updex :: "(string, extension) gomap \<Rightarrow> bool" where
  "from_updex managed \<longleftrightarrow> wf_map managed \<and> (\<forall>n x. map_of managed n = Some x \<longrightarrow> (\<exists>d b. x = zero_extension\<lparr>ext_Description := d,
     ext_Enabled := b, ext_Managed := True, ext_Name := n\<rparr>))"

lemma from_updex_update:
  assumes "from_updex acc"
  shows "from_updex (AList.update n (zero_extension\<lparr>ext_Description := d, ext_Enabled := b, ext_Managed := True, ext_Name := n\<rparr>) acc)"
  using assms unfolding from_updex_def by (auto simp del: extension.simps split: if_splits)

lemma from_updex_add: "from_updex acc \<Longrightarrow> from_updex (add_managed fs d acc)"
  unfolding add_managed_def by (induction fs arbitrary: acc) (simp_all only: fold.simps id_apply o_apply from_updex_update)

lemma updexInventory_ok:
  assumes "updexInventory J m w = (w', Inr (managed, updates))"
  shows "from_updex managed \<and> (\<exists>available. updates = updates_for managed available)"
proof -
  obtain dirs w1 available where dirs: "per_directory m [''--json'', ''features'', ''list''] (parse_list J) add_managed dirs [] w = (w1, Inr managed)"
    and u: "updates = updates_for managed available"
    using assms by (auto simp: updexInventory_def split: sum.splits prod.splits)
  have "from_updex managed" by (rule per_directory_keeps[OF dirs]) (simp_all add: from_updex_add, simp add: from_updex_def)
  then show ?thesis using u by blast
qed

lemma no_updates: "\<exists>available. (\<lambda>_. []) = updates_for managed available"
  by (rule exI[of _ "[]"]) (simp add: fun_eq_iff updates_for_def)

lemma updex_part_ok:
  assumes "updex_part J message_of m b w = (w', managed, updates, ua, ue)"
  shows "from_updex managed" "\<exists>available. updates = updates_for managed available"
proof -
  have "from_updex managed \<and> (\<exists>available. updates = updates_for managed available)"
    using assms updexInventory_ok[of J m w w' managed updates] no_updates
    by (auto simp: updex_part_def from_updex_def split: if_splits prod.splits sum.splits)
  then show "from_updex managed" "\<exists>available. updates = updates_for managed available" by simp_all
qed

lemma ext_installed_wf: "ext_installed J m w = (w', Inr xs) \<Longrightarrow> wf_map xs"
  by (auto simp: ext_installed_def intro!: wf_map_fold split: prod.splits sum.splits)

lemma ext_merged_wf: "ext_merged J m w = (w', Inr xs) \<Longrightarrow> wf_map xs"
  by (auto simp: ext_merged_def intro!: wf_map_fold split: prod.splits sum.splits)

lemma sysext_part_wf:
  assumes "sysext_part J message_of m b w = (w', installed, merged, sa, se)"
  shows "wf_map installed" "wf_map merged"
proof -
  have "wf_map installed \<and> wf_map merged"
    using assms by (auto simp: sysext_part_def sysextInventory_def split: if_splits prod.splits sum.splits dest: ext_installed_wf ext_merged_wf)
  then show "wf_map installed" "wf_map merged" by simp_all
qed

text \<open>What the inventory says of a name, by the lookups in what the two sources gave.\<close>

definition reported_extension ::
  "(string \<Rightarrow> string result) \<Rightarrow> (string \<rightharpoonup> extension) \<Rightarrow> (string \<Rightarrow> available_update list) \<Rightarrow> (string \<rightharpoonup> installed_extension) \<Rightarrow> (string \<rightharpoonup> bool) \<Rightarrow> string \<Rightarrow> extension" where
  "reported_extension links managed updates installed merged n =
     \<lparr>ext_Description = (case managed n of Some x \<Rightarrow> ext_Description x | None \<Rightarrow> []),
      ext_Enabled = (case managed n of Some x \<Rightarrow> ext_Enabled x | None \<Rightarrow> False),
      ext_Installed = (installed n \<noteq> None), ext_Managed = (managed n \<noteq> None), ext_Merged = (merged n = Some True), ext_Name = n,
      ext_Path = (case installed n of Some i \<Rightarrow> inst_Path i | None \<Rightarrow> []), ext_Updates = (if managed n = None then [] else updates n),
      ext_Version = (case installed n of Some i \<Rightarrow> extensionVersion links n (inst_Path i) | None \<Rightarrow> [])\<rparr>"

lemma put_managed_at:
  "map_of (put_managed updates (k, x) acc) n = (if n = k then Some (x\<lparr>ext_Updates := updates k\<rparr>) else map_of acc n)"
  by (simp add: put_managed_def)

lemma put_installed_at:
  "map_of (put_installed links (k, i) acc) n = (if n = k then Some ((case map_of acc k of Some x \<Rightarrow> x | None \<Rightarrow> zero_extension)\<lparr>ext_Name := k,
     ext_Installed := True, ext_Path := inst_Path i, ext_Version := extensionVersion links k (inst_Path i)\<rparr>) else map_of acc n)"
  by (simp add: put_installed_def entry_at_def)

lemma put_merged_at:
  "map_of (put_merged (k, b) acc) n = (if n = k then (if b then Some ((case map_of acc k of Some x \<Rightarrow> x | None \<Rightarrow> zero_extension)\<lparr>ext_Name := k,
     ext_Merged := True\<rparr>) else map_of acc k) else map_of acc n)"
  by (simp add: put_merged_def entry_at_def)

definition union_map ::
  "(string \<Rightarrow> string result) \<Rightarrow> (string, extension) gomap \<Rightarrow> (string \<Rightarrow> available_update list) \<Rightarrow> (string, installed_extension) gomap \<Rightarrow> (string, bool) gomap \<Rightarrow> (string, extension) gomap" where
  "union_map links managed updates installed merged =
     fold put_merged merged (fold (put_installed links) installed (fold (put_managed updates) managed []))"

lemma union_map_wf: "wf_map (union_map links managed updates installed merged)"
  unfolding union_map_def
  by (intro wf_map_fold) (auto simp: put_merged_def put_installed_def put_managed_def split: prod.splits)

lemma union_map_lookup:
  assumes "from_updex managed" "wf_map installed" "wf_map merged"
  shows "map_of (union_map links managed updates installed merged) n =
    (if map_of managed n = None \<and> map_of installed n = None \<and> map_of merged n \<noteq> Some True then None
     else Some (reported_extension links (map_of managed) updates (map_of installed) (map_of merged) n))"
proof -
  have wf: "wf_map managed" using assms(1) by (simp add: from_updex_def)
  have m: "map_of (fold (put_managed updates) managed []) n = map_option (\<lambda>x. x\<lparr>ext_Updates := updates n\<rparr>) (map_of managed n)"
    by (subst map_of_fold_at[OF put_managed_at wf]) (simp split: option.split)
  note i = map_of_fold_at[OF put_installed_at[of links] assms(2)]
  note u = map_of_fold_at[OF put_merged_at assms(3)]
  show ?thesis
  proof (cases "map_of managed n")
    case None
    then show ?thesis
      by (cases "map_of installed n"; cases "map_of merged n = Some True"; cases "map_of merged n")
         (simp_all add: union_map_def u i m reported_extension_def zero_extension_def)
  next
    case (Some x)
    then obtain d b where "x = zero_extension\<lparr>ext_Description := d, ext_Enabled := b, ext_Managed := True, ext_Name := n\<rparr>"
      using assms(1) unfolding from_updex_def by blast
    then show ?thesis using Some
      by (cases "map_of installed n"; cases "map_of merged n = Some True"; cases "map_of merged n")
         (simp_all add: union_map_def u i m reported_extension_def zero_extension_def)
  qed
qed

definition known_names :: "(string, extension) gomap \<Rightarrow> (string, installed_extension) gomap \<Rightarrow> (string, bool) gomap \<Rightarrow> string set" where
  "known_names managed installed merged = dom (map_of managed) \<union> dom (map_of installed) \<union> {n. map_of merged n = Some True}"

lemma wf_map_values: "wf_map m \<Longrightarrow> snd ` set m = {x. \<exists>n. map_of m n = Some x}"
  by (force simp: map_of_eq_Some_iff)

lemma union_map_values:
  assumes "from_updex managed" "wf_map installed" "wf_map merged"
  shows "snd ` set (union_map links managed updates installed merged) =
      reported_extension links (map_of managed) updates (map_of installed) (map_of merged) ` known_names managed installed merged"
    "map ext_Name (map snd (union_map links managed updates installed merged)) = map fst (union_map links managed updates installed merged)"
proof -
  let ?m = "union_map links managed updates installed merged"
  show "snd ` set ?m = reported_extension links (map_of managed) updates (map_of installed) (map_of merged) ` known_names managed installed merged"
    by (auto simp: wf_map_values[OF union_map_wf] union_map_lookup[OF assms] known_names_def image_iff domIff split: if_splits)
  have "ext_Name x = n" if "(n, x) \<in> set ?m" for n x
    using map_of_is_SomeI[OF union_map_wf that] by (auto simp: union_map_lookup[OF assms] reported_extension_def split: if_splits)
  then show "map ext_Name (map snd ?m) = map fst ?m" by auto
qed

lemma sorted_by_name: "sorted (map f (sort_by (by_string f) xs))"
proof -
  have "sorted_wrt (\<lambda>a b. f a \<le> f b) (sort_by (by_string f) xs)"
    by (rule sorted_wrt_mono_rel[OF _ string_order.sort_by_in_order]) (auto simp: by_string_def string_Compare_def split: if_splits)
  then show ?thesis by (simp add: sorted_map)
qed

lemma distinct_by_name: "distinct (map f xs) \<Longrightarrow> distinct (map f (sort_by (by_string f) xs))"
  by (metis mset_eq_imp_distinct_iff mset_map string_order.mset_sort_by)

lemma ext_State_union:
  "case ext_State J message_of m u s w of (w2, Inl _) \<Rightarrow> False
   | (w2, Inr st) \<Rightarrow> (\<exists>w1 managed updates installed merged.
       updex_part J message_of m u w = (w1, managed, updates, es_UpdexAvailable st, es_UpdexError st) \<and>
       sysext_part J message_of m s w1 = (w2, installed, merged, es_SysextAvailable st, es_SysextError st) \<and>
       set (es_Extensions st) = reported_extension (\<lambda>p. xm_EvalSymlinks m p w2) (map_of managed) updates (map_of installed) (map_of merged) `
         known_names managed installed merged \<and>
       sorted (map ext_Name (es_Extensions st)) \<and> distinct (map ext_Name (es_Extensions st)))"
proof -
  obtain w1 managed updates ua ue where u: "updex_part J message_of m u w = (w1, managed, updates, ua, ue)" by (metis prod_cases5)
  obtain w2 installed merged sa se where s: "sysext_part J message_of m s w1 = (w2, installed, merged, sa, se)" by (metis prod_cases5)
  define acc where "acc = union_map (\<lambda>p. xm_EvalSymlinks m p w2) managed updates installed merged"
  have st: "ext_State J message_of m u s w = (w2, Inr \<lparr>es_Extensions = sort_by (by_string ext_Name) (map snd acc), es_SysextAvailable = sa,
      es_SysextError = se, es_UpdexAvailable = ua, es_UpdexError = ue\<rparr>)"
    using u s by (simp add: ext_State_def acc_def union_map_def)
  note vals = union_map_values[OF updex_part_ok(1)[OF u] sysext_part_wf[OF s], of "\<lambda>p. xm_EvalSymlinks m p w2" updates, folded acc_def]
  have "distinct (map ext_Name (map snd acc))" using vals(2) union_map_wf by (metis acc_def)
  then show ?thesis using u s vals(1) by (simp add: st sorted_by_name distinct_by_name)
qed

section \<open>The tools by themselves\<close>

text \<open>What the tools answer, read without the bookkeeping of the inventory: the features of all directories in order with the
  pending updates, and the installed images with the names that are merged.\<close>

fun listed_features :: "ext_codec \<Rightarrow> 'w ext_manager \<Rightarrow> string list \<Rightarrow> ('w, updex_feature list result) call" where
  "listed_features J m [] w = (w, Inr [])"
| "listed_features J m (d # ds) w = (case xm_runner m (xm_updex m) (updexArgs d [''--json'', ''features'', ''list'']) w of
     (w1, Inl e) \<Rightarrow> (w1, Inl e)
   | (w1, Inr output) \<Rightarrow> (case parse_list J d output of
       Inl e \<Rightarrow> (w1, Inl e) | Inr fs \<Rightarrow> apsnd (map_sum id (append fs)) (listed_features J m ds w1)))"

definition updex_answer :: "ext_codec \<Rightarrow> 'w ext_manager \<Rightarrow> ('w, (updex_feature list \<times> available_update list) result) call" where
  "updex_answer J m w = (case definitionDirectories m w of
     Inl e \<Rightarrow> (w, Inl e)
   | Inr dirs \<Rightarrow> (case listed_features J m dirs w of
       (w1, Inl e) \<Rightarrow> (w1, Inl e)
     | (w1, Inr fs) \<Rightarrow> apsnd (map_sum id (Pair fs)) (ext_Check J m w1)))"

definition sysext_answer :: "ext_codec \<Rightarrow> 'w ext_manager \<Rightarrow> ('w, (installed_extension list \<times> string list) result) call" where
  "sysext_answer J m w = (case xm_runner m ''systemd-sysext'' [''list'', ''--json=short'', ''--no-pager''] w of
     (w1, Inl e) \<Rightarrow> (w1, Inl e)
   | (w1, Inr listing) \<Rightarrow> (case ec_installed J listing of
       Inl e \<Rightarrow> (w1, Inl (Wrapf ''parse systemd-sysext list: %w'' [] e))
     | Inr xs \<Rightarrow> (case xm_runner m ''systemd-sysext'' [''status'', ''--json=short'', ''--no-pager''] w1 of
         (w2, Inl e) \<Rightarrow> (w2, Inl e)
       | (w2, Inr status) \<Rightarrow> (case ec_statuses J status of
           Inl e \<Rightarrow> (w2, Inl (Wrapf ''parse systemd-sysext status: %w'' [] e))
         | Inr sts \<Rightarrow> (w2, Inr (xs, concat (map (merged_names J) sts)))))))"

text \<open>A source that is not attempted is not asked and has no error; one that fails contributes nothing but its error.\<close>

definition contributes :: "(error \<Rightarrow> string) \<Rightarrow> bool \<Rightarrow> ('w, 'a result) call \<Rightarrow> 'a \<Rightarrow> 'w \<Rightarrow> 'w \<times> 'a \<times> bool \<times> string" where
  "contributes message_of attempted ask nothing w = (if \<not> attempted then (w, nothing, False, [])
     else (case ask w of (w1, Inl e) \<Rightarrow> (w1, nothing, False, message_of e) | (w1, Inr a) \<Rightarrow> (w1, a, True, [])))"

text \<open>Of entries with the same name the last one counts.\<close>

definition last_named :: "('a \<Rightarrow> string) \<Rightarrow> 'a list \<Rightarrow> string \<Rightarrow> 'a option" where
  "last_named name xs n = List.find (\<lambda>x. name x = n) (rev xs)"

definition union_entry ::
  "(string \<Rightarrow> string result) \<Rightarrow> updex_feature list \<Rightarrow> available_update list \<Rightarrow> installed_extension list \<Rightarrow> string list \<Rightarrow> string \<Rightarrow> extension" where
  "union_entry links fs us xs ns n = (let f = last_named uf_Name fs n; i = last_named inst_Name xs n in
     \<lparr>ext_Description = (case f of Some y \<Rightarrow> uf_Description y | None \<Rightarrow> []), ext_Enabled = (case f of Some y \<Rightarrow> uf_Enabled y | None \<Rightarrow> False),
      ext_Installed = (n \<in> inst_Name ` set xs), ext_Managed = (n \<in> uf_Name ` set fs), ext_Merged = (n \<in> set ns), ext_Name = n,
      ext_Path = (case i of Some y \<Rightarrow> inst_Path y | None \<Rightarrow> []),
      ext_Updates = (if n \<in> uf_Name ` set fs then filter (\<lambda>u. av_Extension u = n) us else []),
      ext_Version = (case i of Some y \<Rightarrow> extensionVersion links n (inst_Path y) | None \<Rightarrow> [])\<rparr>)"

lemma last_named_snoc: "last_named name (xs @ [x]) n = (if name x = n then Some x else last_named name xs n)"
  by (simp add: last_named_def)

lemma last_named_None: "last_named name xs n = None \<longleftrightarrow> n \<notin> name ` set xs"
  by (auto simp: last_named_def find_None_iff)

lemma map_of_keyed: "map_of (fold (\<lambda>x. AList.update (name x) (g x)) xs []) n = map_option g (last_named name xs n)"
  by (induction xs rule: rev_induct) (simp_all add: last_named_snoc update_conv', simp add: last_named_def)

lemma map_of_flags: "map_of (fold (\<lambda>x. AList.update x True) ns []) n = (if n \<in> set ns then Some True else None)"
  by (induction ns rule: rev_induct) (auto simp: update_conv')

lemma add_managed_append: "add_managed (fs @ gs) d acc = add_managed gs d' (add_managed fs d'' acc)"
  by (simp add: add_managed_def)

lemma per_directory_features:
  "per_directory m [''--json'', ''features'', ''list''] (parse_list J) add_managed dirs acc w =
   apsnd (map_sum id (\<lambda>fs. add_managed fs [] acc)) (listed_features J m dirs w)"
proof (induction J m dirs w arbitrary: acc rule: listed_features.induct)
  case (1 J m w)
  then show ?case by (simp add: add_managed_def)
next
  case (2 J m d ds w)
  show ?case
  proof (cases "xm_runner m (xm_updex m) (updexArgs d [''--json'', ''features'', ''list'']) w")
    case (Pair w1 r)
    show ?thesis
    proof (cases r)
      case (Inr out)
      show ?thesis
      proof (cases "parse_list J d out")
        case (Inr fs)
        note ih = 2[OF Pair[symmetric] \<open>r = Inr out\<close> Inr, of "add_managed fs d acc"]
        show ?thesis using Pair \<open>r = Inr out\<close> Inr ih add_managed_append[of fs _ "[]" acc "[]" d]
          by (cases "listed_features J m ds w1"; cases "snd (listed_features J m ds w1)") simp_all
      qed (use Pair Inr in simp)
    qed (use Pair in simp)
  qed
qed

lemma updex_part_answer:
  "updex_part J message_of m u w = (case contributes message_of u (updex_answer J m) ([], []) w of (w1, (fs, us), ua, ue) \<Rightarrow>
     (w1, add_managed fs [] [], if ua then updates_for (add_managed fs [] []) us else (\<lambda>_. []), ua, ue))"
proof (cases "definitionDirectories m w")
  case (Inl e)
  then show ?thesis by (simp add: updex_part_def contributes_def updexInventory_def updex_answer_def add_managed_def)
next
  case (Inr dirs)
  obtain w1 r where r: "listed_features J m dirs w = (w1, r)" by fastforce
  obtain w2 c where c: "ext_Check J m w1 = (w2, c)" by fastforce
  show ?thesis using Inr r c
    by (cases r; cases c) (simp_all add: updex_part_def contributes_def updexInventory_def updex_answer_def per_directory_features add_managed_def)
qed

definition installed_map :: "installed_extension list \<Rightarrow> (string, installed_extension) gomap" where
  "installed_map xs = fold (\<lambda>x. AList.update (inst_Name x) x) xs []"

definition merged_map :: "string list \<Rightarrow> (string, bool) gomap" where
  "merged_map ns = fold (\<lambda>n. AList.update n True) ns []"

lemma sysext_part_answer:
  "sysext_part J message_of m s w = (case contributes message_of s (sysext_answer J m) ([], []) w of (w1, (xs, ns), sa, se) \<Rightarrow>
     (w1, installed_map xs, merged_map ns, sa, se))"
  by (auto simp: sysext_part_def contributes_def sysextInventory_def sysext_answer_def ext_installed_def ext_merged_def installed_map_def merged_map_def
      split: prod.split sum.split)

lemma managed_lookup:
  "map_of (add_managed fs [] []) n = map_option (\<lambda>f. zero_extension\<lparr>ext_Description := uf_Description f, ext_Enabled := uf_Enabled f,
     ext_Managed := True, ext_Name := uf_Name f\<rparr>) (last_named uf_Name fs n)"
  unfolding add_managed_def by (rule map_of_keyed)

lemma installed_lookup: "map_of (installed_map xs) n = last_named inst_Name xs n"
  using map_of_keyed[of inst_Name "\<lambda>x. x" xs n] by (simp add: installed_map_def option.map_ident)

lemma merged_lookup: "map_of (merged_map ns) n = (if n \<in> set ns then Some True else None)"
  unfolding merged_map_def by (rule map_of_flags)

lemma known_names_answer:
  "known_names (add_managed fs [] []) (installed_map xs) (merged_map ns) = uf_Name ` set fs \<union> inst_Name ` set xs \<union> set ns"
proof -
  have "dom (map_of (add_managed fs [] [])) = uf_Name ` set fs" "dom (map_of (installed_map xs)) = inst_Name ` set xs"
    using last_named_None[of uf_Name fs] last_named_None[of inst_Name xs] by (auto simp: dom_def managed_lookup installed_lookup)
  then show ?thesis by (auto simp: known_names_def merged_lookup)
qed

lemma reported_is_union_entry:
  assumes "ua \<or> us = []"
  shows "reported_extension links (map_of (add_managed fs [] [])) (if ua then updates_for (add_managed fs [] []) us else (\<lambda>_. []))
     (map_of (installed_map xs)) (map_of (merged_map ns)) n = union_entry links fs us xs ns n"
proof -
  have u: "(if ua then updates_for (add_managed fs [] []) us else (\<lambda>_. [])) = (\<lambda>k. if last_named uf_Name fs k = None then [] else filter (\<lambda>x. av_Extension x = k) us)"
    using assms by (auto simp: fun_eq_iff updates_for_def managed_lookup)
  show ?thesis unfolding u
    using last_named_None[of uf_Name fs n] last_named_None[of inst_Name xs n]
    by (cases "last_named uf_Name fs n"; cases "last_named inst_Name xs n")
       (auto simp: reported_extension_def union_entry_def Let_def managed_lookup installed_lookup merged_lookup)
qed

lemma contributes_silent: "contributes message_of b ask nothing w = (w1, a, available, err) \<Longrightarrow> a = nothing \<or> available \<and> err = []"
  by (auto simp: contributes_def split: if_splits prod.splits sum.splits)

lemma contributes_nothing: "contributes message_of b ask nothing w = (w1, a, available, err) \<Longrightarrow> available \<or> a = nothing"
  by (auto simp: contributes_def split: if_splits prod.splits sum.splits)

lemma ext_State_exact:
  "case contributes message_of u (updex_answer J m) ([], []) w of (w1, (fs, us), ua, ue) \<Rightarrow>
   (case contributes message_of s (sysext_answer J m) ([], []) w1 of (w2, (xs, ns), sa, se) \<Rightarrow>
     \<exists>exts. ext_State J message_of m u s w = (w2, Inr \<lparr>es_Extensions = exts, es_SysextAvailable = sa, es_SysextError = se,
         es_UpdexAvailable = ua, es_UpdexError = ue\<rparr>) \<and>
       set exts = union_entry (\<lambda>p. xm_EvalSymlinks m p w2) fs us xs ns ` (uf_Name ` set fs \<union> inst_Name ` set xs \<union> set ns) \<and>
       sorted (map ext_Name exts) \<and> distinct (map ext_Name exts))"
proof -
  obtain w1 fs us ua ue where u: "contributes message_of u (updex_answer J m) ([], []) w = (w1, (fs, us), ua, ue)" by (metis surj_pair)
  obtain w2 xs ns sa se where s: "contributes message_of s (sysext_answer J m) ([], []) w1 = (w2, (xs, ns), sa, se)" by (metis surj_pair)
  have ok: "ua \<or> us = []" using contributes_nothing[OF u] by auto
  obtain st where st: "ext_State J message_of m u s w = (w2, Inr st)" and f: "es_UpdexAvailable st = ua" "es_UpdexError st = ue"
      "es_SysextAvailable st = sa" "es_SysextError st = se" and
      e: "set (es_Extensions st) = reported_extension (\<lambda>p. xm_EvalSymlinks m p w2) (map_of (add_managed fs [] []))
         (if ua then updates_for (add_managed fs [] []) us else (\<lambda>_. [])) (map_of (installed_map xs)) (map_of (merged_map ns)) `
         known_names (add_managed fs [] []) (installed_map xs) (merged_map ns)"
      "sorted (map ext_Name (es_Extensions st))" "distinct (map ext_Name (es_Extensions st))"
    using ext_State_union[where J=J and message_of=message_of and m=m and u=u and s=s and w=w] by (auto simp: updex_part_answer sysext_part_answer u s split: prod.splits sum.splits)
  have "st = \<lparr>es_Extensions = es_Extensions st, es_SysextAvailable = sa, es_SysextError = se, es_UpdexAvailable = ua, es_UpdexError = ue\<rparr>"
    using f by (cases st) simp
  then show ?thesis using st e(2,3) e(1)[unfolded known_names_answer reported_is_union_entry[OF ok]] by (simp add: u s) metis
qed

text \<open>C39. The inventory of extensions is the union of what the two tools answer. A tool that is not available is not run and has no
  error; one that fails contributes nothing, and its error is reported as its own while the other source stands.
  The inventory lists, once each and in order, exactly the names of the features that updex lists, of the installed
  images and of the merged extensions. Of each entry the description, the enabled flag and the pending updates are those
  that updex gives for the name, the path and version those of the installed image, and the three flags say
  whether updex lists it, whether it is installed and whether it is merged. The report itself never fails.\<close>

theorem extensions_union:
  "case contributes message_of u (updex_answer J m) ([], []) w of (w1, (fs, us), ua, ue) \<Rightarrow>
   (case contributes message_of s (sysext_answer J m) ([], []) w1 of (w2, (xs, ns), sa, se) \<Rightarrow>
     \<exists>exts. ext_State J message_of m u s w = (w2, Inr \<lparr>es_Extensions = exts, es_SysextAvailable = sa, es_SysextError = se,
         es_UpdexAvailable = ua, es_UpdexError = ue\<rparr>) \<and>
       set exts = union_entry (\<lambda>p. xm_EvalSymlinks m p w2) fs us xs ns ` (uf_Name ` set fs \<union> inst_Name ` set xs \<union> set ns) \<and>
       sorted (map ext_Name exts) \<and> distinct (map ext_Name exts))"
  by (rule ext_State_exact)

text \<open>Enabling and disabling reach updex only for an extension that was just listed, in the directory it is defined in.\<close>

definition acts_on_listed :: "ext_codec \<Rightarrow> 'w ext_manager \<Rightarrow> string \<Rightarrow> (managed_extension \<Rightarrow> string list) \<Rightarrow> 'w \<Rightarrow> 'w \<times> error option \<Rightarrow> bool" where
  "acts_on_listed J m name args w r \<longleftrightarrow>
     (\<exists>w1 xs x. ext_list J m w = (w1, Inr xs) \<and> x \<in> set xs \<and> me_Name x = name \<and> r = run_updex m (updexArgs (me_Definition x) (args x)) w1) \<or>
     (snd r \<noteq> None \<and> fst r = fst (ext_list J m w))"

lemma managedExtensionFor_cases:
  obtains (listed) w1 xs x where "managedExtensionFor J m name w = (w1, Inr x)" "ext_list J m w = (w1, Inr xs)" "x \<in> set xs" "me_Name x = name"
  | (refused) e where "managedExtensionFor J m name w = (fst (ext_list J m w), Inl e)"
proof (cases "ext_list J m w")
  case (Pair w1 r)
  show ?thesis
  proof (cases r)
    case (Inr xs)
    show ?thesis
    proof (cases "List.find (\<lambda>x. me_Name x = name) xs")
      case None
      then show ?thesis using Pair Inr by (intro refused) (simp add: managedExtensionFor_def)
    next
      case (Some x)
      then have "x \<in> set xs" "me_Name x = name" by (auto simp: find_Some_iff in_set_conv_nth)
      then show ?thesis using Pair Inr Some by (intro listed[of w1 x xs]) (simp_all add: managedExtensionFor_def)
    qed
  qed (use Pair in \<open>auto intro!: refused simp: managedExtensionFor_def\<close>)
qed

lemma updexArgs_append: "updexArgs d xs @ ys = updexArgs d (xs @ ys)"
  by (simp add: updexArgs_def)

lemma extension_changes_listed:
  "acts_on_listed J m name (\<lambda>x. [''--json'', ''features'', ''enable'', name, ''--now'']) w (ext_Enable J m name w)"
  "acts_on_listed J m name (\<lambda>x. [''--json'', ''features'', ''disable'', name, ''--now''] @ (if me_Merged x then [''--force''] else [])) w
     (ext_Disable J m name w)"
proof -
  show "acts_on_listed J m name (\<lambda>x. [''--json'', ''features'', ''enable'', name, ''--now'']) w (ext_Enable J m name w)"
    by (cases rule: managedExtensionFor_cases[of J m name w]) (fastforce simp: acts_on_listed_def ext_Enable_def)+
  show "acts_on_listed J m name (\<lambda>x. [''--json'', ''features'', ''disable'', name, ''--now''] @ (if me_Merged x then [''--force''] else [])) w
     (ext_Disable J m name w)"
    by (cases rule: managedExtensionFor_cases[of J m name w]) (fastforce simp: acts_on_listed_def ext_Disable_def updexArgs_append)+
qed

end
