(* ===== verification/Maintenance.thy ===== *)
theory Maintenance
  imports Extensions Jobs
begin

text \<open>
  The maintenance manager (\<open>internal/modules/maintenance/manager.go\<close>): whether the host needs a reboot, and why. The
  sources it asks, files and the clock are fields of its record; \<open>duration_of\<close> is \<open>strconv.ParseFloat\<close> and the
  conversion of seconds to a \<open>time.Duration\<close>. A method returns the manager, since it keeps a cache.
\<close>

section \<open>Data\<close>

datatype stat_result = StatPresent | StatAbsent | StatFailed error

record maintenance_job =
  mj_Action :: string
  mj_ErrorCategory :: string
  mj_ID :: "64 word"
  mj_RebootRequired :: bool
  mj_Resource :: string
  mj_Status :: string

record maintenance_state =
  mt_Jobs :: "maintenance_job list"
  mt_OSVersion :: string
  mt_RebootReasons :: "string list"
  mt_RebootRequired :: bool
  mt_SoftRebootCapable :: "bool option"

record 'w maintenance_manager =
  mm_bootcAvailable :: bool
  mm_cacheAt :: int
  mm_cacheState :: extensions_state
  mm_extensions :: "(bool \<Rightarrow> bool \<Rightarrow> ('w, extensions_state result) call) option"
  mm_hostImage :: "('w, host_image_status result) call option"
  mm_List :: "job_filter \<Rightarrow> ('w, job list result) call"
  mm_RebootRequiredSince :: "int \<Rightarrow> ('w, bool result) call"
  mm_now :: "'w \<Rightarrow> int"
  mm_root :: string
  mm_runner :: "'w runner"
  mm_sysextAvailable :: bool
  mm_updexAvailable :: bool
  mm_Stat :: "string \<Rightarrow> 'w \<Rightarrow> stat_result"
  mm_ReadFile :: "string \<Rightarrow> 'w \<Rightarrow> string result"

definition zero_extensions :: extensions_state where
  "zero_extensions = \<lparr>es_Extensions = [], es_SysextAvailable = False, es_SysextError = [], es_UpdexAvailable = False, es_UpdexError = []\<rparr>"

definition NewMaintenanceManager ::
  "(bool \<Rightarrow> bool \<Rightarrow> ('w, extensions_state result) call) option \<Rightarrow> (job_filter \<Rightarrow> ('w, job list result) call) \<Rightarrow> (int \<Rightarrow> ('w, bool result) call) \<Rightarrow>
     ('w, host_image_status result) call option \<Rightarrow> 'w runner \<Rightarrow> string \<Rightarrow> bool \<Rightarrow> bool \<Rightarrow> bool \<Rightarrow> ('w \<Rightarrow> int) \<Rightarrow>
     (string \<Rightarrow> 'w \<Rightarrow> stat_result) \<Rightarrow> (string \<Rightarrow> 'w \<Rightarrow> string result) \<Rightarrow> 'w maintenance_manager" where
  "NewMaintenanceManager extensions list_jobs since hostImage run root updex sysext bootc clock stat readf =
     \<lparr>mm_bootcAvailable = bootc, mm_cacheAt = zero_time, mm_cacheState = zero_extensions, mm_extensions = extensions,
      mm_hostImage = hostImage, mm_List = list_jobs, mm_RebootRequiredSince = since, mm_now = clock,
      mm_root = (if root = [] then ''/'' else root), mm_runner = run, mm_sysextAvailable = sysext, mm_updexAvailable = updex,
      mm_Stat = stat, mm_ReadFile = readf\<rparr>"

section \<open>What the state is made of\<close>

definition maintenance_path :: "'w maintenance_manager \<Rightarrow> string \<Rightarrow> string" where
  "maintenance_path m p = path_join (mm_root m) p"

definition mergedButDisabledReasons :: "extensions_state \<Rightarrow> string list" where
  "mergedButDisabledReasons st =
     (if \<not> es_UpdexAvailable st \<or> es_UpdexError st \<noteq> [] then []
      else if \<not> es_SysextAvailable st \<or> es_SysextError st \<noteq> [] then []
      else map (\<lambda>x. ext_Name x @ '' is disabled but remains active until reboot.'')
        (filter (\<lambda>x. ext_Managed x \<and> ext_Merged x \<and> \<not> ext_Enabled x) (es_Extensions st)))"

definition extensionState :: "'w maintenance_manager \<Rightarrow> 'w \<Rightarrow> 'w \<times> 'w maintenance_manager \<times> extensions_state" where
  "extensionState m w = (case mm_extensions m of
     None \<Rightarrow> (w, m, zero_extensions)
   | Some source \<Rightarrow>
       if mm_cacheAt m \<noteq> zero_time \<and> time_sub (mm_now m w) (mm_cacheAt m) < minute then (w, m, mm_cacheState m)
       else (case source (mm_updexAvailable m) (mm_sysextAvailable m) w of
           (w1, Inl _) \<Rightarrow> (w1, m, zero_extensions)
         | (w1, Inr st) \<Rightarrow> (w1, m\<lparr>mm_cacheState := st, mm_cacheAt := mm_now m w1\<rparr>, st)))"

definition hostImageState :: "'w maintenance_manager \<Rightarrow> ('w, bool \<times> bool option) call" where
  "hostImageState m w = (case mm_hostImage m of
     None \<Rightarrow> (w, False, None)
   | Some status \<Rightarrow> if \<not> mm_bootcAvailable m then (w, False, None)
       else (case status w of
           (w1, Inl _) \<Rightarrow> (w1, False, None) | (w1, Inr st) \<Rightarrow> (w1, hi_Staged st \<noteq> None, hi_SoftRebootCapable st)))"

definition maintenance_Reboot :: "'w maintenance_manager \<Rightarrow> ('w, error option) call" where
  "maintenance_Reboot m w = (case mm_runner m ''systemctl'' [''reboot'', ''--no-wall'', ''--no-block''] w of
     (w1, Inl e) \<Rightarrow> (w1, Some e) | (w1, Inr _) \<Rightarrow> (w1, None))"

text \<open>\<open>strings.Fields\<close>: the maximal runs without white space.\<close>

fun words_of :: "(nat \<times> string) list \<Rightarrow> string \<Rightarrow> string list" where
  "words_of [] word = (if word = [] then [] else [word])"
| "words_of ((r, c) # cs) word = (if is_space r then (if word = [] then [] else [word]) @ words_of cs [] else words_of cs (word @ c))"

definition string_Fields :: "string \<Rightarrow> string list" where
  "string_Fields s = words_of (chunks s) []"

definition bootedAt :: "(string \<Rightarrow> int result) \<Rightarrow> 'w maintenance_manager \<Rightarrow> 'w \<Rightarrow> int result" where
  "bootedAt duration_of m w = (case mm_ReadFile m (maintenance_path m ''proc/uptime'') w of
     Inl e \<Rightarrow> Inl (Wrapf ''read system uptime: %w'' [] e)
   | Inr v \<Rightarrow> (case string_Fields v of
       [] \<Rightarrow> Inl (Errorf ''parse system uptime: missing value'' [])
     | first # _ \<Rightarrow> (case duration_of first of
         Inl e \<Rightarrow> Inl (Wrapf ''parse system uptime: %w'' [] e)
       | Inr d \<Rightarrow> Inr (mm_now m w - d))))"

definition trim_quotes :: "string \<Rightarrow> string" where
  "trim_quotes s = rev (dropWhile (\<lambda>c. c = CHR 0x22) (rev (dropWhile (\<lambda>c. c = CHR 0x22) s)))"

definition release_line :: "string \<Rightarrow> string \<times> string \<Rightarrow> string \<times> string" where
  "release_line line = (\<lambda>(pretty, img).
     ((if prefix ''PRETTY_NAME='' line then trim_quotes (drop 12 line) else pretty),
      (if prefix ''IMAGE_VERSION='' line then trim_quotes (drop 14 line) else img)))"

definition osVersion :: "'w maintenance_manager \<Rightarrow> 'w \<Rightarrow> string" where
  "osVersion m w = (case mm_ReadFile m (maintenance_path m ''etc/os-release'') w of
     Inl _ \<Rightarrow> ''Linux''
   | Inr v \<Rightarrow> (case fold release_line (split_on (CHR 0x0A) v) ([], []) of (pretty, img) \<Rightarrow>
       if img \<noteq> [] then pretty @ [CHR '' '', CHR 0xC2, CHR 0xB7] @ '' image '' @ img
       else if pretty \<noteq> [] then pretty else ''Linux''))"

definition maintenance_job_of :: "job \<Rightarrow> maintenance_job" where
  "maintenance_job_of j = \<lparr>mj_Action = job_Action j, mj_ErrorCategory = job_ErrorCategory j, mj_ID = job_ID j,
     mj_RebootRequired = job_RebootRequired j, mj_Resource = job_Resource j, mj_Status = job_Status j\<rparr>"

definition stagedHostImageReason :: string where
  "stagedHostImageReason = ''A staged host image deployment requires activation by reboot.''"

definition maintenance_State ::
  "(string \<Rightarrow> int result) \<Rightarrow> 'w maintenance_manager \<Rightarrow> 'w \<Rightarrow> 'w \<times> 'w maintenance_manager \<times> maintenance_state result" where
  "maintenance_State duration_of m w = (case extensionState m w of (w1, m1, extensions) \<Rightarrow>
     (case mm_List m1 \<lparr>jf_Limit = 20, jf_Action = [], jf_Status = []\<rparr> w1 of
       (w2, Inl e) \<Rightarrow> (w2, m1, Inl (Wrapf ''list maintenance jobs: %w'' [] e))
     | (w2, Inr rows) \<Rightarrow>
         (let version = osVersion m1 w2; marker = mm_Stat m1 (maintenance_path m1 ''run/reboot-required'') w2 in
          case marker of StatFailed e \<Rightarrow> (w2, m1, Inl (Wrapf ''inspect reboot marker: %w'' [] e))
          | _ \<Rightarrow> (case hostImageState m1 w2 of (w3, staged, soft) \<Rightarrow>
             (case bootedAt duration_of m1 w3 of
               Inl e \<Rightarrow> (w3, m1, Inl e)
             | Inr booted \<Rightarrow> (case mm_RebootRequiredSince m1 booted w3 of
                 (w4, Inl e) \<Rightarrow> (w4, m1, Inl (Wrapf ''inspect completed maintenance jobs: %w'' [] e))
               | (w4, Inr rebootRequired) \<Rightarrow>
                   (let reasons = (if marker = StatPresent then [''The operating system requested a reboot.''] else []) @
                          (if staged then [stagedHostImageReason] else []) @ mergedButDisabledReasons extensions @
                          (if rebootRequired then [''A completed extension update requires activation by reboot.''] else [])
                    in (w4, m1, Inr \<lparr>mt_Jobs = map maintenance_job_of rows, mt_OSVersion = version, mt_RebootReasons = reasons,
                          mt_RebootRequired = length reasons > 0, mt_SoftRebootCapable = soft\<rparr>))))))))"

section \<open>When a reboot is required\<close>

text \<open>The cache holds an answer of the source of extensions and the time at which it was given.\<close>

definition cache_ok :: "'w maintenance_manager \<Rightarrow> bool" where
  "cache_ok m \<longleftrightarrow> mm_cacheAt m = zero_time \<or> (\<exists>source v v'. mm_extensions m = Some source \<and>
     source (mm_updexAvailable m) (mm_sysextAvailable m) v = (v', Inr (mm_cacheState m)) \<and> mm_cacheAt m = mm_now m v')"

text \<open>The cache is filled and younger than a minute, in nanoseconds.\<close>

definition fresh_cache :: "'w maintenance_manager \<Rightarrow> 'w \<Rightarrow> bool" where
  "fresh_cache m w \<longleftrightarrow> mm_cacheAt m \<noteq> zero_time \<and> time_sub (mm_now m w) (mm_cacheAt m) < 60000000000"

text \<open>Only the cache of a manager changes.\<close>

definition same_sources :: "'w maintenance_manager \<Rightarrow> 'w maintenance_manager \<Rightarrow> bool" where
  "same_sources m m' \<longleftrightarrow> m' = m\<lparr>mm_cacheAt := mm_cacheAt m', mm_cacheState := mm_cacheState m'\<rparr>"

text \<open>The cache is used while it is fresh, and only then; otherwise the source is asked now.\<close>

lemma extensionState_answer:
  assumes "extensionState m w = (w1, m1, st)" "cache_ok m" "mm_extensions m = Some source"
    and total: "\<And>u s v v' e. source u s v \<noteq> (v', Inl e)"
  shows "cache_ok m1 \<and> same_sources m m1 \<and> (\<exists>v v'. source (mm_updexAvailable m) (mm_sysextAvailable m) v = (v', Inr st) \<and>
    (if fresh_cache m w then w1 = w \<and> m1 = m \<and> mm_cacheAt m = mm_now m v' else v = w \<and> w1 = v' \<and> mm_cacheAt m1 = mm_now m v'))"
proof (cases "fresh_cache m w")
  case True
  then show ?thesis using assms(1-3) by (auto simp: extensionState_def cache_ok_def same_sources_def fresh_cache_def minute_def second_def)
next
  case False
  obtain v r where r: "source (mm_updexAvailable m) (mm_sysextAvailable m) w = (v, r)" by fastforce
  obtain y where y: "r = Inr y" using total[of _ _ w] r by (cases r) blast+
  have m1: "m1 = m\<lparr>mm_cacheState := st, mm_cacheAt := mm_now m w1\<rparr>" "w1 = v" "st = y"
    using assms(1,3) False r y by (auto simp: extensionState_def fresh_cache_def minute_def second_def)
  have "cache_ok m1" unfolding cache_ok_def m1(1) using assms(3) r y m1 by (intro disjI2 exI[of _ source] exI[of _ w] exI[of _ v]) simp
  moreover have "same_sources m m1" using m1(1) by (simp add: same_sources_def)
  moreover have "mm_cacheAt m1 = mm_now m v" using m1 by simp
  ultimately show ?thesis using False r y m1(2,3) by auto
qed

text \<open>What updex lists and what systemd-sysext has merged when both are asked in this state: a tool that the host lacks is not run.\<close>

definition tool_reports ::
  "ext_codec \<Rightarrow> (error \<Rightarrow> string) \<Rightarrow> 'w ext_manager \<Rightarrow> bool \<Rightarrow> bool \<Rightarrow> 'w \<Rightarrow> 'w \<times> updex_feature list \<times> string list" where
  "tool_reports J message_of x u s v =
     (case contributes message_of u (updex_answer J x) ([], []) v of (v1, (fs, _), _, _) \<Rightarrow>
      (case contributes message_of s (sysext_answer J x) ([], []) v1 of (v2, (_, ns), _, _) \<Rightarrow> (v2, fs, ns)))"

text \<open>The names of the extensions that updex knows as disabled and that are still merged.\<close>

definition lingering :: "updex_feature list \<Rightarrow> string list \<Rightarrow> string set" where
  "lingering fs ns = {n \<in> set ns. \<exists>f. last_named uf_Name fs n = Some f \<and> \<not> uf_Enabled f}"

lemma ext_State_answers: "ext_State J message_of x u s v \<noteq> (v', Inl e)"
  using ext_State_union[where J = J and message_of = message_of and m = x and u = u and s = s and w = v] by auto

lemma absent_tool_silent:
  assumes "tool_reports J message_of x u s v = (v', fs, ns)"
  shows "fs = [] \<or> u" "ns = [] \<or> s" "u \<or> s \<or> v' = v"
  using assms by (auto simp: tool_reports_def contributes_def split: prod.splits if_splits sum.splits)

lemma lingering_entry:
  "(\<exists>n \<in> uf_Name ` set fs \<union> inst_Name ` set xs \<union> set ns. n = k \<and> ext_Managed (union_entry links fs us xs ns n) \<and>
     ext_Merged (union_entry links fs us xs ns n) \<and> \<not> ext_Enabled (union_entry links fs us xs ns n)) \<longleftrightarrow> k \<in> lingering fs ns"
  using last_named_None[of uf_Name fs k] by (cases "last_named uf_Name fs k") (auto simp: lingering_def union_entry_def Let_def)

lemma union_entry_name: "ext_Name (union_entry links fs us xs ns n) = n"
  by (simp add: union_entry_def Let_def)

lemma named_image:
  assumes "\<And>n. ext_Name (f n) = n"
  shows "ext_Name ` {y \<in> f ` K. P y \<and> Q y \<and> R y} = {k. \<exists>n \<in> K. n = k \<and> P (f n) \<and> Q (f n) \<and> R (f n)}"
proof -
  have "{y \<in> f ` K. P y \<and> Q y \<and> R y} = f ` {n \<in> K. P (f n) \<and> Q (f n) \<and> R (f n)}" by blast
  then show ?thesis using assms by (auto simp: image_image)
qed

lemma disabled_reasons:
  assumes "ext_State J message_of x u s v = (v', Inr st)"
  shows "\<exists>fs ns. tool_reports J message_of x u s v = (v', fs, ns) \<and>
    set (mergedButDisabledReasons st) = (\<lambda>n. n @ '' is disabled but remains active until reboot.'') ` lingering fs ns"
proof -
  obtain w1 fs us ua ue where u: "contributes message_of u (updex_answer J x) ([], []) v = (w1, (fs, us), ua, ue)" by (metis surj_pair)
  obtain w2 xs ns sa se where s: "contributes message_of s (sysext_answer J x) ([], []) w1 = (w2, (xs, ns), sa, se)" by (metis surj_pair)
  have tools: "tool_reports J message_of x u s v = (w2, fs, ns)" using u s by (simp add: tool_reports_def)
  obtain exts where st: "v' = w2" "st = \<lparr>es_Extensions = exts, es_SysextAvailable = sa, es_SysextError = se, es_UpdexAvailable = ua, es_UpdexError = ue\<rparr>"
    and e: "set exts = union_entry (\<lambda>p. xm_EvalSymlinks x p w2) fs us xs ns ` (uf_Name ` set fs \<union> inst_Name ` set xs \<union> set ns)"
    using ext_State_exact[where J = J and message_of = message_of and m = x and u = u and s = s and w = v] assms by (auto simp: u s)
  let ?entry = "union_entry (\<lambda>p. xm_EvalSymlinks x p w2) fs us xs ns" and ?names = "uf_Name ` set fs \<union> inst_Name ` set xs \<union> set ns"
  have "ext_Name ` {y \<in> set exts. ext_Managed y \<and> ext_Merged y \<and> \<not> ext_Enabled y} =
      {k. \<exists>n \<in> ?names. n = k \<and> ext_Managed (?entry n) \<and> ext_Merged (?entry n) \<and> \<not> ext_Enabled (?entry n)}"
    unfolding e by (rule named_image) (rule union_entry_name)
  also have "\<dots> = lingering fs ns" unfolding lingering_entry by simp
  finally have "ext_Name ` {y \<in> set exts. ext_Managed y \<and> ext_Merged y \<and> \<not> ext_Enabled y} = lingering fs ns" .
  moreover have "lingering fs ns = {} \<or> ua \<and> ue = [] \<and> sa \<and> se = []"
    using contributes_silent[OF u] contributes_silent[OF s] by (auto simp: lingering_def last_named_def)
  ultimately have "set (mergedButDisabledReasons st) = (\<lambda>n. n @ '' is disabled but remains active until reboot.'') ` lingering fs ns"
    by (auto simp: mergedButDisabledReasons_def st)
  then show ?thesis using tools st(1) by blast
qed

lemma extension_reasons:
  assumes "extensionState m w = (w1, m1, st)" "cache_ok m" "mm_extensions m = Some (ext_State J message_of x)"
  shows "cache_ok m1 \<and> same_sources m m1 \<and> (\<exists>v v' fs ns.
    tool_reports J message_of x (mm_updexAvailable m) (mm_sysextAvailable m) v = (v', fs, ns) \<and>
    (if fresh_cache m w then w1 = w \<and> m1 = m \<and> mm_cacheAt m = mm_now m v' else v = w \<and> w1 = v' \<and> mm_cacheAt m1 = mm_now m v') \<and>
    set (mergedButDisabledReasons st) = (\<lambda>n. n @ '' is disabled but remains active until reboot.'') ` lingering fs ns)"
proof -
  obtain v v' where k: "cache_ok m1" "same_sources m m1" and
      r: "ext_State J message_of x (mm_updexAvailable m) (mm_sysextAvailable m) v = (v', Inr st)"
        "if fresh_cache m w then w1 = w \<and> m1 = m \<and> mm_cacheAt m = mm_now m v' else v = w \<and> w1 = v' \<and> mm_cacheAt m1 = mm_now m v'"
    using extensionState_answer[OF assms ext_State_answers] by blast
  show ?thesis using k r(2) disabled_reasons[OF r(1)] by blast
qed

lemma host_image_staged:
  assumes "hostImageState m w = (w', staged, soft)" "mm_hostImage m = Some (hostImage_Status C message_of h)"
  shows "staged \<longleftrightarrow> mm_bootcAvailable m \<and> hi_Staged (snd (bootc_part C message_of h w)) \<noteq> None"
    and "w' = (if mm_bootcAvailable m then fst (hostImage_Status C message_of h w) else w)"
proof -
  obtain w1 b where b: "bootc_part C message_of h w = (w1, b)" by fastforce
  obtain w2 es av er where r: "rpm_part C message_of h w1 = (w2, es, av, er)" by (metis prod_cases4)
  obtain st where st: "hostImage_Status C message_of h w = (w2, Inr st)" using b r by (simp add: hostImage_Status_def)
  show "staged \<longleftrightarrow> mm_bootcAvailable m \<and> hi_Staged (snd (bootc_part C message_of h w)) \<noteq> None"
    using assms st hostImage_sources(5)[OF st b r] b by (auto simp: hostImageState_def split: if_splits)
  show "w' = (if mm_bootcAvailable m then fst (hostImage_Status C message_of h w) else w)"
    using assms st by (auto simp: hostImageState_def split: if_splits)
qed

lemma same_sources_fields:
  assumes "same_sources m m1"
  shows "mm_Stat m1 = mm_Stat m" "maintenance_path m1 = maintenance_path m" "hostImageState m1 = hostImageState m"
    "bootedAt d m1 = bootedAt d m" "mm_RebootRequiredSince m1 = mm_RebootRequiredSince m" "mm_List m1 = mm_List m"
proof -
  obtain at st where "m1 = m\<lparr>mm_cacheAt := at, mm_cacheState := st\<rparr>" using assms by (auto simp: same_sources_def)
  then show "mm_Stat m1 = mm_Stat m" "maintenance_path m1 = maintenance_path m" "hostImageState m1 = hostImageState m"
    "bootedAt d m1 = bootedAt d m" "mm_RebootRequiredSince m1 = mm_RebootRequiredSince m" "mm_List m1 = mm_List m"
    by (simp_all add: fun_eq_iff maintenance_path_def hostImageState_def bootedAt_def split: option.split sum.split list.split)
qed

lemma maintenance_State_parts:
  assumes "maintenance_State d m w = (w', m', Inr st)"
  obtains w1 exts w2 rows w3 staged soft booted since where "extensionState m w = (w1, m', exts)"
    "mm_List m' \<lparr>jf_Limit = 20, jf_Action = [], jf_Status = []\<rparr> w1 = (w2, Inr rows)" "hostImageState m' w2 = (w3, staged, soft)"
    "bootedAt d m' w3 = Inr booted" "mm_RebootRequiredSince m' booted w3 = (w', Inr since)"
    "mt_RebootReasons st =
       (if mm_Stat m' (maintenance_path m' ''run/reboot-required'') w2 = StatPresent then [''The operating system requested a reboot.''] else []) @
       (if staged then [stagedHostImageReason] else []) @ mergedButDisabledReasons exts @
       (if since then [''A completed extension update requires activation by reboot.''] else [])"
    "mt_RebootRequired st \<longleftrightarrow> mt_RebootReasons st \<noteq> []"
  using assms by (auto simp: maintenance_State_def Let_def split: prod.splits sum.splits stat_result.splits)

text \<open>C18. With the sources as the daemon has them, a reboot is reported as required exactly when there is a reason, and the reasons are
  exactly these: the marker file is there and bootc, if the host has it, reports a staged deployment, both at the time of this
  call; updex knows an extension as disabled that systemd-sysext reports as merged, each by its name; or a
  finished job since the last boot asked for one. The answers of updex and systemd-sysext are those given to this very call, or those
  of an earlier one whose time is in the cache and less than a minute ago. A tool that the host does not have is not run and,
  like one that fails, adds no reason.\<close>

theorem reboot_required_exact:
  assumes "cache_ok m" "mm_extensions m = Some (ext_State J message_of x)" "mm_hostImage m = Some (hostImage_Status C message_of h)"
    and "maintenance_State d m w = (w', m', Inr st)"
  shows "cache_ok m' \<and> (mt_RebootRequired st \<longleftrightarrow> mt_RebootReasons st \<noteq> []) \<and>
    (\<exists>v v' fs ns w1 w2 rows w3 booted since.
       tool_reports J message_of x (mm_updexAvailable m) (mm_sysextAvailable m) v = (v', fs, ns) \<and>
       (fs = [] \<or> mm_updexAvailable m) \<and> (ns = [] \<or> mm_sysextAvailable m) \<and> (mm_updexAvailable m \<or> mm_sysextAvailable m \<or> v' = v) \<and>
       (if fresh_cache m w then w1 = w \<and> m' = m \<and> mm_cacheAt m = mm_now m v' else v = w \<and> w1 = v' \<and> mm_cacheAt m' = mm_now m v') \<and>
       mm_List m \<lparr>jf_Limit = 20, jf_Action = [], jf_Status = []\<rparr> w1 = (w2, Inr rows) \<and>
       w3 = (if mm_bootcAvailable m then fst (hostImage_Status C message_of h w2) else w2) \<and>
       bootedAt d m w3 = Inr booted \<and> mm_RebootRequiredSince m booted w3 = (w', Inr since) \<and>
       set (mt_RebootReasons st) =
         {r. r = ''The operating system requested a reboot.'' \<and> mm_Stat m (maintenance_path m ''run/reboot-required'') w2 = StatPresent} \<union>
         {r. r = stagedHostImageReason \<and> mm_bootcAvailable m \<and> hi_Staged (snd (bootc_part C message_of h w2)) \<noteq> None} \<union>
         (\<lambda>n. n @ '' is disabled but remains active until reboot.'') ` lingering fs ns \<union>
         {r. r = ''A completed extension update requires activation by reboot.'' \<and> since})"
proof -
  obtain w1 exts w2 rows w3 staged soft booted since where p: "extensionState m w = (w1, m', exts)"
    "mm_List m' \<lparr>jf_Limit = 20, jf_Action = [], jf_Status = []\<rparr> w1 = (w2, Inr rows)" "hostImageState m' w2 = (w3, staged, soft)"
    "bootedAt d m' w3 = Inr booted" "mm_RebootRequiredSince m' booted w3 = (w', Inr since)"
    "mt_RebootReasons st =
       (if mm_Stat m' (maintenance_path m' ''run/reboot-required'') w2 = StatPresent then [''The operating system requested a reboot.''] else []) @
       (if staged then [stagedHostImageReason] else []) @ mergedButDisabledReasons exts @
       (if since then [''A completed extension update requires activation by reboot.''] else [])"
    "mt_RebootRequired st \<longleftrightarrow> mt_RebootReasons st \<noteq> []"
    by (rule maintenance_State_parts[OF assms(4)])
  obtain v v' fs ns where k: "cache_ok m'" "same_sources m m'"
      and e: "tool_reports J message_of x (mm_updexAvailable m) (mm_sysextAvailable m) v = (v', fs, ns)"
        "if fresh_cache m w then w1 = w \<and> m' = m \<and> mm_cacheAt m = mm_now m v' else v = w \<and> w1 = v' \<and> mm_cacheAt m' = mm_now m v'"
        "set (mergedButDisabledReasons exts) = (\<lambda>n. n @ '' is disabled but remains active until reboot.'') ` lingering fs ns"
    using extension_reasons[OF p(1) assms(1,2)] by blast
  note f = same_sources_fields[OF k(2)]
  have b: "staged \<longleftrightarrow> mm_bootcAvailable m \<and> hi_Staged (snd (bootc_part C message_of h w2)) \<noteq> None"
      "w3 = (if mm_bootcAvailable m then fst (hostImage_Status C message_of h w2) else w2)"
    using host_image_staged[OF _ assms(3)] p(3) f(3) by simp_all
  have "set (mt_RebootReasons st) =
         {r. r = ''The operating system requested a reboot.'' \<and> mm_Stat m (maintenance_path m ''run/reboot-required'') w2 = StatPresent} \<union>
         {r. r = stagedHostImageReason \<and> staged} \<union>
         (\<lambda>n. n @ '' is disabled but remains active until reboot.'') ` lingering fs ns \<union>
         {r. r = ''A completed extension update requires activation by reboot.'' \<and> since}"
    unfolding p(6) f(1,2) set_append e(3) by auto
  then show ?thesis unfolding b(1) using k(1) p(7) e(1,2) absent_tool_silent[OF e(1)] p(2)[unfolded f(6)] b(2) p(4,5)[unfolded f]
    by (intro conjI exI[of _ v] exI[of _ v'] exI[of _ fs] exI[of _ ns] exI[of _ w1] exI[of _ w2] exI[of _ rows] exI[of _ w3] exI[of _ booted] exI[of _ since])
qed

text \<open>A host without any of the tools, with the marker file.\<close>

definition demo_maintenance :: "unit maintenance_manager" where
  "demo_maintenance = NewMaintenanceManager
     (Some (ext_State \<lparr>ec_items = \<lambda>_. ([], StreamEOF), ec_features = \<lambda>_. Inr [], ec_checks = \<lambda>_. Inr [], ec_installed = \<lambda>_. Inr [],
        ec_statuses = \<lambda>_. Inr [], ec_names = \<lambda>_. Inr []\<rparr> (\<lambda>_. []) (NewExtManager (\<lambda>_ _. Inr []) (\<lambda>p _. Inr p) (\<lambda>_ _ w. (w, Inr [])) [] [])))
     (\<lambda>_ w. (w, Inr [])) (\<lambda>_ w. (w, Inr False))
     (Some (hostImage_Status \<lparr>ic_bootc = \<lambda>_. Inl Canceled, ic_rpm = \<lambda>_. Inl Canceled\<rparr> (\<lambda>_. []) (NewHostImageManager (\<lambda>_ _ w. (w, Inr [])) False False)))
     (\<lambda>_ _ w. (w, Inr [])) [] False False False (\<lambda>_. 100) (\<lambda>_ _. StatPresent) (\<lambda>_ _. Inr ''7.5 2.0'')"

theorem reboot_required_exact_witness:
  "\<exists>w' m' st. maintenance_State (\<lambda>_. Inr 7) demo_maintenance () = (w', m', Inr st) \<and> cache_ok m' \<and> mt_RebootRequired st \<and> mt_RebootReasons st \<noteq> []"
proof -
  have c: "cache_ok demo_maintenance" by (simp add: cache_ok_def demo_maintenance_def NewMaintenanceManager_def)
  obtain st m' where st: "maintenance_State (\<lambda>_. Inr 7) demo_maintenance () = ((), m', Inr st)" "mt_RebootRequired st"
    by (simp add: maintenance_State_def demo_maintenance_def NewMaintenanceManager_def extensionState_def ext_State_def updex_part_def
        sysext_part_def hostImageState_def bootedAt_def string_Fields_def decode_rune_def is_space_def Let_def)
  have "cache_ok m' \<and> (mt_RebootRequired st \<longleftrightarrow> mt_RebootReasons st \<noteq> [])"
    using reboot_required_exact[OF c _ _ st(1)] by (simp add: demo_maintenance_def NewMaintenanceManager_def)
  then show ?thesis using st by blast
qed

end
