(* ===== verification/Auto_Update.thy ===== *)
theory Auto_Update
  imports Unit_Managers
begin

text \<open>
  The report on automatic updates (\<open>internal/modules/maintenance\<close>: \<open>autoupdate.go\<close>, \<open>autoupdate_rpmostree.go\<close>,
  \<open>autoupdate_manager.go\<close>). The D-Bus client is the record of \<open>Unit_Managers\<close>, whose Go interface is the same; reading
  a file is a function of the manager's record.
\<close>

section \<open>Policies\<close>

definition BootcPolicyApply :: string where "BootcPolicyApply = ''apply''"
definition BootcPolicyCustomUnknown :: string where "BootcPolicyCustomUnknown = ''custom/unknown''"
definition BootcPolicyStageOnly :: string where "BootcPolicyStageOnly = ''stage-only''"

definition NormalizeBootcAutoUpdatePolicy :: "string list \<Rightarrow> string list \<Rightarrow> string \<times> bool \<times> bool" where
  "NormalizeBootcAutoUpdatePolicy service timer =
     (let s = (length service > 0); t = (length timer > 0) in
      if s \<or> t then (BootcPolicyCustomUnknown, s, t) else (BootcPolicyApply, s, t))"

definition RPMOStreePolicyNone :: string where "RPMOStreePolicyNone = ''none''"
definition RPMOStreePolicyCheck :: string where "RPMOStreePolicyCheck = ''check''"
definition RPMOStreePolicyStage :: string where "RPMOStreePolicyStage = ''stage''"
definition RPMOStreePolicyApply :: string where "RPMOStreePolicyApply = ''apply''"
definition RPMOStreePolicyCustomUnknown :: string where "RPMOStreePolicyCustomUnknown = ''custom/unknown''"

definition rpmOStreeDaemonConfigGroup :: string where "rpmOStreeDaemonConfigGroup = ''Daemon''"
definition rpmOStreeAutoUpdatePolicyKey :: string where "rpmOStreeAutoUpdatePolicyKey = ''AutomaticUpdatePolicy''"

text \<open>\<open>scan_line\<close> is one round of the loop over the lines: whether the group is \<open>Daemon\<close>, and the value found so far.\<close>

definition scan_line :: "string \<Rightarrow> string \<Rightarrow> bool \<times> string option \<Rightarrow> bool \<times> string option" where
  "scan_line key line st = (case st of (inDaemonGroup, value) \<Rightarrow>
     let trimmed = trim_space (if suffix [CHR 0x0D] line then butlast line else line) in
     if trimmed = [] \<or> prefix ''#'' trimmed then st
     else if prefix ''['' trimmed \<and> suffix '']'' trimmed
     then (take (length trimmed - 2) (drop 1 trimmed) = rpmOStreeDaemonConfigGroup, value)
     else if \<not> inDaemonGroup then st
     else (case cut (CHR ''='') trimmed of
         None \<Rightarrow> st
       | Some (name, raw) \<Rightarrow> if trim_space name \<noteq> key then st else (inDaemonGroup, Some (trim_space raw))))"

definition rpmOStreeDaemonConfigValue :: "string \<Rightarrow> string \<Rightarrow> string option" where
  "rpmOStreeDaemonConfigValue config key = snd (fold (scan_line key) (split_on (CHR 0x0A) config) (False, None))"

definition ParseRPMOStreeAutomaticUpdatePolicy :: "string \<Rightarrow> string" where
  "ParseRPMOStreeAutomaticUpdatePolicy config = (case rpmOStreeDaemonConfigValue config rpmOStreeAutoUpdatePolicyKey of
     None \<Rightarrow> RPMOStreePolicyCustomUnknown
   | Some value \<Rightarrow>
       if value = ''none'' \<or> value = ''off'' then RPMOStreePolicyNone
       else if value = ''check'' then RPMOStreePolicyCheck
       else if value = ''stage'' \<or> value = ''ex-stage'' then RPMOStreePolicyStage
       else if value = ''apply'' then RPMOStreePolicyApply
       else RPMOStreePolicyCustomUnknown)"

section \<open>The manager\<close>

text \<open>\<open>BootcAutoUpdate\<close> and \<open>RPMOStreeAutoUpdate\<close> have the same fields.\<close>

record auto_update =
  au_NextTrigger :: int
  au_Policy :: string
  au_ServiceActiveState :: string
  au_ServiceDropinsPresent :: bool
  au_ServiceResult :: string
  au_TimerActiveState :: string
  au_TimerDropinsPresent :: bool
  au_TimerUnitFileState :: string

record auto_update_status =
  ax_Bootc :: "auto_update option"
  ax_BootcConfigured :: bool
  ax_RPMOStree :: "auto_update option"
  ax_RPMOStreeConfigured :: bool

record 'w auto_update_manager =
  am_bootcConfigured :: bool
  am_client :: "'w timers_client option"
  am_root :: string
  am_rpmOStreeConfigured :: bool
  am_ReadFile :: "string \<Rightarrow> 'w \<Rightarrow> string result"

definition NewAutoUpdateManager ::
  "(string \<Rightarrow> 'w \<Rightarrow> string result) \<Rightarrow> 'w timers_client option \<Rightarrow> bool \<Rightarrow> bool \<Rightarrow> string \<Rightarrow> 'w auto_update_manager" where
  "NewAutoUpdateManager readf client b r root = \<lparr>am_bootcConfigured = b, am_client = client, am_root = (if root = [] then ''/'' else root),
     am_rpmOStreeConfigured = r, am_ReadFile = readf\<rparr>"

definition bootcAutoUpdateServiceUnit :: string where "bootcAutoUpdateServiceUnit = ''bootc-fetch-apply-updates.service''"
definition bootcAutoUpdateTimerUnit :: string where "bootcAutoUpdateTimerUnit = ''bootc-fetch-apply-updates.timer''"
definition rpmOStreeAutoUpdateServiceUnit :: string where "rpmOStreeAutoUpdateServiceUnit = ''rpm-ostreed-automatic.service''"
definition rpmOStreeAutoUpdateTimerUnit :: string where "rpmOStreeAutoUpdateTimerUnit = ''rpm-ostreed-automatic.timer''"
definition rpmOStreeConfigFile :: string where "rpmOStreeConfigFile = ''etc/rpm-ostreed.conf''"

definition autoUpdateStringProperty :: "(string, dbus_value) gomap \<Rightarrow> string \<Rightarrow> string" where
  "autoUpdateStringProperty props name = (case map_of props name of Some (DString s) \<Rightarrow> s | _ \<Rightarrow> [])"

definition autoUpdateStringsProperty :: "(string, dbus_value) gomap \<Rightarrow> string \<Rightarrow> string list \<times> bool" where
  "autoUpdateStringsProperty props name = (case map_of props name of Some (DStrings xs) \<Rightarrow> (xs, True) | _ \<Rightarrow> ([], False))"

definition autoUpdateUsecProperty :: "(string, dbus_value) gomap \<Rightarrow> string \<Rightarrow> int option" where
  "autoUpdateUsecProperty props name = (case map_of props name of
     Some (DUint64 v) \<Rightarrow> if uint v \<le> int64_max then Some (uint v) else None | _ \<Rightarrow> None)"

definition autoUpdateUsecTime :: "int \<Rightarrow> int" where
  "autoUpdateUsecTime v = (if v = 0 then zero_time else 1000 * v)"

record unit_pair =
  up_nextTrigger :: int
  up_serviceActiveState :: string
  up_serviceDropIns :: "string list \<times> bool"
  up_serviceResult :: string
  up_timerActiveState :: string
  up_timerDropIns :: "string list \<times> bool"
  up_timerUnitFileState :: string

definition zero_pair :: unit_pair where
  "zero_pair = \<lparr>up_nextTrigger = zero_time, up_serviceActiveState = [], up_serviceDropIns = ([], False), up_serviceResult = [],
     up_timerActiveState = [], up_timerDropIns = ([], False), up_timerUnitFileState = []\<rparr>"

text \<open>One property read: \<open>upd\<close> is what the code does with the properties; a failed read changes nothing.\<close>

definition read_props :: "('w, (string, dbus_value) gomap result) call \<Rightarrow> ((string, dbus_value) gomap \<Rightarrow> unit_pair \<Rightarrow> unit_pair) \<Rightarrow> unit_pair \<Rightarrow> ('w, unit_pair) call" where
  "read_props get upd pair w = (case get w of (w1, Inl _) \<Rightarrow> (w1, pair) | (w1, Inr props) \<Rightarrow> (w1, upd props pair))"

definition timer_unit :: "(string, dbus_value) gomap \<Rightarrow> unit_pair \<Rightarrow> unit_pair" where
  "timer_unit props pair = pair\<lparr>up_timerActiveState := autoUpdateStringProperty props ''ActiveState'',
     up_timerUnitFileState := autoUpdateStringProperty props ''UnitFileState'', up_timerDropIns := autoUpdateStringsProperty props ''DropInPaths''\<rparr>"

definition timer_schedule :: "(string, dbus_value) gomap \<Rightarrow> unit_pair \<Rightarrow> unit_pair" where
  "timer_schedule props pair = (case autoUpdateUsecProperty props ''NextElapseUSecRealtime'' of
     None \<Rightarrow> pair | Some v \<Rightarrow> pair\<lparr>up_nextTrigger := autoUpdateUsecTime v\<rparr>)"

definition service_unit_state :: "(string, dbus_value) gomap \<Rightarrow> unit_pair \<Rightarrow> unit_pair" where
  "service_unit_state props pair = pair\<lparr>up_serviceActiveState := autoUpdateStringProperty props ''ActiveState'',
     up_serviceDropIns := autoUpdateStringsProperty props ''DropInPaths''\<rparr>"

definition service_outcome :: "(string, dbus_value) gomap \<Rightarrow> unit_pair \<Rightarrow> unit_pair" where
  "service_outcome props pair = pair\<lparr>up_serviceResult := autoUpdateStringProperty props ''Result''\<rparr>"

definition readUnitPair :: "'w auto_update_manager \<Rightarrow> string \<Rightarrow> string \<Rightarrow> ('w, unit_pair) call" where
  "readUnitPair m timer service w = (case am_client m of
     None \<Rightarrow> (w, zero_pair)
   | Some c \<Rightarrow> (let (w1, p1) = read_props (tm_GetUnitProperties c timer) timer_unit zero_pair w;
         (w2, p2) = read_props (tm_GetUnitTypeProperties c timer ''Timer'') timer_schedule p1 w1;
         (w3, p3) = read_props (tm_GetUnitProperties c service) service_unit_state p2 w2
       in read_props (tm_GetUnitTypeProperties c service ''Service'') service_outcome p3 w3))"

definition bootcAutoUpdate :: "'w auto_update_manager \<Rightarrow> ('w, auto_update) call" where
  "bootcAutoUpdate m w = (case readUnitPair m bootcAutoUpdateTimerUnit bootcAutoUpdateServiceUnit w of (w1, pair) \<Rightarrow>
     (w1, let update = \<lparr>au_NextTrigger = up_nextTrigger pair, au_Policy = BootcPolicyCustomUnknown, au_ServiceActiveState = up_serviceActiveState pair,
               au_ServiceDropinsPresent = False, au_ServiceResult = up_serviceResult pair, au_TimerActiveState = up_timerActiveState pair,
               au_TimerDropinsPresent = False, au_TimerUnitFileState = up_timerUnitFileState pair\<rparr>
          in if snd (up_serviceDropIns pair) \<and> snd (up_timerDropIns pair)
             then (case NormalizeBootcAutoUpdatePolicy (fst (up_serviceDropIns pair)) (fst (up_timerDropIns pair)) of (policy, s, t) \<Rightarrow>
               update\<lparr>au_Policy := policy, au_ServiceDropinsPresent := s, au_TimerDropinsPresent := t\<rparr>)
             else update))"

definition rpmOStreeConfig :: "'w auto_update_manager \<Rightarrow> 'w \<Rightarrow> string" where
  "rpmOStreeConfig m w = (case am_ReadFile m (path_join (am_root m) rpmOStreeConfigFile) w of Inl _ \<Rightarrow> [] | Inr config \<Rightarrow> config)"

definition rpmOStreeAutoUpdate :: "'w auto_update_manager \<Rightarrow> ('w, auto_update) call" where
  "rpmOStreeAutoUpdate m w = (case readUnitPair m rpmOStreeAutoUpdateTimerUnit rpmOStreeAutoUpdateServiceUnit w of (w1, pair) \<Rightarrow>
     (w1, \<lparr>au_NextTrigger = up_nextTrigger pair, au_Policy = ParseRPMOStreeAutomaticUpdatePolicy (rpmOStreeConfig m w1),
           au_ServiceActiveState = up_serviceActiveState pair, au_ServiceDropinsPresent = length (fst (up_serviceDropIns pair)) > 0,
           au_ServiceResult = up_serviceResult pair, au_TimerActiveState = up_timerActiveState pair,
           au_TimerDropinsPresent = length (fst (up_timerDropIns pair)) > 0, au_TimerUnitFileState = up_timerUnitFileState pair\<rparr>))"

definition autoUpdate_Status :: "'w auto_update_manager \<Rightarrow> ('w, auto_update_status result) call" where
  "autoUpdate_Status m w =
     (let (w1, bootc) = (if am_bootcConfigured m then apsnd Some (bootcAutoUpdate m w) else (w, None));
          (w2, rpm) = (if am_rpmOStreeConfigured m then apsnd Some (rpmOStreeAutoUpdate m w1) else (w1, None))
      in (w2, Inr \<lparr>ax_Bootc = bootc, ax_BootcConfigured = am_bootcConfigured m, ax_RPMOStree = rpm,
            ax_RPMOStreeConfigured = am_rpmOStreeConfigured m\<rparr>))"

section \<open>Nothing is claimed that was not seen\<close>

text \<open>A unit whose list of drop-ins systemd gave and which was empty.\<close>

definition seen_unmodified :: "'w auto_update_manager \<Rightarrow> string \<Rightarrow> bool" where
  "seen_unmodified m u \<longleftrightarrow> (\<exists>c w w' props. am_client m = Some c \<and> tm_GetUnitProperties c u w = (w', Inr props) \<and>
     map_of props ''DropInPaths'' = Some (DStrings []))"

lemma strings_known: "autoUpdateStringsProperty props name = (xs, True) \<longleftrightarrow> map_of props name = Some (DStrings xs)"
  by (auto simp: autoUpdateStringsProperty_def split: option.splits dbus_value.splits)

lemma read_props_cases:
  assumes "read_props get upd pair w = (w', pair')"
  obtains (failed) "pair' = pair" | (answered) props where "get w = (w', Inr props)" "pair' = upd props pair"
  using assms by (auto simp: read_props_def split: prod.splits sum.splits)

lemma unmodified_seen:
  assumes "read_props (tm_GetUnitProperties c u) upd pair w = (w', pair')" "am_client m = Some c"
    "drops pair \<noteq> ([], True)" "\<And>props. drops (upd props pair) = autoUpdateStringsProperty props ''DropInPaths''" "drops pair' = ([], True)"
  shows "seen_unmodified m u"
  using assms(1) assms(2-) by (cases rule: read_props_cases) (auto simp: seen_unmodified_def strings_known)

lemma kept_drops:
  assumes "read_props get upd pair w = (w', pair')" "\<And>props. drops (upd props pair) = drops pair"
  shows "drops pair' = drops pair"
  using assms by (cases rule: read_props_cases) auto

lemma readUnitPair_dropins:
  assumes "readUnitPair m timer service w = (w', pair)"
  shows "up_timerDropIns pair = ([], True) \<Longrightarrow> seen_unmodified m timer" "up_serviceDropIns pair = ([], True) \<Longrightarrow> seen_unmodified m service"
proof -
  have both: "(up_timerDropIns pair = ([], True) \<longrightarrow> seen_unmodified m timer) \<and> (up_serviceDropIns pair = ([], True) \<longrightarrow> seen_unmodified m service)"
  proof (cases "am_client m")
    case None
    then show ?thesis using assms by (auto simp: readUnitPair_def zero_pair_def)
  next
    case (Some c)
    obtain w1 p1 where 1: "read_props (tm_GetUnitProperties c timer) timer_unit zero_pair w = (w1, p1)" by fastforce
    obtain w2 p2 where 2: "read_props (tm_GetUnitTypeProperties c timer ''Timer'') timer_schedule p1 w1 = (w2, p2)" by fastforce
    obtain w3 p3 where 3: "read_props (tm_GetUnitProperties c service) service_unit_state p2 w2 = (w3, p3)" by fastforce
    have 4: "read_props (tm_GetUnitTypeProperties c service ''Service'') service_outcome p3 w3 = (w', pair)"
      using assms Some 1 2 3 by (simp add: readUnitPair_def)
    have t: "up_timerDropIns pair = up_timerDropIns p1"
      using kept_drops[OF 2, of up_timerDropIns] kept_drops[OF 3, of up_timerDropIns] kept_drops[OF 4, of up_timerDropIns]
      by (simp add: timer_schedule_def service_unit_state_def service_outcome_def split: option.split)
    have s: "up_serviceDropIns pair = up_serviceDropIns p3" "up_serviceDropIns p2 = ([], False)"
      using kept_drops[OF 1, of up_serviceDropIns] kept_drops[OF 2, of up_serviceDropIns] kept_drops[OF 4, of up_serviceDropIns]
      by (simp_all add: timer_unit_def timer_schedule_def service_outcome_def zero_pair_def split: option.split)
    show ?thesis
      using unmodified_seen[OF 1 Some, of up_timerDropIns] unmodified_seen[OF 3 Some, of up_serviceDropIns] t s
      by (simp add: timer_unit_def service_unit_state_def zero_pair_def)
  qed
  show "seen_unmodified m timer" if "up_timerDropIns pair = ([], True)" using both that by blast
  show "seen_unmodified m service" if "up_serviceDropIns pair = ([], True)" using both that by blast
qed

text \<open>What a line of the configuration is, and the group it stands in: the last header before it.\<close>

datatype config_line = Ignored | Header string | Assignment string string

definition line_kind :: "string \<Rightarrow> config_line" where
  "line_kind line = (let trimmed = trim_space (if suffix [CHR 0x0D] line then butlast line else line) in
     if trimmed = [] \<or> prefix ''#'' trimmed then Ignored
     else if prefix ''['' trimmed \<and> suffix '']'' trimmed then Header (take (length trimmed - 2) (drop 1 trimmed))
     else (case cut (CHR ''='') trimmed of None \<Rightarrow> Ignored | Some (name, raw) \<Rightarrow> Assignment (trim_space name) (trim_space raw)))"

definition group_at :: "string list \<Rightarrow> nat \<Rightarrow> string \<Rightarrow> bool" where
  "group_at ls i g \<longleftrightarrow> (\<exists>j < i. line_kind (ls ! j) = Header g \<and> (\<forall>k. j < k \<and> k < i \<longrightarrow> (\<nexists>h. line_kind (ls ! k) = Header h)))"

definition effective :: "string list \<Rightarrow> string \<Rightarrow> string \<Rightarrow> nat \<Rightarrow> string \<Rightarrow> bool" where
  "effective ls g key i v \<longleftrightarrow> i < length ls \<and> group_at ls i g \<and> line_kind (ls ! i) = Assignment key v"

lemma scan_line_kind:
  "scan_line key line (g, value) = (case line_kind line of
     Ignored \<Rightarrow> (g, value) | Header h \<Rightarrow> (h = rpmOStreeDaemonConfigGroup, value)
   | Assignment name v \<Rightarrow> (g, if g \<and> name = key then Some v else value))"
  by (auto simp: scan_line_def line_kind_def Let_def split: option.splits)

lemma group_at_append: "i \<le> length ls \<Longrightarrow> group_at (ls @ ls') i g = group_at ls i g"
  by (simp add: group_at_def nth_append cong: conj_cong)

lemma group_at_Suc:
  "group_at (ls @ [l]) (Suc (length ls)) g = (case line_kind l of Header h \<Rightarrow> h = g | _ \<Rightarrow> group_at ls (length ls) g)"
proof (cases "\<exists>h. line_kind l = Header h")
  case True
  then obtain h where h: "line_kind l = Header h" by blast
  have "h = g" if j: "j < Suc (length ls)" "line_kind ((ls @ [l]) ! j) = Header g"
      "\<forall>k. j < k \<and> k < Suc (length ls) \<longrightarrow> (\<nexists>h. line_kind ((ls @ [l]) ! k) = Header h)" for j
  proof (cases "j = length ls")
    case True
    then show ?thesis using j(2) h by simp
  next
    case False
    then show ?thesis using j(1) spec[OF j(3), of "length ls"] h by simp
  qed
  moreover have "group_at (ls @ [l]) (Suc (length ls)) h" unfolding group_at_def by (rule exI[of _ "length ls"]) (auto simp: h)
  ultimately show ?thesis using h by (auto simp: group_at_def)
next
  case False
  have "(\<exists>j < Suc (length ls). line_kind ((ls @ [l]) ! j) = Header g \<and> (\<forall>k. j < k \<and> k < Suc (length ls) \<longrightarrow> (\<nexists>h. line_kind ((ls @ [l]) ! k) = Header h))) =
    (\<exists>j < length ls. line_kind ((ls @ [l]) ! j) = Header g \<and> (\<forall>k. j < k \<and> k < length ls \<longrightarrow> (\<nexists>h. line_kind ((ls @ [l]) ! k) = Header h)))"
    using False by (metis less_Suc_eq nth_append_length)
  then have "group_at (ls @ [l]) (Suc (length ls)) g = group_at (ls @ [l]) (length ls) g" by (simp only: group_at_def)
  then show ?thesis using False by (simp add: group_at_append split: config_line.split)
qed

lemma effective_snoc:
  "effective (ls @ [l]) g key i v \<longleftrightarrow> effective ls g key i v \<or> (i = length ls \<and> group_at ls i g \<and> line_kind l = Assignment key v)"
  by (auto simp: effective_def nth_append group_at_append less_Suc_eq)

definition last_effective :: "string list \<Rightarrow> string \<Rightarrow> string \<Rightarrow> string option \<Rightarrow> bool" where
  "last_effective ls g key found \<longleftrightarrow> (case found of
     None \<Rightarrow> (\<nexists>i v. effective ls g key i v)
   | Some v \<Rightarrow> (\<exists>i. effective ls g key i v \<and> (\<nexists>j v'. i < j \<and> effective ls g key j v')))"

lemma effective_less: "effective ls g key i v \<Longrightarrow> i < length ls"
  by (simp add: effective_def)

lemma last_effective_keep:
  assumes "last_effective ls g key found" "\<And>i v. effective (ls @ [l]) g key i v = effective ls g key i v"
  shows "last_effective (ls @ [l]) g key found"
  using assms by (cases found) (simp_all add: last_effective_def)

lemma scan_spec:
  "\<exists>found. fold (scan_line key) ls (False, None) = (group_at ls (length ls) rpmOStreeDaemonConfigGroup, found) \<and>
     last_effective ls rpmOStreeDaemonConfigGroup key found"
proof (induction ls rule: rev_induct)
  case Nil
  show ?case by (simp add: group_at_def last_effective_def effective_def)
next
  case (snoc l ls)
  let ?D = rpmOStreeDaemonConfigGroup
  obtain found where st: "fold (scan_line key) ls (False, None) = (group_at ls (length ls) ?D, found)" and ok: "last_effective ls ?D key found"
    using snoc by blast
  have run: "fold (scan_line key) (ls @ [l]) (False, None) = scan_line key l (group_at ls (length ls) ?D, found)" using st by simp
  show ?case
  proof (cases "\<exists>v. group_at ls (length ls) ?D \<and> line_kind l = Assignment key v")
    case True
    then obtain v where v: "group_at ls (length ls) ?D" "line_kind l = Assignment key v" by blast
    have "effective (ls @ [l]) ?D key (length ls) v" using v by (simp add: effective_snoc)
    moreover have "\<not> effective (ls @ [l]) ?D key j v'" if "length ls < j" for j v' using that effective_less[of "ls @ [l]"] by fastforce
    ultimately have "last_effective (ls @ [l]) ?D key (Some v)" by (auto simp: last_effective_def)
    then show ?thesis using run v by (simp add: scan_line_kind group_at_Suc)
  next
    case False
    have "last_effective (ls @ [l]) ?D key found" using last_effective_keep[OF ok, of l] False by (auto simp: effective_snoc)
    then show ?thesis using run False by (auto simp: scan_line_kind group_at_Suc split: config_line.split)
  qed
qed

lemma config_value_last: "last_effective (split_on (CHR 0x0A) config) rpmOStreeDaemonConfigGroup key (rpmOStreeDaemonConfigValue config key)"
  using scan_spec[of key "split_on (CHR 0x0A) config"] by (auto simp: rpmOStreeDaemonConfigValue_def)

definition policy_meaning :: "string option \<Rightarrow> string" where
  "policy_meaning found = (case Option.bind found (map_of [(''none'', ''none''), (''off'', ''none''), (''check'', ''check''),
     (''stage'', ''stage''), (''ex-stage'', ''stage''), (''apply'', ''apply'')]) of None \<Rightarrow> ''custom/unknown'' | Some p \<Rightarrow> p)"

lemma policy_parsed:
  "ParseRPMOStreeAutomaticUpdatePolicy config = policy_meaning (rpmOStreeDaemonConfigValue config rpmOStreeAutoUpdatePolicyKey)"
  by (simp add: ParseRPMOStreeAutomaticUpdatePolicy_def policy_meaning_def RPMOStreePolicyNone_def RPMOStreePolicyCheck_def
      RPMOStreePolicyStage_def RPMOStreePolicyApply_def RPMOStreePolicyCustomUnknown_def split: option.split)

definition bootc_honest :: "'w auto_update_manager \<Rightarrow> auto_update option \<Rightarrow> bool" where
  "bootc_honest m r \<longleftrightarrow> (case r of None \<Rightarrow> \<not> am_bootcConfigured m
     | Some u \<Rightarrow> am_bootcConfigured m \<and> (au_Policy u = BootcPolicyCustomUnknown \<or>
         (au_Policy u = BootcPolicyApply \<and> seen_unmodified m bootcAutoUpdateTimerUnit \<and> seen_unmodified m bootcAutoUpdateServiceUnit)))"

lemma bootcAutoUpdate_honest:
  assumes "bootcAutoUpdate m w = (w', u)"
  shows "au_Policy u = BootcPolicyCustomUnknown \<or>
    (au_Policy u = BootcPolicyApply \<and> seen_unmodified m bootcAutoUpdateTimerUnit \<and> seen_unmodified m bootcAutoUpdateServiceUnit)"
proof -
  obtain w1 pair where p: "readUnitPair m bootcAutoUpdateTimerUnit bootcAutoUpdateServiceUnit w = (w1, pair)" by fastforce
  obtain s sk t tk where d: "up_serviceDropIns pair = (s, sk)" "up_timerDropIns pair = (t, tk)" by fastforce
  show ?thesis
  proof (cases "sk \<and> tk \<and> s = [] \<and> t = []")
    case True
    then show ?thesis using assms p d readUnitPair_dropins[OF p] by (auto simp: bootcAutoUpdate_def NormalizeBootcAutoUpdatePolicy_def)
  next
    case False
    then show ?thesis using assms p d by (auto simp: bootcAutoUpdate_def NormalizeBootcAutoUpdatePolicy_def Let_def split: if_splits)
  qed
qed

lemma rpmOStreeAutoUpdate_policy:
  assumes "rpmOStreeAutoUpdate m w = (w', u)"
  shows "\<exists>found. au_Policy u = policy_meaning found \<and>
    last_effective (split_on (CHR 0x0A) (rpmOStreeConfig m w')) ''Daemon'' ''AutomaticUpdatePolicy'' found"
proof -
  have "au_Policy u = ParseRPMOStreeAutomaticUpdatePolicy (rpmOStreeConfig m w')" using assms by (auto simp: rpmOStreeAutoUpdate_def split: prod.splits)
  then show ?thesis
    using config_value_last[of "rpmOStreeConfig m w'" rpmOStreeAutoUpdatePolicyKey]
    by (auto simp: policy_parsed rpmOStreeDaemonConfigGroup_def rpmOStreeAutoUpdatePolicyKey_def)
qed

text \<open>C38. The report on automatic updates claims nothing that was not seen. An updater has a report exactly where it is
  configured. That bootc applies updates is claimed only when systemd gave the drop-ins of both of its units and there
  were none. The policy of rpm-ostree is the meaning of the last assignment to its key in the \<open>Daemon\<close> group
  of its configuration file, and unknown where the file cannot be read or has none.\<close>

theorem auto_update_honest:
  "case snd (autoUpdate_Status m w) of Inl _ \<Rightarrow> False | Inr st \<Rightarrow>
     bootc_honest m (ax_Bootc st) \<and>
     (case ax_RPMOStree st of None \<Rightarrow> \<not> am_rpmOStreeConfigured m
      | Some u \<Rightarrow> am_rpmOStreeConfigured m \<and> (\<exists>found. au_Policy u = policy_meaning found \<and>
          last_effective (split_on (CHR 0x0A) (rpmOStreeConfig m (fst (autoUpdate_Status m w)))) ''Daemon'' ''AutomaticUpdatePolicy'' found))"
proof -
  obtain w1 b where b: "(if am_bootcConfigured m then apsnd Some (bootcAutoUpdate m w) else (w, None)) = (w1, b)" by fastforce
  obtain w2 r where r: "(if am_rpmOStreeConfigured m then apsnd Some (rpmOStreeAutoUpdate m w1) else (w1, None)) = (w2, r)" by fastforce
  have st: "autoUpdate_Status m w = (w2, Inr \<lparr>ax_Bootc = b, ax_BootcConfigured = am_bootcConfigured m, ax_RPMOStree = r,
      ax_RPMOStreeConfigured = am_rpmOStreeConfigured m\<rparr>)"
    using b r by (simp add: autoUpdate_Status_def)
  have bootc: "bootc_honest m b"
    using b bootcAutoUpdate_honest[of m w]
    by (cases "bootcAutoUpdate m w") (auto simp: bootc_honest_def split: if_splits)
  have rpm: "case r of None \<Rightarrow> \<not> am_rpmOStreeConfigured m
      | Some u \<Rightarrow> am_rpmOStreeConfigured m \<and> (\<exists>found. au_Policy u = policy_meaning found \<and>
          last_effective (split_on (CHR 0x0A) (rpmOStreeConfig m w2)) ''Daemon'' ''AutomaticUpdatePolicy'' found)"
    using r rpmOStreeAutoUpdate_policy[of m w1]
    by (cases "rpmOStreeAutoUpdate m w1") (auto split: if_splits)
  show ?thesis unfolding st using bootc rpm by (cases r) simp_all
qed

end
