(* ===== verification/Daemon_Managers.thy ===== *)
theory Daemon_Managers
  imports Daemon_Policy Incus_Manager Journal_Logs Maintenance Auto_Update
begin

text \<open>
  The managers of \<open>Unit_Managers\<close>, \<open>Journal_Logs\<close>, \<open>Engines\<close>, \<open>Incus_Manager\<close>, \<open>Extensions\<close>, \<open>Host_Image\<close> and \<open>Auto_Update\<close> behind the interfaces that the daemon registers, and
  what that composition promises. The encodings of answers as JSON are arguments.
\<close>

definition answer :: "('a \<Rightarrow> 'q) \<Rightarrow> 'w \<times> 'a result \<Rightarrow> 'w \<times> 'q result" where
  "answer enc = apsnd (map_sum id enc)"

definition services_calls :: "(services_state \<Rightarrow> 'q) \<Rightarrow> (unit_journal \<Rightarrow> 'q) \<Rightarrow> 'w services_manager \<Rightarrow> ('w, 'q) services_iface" where
  "services_calls encs encj m = \<lparr>si_Disable = (\<lambda>_. services_Disable m), si_Enable = (\<lambda>_. services_Enable m), si_ResetFailed = (\<lambda>_. services_ResetFailed m),
     si_Restart = (\<lambda>_. services_Restart m), si_Start = (\<lambda>_. services_Start m), si_Stop = (\<lambda>_. services_Stop m),
     si_State = (\<lambda>_ w. answer encs (services_State m w)), si_Journal = (\<lambda>_ name w. answer encj (services_Journal m name w))\<rparr>"

definition podman_calls ::
  "(string \<Rightarrow> string) \<Rightarrow> (string \<Rightarrow> bool) \<Rightarrow> (podman_state \<Rightarrow> 'q) \<Rightarrow> (engine_logs option \<Rightarrow> 'q) \<Rightarrow> 'w podman_client \<Rightarrow> ('w, 'q) engine_iface" where
  "podman_calls lower rfc encs encl c = \<lparr>ei_Logs = (\<lambda>_ i w. answer encl (podman_Logs lower rfc c i w)), ei_State = (\<lambda>_ w. answer encs (podman_State lower c w)),
     ei_Remove = (\<lambda>_. podman_Remove lower c), ei_RemoveImage = (\<lambda>_. podman_RemoveImage c), ei_Restart = (\<lambda>_. podman_Restart lower c),
     ei_Start = (\<lambda>_. podman_Start lower c), ei_Stop = (\<lambda>_. podman_Stop lower c)\<rparr>"

definition docker_calls ::
  "(string \<Rightarrow> bool) \<Rightarrow> (docker_state \<Rightarrow> 'q) \<Rightarrow> (engine_logs option \<Rightarrow> 'q) \<Rightarrow> 'w docker_client \<Rightarrow> ('w, 'q) engine_iface" where
  "docker_calls rfc encs encl c = \<lparr>ei_Logs = (\<lambda>_ i w. answer encl (docker_Logs rfc c i w)), ei_State = (\<lambda>_ w. answer encs (docker_State c w)),
     ei_Remove = (\<lambda>_. docker_Remove c), ei_RemoveImage = (\<lambda>_. docker_RemoveImage c), ei_Restart = (\<lambda>_. docker_Restart c),
     ei_Start = (\<lambda>_. docker_Start c), ei_Stop = (\<lambda>_. docker_Stop c)\<rparr>"

definition logs_calls :: "(string \<Rightarrow> string) \<Rightarrow> (logs_state \<Rightarrow> 'q) \<Rightarrow> 'w logs_manager \<Rightarrow> ctx \<Rightarrow> params \<Rightarrow> ('w, 'q result) call" where
  "logs_calls lower enc m ctx ps w = (case ParseBrokerFilters lower ps of
     Inl e \<Rightarrow> (w, Inl e) | Inr filters \<Rightarrow> answer enc (logs_Logs lower m filters w))"

definition backups_calls :: "(int \<Rightarrow> string) \<Rightarrow> (backups_state \<Rightarrow> 'q) \<Rightarrow> 'w backups_manager \<Rightarrow> ctx \<Rightarrow> ('w, 'q result) call" where
  "backups_calls dur enc m ctx w = answer enc (backups_State dur m w)"

definition incus_calls ::
  "(string \<Rightarrow> string) \<Rightarrow> (error \<Rightarrow> string) \<Rightarrow> (int \<Rightarrow> string) \<Rightarrow> (incus_state \<Rightarrow> 'q) \<Rightarrow> (incus_detail \<Rightarrow> 'q) \<Rightarrow> (incus_logs \<Rightarrow> 'q) \<Rightarrow>
     (network_detail \<Rightarrow> 'q) \<Rightarrow> (profile_detail \<Rightarrow> 'q) \<Rightarrow> 'w incus_client \<Rightarrow> ('w, 'q) incus_iface" where
  "incus_calls lower message_of rfc3339 encs encd encl encn encp c =
     \<lparr>ii_State = (\<lambda>_ p w. answer encs (incus_State lower message_of rfc3339 c p w)),
      ii_Detail = (\<lambda>_ p n w. answer encd (incus_Detail rfc3339 c p n w)), ii_Logs = (\<lambda>_ p n source w. answer encl (incus_Logs c p n source w)),
      ii_NetworkDetail = (\<lambda>_ p n w. answer encn (incus_NetworkDetail c p n w)), ii_ProfileDetail = (\<lambda>_ p n w. answer encp (incus_ProfileDetail c p n w)),
      ii_Remove = (\<lambda>_. incus_Remove rfc3339 c), ii_RemoveImage = (\<lambda>_. incus_RemoveImage rfc3339 c), ii_Restart = (\<lambda>_. incus_Restart rfc3339 c),
      ii_Start = (\<lambda>_. incus_Start rfc3339 c), ii_Stop = (\<lambda>_. incus_Stop rfc3339 c), ii_StopForce = (\<lambda>_. incus_StopForce rfc3339 c),
      ii_CreateInstance = (\<lambda>_. incus_CreateInstance rfc3339 c), ii_CreateSnapshot = (\<lambda>_. incus_CreateSnapshot c),
      ii_DeleteSnapshot = (\<lambda>_. incus_DeleteSnapshot c), ii_RestoreSnapshot = (\<lambda>_. incus_RestoreSnapshot c)\<rparr>"

definition sysext_calls :: "ext_codec \<Rightarrow> (error \<Rightarrow> string) \<Rightarrow> (extensions_state \<Rightarrow> 'q) \<Rightarrow> 'w ext_manager \<Rightarrow> ('w, 'q) sysext_iface" where
  "sysext_calls J message_of enc m = \<lparr>xi_Disable = (\<lambda>_. ext_Disable J m), xi_Enable = (\<lambda>_. ext_Enable J m), xi_Refresh = (\<lambda>_. ext_Refresh m),
     xi_Update = (\<lambda>_. ext_Update m), xi_State = (\<lambda>_ u s w. answer enc (ext_State J message_of m u s w))\<rparr>"

definition hostImage_calls :: "image_codec \<Rightarrow> (error \<Rightarrow> string) \<Rightarrow> (host_image_status \<Rightarrow> 'q) \<Rightarrow> 'w host_image_manager \<Rightarrow> ctx \<Rightarrow> ('w, 'q result) call" where
  "hostImage_calls C message_of enc m ctx w = answer enc (hostImage_Status C message_of m w)"

definition autoUpdate_calls :: "(auto_update_status \<Rightarrow> 'q) \<Rightarrow> 'w auto_update_manager \<Rightarrow> ctx \<Rightarrow> ('w, 'q result) call" where
  "autoUpdate_calls enc m ctx w = answer enc (autoUpdate_Status m w)"

section \<open>The daemon and its own services\<close>

text \<open>An action whose handler refuses a unit, whoever asks, and leaves the system as it was.\<close>

definition refuses :: "'w action_definition \<Rightarrow> string \<Rightarrow> bool" where
  "refuses d name \<longleftrightarrow> (\<exists>h. ad_Handler d = Some h \<and> (\<forall>ctx ident w. \<exists>e. h ctx ident [(''unit'', name)] w = (w, Some e)))"

lemma registered_entry:
  assumes "d \<in> set (actions_of (daemon_registrations M caps))"
  shows "map_of (map action_entry (actions_of (daemon_registrations M caps))) (ad_ID d) = Some (action_stored d)"
proof -
  have "map ad_ID (actions_of (daemon_registrations M caps)) = map fst (selected (action_table M (caps_of caps)))"
    using arg_cong[OF registered_actions, of "map fst"] by (simp add: o_def)
  then have "distinct (map ad_ID (actions_of (daemon_registrations M caps)))" using distinct_selected[OF action_ids_distinct] by metis
  then show ?thesis using assms by (intro map_of_is_SomeI) (auto simp: action_entry_def o_def)
qed

lemma refuses_stored [simp]: "refuses (action_stored d) name = refuses d name"
  by (simp add: refuses_def action_stored_def)

lemma own_services_refused:
  assumes "name \<in> {''pilothouse.service'', ''pilothoused.service''}"
  shows "services_Stop m name w = (w, Some (Errorf ''%s cannot be %sd'' [name, ''stop'']))"
    "services_Disable m name w = (w, Some (Errorf ''%s cannot be %sd'' [name, ''disable'']))"
  using assms protected_valid[of name]
  by (simp_all add: services_Stop_def services_job_def services_Disable_def validateUnit_def protectedUnits_def)

lemma named_refuses:
  assumes "\<And>ctx w. \<exists>e. handler ctx name w = (w, Some e)"
  shows "refuses (named_action ''unit'' (action_of confirmation i res handler)) name"
  using assms by (auto simp: refuses_def named_action_def action_of_def zero_action_def param_def)

lemma services_stop_registered:
  assumes "Systemd \<in> caps_of caps" "ms_services M = Some S"
  shows "named_action ''unit'' (action_of True ActionServicesStop ''services/unit'' (si_Stop S)) \<in> set (actions_of (daemon_registrations M caps))"
    "named_action ''unit'' (action_of True ActionServicesDisable ''services/unit'' (si_Disable S)) \<in> set (actions_of (daemon_registrations M caps))"
  using assms by (simp_all add: daemon_registrations_def registerServices_def registerNamedActions_def cap_Has_iff)

lemma named_id [simp]: "ad_ID (named_action p (action_of confirmation i res handler)) = i"
  by (simp add: named_action_def action_of_def)

lemma services_stop_absent:
  assumes "Systemd \<notin> caps_of caps" "i \<in> {ActionServicesStop, ActionServicesDisable}"
  shows "map_of (map action_entry (actions_of (daemon_registrations M caps))) i = None"
proof -
  have "ad_ID ` set (actions_of (daemon_registrations M caps)) = fst ` set (selected (action_table M (caps_of caps)))"
    using arg_cong[OF registered_actions[of M caps], of "\<lambda>xs. fst ` set xs"] by (simp add: image_image)
  moreover have "i \<notin> fst ` set (selected (action_table M (caps_of caps)))"
    using assms by (auto simp: selected_def action_table_def action_id_defs)
  ultimately show ?thesis by (simp add: map_of_eq_None_iff image_image)
qed

text \<open>C10. Through the whole daemon, with the systemd manager as it is, no request can take the console down: where the host
  has systemd, the registered actions that stop and disable units refuse both of the console's own services for
  every caller, administrators included, without asking systemd for anything; elsewhere they do not exist.\<close>

theorem daemon_spares_itself:
  fixes M :: "('w, 'q, 'r) managers"
  shows "\<exists>D. perform (daemon_registrations (M\<lparr>ms_services := Some (services_calls encs encj m)\<rparr>) caps) (new_registries auditStore jobStore rec) = Inr D \<and>
    (if Systemd \<in> caps_of caps
     then (\<exists>d. map_of (ar_actions (dr_actions D)) ActionServicesStop = Some d \<and> refuses d ''pilothouse.service'' \<and> refuses d ''pilothoused.service'') \<and>
          (\<exists>d. map_of (ar_actions (dr_actions D)) ActionServicesDisable = Some d \<and> refuses d ''pilothouse.service'' \<and> refuses d ''pilothoused.service'')
     else map_of (ar_actions (dr_actions D)) ActionServicesStop = None \<and> map_of (ar_actions (dr_actions D)) ActionServicesDisable = None)"
proof -
  define M' where "M' = M\<lparr>ms_services := Some (services_calls encs encj m)\<rparr>"
  obtain D where D: "perform (daemon_registrations M' caps) (new_registries auditStore jobStore rec) = Inr D"
      "map_of (ar_actions (dr_actions D)) = map_of (map action_entry (actions_of (daemon_registrations M' caps)))"
    using daemon_registers[of M' caps auditStore jobStore rec] by auto
  have S: "ms_services M' = Some (services_calls encs encj m)" by (simp add: M'_def)
  have "if Systemd \<in> caps_of caps
     then (\<exists>d. map_of (ar_actions (dr_actions D)) ActionServicesStop = Some d \<and> refuses d ''pilothouse.service'' \<and> refuses d ''pilothoused.service'') \<and>
          (\<exists>d. map_of (ar_actions (dr_actions D)) ActionServicesDisable = Some d \<and> refuses d ''pilothouse.service'' \<and> refuses d ''pilothoused.service'')
     else map_of (ar_actions (dr_actions D)) ActionServicesStop = None \<and> map_of (ar_actions (dr_actions D)) ActionServicesDisable = None"
  proof (cases "Systemd \<in> caps_of caps")
    case True
    note reg = services_stop_registered[OF True S, THEN registered_entry, unfolded named_id, folded D(2)]
    show ?thesis using True by (simp add: reg named_refuses services_calls_def own_services_refused)
  next
    case False
    then show ?thesis unfolding D(2) by (simp add: services_stop_absent)
  qed
  then show ?thesis using D(1) unfolding M'_def by blast
qed

end
