(* ===== verification/Daemon_Startup.thy ===== *)
theory Daemon_Startup
  imports Platform Remote_Manager
begin

text \<open>
  How the daemon starts (\<open>cmd/pilothoused/main.go\<close>): the bounded connection to systemd with its goroutine, the wait for
  a systemd job, the managers that exist only on such a connection, the optional docker client, the flag of backup
  timers, the choice of the storage enrichers and the Unix socket it listens on.
\<close>

section \<open>Connecting to systemd\<close>

text \<open>
  \<open>connectSystemdWithCloser\<close> is two goroutines: the dialer, which calls \<open>connect\<close> and then offers the result on an
  unbuffered channel or, once the connection's context is cancelled, closes the client itself; and the caller, which
  takes the result or gives up when its own context ends. \<open>cn_made\<close> records the client that \<open>connect\<close> returned.
\<close>

datatype 'c dialer = Idle | Dialing | Offering "'c option" "error option" | Done

datatype 'c caller = Selecting | Connected 'c | Unavailable

record 'c connect_state =
  cn_dialer :: "'c dialer"
  cn_caller :: "'c caller"
  cn_cancelled :: bool
  cn_expired :: bool
  cn_closed :: "'c list"
  cn_made :: "'c option"

definition connect_start :: "cap_set \<Rightarrow> 'c connect_state" where
  "connect_start caps = (if \<not> cap_Has caps Systemd
     then \<lparr>cn_dialer = Idle, cn_caller = Unavailable, cn_cancelled = False, cn_expired = False, cn_closed = [], cn_made = None\<rparr>
     else \<lparr>cn_dialer = Dialing, cn_caller = Selecting, cn_cancelled = False, cn_expired = False, cn_closed = [], cn_made = None\<rparr>)"

definition dial_returns :: "'c option \<Rightarrow> error option \<Rightarrow> 'c connect_state \<Rightarrow> 'c connect_state" where
  "dial_returns client err s = s\<lparr>cn_dialer := Offering client err, cn_made := client\<rparr>"

definition close_client :: "'c option \<Rightarrow> 'c connect_state \<Rightarrow> 'c connect_state" where
  "close_client client s = (case client of None \<Rightarrow> s | Some c \<Rightarrow> s\<lparr>cn_closed := cn_closed s @ [c]\<rparr>)"

definition receive_result :: "'c option \<Rightarrow> error option \<Rightarrow> 'c connect_state \<Rightarrow> 'c connect_state" where
  "receive_result client err s =
     (let err' = (if err = None \<and> client = None then Some (Errorf ''connector returned a nil systemd connection'' []) else err);
          s1 = s\<lparr>cn_dialer := Done\<rparr>
      in case err' of
           Some _ \<Rightarrow> (close_client client (s1\<lparr>cn_cancelled := True\<rparr>))\<lparr>cn_caller := Unavailable\<rparr>
         | None \<Rightarrow> s1\<lparr>cn_caller := (case client of Some c \<Rightarrow> Connected c | None \<Rightarrow> Unavailable)\<rparr>)"

definition give_up :: "'c connect_state \<Rightarrow> 'c connect_state" where
  "give_up s = s\<lparr>cn_cancelled := True, cn_caller := Unavailable\<rparr>"

definition discard_result :: "'c option \<Rightarrow> 'c connect_state \<Rightarrow> 'c connect_state" where
  "discard_result client s = (close_client client s)\<lparr>cn_dialer := Done\<rparr>"

inductive connect_step :: "'c connect_state \<Rightarrow> 'c connect_state \<Rightarrow> bool" where
  dialed: "cn_dialer s = Dialing \<Longrightarrow> connect_step s (dial_returns client err s)"
| expired: "connect_step s (s\<lparr>cn_expired := True\<rparr>)"
| received: "cn_dialer s = Offering client err \<Longrightarrow> cn_caller s = Selecting \<Longrightarrow> connect_step s (receive_result client err s)"
| gave_up: "cn_caller s = Selecting \<Longrightarrow> cn_expired s \<Longrightarrow> connect_step s (give_up s)"
| discarded: "cn_dialer s = Offering client err \<Longrightarrow> cn_cancelled s \<Longrightarrow> connect_step s (discard_result client s)"

inductive_cases connect_stepE: "connect_step s s'"

inductive connect_reachable :: "cap_set \<Rightarrow> 'c connect_state \<Rightarrow> bool" for caps where
  start: "connect_reachable caps (connect_start caps)"
| step: "connect_reachable caps s \<Longrightarrow> connect_step s s' \<Longrightarrow> connect_reachable caps s'"

text \<open>Where a client can be: with the dialer, with the caller, or closed.\<close>

definition connect_inv :: "cap_set \<Rightarrow> 'c connect_state \<Rightarrow> bool" where
  "connect_inv caps s \<longleftrightarrow>
     (\<not> cap_Has caps Systemd \<longrightarrow> cn_dialer s = Idle) \<and> (cn_dialer s = Idle \<longrightarrow> \<not> cap_Has caps Systemd \<and> cn_caller s = Unavailable) \<and>
     (cn_dialer s \<noteq> Idle \<and> cn_dialer s \<noteq> Done \<longrightarrow> (cn_caller s = Selecting \<and> \<not> cn_cancelled s \<or> cn_caller s = Unavailable \<and> cn_cancelled s) \<and> cn_closed s = []) \<and>
     (cn_dialer s = Idle \<or> cn_dialer s = Dialing \<longrightarrow> cn_made s = None \<and> cn_closed s = []) \<and>
     (\<forall>client err. cn_dialer s = Offering client err \<longrightarrow> cn_made s = client) \<and>
     (cn_dialer s = Done \<longrightarrow> cn_caller s = Unavailable \<and> cn_closed s = (case cn_made s of None \<Rightarrow> [] | Some c \<Rightarrow> [c]) \<and> cn_cancelled s \<or>
        (\<exists>c. cn_caller s = Connected c \<and> cn_made s = Some c \<and> cn_closed s = [] \<and> \<not> cn_cancelled s))"

lemma connect_inv_start: "connect_inv caps (connect_start caps)"
  by (simp add: connect_inv_def connect_start_def)

lemma connect_inv_step: "connect_step s s' \<Longrightarrow> connect_inv caps s \<Longrightarrow> connect_inv caps s'"
  by (induction rule: connect_step.induct)
    (auto simp: connect_inv_def dial_returns_def receive_result_def give_up_def discard_result_def close_client_def Let_def split: option.splits)

lemma connect_reachable_inv: "connect_reachable caps s \<Longrightarrow> connect_inv caps s"
  by (induction rule: connect_reachable.induct) (auto intro: connect_inv_start connect_inv_step)

section \<open>Units of remote mounts\<close>

text \<open>
  The unit controller of the remote mounts over the system bus. A job either reports its result or the wait ends with
  its context; \<open>dbus_await\<close> answers which.
\<close>

datatype job_end = JobResult string | ContextDone error

record 'w dbus =
  dbus_reload :: "'w \<Rightarrow> error option \<times> 'w"
  dbus_disable :: "string list \<Rightarrow> bool \<Rightarrow> 'w \<Rightarrow> error option \<times> 'w"
  dbus_enable :: "string list \<Rightarrow> bool \<Rightarrow> bool \<Rightarrow> 'w \<Rightarrow> error option \<times> 'w"
  dbus_start :: "string \<Rightarrow> string \<Rightarrow> 'w \<Rightarrow> error option \<times> 'w"
  dbus_stop :: "string \<Rightarrow> string \<Rightarrow> 'w \<Rightarrow> error option \<times> 'w"
  dbus_await :: "'w \<Rightarrow> job_end \<times> 'w"

definition waitForStorageUnitJob :: "'w dbus \<Rightarrow> string \<Rightarrow> (string \<Rightarrow> string \<Rightarrow> 'w \<Rightarrow> error option \<times> 'w) \<Rightarrow> 'w \<Rightarrow> error option \<times> 'w" where
  "waitForStorageUnitJob client u operation w = (case operation u ''replace'' w of
     (Some e, w1) \<Rightarrow> (Some e, w1)
   | (None, w1) \<Rightarrow> (case dbus_await client w1 of
       (JobResult r, w2) \<Rightarrow> if r \<noteq> ''done'' then (Some (Errorf ''systemd job for %s finished as %q'' [u, r]), w2) else (None, w2)
     | (ContextDone e, w2) \<Rightarrow> (Some e, w2)))"

definition storageUnitController :: "'w dbus \<Rightarrow> 'w unit_controller" where
  "storageUnitController client = \<lparr>uc_DaemonReload = dbus_reload client, uc_Disable = (\<lambda>u. dbus_disable client [u] False),
     uc_Enable = (\<lambda>u. dbus_enable client [u] False False),
     uc_Start = (\<lambda>u. waitForStorageUnitJob client u (dbus_start client)), uc_Stop = (\<lambda>u. waitForStorageUnitJob client u (dbus_stop client))\<rparr>"

text \<open>An operation on a unit succeeds only when its job ran to completion.\<close>

lemma unit_job_done:
  assumes "uc_Stop (storageUnitController client) u w = (None, w')"
  shows "\<exists>w1. dbus_stop client u ''replace'' w = (None, w1) \<and> dbus_await client w1 = (JobResult ''done'', w')"
  using assms by (auto simp: storageUnitController_def waitForStorageUnitJob_def split: prod.splits option.splits job_end.splits if_splits)

section \<open>Managers and clients\<close>

record ('r, 'b, 's, 'l) systemd_managers =
  sm_remoteManager :: "'r option"
  sm_backupManager :: "'b option"
  sm_servicesManager :: "'s option"
  sm_logsManager :: "'l option"

definition buildSystemdManagers :: "'c option \<Rightarrow> ('c \<Rightarrow> 'b result) \<Rightarrow> ('c \<Rightarrow> 's result) \<Rightarrow> ('c \<Rightarrow> 'l result) \<Rightarrow> ('c \<Rightarrow> 'r) \<Rightarrow>
    ('r, 'b, 's, 'l) systemd_managers result" where
  "buildSystemdManagers client newBackups newServices newLogs newRemote = (case client of
     None \<Rightarrow> Inr \<lparr>sm_remoteManager = None, sm_backupManager = None, sm_servicesManager = None, sm_logsManager = None\<rparr>
   | Some c \<Rightarrow> (case newBackups c of Inl e \<Rightarrow> Inl e | Inr b \<Rightarrow> (case newServices c of Inl e \<Rightarrow> Inl e | Inr s \<Rightarrow> (case newLogs c of Inl e \<Rightarrow> Inl e
     | Inr l \<Rightarrow> Inr \<lparr>sm_remoteManager = Some (newRemote c), sm_backupManager = Some b, sm_servicesManager = Some s, sm_logsManager = Some l\<rparr>))))"

definition connectDocker :: "string \<Rightarrow> (string \<Rightarrow> 'c result) \<Rightarrow> 'c option" where
  "connectDocker endpoint connect = (if endpoint = [] then None else (case connect endpoint of Inl _ \<Rightarrow> None | Inr c \<Rightarrow> Some c))"

text \<open>The repeatable flag of the backup timers: \<open>Set\<close>, and the comma-separated environment variable.\<close>

definition stringListFlag_Set :: "string list \<Rightarrow> string \<Rightarrow> error option \<times> string list" where
  "stringListFlag_Set values value = (if value = [] then (Some (Errorf ''value cannot be empty'' []), values) else (None, values @ [value]))"

definition addCommaSeparated :: "string list \<Rightarrow> string \<Rightarrow> string list" where
  "addCommaSeparated values input = values @ filter (\<lambda>v. v \<noteq> []) (map trim_space (split_on (CHR '','') input))"

section \<open>The broker's socket\<close>

datatype lstat_result = LstatMissing | LstatSocket | LstatOther | LstatError error

record 'w listen_os =
  lo_Lstat :: "string \<Rightarrow> 'w \<Rightarrow> lstat_result"
  lo_Remove :: "string \<Rightarrow> 'w \<Rightarrow> error option \<times> 'w"
  lo_Listen :: "string \<Rightarrow> 'w \<Rightarrow> error option \<times> 'w"
  lo_Close :: "'w \<Rightarrow> 'w"
  lo_LookupGroup :: "string \<Rightarrow> string result"
  lo_Atoi :: "string \<Rightarrow> int result"
  lo_Geteuid :: int
  lo_Chown :: "string \<Rightarrow> int \<Rightarrow> int \<Rightarrow> 'w \<Rightarrow> error option \<times> 'w"
  lo_Chmod :: "string \<Rightarrow> nat \<Rightarrow> 'w \<Rightarrow> error option \<times> 'w"

definition clear_socket :: "'w listen_os \<Rightarrow> string \<Rightarrow> 'w \<Rightarrow> error option \<times> 'w" where
  "clear_socket os path w = (case lo_Lstat os path w of
     LstatOther \<Rightarrow> (Some (Errorf ''refusing to replace non-socket %s'' [path]), w)
   | LstatSocket \<Rightarrow> (case lo_Remove os path w of (Some e, w1) \<Rightarrow> (Some (Wrapf ''remove stale broker socket: %w'' [] e), w1) | (None, w1) \<Rightarrow> (None, w1))
   | LstatMissing \<Rightarrow> (None, w)
   | LstatError e \<Rightarrow> (Some (Wrapf ''inspect broker socket: %w'' [] e), w))"

definition secure_socket :: "'w listen_os \<Rightarrow> string \<Rightarrow> string \<Rightarrow> 'w \<Rightarrow> error option \<times> 'w" where
  "secure_socket os path groupName w = (case lo_LookupGroup os groupName of
     Inl e \<Rightarrow> (Some (Wrapf ''resolve broker socket group: %w'' [] e), lo_Close os w)
   | Inr g \<Rightarrow> (case lo_Atoi os g of
       Inl e \<Rightarrow> (Some (Wrapf ''parse broker socket group: %w'' [] e), lo_Close os w)
     | Inr gid \<Rightarrow> (case lo_Chown os path (lo_Geteuid os) gid w of
         (Some e, w1) \<Rightarrow> (Some (Wrapf ''set broker socket owner: %w'' [] e), lo_Close os w1)
       | (None, w1) \<Rightarrow> (case lo_Chmod os path 0x1B0 w1 of
           (Some e, w2) \<Rightarrow> (Some (Wrapf ''set broker socket mode: %w'' [] e), lo_Close os w2)
         | (None, w2) \<Rightarrow> (None, w2)))))"

definition listenUnix :: "'w listen_os \<Rightarrow> string \<Rightarrow> string \<Rightarrow> 'w \<Rightarrow> error option \<times> 'w" where
  "listenUnix os path groupName w = (case clear_socket os path w of
     (Some e, w1) \<Rightarrow> (Some e, w1)
   | (None, w1) \<Rightarrow> (case lo_Listen os path w1 of
       (Some e, w2) \<Rightarrow> (Some (Wrapf ''listen on broker socket: %w'' [] e), w2)
     | (None, w2) \<Rightarrow> secure_socket os path groupName w2))"

text \<open>
  A failed start leaves no listener behind and never removes what is not a socket. \<open>open_listeners\<close> counts the listeners
  of the process.
\<close>

definition listen_rules :: "('w \<Rightarrow> nat) \<Rightarrow> 'w listen_os \<Rightarrow> bool" where
  "listen_rules open_listeners os \<longleftrightarrow>
     (\<forall>p w. open_listeners (snd (lo_Remove os p w)) = open_listeners w) \<and>
     (\<forall>p w. open_listeners (snd (lo_Listen os p w)) = open_listeners w + (if fst (lo_Listen os p w) = None then 1 else 0)) \<and>
     (\<forall>w. open_listeners (lo_Close os w) = open_listeners w - 1) \<and>
     (\<forall>p u g w. open_listeners (snd (lo_Chown os p u g w)) = open_listeners w) \<and>
     (\<forall>p m w. open_listeners (snd (lo_Chmod os p m w)) = open_listeners w)"

lemma listen_rulesD:
  assumes "listen_rules ol os"
  shows "lo_Remove os p w = (r, w') \<Longrightarrow> ol w' = ol w" "lo_Listen os p w = (r, w') \<Longrightarrow> ol w' = ol w + (if r = None then 1 else 0)"
    "ol (lo_Close os w) = ol w - 1" "lo_Chown os p u g w = (r, w') \<Longrightarrow> ol w' = ol w" "lo_Chmod os p m w = (r, w') \<Longrightarrow> ol w' = ol w"
  using assms unfolding listen_rules_def by (metis fst_conv snd_conv)+

lemma clear_socket_listeners:
  "listen_rules ol os \<Longrightarrow> clear_socket os p w = (r, w') \<Longrightarrow> ol w' = ol w"
  by (auto simp: clear_socket_def listen_rulesD(1) split: lstat_result.splits option.splits prod.splits)

lemma secure_socket_listeners:
  assumes "listen_rules ol os" and "secure_socket os p g w = (r, w')"
  shows "ol w' = (if r = None then ol w else ol w - 1)"
  using assms(2) unfolding secure_socket_def
  by (auto simp: listen_rulesD(3)[OF assms(1)] dest!: listen_rulesD(4)[OF assms(1)] listen_rulesD(5)[OF assms(1)]
      split: sum.splits prod.splits option.splits)

lemma listen_balanced:
  assumes "listen_rules ol os"
  shows "ol (snd (listenUnix os p g w)) = ol w + (if fst (listenUnix os p g w) = None then 1 else 0)"
proof -
  obtain e1 w1 where c: "clear_socket os p w = (e1, w1)" by (cases "clear_socket os p w")
  obtain e2 w2 where l: "lo_Listen os p w1 = (e2, w2)" by (cases "lo_Listen os p w1")
  obtain e3 w3 where s: "secure_socket os p g w2 = (e3, w3)" by (cases "secure_socket os p g w2")
  show ?thesis using clear_socket_listeners[OF assms c] listen_rulesD(2)[OF assms l] secure_socket_listeners[OF assms s] c l s
    by (auto simp: listenUnix_def split: option.splits)
qed

section \<open>Properties\<close>

text \<open>
  C15. No systemd connection is lost or used after it is closed. In every interleaving of the dialing goroutine, the
  waiting caller and the deadline, a client that the connector returned is in exactly one place: still offered by
  the goroutine, returned to the caller with its context alive, or closed once. Without the capability nothing is
  dialed; a caller that may give up can, and a goroutine whose caller has gone can always close its client and end.
\<close>

theorem connect_no_leak:
  assumes "connect_reachable caps s"
  shows "(case cn_made s of None \<Rightarrow> cn_closed s = [] \<and> (\<forall>c. cn_caller s \<noteq> Connected c)
    | Some c \<Rightarrow> (\<exists>err. cn_dialer s = Offering (Some c) err) \<and> cn_closed s = [] \<and> (\<forall>c. cn_caller s \<noteq> Connected c) \<or>
        cn_dialer s = Done \<and> cn_closed s = [] \<and> cn_caller s = Connected c \<and> \<not> cn_cancelled s \<or>
        cn_dialer s = Done \<and> cn_closed s = [c] \<and> cn_caller s = Unavailable) \<and>
    (cap_Has caps Systemd \<or> cn_made s = None \<and> cn_caller s = Unavailable) \<and>
    (cn_caller s = Selecting \<and> cn_expired s \<longrightarrow> connect_step s (give_up s)) \<and>
    (\<forall>client err. cn_caller s = Unavailable \<and> cn_dialer s = Offering client err \<longrightarrow> connect_step s (discard_result client s))"
proof -
  have inv: "connect_inv caps s" by (rule connect_reachable_inv[OF assms])
  have "connect_step s (give_up s)" if "cn_caller s = Selecting" "cn_expired s" using that by (rule gave_up)
  moreover have "connect_step s (discard_result client s)" if "cn_caller s = Unavailable" "cn_dialer s = Offering client err" for client err
    using inv that by (intro discarded[OF that(2)]) (auto simp: connect_inv_def)
  ultimately show ?thesis using inv by (cases "cn_dialer s") (auto simp: connect_inv_def split: option.splits)
qed

theorem connect_no_leak_witness:
  "\<exists>s. connect_reachable (cap_New [Systemd]) s \<and> cn_made s = Some (7::nat) \<and> cn_caller s = Unavailable \<and> cn_closed s = [7]"
proof -
  define caps where "caps = cap_New [Systemd]"
  have has: "cap_Has caps Systemd" by (simp add: caps_def cap_Has_iff caps_of_New)
  define s1 where "s1 = dial_returns (Some (7::nat)) None (connect_start caps)"
  define s2 where "s2 = s1\<lparr>cn_expired := True\<rparr>"
  define s3 where "s3 = give_up s2"
  define s4 where "s4 = discard_result (Some 7) s3"
  have r1: "connect_reachable caps s1" unfolding s1_def
    by (rule connect_reachable.step[OF connect_reachable.start]) (simp add: connect_step.dialed connect_start_def has)
  have r2: "connect_reachable caps s2" unfolding s2_def by (rule connect_reachable.step[OF r1 connect_step.expired])
  have r3: "connect_reachable caps s3" unfolding s3_def
    by (rule connect_reachable.step[OF r2 connect_step.gave_up]) (simp_all add: s2_def s1_def dial_returns_def connect_start_def has)
  have r4: "connect_reachable caps s4" unfolding s4_def
    by (rule connect_reachable.step[OF r3 connect_step.discarded[of _ _ None]]) (simp_all add: s3_def s2_def s1_def give_up_def dial_returns_def)
  have "cn_made s4 = Some 7" "cn_caller s4 = Unavailable" "cn_dialer s4 = Done"
    by (simp_all add: s4_def s3_def s2_def s1_def discard_result_def close_client_def give_up_def dial_returns_def)
  then show ?thesis using connect_no_leak[OF r4] r4 by (auto simp: caps_def)
qed

end
