(* ===== verification/Storage_Tools.thy ===== *)
theory Storage_Tools
  imports Artifact_Store
begin

unbundle bit_operations_syntax

text \<open>
  The host tools of the storage inventory: which executables are trusted (\<open>tools.go\<close>), how much of their output is kept,
  and which enrichers the daemon builds from them (\<open>newStorageManager\<close> in \<open>cmd/pilothoused/main.go\<close>).
\<close>

section \<open>Bounded output\<close>

definition errOutputTooLarge :: error where "errOutputTooLarge = Sentinel ''tool output exceeds limit''"

record bounded_buffer =
  bb_data :: string
  bb_err :: "error option"
  bb_limit :: nat

definition bb_Write :: "bounded_buffer \<Rightarrow> string \<Rightarrow> bounded_buffer \<times> nat \<times> error option" where
  "bb_Write b data =
     (if bb_limit b \<le> length (bb_data b) then (b\<lparr>bb_err := Some errOutputTooLarge\<rparr>, 0, Some errOutputTooLarge)
      else let remaining = bb_limit b - length (bb_data b) in
        if length data > remaining
        then (b\<lparr>bb_data := bb_data b @ take remaining data, bb_err := Some errOutputTooLarge\<rparr>, remaining, Some errOutputTooLarge)
        else (b\<lparr>bb_data := bb_data b @ data\<rparr>, length data, None))"

text \<open>\<open>os/exec\<close> copies a stream in non-empty pieces and stops at the first failed write.\<close>

fun copy_stream :: "string list \<Rightarrow> bounded_buffer \<Rightarrow> bounded_buffer" where
  "copy_stream [] b = b"
| "copy_stream (c # cs) b = (case bb_Write b c of (b', _, None) \<Rightarrow> copy_stream cs b' | (b', _, Some _) \<Rightarrow> b')"

text \<open>A finished command: what it wrote, and its error with whether it is an exit status.\<close>

record command_end =
  ce_stdout :: "string list"
  ce_stderr :: "string list"
  ce_err :: "(error \<times> bool) option"

record 'w command_runner =
  cr_limit :: nat
  cr_exec :: "string \<Rightarrow> string list \<Rightarrow> 'w \<Rightarrow> command_end \<times> 'w"

definition runner_Run :: "'w command_runner \<Rightarrow> string \<Rightarrow> string list \<Rightarrow> 'w \<Rightarrow> (string \<times> error option) \<times> 'w" where
  "runner_Run r path args w =
     (let (ended, w') = cr_exec r path args w;
          stdout = copy_stream (ce_stdout ended) \<lparr>bb_data = [], bb_err = None, bb_limit = cr_limit r\<rparr>;
          stderr = copy_stream (ce_stderr ended) \<lparr>bb_data = [], bb_err = None, bb_limit = cr_limit r\<rparr>
      in if bb_err stdout = Some errOutputTooLarge \<or> bb_err stderr = Some errOutputTooLarge then (([], Some errOutputTooLarge), w')
         else (case ce_err ended of
             Some (e, exit_status) \<Rightarrow> ((if exit_status then bb_data stdout else [], Some (Wrapf ''run %s: %w'' [path] e)), w')
           | None \<Rightarrow> ((bb_data stdout, None), w')))"

section \<open>Trusted tools\<close>

record file_identity =
  fid_Mode :: "32 word"
  fid_Regular :: bool
  fid_UID :: "32 word"

fun resolve_loop :: "(string \<Rightarrow> file_identity result) \<Rightarrow> error option \<Rightarrow> string list \<Rightarrow> string result" where
  "resolve_loop identity lastErr [] = Inl (Wrapf ''resolve tool: %w'' []
     (case lastErr of None \<Rightarrow> Errorf ''no tool candidates'' [] | Some e \<Rightarrow> e))"
| "resolve_loop identity lastErr (path # paths) = (case identity path of
     Inl e \<Rightarrow> resolve_loop identity (Some e) paths
   | Inr f \<Rightarrow>
       if \<not> fid_Regular f then resolve_loop identity (Some (Errorf ''tool %s is not a regular file'' [path])) paths
       else if fid_UID f \<noteq> 0 then resolve_loop identity (Some (Errorf ''tool %s is not root-owned'' [path])) paths
       else if fid_Mode f AND 0x12 \<noteq> 0 then resolve_loop identity (Some (Errorf ''tool %s is group- or world-writable'' [path])) paths
       else Inr path)"

definition resolveTool :: "string list \<Rightarrow> (string \<Rightarrow> file_identity result) \<Rightarrow> string result" where
  "resolveTool candidates identity = resolve_loop identity None candidates"

text \<open>What \<open>Stat\<close> tells of an optional tool; \<open>fs_UID\<close> is \<open>None\<close> when the system's part is of another type.\<close>

record file_stat =
  fs_Regular :: bool
  fs_UID :: "32 word option"
  fs_Perm :: "32 word"

fun optional_loop :: "(string \<Rightarrow> error option) \<Rightarrow> (string \<Rightarrow> file_stat result) \<Rightarrow> string \<Rightarrow> string list \<Rightarrow> (string \<times> bool) result" where
  "optional_loop lstat stat resolved [] = Inr (resolved, resolved \<noteq> [])"
| "optional_loop lstat stat resolved (path # paths) = (case lstat path of
     Some e \<Rightarrow> if errors_is e ErrNotExist then optional_loop lstat stat resolved paths
       else Inl (Wrapf ''inspect optional tool %s: %w'' [path] e)
   | None \<Rightarrow> (case stat path of
       Inl e \<Rightarrow> Inl (Wrapf ''resolve optional tool %s: %w'' [path] e)
     | Inr info \<Rightarrow>
         if \<not> fs_Regular info then Inl (Errorf ''optional tool %s is not a regular file'' [path])
         else (case fs_UID info of
             None \<Rightarrow> Inl (Errorf ''inspect %s ownership'' [path])
           | Some uid \<Rightarrow>
               if uid \<noteq> 0 then Inl (Errorf ''optional tool %s is not root-owned'' [path])
               else if fs_Perm info AND 0x12 \<noteq> 0 then Inl (Errorf ''optional tool %s is group- or world-writable'' [path])
               else optional_loop lstat stat (if resolved = [] then path else resolved) paths)))"

definition ResolveOptionalTool :: "string list \<Rightarrow> (string \<Rightarrow> error option) \<Rightarrow> (string \<Rightarrow> file_stat result) \<Rightarrow> (string \<times> bool) result" where
  "ResolveOptionalTool candidates lstat stat = optional_loop lstat stat [] candidates"

record toolset =
  ts_Findmnt :: string
  ts_LSBLK :: string

type_synonym tool_resolver = "string list \<Rightarrow> (string \<times> bool) result"

definition NewToolset :: "(string \<Rightarrow> file_identity result) \<Rightarrow> toolset result" where
  "NewToolset identity = (case resolveTool [''/usr/bin/lsblk'', ''/bin/lsblk''] identity of Inl e \<Rightarrow> Inl e
   | Inr lsblk \<Rightarrow> (case resolveTool [''/usr/bin/findmnt'', ''/bin/findmnt''] identity of Inl e \<Rightarrow> Inl e
     | Inr findmnt \<Rightarrow> Inr \<lparr>ts_Findmnt = findmnt, ts_LSBLK = lsblk\<rparr>))"

definition NewToolsetWithResolver :: "tool_resolver \<Rightarrow> toolset result" where
  "NewToolsetWithResolver resolve = (case resolve [''/usr/bin/lsblk'', ''/bin/lsblk''] of Inl e \<Rightarrow> Inl e
   | Inr (lsblk, present) \<Rightarrow> if \<not> present then Inl (Errorf ''lsblk is unavailable'' [])
     else (case resolve [''/usr/bin/findmnt'', ''/bin/findmnt''] of Inl e \<Rightarrow> Inl e
       | Inr (findmnt, present') \<Rightarrow> if \<not> present' then Inl (Errorf ''findmnt is unavailable'' [])
         else Inr \<lparr>ts_Findmnt = findmnt, ts_LSBLK = lsblk\<rparr>))"

section \<open>The enrichers of the daemon\<close>

datatype enricher_choice =
    UnsupportedEnricher string
  | SMARTEnricher string
  | MDRAIDEnricher string string
  | LVMEnricher string string string
  | DeviceMapperEnricher string
  | MultipathEnricher string
  | ZFSEnricher string string
  | BtrfsEnricher string

definition optional_enricher :: "tool_resolver \<Rightarrow> string \<Rightarrow> string list \<Rightarrow> (string \<Rightarrow> enricher_choice) \<Rightarrow> enricher_choice result" where
  "optional_enricher resolve name candidates newEnricher = (case resolve candidates of
     Inl e \<Rightarrow> Inl (Wrapf ''resolve %s: %w'' [name] e)
   | Inr (path, present) \<Rightarrow> if \<not> present then Inr (UnsupportedEnricher name) else Inr (newEnricher path))"

fun all_enricher :: "tool_resolver \<Rightarrow> string \<Rightarrow> string list list \<Rightarrow> string list \<Rightarrow> (string list \<Rightarrow> enricher_choice) \<Rightarrow> enricher_choice result" where
  "all_enricher resolve name [] paths newEnricher = Inr (newEnricher paths)"
| "all_enricher resolve name (candidate # candidates) paths newEnricher = (case resolve candidate of
     Inl e \<Rightarrow> Inl (Wrapf ''resolve %s: %w'' [name] e)
   | Inr (path, present) \<Rightarrow> if \<not> present then Inr (UnsupportedEnricher name)
       else all_enricher resolve name candidates (paths @ [path]) newEnricher)"

fun collect_choices :: "enricher_choice result list \<Rightarrow> enricher_choice list result" where
  "collect_choices [] = Inr []"
| "collect_choices (Inl e # xs) = Inl e"
| "collect_choices (Inr x # xs) = (case collect_choices xs of Inl e \<Rightarrow> Inl e | Inr ys \<Rightarrow> Inr (x # ys))"

definition enricher_choices :: "tool_resolver \<Rightarrow> string \<Rightarrow> enricher_choice result list" where
  "enricher_choices resolve root =
     [optional_enricher resolve ''smart'' [''/usr/sbin/smartctl'', ''/sbin/smartctl''] SMARTEnricher,
      optional_enricher resolve ''mdraid'' [''/usr/sbin/mdadm'', ''/sbin/mdadm''] (MDRAIDEnricher root),
      all_enricher resolve ''lvm'' [[''/usr/sbin/pvs'', ''/sbin/pvs''], [''/usr/sbin/vgs'', ''/sbin/vgs''], [''/usr/sbin/lvs'', ''/sbin/lvs'']] []
        (\<lambda>ps. LVMEnricher (ps ! 0) (ps ! 1) (ps ! 2)),
      optional_enricher resolve ''device-mapper'' [''/usr/sbin/dmsetup'', ''/sbin/dmsetup'', ''/usr/bin/dmsetup'', ''/bin/dmsetup''] DeviceMapperEnricher,
      optional_enricher resolve ''multipath'' [''/usr/sbin/multipathd'', ''/sbin/multipathd''] MultipathEnricher,
      all_enricher resolve ''zfs'' [[''/usr/sbin/zpool'', ''/sbin/zpool''], [''/usr/sbin/zfs'', ''/sbin/zfs'']] [] (\<lambda>ps. ZFSEnricher (ps ! 0) (ps ! 1)),
      optional_enricher resolve ''btrfs'' [''/usr/bin/btrfs'', ''/bin/btrfs''] BtrfsEnricher]"

definition newStorageManager :: "tool_resolver \<Rightarrow> string \<Rightarrow> (toolset \<times> enricher_choice list) result" where
  "newStorageManager resolve root = (case NewToolsetWithResolver resolve of Inl e \<Rightarrow> Inl e
   | Inr tools \<Rightarrow> (case collect_choices (enricher_choices resolve root) of Inl e \<Rightarrow> Inl e | Inr es \<Rightarrow> Inr (tools, es)))"

section \<open>What they guarantee\<close>

lemma copy_stream_spec:
  assumes "[] \<notin> set cs" and "length (bb_data b) \<le> bb_limit b" and "bb_err b = None"
  shows "bb_data (copy_stream cs b) = take (bb_limit b) (bb_data b @ concat cs) \<and>
    bb_err (copy_stream cs b) = (if length (bb_data b) + length (concat cs) > bb_limit b then Some errOutputTooLarge else None)"
  using assms
proof (induction cs arbitrary: b)
  case (Cons c cs)
  then have "length c > 0" by auto
  then show ?case using Cons.prems Cons.IH[of "b\<lparr>bb_data := bb_data b @ c\<rparr>"]
    by (auto simp: bb_Write_def Let_def min_def)
qed simp

definition trusted_stat :: "file_stat \<Rightarrow> bool" where
  "trusted_stat info \<longleftrightarrow> fs_Regular info \<and> fs_UID info = Some 0 \<and> fs_Perm info AND 0x12 = 0"

lemma optional_loop_ok:
  assumes "optional_loop lstat stat resolved paths = Inr (p, present)"
  shows "(\<forall>q\<in>set paths. (\<exists>e. lstat q = Some e \<and> errors_is e ErrNotExist) \<or> lstat q = None \<and> (\<exists>i. stat q = Inr i \<and> trusted_stat i)) \<and>
    present = (p \<noteq> []) \<and> (p = resolved \<or> resolved = [] \<and> p \<in> set paths \<and> lstat p = None)"
  using assms
proof (induction paths arbitrary: resolved)
  case (Cons q paths)
  show ?case
  proof (cases "lstat q")
    case (Some e)
    then show ?thesis using Cons by (auto split: if_splits)
  next
    case None
    obtain i where i: "stat q = Inr i" "trusted_stat i" "optional_loop lstat stat (if resolved = [] then q else resolved) paths = Inr (p, present)"
      using Cons.prems None by (auto simp: trusted_stat_def split: sum.splits if_splits option.splits)
    show ?thesis using Cons.IH[OF i(3)] None i(1,2) by (auto split: if_splits)
  qed
qed auto

text \<open>
  A resolved optional tool is a regular file of root that nobody else may write, it is the first that exists, and so is
  every other candidate that exists: an untrusted one makes the resolution fail.
\<close>

theorem optional_tool_trusted:
  assumes "ResolveOptionalTool candidates lstat stat = Inr (p, present)"
  shows "(\<forall>q\<in>set candidates. (\<exists>e. lstat q = Some e \<and> errors_is e ErrNotExist) \<or> (\<exists>i. stat q = Inr i \<and> trusted_stat i)) \<and>
    (present \<longrightarrow> p \<in> set candidates \<and> lstat p = None)"
  using optional_loop_ok[OF assms[unfolded ResolveOptionalTool_def]] by auto

text \<open>The output of a tool that is handed on is never longer than the limit, and is what the tool wrote.\<close>

theorem tool_output_bounded:
  assumes "runner_Run r path args w = ((out, err), w')" and "\<forall>e v. cr_exec r path args w = (e, v) \<longrightarrow> [] \<notin> set (ce_stdout e) \<and> [] \<notin> set (ce_stderr e)"
  shows "length out \<le> cr_limit r \<and> (out = [] \<or> out = concat (ce_stdout (fst (cr_exec r path args w))))"
proof -
  obtain e v where x: "cr_exec r path args w = (e, v)" by (cases "cr_exec r path args w")
  have ne: "[] \<notin> set (ce_stdout e)" "[] \<notin> set (ce_stderr e)" using assms(2) x by auto
  define b where "b = \<lparr>bb_data = [], bb_err = None, bb_limit = cr_limit r\<rparr>"
  have "bb_data (copy_stream (ce_stdout e) b) = take (cr_limit r) (concat (ce_stdout e))"
    "bb_err (copy_stream (ce_stdout e) b) = (if length (concat (ce_stdout e)) > cr_limit r then Some errOutputTooLarge else None)"
    using copy_stream_spec[OF ne(1), of b] by (simp_all add: b_def)
  then show ?thesis using assms(1) x
    by (auto simp: runner_Run_def Let_def b_def[symmetric] split: if_splits option.splits prod.splits)
qed

end
