(* ===== verification/Storage_Block.thy ===== *)
theory Storage_Block
  imports Storage_Tools Storage_Normalize
begin

text \<open>
  The core adapters of the storage inventory (\<open>internal/modules/storage/core.go\<close>): block devices from \<open>lsblk\<close> and mounts from
  \<open>findmnt\<close>. The JSON decoder of each document is an argument; it also says whether more input follows. \<open>storage_lib\<close> holds
  what the code takes from the standard library beyond text: SHA-256, the conversion of text to a \<open>float64\<close>, the rounding of
  \<open>float64\<close> arithmetic, and the Unicode case mappings of text that is not ASCII.
\<close>

section \<open>Shared helpers\<close>

definition maxFieldBytes :: nat where "maxFieldBytes = 4 * 1024"
definition maxAdapterBytes :: nat where "maxAdapterBytes = 4 * 1024 * 1024"

datatype float64 = Finite rat | PlusInf | MinusInf | NotANumber

record storage_lib =
  sl_Sum256 :: "string \<Rightarrow> string"
  sl_ParseFloat :: "string \<Rightarrow> float64 \<times> error option"
  sl_round :: "rat \<Rightarrow> rat"
  sl_lower :: "string \<Rightarrow> string"
  sl_upper :: "string \<Rightarrow> string"

definition hex_letter :: "nat \<Rightarrow> char" where
  "hex_letter n = (if n < 10 then char_of (0x30 + n) else char_of (0x61 + n - 10))"

definition hex_EncodeToString :: "string \<Rightarrow> string" where
  "hex_EncodeToString s = concat (map (\<lambda>c. [hex_letter (byte c div 16), hex_letter (byte c mod 16)]) s)"

definition stableID :: "storage_lib \<Rightarrow> string \<Rightarrow> string \<Rightarrow> string" where
  "stableID L kind identity = kind @ '':'' @ hex_EncodeToString (take 8 (sl_Sum256 L (kind @ [CHR 0x00] @ identity)))"

definition decodeStrict :: "(string \<Rightarrow> ('a \<times> bool) result) \<Rightarrow> string \<Rightarrow> 'a result" where
  "decodeStrict decode input = (case decode input of
     Inl e \<Rightarrow> Inl e
   | Inr (v, more_input) \<Rightarrow> if more_input then Inl (Errorf ''multiple JSON values'' []) else Inr v)"

definition validateStrings :: "string list \<Rightarrow> error option" where
  "validateStrings values = (if list_ex (\<lambda>v. length v > maxFieldBytes) values then Some (Errorf ''field exceeds limit'' []) else None)"

text \<open>As in Go, a value out of range comes with the largest number.\<close>

definition strictUint :: "string \<Rightarrow> 64 word \<times> error option" where
  "strictUint v =
     (if v = [] then (0, Some (Errorf ''empty'' []))
      else if list_ex (\<lambda>c. \<not> is_digit c) v then (0, Some (Errorf ''not decimal'' []))
      else (case parse_uint 64 v of
          Some n \<Rightarrow> (of_nat n, None)
        | None \<Rightarrow> (- 1, Some (Errorf ''strconv.ParseUint: parsing %q: value out of range'' [v]))))"

definition parseUint :: "string \<Rightarrow> 64 word" where
  "parseUint v = fst (strictUint v)"

definition strictPercent :: "storage_lib \<Rightarrow> string \<Rightarrow> rat option result" where
  "strictPercent L v =
     (if \<not> suffix ''%'' v then Inl (Errorf ''missing percent'' [])
      else (case sl_ParseFloat L (take (length v - 1) v) of
          (_, Some _) \<Rightarrow> Inl (Errorf ''invalid'' [])
        | (PlusInf, None) \<Rightarrow> Inl (Errorf ''invalid'' [])
        | (MinusInf, None) \<Rightarrow> Inl (Errorf ''invalid'' [])
        | (NotANumber, None) \<Rightarrow> Inr None
        | (Finite parsed, None) \<Rightarrow> if parsed < 0 \<or> parsed > 100 then Inl (Errorf ''invalid'' []) else Inr (Some parsed)))"

definition validMajorMinor :: "string \<Rightarrow> bool" where
  "validMajorMinor v = (case split_on (CHR '':'') v of
     [first, sec] \<Rightarrow> if first = [] \<or> sec = [] then False else snd (strictUint first) = None \<and> snd (strictUint sec) = None
   | _ \<Rightarrow> False)"

definition safe_option_names :: "string list" where
  "safe_option_names = [''ro'', ''rw'', ''nosuid'', ''nodev'', ''noexec'', ''relatime'', ''bind'']"

definition safeOptions :: "string \<Rightarrow> string list" where
  "safeOptions v = sort (filter (\<lambda>x. x \<in> set safe_option_names) (split_on (CHR '','') v))"

definition sortRelations :: "relation list \<Rightarrow> relation list" where
  "sortRelations = sort_key (\<lambda>r. (rl_From r, rl_To r, rl_Kind r))"

text \<open>\<open>strings.ToUpper\<close>, with the Unicode mapping as an argument.\<close>

definition to_upper :: "(string \<Rightarrow> string) \<Rightarrow> string \<Rightarrow> string" where
  "to_upper upper s = (if list_all (\<lambda>c. byte c < 128) s
     then map (\<lambda>c. if between 0x61 0x7A c then char_of (byte c - 32) else c) s else upper s)"

text \<open>A resource and a mount as a composite literal starts them, and a result that grows by \<open>append\<close>.\<close>

definition zero_resource :: resource where
  "zero_resource = \<lparr>rs_Details = [], rs_Health = [], rs_ID = [], rs_Kind = [], rs_Name = [], rs_Path = [], rs_SizeBytes = 0, rs_State = []\<rparr>"

definition add_resource :: "resource \<Rightarrow> adapter_result \<Rightarrow> adapter_result" where
  "add_resource x r = r\<lparr>ar_Resources := ar_Resources r @ [x]\<rparr>"

definition add_relation :: "string \<Rightarrow> string \<Rightarrow> string \<Rightarrow> adapter_result \<Rightarrow> adapter_result" where
  "add_relation from_id to_id kind r = r\<lparr>ar_Relations := ar_Relations r @ [\<lparr>rl_From = from_id, rl_Kind = kind, rl_To = to_id\<rparr>]\<rparr>"

definition add_finding :: "string \<Rightarrow> health \<Rightarrow> string \<Rightarrow> string \<Rightarrow> adapter_result \<Rightarrow> adapter_result" where
  "add_finding i severity title txt r =
     r\<lparr>ar_Findings := ar_Findings r @ [\<lparr>fd_Detail = txt, fd_ResourceID = i, fd_Severity = severity, fd_Title = title\<rparr>]\<rparr>"

definition add_mount :: "mount \<Rightarrow> adapter_result \<Rightarrow> adapter_result" where
  "add_mount m r = r\<lparr>ar_Mounts := ar_Mounts r @ [m]\<rparr>"

definition sorted_result :: "adapter_result \<Rightarrow> adapter_result" where
  "sorted_result r = r\<lparr>ar_Resources := sort_key rs_ID (ar_Resources r), ar_Relations := sortRelations (ar_Relations r)\<rparr>"

text \<open>A Go map filled from a list: of equal keys the last one stays.\<close>

definition index_by :: "('a \<Rightarrow> 'k) \<Rightarrow> 'a list \<Rightarrow> ('k, 'a) gomap" where
  "index_by key xs = fold (\<lambda>x. AList.update (key x) x) xs []"

lemma index_by_result: "map_of (index_by key xs) k = Some x \<Longrightarrow> x \<in> set xs \<and> key x = k"
proof (induction xs rule: rev_induct)
  case (snoc y ys)
  then show ?case by (auto simp: index_by_def update_conv' split: if_splits)
qed (simp add: index_by_def)

lemma index_by_present: "map_of (index_by key xs) k = None \<longleftrightarrow> k \<notin> key ` set xs"
  by (induction xs rule: rev_induct) (auto simp: index_by_def update_conv')

section \<open>Block devices\<close>

definition lsblkArgs :: "string list" where
  "lsblkArgs = [''--json'', ''--bytes'', ''--output'',
     ''NAME,KNAME,PATH,TYPE,MAJ:MIN,PKNAME,SIZE,FSTYPE,FSVER,LABEL,UUID,MOUNTPOINTS,MODEL,SERIAL,ROTA,RM,RO'']"

text \<open>The text of a number that may be quoted; \<open>unquote\<close> decodes a JSON string.\<close>

definition decimal_UnmarshalJSON :: "(string \<Rightarrow> string result) \<Rightarrow> string \<Rightarrow> string result" where
  "decimal_UnmarshalJSON unquote data = (if data \<noteq> [] \<and> hd data = CHR 0x22 then unquote data else Inr data)"

record lsblk_fields =
  lb_FSVersion :: "string option"
  lb_FSType :: "string option"
  lb_KName :: string
  lb_Label :: "string option"
  lb_MajorMinor :: string
  lb_Model :: "string option"
  lb_Mountpoints :: "string option list"
  lb_Name :: string
  lb_ParentName :: "string option"
  lb_Path :: string
  lb_ReadOnly :: bool
  lb_Removable :: bool
  lb_Rotational :: bool
  lb_Serial :: "string option"
  lb_Size :: "string option"
  lb_Type :: string
  lb_UUID :: "string option"

datatype lsblk_device = BlockDevice lsblk_fields "lsblk_device list"

definition overlong :: "string option \<Rightarrow> bool" where
  "overlong v = (case v of None \<Rightarrow> False | Some s \<Rightarrow> length s > maxFieldBytes)"

definition validateBlockDevice :: "lsblk_fields \<Rightarrow> error option" where
  "validateBlockDevice d =
     (case validateStrings [lb_Name d, lb_KName d, lb_Path d, lb_Type d, lb_MajorMinor d, case lb_Size d of None \<Rightarrow> [] | Some s \<Rightarrow> s] of
        Some e \<Rightarrow> Some e
      | None \<Rightarrow>
          if \<not> validMajorMinor (lb_MajorMinor d) then Some (Errorf ''invalid block MAJ:MIN'' [])
          else (case map_option (snd \<circ> strictUint) (lb_Size d) of
              Some (Some e) \<Rightarrow> Some (Wrapf ''invalid block size: %w'' [] e)
            | _ \<Rightarrow>
                if list_ex overlong [lb_FSVersion d, lb_FSType d, lb_Label d, lb_Model d, lb_ParentName d, lb_Serial d, lb_UUID d]
                  \<or> list_ex overlong (lb_Mountpoints d)
                then Some (Errorf ''field exceeds limit'' []) else None))"

definition blockSize :: "string option \<Rightarrow> 64 word" where
  "blockSize v = (case v of None \<Rightarrow> 0 | Some s \<Rightarrow> parseUint s)"

definition blockKind :: "string \<Rightarrow> string" where
  "blockKind v = (if v = ''part'' then ''partition'' else v)"

definition blockState :: "lsblk_fields \<Rightarrow> string" where
  "blockState d = (if lb_ReadOnly d then ''read-only'' else ''available'')"

fun labelled :: "(string \<times> string option) list \<Rightarrow> detail list" where
  "labelled [] = []"
| "labelled ((label, v) # ps) =
     (if v \<noteq> None \<and> v \<noteq> Some [] then [\<lparr>dt_Label = label, dt_Value = the v\<rparr>] else []) @ labelled ps"

definition blockDetails :: "lsblk_fields \<Rightarrow> detail list" where
  "blockDetails d = labelled [(''Model'', lb_Model d), (''Serial'', lb_Serial d)]"

definition filesystemDetails :: "lsblk_fields \<Rightarrow> detail list" where
  "filesystemDetails d = labelled [(''UUID'', lb_UUID d), (''Label'', lb_Label d), (''Version'', lb_FSVersion d)]"

definition block_id :: "storage_lib \<Rightarrow> lsblk_fields \<Rightarrow> string" where
  "block_id L d = stableID L (blockKind (lb_Type d)) (lb_MajorMinor d)"

definition filesystem_id :: "storage_lib \<Rightarrow> lsblk_fields \<Rightarrow> string" where
  "filesystem_id L d = stableID L ''filesystem'' (lb_MajorMinor d)"

definition block_resource :: "storage_lib \<Rightarrow> lsblk_fields \<Rightarrow> resource" where
  "block_resource L d = \<lparr>rs_Details = blockDetails d, rs_Health = HealthHealthy, rs_ID = block_id L d,
     rs_Kind = blockKind (lb_Type d), rs_Name = lb_Name d, rs_Path = lb_Path d, rs_SizeBytes = blockSize (lb_Size d),
     rs_State = blockState d\<rparr>"

definition filesystem_resource :: "storage_lib \<Rightarrow> lsblk_fields \<Rightarrow> resource" where
  "filesystem_resource L d = \<lparr>rs_Details = filesystemDetails d, rs_Health = HealthHealthy, rs_ID = filesystem_id L d,
     rs_Kind = ''filesystem'', rs_Name = the (lb_FSType d), rs_Path = [], rs_SizeBytes = blockSize (lb_Size d),
     rs_State = ''available''\<rparr>"

definition has_filesystem :: "lsblk_fields \<Rightarrow> bool" where
  "has_filesystem d \<longleftrightarrow> lb_FSType d \<noteq> None \<and> lb_FSType d \<noteq> Some []"

definition contains_edge :: "string \<Rightarrow> string \<Rightarrow> relation" where
  "contains_edge from_id to_id = \<lparr>rl_From = from_id, rl_Kind = ''contains'', rl_To = to_id\<rparr>"

record walk_state =
  wk_count :: nat
  wk_resources :: "(string, resource) gomap"
  wk_relations :: "relation list"

definition put_resource :: "resource \<Rightarrow> walk_state \<Rightarrow> walk_state result" where
  "put_resource r st = (if wk_count st \<ge> maxResources then Inl (Errorf ''lsblk resources exceed limit'' [])
     else Inr (st\<lparr>wk_count := wk_count st + 1, wk_resources := AList.update (rs_ID r) r (wk_resources st)\<rparr>))"

definition put_relation :: "relation \<Rightarrow> walk_state \<Rightarrow> walk_state" where
  "put_relation x st = st\<lparr>wk_relations := wk_relations st @ [x]\<rparr>"

definition walk_device :: "storage_lib \<Rightarrow> lsblk_fields \<Rightarrow> string \<Rightarrow> walk_state \<Rightarrow> walk_state result" where
  "walk_device L d parent st =
     (case validateBlockDevice d of
        Some e \<Rightarrow> Inl e
      | None \<Rightarrow> (case put_resource (block_resource L d) st of
          Inl e \<Rightarrow> Inl e
        | Inr st1 \<Rightarrow>
            (let st2 = (if parent \<noteq> [] then put_relation (contains_edge parent (block_id L d)) st1 else st1) in
             if \<not> has_filesystem d then Inr st2
             else map_sum id (put_relation (contains_edge (block_id L d) (filesystem_id L d))) (put_resource (filesystem_resource L d) st2))))"

fun walk_block :: "storage_lib \<Rightarrow> lsblk_device \<Rightarrow> string \<Rightarrow> walk_state \<Rightarrow> walk_state result" and
    walk_blocks :: "storage_lib \<Rightarrow> lsblk_device list \<Rightarrow> string \<Rightarrow> walk_state \<Rightarrow> walk_state result" where
  "walk_block L (BlockDevice d kids) parent st = (case walk_device L d parent st of
     Inl e \<Rightarrow> Inl e | Inr st1 \<Rightarrow> walk_blocks L kids (block_id L d) st1)"
| "walk_blocks L [] parent st = Inr st"
| "walk_blocks L (x # xs) parent st = (case walk_block L x parent st of
     Inl e \<Rightarrow> Inl e | Inr st1 \<Rightarrow> walk_blocks L xs parent st1)"

definition parseLSBLK :: "storage_lib \<Rightarrow> (string \<Rightarrow> (lsblk_device list \<times> bool) result) \<Rightarrow> string \<Rightarrow> adapter_result result" where
  "parseLSBLK L decode input = (case decodeStrict decode input of
     Inl e \<Rightarrow> Inl (Wrapf ''decode lsblk: %w'' [] e)
   | Inr devices \<Rightarrow> (case walk_blocks L devices [] \<lparr>wk_count = 0, wk_resources = [], wk_relations = []\<rparr> of
       Inl e \<Rightarrow> Inl e
     | Inr st \<Rightarrow> Inr (empty_result\<lparr>ar_Resources := sort_key rs_ID (map snd (wk_resources st)),
         ar_Relations := sortRelations (wk_relations st)\<rparr>)))"

type_synonym 'w tool_exec = "string \<Rightarrow> string list \<Rightarrow> 'w \<Rightarrow> command_end \<times> 'w"

definition adapter_runner :: "'w tool_exec \<Rightarrow> 'w command_runner" where
  "adapter_runner exec = \<lparr>cr_limit = maxAdapterBytes, cr_exec = exec\<rparr>"

text \<open>What an adapter returns: its result, and the error that comes with it.\<close>

type_synonym collected_pair = "adapter_result \<times> error option"

definition pair_of :: "adapter_result result \<Rightarrow> collected_pair" where
  "pair_of r = (case r of Inl e \<Rightarrow> (empty_result, Some e) | Inr v \<Rightarrow> (v, None))"

definition block_Collect :: "storage_lib \<Rightarrow> (string \<Rightarrow> (lsblk_device list \<times> bool) result) \<Rightarrow> 'w tool_exec \<Rightarrow> string \<Rightarrow> 'w \<Rightarrow> collected_pair \<times> 'w" where
  "block_Collect L decode exec path w = (case runner_Run (adapter_runner exec) path lsblkArgs w of
     ((_, Some e), w1) \<Rightarrow> ((empty_result, Some e), w1)
   | ((output, None), w1) \<Rightarrow> (pair_of (parseLSBLK L decode output), w1))"

section \<open>Mounts\<close>

definition findmntArgs :: "string list" where
  "findmntArgs = [''--json'', ''--list'', ''--bytes'', ''--output'', ''TARGET,SOURCE,FSTYPE,OPTIONS,SIZE,USED,AVAIL,USE%,MAJ:MIN'']"

record findmnt_filesystem =
  fm_Available :: string
  fm_Filesystem :: string
  fm_MajorMinor :: "string option"
  fm_Options :: string
  fm_Size :: string
  fm_Source :: string
  fm_Target :: string
  fm_Used :: string
  fm_UsedPct :: string

definition unavailableCapacity :: "string \<Rightarrow> bool" where
  "unavailableCapacity v \<longleftrightarrow> v = [] \<or> v = ''-'' \<or> v = ''null''"

definition mountCapacity :: "storage_lib \<Rightarrow> findmnt_filesystem \<Rightarrow> (64 word \<times> 64 word \<times> 64 word \<times> rat option) result" where
  "mountCapacity L f =
     (let vals = [fm_Size f, fm_Used f, fm_Available f] in
      if unavailableCapacity (fm_UsedPct f) then
        (if list_ex (\<lambda>v. \<not> (unavailableCapacity v \<or> v = ''0'')) vals then Inl (Errorf ''inconsistent unknown mount capacity'' [])
         else Inr (0, 0, 0, Some 0))
      else if list_ex unavailableCapacity vals then Inl (Errorf ''inconsistent unknown mount capacity'' [])
      else (case strictUint (fm_Size f) of
          (_, Some e) \<Rightarrow> Inl (Wrapf ''invalid mount size: %w'' [] e)
        | (all_bytes, None) \<Rightarrow> (case strictUint (fm_Used f) of
            (_, Some e) \<Rightarrow> Inl (Wrapf ''invalid mount used: %w'' [] e)
          | (used, None) \<Rightarrow> (case strictUint (fm_Available f) of
              (_, Some e) \<Rightarrow> Inl (Wrapf ''invalid mount available: %w'' [] e)
            | (available, None) \<Rightarrow> (case strictPercent L (fm_UsedPct f) of
                Inl e \<Rightarrow> Inl (Wrapf ''invalid mount use%%: %w'' [] e)
              | Inr percent \<Rightarrow> Inr (all_bytes, used, available, percent))))))"

definition mountFromFilesystem :: "storage_lib \<Rightarrow> findmnt_filesystem \<Rightarrow> mount result" where
  "mountFromFilesystem L f =
     (case validateStrings [fm_Available f, fm_Filesystem f, fm_Options f, fm_Size f, fm_Source f, fm_Target f, fm_Used f, fm_UsedPct f] of
        Some e \<Rightarrow> Inl e
      | None \<Rightarrow> (case mountCapacity L f of
          Inl e \<Rightarrow> Inl e
        | Inr (all_bytes, used, available, percent) \<Rightarrow>
            (if (case fm_MajorMinor f of None \<Rightarrow> False | Some mm \<Rightarrow> length mm > maxFieldBytes \<or> \<not> validMajorMinor mm)
             then Inl (Errorf ''invalid mount MAJ:MIN'' [])
             else
               let resourceID = (case fm_MajorMinor f of None \<Rightarrow> [] | Some mm \<Rightarrow> stableID L ''filesystem'' mm);
                   options = safeOptions (fm_Options f);
                   identity = (if resourceID = [] then fm_Filesystem f @ [CHR 0x00] @ fm_Source f @ [CHR 0x00] @ fm_Target f else fm_Target f)
               in Inr \<lparr>mt_AvailableBytes = available, mt_Filesystem = fm_Filesystem f, mt_Health = HealthHealthy,
                    mt_ID = stableID L ''mount'' identity, mt_Managed = False, mt_Options = options, mt_ReadOnly = (''ro'' \<in> set options),
                    mt_ResourceID = resourceID, mt_Source = fm_Source f, mt_State = ''mounted'', mt_Target = fm_Target f,
                    mt_TotalBytes = all_bytes, mt_UsedBytes = used, mt_UsedPercent = percent\<rparr>)))"

fun mounts_from :: "storage_lib \<Rightarrow> findmnt_filesystem list \<Rightarrow> mount list result" where
  "mounts_from L [] = Inr []"
| "mounts_from L (f # fs) = (case mountFromFilesystem L f of
     Inl e \<Rightarrow> Inl e | Inr m \<Rightarrow> map_sum id ((#) m) (mounts_from L fs))"

definition parseFindmnt :: "storage_lib \<Rightarrow> (string \<Rightarrow> (findmnt_filesystem list \<times> bool) result) \<Rightarrow> string \<Rightarrow> adapter_result result" where
  "parseFindmnt L decode input = (case decodeStrict decode input of
     Inl e \<Rightarrow> Inl (Wrapf ''decode findmnt: %w'' [] e)
   | Inr filesystems \<Rightarrow>
       if length filesystems > maxMounts then Inl (Errorf ''findmnt mounts exceed limit'' [])
       else map_sum id (\<lambda>ms. empty_result\<lparr>ar_Mounts := sort_key mt_Target ms\<rparr>) (mounts_from L filesystems))"

definition mount_Collect :: "storage_lib \<Rightarrow> (string \<Rightarrow> (findmnt_filesystem list \<times> bool) result) \<Rightarrow> 'w tool_exec \<Rightarrow> string \<Rightarrow> 'w \<Rightarrow> collected_pair \<times> 'w" where
  "mount_Collect L decode exec path w = (case runner_Run (adapter_runner exec) path findmntArgs w of
     ((_, Some e), w1) \<Rightarrow> ((empty_result, Some e), w1)
   | ((output, None), w1) \<Rightarrow> (pair_of (parseFindmnt L decode output), w1))"

section \<open>The forest of devices\<close>

text \<open>What a forest of devices stands for: its devices in order, a resource for each and for each filesystem, and its edges.\<close>

fun device_fields :: "lsblk_device \<Rightarrow> lsblk_fields list" where
  "device_fields (BlockDevice d kids) = d # concat (map device_fields kids)"

definition device_resources :: "storage_lib \<Rightarrow> lsblk_fields \<Rightarrow> resource list" where
  "device_resources L d = block_resource L d # (if has_filesystem d then [filesystem_resource L d] else [])"

definition forest_fields :: "lsblk_device list \<Rightarrow> lsblk_fields list" where
  "forest_fields xs = concat (map device_fields xs)"

definition forest_resources :: "storage_lib \<Rightarrow> lsblk_device list \<Rightarrow> resource list" where
  "forest_resources L xs = concat (map (device_resources L) (forest_fields xs))"

definition own_edges :: "storage_lib \<Rightarrow> string \<Rightarrow> lsblk_fields \<Rightarrow> relation list" where
  "own_edges L parent d = (if parent \<noteq> [] then [contains_edge parent (block_id L d)] else []) @
     (if has_filesystem d then [contains_edge (block_id L d) (filesystem_id L d)] else [])"

fun device_edges :: "storage_lib \<Rightarrow> string \<Rightarrow> lsblk_device \<Rightarrow> relation list" where
  "device_edges L parent (BlockDevice d kids) = own_edges L parent d @ concat (map (device_edges L (block_id L d)) kids)"

definition forest_edges :: "storage_lib \<Rightarrow> string \<Rightarrow> lsblk_device list \<Rightarrow> relation list" where
  "forest_edges L parent xs = concat (map (device_edges L parent) xs)"

definition acceptable :: "storage_lib \<Rightarrow> nat \<Rightarrow> lsblk_device list \<Rightarrow> bool" where
  "acceptable L n xs \<longleftrightarrow> list_all (\<lambda>d. validateBlockDevice d = None) (forest_fields xs) \<and> n + length (forest_resources L xs) \<le> maxResources"

definition store_resources :: "resource list \<Rightarrow> (string, resource) gomap \<Rightarrow> (string, resource) gomap" where
  "store_resources rs m = fold (\<lambda>r. AList.update (rs_ID r) r) rs m"

text \<open>A walk over a part of the forest: it fails exactly on a part that is not acceptable, and otherwise adds what the part stands for.\<close>

definition walked :: "walk_state \<Rightarrow> bool \<Rightarrow> resource list \<Rightarrow> relation list \<Rightarrow> walk_state result \<Rightarrow> bool" where
  "walked st ok rs es r = (case r of Inl _ \<Rightarrow> \<not> ok | Inr st' \<Rightarrow> ok \<and>
     st' = \<lparr>wk_count = wk_count st + length rs, wk_resources = store_resources rs (wk_resources st), wk_relations = wk_relations st @ es\<rparr>)"

lemma store_resources_append: "store_resources (rs @ qs) m = store_resources qs (store_resources rs m)"
  by (simp add: store_resources_def)

lemma resource_ids [simp]: "rs_ID (block_resource L d) = block_id L d" "rs_ID (filesystem_resource L d) = filesystem_id L d"
  by (simp_all add: block_resource_def filesystem_resource_def)

lemma walked_device:
  "walked st (validateBlockDevice d = None \<and> wk_count st + length (device_resources L d) \<le> maxResources)
     (device_resources L d) (own_edges L parent d) (walk_device L d parent st)"
proof (cases "validateBlockDevice d = None \<and> wk_count st < maxResources")
  case True
  show ?thesis
    by (cases "has_filesystem d"; cases "parent = []")
       (use True in \<open>auto simp: walked_def walk_device_def put_resource_def put_relation_def device_resources_def own_edges_def store_resources_def Let_def\<close>)
next
  case False
  then show ?thesis by (auto simp: walked_def walk_device_def put_resource_def device_resources_def split: option.split)
qed

lemma walked_sequence:
  assumes "walked st (a \<and> wk_count st + length rs \<le> maxResources) rs es r"
    and "\<And>st1. r = Inr st1 \<Longrightarrow> wk_count st1 \<le> maxResources \<Longrightarrow> walked st1 (b \<and> wk_count st1 + length qs \<le> maxResources) qs fs (f st1)"
  shows "walked st ((a \<and> b) \<and> wk_count st + length (rs @ qs) \<le> maxResources) (rs @ qs) (es @ fs) (case r of Inl e \<Rightarrow> Inl e | Inr st1 \<Rightarrow> f st1)"
proof (cases r)
  case (Inl e)
  then show ?thesis using assms(1) by (auto simp: walked_def)
next
  case (Inr st1)
  then show ?thesis using assms(1) assms(2)[of st1] by (auto simp: walked_def store_resources_append add.assoc split: sum.splits)
qed

lemma walked_nothing: "wk_count st \<le> maxResources \<Longrightarrow> walked st (True \<and> wk_count st + length [] \<le> maxResources) [] [] (Inr st)"
  by (simp add: walked_def store_resources_def)

lemmas forest_defs = forest_fields_def forest_resources_def forest_edges_def

lemma walked_forest:
  "wk_count st \<le> maxResources \<Longrightarrow>
   walked st (list_all (\<lambda>d. validateBlockDevice d = None) (forest_fields [x]) \<and> wk_count st + length (forest_resources L [x]) \<le> maxResources)
     (forest_resources L [x]) (forest_edges L parent [x]) (walk_block L x parent st)"
  "wk_count st \<le> maxResources \<Longrightarrow>
   walked st (list_all (\<lambda>d. validateBlockDevice d = None) (forest_fields xs) \<and> wk_count st + length (forest_resources L xs) \<le> maxResources)
     (forest_resources L xs) (forest_edges L parent xs) (walk_blocks L xs parent st)"
proof (induction L x parent st and L xs parent st rule: walk_block_walk_blocks.induct)
  case (1 L d kids parent st)
  show ?case using walked_sequence[OF walked_device[of st d L parent] 1(1)] by (simp add: forest_defs)
next
  case (2 L parent st)
  then show ?case using walked_nothing by (simp add: forest_defs)
next
  case (3 L x xs parent st)
  show ?case using walked_sequence[OF 3(1)[OF 3(3)] 3(2)] by (simp add: forest_defs conj_assoc)
qed

lemma walk_block_walk_blocks_start:
  "walked \<lparr>wk_count = 0, wk_resources = [], wk_relations = []\<rparr> (acceptable L 0 xs) (forest_resources L xs) (forest_edges L [] xs)
     (walk_blocks L xs [] \<lparr>wk_count = 0, wk_resources = [], wk_relations = []\<rparr>)"
  using walked_forest(2)[of "\<lparr>wk_count = 0, wk_resources = [], wk_relations = []\<rparr>" xs L "[]"] by (simp add: acceptable_def)

lemma store_resources_keys:
  "fst ` set (store_resources rs m) = rs_ID ` set rs \<union> fst ` set m"
  by (induction rs arbitrary: m) (auto simp: store_resources_def dom_update)

lemma store_resources_wf:
  "distinct (map fst m) \<Longrightarrow> distinct (map fst (store_resources rs m))"
  by (induction rs arbitrary: m) (auto simp: store_resources_def distinct_update)

lemma store_resources_values:
  "\<forall>(k, r) \<in> set m. k = rs_ID r \<and> r \<in> Q \<Longrightarrow> \<forall>(k, r) \<in> set (store_resources rs m). k = rs_ID r \<and> r \<in> Q \<union> set rs"
proof (induction rs arbitrary: m Q)
  case (Cons x rs)
  have "\<forall>(k, r) \<in> set (AList.update (rs_ID x) x m). k = rs_ID r \<and> r \<in> insert x Q"
    using Cons.prems by (induction m) auto
  then show ?case using Cons.IH[of "AList.update (rs_ID x) x m" "insert x Q"] by (simp add: store_resources_def)
qed (auto simp: store_resources_def)

lemma forest_edge_ends:
  "e \<in> set (device_edges L parent x) \<Longrightarrow>
   rl_Kind e = ''contains'' \<and> rl_From e \<in> insert parent (rs_ID ` set (forest_resources L [x])) \<and> rl_To e \<in> rs_ID ` set (forest_resources L [x])
   \<and> (parent = [] \<longrightarrow> rl_From e \<in> rs_ID ` set (forest_resources L [x]))"
proof (induction x arbitrary: parent e)
  case (BlockDevice d kids)
  have b: "block_id L d \<in> rs_ID ` set (forest_resources L [BlockDevice d kids])"
    by (simp add: forest_defs device_resources_def)
  have f: "has_filesystem d \<Longrightarrow> filesystem_id L d \<in> rs_ID ` set (forest_resources L [BlockDevice d kids])"
    by (simp add: forest_defs device_resources_def)
  have k: "x \<in> set kids \<Longrightarrow> set (forest_resources L [x]) \<subseteq> set (forest_resources L [BlockDevice d kids])" for x
    by (auto simp: forest_defs)
  consider "e \<in> set (own_edges L parent d)" | x where "x \<in> set kids" "e \<in> set (device_edges L (block_id L d) x)"
    using BlockDevice.prems by auto
  then show ?case
  proof cases
    case 1
    then show ?thesis using b f by (auto simp: own_edges_def contains_edge_def split: if_splits)
  next
    case 2
    then have "rs_ID ` set (forest_resources L [x]) \<subseteq> rs_ID ` set (forest_resources L [BlockDevice d kids])" using k by blast
    then show ?thesis using BlockDevice.IH[OF 2] b by (metis insert_iff subsetD)
  qed
qed

lemma device_resources_of_forest: "x \<in> set xs \<Longrightarrow> set (forest_resources L [x]) \<subseteq> set (forest_resources L xs)"
  by (auto simp: forest_defs)

text \<open>\<open>parseLSBLK\<close> is exact. It fails exactly if the document does not decode, if one of its devices is malformed, or if there are more
  than \<open>maxResources\<close> devices and filesystems. Otherwise it returns one resource, built from one of the devices that have it, for each
  identity in the forest, in strictly ascending order of the identities; its relations are exactly the edges of the forest, sorted; and
  both ends of every relation are returned too.\<close>

theorem block_inventory_exact:
  "case decodeStrict decode input of
     Inl e \<Rightarrow> parseLSBLK L decode input = Inl (Wrapf ''decode lsblk: %w'' [] e)
   | Inr devices \<Rightarrow> (case parseLSBLK L decode input of
       Inl _ \<Rightarrow> \<not> acceptable L 0 devices
     | Inr r \<Rightarrow> acceptable L 0 devices \<and> sorted_wrt (<) (map rs_ID (ar_Resources r)) \<and> length (ar_Resources r) \<le> maxResources \<and>
         rs_ID ` set (ar_Resources r) = rs_ID ` set (forest_resources L devices) \<and> set (ar_Resources r) \<subseteq> set (forest_resources L devices) \<and>
         ar_Relations r = sortRelations (forest_edges L [] devices) \<and>
         (rl_From ` set (ar_Relations r) \<union> rl_To ` set (ar_Relations r)) \<subseteq> rs_ID ` set (ar_Resources r) \<and>
         ar_Mounts r = [] \<and> ar_Findings r = [])"
proof (cases "decodeStrict decode input")
  case (Inl e)
  then show ?thesis by (simp add: parseLSBLK_def)
next
  case d: (Inr devices)
  let ?st = "\<lparr>wk_count = 0, wk_resources = [], wk_relations = []\<rparr>"
  note w = walk_block_walk_blocks_start[of L devices]
  show ?thesis
  proof (cases "walk_blocks L devices [] ?st")
    case (Inl e)
    then show ?thesis using w d by (simp add: parseLSBLK_def walked_def)
  next
    case (Inr st')
    let ?m = "store_resources (forest_resources L devices) []"
    have st': "st' = \<lparr>wk_count = length (forest_resources L devices), wk_resources = ?m, wk_relations = forest_edges L [] devices\<rparr>"
      and ok: "acceptable L 0 devices" using w Inr by (simp_all add: walked_def)
    have r: "parseLSBLK L decode input = Inr (empty_result\<lparr>ar_Resources := sort_key rs_ID (map snd ?m), ar_Relations := sortRelations (forest_edges L [] devices)\<rparr>)"
      using d Inr st' by (simp add: parseLSBLK_def)
    have keys: "map rs_ID (map snd ?m) = map fst ?m" and vals: "set (map snd ?m) \<subseteq> set (forest_resources L devices)"
      using store_resources_values[of "[]" "{}" "forest_resources L devices"] by auto
    have ids: "distinct (map rs_ID (map snd ?m))" unfolding keys by (rule store_resources_wf) simp
    have all_ids: "rs_ID ` set (map snd ?m) = rs_ID ` set (forest_resources L devices)"
      using arg_cong[OF keys, of set] store_resources_keys[of "forest_resources L devices" "[]"] by (simp only: set_map) simp
    have "length (map snd ?m) \<le> length (forest_resources L devices)"
      using card_image_le[of "set (forest_resources L devices)" rs_ID] card_length[of "forest_resources L devices"] distinct_card[OF ids] all_ids by (simp add: image_image)
    then have few: "length (map snd ?m) \<le> maxResources" using ok by (simp add: acceptable_def)
    have ends: "rl_From e \<in> rs_ID ` set (forest_resources L devices) \<and> rl_To e \<in> rs_ID ` set (forest_resources L devices)"
      if "e \<in> set (forest_edges L [] devices)" for e
      using that forest_edge_ends[of e L "[]"] device_resources_of_forest[of _ devices L] by (fastforce simp: forest_edges_def)
    have strict: "sorted_wrt (<) (map rs_ID (sort_key rs_ID (map snd ?m)))"
      using ids by (simp only: strict_sorted_iff distinct_map distinct_sort sorted_sort_key set_sort simp_thms)
    show ?thesis using d r ok strict few all_ids vals ends by (auto simp: sortRelations_def empty_result_def)
  qed
qed

end
