(* ===== verification/Storage_Volumes.thy ===== *)
theory Storage_Volumes
  imports Storage_Block Maintenance Host_Image
begin

text \<open>
  The enrichers for volume managers and pools (\<open>internal/modules/storage\<close>: \<open>lvm.go\<close>, \<open>zfs.go\<close>, \<open>btrfs.go\<close>): what the tools print is
  checked line by line and becomes resources, relations and findings beside those of the core adapters.
\<close>

section \<open>LVM\<close>

definition lvmPVFields :: string where "lvmPVFields = ''pv_uuid,vg_uuid,pv_name,pv_size,pv_free,pv_attr''"
definition lvmVGFields :: string where "lvmVGFields = ''vg_uuid,vg_name,vg_size,vg_free,vg_attr''"
definition lvmLVFields :: string where
  "lvmLVFields = ''lv_uuid,vg_uuid,lv_name,vg_name,lv_path,lv_size,lv_attr,data_percent,metadata_percent''"

record lvm_pv =
  pv_UUID :: string
  pv_VGUUID :: string
  pv_Name :: string
  pv_Size :: string
  pv_Free :: string
  pv_Attr :: string

record lvm_vg =
  vg_UUID :: string
  vg_Name :: string
  vg_Size :: string
  vg_Free :: string
  vg_Attr :: string

record lvm_lv =
  lv_UUID :: string
  lv_VGUUID :: string
  lv_Name :: string
  lv_VGName :: string
  lv_Path :: string
  lv_Size :: string
  lv_Attr :: string
  lv_Data :: string
  lv_Metadata :: string

record lvm_report =
  lr_PVs :: "lvm_pv list"
  lr_VGs :: "lvm_vg list"
  lr_LVs :: "lvm_lv list"

definition validLVMSize :: "string \<Rightarrow> bool" where
  "validLVMSize v \<longleftrightarrow> snd (strictUint v) = None"

definition validLVMPercent :: "storage_lib \<Rightarrow> string \<Rightarrow> bool" where
  "validLVMPercent L v = (if v = [] then True else (case sl_ParseFloat L v of
     (Finite n, None) \<Rightarrow> n \<ge> 0 \<and> n \<le> 100 | _ \<Rightarrow> False))"

text \<open>The three loops share the set of identifiers seen; \<open>None\<close> is a rejected entry.\<close>

fun check_each :: "('a \<Rightarrow> bool) \<Rightarrow> ('a \<Rightarrow> string) \<Rightarrow> 'a list \<Rightarrow> string list \<Rightarrow> string list option" where
  "check_each ok key [] seen = Some seen"
| "check_each ok key (x # xs) seen = (if \<not> ok x \<or> key x \<in> set seen then None else check_each ok key xs (key x # seen))"

definition valid_pv :: "lvm_pv \<Rightarrow> bool" where
  "valid_pv p \<longleftrightarrow> validateStrings [pv_UUID p, pv_VGUUID p, pv_Name p, pv_Size p, pv_Free p, pv_Attr p] = None \<and> pv_UUID p \<noteq> [] \<and>
     validLVMSize (pv_Size p) \<and> validLVMSize (pv_Free p)"

definition valid_vg :: "lvm_vg \<Rightarrow> bool" where
  "valid_vg g \<longleftrightarrow> validateStrings [vg_UUID g, vg_Name g, vg_Size g, vg_Free g, vg_Attr g] = None \<and> vg_UUID g \<noteq> [] \<and>
     validLVMSize (vg_Size g) \<and> validLVMSize (vg_Free g)"

definition valid_lv :: "storage_lib \<Rightarrow> lvm_lv \<Rightarrow> bool" where
  "valid_lv L v \<longleftrightarrow> validateStrings [lv_UUID v, lv_VGUUID v, lv_Name v, lv_VGName v, lv_Path v, lv_Size v, lv_Attr v, lv_Data v, lv_Metadata v] = None \<and>
     lv_UUID v \<noteq> [] \<and> lv_VGUUID v \<noteq> [] \<and> lv_Path v \<noteq> [] \<and> validLVMSize (lv_Size v) \<and> validLVMPercent L (lv_Data v) \<and> validLVMPercent L (lv_Metadata v)"

definition parseLVMReport :: "storage_lib \<Rightarrow> (string \<Rightarrow> (lvm_report list \<times> bool) result) \<Rightarrow> string \<Rightarrow> lvm_report result" where
  "parseLVMReport L decode input = (case decodeStrict decode input of
     Inl e \<Rightarrow> Inl (Wrapf ''decode LVM report: %w'' [] e)
   | Inr [r] \<Rightarrow>
       (if (lr_PVs r \<noteq> [] \<and> (lr_VGs r \<noteq> [] \<or> lr_LVs r \<noteq> [])) \<or> (lr_VGs r \<noteq> [] \<and> lr_LVs r \<noteq> []) \<or>
           length (lr_PVs r) + length (lr_VGs r) + length (lr_LVs r) > maxResources
        then Inl (Errorf ''invalid LVM report'' [])
        else (case check_each valid_pv pv_UUID (lr_PVs r) [] of
            None \<Rightarrow> Inl (Errorf ''invalid LVM physical volume'' [])
          | Some seen1 \<Rightarrow> (case check_each valid_vg vg_UUID (lr_VGs r) seen1 of
              None \<Rightarrow> Inl (Errorf ''invalid LVM volume group'' [])
            | Some seen2 \<Rightarrow> (case check_each (valid_lv L) lv_UUID (lr_LVs r) seen2 of
                None \<Rightarrow> Inl (Errorf ''invalid LVM logical volume'' [])
              | Some _ \<Rightarrow> Inr r))))
   | Inr _ \<Rightarrow> Inl (Errorf ''invalid LVM report'' []))"

text \<open>\<open>0\<close> beyond the end of the attributes.\<close>

definition lvmAttrAt :: "string \<Rightarrow> nat \<Rightarrow> char" where
  "lvmAttrAt v index = (if length v \<le> index then CHR 0x00 else v ! index)"

definition lvmLVDetails :: "lvm_lv \<Rightarrow> detail list" where
  "lvmLVDetails v = (if lv_Data v \<noteq> [] then [\<lparr>dt_Label = ''LVM data usage'', dt_Value = lv_Data v @ ''%''\<rparr>] else []) @
     (if lv_Metadata v \<noteq> [] then [\<lparr>dt_Label = ''Metadata utilization'', dt_Value = lv_Metadata v @ ''%''\<rparr>] else [])"

definition missing_in :: "(string, nat) gomap \<Rightarrow> string \<Rightarrow> nat" where
  "missing_in m i = (case map_of m i of None \<Rightarrow> 0 | Some n \<Rightarrow> n)"

definition pv_step :: "storage_lib \<Rightarrow> lvm_vg list \<Rightarrow> (string, resource) gomap \<Rightarrow> lvm_pv \<Rightarrow> adapter_result \<times> (string, nat) gomap \<Rightarrow> adapter_result \<times> (string, nat) gomap" where
  "pv_step L vgs byPath p = (\<lambda>(r, missing).
     if pv_VGUUID p \<notin> vg_UUID ` set vgs \<and> pv_VGUUID p \<noteq> [] then (r, missing)
     else
       let r1 = add_resource (zero_resource\<lparr>rs_ID := stableID L ''lvm-pv'' (pv_UUID p), rs_Kind := ''physical-volume'', rs_Name := pv_Name p,
                  rs_Path := pv_Name p, rs_SizeBytes := parseUint (pv_Size p), rs_Health := HealthHealthy, rs_State := ''available''\<rparr>) r;
           r2 = (case map_of byPath (pv_Name p) of
               Some core \<Rightarrow> if pv_VGUUID p \<noteq> [] then add_relation (rs_ID core) (stableID L ''lvm-vg'' (pv_VGUUID p)) ''member-of'' r1 else r1
             | None \<Rightarrow> r1)
       in (r2, if lvmAttrAt (pv_Attr p) 2 = CHR ''m'' then AList.update (pv_VGUUID p) (missing_in missing (pv_VGUUID p) + 1) missing else missing))"

definition vg_step :: "storage_lib \<Rightarrow> (string, nat) gomap \<Rightarrow> lvm_vg \<Rightarrow> adapter_result \<Rightarrow> adapter_result" where
  "vg_step L missing g r =
     (let i = stableID L ''lvm-vg'' (vg_UUID g);
          (health, r1) =
            (if missing_in missing (vg_UUID g) > 0 then
               (HealthCritical, add_finding i HealthCritical ''LVM volume group has missing devices''
                  (format_uint (missing_in missing (vg_UUID g)) @ '' physical volume is missing'') r)
             else if lvmAttrAt (vg_Attr g) 3 = CHR ''p'' then
               (HealthCritical, add_finding i HealthCritical ''LVM volume group is partial'' ''one or more physical volumes are unavailable'' r)
             else (HealthHealthy, r))
      in add_resource (zero_resource\<lparr>rs_ID := i, rs_Kind := ''volume-group'', rs_Name := vg_Name g, rs_SizeBytes := parseUint (vg_Size g),
           rs_Health := health, rs_State := ''available'', rs_Details := [\<lparr>dt_Label = ''Free'', dt_Value = vg_Free g\<rparr>]\<rparr>) r1)"

definition lv_step :: "storage_lib \<Rightarrow> lvm_vg list \<Rightarrow> lvm_lv \<Rightarrow> adapter_result \<Rightarrow> adapter_result" where
  "lv_step L vgs v r =
     (if lv_VGUUID v \<notin> vg_UUID ` set vgs then r
      else
        let (state, health) = (if lvmAttrAt (lv_Attr v) 4 = CHR ''a'' then (''available'', HealthHealthy) else (''inactive'', HealthUnknown));
            i = stableID L ''lvm-lv'' (lv_UUID v)
        in add_relation (stableID L ''lvm-vg'' (lv_VGUUID v)) i ''contains''
             (add_resource (zero_resource\<lparr>rs_ID := i, rs_Kind := ''logical-volume'', rs_Name := lv_VGName v @ ''/'' @ lv_Name v, rs_Path := lv_Path v,
                rs_SizeBytes := parseUint (lv_Size v), rs_Health := health, rs_State := state, rs_Details := lvmLVDetails v\<rparr>) r))"

definition lvmResult :: "storage_lib \<Rightarrow> lvm_report \<Rightarrow> lvm_report \<Rightarrow> lvm_report \<Rightarrow> inventory \<Rightarrow> adapter_result result" where
  "lvmResult L pvs vgs lvs iv =
     (if length (lr_PVs pvs) + length (lr_VGs vgs) + length (lr_LVs lvs) > maxResources then Inl (Errorf ''LVM resources exceed limit'' [])
      else
        let (r1, missing) = fold (pv_step L (lr_VGs vgs) (index_by rs_Path (iv_Resources iv))) (lr_PVs pvs) (empty_result, []);
            r2 = fold (vg_step L missing) (lr_VGs vgs) r1;
            r3 = fold (lv_step L (lr_VGs vgs)) (lr_LVs lvs) r2
        in Inr (sorted_result r3))"

definition lvm_report_of :: "storage_lib \<Rightarrow> (string \<Rightarrow> (lvm_report list \<times> bool) result) \<Rightarrow> 'w tool_exec \<Rightarrow> string \<Rightarrow> string \<Rightarrow> 'w \<Rightarrow> lvm_report result \<times> 'w" where
  "lvm_report_of L decode exec path columns w =
     (case runner_Run (adapter_runner exec) path [''--reportformat'', ''json'', ''--units'', ''b'', ''--nosuffix'', ''-o'', columns] w of
        ((_, Some e), w1) \<Rightarrow> (Inl (Wrapf ''read LVM report: %w'' [] e), w1)
      | ((output, None), w1) \<Rightarrow> (parseLVMReport L decode output, w1))"

record lvm_tools =
  lt_PVS :: string
  lt_VGS :: string
  lt_LVS :: string

definition lvm_Collect :: "storage_lib \<Rightarrow> (string \<Rightarrow> (lvm_report list \<times> bool) result) \<Rightarrow> 'w tool_exec \<Rightarrow> lvm_tools \<Rightarrow> inventory \<Rightarrow> 'w \<Rightarrow> collected_pair \<times> 'w" where
  "lvm_Collect L decode exec tools iv w =
     (case lvm_report_of L decode exec (lt_PVS tools) lvmPVFields w of
        (Inl e, w1) \<Rightarrow> ((empty_result, Some e), w1)
      | (Inr pvs, w1) \<Rightarrow> (case lvm_report_of L decode exec (lt_VGS tools) lvmVGFields w1 of
          (Inl e, w2) \<Rightarrow> ((empty_result, Some e), w2)
        | (Inr vgs, w2) \<Rightarrow> (case lvm_report_of L decode exec (lt_LVS tools) lvmLVFields w2 of
            (Inl e, w3) \<Rightarrow> ((empty_result, Some e), w3)
          | (Inr lvs, w3) \<Rightarrow> (pair_of (lvmResult L pvs vgs lvs iv), w3))))"

section \<open>ZFS\<close>

record zfs_pool =
  zp_name :: string
  zp_size :: "64 word"
  zp_alloc :: "64 word"
  zp_free :: "64 word"
  zp_cap :: "64 word"
  zp_health :: string

record zfs_dataset =
  zd_name :: string
  zd_kind :: string
  zd_mountpoint :: string
  zd_used :: "64 word"
  zd_available :: "64 word"
  zd_refer :: "64 word"

record zfs_status =
  zs_state :: string
  zs_read :: "64 word"
  zs_write :: "64 word"
  zs_checksum :: "64 word"

abbreviation lf :: char where "lf \<equiv> CHR 0x0A"

definition zfs_pool_line :: "storage_lib \<Rightarrow> zfs_pool list \<Rightarrow> string \<Rightarrow> zfs_pool option" where
  "zfs_pool_line L pools line = (case split_on (CHR 0x09) line of
     [n, s, a, fr, c, h] \<Rightarrow>
       (if validateStrings [n, s, a, fr, c, h] \<noteq> None \<or> n = [] \<or> n \<in> zp_name ` set pools \<or> length pools \<ge> maxResources then None
        else (case (strictUint s, strictUint a, strictUint fr, strictUint (without_suffix ''%'' c)) of
            ((sz, None), (alloc, None), (free, None), (capacity, None)) \<Rightarrow>
              if capacity > 100 \<or> sz = 0 \<or> alloc > sz \<or> free > sz then None
              else Some \<lparr>zp_name = n, zp_size = sz, zp_alloc = alloc, zp_free = free, zp_cap = capacity, zp_health = to_upper (sl_upper L) h\<rparr>
          | _ \<Rightarrow> None))
   | _ \<Rightarrow> None)"

definition zfs_dataset_line :: "zfs_dataset list \<Rightarrow> string \<Rightarrow> zfs_dataset option" where
  "zfs_dataset_line datasets line = (case split_on (CHR 0x09) line of
     [n, k, u, a, rf, mp] \<Rightarrow>
       (if validateStrings [n, k, u, a, rf, mp] \<noteq> None \<or> n = [] \<or> n \<in> zd_name ` set datasets \<or> length datasets \<ge> maxResources then None
        else (case (strictUint u, strictUint a, strictUint rf) of
            ((used, None), (available, None), (refer, None)) \<Rightarrow>
              if k \<noteq> ''filesystem'' \<and> k \<noteq> ''volume'' then None
              else Some \<lparr>zd_name = n, zd_kind = k, zd_mountpoint = mp, zd_used = used, zd_available = available, zd_refer = refer\<rparr>
          | _ \<Rightarrow> None))
   | _ \<Rightarrow> None)"

text \<open>The loop over the lines of a table: each line is read against the rows before it.\<close>

fun read_rows :: "('a list \<Rightarrow> string \<Rightarrow> 'a option) \<Rightarrow> string list \<Rightarrow> 'a list \<Rightarrow> 'a list option" where
  "read_rows row [] xs = Some xs"
| "read_rows row (line # lines) xs = (case row xs line of None \<Rightarrow> None | Some x \<Rightarrow> read_rows row lines (xs @ [x]))"

definition read_table :: "('a list \<Rightarrow> string \<Rightarrow> 'a option) \<Rightarrow> string \<Rightarrow> string \<Rightarrow> 'a list result" where
  "read_table row message input = (case read_rows row (split_on lf (trim_space input)) [] of
     None \<Rightarrow> Inl (Errorf message []) | Some xs \<Rightarrow> Inr xs)"

definition parseZFSPools :: "storage_lib \<Rightarrow> string \<Rightarrow> zfs_pool list result" where
  "parseZFSPools L = read_table (zfs_pool_line L) ''invalid ZFS pool''"

definition parseZFSDatasets :: "string \<Rightarrow> zfs_dataset list result" where
  "parseZFSDatasets = read_table zfs_dataset_line ''invalid ZFS dataset''"

definition status_of :: "(string, zfs_status) gomap \<Rightarrow> string \<Rightarrow> zfs_status" where
  "status_of m k = (case map_of m k of Some s \<Rightarrow> s | None \<Rightarrow> \<lparr>zs_state = [], zs_read = 0, zs_write = 0, zs_checksum = 0\<rparr>)"

text \<open>The state of the loop: the table, the current pool, and whether its configuration has begun.\<close>

definition zfs_status_line :: "storage_lib \<Rightarrow> string \<Rightarrow> (string, zfs_status) gomap \<times> string \<times> bool \<Rightarrow> ((string, zfs_status) gomap \<times> string \<times> bool) result" where
  "zfs_status_line L line = (\<lambda>(states, pool, inConfig).
     if length line > maxFieldBytes then Inl (Errorf ''ZFS status line exceeds limit'' [])
     else let trimmed = trim_space line in
       if prefix ''pool: '' trimmed then
         (let name = drop 6 trimmed in
          if name = [] \<or> validateStrings [name] \<noteq> None \<or> zs_state (status_of states name) \<noteq> [] then Inl (Errorf ''invalid ZFS status'' [])
          else Inr (states, name, False))
       else if prefix ''state: '' trimmed \<and> pool \<noteq> [] then
         (let state = drop 7 trimmed in
          if state = [] \<or> validateStrings [state] \<noteq> None then Inl (Errorf ''invalid ZFS status'' [])
          else Inr (AList.update pool ((status_of states pool)\<lparr>zs_state := to_upper (sl_upper L) state\<rparr>) states, pool, inConfig))
       else if trimmed = ''config:'' then Inr (states, pool, True)
       else if \<not> inConfig \<or> pool = [] \<or> trimmed = [] \<or> prefix ''NAME '' trimmed then Inr (states, pool, inConfig)
       else (case string_Fields trimmed of
           dev # _ # rd # wr # ck # _ \<Rightarrow>
             if \<not> prefix ''/'' dev \<or> validateStrings (take 5 (string_Fields trimmed)) \<noteq> None then Inr (states, pool, inConfig)
             else (case (strictUint rd, strictUint wr, strictUint ck) of
                 ((rn, None), (wn, None), (cn, None)) \<Rightarrow>
                   let s = status_of states pool in
                   Inr (AList.update pool (s\<lparr>zs_read := zs_read s + rn, zs_write := zs_write s + wn, zs_checksum := zs_checksum s + cn\<rparr>) states, pool, inConfig)
               | _ \<Rightarrow> Inl (Errorf ''invalid ZFS status errors'' []))
         | _ \<Rightarrow> Inr (states, pool, inConfig)))"

fun zfs_status_lines :: "storage_lib \<Rightarrow> string list \<Rightarrow> (string, zfs_status) gomap \<times> string \<times> bool \<Rightarrow> (string, zfs_status) gomap result" where
  "zfs_status_lines L [] st = Inr (fst st)"
| "zfs_status_lines L (line # lines) st = (case zfs_status_line L line st of Inl e \<Rightarrow> Inl e | Inr st1 \<Rightarrow> zfs_status_lines L lines st1)"

definition parseZFSStatus :: "storage_lib \<Rightarrow> string \<Rightarrow> (string, zfs_status) gomap result" where
  "parseZFSStatus L input = zfs_status_lines L (split_on lf input) ([], [], False)"

definition zfsUsedPercent :: "storage_lib \<Rightarrow> 64 word \<Rightarrow> 64 word \<Rightarrow> rat" where
  "zfsUsedPercent L alloc sz =
     (if sz = 0 then 0
      else let fl = sl_round L; percent = fl (fl (fl (of_nat (unat alloc)) * 100) / fl (of_nat (unat sz))) in
        if percent > 100 then 100 else percent)"

definition pool_state :: "(string, zfs_status) gomap \<Rightarrow> zfs_pool \<Rightarrow> string" where
  "pool_state states p = (let s = zs_state (status_of states (zp_name p)) in if s \<noteq> [] then s else zp_health p)"

definition pool_health :: "string \<Rightarrow> health" where
  "pool_health state = (if state = ''ONLINE'' then HealthHealthy
     else if state \<in> set [''DEGRADED'', ''FAULTED'', ''UNAVAIL'', ''SUSPENDED'', ''REMOVED'', ''OFFLINE''] then HealthCritical else HealthWarning)"

abbreviation detail_of :: "string \<Rightarrow> string \<Rightarrow> detail" where
  "detail_of label v \<equiv> \<lparr>dt_Label = label, dt_Value = v\<rparr>"

abbreviation number :: "64 word \<Rightarrow> string" where
  "number n \<equiv> format_uint (unat n)"

definition pool_step :: "storage_lib \<Rightarrow> (string, zfs_status) gomap \<Rightarrow> zfs_pool \<Rightarrow> adapter_result \<Rightarrow> adapter_result" where
  "pool_step L states p r =
     (let status = status_of states (zp_name p); state = pool_state states p; health = pool_health state;
          i = stableID L ''zfs-pool'' (zp_name p); lower = to_lower (sl_lower L) state;
          details = [detail_of ''ZFS pool health'' state, detail_of ''Allocated'' (number (zp_alloc p)), detail_of ''Free'' (number (zp_free p)),
            detail_of ''Capacity'' (number (zp_cap p) @ ''%''), detail_of ''Read errors'' (number (zs_read status)),
            detail_of ''Write errors'' (number (zs_write status)), detail_of ''Checksum errors'' (number (zs_checksum status))];
          r1 = add_resource (zero_resource\<lparr>rs_ID := i, rs_Kind := ''zfs-pool'', rs_Name := zp_name p, rs_SizeBytes := zp_size p,
            rs_Health := health, rs_State := lower, rs_Details := details\<rparr>) r
      in if health = HealthCritical then add_finding i health (''ZFS pool is '' @ lower) ''the pool is not in a healthy state'' r1 else r1)"

definition dataset_mount :: "storage_lib \<Rightarrow> inventory \<Rightarrow> zfs_pool \<Rightarrow> zfs_dataset \<Rightarrow> mount" where
  "dataset_mount L iv p d =
     (let i = (case List.find (\<lambda>m. mt_Target m = zd_mountpoint d \<and> mt_Source m = zd_name d \<and> mt_Filesystem m = ''zfs'') (iv_Mounts iv) of
            Some m \<Rightarrow> mt_ID m | None \<Rightarrow> stableID L ''zfs-mount'' (zd_mountpoint d))
      in \<lparr>mt_AvailableBytes = zp_free p, mt_Filesystem = ''zfs'', mt_Health = [], mt_ID = i, mt_Managed = False, mt_Options = [], mt_ReadOnly = False,
          mt_ResourceID = stableID L ''zfs-pool'' (zp_name p), mt_Source = zd_name d, mt_State = ''mounted'', mt_Target = zd_mountpoint d,
          mt_TotalBytes = zp_size p, mt_UsedBytes = zp_alloc p, mt_UsedPercent = Some (zfsUsedPercent L (zp_alloc p) (zp_size p))\<rparr>)"

definition dataset_pool :: "zfs_dataset \<Rightarrow> string" where
  "dataset_pool d = hd (split_on slash (zd_name d))"

fun dataset_steps :: "storage_lib \<Rightarrow> (string, zfs_pool) gomap \<Rightarrow> inventory \<Rightarrow> zfs_dataset list \<Rightarrow> adapter_result \<Rightarrow> adapter_result result" where
  "dataset_steps L known iv [] r = Inr r"
| "dataset_steps L known iv (d # ds) r = (case map_of known (dataset_pool d) of
     None \<Rightarrow> Inl (Errorf ''ZFS dataset references unknown pool %q'' [dataset_pool d])
   | Some p \<Rightarrow>
       let i = stableID L ''zfs-dataset'' (zd_name d);
           r1 = add_relation (stableID L ''zfs-pool'' (dataset_pool d)) i ''contains''
             (add_resource (zero_resource\<lparr>rs_ID := i, rs_Kind := ''zfs-'' @ zd_kind d, rs_Name := zd_name d, rs_SizeBytes := zd_refer d,
               rs_Health := HealthHealthy, rs_State := ''available''\<rparr>) r)
       in dataset_steps L known iv ds
            (if zd_kind d = ''filesystem'' \<and> prefix ''/'' (zd_mountpoint d) then add_mount (dataset_mount L iv p d) r1 else r1))"

text \<open>Go walks the map of states in any order, so of several unknown pools any may be the one that is named.\<close>

definition zfsResult :: "storage_lib \<Rightarrow> zfs_pool list \<Rightarrow> (string, zfs_status) gomap \<Rightarrow> zfs_dataset list \<Rightarrow> inventory \<Rightarrow> adapter_result result" where
  "zfsResult L pools states datasets iv =
     (let known = index_by zp_name pools; r1 = fold (pool_step L states) pools empty_result in
      case List.find (\<lambda>n. map_of known n = None) (map fst states) of
        Some n \<Rightarrow> Inl (Errorf ''ZFS status references unknown pool %q'' [n])
      | None \<Rightarrow> map_sum id sorted_result (dataset_steps L known iv datasets r1))"

record zfs_tools =
  zt_ZPool :: string
  zt_ZFS :: string

definition zfs_Collect :: "storage_lib \<Rightarrow> 'w tool_exec \<Rightarrow> zfs_tools \<Rightarrow> inventory \<Rightarrow> 'w \<Rightarrow> collected_pair \<times> 'w" where
  "zfs_Collect L exec tools iv w =
     (case runner_Run (adapter_runner exec) (zt_ZPool tools) [''list'', ''-Hp'', ''-o'', ''name,size,alloc,free,cap,health''] w of
        ((_, Some e), w1) \<Rightarrow> ((empty_result, Some (Wrapf ''read ZFS pools: %w'' [] e)), w1)
      | ((pools, None), w1) \<Rightarrow> (case runner_Run (adapter_runner exec) (zt_ZPool tools) [''status'', ''-P''] w1 of
          ((_, Some e), w2) \<Rightarrow> ((empty_result, Some (Wrapf ''read ZFS status: %w'' [] e)), w2)
        | ((statuses, None), w2) \<Rightarrow>
            (case runner_Run (adapter_runner exec) (zt_ZFS tools) [''list'', ''-Hp'', ''-o'', ''name,type,used,available,refer,mountpoint''] w2 of
               ((_, Some e), w3) \<Rightarrow> ((empty_result, Some (Wrapf ''read ZFS datasets: %w'' [] e)), w3)
             | ((datasets, None), w3) \<Rightarrow> (pair_of (case parseZFSPools L pools of Inl e \<Rightarrow> Inl e
                 | Inr ps \<Rightarrow> (case parseZFSStatus L statuses of Inl e \<Rightarrow> Inl e
                   | Inr ss \<Rightarrow> (case parseZFSDatasets datasets of Inl e \<Rightarrow> Inl e
                     | Inr ds \<Rightarrow> zfsResult L ps ss ds iv))), w3))))"

section \<open>Btrfs\<close>

record btrfs_subvolume =
  bv_id :: string
  bv_parent :: string
  bv_path :: string

record btrfs_filesystem =
  bf_uuid :: string
  bf_size :: "64 word"
  bf_missing :: "64 word"
  bf_devices :: "string list"
  bf_errors :: "(string, 64 word) gomap"
  bf_subvolumes :: "btrfs_subvolume list"

definition btrfsSourceDevice :: "string \<Rightarrow> string" where
  "btrfsSourceDevice source = (case cut (CHR ''['') source of Some (device, _) \<Rightarrow> device | None \<Rightarrow> source)"

definition usable_uuid :: "detail \<Rightarrow> bool" where
  "usable_uuid d \<longleftrightarrow> dt_Label d = ''UUID'' \<and> dt_Value d \<noteq> [] \<and> validateStrings [dt_Value d] = None"

definition btrfsMountUUID :: "mount \<Rightarrow> resource list \<Rightarrow> string" where
  "btrfsMountUUID m resources =
     (let uuid = drop 5 (mt_Source m) in
      if prefix ''UUID='' (mt_Source m) \<and> uuid \<noteq> [] \<and> validateStrings [uuid] = None then uuid
      else let device = btrfsSourceDevice (mt_Source m) in
        (case List.find usable_uuid (concat (map rs_Details (filter (\<lambda>r. rs_Path r = device) resources))) of
           Some d \<Rightarrow> dt_Value d | None \<Rightarrow> []))"

definition btrfs_usage_line :: "string \<Rightarrow> string \<Rightarrow> btrfs_filesystem \<Rightarrow> btrfs_filesystem result" where
  "btrfs_usage_line expected raw fs =
     (if length raw > maxFieldBytes then Inl (Errorf ''btrfs usage line exceeds limit'' [])
      else let line = trim_space raw in
        if prefix ''UUID: '' line then
          (if drop 6 line \<noteq> expected then Inl (Errorf ''btrfs usage identifies unexpected filesystem'' []) else Inr (fs\<lparr>bf_uuid := drop 6 line\<rparr>))
        else if prefix ''Device size:'' line then
          (case strictUint (trim_space (drop 12 line)) of
             (n, None) \<Rightarrow> if n = 0 then Inl (Errorf ''invalid Btrfs device size'' []) else Inr (fs\<lparr>bf_size := n\<rparr>)
           | (_, Some _) \<Rightarrow> Inl (Errorf ''invalid Btrfs device size'' []))
        else if prefix ''Device missing:'' line then
          (case strictUint (trim_space (drop 15 line)) of
             (n, None) \<Rightarrow> Inr (fs\<lparr>bf_missing := n\<rparr>)
           | (_, Some _) \<Rightarrow> Inl (Errorf ''invalid Btrfs missing devices'' []))
        else if prefix ''/dev/'' line then
          (case string_Fields line of
             [device, n] \<Rightarrow> if validateStrings [device, n] \<noteq> None \<or> snd (strictUint n) \<noteq> None then Inl (Errorf ''invalid Btrfs device'' [])
               else Inr (fs\<lparr>bf_devices := bf_devices fs @ [device]\<rparr>)
           | _ \<Rightarrow> Inl (Errorf ''invalid Btrfs device'' []))
        else Inr fs)"

fun btrfs_usage_lines :: "string \<Rightarrow> string list \<Rightarrow> btrfs_filesystem \<Rightarrow> btrfs_filesystem result" where
  "btrfs_usage_lines expected [] fs = Inr fs"
| "btrfs_usage_lines expected (l # ls) fs = (case btrfs_usage_line expected l fs of Inl e \<Rightarrow> Inl e | Inr fs1 \<Rightarrow> btrfs_usage_lines expected ls fs1)"

definition parseBtrfsUsage :: "string \<Rightarrow> string \<Rightarrow> btrfs_filesystem result" where
  "parseBtrfsUsage input expected =
     (if length input > maxAdapterBytes then Inl errOutputTooLarge
      else (case btrfs_usage_lines expected (split_on lf input)
          \<lparr>bf_uuid = [], bf_size = 0, bf_missing = 0, bf_devices = [], bf_errors = [], bf_subvolumes = []\<rparr> of
          Inl e \<Rightarrow> Inl e
        | Inr fs \<Rightarrow> if (bf_uuid fs \<noteq> [] \<and> bf_uuid fs \<noteq> expected) \<or> bf_size fs = 0 \<or> bf_devices fs = [] then Inl (Errorf ''invalid Btrfs usage'' [])
            else Inr fs))"

definition errors_of :: "(string, 64 word) gomap \<Rightarrow> string \<Rightarrow> 64 word" where
  "errors_of m d = (case map_of m d of None \<Rightarrow> 0 | Some n \<Rightarrow> n)"

definition btrfs_stats_line :: "string \<Rightarrow> (string, 64 word) gomap \<Rightarrow> (string, 64 word) gomap option" where
  "btrfs_stats_line line m = (case string_Fields line of
     [k, v] \<Rightarrow>
       (if length k > maxFieldBytes \<or> validateStrings [k, v] \<noteq> None then None
        else (case cut_at ''].'' (if prefix ''['' k then drop 1 k else k) of
            None \<Rightarrow> None
          | Some (device, _) \<Rightarrow> if \<not> prefix ''/dev/'' device then None
              else (case strictUint v of (n, None) \<Rightarrow> Some (AList.update device (errors_of m device + n) m) | (_, Some _) \<Rightarrow> None)))
   | _ \<Rightarrow> None)"

fun btrfs_stats_lines :: "string list \<Rightarrow> (string, 64 word) gomap \<Rightarrow> (string, 64 word) gomap option" where
  "btrfs_stats_lines [] m = Some m"
| "btrfs_stats_lines (l # ls) m = (case btrfs_stats_line l m of None \<Rightarrow> None | Some m1 \<Rightarrow> btrfs_stats_lines ls m1)"

definition parseBtrfsStats :: "string \<Rightarrow> (string, 64 word) gomap result" where
  "parseBtrfsStats input = (case btrfs_stats_lines (split_on lf (trim_space input)) [] of
     None \<Rightarrow> Inl (Errorf ''invalid Btrfs device stats'' []) | Some m \<Rightarrow> Inr m)"

definition btrfs_subvolume_line :: "btrfs_subvolume list \<Rightarrow> string \<Rightarrow> btrfs_subvolume option" where
  "btrfs_subvolume_line done line = (case string_Fields line of
     f0 # f1 # f2 # _ # f4 # f5 # f6 # f7 # rest \<Rightarrow>
       (if rest = [] \<or> f0 \<noteq> ''ID'' \<or> f2 \<noteq> ''gen'' \<or> f4 \<noteq> ''top'' \<or> f5 \<noteq> ''level'' \<or> f7 \<noteq> ''path'' \<or> length done \<ge> maxResources then None
        else if snd (strictUint f1) \<noteq> None \<or> f1 \<in> bv_id ` set done \<or> validateStrings [f1, f6] \<noteq> None then None
        else let path = join_with '' '' rest in
          if path = [] \<or> validateStrings [path] \<noteq> None then None
          else Some \<lparr>bv_id = f1, bv_parent = f6, bv_path = path\<rparr>)
   | _ \<Rightarrow> None)"

definition parseBtrfsSubvolumes :: "string \<Rightarrow> btrfs_subvolume list result" where
  "parseBtrfsSubvolumes input = (if trim_space input = [] then Inr [] else read_table btrfs_subvolume_line ''invalid Btrfs subvolume'' input)"

definition btrfs_health :: "btrfs_filesystem \<Rightarrow> health" where
  "btrfs_health fs = (if bf_missing fs > 0 then HealthCritical
     else if list_ex (\<lambda>n. n > 0) (map snd (bf_errors fs)) then HealthWarning else HealthHealthy)"

definition btrfs_device_step :: "storage_lib \<Rightarrow> btrfs_filesystem \<Rightarrow> string \<Rightarrow> adapter_result \<Rightarrow> adapter_result" where
  "btrfs_device_step L fs device r =
     (let i = stableID L ''btrfs-filesystem'' (bf_uuid fs); deviceID = stableID L ''btrfs-device'' (bf_uuid fs @ '':'' @ device);
          n = errors_of (bf_errors fs) device;
          r1 = add_relation deviceID i ''member-of'' (add_resource (zero_resource\<lparr>rs_ID := deviceID, rs_Kind := ''btrfs-device'', rs_Name := device,
            rs_Path := device, rs_Health := btrfs_health fs, rs_State := ''available'', rs_Details := [detail_of ''Btrfs device errors'' (number n)]\<rparr>) r)
      in if n > 0 then add_finding i HealthWarning ''Btrfs device reports errors'' (device @ '' has '' @ number n @ '' errors'') r1 else r1)"

definition btrfs_subvolume_step :: "storage_lib \<Rightarrow> btrfs_filesystem \<Rightarrow> btrfs_subvolume \<Rightarrow> adapter_result \<Rightarrow> adapter_result" where
  "btrfs_subvolume_step L fs v r =
     (let subvolumeID = stableID L ''btrfs-subvolume'' (bf_uuid fs @ '':'' @ bv_id v) in
      add_relation (stableID L ''btrfs-filesystem'' (bf_uuid fs)) subvolumeID ''contains''
        (add_resource (zero_resource\<lparr>rs_ID := subvolumeID, rs_Kind := ''btrfs-subvolume'', rs_Name := bv_path v, rs_Health := HealthHealthy, rs_State := ''available''\<rparr>) r))"

definition btrfs_step :: "storage_lib \<Rightarrow> inventory \<Rightarrow> btrfs_filesystem \<Rightarrow> adapter_result \<Rightarrow> adapter_result" where
  "btrfs_step L iv fs r =
     (let i = stableID L ''btrfs-filesystem'' (bf_uuid fs);
          r1 = (if bf_missing fs > 0 then add_finding i HealthCritical ''Btrfs filesystem has missing devices'' (number (bf_missing fs) @ '' devices missing'') r else r);
          r2 = add_resource (zero_resource\<lparr>rs_ID := i, rs_Kind := ''btrfs-filesystem'', rs_Name := bf_uuid fs, rs_SizeBytes := bf_size fs,
            rs_Health := btrfs_health fs, rs_State := ''mounted''\<rparr>) r1;
          r3 = fold (btrfs_device_step L fs) (bf_devices fs) r2;
          r4 = fold (btrfs_subvolume_step L fs) (bf_subvolumes fs) r3
      in fold (\<lambda>m. add_mount (m\<lparr>mt_ResourceID := i\<rparr>))
           (filter (\<lambda>m. mt_Filesystem m = ''btrfs'' \<and> mt_State m = ''mounted'' \<and> btrfsMountUUID m (iv_Resources iv) = bf_uuid fs) (iv_Mounts iv)) r4)"

fun btrfs_steps :: "storage_lib \<Rightarrow> inventory \<Rightarrow> btrfs_filesystem list \<Rightarrow> string list \<Rightarrow> adapter_result \<Rightarrow> adapter_result result" where
  "btrfs_steps L iv [] seen r = Inr r"
| "btrfs_steps L iv (fs # fss) seen r =
     (if bf_uuid fs = [] \<or> bf_uuid fs \<in> set seen then Inl (Errorf ''duplicate Btrfs filesystem UUID'' [])
      else btrfs_steps L iv fss (bf_uuid fs # seen) (btrfs_step L iv fs r))"

definition btrfsResult :: "storage_lib \<Rightarrow> btrfs_filesystem list \<Rightarrow> inventory \<Rightarrow> adapter_result result" where
  "btrfsResult L filesystems iv = map_sum id sorted_result (btrfs_steps L iv filesystems [] empty_result)"

text \<open>The three commands for one mount, each with its parser.\<close>

definition btrfs_run :: "'w tool_exec \<Rightarrow> string \<Rightarrow> string list \<Rightarrow> string \<Rightarrow> (string \<Rightarrow> 'a result) \<Rightarrow> 'w \<Rightarrow> 'a result \<times> 'w" where
  "btrfs_run exec path args what parse w = (case runner_Run (adapter_runner exec) path args w of
     ((_, Some e), w1) \<Rightarrow> (Inl (Wrapf what [] e), w1) | ((output, None), w1) \<Rightarrow> (parse output, w1))"

definition btrfs_probe :: "'w tool_exec \<Rightarrow> string \<Rightarrow> mount \<Rightarrow> string \<Rightarrow> 'w \<Rightarrow> btrfs_filesystem result \<times> 'w" where
  "btrfs_probe exec path m uuid w =
     (case btrfs_run exec path [''filesystem'', ''usage'', ''-b'', ''--raw'', mt_Target m] ''read Btrfs usage: %w'' (\<lambda>out. parseBtrfsUsage out uuid) w of
        (Inl e, w1) \<Rightarrow> (Inl e, w1)
      | (Inr fs, w1) \<Rightarrow> (case btrfs_run exec path [''device'', ''stats'', mt_Target m] ''read Btrfs stats: %w'' parseBtrfsStats w1 of
          (Inl e, w2) \<Rightarrow> (Inl e, w2)
        | (Inr errs, w2) \<Rightarrow> (case btrfs_run exec path [''subvolume'', ''list'', ''-o'', mt_Target m] ''read Btrfs subvolumes: %w'' parseBtrfsSubvolumes w2 of
            (Inl e, w3) \<Rightarrow> (Inl e, w3)
          | (Inr vols, w3) \<Rightarrow>
              (let device = btrfsSourceDevice (mt_Source m) in
               (if prefix ''/dev/'' device \<and> device \<notin> set (bf_devices fs) then Inl (Errorf ''btrfs usage does not identify mount device'' [])
                else Inr (fs\<lparr>bf_errors := errs, bf_subvolumes := vols, bf_uuid := uuid\<rparr>), w3)))))"

definition btrfs_candidate :: "mount \<Rightarrow> bool" where
  "btrfs_candidate m \<longleftrightarrow> mt_Filesystem m = ''btrfs'' \<and> mt_State m = ''mounted'' \<and> mt_Target m = path_clean (mt_Target m) \<and> prefix ''/'' (mt_Target m)"

fun btrfs_filesystems :: "'w tool_exec \<Rightarrow> string \<Rightarrow> inventory \<Rightarrow> mount list \<Rightarrow> string list \<Rightarrow> btrfs_filesystem list \<Rightarrow> 'w \<Rightarrow> btrfs_filesystem list result \<times> 'w" where
  "btrfs_filesystems exec path iv [] seen fss w = (Inr fss, w)"
| "btrfs_filesystems exec path iv (m # ms) seen fss w =
     (let uuid = btrfsMountUUID m (iv_Resources iv) in
      if \<not> btrfs_candidate m \<or> uuid = [] \<or> uuid \<in> set seen then btrfs_filesystems exec path iv ms seen fss w
      else (case btrfs_probe exec path m uuid w of
          (Inl e, w1) \<Rightarrow> (Inl e, w1)
        | (Inr fs, w1) \<Rightarrow> btrfs_filesystems exec path iv ms (uuid # seen) (fss @ [fs]) w1))"

definition btrfs_Collect :: "storage_lib \<Rightarrow> 'w tool_exec \<Rightarrow> string \<Rightarrow> inventory \<Rightarrow> 'w \<Rightarrow> collected_pair \<times> 'w" where
  "btrfs_Collect L exec path iv w = (case btrfs_filesystems exec path iv (iv_Mounts iv) [] [] w of
     (Inl e, w1) \<Rightarrow> ((empty_result, Some e), w1) | (Inr fss, w1) \<Rightarrow> (pair_of (btrfsResult L fss iv), w1))"

end
