(* ===== verification/Storage_Devices.thy ===== *)
theory Storage_Devices
  imports Storage_Volumes Daemon_Actions
begin

text \<open>
  The enrichers for disks and device mappings (\<open>internal/modules/storage\<close>: \<open>mdraid.go\<close>, \<open>smart.go\<close>, \<open>devicemapper.go\<close>) and the choice
  among all enrichers. The regular expressions are spelled out as matchers of bytes. The workers of the SMART enricher are
  modelled by the order in which their answers arrive.
\<close>

section \<open>MD RAID\<close>

record md_array =
  ma_name :: string
  ma_level :: string
  ma_expected :: int
  ma_active :: int
  ma_members :: "string list"
  ma_recovery :: float64
  ma_state :: string

definition mdArrayName :: "string \<Rightarrow> bool" where
  "mdArrayName s \<longleftrightarrow> prefix ''md'' s \<and> drop 2 s \<noteq> [] \<and> list_all is_digit (drop 2 s)"

text \<open>White space of a regular expression.\<close>

definition re_space :: "char \<Rightarrow> bool" where
  "re_space c \<longleftrightarrow> byte c \<in> {0x09, 0x0A, 0x0C, 0x0D, 0x20}"

definition upper_letter :: "char \<Rightarrow> bool" where
  "upper_letter c \<longleftrightarrow> between 0x41 0x5A c"

text \<open>A non-empty run of characters, and what follows it.\<close>

definition run_of :: "(char \<Rightarrow> bool) \<Rightarrow> string \<Rightarrow> (string \<times> string) option" where
  "run_of P s = (let a = takeWhile P s in if a = [] then None else Some (a, drop (length a) s))"

definition mdMember :: "string \<Rightarrow> string option" where
  "mdMember s = (case run_of (\<lambda>c. c \<noteq> CHR ''['' \<and> c \<noteq> CHR '']'' \<and> \<not> re_space c) s of
     Some (name, c1 # rest1) \<Rightarrow>
       if c1 \<noteq> CHR ''['' then None
       else (case run_of is_digit rest1 of
           Some (_, c2 # rest2) \<Rightarrow>
             if c2 \<noteq> CHR '']'' then None
             else if rest2 = [] then Some name
             else if hd rest2 \<noteq> CHR ''('' then None
             else (case run_of upper_letter (tl rest2) of
                 Some (_, [c3]) \<Rightarrow> if c3 = CHR '')'' then Some name else None
               | _ \<Rightarrow> None)
         | _ \<Rightarrow> None)
   | _ \<Rightarrow> None)"

text \<open>The leftmost position at which a matcher succeeds.\<close>

fun leftmost :: "(string \<Rightarrow> 'a option) \<Rightarrow> string \<Rightarrow> 'a option" where
  "leftmost here [] = here []"
| "leftmost here (c # cs) = (case here (c # cs) of Some x \<Rightarrow> Some x | None \<Rightarrow> leftmost here cs)"

definition count_here :: "string \<Rightarrow> (string \<times> string) option" where
  "count_here s = (case s of
     c1 # rest1 \<Rightarrow> if c1 \<noteq> CHR ''['' then None
       else (case run_of is_digit rest1 of
           Some (a, c2 # rest2) \<Rightarrow> if c2 \<noteq> slash then None
             else (case run_of is_digit rest2 of
                 Some (b, c3 # _) \<Rightarrow> if c3 = CHR '']'' then Some (a, b) else None
               | _ \<Rightarrow> None)
         | _ \<Rightarrow> None)
   | [] \<Rightarrow> None)"

definition mdMemberCount :: "string \<Rightarrow> (string \<times> string) option" where
  "mdMemberCount = leftmost count_here"

definition recovery_number :: "string \<Rightarrow> string option" where
  "recovery_number s = (case run_of is_digit s of
     Some (whole, c1 # rest) \<Rightarrow>
       if c1 = CHR ''%'' then Some whole
       else if c1 \<noteq> CHR ''.'' then None
       else (case run_of is_digit rest of
           Some (part, c2 # _) \<Rightarrow> if c2 = CHR ''%'' then Some (whole @ ''.'' @ part) else None
         | _ \<Rightarrow> None)
   | _ \<Rightarrow> None)"

definition recovery_here :: "string \<Rightarrow> string option" where
  "recovery_here s = (case List.find (\<lambda>k. prefix k s) [''recovery'', ''resync'', ''reshape'', ''check''] of
     None \<Rightarrow> None
   | Some k \<Rightarrow> (case dropWhile re_space (drop (length k) s) of
       c # rest \<Rightarrow> if c = CHR ''='' then recovery_number (dropWhile re_space rest) else None
     | [] \<Rightarrow> None))"

definition mdRecovery :: "string \<Rightarrow> string option" where
  "mdRecovery = leftmost recovery_here"

text \<open>The number that \<open>strconv.Atoi\<close> returns for digits, with its error ignored.\<close>

definition atoi_digits :: "string \<Rightarrow> int" where
  "atoi_digits s = min (int (digits_value s)) int64_max"

fun md_members :: "string list \<Rightarrow> string list \<Rightarrow> string list option" where
  "md_members [] members = Some members"
| "md_members (f # fs) members = (if \<not> contains f ''['' then md_members fs members
     else (case mdMember f of None \<Rightarrow> None | Some n \<Rightarrow> md_members fs (members @ [n])))"

text \<open>The state and the level of a header, and where its members start; \<open>None\<close> is a header that is passed over.\<close>

definition md_header_state :: "string list \<Rightarrow> (string \<times> string \<times> string list) option" where
  "md_header_state rest = (case rest of
     w # others \<Rightarrow>
       if w = ''active'' then
         (let (state, after) = (if others \<noteq> [] \<and> hd others = ''(auto-read-only)'' then (''auto-read-only'', tl others) else (''available'', others)) in
          case after of [] \<Rightarrow> None | level # ms \<Rightarrow> Some (state, level, ms))
       else if w = ''inactive'' then Some (''inactive'', [], others)
       else None
   | [] \<Rightarrow> None)"

definition md_header :: "string list \<Rightarrow> md_array list \<Rightarrow> (md_array list \<times> bool) result" where
  "md_header fs arrays =
     (if \<not> mdArrayName (fs ! 0) \<or> fs ! 0 \<in> ma_name ` set arrays \<or> length fs < 3 then Inr (arrays, False)
      else if length arrays \<ge> maxResources then Inl (Errorf ''MD arrays exceed limit'' [])
      else (case md_header_state (drop 2 fs) of
          None \<Rightarrow> Inr (arrays, False)
        | Some (state, level, ms) \<Rightarrow> (case md_members ms [] of
            None \<Rightarrow> Inr (arrays, False)
          | Some members \<Rightarrow> if members = [] then Inr (arrays, False)
              else Inr (arrays @ [\<lparr>ma_name = fs ! 0, ma_level = level, ma_expected = 0, ma_active = 0, ma_members = members,
                     ma_recovery = Finite 0, ma_state = state\<rparr>], True))))"

definition md_update :: "storage_lib \<Rightarrow> string \<Rightarrow> md_array \<Rightarrow> md_array" where
  "md_update L line a =
     (let a1 = (case mdMemberCount line of Some (e, n) \<Rightarrow> a\<lparr>ma_expected := atoi_digits e, ma_active := atoi_digits n\<rparr> | None \<Rightarrow> a) in
      case mdRecovery line of Some v \<Rightarrow> a1\<lparr>ma_recovery := fst (sl_ParseFloat L v)\<rparr> | None \<Rightarrow> a1)"

text \<open>The second component says whether the last array is the current one.\<close>

definition md_line :: "storage_lib \<Rightarrow> string \<Rightarrow> md_array list \<times> bool \<Rightarrow> (md_array list \<times> bool) result" where
  "md_line L line = (\<lambda>(arrays, current).
     if length line > maxFieldBytes then Inl (Errorf ''mdstat line exceeds limit'' [])
     else let fs = string_Fields line in
       if length fs \<ge> 2 \<and> fs ! 1 = '':'' then md_header fs arrays
       else if \<not> current then Inr (arrays, current)
       else Inr (butlast arrays @ [md_update L line (last arrays)], current))"

fun md_lines :: "storage_lib \<Rightarrow> string list \<Rightarrow> md_array list \<times> bool \<Rightarrow> md_array list result" where
  "md_lines L [] st = Inr (fst st)"
| "md_lines L (l # ls) st = (case md_line L l st of Inl e \<Rightarrow> Inl e | Inr st1 \<Rightarrow> md_lines L ls st1)"

definition md_invalid :: "md_array \<Rightarrow> bool" where
  "md_invalid a \<longleftrightarrow> (ma_state a \<noteq> ''inactive'' \<and> (ma_level a = [] \<or> ma_expected a = 0)) \<or> (ma_expected a > 0 \<and> ma_active a > ma_expected a)"

definition parseMDStat :: "storage_lib \<Rightarrow> string \<Rightarrow> md_array list result" where
  "parseMDStat L input = (case md_lines L (split_on lf input) ([], False) of
     Inl e \<Rightarrow> Inl e
   | Inr arrays \<Rightarrow> (case List.find md_invalid arrays of Some a \<Rightarrow> Inl (Errorf ''invalid MD array %s'' [ma_name a]) | None \<Rightarrow> Inr arrays))"

record md_detail =
  md_devices :: int
  md_level :: string
  md_members_of :: "string list"

definition member_key :: "string \<Rightarrow> bool" where
  "member_key k \<longleftrightarrow> prefix ''MD_DEVICE_'' k \<and> suffix ''_DEV'' k"

fun md_detail_lines :: "string list \<Rightarrow> (string, string) gomap \<Rightarrow> (string, string) gomap option" where
  "md_detail_lines [] m = Some m"
| "md_detail_lines (l # ls) m =
     (if l = [] then md_detail_lines ls m
      else (case cut (CHR ''='') l of
          None \<Rightarrow> None
        | Some (k, v) \<Rightarrow> if length k > maxFieldBytes \<or> length v > maxFieldBytes then None
            else md_detail_lines ls (if k = ''MD_LEVEL'' \<or> k = ''MD_DEVICES'' \<or> k = ''MD_DEVNAME'' \<or> member_key k \<and> prefix ''/dev/'' v
              then AList.update k v m else m)))"

definition text_at :: "(string, string) gomap \<Rightarrow> string \<Rightarrow> string" where
  "text_at m k = (case map_of m k of None \<Rightarrow> [] | Some v \<Rightarrow> v)"

definition parseMDDetail :: "string \<Rightarrow> string \<Rightarrow> md_detail result" where
  "parseMDDetail input name = (case md_detail_lines (split_on lf input) [] of
     None \<Rightarrow> Inl (Errorf ''invalid MD detail'' [])
   | Some vals \<Rightarrow>
       if text_at vals ''MD_DEVNAME'' \<noteq> name then Inl (Errorf ''MD detail does not match %s'' [name])
       else (case Atoi (text_at vals ''MD_DEVICES'') of
           Some devices \<Rightarrow> if text_at vals ''MD_LEVEL'' = [] \<or> devices \<le> 0 then Inl (Errorf ''invalid MD detail'' [])
             else Inr \<lparr>md_devices = devices, md_level = text_at vals ''MD_LEVEL'',
               md_members_of = sort (map snd (filter (\<lambda>(k, _). member_key k) vals))\<rparr>
         | None \<Rightarrow> Inl (Errorf ''invalid MD detail'' [])))"

text \<open>\<open>strconv.FormatFloat(x, 'f', 1, 64)\<close>: the value to one decimal, a tie to the even digit.\<close>

definition round_even :: "rat \<Rightarrow> int" where
  "round_even x = (let d = x - of_int \<lfloor>x\<rfloor> in
     if d < 1 / 2 \<or> d = 1 / 2 \<and> even \<lfloor>x\<rfloor> then \<lfloor>x\<rfloor> else \<lfloor>x\<rfloor> + 1)"

definition format_tenths :: "float64 \<Rightarrow> string" where
  "format_tenths x = (case x of
     PlusInf \<Rightarrow> ''+Inf'' | MinusInf \<Rightarrow> ''-Inf'' | NotANumber \<Rightarrow> ''NaN''
   | Finite r \<Rightarrow> let n = nat (round_even (10 * \<bar>r\<bar>)) in
       (if r < 0 then ''-'' else []) @ format_uint (n div 10) @ ''.'' @ [digit_char (n mod 10)])"

definition readMDStat :: "(string \<Rightarrow> string result) \<Rightarrow> string \<Rightarrow> string result" where
  "readMDStat read path = (case read path of
     Inl e \<Rightarrow> Inl e
   | Inr content \<Rightarrow> let data = take (maxAdapterBytes + 1) content in
       if length data > maxAdapterBytes then Inl errOutputTooLarge else Inr data)"

definition md_members_active :: "md_array \<Rightarrow> int \<Rightarrow> string" where
  "md_members_active a expected = format_int (ma_active a) @ '' of '' @ format_int expected"

definition md_step :: "storage_lib \<Rightarrow> (string, resource) gomap \<Rightarrow> md_array \<Rightarrow> md_detail \<Rightarrow> adapter_result \<Rightarrow> adapter_result" where
  "md_step L byPath a d r =
     (let path = ''/dev/'' @ ma_name a;
          raidID = (case map_of byPath path of
              Some x \<Rightarrow> if rs_Kind x = ''raid'' \<or> rs_Kind x = ''mapping'' then rs_ID x else stableID L ''raid'' (ma_name a)
            | None \<Rightarrow> stableID L ''raid'' (ma_name a));
          expected = (if ma_expected a = 0 then md_devices d else ma_expected a);
          health0 = (if ma_state a = ''inactive'' then HealthUnknown else if ma_state a = ''auto-read-only'' then HealthWarning else HealthHealthy);
          degraded = (ma_state a \<noteq> ''inactive'' \<and> expected > 0 \<and> ma_active a < expected);
          (health, state) = (if degraded then (HealthCritical, ''degraded'') else (health0, ma_state a));
          r1 = (if degraded then add_finding raidID HealthCritical ''RAID array is degraded'' (md_members_active a expected @ '' members active'') r else r);
          details = [detail_of ''Level'' (md_level d), detail_of ''RAID members'' (md_members_active a expected @ '' active'')] @
            (if ma_recovery a \<noteq> Finite 0 then [detail_of ''Recovery progress'' (format_tenths (ma_recovery a) @ ''%'')] else []);
          r2 = add_resource (zero_resource\<lparr>rs_ID := raidID, rs_Kind := ''raid'', rs_Name := ma_name a, rs_Path := path, rs_Health := health,
            rs_State := state, rs_Details := details\<rparr>) r1
      in fold (\<lambda>m. case map_of byPath m of Some x \<Rightarrow> add_relation (rs_ID x) raidID ''member-of'' | None \<Rightarrow> id) (md_members_of d) r2)"

fun md_collect :: "storage_lib \<Rightarrow> 'w tool_exec \<Rightarrow> string \<Rightarrow> (string, resource) gomap \<Rightarrow> md_array list \<Rightarrow> adapter_result \<Rightarrow> 'w \<Rightarrow> adapter_result result \<times> 'w" where
  "md_collect L exec mdadm byPath [] r w = (Inr r, w)"
| "md_collect L exec mdadm byPath (a # as) r w =
     (let path = ''/dev/'' @ ma_name a in
      case runner_Run (adapter_runner exec) mdadm [''--detail'', ''--export'', path] w of
        ((_, Some e), w1) \<Rightarrow> (Inl (Wrapf ''read MD detail for %s: %w'' [path] e), w1)
      | ((output, None), w1) \<Rightarrow> (case parseMDDetail output (ma_name a) of
          Inl e \<Rightarrow> (Inl e, w1)
        | Inr d \<Rightarrow> if ma_level a \<noteq> [] \<and> md_level d \<noteq> ma_level a then (Inl (Errorf ''MD detail level does not match %s'' [path]), w1)
            else md_collect L exec mdadm byPath as (md_step L byPath a d r) w1))"

definition mdraid_Collect :: "storage_lib \<Rightarrow> ('w \<Rightarrow> string \<Rightarrow> string result) \<Rightarrow> 'w tool_exec \<Rightarrow> string \<Rightarrow> string \<Rightarrow> inventory \<Rightarrow> 'w \<Rightarrow> collected_pair \<times> 'w" where
  "mdraid_Collect L read exec rootDir mdadm iv w = (case readMDStat (read w) (path_join rootDir ''proc/mdstat'') of
     Inl e \<Rightarrow> ((empty_result, Some (Wrapf ''read mdstat: %w'' [] e)), w)
   | Inr input \<Rightarrow>
       if length input > maxAdapterBytes then ((empty_result, Some errOutputTooLarge), w)
       else (case parseMDStat L input of
           Inl e \<Rightarrow> ((empty_result, Some e), w)
         | Inr arrays \<Rightarrow> apfst (pair_of \<circ> map_sum id sorted_result)
             (md_collect L exec mdadm (index_by rs_Path (iv_Resources iv)) arrays empty_result w)))"

section \<open>SMART\<close>

definition smartctlArgs :: "string list" where "smartctlArgs = [''--json=c'', ''--all'']"

record nvme_log =
  nl_Temperature :: "64 word"
  nl_PercentageUsed :: "64 word"
  nl_MediaErrors :: "64 word"
  nl_NumErrLogEntries :: "64 word"
  nl_PowerOnHours :: "64 word"

text \<open>Pointers of the document are options; an attribute is its number and raw value.\<close>

record smart_document =
  sd_InfoName :: string
  sd_Name :: string
  sd_Protocol :: string
  sd_ModelName :: string
  sd_SerialNumber :: string
  sd_SmartStatus :: "bool option"
  sd_Temperature :: "64 word option"
  sd_PowerOnTime :: "64 word option"
  sd_Attributes :: "(64 word \<times> 64 word) list option"
  sd_NVMe :: "nvme_log option"

definition validateSMARTFields :: "smart_document \<Rightarrow> error option" where
  "validateSMARTFields d =
     (if list_ex (\<lambda>f. length f > maxFieldBytes) [sd_Name d, sd_InfoName d, sd_Protocol d, sd_ModelName d, sd_SerialNumber d]
      then Some (Errorf ''SMART field exceeds limit'' [])
      else if sd_Attributes d \<noteq> None \<and> length (the (sd_Attributes d)) > maxDetails then Some (Errorf ''too many SMART attributes'' [])
      else None)"

definition appendSMARTDetail :: "string \<Rightarrow> string \<Rightarrow> detail list \<Rightarrow> detail list" where
  "appendSMARTDetail label v details = (if v \<noteq> [] \<and> length details < maxDetails then details @ [detail_of label v] else details)"

type_synonym smart_state = "health \<times> detail list"

definition smart_temperature :: "smart_document \<Rightarrow> smart_state \<Rightarrow> smart_state" where
  "smart_temperature d = (\<lambda>(health, details). case (sd_Temperature d, sd_NVMe d) of
     (Some t, None) \<Rightarrow> (if t \<ge> 70 then higherHealth health HealthWarning else health, appendSMARTDetail ''Temperature'' (number t @ '' C'') details)
   | _ \<Rightarrow> (health, details))"

definition smart_hours :: "smart_document \<Rightarrow> smart_state \<Rightarrow> smart_state" where
  "smart_hours d = (\<lambda>(health, details). case sd_PowerOnTime d of
     Some h \<Rightarrow> (health, appendSMARTDetail ''Power-on hours'' (number h) details) | None \<Rightarrow> (health, details))"

definition smart_attribute :: "64 word \<times> 64 word \<Rightarrow> smart_state \<Rightarrow> smart_state" where
  "smart_attribute attr = (\<lambda>(health, details). case attr of (i, raw) \<Rightarrow>
     if i = 5 then (if raw \<noteq> 0 then higherHealth health HealthWarning else health, appendSMARTDetail ''Reallocated sectors'' (number raw) details)
     else if i = 197 then (if raw \<noteq> 0 then higherHealth health HealthWarning else health, appendSMARTDetail ''Pending sectors'' (number raw) details)
     else (health, details))"

definition smart_attributes :: "smart_document \<Rightarrow> smart_state \<Rightarrow> smart_state" where
  "smart_attributes d st = (case sd_Attributes d of None \<Rightarrow> st | Some attrs \<Rightarrow> fold smart_attribute attrs st)"

definition smart_nvme :: "smart_document \<Rightarrow> smart_state \<Rightarrow> smart_state" where
  "smart_nvme d = (\<lambda>(health, details). case sd_NVMe d of
     None \<Rightarrow> (health, details)
   | Some l \<Rightarrow>
       (if nl_MediaErrors l \<noteq> 0 then HealthCritical
        else if nl_Temperature l \<ge> 70 \<or> nl_PercentageUsed l \<ge> 80 then higherHealth health HealthWarning else health,
        appendSMARTDetail ''Power-on hours'' (number (nl_PowerOnHours l))
         (appendSMARTDetail ''Error log entries'' (number (nl_NumErrLogEntries l))
          (appendSMARTDetail ''Media errors'' (number (nl_MediaErrors l))
           (appendSMARTDetail ''Percentage used'' (number (nl_PercentageUsed l) @ ''%'')
            (appendSMARTDetail ''Temperature'' (number (nl_Temperature l) @ '' C'') details))))))"

definition smart_start :: "smart_document \<Rightarrow> smart_state" where
  "smart_start d = (case sd_SmartStatus d of None \<Rightarrow> HealthUnknown | Some passed \<Rightarrow> if \<not> passed then HealthCritical else HealthHealthy,
     appendSMARTDetail ''Serial'' (sd_SerialNumber d) (appendSMARTDetail ''Model'' (sd_ModelName d) []))"

definition parseSMART :: "(string \<Rightarrow> (smart_document \<times> bool) result) \<Rightarrow> string \<Rightarrow> string \<Rightarrow> resource result" where
  "parseSMART decode input path = (case decode input of
     Inl e \<Rightarrow> Inl (Wrapf ''decode SMART output: %w'' [] e)
   | Inr (d, more_input) \<Rightarrow>
       if more_input then Inl (Errorf ''decode SMART output: multiple JSON values'' [])
       else if sd_Name d \<noteq> path then Inl (Errorf ''SMART device does not match %s'' [path])
       else (case validateSMARTFields d of
           Some e \<Rightarrow> Inl e
         | None \<Rightarrow> (case smart_nvme d (smart_attributes d (smart_hours d (smart_temperature d (smart_start d)))) of
             (health, details) \<Rightarrow> Inr (zero_resource\<lparr>rs_Health := health, rs_Details := details\<rparr>))))"

definition is_disk_at :: "string \<Rightarrow> resource \<Rightarrow> bool" where
  "is_disk_at path r \<longleftrightarrow> rs_Kind r = ''disk'' \<and> rs_Path r = path"

definition smartDevicePaths :: "inventory \<Rightarrow> string list" where
  "smartDevicePaths iv = (if iv_Resources iv = [] then iv_DevicePaths iv
     else filter (\<lambda>path. list_ex (is_disk_at path) (iv_Resources iv)) (iv_DevicePaths iv))"

definition smartResourceID :: "storage_lib \<Rightarrow> inventory \<Rightarrow> string \<Rightarrow> string" where
  "smartResourceID L iv path = (case List.find (is_disk_at path) (iv_Resources iv) of Some r \<Rightarrow> rs_ID r | None \<Rightarrow> stableID L ''disk'' path)"

text \<open>One job of a worker: \<open>smartctl\<close> exits with an error for a failing disk while it still prints complete data.\<close>

definition smart_job :: "(string \<Rightarrow> (smart_document \<times> bool) result) \<Rightarrow> 'w tool_exec \<Rightarrow> string \<Rightarrow> string \<Rightarrow> 'w \<Rightarrow> (string \<times> resource result) \<times> 'w" where
  "smart_job decode exec tool path w = (case runner_Run (adapter_runner exec) tool (smartctlArgs @ [path]) w of
     ((output, Some e), w1) \<Rightarrow> ((path, case parseSMART decode output path of Inr h \<Rightarrow> Inr h | Inl _ \<Rightarrow> Inl e), w1)
   | ((output, None), w1) \<Rightarrow> ((path, parseSMART decode output path), w1))"

fun smart_jobs :: "(string \<Rightarrow> (smart_document \<times> bool) result) \<Rightarrow> 'w tool_exec \<Rightarrow> string \<Rightarrow> string list \<Rightarrow> 'w \<Rightarrow> (string \<times> resource result) list \<times> 'w" where
  "smart_jobs decode exec tool [] w = ([], w)"
| "smart_jobs decode exec tool (p # ps) w = (case smart_job decode exec tool p w of
     (x, w1) \<Rightarrow> apfst ((#) x) (smart_jobs decode exec tool ps w1))"

definition smart_receive :: "storage_lib \<Rightarrow> inventory \<Rightarrow> string \<times> resource result \<Rightarrow> adapter_result \<times> error list \<Rightarrow> adapter_result \<times> error list" where
  "smart_receive L iv x = (\<lambda>(r, errs). case x of
     (path, Inl e) \<Rightarrow> (r, errs @ [Wrapf ''collect SMART data for %s: %w'' [path] e])
   | (path, Inr h) \<Rightarrow> (add_resource (h\<lparr>rs_ID := smartResourceID L iv path, rs_Kind := ''disk'', rs_Name := path, rs_Path := path\<rparr>) r, errs))"

text \<open>\<open>arrive\<close> puts the answers into the order in which they arrive; \<open>errors.Join\<close> nests to the left.\<close>

definition smart_Collect ::
  "storage_lib \<Rightarrow> (string \<Rightarrow> (smart_document \<times> bool) result) \<Rightarrow> ((string \<times> resource result) list \<Rightarrow> (string \<times> resource result) list) \<Rightarrow>
   'w tool_exec \<Rightarrow> string \<Rightarrow> inventory \<Rightarrow> 'w \<Rightarrow> collected_pair \<times> 'w" where
  "smart_Collect L decode arrive exec tool iv w =
     (let paths = smartDevicePaths iv in
      if paths = [] then ((empty_result, None), w)
      else (case smart_jobs decode exec tool paths w of (answers, w1) \<Rightarrow>
        (case fold (smart_receive L iv) (arrive answers) (empty_result, []) of
           (r, []) \<Rightarrow> ((r, None), w1)
         | (r, e # es) \<Rightarrow> ((r, Some (foldl Joined e es)), w1))))"

section \<open>Device mapper\<close>

definition cryptUUIDPrefix :: string where "cryptUUIDPrefix = ''CRYPT-LUKS''"

record dm_info =
  di_dmName :: string
  di_UUID :: string
  di_MajorMinor :: string
  di_Open :: "64 word"
  di_Segments :: "64 word"

record multipath_map =
  mp_Name :: string
  mp_WWID :: string
  mp_Device :: string
  mp_State :: string
  mp_DeclaredPaths :: "64 word"

record multipath_path =
  pa_Map :: string
  pa_Device :: string
  pa_DMState :: string
  pa_CheckerState :: string

text \<open>A row keeps the numbers of its device as they were printed, by which duplicates are found.\<close>

definition dm_row :: "(string \<times> dm_info) list \<Rightarrow> string \<Rightarrow> (string \<times> dm_info) option" where
  "dm_row done line = (case split_on (CHR ''|'') (trim_space line) of
     [n, u, ma, mi, op, sg] \<Rightarrow>
       (if validateStrings [n, u, ma, mi, op, sg] \<noteq> None \<or> n = [] \<or> u = [] then None
        else (case (strictUint ma, strictUint mi, strictUint op, strictUint sg) of
            ((major, None), (minor, None), (opens, None), (segments, None)) \<Rightarrow>
              if ma @ '':'' @ mi \<in> fst ` set done \<or> length done \<ge> maxResources then None
              else Some (ma @ '':'' @ mi, \<lparr>di_dmName = n, di_UUID = u, di_MajorMinor = number major @ '':'' @ number minor,
                di_Open = opens, di_Segments = segments\<rparr>)
          | _ \<Rightarrow> None))
   | _ \<Rightarrow> None)"

definition parseDMInfo :: "string \<Rightarrow> dm_info list result" where
  "parseDMInfo input = map_sum id (map snd) (read_table dm_row ''invalid device-mapper info'' input)"

definition map_row :: "multipath_map list \<Rightarrow> string \<Rightarrow> multipath_map option" where
  "map_row done line = (case split_on (CHR ''|'') (trim_space line) of
     [n, w, d, p, t] \<Rightarrow> (case strictUint p of
         (paths, None) \<Rightarrow>
           if n = [] \<or> w = [] \<or> d = [] \<or> n \<in> mp_Name ` set done \<or> validateStrings [n, w, d, p, t] \<noteq> None \<or> length done \<ge> maxResources then None
           else Some \<lparr>mp_Name = n, mp_WWID = w, mp_Device = d, mp_State = t, mp_DeclaredPaths = paths\<rparr>
       | (_, Some _) \<Rightarrow> None)
   | _ \<Rightarrow> None)"

definition parseMultipathMaps :: "string \<Rightarrow> multipath_map list result" where
  "parseMultipathMaps = read_table map_row ''invalid multipath map''"

definition path_row :: "multipath_path list \<Rightarrow> string \<Rightarrow> multipath_path option" where
  "path_row done line = (case split_on (CHR ''|'') (trim_space line) of
     [m, d, t, k] \<Rightarrow> if m = [] \<or> d = [] \<or> validateStrings [m, d, t, k] \<noteq> None \<or> length done \<ge> maxResources then None
       else Some \<lparr>pa_Map = m, pa_Device = d, pa_DMState = t, pa_CheckerState = k\<rparr>
   | _ \<Rightarrow> None)"

definition parseMultipathPaths :: "string \<Rightarrow> multipath_path list result" where
  "parseMultipathPaths = read_table path_row ''invalid multipath path''"

definition mapper_resource :: "resource \<Rightarrow> bool" where
  "mapper_resource r \<longleftrightarrow> rs_Path r = path_clean (rs_Path r) \<and> prefix ''/dev/mapper/'' (rs_Path r)"

definition by_major_minor :: "resource list \<Rightarrow> (string, resource) gomap" where
  "by_major_minor rs = fold (\<lambda>r m. fold (\<lambda>d. AList.update (dt_Value d) r)
     (filter (\<lambda>d. dt_Label d = ''MAJ:MIN'' \<and> validMajorMinor (dt_Value d)) (rs_Details r)) m) rs []"

definition dm_core :: "storage_lib \<Rightarrow> inventory \<Rightarrow> dm_info \<Rightarrow> resource" where
  "dm_core L iv x =
     (let path = ''/dev/mapper/'' @ di_dmName x in
      case map_of (index_by rs_Path (filter mapper_resource (iv_Resources iv))) path of
        Some r \<Rightarrow> r
      | None \<Rightarrow> (case map_of (by_major_minor (iv_Resources iv)) (di_MajorMinor x) of
          Some r \<Rightarrow> r
        | None \<Rightarrow> zero_resource\<lparr>rs_ID := stableID L ''mapping'' (di_MajorMinor x), rs_Kind := ''mapping'', rs_Name := di_dmName x, rs_Path := path\<rparr>))"

definition dm_step :: "storage_lib \<Rightarrow> inventory \<Rightarrow> dm_info \<Rightarrow> adapter_result \<Rightarrow> adapter_result" where
  "dm_step L iv x r =
     (let core = dm_core L iv x;
          (state, health) = (if di_Open x = 0 then (''inactive'', HealthUnknown) else (''active'', HealthHealthy));
          res = core\<lparr>rs_Name := di_dmName x, rs_Path := ''/dev/mapper/'' @ di_dmName x, rs_State := state, rs_Health := health\<rparr>;
          crypt = prefix cryptUUIDPrefix (di_UUID x);
          res' = (if crypt then res\<lparr>rs_Details := rs_Details res @ [detail_of ''Encrypted mapping'' ''Yes'']\<rparr> else res);
          encryptionID = stableID L ''encryption'' (di_UUID x);
          r1 = (if crypt then add_relation encryptionID (rs_ID core) ''maps-to''
            (add_resource (zero_resource\<lparr>rs_ID := encryptionID, rs_Kind := ''encryption'', rs_Name := di_dmName x, rs_Health := health, rs_State := state\<rparr>) r) else r)
      in if length (ar_Resources r1) < maxResources then add_resource res' r1 else r1)"

definition deviceMapperResult :: "storage_lib \<Rightarrow> dm_info list \<Rightarrow> inventory \<Rightarrow> adapter_result" where
  "deviceMapperResult L infos iv = sorted_result (fold (dm_step L iv) infos empty_result)"

definition deviceMapper_Collect :: "storage_lib \<Rightarrow> 'w tool_exec \<Rightarrow> string \<Rightarrow> inventory \<Rightarrow> 'w \<Rightarrow> collected_pair \<times> 'w" where
  "deviceMapper_Collect L exec dmsetup iv w =
     (case runner_Run (adapter_runner exec) dmsetup
         [''info'', ''--columns'', ''--noheadings'', ''--separator'', ''|'', ''-o'', ''name,uuid,major,minor,open,segments''] w of
        ((_, Some e), w1) \<Rightarrow> ((empty_result, Some (Wrapf ''read device-mapper info: %w'' [] e)), w1)
      | ((output, None), w1) \<Rightarrow> (pair_of (map_sum id (\<lambda>infos. deviceMapperResult L infos iv) (parseDMInfo output)), w1))"

section \<open>Multipath\<close>

definition paths_of :: "multipath_map \<Rightarrow> multipath_path list \<Rightarrow> multipath_path list" where
  "paths_of m paths = filter (\<lambda>p. pa_Map p = mp_Name m) paths"

definition pathSummary :: "multipath_map \<Rightarrow> multipath_path list \<Rightarrow> string" where
  "pathSummary m paths = format_uint (length (paths_of m paths)) @ '' of '' @ number (mp_DeclaredPaths m) @ '' observed''"

definition path_healthy :: "multipath_path \<Rightarrow> bool" where
  "path_healthy p \<longleftrightarrow> pa_DMState p = ''active'' \<and> pa_CheckerState p = ''ready''"

definition path_failed :: "multipath_path \<Rightarrow> bool" where
  "path_failed p \<longleftrightarrow> \<not> path_healthy p \<and> (pa_DMState p = ''failed'' \<or> pa_CheckerState p = ''faulty'' \<or> pa_CheckerState p = ''down'')"

definition multipathHealth :: "multipath_map \<Rightarrow> multipath_path list \<Rightarrow> health \<times> string" where
  "multipathHealth m paths =
     (let own = paths_of m paths; observed = length own; failed = length (filter path_failed own);
          unknown = length (filter (\<lambda>p. \<not> path_healthy p \<and> \<not> path_failed p) own)
      in if failed > 0 then (HealthCritical, format_uint failed @ '' of '' @ format_uint observed @ '' paths failed'')
         else if unknown > 0 then (HealthUnknown, ''multipath path state is unknown'')
         else if of_nat observed \<noteq> mp_DeclaredPaths m then (HealthWarning, format_uint observed @ '' of '' @ number (mp_DeclaredPaths m) @ '' paths observed'')
         else (HealthHealthy, []))"

definition multipath_step :: "inventory \<Rightarrow> multipath_path list \<Rightarrow> multipath_map \<Rightarrow> adapter_result \<Rightarrow> adapter_result" where
  "multipath_step iv paths m r = (case map_of (index_by rs_Path (filter mapper_resource (iv_Resources iv))) (''/dev/mapper/'' @ mp_Name m) of
     None \<Rightarrow> r
   | Some res \<Rightarrow> (case multipathHealth m paths of (health, txt) \<Rightarrow>
       let r1 = add_resource (res\<lparr>rs_Name := mp_Name m, rs_Health := higherHealth (rs_Health res) health,
             rs_Details := rs_Details res @ [detail_of ''Multipath paths'' (pathSummary m paths)]\<rparr>) r
       in if health = HealthCritical then add_finding (rs_ID res) health ''Multipath map has failed paths'' txt r1
          else if health = HealthWarning then add_finding (rs_ID res) health ''Multipath map is degraded'' txt r1
          else r1))"

definition multipathResult :: "multipath_map list \<Rightarrow> multipath_path list \<Rightarrow> inventory \<Rightarrow> adapter_result" where
  "multipathResult maps paths iv = (let r = fold (multipath_step iv paths) maps empty_result in r\<lparr>ar_Resources := sort_key rs_ID (ar_Resources r)\<rparr>)"

definition multipath_Collect :: "'w tool_exec \<Rightarrow> string \<Rightarrow> inventory \<Rightarrow> 'w \<Rightarrow> collected_pair \<times> 'w" where
  "multipath_Collect exec multipathd iv w =
     (case runner_Run (adapter_runner exec) multipathd [''show'', ''maps'', ''raw'', ''format'', ''%n|%w|%d|%N|%t''] w of
        ((_, Some e), w1) \<Rightarrow> ((empty_result, Some (Wrapf ''read multipath maps: %w'' [] e)), w1)
      | ((maps_out, None), w1) \<Rightarrow> (case parseMultipathMaps maps_out of
          Inl e \<Rightarrow> ((empty_result, Some e), w1)
        | Inr maps \<Rightarrow> (case runner_Run (adapter_runner exec) multipathd [''show'', ''paths'', ''raw'', ''format'', ''%m|%d|%t|%o''] w1 of
            ((_, Some e), w2) \<Rightarrow> ((empty_result, Some (Wrapf ''read multipath paths: %w'' [] e)), w2)
          | ((paths_out, None), w2) \<Rightarrow> (pair_of (map_sum id (\<lambda>paths. multipathResult maps paths iv) (parseMultipathPaths paths_out)), w2))))"

section \<open>All enrichers\<close>

record storage_codecs =
  sc_lvm :: "string \<Rightarrow> (lvm_report list \<times> bool) result"
  sc_smart :: "string \<Rightarrow> (smart_document \<times> bool) result"

definition enricher_Collect ::
  "storage_lib \<Rightarrow> storage_codecs \<Rightarrow> ((string \<times> resource result) list \<Rightarrow> (string \<times> resource result) list) \<Rightarrow> ('w \<Rightarrow> string \<Rightarrow> string result) \<Rightarrow> 'w tool_exec \<Rightarrow>
   enricher_choice \<Rightarrow> inventory \<Rightarrow> 'w \<Rightarrow> collected_pair \<times> 'w" where
  "enricher_Collect L C arrive read exec choice iv w = (case choice of
     UnsupportedEnricher _ \<Rightarrow> ((empty_result, Some ErrBackendUnsupported), w)
   | SMARTEnricher tool \<Rightarrow> smart_Collect L (sc_smart C) arrive exec tool iv w
   | MDRAIDEnricher rootDir tool \<Rightarrow> mdraid_Collect L read exec rootDir tool iv w
   | LVMEnricher pvs vgs lvs \<Rightarrow> lvm_Collect L (sc_lvm C) exec \<lparr>lt_PVS = pvs, lt_VGS = vgs, lt_LVS = lvs\<rparr> iv w
   | DeviceMapperEnricher tool \<Rightarrow> deviceMapper_Collect L exec tool iv w
   | MultipathEnricher tool \<Rightarrow> multipath_Collect exec tool iv w
   | ZFSEnricher zpool zfs \<Rightarrow> zfs_Collect L exec \<lparr>zt_ZPool = zpool, zt_ZFS = zfs\<rparr> iv w
   | BtrfsEnricher tool \<Rightarrow> btrfs_Collect L exec tool iv w)"

end
