(* ===== verification/Capability_Probes.thy ===== *)
theory Capability_Probes
  imports Daemon_Policy Extensions Engines
begin

text \<open>
  The probes of the host's capabilities (\<open>internal/capability\<close>: \<open>probe_systemd.go\<close>, \<open>probe_journald.go\<close>, \<open>probe_exec.go\<close>,
  \<open>probe_engines.go\<close>) and the table of \<open>probe.go\<close> that composes them. Commands, sockets, the bus and the journal are
  fields of \<open>probe_host\<close>; a call that runs into its timeout is one that fails. The deferred calls that release a client
  are the last effect of a probe.
\<close>

section \<open>systemd and the journal\<close>

record 'w systemd_session =
  ss_ListUnitFiles :: "('w, string list result) call"
  ss_Close :: "'w \<Rightarrow> 'w"

definition autoupdatePairs :: "(cap_id, string \<times> string) gomap" where
  "autoupdatePairs = [(AutoupdateRPMOStree, ''rpm-ostreed-automatic.timer'', ''rpm-ostreed-automatic.service''),
     (AutoupdateBootc, ''bootc-fetch-apply-updates.timer'', ''bootc-fetch-apply-updates.service'')]"

definition probeAutoupdatePairs :: "'w systemd_session \<Rightarrow> ('w, cap_id list) call" where
  "probeAutoupdatePairs session w = (case ss_ListUnitFiles session w of
     (w1, Inl _) \<Rightarrow> (w1, [])
   | (w1, Inr paths) \<Rightarrow> (let known = map file_base paths in
       (w1, map fst (filter (\<lambda>(_, timer, service). timer \<in> set known \<and> service \<in> set known) autoupdatePairs))))"

definition dialSystemd :: "('w, 'w systemd_session result) call \<Rightarrow> ('w, 'w systemd_session option) call" where
  "dialSystemd connect w = (case connect w of (w1, Inl _) \<Rightarrow> (w1, None) | (w1, Inr conn) \<Rightarrow> (w1, Some conn))"

definition probeSystemd :: "('w, 'w systemd_session option) call \<Rightarrow> ('w \<Rightarrow> bool) \<Rightarrow> 'w \<Rightarrow> cap_set \<times> 'w" where
  "probeSystemd open_session markerExists w =
     (if \<not> markerExists w then (cap_New [], w)
      else (case open_session w of
          (w1, None) \<Rightarrow> (cap_New [], w1)
        | (w1, Some session) \<Rightarrow> (case probeAutoupdatePairs session w1 of (w2, ids) \<Rightarrow> (cap_New (Systemd # ids), ss_Close session w2))))"

text \<open>Opening the journal and closing it; a build without the journal always fails to open it.\<close>

definition ProbeJournald :: "('w, ('w \<Rightarrow> 'w) result) call \<Rightarrow> 'w \<Rightarrow> cap_set \<times> 'w" where
  "ProbeJournald open_journal w = (case open_journal w of
     (w1, Inl _) \<Rightarrow> (cap_New [], w1) | (w1, Inr close) \<Rightarrow> (cap_New [Journald], close w1))"

section \<open>Commands\<close>

text \<open>\<open>ExecRunner.Run\<close> over the two outputs of a command and its error.\<close>

definition probe_Run :: "(string \<Rightarrow> string list \<Rightarrow> ('w, string \<times> string \<times> error option) call) \<Rightarrow> 'w runner" where
  "probe_Run command name args w = (case command name args w of
     (w1, stdout, _, None) \<Rightarrow> (w1, Inr stdout)
   | (w1, _, stderr, Some e) \<Rightarrow> (w1, Inl (if trim_space stderr \<noteq> [] then Wrapf ''run %s: %w: %s'' [name, trim_space stderr] e
       else Wrapf ''run %s: %w'' [name] e)))"

definition probeExecSuccess :: "'w runner \<Rightarrow> cap_id \<Rightarrow> string \<Rightarrow> string list \<Rightarrow> 'w \<Rightarrow> cap_set \<times> 'w" where
  "probeExecSuccess run i name args w = (case run name args w of (w1, Inl _) \<Rightarrow> (cap_New [], w1) | (w1, Inr _) \<Rightarrow> (cap_New [i], w1))"

definition probeExecJSON :: "(string \<Rightarrow> bool) \<Rightarrow> 'w runner \<Rightarrow> cap_id \<Rightarrow> string \<Rightarrow> string list \<Rightarrow> 'w \<Rightarrow> cap_set \<times> 'w" where
  "probeExecJSON json_Valid run i name args w = (case run name args w of
     (w1, Inl _) \<Rightarrow> (cap_New [], w1) | (w1, Inr output) \<Rightarrow> (cap_New (if \<not> json_Valid output then [] else [i]), w1))"

definition ProbeUpdex :: "'w runner \<Rightarrow> string \<Rightarrow> 'w \<Rightarrow> cap_set \<times> 'w" where
  "ProbeUpdex run updex w = (if updex = [] then (cap_New [], w) else probeExecSuccess run Updex updex [''--help''] w)"

definition ProbeSysext :: "'w runner \<Rightarrow> 'w \<Rightarrow> cap_set \<times> 'w" where
  "ProbeSysext run = probeExecSuccess run Sysext ''systemd-sysext'' [''list'']"

definition ProbeBootc :: "(string \<Rightarrow> bool) \<Rightarrow> 'w runner \<Rightarrow> 'w \<Rightarrow> cap_set \<times> 'w" where
  "ProbeBootc json_Valid run = probeExecJSON json_Valid run Bootc ''bootc'' [''status'', ''--json'']"

definition ProbeRPMOStree :: "(string \<Rightarrow> bool) \<Rightarrow> 'w runner \<Rightarrow> 'w \<Rightarrow> cap_set \<times> 'w" where
  "ProbeRPMOStree json_Valid run = probeExecJSON json_Valid run RPMOStree ''rpm-ostree'' [''status'', ''--json'']"

definition KubeconfigPath :: string where "KubeconfigPath = ''/etc/rancher/k3s/k3s.yaml''"

definition ProbeK3s :: "(string \<Rightarrow> (string \<times> string) result) \<Rightarrow> 'w runner \<Rightarrow> string \<Rightarrow> 'w \<Rightarrow> cap_set \<times> 'w" where
  "ProbeK3s version run k3s w =
     (if k3s = [] then (cap_New [], w)
      else (case run k3s [''kubectl'', ''--kubeconfig='' @ KubeconfigPath, ''get'', ''--raw=/version''] w of
          (w1, Inl _) \<Rightarrow> (cap_New [], w1)
        | (w1, Inr output) \<Rightarrow> (case version output of
            Inl _ \<Rightarrow> (cap_New [], w1)
          | Inr (major, minor) \<Rightarrow> (cap_New (if major = [] \<or> minor = [] then [] else [K3s]), w1))))"

section \<open>Engines\<close>

definition podmanAPIPrefix :: string where "podmanAPIPrefix = ''/v5.0.0/libpod''"

record 'w podman_probe_client =
  pp_Version :: "('w, string result) call"
  pp_Close :: "'w \<Rightarrow> 'w"

definition probe_Version :: "(string \<Rightarrow> string result) \<Rightarrow> 'w http_do \<Rightarrow> ('w, string result) call" where
  "probe_Version decode http w = (case http ''GET'' (''http://podman'' @ podmanAPIPrefix @ ''/version'') w of
     (w1, Inl e) \<Rightarrow> (w1, Inl e)
   | (w1, Inr r) \<Rightarrow> (w1, if hr_StatusCode r < 200 \<or> hr_StatusCode r \<ge> 300 then Inl (Errorf ''podman API %s'' [hr_Status r])
       else decode (hr_Body r)))"

text \<open>The client of a socket: requests over that socket, and the closing of its idle connections.\<close>

definition newPodmanProbeClient :: "(string \<Rightarrow> string result) \<Rightarrow> (string \<Rightarrow> 'w http_do) \<Rightarrow> (string \<Rightarrow> 'w \<Rightarrow> 'w) \<Rightarrow> string \<Rightarrow> 'w podman_probe_client" where
  "newPodmanProbeClient decode dial idle socket = \<lparr>pp_Version = probe_Version decode (dial socket), pp_Close = idle socket\<rparr>"

definition probePodman :: "(string \<Rightarrow> 'w podman_probe_client) \<Rightarrow> string \<Rightarrow> 'w \<Rightarrow> cap_set \<times> 'w" where
  "probePodman newClient socket w =
     (if socket = [] then (cap_New [], w)
      else let client = newClient socket in
        (case pp_Version client w of (w1, Inl _) \<Rightarrow> (cap_New [], pp_Close client w1) | (w1, Inr _) \<Rightarrow> (cap_New [Podman], pp_Close client w1)))"

record 'w docker_probe_client =
  dk_Ping :: "('w, error option) call"
  dk_Close :: "'w \<Rightarrow> 'w"

definition probeDocker :: "(string \<Rightarrow> 'w docker_probe_client result) \<Rightarrow> string \<Rightarrow> 'w \<Rightarrow> cap_set \<times> 'w" where
  "probeDocker newClient endpoint w =
     (if endpoint = [] then (cap_New [], w)
      else (case newClient endpoint of
          Inl _ \<Rightarrow> (cap_New [], w)
        | Inr client \<Rightarrow> (case dk_Ping client w of
            (w1, Some _) \<Rightarrow> (cap_New [], dk_Close client w1) | (w1, None) \<Rightarrow> (cap_New [Docker], dk_Close client w1))))"

definition incusLocalSocket :: string where "incusLocalSocket = ''/var/lib/incus/unix.socket''"

text \<open>The connection yields a call for the server's data, of which only the failure matters.\<close>

definition probe_Server :: "(string \<Rightarrow> ('w, ('w, error option) call result) call) \<Rightarrow> ('w, error option) call" where
  "probe_Server connect w = (case connect incusLocalSocket w of (w1, Inl e) \<Rightarrow> (w1, Some e) | (w1, Inr getServer) \<Rightarrow> getServer w1)"

definition probeIncus :: "('w, error option) call \<Rightarrow> bool \<Rightarrow> 'w \<Rightarrow> cap_set \<times> 'w" where
  "probeIncus server enabled w =
     (if \<not> enabled then (cap_New [], w)
      else (case server w of (w1, Some _) \<Rightarrow> (cap_New [], w1) | (w1, None) \<Rightarrow> (cap_New [Incus], w1)))"

section \<open>The table\<close>

record 'w probe_host =
  ph_connect :: "('w, 'w systemd_session result) call"
  ph_marker :: "'w \<Rightarrow> bool"
  ph_journal :: "('w, ('w \<Rightarrow> 'w) result) call"
  ph_command :: "string \<Rightarrow> string list \<Rightarrow> ('w, string \<times> string \<times> error option) call"
  ph_json_Valid :: "string \<Rightarrow> bool"
  ph_version :: "string \<Rightarrow> (string \<times> string) result"
  ph_podman_version :: "string \<Rightarrow> string result"
  ph_podman_dial :: "string \<Rightarrow> 'w http_do"
  ph_podman_idle :: "string \<Rightarrow> 'w \<Rightarrow> 'w"
  ph_docker :: "string \<Rightarrow> 'w docker_probe_client result"
  ph_incus_connect :: "string \<Rightarrow> ('w, ('w, error option) call result) call"

definition ProbeSystemd :: "'w probe_host \<Rightarrow> 'w \<Rightarrow> cap_set \<times> 'w" where
  "ProbeSystemd H = probeSystemd (dialSystemd (ph_connect H)) (ph_marker H)"

definition ProbePodman :: "'w probe_host \<Rightarrow> string \<Rightarrow> 'w \<Rightarrow> cap_set \<times> 'w" where
  "ProbePodman H = probePodman (newPodmanProbeClient (ph_podman_version H) (ph_podman_dial H) (ph_podman_idle H))"

definition ProbeDocker :: "'w probe_host \<Rightarrow> string \<Rightarrow> 'w \<Rightarrow> cap_set \<times> 'w" where
  "ProbeDocker H = probeDocker (ph_docker H)"

definition ProbeIncus :: "'w probe_host \<Rightarrow> bool \<Rightarrow> 'w \<Rightarrow> cap_set \<times> 'w" where
  "ProbeIncus H = probeIncus (probe_Server (ph_incus_connect H))"

definition probes :: "'w probe_host \<Rightarrow> (probe_config \<Rightarrow> 'w \<Rightarrow> cap_set \<times> 'w) list" where
  "probes H = (let run = probe_Run (ph_command H) in
     [\<lambda>_. ProbeSystemd H, \<lambda>_. ProbeJournald (ph_journal H), \<lambda>c. ProbeUpdex run (cfg_Updex c), \<lambda>_. ProbeSysext run,
      \<lambda>_. ProbeBootc (ph_json_Valid H) run, \<lambda>_. ProbeRPMOStree (ph_json_Valid H) run, \<lambda>c. ProbePodman H (cfg_PodmanSocket c),
      \<lambda>c. ProbeDocker H (cfg_DockerEndpoint c), \<lambda>c. ProbeIncus H (cfg_IncusEnabled c), \<lambda>c. ProbeK3s (ph_version H) run (cfg_K3s c)])"

section \<open>What is not configured stays off\<close>

lemmas cap_id_defs = Systemd_def Journald_def Updex_def Sysext_def Bootc_def RPMOStree_def AutoupdateRPMOStree_def AutoupdateBootc_def
  Podman_def Docker_def Incus_def K3s_def

lemma probe_results:
  "caps_of (fst (probeSystemd opn marker w)) \<subseteq> {Systemd, AutoupdateRPMOStree, AutoupdateBootc}"
  "caps_of (fst (ProbeJournald j w)) \<subseteq> {Journald}"
  "caps_of (fst (ProbeUpdex run u w)) \<subseteq> (if u = [] then {} else {Updex})"
  "caps_of (fst (ProbeSysext run w)) \<subseteq> {Sysext}"
  "caps_of (fst (ProbeBootc v run w)) \<subseteq> {Bootc}"
  "caps_of (fst (ProbeRPMOStree v run w)) \<subseteq> {RPMOStree}"
  "caps_of (fst (probePodman np s w)) \<subseteq> (if s = [] then {} else {Podman})"
  "caps_of (fst (probeDocker nd e w)) \<subseteq> (if e = [] then {} else {Docker})"
  "caps_of (fst (probeIncus srv b w)) \<subseteq> (if b then {Incus} else {})"
  "caps_of (fst (ProbeK3s ver run k w)) \<subseteq> (if k = [] then {} else {K3s})"
  by (auto simp: probeSystemd_def probeAutoupdatePairs_def autoupdatePairs_def ProbeJournald_def ProbeUpdex_def ProbeSysext_def ProbeBootc_def
      ProbeRPMOStree_def probePodman_def probeDocker_def probeIncus_def ProbeK3s_def probeExecSuccess_def probeExecJSON_def Let_def caps_of_New
      split: prod.split sum.split option.split if_splits)

lemma absorbed: "X \<subseteq> (S \<union> C) \<union> U \<Longrightarrow> C \<subseteq> B \<Longrightarrow> X \<subseteq> S \<union> (B \<union> U)"
  by blast

lemma run_probes_union:
  "caps_of (unionSets (fst (run_probes ps config sets w))) \<subseteq> caps_of (unionSets sets) \<union> (\<Union>p \<in> set ps. \<Union>v. caps_of (fst (p config v)))"
proof (induction ps arbitrary: sets w)
  case (Cons p ps)
  obtain s w1 where p: "p config w = (s, w1)" by fastforce
  have "caps_of s \<subseteq> (\<Union>v. caps_of (fst (p config v)))" using p by (metis SUP_upper UNIV_I fst_conv)
  moreover have step: "caps_of (unionSets (sets @ [s])) = caps_of (unionSets sets) \<union> caps_of s" by (simp only: caps_of_union set_append UN_Un list.set UN_insert UN_empty Un_empty_right)
  moreover have "run_probes (p # ps) config sets w = run_probes ps config (sets @ [s]) w1" using p by simp
  ultimately show ?case using absorbed[OF Cons[of "sets @ [s]" w1, unfolded step]] by (simp only: list.set UN_insert)
qed simp

definition allowed_caps :: "probe_config \<Rightarrow> cap_id set" where
  "allowed_caps c = {Systemd, AutoupdateRPMOStree, AutoupdateBootc, Journald, Sysext, Bootc, RPMOStree} \<union>
     (if cfg_Updex c = [] then {} else {Updex}) \<union> (if cfg_PodmanSocket c = [] then {} else {Podman}) \<union>
     (if cfg_DockerEndpoint c = [] then {} else {Docker}) \<union> (if cfg_IncusEnabled c then {Incus} else {}) \<union> (if cfg_K3s c = [] then {} else {K3s})"

lemma Probe_allowed: "caps_of (fst (Probe (probes H) c w)) \<subseteq> allowed_caps c"
proof -
  have each: "\<forall>p \<in> set (probes H). \<forall>v. caps_of (fst (p c v)) \<subseteq> allowed_caps c"
    unfolding probes_def Let_def ProbeSystemd_def ProbePodman_def ProbeDocker_def ProbeIncus_def
    by (simp only: list.set ball_simps, intro conjI allI TrueI)
       (rule order_trans, rule probe_results, fastforce simp: allowed_caps_def split: if_splits)+
  have "(\<Union>p \<in> set (probes H). \<Union>v. caps_of (fst (p c v))) \<subseteq> allowed_caps c" using each by (intro UN_least) simp
  moreover have "caps_of (unionSets []) = {}" by (simp add: caps_of_union)
  ultimately have "caps_of (unionSets (fst (run_probes (probes H) c [] w))) \<subseteq> allowed_caps c"
    using order_trans[OF run_probes_union[of "probes H" c "[]" w]] by (simp only: Un_empty_left)
  then show ?thesis by (cases "run_probes (probes H) c [] w") (simp add: Probe_def)
qed

text \<open>The actions and queries that belong to a tool that must be configured, as rows of the daemon's tables.\<close>

definition optional_actions :: "probe_config \<Rightarrow> (bool \<times> string list) list" where
  "optional_actions c =
     [(cfg_PodmanSocket c = [], [ActionPodmanRemove, ActionPodmanRemoveImage, ActionPodmanRestart, ActionPodmanStart, ActionPodmanStop]),
      (cfg_DockerEndpoint c = [], [ActionDockerRemove, ActionDockerRemoveImage, ActionDockerRestart, ActionDockerStart, ActionDockerStop]),
      (\<not> cfg_IncusEnabled c, [ActionIncusRemove, ActionIncusRemoveImage, ActionIncusRestart, ActionIncusStart, ActionIncusStop,
        ActionIncusStopForce, ActionIncusCreate, ActionIncusSnapshotCreate, ActionIncusSnapshotDelete, ActionIncusSnapshotRestore]),
      (cfg_Updex c = [], [ActionSysextDisable, ActionSysextEnable]), (cfg_Updex c = [], [ActionSysextUpdate])]"

definition optional_queries :: "probe_config \<Rightarrow> (bool \<times> string list) list" where
  "optional_queries c =
     [(cfg_PodmanSocket c = [], [QueryPodmanLogs, QueryPodmanState]), (cfg_DockerEndpoint c = [], [QueryDockerLogs, QueryDockerState]),
      (\<not> cfg_IncusEnabled c, [QueryIncusState, QueryIncusInstance, QueryIncusLogs, QueryIncusNetwork, QueryIncusProfile]),
      (cfg_K3s c = [], [QueryK3sState])]"

lemma selected_Cons: "selected ((c, xs) # rows) = (if c then xs else []) @ selected rows"
  by (simp add: selected_def)

lemma unselected:
  assumes "distinct (map fst (concat (map snd rows)))" "(False, xs) \<in> set rows" "i \<in> fst ` set xs"
  shows "i \<notin> fst ` set (selected rows)"
  using assms
proof (induction rows)
  case (Cons r rows)
  obtain c ys where r: "r = (c, ys)" by (cases r)
  have sub: "fst ` set (selected rows) \<subseteq> fst ` set (concat (map snd rows))" by (force simp: selected_def split: if_splits)
  have d: "fst ` set ys \<inter> fst ` set (concat (map snd rows)) = {}" using Cons.prems(1) r by auto
  show ?case
  proof (cases "(False, xs) = r")
    case True
    then have "i \<notin> fst ` set (selected rows)" using d sub r Cons.prems(3) by blast
    then show ?thesis using True[symmetric] by (simp add: selected_Cons)
  next
    case False
    then have m: "(False, xs) \<in> set rows" using Cons.prems(2) by simp
    then have "i \<in> fst ` set (concat (map snd rows))" using Cons.prems(3) by force
    then have "i \<notin> fst ` set ys" using d by blast
    then show ?thesis using Cons.IH m Cons.prems(1,3) r by (cases c) (simp_all add: selected_Cons image_Un)
  qed
qed simp

definition refused_rows :: "(bool \<times> string list) list \<Rightarrow> (bool \<times> (string \<times> bool) list) list \<Rightarrow> bool" where
  "refused_rows opt rows \<longleftrightarrow> list_all (\<lambda>(off, ids). off \<longrightarrow> list_ex (\<lambda>(on, xs). \<not> on \<and> map fst xs = ids) rows) opt"

lemma refused_disjoint:
  assumes "refused_rows opt rows" "distinct (map fst (concat (map snd rows)))"
  shows "fst ` set (selected rows) \<inter> set (selected opt) = {}"
proof -
  have False if i: "i \<in> fst ` set (selected rows)" "i \<in> set (selected opt)" for i
  proof -
    obtain ids where ids: "(True, ids) \<in> set opt" "i \<in> set ids" using i(2) by (force simp: selected_def split: if_splits)
    obtain xs where xs: "(False, xs) \<in> set rows" "map fst xs = ids" using assms(1) ids(1) by (fastforce simp: refused_rows_def list_all_iff list_ex_iff)
    have "i \<in> fst ` set xs" using ids(2) xs(2) by auto
    then show False using unselected[OF assms(2) xs(1)] i(1) by blast
  qed
  then show ?thesis by blast
qed

lemma optional_refused:
  assumes "C \<subseteq> allowed_caps c"
  shows "refused_rows (optional_actions c) (action_table M C)" "refused_rows (optional_queries c) (query_table M C)"
proof -
  have n: "cfg_PodmanSocket c = [] \<Longrightarrow> Podman \<notin> C" "cfg_DockerEndpoint c = [] \<Longrightarrow> Docker \<notin> C" "\<not> cfg_IncusEnabled c \<Longrightarrow> Incus \<notin> C"
    "cfg_Updex c = [] \<Longrightarrow> Updex \<notin> C" "cfg_K3s c = [] \<Longrightarrow> K3s \<notin> C"
    using assms by (auto simp: allowed_caps_def cap_id_defs split: if_splits)
  show "refused_rows (optional_actions c) (action_table M C)" "refused_rows (optional_queries c) (query_table M C)"
    using n by (simp_all add: refused_rows_def optional_actions_def optional_queries_def action_table_def query_table_def)
qed

text \<open>C40. Nothing is turned on that was not asked for. Whatever the host answers, the probes report podman, docker, incus, updex
  and k3s only where the configuration names or enables them, a tool that is not configured is not contacted at all,
  and the daemon then registers none of the actions and queries that belong to it.\<close>

theorem unconfigured_tools_off:
  "caps_of (fst (Probe (probes H) c w)) \<subseteq> allowed_caps c \<and>
   ad_ID ` set (actions_of (daemon_registrations M (fst (Probe (probes H) c w)))) \<inter> set (selected (optional_actions c)) = {} \<and>
   fst ` set (queries_of (daemon_registrations M (fst (Probe (probes H) c w)))) \<inter> set (selected (optional_queries c)) = {} \<and>
   snd (ProbePodman H [] w) = w \<and> snd (ProbeDocker H [] w) = w \<and> snd (ProbeIncus H False w) = w \<and>
   snd (ProbeUpdex (probe_Run (ph_command H)) [] w) = w \<and> snd (ProbeK3s (ph_version H) (probe_Run (ph_command H)) [] w) = w"
proof -
  let ?caps = "fst (Probe (probes H) c w)"
  have a: "caps_of ?caps \<subseteq> allowed_caps c" by (rule Probe_allowed)
  have acts: "ad_ID ` set (actions_of (daemon_registrations M ?caps)) = fst ` set (selected (action_table M (caps_of ?caps)))"
    using arg_cong[OF registered_actions[of M ?caps], of "\<lambda>xs. fst ` set xs"] by (simp add: image_image)
  have qs: "set (queries_of (daemon_registrations M ?caps)) = set (selected (query_table M (caps_of ?caps)))"
    using arg_cong[OF registered_queries[of M ?caps], of set_mset] by simp
  have off: "fst ` set (selected (action_table M (caps_of ?caps))) \<inter> set (selected (optional_actions c)) = {}"
      "fst ` set (selected (query_table M (caps_of ?caps))) \<inter> set (selected (optional_queries c)) = {}"
    by (rule refused_disjoint[OF optional_refused(1)[OF a] action_ids_distinct], rule refused_disjoint[OF optional_refused(2)[OF a] query_ids_distinct])
  show ?thesis
    using a off unfolding acts qs
    by (simp add: ProbePodman_def ProbeDocker_def ProbeIncus_def probePodman_def probeDocker_def probeIncus_def ProbeUpdex_def ProbeK3s_def)
qed

end
