(* ===== verification/Spec2Isabelle.thy ===== *)
theory Spec2Isabelle
  imports Remote_Lifecycle Files_Browser Verify_Packages Web_Guards Daemon_Managers Daemon_Startup Storage_Devices Capability_Probes
begin

text \<open>
  \<^bold>\<open>Verification of pilothouse\<close>

  pilothouse is a web console for a Linux host. An unprivileged web server (\<open>cmd/pilothouse\<close>, \<open>internal/web\<close>) renders
  pages; a privileged daemon (\<open>cmd/pilothoused\<close>) owns every operation on the host and serves it over a Unix socket
  through the broker (\<open>internal/broker\<close>). Between them stands one protocol: login, session, named actions, named queries,
  and streams of bytes. An action is admitted by its registry (session, administrator, confirmation, parameters), takes
  the lock of its resource, is recorded in the audit store before it runs and completed there after it, and may go on
  as a background job. Behind the registries stand the managers of the modules (\<open>internal/modules\<close>): remote mounts,
  storage inventory, files, services, backups, logs, podman, docker, incus, extensions, maintenance. A second program
  (\<open>cmd/verify-packages\<close>, \<open>packaging\<close>) checks the built packages against a contract.

  \<^bold>\<open>Conventions\<close>

  Definitions carry the names of the code; a prefix tells methods of different types apart (\<open>jobs_Open\<close>, \<open>audit_Open\<close>,
  \<open>incus_Start\<close>). A struct is a record, an enumeration a datatype, a Go map an association list \<open>gomap\<close> with distinct
  keys, a string the list of its bytes, decoded as UTF-8 where the code ranges over runes (theory \<open>Text\<close>); integers are
  words or integers with the wrap-around written out where the code can reach it. An error is a value of the datatype
  \<open>error\<close>, a function that may fail returns \<open>'a result\<close>, and every early return is a branch. A function with effects
  takes and returns the world, a value of an arbitrary type \<open>'w\<close>; \<open>('w, 'a) call\<close> is such a function. Code outside the
  repository is a parameter: the bbolt bucket and the JSON codec (records \<open>bolt\<close> and \<open>json\<close> with \<open>bolt_laws\<close> and the
  laws of the codec), the kernel of the file browser and of the artifact store (\<open>files_kernel\<close>, \<open>os\<close>, \<open>pathFS\<close>, with their
  laws), systemd over D-Bus, the docker and incus client packages, commands, the clock and the random source. Where a
  theorem assumes laws of a parameter, its witness gives a concrete instance that keeps them.

  \<^bold>\<open>The broker\<close>

  \<^item> \<open>Prelude\<close>, \<open>Text\<close>, \<open>Comparison_Sort\<close>, \<open>Bolt\<close>: errors, maps, text, paths, sorting by a comparison (locale
    \<open>int_comparison\<close>), buckets and codecs, and the lemmas that the components share.
  \<^item> \<open>Resource_Locks\<close> (\<open>serialize.go\<close>): the table of locks, with its critical sections as atomic steps of an inductive
    relation over any number of goroutines; mutual exclusion, progress of waiters, and that the table has an entry
    exactly while somebody refers to it.
  \<^item> \<open>Sessions\<close>, \<open>Auth\<close>, \<open>Login_Limiter\<close> (\<open>sessions.go\<close>, \<open>auth/identity.go\<close>, the limiter of \<open>server.go\<close>): idle and absolute
    expiry, resolution of an account on every request, the bounded table of failed logins.
  \<^item> \<open>Jobs\<close>, \<open>Audit_Records\<close> (\<open>jobs/jobs.go\<close>, \<open>audit/audit.go\<close>): the durable stores with recovery, retention and listing;
    the states of a job only move forward, and the retention of audit records drops exactly the oldest finished ones
    beyond the limit and keeps every started one.
  \<^item> \<open>Registry\<close>, \<open>Execution\<close>, \<open>Streams\<close> (\<open>actions.go\<close>, \<open>streams.go\<close>, \<open>problems.go\<close>): the four registries, \<open>Execute\<close> in the
    foreground and in the background over the lock table, with the other goroutines as an argument, and the streams
    with their limiting reader. A handler runs only for an admitted request, under its lock, between the two audit
    entries; every lock taken is given back, also when the context ends while the call waits; a background task reports the
    verdict of its handler. Actions and stream actions have a lock table each.
  \<^item> \<open>Server\<close>, \<open>Broker_Client\<close> (\<open>server.go\<close>, \<open>client.go\<close>): the HTTP handlers and the client that the web server uses.

  \<^bold>\<open>The daemon\<close>

  \<^item> \<open>Platform\<close> (\<open>internal/capability\<close>, \<open>internal/platform\<close>): the capabilities of a host and the registry of modules.
  \<^item> \<open>Capability_Probes\<close> (\<open>internal/capability\<close>, the probes): what is not configured is neither contacted nor registered.
  \<^item> \<open>Daemon_Actions\<close>, \<open>Daemon_Policy\<close>, \<open>Daemon_Startup\<close> (\<open>cmd/pilothoused/main.go\<close>): every registration with its guards, the
    policy as a table of who may do what under which capability and that the registries hold exactly it, the two
    goroutines of the connection to systemd as a step relation in which no client is lost, the socket, the flags.
  \<^item> \<open>Unit_Managers\<close>, \<open>Journal_Logs\<close> (\<open>modules/services\<close>, \<open>modules/backups\<close>, \<open>modules/logs\<close>), \<open>Engine_Logs\<close>, \<open>Engines\<close>
    (\<open>modules/podman\<close>, \<open>modules/docker\<close>; the shared lookup is the locale \<open>container_lookup\<close>, interpreted for both),
    \<open>Incus_Data\<close>, \<open>Incus_Manager\<close> (\<open>modules/incus\<close>): an operation reaches systemd or an engine only for a valid name that
    was just listed, in the state that the operation asks for; logs are bounded; of a configuration only the allowed
    keys are shown.
  \<^item> \<open>Extensions\<close> (\<open>modules/sysext/extctl\<close>), \<open>Host_Image\<close>, \<open>Auto_Update\<close>, \<open>Maintenance\<close> (\<open>modules/maintenance\<close>): reports that are
    put together from several tools, each of which may be absent or fail; which source decides what, and exactly when and
    why a reboot is reported as required, with a cache of one minute.
  \<^item> \<open>Daemon_Managers\<close>: these managers behind the interfaces that the daemon registers, and that through the whole
    composition the console cannot be made to stop itself.

  \<^bold>\<open>Storage and files\<close>

  \<^item> \<open>Remote_Definitions\<close>, \<open>Remote_Units\<close>, \<open>Target_Paths\<close>, \<open>Artifact_Store\<close>, \<open>Remote_Manager\<close>, \<open>Remote_Lifecycle\<close>
    (\<open>modules/storage\<close>: \<open>remote.go\<close>, \<open>units.go\<close>, \<open>paths.go\<close>, \<open>manifest.go\<close>, \<open>remote_manager.go\<close>): validation, rendering of
    units, the descriptor walk to a target, files that are published without replacing anything, and the life of a
    mount; creation is all or nothing and deletion touches only files that are verified as the manager's own.
  \<^item> \<open>Storage_Snapshot\<close>, \<open>Storage_Normalize\<close>, \<open>Storage_Tools\<close> (\<open>model.go\<close>, \<open>normalize.go\<close>, \<open>manager.go\<close>, \<open>cache.go\<close>, \<open>tools.go\<close>):
    from the answers of the adapters to a bounded, acyclic and sorted snapshot whose relations are closed, and the trusted lookup of
    tools.
  \<^item> \<open>Storage_Block\<close>, \<open>Storage_Volumes\<close>, \<open>Storage_Devices\<close> (\<open>core.go\<close>; \<open>lvm.go\<close>, \<open>zfs.go\<close>, \<open>btrfs.go\<close>; \<open>mdraid.go\<close>, \<open>smart.go\<close>,
    \<open>devicemapper.go\<close>): the adapters that feed it, each with the parser of what its tool prints; the inventory of block devices is
    shown to be exactly the forest that lsblk reports. \<open>sort.Slice\<close> is modelled as a stable sort.
  \<^item> \<open>Files_Config\<close>, \<open>Files_Manager\<close>, \<open>Files_Transfers\<close>, \<open>Files_Browser\<close> (\<open>modules/files\<close>): listing, download and upload below
    configured roots.

  \<^bold>\<open>The web server\<close>: \<open>Web_Http\<close>, \<open>Web_Server\<close>, \<open>Web_Guards\<close> (\<open>internal/web\<close>): sessions, tokens, origins and cookies, with the
  broker client of \<open>Broker_Client\<close>.

  \<^bold>\<open>Packages\<close>: \<open>Packaging_Contract\<close>, \<open>Packaging_Extract\<close>, \<open>Verify_Packages\<close> (\<open>packaging\<close>, \<open>packaging/extract\<close>,
  \<open>cmd/verify-packages\<close>): the contract with a reference reading of it, the extraction of deb and rpm packages, the command.

  \<^bold>\<open>Bounds, fuel and termination\<close>

  Constants are those of the code. All recursion is structural or has a measure, with two exceptions in \<open>Files_Manager\<close>:
  the copy of an upload and the scan of a directory go on as long as the other side delivers. They take fuel and answer
  \<open>None\<close> without it; the operations give one round more than the limit on bytes, or on scanned entries, allows, and
  \<open>Files_Browser\<close> shows that they always return. The halving of a snapshot that is too large and the walk through its
  graph end by a measure (\<open>Storage_Normalize\<close>, \<open>Storage_Snapshot\<close>); so do the reading of a log in pieces (\<open>Engine_Logs\<close>)
  and the walk back through the journal (\<open>Journal_Logs\<close>), which the limit on scanned entries bounds.

  \<^bold>\<open>Not modelled\<close>

  \<^item> Templates, HTML modules, assets and log records: they format what the managers return.
  \<^item> PAM, \<open>crypto/x509\<close> (\<open>internal/auth/pam\<close>, \<open>internal/tlscert\<close>), \<open>LocalClient\<close> of incus, \<open>linuxPathFS\<close>: bindings that only
    forward to a library or a system call.
  \<^item> The routing, timeouts and connections of \<open>net/http\<close>, and goroutines other than those of the locks, of the background
    jobs and of the connection to systemd; a collection of storage data has the order of the answers as an argument.
  \<^item> The readers of \<open>/proc\<close> and of k3s, and the problem recorder, which appear as arguments.
\<close>

end
